(* ===== verification/Prelude.thy ===== *)
theory Prelude
  imports Main "HOL-Library.AList"
begin

text \<open>
  Vocabulary shared by every component of the model.

  \<^item> Results of fallible code are values of a sum type, \<open>Inl\<close> carrying the exception.
  \<^item> A run of checks \<open>if c: raise e\<close> is a list of pairs of a condition and an exception
    (\<open>run_guards\<close>): the first condition that holds decides which exception is raised.
  \<^item> A Python dict is an association list in insertion order; assignment to a key is
    \<open>AList.update\<close>, which keeps the position of a key that is already there.
  \<^item> An aware \<open>datetime\<close> is the number of microseconds since 1970-01-01T00:00:00Z
    (\<open>instant\<close>), a \<open>timedelta\<close> is a number of microseconds (\<open>duration\<close>). Every model
    under \<open>src/\<close> normalises its timestamps to UTC when it is built, so the offset is not kept;
    a \<open>datetime\<close> that the code still has to check is a \<open>py_datetime\<close>.
  \<^item> The locales \<open>transition_table\<close> and \<open>ranked_lifecycle\<close> hold what the state machines of
    the program have in common; each machine interprets them on its own transition table.
\<close>

named_theorems result_simps "unfolding of fallible sequencing"
named_theorems guard_simps "unfolding of runs of guards"
named_theorems lifecycle_simps "facts about event histories of state machines"

section \<open>Fallible results\<close>

type_synonym ('e, 'a) result = "'e + 'a"

primrec bind_result :: "'e + 'a \<Rightarrow> ('a \<Rightarrow> 'e + 'b) \<Rightarrow> 'e + 'b" where
  "bind_result (Inl e) f = Inl e"
| "bind_result (Inr x) f = f x"

declare bind_result.simps [result_simps]

lemma bind_result_Inr_iff [result_simps]:
  "bind_result m f = Inr y \<longleftrightarrow> (\<exists>x. m = Inr x \<and> f x = Inr y)"
  by (cases m) auto

lemma bind_result_Inl_iff [result_simps]:
  "bind_result m f = Inl e \<longleftrightarrow> m = Inl e \<or> (\<exists>x. m = Inr x \<and> f x = Inl e)"
  by (cases m) auto

lemma bind_result_assoc:
  "bind_result (bind_result m f) g = bind_result m (\<lambda>x. bind_result (f x) g)"
  by (cases m) auto

fun run_guards :: "(bool \<times> 'e) list \<Rightarrow> 'e + unit" where
  "run_guards [] = Inr ()"
| "run_guards ((c, e) # gs) = (if c then Inl e else run_guards gs)"

declare run_guards.simps [guard_simps]

lemma run_guards_ok [guard_simps]:
  "run_guards gs = Inr u \<longleftrightarrow> (\<forall>(c, e) \<in> set gs. \<not> c)"
  by (induction gs rule: run_guards.induct) auto

lemma run_guards_fail:
  "run_guards gs = Inl e \<longleftrightarrow> (\<exists>xs ys. gs = xs @ (True, e) # ys \<and> (\<forall>(c, e') \<in> set xs. \<not> c))"
proof (induction gs rule: run_guards.induct)
  case 1
  then show ?case by simp
next
  case (2 c e' gs)
  show ?case
  proof (cases c)
    case True
    then show ?thesis by (auto simp: Cons_eq_append_conv)
  next
    case False
    then show ?thesis using 2 by (auto simp: Cons_eq_append_conv) fastforce+
  qed
qed

lemma run_guards_append:
  "run_guards (xs @ ys) = bind_result (run_guards xs) (\<lambda>_. run_guards ys)"
proof (induction xs)
  case (Cons p xs)
  then show ?case by (cases p) simp
qed simp

text \<open>
  \<open>if c: reasons.append(r)\<close> repeated: the reasons whose condition holds, in the order of the checks.
\<close>

definition collect :: "(bool \<times> 'a) list \<Rightarrow> 'a list" where
  "collect xs = map snd (filter fst xs)"

lemma collect_simps [simp]:
  "collect [] = []"
  "collect ((c, r) # xs) = (if c then r # collect xs else collect xs)"
  by (simp_all add: collect_def)

lemma collect_append [simp]: "collect (xs @ ys) = collect xs @ collect ys"
  by (simp add: collect_def)

lemma collect_empty_iff: "collect xs = [] \<longleftrightarrow> (\<forall>(c, r) \<in> set xs. \<not> c)"
  by (auto simp: collect_def filter_empty_conv)

lemma set_collect: "set (collect xs) = {r. (True, r) \<in> set xs}"
  by (force simp: collect_def)

lemma pred_option_code [code]: "pred_option P None \<longleftrightarrow> True" "pred_option P (Some x) \<longleftrightarrow> P x"
  by simp_all

section \<open>Python dicts\<close>

type_synonym ('k, 'v) dict = "('k \<times> 'v) list"

lemma map_of_dict_update [simp]: "map_of (AList.update k v d) = (map_of d)(k \<mapsto> v)"
  by (rule AList.update_conv')

lemma dict_update_same: "map_of d k = Some v \<Longrightarrow> AList.update k v d = d"
  by (induction d) (auto split: if_splits)

lemma map_of_dict_delete [simp]: "map_of (AList.delete k d) = (map_of d)(k := None)"
  by (rule AList.delete_conv')

lemma distinct_dict_update [simp, intro]:
  "distinct (map fst d) \<Longrightarrow> distinct (map fst (AList.update k v d))"
  by (rule AList.distinct_update)

lemma set_dict_update:
  "distinct (map fst d) \<Longrightarrow> set (AList.update k v d) = insert (k, v) {p \<in> set d. fst p \<noteq> k}"
  by (induction d) (auto simp: image_iff)

lemma dict_update_fresh: "map_of d k = None \<Longrightarrow> AList.update k v d = d @ [(k, v)]"
  by (induction d) (auto split: if_splits)

lemma dict_update_keys:
  "map fst (AList.update k v d) = (if k \<in> fst ` set d then map fst d else map fst d @ [k])"
  by (induction d) auto

lemma map_of_eq_None_iff': "map_of d k = None \<longleftrightarrow> k \<notin> fst ` set d"
  by (rule map_of_eq_None_iff)

section \<open>Time\<close>

type_synonym instant = int
type_synonym duration = int

datatype py_datetime = Naive int | Aware instant

text \<open>\<open>value.astimezone(UTC)\<close> of an aware value; a naive one is rejected by the caller.\<close>

definition is_naive :: "py_datetime \<Rightarrow> bool" where
  "is_naive t \<longleftrightarrow> (case t of Naive _ \<Rightarrow> True | Aware _ \<Rightarrow> False)"

primrec as_utc :: "py_datetime \<Rightarrow> instant" where
  "as_utc (Naive t) = t"
| "as_utc (Aware t) = t"

definition seconds :: "int \<Rightarrow> duration" where
  "seconds n = n * 1000000"

lemma seconds_mono [simp]: "seconds m \<le> seconds n \<longleftrightarrow> m \<le> n"
  by (simp add: seconds_def)

lemma seconds_pos [simp]: "0 < seconds n \<longleftrightarrow> 0 < n"
  by (simp add: seconds_def)

text \<open>
  The calendar date of an instant (proleptic Gregorian, as Python's \<open>datetime\<close>): the day number
  is turned into a year, month and day inside the 400-year cycle that starts on 1 March 0000.
\<close>

definition day_number :: "instant \<Rightarrow> int" where
  "day_number t = t div 86400000000"

definition civil_of_day :: "int \<Rightarrow> int \<times> int \<times> int" where
  "civil_of_day n =
     (let z = n + 719468;
          era = z div 146097;
          doe = z mod 146097;
          yoe = (doe - doe div 1460 + doe div 36524 - doe div 146096) div 365;
          doy = doe - (365 * yoe + yoe div 4 - yoe div 100);
          mp = (5 * doy + 2) div 153;
          d = doy - (153 * mp + 2) div 5 + 1;
          m = (if mp < 10 then mp + 3 else mp - 9);
          y = yoe + era * 400 + (if m \<le> 2 then 1 else 0)
      in (y, m, d))"

definition year_month :: "instant \<Rightarrow> int \<times> int" where
  "year_month t = (case civil_of_day (day_number t) of (y, m, d) \<Rightarrow> (y, m))"

lemma civil_epoch: "civil_of_day 0 = (1970, 1, 1)"
  by code_simp

lemma civil_leap_day: "civil_of_day 19782 = (2024, 2, 29)"
  by code_simp

lemma same_day_same_month: "day_number s = day_number t \<Longrightarrow> year_month s = year_month t"
  by (simp add: year_month_def)

section \<open>Lists\<close>

lemma successively_snoc [lifecycle_simps]:
  "successively P (xs @ [x]) \<longleftrightarrow> successively P xs \<and> (xs = [] \<or> P (last xs) x)"
  by (auto simp: successively_append_iff)

lemma list_all_snoc [lifecycle_simps]: "list_all P (xs @ [x]) \<longleftrightarrow> list_all P xs \<and> P x"
  by auto

text \<open>Python's \<open>tuple(range(1, n + 1))\<close>.\<close>

definition py_range1 :: "nat \<Rightarrow> int list" where
  "py_range1 n = map int [1..<Suc n]"

lemma py_range1_0 [simp]: "py_range1 0 = []"
  by (simp add: py_range1_def)

lemma py_range1_Suc [simp]: "py_range1 (Suc n) = py_range1 n @ [int n + 1]"
  by (simp add: py_range1_def)

lemma length_py_range1 [simp]: "length (py_range1 n) = n"
  by (simp add: py_range1_def)

section \<open>State machines\<close>

text \<open>
  A table of allowed transitions. A history is the list of states a record went through;
  it conforms when each adjacent pair is allowed.
\<close>

locale transition_table =
  fixes allowed :: "'s \<Rightarrow> 's \<Rightarrow> bool"
begin

lemma conforms_snoc:
  "successively allowed (h @ [s]) \<longleftrightarrow> successively allowed h \<and> (h = [] \<or> allowed (last h) s)"
  by (rule successively_snoc)

lemma stuck_at_terminal:
  assumes "\<And>t. \<not> allowed s t" and "successively allowed h" and "s \<in> set h"
  shows "last h = s"
proof -
  from assms(3) obtain xs ys where h: "h = xs @ s # ys"
    by (auto simp: in_set_conv_decomp)
  with assms(1,2) show ?thesis
    by (cases ys) (auto simp: successively_append_iff)
qed

end

text \<open>A machine whose transitions climb a rank cannot visit a state twice.\<close>

locale ranked_lifecycle = transition_table allowed
  for allowed :: "'s \<Rightarrow> 's \<Rightarrow> bool" +
  fixes rank :: "'s \<Rightarrow> nat"
  assumes rank_less: "allowed s t \<Longrightarrow> rank s < rank t"
begin

lemma history_ranks:
  assumes "successively allowed h"
  shows "sorted_wrt (<) (map rank h)"
proof -
  from assms have "successively (<) (map rank h)"
    unfolding successively_map by (rule successively_mono) (rule rank_less)
  then show ?thesis
    by (simp add: successively_conv_sorted_wrt)
qed

lemma history_distinct:
  assumes "successively allowed h"
  shows "distinct h"
proof -
  from history_ranks [OF assms] have "distinct (map rank h)"
    by (simp add: strict_sorted_iff)
  then show ?thesis by (simp add: distinct_map)
qed

lemma visited_once:
  assumes "successively allowed h"
  shows "count_list h s \<le> 1"
proof -
  have single: "distinct xs \<Longrightarrow> count_list xs s \<le> 1" for xs :: "'s list"
    by (induction xs) (auto simp: count_list_0_iff)
  show ?thesis by (rule single [OF history_distinct [OF assms]])
qed

lemma history_bounded:
  assumes "successively allowed h" and "\<And>s. rank s \<le> n"
  shows "length h \<le> Suc n"
proof -
  have "card (rank ` set h) = length h"
    using history_ranks [OF assms(1)] distinct_card [of "map rank h"]
    by (simp add: strict_sorted_iff)
  moreover have "rank ` set h \<subseteq> {..n}"
    using assms(2) by auto
  then have "card (rank ` set h) \<le> card {..n}"
    by (intro card_mono) auto
  ultimately show ?thesis by simp
qed

end

end
