(* ===== verification/PyDecimal.thy ===== *)
theory PyDecimal
  imports Complex_Main Prelude
begin

text \<open>
  Python's \<open>decimal.Decimal\<close> as the program uses it. A finite Decimal is modelled by its value,
  a rational: \<open>Decimal("1.0") == Decimal("1.00")\<close> in Python, and the program reads nothing else
  of a Decimal (its only textual form, \<open>canonical_decimal\<close>, drops insignificant zeros). NaN and
  the infinities are refused by every schema field (\<open>allow_inf_nan=False\<close>) and do not occur.

  Arithmetic happens in a context with a precision \<open>p\<close>: the exact result is rounded to \<open>p\<close>
  significant digits, ties to even (\<open>fix_prec p\<close>; the default context has \<open>p = 28\<close>, the
  evaluation code opens a context with \<open>p = 50\<close>). Comparison, \<open>max\<close> and \<open>min\<close> are exact, and so is
  \<open>to_integral_value\<close>. Division by zero and a remainder whose integer quotient has more than \<open>p\<close>
  digits raise. The exponent range of the context (\<open>Emin\<close>, \<open>Emax\<close> near a million) is unbounded here.
\<close>

named_theorems rounding_simps "laws of rounding to a context precision"

type_synonym decimal = rat

section \<open>Digits and magnitude\<close>

fun ndigits :: "nat \<Rightarrow> nat" where
  "ndigits n = (if n < 10 then 1 else Suc (ndigits (n div 10)))"

declare ndigits.simps [simp del]

lemma ndigits_pos: "0 < ndigits n"
  by (subst ndigits.simps) simp

lemma ndigits_upper: "n < 10 ^ ndigits n"
proof (induction n rule: ndigits.induct)
  case (1 n)
  show ?case
  proof (cases "n < 10")
    case True
    then show ?thesis by (subst ndigits.simps) simp
  next
    case False
    with 1 have "n div 10 < 10 ^ ndigits (n div 10)" by simp
    then have "n < 10 * 10 ^ ndigits (n div 10)" by linarith
    with False show ?thesis by (subst ndigits.simps) simp
  qed
qed

lemma ndigits_lower: "0 < n \<Longrightarrow> 10 ^ (ndigits n - 1) \<le> n"
proof (induction n rule: ndigits.induct)
  case (1 n)
  show ?case
  proof (cases "n < 10")
    case True
    with 1 show ?thesis by (subst ndigits.simps) simp
  next
    case False
    with 1 have "10 ^ (ndigits (n div 10) - 1) \<le> n div 10" by simp
    moreover have "10 ^ ndigits (n div 10) = 10 * (10::nat) ^ (ndigits (n div 10) - 1)"
      using ndigits_pos [of "n div 10"] by (metis Suc_pred' power_Suc)
    ultimately have "10 ^ ndigits (n div 10) \<le> n" by linarith
    with False show ?thesis by (subst ndigits.simps) simp
  qed
qed

text \<open>The exponent of the most significant digit: \<open>Decimal.adjusted()\<close>.\<close>

definition adjusted :: "decimal \<Rightarrow> int" where
  "adjusted x =
     (if 1 \<le> \<bar>x\<bar> then int (ndigits (nat \<lfloor>\<bar>x\<bar>\<rfloor>)) - 1
      else - int (ndigits (nat (\<lceil>1 / \<bar>x\<bar>\<rceil> - 1))))"

lemma adjusted_minus [simp]: "adjusted (- x) = adjusted x"
  by (simp add: adjusted_def)

lemma powi_10_pos [simp]: "0 < (10::decimal) powi k"
  by (simp add: zero_less_power_int)

lemma powi_10_nz [simp]: "(10::decimal) powi k \<noteq> 0"
  by simp

lemma powi_10_less [simp]: "(10::decimal) powi j < 10 powi k \<longleftrightarrow> j < k"
  using power_int_strict_increasing [of j k "10::rat"] power_int_increasing [of k j "10::rat"]
  by (cases "j < k") auto

lemma powi_10_mono: "j \<le> k \<Longrightarrow> (10::decimal) powi j \<le> 10 powi k"
  by (rule power_int_increasing) simp_all

lemma adjusted_ge1:
  assumes "1 \<le> \<bar>x\<bar>"
  shows "10 powi adjusted x \<le> \<bar>x\<bar>" and "\<bar>x\<bar> < 10 powi (adjusted x + 1)"
proof -
  let ?n = "nat \<lfloor>\<bar>x\<bar>\<rfloor>" and ?d = "ndigits (nat \<lfloor>\<bar>x\<bar>\<rfloor>)"
  from assms have n: "0 < ?n" by simp
  have adj: "adjusted x = int ?d - 1" using assms by (simp add: adjusted_def)
  have fl: "of_nat ?n = (of_int \<lfloor>\<bar>x\<bar>\<rfloor> :: rat)"
    by simp
  have "(10::rat) powi adjusted x = of_nat (10 ^ (?d - 1))"
    unfolding adj using ndigits_pos [of ?n] by (simp add: power_int_def nat_diff_distrib)
  also have "\<dots> \<le> of_nat ?n"
    using ndigits_lower [OF n] by (simp only: of_nat_le_iff)
  finally show "10 powi adjusted x \<le> \<bar>x\<bar>" unfolding fl by linarith
  have "Suc ?n \<le> 10 ^ ?d" by (rule Suc_leI [OF ndigits_upper])
  then have "of_nat (Suc ?n) \<le> (of_nat (10 ^ ?d) :: rat)" by (simp only: of_nat_le_iff)
  then have "of_int \<lfloor>\<bar>x\<bar>\<rfloor> + 1 \<le> (10::rat) ^ ?d" using fl by simp
  then have "\<bar>x\<bar> < 10 ^ ?d" by linarith
  then show "\<bar>x\<bar> < 10 powi (adjusted x + 1)" by (simp add: adj)
qed

lemma adjusted_lt1:
  assumes "x \<noteq> 0" and "\<bar>x\<bar> < 1"
  shows "10 powi adjusted x \<le> \<bar>x\<bar>" and "\<bar>x\<bar> < 10 powi (adjusted x + 1)"
proof -
  let ?y = "1 / \<bar>x\<bar>"
  let ?n = "nat (\<lceil>?y\<rceil> - 1)"
  let ?d = "ndigits ?n"
  have y: "1 < ?y" using assms by simp
  then have n: "0 < ?n" by linarith
  have "0 \<le> \<lceil>?y\<rceil> - 1" using y by linarith
  then have fl: "of_nat ?n = (of_int (\<lceil>?y\<rceil> - 1) :: rat)"
    by (rule of_nat_nat)
  have adj: "adjusted x = - int ?d" using assms by (simp add: adjusted_def)
  have "Suc ?n \<le> 10 ^ ?d" by (rule Suc_leI [OF ndigits_upper])
  then have "of_nat (Suc ?n) \<le> (of_nat (10 ^ ?d) :: rat)" by (simp only: of_nat_le_iff)
  then have "of_int \<lceil>?y\<rceil> \<le> (10::rat) ^ ?d" using fl by simp
  then have up: "?y \<le> 10 ^ ?d" by linarith
  then show "10 powi adjusted x \<le> \<bar>x\<bar>"
    using assms by (simp add: adj power_int_minus field_simps)
  have "(10::rat) ^ (?d - 1) \<le> of_nat ?n"
    using ndigits_lower [OF n] by (metis of_nat_le_iff of_nat_numeral of_nat_power)
  also have "\<dots> < ?y" unfolding fl by linarith
  finally have low: "10 ^ (?d - 1) < ?y" .
  have "adjusted x + 1 = - int (?d - 1)"
    using ndigits_pos [of ?n] by (simp add: adj)
  then show "\<bar>x\<bar> < 10 powi (adjusted x + 1)"
    using low assms by (simp add: power_int_minus field_simps)
qed

lemma adjusted_bounds:
  assumes "x \<noteq> 0"
  shows "10 powi adjusted x \<le> \<bar>x\<bar>" and "\<bar>x\<bar> < 10 powi (adjusted x + 1)"
  using adjusted_ge1 [of x] adjusted_lt1 [of x] assms by (cases "1 \<le> \<bar>x\<bar>"; simp)+

lemma adjusted_unique:
  assumes "10 powi k \<le> \<bar>x\<bar>" and "\<bar>x\<bar> < 10 powi (k + 1)"
  shows "adjusted x = k"
proof -
  have x: "x \<noteq> 0" using assms(1) by (metis abs_zero not_le powi_10_pos)
  have "(10::rat) powi k < 10 powi (adjusted x + 1)" and "(10::rat) powi adjusted x < 10 powi (k + 1)"
    using assms adjusted_bounds [OF x] by linarith+
  then show ?thesis by simp
qed

lemma adjusted_mono:
  assumes "0 < x" and "x \<le> y"
  shows "adjusted x \<le> adjusted y"
proof -
  have "(10::rat) powi adjusted x < 10 powi (adjusted y + 1)"
    using adjusted_bounds(1) [of x] adjusted_bounds(2) [of y] assms by linarith
  then show ?thesis by simp
qed

section \<open>Rounding\<close>

definition round_half_even :: "decimal \<Rightarrow> int" where
  "round_half_even q =
     (let f = \<lfloor>q\<rfloor>; d = q - of_int f
      in if d < 1 / 2 then f else if 1 / 2 < d then f + 1 else if even f then f else f + 1)"

lemma round_half_even_bounds:
  "q - 1 / 2 \<le> of_int (round_half_even q)" "of_int (round_half_even q) \<le> q + 1 / 2"
  unfolding round_half_even_def Let_def by (auto; linarith)+

lemma round_half_even_int [simp]: "round_half_even (of_int n) = n"
  by (simp add: round_half_even_def)

lemma round_half_even_mono:
  assumes "a \<le> b"
  shows "round_half_even a \<le> round_half_even b"
proof (cases "\<lfloor>a\<rfloor> = \<lfloor>b\<rfloor>")
  case True
  with assms show ?thesis by (auto simp: round_half_even_def Let_def)
next
  case False
  with assms have "\<lfloor>a\<rfloor> + 1 \<le> \<lfloor>b\<rfloor>" using floor_mono [OF assms] by linarith
  moreover have "round_half_even a \<le> \<lfloor>a\<rfloor> + 1" and "\<lfloor>b\<rfloor> \<le> round_half_even b"
    by (simp_all add: round_half_even_def Let_def)
  ultimately show ?thesis by linarith
qed

lemma round_half_even_minus: "round_half_even (- q) = - round_half_even q"
proof (cases "q = of_int \<lfloor>q\<rfloor>")
  case True
  then show ?thesis by (metis of_int_minus round_half_even_int)
next
  case False
  then have "\<lfloor>- q\<rfloor> = - \<lfloor>q\<rfloor> - 1"
    unfolding floor_eq_iff using floor_correct [of q] by (auto; linarith)
  then show ?thesis using False by (auto simp: round_half_even_def Let_def)
qed

text \<open>One unit in the last of \<open>p\<close> places of \<open>x\<close>, and the value of \<open>x\<close> rounded to \<open>p\<close> digits.\<close>

definition quantum :: "nat \<Rightarrow> decimal \<Rightarrow> decimal" where
  "quantum p x = 10 powi (adjusted x - (int p - 1))"

definition fix_prec :: "nat \<Rightarrow> decimal \<Rightarrow> decimal" where
  "fix_prec p x = (if x = 0 then 0 else of_int (round_half_even (x / quantum p x)) * quantum p x)"

definition representable :: "nat \<Rightarrow> decimal \<Rightarrow> bool" where
  "representable p x \<longleftrightarrow> (\<exists>m e. x = of_int m * 10 powi e \<and> \<bar>m\<bar> \<le> 10 ^ p)"

lemma quantum_pos [simp]: "0 < quantum p x"
  by (simp add: quantum_def)

lemma quantum_nonneg [simp]: "0 \<le> quantum p x"
  using quantum_pos [of p x] by (rule less_imp_le)

lemma quantum_nz [simp]: "quantum p x \<noteq> 0"
  using quantum_pos [of p x] by (metis less_irrefl)

lemma fix_prec_0 [rounding_simps]: "fix_prec p 0 = 0"
  by (simp add: fix_prec_def)

lemma fix_prec_minus [rounding_simps]: "fix_prec p (- x) = - fix_prec p x"
  by (simp add: fix_prec_def quantum_def round_half_even_minus)

lemma fix_prec_error: "\<bar>fix_prec p x - x\<bar> \<le> quantum p x / 2"
proof (cases "x = 0")
  case True
  then show ?thesis using quantum_pos [of p x] by (simp add: fix_prec_0)
next
  case False
  let ?q = "quantum p x" and ?r = "of_int (round_half_even (x / quantum p x)) :: rat"
  have "\<bar>?r - x / ?q\<bar> \<le> 1 / 2" using round_half_even_bounds [of "x / ?q"] by linarith
  then have "\<bar>(?r - x / ?q) * ?q\<bar> \<le> 1 / 2 * ?q"
    unfolding abs_mult using quantum_pos [of p x] by (simp add: mult_right_mono)
  moreover have "(?r - x / ?q) * ?q = fix_prec p x - x"
    using False quantum_pos [of p x] by (simp add: fix_prec_def field_simps)
  ultimately show ?thesis by simp
qed

lemma quantum_powi: "10 powi adjusted x = 10 ^ (p - 1) * quantum p x" if "0 < p"
proof -
  have "quantum p x * 10 powi int (p - 1) = 10 powi adjusted x"
    unfolding quantum_def using that by (simp add: power_int_add [symmetric] of_nat_diff)
  then show ?thesis by (simp add: mult.commute)
qed

lemma fix_prec_decade:
  assumes "0 < p" and "0 < x"
  shows "10 powi adjusted x \<le> fix_prec p x" and "fix_prec p x \<le> 10 powi (adjusted x + 1)"
proof -
  let ?q = "quantum p x"
  have lo: "10 ^ (p - 1) \<le> x / ?q" and hi: "x / ?q \<le> 10 ^ p"
    using adjusted_bounds [of x] assms quantum_powi [OF assms(1), of x] quantum_pos [of p x]
    by (simp_all add: field_simps power_int_add power_eq_if [of 10 p])
  have "of_int (10 ^ (p - 1)) \<le> x / ?q" and "x / ?q \<le> of_int (10 ^ p)"
    using lo hi by simp_all
  then have "10 ^ (p - 1) \<le> round_half_even (x / ?q)" and "round_half_even (x / ?q) \<le> 10 ^ p"
    using round_half_even_mono by (metis round_half_even_int)+
  then have "of_int (10 ^ (p - 1)) * ?q \<le> of_int (round_half_even (x / ?q)) * ?q"
    and "of_int (round_half_even (x / ?q)) * ?q \<le> of_int (10 ^ p) * ?q"
    using quantum_pos [of p x] by (simp_all only: of_int_le_iff mult_right_mono less_imp_le)
  then show "10 powi adjusted x \<le> fix_prec p x" and "fix_prec p x \<le> 10 powi (adjusted x + 1)"
    using assms quantum_powi [OF assms(1), of x]
    by (simp_all add: fix_prec_def power_int_add power_eq_if [of 10 p])
qed

lemma fix_prec_pos:
  assumes "0 < p" and "0 < x"
  shows "0 < fix_prec p x"
  using fix_prec_decade(1) [OF assms] powi_10_pos [of "adjusted x"] by linarith

lemma fix_prec_mono_pos:
  assumes p: "0 < p" and x: "0 < x" and le: "x \<le> y"
  shows "fix_prec p x \<le> fix_prec p y"
proof (cases "adjusted x = adjusted y")
  case True
  then have q: "quantum p x = quantum p y" by (simp add: quantum_def)
  have "x / quantum p y \<le> y / quantum p y"
    using le by (rule divide_right_mono) simp
  from round_half_even_mono [OF this] show ?thesis
    using x le quantum_pos [of p y] by (simp add: fix_prec_def q mult_right_mono)
next
  case False
  with adjusted_mono [OF x le] have "adjusted x + 1 \<le> adjusted y" by simp
  then have "(10::rat) powi (adjusted x + 1) \<le> 10 powi adjusted y" by (rule powi_10_mono)
  then show ?thesis using fix_prec_decade [OF p x] fix_prec_decade [OF p, of y] x le by linarith
qed

lemma fix_prec_nonneg: "0 < p \<Longrightarrow> 0 \<le> x \<Longrightarrow> 0 \<le> fix_prec p x"
  using fix_prec_pos [of p x] by (cases "x = 0") (auto simp: fix_prec_0)

lemma fix_prec_mono:
  assumes p: "0 < p" and le: "x \<le> y"
  shows "fix_prec p x \<le> fix_prec p y"
proof -
  consider "0 < x" | "x \<le> 0" "0 \<le> y" | "y < 0" by linarith
  then show ?thesis
  proof cases
    case 1
    then show ?thesis by (rule fix_prec_mono_pos [OF p _ le])
  next
    case 2
    have "0 \<le> fix_prec p (- x)" using 2 by (intro fix_prec_nonneg p) simp
    moreover have "0 \<le> fix_prec p y" using 2 by (intro fix_prec_nonneg p) simp
    ultimately show ?thesis by (simp add: fix_prec_minus)
  next
    case 3
    then have "fix_prec p (- y) \<le> fix_prec p (- x)"
      using le by (intro fix_prec_mono_pos p) simp_all
    then show ?thesis by (simp add: fix_prec_minus)
  qed
qed

lemma fix_prec_representable:
  assumes p: "0 < p" and "representable p x"
  shows "fix_prec p x = x"
proof (cases "x = 0")
  case True
  then show ?thesis by (simp add: fix_prec_0)
next
  case False
  from assms(2) obtain m e where x: "x = of_int m * 10 powi e" and m: "\<bar>m\<bar> \<le> 10 ^ p"
    by (auto simp: representable_def)
  have ax: "\<bar>x\<bar> = of_int \<bar>m\<bar> * 10 powi e" by (simp add: x abs_mult)
  have "\<exists>k. x / quantum p x = of_int k"
  proof (cases "\<bar>m\<bar> = 10 ^ p")
    case True
    then have "\<bar>x\<bar> = 10 powi (e + int p)" by (simp add: ax power_int_add)
    then have "adjusted x = e + int p" by (intro adjusted_unique) (simp_all add: power_int_add)
    then have "quantum p x = 10 powi (e + 1)" by (simp add: quantum_def algebra_simps)
    moreover have "m = sgn m * 10 ^ p" using True by (metis sgn_mult_abs)
    then obtain s where s: "m = s * 10 ^ p" by blast
    ultimately have "x / quantum p x = of_int (s * 10 ^ (p - 1))"
      using p by (simp add: x s power_int_add power_eq_if [of 10 p])
    then show ?thesis by blast
  next
    case False
    with m have lt: "\<bar>m\<bar> < 10 ^ p" by simp
    have "(of_int \<bar>m\<bar> :: rat) < of_int (10 ^ p)" using lt by (simp only: of_int_less_iff)
    then have "\<bar>x\<bar> < 10 powi (e + int p)" by (simp add: ax power_int_add)
    then have "(10::rat) powi adjusted x < 10 powi (e + int p)"
      using adjusted_bounds(1) [OF \<open>x \<noteq> 0\<close>] by linarith
    then have "adjusted x < e + int p" by simp
    define a where "a = adjusted x - (int p - 1)"
    have "a \<le> e" using \<open>adjusted x < e + int p\<close> by (simp add: a_def)
    then obtain n where n: "e = a + int n" by (metis zle_iff_zadd)
    have "(10::rat) powi e = 10 ^ n * 10 powi a"
      unfolding n by (simp add: power_int_add)
    then have "x = of_int (m * 10 ^ n) * 10 powi a" by (simp add: x)
    moreover have "quantum p x = 10 powi a" by (simp add: quantum_def a_def)
    ultimately have "x / quantum p x = of_int (m * 10 ^ n)"
      by (metis nonzero_mult_div_cancel_right powi_10_nz)
    then show ?thesis by blast
  qed
  then obtain k where k: "x / quantum p x = of_int k" by blast
  then have "of_int k * quantum p x = x"
    by (metis nonzero_eq_divide_eq quantum_nz)
  then show ?thesis using False k by (simp add: fix_prec_def)
qed

lemma representable_fix_prec: "0 < p \<Longrightarrow> representable p (fix_prec p x)"
proof (cases "x = 0")
  case True
  then show ?thesis by (auto simp: representable_def fix_prec_0 intro: exI [of _ 0])
next
  case False
  assume p: "0 < p"
  let ?k = "round_half_even (x / quantum p x)"
  have "\<bar>x\<bar> / quantum p x \<le> 10 ^ p"
    using adjusted_bounds [OF False] quantum_powi [OF p, of x] p quantum_pos [of p x]
    by (simp add: field_simps power_int_add power_eq_if [of 10 p])
  then have "x / quantum p x \<le> of_int (10 ^ p)" and "of_int (- (10 ^ p)) \<le> x / quantum p x"
    using quantum_pos [of p x] by (simp_all add: field_simps)
  then have "?k \<le> 10 ^ p" and "- (10 ^ p) \<le> ?k"
    using round_half_even_mono by (metis round_half_even_int)+
  then show ?thesis
    unfolding representable_def using False
    by (intro exI [of _ ?k] exI [of _ "adjusted x - (int p - 1)"])
      (simp add: fix_prec_def quantum_def abs_le_iff)
qed

lemma fix_prec_idem: "0 < p \<Longrightarrow> fix_prec p (fix_prec p x) = fix_prec p x"
  by (rule fix_prec_representable) (auto intro: representable_fix_prec)

section \<open>The interface of a rounding context\<close>

locale rounding_context =
  fixes rd :: "decimal \<Rightarrow> decimal"
  assumes rd_0: "rd 0 = 0"
    and rd_mono: "x \<le> y \<Longrightarrow> rd x \<le> rd y"
    and rd_minus: "rd (- x) = - rd x"
    and rd_pos: "0 < x \<Longrightarrow> 0 < rd x"
    and rd_idem: "rd (rd x) = rd x"
begin

lemma rd_nonneg: "0 \<le> x \<Longrightarrow> 0 \<le> rd x"
  using rd_mono [of 0 x] by (simp add: rd_0)

lemma rd_neg: "x < 0 \<Longrightarrow> rd x < 0"
  using rd_pos [of "- x"] by (simp add: rd_minus)

lemma rd_eq_0: "rd x = 0 \<longleftrightarrow> x = 0"
  using rd_pos [of x] rd_neg [of x] by (cases x "0::rat" rule: linorder_cases) (auto simp: rd_0)

lemma rd_less_0: "rd x < 0 \<longleftrightarrow> x < 0"
  using rd_neg [of x] rd_nonneg [of x] by (meson not_less)

lemma rd_gt_0: "0 < rd x \<longleftrightarrow> 0 < x"
  using rd_pos [of x] rd_mono [of x 0] by (auto simp: rd_0 not_less [symmetric])

lemma rd_abs: "rd \<bar>x\<bar> = \<bar>rd x\<bar>"
  using rd_nonneg [of x] rd_neg [of x] rd_minus [of x] by (cases "0 \<le> x") auto

lemma rd_le_fixpoint: "x \<le> y \<Longrightarrow> rd y = y \<Longrightarrow> rd x \<le> y"
  using rd_mono by fastforce

lemma rd_ge_fixpoint: "y \<le> x \<Longrightarrow> rd y = y \<Longrightarrow> y \<le> rd x"
  using rd_mono by fastforce

end

lemma rounding_context_fix_prec: "0 < p \<Longrightarrow> rounding_context (fix_prec p)"
  by (rule rounding_context.intro)
    (simp_all add: fix_prec_0 fix_prec_mono fix_prec_minus fix_prec_pos fix_prec_idem)

text \<open>The default context, and the wider one of the evaluation code.\<close>

abbreviation rd28 :: "decimal \<Rightarrow> decimal" where "rd28 \<equiv> fix_prec 28"
abbreviation rd50 :: "decimal \<Rightarrow> decimal" where "rd50 \<equiv> fix_prec 50"

interpretation ctx28: rounding_context "fix_prec 28"
  by (rule rounding_context_fix_prec) simp

interpretation ctx50: rounding_context "fix_prec 50"
  by (rule rounding_context_fix_prec) simp

section \<open>Partial operations\<close>

datatype decimal_signal = DivisionByZero | InvalidOperation

text \<open>\<open>x / y\<close>: \<open>0 / 0\<close> signals InvalidOperation, \<open>x / 0\<close> DivisionByZero.\<close>

definition dec_div :: "nat \<Rightarrow> decimal \<Rightarrow> decimal \<Rightarrow> decimal_signal + decimal" where
  "dec_div p x y =
     (if y = 0 then Inl (if x = 0 then InvalidOperation else DivisionByZero)
      else Inr (fix_prec p (x / y)))"

definition trunc_rat :: "decimal \<Rightarrow> int" where
  "trunc_rat x = (if 0 \<le> x then \<lfloor>x\<rfloor> else - \<lfloor>- x\<rfloor>)"

text \<open>
  \<open>x % y\<close>: the sign of the dividend; InvalidOperation for a zero divisor and for an integer
  quotient of more than \<open>p\<close> digits (DivisionImpossible).
\<close>

definition dec_mod :: "nat \<Rightarrow> decimal \<Rightarrow> decimal \<Rightarrow> decimal_signal + decimal" where
  "dec_mod p x y =
     (if y = 0 then Inl InvalidOperation
      else if 10 ^ p \<le> \<bar>trunc_rat (x / y)\<bar> then Inl InvalidOperation
      else Inr (fix_prec p (x - of_int (trunc_rat (x / y)) * y)))"

lemma dec_mod_ok: "y \<noteq> 0 \<Longrightarrow> \<bar>trunc_rat (x / y)\<bar> < 10 ^ p \<Longrightarrow>
    dec_mod p x y = Inr (fix_prec p (x - of_int (trunc_rat (x / y)) * y))"
  by (simp add: dec_mod_def)

lemma trunc_rat_of_int [simp]: "trunc_rat (of_int n) = n"
  by (auto simp: trunc_rat_def floor_of_int simp flip: of_int_minus)


lemma dec_mod_zero_iff:
  assumes "0 < p" and r: "dec_mod p x y = Inr r"
  shows "r = 0 \<longleftrightarrow> (\<exists>n::int. x = of_int n * y)"
proof -
  from r have y: "y \<noteq> 0" and r': "r = fix_prec p (x - of_int (trunc_rat (x / y)) * y)"
    by (auto simp: dec_mod_def split: if_splits)
  have "r = 0 \<longleftrightarrow> x = of_int (trunc_rat (x / y)) * y"
    unfolding r' using rounding_context.rd_eq_0 [OF rounding_context_fix_prec [OF assms(1)]] by simp
  also have "\<dots> \<longleftrightarrow> (\<exists>n::int. x = of_int n * y)"
    using y by (auto simp: trunc_rat_of_int)
  finally show ?thesis .
qed

section \<open>Short decimals\<close>

text \<open>Decimals short enough to be exact, for evaluation at these values.\<close>

lemma fix_prec_exact:
  assumes "0 < p" and "x = of_int m * 10 powi e" and "\<bar>m\<bar> \<le> 10 ^ p"
  shows "fix_prec p x = x"
  using assms(1) by (rule fix_prec_representable) (use assms(2,3) in \<open>auto simp only: representable_def\<close>)

lemma fix_prec_of_int: "0 < p \<Longrightarrow> \<bar>m\<bar> \<le> 10 ^ p \<Longrightarrow> fix_prec p (of_int m) = of_int m"
  by (rule fix_prec_exact [of _ _ m 0]) simp_all

lemma fix_prec_quotient:
  assumes "0 < p" and "0 < b" and "(10::int) ^ 10 mod b = 0" and "0 \<le> a" and "a * (10 ^ 10 div b) \<le> 10 ^ p"
  shows "fix_prec p (of_int a / of_int b) = of_int a / of_int b"
proof -
  from assms(3) obtain k :: int where k: "10 ^ 10 = b * k" by (metis dvd_def mod_0_imp_dvd)
  then have k': "(10::rat) ^ 10 = of_int b * of_int k" by (metis of_int_mult of_int_numeral of_int_power)
  from assms(2) have q: "10 ^ 10 div b = k" unfolding k by simp
  have nn: "0 \<le> 10 ^ 10 div b" using assms(2) by (simp add: pos_imp_zdiv_nonneg_iff)
  have "(10::rat) powi (- 10) = 1 / 10 ^ 10"
    by (simp only: power_int_minus power_int_numeral inverse_eq_divide)
  then have "of_int a / of_int b = (of_int (a * k) :: rat) * 10 powi (- 10)"
    using assms(2) k' by (metis (no_types, lifting) mult.right_neutral nonzero_mult_divide_mult_cancel_right
        of_int_mult power_not_zero times_divide_eq_right mult_eq_0_iff zero_neq_numeral)
  then show ?thesis by (rule fix_prec_exact [OF assms(1)]) (use assms(4,5) nn q in \<open>simp add: abs_of_nonneg\<close>)
qed

lemma fix_prec_numerals [simp]:
  "0 < p \<Longrightarrow> numeral n \<le> (10::int) ^ p \<Longrightarrow> fix_prec p (numeral n) = numeral n"
  "0 < p \<Longrightarrow> fix_prec p 1 = 1"
  "0 < p \<Longrightarrow> (10::int) ^ 10 mod numeral b = 0 \<Longrightarrow> numeral a * (10 ^ 10 div numeral b) \<le> (10::int) ^ p \<Longrightarrow>
     fix_prec p (numeral a / numeral b) = numeral a / numeral b"
  "0 < p \<Longrightarrow> (10::int) ^ 10 mod numeral b = 0 \<Longrightarrow> 10 ^ 10 div numeral b \<le> (10::int) ^ p \<Longrightarrow>
     fix_prec p (1 / numeral b) = 1 / numeral b"
  using fix_prec_of_int [of p "numeral n"] fix_prec_of_int [of p 1]
    fix_prec_quotient [of p "numeral b" "numeral a"] fix_prec_quotient [of p "numeral b" 1]
  by (simp_all only: of_int_numeral of_int_1 abs_numeral abs_one one_le_power zero_less_numeral
      zero_le_numeral mult_1 one_le_numeral zero_le_one)

declare fix_prec_minus [simp] fix_prec_0 [simp]

end
