(* ===== verification/Enums.thy ===== *)
theory Enums
  imports Main
begin

text \<open>
  The finite domain states of \<open>schemas/enums.py\<close>, one datatype per class with the source's
  constructors, in the order of the file. \<open>value_<enum>\<close> is the member's \<open>.value\<close>: the string of
  a \<open>StrEnum\<close> member, the number of an \<open>IntEnum\<close> member. Several classes share member names, so
  the rest of the development writes them qualified (\<open>risk_state.HALTED\<close>), as the source does.
\<close>

datatype (plugins only: code) application_mode =
    BACKTEST
  | SHADOW
  | DEMO
  | LIVE

primrec value_application_mode :: "application_mode \<Rightarrow> string" where
    "value_application_mode application_mode.BACKTEST = ''BACKTEST''"
  | "value_application_mode application_mode.SHADOW = ''SHADOW''"
  | "value_application_mode application_mode.DEMO = ''DEMO''"
  | "value_application_mode application_mode.LIVE = ''LIVE''"

datatype (plugins only: code) risk_state =
    NORMAL
  | CAUTION
  | SAFE_MODE
  | HALTED

primrec value_risk_state :: "risk_state \<Rightarrow> string" where
    "value_risk_state risk_state.NORMAL = ''NORMAL''"
  | "value_risk_state risk_state.CAUTION = ''CAUTION''"
  | "value_risk_state risk_state.SAFE_MODE = ''SAFE_MODE''"
  | "value_risk_state risk_state.HALTED = ''HALTED''"

datatype (plugins only: code) risk_decision_status =
    APPROVED
  | REJECTED
  | HALTED

primrec value_risk_decision_status :: "risk_decision_status \<Rightarrow> string" where
    "value_risk_decision_status risk_decision_status.APPROVED = ''APPROVED''"
  | "value_risk_decision_status risk_decision_status.REJECTED = ''REJECTED''"
  | "value_risk_decision_status risk_decision_status.HALTED = ''HALTED''"

datatype (plugins only: code) position_sizing_status =
    APPROVED
  | REJECTED

primrec value_position_sizing_status :: "position_sizing_status \<Rightarrow> string" where
    "value_position_sizing_status position_sizing_status.APPROVED = ''APPROVED''"
  | "value_position_sizing_status position_sizing_status.REJECTED = ''REJECTED''"

datatype (plugins only: code) risk_reason_code =
    TRACEABILITY_MISMATCH
  | SYMBOL_MISMATCH
  | ACCOUNT_CONTEXT_MISMATCH
  | ACCOUNT_CONTEXT_FUTURE_DATED
  | ACCOUNT_CONTEXT_PREDATES_SNAPSHOT
  | TRADING_DAY_CONTEXT_INVALID
  | EVALUATION_TIMESTAMP_INVALID
  | ENTRY_PRICE_REQUIRED
  | ENTRY_PRICE_INVALID
  | STOP_LOSS_REQUIRED
  | STOP_LOSS_INVALID
  | TAKE_PROFIT_REQUIRED
  | TAKE_PROFIT_INVALID
  | INVALID_STOP_GEOMETRY
  | INVALID_TAKE_PROFIT_GEOMETRY
  | PRICE_NOT_ALIGNED_TO_TICK_SIZE
  | STOP_DISTANCE_BELOW_BROKER_MINIMUM
  | TAKE_PROFIT_DISTANCE_BELOW_BROKER_MINIMUM
  | RISK_REWARD_BELOW_MINIMUM
  | SYMBOL_TRADING_DISABLED
  | TRADE_SIDE_NOT_ALLOWED
  | ACCOUNT_TRADING_DISABLED
  | EXPERT_TRADING_DISABLED
  | NON_POSITIVE_EQUITY
  | ACCOUNT_POSITION_COUNT_INCONSISTENT
  | MAXIMUM_POSITIONS_REACHED
  | DAILY_LOSS_LIMIT_REACHED
  | MAXIMUM_DRAWDOWN_REACHED
  | INVALID_BROKER_RISK_METADATA
  | MINIMUM_VOLUME_EXCEEDS_RISK
  | POSITION_SIZE_INVARIANT_FAILED

primrec value_risk_reason_code :: "risk_reason_code \<Rightarrow> string" where
    "value_risk_reason_code risk_reason_code.TRACEABILITY_MISMATCH = ''TRACEABILITY_MISMATCH''"
  | "value_risk_reason_code risk_reason_code.SYMBOL_MISMATCH = ''SYMBOL_MISMATCH''"
  | "value_risk_reason_code risk_reason_code.ACCOUNT_CONTEXT_MISMATCH = ''ACCOUNT_CONTEXT_MISMATCH''"
  | "value_risk_reason_code risk_reason_code.ACCOUNT_CONTEXT_FUTURE_DATED = ''ACCOUNT_CONTEXT_FUTURE_DATED''"
  | "value_risk_reason_code risk_reason_code.ACCOUNT_CONTEXT_PREDATES_SNAPSHOT = ''ACCOUNT_CONTEXT_PREDATES_SNAPSHOT''"
  | "value_risk_reason_code risk_reason_code.TRADING_DAY_CONTEXT_INVALID = ''TRADING_DAY_CONTEXT_INVALID''"
  | "value_risk_reason_code risk_reason_code.EVALUATION_TIMESTAMP_INVALID = ''EVALUATION_TIMESTAMP_INVALID''"
  | "value_risk_reason_code risk_reason_code.ENTRY_PRICE_REQUIRED = ''ENTRY_PRICE_REQUIRED''"
  | "value_risk_reason_code risk_reason_code.ENTRY_PRICE_INVALID = ''ENTRY_PRICE_INVALID''"
  | "value_risk_reason_code risk_reason_code.STOP_LOSS_REQUIRED = ''STOP_LOSS_REQUIRED''"
  | "value_risk_reason_code risk_reason_code.STOP_LOSS_INVALID = ''STOP_LOSS_INVALID''"
  | "value_risk_reason_code risk_reason_code.TAKE_PROFIT_REQUIRED = ''TAKE_PROFIT_REQUIRED''"
  | "value_risk_reason_code risk_reason_code.TAKE_PROFIT_INVALID = ''TAKE_PROFIT_INVALID''"
  | "value_risk_reason_code risk_reason_code.INVALID_STOP_GEOMETRY = ''INVALID_STOP_GEOMETRY''"
  | "value_risk_reason_code risk_reason_code.INVALID_TAKE_PROFIT_GEOMETRY = ''INVALID_TAKE_PROFIT_GEOMETRY''"
  | "value_risk_reason_code risk_reason_code.PRICE_NOT_ALIGNED_TO_TICK_SIZE = ''PRICE_NOT_ALIGNED_TO_TICK_SIZE''"
  | "value_risk_reason_code risk_reason_code.STOP_DISTANCE_BELOW_BROKER_MINIMUM = ''STOP_DISTANCE_BELOW_BROKER_MINIMUM''"
  | "value_risk_reason_code risk_reason_code.TAKE_PROFIT_DISTANCE_BELOW_BROKER_MINIMUM = ''TAKE_PROFIT_DISTANCE_BELOW_BROKER_MINIMUM''"
  | "value_risk_reason_code risk_reason_code.RISK_REWARD_BELOW_MINIMUM = ''RISK_REWARD_BELOW_MINIMUM''"
  | "value_risk_reason_code risk_reason_code.SYMBOL_TRADING_DISABLED = ''SYMBOL_TRADING_DISABLED''"
  | "value_risk_reason_code risk_reason_code.TRADE_SIDE_NOT_ALLOWED = ''TRADE_SIDE_NOT_ALLOWED''"
  | "value_risk_reason_code risk_reason_code.ACCOUNT_TRADING_DISABLED = ''ACCOUNT_TRADING_DISABLED''"
  | "value_risk_reason_code risk_reason_code.EXPERT_TRADING_DISABLED = ''EXPERT_TRADING_DISABLED''"
  | "value_risk_reason_code risk_reason_code.NON_POSITIVE_EQUITY = ''NON_POSITIVE_EQUITY''"
  | "value_risk_reason_code risk_reason_code.ACCOUNT_POSITION_COUNT_INCONSISTENT = ''ACCOUNT_POSITION_COUNT_INCONSISTENT''"
  | "value_risk_reason_code risk_reason_code.MAXIMUM_POSITIONS_REACHED = ''MAXIMUM_POSITIONS_REACHED''"
  | "value_risk_reason_code risk_reason_code.DAILY_LOSS_LIMIT_REACHED = ''DAILY_LOSS_LIMIT_REACHED''"
  | "value_risk_reason_code risk_reason_code.MAXIMUM_DRAWDOWN_REACHED = ''MAXIMUM_DRAWDOWN_REACHED''"
  | "value_risk_reason_code risk_reason_code.INVALID_BROKER_RISK_METADATA = ''INVALID_BROKER_RISK_METADATA''"
  | "value_risk_reason_code risk_reason_code.MINIMUM_VOLUME_EXCEEDS_RISK = ''MINIMUM_VOLUME_EXCEEDS_RISK''"
  | "value_risk_reason_code risk_reason_code.POSITION_SIZE_INVARIANT_FAILED = ''POSITION_SIZE_INVARIANT_FAILED''"

datatype (plugins only: code) trade_action =
    BUY
  | SELL
  | HOLD

primrec value_trade_action :: "trade_action \<Rightarrow> string" where
    "value_trade_action trade_action.BUY = ''BUY''"
  | "value_trade_action trade_action.SELL = ''SELL''"
  | "value_trade_action trade_action.HOLD = ''HOLD''"

datatype (plugins only: code) trade_side =
    BUY
  | SELL

primrec value_trade_side :: "trade_side \<Rightarrow> string" where
    "value_trade_side trade_side.BUY = ''BUY''"
  | "value_trade_side trade_side.SELL = ''SELL''"

datatype (plugins only: code) timeframe =
    M15
  | H1
  | H4

primrec value_timeframe :: "timeframe \<Rightarrow> string" where
    "value_timeframe timeframe.M15 = ''M15''"
  | "value_timeframe timeframe.H1 = ''H1''"
  | "value_timeframe timeframe.H4 = ''H4''"

datatype (plugins only: code) data_validity_state =
    VALID
  | INVALID

primrec value_data_validity_state :: "data_validity_state \<Rightarrow> string" where
    "value_data_validity_state data_validity_state.VALID = ''VALID''"
  | "value_data_validity_state data_validity_state.INVALID = ''INVALID''"

datatype (plugins only: code) freshness_state =
    FRESH
  | STALE

primrec value_freshness_state :: "freshness_state \<Rightarrow> string" where
    "value_freshness_state freshness_state.FRESH = ''FRESH''"
  | "value_freshness_state freshness_state.STALE = ''STALE''"

datatype (plugins only: code) snapshot_warning_code =
    STALE_TICK
  | STALE_ACCOUNT
  | STALE_CANDLE
  | SLOW_SNAPSHOT
  | OUT_OF_SCOPE_POSITION_OMITTED

primrec value_snapshot_warning_code :: "snapshot_warning_code \<Rightarrow> string" where
    "value_snapshot_warning_code snapshot_warning_code.STALE_TICK = ''STALE_TICK''"
  | "value_snapshot_warning_code snapshot_warning_code.STALE_ACCOUNT = ''STALE_ACCOUNT''"
  | "value_snapshot_warning_code snapshot_warning_code.STALE_CANDLE = ''STALE_CANDLE''"
  | "value_snapshot_warning_code snapshot_warning_code.SLOW_SNAPSHOT = ''SLOW_SNAPSHOT''"
  | "value_snapshot_warning_code snapshot_warning_code.OUT_OF_SCOPE_POSITION_OMITTED = ''OUT_OF_SCOPE_POSITION_OMITTED''"

datatype (plugins only: code) market_regime =
    TREND
  | RANGE
  | HIGH_VOLATILITY
  | LOW_VOLATILITY
  | BREAKOUT
  | UNCERTAIN

primrec value_market_regime :: "market_regime \<Rightarrow> string" where
    "value_market_regime market_regime.TREND = ''TREND''"
  | "value_market_regime market_regime.RANGE = ''RANGE''"
  | "value_market_regime market_regime.HIGH_VOLATILITY = ''HIGH_VOLATILITY''"
  | "value_market_regime market_regime.LOW_VOLATILITY = ''LOW_VOLATILITY''"
  | "value_market_regime market_regime.BREAKOUT = ''BREAKOUT''"
  | "value_market_regime market_regime.UNCERTAIN = ''UNCERTAIN''"

datatype (plugins only: code) mt5_connection_state =
    CONNECTED
  | DISCONNECTED

primrec value_mt5_connection_state :: "mt5_connection_state \<Rightarrow> string" where
    "value_mt5_connection_state mt5_connection_state.CONNECTED = ''CONNECTED''"
  | "value_mt5_connection_state mt5_connection_state.DISCONNECTED = ''DISCONNECTED''"

datatype (plugins only: code) broker_account_mode =
    DEMO
  | CONTEST
  | REAL

primrec value_broker_account_mode :: "broker_account_mode \<Rightarrow> int" where
    "value_broker_account_mode broker_account_mode.DEMO = 0"
  | "value_broker_account_mode broker_account_mode.CONTEST = 1"
  | "value_broker_account_mode broker_account_mode.REAL = 2"

datatype (plugins only: code) symbol_trade_mode =
    DISABLED
  | LONG_ONLY
  | SHORT_ONLY
  | CLOSE_ONLY
  | FULL

primrec value_symbol_trade_mode :: "symbol_trade_mode \<Rightarrow> int" where
    "value_symbol_trade_mode symbol_trade_mode.DISABLED = 0"
  | "value_symbol_trade_mode symbol_trade_mode.LONG_ONLY = 1"
  | "value_symbol_trade_mode symbol_trade_mode.SHORT_ONLY = 2"
  | "value_symbol_trade_mode symbol_trade_mode.CLOSE_ONLY = 3"
  | "value_symbol_trade_mode symbol_trade_mode.FULL = 4"

datatype (plugins only: code) broker_position_side =
    BUY
  | SELL

primrec value_broker_position_side :: "broker_position_side \<Rightarrow> int" where
    "value_broker_position_side broker_position_side.BUY = 0"
  | "value_broker_position_side broker_position_side.SELL = 1"

datatype (plugins only: code) agent_role =
    MARKET_CONTEXT
  | TREND_ANALYST
  | PRICE_ACTION_ANALYST
  | ENTRY_ANALYST
  | QUANT_RESEARCHER
  | SENIOR_QUANT_DEVELOPER
  | SKEPTIC
  | CHIEF_TRADER
  | PERFORMANCE_REVIEWER

primrec value_agent_role :: "agent_role \<Rightarrow> string" where
    "value_agent_role agent_role.MARKET_CONTEXT = ''MARKET_CONTEXT''"
  | "value_agent_role agent_role.TREND_ANALYST = ''TREND_ANALYST''"
  | "value_agent_role agent_role.PRICE_ACTION_ANALYST = ''PRICE_ACTION_ANALYST''"
  | "value_agent_role agent_role.ENTRY_ANALYST = ''ENTRY_ANALYST''"
  | "value_agent_role agent_role.QUANT_RESEARCHER = ''QUANT_RESEARCHER''"
  | "value_agent_role agent_role.SENIOR_QUANT_DEVELOPER = ''SENIOR_QUANT_DEVELOPER''"
  | "value_agent_role agent_role.SKEPTIC = ''SKEPTIC''"
  | "value_agent_role agent_role.CHIEF_TRADER = ''CHIEF_TRADER''"
  | "value_agent_role agent_role.PERFORMANCE_REVIEWER = ''PERFORMANCE_REVIEWER''"

datatype (plugins only: code) agent_execution_profile =
    REALTIME
  | CONDITIONAL
  | OFFLINE

primrec value_agent_execution_profile :: "agent_execution_profile \<Rightarrow> string" where
    "value_agent_execution_profile agent_execution_profile.REALTIME = ''REALTIME''"
  | "value_agent_execution_profile agent_execution_profile.CONDITIONAL = ''CONDITIONAL''"
  | "value_agent_execution_profile agent_execution_profile.OFFLINE = ''OFFLINE''"

datatype (plugins only: code) agent_invocation_mode =
    REALTIME
  | CANDIDATE_ONLY
  | PERIODIC
  | OFFLINE

primrec value_agent_invocation_mode :: "agent_invocation_mode \<Rightarrow> string" where
    "value_agent_invocation_mode agent_invocation_mode.REALTIME = ''REALTIME''"
  | "value_agent_invocation_mode agent_invocation_mode.CANDIDATE_ONLY = ''CANDIDATE_ONLY''"
  | "value_agent_invocation_mode agent_invocation_mode.PERIODIC = ''PERIODIC''"
  | "value_agent_invocation_mode agent_invocation_mode.OFFLINE = ''OFFLINE''"

datatype (plugins only: code) agent_output_status =
    SUCCESS
  | DEGRADED

primrec value_agent_output_status :: "agent_output_status \<Rightarrow> string" where
    "value_agent_output_status agent_output_status.SUCCESS = ''SUCCESS''"
  | "value_agent_output_status agent_output_status.DEGRADED = ''DEGRADED''"

datatype (plugins only: code) agent_failure_category =
    TIMEOUT
  | INVALID_OUTPUT
  | MISSING_REQUIRED_UPSTREAM
  | UNAVAILABLE_AGENT
  | STALE_SNAPSHOT
  | INVALID_SNAPSHOT
  | SCHEMA_MISMATCH
  | UNKNOWN

primrec value_agent_failure_category :: "agent_failure_category \<Rightarrow> string" where
    "value_agent_failure_category agent_failure_category.TIMEOUT = ''TIMEOUT''"
  | "value_agent_failure_category agent_failure_category.INVALID_OUTPUT = ''INVALID_OUTPUT''"
  | "value_agent_failure_category agent_failure_category.MISSING_REQUIRED_UPSTREAM = ''MISSING_REQUIRED_UPSTREAM''"
  | "value_agent_failure_category agent_failure_category.UNAVAILABLE_AGENT = ''UNAVAILABLE_AGENT''"
  | "value_agent_failure_category agent_failure_category.STALE_SNAPSHOT = ''STALE_SNAPSHOT''"
  | "value_agent_failure_category agent_failure_category.INVALID_SNAPSHOT = ''INVALID_SNAPSHOT''"
  | "value_agent_failure_category agent_failure_category.SCHEMA_MISMATCH = ''SCHEMA_MISMATCH''"
  | "value_agent_failure_category agent_failure_category.UNKNOWN = ''UNKNOWN''"

datatype (plugins only: code) failure_disposition =
    CONTINUE_DEGRADED
  | HOLD
  | ABORT_CYCLE

primrec value_failure_disposition :: "failure_disposition \<Rightarrow> string" where
    "value_failure_disposition failure_disposition.CONTINUE_DEGRADED = ''CONTINUE_DEGRADED''"
  | "value_failure_disposition failure_disposition.HOLD = ''HOLD''"
  | "value_failure_disposition failure_disposition.ABORT_CYCLE = ''ABORT_CYCLE''"

datatype (plugins only: code) evidence_kind =
    FACT
  | INTERPRETATION
  | QUANTITATIVE

primrec value_evidence_kind :: "evidence_kind \<Rightarrow> string" where
    "value_evidence_kind evidence_kind.FACT = ''FACT''"
  | "value_evidence_kind evidence_kind.INTERPRETATION = ''INTERPRETATION''"
  | "value_evidence_kind evidence_kind.QUANTITATIVE = ''QUANTITATIVE''"

datatype (plugins only: code) directional_bias =
    BULLISH
  | BEARISH
  | NEUTRAL

primrec value_directional_bias :: "directional_bias \<Rightarrow> string" where
    "value_directional_bias directional_bias.BULLISH = ''BULLISH''"
  | "value_directional_bias directional_bias.BEARISH = ''BEARISH''"
  | "value_directional_bias directional_bias.NEUTRAL = ''NEUTRAL''"

datatype (plugins only: code) trend_strength =
    WEAK
  | MODERATE
  | STRONG
  | UNCERTAIN

primrec value_trend_strength :: "trend_strength \<Rightarrow> string" where
    "value_trend_strength trend_strength.WEAK = ''WEAK''"
  | "value_trend_strength trend_strength.MODERATE = ''MODERATE''"
  | "value_trend_strength trend_strength.STRONG = ''STRONG''"
  | "value_trend_strength trend_strength.UNCERTAIN = ''UNCERTAIN''"

datatype (plugins only: code) entry_disposition =
    ENTER_NOW
  | WAIT_PULLBACK
  | WAIT_BREAKOUT
  | NO_ENTRY

primrec value_entry_disposition :: "entry_disposition \<Rightarrow> string" where
    "value_entry_disposition entry_disposition.ENTER_NOW = ''ENTER_NOW''"
  | "value_entry_disposition entry_disposition.WAIT_PULLBACK = ''WAIT_PULLBACK''"
  | "value_entry_disposition entry_disposition.WAIT_BREAKOUT = ''WAIT_BREAKOUT''"
  | "value_entry_disposition entry_disposition.NO_ENTRY = ''NO_ENTRY''"

datatype (plugins only: code) quant_evidence_status =
    SUPPORTED
  | NOT_SUPPORTED
  | INCONCLUSIVE

primrec value_quant_evidence_status :: "quant_evidence_status \<Rightarrow> string" where
    "value_quant_evidence_status quant_evidence_status.SUPPORTED = ''SUPPORTED''"
  | "value_quant_evidence_status quant_evidence_status.NOT_SUPPORTED = ''NOT_SUPPORTED''"
  | "value_quant_evidence_status quant_evidence_status.INCONCLUSIVE = ''INCONCLUSIVE''"

datatype (plugins only: code) quant_review_status =
    PASS
  | CAUTION
  | FAIL

primrec value_quant_review_status :: "quant_review_status \<Rightarrow> string" where
    "value_quant_review_status quant_review_status.PASS = ''PASS''"
  | "value_quant_review_status quant_review_status.CAUTION = ''CAUTION''"
  | "value_quant_review_status quant_review_status.FAIL = ''FAIL''"

datatype (plugins only: code) skeptic_verdict =
    APPROVE
  | CAUTION
  | REJECT

primrec value_skeptic_verdict :: "skeptic_verdict \<Rightarrow> string" where
    "value_skeptic_verdict skeptic_verdict.APPROVE = ''APPROVE''"
  | "value_skeptic_verdict skeptic_verdict.CAUTION = ''CAUTION''"
  | "value_skeptic_verdict skeptic_verdict.REJECT = ''REJECT''"

datatype (plugins only: code) information_resource =
    MARKET_SNAPSHOT_VIEW
  | UPSTREAM_AGENT_OUTPUTS
  | TRADE_PROPOSAL
  | QUANTITATIVE_EVIDENCE
  | RISK_DECISION
  | PERFORMANCE_HISTORY

primrec value_information_resource :: "information_resource \<Rightarrow> string" where
    "value_information_resource information_resource.MARKET_SNAPSHOT_VIEW = ''MARKET_SNAPSHOT_VIEW''"
  | "value_information_resource information_resource.UPSTREAM_AGENT_OUTPUTS = ''UPSTREAM_AGENT_OUTPUTS''"
  | "value_information_resource information_resource.TRADE_PROPOSAL = ''TRADE_PROPOSAL''"
  | "value_information_resource information_resource.QUANTITATIVE_EVIDENCE = ''QUANTITATIVE_EVIDENCE''"
  | "value_information_resource information_resource.RISK_DECISION = ''RISK_DECISION''"
  | "value_information_resource information_resource.PERFORMANCE_HISTORY = ''PERFORMANCE_HISTORY''"

datatype (plugins only: code) pipeline_kind =
    REALTIME_DECISION
  | RETROSPECTIVE_REVIEW

primrec value_pipeline_kind :: "pipeline_kind \<Rightarrow> string" where
    "value_pipeline_kind pipeline_kind.REALTIME_DECISION = ''REALTIME_DECISION''"
  | "value_pipeline_kind pipeline_kind.RETROSPECTIVE_REVIEW = ''RETROSPECTIVE_REVIEW''"

datatype (plugins only: code) pipeline_component =
    MARKET_CONTEXT
  | TREND_ANALYST
  | PRICE_ACTION_ANALYST
  | ENTRY_ANALYST
  | QUANT_RESEARCHER
  | SENIOR_QUANT_DEVELOPER
  | SKEPTIC
  | CHIEF_TRADER
  | PERFORMANCE_REVIEWER
  | RISK_ENGINE

primrec value_pipeline_component :: "pipeline_component \<Rightarrow> string" where
    "value_pipeline_component pipeline_component.MARKET_CONTEXT = ''MARKET_CONTEXT''"
  | "value_pipeline_component pipeline_component.TREND_ANALYST = ''TREND_ANALYST''"
  | "value_pipeline_component pipeline_component.PRICE_ACTION_ANALYST = ''PRICE_ACTION_ANALYST''"
  | "value_pipeline_component pipeline_component.ENTRY_ANALYST = ''ENTRY_ANALYST''"
  | "value_pipeline_component pipeline_component.QUANT_RESEARCHER = ''QUANT_RESEARCHER''"
  | "value_pipeline_component pipeline_component.SENIOR_QUANT_DEVELOPER = ''SENIOR_QUANT_DEVELOPER''"
  | "value_pipeline_component pipeline_component.SKEPTIC = ''SKEPTIC''"
  | "value_pipeline_component pipeline_component.CHIEF_TRADER = ''CHIEF_TRADER''"
  | "value_pipeline_component pipeline_component.PERFORMANCE_REVIEWER = ''PERFORMANCE_REVIEWER''"
  | "value_pipeline_component pipeline_component.RISK_ENGINE = ''RISK_ENGINE''"

datatype (plugins only: code) model_provider =
    OPENAI
  | ANTHROPIC
  | GEMINI
  | FAKE

primrec value_model_provider :: "model_provider \<Rightarrow> string" where
    "value_model_provider model_provider.OPENAI = ''OPENAI''"
  | "value_model_provider model_provider.ANTHROPIC = ''ANTHROPIC''"
  | "value_model_provider model_provider.GEMINI = ''GEMINI''"
  | "value_model_provider model_provider.FAKE = ''FAKE''"

datatype (plugins only: code) reasoning_effort =
    NONE
  | LOW
  | MEDIUM
  | HIGH

primrec value_reasoning_effort :: "reasoning_effort \<Rightarrow> string" where
    "value_reasoning_effort reasoning_effort.NONE = ''NONE''"
  | "value_reasoning_effort reasoning_effort.LOW = ''LOW''"
  | "value_reasoning_effort reasoning_effort.MEDIUM = ''MEDIUM''"
  | "value_reasoning_effort reasoning_effort.HIGH = ''HIGH''"

datatype (plugins only: code) token_estimate_method =
    PROVIDER_REPORTED
  | PROVIDER_TOKENIZER
  | CONSERVATIVE_ESTIMATE
  | UNAVAILABLE

primrec value_token_estimate_method :: "token_estimate_method \<Rightarrow> string" where
    "value_token_estimate_method token_estimate_method.PROVIDER_REPORTED = ''PROVIDER_REPORTED''"
  | "value_token_estimate_method token_estimate_method.PROVIDER_TOKENIZER = ''PROVIDER_TOKENIZER''"
  | "value_token_estimate_method token_estimate_method.CONSERVATIVE_ESTIMATE = ''CONSERVATIVE_ESTIMATE''"
  | "value_token_estimate_method token_estimate_method.UNAVAILABLE = ''UNAVAILABLE''"

datatype (plugins only: code) metric_availability =
    REPORTED
  | ESTIMATED
  | UNAVAILABLE

primrec value_metric_availability :: "metric_availability \<Rightarrow> string" where
    "value_metric_availability metric_availability.REPORTED = ''REPORTED''"
  | "value_metric_availability metric_availability.ESTIMATED = ''ESTIMATED''"
  | "value_metric_availability metric_availability.UNAVAILABLE = ''UNAVAILABLE''"

datatype (plugins only: code) usage_metric =
    INPUT_TOKENS
  | CACHED_INPUT_TOKENS
  | OUTPUT_TOKENS
  | REASONING_TOKENS

primrec value_usage_metric :: "usage_metric \<Rightarrow> string" where
    "value_usage_metric usage_metric.INPUT_TOKENS = ''INPUT_TOKENS''"
  | "value_usage_metric usage_metric.CACHED_INPUT_TOKENS = ''CACHED_INPUT_TOKENS''"
  | "value_usage_metric usage_metric.OUTPUT_TOKENS = ''OUTPUT_TOKENS''"
  | "value_usage_metric usage_metric.REASONING_TOKENS = ''REASONING_TOKENS''"

datatype (plugins only: code) budget_reservation_state =
    RESERVED
  | DISPATCHED
  | SETTLED
  | RELEASED
  | UNCERTAIN

primrec value_budget_reservation_state :: "budget_reservation_state \<Rightarrow> string" where
    "value_budget_reservation_state budget_reservation_state.RESERVED = ''RESERVED''"
  | "value_budget_reservation_state budget_reservation_state.DISPATCHED = ''DISPATCHED''"
  | "value_budget_reservation_state budget_reservation_state.SETTLED = ''SETTLED''"
  | "value_budget_reservation_state budget_reservation_state.RELEASED = ''RELEASED''"
  | "value_budget_reservation_state budget_reservation_state.UNCERTAIN = ''UNCERTAIN''"

datatype (plugins only: code) runtime_failure_category =
    INVALID_REQUEST
  | INVALID_PROMPT_REFERENCE
  | SCHEMA_INCOMPATIBLE
  | CAPABILITY_INCOMPATIBLE
  | BUDGET_EXCEEDED
  | DUPLICATE_INVOCATION
  | PROVIDER_UNAVAILABLE
  | PROVIDER_AUTHENTICATION
  | PROVIDER_PERMISSION
  | PROVIDER_RATE_LIMIT
  | PROVIDER_TRANSIENT
  | PROVIDER_TIMEOUT
  | PROVIDER_REFUSAL
  | INVALID_MODEL_OUTPUT
  | UNKNOWN_PROVIDER_ERROR

primrec value_runtime_failure_category :: "runtime_failure_category \<Rightarrow> string" where
    "value_runtime_failure_category runtime_failure_category.INVALID_REQUEST = ''INVALID_REQUEST''"
  | "value_runtime_failure_category runtime_failure_category.INVALID_PROMPT_REFERENCE = ''INVALID_PROMPT_REFERENCE''"
  | "value_runtime_failure_category runtime_failure_category.SCHEMA_INCOMPATIBLE = ''SCHEMA_INCOMPATIBLE''"
  | "value_runtime_failure_category runtime_failure_category.CAPABILITY_INCOMPATIBLE = ''CAPABILITY_INCOMPATIBLE''"
  | "value_runtime_failure_category runtime_failure_category.BUDGET_EXCEEDED = ''BUDGET_EXCEEDED''"
  | "value_runtime_failure_category runtime_failure_category.DUPLICATE_INVOCATION = ''DUPLICATE_INVOCATION''"
  | "value_runtime_failure_category runtime_failure_category.PROVIDER_UNAVAILABLE = ''PROVIDER_UNAVAILABLE''"
  | "value_runtime_failure_category runtime_failure_category.PROVIDER_AUTHENTICATION = ''PROVIDER_AUTHENTICATION''"
  | "value_runtime_failure_category runtime_failure_category.PROVIDER_PERMISSION = ''PROVIDER_PERMISSION''"
  | "value_runtime_failure_category runtime_failure_category.PROVIDER_RATE_LIMIT = ''PROVIDER_RATE_LIMIT''"
  | "value_runtime_failure_category runtime_failure_category.PROVIDER_TRANSIENT = ''PROVIDER_TRANSIENT''"
  | "value_runtime_failure_category runtime_failure_category.PROVIDER_TIMEOUT = ''PROVIDER_TIMEOUT''"
  | "value_runtime_failure_category runtime_failure_category.PROVIDER_REFUSAL = ''PROVIDER_REFUSAL''"
  | "value_runtime_failure_category runtime_failure_category.INVALID_MODEL_OUTPUT = ''INVALID_MODEL_OUTPUT''"
  | "value_runtime_failure_category runtime_failure_category.UNKNOWN_PROVIDER_ERROR = ''UNKNOWN_PROVIDER_ERROR''"

datatype (plugins only: code) cycle_claim_state =
    INCOMPLETE
  | FINALIZED
  | ABANDONED

primrec value_cycle_claim_state :: "cycle_claim_state \<Rightarrow> string" where
    "value_cycle_claim_state cycle_claim_state.INCOMPLETE = ''INCOMPLETE''"
  | "value_cycle_claim_state cycle_claim_state.FINALIZED = ''FINALIZED''"
  | "value_cycle_claim_state cycle_claim_state.ABANDONED = ''ABANDONED''"

datatype (plugins only: code) stage_execution_status =
    COMPLETED
  | DEGRADED
  | SKIPPED
  | HOLD
  | ABORTED

primrec value_stage_execution_status :: "stage_execution_status \<Rightarrow> string" where
    "value_stage_execution_status stage_execution_status.COMPLETED = ''COMPLETED''"
  | "value_stage_execution_status stage_execution_status.DEGRADED = ''DEGRADED''"
  | "value_stage_execution_status stage_execution_status.SKIPPED = ''SKIPPED''"
  | "value_stage_execution_status stage_execution_status.HOLD = ''HOLD''"
  | "value_stage_execution_status stage_execution_status.ABORTED = ''ABORTED''"

datatype (plugins only: code) shadow_disposition =
    WOULD_BUY
  | WOULD_SELL
  | CHIEF_HOLD
  | POLICY_HOLD
  | RISK_REJECTED
  | RISK_HALTED
  | ABORTED

primrec value_shadow_disposition :: "shadow_disposition \<Rightarrow> string" where
    "value_shadow_disposition shadow_disposition.WOULD_BUY = ''WOULD_BUY''"
  | "value_shadow_disposition shadow_disposition.WOULD_SELL = ''WOULD_SELL''"
  | "value_shadow_disposition shadow_disposition.CHIEF_HOLD = ''CHIEF_HOLD''"
  | "value_shadow_disposition shadow_disposition.POLICY_HOLD = ''POLICY_HOLD''"
  | "value_shadow_disposition shadow_disposition.RISK_REJECTED = ''RISK_REJECTED''"
  | "value_shadow_disposition shadow_disposition.RISK_HALTED = ''RISK_HALTED''"
  | "value_shadow_disposition shadow_disposition.ABORTED = ''ABORTED''"

datatype (plugins only: code) shadow_outcome_source =
    CHIEF_TRADER
  | FAILURE_POLICY
  | RISK_ENGINE
  | ORCHESTRATOR

primrec value_shadow_outcome_source :: "shadow_outcome_source \<Rightarrow> string" where
    "value_shadow_outcome_source shadow_outcome_source.CHIEF_TRADER = ''CHIEF_TRADER''"
  | "value_shadow_outcome_source shadow_outcome_source.FAILURE_POLICY = ''FAILURE_POLICY''"
  | "value_shadow_outcome_source shadow_outcome_source.RISK_ENGINE = ''RISK_ENGINE''"
  | "value_shadow_outcome_source shadow_outcome_source.ORCHESTRATOR = ''ORCHESTRATOR''"

datatype (plugins only: code) shadow_execution_status =
    NOT_EXECUTED_SHADOW

primrec value_shadow_execution_status :: "shadow_execution_status \<Rightarrow> string" where
    "value_shadow_execution_status shadow_execution_status.NOT_EXECUTED_SHADOW = ''NOT_EXECUTED_SHADOW''"

datatype (plugins only: code) quant_stage_selection =
    SKIP
  | QUANT_RESEARCH_ONLY
  | QUANT_AND_SENIOR_REVIEW

primrec value_quant_stage_selection :: "quant_stage_selection \<Rightarrow> string" where
    "value_quant_stage_selection quant_stage_selection.SKIP = ''SKIP''"
  | "value_quant_stage_selection quant_stage_selection.QUANT_RESEARCH_ONLY = ''QUANT_RESEARCH_ONLY''"
  | "value_quant_stage_selection quant_stage_selection.QUANT_AND_SENIOR_REVIEW = ''QUANT_AND_SENIOR_REVIEW''"

datatype (plugins only: code) feature_availability =
    VALID
  | INSUFFICIENT_HISTORY
  | UNAVAILABLE

primrec value_feature_availability :: "feature_availability \<Rightarrow> string" where
    "value_feature_availability feature_availability.VALID = ''VALID''"
  | "value_feature_availability feature_availability.INSUFFICIENT_HISTORY = ''INSUFFICIENT_HISTORY''"
  | "value_feature_availability feature_availability.UNAVAILABLE = ''UNAVAILABLE''"

datatype (plugins only: code) feature_unit =
    PRICE
  | INDEX
  | RATIO

primrec value_feature_unit :: "feature_unit \<Rightarrow> string" where
    "value_feature_unit feature_unit.PRICE = ''PRICE''"
  | "value_feature_unit feature_unit.INDEX = ''INDEX''"
  | "value_feature_unit feature_unit.RATIO = ''RATIO''"

datatype (plugins only: code) feature_warning_code =
    INSUFFICIENT_HISTORY
  | FEATURE_UNAVAILABLE
  | STALE_SOURCE

primrec value_feature_warning_code :: "feature_warning_code \<Rightarrow> string" where
    "value_feature_warning_code feature_warning_code.INSUFFICIENT_HISTORY = ''INSUFFICIENT_HISTORY''"
  | "value_feature_warning_code feature_warning_code.FEATURE_UNAVAILABLE = ''FEATURE_UNAVAILABLE''"
  | "value_feature_warning_code feature_warning_code.STALE_SOURCE = ''STALE_SOURCE''"

datatype (plugins only: code) feature_error_category =
    INVALID_SNAPSHOT
  | INVALID_CANDLE_ORDER
  | FUTURE_CANDLE
  | INCOMPLETE_CANDLE
  | TIMEFRAME_MISMATCH
  | SYMBOL_MISMATCH
  | CONFIGURATION_INCOMPATIBLE
  | CALCULATION_FAILURE

primrec value_feature_error_category :: "feature_error_category \<Rightarrow> string" where
    "value_feature_error_category feature_error_category.INVALID_SNAPSHOT = ''INVALID_SNAPSHOT''"
  | "value_feature_error_category feature_error_category.INVALID_CANDLE_ORDER = ''INVALID_CANDLE_ORDER''"
  | "value_feature_error_category feature_error_category.FUTURE_CANDLE = ''FUTURE_CANDLE''"
  | "value_feature_error_category feature_error_category.INCOMPLETE_CANDLE = ''INCOMPLETE_CANDLE''"
  | "value_feature_error_category feature_error_category.TIMEFRAME_MISMATCH = ''TIMEFRAME_MISMATCH''"
  | "value_feature_error_category feature_error_category.SYMBOL_MISMATCH = ''SYMBOL_MISMATCH''"
  | "value_feature_error_category feature_error_category.CONFIGURATION_INCOMPATIBLE = ''CONFIGURATION_INCOMPATIBLE''"
  | "value_feature_error_category feature_error_category.CALCULATION_FAILURE = ''CALCULATION_FAILURE''"

datatype (plugins only: code) dataset_partition_kind =
    RESEARCH
  | VALIDATION
  | OUT_OF_SAMPLE

primrec value_dataset_partition_kind :: "dataset_partition_kind \<Rightarrow> string" where
    "value_dataset_partition_kind dataset_partition_kind.RESEARCH = ''RESEARCH''"
  | "value_dataset_partition_kind dataset_partition_kind.VALIDATION = ''VALIDATION''"
  | "value_dataset_partition_kind dataset_partition_kind.OUT_OF_SAMPLE = ''OUT_OF_SAMPLE''"

datatype (plugins only: code) replay_decision_source =
    SCRIPTED
  | SYNTHETIC
  | FAKE_RUNTIME
  | PERSISTED_RECORD

primrec value_replay_decision_source :: "replay_decision_source \<Rightarrow> string" where
    "value_replay_decision_source replay_decision_source.SCRIPTED = ''SCRIPTED''"
  | "value_replay_decision_source replay_decision_source.SYNTHETIC = ''SYNTHETIC''"
  | "value_replay_decision_source replay_decision_source.FAKE_RUNTIME = ''FAKE_RUNTIME''"
  | "value_replay_decision_source replay_decision_source.PERSISTED_RECORD = ''PERSISTED_RECORD''"

datatype (plugins only: code) entry_activation_policy =
    ACTIVE_AT_DECISION_CUTOFF

primrec value_entry_activation_policy :: "entry_activation_policy \<Rightarrow> string" where
    "value_entry_activation_policy entry_activation_policy.ACTIVE_AT_DECISION_CUTOFF = ''ACTIVE_AT_DECISION_CUTOFF''"

datatype (plugins only: code) intrabar_policy =
    MARK_AMBIGUOUS

primrec value_intrabar_policy :: "intrabar_policy \<Rightarrow> string" where
    "value_intrabar_policy intrabar_policy.MARK_AMBIGUOUS = ''MARK_AMBIGUOUS''"

datatype (plugins only: code) outcome_basis =
    THEORETICAL_LEVEL_TOUCH_NO_COSTS

primrec value_outcome_basis :: "outcome_basis \<Rightarrow> string" where
    "value_outcome_basis outcome_basis.THEORETICAL_LEVEL_TOUCH_NO_COSTS = ''THEORETICAL_LEVEL_TOUCH_NO_COSTS''"

datatype (plugins only: code) trade_outcome_status =
    TAKE_PROFIT_REACHED
  | STOP_LOSS_REACHED
  | UNRESOLVED_HORIZON
  | AMBIGUOUS_INTRABAR

primrec value_trade_outcome_status :: "trade_outcome_status \<Rightarrow> string" where
    "value_trade_outcome_status trade_outcome_status.TAKE_PROFIT_REACHED = ''TAKE_PROFIT_REACHED''"
  | "value_trade_outcome_status trade_outcome_status.STOP_LOSS_REACHED = ''STOP_LOSS_REACHED''"
  | "value_trade_outcome_status trade_outcome_status.UNRESOLVED_HORIZON = ''UNRESOLVED_HORIZON''"
  | "value_trade_outcome_status trade_outcome_status.AMBIGUOUS_INTRABAR = ''AMBIGUOUS_INTRABAR''"

datatype (plugins only: code) research_metric_status =
    VALID
  | UNAVAILABLE
  | UNBOUNDED

primrec value_research_metric_status :: "research_metric_status \<Rightarrow> string" where
    "value_research_metric_status research_metric_status.VALID = ''VALID''"
  | "value_research_metric_status research_metric_status.UNAVAILABLE = ''UNAVAILABLE''"
  | "value_research_metric_status research_metric_status.UNBOUNDED = ''UNBOUNDED''"

datatype (plugins only: code) segment_dimension =
    DIRECTION
  | TIMEFRAME
  | PARTITION
  | FEATURE_REGIME
  | VOLATILITY_BUCKET
  | TREND_STRENGTH_BUCKET
  | CHIEF_DECISION
  | SKEPTIC_DECISION

primrec value_segment_dimension :: "segment_dimension \<Rightarrow> string" where
    "value_segment_dimension segment_dimension.DIRECTION = ''DIRECTION''"
  | "value_segment_dimension segment_dimension.TIMEFRAME = ''TIMEFRAME''"
  | "value_segment_dimension segment_dimension.PARTITION = ''PARTITION''"
  | "value_segment_dimension segment_dimension.FEATURE_REGIME = ''FEATURE_REGIME''"
  | "value_segment_dimension segment_dimension.VOLATILITY_BUCKET = ''VOLATILITY_BUCKET''"
  | "value_segment_dimension segment_dimension.TREND_STRENGTH_BUCKET = ''TREND_STRENGTH_BUCKET''"
  | "value_segment_dimension segment_dimension.CHIEF_DECISION = ''CHIEF_DECISION''"
  | "value_segment_dimension segment_dimension.SKEPTIC_DECISION = ''SKEPTIC_DECISION''"

datatype (plugins only: code) qualification_evidence_lifecycle =
    OPEN
  | SEALED
  | EVALUATED

primrec value_qualification_evidence_lifecycle :: "qualification_evidence_lifecycle \<Rightarrow> string" where
    "value_qualification_evidence_lifecycle qualification_evidence_lifecycle.OPEN = ''OPEN''"
  | "value_qualification_evidence_lifecycle qualification_evidence_lifecycle.SEALED = ''SEALED''"
  | "value_qualification_evidence_lifecycle qualification_evidence_lifecycle.EVALUATED = ''EVALUATED''"

datatype (plugins only: code) qualification_evidence_validity =
    VALID
  | EXPIRED
  | INVALIDATED
  | CONTAMINATED

primrec value_qualification_evidence_validity :: "qualification_evidence_validity \<Rightarrow> string" where
    "value_qualification_evidence_validity qualification_evidence_validity.VALID = ''VALID''"
  | "value_qualification_evidence_validity qualification_evidence_validity.EXPIRED = ''EXPIRED''"
  | "value_qualification_evidence_validity qualification_evidence_validity.INVALIDATED = ''INVALIDATED''"
  | "value_qualification_evidence_validity qualification_evidence_validity.CONTAMINATED = ''CONTAMINATED''"

datatype (plugins only: code) graduation_disposition =
    ELIGIBLE_FOR_DEMO_REVIEW
  | NOT_ELIGIBLE

primrec value_graduation_disposition :: "graduation_disposition \<Rightarrow> string" where
    "value_graduation_disposition graduation_disposition.ELIGIBLE_FOR_DEMO_REVIEW = ''ELIGIBLE_FOR_DEMO_REVIEW''"
  | "value_graduation_disposition graduation_disposition.NOT_ELIGIBLE = ''NOT_ELIGIBLE''"

datatype (plugins only: code) qualification_gate_category =
    SAMPLE
  | OPERATIONAL
  | SAFETY
  | COST
  | TRADING
  | PARTITION

primrec value_qualification_gate_category :: "qualification_gate_category \<Rightarrow> string" where
    "value_qualification_gate_category qualification_gate_category.SAMPLE = ''SAMPLE''"
  | "value_qualification_gate_category qualification_gate_category.OPERATIONAL = ''OPERATIONAL''"
  | "value_qualification_gate_category qualification_gate_category.SAFETY = ''SAFETY''"
  | "value_qualification_gate_category qualification_gate_category.COST = ''COST''"
  | "value_qualification_gate_category qualification_gate_category.TRADING = ''TRADING''"
  | "value_qualification_gate_category qualification_gate_category.PARTITION = ''PARTITION''"

datatype (plugins only: code) qualification_gate_status =
    PASS
  | FAIL

primrec value_qualification_gate_status :: "qualification_gate_status \<Rightarrow> string" where
    "value_qualification_gate_status qualification_gate_status.PASS = ''PASS''"
  | "value_qualification_gate_status qualification_gate_status.FAIL = ''FAIL''"

datatype (plugins only: code) qualification_comparator =
    EQUAL
  | LESS_THAN_OR_EQUAL
  | GREATER_THAN_OR_EQUAL

primrec value_qualification_comparator :: "qualification_comparator \<Rightarrow> string" where
    "value_qualification_comparator qualification_comparator.EQUAL = ''EQUAL''"
  | "value_qualification_comparator qualification_comparator.LESS_THAN_OR_EQUAL = ''LESS_THAN_OR_EQUAL''"
  | "value_qualification_comparator qualification_comparator.GREATER_THAN_OR_EQUAL = ''GREATER_THAN_OR_EQUAL''"

datatype (plugins only: code) qualification_metric_status =
    VALID
  | UNCERTAIN
  | UNAVAILABLE

primrec value_qualification_metric_status :: "qualification_metric_status \<Rightarrow> string" where
    "value_qualification_metric_status qualification_metric_status.VALID = ''VALID''"
  | "value_qualification_metric_status qualification_metric_status.UNCERTAIN = ''UNCERTAIN''"
  | "value_qualification_metric_status qualification_metric_status.UNAVAILABLE = ''UNAVAILABLE''"

datatype (plugins only: code) qualification_collection_mode =
    HISTORICAL_REPLAY
  | FORWARD_SHADOW

primrec value_qualification_collection_mode :: "qualification_collection_mode \<Rightarrow> string" where
    "value_qualification_collection_mode qualification_collection_mode.HISTORICAL_REPLAY = ''HISTORICAL_REPLAY''"
  | "value_qualification_collection_mode qualification_collection_mode.FORWARD_SHADOW = ''FORWARD_SHADOW''"

datatype (plugins only: code) qualification_reason_code =
    INSUFFICIENT_EVIDENCE
  | OPERATIONAL_THRESHOLD_FAILED
  | SAFETY_BOUNDARY_VIOLATION
  | COST_THRESHOLD_FAILED
  | TRADING_THRESHOLD_FAILED
  | PARTITION_INELIGIBLE

primrec value_qualification_reason_code :: "qualification_reason_code \<Rightarrow> string" where
    "value_qualification_reason_code qualification_reason_code.INSUFFICIENT_EVIDENCE = ''INSUFFICIENT_EVIDENCE''"
  | "value_qualification_reason_code qualification_reason_code.OPERATIONAL_THRESHOLD_FAILED = ''OPERATIONAL_THRESHOLD_FAILED''"
  | "value_qualification_reason_code qualification_reason_code.SAFETY_BOUNDARY_VIOLATION = ''SAFETY_BOUNDARY_VIOLATION''"
  | "value_qualification_reason_code qualification_reason_code.COST_THRESHOLD_FAILED = ''COST_THRESHOLD_FAILED''"
  | "value_qualification_reason_code qualification_reason_code.TRADING_THRESHOLD_FAILED = ''TRADING_THRESHOLD_FAILED''"
  | "value_qualification_reason_code qualification_reason_code.PARTITION_INELIGIBLE = ''PARTITION_INELIGIBLE''"

datatype (plugins only: code) qualification_incident_category =
    RUNTIME_FAILURE
  | PROVIDER_RUNTIME_FAILURE
  | UNEXPLAINED_ABANDONED_CYCLE
  | TRACE_MISMATCH
  | SCHEMA_VALIDATION_FAILURE
  | SOURCE_REVISION
  | RISK_ENGINE_BYPASS
  | CONFIDENCE_RISK_COUPLING
  | EXECUTION_OR_ORDER_MUTATION
  | DEMO_INVOCATION
  | LIVE_INVOCATION
  | PROVIDER_FALLBACK
  | STRATEGY_MUTATION
  | PROMPT_SELF_MUTATION

primrec value_qualification_incident_category :: "qualification_incident_category \<Rightarrow> string" where
    "value_qualification_incident_category qualification_incident_category.RUNTIME_FAILURE = ''RUNTIME_FAILURE''"
  | "value_qualification_incident_category qualification_incident_category.PROVIDER_RUNTIME_FAILURE = ''PROVIDER_RUNTIME_FAILURE''"
  | "value_qualification_incident_category qualification_incident_category.UNEXPLAINED_ABANDONED_CYCLE = ''UNEXPLAINED_ABANDONED_CYCLE''"
  | "value_qualification_incident_category qualification_incident_category.TRACE_MISMATCH = ''TRACE_MISMATCH''"
  | "value_qualification_incident_category qualification_incident_category.SCHEMA_VALIDATION_FAILURE = ''SCHEMA_VALIDATION_FAILURE''"
  | "value_qualification_incident_category qualification_incident_category.SOURCE_REVISION = ''SOURCE_REVISION''"
  | "value_qualification_incident_category qualification_incident_category.RISK_ENGINE_BYPASS = ''RISK_ENGINE_BYPASS''"
  | "value_qualification_incident_category qualification_incident_category.CONFIDENCE_RISK_COUPLING = ''CONFIDENCE_RISK_COUPLING''"
  | "value_qualification_incident_category qualification_incident_category.EXECUTION_OR_ORDER_MUTATION = ''EXECUTION_OR_ORDER_MUTATION''"
  | "value_qualification_incident_category qualification_incident_category.DEMO_INVOCATION = ''DEMO_INVOCATION''"
  | "value_qualification_incident_category qualification_incident_category.LIVE_INVOCATION = ''LIVE_INVOCATION''"
  | "value_qualification_incident_category qualification_incident_category.PROVIDER_FALLBACK = ''PROVIDER_FALLBACK''"
  | "value_qualification_incident_category qualification_incident_category.STRATEGY_MUTATION = ''STRATEGY_MUTATION''"
  | "value_qualification_incident_category qualification_incident_category.PROMPT_SELF_MUTATION = ''PROMPT_SELF_MUTATION''"

datatype (plugins only: code) qualification_error_category =
    INVALID_EVIDENCE
  | EVIDENCE_NOT_OPEN
  | EVIDENCE_NOT_SEALED
  | EVIDENCE_ALREADY_EVALUATED
  | DIGEST_MISMATCH
  | DEPENDENCY_INCOMPATIBLE
  | ACCEPTANCE_INELIGIBLE
  | PARTITION_VIOLATION
  | PRICING_UNAVAILABLE
  | DUPLICATE_IDENTITY
  | STORAGE_FAILURE

primrec value_qualification_error_category :: "qualification_error_category \<Rightarrow> string" where
    "value_qualification_error_category qualification_error_category.INVALID_EVIDENCE = ''INVALID_EVIDENCE''"
  | "value_qualification_error_category qualification_error_category.EVIDENCE_NOT_OPEN = ''EVIDENCE_NOT_OPEN''"
  | "value_qualification_error_category qualification_error_category.EVIDENCE_NOT_SEALED = ''EVIDENCE_NOT_SEALED''"
  | "value_qualification_error_category qualification_error_category.EVIDENCE_ALREADY_EVALUATED = ''EVIDENCE_ALREADY_EVALUATED''"
  | "value_qualification_error_category qualification_error_category.DIGEST_MISMATCH = ''DIGEST_MISMATCH''"
  | "value_qualification_error_category qualification_error_category.DEPENDENCY_INCOMPATIBLE = ''DEPENDENCY_INCOMPATIBLE''"
  | "value_qualification_error_category qualification_error_category.ACCEPTANCE_INELIGIBLE = ''ACCEPTANCE_INELIGIBLE''"
  | "value_qualification_error_category qualification_error_category.PARTITION_VIOLATION = ''PARTITION_VIOLATION''"
  | "value_qualification_error_category qualification_error_category.PRICING_UNAVAILABLE = ''PRICING_UNAVAILABLE''"
  | "value_qualification_error_category qualification_error_category.DUPLICATE_IDENTITY = ''DUPLICATE_IDENTITY''"
  | "value_qualification_error_category qualification_error_category.STORAGE_FAILURE = ''STORAGE_FAILURE''"

datatype (plugins only: code) demo_execution_state =
    CREATED
  | CLAIMED
  | DISPATCHING
  | SUBMITTED
  | CONFIRMED
  | REJECTED
  | UNKNOWN
  | RECONCILIATION_FAILED

primrec value_demo_execution_state :: "demo_execution_state \<Rightarrow> string" where
    "value_demo_execution_state demo_execution_state.CREATED = ''CREATED''"
  | "value_demo_execution_state demo_execution_state.CLAIMED = ''CLAIMED''"
  | "value_demo_execution_state demo_execution_state.DISPATCHING = ''DISPATCHING''"
  | "value_demo_execution_state demo_execution_state.SUBMITTED = ''SUBMITTED''"
  | "value_demo_execution_state demo_execution_state.CONFIRMED = ''CONFIRMED''"
  | "value_demo_execution_state demo_execution_state.REJECTED = ''REJECTED''"
  | "value_demo_execution_state demo_execution_state.UNKNOWN = ''UNKNOWN''"
  | "value_demo_execution_state demo_execution_state.RECONCILIATION_FAILED = ''RECONCILIATION_FAILED''"

datatype (plugins only: code) execution_control_state =
    DISABLED
  | ENABLED
  | PAUSED
  | HALTED

primrec value_execution_control_state :: "execution_control_state \<Rightarrow> string" where
    "value_execution_control_state execution_control_state.DISABLED = ''DISABLED''"
  | "value_execution_control_state execution_control_state.ENABLED = ''ENABLED''"
  | "value_execution_control_state execution_control_state.PAUSED = ''PAUSED''"
  | "value_execution_control_state execution_control_state.HALTED = ''HALTED''"

datatype (plugins only: code) execution_snapshot_purpose =
    PRE_SEND_REVALIDATION

primrec value_execution_snapshot_purpose :: "execution_snapshot_purpose \<Rightarrow> string" where
    "value_execution_snapshot_purpose execution_snapshot_purpose.PRE_SEND_REVALIDATION = ''PRE_SEND_REVALIDATION''"

datatype (plugins only: code) demo_order_execution_mode =
    REQUEST
  | INSTANT
  | MARKET
  | EXCHANGE

primrec value_demo_order_execution_mode :: "demo_order_execution_mode \<Rightarrow> int" where
    "value_demo_order_execution_mode demo_order_execution_mode.REQUEST = 0"
  | "value_demo_order_execution_mode demo_order_execution_mode.INSTANT = 1"
  | "value_demo_order_execution_mode demo_order_execution_mode.MARKET = 2"
  | "value_demo_order_execution_mode demo_order_execution_mode.EXCHANGE = 3"

datatype (plugins only: code) demo_filling_mode =
    FOK
  | IOC
  | RETURN

primrec value_demo_filling_mode :: "demo_filling_mode \<Rightarrow> string" where
    "value_demo_filling_mode demo_filling_mode.FOK = ''FOK''"
  | "value_demo_filling_mode demo_filling_mode.IOC = ''IOC''"
  | "value_demo_filling_mode demo_filling_mode.RETURN = ''RETURN''"

datatype (plugins only: code) demo_submission_disposition =
    ACCEPTED
  | REJECTED
  | UNKNOWN

primrec value_demo_submission_disposition :: "demo_submission_disposition \<Rightarrow> string" where
    "value_demo_submission_disposition demo_submission_disposition.ACCEPTED = ''ACCEPTED''"
  | "value_demo_submission_disposition demo_submission_disposition.REJECTED = ''REJECTED''"
  | "value_demo_submission_disposition demo_submission_disposition.UNKNOWN = ''UNKNOWN''"

datatype (plugins only: code) demo_reconciliation_status =
    CONFIRMED
  | NOT_FOUND
  | MISMATCH

primrec value_demo_reconciliation_status :: "demo_reconciliation_status \<Rightarrow> string" where
    "value_demo_reconciliation_status demo_reconciliation_status.CONFIRMED = ''CONFIRMED''"
  | "value_demo_reconciliation_status demo_reconciliation_status.NOT_FOUND = ''NOT_FOUND''"
  | "value_demo_reconciliation_status demo_reconciliation_status.MISMATCH = ''MISMATCH''"

datatype (plugins only: code) demo_execution_failure_category =
    QUALIFICATION_INELIGIBLE
  | QUALIFICATION_EVIDENCE_INVALID
  | FAKE_PROVIDER_EVIDENCE
  | ACCEPTANCE_CHAIN_INVALID
  | ENVIRONMENT_ACCEPTANCE_EXPIRED
  | ENVIRONMENT_MISMATCH
  | NON_DEMO_ACCOUNT
  | APPROVAL_MISSING
  | APPROVAL_EXPIRED
  | APPROVAL_REVOKED
  | EXECUTION_DISABLED
  | EXECUTION_PAUSED
  | EXECUTION_HALTED
  | CLAIM_NOT_OWNED
  | ACCOUNT_MISMATCH
  | SYMBOL_MISMATCH
  | TIMESTAMP_SEMANTICS_INVALID
  | STALE_EXECUTION_TICK
  | DECISION_EXPIRED
  | PREFLIGHT_EXPIRED
  | INTENT_EXPIRED
  | SPREAD_LIMIT_EXCEEDED
  | PRICE_DRIFT_EXCEEDED
  | BROKER_METADATA_CHANGED
  | UNSUPPORTED_EXECUTION_MODE
  | UNSUPPORTED_FILLING_MODE
  | OPEN_POSITION_CONFLICT
  | RISK_REJECTED
  | RISK_HALTED
  | FRESH_VOLUME_MISMATCH
  | PROTECTION_UNSUPPORTED
  | DUPLICATE_EXECUTION_INTENT
  | STORAGE_INTEGRITY_FAILURE
  | ORDER_CHECK_REJECTED
  | BROKER_REJECTED
  | DISPATCH_RESULT_UNKNOWN
  | PARTIAL_FILL
  | FILL_OUTSIDE_POLICY
  | PROTECTIVE_LEVEL_MISMATCH
  | BROKER_IDENTITY_MISMATCH
  | UNEXPECTED_BROKER_POSITION
  | RECONCILIATION_TIMEOUT
  | RECONCILIATION_FAILED
  | PROCESS_RESTART
  | ADAPTER_FAILURE
  | UNKNOWN

primrec value_demo_execution_failure_category :: "demo_execution_failure_category \<Rightarrow> string" where
    "value_demo_execution_failure_category demo_execution_failure_category.QUALIFICATION_INELIGIBLE = ''QUALIFICATION_INELIGIBLE''"
  | "value_demo_execution_failure_category demo_execution_failure_category.QUALIFICATION_EVIDENCE_INVALID = ''QUALIFICATION_EVIDENCE_INVALID''"
  | "value_demo_execution_failure_category demo_execution_failure_category.FAKE_PROVIDER_EVIDENCE = ''FAKE_PROVIDER_EVIDENCE''"
  | "value_demo_execution_failure_category demo_execution_failure_category.ACCEPTANCE_CHAIN_INVALID = ''ACCEPTANCE_CHAIN_INVALID''"
  | "value_demo_execution_failure_category demo_execution_failure_category.ENVIRONMENT_ACCEPTANCE_EXPIRED = ''ENVIRONMENT_ACCEPTANCE_EXPIRED''"
  | "value_demo_execution_failure_category demo_execution_failure_category.ENVIRONMENT_MISMATCH = ''ENVIRONMENT_MISMATCH''"
  | "value_demo_execution_failure_category demo_execution_failure_category.NON_DEMO_ACCOUNT = ''NON_DEMO_ACCOUNT''"
  | "value_demo_execution_failure_category demo_execution_failure_category.APPROVAL_MISSING = ''APPROVAL_MISSING''"
  | "value_demo_execution_failure_category demo_execution_failure_category.APPROVAL_EXPIRED = ''APPROVAL_EXPIRED''"
  | "value_demo_execution_failure_category demo_execution_failure_category.APPROVAL_REVOKED = ''APPROVAL_REVOKED''"
  | "value_demo_execution_failure_category demo_execution_failure_category.EXECUTION_DISABLED = ''EXECUTION_DISABLED''"
  | "value_demo_execution_failure_category demo_execution_failure_category.EXECUTION_PAUSED = ''EXECUTION_PAUSED''"
  | "value_demo_execution_failure_category demo_execution_failure_category.EXECUTION_HALTED = ''EXECUTION_HALTED''"
  | "value_demo_execution_failure_category demo_execution_failure_category.CLAIM_NOT_OWNED = ''CLAIM_NOT_OWNED''"
  | "value_demo_execution_failure_category demo_execution_failure_category.ACCOUNT_MISMATCH = ''ACCOUNT_MISMATCH''"
  | "value_demo_execution_failure_category demo_execution_failure_category.SYMBOL_MISMATCH = ''SYMBOL_MISMATCH''"
  | "value_demo_execution_failure_category demo_execution_failure_category.TIMESTAMP_SEMANTICS_INVALID = ''TIMESTAMP_SEMANTICS_INVALID''"
  | "value_demo_execution_failure_category demo_execution_failure_category.STALE_EXECUTION_TICK = ''STALE_EXECUTION_TICK''"
  | "value_demo_execution_failure_category demo_execution_failure_category.DECISION_EXPIRED = ''DECISION_EXPIRED''"
  | "value_demo_execution_failure_category demo_execution_failure_category.PREFLIGHT_EXPIRED = ''PREFLIGHT_EXPIRED''"
  | "value_demo_execution_failure_category demo_execution_failure_category.INTENT_EXPIRED = ''INTENT_EXPIRED''"
  | "value_demo_execution_failure_category demo_execution_failure_category.SPREAD_LIMIT_EXCEEDED = ''SPREAD_LIMIT_EXCEEDED''"
  | "value_demo_execution_failure_category demo_execution_failure_category.PRICE_DRIFT_EXCEEDED = ''PRICE_DRIFT_EXCEEDED''"
  | "value_demo_execution_failure_category demo_execution_failure_category.BROKER_METADATA_CHANGED = ''BROKER_METADATA_CHANGED''"
  | "value_demo_execution_failure_category demo_execution_failure_category.UNSUPPORTED_EXECUTION_MODE = ''UNSUPPORTED_EXECUTION_MODE''"
  | "value_demo_execution_failure_category demo_execution_failure_category.UNSUPPORTED_FILLING_MODE = ''UNSUPPORTED_FILLING_MODE''"
  | "value_demo_execution_failure_category demo_execution_failure_category.OPEN_POSITION_CONFLICT = ''OPEN_POSITION_CONFLICT''"
  | "value_demo_execution_failure_category demo_execution_failure_category.RISK_REJECTED = ''RISK_REJECTED''"
  | "value_demo_execution_failure_category demo_execution_failure_category.RISK_HALTED = ''RISK_HALTED''"
  | "value_demo_execution_failure_category demo_execution_failure_category.FRESH_VOLUME_MISMATCH = ''FRESH_VOLUME_MISMATCH''"
  | "value_demo_execution_failure_category demo_execution_failure_category.PROTECTION_UNSUPPORTED = ''PROTECTION_UNSUPPORTED''"
  | "value_demo_execution_failure_category demo_execution_failure_category.DUPLICATE_EXECUTION_INTENT = ''DUPLICATE_EXECUTION_INTENT''"
  | "value_demo_execution_failure_category demo_execution_failure_category.STORAGE_INTEGRITY_FAILURE = ''STORAGE_INTEGRITY_FAILURE''"
  | "value_demo_execution_failure_category demo_execution_failure_category.ORDER_CHECK_REJECTED = ''ORDER_CHECK_REJECTED''"
  | "value_demo_execution_failure_category demo_execution_failure_category.BROKER_REJECTED = ''BROKER_REJECTED''"
  | "value_demo_execution_failure_category demo_execution_failure_category.DISPATCH_RESULT_UNKNOWN = ''DISPATCH_RESULT_UNKNOWN''"
  | "value_demo_execution_failure_category demo_execution_failure_category.PARTIAL_FILL = ''PARTIAL_FILL''"
  | "value_demo_execution_failure_category demo_execution_failure_category.FILL_OUTSIDE_POLICY = ''FILL_OUTSIDE_POLICY''"
  | "value_demo_execution_failure_category demo_execution_failure_category.PROTECTIVE_LEVEL_MISMATCH = ''PROTECTIVE_LEVEL_MISMATCH''"
  | "value_demo_execution_failure_category demo_execution_failure_category.BROKER_IDENTITY_MISMATCH = ''BROKER_IDENTITY_MISMATCH''"
  | "value_demo_execution_failure_category demo_execution_failure_category.UNEXPECTED_BROKER_POSITION = ''UNEXPECTED_BROKER_POSITION''"
  | "value_demo_execution_failure_category demo_execution_failure_category.RECONCILIATION_TIMEOUT = ''RECONCILIATION_TIMEOUT''"
  | "value_demo_execution_failure_category demo_execution_failure_category.RECONCILIATION_FAILED = ''RECONCILIATION_FAILED''"
  | "value_demo_execution_failure_category demo_execution_failure_category.PROCESS_RESTART = ''PROCESS_RESTART''"
  | "value_demo_execution_failure_category demo_execution_failure_category.ADAPTER_FAILURE = ''ADAPTER_FAILURE''"
  | "value_demo_execution_failure_category demo_execution_failure_category.UNKNOWN = ''UNKNOWN''"

datatype (plugins only: code) replay_error_category =
    INVALID_DATASET
  | DATASET_DIGEST_MISMATCH
  | PARTITION_VIOLATION
  | INVALID_REPLAY_CLOCK
  | FUTURE_DATA_ACCESS
  | MISSING_AS_OF_OBSERVATION
  | SNAPSHOT_REPRODUCTION_FAILURE
  | FEATURE_REPRODUCTION_FAILURE
  | DECISION_NOT_FROZEN
  | INVALID_PROPOSAL
  | INVALID_RISK_LINKAGE
  | INVALID_OUTCOME_DATA
  | INVALID_HORIZON
  | DUPLICATE_REPLAY_RECORD
  | PERSISTENCE_FAILURE

primrec value_replay_error_category :: "replay_error_category \<Rightarrow> string" where
    "value_replay_error_category replay_error_category.INVALID_DATASET = ''INVALID_DATASET''"
  | "value_replay_error_category replay_error_category.DATASET_DIGEST_MISMATCH = ''DATASET_DIGEST_MISMATCH''"
  | "value_replay_error_category replay_error_category.PARTITION_VIOLATION = ''PARTITION_VIOLATION''"
  | "value_replay_error_category replay_error_category.INVALID_REPLAY_CLOCK = ''INVALID_REPLAY_CLOCK''"
  | "value_replay_error_category replay_error_category.FUTURE_DATA_ACCESS = ''FUTURE_DATA_ACCESS''"
  | "value_replay_error_category replay_error_category.MISSING_AS_OF_OBSERVATION = ''MISSING_AS_OF_OBSERVATION''"
  | "value_replay_error_category replay_error_category.SNAPSHOT_REPRODUCTION_FAILURE = ''SNAPSHOT_REPRODUCTION_FAILURE''"
  | "value_replay_error_category replay_error_category.FEATURE_REPRODUCTION_FAILURE = ''FEATURE_REPRODUCTION_FAILURE''"
  | "value_replay_error_category replay_error_category.DECISION_NOT_FROZEN = ''DECISION_NOT_FROZEN''"
  | "value_replay_error_category replay_error_category.INVALID_PROPOSAL = ''INVALID_PROPOSAL''"
  | "value_replay_error_category replay_error_category.INVALID_RISK_LINKAGE = ''INVALID_RISK_LINKAGE''"
  | "value_replay_error_category replay_error_category.INVALID_OUTCOME_DATA = ''INVALID_OUTCOME_DATA''"
  | "value_replay_error_category replay_error_category.INVALID_HORIZON = ''INVALID_HORIZON''"
  | "value_replay_error_category replay_error_category.DUPLICATE_REPLAY_RECORD = ''DUPLICATE_REPLAY_RECORD''"
  | "value_replay_error_category replay_error_category.PERSISTENCE_FAILURE = ''PERSISTENCE_FAILURE''"

datatype (plugins only: code) continuous_runtime_state =
    STOPPED
  | STARTING
  | READY
  | POLLING
  | PROCESSING
  | STOPPING
  | FAULTED

primrec value_continuous_runtime_state :: "continuous_runtime_state \<Rightarrow> string" where
    "value_continuous_runtime_state continuous_runtime_state.STOPPED = ''STOPPED''"
  | "value_continuous_runtime_state continuous_runtime_state.STARTING = ''STARTING''"
  | "value_continuous_runtime_state continuous_runtime_state.READY = ''READY''"
  | "value_continuous_runtime_state continuous_runtime_state.POLLING = ''POLLING''"
  | "value_continuous_runtime_state continuous_runtime_state.PROCESSING = ''PROCESSING''"
  | "value_continuous_runtime_state continuous_runtime_state.STOPPING = ''STOPPING''"
  | "value_continuous_runtime_state continuous_runtime_state.FAULTED = ''FAULTED''"

datatype (plugins only: code) decision_claim_state =
    DISCOVERED
  | CLAIMED
  | PROCESSING
  | COMPLETED
  | FAILED
  | MISSED
  | ABANDONED

primrec value_decision_claim_state :: "decision_claim_state \<Rightarrow> string" where
    "value_decision_claim_state decision_claim_state.DISCOVERED = ''DISCOVERED''"
  | "value_decision_claim_state decision_claim_state.CLAIMED = ''CLAIMED''"
  | "value_decision_claim_state decision_claim_state.PROCESSING = ''PROCESSING''"
  | "value_decision_claim_state decision_claim_state.COMPLETED = ''COMPLETED''"
  | "value_decision_claim_state decision_claim_state.FAILED = ''FAILED''"
  | "value_decision_claim_state decision_claim_state.MISSED = ''MISSED''"
  | "value_decision_claim_state decision_claim_state.ABANDONED = ''ABANDONED''"

datatype (plugins only: code) observation_failure_category =
    MT5_UNAVAILABLE
  | SYMBOL_TIMESTAMP_INELIGIBLE
  | INVALID_COMPLETED_CANDLE
  | DUPLICATE_CANDLE
  | SOURCE_CANDLE_REVISED
  | SNAPSHOT_INVALID
  | SNAPSHOT_CANDLE_MISMATCH
  | SNAPSHOT_ID_CONFLICT
  | STALE_SNAPSHOT
  | FEATURE_FAILURE
  | FEATURE_TRACE_MISMATCH
  | RISK_BASELINE_MISSING
  | RISK_BASELINE_AMBIGUOUS
  | RISK_CONTEXT_INVALID
  | PROVIDER_CONFIGURATION_INELIGIBLE
  | PROVIDER_RUNTIME_FAILURE
  | BUDGET_EXHAUSTED
  | AGENT_FAILURE
  | BACKPRESSURE
  | DECISION_TOO_OLD
  | PROCESS_RESTART
  | STORAGE_FAILURE
  | OUTCOME_SOURCE_FAILURE
  | UNKNOWN

primrec value_observation_failure_category :: "observation_failure_category \<Rightarrow> string" where
    "value_observation_failure_category observation_failure_category.MT5_UNAVAILABLE = ''MT5_UNAVAILABLE''"
  | "value_observation_failure_category observation_failure_category.SYMBOL_TIMESTAMP_INELIGIBLE = ''SYMBOL_TIMESTAMP_INELIGIBLE''"
  | "value_observation_failure_category observation_failure_category.INVALID_COMPLETED_CANDLE = ''INVALID_COMPLETED_CANDLE''"
  | "value_observation_failure_category observation_failure_category.DUPLICATE_CANDLE = ''DUPLICATE_CANDLE''"
  | "value_observation_failure_category observation_failure_category.SOURCE_CANDLE_REVISED = ''SOURCE_CANDLE_REVISED''"
  | "value_observation_failure_category observation_failure_category.SNAPSHOT_INVALID = ''SNAPSHOT_INVALID''"
  | "value_observation_failure_category observation_failure_category.SNAPSHOT_CANDLE_MISMATCH = ''SNAPSHOT_CANDLE_MISMATCH''"
  | "value_observation_failure_category observation_failure_category.SNAPSHOT_ID_CONFLICT = ''SNAPSHOT_ID_CONFLICT''"
  | "value_observation_failure_category observation_failure_category.STALE_SNAPSHOT = ''STALE_SNAPSHOT''"
  | "value_observation_failure_category observation_failure_category.FEATURE_FAILURE = ''FEATURE_FAILURE''"
  | "value_observation_failure_category observation_failure_category.FEATURE_TRACE_MISMATCH = ''FEATURE_TRACE_MISMATCH''"
  | "value_observation_failure_category observation_failure_category.RISK_BASELINE_MISSING = ''RISK_BASELINE_MISSING''"
  | "value_observation_failure_category observation_failure_category.RISK_BASELINE_AMBIGUOUS = ''RISK_BASELINE_AMBIGUOUS''"
  | "value_observation_failure_category observation_failure_category.RISK_CONTEXT_INVALID = ''RISK_CONTEXT_INVALID''"
  | "value_observation_failure_category observation_failure_category.PROVIDER_CONFIGURATION_INELIGIBLE = ''PROVIDER_CONFIGURATION_INELIGIBLE''"
  | "value_observation_failure_category observation_failure_category.PROVIDER_RUNTIME_FAILURE = ''PROVIDER_RUNTIME_FAILURE''"
  | "value_observation_failure_category observation_failure_category.BUDGET_EXHAUSTED = ''BUDGET_EXHAUSTED''"
  | "value_observation_failure_category observation_failure_category.AGENT_FAILURE = ''AGENT_FAILURE''"
  | "value_observation_failure_category observation_failure_category.BACKPRESSURE = ''BACKPRESSURE''"
  | "value_observation_failure_category observation_failure_category.DECISION_TOO_OLD = ''DECISION_TOO_OLD''"
  | "value_observation_failure_category observation_failure_category.PROCESS_RESTART = ''PROCESS_RESTART''"
  | "value_observation_failure_category observation_failure_category.STORAGE_FAILURE = ''STORAGE_FAILURE''"
  | "value_observation_failure_category observation_failure_category.OUTCOME_SOURCE_FAILURE = ''OUTCOME_SOURCE_FAILURE''"
  | "value_observation_failure_category observation_failure_category.UNKNOWN = ''UNKNOWN''"

datatype (plugins only: code) risk_baseline_state =
    ACTIVE
  | SUPERSEDED
  | INVALIDATED

primrec value_risk_baseline_state :: "risk_baseline_state \<Rightarrow> string" where
    "value_risk_baseline_state risk_baseline_state.ACTIVE = ''ACTIVE''"
  | "value_risk_baseline_state risk_baseline_state.SUPERSEDED = ''SUPERSEDED''"
  | "value_risk_baseline_state risk_baseline_state.INVALIDATED = ''INVALIDATED''"

datatype (plugins only: code) risk_baseline_provenance =
    OPERATOR_ATTESTED
  | EXTERNAL_LEDGER_RECONCILED
  | MIGRATED_VERIFIED

primrec value_risk_baseline_provenance :: "risk_baseline_provenance \<Rightarrow> string" where
    "value_risk_baseline_provenance risk_baseline_provenance.OPERATOR_ATTESTED = ''OPERATOR_ATTESTED''"
  | "value_risk_baseline_provenance risk_baseline_provenance.EXTERNAL_LEDGER_RECONCILED = ''EXTERNAL_LEDGER_RECONCILED''"
  | "value_risk_baseline_provenance risk_baseline_provenance.MIGRATED_VERIFIED = ''MIGRATED_VERIFIED''"

datatype (plugins only: code) m9_decision_disposition =
    SHADOW_RECORDED
  | POLICY_HOLD
  | FAILED
  | MISSED
  | ABANDONED

primrec value_m9_decision_disposition :: "m9_decision_disposition \<Rightarrow> string" where
    "value_m9_decision_disposition m9_decision_disposition.SHADOW_RECORDED = ''SHADOW_RECORDED''"
  | "value_m9_decision_disposition m9_decision_disposition.POLICY_HOLD = ''POLICY_HOLD''"
  | "value_m9_decision_disposition m9_decision_disposition.FAILED = ''FAILED''"
  | "value_m9_decision_disposition m9_decision_disposition.MISSED = ''MISSED''"
  | "value_m9_decision_disposition m9_decision_disposition.ABANDONED = ''ABANDONED''"

datatype (plugins only: code) outcome_tracking_state =
    PENDING
  | RESOLVED
  | AMBIGUOUS
  | UNRESOLVED_HORIZON
  | FAILED

primrec value_outcome_tracking_state :: "outcome_tracking_state \<Rightarrow> string" where
    "value_outcome_tracking_state outcome_tracking_state.PENDING = ''PENDING''"
  | "value_outcome_tracking_state outcome_tracking_state.RESOLVED = ''RESOLVED''"
  | "value_outcome_tracking_state outcome_tracking_state.AMBIGUOUS = ''AMBIGUOUS''"
  | "value_outcome_tracking_state outcome_tracking_state.UNRESOLVED_HORIZON = ''UNRESOLVED_HORIZON''"
  | "value_outcome_tracking_state outcome_tracking_state.FAILED = ''FAILED''"

section \<open>Values identify members\<close>

text \<open>
  Digests and stored rows carry the value of a member, so the values of the enums that take part
  in the execution protocol must be distinct.
\<close>

lemma value_demo_execution_state_inj: "inj value_demo_execution_state"
proof (rule injI)
  fix x y assume "value_demo_execution_state x = value_demo_execution_state y"
  then show "x = y" by (cases x; cases y) simp_all
qed

lemma value_execution_control_state_inj: "inj value_execution_control_state"
proof (rule injI)
  fix x y assume "value_execution_control_state x = value_execution_control_state y"
  then show "x = y" by (cases x; cases y) simp_all
qed

lemma value_budget_reservation_state_inj: "inj value_budget_reservation_state"
proof (rule injI)
  fix x y assume "value_budget_reservation_state x = value_budget_reservation_state y"
  then show "x = y" by (cases x; cases y) simp_all
qed

section \<open>Risk states are ordered by severity\<close>

primrec severity :: "risk_state \<Rightarrow> nat" where
  "severity risk_state.NORMAL = 0"
| "severity risk_state.CAUTION = 1"
| "severity risk_state.SAFE_MODE = 2"
| "severity risk_state.HALTED = 3"

lemma severity_inj: "severity s = severity t \<Longrightarrow> s = t"
  by (cases s; cases t) simp_all

instantiation risk_state :: linorder
begin

definition less_eq_risk_state :: "risk_state \<Rightarrow> risk_state \<Rightarrow> bool" where
  "less_eq_risk_state s t \<longleftrightarrow> severity s \<le> severity t"

definition less_risk_state :: "risk_state \<Rightarrow> risk_state \<Rightarrow> bool" where
  "less_risk_state s t \<longleftrightarrow> severity s < severity t"

instance
  by standard (auto simp: less_eq_risk_state_def less_risk_state_def intro: severity_inj)

end

end
