(* ===== verification/SchemaCommon.thy ===== *)
theory SchemaCommon
  imports PyDecimal Enums
begin

text \<open>
  \<open>schemas/common.py\<close>: the constrained scalar types of the boundary contracts, as predicates on
  the normalised value, and the exceptions the modelled code raises.

  A pydantic class becomes a record (its fields prefixed with the initials of the class, so that
  equal field names of different classes stay apart), a predicate \<open>fields_<class>\<close> for the
  constraints of its annotated fields, \<open>validate_<class>\<close> for its model validators, and
  \<open>ok_<class>\<close> for both. Building an instance from values of the declared types succeeds exactly
  when \<open>ok_<class>\<close> holds and raises \<open>ValidationError\<close> otherwise; nested instances are already
  validated and frozen, and pydantic does not validate them again.

  Characters stand for code points; strings are taken to be ASCII where the source's patterns or
  case folding look at them.
\<close>

datatype (plugins only: code) market_data_error_category =
    MISSING_SYMBOL
  | STALE_TICK
  | INSUFFICIENT_CANDLE_HISTORY
  | INCONSISTENT_TIMESTAMPS
  | INVALID_TIMEFRAME_DATA
  | SNAPSHOT_COMPOSITION_FAILURE

datatype (plugins only: code) mt5_error_category =
    DEPENDENCY_UNAVAILABLE
  | NOT_INITIALIZED
  | INITIALIZATION_ERROR
  | AUTHENTICATION_ERROR
  | TERMINAL_UNAVAILABLE
  | ACCOUNT_INFO_ERROR
  | SYMBOL_UNAVAILABLE
  | SYMBOL_NOT_SELECTED
  | SYMBOL_INFO_ERROR
  | TICK_ERROR
  | CANDLE_DATA_ERROR
  | POSITION_DATA_ERROR
  | DATA_MAPPING_ERROR
  | INVALID_REQUEST

datatype py_exception =
    ValueError string
  | ValidationError string
  | KeyError string
  | TypeError string
  | DecimalSignal decimal_signal
  | IndexError string
  | AttributeError string
  | PermissionError string
  | PromptRegistryError string
  | StartupPolicyError string
  | TimeoutError
  | AssertionError
  | IntegrityError
  | StorageError string
  | ExternalError
  | DemoExecutionError demo_execution_failure_category string
  | RuntimeInvocationError runtime_failure_category string
  | ReplayError replay_error_category string
  | RuntimeError string
  | ProviderError runtime_failure_category string bool bool
  | FeatureEngineError feature_error_category string
  | MarketDataError market_data_error_category string
  | MT5ClientError mt5_error_category string string "int option"
  | OverflowError string
  | ShadowPreflightError string
  | DuplicateCycleError
  | ObservationRuntimeError observation_failure_category string
  | SymbolTimestampIneligible string
  | ProviderConfigurationIneligible string
  | QualificationError qualification_error_category string
  | ProcessExit

type_synonym 'a fallible = "py_exception + 'a"

definition lift_dec :: "decimal_signal + 'a \<Rightarrow> 'a fallible" where
  "lift_dec m = (case m of Inl s \<Rightarrow> Inl (DecimalSignal s) | Inr x \<Rightarrow> Inr x)"

lemma lift_dec_Inr [result_simps]: "lift_dec m = Inr x \<longleftrightarrow> m = Inr x"
  by (cases m) (auto simp: lift_dec_def)

lemma lift_dec_Inl [result_simps]: "lift_dec m = Inl e \<longleftrightarrow> (\<exists>s. m = Inl s \<and> e = DecimalSignal s)"
  by (cases m) (auto simp: lift_dec_def)

text \<open>\<open>isinstance(e, ValueError)\<close>: pydantic's validation error is one, and so is the preflight error.\<close>

definition is_value_error :: "py_exception \<Rightarrow> bool" where
  "is_value_error e \<longleftrightarrow> (case e of
     ValueError m \<Rightarrow> True | ValidationError m \<Rightarrow> True | ShadowPreflightError m \<Rightarrow> True |
     SymbolTimestampIneligible m \<Rightarrow> True | ProviderConfigurationIneligible m \<Rightarrow> True | _ \<Rightarrow> False)"

text \<open>Building a model: the instance, or the validation error naming the class.\<close>

definition build :: "string \<Rightarrow> ('a \<Rightarrow> bool) \<Rightarrow> 'a \<Rightarrow> 'a fallible" where
  "build cls ok r = (if ok r then Inr r else Inl (ValidationError cls))"

lemma build_Inr [result_simps]: "build cls ok r = Inr r' \<longleftrightarrow> r' = r \<and> ok r"
  by (auto simp: build_def)

lemma build_Inl [result_simps]: "build cls ok r = Inl e \<longleftrightarrow> e = ValidationError cls \<and> \<not> ok r"
  by (auto simp: build_def)

lemma build_ok [simp]: "ok r \<Longrightarrow> build cls ok r = Inr r"
  by (simp add: build_def)

section \<open>Character classes and patterns\<close>

definition code_of :: "char \<Rightarrow> nat" where
  "code_of c = of_char c"

definition is_space_char :: "char \<Rightarrow> bool" where
  "is_space_char c \<longleftrightarrow> (9 \<le> code_of c \<and> code_of c \<le> 13) \<or> code_of c = 32"

definition is_digit_char :: "char \<Rightarrow> bool" where
  "is_digit_char c \<longleftrightarrow> 48 \<le> code_of c \<and> code_of c \<le> 57"

text \<open>\<open>str.strip()\<close> and pydantic's \<open>strip_whitespace\<close> differ on four ASCII separators.\<close>

definition strip_of :: "(char \<Rightarrow> bool) \<Rightarrow> string \<Rightarrow> string" where
  "strip_of space s = rev (dropWhile space (rev (dropWhile space s)))"

definition blank :: "string \<Rightarrow> bool" where
  "blank s \<longleftrightarrow> list_all (\<lambda>c. is_space_char c \<or> 28 \<le> code_of c \<and> code_of c \<le> 31) s"

definition is_lower_char :: "char \<Rightarrow> bool" where
  "is_lower_char c \<longleftrightarrow> 97 \<le> code_of c \<and> code_of c \<le> 122"

definition is_upper_char :: "char \<Rightarrow> bool" where
  "is_upper_char c \<longleftrightarrow> 65 \<le> code_of c \<and> code_of c \<le> 90"

definition is_hex_char :: "char \<Rightarrow> bool" where
  "is_hex_char c \<longleftrightarrow> is_digit_char c \<or> (97 \<le> code_of c \<and> code_of c \<le> 102)"

definition is_alnum_char :: "char \<Rightarrow> bool" where
  "is_alnum_char c \<longleftrightarrow> is_digit_char c \<or> is_lower_char c \<or> is_upper_char c"

text \<open>A value that \<open>strip_whitespace\<close> leaves unchanged.\<close>

definition is_stripped :: "string \<Rightarrow> bool" where
  "is_stripped s \<longleftrightarrow> s = [] \<or> (\<not> is_space_char (hd s) \<and> \<not> is_space_char (last s))"

text \<open>\<open>^[A-Za-z0-9][A-Za-z0-9._:-]*$\<close>\<close>

definition matches_trace_id :: "string \<Rightarrow> bool" where
  "matches_trace_id s \<longleftrightarrow>
     s \<noteq> [] \<and> is_alnum_char (hd s) \<and> list_all (\<lambda>c. is_alnum_char c \<or> c \<in> set ''._:-'') (tl s)"

definition has_hex64_tail :: "string \<Rightarrow> string \<Rightarrow> bool" where
  "has_hex64_tail p s \<longleftrightarrow>
     take (length p) s = p \<and> length (drop (length p) s) = 64 \<and> list_all is_hex_char (drop (length p) s)"

text \<open>\<open>^\d+\.\d+\.\d+$\<close>\<close>

definition matches_version :: "string \<Rightarrow> bool" where
  "matches_version s \<longleftrightarrow>
     (let a = takeWhile is_digit_char s; r = drop (length a) s;
          b = takeWhile is_digit_char (tl r); q = drop (length b) (tl r)
      in a \<noteq> [] \<and> r \<noteq> [] \<and> hd r = CHR ''.'' \<and> b \<noteq> [] \<and> q \<noteq> [] \<and> hd q = CHR ''.'' \<and>
         tl q \<noteq> [] \<and> list_all is_digit_char (tl q))"

section \<open>Constrained scalar types\<close>

definition is_cycle_id :: "string \<Rightarrow> bool" where
  "is_cycle_id s \<longleftrightarrow> is_stripped s \<and> 1 \<le> length s \<and> length s \<le> 128 \<and> matches_trace_id s"

definition is_snapshot_id :: "string \<Rightarrow> bool" where
  "is_snapshot_id s \<longleftrightarrow> is_stripped s \<and> 1 \<le> length s \<and> length s \<le> 128 \<and> matches_trace_id s"

definition is_account_reference :: "string \<Rightarrow> bool" where
  "is_account_reference s \<longleftrightarrow> has_hex64_tail ''acct-v1:'' s"

definition is_environment_reference :: "string \<Rightarrow> bool" where
  "is_environment_reference s \<longleftrightarrow> has_hex64_tail ''env-v1:'' s"

definition is_schema_version :: "string \<Rightarrow> bool" where
  "is_schema_version s \<longleftrightarrow> is_stripped s \<and> matches_version s"

definition is_symbol :: "string \<Rightarrow> bool" where
  "is_symbol s \<longleftrightarrow> is_stripped s \<and> 1 \<le> length s \<and> length s \<le> 64"

definition is_agent_name :: "string \<Rightarrow> bool" where
  "is_agent_name s \<longleftrightarrow> is_stripped s \<and> 1 \<le> length s \<and> length s \<le> 128"

definition is_identifier :: "string \<Rightarrow> bool" where
  "is_identifier s \<longleftrightarrow> is_stripped s \<and> 1 \<le> length s \<and> length s \<le> 128"

definition is_content_digest :: "string \<Rightarrow> bool" where
  "is_content_digest s \<longleftrightarrow> has_hex64_tail ''sha256:'' s"

definition is_currency :: "string \<Rightarrow> bool" where
  "is_currency s \<longleftrightarrow> length s = 3 \<and> list_all is_upper_char s"

definition is_comment_prefix :: "string \<Rightarrow> bool" where
  "is_comment_prefix s \<longleftrightarrow> s \<noteq> [] \<and> list_all (\<lambda>c. is_alnum_char c \<or> c \<in> set ''_-'') s"

definition is_log_level :: "string \<Rightarrow> bool" where
  "is_log_level s \<longleftrightarrow> s \<in> {''DEBUG'', ''INFO'', ''WARNING'', ''ERROR'', ''CRITICAL''}"

definition is_mt5_server :: "string \<Rightarrow> bool" where
  "is_mt5_server s \<longleftrightarrow> is_stripped s \<and> 1 \<le> length s \<and> length s \<le> 255"

definition is_non_negative_decimal :: "decimal \<Rightarrow> bool" where
  "is_non_negative_decimal x \<longleftrightarrow> 0 \<le> x"

definition is_positive_decimal :: "decimal \<Rightarrow> bool" where
  "is_positive_decimal x \<longleftrightarrow> 0 < x"

definition is_percentage :: "decimal \<Rightarrow> bool" where
  "is_percentage x \<longleftrightarrow> 0 \<le> x \<and> x \<le> 100"

definition is_per_trade_risk_percentage :: "decimal \<Rightarrow> bool" where
  "is_per_trade_risk_percentage x \<longleftrightarrow> 0 \<le> x \<and> x \<le> 1"

definition is_confidence :: "decimal \<Rightarrow> bool" where
  "is_confidence x \<longleftrightarrow> 0 \<le> x \<and> x \<le> 1"

definition is_rate :: "decimal \<Rightarrow> bool" where
  "is_rate x \<longleftrightarrow> 0 \<le> x \<and> x \<le> 1"

definition is_non_negative_int :: "int \<Rightarrow> bool" where
  "is_non_negative_int n \<longleftrightarrow> 0 \<le> n"

definition is_positive_int :: "int \<Rightarrow> bool" where
  "is_positive_int n \<longleftrightarrow> 0 < n"

lemmas scalar_defs = is_non_negative_decimal_def is_positive_decimal_def is_percentage_def
  is_per_trade_risk_percentage_def is_confidence_def is_rate_def is_non_negative_int_def
  is_positive_int_def

section \<open>Exported values\<close>

text \<open>
  \<open>model_dump(mode="python")\<close> and the payload dicts of the identifier functions produce values of
  this shape; the canonical serialisation of theory \<open>Serialization\<close> consumes them.
\<close>

datatype pyval =
    PNone
  | PBool bool
  | PInt int
  | PDec decimal
  | PStr string
  | PTime instant
  | PDate int
  | PDelta duration
  | PList "pyval list"
  | PSet "pyval list"
  | PDict "(string \<times> pyval) list"

definition dump_option :: "('a \<Rightarrow> pyval) \<Rightarrow> 'a option \<Rightarrow> pyval" where
  "dump_option f x = (case x of None \<Rightarrow> PNone | Some y \<Rightarrow> f y)"

end
