(* ===== verification/MarketSchemas.thy ===== *)
theory MarketSchemas
  imports SchemaCommon
begin

text \<open>
  \<open>schemas/timeframes.py\<close>, \<open>schemas/mt5.py\<close> and \<open>schemas/market.py\<close>: broker observations and the
  market snapshot every decision starts from.
\<close>

section \<open>Timeframes\<close>

primrec timeframe_duration :: "timeframe \<Rightarrow> duration" where
  "timeframe_duration timeframe.M15 = seconds 900"
| "timeframe_duration timeframe.H1 = seconds 3600"
| "timeframe_duration timeframe.H4 = seconds 14400"

lemma timeframe_duration_pos [simp]: "0 < timeframe_duration tf"
  by (cases tf) (simp_all add: seconds_def)

section \<open>Terminal observations\<close>

record mt5_terminal_health =
  mth_schema_version :: string
  mth_retrieved_at :: instant
  mth_connection_state :: mt5_connection_state
  mth_authenticated :: bool
  mth_package_version :: string
  mth_terminal_version :: "string option"
  mth_terminal_build :: "int option"
  mth_terminal_name :: "string option"
  mth_terminal_company :: "string option"
  mth_trade_api_disabled :: "bool option"

definition fields_mt5_terminal_health :: "mt5_terminal_health \<Rightarrow> bool" where
  "fields_mt5_terminal_health r \<longleftrightarrow>
     is_schema_version (mth_schema_version r) \<and>
     pred_option (\<lambda>x. is_non_negative_int x) (mth_terminal_build r)"

definition dump_mt5_terminal_health :: "mt5_terminal_health \<Rightarrow> pyval" where
  "dump_mt5_terminal_health r = PDict [
     (''schema_version'', PStr (mth_schema_version r)),
     (''retrieved_at'', PTime (mth_retrieved_at r)),
     (''connection_state'', PStr (value_mt5_connection_state (mth_connection_state r))),
     (''authenticated'', PBool (mth_authenticated r)),
     (''package_version'', PStr (mth_package_version r)),
     (''terminal_version'', dump_option (\<lambda>x. PStr x) (mth_terminal_version r)),
     (''terminal_build'', dump_option (\<lambda>x. PInt x) (mth_terminal_build r)),
     (''terminal_name'', dump_option (\<lambda>x. PStr x) (mth_terminal_name r)),
     (''terminal_company'', dump_option (\<lambda>x. PStr x) (mth_terminal_company r)),
     (''trade_api_disabled'', dump_option (\<lambda>x. PBool x) (mth_trade_api_disabled r))]"

record mt5_account_info =
  mai_schema_version :: string
  mai_retrieved_at :: instant
  mai_account_id :: int
  mai_trade_mode :: broker_account_mode
  mai_leverage :: int
  mai_limit_orders :: int
  mai_margin_stop_out_mode :: int
  mai_trade_allowed :: bool
  mai_expert_trading_allowed :: bool
  mai_margin_mode :: int
  mai_currency_digits :: int
  mai_fifo_close :: bool
  mai_balance :: decimal
  mai_credit :: decimal
  mai_profit :: decimal
  mai_equity :: decimal
  mai_margin :: decimal
  mai_margin_free :: decimal
  mai_margin_level :: decimal
  mai_margin_stop_out_call :: decimal
  mai_margin_stop_out_stop :: decimal
  mai_margin_initial :: decimal
  mai_margin_maintenance :: decimal
  mai_assets :: decimal
  mai_liabilities :: decimal
  mai_commission_blocked :: decimal
  mai_currency :: string
  mai_server :: string
  mai_company :: string

definition fields_mt5_account_info :: "mt5_account_info \<Rightarrow> bool" where
  "fields_mt5_account_info r \<longleftrightarrow>
     is_schema_version (mai_schema_version r) \<and>
     is_positive_int (mai_account_id r) \<and>
     is_positive_int (mai_leverage r) \<and>
     is_non_negative_int (mai_limit_orders r) \<and>
     is_non_negative_int (mai_margin_stop_out_mode r) \<and>
     is_non_negative_int (mai_margin_mode r) \<and>
     is_non_negative_int (mai_currency_digits r)"

definition dump_mt5_account_info :: "mt5_account_info \<Rightarrow> pyval" where
  "dump_mt5_account_info r = PDict [
     (''schema_version'', PStr (mai_schema_version r)),
     (''retrieved_at'', PTime (mai_retrieved_at r)),
     (''account_id'', PInt (mai_account_id r)),
     (''trade_mode'', PInt (value_broker_account_mode (mai_trade_mode r))),
     (''leverage'', PInt (mai_leverage r)),
     (''limit_orders'', PInt (mai_limit_orders r)),
     (''margin_stop_out_mode'', PInt (mai_margin_stop_out_mode r)),
     (''trade_allowed'', PBool (mai_trade_allowed r)),
     (''expert_trading_allowed'', PBool (mai_expert_trading_allowed r)),
     (''margin_mode'', PInt (mai_margin_mode r)),
     (''currency_digits'', PInt (mai_currency_digits r)),
     (''fifo_close'', PBool (mai_fifo_close r)),
     (''balance'', PDec (mai_balance r)),
     (''credit'', PDec (mai_credit r)),
     (''profit'', PDec (mai_profit r)),
     (''equity'', PDec (mai_equity r)),
     (''margin'', PDec (mai_margin r)),
     (''margin_free'', PDec (mai_margin_free r)),
     (''margin_level'', PDec (mai_margin_level r)),
     (''margin_stop_out_call'', PDec (mai_margin_stop_out_call r)),
     (''margin_stop_out_stop'', PDec (mai_margin_stop_out_stop r)),
     (''margin_initial'', PDec (mai_margin_initial r)),
     (''margin_maintenance'', PDec (mai_margin_maintenance r)),
     (''assets'', PDec (mai_assets r)),
     (''liabilities'', PDec (mai_liabilities r)),
     (''commission_blocked'', PDec (mai_commission_blocked r)),
     (''currency'', PStr (mai_currency r)),
     (''server'', PStr (mai_server r)),
     (''company'', PStr (mai_company r))]"

record mt5_symbol_info =
  msi_schema_version :: string
  msi_retrieved_at :: instant
  msi_symbol :: string
  msi_description :: string
  msi_path :: string
  msi_selected :: bool
  msi_visible :: bool
  msi_digits :: int
  msi_point :: decimal
  msi_trade_tick_size :: decimal
  msi_trade_tick_value :: decimal
  msi_trade_contract_size :: decimal
  msi_volume_min :: decimal
  msi_volume_max :: decimal
  msi_volume_step :: decimal
  msi_trade_stops_level :: int
  msi_trade_freeze_level :: int
  msi_currency_base :: string
  msi_currency_profit :: string
  msi_trading_mode :: symbol_trade_mode

definition fields_mt5_symbol_info :: "mt5_symbol_info \<Rightarrow> bool" where
  "fields_mt5_symbol_info r \<longleftrightarrow>
     is_schema_version (msi_schema_version r) \<and>
     is_symbol (msi_symbol r) \<and>
     is_non_negative_int (msi_digits r) \<and>
     is_non_negative_decimal (msi_point r) \<and>
     is_non_negative_decimal (msi_trade_tick_size r) \<and>
     is_non_negative_decimal (msi_trade_contract_size r) \<and>
     is_non_negative_decimal (msi_volume_min r) \<and>
     is_non_negative_decimal (msi_volume_max r) \<and>
     is_non_negative_decimal (msi_volume_step r) \<and>
     is_non_negative_int (msi_trade_stops_level r) \<and>
     is_non_negative_int (msi_trade_freeze_level r)"

definition dump_mt5_symbol_info :: "mt5_symbol_info \<Rightarrow> pyval" where
  "dump_mt5_symbol_info r = PDict [
     (''schema_version'', PStr (msi_schema_version r)),
     (''retrieved_at'', PTime (msi_retrieved_at r)),
     (''symbol'', PStr (msi_symbol r)),
     (''description'', PStr (msi_description r)),
     (''path'', PStr (msi_path r)),
     (''selected'', PBool (msi_selected r)),
     (''visible'', PBool (msi_visible r)),
     (''digits'', PInt (msi_digits r)),
     (''point'', PDec (msi_point r)),
     (''trade_tick_size'', PDec (msi_trade_tick_size r)),
     (''trade_tick_value'', PDec (msi_trade_tick_value r)),
     (''trade_contract_size'', PDec (msi_trade_contract_size r)),
     (''volume_min'', PDec (msi_volume_min r)),
     (''volume_max'', PDec (msi_volume_max r)),
     (''volume_step'', PDec (msi_volume_step r)),
     (''trade_stops_level'', PInt (msi_trade_stops_level r)),
     (''trade_freeze_level'', PInt (msi_trade_freeze_level r)),
     (''currency_base'', PStr (msi_currency_base r)),
     (''currency_profit'', PStr (msi_currency_profit r)),
     (''trading_mode'', PInt (value_symbol_trade_mode (msi_trading_mode r)))]"

record mt5_tick =
  mt_schema_version :: string
  mt_retrieved_at :: instant
  mt_symbol :: string
  mt_source_time :: instant
  mt_bid :: decimal
  mt_ask :: decimal
  mt_spread :: decimal
  mt_last :: decimal
  mt_volume :: decimal
  mt_flags :: int

definition fields_mt5_tick :: "mt5_tick \<Rightarrow> bool" where
  "fields_mt5_tick r \<longleftrightarrow>
     is_schema_version (mt_schema_version r) \<and>
     is_symbol (mt_symbol r) \<and>
     is_non_negative_decimal (mt_spread r) \<and>
     is_non_negative_decimal (mt_volume r) \<and>
     is_non_negative_int (mt_flags r)"

definition dump_mt5_tick :: "mt5_tick \<Rightarrow> pyval" where
  "dump_mt5_tick r = PDict [
     (''schema_version'', PStr (mt_schema_version r)),
     (''retrieved_at'', PTime (mt_retrieved_at r)),
     (''symbol'', PStr (mt_symbol r)),
     (''source_time'', PTime (mt_source_time r)),
     (''bid'', PDec (mt_bid r)),
     (''ask'', PDec (mt_ask r)),
     (''spread'', PDec (mt_spread r)),
     (''last'', PDec (mt_last r)),
     (''volume'', PDec (mt_volume r)),
     (''flags'', PInt (mt_flags r))]"

record mt5_candle =
  mc_schema_version :: string
  mc_retrieved_at :: instant
  mc_symbol :: string
  mc_timeframe :: timeframe
  mc_open_time :: instant
  mc_open :: decimal
  mc_high :: decimal
  mc_low :: decimal
  mc_close :: decimal
  mc_tick_volume :: int
  mc_broker_spread_points :: int
  mc_real_volume :: int

definition fields_mt5_candle :: "mt5_candle \<Rightarrow> bool" where
  "fields_mt5_candle r \<longleftrightarrow>
     is_schema_version (mc_schema_version r) \<and>
     is_symbol (mc_symbol r) \<and>
     is_non_negative_int (mc_tick_volume r) \<and>
     is_non_negative_int (mc_broker_spread_points r) \<and>
     is_non_negative_int (mc_real_volume r)"

definition dump_mt5_candle :: "mt5_candle \<Rightarrow> pyval" where
  "dump_mt5_candle r = PDict [
     (''schema_version'', PStr (mc_schema_version r)),
     (''retrieved_at'', PTime (mc_retrieved_at r)),
     (''symbol'', PStr (mc_symbol r)),
     (''timeframe'', PStr (value_timeframe (mc_timeframe r))),
     (''open_time'', PTime (mc_open_time r)),
     (''open'', PDec (mc_open r)),
     (''high'', PDec (mc_high r)),
     (''low'', PDec (mc_low r)),
     (''close'', PDec (mc_close r)),
     (''tick_volume'', PInt (mc_tick_volume r)),
     (''broker_spread_points'', PInt (mc_broker_spread_points r)),
     (''real_volume'', PInt (mc_real_volume r))]"

record mt5_open_position =
  mop_schema_version :: string
  mop_retrieved_at :: instant
  mop_ticket :: int
  mop_identifier :: int
  mop_symbol :: string
  mop_side :: broker_position_side
  mop_volume :: decimal
  mop_open_time :: instant
  mop_update_time :: instant
  mop_price_open :: decimal
  mop_stop_loss :: decimal
  mop_take_profit :: decimal
  mop_price_current :: decimal
  mop_swap :: decimal
  mop_profit :: decimal
  mop_magic :: int
  mop_reason :: int
  mop_comment :: string
  mop_external_id :: string

definition fields_mt5_open_position :: "mt5_open_position \<Rightarrow> bool" where
  "fields_mt5_open_position r \<longleftrightarrow>
     is_schema_version (mop_schema_version r) \<and>
     is_positive_int (mop_ticket r) \<and>
     is_positive_int (mop_identifier r) \<and>
     is_symbol (mop_symbol r) \<and>
     is_non_negative_decimal (mop_volume r) \<and>
     is_non_negative_int (mop_reason r)"

definition dump_mt5_open_position :: "mt5_open_position \<Rightarrow> pyval" where
  "dump_mt5_open_position r = PDict [
     (''schema_version'', PStr (mop_schema_version r)),
     (''retrieved_at'', PTime (mop_retrieved_at r)),
     (''ticket'', PInt (mop_ticket r)),
     (''identifier'', PInt (mop_identifier r)),
     (''symbol'', PStr (mop_symbol r)),
     (''side'', PInt (value_broker_position_side (mop_side r))),
     (''volume'', PDec (mop_volume r)),
     (''open_time'', PTime (mop_open_time r)),
     (''update_time'', PTime (mop_update_time r)),
     (''price_open'', PDec (mop_price_open r)),
     (''stop_loss'', PDec (mop_stop_loss r)),
     (''take_profit'', PDec (mop_take_profit r)),
     (''price_current'', PDec (mop_price_current r)),
     (''swap'', PDec (mop_swap r)),
     (''profit'', PDec (mop_profit r)),
     (''magic'', PInt (mop_magic r)),
     (''reason'', PInt (mop_reason r)),
     (''comment'', PStr (mop_comment r)),
     (''external_id'', PStr (mop_external_id r))]"

definition validate_mt5_candle :: "mt5_candle \<Rightarrow> bool" where
  "validate_mt5_candle c \<longleftrightarrow>
     \<not> (mc_high c < max (mc_open c) (mc_close c) \<or> mc_low c > min (mc_open c) (mc_close c)) \<and>
     \<not> mc_high c < mc_low c"

definition ok_mt5_candle :: "mt5_candle \<Rightarrow> bool" where
  "ok_mt5_candle c \<longleftrightarrow> fields_mt5_candle c \<and> validate_mt5_candle c"

section \<open>Snapshot\<close>

record snapshot_candles =
  sc_m15 :: "mt5_candle list"
  sc_h1 :: "mt5_candle list"
  sc_h4 :: "mt5_candle list"

definition fields_snapshot_candles :: "snapshot_candles \<Rightarrow> bool" where
  "fields_snapshot_candles r \<longleftrightarrow>
     1 \<le> length (sc_m15 r) \<and>
     1 \<le> length (sc_h1 r) \<and>
     1 \<le> length (sc_h4 r)"

definition dump_snapshot_candles :: "snapshot_candles \<Rightarrow> pyval" where
  "dump_snapshot_candles r = PDict [
     (''m15'', PList (map (\<lambda>x. dump_mt5_candle x) (sc_m15 r))),
     (''h1'', PList (map (\<lambda>x. dump_mt5_candle x) (sc_h1 r))),
     (''h4'', PList (map (\<lambda>x. dump_mt5_candle x) (sc_h4 r)))]"

record snapshot_source_timestamps =
  sst_symbol_info :: instant
  sst_account :: instant
  sst_m15_candles :: instant
  sst_h1_candles :: instant
  sst_h4_candles :: instant
  sst_positions :: instant
  sst_tick :: instant

definition fields_snapshot_source_timestamps :: "snapshot_source_timestamps \<Rightarrow> bool" where
  "fields_snapshot_source_timestamps r \<longleftrightarrow>
     True"

definition dump_snapshot_source_timestamps :: "snapshot_source_timestamps \<Rightarrow> pyval" where
  "dump_snapshot_source_timestamps r = PDict [
     (''symbol_info'', PTime (sst_symbol_info r)),
     (''account'', PTime (sst_account r)),
     (''m15_candles'', PTime (sst_m15_candles r)),
     (''h1_candles'', PTime (sst_h1_candles r)),
     (''h4_candles'', PTime (sst_h4_candles r)),
     (''positions'', PTime (sst_positions r)),
     (''tick'', PTime (sst_tick r))]"

record observation_freshness =
  ofre_observed_at :: instant
  ofre_evaluated_at :: instant
  ofre_age :: duration
  ofre_maximum_age :: duration
  ofre_state :: freshness_state

definition fields_observation_freshness :: "observation_freshness \<Rightarrow> bool" where
  "fields_observation_freshness r \<longleftrightarrow>
     True"

definition dump_observation_freshness :: "observation_freshness \<Rightarrow> pyval" where
  "dump_observation_freshness r = PDict [
     (''observed_at'', PTime (ofre_observed_at r)),
     (''evaluated_at'', PTime (ofre_evaluated_at r)),
     (''age'', PDelta (ofre_age r)),
     (''maximum_age'', PDelta (ofre_maximum_age r)),
     (''state'', PStr (value_freshness_state (ofre_state r)))]"

definition validate_observation_freshness :: "observation_freshness \<Rightarrow> bool" where
  "validate_observation_freshness f \<longleftrightarrow>
     \<not> (ofre_age f < 0 \<or> ofre_maximum_age f \<le> 0) \<and>
     ofre_age f = ofre_evaluated_at f - ofre_observed_at f \<and>
     ofre_state f =
       (if ofre_age f \<le> ofre_maximum_age f then freshness_state.FRESH else freshness_state.STALE)"

record snapshot_freshness =
  sfre_tick :: observation_freshness
  sfre_account :: observation_freshness
  sfre_m15_candles :: observation_freshness
  sfre_h1_candles :: observation_freshness
  sfre_h4_candles :: observation_freshness
  sfre_overall :: freshness_state

definition fields_snapshot_freshness :: "snapshot_freshness \<Rightarrow> bool" where
  "fields_snapshot_freshness r \<longleftrightarrow>
     True"

definition dump_snapshot_freshness :: "snapshot_freshness \<Rightarrow> pyval" where
  "dump_snapshot_freshness r = PDict [
     (''tick'', dump_observation_freshness (sfre_tick r)),
     (''account'', dump_observation_freshness (sfre_account r)),
     (''m15_candles'', dump_observation_freshness (sfre_m15_candles r)),
     (''h1_candles'', dump_observation_freshness (sfre_h1_candles r)),
     (''h4_candles'', dump_observation_freshness (sfre_h4_candles r)),
     (''overall'', PStr (value_freshness_state (sfre_overall r)))]"

definition validate_snapshot_freshness :: "snapshot_freshness \<Rightarrow> bool" where
  "validate_snapshot_freshness f \<longleftrightarrow>
     sfre_overall f =
       (if \<exists>x \<in> set [sfre_tick f, sfre_account f, sfre_m15_candles f, sfre_h1_candles f, sfre_h4_candles f].
             ofre_state x = freshness_state.STALE
        then freshness_state.STALE else freshness_state.FRESH)"

record snapshot_validation_warning =
  svw_code :: snapshot_warning_code
  svw_message :: string
  svw_timeframe :: "timeframe option"
  svw_omitted_count :: "int option"

definition fields_snapshot_validation_warning :: "snapshot_validation_warning \<Rightarrow> bool" where
  "fields_snapshot_validation_warning r \<longleftrightarrow>
     pred_option (\<lambda>x. is_non_negative_int x) (svw_omitted_count r)"

definition dump_snapshot_validation_warning :: "snapshot_validation_warning \<Rightarrow> pyval" where
  "dump_snapshot_validation_warning r = PDict [
     (''code'', PStr (value_snapshot_warning_code (svw_code r))),
     (''message'', PStr (svw_message r)),
     (''timeframe'', dump_option (\<lambda>x. PStr (value_timeframe x)) (svw_timeframe r)),
     (''omitted_count'', dump_option (\<lambda>x. PInt x) (svw_omitted_count r))]"

record snapshot_consistency_metadata =
  scm_validity :: data_validity_state
  scm_source_timestamps :: snapshot_source_timestamps
  scm_snapshot_duration :: duration
  scm_freshness :: snapshot_freshness
  scm_validation_warnings :: "snapshot_validation_warning list"

definition fields_snapshot_consistency_metadata :: "snapshot_consistency_metadata \<Rightarrow> bool" where
  "fields_snapshot_consistency_metadata r \<longleftrightarrow>
     scm_validity r = data_validity_state.VALID"

definition dump_snapshot_consistency_metadata :: "snapshot_consistency_metadata \<Rightarrow> pyval" where
  "dump_snapshot_consistency_metadata r = PDict [
     (''validity'', PStr (value_data_validity_state (scm_validity r))),
     (''source_timestamps'', dump_snapshot_source_timestamps (scm_source_timestamps r)),
     (''snapshot_duration'', PDelta (scm_snapshot_duration r)),
     (''freshness'', dump_snapshot_freshness (scm_freshness r)),
     (''validation_warnings'', PList (map (\<lambda>x. dump_snapshot_validation_warning x) (scm_validation_warnings r)))]"

definition validate_snapshot_consistency_metadata :: "snapshot_consistency_metadata \<Rightarrow> bool" where
  "validate_snapshot_consistency_metadata m \<longleftrightarrow> 0 \<le> scm_snapshot_duration m"

record market_snapshot =
  ms_schema_version :: string
  ms_cycle_id :: string
  ms_snapshot_id :: string
  ms_symbol :: string
  ms_primary_timeframe :: timeframe
  ms_snapshot_started_at :: instant
  ms_snapshot_completed_at :: instant
  ms_symbol_info :: mt5_symbol_info
  ms_tick :: mt5_tick
  ms_spread :: decimal
  ms_candles :: snapshot_candles
  ms_account :: mt5_account_info
  ms_open_positions :: "mt5_open_position list"
  ms_consistency :: snapshot_consistency_metadata

definition fields_market_snapshot :: "market_snapshot \<Rightarrow> bool" where
  "fields_market_snapshot r \<longleftrightarrow>
     is_schema_version (ms_schema_version r) \<and>
     is_cycle_id (ms_cycle_id r) \<and>
     is_snapshot_id (ms_snapshot_id r) \<and>
     is_symbol (ms_symbol r) \<and>
     is_non_negative_decimal (ms_spread r)"

definition dump_market_snapshot :: "market_snapshot \<Rightarrow> pyval" where
  "dump_market_snapshot r = PDict [
     (''schema_version'', PStr (ms_schema_version r)),
     (''cycle_id'', PStr (ms_cycle_id r)),
     (''snapshot_id'', PStr (ms_snapshot_id r)),
     (''symbol'', PStr (ms_symbol r)),
     (''primary_timeframe'', PStr (value_timeframe (ms_primary_timeframe r))),
     (''snapshot_started_at'', PTime (ms_snapshot_started_at r)),
     (''snapshot_completed_at'', PTime (ms_snapshot_completed_at r)),
     (''symbol_info'', dump_mt5_symbol_info (ms_symbol_info r)),
     (''tick'', dump_mt5_tick (ms_tick r)),
     (''spread'', PDec (ms_spread r)),
     (''candles'', dump_snapshot_candles (ms_candles r)),
     (''account'', dump_mt5_account_info (ms_account r)),
     (''open_positions'', PList (map (\<lambda>x. dump_mt5_open_position x) (ms_open_positions r))),
     (''consistency'', dump_snapshot_consistency_metadata (ms_consistency r))]"

definition source_times :: "snapshot_source_timestamps \<Rightarrow> instant list" where
  "source_times t = [sst_symbol_info t, sst_account t, sst_m15_candles t, sst_h1_candles t,
     sst_h4_candles t, sst_positions t, sst_tick t]"

text \<open>The loop over one candle collection: the previous opening time is threaded through.\<close>

fun candle_sequence_ok ::
  "market_snapshot \<Rightarrow> timeframe \<Rightarrow> instant \<Rightarrow> instant option \<Rightarrow> mt5_candle list \<Rightarrow> bool" where
  "candle_sequence_ok s tf src prev [] = True"
| "candle_sequence_ok s tf src prev (c # cs) =
     (\<not> (mc_retrieved_at c < ms_snapshot_started_at s \<or> mc_retrieved_at c > ms_snapshot_completed_at s) \<and>
      mc_symbol c = ms_symbol s \<and> mc_timeframe c = tf \<and>
      mc_retrieved_at c = src \<and>
      (case prev of None \<Rightarrow> True | Some p \<Rightarrow> \<not> mc_open_time c \<le> p) \<and>
      \<not> mc_open_time c + timeframe_duration tf > ms_snapshot_completed_at s \<and>
      candle_sequence_ok s tf src (Some (mc_open_time c)) cs)"

definition candle_collection_ok ::
  "market_snapshot \<Rightarrow> timeframe \<Rightarrow> mt5_candle list \<Rightarrow> instant \<Rightarrow> observation_freshness \<Rightarrow> bool" where
  "candle_collection_ok s tf cs src fr \<longleftrightarrow>
     candle_sequence_ok s tf src None cs \<and> cs \<noteq> [] \<and>
     ofre_observed_at fr = mc_open_time (last cs) + timeframe_duration tf"

definition validate_market_snapshot :: "market_snapshot \<Rightarrow> bool" where
  "validate_market_snapshot s \<longleftrightarrow>
     (let src = scm_source_timestamps (ms_consistency s);
          fr = scm_freshness (ms_consistency s)
      in \<not> ms_snapshot_started_at s > ms_snapshot_completed_at s \<and>
         scm_snapshot_duration (ms_consistency s) = ms_snapshot_completed_at s - ms_snapshot_started_at s \<and>
         msi_symbol (ms_symbol_info s) = ms_symbol s \<and> mt_symbol (ms_tick s) = ms_symbol s \<and>
         ms_spread s = mt_spread (ms_tick s) \<and>
         ms_spread s = rd28 (mt_ask (ms_tick s) - mt_bid (ms_tick s)) \<and>
         (\<forall>p \<in> set (ms_open_positions s). mop_symbol p = ms_symbol s) \<and>
         (\<forall>t \<in> set (source_times src).
            \<not> (t < ms_snapshot_started_at s \<or> t > ms_snapshot_completed_at s)) \<and>
         \<not> mt_source_time (ms_tick s) > mt_retrieved_at (ms_tick s) \<and>
         sst_symbol_info src = msi_retrieved_at (ms_symbol_info s) \<and>
         sst_account src = mai_retrieved_at (ms_account s) \<and>
         sst_tick src = mt_retrieved_at (ms_tick s) \<and>
         (\<forall>p \<in> set (ms_open_positions s).
            \<not> (mop_open_time p > mop_update_time p \<or> mop_update_time p > ms_snapshot_completed_at s \<or>
               mop_retrieved_at p > sst_positions src)) \<and>
         candle_collection_ok s timeframe.M15 (sc_m15 (ms_candles s)) (sst_m15_candles src) (sfre_m15_candles fr) \<and>
         candle_collection_ok s timeframe.H1 (sc_h1 (ms_candles s)) (sst_h1_candles src) (sfre_h1_candles fr) \<and>
         candle_collection_ok s timeframe.H4 (sc_h4 (ms_candles s)) (sst_h4_candles src) (sfre_h4_candles fr) \<and>
         ofre_observed_at (sfre_tick fr) = mt_source_time (ms_tick s) \<and>
         ofre_observed_at (sfre_account fr) = mai_retrieved_at (ms_account s) \<and>
         (\<forall>x \<in> set [sfre_tick fr, sfre_account fr, sfre_m15_candles fr, sfre_h1_candles fr, sfre_h4_candles fr].
            ofre_evaluated_at x = ms_snapshot_completed_at s))"

definition ok_market_snapshot :: "market_snapshot \<Rightarrow> bool" where
  "ok_market_snapshot s \<longleftrightarrow> fields_market_snapshot s \<and> validate_market_snapshot s"

section \<open>What an accepted candle collection guarantees\<close>

lemma candle_sequence_times:
  assumes "candle_sequence_ok s tf src prev cs" and "c \<in> set cs"
  shows "mc_open_time c + timeframe_duration tf \<le> ms_snapshot_completed_at s"
    and "mc_symbol c = ms_symbol s" and "mc_timeframe c = tf"
  using assms by (induction s tf src prev cs rule: candle_sequence_ok.induct) auto

lemma candle_sequence_sorted:
  "candle_sequence_ok s tf src prev cs \<Longrightarrow>
     sorted_wrt (<) (map mc_open_time cs) \<and>
     (case prev of None \<Rightarrow> True | Some p \<Rightarrow> \<forall>c \<in> set cs. p < mc_open_time c)"
proof (induction s tf src prev cs rule: candle_sequence_ok.induct)
  case (1 s tf src prev)
  then show ?case by (simp split: option.split)
next
  case (2 s tf src prev c cs)
  then show ?case by (auto split: option.splits)
qed

text \<open>
  Property. An accepted snapshot holds, per timeframe, a non-empty strictly increasing run of
  completed candles of its own symbol: no candle closes after the snapshot was completed, and the
  freshness entry refers to the close of the latest one.
\<close>

theorem snapshot_candles_completed:
  assumes "validate_market_snapshot s"
    and "(tf, cs, fr) \<in> {(timeframe.M15, sc_m15 (ms_candles s), sfre_m15_candles (scm_freshness (ms_consistency s))),
                         (timeframe.H1, sc_h1 (ms_candles s), sfre_h1_candles (scm_freshness (ms_consistency s))),
                         (timeframe.H4, sc_h4 (ms_candles s), sfre_h4_candles (scm_freshness (ms_consistency s)))}"
  shows "cs \<noteq> [] \<and> sorted_wrt (<) (map mc_open_time cs) \<and>
         (\<forall>c \<in> set cs. mc_symbol c = ms_symbol s \<and> mc_timeframe c = tf \<and>
            mc_open_time c + timeframe_duration tf \<le> ms_snapshot_completed_at s) \<and>
         ofre_observed_at fr = mc_open_time (last cs) + timeframe_duration tf"
proof -
  from assms obtain src where "candle_collection_ok s tf cs src fr"
    by (auto simp: validate_market_snapshot_def Let_def)
  then show ?thesis
    using candle_sequence_times candle_sequence_sorted
    by (fastforce simp: candle_collection_ok_def)
qed

end
