(* ===== verification/FeatureSchemas.thy ===== *)
theory FeatureSchemas
  imports MarketSchemas
begin

text \<open>
  \<open>schemas/features.py\<close>: feature values with explicit availability, per-timeframe feature sets and
  the market feature set with its provenance.
\<close>

section \<open>Single values\<close>

record decimal_feature_value =
  dfv_status :: feature_availability
  dfv_unit :: feature_unit
  dfv_value :: "decimal option"
  dfv_required_candles :: int
  dfv_available_candles :: int
  dfv_reason :: "string option"

definition fields_decimal_feature_value :: "decimal_feature_value \<Rightarrow> bool" where
  "fields_decimal_feature_value r \<longleftrightarrow>
     is_positive_int (dfv_required_candles r) \<and>
     is_non_negative_int (dfv_available_candles r) \<and>
     pred_option (\<lambda>x. length x \<le> 256) (dfv_reason r)"

definition dump_decimal_feature_value :: "decimal_feature_value \<Rightarrow> pyval" where
  "dump_decimal_feature_value r = PDict [
     (''status'', PStr (value_feature_availability (dfv_status r))),
     (''unit'', PStr (value_feature_unit (dfv_unit r))),
     (''value'', dump_option (\<lambda>x. PDec x) (dfv_value r)),
     (''required_candles'', PInt (dfv_required_candles r)),
     (''available_candles'', PInt (dfv_available_candles r)),
     (''reason'', dump_option (\<lambda>x. PStr x) (dfv_reason r))]"

record swing_point =
  sp_price :: decimal
  sp_candle_open_at :: instant
  sp_confirmed_at :: instant
  sp_left_bars :: int
  sp_right_bars :: int

definition fields_swing_point :: "swing_point \<Rightarrow> bool" where
  "fields_swing_point r \<longleftrightarrow>
     is_positive_int (sp_left_bars r) \<and>
     is_positive_int (sp_right_bars r)"

definition dump_swing_point :: "swing_point \<Rightarrow> pyval" where
  "dump_swing_point r = PDict [
     (''price'', PDec (sp_price r)),
     (''candle_open_at'', PTime (sp_candle_open_at r)),
     (''confirmed_at'', PTime (sp_confirmed_at r)),
     (''left_bars'', PInt (sp_left_bars r)),
     (''right_bars'', PInt (sp_right_bars r))]"

record swing_feature_value =
  sfv_status :: feature_availability
  sfv_value :: "swing_point option"
  sfv_required_candles :: int
  sfv_available_candles :: int
  sfv_reason :: "string option"

definition fields_swing_feature_value :: "swing_feature_value \<Rightarrow> bool" where
  "fields_swing_feature_value r \<longleftrightarrow>
     is_positive_int (sfv_required_candles r) \<and>
     is_non_negative_int (sfv_available_candles r) \<and>
     pred_option (\<lambda>x. length x \<le> 256) (sfv_reason r)"

definition dump_swing_feature_value :: "swing_feature_value \<Rightarrow> pyval" where
  "dump_swing_feature_value r = PDict [
     (''status'', PStr (value_feature_availability (sfv_status r))),
     (''value'', dump_option (\<lambda>x. dump_swing_point x) (sfv_value r)),
     (''required_candles'', PInt (sfv_required_candles r)),
     (''available_candles'', PInt (sfv_available_candles r)),
     (''reason'', dump_option (\<lambda>x. PStr x) (sfv_reason r))]"

text \<open>
  The three states of availability, over whether a value is there: both wrappers check the same.
\<close>

definition availability_ok ::
  "feature_availability \<Rightarrow> bool \<Rightarrow> int \<Rightarrow> int \<Rightarrow> string option \<Rightarrow> bool" where
  "availability_ok status has_value required available reason \<longleftrightarrow>
     (case status of
        feature_availability.VALID \<Rightarrow>
          \<not> (\<not> has_value \<or> available < required) \<and> reason = None
      | feature_availability.INSUFFICIENT_HISTORY \<Rightarrow>
          \<not> (has_value \<or> available \<ge> required) \<and> reason \<noteq> None \<and> reason \<noteq> Some ''''
      | _ \<Rightarrow>
          \<not> (has_value \<or> available < required) \<and> reason \<noteq> None \<and> reason \<noteq> Some '''')"

definition validate_decimal_feature_value :: "decimal_feature_value \<Rightarrow> bool" where
  "validate_decimal_feature_value v \<longleftrightarrow>
     availability_ok (dfv_status v) (dfv_value v \<noteq> None) (dfv_required_candles v)
       (dfv_available_candles v) (dfv_reason v)"

definition ok_decimal_feature_value :: "decimal_feature_value \<Rightarrow> bool" where
  "ok_decimal_feature_value v \<longleftrightarrow> fields_decimal_feature_value v \<and> validate_decimal_feature_value v"

definition validate_swing_point :: "swing_point \<Rightarrow> bool" where
  "validate_swing_point p \<longleftrightarrow> \<not> sp_confirmed_at p \<le> sp_candle_open_at p"

definition ok_swing_point :: "swing_point \<Rightarrow> bool" where
  "ok_swing_point p \<longleftrightarrow> fields_swing_point p \<and> validate_swing_point p"

definition validate_swing_feature_value :: "swing_feature_value \<Rightarrow> bool" where
  "validate_swing_feature_value v \<longleftrightarrow>
     availability_ok (sfv_status v) (sfv_value v \<noteq> None) (sfv_required_candles v)
       (sfv_available_candles v) (sfv_reason v)"

definition ok_swing_feature_value :: "swing_feature_value \<Rightarrow> bool" where
  "ok_swing_feature_value v \<longleftrightarrow> fields_swing_feature_value v \<and> validate_swing_feature_value v"

section \<open>Settings\<close>

record feature_engine_settings =
  fes_configuration_version :: string
  fes_recent_range_lookback :: int
  fes_swing_left_bars :: int
  fes_swing_right_bars :: int

definition fields_feature_engine_settings :: "feature_engine_settings \<Rightarrow> bool" where
  "fields_feature_engine_settings r \<longleftrightarrow>
     fes_configuration_version r = ''1.0.0'' \<and>
     1 \<le> fes_recent_range_lookback r \<and>
     fes_recent_range_lookback r \<le> 5000 \<and>
     1 \<le> fes_swing_left_bars r \<and>
     fes_swing_left_bars r \<le> 100 \<and>
     1 \<le> fes_swing_right_bars r \<and>
     fes_swing_right_bars r \<le> 100"

definition dump_feature_engine_settings :: "feature_engine_settings \<Rightarrow> pyval" where
  "dump_feature_engine_settings r = PDict [
     (''configuration_version'', PStr (fes_configuration_version r)),
     (''recent_range_lookback'', PInt (fes_recent_range_lookback r)),
     (''swing_left_bars'', PInt (fes_swing_left_bars r)),
     (''swing_right_bars'', PInt (fes_swing_right_bars r))]"

definition validate_feature_engine_settings :: "feature_engine_settings \<Rightarrow> bool" where
  "validate_feature_engine_settings c \<longleftrightarrow> fes_swing_left_bars c + fes_swing_right_bars c + 1 \<le> 5000"

definition ok_feature_engine_settings :: "feature_engine_settings \<Rightarrow> bool" where
  "ok_feature_engine_settings c \<longleftrightarrow> fields_feature_engine_settings c \<and> validate_feature_engine_settings c"

section \<open>Groups of features\<close>

record trend_features =
  tf_ema_20 :: decimal_feature_value
  tf_ema_50 :: decimal_feature_value
  tf_ema_200 :: decimal_feature_value
  tf_distance_from_ema_20 :: decimal_feature_value
  tf_distance_from_ema_50 :: decimal_feature_value
  tf_distance_from_ema_200 :: decimal_feature_value

definition fields_trend_features :: "trend_features \<Rightarrow> bool" where
  "fields_trend_features r \<longleftrightarrow>
     True"

definition dump_trend_features :: "trend_features \<Rightarrow> pyval" where
  "dump_trend_features r = PDict [
     (''ema_20'', dump_decimal_feature_value (tf_ema_20 r)),
     (''ema_50'', dump_decimal_feature_value (tf_ema_50 r)),
     (''ema_200'', dump_decimal_feature_value (tf_ema_200 r)),
     (''distance_from_ema_20'', dump_decimal_feature_value (tf_distance_from_ema_20 r)),
     (''distance_from_ema_50'', dump_decimal_feature_value (tf_distance_from_ema_50 r)),
     (''distance_from_ema_200'', dump_decimal_feature_value (tf_distance_from_ema_200 r))]"

record momentum_features =
  mf_rsi_14 :: decimal_feature_value

definition fields_momentum_features :: "momentum_features \<Rightarrow> bool" where
  "fields_momentum_features r \<longleftrightarrow>
     True"

definition dump_momentum_features :: "momentum_features \<Rightarrow> pyval" where
  "dump_momentum_features r = PDict [
     (''rsi_14'', dump_decimal_feature_value (mf_rsi_14 r))]"

record volatility_features =
  vf_atr_14 :: decimal_feature_value

definition fields_volatility_features :: "volatility_features \<Rightarrow> bool" where
  "fields_volatility_features r \<longleftrightarrow>
     True"

definition dump_volatility_features :: "volatility_features \<Rightarrow> pyval" where
  "dump_volatility_features r = PDict [
     (''atr_14'', dump_decimal_feature_value (vf_atr_14 r))]"

record trend_strength_features =
  tsf_adx_14 :: decimal_feature_value

definition fields_trend_strength_features :: "trend_strength_features \<Rightarrow> bool" where
  "fields_trend_strength_features r \<longleftrightarrow>
     True"

definition dump_trend_strength_features :: "trend_strength_features \<Rightarrow> pyval" where
  "dump_trend_strength_features r = PDict [
     (''adx_14'', dump_decimal_feature_value (tsf_adx_14 r))]"

record candle_geometry_features =
  cgf_candle_open_at :: instant
  cgf_candle_range :: decimal_feature_value
  cgf_real_body :: decimal_feature_value
  cgf_upper_wick :: decimal_feature_value
  cgf_lower_wick :: decimal_feature_value
  cgf_body_range_ratio :: decimal_feature_value

definition fields_candle_geometry_features :: "candle_geometry_features \<Rightarrow> bool" where
  "fields_candle_geometry_features r \<longleftrightarrow>
     True"

definition dump_candle_geometry_features :: "candle_geometry_features \<Rightarrow> pyval" where
  "dump_candle_geometry_features r = PDict [
     (''candle_open_at'', PTime (cgf_candle_open_at r)),
     (''candle_range'', dump_decimal_feature_value (cgf_candle_range r)),
     (''real_body'', dump_decimal_feature_value (cgf_real_body r)),
     (''upper_wick'', dump_decimal_feature_value (cgf_upper_wick r)),
     (''lower_wick'', dump_decimal_feature_value (cgf_lower_wick r)),
     (''body_range_ratio'', dump_decimal_feature_value (cgf_body_range_ratio r))]"

record market_structure_features =
  msf_recent_swing_high :: swing_feature_value
  msf_recent_swing_low :: swing_feature_value
  msf_recent_range_high :: decimal_feature_value
  msf_recent_range_low :: decimal_feature_value
  msf_distance_from_recent_swing_high :: decimal_feature_value
  msf_distance_from_recent_swing_low :: decimal_feature_value
  msf_distance_from_recent_range_high :: decimal_feature_value
  msf_distance_from_recent_range_low :: decimal_feature_value

definition fields_market_structure_features :: "market_structure_features \<Rightarrow> bool" where
  "fields_market_structure_features r \<longleftrightarrow>
     True"

definition dump_market_structure_features :: "market_structure_features \<Rightarrow> pyval" where
  "dump_market_structure_features r = PDict [
     (''recent_swing_high'', dump_swing_feature_value (msf_recent_swing_high r)),
     (''recent_swing_low'', dump_swing_feature_value (msf_recent_swing_low r)),
     (''recent_range_high'', dump_decimal_feature_value (msf_recent_range_high r)),
     (''recent_range_low'', dump_decimal_feature_value (msf_recent_range_low r)),
     (''distance_from_recent_swing_high'', dump_decimal_feature_value (msf_distance_from_recent_swing_high r)),
     (''distance_from_recent_swing_low'', dump_decimal_feature_value (msf_distance_from_recent_swing_low r)),
     (''distance_from_recent_range_high'', dump_decimal_feature_value (msf_distance_from_recent_range_high r)),
     (''distance_from_recent_range_low'', dump_decimal_feature_value (msf_distance_from_recent_range_low r))]"

record feature_warning =
  fw_code :: feature_warning_code
  fw_message :: string
  fw_timeframe :: "timeframe option"
  fw_feature_names :: "string list"

definition fields_feature_warning :: "feature_warning \<Rightarrow> bool" where
  "fields_feature_warning r \<longleftrightarrow>
     length (fw_message r) \<le> 256 \<and>
     list_all (\<lambda>x. is_identifier x) (fw_feature_names r)"

definition dump_feature_warning :: "feature_warning \<Rightarrow> pyval" where
  "dump_feature_warning r = PDict [
     (''code'', PStr (value_feature_warning_code (fw_code r))),
     (''message'', PStr (fw_message r)),
     (''timeframe'', dump_option (\<lambda>x. PStr (value_timeframe x)) (fw_timeframe r)),
     (''feature_names'', PList (map (\<lambda>x. PStr x) (fw_feature_names r)))]"

record timeframe_feature_set =
  tfs_timeframe :: timeframe
  tfs_source_candle_count :: int
  tfs_source_first_candle_open_at :: instant
  tfs_source_last_candle_open_at :: instant
  tfs_source_last_candle_close_at :: instant
  tfs_evaluation_candle_open_at :: instant
  tfs_source_candle_digest :: string
  tfs_validity :: data_validity_state
  tfs_availability :: feature_availability
  tfs_trend :: trend_features
  tfs_momentum :: momentum_features
  tfs_volatility :: volatility_features
  tfs_trend_strength :: trend_strength_features
  tfs_candle_geometry :: candle_geometry_features
  tfs_market_structure :: market_structure_features
  tfs_warnings :: "feature_warning list"

definition fields_timeframe_feature_set :: "timeframe_feature_set \<Rightarrow> bool" where
  "fields_timeframe_feature_set r \<longleftrightarrow>
     is_positive_int (tfs_source_candle_count r) \<and>
     is_content_digest (tfs_source_candle_digest r) \<and>
     tfs_validity r = data_validity_state.VALID"

definition dump_timeframe_feature_set :: "timeframe_feature_set \<Rightarrow> pyval" where
  "dump_timeframe_feature_set r = PDict [
     (''timeframe'', PStr (value_timeframe (tfs_timeframe r))),
     (''source_candle_count'', PInt (tfs_source_candle_count r)),
     (''source_first_candle_open_at'', PTime (tfs_source_first_candle_open_at r)),
     (''source_last_candle_open_at'', PTime (tfs_source_last_candle_open_at r)),
     (''source_last_candle_close_at'', PTime (tfs_source_last_candle_close_at r)),
     (''evaluation_candle_open_at'', PTime (tfs_evaluation_candle_open_at r)),
     (''source_candle_digest'', PStr (tfs_source_candle_digest r)),
     (''validity'', PStr (value_data_validity_state (tfs_validity r))),
     (''availability'', PStr (value_feature_availability (tfs_availability r))),
     (''trend'', dump_trend_features (tfs_trend r)),
     (''momentum'', dump_momentum_features (tfs_momentum r)),
     (''volatility'', dump_volatility_features (tfs_volatility r)),
     (''trend_strength'', dump_trend_strength_features (tfs_trend_strength r)),
     (''candle_geometry'', dump_candle_geometry_features (tfs_candle_geometry r)),
     (''market_structure'', dump_market_structure_features (tfs_market_structure r)),
     (''warnings'', PList (map (\<lambda>x. dump_feature_warning x) (tfs_warnings r)))]"

text \<open>A distance has the availability and history of its reference.\<close>

definition inherits_history ::
  "feature_availability \<times> int \<times> int \<Rightarrow> decimal_feature_value \<Rightarrow> bool" where
  "inherits_history ref d \<longleftrightarrow>
     (dfv_status d, dfv_required_candles d, dfv_available_candles d) = ref"

definition decimal_history :: "decimal_feature_value \<Rightarrow> feature_availability \<times> int \<times> int" where
  "decimal_history v = (dfv_status v, dfv_required_candles v, dfv_available_candles v)"

definition swing_history :: "swing_feature_value \<Rightarrow> feature_availability \<times> int \<times> int" where
  "swing_history v = (sfv_status v, sfv_required_candles v, sfv_available_candles v)"

definition validate_trend_features :: "trend_features \<Rightarrow> bool" where
  "validate_trend_features t \<longleftrightarrow>
     list_all (\<lambda>(r, d). inherits_history (decimal_history r) d)
       [(tf_ema_20 t, tf_distance_from_ema_20 t), (tf_ema_50 t, tf_distance_from_ema_50 t),
        (tf_ema_200 t, tf_distance_from_ema_200 t)]"

definition validate_market_structure_features :: "market_structure_features \<Rightarrow> bool" where
  "validate_market_structure_features m \<longleftrightarrow>
     list_all (\<lambda>(r, d). inherits_history r d)
       [(swing_history (msf_recent_swing_high m), msf_distance_from_recent_swing_high m),
        (swing_history (msf_recent_swing_low m), msf_distance_from_recent_swing_low m),
        (decimal_history (msf_recent_range_high m), msf_distance_from_recent_range_high m),
        (decimal_history (msf_recent_range_low m), msf_distance_from_recent_range_low m)]"

definition numeric_features :: "timeframe_feature_set \<Rightarrow> decimal_feature_value list" where
  "numeric_features s =
     (let t = tfs_trend s; g = tfs_candle_geometry s; m = tfs_market_structure s
      in [tf_ema_20 t, tf_ema_50 t, tf_ema_200 t,
          tf_distance_from_ema_20 t, tf_distance_from_ema_50 t, tf_distance_from_ema_200 t,
          mf_rsi_14 (tfs_momentum s), vf_atr_14 (tfs_volatility s), tsf_adx_14 (tfs_trend_strength s),
          cgf_candle_range g, cgf_real_body g, cgf_upper_wick g, cgf_lower_wick g, cgf_body_range_ratio g,
          msf_recent_range_high m, msf_recent_range_low m,
          msf_distance_from_recent_swing_high m, msf_distance_from_recent_swing_low m,
          msf_distance_from_recent_range_high m, msf_distance_from_recent_range_low m])"

definition validate_timeframe_feature_set :: "timeframe_feature_set \<Rightarrow> bool" where
  "validate_timeframe_feature_set s \<longleftrightarrow>
     (let statuses = map dfv_status (numeric_features s) @
            [sfv_status (msf_recent_swing_high (tfs_market_structure s)),
             sfv_status (msf_recent_swing_low (tfs_market_structure s))];
          expected = (if feature_availability.INSUFFICIENT_HISTORY \<in> set statuses
                      then feature_availability.INSUFFICIENT_HISTORY
                      else if feature_availability.UNAVAILABLE \<in> set statuses
                      then feature_availability.UNAVAILABLE else feature_availability.VALID)
      in tfs_source_first_candle_open_at s \<le> tfs_source_last_candle_open_at s \<and>
         tfs_source_last_candle_open_at s < tfs_source_last_candle_close_at s \<and>
         tfs_evaluation_candle_open_at s = tfs_source_last_candle_open_at s \<and>
         tfs_availability s = expected)"

definition ok_timeframe_feature_set :: "timeframe_feature_set \<Rightarrow> bool" where
  "ok_timeframe_feature_set s \<longleftrightarrow> fields_timeframe_feature_set s \<and> validate_timeframe_feature_set s"

section \<open>The market feature set\<close>

record timeframe_feature_collection =
  tfc_m15 :: timeframe_feature_set
  tfc_h1 :: timeframe_feature_set
  tfc_h4 :: timeframe_feature_set

definition fields_timeframe_feature_collection :: "timeframe_feature_collection \<Rightarrow> bool" where
  "fields_timeframe_feature_collection r \<longleftrightarrow>
     True"

definition dump_timeframe_feature_collection :: "timeframe_feature_collection \<Rightarrow> pyval" where
  "dump_timeframe_feature_collection r = PDict [
     (''m15'', dump_timeframe_feature_set (tfc_m15 r)),
     (''h1'', dump_timeframe_feature_set (tfc_h1 r)),
     (''h4'', dump_timeframe_feature_set (tfc_h4 r))]"

record source_candle_digests =
  scd_m15 :: string
  scd_h1 :: string
  scd_h4 :: string

definition fields_source_candle_digests :: "source_candle_digests \<Rightarrow> bool" where
  "fields_source_candle_digests r \<longleftrightarrow>
     is_content_digest (scd_m15 r) \<and>
     is_content_digest (scd_h1 r) \<and>
     is_content_digest (scd_h4 r)"

definition dump_source_candle_digests :: "source_candle_digests \<Rightarrow> pyval" where
  "dump_source_candle_digests r = PDict [
     (''m15'', PStr (scd_m15 r)),
     (''h1'', PStr (scd_h1 r)),
     (''h4'', PStr (scd_h4 r))]"

record feature_definition_versions =
  fdv_ema :: string
  fdv_rsi :: string
  fdv_atr :: string
  fdv_adx :: string
  fdv_candle_geometry :: string
  fdv_confirmed_swing :: string
  fdv_recent_range :: string
  fdv_signed_distance :: string

definition fields_feature_definition_versions :: "feature_definition_versions \<Rightarrow> bool" where
  "fields_feature_definition_versions r \<longleftrightarrow>
     is_schema_version (fdv_ema r) \<and>
     is_schema_version (fdv_rsi r) \<and>
     is_schema_version (fdv_atr r) \<and>
     is_schema_version (fdv_adx r) \<and>
     is_schema_version (fdv_candle_geometry r) \<and>
     is_schema_version (fdv_confirmed_swing r) \<and>
     is_schema_version (fdv_recent_range r) \<and>
     is_schema_version (fdv_signed_distance r)"

definition dump_feature_definition_versions :: "feature_definition_versions \<Rightarrow> pyval" where
  "dump_feature_definition_versions r = PDict [
     (''ema'', PStr (fdv_ema r)),
     (''rsi'', PStr (fdv_rsi r)),
     (''atr'', PStr (fdv_atr r)),
     (''adx'', PStr (fdv_adx r)),
     (''candle_geometry'', PStr (fdv_candle_geometry r)),
     (''confirmed_swing'', PStr (fdv_confirmed_swing r)),
     (''recent_range'', PStr (fdv_recent_range r)),
     (''signed_distance'', PStr (fdv_signed_distance r))]"

record feature_provenance =
  fp_canonicalization_version :: string
  fp_source_snapshot_schema_version :: string
  fp_source_snapshot_completed_at :: instant
  fp_feature_engine_version :: string
  fp_feature_set_version :: string
  fp_configuration_version :: string
  fp_configuration_digest :: string
  fp_source_candle_digests :: source_candle_digests
  fp_definition_versions :: feature_definition_versions
  fp_decimal_precision :: int
  fp_decimal_rounding :: string
  fp_completed_candles_only :: bool

definition fields_feature_provenance :: "feature_provenance \<Rightarrow> bool" where
  "fields_feature_provenance r \<longleftrightarrow>
     is_schema_version (fp_canonicalization_version r) \<and>
     is_schema_version (fp_source_snapshot_schema_version r) \<and>
     is_schema_version (fp_feature_engine_version r) \<and>
     is_schema_version (fp_feature_set_version r) \<and>
     is_schema_version (fp_configuration_version r) \<and>
     is_content_digest (fp_configuration_digest r) \<and>
     is_positive_int (fp_decimal_precision r) \<and>
     fp_decimal_rounding r = ''ROUND_HALF_EVEN'' \<and>
     (fp_completed_candles_only r)"

definition dump_feature_provenance :: "feature_provenance \<Rightarrow> pyval" where
  "dump_feature_provenance r = PDict [
     (''canonicalization_version'', PStr (fp_canonicalization_version r)),
     (''source_snapshot_schema_version'', PStr (fp_source_snapshot_schema_version r)),
     (''source_snapshot_completed_at'', PTime (fp_source_snapshot_completed_at r)),
     (''feature_engine_version'', PStr (fp_feature_engine_version r)),
     (''feature_set_version'', PStr (fp_feature_set_version r)),
     (''configuration_version'', PStr (fp_configuration_version r)),
     (''configuration_digest'', PStr (fp_configuration_digest r)),
     (''source_candle_digests'', dump_source_candle_digests (fp_source_candle_digests r)),
     (''definition_versions'', dump_feature_definition_versions (fp_definition_versions r)),
     (''decimal_precision'', PInt (fp_decimal_precision r)),
     (''decimal_rounding'', PStr (fp_decimal_rounding r)),
     (''completed_candles_only'', PBool (fp_completed_candles_only r))]"

record market_feature_set =
  mfs_schema_version :: string
  mfs_feature_set_version :: string
  mfs_feature_engine_version :: string
  mfs_cycle_id :: string
  mfs_snapshot_id :: string
  mfs_symbol :: string
  mfs_primary_timeframe :: timeframe
  mfs_generated_at :: instant
  mfs_source_validity :: data_validity_state
  mfs_source_freshness :: snapshot_freshness
  mfs_timeframes :: timeframe_feature_collection
  mfs_warnings :: "feature_warning list"
  mfs_provenance :: feature_provenance

definition fields_market_feature_set :: "market_feature_set \<Rightarrow> bool" where
  "fields_market_feature_set r \<longleftrightarrow>
     is_schema_version (mfs_schema_version r) \<and>
     is_schema_version (mfs_feature_set_version r) \<and>
     is_schema_version (mfs_feature_engine_version r) \<and>
     is_cycle_id (mfs_cycle_id r) \<and>
     is_snapshot_id (mfs_snapshot_id r) \<and>
     is_symbol (mfs_symbol r) \<and>
     mfs_source_validity r = data_validity_state.VALID"

definition dump_market_feature_set :: "market_feature_set \<Rightarrow> pyval" where
  "dump_market_feature_set r = PDict [
     (''schema_version'', PStr (mfs_schema_version r)),
     (''feature_set_version'', PStr (mfs_feature_set_version r)),
     (''feature_engine_version'', PStr (mfs_feature_engine_version r)),
     (''cycle_id'', PStr (mfs_cycle_id r)),
     (''snapshot_id'', PStr (mfs_snapshot_id r)),
     (''symbol'', PStr (mfs_symbol r)),
     (''primary_timeframe'', PStr (value_timeframe (mfs_primary_timeframe r))),
     (''generated_at'', PTime (mfs_generated_at r)),
     (''source_validity'', PStr (value_data_validity_state (mfs_source_validity r))),
     (''source_freshness'', dump_snapshot_freshness (mfs_source_freshness r)),
     (''timeframes'', dump_timeframe_feature_collection (mfs_timeframes r)),
     (''warnings'', PList (map (\<lambda>x. dump_feature_warning x) (mfs_warnings r))),
     (''provenance'', dump_feature_provenance (mfs_provenance r))]"

definition validate_timeframe_feature_collection :: "timeframe_feature_collection \<Rightarrow> bool" where
  "validate_timeframe_feature_collection c \<longleftrightarrow>
     tfs_timeframe (tfc_m15 c) = timeframe.M15 \<and> tfs_timeframe (tfc_h1 c) = timeframe.H1 \<and>
     tfs_timeframe (tfc_h4 c) = timeframe.H4"

definition validate_market_feature_set :: "market_feature_set \<Rightarrow> bool" where
  "validate_market_feature_set f \<longleftrightarrow>
     (let p = mfs_provenance f; t = mfs_timeframes f
      in mfs_generated_at f = fp_source_snapshot_completed_at p \<and>
         mfs_feature_set_version f = fp_feature_set_version p \<and>
         mfs_feature_engine_version f = fp_feature_engine_version p \<and>
         tfs_source_candle_digest (tfc_m15 t) = scd_m15 (fp_source_candle_digests p) \<and>
         tfs_source_candle_digest (tfc_h1 t) = scd_h1 (fp_source_candle_digests p) \<and>
         tfs_source_candle_digest (tfc_h4 t) = scd_h4 (fp_source_candle_digests p) \<and>
         list_all (\<lambda>x. \<not> tfs_source_last_candle_close_at x > mfs_generated_at f)
           [tfc_m15 t, tfc_h1 t, tfc_h4 t])"

definition ok_market_feature_set :: "market_feature_set \<Rightarrow> bool" where
  "ok_market_feature_set f \<longleftrightarrow> fields_market_feature_set f \<and> validate_market_feature_set f"

end
