(* ===== verification/RiskSchemas.thy ===== *)
theory RiskSchemas
  imports MarketSchemas
begin

text \<open>
  The contracts around the Risk Engine: \<open>RiskConstitutionSettings\<close> of \<open>config/settings.py\<close>,
  \<open>schemas/decisions.py\<close> and \<open>schemas/risk.py\<close>. \<open>PositionSizingResult\<close> computes with Decimals in
  its validator, and the remainder there can raise a decimal signal that is not a validation
  error, so its validator is a fallible computation; the other validators are predicates.
\<close>

section \<open>The risk constitution\<close>

record risk_constitution_settings =
  rcs_starting_balance :: decimal
  rcs_minimum_risk_percent :: decimal
  rcs_normal_risk_percent :: decimal
  rcs_maximum_risk_percent :: decimal
  rcs_maximum_open_positions :: int
  rcs_maximum_daily_loss_percent :: decimal
  rcs_drawdown_warning_percent :: decimal
  rcs_drawdown_safe_mode_percent :: decimal
  rcs_drawdown_stop_percent :: decimal
  rcs_minimum_risk_reward :: decimal
  rcs_stop_loss_required :: bool
  rcs_martingale_enabled :: bool
  rcs_averaging_down_enabled :: bool
  rcs_revenge_trading_enabled :: bool

definition fields_risk_constitution_settings :: "risk_constitution_settings \<Rightarrow> bool" where
  "fields_risk_constitution_settings r \<longleftrightarrow>
     is_positive_decimal (rcs_starting_balance r) \<and>
     is_per_trade_risk_percentage (rcs_minimum_risk_percent r) \<and>
     is_per_trade_risk_percentage (rcs_normal_risk_percent r) \<and>
     is_per_trade_risk_percentage (rcs_maximum_risk_percent r) \<and>
     is_positive_int (rcs_maximum_open_positions r) \<and>
     is_percentage (rcs_maximum_daily_loss_percent r) \<and>
     is_percentage (rcs_drawdown_warning_percent r) \<and>
     is_percentage (rcs_drawdown_safe_mode_percent r) \<and>
     is_percentage (rcs_drawdown_stop_percent r) \<and>
     is_positive_decimal (rcs_minimum_risk_reward r)"

definition validate_risk_constitution_settings :: "risk_constitution_settings \<Rightarrow> bool" where
  "validate_risk_constitution_settings c \<longleftrightarrow>
     rcs_minimum_risk_percent c \<le> rcs_normal_risk_percent c \<and>
     rcs_normal_risk_percent c \<le> rcs_maximum_risk_percent c \<and>
     rcs_drawdown_warning_percent c < rcs_drawdown_safe_mode_percent c \<and>
     rcs_drawdown_safe_mode_percent c < rcs_drawdown_stop_percent c \<and>
     rcs_stop_loss_required c \<and> \<not> rcs_martingale_enabled c \<and>
     \<not> rcs_averaging_down_enabled c \<and> \<not> rcs_revenge_trading_enabled c"

definition ok_risk_constitution_settings :: "risk_constitution_settings \<Rightarrow> bool" where
  "ok_risk_constitution_settings c \<longleftrightarrow>
     fields_risk_constitution_settings c \<and> validate_risk_constitution_settings c"

definition default_risk_constitution :: risk_constitution_settings where
  "default_risk_constitution =
     \<lparr>rcs_starting_balance = 50, rcs_minimum_risk_percent = 1 / 4, rcs_normal_risk_percent = 1 / 2,
      rcs_maximum_risk_percent = 1, rcs_maximum_open_positions = 1,
      rcs_maximum_daily_loss_percent = 3, rcs_drawdown_warning_percent = 5,
      rcs_drawdown_safe_mode_percent = 8, rcs_drawdown_stop_percent = 15,
      rcs_minimum_risk_reward = 3 / 2, rcs_stop_loss_required = True,
      rcs_martingale_enabled = False, rcs_averaging_down_enabled = False,
      rcs_revenge_trading_enabled = False\<rparr>"

lemma default_risk_constitution_ok: "ok_risk_constitution_settings default_risk_constitution"
  by (simp add: default_risk_constitution_def ok_risk_constitution_settings_def scalar_defs
      fields_risk_constitution_settings_def validate_risk_constitution_settings_def)

section \<open>Proposals and decisions\<close>

record trade_proposal =
  tp_cycle_id :: string
  tp_schema_version :: string
  tp_timestamp :: instant
  tp_proposal_id :: string
  tp_snapshot_id :: string
  tp_symbol :: string
  tp_side :: trade_side
  tp_entry :: "decimal option"
  tp_stop_loss :: "decimal option"
  tp_take_profit :: "decimal option"
  tp_rationale :: string

definition fields_trade_proposal :: "trade_proposal \<Rightarrow> bool" where
  "fields_trade_proposal r \<longleftrightarrow>
     is_cycle_id (tp_cycle_id r) \<and>
     is_schema_version (tp_schema_version r) \<and>
     is_identifier (tp_proposal_id r) \<and>
     is_snapshot_id (tp_snapshot_id r) \<and>
     is_symbol (tp_symbol r)"

definition dump_trade_proposal :: "trade_proposal \<Rightarrow> pyval" where
  "dump_trade_proposal r = PDict [
     (''cycle_id'', PStr (tp_cycle_id r)),
     (''schema_version'', PStr (tp_schema_version r)),
     (''timestamp'', PTime (tp_timestamp r)),
     (''proposal_id'', PStr (tp_proposal_id r)),
     (''snapshot_id'', PStr (tp_snapshot_id r)),
     (''symbol'', PStr (tp_symbol r)),
     (''side'', PStr (value_trade_side (tp_side r))),
     (''entry'', dump_option (\<lambda>x. PDec x) (tp_entry r)),
     (''stop_loss'', dump_option (\<lambda>x. PDec x) (tp_stop_loss r)),
     (''take_profit'', dump_option (\<lambda>x. PDec x) (tp_take_profit r)),
     (''rationale'', PStr (tp_rationale r))]"

record chief_decision =
  cd_cycle_id :: string
  cd_schema_version :: string
  cd_timestamp :: instant
  cd_action :: trade_action
  cd_confidence :: decimal
  cd_rationale :: string
  cd_proposal_id :: "string option"

definition fields_chief_decision :: "chief_decision \<Rightarrow> bool" where
  "fields_chief_decision r \<longleftrightarrow>
     is_cycle_id (cd_cycle_id r) \<and>
     is_schema_version (cd_schema_version r) \<and>
     is_confidence (cd_confidence r) \<and>
     pred_option (\<lambda>x. is_identifier x) (cd_proposal_id r)"

definition dump_chief_decision :: "chief_decision \<Rightarrow> pyval" where
  "dump_chief_decision r = PDict [
     (''cycle_id'', PStr (cd_cycle_id r)),
     (''schema_version'', PStr (cd_schema_version r)),
     (''timestamp'', PTime (cd_timestamp r)),
     (''action'', PStr (value_trade_action (cd_action r))),
     (''confidence'', PDec (cd_confidence r)),
     (''rationale'', PStr (cd_rationale r)),
     (''proposal_id'', dump_option (\<lambda>x. PStr x) (cd_proposal_id r))]"

section \<open>Risk inputs and results\<close>

record risk_reason =
  rr_code :: risk_reason_code
  rr_message :: string

definition fields_risk_reason :: "risk_reason \<Rightarrow> bool" where
  "fields_risk_reason r \<longleftrightarrow>
     1 \<le> length (rr_message r) \<and>
     length (rr_message r) \<le> 512"

definition dump_risk_reason :: "risk_reason \<Rightarrow> pyval" where
  "dump_risk_reason r = PDict [
     (''code'', PStr (value_risk_reason_code (rr_code r))),
     (''message'', PStr (rr_message r))]"

record account_risk_context =
  arc_schema_version :: string
  arc_cycle_id :: string
  arc_snapshot_id :: string
  arc_account_ref :: string
  arc_context_as_of :: instant
  arc_trading_day_started_at :: instant
  arc_cash_flow_adjusted_peak_equity :: decimal
  arc_adjusted_day_start_equity :: decimal
  arc_account_open_position_count :: int

definition fields_account_risk_context :: "account_risk_context \<Rightarrow> bool" where
  "fields_account_risk_context r \<longleftrightarrow>
     is_schema_version (arc_schema_version r) \<and>
     is_cycle_id (arc_cycle_id r) \<and>
     is_snapshot_id (arc_snapshot_id r) \<and>
     is_account_reference (arc_account_ref r) \<and>
     is_positive_decimal (arc_cash_flow_adjusted_peak_equity r) \<and>
     is_positive_decimal (arc_adjusted_day_start_equity r) \<and>
     is_non_negative_int (arc_account_open_position_count r)"

definition dump_account_risk_context :: "account_risk_context \<Rightarrow> pyval" where
  "dump_account_risk_context r = PDict [
     (''schema_version'', PStr (arc_schema_version r)),
     (''cycle_id'', PStr (arc_cycle_id r)),
     (''snapshot_id'', PStr (arc_snapshot_id r)),
     (''account_ref'', PStr (arc_account_ref r)),
     (''context_as_of'', PTime (arc_context_as_of r)),
     (''trading_day_started_at'', PTime (arc_trading_day_started_at r)),
     (''cash_flow_adjusted_peak_equity'', PDec (arc_cash_flow_adjusted_peak_equity r)),
     (''adjusted_day_start_equity'', PDec (arc_adjusted_day_start_equity r)),
     (''account_open_position_count'', PInt (arc_account_open_position_count r))]"

definition validate_account_risk_context :: "account_risk_context \<Rightarrow> bool" where
  "validate_account_risk_context c \<longleftrightarrow> \<not> arc_trading_day_started_at c > arc_context_as_of c"

definition ok_account_risk_context :: "account_risk_context \<Rightarrow> bool" where
  "ok_account_risk_context c \<longleftrightarrow> fields_account_risk_context c \<and> validate_account_risk_context c"

record account_risk_metrics =
  arm_account_ref :: string
  arm_current_equity :: decimal
  arm_effective_peak_equity :: decimal
  arm_drawdown_amount :: decimal
  arm_drawdown_percent :: decimal
  arm_daily_loss_amount :: decimal
  arm_daily_loss_percent :: decimal
  arm_account_open_position_count :: int
  arm_permitted_risk_percent :: decimal

definition fields_account_risk_metrics :: "account_risk_metrics \<Rightarrow> bool" where
  "fields_account_risk_metrics r \<longleftrightarrow>
     is_account_reference (arm_account_ref r) \<and>
     is_positive_decimal (arm_effective_peak_equity r) \<and>
     is_non_negative_decimal (arm_drawdown_amount r) \<and>
     is_non_negative_decimal (arm_drawdown_percent r) \<and>
     is_non_negative_decimal (arm_daily_loss_amount r) \<and>
     is_non_negative_decimal (arm_daily_loss_percent r) \<and>
     is_non_negative_int (arm_account_open_position_count r) \<and>
     is_per_trade_risk_percentage (arm_permitted_risk_percent r)"

definition dump_account_risk_metrics :: "account_risk_metrics \<Rightarrow> pyval" where
  "dump_account_risk_metrics r = PDict [
     (''account_ref'', PStr (arm_account_ref r)),
     (''current_equity'', PDec (arm_current_equity r)),
     (''effective_peak_equity'', PDec (arm_effective_peak_equity r)),
     (''drawdown_amount'', PDec (arm_drawdown_amount r)),
     (''drawdown_percent'', PDec (arm_drawdown_percent r)),
     (''daily_loss_amount'', PDec (arm_daily_loss_amount r)),
     (''daily_loss_percent'', PDec (arm_daily_loss_percent r)),
     (''account_open_position_count'', PInt (arm_account_open_position_count r)),
     (''permitted_risk_percent'', PDec (arm_permitted_risk_percent r))]"

record position_sizing_result =
  psr_status :: position_sizing_status
  psr_risk_percent :: decimal
  psr_allowed_risk_amount :: decimal
  psr_stop_distance :: decimal
  psr_tick_size :: decimal
  psr_tick_value :: decimal
  psr_trade_contract_size :: decimal
  psr_ticks_to_stop :: decimal
  psr_monetary_loss_per_lot :: decimal
  psr_raw_volume :: decimal
  psr_volume_min :: decimal
  psr_volume_max :: decimal
  psr_volume_step :: decimal
  psr_minimum_volume_risk_amount :: decimal
  psr_selected_volume :: "decimal option"
  psr_estimated_risk_amount :: "decimal option"

definition fields_position_sizing_result :: "position_sizing_result \<Rightarrow> bool" where
  "fields_position_sizing_result r \<longleftrightarrow>
     is_per_trade_risk_percentage (psr_risk_percent r) \<and>
     is_positive_decimal (psr_allowed_risk_amount r) \<and>
     is_positive_decimal (psr_stop_distance r) \<and>
     is_positive_decimal (psr_tick_size r) \<and>
     is_positive_decimal (psr_tick_value r) \<and>
     is_positive_decimal (psr_trade_contract_size r) \<and>
     is_positive_decimal (psr_ticks_to_stop r) \<and>
     is_positive_decimal (psr_monetary_loss_per_lot r) \<and>
     is_positive_decimal (psr_raw_volume r) \<and>
     is_positive_decimal (psr_volume_min r) \<and>
     is_positive_decimal (psr_volume_max r) \<and>
     is_positive_decimal (psr_volume_step r) \<and>
     is_positive_decimal (psr_minimum_volume_risk_amount r) \<and>
     pred_option (\<lambda>x. is_positive_decimal x) (psr_selected_volume r) \<and>
     pred_option (\<lambda>x. is_positive_decimal x) (psr_estimated_risk_amount r)"

definition dump_position_sizing_result :: "position_sizing_result \<Rightarrow> pyval" where
  "dump_position_sizing_result r = PDict [
     (''status'', PStr (value_position_sizing_status (psr_status r))),
     (''risk_percent'', PDec (psr_risk_percent r)),
     (''allowed_risk_amount'', PDec (psr_allowed_risk_amount r)),
     (''stop_distance'', PDec (psr_stop_distance r)),
     (''tick_size'', PDec (psr_tick_size r)),
     (''tick_value'', PDec (psr_tick_value r)),
     (''trade_contract_size'', PDec (psr_trade_contract_size r)),
     (''ticks_to_stop'', PDec (psr_ticks_to_stop r)),
     (''monetary_loss_per_lot'', PDec (psr_monetary_loss_per_lot r)),
     (''raw_volume'', PDec (psr_raw_volume r)),
     (''volume_min'', PDec (psr_volume_min r)),
     (''volume_max'', PDec (psr_volume_max r)),
     (''volume_step'', PDec (psr_volume_step r)),
     (''minimum_volume_risk_amount'', PDec (psr_minimum_volume_risk_amount r)),
     (''selected_volume'', dump_option (\<lambda>x. PDec x) (psr_selected_volume r)),
     (''estimated_risk_amount'', dump_option (\<lambda>x. PDec x) (psr_estimated_risk_amount r))]"

abbreviation sizing_invalid :: py_exception where
  "sizing_invalid \<equiv> ValidationError ''PositionSizingResult''"

definition validate_position_sizing_result :: "position_sizing_result \<Rightarrow> unit fallible" where
  "validate_position_sizing_result r =
     bind_result (run_guards [
       (psr_volume_max r < psr_volume_min r, sizing_invalid),
       (psr_ticks_to_stop r \<noteq> rd28 (psr_stop_distance r / psr_tick_size r), sizing_invalid),
       (psr_monetary_loss_per_lot r \<noteq> rd28 (psr_ticks_to_stop r * psr_tick_value r), sizing_invalid),
       (psr_raw_volume r \<noteq> rd28 (psr_allowed_risk_amount r / psr_monetary_loss_per_lot r), sizing_invalid),
       (psr_minimum_volume_risk_amount r \<noteq> rd28 (psr_monetary_loss_per_lot r * psr_volume_min r),
         sizing_invalid)])
     (\<lambda>_. if psr_status r = position_sizing_status.REJECTED
       then run_guards [
         (psr_selected_volume r \<noteq> None \<or> psr_estimated_risk_amount r \<noteq> None, sizing_invalid)]
       else (case (psr_selected_volume r, psr_estimated_risk_amount r) of
         (Some v, Some e) \<Rightarrow>
           if \<not> (psr_volume_min r \<le> v \<and> v \<le> psr_volume_max r) then Inl sizing_invalid
           else bind_result (lift_dec (dec_mod 28 (rd28 (v - psr_volume_min r)) (psr_volume_step r)))
             (\<lambda>m. run_guards [
               (m \<noteq> 0, sizing_invalid),
               (e \<noteq> rd28 (psr_monetary_loss_per_lot r * v), sizing_invalid),
               (e > psr_allowed_risk_amount r, sizing_invalid)])
       | _ \<Rightarrow> Inl sizing_invalid))"

text \<open>The constructor: field constraints first (a violation is a \<open>ValidationError\<close>), then the validator.\<close>

definition build_position_sizing_result :: "position_sizing_result \<Rightarrow> position_sizing_result fallible" where
  "build_position_sizing_result r =
     (if \<not> fields_position_sizing_result r then Inl sizing_invalid
      else bind_result (validate_position_sizing_result r) (\<lambda>_. Inr r))"

record risk_decision =
  rd_cycle_id :: string
  rd_schema_version :: string
  rd_timestamp :: instant
  rd_snapshot_id :: string
  rd_proposal_id :: string
  rd_account_ref :: string
  rd_symbol :: string
  rd_status :: risk_decision_status
  rd_risk_state :: risk_state
  rd_reasons :: "risk_reason list"
  rd_account_metrics :: account_risk_metrics
  rd_position_sizing :: "position_sizing_result option"

definition fields_risk_decision :: "risk_decision \<Rightarrow> bool" where
  "fields_risk_decision r \<longleftrightarrow>
     is_cycle_id (rd_cycle_id r) \<and>
     is_schema_version (rd_schema_version r) \<and>
     is_snapshot_id (rd_snapshot_id r) \<and>
     is_identifier (rd_proposal_id r) \<and>
     is_account_reference (rd_account_ref r) \<and>
     is_symbol (rd_symbol r)"

definition dump_risk_decision :: "risk_decision \<Rightarrow> pyval" where
  "dump_risk_decision r = PDict [
     (''cycle_id'', PStr (rd_cycle_id r)),
     (''schema_version'', PStr (rd_schema_version r)),
     (''timestamp'', PTime (rd_timestamp r)),
     (''snapshot_id'', PStr (rd_snapshot_id r)),
     (''proposal_id'', PStr (rd_proposal_id r)),
     (''account_ref'', PStr (rd_account_ref r)),
     (''symbol'', PStr (rd_symbol r)),
     (''status'', PStr (value_risk_decision_status (rd_status r))),
     (''risk_state'', PStr (value_risk_state (rd_risk_state r))),
     (''reasons'', PList (map (\<lambda>x. dump_risk_reason x) (rd_reasons r))),
     (''account_metrics'', dump_account_risk_metrics (rd_account_metrics r)),
     (''position_sizing'', dump_option (\<lambda>x. dump_position_sizing_result x) (rd_position_sizing r))]"

definition validate_risk_decision :: "risk_decision \<Rightarrow> bool" where
  "validate_risk_decision d \<longleftrightarrow>
     arm_account_ref (rd_account_metrics d) = rd_account_ref d \<and>
     (if rd_status d = risk_decision_status.APPROVED
      then rd_reasons d = [] \<and>
        (case rd_position_sizing d of None \<Rightarrow> False
         | Some z \<Rightarrow> psr_status z = position_sizing_status.APPROVED) \<and>
        rd_risk_state d \<noteq> risk_state.HALTED
      else rd_reasons d \<noteq> [] \<and>
        \<not> (rd_status d = risk_decision_status.HALTED \<and> rd_risk_state d \<noteq> risk_state.HALTED) \<and>
        \<not> (rd_risk_state d = risk_state.HALTED \<and> rd_status d \<noteq> risk_decision_status.HALTED) \<and>
        \<not> (case rd_position_sizing d of None \<Rightarrow> False
           | Some z \<Rightarrow> psr_status z = position_sizing_status.APPROVED))"

definition ok_risk_decision :: "risk_decision \<Rightarrow> bool" where
  "ok_risk_decision d \<longleftrightarrow> fields_risk_decision d \<and> validate_risk_decision d"

section \<open>What the sizing validator promises\<close>

lemma sizing_result_ok:
  assumes "build_position_sizing_result r = Inr r'"
  shows "r' = r \<and> fields_position_sizing_result r \<and> validate_position_sizing_result r = Inr ()"
  using assms by (auto simp: build_position_sizing_result_def result_simps split: if_splits)

lemma approved_sizing_final_volume:
  assumes "validate_position_sizing_result r = Inr u"
    and "psr_status r = position_sizing_status.APPROVED"
  obtains v e where "psr_selected_volume r = Some v" "psr_estimated_risk_amount r = Some e"
    "psr_volume_min r \<le> v" "v \<le> psr_volume_max r"
    "e = rd28 (psr_monetary_loss_per_lot r * v)" "e \<le> psr_allowed_risk_amount r"
    "\<exists>n::int. rd28 (v - psr_volume_min r) = of_int n * psr_volume_step r"
proof -
  from assms obtain v e m where v: "psr_selected_volume r = Some v" "psr_estimated_risk_amount r = Some e"
    and b: "psr_volume_min r \<le> v" "v \<le> psr_volume_max r"
    and m: "dec_mod 28 (rd28 (v - psr_volume_min r)) (psr_volume_step r) = Inr m" "m = 0"
    and e: "e = rd28 (psr_monetary_loss_per_lot r * v)" "e \<le> psr_allowed_risk_amount r"
    by (auto simp: validate_position_sizing_result_def result_simps guard_simps not_less
        split: option.splits if_splits)
  from dec_mod_zero_iff [OF _ m(1)] m(2)
  have "\<exists>n::int. rd28 (v - psr_volume_min r) = of_int n * psr_volume_step r" by simp
  with v b e show thesis by (intro that) simp_all
qed

lemma validated_sizing_status:
  "validate_position_sizing_result r = Inr u \<Longrightarrow> psr_status r = position_sizing_status.REJECTED \<Longrightarrow>
     psr_selected_volume r = None \<and> psr_estimated_risk_amount r = None"
  by (auto simp: validate_position_sizing_result_def result_simps guard_simps split: if_splits)

end
