(* ===== verification/AgentSchemas.thy ===== *)
theory AgentSchemas
  imports FeatureSchemas RiskSchemas
begin

text \<open>
  \<open>schemas/agents.py\<close>: agent descriptors, the least-privilege market view agents receive and the
  typed outputs they return. The role outputs are instances of one envelope record, with the role
  of each fixed by a predicate. The digest of a feature view is computed by pydantic's JSON
  rendering of the original decimals and is a parameter of the definitions that use it.
\<close>

section \<open>Descriptors\<close>

record prompt_reference =
  pr_prompt_id :: string
  pr_prompt_version :: string
  pr_content_digest :: "string option"

definition fields_prompt_reference :: "prompt_reference \<Rightarrow> bool" where
  "fields_prompt_reference r \<longleftrightarrow>
     is_identifier (pr_prompt_id r) \<and>
     is_schema_version (pr_prompt_version r) \<and>
     pred_option (\<lambda>x. is_content_digest x) (pr_content_digest r)"

definition dump_prompt_reference :: "prompt_reference \<Rightarrow> pyval" where
  "dump_prompt_reference r = PDict [
     (''prompt_id'', PStr (pr_prompt_id r)),
     (''prompt_version'', PStr (pr_prompt_version r)),
     (''content_digest'', dump_option (\<lambda>x. PStr x) (pr_content_digest r))]"

record agent_descriptor =
  ad_agent_name :: string
  ad_role :: agent_role
  ad_agent_version :: string
  ad_prompt_ref :: prompt_reference
  ad_execution_profile :: agent_execution_profile
  ad_runtime_profile_ref :: string
  ad_invocation_mode :: agent_invocation_mode
  ad_invocation_policy_ref :: string
  ad_cost_policy_ref :: "string option"

definition fields_agent_descriptor :: "agent_descriptor \<Rightarrow> bool" where
  "fields_agent_descriptor r \<longleftrightarrow>
     is_agent_name (ad_agent_name r) \<and>
     is_schema_version (ad_agent_version r) \<and>
     is_identifier (ad_runtime_profile_ref r) \<and>
     is_identifier (ad_invocation_policy_ref r) \<and>
     pred_option (\<lambda>x. is_identifier x) (ad_cost_policy_ref r)"

definition dump_agent_descriptor :: "agent_descriptor \<Rightarrow> pyval" where
  "dump_agent_descriptor r = PDict [
     (''agent_name'', PStr (ad_agent_name r)),
     (''role'', PStr (value_agent_role (ad_role r))),
     (''agent_version'', PStr (ad_agent_version r)),
     (''prompt_ref'', dump_prompt_reference (ad_prompt_ref r)),
     (''execution_profile'', PStr (value_agent_execution_profile (ad_execution_profile r))),
     (''runtime_profile_ref'', PStr (ad_runtime_profile_ref r)),
     (''invocation_mode'', PStr (value_agent_invocation_mode (ad_invocation_mode r))),
     (''invocation_policy_ref'', PStr (ad_invocation_policy_ref r)),
     (''cost_policy_ref'', dump_option (\<lambda>x. PStr x) (ad_cost_policy_ref r))]"

definition validate_agent_descriptor :: "agent_descriptor \<Rightarrow> bool" where
  "validate_agent_descriptor d \<longleftrightarrow>
     ad_invocation_mode d \<in>
       (case ad_execution_profile d of
          agent_execution_profile.REALTIME \<Rightarrow> {agent_invocation_mode.REALTIME}
        | agent_execution_profile.CONDITIONAL \<Rightarrow> {agent_invocation_mode.CANDIDATE_ONLY}
        | agent_execution_profile.OFFLINE \<Rightarrow>
            {agent_invocation_mode.PERIODIC, agent_invocation_mode.OFFLINE})"

definition ok_agent_descriptor :: "agent_descriptor \<Rightarrow> bool" where
  "ok_agent_descriptor d \<longleftrightarrow> fields_agent_descriptor d \<and> validate_agent_descriptor d"

section \<open>The market view\<close>

record agent_candle =
  ac_symbol :: string
  ac_timeframe :: timeframe
  ac_open_time :: instant
  ac_open :: decimal
  ac_high :: decimal
  ac_low :: decimal
  ac_close :: decimal
  ac_tick_volume :: int
  ac_real_volume :: int

definition fields_agent_candle :: "agent_candle \<Rightarrow> bool" where
  "fields_agent_candle r \<longleftrightarrow>
     is_symbol (ac_symbol r) \<and>
     is_non_negative_int (ac_tick_volume r) \<and>
     is_non_negative_int (ac_real_volume r)"

definition dump_agent_candle :: "agent_candle \<Rightarrow> pyval" where
  "dump_agent_candle r = PDict [
     (''symbol'', PStr (ac_symbol r)),
     (''timeframe'', PStr (value_timeframe (ac_timeframe r))),
     (''open_time'', PTime (ac_open_time r)),
     (''open'', PDec (ac_open r)),
     (''high'', PDec (ac_high r)),
     (''low'', PDec (ac_low r)),
     (''close'', PDec (ac_close r)),
     (''tick_volume'', PInt (ac_tick_volume r)),
     (''real_volume'', PInt (ac_real_volume r))]"

record agent_candle_set =
  acs_m15 :: "agent_candle list"
  acs_h1 :: "agent_candle list"
  acs_h4 :: "agent_candle list"

definition fields_agent_candle_set :: "agent_candle_set \<Rightarrow> bool" where
  "fields_agent_candle_set r \<longleftrightarrow>
     1 \<le> length (acs_m15 r) \<and>
     1 \<le> length (acs_h1 r) \<and>
     1 \<le> length (acs_h4 r)"

definition dump_agent_candle_set :: "agent_candle_set \<Rightarrow> pyval" where
  "dump_agent_candle_set r = PDict [
     (''m15'', PList (map (\<lambda>x. dump_agent_candle x) (acs_m15 r))),
     (''h1'', PList (map (\<lambda>x. dump_agent_candle x) (acs_h1 r))),
     (''h4'', PList (map (\<lambda>x. dump_agent_candle x) (acs_h4 r)))]"

record agent_tick_view =
  atv_symbol :: string
  atv_source_time :: instant
  atv_bid :: decimal
  atv_ask :: decimal
  atv_spread :: decimal
  atv_last :: decimal
  atv_volume :: decimal

definition fields_agent_tick_view :: "agent_tick_view \<Rightarrow> bool" where
  "fields_agent_tick_view r \<longleftrightarrow>
     is_symbol (atv_symbol r) \<and>
     is_non_negative_decimal (atv_spread r) \<and>
     is_non_negative_decimal (atv_volume r)"

definition dump_agent_tick_view :: "agent_tick_view \<Rightarrow> pyval" where
  "dump_agent_tick_view r = PDict [
     (''symbol'', PStr (atv_symbol r)),
     (''source_time'', PTime (atv_source_time r)),
     (''bid'', PDec (atv_bid r)),
     (''ask'', PDec (atv_ask r)),
     (''spread'', PDec (atv_spread r)),
     (''last'', PDec (atv_last r)),
     (''volume'', PDec (atv_volume r))]"

record agent_symbol_view =
  asv_symbol :: string
  asv_digits :: int
  asv_point :: decimal
  asv_trade_tick_size :: decimal
  asv_trade_stops_level :: int
  asv_trading_mode :: symbol_trade_mode

definition fields_agent_symbol_view :: "agent_symbol_view \<Rightarrow> bool" where
  "fields_agent_symbol_view r \<longleftrightarrow>
     is_symbol (asv_symbol r) \<and>
     is_non_negative_int (asv_digits r) \<and>
     is_non_negative_decimal (asv_point r) \<and>
     is_non_negative_decimal (asv_trade_tick_size r) \<and>
     is_non_negative_int (asv_trade_stops_level r)"

definition dump_agent_symbol_view :: "agent_symbol_view \<Rightarrow> pyval" where
  "dump_agent_symbol_view r = PDict [
     (''symbol'', PStr (asv_symbol r)),
     (''digits'', PInt (asv_digits r)),
     (''point'', PDec (asv_point r)),
     (''trade_tick_size'', PDec (asv_trade_tick_size r)),
     (''trade_stops_level'', PInt (asv_trade_stops_level r)),
     (''trading_mode'', PInt (value_symbol_trade_mode (asv_trading_mode r)))]"

record agent_timeframe_feature_view =
  atfv_timeframe :: timeframe
  atfv_source_candle_count :: int
  atfv_source_first_candle_open_at :: instant
  atfv_source_last_candle_open_at :: instant
  atfv_source_last_candle_close_at :: instant
  atfv_evaluation_candle_open_at :: instant
  atfv_source_candle_digest :: string
  atfv_availability :: feature_availability
  atfv_trend :: trend_features
  atfv_momentum :: momentum_features
  atfv_volatility :: volatility_features
  atfv_trend_strength :: trend_strength_features
  atfv_candle_geometry :: candle_geometry_features
  atfv_market_structure :: market_structure_features

definition fields_agent_timeframe_feature_view :: "agent_timeframe_feature_view \<Rightarrow> bool" where
  "fields_agent_timeframe_feature_view r \<longleftrightarrow>
     is_non_negative_int (atfv_source_candle_count r) \<and>
     is_content_digest (atfv_source_candle_digest r)"

definition dump_agent_timeframe_feature_view :: "agent_timeframe_feature_view \<Rightarrow> pyval" where
  "dump_agent_timeframe_feature_view r = PDict [
     (''timeframe'', PStr (value_timeframe (atfv_timeframe r))),
     (''source_candle_count'', PInt (atfv_source_candle_count r)),
     (''source_first_candle_open_at'', PTime (atfv_source_first_candle_open_at r)),
     (''source_last_candle_open_at'', PTime (atfv_source_last_candle_open_at r)),
     (''source_last_candle_close_at'', PTime (atfv_source_last_candle_close_at r)),
     (''evaluation_candle_open_at'', PTime (atfv_evaluation_candle_open_at r)),
     (''source_candle_digest'', PStr (atfv_source_candle_digest r)),
     (''availability'', PStr (value_feature_availability (atfv_availability r))),
     (''trend'', dump_trend_features (atfv_trend r)),
     (''momentum'', dump_momentum_features (atfv_momentum r)),
     (''volatility'', dump_volatility_features (atfv_volatility r)),
     (''trend_strength'', dump_trend_strength_features (atfv_trend_strength r)),
     (''candle_geometry'', dump_candle_geometry_features (atfv_candle_geometry r)),
     (''market_structure'', dump_market_structure_features (atfv_market_structure r))]"

record agent_feature_collection =
  afc_m15 :: agent_timeframe_feature_view
  afc_h1 :: agent_timeframe_feature_view
  afc_h4 :: agent_timeframe_feature_view

definition fields_agent_feature_collection :: "agent_feature_collection \<Rightarrow> bool" where
  "fields_agent_feature_collection r \<longleftrightarrow>
     True"

definition dump_agent_feature_collection :: "agent_feature_collection \<Rightarrow> pyval" where
  "dump_agent_feature_collection r = PDict [
     (''m15'', dump_agent_timeframe_feature_view (afc_m15 r)),
     (''h1'', dump_agent_timeframe_feature_view (afc_h1 r)),
     (''h4'', dump_agent_timeframe_feature_view (afc_h4 r))]"

record agent_feature_view =
  afv_schema_version :: string
  afv_allowlist_version :: string
  afv_cycle_id :: string
  afv_snapshot_id :: string
  afv_symbol :: string
  afv_primary_timeframe :: timeframe
  afv_generated_at :: instant
  afv_source_feature_set_version :: string
  afv_source_feature_engine_version :: string
  afv_source_canonicalization_version :: string
  afv_source_configuration_version :: string
  afv_source_configuration_digest :: string
  afv_source_candle_digests :: source_candle_digests
  afv_source_definition_versions :: feature_definition_versions
  afv_source_decimal_precision :: int
  afv_source_decimal_rounding :: string
  afv_timeframes :: agent_feature_collection
  afv_warnings :: "feature_warning list"

definition fields_agent_feature_view :: "agent_feature_view \<Rightarrow> bool" where
  "fields_agent_feature_view r \<longleftrightarrow>
     afv_schema_version r = ''1.0.0'' \<and>
     afv_allowlist_version r = ''1.0.0'' \<and>
     is_cycle_id (afv_cycle_id r) \<and>
     is_snapshot_id (afv_snapshot_id r) \<and>
     is_symbol (afv_symbol r) \<and>
     is_schema_version (afv_source_feature_set_version r) \<and>
     is_schema_version (afv_source_feature_engine_version r) \<and>
     is_schema_version (afv_source_canonicalization_version r) \<and>
     is_schema_version (afv_source_configuration_version r) \<and>
     is_content_digest (afv_source_configuration_digest r) \<and>
     is_non_negative_int (afv_source_decimal_precision r)"

definition dump_agent_feature_view :: "agent_feature_view \<Rightarrow> pyval" where
  "dump_agent_feature_view r = PDict [
     (''schema_version'', PStr (afv_schema_version r)),
     (''allowlist_version'', PStr (afv_allowlist_version r)),
     (''cycle_id'', PStr (afv_cycle_id r)),
     (''snapshot_id'', PStr (afv_snapshot_id r)),
     (''symbol'', PStr (afv_symbol r)),
     (''primary_timeframe'', PStr (value_timeframe (afv_primary_timeframe r))),
     (''generated_at'', PTime (afv_generated_at r)),
     (''source_feature_set_version'', PStr (afv_source_feature_set_version r)),
     (''source_feature_engine_version'', PStr (afv_source_feature_engine_version r)),
     (''source_canonicalization_version'', PStr (afv_source_canonicalization_version r)),
     (''source_configuration_version'', PStr (afv_source_configuration_version r)),
     (''source_configuration_digest'', PStr (afv_source_configuration_digest r)),
     (''source_candle_digests'', dump_source_candle_digests (afv_source_candle_digests r)),
     (''source_definition_versions'', dump_feature_definition_versions (afv_source_definition_versions r)),
     (''source_decimal_precision'', PInt (afv_source_decimal_precision r)),
     (''source_decimal_rounding'', PStr (afv_source_decimal_rounding r)),
     (''timeframes'', dump_agent_feature_collection (afv_timeframes r)),
     (''warnings'', PList (map (\<lambda>x. dump_feature_warning x) (afv_warnings r)))]"

record agent_market_view =
  amv_schema_version :: string
  amv_source_schema_version :: string
  amv_cycle_id :: string
  amv_snapshot_id :: string
  amv_symbol :: string
  amv_primary_timeframe :: timeframe
  amv_snapshot_completed_at :: instant
  amv_symbol_info :: agent_symbol_view
  amv_tick :: agent_tick_view
  amv_candles :: agent_candle_set
  amv_freshness :: snapshot_freshness
  amv_validation_warning_codes :: "snapshot_warning_code list"
  amv_symbol_open_position_count :: int
  amv_features :: "agent_feature_view option"
  amv_agent_feature_view_digest :: "string option"

definition fields_agent_market_view :: "agent_market_view \<Rightarrow> bool" where
  "fields_agent_market_view r \<longleftrightarrow>
     ((amv_schema_version r) = ''1.0.0'' \<or> (amv_schema_version r) = ''2.0.0'') \<and>
     is_schema_version (amv_source_schema_version r) \<and>
     is_cycle_id (amv_cycle_id r) \<and>
     is_snapshot_id (amv_snapshot_id r) \<and>
     is_symbol (amv_symbol r) \<and>
     is_non_negative_int (amv_symbol_open_position_count r) \<and>
     pred_option (\<lambda>x. is_content_digest x) (amv_agent_feature_view_digest r)"

definition dump_agent_market_view :: "agent_market_view \<Rightarrow> pyval" where
  "dump_agent_market_view r = PDict [
     (''schema_version'', PStr (amv_schema_version r)),
     (''source_schema_version'', PStr (amv_source_schema_version r)),
     (''cycle_id'', PStr (amv_cycle_id r)),
     (''snapshot_id'', PStr (amv_snapshot_id r)),
     (''symbol'', PStr (amv_symbol r)),
     (''primary_timeframe'', PStr (value_timeframe (amv_primary_timeframe r))),
     (''snapshot_completed_at'', PTime (amv_snapshot_completed_at r)),
     (''symbol_info'', dump_agent_symbol_view (amv_symbol_info r)),
     (''tick'', dump_agent_tick_view (amv_tick r)),
     (''candles'', dump_agent_candle_set (amv_candles r)),
     (''freshness'', dump_snapshot_freshness (amv_freshness r)),
     (''validation_warning_codes'', PList (map (\<lambda>x. PStr (value_snapshot_warning_code x)) (amv_validation_warning_codes r))),
     (''symbol_open_position_count'', PInt (amv_symbol_open_position_count r)),
     (''features'', dump_option (\<lambda>x. dump_agent_feature_view x) (amv_features r)),
     (''agent_feature_view_digest'', dump_option (\<lambda>x. PStr x) (amv_agent_feature_view_digest r))]"

definition validate_agent_candle :: "agent_candle \<Rightarrow> bool" where
  "validate_agent_candle c \<longleftrightarrow>
     \<not> (ac_high c < max (ac_open c) (ac_close c) \<or> ac_low c > min (ac_open c) (ac_close c)) \<and>
     \<not> ac_high c < ac_low c"

definition ok_agent_candle :: "agent_candle \<Rightarrow> bool" where
  "ok_agent_candle c \<longleftrightarrow> fields_agent_candle c \<and> validate_agent_candle c"

definition validate_agent_tick_view :: "agent_tick_view \<Rightarrow> bool" where
  "validate_agent_tick_view t \<longleftrightarrow>
     \<not> (atv_ask t < atv_bid t \<or> atv_spread t \<noteq> rd28 (atv_ask t - atv_bid t))"

definition ok_agent_tick_view :: "agent_tick_view \<Rightarrow> bool" where
  "ok_agent_tick_view t \<longleftrightarrow> fields_agent_tick_view t \<and> validate_agent_tick_view t"

definition validate_agent_feature_collection :: "agent_feature_collection \<Rightarrow> bool" where
  "validate_agent_feature_collection c \<longleftrightarrow>
     atfv_timeframe (afc_m15 c) = timeframe.M15 \<and> atfv_timeframe (afc_h1 c) = timeframe.H1 \<and>
     atfv_timeframe (afc_h4 c) = timeframe.H4"

type_synonym view_digest = "agent_feature_view \<Rightarrow> string"

definition validate_agent_market_view :: "view_digest \<Rightarrow> agent_market_view \<Rightarrow> bool" where
  "validate_agent_market_view vd v \<longleftrightarrow>
     asv_symbol (amv_symbol_info v) = amv_symbol v \<and> atv_symbol (amv_tick v) = amv_symbol v \<and>
     (\<forall>(tf, cs) \<in> set [(timeframe.M15, acs_m15 (amv_candles v)), (timeframe.H1, acs_h1 (amv_candles v)),
         (timeframe.H4, acs_h4 (amv_candles v))].
        \<forall>c \<in> set cs. ac_symbol c = amv_symbol v \<and> ac_timeframe c = tf) \<and>
     (if amv_schema_version v = ''1.0.0''
      then amv_features v = None \<and> amv_agent_feature_view_digest v = None
      else (case (amv_features v, amv_agent_feature_view_digest v) of
         (Some f, Some d) \<Rightarrow>
           afv_cycle_id f = amv_cycle_id v \<and> afv_snapshot_id f = amv_snapshot_id v \<and>
           afv_symbol f = amv_symbol v \<and> afv_primary_timeframe f = amv_primary_timeframe v \<and>
           afv_generated_at f = amv_snapshot_completed_at v \<and> d = vd f
       | _ \<Rightarrow> False))"

definition ok_agent_market_view :: "view_digest \<Rightarrow> agent_market_view \<Rightarrow> bool" where
  "ok_agent_market_view vd v \<longleftrightarrow> fields_agent_market_view v \<and> validate_agent_market_view vd v"

section \<open>Projections\<close>

definition project_timeframe :: "timeframe_feature_set \<Rightarrow> agent_timeframe_feature_view" where
  "project_timeframe s = \<lparr>
     atfv_timeframe = tfs_timeframe s, atfv_source_candle_count = tfs_source_candle_count s,
     atfv_source_first_candle_open_at = tfs_source_first_candle_open_at s,
     atfv_source_last_candle_open_at = tfs_source_last_candle_open_at s,
     atfv_source_last_candle_close_at = tfs_source_last_candle_close_at s,
     atfv_evaluation_candle_open_at = tfs_evaluation_candle_open_at s,
     atfv_source_candle_digest = tfs_source_candle_digest s, atfv_availability = tfs_availability s,
     atfv_trend = tfs_trend s, atfv_momentum = tfs_momentum s, atfv_volatility = tfs_volatility s,
     atfv_trend_strength = tfs_trend_strength s, atfv_candle_geometry = tfs_candle_geometry s,
     atfv_market_structure = tfs_market_structure s\<rparr>"

definition feature_view :: "market_feature_set \<Rightarrow> agent_feature_view fallible" where
  "feature_view f =
     (let p = mfs_provenance f; t = mfs_timeframes f
      in bind_result (build ''AgentFeatureCollection''
            (\<lambda>c. fields_agent_feature_collection c \<and> validate_agent_feature_collection c)
            \<lparr>afc_m15 = project_timeframe (tfc_m15 t), afc_h1 = project_timeframe (tfc_h1 t),
             afc_h4 = project_timeframe (tfc_h4 t)\<rparr>) (\<lambda>c.
         build ''AgentFeatureView'' fields_agent_feature_view \<lparr>
           afv_schema_version = ''1.0.0'', afv_allowlist_version = ''1.0.0'',
           afv_cycle_id = mfs_cycle_id f, afv_snapshot_id = mfs_snapshot_id f, afv_symbol = mfs_symbol f,
           afv_primary_timeframe = mfs_primary_timeframe f, afv_generated_at = mfs_generated_at f,
           afv_source_feature_set_version = mfs_feature_set_version f,
           afv_source_feature_engine_version = mfs_feature_engine_version f,
           afv_source_canonicalization_version = fp_canonicalization_version p,
           afv_source_configuration_version = fp_configuration_version p,
           afv_source_configuration_digest = fp_configuration_digest p,
           afv_source_candle_digests = fp_source_candle_digests p,
           afv_source_definition_versions = fp_definition_versions p,
           afv_source_decimal_precision = fp_decimal_precision p,
           afv_source_decimal_rounding = fp_decimal_rounding p,
           afv_timeframes = c, afv_warnings = mfs_warnings f\<rparr>))"

definition candle_view :: "mt5_candle \<Rightarrow> agent_candle" where
  "candle_view c = \<lparr>
     ac_symbol = mc_symbol c, ac_timeframe = mc_timeframe c, ac_open_time = mc_open_time c,
     ac_open = mc_open c, ac_high = mc_high c, ac_low = mc_low c, ac_close = mc_close c,
     ac_tick_volume = mc_tick_volume c, ac_real_volume = mc_real_volume c\<rparr>"

text \<open>Every part is built, and so validated, before the view.\<close>

definition market_view :: "view_digest \<Rightarrow> market_snapshot \<Rightarrow> market_feature_set option \<Rightarrow> agent_market_view fallible" where
  "market_view vd s features =
     bind_result (case features of None \<Rightarrow> Inr None
       | Some f \<Rightarrow> bind_result (feature_view f) (\<lambda>x. Inr (Some x))) (\<lambda>fv.
     bind_result (build ''AgentSymbolView'' fields_agent_symbol_view
       \<lparr>asv_symbol = msi_symbol (ms_symbol_info s), asv_digits = msi_digits (ms_symbol_info s),
        asv_point = msi_point (ms_symbol_info s),
        asv_trade_tick_size = msi_trade_tick_size (ms_symbol_info s),
        asv_trade_stops_level = msi_trade_stops_level (ms_symbol_info s),
        asv_trading_mode = msi_trading_mode (ms_symbol_info s)\<rparr>) (\<lambda>sv.
     bind_result (build ''AgentTickView'' ok_agent_tick_view
       \<lparr>atv_symbol = mt_symbol (ms_tick s), atv_source_time = mt_source_time (ms_tick s),
        atv_bid = mt_bid (ms_tick s), atv_ask = mt_ask (ms_tick s), atv_spread = ms_spread s,
        atv_last = mt_last (ms_tick s), atv_volume = mt_volume (ms_tick s)\<rparr>) (\<lambda>tv.
     bind_result (build ''AgentCandleSet'' (\<lambda>cs. fields_agent_candle_set cs \<and>
          list_all ok_agent_candle (acs_m15 cs @ acs_h1 cs @ acs_h4 cs))
       \<lparr>acs_m15 = map candle_view (sc_m15 (ms_candles s)), acs_h1 = map candle_view (sc_h1 (ms_candles s)),
        acs_h4 = map candle_view (sc_h4 (ms_candles s))\<rparr>) (\<lambda>cs.
     build ''AgentMarketView'' (ok_agent_market_view vd) \<lparr>
       amv_schema_version = (if fv = None then ''1.0.0'' else ''2.0.0''),
       amv_source_schema_version = ms_schema_version s, amv_cycle_id = ms_cycle_id s,
       amv_snapshot_id = ms_snapshot_id s, amv_symbol = ms_symbol s,
       amv_primary_timeframe = ms_primary_timeframe s,
       amv_snapshot_completed_at = ms_snapshot_completed_at s, amv_symbol_info = sv, amv_tick = tv,
       amv_candles = cs, amv_freshness = scm_freshness (ms_consistency s),
       amv_validation_warning_codes = map svw_code (scm_validation_warnings (ms_consistency s)),
       amv_symbol_open_position_count = int (length (ms_open_positions s)),
       amv_features = fv, amv_agent_feature_view_digest = map_option vd fv\<rparr>))))"

section \<open>Outputs\<close>

record agent_evidence =
  ae_evidence_id :: string
  ae_kind :: evidence_kind
  ae_summary :: string
  ae_source_refs :: "string list"

definition fields_agent_evidence :: "agent_evidence \<Rightarrow> bool" where
  "fields_agent_evidence r \<longleftrightarrow>
     is_identifier (ae_evidence_id r) \<and>
     1 \<le> length (ae_summary r) \<and>
     length (ae_summary r) \<le> 1024 \<and>
     list_all (\<lambda>x. is_identifier x) (ae_source_refs r)"

definition dump_agent_evidence :: "agent_evidence \<Rightarrow> pyval" where
  "dump_agent_evidence r = PDict [
     (''evidence_id'', PStr (ae_evidence_id r)),
     (''kind'', PStr (value_evidence_kind (ae_kind r))),
     (''summary'', PStr (ae_summary r)),
     (''source_refs'', PList (map (\<lambda>x. PStr x) (ae_source_refs r)))]"

record agent_warning =
  aw_code :: string
  aw_message :: string

definition fields_agent_warning :: "agent_warning \<Rightarrow> bool" where
  "fields_agent_warning r \<longleftrightarrow>
     is_identifier (aw_code r) \<and>
     1 \<le> length (aw_message r) \<and>
     length (aw_message r) \<le> 512"

definition dump_agent_warning :: "agent_warning \<Rightarrow> pyval" where
  "dump_agent_warning r = PDict [
     (''code'', PStr (aw_code r)),
     (''message'', PStr (aw_message r))]"

record agent_invalidation =
  ai_condition :: string
  ai_source_refs :: "string list"

definition fields_agent_invalidation :: "agent_invalidation \<Rightarrow> bool" where
  "fields_agent_invalidation r \<longleftrightarrow>
     1 \<le> length (ai_condition r) \<and>
     length (ai_condition r) \<le> 1024 \<and>
     list_all (\<lambda>x. is_identifier x) (ai_source_refs r)"

definition dump_agent_invalidation :: "agent_invalidation \<Rightarrow> pyval" where
  "dump_agent_invalidation r = PDict [
     (''condition'', PStr (ai_condition r)),
     (''source_refs'', PList (map (\<lambda>x. PStr x) (ai_source_refs r)))]"

record 'p agent_output =
  ao_schema_version :: string
  ao_output_id :: string
  ao_cycle_id :: string
  ao_snapshot_id :: string
  ao_agent_name :: string
  ao_agent_role :: agent_role
  ao_agent_version :: string
  ao_prompt_ref :: prompt_reference
  ao_runtime_profile_ref :: string
  ao_invocation_policy_ref :: string
  ao_cost_policy_ref :: "string option"
  ao_produced_at :: instant
  ao_status :: agent_output_status
  ao_confidence :: decimal
  ao_evidence :: "agent_evidence list"
  ao_warnings :: "agent_warning list"
  ao_invalidations :: "agent_invalidation list"
  ao_payload :: "'p"

definition fields_agent_output :: "'p agent_output \<Rightarrow> bool" where
  "fields_agent_output r \<longleftrightarrow>
     is_schema_version (ao_schema_version r) \<and>
     is_identifier (ao_output_id r) \<and>
     is_cycle_id (ao_cycle_id r) \<and>
     is_snapshot_id (ao_snapshot_id r) \<and>
     is_agent_name (ao_agent_name r) \<and>
     is_schema_version (ao_agent_version r) \<and>
     is_identifier (ao_runtime_profile_ref r) \<and>
     is_identifier (ao_invocation_policy_ref r) \<and>
     pred_option (\<lambda>x. is_identifier x) (ao_cost_policy_ref r) \<and>
     is_confidence (ao_confidence r)"

definition dump_agent_output :: "('p \<Rightarrow> pyval) \<Rightarrow> 'p agent_output \<Rightarrow> pyval" where
  "dump_agent_output dp r = PDict [(''schema_version'', PStr (ao_schema_version r)),
     (''output_id'', PStr (ao_output_id r)),
     (''cycle_id'', PStr (ao_cycle_id r)),
     (''snapshot_id'', PStr (ao_snapshot_id r)),
     (''agent_name'', PStr (ao_agent_name r)),
     (''agent_role'', PStr (value_agent_role (ao_agent_role r))),
     (''agent_version'', PStr (ao_agent_version r)),
     (''prompt_ref'', dump_prompt_reference (ao_prompt_ref r)),
     (''runtime_profile_ref'', PStr (ao_runtime_profile_ref r)),
     (''invocation_policy_ref'', PStr (ao_invocation_policy_ref r)),
     (''cost_policy_ref'', dump_option (\<lambda>x. PStr x) (ao_cost_policy_ref r)),
     (''produced_at'', PTime (ao_produced_at r)),
     (''status'', PStr (value_agent_output_status (ao_status r))),
     (''confidence'', PDec (ao_confidence r)),
     (''evidence'', PList (map (\<lambda>x. dump_agent_evidence x) (ao_evidence r))),
     (''warnings'', PList (map (\<lambda>x. dump_agent_warning x) (ao_warnings r))),
     (''invalidations'', PList (map (\<lambda>x. dump_agent_invalidation x) (ao_invalidations r))),
     (''payload'', dp (ao_payload r))]"

record market_context_result =
  mcr_regime :: market_regime
  mcr_summary :: string

definition fields_market_context_result :: "market_context_result \<Rightarrow> bool" where
  "fields_market_context_result r \<longleftrightarrow>
     1 \<le> length (mcr_summary r) \<and>
     length (mcr_summary r) \<le> 2048"

definition dump_market_context_result :: "market_context_result \<Rightarrow> pyval" where
  "dump_market_context_result r = PDict [
     (''regime'', PStr (value_market_regime (mcr_regime r))),
     (''summary'', PStr (mcr_summary r))]"

record trend_analysis_result =
  tar_bias :: directional_bias
  tar_strength :: trend_strength
  tar_summary :: string

definition fields_trend_analysis_result :: "trend_analysis_result \<Rightarrow> bool" where
  "fields_trend_analysis_result r \<longleftrightarrow>
     1 \<le> length (tar_summary r) \<and>
     length (tar_summary r) \<le> 2048"

definition dump_trend_analysis_result :: "trend_analysis_result \<Rightarrow> pyval" where
  "dump_trend_analysis_result r = PDict [
     (''bias'', PStr (value_directional_bias (tar_bias r))),
     (''strength'', PStr (value_trend_strength (tar_strength r))),
     (''summary'', PStr (tar_summary r))]"

record price_action_result =
  par_bias :: directional_bias
  par_facts :: "string list"
  par_interpretations :: "string list"

definition fields_price_action_result :: "price_action_result \<Rightarrow> bool" where
  "fields_price_action_result r \<longleftrightarrow>
     True"

definition dump_price_action_result :: "price_action_result \<Rightarrow> pyval" where
  "dump_price_action_result r = PDict [
     (''bias'', PStr (value_directional_bias (par_bias r))),
     (''facts'', PList (map (\<lambda>x. PStr x) (par_facts r))),
     (''interpretations'', PList (map (\<lambda>x. PStr x) (par_interpretations r)))]"

record entry_analysis_result =
  ear_disposition :: entry_disposition
  ear_side :: "trade_side option"
  ear_entry :: "decimal option"
  ear_stop_loss :: "decimal option"
  ear_take_profit :: "decimal option"
  ear_rationale :: string

definition fields_entry_analysis_result :: "entry_analysis_result \<Rightarrow> bool" where
  "fields_entry_analysis_result r \<longleftrightarrow>
     1 \<le> length (ear_rationale r) \<and>
     length (ear_rationale r) \<le> 2048"

definition dump_entry_analysis_result :: "entry_analysis_result \<Rightarrow> pyval" where
  "dump_entry_analysis_result r = PDict [
     (''disposition'', PStr (value_entry_disposition (ear_disposition r))),
     (''side'', dump_option (\<lambda>x. PStr (value_trade_side x)) (ear_side r)),
     (''entry'', dump_option (\<lambda>x. PDec x) (ear_entry r)),
     (''stop_loss'', dump_option (\<lambda>x. PDec x) (ear_stop_loss r)),
     (''take_profit'', dump_option (\<lambda>x. PDec x) (ear_take_profit r)),
     (''rationale'', PStr (ear_rationale r))]"

record quant_research_result =
  qrr_hypothesis :: string
  qrr_status :: quant_evidence_status
  qrr_evidence_refs :: "string list"
  qrr_limitations :: "string list"

definition fields_quant_research_result :: "quant_research_result \<Rightarrow> bool" where
  "fields_quant_research_result r \<longleftrightarrow>
     1 \<le> length (qrr_hypothesis r) \<and>
     length (qrr_hypothesis r) \<le> 2048 \<and>
     list_all (\<lambda>x. is_identifier x) (qrr_evidence_refs r)"

definition dump_quant_research_result :: "quant_research_result \<Rightarrow> pyval" where
  "dump_quant_research_result r = PDict [
     (''hypothesis'', PStr (qrr_hypothesis r)),
     (''status'', PStr (value_quant_evidence_status (qrr_status r))),
     (''evidence_refs'', PList (map (\<lambda>x. PStr x) (qrr_evidence_refs r))),
     (''limitations'', PList (map (\<lambda>x. PStr x) (qrr_limitations r)))]"

record quant_developer_review =
  qdr_status :: quant_review_status
  qdr_data_integrity_findings :: "string list"
  qdr_leakage_risks :: "string list"
  qdr_required_evidence :: "string list"

definition fields_quant_developer_review :: "quant_developer_review \<Rightarrow> bool" where
  "fields_quant_developer_review r \<longleftrightarrow>
     True"

definition dump_quant_developer_review :: "quant_developer_review \<Rightarrow> pyval" where
  "dump_quant_developer_review r = PDict [
     (''status'', PStr (value_quant_review_status (qdr_status r))),
     (''data_integrity_findings'', PList (map (\<lambda>x. PStr x) (qdr_data_integrity_findings r))),
     (''leakage_risks'', PList (map (\<lambda>x. PStr x) (qdr_leakage_risks r))),
     (''required_evidence'', PList (map (\<lambda>x. PStr x) (qdr_required_evidence r)))]"

record skeptic_review =
  sr_verdict :: skeptic_verdict
  sr_challenged_output_ids :: "string list"
  sr_objections :: "string list"

definition fields_skeptic_review :: "skeptic_review \<Rightarrow> bool" where
  "fields_skeptic_review r \<longleftrightarrow>
     list_all (\<lambda>x. is_identifier x) (sr_challenged_output_ids r)"

definition dump_skeptic_review :: "skeptic_review \<Rightarrow> pyval" where
  "dump_skeptic_review r = PDict [
     (''verdict'', PStr (value_skeptic_verdict (sr_verdict r))),
     (''challenged_output_ids'', PList (map (\<lambda>x. PStr x) (sr_challenged_output_ids r))),
     (''objections'', PList (map (\<lambda>x. PStr x) (sr_objections r)))]"

record chief_trader_result =
  ctr_action :: trade_action
  ctr_rationale :: string
  ctr_trade_proposal :: "trade_proposal option"

definition fields_chief_trader_result :: "chief_trader_result \<Rightarrow> bool" where
  "fields_chief_trader_result r \<longleftrightarrow>
     1 \<le> length (ctr_rationale r) \<and>
     length (ctr_rationale r) \<le> 2048"

definition dump_chief_trader_result :: "chief_trader_result \<Rightarrow> pyval" where
  "dump_chief_trader_result r = PDict [
     (''action'', PStr (value_trade_action (ctr_action r))),
     (''rationale'', PStr (ctr_rationale r)),
     (''trade_proposal'', dump_option (\<lambda>x. dump_trade_proposal x) (ctr_trade_proposal r))]"

record performance_review_result =
  prr_findings :: "string list"
  prr_recommendations :: "string list"
  prr_automatic_strategy_change_permitted :: bool

definition fields_performance_review_result :: "performance_review_result \<Rightarrow> bool" where
  "fields_performance_review_result r \<longleftrightarrow>
     \<not> (prr_automatic_strategy_change_permitted r)"

definition dump_performance_review_result :: "performance_review_result \<Rightarrow> pyval" where
  "dump_performance_review_result r = PDict [
     (''findings'', PList (map (\<lambda>x. PStr x) (prr_findings r))),
     (''recommendations'', PList (map (\<lambda>x. PStr x) (prr_recommendations r))),
     (''automatic_strategy_change_permitted'', PBool (prr_automatic_strategy_change_permitted r))]"

definition validate_agent_output :: "'p agent_output \<Rightarrow> bool" where
  "validate_agent_output r \<longleftrightarrow> \<not> (ao_status r = agent_output_status.DEGRADED \<and> ao_warnings r = [])"

definition validate_entry_analysis_result :: "entry_analysis_result \<Rightarrow> bool" where
  "validate_entry_analysis_result r \<longleftrightarrow>
     (if ear_disposition r = entry_disposition.NO_ENTRY
      then ear_side r = None \<and> list_all (\<lambda>p. p = None) [ear_entry r, ear_stop_loss r, ear_take_profit r]
      else \<not> (ear_disposition r = entry_disposition.ENTER_NOW \<and>
              (ear_side r = None \<or> ear_entry r = None \<or> ear_stop_loss r = None)))"

definition validate_chief_trader_result :: "chief_trader_result \<Rightarrow> bool" where
  "validate_chief_trader_result r \<longleftrightarrow>
     \<not> (ctr_action r = trade_action.HOLD \<and> ctr_trade_proposal r \<noteq> None) \<and>
     (ctr_action r \<in> {trade_action.BUY, trade_action.SELL} \<longrightarrow>
        (case ctr_trade_proposal r of None \<Rightarrow> False
         | Some p \<Rightarrow> value_trade_side (tp_side p) = value_trade_action (ctr_action r)))"

type_synonym market_context_output = "market_context_result agent_output"
type_synonym trend_analysis_output = "trend_analysis_result agent_output"
type_synonym price_action_output = "price_action_result agent_output"
type_synonym entry_analysis_output = "entry_analysis_result agent_output"
type_synonym quant_research_output = "quant_research_result agent_output"
type_synonym quant_developer_output = "quant_developer_review agent_output"
type_synonym skeptic_output = "skeptic_review agent_output"
type_synonym chief_trader_output = "chief_trader_result agent_output"
type_synonym performance_review_output = "performance_review_result agent_output"

definition ok_role_output :: "agent_role \<Rightarrow> 'p agent_output \<Rightarrow> bool" where
  "ok_role_output role r \<longleftrightarrow> fields_agent_output r \<and> ao_agent_role r = role \<and> validate_agent_output r"

definition validate_chief_trader_output :: "chief_trader_output \<Rightarrow> bool" where
  "validate_chief_trader_output r \<longleftrightarrow>
     (case ctr_trade_proposal (ao_payload r) of None \<Rightarrow> True
      | Some p \<Rightarrow> tp_cycle_id p = ao_cycle_id r \<and> tp_snapshot_id p = ao_snapshot_id r)"

definition ok_chief_trader_output :: "chief_trader_output \<Rightarrow> bool" where
  "ok_chief_trader_output r \<longleftrightarrow>
     ok_role_output agent_role.CHIEF_TRADER r \<and> validate_chief_trader_output r"

end
