(* ===== verification/OrchestrationSchemas.thy ===== *)
theory OrchestrationSchemas
  imports AgentSchemas
begin

text \<open>
  \<open>schemas/orchestration.py\<close>: agent failure records, the typed inputs of the roles, static stage
  metadata and debate challenges. A role input carries the outputs of earlier stages, and its
  validator checks that each belongs to the same cycle and snapshot.
\<close>

section \<open>Records\<close>

record agent_failure_record =
  afr_schema_version :: string
  afr_failure_id :: string
  afr_cycle_id :: string
  afr_snapshot_id :: string
  afr_agent_role :: "agent_role option"
  afr_execution_profile :: "agent_execution_profile option"
  afr_category :: agent_failure_category
  afr_occurred_at :: instant
  afr_sanitized_detail :: string
  afr_disposition :: failure_disposition

definition fields_agent_failure_record :: "agent_failure_record \<Rightarrow> bool" where
  "fields_agent_failure_record r \<longleftrightarrow>
     is_schema_version (afr_schema_version r) \<and>
     is_identifier (afr_failure_id r) \<and>
     is_cycle_id (afr_cycle_id r) \<and>
     is_snapshot_id (afr_snapshot_id r) \<and>
     1 \<le> length (afr_sanitized_detail r) \<and>
     length (afr_sanitized_detail r) \<le> 512"

definition dump_agent_failure_record :: "agent_failure_record \<Rightarrow> pyval" where
  "dump_agent_failure_record r = PDict [
     (''schema_version'', PStr (afr_schema_version r)),
     (''failure_id'', PStr (afr_failure_id r)),
     (''cycle_id'', PStr (afr_cycle_id r)),
     (''snapshot_id'', PStr (afr_snapshot_id r)),
     (''agent_role'', dump_option (\<lambda>x. PStr (value_agent_role x)) (afr_agent_role r)),
     (''execution_profile'', dump_option (\<lambda>x. PStr (value_agent_execution_profile x)) (afr_execution_profile r)),
     (''category'', PStr (value_agent_failure_category (afr_category r))),
     (''occurred_at'', PTime (afr_occurred_at r)),
     (''sanitized_detail'', PStr (afr_sanitized_detail r)),
     (''disposition'', PStr (value_failure_disposition (afr_disposition r)))]"

definition validate_agent_failure_record :: "agent_failure_record \<Rightarrow> bool" where
  "validate_agent_failure_record r \<longleftrightarrow>
     afr_category r \<in> {agent_failure_category.STALE_SNAPSHOT, agent_failure_category.INVALID_SNAPSHOT,
       agent_failure_category.SCHEMA_MISMATCH, agent_failure_category.UNKNOWN} \<or>
     afr_agent_role r \<noteq> None"

definition ok_agent_failure_record :: "agent_failure_record \<Rightarrow> bool" where
  "ok_agent_failure_record r \<longleftrightarrow> fields_agent_failure_record r \<and> validate_agent_failure_record r"

record snapshot_agent_input =
  sai_schema_version :: string
  sai_cycle_id :: string
  sai_snapshot_id :: string
  sai_market :: agent_market_view

definition fields_snapshot_agent_input :: "snapshot_agent_input \<Rightarrow> bool" where
  "fields_snapshot_agent_input r \<longleftrightarrow>
     is_schema_version (sai_schema_version r) \<and>
     is_cycle_id (sai_cycle_id r) \<and>
     is_snapshot_id (sai_snapshot_id r)"

record stage_one_context =
  soc_market_context :: "market_context_output option"
  soc_trend :: "trend_analysis_output option"
  soc_price_action :: "price_action_output option"
  soc_failures :: "agent_failure_record list"

definition fields_stage_one_context :: "stage_one_context \<Rightarrow> bool" where
  "fields_stage_one_context r \<longleftrightarrow>
     True"

record entry_analysis_input =
  eai_schema_version :: string
  eai_cycle_id :: string
  eai_snapshot_id :: string
  eai_market :: agent_market_view
  eai_stage_one :: stage_one_context

definition fields_entry_analysis_input :: "entry_analysis_input \<Rightarrow> bool" where
  "fields_entry_analysis_input r \<longleftrightarrow>
     is_schema_version (eai_schema_version r) \<and>
     is_cycle_id (eai_cycle_id r) \<and>
     is_snapshot_id (eai_snapshot_id r)"

record performance_history_reference =
  phr_history_id :: string
  phr_schema_version :: string
  phr_as_of :: instant
  phr_record_count :: int

definition fields_performance_history_reference :: "performance_history_reference \<Rightarrow> bool" where
  "fields_performance_history_reference r \<longleftrightarrow>
     is_identifier (phr_history_id r) \<and>
     is_schema_version (phr_schema_version r) \<and>
     is_non_negative_int (phr_record_count r)"

record quant_research_input =
  qri_schema_version :: string
  qri_cycle_id :: string
  qri_snapshot_id :: string
  qri_market :: agent_market_view
  qri_stage_one :: stage_one_context
  qri_entry :: entry_analysis_output
  qri_performance_history :: "performance_history_reference option"

definition fields_quant_research_input :: "quant_research_input \<Rightarrow> bool" where
  "fields_quant_research_input r \<longleftrightarrow>
     is_schema_version (qri_schema_version r) \<and>
     is_cycle_id (qri_cycle_id r) \<and>
     is_snapshot_id (qri_snapshot_id r)"

record quant_developer_input =
  qdi_schema_version :: string
  qdi_cycle_id :: string
  qdi_snapshot_id :: string
  qdi_market :: agent_market_view
  qdi_stage_one :: stage_one_context
  qdi_entry :: entry_analysis_output
  qdi_quant_research :: "quant_research_output option"
  qdi_performance_history :: "performance_history_reference option"

definition fields_quant_developer_input :: "quant_developer_input \<Rightarrow> bool" where
  "fields_quant_developer_input r \<longleftrightarrow>
     is_schema_version (qdi_schema_version r) \<and>
     is_cycle_id (qdi_cycle_id r) \<and>
     is_snapshot_id (qdi_snapshot_id r)"

record skeptic_input =
  si_schema_version :: string
  si_cycle_id :: string
  si_snapshot_id :: string
  si_market :: agent_market_view
  si_stage_one :: stage_one_context
  si_entry :: entry_analysis_output
  si_quant_research :: "quant_research_output option"
  si_quant_developer :: "quant_developer_output option"
  si_chief_draft :: "chief_trader_output option"

definition fields_skeptic_input :: "skeptic_input \<Rightarrow> bool" where
  "fields_skeptic_input r \<longleftrightarrow>
     is_schema_version (si_schema_version r) \<and>
     is_cycle_id (si_cycle_id r) \<and>
     is_snapshot_id (si_snapshot_id r)"

record chief_trader_input =
  cti_schema_version :: string
  cti_cycle_id :: string
  cti_snapshot_id :: string
  cti_market :: agent_market_view
  cti_stage_one :: stage_one_context
  cti_entry :: entry_analysis_output
  cti_quant_research :: "quant_research_output option"
  cti_quant_developer :: "quant_developer_output option"
  cti_skeptic :: skeptic_output

definition fields_chief_trader_input :: "chief_trader_input \<Rightarrow> bool" where
  "fields_chief_trader_input r \<longleftrightarrow>
     is_schema_version (cti_schema_version r) \<and>
     is_cycle_id (cti_cycle_id r) \<and>
     is_snapshot_id (cti_snapshot_id r)"

record agent_output_reference =
  aor_output_id :: string
  aor_cycle_id :: string
  aor_snapshot_id :: string
  aor_agent_role :: agent_role
  aor_agent_version :: string
  aor_prompt_version :: string

definition fields_agent_output_reference :: "agent_output_reference \<Rightarrow> bool" where
  "fields_agent_output_reference r \<longleftrightarrow>
     is_identifier (aor_output_id r) \<and>
     is_cycle_id (aor_cycle_id r) \<and>
     is_snapshot_id (aor_snapshot_id r) \<and>
     is_schema_version (aor_agent_version r) \<and>
     is_schema_version (aor_prompt_version r)"

record performance_review_input =
  pri_schema_version :: string
  pri_cycle_id :: string
  pri_snapshot_id :: string
  pri_performance_history :: performance_history_reference
  pri_agent_output_refs :: "agent_output_reference list"
  pri_trade_proposals :: "trade_proposal list"
  pri_risk_decisions :: "risk_decision list"

definition fields_performance_review_input :: "performance_review_input \<Rightarrow> bool" where
  "fields_performance_review_input r \<longleftrightarrow>
     is_schema_version (pri_schema_version r) \<and>
     is_cycle_id (pri_cycle_id r) \<and>
     is_snapshot_id (pri_snapshot_id r)"

record stage_member =
  sm_component :: pipeline_component
  sm_required :: bool
  sm_allowed_profiles :: "agent_execution_profile list"

definition fields_stage_member :: "stage_member \<Rightarrow> bool" where
  "fields_stage_member r \<longleftrightarrow>
     True"

record stage_definition =
  sd_pipeline :: pipeline_kind
  sd_stage_number :: int
  sd_name :: string
  sd_members :: "stage_member list"
  sd_parallel :: bool
  sd_minimum_successes :: int

definition fields_stage_definition :: "stage_definition \<Rightarrow> bool" where
  "fields_stage_definition r \<longleftrightarrow>
     is_positive_int (sd_stage_number r) \<and>
     is_identifier (sd_name r) \<and>
     1 \<le> length (sd_members r) \<and>
     is_non_negative_int (sd_minimum_successes r)"

record debate_challenge =
  dc_schema_version :: string
  dc_challenge_id :: string
  dc_cycle_id :: string
  dc_snapshot_id :: string
  dc_round_number :: int
  dc_challenger :: agent_role
  dc_target :: agent_role
  dc_challenged_output_id :: string
  dc_objections :: "agent_evidence list"
  dc_produced_at :: instant

definition fields_debate_challenge :: "debate_challenge \<Rightarrow> bool" where
  "fields_debate_challenge r \<longleftrightarrow>
     is_schema_version (dc_schema_version r) \<and>
     is_identifier (dc_challenge_id r) \<and>
     is_cycle_id (dc_cycle_id r) \<and>
     is_snapshot_id (dc_snapshot_id r) \<and>
     is_positive_int (dc_round_number r) \<and>
     dc_round_number r \<le> 3 \<and>
     dc_challenger r = agent_role.SKEPTIC \<and>
     ((dc_target r) = agent_role.ENTRY_ANALYST \<or> (dc_target r) = agent_role.CHIEF_TRADER) \<and>
     is_identifier (dc_challenged_output_id r) \<and>
     1 \<le> length (dc_objections r)"

type_synonym market_context_input = snapshot_agent_input
type_synonym trend_analysis_input = snapshot_agent_input
type_synonym price_action_input = snapshot_agent_input

section \<open>The trace of upstream outputs\<close>

type_synonym trace = "string \<times> string"

definition output_trace :: "'p agent_output \<Rightarrow> trace" where
  "output_trace r = (ao_cycle_id r, ao_snapshot_id r)"

definition failure_trace :: "agent_failure_record \<Rightarrow> trace" where
  "failure_trace r = (afr_cycle_id r, afr_snapshot_id r)"

definition validate_output_trace :: "string \<Rightarrow> string \<Rightarrow> trace option list \<Rightarrow> bool" where
  "validate_output_trace c s xs \<longleftrightarrow>
     list_all (\<lambda>t. case t of None \<Rightarrow> True | Some (c', s') \<Rightarrow> \<not> (c' \<noteq> c \<or> s' \<noteq> s)) xs"

definition stage_one_records :: "stage_one_context \<Rightarrow> trace option list" where
  "stage_one_records c =
     [map_option output_trace (soc_market_context c), map_option output_trace (soc_trend c),
      map_option output_trace (soc_price_action c)] @ map (Some \<circ> failure_trace) (soc_failures c)"

definition successful_output_count :: "stage_one_context \<Rightarrow> nat" where
  "successful_output_count c =
     length (filter id [soc_market_context c \<noteq> None, soc_trend c \<noteq> None, soc_price_action c \<noteq> None])"

definition validate_market_trace :: "string \<Rightarrow> string \<Rightarrow> agent_market_view \<Rightarrow> bool" where
  "validate_market_trace c s m \<longleftrightarrow> \<not> (amv_cycle_id m \<noteq> c \<or> amv_snapshot_id m \<noteq> s)"

definition ok_snapshot_agent_input :: "snapshot_agent_input \<Rightarrow> bool" where
  "ok_snapshot_agent_input r \<longleftrightarrow> fields_snapshot_agent_input r \<and>
     validate_market_trace (sai_cycle_id r) (sai_snapshot_id r) (sai_market r)"

definition validate_entry_analysis_input :: "entry_analysis_input \<Rightarrow> bool" where
  "validate_entry_analysis_input r \<longleftrightarrow>
     validate_market_trace (eai_cycle_id r) (eai_snapshot_id r) (eai_market r) \<and>
     validate_output_trace (eai_cycle_id r) (eai_snapshot_id r) (stage_one_records (eai_stage_one r))"

definition ok_entry_analysis_input :: "entry_analysis_input \<Rightarrow> bool" where
  "ok_entry_analysis_input r \<longleftrightarrow> fields_entry_analysis_input r \<and> validate_entry_analysis_input r"

definition validate_quant_research_input :: "quant_research_input \<Rightarrow> bool" where
  "validate_quant_research_input r \<longleftrightarrow>
     validate_market_trace (qri_cycle_id r) (qri_snapshot_id r) (qri_market r) \<and>
     validate_output_trace (qri_cycle_id r) (qri_snapshot_id r)
       (stage_one_records (qri_stage_one r) @ [Some (output_trace (qri_entry r))])"

definition ok_quant_research_input :: "quant_research_input \<Rightarrow> bool" where
  "ok_quant_research_input r \<longleftrightarrow> fields_quant_research_input r \<and> validate_quant_research_input r"

definition validate_quant_developer_input :: "quant_developer_input \<Rightarrow> bool" where
  "validate_quant_developer_input r \<longleftrightarrow>
     validate_market_trace (qdi_cycle_id r) (qdi_snapshot_id r) (qdi_market r) \<and>
     validate_output_trace (qdi_cycle_id r) (qdi_snapshot_id r)
       (stage_one_records (qdi_stage_one r) @
        [Some (output_trace (qdi_entry r)), map_option output_trace (qdi_quant_research r)])"

definition ok_quant_developer_input :: "quant_developer_input \<Rightarrow> bool" where
  "ok_quant_developer_input r \<longleftrightarrow> fields_quant_developer_input r \<and> validate_quant_developer_input r"

definition validate_skeptic_input :: "skeptic_input \<Rightarrow> bool" where
  "validate_skeptic_input r \<longleftrightarrow>
     validate_market_trace (si_cycle_id r) (si_snapshot_id r) (si_market r) \<and>
     validate_output_trace (si_cycle_id r) (si_snapshot_id r)
       (stage_one_records (si_stage_one r) @
        [Some (output_trace (si_entry r)), map_option output_trace (si_quant_research r),
         map_option output_trace (si_quant_developer r), map_option output_trace (si_chief_draft r)])"

definition ok_skeptic_input :: "skeptic_input \<Rightarrow> bool" where
  "ok_skeptic_input r \<longleftrightarrow> fields_skeptic_input r \<and> validate_skeptic_input r"

definition validate_chief_trader_input :: "chief_trader_input \<Rightarrow> bool" where
  "validate_chief_trader_input r \<longleftrightarrow>
     validate_market_trace (cti_cycle_id r) (cti_snapshot_id r) (cti_market r) \<and>
     validate_output_trace (cti_cycle_id r) (cti_snapshot_id r)
       (stage_one_records (cti_stage_one r) @
        [Some (output_trace (cti_entry r)), map_option output_trace (cti_quant_research r),
         map_option output_trace (cti_quant_developer r), Some (output_trace (cti_skeptic r))])"

definition ok_chief_trader_input :: "chief_trader_input \<Rightarrow> bool" where
  "ok_chief_trader_input r \<longleftrightarrow> fields_chief_trader_input r \<and> validate_chief_trader_input r"

section \<open>Stage metadata\<close>

definition validate_stage_member :: "stage_member \<Rightarrow> bool" where
  "validate_stage_member m \<longleftrightarrow>
     \<not> (sm_component m = pipeline_component.RISK_ENGINE \<and> sm_allowed_profiles m \<noteq> []) \<and>
     \<not> (sm_component m \<noteq> pipeline_component.RISK_ENGINE \<and> sm_allowed_profiles m = [])"

definition validate_stage_definition :: "stage_definition \<Rightarrow> bool" where
  "validate_stage_definition s \<longleftrightarrow>
     distinct (map sm_component (sd_members s)) \<and>
     \<not> int (length (sd_members s)) < sd_minimum_successes s"

definition ok_stage_definition :: "stage_definition \<Rightarrow> bool" where
  "ok_stage_definition s \<longleftrightarrow> fields_stage_definition s \<and> validate_stage_definition s \<and>
     list_all validate_stage_member (sd_members s)"

text \<open>An accepted role input mixes no cycles: every upstream output and failure has its trace.\<close>

lemma output_trace_member:
  "validate_output_trace c s xs \<Longrightarrow> Some t \<in> set xs \<Longrightarrow> t = (c, s)"
  by (cases t) (auto simp: validate_output_trace_def list_all_iff)

lemma chief_input_trace:
  assumes "ok_chief_trader_input r" and "f \<in> set (soc_failures (cti_stage_one r))"
  shows "output_trace (cti_entry r) = (cti_cycle_id r, cti_snapshot_id r)"
    and "output_trace (cti_skeptic r) = (cti_cycle_id r, cti_snapshot_id r)"
    and "failure_trace f = (cti_cycle_id r, cti_snapshot_id r)"
proof -
  note v = output_trace_member [OF assms(1) [unfolded ok_chief_trader_input_def validate_chief_trader_input_def,
      THEN conjunct2, THEN conjunct2]]
  show "output_trace (cti_entry r) = (cti_cycle_id r, cti_snapshot_id r)"
    by (rule v) simp
  show "output_trace (cti_skeptic r) = (cti_cycle_id r, cti_snapshot_id r)"
    by (rule v) simp
  show "failure_trace f = (cti_cycle_id r, cti_snapshot_id r)"
    by (rule v) (simp add: stage_one_records_def image_iff assms(2) bexI [of _ f])
qed

end
