(* ===== verification/RuntimeSchemas.thy ===== *)
theory RuntimeSchemas
  imports SchemaCommon
begin

text \<open>
  \<open>schemas/runtime.py\<close>: profiles, policies, pricing, budget reservations and the normalised
  provider messages of the AI runtime.
\<close>

section \<open>Profiles and policies\<close>

record schema_reference =
  sref_schema_id :: string
  sref_schema_version :: string
  sref_schema_digest :: string

definition fields_schema_reference :: "schema_reference \<Rightarrow> bool" where
  "fields_schema_reference r \<longleftrightarrow>
     is_identifier (sref_schema_id r) \<and>
     is_schema_version (sref_schema_version r) \<and>
     is_content_digest (sref_schema_digest r)"

definition dump_schema_reference :: "schema_reference \<Rightarrow> pyval" where
  "dump_schema_reference r = PDict [
     (''schema_id'', PStr (sref_schema_id r)),
     (''schema_version'', PStr (sref_schema_version r)),
     (''schema_digest'', PStr (sref_schema_digest r))]"

record prompt_artifact =
  pa_prompt_id :: string
  pa_prompt_version :: string
  pa_role :: agent_role
  pa_content :: string
  pa_content_digest :: string
  pa_compatible_input_schema :: schema_reference
  pa_compatible_output_schema :: schema_reference

definition fields_prompt_artifact :: "prompt_artifact \<Rightarrow> bool" where
  "fields_prompt_artifact r \<longleftrightarrow>
     is_identifier (pa_prompt_id r) \<and>
     is_schema_version (pa_prompt_version r) \<and>
     1 \<le> length (pa_content r) \<and>
     length (pa_content r) \<le> 32768 \<and>
     is_content_digest (pa_content_digest r)"

definition dump_prompt_artifact :: "prompt_artifact \<Rightarrow> pyval" where
  "dump_prompt_artifact r = PDict [
     (''prompt_id'', PStr (pa_prompt_id r)),
     (''prompt_version'', PStr (pa_prompt_version r)),
     (''role'', PStr (value_agent_role (pa_role r))),
     (''content'', PStr (pa_content r)),
     (''content_digest'', PStr (pa_content_digest r)),
     (''compatible_input_schema'', dump_schema_reference (pa_compatible_input_schema r)),
     (''compatible_output_schema'', dump_schema_reference (pa_compatible_output_schema r))]"

record runtime_profile =
  rp_profile_ref :: string
  rp_profile_version :: string
  rp_provider :: model_provider
  rp_model_identifier :: string
  rp_request_timeout_seconds :: int
  rp_total_timeout_seconds :: int
  rp_max_output_tokens :: int
  rp_reasoning_effort :: reasoning_effort
  rp_require_structured_output :: bool
  rp_require_json_schema :: bool
  rp_capability_profile_ref :: string
  rp_retry_policy_ref :: string
  rp_cost_policy_ref :: string
  rp_pricing_profile_ref :: string

definition fields_runtime_profile :: "runtime_profile \<Rightarrow> bool" where
  "fields_runtime_profile r \<longleftrightarrow>
     is_identifier (rp_profile_ref r) \<and>
     is_schema_version (rp_profile_version r) \<and>
     is_identifier (rp_model_identifier r) \<and>
     is_positive_int (rp_request_timeout_seconds r) \<and>
     is_positive_int (rp_total_timeout_seconds r) \<and>
     is_positive_int (rp_max_output_tokens r) \<and>
     (rp_require_structured_output r) \<and>
     (rp_require_json_schema r) \<and>
     is_identifier (rp_capability_profile_ref r) \<and>
     is_identifier (rp_retry_policy_ref r) \<and>
     is_identifier (rp_cost_policy_ref r) \<and>
     is_identifier (rp_pricing_profile_ref r)"

definition dump_runtime_profile :: "runtime_profile \<Rightarrow> pyval" where
  "dump_runtime_profile r = PDict [
     (''profile_ref'', PStr (rp_profile_ref r)),
     (''profile_version'', PStr (rp_profile_version r)),
     (''provider'', PStr (value_model_provider (rp_provider r))),
     (''model_identifier'', PStr (rp_model_identifier r)),
     (''request_timeout_seconds'', PInt (rp_request_timeout_seconds r)),
     (''total_timeout_seconds'', PInt (rp_total_timeout_seconds r)),
     (''max_output_tokens'', PInt (rp_max_output_tokens r)),
     (''reasoning_effort'', PStr (value_reasoning_effort (rp_reasoning_effort r))),
     (''require_structured_output'', PBool (rp_require_structured_output r)),
     (''require_json_schema'', PBool (rp_require_json_schema r)),
     (''capability_profile_ref'', PStr (rp_capability_profile_ref r)),
     (''retry_policy_ref'', PStr (rp_retry_policy_ref r)),
     (''cost_policy_ref'', PStr (rp_cost_policy_ref r)),
     (''pricing_profile_ref'', PStr (rp_pricing_profile_ref r))]"

record retry_policy =
  rpol_policy_ref :: string
  rpol_policy_version :: string
  rpol_max_attempts :: int
  rpol_retry_timeouts :: bool
  rpol_retry_transient_errors :: bool
  rpol_retry_rate_limits :: bool

definition fields_retry_policy :: "retry_policy \<Rightarrow> bool" where
  "fields_retry_policy r \<longleftrightarrow>
     is_identifier (rpol_policy_ref r) \<and>
     is_schema_version (rpol_policy_version r) \<and>
     1 \<le> rpol_max_attempts r \<and>
     rpol_max_attempts r \<le> 3"

definition dump_retry_policy :: "retry_policy \<Rightarrow> pyval" where
  "dump_retry_policy r = PDict [
     (''policy_ref'', PStr (rpol_policy_ref r)),
     (''policy_version'', PStr (rpol_policy_version r)),
     (''max_attempts'', PInt (rpol_max_attempts r)),
     (''retry_timeouts'', PBool (rpol_retry_timeouts r)),
     (''retry_transient_errors'', PBool (rpol_retry_transient_errors r)),
     (''retry_rate_limits'', PBool (rpol_retry_rate_limits r))]"

record model_capability_profile =
  mcp_profile_ref :: string
  mcp_profile_version :: string
  mcp_provider :: model_provider
  mcp_model_identifier :: string
  mcp_structured_output_supported :: bool
  mcp_json_schema_supported :: bool
  mcp_reasoning_configuration_supported :: bool
  mcp_supported_reasoning_efforts :: "reasoning_effort list"
  mcp_max_context_tokens :: int
  mcp_max_output_tokens :: int
  mcp_usage_metrics :: "usage_metric set"
  mcp_token_estimation_methods :: "token_estimate_method set"
  mcp_adapter_contract_accepted :: bool
  mcp_live_smoke_accepted :: bool

definition fields_model_capability_profile :: "model_capability_profile \<Rightarrow> bool" where
  "fields_model_capability_profile r \<longleftrightarrow>
     is_identifier (mcp_profile_ref r) \<and>
     is_schema_version (mcp_profile_version r) \<and>
     is_identifier (mcp_model_identifier r) \<and>
     is_positive_int (mcp_max_context_tokens r) \<and>
     is_positive_int (mcp_max_output_tokens r)"

definition dump_model_capability_profile :: "model_capability_profile \<Rightarrow> pyval" where
  "dump_model_capability_profile r = PDict [
     (''profile_ref'', PStr (mcp_profile_ref r)),
     (''profile_version'', PStr (mcp_profile_version r)),
     (''provider'', PStr (value_model_provider (mcp_provider r))),
     (''model_identifier'', PStr (mcp_model_identifier r)),
     (''structured_output_supported'', PBool (mcp_structured_output_supported r)),
     (''json_schema_supported'', PBool (mcp_json_schema_supported r)),
     (''reasoning_configuration_supported'', PBool (mcp_reasoning_configuration_supported r)),
     (''supported_reasoning_efforts'', PList (map (\<lambda>x. PStr (value_reasoning_effort x)) (mcp_supported_reasoning_efforts r))),
     (''max_context_tokens'', PInt (mcp_max_context_tokens r)),
     (''max_output_tokens'', PInt (mcp_max_output_tokens r)),
     (''usage_metrics'', PSet (map (\<lambda>x. PStr (value_usage_metric x)) (filter (\<lambda>x. x \<in> (mcp_usage_metrics r)) [usage_metric.INPUT_TOKENS, usage_metric.CACHED_INPUT_TOKENS, usage_metric.OUTPUT_TOKENS, usage_metric.REASONING_TOKENS]))),
     (''token_estimation_methods'', PSet (map (\<lambda>x. PStr (value_token_estimate_method x)) (filter (\<lambda>x. x \<in> (mcp_token_estimation_methods r)) [token_estimate_method.PROVIDER_REPORTED, token_estimate_method.PROVIDER_TOKENIZER, token_estimate_method.CONSERVATIVE_ESTIMATE, token_estimate_method.UNAVAILABLE]))),
     (''adapter_contract_accepted'', PBool (mcp_adapter_contract_accepted r)),
     (''live_smoke_accepted'', PBool (mcp_live_smoke_accepted r))]"

record token_estimate =
  te_tokens :: "int option"
  te_method :: token_estimate_method
  te_conservative :: bool
  te_estimated_at :: instant

definition fields_token_estimate :: "token_estimate \<Rightarrow> bool" where
  "fields_token_estimate r \<longleftrightarrow>
     pred_option (\<lambda>x. is_non_negative_int x) (te_tokens r)"

definition dump_token_estimate :: "token_estimate \<Rightarrow> pyval" where
  "dump_token_estimate r = PDict [
     (''tokens'', dump_option (\<lambda>x. PInt x) (te_tokens r)),
     (''method'', PStr (value_token_estimate_method (te_method r))),
     (''conservative'', PBool (te_conservative r)),
     (''estimated_at'', PTime (te_estimated_at r))]"

record usage_value =
  uv_value :: "int option"
  uv_availability :: metric_availability

definition fields_usage_value :: "usage_value \<Rightarrow> bool" where
  "fields_usage_value r \<longleftrightarrow>
     pred_option (\<lambda>x. is_non_negative_int x) (uv_value r)"

definition dump_usage_value :: "usage_value \<Rightarrow> pyval" where
  "dump_usage_value r = PDict [
     (''value'', dump_option (\<lambda>x. PInt x) (uv_value r)),
     (''availability'', PStr (value_metric_availability (uv_availability r)))]"

record invocation_usage =
  iu_input_tokens :: usage_value
  iu_cached_input_tokens :: usage_value
  iu_output_tokens :: usage_value
  iu_reasoning_tokens :: usage_value

definition fields_invocation_usage :: "invocation_usage \<Rightarrow> bool" where
  "fields_invocation_usage r \<longleftrightarrow>
     True"

definition dump_invocation_usage :: "invocation_usage \<Rightarrow> pyval" where
  "dump_invocation_usage r = PDict [
     (''input_tokens'', dump_usage_value (iu_input_tokens r)),
     (''cached_input_tokens'', dump_usage_value (iu_cached_input_tokens r)),
     (''output_tokens'', dump_usage_value (iu_output_tokens r)),
     (''reasoning_tokens'', dump_usage_value (iu_reasoning_tokens r))]"

record pricing_profile =
  pp_profile_ref :: string
  pp_profile_version :: string
  pp_provider :: model_provider
  pp_model_identifier :: string
  pp_currency :: string
  pp_input_cost_per_million_tokens :: decimal
  pp_output_cost_per_million_tokens :: decimal
  pp_valid_from :: instant
  pp_valid_until :: "instant option"

definition fields_pricing_profile :: "pricing_profile \<Rightarrow> bool" where
  "fields_pricing_profile r \<longleftrightarrow>
     is_identifier (pp_profile_ref r) \<and>
     is_schema_version (pp_profile_version r) \<and>
     is_identifier (pp_model_identifier r) \<and>
     3 \<le> length (pp_currency r) \<and>
     length (pp_currency r) \<le> 3 \<and>
     is_currency (pp_currency r) \<and>
     is_non_negative_decimal (pp_input_cost_per_million_tokens r) \<and>
     is_non_negative_decimal (pp_output_cost_per_million_tokens r)"

definition dump_pricing_profile :: "pricing_profile \<Rightarrow> pyval" where
  "dump_pricing_profile r = PDict [
     (''profile_ref'', PStr (pp_profile_ref r)),
     (''profile_version'', PStr (pp_profile_version r)),
     (''provider'', PStr (value_model_provider (pp_provider r))),
     (''model_identifier'', PStr (pp_model_identifier r)),
     (''currency'', PStr (pp_currency r)),
     (''input_cost_per_million_tokens'', PDec (pp_input_cost_per_million_tokens r)),
     (''output_cost_per_million_tokens'', PDec (pp_output_cost_per_million_tokens r)),
     (''valid_from'', PTime (pp_valid_from r)),
     (''valid_until'', dump_option (\<lambda>x. PTime x) (pp_valid_until r))]"

record ai_budget_policy =
  abp_policy_ref :: string
  abp_policy_version :: string
  abp_currency :: string
  abp_maximum_estimated_cost_per_call :: decimal
  abp_daily_budget :: decimal
  abp_monthly_budget :: decimal
  abp_maximum_calls_per_cycle :: int
  abp_maximum_calls_per_day :: int
  abp_maximum_input_tokens :: int
  abp_maximum_output_tokens :: int

definition fields_ai_budget_policy :: "ai_budget_policy \<Rightarrow> bool" where
  "fields_ai_budget_policy r \<longleftrightarrow>
     is_identifier (abp_policy_ref r) \<and>
     is_schema_version (abp_policy_version r) \<and>
     3 \<le> length (abp_currency r) \<and>
     length (abp_currency r) \<le> 3 \<and>
     is_currency (abp_currency r) \<and>
     is_non_negative_decimal (abp_maximum_estimated_cost_per_call r) \<and>
     is_non_negative_decimal (abp_daily_budget r) \<and>
     is_non_negative_decimal (abp_monthly_budget r) \<and>
     is_positive_int (abp_maximum_calls_per_cycle r) \<and>
     is_positive_int (abp_maximum_calls_per_day r) \<and>
     is_positive_int (abp_maximum_input_tokens r) \<and>
     is_positive_int (abp_maximum_output_tokens r)"

definition dump_ai_budget_policy :: "ai_budget_policy \<Rightarrow> pyval" where
  "dump_ai_budget_policy r = PDict [
     (''policy_ref'', PStr (abp_policy_ref r)),
     (''policy_version'', PStr (abp_policy_version r)),
     (''currency'', PStr (abp_currency r)),
     (''maximum_estimated_cost_per_call'', PDec (abp_maximum_estimated_cost_per_call r)),
     (''daily_budget'', PDec (abp_daily_budget r)),
     (''monthly_budget'', PDec (abp_monthly_budget r)),
     (''maximum_calls_per_cycle'', PInt (abp_maximum_calls_per_cycle r)),
     (''maximum_calls_per_day'', PInt (abp_maximum_calls_per_day r)),
     (''maximum_input_tokens'', PInt (abp_maximum_input_tokens r)),
     (''maximum_output_tokens'', PInt (abp_maximum_output_tokens r))]"

record budget_reservation =
  br_invocation_id :: string
  br_attempt_number :: int
  br_cycle_id :: string
  br_policy_ref :: string
  br_state :: budget_reservation_state
  br_reserved_amount :: decimal
  br_settled_amount :: "decimal option"
  br_currency :: string
  br_created_at :: instant
  br_updated_at :: instant

definition fields_budget_reservation :: "budget_reservation \<Rightarrow> bool" where
  "fields_budget_reservation r \<longleftrightarrow>
     is_identifier (br_invocation_id r) \<and>
     1 \<le> br_attempt_number r \<and>
     br_attempt_number r \<le> 3 \<and>
     is_cycle_id (br_cycle_id r) \<and>
     is_identifier (br_policy_ref r) \<and>
     is_non_negative_decimal (br_reserved_amount r) \<and>
     pred_option (\<lambda>x. is_non_negative_decimal x) (br_settled_amount r) \<and>
     3 \<le> length (br_currency r) \<and>
     length (br_currency r) \<le> 3 \<and>
     is_currency (br_currency r)"

definition dump_budget_reservation :: "budget_reservation \<Rightarrow> pyval" where
  "dump_budget_reservation r = PDict [
     (''invocation_id'', PStr (br_invocation_id r)),
     (''attempt_number'', PInt (br_attempt_number r)),
     (''cycle_id'', PStr (br_cycle_id r)),
     (''policy_ref'', PStr (br_policy_ref r)),
     (''state'', PStr (value_budget_reservation_state (br_state r))),
     (''reserved_amount'', PDec (br_reserved_amount r)),
     (''settled_amount'', dump_option (\<lambda>x. PDec x) (br_settled_amount r)),
     (''currency'', PStr (br_currency r)),
     (''created_at'', PTime (br_created_at r)),
     (''updated_at'', PTime (br_updated_at r))]"

record provider_adapter_identity =
  paide_provider :: model_provider
  paide_adapter_version :: string
  paide_provider_sdk_version :: string

definition fields_provider_adapter_identity :: "provider_adapter_identity \<Rightarrow> bool" where
  "fields_provider_adapter_identity r \<longleftrightarrow>
     is_schema_version (paide_adapter_version r) \<and>
     1 \<le> length (paide_provider_sdk_version r) \<and>
     length (paide_provider_sdk_version r) \<le> 128"

definition dump_provider_adapter_identity :: "provider_adapter_identity \<Rightarrow> pyval" where
  "dump_provider_adapter_identity r = PDict [
     (''provider'', PStr (value_model_provider (paide_provider r))),
     (''adapter_version'', PStr (paide_adapter_version r)),
     (''provider_sdk_version'', PStr (paide_provider_sdk_version r))]"

record provider_acceptance_record =
  parec_schema_version :: string
  parec_acceptance_id :: string
  parec_provider :: model_provider
  parec_model_identifier :: string
  parec_adapter_version :: string
  parec_provider_sdk_version :: string
  parec_capability_profile_digest :: string
  parec_runtime_profile_digest :: string
  parec_smoke_tested_at :: instant
  parec_smoke_result_id :: string
  parec_accepted :: bool

definition fields_provider_acceptance_record :: "provider_acceptance_record \<Rightarrow> bool" where
  "fields_provider_acceptance_record r \<longleftrightarrow>
     is_schema_version (parec_schema_version r) \<and>
     is_identifier (parec_acceptance_id r) \<and>
     is_identifier (parec_model_identifier r) \<and>
     is_schema_version (parec_adapter_version r) \<and>
     1 \<le> length (parec_provider_sdk_version r) \<and>
     length (parec_provider_sdk_version r) \<le> 128 \<and>
     is_content_digest (parec_capability_profile_digest r) \<and>
     is_content_digest (parec_runtime_profile_digest r) \<and>
     is_identifier (parec_smoke_result_id r) \<and>
     (parec_accepted r)"

definition dump_provider_acceptance_record :: "provider_acceptance_record \<Rightarrow> pyval" where
  "dump_provider_acceptance_record r = PDict [
     (''schema_version'', PStr (parec_schema_version r)),
     (''acceptance_id'', PStr (parec_acceptance_id r)),
     (''provider'', PStr (value_model_provider (parec_provider r))),
     (''model_identifier'', PStr (parec_model_identifier r)),
     (''adapter_version'', PStr (parec_adapter_version r)),
     (''provider_sdk_version'', PStr (parec_provider_sdk_version r)),
     (''capability_profile_digest'', PStr (parec_capability_profile_digest r)),
     (''runtime_profile_digest'', PStr (parec_runtime_profile_digest r)),
     (''smoke_tested_at'', PTime (parec_smoke_tested_at r)),
     (''smoke_result_id'', PStr (parec_smoke_result_id r)),
     (''accepted'', PBool (parec_accepted r))]"

record provider_request =
  preq_invocation_id :: string
  preq_provider :: model_provider
  preq_model_identifier :: string
  preq_attempt :: int
  preq_system_prompt :: string
  preq_context_json :: string
  preq_output_json_schema :: string
  preq_max_output_tokens :: int
  preq_timeout_seconds :: int
  preq_reasoning_effort :: reasoning_effort

definition fields_provider_request :: "provider_request \<Rightarrow> bool" where
  "fields_provider_request r \<longleftrightarrow>
     is_identifier (preq_invocation_id r) \<and>
     is_identifier (preq_model_identifier r) \<and>
     1 \<le> preq_attempt r \<and>
     preq_attempt r \<le> 3 \<and>
     1 \<le> length (preq_system_prompt r) \<and>
     length (preq_system_prompt r) \<le> 32768 \<and>
     2 \<le> length (preq_context_json r) \<and>
     2 \<le> length (preq_output_json_schema r) \<and>
     is_positive_int (preq_max_output_tokens r) \<and>
     is_positive_int (preq_timeout_seconds r)"

definition dump_provider_request :: "provider_request \<Rightarrow> pyval" where
  "dump_provider_request r = PDict [
     (''invocation_id'', PStr (preq_invocation_id r)),
     (''provider'', PStr (value_model_provider (preq_provider r))),
     (''model_identifier'', PStr (preq_model_identifier r)),
     (''attempt'', PInt (preq_attempt r)),
     (''system_prompt'', PStr (preq_system_prompt r)),
     (''context_json'', PStr (preq_context_json r)),
     (''output_json_schema'', PStr (preq_output_json_schema r)),
     (''max_output_tokens'', PInt (preq_max_output_tokens r)),
     (''timeout_seconds'', PInt (preq_timeout_seconds r)),
     (''reasoning_effort'', PStr (value_reasoning_effort (preq_reasoning_effort r)))]"

record provider_response =
  pres_response_json :: string
  pres_provider_request_id :: "string option"
  pres_model_identifier :: string
  pres_responded_at :: instant
  pres_usage :: invocation_usage

definition fields_provider_response :: "provider_response \<Rightarrow> bool" where
  "fields_provider_response r \<longleftrightarrow>
     pred_option (\<lambda>x. is_identifier x) (pres_provider_request_id r) \<and>
     is_identifier (pres_model_identifier r)"

definition dump_provider_response :: "provider_response \<Rightarrow> pyval" where
  "dump_provider_response r = PDict [
     (''response_json'', PStr (pres_response_json r)),
     (''provider_request_id'', dump_option (\<lambda>x. PStr x) (pres_provider_request_id r)),
     (''model_identifier'', PStr (pres_model_identifier r)),
     (''responded_at'', PTime (pres_responded_at r)),
     (''usage'', dump_invocation_usage (pres_usage r))]"

record invocation_trace =
  it_invocation_id :: string
  it_output_id :: string
  it_cycle_id :: string
  it_snapshot_id :: string
  it_agent_role :: agent_role
  it_agent_version :: string
  it_prompt_id :: string
  it_prompt_version :: string
  it_prompt_digest :: string
  it_runtime_profile_ref :: string
  it_provider :: model_provider
  it_model_identifier :: string
  it_request_started_at :: instant
  it_request_completed_at :: instant
  it_attempts :: int

definition fields_invocation_trace :: "invocation_trace \<Rightarrow> bool" where
  "fields_invocation_trace r \<longleftrightarrow>
     is_identifier (it_invocation_id r) \<and>
     is_identifier (it_output_id r) \<and>
     is_cycle_id (it_cycle_id r) \<and>
     is_snapshot_id (it_snapshot_id r) \<and>
     is_schema_version (it_agent_version r) \<and>
     is_identifier (it_prompt_id r) \<and>
     is_schema_version (it_prompt_version r) \<and>
     is_content_digest (it_prompt_digest r) \<and>
     is_identifier (it_runtime_profile_ref r) \<and>
     is_identifier (it_model_identifier r) \<and>
     is_non_negative_int (it_attempts r)"

definition dump_invocation_trace :: "invocation_trace \<Rightarrow> pyval" where
  "dump_invocation_trace r = PDict [
     (''invocation_id'', PStr (it_invocation_id r)),
     (''output_id'', PStr (it_output_id r)),
     (''cycle_id'', PStr (it_cycle_id r)),
     (''snapshot_id'', PStr (it_snapshot_id r)),
     (''agent_role'', PStr (value_agent_role (it_agent_role r))),
     (''agent_version'', PStr (it_agent_version r)),
     (''prompt_id'', PStr (it_prompt_id r)),
     (''prompt_version'', PStr (it_prompt_version r)),
     (''prompt_digest'', PStr (it_prompt_digest r)),
     (''runtime_profile_ref'', PStr (it_runtime_profile_ref r)),
     (''provider'', PStr (value_model_provider (it_provider r))),
     (''model_identifier'', PStr (it_model_identifier r)),
     (''request_started_at'', PTime (it_request_started_at r)),
     (''request_completed_at'', PTime (it_request_completed_at r)),
     (''attempts'', PInt (it_attempts r))]"

record invocation_telemetry =
  itel_usage :: invocation_usage
  itel_input_estimate :: token_estimate
  itel_attempt_count :: int
  itel_retry_count :: int
  itel_latency_milliseconds :: decimal
  itel_estimated_cost :: "decimal option"
  itel_estimated_cost_availability :: metric_availability
  itel_currency :: string
  itel_provider_request_id :: "string option"
  itel_reservation_state :: "budget_reservation_state option"
  itel_attempt_reservations :: "budget_reservation list"

definition fields_invocation_telemetry :: "invocation_telemetry \<Rightarrow> bool" where
  "fields_invocation_telemetry r \<longleftrightarrow>
     is_non_negative_int (itel_attempt_count r) \<and>
     is_non_negative_int (itel_retry_count r) \<and>
     is_non_negative_decimal (itel_latency_milliseconds r) \<and>
     3 \<le> length (itel_currency r) \<and>
     length (itel_currency r) \<le> 3 \<and>
     is_currency (itel_currency r) \<and>
     pred_option (\<lambda>x. is_identifier x) (itel_provider_request_id r)"

definition dump_invocation_telemetry :: "invocation_telemetry \<Rightarrow> pyval" where
  "dump_invocation_telemetry r = PDict [
     (''usage'', dump_invocation_usage (itel_usage r)),
     (''input_estimate'', dump_token_estimate (itel_input_estimate r)),
     (''attempt_count'', PInt (itel_attempt_count r)),
     (''retry_count'', PInt (itel_retry_count r)),
     (''latency_milliseconds'', PDec (itel_latency_milliseconds r)),
     (''estimated_cost'', dump_option (\<lambda>x. PDec x) (itel_estimated_cost r)),
     (''estimated_cost_availability'', PStr (value_metric_availability (itel_estimated_cost_availability r))),
     (''currency'', PStr (itel_currency r)),
     (''provider_request_id'', dump_option (\<lambda>x. PStr x) (itel_provider_request_id r)),
     (''reservation_state'', dump_option (\<lambda>x. PStr (value_budget_reservation_state x)) (itel_reservation_state r)),
     (''attempt_reservations'', PList (map (\<lambda>x. dump_budget_reservation x) (itel_attempt_reservations r)))]"

section \<open>Validators\<close>

definition validate_runtime_profile :: "runtime_profile \<Rightarrow> bool" where
  "validate_runtime_profile r \<longleftrightarrow> \<not> rp_total_timeout_seconds r < rp_request_timeout_seconds r"

definition ok_runtime_profile :: "runtime_profile \<Rightarrow> bool" where
  "ok_runtime_profile r \<longleftrightarrow> fields_runtime_profile r \<and> validate_runtime_profile r"

definition validate_model_capability_profile :: "model_capability_profile \<Rightarrow> bool" where
  "validate_model_capability_profile p \<longleftrightarrow>
     reasoning_effort.NONE \<in> set (mcp_supported_reasoning_efforts p) \<and>
     \<not> (\<not> mcp_reasoning_configuration_supported p \<and>
        mcp_supported_reasoning_efforts p \<noteq> [reasoning_effort.NONE])"

definition ok_model_capability_profile :: "model_capability_profile \<Rightarrow> bool" where
  "ok_model_capability_profile p \<longleftrightarrow>
     fields_model_capability_profile p \<and> validate_model_capability_profile p"

definition validate_token_estimate :: "token_estimate \<Rightarrow> bool" where
  "validate_token_estimate e \<longleftrightarrow>
     (if te_method e = token_estimate_method.UNAVAILABLE
      then \<not> (te_tokens e \<noteq> None \<or> te_conservative e)
      else te_tokens e \<noteq> None)"

definition ok_token_estimate :: "token_estimate \<Rightarrow> bool" where
  "ok_token_estimate e \<longleftrightarrow> fields_token_estimate e \<and> validate_token_estimate e"

definition validate_usage_value :: "usage_value \<Rightarrow> bool" where
  "validate_usage_value u \<longleftrightarrow>
     \<not> (uv_availability u = metric_availability.UNAVAILABLE \<and> uv_value u \<noteq> None) \<and>
     \<not> (uv_availability u \<noteq> metric_availability.UNAVAILABLE \<and> uv_value u = None)"

definition ok_usage_value :: "usage_value \<Rightarrow> bool" where
  "ok_usage_value u \<longleftrightarrow> fields_usage_value u \<and> validate_usage_value u"

definition unavailable_usage :: usage_value where
  "unavailable_usage = \<lparr>uv_value = None, uv_availability = metric_availability.UNAVAILABLE\<rparr>"

lemma unavailable_usage_ok: "ok_usage_value unavailable_usage"
  by (simp add: ok_usage_value_def fields_usage_value_def validate_usage_value_def unavailable_usage_def)

definition validate_pricing_profile :: "pricing_profile \<Rightarrow> bool" where
  "validate_pricing_profile p \<longleftrightarrow>
     \<not> (case pp_valid_until p of None \<Rightarrow> False | Some u \<Rightarrow> u \<le> pp_valid_from p)"

definition ok_pricing_profile :: "pricing_profile \<Rightarrow> bool" where
  "ok_pricing_profile p \<longleftrightarrow> fields_pricing_profile p \<and> validate_pricing_profile p"

definition validate_provider_acceptance_record :: "provider_acceptance_record \<Rightarrow> bool" where
  "validate_provider_acceptance_record r \<longleftrightarrow> parec_provider r \<noteq> model_provider.FAKE"

definition validate_invocation_trace :: "invocation_trace \<Rightarrow> bool" where
  "validate_invocation_trace t \<longleftrightarrow> \<not> it_request_completed_at t < it_request_started_at t"

text \<open>
  Attempts and retries, the cost and its availability, and one reservation per attempt in order.
\<close>

definition validate_invocation_telemetry :: "invocation_telemetry \<Rightarrow> bool" where
  "validate_invocation_telemetry t \<longleftrightarrow>
     itel_retry_count t = max (itel_attempt_count t - 1) 0 \<and>
     (if itel_estimated_cost_availability t = metric_availability.UNAVAILABLE
      then itel_estimated_cost t = None
      else (case itel_estimated_cost t of None \<Rightarrow> False | Some c \<Rightarrow> \<not> c < 0)) \<and>
     int (length (itel_attempt_reservations t)) = itel_attempt_count t \<and>
     map br_attempt_number (itel_attempt_reservations t) = py_range1 (length (itel_attempt_reservations t)) \<and>
     itel_reservation_state t =
       (if itel_attempt_reservations t = [] then None
        else Some (br_state (last (itel_attempt_reservations t))))"

definition ok_invocation_telemetry :: "invocation_telemetry \<Rightarrow> bool" where
  "ok_invocation_telemetry t \<longleftrightarrow> fields_invocation_telemetry t \<and> validate_invocation_telemetry t"

end
