(* ===== verification/ShadowSchemas.thy ===== *)
theory ShadowSchemas
  imports OrchestrationSchemas RuntimeSchemas
begin

text \<open>
  \<open>schemas/shadow.py\<close>: cycle claims, stage records, invocation audits, the complete decision cycle
  and the shadow record kept of it. The union of the role outputs a cycle may retain is a datatype
  with one constructor per role.
\<close>

section \<open>Retained outputs\<close>

datatype cycle_agent_output =
    OutMarketContext market_context_output
  | OutTrendAnalysis trend_analysis_output
  | OutPriceAction price_action_output
  | OutEntryAnalysis entry_analysis_output
  | OutQuantResearch quant_research_output
  | OutQuantDeveloper quant_developer_output
  | OutSkeptic skeptic_output
  | OutChiefTrader chief_trader_output

primrec out_id :: "cycle_agent_output \<Rightarrow> string" where
  "out_id (OutMarketContext r) = ao_output_id r"
| "out_id (OutTrendAnalysis r) = ao_output_id r"
| "out_id (OutPriceAction r) = ao_output_id r"
| "out_id (OutEntryAnalysis r) = ao_output_id r"
| "out_id (OutQuantResearch r) = ao_output_id r"
| "out_id (OutQuantDeveloper r) = ao_output_id r"
| "out_id (OutSkeptic r) = ao_output_id r"
| "out_id (OutChiefTrader r) = ao_output_id r"

primrec out_trace :: "cycle_agent_output \<Rightarrow> trace" where
  "out_trace (OutMarketContext r) = output_trace r"
| "out_trace (OutTrendAnalysis r) = output_trace r"
| "out_trace (OutPriceAction r) = output_trace r"
| "out_trace (OutEntryAnalysis r) = output_trace r"
| "out_trace (OutQuantResearch r) = output_trace r"
| "out_trace (OutQuantDeveloper r) = output_trace r"
| "out_trace (OutSkeptic r) = output_trace r"
| "out_trace (OutChiefTrader r) = output_trace r"

definition dump_chief_trader_output :: "chief_trader_output \<Rightarrow> pyval" where
  "dump_chief_trader_output = dump_agent_output dump_chief_trader_result"

primrec dump_cycle_agent_output :: "cycle_agent_output \<Rightarrow> pyval" where
  "dump_cycle_agent_output (OutMarketContext r) = dump_agent_output dump_market_context_result r"
| "dump_cycle_agent_output (OutTrendAnalysis r) = dump_agent_output dump_trend_analysis_result r"
| "dump_cycle_agent_output (OutPriceAction r) = dump_agent_output dump_price_action_result r"
| "dump_cycle_agent_output (OutEntryAnalysis r) = dump_agent_output dump_entry_analysis_result r"
| "dump_cycle_agent_output (OutQuantResearch r) = dump_agent_output dump_quant_research_result r"
| "dump_cycle_agent_output (OutQuantDeveloper r) = dump_agent_output dump_quant_developer_review r"
| "dump_cycle_agent_output (OutSkeptic r) = dump_agent_output dump_skeptic_review r"
| "dump_cycle_agent_output (OutChiefTrader r) = dump_chief_trader_output r"

text \<open>\<open>isinstance(item, ChiefTraderOutput)\<close>\<close>

definition chief_of :: "cycle_agent_output \<Rightarrow> chief_trader_output option" where
  "chief_of x = (case x of OutChiefTrader r \<Rightarrow> Some r | _ \<Rightarrow> None)"

section \<open>Invocation results\<close>

text \<open>The output of an invocation: one of the eight roles' outputs of a cycle, or any other model.\<close>

datatype invocation_output = Known cycle_agent_output | Foreign

record invocation_result =
  ir_trace :: invocation_trace
  ir_output :: "invocation_output option"
  ir_failure :: "agent_failure_record option"
  ir_runtime_failure_category :: "runtime_failure_category option"
  ir_telemetry :: invocation_telemetry

definition validate_invocation_result :: "invocation_result \<Rightarrow> bool" where
  "validate_invocation_result r \<longleftrightarrow>
     (ir_output r = None) \<noteq> (ir_failure r = None) \<and>
     \<not> (ir_failure r = None \<and> ir_runtime_failure_category r \<noteq> None) \<and>
     \<not> (ir_failure r \<noteq> None \<and> ir_runtime_failure_category r = None)"

section \<open>Records\<close>

record cycle_claim =
  cc_schema_version :: string
  cc_cycle_id :: string
  cc_snapshot_id :: string
  cc_state :: cycle_claim_state
  cc_claimed_at :: instant
  cc_updated_at :: instant
  cc_sanitized_reason :: "string option"

definition fields_cycle_claim :: "cycle_claim \<Rightarrow> bool" where
  "fields_cycle_claim r \<longleftrightarrow>
     is_schema_version (cc_schema_version r) \<and>
     is_cycle_id (cc_cycle_id r) \<and>
     is_snapshot_id (cc_snapshot_id r) \<and>
     pred_option (\<lambda>x. length x \<le> 512) (cc_sanitized_reason r)"

definition dump_cycle_claim :: "cycle_claim \<Rightarrow> pyval" where
  "dump_cycle_claim r = PDict [
     (''schema_version'', PStr (cc_schema_version r)),
     (''cycle_id'', PStr (cc_cycle_id r)),
     (''snapshot_id'', PStr (cc_snapshot_id r)),
     (''state'', PStr (value_cycle_claim_state (cc_state r))),
     (''claimed_at'', PTime (cc_claimed_at r)),
     (''updated_at'', PTime (cc_updated_at r)),
     (''sanitized_reason'', dump_option (\<lambda>x. PStr x) (cc_sanitized_reason r))]"

record stage_execution_record =
  ser_schema_version :: string
  ser_stage_number :: int
  ser_stage_name :: string
  ser_components :: "pipeline_component list"
  ser_status :: stage_execution_status
  ser_started_at :: instant
  ser_completed_at :: instant
  ser_invocation_ids :: "string list"
  ser_failure_ids :: "string list"
  ser_sanitized_detail :: "string option"

definition fields_stage_execution_record :: "stage_execution_record \<Rightarrow> bool" where
  "fields_stage_execution_record r \<longleftrightarrow>
     is_schema_version (ser_schema_version r) \<and>
     is_positive_int (ser_stage_number r) \<and>
     ser_stage_number r \<le> 6 \<and>
     is_identifier (ser_stage_name r) \<and>
     1 \<le> length (ser_components r) \<and>
     list_all (\<lambda>x. is_identifier x) (ser_invocation_ids r) \<and>
     list_all (\<lambda>x. is_identifier x) (ser_failure_ids r) \<and>
     pred_option (\<lambda>x. length x \<le> 512) (ser_sanitized_detail r)"

definition dump_stage_execution_record :: "stage_execution_record \<Rightarrow> pyval" where
  "dump_stage_execution_record r = PDict [
     (''schema_version'', PStr (ser_schema_version r)),
     (''stage_number'', PInt (ser_stage_number r)),
     (''stage_name'', PStr (ser_stage_name r)),
     (''components'', PList (map (\<lambda>x. PStr (value_pipeline_component x)) (ser_components r))),
     (''status'', PStr (value_stage_execution_status (ser_status r))),
     (''started_at'', PTime (ser_started_at r)),
     (''completed_at'', PTime (ser_completed_at r)),
     (''invocation_ids'', PList (map (\<lambda>x. PStr x) (ser_invocation_ids r))),
     (''failure_ids'', PList (map (\<lambda>x. PStr x) (ser_failure_ids r))),
     (''sanitized_detail'', dump_option (\<lambda>x. PStr x) (ser_sanitized_detail r))]"

record agent_invocation_audit =
  aia_schema_version :: string
  aia_stage_number :: int
  aia_debate_round :: "int option"
  aia_trace :: invocation_trace
  aia_telemetry :: invocation_telemetry
  aia_output_id :: "string option"
  aia_failure_id :: "string option"

definition fields_agent_invocation_audit :: "agent_invocation_audit \<Rightarrow> bool" where
  "fields_agent_invocation_audit r \<longleftrightarrow>
     is_schema_version (aia_schema_version r) \<and>
     is_positive_int (aia_stage_number r) \<and>
     aia_stage_number r \<le> 5 \<and>
     pred_option (\<lambda>x. is_positive_int x) (aia_debate_round r) \<and>
     pred_option (\<lambda>x. x \<le> 3) (aia_debate_round r) \<and>
     pred_option (\<lambda>x. is_identifier x) (aia_output_id r) \<and>
     pred_option (\<lambda>x. is_identifier x) (aia_failure_id r)"

definition dump_agent_invocation_audit :: "agent_invocation_audit \<Rightarrow> pyval" where
  "dump_agent_invocation_audit r = PDict [
     (''schema_version'', PStr (aia_schema_version r)),
     (''stage_number'', PInt (aia_stage_number r)),
     (''debate_round'', dump_option (\<lambda>x. PInt x) (aia_debate_round r)),
     (''trace'', dump_invocation_trace (aia_trace r)),
     (''telemetry'', dump_invocation_telemetry (aia_telemetry r)),
     (''output_id'', dump_option (\<lambda>x. PStr x) (aia_output_id r)),
     (''failure_id'', dump_option (\<lambda>x. PStr x) (aia_failure_id r))]"

record risk_input_audit =
  ria_schema_version :: string
  ria_snapshot_digest :: string
  ria_account_context :: account_risk_context

definition fields_risk_input_audit :: "risk_input_audit \<Rightarrow> bool" where
  "fields_risk_input_audit r \<longleftrightarrow>
     is_schema_version (ria_schema_version r) \<and>
     is_content_digest (ria_snapshot_digest r)"

definition dump_risk_input_audit :: "risk_input_audit \<Rightarrow> pyval" where
  "dump_risk_input_audit r = PDict [
     (''schema_version'', PStr (ria_schema_version r)),
     (''snapshot_digest'', PStr (ria_snapshot_digest r)),
     (''account_context'', dump_account_risk_context (ria_account_context r))]"

record decision_cycle =
  dcyc_schema_version :: string
  dcyc_cycle_id :: string
  dcyc_initial_snapshot_id :: string
  dcyc_symbol :: string
  dcyc_primary_timeframe :: timeframe
  dcyc_cycle_started_at :: instant
  dcyc_cycle_completed_at :: instant
  dcyc_app_mode :: application_mode
  dcyc_market_view :: agent_market_view
  dcyc_risk_input_audit :: risk_input_audit
  dcyc_stages :: "stage_execution_record list"
  dcyc_invocations :: "agent_invocation_audit list"
  dcyc_agent_outputs :: "cycle_agent_output list"
  dcyc_agent_failures :: "agent_failure_record list"
  dcyc_chief_decisions :: "chief_trader_output list"
  dcyc_chief_decision :: "chief_trader_output option"
  dcyc_trade_proposal :: "trade_proposal option"
  dcyc_risk_decision :: "risk_decision option"
  dcyc_final_disposition :: shadow_disposition
  dcyc_outcome_source :: shadow_outcome_source

definition fields_decision_cycle :: "decision_cycle \<Rightarrow> bool" where
  "fields_decision_cycle r \<longleftrightarrow>
     is_schema_version (dcyc_schema_version r) \<and>
     is_cycle_id (dcyc_cycle_id r) \<and>
     is_snapshot_id (dcyc_initial_snapshot_id r) \<and>
     is_symbol (dcyc_symbol r) \<and>
     dcyc_app_mode r = application_mode.SHADOW"

definition dump_decision_cycle :: "decision_cycle \<Rightarrow> pyval" where
  "dump_decision_cycle r = PDict [
     (''schema_version'', PStr (dcyc_schema_version r)),
     (''cycle_id'', PStr (dcyc_cycle_id r)),
     (''initial_snapshot_id'', PStr (dcyc_initial_snapshot_id r)),
     (''symbol'', PStr (dcyc_symbol r)),
     (''primary_timeframe'', PStr (value_timeframe (dcyc_primary_timeframe r))),
     (''cycle_started_at'', PTime (dcyc_cycle_started_at r)),
     (''cycle_completed_at'', PTime (dcyc_cycle_completed_at r)),
     (''app_mode'', PStr (value_application_mode (dcyc_app_mode r))),
     (''market_view'', dump_agent_market_view (dcyc_market_view r)),
     (''risk_input_audit'', dump_risk_input_audit (dcyc_risk_input_audit r)),
     (''stages'', PList (map (\<lambda>x. dump_stage_execution_record x) (dcyc_stages r))),
     (''invocations'', PList (map (\<lambda>x. dump_agent_invocation_audit x) (dcyc_invocations r))),
     (''agent_outputs'', PList (map (\<lambda>x. dump_cycle_agent_output x) (dcyc_agent_outputs r))),
     (''agent_failures'', PList (map (\<lambda>x. dump_agent_failure_record x) (dcyc_agent_failures r))),
     (''chief_decisions'', PList (map (\<lambda>x. dump_chief_trader_output x) (dcyc_chief_decisions r))),
     (''chief_decision'', dump_option (\<lambda>x. dump_chief_trader_output x) (dcyc_chief_decision r)),
     (''trade_proposal'', dump_option (\<lambda>x. dump_trade_proposal x) (dcyc_trade_proposal r)),
     (''risk_decision'', dump_option (\<lambda>x. dump_risk_decision x) (dcyc_risk_decision r)),
     (''final_disposition'', PStr (value_shadow_disposition (dcyc_final_disposition r))),
     (''outcome_source'', PStr (value_shadow_outcome_source (dcyc_outcome_source r)))]"

record shadow_trade_intent =
  sti_schema_version :: string
  sti_cycle_id :: string
  sti_snapshot_id :: string
  sti_proposal :: trade_proposal
  sti_risk_decision :: risk_decision
  sti_selected_volume :: decimal
  sti_hypothetical_entry :: decimal
  sti_hypothetical_stop_loss :: decimal
  sti_hypothetical_take_profit :: decimal
  sti_recorded_at :: instant
  sti_execution_status :: shadow_execution_status

definition fields_shadow_trade_intent :: "shadow_trade_intent \<Rightarrow> bool" where
  "fields_shadow_trade_intent r \<longleftrightarrow>
     is_schema_version (sti_schema_version r) \<and>
     is_cycle_id (sti_cycle_id r) \<and>
     is_snapshot_id (sti_snapshot_id r) \<and>
     is_positive_decimal (sti_selected_volume r) \<and>
     sti_execution_status r = shadow_execution_status.NOT_EXECUTED_SHADOW"

definition dump_shadow_trade_intent :: "shadow_trade_intent \<Rightarrow> pyval" where
  "dump_shadow_trade_intent r = PDict [
     (''schema_version'', PStr (sti_schema_version r)),
     (''cycle_id'', PStr (sti_cycle_id r)),
     (''snapshot_id'', PStr (sti_snapshot_id r)),
     (''proposal'', dump_trade_proposal (sti_proposal r)),
     (''risk_decision'', dump_risk_decision (sti_risk_decision r)),
     (''selected_volume'', PDec (sti_selected_volume r)),
     (''hypothetical_entry'', PDec (sti_hypothetical_entry r)),
     (''hypothetical_stop_loss'', PDec (sti_hypothetical_stop_loss r)),
     (''hypothetical_take_profit'', PDec (sti_hypothetical_take_profit r)),
     (''recorded_at'', PTime (sti_recorded_at r)),
     (''execution_status'', PStr (value_shadow_execution_status (sti_execution_status r)))]"

record shadow_decision_record =
  sdr_schema_version :: string
  sdr_record_id :: string
  sdr_recorded_at :: instant
  sdr_decision_cycle :: decision_cycle
  sdr_shadow_trade_intent :: "shadow_trade_intent option"

definition fields_shadow_decision_record :: "shadow_decision_record \<Rightarrow> bool" where
  "fields_shadow_decision_record r \<longleftrightarrow>
     is_schema_version (sdr_schema_version r) \<and>
     is_identifier (sdr_record_id r)"

definition dump_shadow_decision_record :: "shadow_decision_record \<Rightarrow> pyval" where
  "dump_shadow_decision_record r = PDict [
     (''schema_version'', PStr (sdr_schema_version r)),
     (''record_id'', PStr (sdr_record_id r)),
     (''recorded_at'', PTime (sdr_recorded_at r)),
     (''decision_cycle'', dump_decision_cycle (sdr_decision_cycle r)),
     (''shadow_trade_intent'', dump_option (\<lambda>x. dump_shadow_trade_intent x) (sdr_shadow_trade_intent r))]"

section \<open>Validators\<close>

text \<open>Python's truth value of an optional string.\<close>

definition truthy :: "string option \<Rightarrow> bool" where
  "truthy s \<longleftrightarrow> s \<noteq> None \<and> s \<noteq> Some []"

definition validate_cycle_claim :: "cycle_claim \<Rightarrow> bool" where
  "validate_cycle_claim c \<longleftrightarrow>
     \<not> cc_updated_at c < cc_claimed_at c \<and>
     \<not> (cc_state c = cycle_claim_state.ABANDONED \<and> \<not> truthy (cc_sanitized_reason c)) \<and>
     \<not> (cc_state c \<noteq> cycle_claim_state.ABANDONED \<and> cc_sanitized_reason c \<noteq> None)"

definition ok_cycle_claim :: "cycle_claim \<Rightarrow> bool" where
  "ok_cycle_claim c \<longleftrightarrow> fields_cycle_claim c \<and> validate_cycle_claim c"

definition validate_stage_execution_record :: "stage_execution_record \<Rightarrow> bool" where
  "validate_stage_execution_record r \<longleftrightarrow>
     \<not> ser_completed_at r < ser_started_at r \<and>
     distinct (ser_invocation_ids r) \<and> distinct (ser_failure_ids r)"

definition ok_stage_execution_record :: "stage_execution_record \<Rightarrow> bool" where
  "ok_stage_execution_record r \<longleftrightarrow> fields_stage_execution_record r \<and> validate_stage_execution_record r"

definition validate_agent_invocation_audit :: "agent_invocation_audit \<Rightarrow> bool" where
  "validate_agent_invocation_audit a \<longleftrightarrow>
     (aia_output_id a = None) \<noteq> (aia_failure_id a = None) \<and>
     \<not> (aia_output_id a \<noteq> None \<and> aia_output_id a \<noteq> Some (it_output_id (aia_trace a)))"

definition ok_agent_invocation_audit :: "agent_invocation_audit \<Rightarrow> bool" where
  "ok_agent_invocation_audit a \<longleftrightarrow> fields_agent_invocation_audit a \<and> validate_agent_invocation_audit a"

text \<open>The non-empty identifiers an audit list refers to.\<close>

definition referenced :: "('a \<Rightarrow> string option) \<Rightarrow> 'a list \<Rightarrow> string set" where
  "referenced f xs = set (List.map_filter (\<lambda>x. if truthy (f x) then f x else None) xs)"

definition cycle_trace_ok :: "decision_cycle \<Rightarrow> bool" where
  "cycle_trace_ok c \<longleftrightarrow>
     (let v = dcyc_market_view c; a = ria_account_context (dcyc_risk_input_audit c)
      in \<not> dcyc_cycle_completed_at c < dcyc_cycle_started_at c \<and>
         \<not> (amv_cycle_id v \<noteq> dcyc_cycle_id c \<or> amv_snapshot_id v \<noteq> dcyc_initial_snapshot_id c \<or>
            amv_symbol v \<noteq> dcyc_symbol c \<or> amv_primary_timeframe v \<noteq> dcyc_primary_timeframe c) \<and>
         \<not> ((arc_cycle_id a \<noteq> dcyc_cycle_id c \<or> arc_snapshot_id a \<noteq> dcyc_initial_snapshot_id c) \<and>
            dcyc_final_disposition c \<noteq> shadow_disposition.ABORTED))"

definition cycle_results_ok :: "decision_cycle \<Rightarrow> bool" where
  "cycle_results_ok c \<longleftrightarrow>
     (let outs = map out_id (dcyc_agent_outputs c); fails = map afr_failure_id (dcyc_agent_failures c)
      in map ser_stage_number (dcyc_stages c) = py_range1 6 \<and>
         distinct (map (it_invocation_id \<circ> aia_trace) (dcyc_invocations c)) \<and>
         distinct outs \<and> distinct fails \<and>
         (\<forall>t \<in> set (map out_trace (dcyc_agent_outputs c) @ map failure_trace (dcyc_agent_failures c)).
            t = (dcyc_cycle_id c, dcyc_initial_snapshot_id c)) \<and>
         referenced aia_output_id (dcyc_invocations c) = set outs \<and>
         referenced aia_failure_id (dcyc_invocations c) \<subseteq> set fails)"

definition cycle_chief_ok :: "decision_cycle \<Rightarrow> bool" where
  "cycle_chief_ok c \<longleftrightarrow>
     dcyc_chief_decision c =
       (if dcyc_chief_decisions c = [] then None else Some (last (dcyc_chief_decisions c))) \<and>
     List.map_filter chief_of (dcyc_agent_outputs c) = dcyc_chief_decisions c \<and>
     dcyc_trade_proposal c =
       (case dcyc_chief_decision c of None \<Rightarrow> None | Some d \<Rightarrow> ctr_trade_proposal (ao_payload d)) \<and>
     (case dcyc_risk_decision c of None \<Rightarrow> True
      | Some r \<Rightarrow> (case dcyc_trade_proposal c of None \<Rightarrow> False
         | Some p \<Rightarrow> rd_cycle_id r = dcyc_cycle_id c \<and> rd_snapshot_id r = dcyc_initial_snapshot_id c \<and>
             rd_proposal_id r = tp_proposal_id p))"

definition chief_action :: "decision_cycle \<Rightarrow> trade_action option" where
  "chief_action c = map_option (ctr_action \<circ> ao_payload) (dcyc_chief_decision c)"

definition cycle_disposition_ok :: "decision_cycle \<Rightarrow> bool" where
  "cycle_disposition_ok c \<longleftrightarrow>
     (let st = map_option rd_status (dcyc_risk_decision c)
      in case dcyc_final_disposition c of
           shadow_disposition.CHIEF_HOLD \<Rightarrow>
             chief_action c = Some trade_action.HOLD \<and> dcyc_risk_decision c = None
         | shadow_disposition.WOULD_BUY \<Rightarrow>
             chief_action c = Some trade_action.BUY \<and> st = Some risk_decision_status.APPROVED
         | shadow_disposition.WOULD_SELL \<Rightarrow>
             chief_action c = Some trade_action.SELL \<and> st = Some risk_decision_status.APPROVED
         | shadow_disposition.RISK_REJECTED \<Rightarrow> st = Some risk_decision_status.REJECTED
         | shadow_disposition.RISK_HALTED \<Rightarrow> st = Some risk_decision_status.HALTED
         | _ \<Rightarrow> True)"

definition validate_decision_cycle :: "decision_cycle \<Rightarrow> bool" where
  "validate_decision_cycle c \<longleftrightarrow>
     cycle_trace_ok c \<and> cycle_results_ok c \<and> cycle_chief_ok c \<and> cycle_disposition_ok c"

definition ok_decision_cycle :: "decision_cycle \<Rightarrow> bool" where
  "ok_decision_cycle c \<longleftrightarrow> fields_decision_cycle c \<and> validate_decision_cycle c"

definition validate_shadow_trade_intent :: "shadow_trade_intent \<Rightarrow> bool" where
  "validate_shadow_trade_intent i \<longleftrightarrow>
     (let p = sti_proposal i; d = sti_risk_decision i
      in rd_status d = risk_decision_status.APPROVED \<and>
         (case rd_position_sizing d of None \<Rightarrow> False
          | Some z \<Rightarrow> psr_selected_volume z = Some (sti_selected_volume i)) \<and>
         tp_entry p = Some (sti_hypothetical_entry i) \<and>
         tp_stop_loss p = Some (sti_hypothetical_stop_loss i) \<and>
         tp_take_profit p = Some (sti_hypothetical_take_profit i) \<and>
         sti_cycle_id i = tp_cycle_id p \<and> sti_snapshot_id i = tp_snapshot_id p \<and>
         sti_cycle_id i = rd_cycle_id d \<and> sti_snapshot_id i = rd_snapshot_id d)"

definition ok_shadow_trade_intent :: "shadow_trade_intent \<Rightarrow> bool" where
  "ok_shadow_trade_intent i \<longleftrightarrow> fields_shadow_trade_intent i \<and> validate_shadow_trade_intent i"

definition validate_shadow_decision_record :: "shadow_decision_record \<Rightarrow> bool" where
  "validate_shadow_decision_record r \<longleftrightarrow>
     (let c = sdr_decision_cycle r
      in (map_option rd_status (dcyc_risk_decision c) = Some risk_decision_status.APPROVED) =
           (sdr_shadow_trade_intent r \<noteq> None) \<and>
         (case sdr_shadow_trade_intent r of None \<Rightarrow> True
          | Some i \<Rightarrow> sti_cycle_id i = dcyc_cycle_id c \<and> sti_snapshot_id i = dcyc_initial_snapshot_id c))"

definition ok_shadow_decision_record :: "shadow_decision_record \<Rightarrow> bool" where
  "ok_shadow_decision_record r \<longleftrightarrow> fields_shadow_decision_record r \<and> validate_shadow_decision_record r"

section \<open>What an accepted cycle says\<close>

text \<open>A cycle that would trade carries the proposal of its last Chief decision, approved for it.\<close>

lemma would_trade_approved:
  assumes "validate_decision_cycle c"
    and "dcyc_final_disposition c \<in> {shadow_disposition.WOULD_BUY, shadow_disposition.WOULD_SELL}"
  obtains p r where "dcyc_trade_proposal c = Some p" "dcyc_risk_decision c = Some r"
    "rd_status r = risk_decision_status.APPROVED" "rd_proposal_id r = tp_proposal_id p"
    "dcyc_chief_decisions c \<noteq> []"
    "ctr_trade_proposal (ao_payload (last (dcyc_chief_decisions c))) = Some p"
  using assms
  by (auto simp: validate_decision_cycle_def cycle_disposition_ok_def cycle_chief_ok_def Let_def
      split: option.splits if_splits)

end
