(* ===== verification/Serialization.thy ===== *)
theory Serialization
  imports MarketSchemas "HOL-Library.List_Lexorder" "HOL-Library.Char_ord"
begin

text \<open>
  \<open>features/serialization.py\<close>, \<open>replay/serialization.py\<close>, \<open>replay/identifiers.py\<close> and
  \<open>account_fingerprint\<close> of \<open>risk/account.py\<close>: canonical text of decimals and timestamps, canonical
  JSON, content digests and the identifiers derived from them. SHA-256 (\<open>hashlib\<close>) is the
  parameter \<open>sha\<close>, from text to its hexadecimal digest; UTF-8 is the identity on the ASCII texts
  of the model.
\<close>

section \<open>Rendering numbers\<close>

definition digit_char :: "nat \<Rightarrow> char" where
  "digit_char n = char_of (48 + n)"

fun show_nat :: "nat \<Rightarrow> string" where
  "show_nat n = (if n < 10 then [digit_char n] else show_nat (n div 10) @ [digit_char (n mod 10)])"

declare show_nat.simps [simp del]

definition show_int :: "int \<Rightarrow> string" where
  "show_int n = (if n < 0 then ''-'' @ show_nat (nat (- n)) else show_nat (nat n))"

text \<open>Exactly \<open>k\<close> digits, leading zeros included.\<close>

primrec pad_nat :: "nat \<Rightarrow> nat \<Rightarrow> string" where
  "pad_nat 0 n = []"
| "pad_nat (Suc k) n = pad_nat k (n div 10) @ [digit_char (n mod 10)]"

text \<open>
  The number of decimal places of a finite Decimal: its reduced denominator is
  \<open>2\<^sup>a 5\<^sup>b\<close>, and \<open>max a b\<close> places are enough and needed.
\<close>

fun multiplicity_of :: "nat \<Rightarrow> nat \<Rightarrow> nat" where
  "multiplicity_of q d =
     (if q < 2 \<or> d = 0 \<or> d mod q \<noteq> 0 then 0 else Suc (multiplicity_of q (d div q)))"

declare multiplicity_of.simps [simp del]

definition decimal_places :: "decimal \<Rightarrow> nat" where
  "decimal_places x =
     (let d = nat (snd (quotient_of x)) in max (multiplicity_of 2 d) (multiplicity_of 5 d))"

text \<open>
  \<open>format(value, "f")\<close> with the insignificant zeros removed: sign, integer part, and the fraction
  at its shortest length.
\<close>

definition canonical_decimal :: "decimal \<Rightarrow> string" where
  "canonical_decimal x =
     (if x = 0 then ''0''
      else let k = decimal_places x; m = nat \<lfloor>\<bar>x\<bar> * 10 ^ k\<rfloor>
        in (if x < 0 then ''-'' else '''') @ show_nat (m div 10 ^ k) @
           (if k = 0 then '''' else ''.'' @ pad_nat k (m mod 10 ^ k)))"

text \<open>\<open>isoformat(timespec="microseconds")\<close> of a UTC time, with \<open>Z\<close> for the offset.\<close>

definition canonical_timestamp :: "instant \<Rightarrow> string" where
  "canonical_timestamp t =
     (let us = t mod 86400000000; s = us div 1000000
      in case civil_of_day (day_number t) of (y, m, d) \<Rightarrow>
        pad_nat 4 (nat y) @ ''-'' @ pad_nat 2 (nat m) @ ''-'' @ pad_nat 2 (nat d) @ ''T'' @
        pad_nat 2 (nat (s div 3600)) @ '':'' @ pad_nat 2 (nat (s div 60 mod 60)) @ '':'' @
        pad_nat 2 (nat (s mod 60)) @ ''.'' @ pad_nat 6 (nat (us mod 1000000)) @ ''Z'')"

text \<open>\<open>date.isoformat()\<close>, the date given as its day number.\<close>

definition iso_date :: "int \<Rightarrow> string" where
  "iso_date n = (case civil_of_day n of (y, m, d) \<Rightarrow>
     pad_nat 4 (nat y) @ ''-'' @ pad_nat 2 (nat m) @ ''-'' @ pad_nat 2 (nat d))"

section \<open>Canonical JSON\<close>

datatype json =
    JNull
  | JBool bool
  | JInt int
  | JStr string
  | JList "json list"
  | JObj "(string \<times> json) list"

definition hex_digit :: "nat \<Rightarrow> char" where
  "hex_digit n = (if n < 10 then char_of (48 + n) else char_of (87 + n))"

text \<open>The escapes of \<open>json.dumps(ensure_ascii=False)\<close>.\<close>

definition escape_char :: "char \<Rightarrow> string" where
  "escape_char c =
     (let n = code_of c; bs = char_of (92::nat)
      in if n = 34 then [bs, char_of (34::nat)]
         else if n = 92 then [bs, bs]
         else if n = 10 then [bs, CHR ''n'']
         else if n = 13 then [bs, CHR ''r'']
         else if n = 9 then [bs, CHR ''t'']
         else if n = 8 then [bs, CHR ''b'']
         else if n = 12 then [bs, CHR ''f'']
         else if n < 32 then [bs] @ ''u00'' @ [hex_digit (n div 16), hex_digit (n mod 16)]
         else [c])"

definition quote_char :: char where
  "quote_char = char_of (34::nat)"

definition json_quote :: "string \<Rightarrow> string" where
  "json_quote s = [quote_char] @ concat (map escape_char s) @ [quote_char]"

fun join :: "string \<Rightarrow> string list \<Rightarrow> string" where
  "join sep [] = []"
| "join sep [x] = x"
| "join sep (x # y # ys) = x @ sep @ join sep (y # ys)"

primrec canonical_json_bytes :: "json \<Rightarrow> string" where
  "canonical_json_bytes JNull = ''null''"
| "canonical_json_bytes (JBool b) = (if b then ''true'' else ''false'')"
| "canonical_json_bytes (JInt n) = show_int n"
| "canonical_json_bytes (JStr s) = json_quote s"
| "canonical_json_bytes (JList xs) = ''['' @ join '','' (map canonical_json_bytes xs) @ '']''"
| "canonical_json_bytes (JObj kvs) =
     ''{'' @ join '','' (map (\<lambda>(k, t). json_quote k @ '':'' @ t)
        (sort_key fst (map (map_prod id canonical_json_bytes) kvs))) @ ''}''"

primrec canonical_value :: "pyval \<Rightarrow> json" where
  "canonical_value PNone = JNull"
| "canonical_value (PBool b) = JBool b"
| "canonical_value (PInt n) = JInt n"
| "canonical_value (PDec x) = JStr (canonical_decimal x)"
| "canonical_value (PStr s) = JStr s"
| "canonical_value (PTime t) = JStr (canonical_timestamp t)"
| "canonical_value (PDate n) = JStr (iso_date n)"
| "canonical_value (PDelta d) = JStr (show_int d @ ''us'')"
| "canonical_value (PList xs) = JList (map canonical_value xs)"
| "canonical_value (PSet xs) = JList (sort_key canonical_json_bytes (map canonical_value xs))"
| "canonical_value (PDict kvs) = JObj (map (map_prod id canonical_value) kvs)"

section \<open>Digests and identifiers\<close>

text \<open>\<open>model_dump(exclude={field})\<close>\<close>

definition dump_without :: "string \<Rightarrow> pyval \<Rightarrow> pyval" where
  "dump_without f v = (case v of PDict kvs \<Rightarrow> PDict (filter (\<lambda>(k, x). k \<noteq> f) kvs) | _ \<Rightarrow> v)"

type_synonym sha = "string \<Rightarrow> string"

definition content_digest :: "sha \<Rightarrow> pyval \<Rightarrow> string" where
  "content_digest sha v = ''sha256:'' @ sha (canonical_json_bytes (canonical_value v))"

text \<open>\<open>s.removeprefix(p)\<close>\<close>

definition remove_prefix :: "string \<Rightarrow> string \<Rightarrow> string" where
  "remove_prefix p s = (if take (length p) s = p then drop (length p) s else s)"

definition deterministic_id :: "sha \<Rightarrow> string \<Rightarrow> pyval \<Rightarrow> string" where
  "deterministic_id sha prefix payload =
     prefix @ ''-v1:'' @ remove_prefix ''sha256:'' (content_digest sha payload)"

definition replay_id :: "sha \<Rightarrow> string \<Rightarrow> string" where
  "replay_id sha cfg = deterministic_id sha ''replay'' (PDict [(''configuration_digest'', PStr cfg)])"

definition frame_id :: "sha \<Rightarrow> string \<Rightarrow> string \<Rightarrow> string \<Rightarrow> pyval \<Rightarrow> string" where
  "frame_id sha replay sy tf cutoff = deterministic_id sha ''frame'' (PDict
     [(''replay_id'', PStr replay), (''symbol'', PStr sy), (''timeframe'', PStr tf), (''cutoff'', cutoff)])"

definition cycle_id :: "sha \<Rightarrow> string \<Rightarrow> string" where
  "cycle_id sha frame = deterministic_id sha ''cycle'' (PDict [(''frame_id'', PStr frame)])"

definition snapshot_id :: "sha \<Rightarrow> string \<Rightarrow> string" where
  "snapshot_id sha frame = deterministic_id sha ''snapshot'' (PDict [(''frame_id'', PStr frame)])"

definition outcome_id :: "sha \<Rightarrow> string \<Rightarrow> string \<Rightarrow> string \<Rightarrow> string" where
  "outcome_id sha frame proposal_digest policy_digest = deterministic_id sha ''outcome'' (PDict
     [(''frame_id'', PStr frame), (''proposal_digest'', PStr proposal_digest),
      (''policy_digest'', PStr policy_digest)])"

definition source_candle_digest :: "sha \<Rightarrow> string \<Rightarrow> timeframe \<Rightarrow> mt5_candle list \<Rightarrow> string" where
  "source_candle_digest sha sy tf candles = ''sha256:'' @ sha (canonical_json_bytes (JObj
     [(''canonicalization_version'', JStr ''1.0.0''), (''symbol'', JStr sy),
      (''timeframe'', JStr (value_timeframe tf)),
      (''candles'', JList (map (\<lambda>c. JObj
         [(''schema_version'', JStr (mc_schema_version c)),
          (''retrieved_at'', JStr (canonical_timestamp (mc_retrieved_at c))),
          (''symbol'', JStr (mc_symbol c)),
          (''timeframe'', JStr (value_timeframe (mc_timeframe c))),
          (''open_time'', JStr (canonical_timestamp (mc_open_time c))),
          (''open'', JStr (canonical_decimal (mc_open c))),
          (''high'', JStr (canonical_decimal (mc_high c))),
          (''low'', JStr (canonical_decimal (mc_low c))),
          (''close'', JStr (canonical_decimal (mc_close c))),
          (''tick_volume'', JInt (mc_tick_volume c)),
          (''broker_spread_points'', JInt (mc_broker_spread_points c)),
          (''real_volume'', JInt (mc_real_volume c))]) candles))]))"

text \<open>\<open>str.casefold\<close> on ASCII.\<close>

definition casefold :: "string \<Rightarrow> string" where
  "casefold s = map (\<lambda>c. if is_upper_char c then char_of (code_of c + 32) else c) s"

definition account_fingerprint :: "sha \<Rightarrow> int \<Rightarrow> string \<Rightarrow> string" where
  "account_fingerprint sha account_id server =
     ''acct-v1:'' @ sha (''ai-trading-team:account:v1'' @ [char_of (0::nat)] @ casefold server @
       [char_of (0::nat)] @ show_int account_id)"

end
