(* ===== verification/EvaluationSchemas.thy ===== *)
theory EvaluationSchemas
  imports RiskSchemas Serialization FeatureSchemas
begin

text \<open>
  \<open>schemas/historical.py\<close>, \<open>schemas/replay.py\<close> and \<open>schemas/evaluation.py\<close>: the historical
  dataset with its partitions, replay frames and frozen decisions, the outcome horizon, and the
  theoretical outcome of a proposal with its research metrics. Digest checks take SHA-256 as the
  parameter \<open>sha\<close>; the R multiples are quotients in the 50 digit Decimal context.
\<close>

section \<open>Historical data\<close>

record dataset_partition =
  dp_partition_id :: string
  dp_kind :: dataset_partition_kind
  dp_context_start :: instant
  dp_evaluation_start :: instant
  dp_evaluation_end :: instant

definition fields_dataset_partition :: "dataset_partition \<Rightarrow> bool" where
  "fields_dataset_partition r \<longleftrightarrow>
     is_identifier (dp_partition_id r)"

definition dump_dataset_partition :: "dataset_partition \<Rightarrow> pyval" where
  "dump_dataset_partition r = PDict [
     (''partition_id'', PStr (dp_partition_id r)),
     (''kind'', PStr (value_dataset_partition_kind (dp_kind r))),
     (''context_start'', PTime (dp_context_start r)),
     (''evaluation_start'', PTime (dp_evaluation_start r)),
     (''evaluation_end'', PTime (dp_evaluation_end r))]"

record historical_dataset_metadata =
  hdm_schema_version :: string
  hdm_dataset_id :: string
  hdm_dataset_version :: string
  hdm_source_ref :: string
  hdm_symbols :: "string list"
  hdm_timeframes :: "timeframe list"
  hdm_partitions :: "dataset_partition list"

definition fields_historical_dataset_metadata :: "historical_dataset_metadata \<Rightarrow> bool" where
  "fields_historical_dataset_metadata r \<longleftrightarrow>
     is_schema_version (hdm_schema_version r) \<and>
     is_identifier (hdm_dataset_id r) \<and>
     is_schema_version (hdm_dataset_version r) \<and>
     is_identifier (hdm_source_ref r) \<and>
     list_all (\<lambda>x. is_symbol x) (hdm_symbols r) \<and>
     1 \<le> length (hdm_symbols r) \<and>
     1 \<le> length (hdm_timeframes r) \<and>
     1 \<le> length (hdm_partitions r)"

definition dump_historical_dataset_metadata :: "historical_dataset_metadata \<Rightarrow> pyval" where
  "dump_historical_dataset_metadata r = PDict [
     (''schema_version'', PStr (hdm_schema_version r)),
     (''dataset_id'', PStr (hdm_dataset_id r)),
     (''dataset_version'', PStr (hdm_dataset_version r)),
     (''source_ref'', PStr (hdm_source_ref r)),
     (''symbols'', PList (map (\<lambda>x. PStr x) (hdm_symbols r))),
     (''timeframes'', PList (map (\<lambda>x. PStr (value_timeframe x)) (hdm_timeframes r))),
     (''partitions'', PList (map (\<lambda>x. dump_dataset_partition x) (hdm_partitions r)))]"

record historical_candle =
  hc_schema_version :: string
  hc_source_record_id :: string
  hc_symbol :: string
  hc_timeframe :: timeframe
  hc_open_time :: instant
  hc_open :: decimal
  hc_high :: decimal
  hc_low :: decimal
  hc_close :: decimal
  hc_tick_volume :: "int option"
  hc_broker_spread_points :: "int option"
  hc_real_volume :: "int option"

definition fields_historical_candle :: "historical_candle \<Rightarrow> bool" where
  "fields_historical_candle r \<longleftrightarrow>
     is_schema_version (hc_schema_version r) \<and>
     is_identifier (hc_source_record_id r) \<and>
     is_symbol (hc_symbol r) \<and>
     pred_option (\<lambda>x. is_non_negative_int x) (hc_tick_volume r) \<and>
     pred_option (\<lambda>x. is_non_negative_int x) (hc_broker_spread_points r) \<and>
     pred_option (\<lambda>x. is_non_negative_int x) (hc_real_volume r)"

definition dump_historical_candle :: "historical_candle \<Rightarrow> pyval" where
  "dump_historical_candle r = PDict [
     (''schema_version'', PStr (hc_schema_version r)),
     (''source_record_id'', PStr (hc_source_record_id r)),
     (''symbol'', PStr (hc_symbol r)),
     (''timeframe'', PStr (value_timeframe (hc_timeframe r))),
     (''open_time'', PTime (hc_open_time r)),
     (''open'', PDec (hc_open r)),
     (''high'', PDec (hc_high r)),
     (''low'', PDec (hc_low r)),
     (''close'', PDec (hc_close r)),
     (''tick_volume'', dump_option (\<lambda>x. PInt x) (hc_tick_volume r)),
     (''broker_spread_points'', dump_option (\<lambda>x. PInt x) (hc_broker_spread_points r)),
     (''real_volume'', dump_option (\<lambda>x. PInt x) (hc_real_volume r))]"

record historical_snapshot_observations =
  hso_schema_version :: string
  hso_observation_id :: string
  hso_effective_at :: instant
  hso_symbol :: string
  hso_symbol_info :: mt5_symbol_info
  hso_tick :: mt5_tick
  hso_account :: mt5_account_info
  hso_open_positions :: "mt5_open_position list"

definition fields_historical_snapshot_observations :: "historical_snapshot_observations \<Rightarrow> bool" where
  "fields_historical_snapshot_observations r \<longleftrightarrow>
     is_schema_version (hso_schema_version r) \<and>
     is_identifier (hso_observation_id r) \<and>
     is_symbol (hso_symbol r)"

definition dump_historical_snapshot_observations :: "historical_snapshot_observations \<Rightarrow> pyval" where
  "dump_historical_snapshot_observations r = PDict [
     (''schema_version'', PStr (hso_schema_version r)),
     (''observation_id'', PStr (hso_observation_id r)),
     (''effective_at'', PTime (hso_effective_at r)),
     (''symbol'', PStr (hso_symbol r)),
     (''symbol_info'', dump_mt5_symbol_info (hso_symbol_info r)),
     (''tick'', dump_mt5_tick (hso_tick r)),
     (''account'', dump_mt5_account_info (hso_account r)),
     (''open_positions'', PList (map (\<lambda>x. dump_mt5_open_position x) (hso_open_positions r)))]"

record historical_dataset =
  hd_schema_version :: string
  hd_metadata :: historical_dataset_metadata
  hd_dataset_digest :: string
  hd_candles :: "historical_candle list"
  hd_snapshot_observations :: "historical_snapshot_observations list"

definition fields_historical_dataset :: "historical_dataset \<Rightarrow> bool" where
  "fields_historical_dataset r \<longleftrightarrow>
     is_schema_version (hd_schema_version r) \<and>
     is_content_digest (hd_dataset_digest r) \<and>
     1 \<le> length (hd_candles r)"

definition dump_historical_dataset :: "historical_dataset \<Rightarrow> pyval" where
  "dump_historical_dataset r = PDict [
     (''schema_version'', PStr (hd_schema_version r)),
     (''metadata'', dump_historical_dataset_metadata (hd_metadata r)),
     (''dataset_digest'', PStr (hd_dataset_digest r)),
     (''candles'', PList (map (\<lambda>x. dump_historical_candle x) (hd_candles r))),
     (''snapshot_observations'', PList (map (\<lambda>x. dump_historical_snapshot_observations x) (hd_snapshot_observations r)))]"

definition validate_dataset_partition :: "dataset_partition \<Rightarrow> bool" where
  "validate_dataset_partition p \<longleftrightarrow>
     dp_context_start p \<le> dp_evaluation_start p \<and> dp_evaluation_start p < dp_evaluation_end p"

definition ok_dataset_partition :: "dataset_partition \<Rightarrow> bool" where
  "ok_dataset_partition p \<longleftrightarrow> fields_dataset_partition p \<and> validate_dataset_partition p"

definition validate_historical_dataset_metadata :: "historical_dataset_metadata \<Rightarrow> bool" where
  "validate_historical_dataset_metadata m \<longleftrightarrow>
     distinct (hdm_symbols m) \<and> distinct (hdm_timeframes m) \<and>
     distinct (map dp_partition_id (hdm_partitions m)) \<and>
     successively (\<lambda>p c. \<not> dp_evaluation_end p > dp_evaluation_start c)
       (sort_key dp_evaluation_start (hdm_partitions m))"

definition validate_historical_candle :: "historical_candle \<Rightarrow> bool" where
  "validate_historical_candle c \<longleftrightarrow>
     \<not> (hc_high c < max (hc_open c) (hc_close c) \<or> hc_low c > min (hc_open c) (hc_close c)) \<and>
     \<not> hc_high c < hc_low c"

definition hc_close_time :: "historical_candle \<Rightarrow> instant" where
  "hc_close_time c = hc_open_time c + timeframe_duration (hc_timeframe c)"

definition validate_historical_snapshot_observations :: "historical_snapshot_observations \<Rightarrow> bool" where
  "validate_historical_snapshot_observations r \<longleftrightarrow>
     \<not> (msi_symbol (hso_symbol_info r) \<noteq> hso_symbol r \<or> mt_symbol (hso_tick r) \<noteq> hso_symbol r) \<and>
     \<not> mt_source_time (hso_tick r) > hso_effective_at r \<and>
     list_all (\<lambda>t. \<not> t > hso_effective_at r)
       ([msi_retrieved_at (hso_symbol_info r), mt_retrieved_at (hso_tick r), mai_retrieved_at (hso_account r)] @
        map mop_retrieved_at (hso_open_positions r)) \<and>
     list_all (\<lambda>p. \<not> (mop_symbol p \<noteq> hso_symbol r \<or> mop_update_time p > hso_effective_at r))
       (hso_open_positions r)"

text \<open>Tuples of symbol, timeframe value and time are compared lexicographically.\<close>

definition candle_key :: "historical_candle \<Rightarrow> string \<times> string \<times> instant" where
  "candle_key c = (hc_symbol c, value_timeframe (hc_timeframe c), hc_open_time c)"

definition candle_key_le :: "string \<times> string \<times> instant \<Rightarrow> string \<times> string \<times> instant \<Rightarrow> bool" where
  "candle_key_le a b \<longleftrightarrow> (case (a, b) of ((s, f, t), (s', f', t')) \<Rightarrow>
     s < s' \<or> s = s' \<and> (f < f' \<or> f = f' \<and> t \<le> t'))"

definition validate_historical_dataset :: "historical_dataset \<Rightarrow> bool" where
  "validate_historical_dataset d \<longleftrightarrow>
     (let ks = map candle_key (hd_candles d);
          os = map (\<lambda>r. (hso_symbol r, hso_effective_at r)) (hd_snapshot_observations d)
      in list_all (\<lambda>c. hc_symbol c \<in> set (hdm_symbols (hd_metadata d)) \<and>
             hc_timeframe c \<in> set (hdm_timeframes (hd_metadata d))) (hd_candles d) \<and>
         sorted_wrt candle_key_le ks \<and> distinct ks \<and>
         distinct (map hc_source_record_id (hd_candles d)) \<and>
         sorted_wrt (\<lambda>(s, t) (s', t'). s < s' \<or> s = s' \<and> t \<le> t') os \<and> distinct os \<and>
         distinct (map hso_observation_id (hd_snapshot_observations d)))"

section \<open>Replay\<close>

record outcome_horizon =
  oh_max_bars :: "int option"
  oh_max_elapsed :: "duration option"

definition fields_outcome_horizon :: "outcome_horizon \<Rightarrow> bool" where
  "fields_outcome_horizon r \<longleftrightarrow>
     pred_option (\<lambda>x. is_positive_int x) (oh_max_bars r) \<and>
     pred_option (\<lambda>x. x \<le> 10000) (oh_max_bars r) \<and>
     pred_option (\<lambda>x. 0 < x \<and> x \<le> 31536000000000) (oh_max_elapsed r)"

definition dump_outcome_horizon :: "outcome_horizon \<Rightarrow> pyval" where
  "dump_outcome_horizon r = PDict [
     (''max_bars'', dump_option (\<lambda>x. PInt x) (oh_max_bars r)),
     (''max_elapsed'', dump_option (\<lambda>x. PDelta x) (oh_max_elapsed r))]"

record replay_configuration =
  rc_schema_version :: string
  rc_configuration_version :: string
  rc_dataset_id :: string
  rc_dataset_digest :: string
  rc_partition_id :: string
  rc_symbol :: string
  rc_primary_timeframe :: timeframe
  rc_m15_candle_count :: int
  rc_h1_candle_count :: int
  rc_h4_candle_count :: int
  rc_replay_schedule :: "instant list"
  rc_feature_configuration_digest :: string
  rc_outcome_timeframe :: timeframe
  rc_outcome_horizon :: outcome_horizon
  rc_entry_policy :: entry_activation_policy
  rc_intrabar_policy :: intrabar_policy
  rc_outcome_basis :: outcome_basis
  rc_evaluation_policy_version :: string
  rc_segmentation_policy_digest :: "string option"

definition fields_replay_configuration :: "replay_configuration \<Rightarrow> bool" where
  "fields_replay_configuration r \<longleftrightarrow>
     is_schema_version (rc_schema_version r) \<and>
     rc_configuration_version r = ''1.0.0'' \<and>
     is_identifier (rc_dataset_id r) \<and>
     is_content_digest (rc_dataset_digest r) \<and>
     is_identifier (rc_partition_id r) \<and>
     is_symbol (rc_symbol r) \<and>
     is_positive_int (rc_m15_candle_count r) \<and>
     rc_m15_candle_count r \<le> 5000 \<and>
     is_positive_int (rc_h1_candle_count r) \<and>
     rc_h1_candle_count r \<le> 5000 \<and>
     is_positive_int (rc_h4_candle_count r) \<and>
     rc_h4_candle_count r \<le> 5000 \<and>
     1 \<le> length (rc_replay_schedule r) \<and>
     is_content_digest (rc_feature_configuration_digest r) \<and>
     rc_entry_policy r = entry_activation_policy.ACTIVE_AT_DECISION_CUTOFF \<and>
     rc_intrabar_policy r = intrabar_policy.MARK_AMBIGUOUS \<and>
     rc_outcome_basis r = outcome_basis.THEORETICAL_LEVEL_TOUCH_NO_COSTS \<and>
     rc_evaluation_policy_version r = ''1.0.0'' \<and>
     pred_option (\<lambda>x. is_content_digest x) (rc_segmentation_policy_digest r)"

definition dump_replay_configuration :: "replay_configuration \<Rightarrow> pyval" where
  "dump_replay_configuration r = PDict [
     (''schema_version'', PStr (rc_schema_version r)),
     (''configuration_version'', PStr (rc_configuration_version r)),
     (''dataset_id'', PStr (rc_dataset_id r)),
     (''dataset_digest'', PStr (rc_dataset_digest r)),
     (''partition_id'', PStr (rc_partition_id r)),
     (''symbol'', PStr (rc_symbol r)),
     (''primary_timeframe'', PStr (value_timeframe (rc_primary_timeframe r))),
     (''m15_candle_count'', PInt (rc_m15_candle_count r)),
     (''h1_candle_count'', PInt (rc_h1_candle_count r)),
     (''h4_candle_count'', PInt (rc_h4_candle_count r)),
     (''replay_schedule'', PList (map (\<lambda>x. PTime x) (rc_replay_schedule r))),
     (''feature_configuration_digest'', PStr (rc_feature_configuration_digest r)),
     (''outcome_timeframe'', PStr (value_timeframe (rc_outcome_timeframe r))),
     (''outcome_horizon'', dump_outcome_horizon (rc_outcome_horizon r)),
     (''entry_policy'', PStr (value_entry_activation_policy (rc_entry_policy r))),
     (''intrabar_policy'', PStr (value_intrabar_policy (rc_intrabar_policy r))),
     (''outcome_basis'', PStr (value_outcome_basis (rc_outcome_basis r))),
     (''evaluation_policy_version'', PStr (rc_evaluation_policy_version r)),
     (''segmentation_policy_digest'', dump_option (\<lambda>x. PStr x) (rc_segmentation_policy_digest r))]"

record artifact_reference =
  ar_artifact_id :: string
  ar_schema_version :: string
  ar_digest :: string

definition fields_artifact_reference :: "artifact_reference \<Rightarrow> bool" where
  "fields_artifact_reference r \<longleftrightarrow>
     is_identifier (ar_artifact_id r) \<and>
     is_schema_version (ar_schema_version r) \<and>
     is_content_digest (ar_digest r)"

definition dump_artifact_reference :: "artifact_reference \<Rightarrow> pyval" where
  "dump_artifact_reference r = PDict [
     (''artifact_id'', PStr (ar_artifact_id r)),
     (''schema_version'', PStr (ar_schema_version r)),
     (''digest'', PStr (ar_digest r))]"

record replay_frame =
  rf_schema_version :: string
  rf_replay_id :: string
  rf_frame_id :: string
  rf_dataset_id :: string
  rf_dataset_digest :: string
  rf_partition_id :: string
  rf_partition_kind :: dataset_partition_kind
  rf_cycle_id :: string
  rf_snapshot_id :: string
  rf_symbol :: string
  rf_primary_timeframe :: timeframe
  rf_replay_time :: instant
  rf_decision_cutoff :: instant
  rf_market_snapshot :: artifact_reference
  rf_market_features :: artifact_reference
  rf_replay_configuration_digest :: string
  rf_generated_at :: instant

definition fields_replay_frame :: "replay_frame \<Rightarrow> bool" where
  "fields_replay_frame r \<longleftrightarrow>
     is_schema_version (rf_schema_version r) \<and>
     is_identifier (rf_replay_id r) \<and>
     is_identifier (rf_frame_id r) \<and>
     is_identifier (rf_dataset_id r) \<and>
     is_content_digest (rf_dataset_digest r) \<and>
     is_identifier (rf_partition_id r) \<and>
     is_cycle_id (rf_cycle_id r) \<and>
     is_snapshot_id (rf_snapshot_id r) \<and>
     is_symbol (rf_symbol r) \<and>
     is_content_digest (rf_replay_configuration_digest r)"

definition dump_replay_frame :: "replay_frame \<Rightarrow> pyval" where
  "dump_replay_frame r = PDict [
     (''schema_version'', PStr (rf_schema_version r)),
     (''replay_id'', PStr (rf_replay_id r)),
     (''frame_id'', PStr (rf_frame_id r)),
     (''dataset_id'', PStr (rf_dataset_id r)),
     (''dataset_digest'', PStr (rf_dataset_digest r)),
     (''partition_id'', PStr (rf_partition_id r)),
     (''partition_kind'', PStr (value_dataset_partition_kind (rf_partition_kind r))),
     (''cycle_id'', PStr (rf_cycle_id r)),
     (''snapshot_id'', PStr (rf_snapshot_id r)),
     (''symbol'', PStr (rf_symbol r)),
     (''primary_timeframe'', PStr (value_timeframe (rf_primary_timeframe r))),
     (''replay_time'', PTime (rf_replay_time r)),
     (''decision_cutoff'', PTime (rf_decision_cutoff r)),
     (''market_snapshot'', dump_artifact_reference (rf_market_snapshot r)),
     (''market_features'', dump_artifact_reference (rf_market_features r)),
     (''replay_configuration_digest'', PStr (rf_replay_configuration_digest r)),
     (''generated_at'', PTime (rf_generated_at r))]"

record persisted_risk_decision_link =
  prdl_schema_version :: string
  prdl_proposal_digest :: string
  prdl_risk_decision_digest :: string
  prdl_risk_decision :: risk_decision

definition fields_persisted_risk_decision_link :: "persisted_risk_decision_link \<Rightarrow> bool" where
  "fields_persisted_risk_decision_link r \<longleftrightarrow>
     is_schema_version (prdl_schema_version r) \<and>
     is_content_digest (prdl_proposal_digest r) \<and>
     is_content_digest (prdl_risk_decision_digest r)"

definition dump_persisted_risk_decision_link :: "persisted_risk_decision_link \<Rightarrow> pyval" where
  "dump_persisted_risk_decision_link r = PDict [
     (''schema_version'', PStr (prdl_schema_version r)),
     (''proposal_digest'', PStr (prdl_proposal_digest r)),
     (''risk_decision_digest'', PStr (prdl_risk_decision_digest r)),
     (''risk_decision'', dump_risk_decision (prdl_risk_decision r))]"

record frozen_replay_decision =
  frd_schema_version :: string
  frd_frozen_decision_id :: string
  frd_replay_id :: string
  frd_frame_id :: string
  frd_cycle_id :: string
  frd_snapshot_id :: string
  frd_symbol :: string
  frd_decision_cutoff :: instant
  frd_frozen_at :: instant
  frd_source :: replay_decision_source
  frd_proposal :: trade_proposal
  frd_proposal_digest :: string
  frd_entry_policy :: entry_activation_policy
  frd_risk_link :: "persisted_risk_decision_link option"

definition fields_frozen_replay_decision :: "frozen_replay_decision \<Rightarrow> bool" where
  "fields_frozen_replay_decision r \<longleftrightarrow>
     is_schema_version (frd_schema_version r) \<and>
     is_identifier (frd_frozen_decision_id r) \<and>
     is_identifier (frd_replay_id r) \<and>
     is_identifier (frd_frame_id r) \<and>
     is_cycle_id (frd_cycle_id r) \<and>
     is_snapshot_id (frd_snapshot_id r) \<and>
     is_symbol (frd_symbol r) \<and>
     is_content_digest (frd_proposal_digest r) \<and>
     frd_entry_policy r = entry_activation_policy.ACTIVE_AT_DECISION_CUTOFF"

definition dump_frozen_replay_decision :: "frozen_replay_decision \<Rightarrow> pyval" where
  "dump_frozen_replay_decision r = PDict [
     (''schema_version'', PStr (frd_schema_version r)),
     (''frozen_decision_id'', PStr (frd_frozen_decision_id r)),
     (''replay_id'', PStr (frd_replay_id r)),
     (''frame_id'', PStr (frd_frame_id r)),
     (''cycle_id'', PStr (frd_cycle_id r)),
     (''snapshot_id'', PStr (frd_snapshot_id r)),
     (''symbol'', PStr (frd_symbol r)),
     (''decision_cutoff'', PTime (frd_decision_cutoff r)),
     (''frozen_at'', PTime (frd_frozen_at r)),
     (''source'', PStr (value_replay_decision_source (frd_source r))),
     (''proposal'', dump_trade_proposal (frd_proposal r)),
     (''proposal_digest'', PStr (frd_proposal_digest r)),
     (''entry_policy'', PStr (value_entry_activation_policy (frd_entry_policy r))),
     (''risk_link'', dump_option (\<lambda>x. dump_persisted_risk_decision_link x) (frd_risk_link r))]"

record replay_build_result =
  rbres_frame :: replay_frame
  rbres_snapshot :: market_snapshot
  rbres_features :: market_feature_set

definition fields_replay_build_result :: "replay_build_result \<Rightarrow> bool" where
  "fields_replay_build_result r \<longleftrightarrow>
     True"

definition validate_outcome_horizon :: "outcome_horizon \<Rightarrow> bool" where
  "validate_outcome_horizon h \<longleftrightarrow> (oh_max_bars h = None) \<noteq> (oh_max_elapsed h = None)"

definition ok_outcome_horizon :: "outcome_horizon \<Rightarrow> bool" where
  "ok_outcome_horizon h \<longleftrightarrow> fields_outcome_horizon h \<and> validate_outcome_horizon h"

definition validate_replay_configuration :: "replay_configuration \<Rightarrow> bool" where
  "validate_replay_configuration c \<longleftrightarrow> sort (remdups (rc_replay_schedule c)) = rc_replay_schedule c"

definition validate_replay_frame :: "replay_frame \<Rightarrow> bool" where
  "validate_replay_frame f \<longleftrightarrow>
     \<not> rf_decision_cutoff f > rf_replay_time f \<and> rf_generated_at f = rf_replay_time f"

definition validate_replay_build_result :: "sha \<Rightarrow> replay_build_result \<Rightarrow> bool" where
  "validate_replay_build_result sha r \<longleftrightarrow>
     (let f = rbres_frame r; s = rbres_snapshot r; x = rbres_features r
      in ms_cycle_id s = rf_cycle_id f \<and> ms_snapshot_id s = rf_snapshot_id f \<and>
         mfs_cycle_id x = rf_cycle_id f \<and> mfs_snapshot_id x = rf_snapshot_id f \<and>
         ms_symbol s = rf_symbol f \<and> mfs_symbol x = rf_symbol f \<and>
         ar_digest (rf_market_snapshot f) = content_digest sha (dump_market_snapshot s) \<and>
         ar_digest (rf_market_features f) = content_digest sha (dump_market_feature_set x))"

definition validate_frozen_replay_decision :: "sha \<Rightarrow> frozen_replay_decision \<Rightarrow> bool" where
  "validate_frozen_replay_decision sha d \<longleftrightarrow>
     (let p = frd_proposal d
      in \<not> frd_frozen_at d < frd_decision_cutoff d \<and>
         tp_cycle_id p = frd_cycle_id d \<and> tp_snapshot_id p = frd_snapshot_id d \<and>
         tp_symbol p = frd_symbol d \<and> tp_schema_version p = ''1.0.0'' \<and>
         frd_proposal_digest d = content_digest sha (dump_trade_proposal p) \<and>
         (case frd_risk_link d of None \<Rightarrow> True
          | Some l \<Rightarrow> (let r = prdl_risk_decision l
              in prdl_proposal_digest l = frd_proposal_digest d \<and>
                 rd_schema_version r = ''1.0.0'' \<and> rd_cycle_id r = frd_cycle_id d \<and>
                 rd_snapshot_id r = frd_snapshot_id d \<and> rd_proposal_id r = tp_proposal_id p \<and>
                 rd_symbol r = frd_symbol d \<and>
                 prdl_risk_decision_digest l = content_digest sha (dump_risk_decision r))))"

definition ok_frozen_replay_decision :: "sha \<Rightarrow> frozen_replay_decision \<Rightarrow> bool" where
  "ok_frozen_replay_decision sha d \<longleftrightarrow>
     fields_frozen_replay_decision d \<and> validate_frozen_replay_decision sha d"

section \<open>Outcomes\<close>

record segment_facts =
  sf_direction :: trade_side
  sf_timeframe :: timeframe
  sf_partition :: dataset_partition_kind
  sf_feature_regime :: "string option"
  sf_volatility_bucket :: "string option"
  sf_trend_strength_bucket :: "string option"
  sf_chief_decision :: "string option"
  sf_skeptic_decision :: "string option"

definition fields_segment_facts :: "segment_facts \<Rightarrow> bool" where
  "fields_segment_facts r \<longleftrightarrow>
     pred_option (\<lambda>x. is_identifier x) (sf_feature_regime r) \<and>
     pred_option (\<lambda>x. is_identifier x) (sf_volatility_bucket r) \<and>
     pred_option (\<lambda>x. is_identifier x) (sf_trend_strength_bucket r) \<and>
     pred_option (\<lambda>x. is_identifier x) (sf_chief_decision r) \<and>
     pred_option (\<lambda>x. is_identifier x) (sf_skeptic_decision r)"

definition dump_segment_facts :: "segment_facts \<Rightarrow> pyval" where
  "dump_segment_facts r = PDict [
     (''direction'', PStr (value_trade_side (sf_direction r))),
     (''timeframe'', PStr (value_timeframe (sf_timeframe r))),
     (''partition'', PStr (value_dataset_partition_kind (sf_partition r))),
     (''feature_regime'', dump_option (\<lambda>x. PStr x) (sf_feature_regime r)),
     (''volatility_bucket'', dump_option (\<lambda>x. PStr x) (sf_volatility_bucket r)),
     (''trend_strength_bucket'', dump_option (\<lambda>x. PStr x) (sf_trend_strength_bucket r)),
     (''chief_decision'', dump_option (\<lambda>x. PStr x) (sf_chief_decision r)),
     (''skeptic_decision'', dump_option (\<lambda>x. PStr x) (sf_skeptic_decision r))]"

record trade_outcome =
  to_schema_version :: string
  to_evaluator_version :: string
  to_outcome_id :: string
  to_replay_id :: string
  to_frame_id :: string
  to_cycle_id :: string
  to_snapshot_id :: string
  to_proposal_id :: string
  to_proposal_digest :: string
  to_dataset_id :: string
  to_dataset_digest :: string
  to_partition_id :: string
  to_partition_kind :: dataset_partition_kind
  to_symbol :: string
  to_side :: trade_side
  to_timeframe :: timeframe
  to_decision_cutoff :: instant
  to_evaluation_started_at :: instant
  to_evaluation_ended_at :: instant
  to_horizon :: outcome_horizon
  to_bars_evaluated :: int
  to_status :: trade_outcome_status
  to_resolution_candle_open_at :: "instant option"
  to_resolution_candle_close_at :: "instant option"
  to_bars_to_resolution :: "int option"
  to_seconds_to_resolution :: "decimal option"
  to_entry :: decimal
  to_stop_loss :: decimal
  to_take_profit :: decimal
  to_risk_unit :: decimal
  to_realized_r_multiple :: "decimal option"
  to_maximum_favorable_excursion :: decimal
  to_maximum_adverse_excursion :: decimal
  to_mfe_r :: decimal
  to_mae_r :: decimal
  to_outcome_candle_digest :: string
  to_evaluation_policy_digest :: string
  to_outcome_basis :: outcome_basis
  to_segment_facts :: segment_facts

definition fields_trade_outcome :: "trade_outcome \<Rightarrow> bool" where
  "fields_trade_outcome r \<longleftrightarrow>
     is_schema_version (to_schema_version r) \<and>
     is_schema_version (to_evaluator_version r) \<and>
     is_identifier (to_outcome_id r) \<and>
     is_identifier (to_replay_id r) \<and>
     is_identifier (to_frame_id r) \<and>
     is_cycle_id (to_cycle_id r) \<and>
     is_snapshot_id (to_snapshot_id r) \<and>
     is_identifier (to_proposal_id r) \<and>
     is_content_digest (to_proposal_digest r) \<and>
     is_identifier (to_dataset_id r) \<and>
     is_content_digest (to_dataset_digest r) \<and>
     is_identifier (to_partition_id r) \<and>
     is_symbol (to_symbol r) \<and>
     is_non_negative_int (to_bars_evaluated r) \<and>
     pred_option (\<lambda>x. is_non_negative_int x) (to_bars_to_resolution r) \<and>
     pred_option (\<lambda>x. is_non_negative_decimal x) (to_seconds_to_resolution r) \<and>
     is_positive_decimal (to_risk_unit r) \<and>
     is_non_negative_decimal (to_maximum_favorable_excursion r) \<and>
     is_non_negative_decimal (to_maximum_adverse_excursion r) \<and>
     is_non_negative_decimal (to_mfe_r r) \<and>
     is_non_negative_decimal (to_mae_r r) \<and>
     is_content_digest (to_outcome_candle_digest r) \<and>
     is_content_digest (to_evaluation_policy_digest r)"

definition dump_trade_outcome :: "trade_outcome \<Rightarrow> pyval" where
  "dump_trade_outcome r = PDict [
     (''schema_version'', PStr (to_schema_version r)),
     (''evaluator_version'', PStr (to_evaluator_version r)),
     (''outcome_id'', PStr (to_outcome_id r)),
     (''replay_id'', PStr (to_replay_id r)),
     (''frame_id'', PStr (to_frame_id r)),
     (''cycle_id'', PStr (to_cycle_id r)),
     (''snapshot_id'', PStr (to_snapshot_id r)),
     (''proposal_id'', PStr (to_proposal_id r)),
     (''proposal_digest'', PStr (to_proposal_digest r)),
     (''dataset_id'', PStr (to_dataset_id r)),
     (''dataset_digest'', PStr (to_dataset_digest r)),
     (''partition_id'', PStr (to_partition_id r)),
     (''partition_kind'', PStr (value_dataset_partition_kind (to_partition_kind r))),
     (''symbol'', PStr (to_symbol r)),
     (''side'', PStr (value_trade_side (to_side r))),
     (''timeframe'', PStr (value_timeframe (to_timeframe r))),
     (''decision_cutoff'', PTime (to_decision_cutoff r)),
     (''evaluation_started_at'', PTime (to_evaluation_started_at r)),
     (''evaluation_ended_at'', PTime (to_evaluation_ended_at r)),
     (''horizon'', dump_outcome_horizon (to_horizon r)),
     (''bars_evaluated'', PInt (to_bars_evaluated r)),
     (''status'', PStr (value_trade_outcome_status (to_status r))),
     (''resolution_candle_open_at'', dump_option (\<lambda>x. PTime x) (to_resolution_candle_open_at r)),
     (''resolution_candle_close_at'', dump_option (\<lambda>x. PTime x) (to_resolution_candle_close_at r)),
     (''bars_to_resolution'', dump_option (\<lambda>x. PInt x) (to_bars_to_resolution r)),
     (''seconds_to_resolution'', dump_option (\<lambda>x. PDec x) (to_seconds_to_resolution r)),
     (''entry'', PDec (to_entry r)),
     (''stop_loss'', PDec (to_stop_loss r)),
     (''take_profit'', PDec (to_take_profit r)),
     (''risk_unit'', PDec (to_risk_unit r)),
     (''realized_r_multiple'', dump_option (\<lambda>x. PDec x) (to_realized_r_multiple r)),
     (''maximum_favorable_excursion'', PDec (to_maximum_favorable_excursion r)),
     (''maximum_adverse_excursion'', PDec (to_maximum_adverse_excursion r)),
     (''mfe_r'', PDec (to_mfe_r r)),
     (''mae_r'', PDec (to_mae_r r)),
     (''outcome_candle_digest'', PStr (to_outcome_candle_digest r)),
     (''evaluation_policy_digest'', PStr (to_evaluation_policy_digest r)),
     (''outcome_basis'', PStr (value_outcome_basis (to_outcome_basis r))),
     (''segment_facts'', dump_segment_facts (to_segment_facts r))]"

record research_metric =
  rm_status :: research_metric_status
  rm_value :: "decimal option"

definition fields_research_metric :: "research_metric \<Rightarrow> bool" where
  "fields_research_metric r \<longleftrightarrow>
     True"

definition dump_research_metric :: "research_metric \<Rightarrow> pyval" where
  "dump_research_metric r = PDict [
     (''status'', PStr (value_research_metric_status (rm_status r))),
     (''value'', dump_option (\<lambda>x. PDec x) (rm_value r))]"

record performance_summary =
  ps_schema_version :: string
  ps_summary_id :: string
  ps_replay_id :: string
  ps_dataset_digest :: string
  ps_partition_id :: string
  ps_partition_kind :: dataset_partition_kind
  ps_outcome_count :: int
  ps_resolved_count :: int
  ps_unresolved_count :: int
  ps_ambiguous_count :: int
  ps_win_count :: int
  ps_loss_count :: int
  ps_win_rate :: research_metric
  ps_cumulative_r :: research_metric
  ps_average_r :: research_metric
  ps_median_r :: research_metric
  ps_expectancy_r :: research_metric
  ps_profit_factor :: research_metric
  ps_sequence_max_drawdown_r :: research_metric
  ps_average_holding_bars :: research_metric
  ps_average_holding_seconds :: research_metric
  ps_average_mfe_r :: research_metric
  ps_average_mae_r :: research_metric
  ps_outcome_digest :: string
  ps_metrics_version :: string
  ps_generated_at :: instant

definition fields_performance_summary :: "performance_summary \<Rightarrow> bool" where
  "fields_performance_summary r \<longleftrightarrow>
     is_schema_version (ps_schema_version r) \<and>
     is_identifier (ps_summary_id r) \<and>
     is_identifier (ps_replay_id r) \<and>
     is_content_digest (ps_dataset_digest r) \<and>
     is_identifier (ps_partition_id r) \<and>
     is_non_negative_int (ps_outcome_count r) \<and>
     is_non_negative_int (ps_resolved_count r) \<and>
     is_non_negative_int (ps_unresolved_count r) \<and>
     is_non_negative_int (ps_ambiguous_count r) \<and>
     is_non_negative_int (ps_win_count r) \<and>
     is_non_negative_int (ps_loss_count r) \<and>
     is_content_digest (ps_outcome_digest r) \<and>
     is_schema_version (ps_metrics_version r)"

definition dump_performance_summary :: "performance_summary \<Rightarrow> pyval" where
  "dump_performance_summary r = PDict [
     (''schema_version'', PStr (ps_schema_version r)),
     (''summary_id'', PStr (ps_summary_id r)),
     (''replay_id'', PStr (ps_replay_id r)),
     (''dataset_digest'', PStr (ps_dataset_digest r)),
     (''partition_id'', PStr (ps_partition_id r)),
     (''partition_kind'', PStr (value_dataset_partition_kind (ps_partition_kind r))),
     (''outcome_count'', PInt (ps_outcome_count r)),
     (''resolved_count'', PInt (ps_resolved_count r)),
     (''unresolved_count'', PInt (ps_unresolved_count r)),
     (''ambiguous_count'', PInt (ps_ambiguous_count r)),
     (''win_count'', PInt (ps_win_count r)),
     (''loss_count'', PInt (ps_loss_count r)),
     (''win_rate'', dump_research_metric (ps_win_rate r)),
     (''cumulative_r'', dump_research_metric (ps_cumulative_r r)),
     (''average_r'', dump_research_metric (ps_average_r r)),
     (''median_r'', dump_research_metric (ps_median_r r)),
     (''expectancy_r'', dump_research_metric (ps_expectancy_r r)),
     (''profit_factor'', dump_research_metric (ps_profit_factor r)),
     (''sequence_max_drawdown_r'', dump_research_metric (ps_sequence_max_drawdown_r r)),
     (''average_holding_bars'', dump_research_metric (ps_average_holding_bars r)),
     (''average_holding_seconds'', dump_research_metric (ps_average_holding_seconds r)),
     (''average_mfe_r'', dump_research_metric (ps_average_mfe_r r)),
     (''average_mae_r'', dump_research_metric (ps_average_mae_r r)),
     (''outcome_digest'', PStr (ps_outcome_digest r)),
     (''metrics_version'', PStr (ps_metrics_version r)),
     (''generated_at'', PTime (ps_generated_at r))]"

record segmented_performance_summary =
  sps_dimension :: segment_dimension
  sps_value :: string
  sps_summary :: performance_summary

definition fields_segmented_performance_summary :: "segmented_performance_summary \<Rightarrow> bool" where
  "fields_segmented_performance_summary r \<longleftrightarrow>
     is_identifier (sps_value r)"

definition dump_segmented_performance_summary :: "segmented_performance_summary \<Rightarrow> pyval" where
  "dump_segmented_performance_summary r = PDict [
     (''dimension'', PStr (value_segment_dimension (sps_dimension r))),
     (''value'', PStr (sps_value r)),
     (''summary'', dump_performance_summary (sps_summary r))]"

definition resolved_status :: "trade_outcome_status \<Rightarrow> bool" where
  "resolved_status s \<longleftrightarrow>
     s \<in> {trade_outcome_status.TAKE_PROFIT_REACHED, trade_outcome_status.STOP_LOSS_REACHED}"

definition terminal_candle_status :: "trade_outcome_status \<Rightarrow> bool" where
  "terminal_candle_status s \<longleftrightarrow> resolved_status s \<or> s = trade_outcome_status.AMBIGUOUS_INTRABAR"

definition validate_trade_outcome :: "trade_outcome \<Rightarrow> bool" where
  "validate_trade_outcome r \<longleftrightarrow>
     \<not> to_evaluation_started_at r < to_decision_cutoff r \<and>
     \<not> (to_evaluation_ended_at r < to_evaluation_started_at r \<or> to_bars_evaluated r < 1) \<and>
     (if to_side r = trade_side.BUY
      then to_stop_loss r < to_entry r \<and> to_entry r < to_take_profit r
      else to_take_profit r < to_entry r \<and> to_entry r < to_stop_loss r) \<and>
     to_risk_unit r = \<bar>rd28 (to_entry r - to_stop_loss r)\<bar> \<and>
     to_mfe_r r = rd50 (to_maximum_favorable_excursion r / to_risk_unit r) \<and>
     to_mae_r r = rd50 (to_maximum_adverse_excursion r / to_risk_unit r) \<and>
     terminal_candle_status (to_status r) =
       (to_resolution_candle_open_at r \<noteq> None \<and> to_resolution_candle_close_at r \<noteq> None \<and>
        to_bars_to_resolution r \<noteq> None \<and> to_seconds_to_resolution r \<noteq> None) \<and>
     resolved_status (to_status r) = (to_realized_r_multiple r \<noteq> None) \<and>
     (to_status r = trade_outcome_status.STOP_LOSS_REACHED \<longrightarrow> to_realized_r_multiple r = Some (- 1)) \<and>
     (to_status r = trade_outcome_status.TAKE_PROFIT_REACHED \<longrightarrow>
        to_realized_r_multiple r = Some (rd50 (\<bar>rd50 (to_take_profit r - to_entry r)\<bar> / to_risk_unit r))) \<and>
     (terminal_candle_status (to_status r) \<longrightarrow>
        (case (to_resolution_candle_open_at r, to_resolution_candle_close_at r) of
           (Some op, Some cl) \<Rightarrow> cl = op + timeframe_duration (to_timeframe r) \<and>
             cl = to_evaluation_ended_at r \<and> to_bars_to_resolution r = Some (to_bars_evaluated r)
         | _ \<Rightarrow> False))"

definition ok_trade_outcome :: "trade_outcome \<Rightarrow> bool" where
  "ok_trade_outcome r \<longleftrightarrow> fields_trade_outcome r \<and> validate_trade_outcome r"

definition validate_research_metric :: "research_metric \<Rightarrow> bool" where
  "validate_research_metric m \<longleftrightarrow> (rm_status m = research_metric_status.VALID) = (rm_value m \<noteq> None)"

definition validate_performance_summary :: "performance_summary \<Rightarrow> bool" where
  "validate_performance_summary s \<longleftrightarrow>
     ps_outcome_count s = ps_resolved_count s + ps_unresolved_count s + ps_ambiguous_count s \<and>
     ps_resolved_count s = ps_win_count s + ps_loss_count s"

definition ok_performance_summary :: "performance_summary \<Rightarrow> bool" where
  "ok_performance_summary s \<longleftrightarrow> fields_performance_summary s \<and> validate_performance_summary s"

end
