(* ===== verification/ObservationSchemas.thy ===== *)
theory ObservationSchemas
  imports ShadowSchemas EvaluationSchemas
begin

text \<open>
  \<open>schemas/observation.py\<close>: the decision candle and its durable claim, risk baselines, acceptance
  records, the continuous decision record, and pending outcomes.
\<close>

record completed_decision_candle =
  cdc_schema_version :: string
  cdc_decision_key :: string
  cdc_cycle_id :: string
  cdc_symbol :: string
  cdc_timeframe :: timeframe
  cdc_candle_open_at :: instant
  cdc_candle_close_at :: instant
  cdc_candle_digest :: string
  cdc_observed_at :: instant

definition fields_completed_decision_candle :: "completed_decision_candle \<Rightarrow> bool" where
  "fields_completed_decision_candle r \<longleftrightarrow>
     cdc_schema_version r = ''1.0.0'' \<and>
     is_identifier (cdc_decision_key r) \<and>
     is_cycle_id (cdc_cycle_id r) \<and>
     is_symbol (cdc_symbol r) \<and>
     cdc_timeframe r = timeframe.M15 \<and>
     is_content_digest (cdc_candle_digest r)"

definition dump_completed_decision_candle :: "completed_decision_candle \<Rightarrow> pyval" where
  "dump_completed_decision_candle r = PDict [
     (''schema_version'', PStr (cdc_schema_version r)),
     (''decision_key'', PStr (cdc_decision_key r)),
     (''cycle_id'', PStr (cdc_cycle_id r)),
     (''symbol'', PStr (cdc_symbol r)),
     (''timeframe'', PStr (value_timeframe (cdc_timeframe r))),
     (''candle_open_at'', PTime (cdc_candle_open_at r)),
     (''candle_close_at'', PTime (cdc_candle_close_at r)),
     (''candle_digest'', PStr (cdc_candle_digest r)),
     (''observed_at'', PTime (cdc_observed_at r))]"

record decision_candle_claim =
  dcc_schema_version :: string
  dcc_decision_key :: string
  dcc_cycle_id :: string
  dcc_actual_snapshot_id :: "string option"
  dcc_symbol :: string
  dcc_timeframe :: timeframe
  dcc_candle_open_at :: instant
  dcc_candle_close_at :: instant
  dcc_candle_digest :: string
  dcc_state :: decision_claim_state
  dcc_discovered_at :: instant
  dcc_updated_at :: instant
  dcc_failure_category :: "observation_failure_category option"
  dcc_sanitized_detail :: "string option"

definition fields_decision_candle_claim :: "decision_candle_claim \<Rightarrow> bool" where
  "fields_decision_candle_claim r \<longleftrightarrow>
     dcc_schema_version r = ''1.0.0'' \<and>
     is_identifier (dcc_decision_key r) \<and>
     is_cycle_id (dcc_cycle_id r) \<and>
     pred_option (\<lambda>x. is_snapshot_id x) (dcc_actual_snapshot_id r) \<and>
     is_symbol (dcc_symbol r) \<and>
     dcc_timeframe r = timeframe.M15 \<and>
     is_content_digest (dcc_candle_digest r) \<and>
     pred_option (\<lambda>x. length x \<le> 512) (dcc_sanitized_detail r)"

definition dump_decision_candle_claim :: "decision_candle_claim \<Rightarrow> pyval" where
  "dump_decision_candle_claim r = PDict [
     (''schema_version'', PStr (dcc_schema_version r)),
     (''decision_key'', PStr (dcc_decision_key r)),
     (''cycle_id'', PStr (dcc_cycle_id r)),
     (''actual_snapshot_id'', dump_option (\<lambda>x. PStr x) (dcc_actual_snapshot_id r)),
     (''symbol'', PStr (dcc_symbol r)),
     (''timeframe'', PStr (value_timeframe (dcc_timeframe r))),
     (''candle_open_at'', PTime (dcc_candle_open_at r)),
     (''candle_close_at'', PTime (dcc_candle_close_at r)),
     (''candle_digest'', PStr (dcc_candle_digest r)),
     (''state'', PStr (value_decision_claim_state (dcc_state r))),
     (''discovered_at'', PTime (dcc_discovered_at r)),
     (''updated_at'', PTime (dcc_updated_at r)),
     (''failure_category'', dump_option (\<lambda>x. PStr (value_observation_failure_category x)) (dcc_failure_category r)),
     (''sanitized_detail'', dump_option (\<lambda>x. PStr x) (dcc_sanitized_detail r))]"

record risk_baseline_record =
  rbr_schema_version :: string
  rbr_baseline_id :: string
  rbr_account_ref :: string
  rbr_utc_trading_day :: int
  rbr_trading_day_started_at :: instant
  rbr_effective_from :: instant
  rbr_effective_until :: "instant option"
  rbr_adjusted_day_start_equity :: decimal
  rbr_cash_flow_adjusted_peak_equity :: decimal
  rbr_provenance :: risk_baseline_provenance
  rbr_evidence_ref :: string
  rbr_evidence_digest :: string
  rbr_state :: risk_baseline_state
  rbr_created_at :: instant
  rbr_superseded_by :: "string option"
  rbr_invalidation_reason :: "string option"

definition fields_risk_baseline_record :: "risk_baseline_record \<Rightarrow> bool" where
  "fields_risk_baseline_record r \<longleftrightarrow>
     rbr_schema_version r = ''1.0.0'' \<and>
     is_identifier (rbr_baseline_id r) \<and>
     is_account_reference (rbr_account_ref r) \<and>
     is_positive_decimal (rbr_adjusted_day_start_equity r) \<and>
     is_positive_decimal (rbr_cash_flow_adjusted_peak_equity r) \<and>
     is_identifier (rbr_evidence_ref r) \<and>
     is_content_digest (rbr_evidence_digest r) \<and>
     pred_option (\<lambda>x. is_identifier x) (rbr_superseded_by r) \<and>
     pred_option (\<lambda>x. length x \<le> 512) (rbr_invalidation_reason r)"

definition dump_risk_baseline_record :: "risk_baseline_record \<Rightarrow> pyval" where
  "dump_risk_baseline_record r = PDict [
     (''schema_version'', PStr (rbr_schema_version r)),
     (''baseline_id'', PStr (rbr_baseline_id r)),
     (''account_ref'', PStr (rbr_account_ref r)),
     (''utc_trading_day'', PDate (rbr_utc_trading_day r)),
     (''trading_day_started_at'', PTime (rbr_trading_day_started_at r)),
     (''effective_from'', PTime (rbr_effective_from r)),
     (''effective_until'', dump_option (\<lambda>x. PTime x) (rbr_effective_until r)),
     (''adjusted_day_start_equity'', PDec (rbr_adjusted_day_start_equity r)),
     (''cash_flow_adjusted_peak_equity'', PDec (rbr_cash_flow_adjusted_peak_equity r)),
     (''provenance'', PStr (value_risk_baseline_provenance (rbr_provenance r))),
     (''evidence_ref'', PStr (rbr_evidence_ref r)),
     (''evidence_digest'', PStr (rbr_evidence_digest r)),
     (''state'', PStr (value_risk_baseline_state (rbr_state r))),
     (''created_at'', PTime (rbr_created_at r)),
     (''superseded_by'', dump_option (\<lambda>x. PStr x) (rbr_superseded_by r)),
     (''invalidation_reason'', dump_option (\<lambda>x. PStr x) (rbr_invalidation_reason r))]"

record acceptance_evidence_reference =
  aer_acceptance_id :: string
  aer_evidence_digest :: string
  aer_accepted_at :: instant

definition fields_acceptance_evidence_reference :: "acceptance_evidence_reference \<Rightarrow> bool" where
  "fields_acceptance_evidence_reference r \<longleftrightarrow>
     is_identifier (aer_acceptance_id r) \<and>
     is_content_digest (aer_evidence_digest r)"

definition dump_acceptance_evidence_reference :: "acceptance_evidence_reference \<Rightarrow> pyval" where
  "dump_acceptance_evidence_reference r = PDict [
     (''acceptance_id'', PStr (aer_acceptance_id r)),
     (''evidence_digest'', PStr (aer_evidence_digest r)),
     (''accepted_at'', PTime (aer_accepted_at r))]"

record continuous_provider_acceptance_record =
  cpar_schema_version :: string
  cpar_acceptance_id :: string
  cpar_agent_role :: agent_role
  cpar_provider :: model_provider
  cpar_model_identifier :: string
  cpar_adapter_version :: string
  cpar_provider_sdk_version :: string
  cpar_capability_profile_digest :: string
  cpar_runtime_profile_digest :: string
  cpar_prompt_digest :: string
  cpar_input_schema_digest :: string
  cpar_output_schema_digest :: string
  cpar_feature_allowlist_version :: string
  cpar_feature_allowlist_digest :: string
  cpar_m5_live_smoke :: acceptance_evidence_reference
  cpar_m6_full_shadow :: acceptance_evidence_reference
  cpar_m9_feature_input :: acceptance_evidence_reference
  cpar_accepted_at :: instant
  cpar_expires_at :: instant
  cpar_accepted :: bool

definition fields_continuous_provider_acceptance_record :: "continuous_provider_acceptance_record \<Rightarrow> bool" where
  "fields_continuous_provider_acceptance_record r \<longleftrightarrow>
     cpar_schema_version r = ''1.0.0'' \<and>
     is_identifier (cpar_acceptance_id r) \<and>
     is_identifier (cpar_model_identifier r) \<and>
     is_schema_version (cpar_adapter_version r) \<and>
     1 \<le> length (cpar_provider_sdk_version r) \<and>
     length (cpar_provider_sdk_version r) \<le> 128 \<and>
     is_content_digest (cpar_capability_profile_digest r) \<and>
     is_content_digest (cpar_runtime_profile_digest r) \<and>
     is_content_digest (cpar_prompt_digest r) \<and>
     is_content_digest (cpar_input_schema_digest r) \<and>
     is_content_digest (cpar_output_schema_digest r) \<and>
     is_schema_version (cpar_feature_allowlist_version r) \<and>
     is_content_digest (cpar_feature_allowlist_digest r) \<and>
     (cpar_accepted r)"

definition dump_continuous_provider_acceptance_record :: "continuous_provider_acceptance_record \<Rightarrow> pyval" where
  "dump_continuous_provider_acceptance_record r = PDict [
     (''schema_version'', PStr (cpar_schema_version r)),
     (''acceptance_id'', PStr (cpar_acceptance_id r)),
     (''agent_role'', PStr (value_agent_role (cpar_agent_role r))),
     (''provider'', PStr (value_model_provider (cpar_provider r))),
     (''model_identifier'', PStr (cpar_model_identifier r)),
     (''adapter_version'', PStr (cpar_adapter_version r)),
     (''provider_sdk_version'', PStr (cpar_provider_sdk_version r)),
     (''capability_profile_digest'', PStr (cpar_capability_profile_digest r)),
     (''runtime_profile_digest'', PStr (cpar_runtime_profile_digest r)),
     (''prompt_digest'', PStr (cpar_prompt_digest r)),
     (''input_schema_digest'', PStr (cpar_input_schema_digest r)),
     (''output_schema_digest'', PStr (cpar_output_schema_digest r)),
     (''feature_allowlist_version'', PStr (cpar_feature_allowlist_version r)),
     (''feature_allowlist_digest'', PStr (cpar_feature_allowlist_digest r)),
     (''m5_live_smoke'', dump_acceptance_evidence_reference (cpar_m5_live_smoke r)),
     (''m6_full_shadow'', dump_acceptance_evidence_reference (cpar_m6_full_shadow r)),
     (''m9_feature_input'', dump_acceptance_evidence_reference (cpar_m9_feature_input r)),
     (''accepted_at'', PTime (cpar_accepted_at r)),
     (''expires_at'', PTime (cpar_expires_at r)),
     (''accepted'', PBool (cpar_accepted r))]"

record symbol_timestamp_acceptance_record =
  star_schema_version :: string
  star_acceptance_id :: string
  star_symbol :: string
  star_timeframes :: "timeframe list"
  star_account_ref :: string
  star_adapter_version :: string
  star_validation_policy_digest :: string
  star_test_result_id :: string
  star_tested_at :: instant
  star_expires_at :: instant
  star_accepted :: bool

definition fields_symbol_timestamp_acceptance_record :: "symbol_timestamp_acceptance_record \<Rightarrow> bool" where
  "fields_symbol_timestamp_acceptance_record r \<longleftrightarrow>
     star_schema_version r = ''1.0.0'' \<and>
     is_identifier (star_acceptance_id r) \<and>
     is_symbol (star_symbol r) \<and>
     is_account_reference (star_account_ref r) \<and>
     is_schema_version (star_adapter_version r) \<and>
     is_content_digest (star_validation_policy_digest r) \<and>
     is_identifier (star_test_result_id r) \<and>
     (star_accepted r)"

definition dump_symbol_timestamp_acceptance_record :: "symbol_timestamp_acceptance_record \<Rightarrow> pyval" where
  "dump_symbol_timestamp_acceptance_record r = PDict [
     (''schema_version'', PStr (star_schema_version r)),
     (''acceptance_id'', PStr (star_acceptance_id r)),
     (''symbol'', PStr (star_symbol r)),
     (''timeframes'', PList (map (\<lambda>x. PStr (value_timeframe x)) (star_timeframes r))),
     (''account_ref'', PStr (star_account_ref r)),
     (''adapter_version'', PStr (star_adapter_version r)),
     (''validation_policy_digest'', PStr (star_validation_policy_digest r)),
     (''test_result_id'', PStr (star_test_result_id r)),
     (''tested_at'', PTime (star_tested_at r)),
     (''expires_at'', PTime (star_expires_at r)),
     (''accepted'', PBool (star_accepted r))]"

record risk_context_evidence =
  rce_baseline_id :: string
  rce_baseline_digest :: string
  rce_account_observation_digest :: string
  rce_positions_observation_digest :: string
  rce_context :: account_risk_context

definition fields_risk_context_evidence :: "risk_context_evidence \<Rightarrow> bool" where
  "fields_risk_context_evidence r \<longleftrightarrow>
     is_identifier (rce_baseline_id r) \<and>
     is_content_digest (rce_baseline_digest r) \<and>
     is_content_digest (rce_account_observation_digest r) \<and>
     is_content_digest (rce_positions_observation_digest r)"

definition dump_risk_context_evidence :: "risk_context_evidence \<Rightarrow> pyval" where
  "dump_risk_context_evidence r = PDict [
     (''baseline_id'', PStr (rce_baseline_id r)),
     (''baseline_digest'', PStr (rce_baseline_digest r)),
     (''account_observation_digest'', PStr (rce_account_observation_digest r)),
     (''positions_observation_digest'', PStr (rce_positions_observation_digest r)),
     (''context'', dump_account_risk_context (rce_context r))]"

record continuous_decision_record =
  cdr_schema_version :: string
  cdr_record_id :: string
  cdr_decision_key :: string
  cdr_cycle_id :: string
  cdr_actual_snapshot_id :: "string option"
  cdr_symbol :: string
  cdr_timeframe :: timeframe
  cdr_decision_candle_digest :: string
  cdr_disposition :: m9_decision_disposition
  cdr_recorded_at :: instant
  cdr_snapshot_digest :: "string option"
  cdr_feature_set_digest :: "string option"
  cdr_agent_feature_view_digest :: "string option"
  cdr_agent_market_view :: "agent_market_view option"
  cdr_risk_context_evidence :: "risk_context_evidence option"
  cdr_shadow_record :: "shadow_decision_record option"
  cdr_failure_category :: "observation_failure_category option"
  cdr_sanitized_detail :: "string option"

definition fields_continuous_decision_record :: "continuous_decision_record \<Rightarrow> bool" where
  "fields_continuous_decision_record r \<longleftrightarrow>
     cdr_schema_version r = ''1.0.0'' \<and>
     is_identifier (cdr_record_id r) \<and>
     is_identifier (cdr_decision_key r) \<and>
     is_cycle_id (cdr_cycle_id r) \<and>
     pred_option (\<lambda>x. is_snapshot_id x) (cdr_actual_snapshot_id r) \<and>
     is_symbol (cdr_symbol r) \<and>
     cdr_timeframe r = timeframe.M15 \<and>
     is_content_digest (cdr_decision_candle_digest r) \<and>
     pred_option (\<lambda>x. is_content_digest x) (cdr_snapshot_digest r) \<and>
     pred_option (\<lambda>x. is_content_digest x) (cdr_feature_set_digest r) \<and>
     pred_option (\<lambda>x. is_content_digest x) (cdr_agent_feature_view_digest r) \<and>
     pred_option (\<lambda>x. length x \<le> 512) (cdr_sanitized_detail r)"

definition dump_continuous_decision_record :: "continuous_decision_record \<Rightarrow> pyval" where
  "dump_continuous_decision_record r = PDict [
     (''schema_version'', PStr (cdr_schema_version r)),
     (''record_id'', PStr (cdr_record_id r)),
     (''decision_key'', PStr (cdr_decision_key r)),
     (''cycle_id'', PStr (cdr_cycle_id r)),
     (''actual_snapshot_id'', dump_option (\<lambda>x. PStr x) (cdr_actual_snapshot_id r)),
     (''symbol'', PStr (cdr_symbol r)),
     (''timeframe'', PStr (value_timeframe (cdr_timeframe r))),
     (''decision_candle_digest'', PStr (cdr_decision_candle_digest r)),
     (''disposition'', PStr (value_m9_decision_disposition (cdr_disposition r))),
     (''recorded_at'', PTime (cdr_recorded_at r)),
     (''snapshot_digest'', dump_option (\<lambda>x. PStr x) (cdr_snapshot_digest r)),
     (''feature_set_digest'', dump_option (\<lambda>x. PStr x) (cdr_feature_set_digest r)),
     (''agent_feature_view_digest'', dump_option (\<lambda>x. PStr x) (cdr_agent_feature_view_digest r)),
     (''agent_market_view'', dump_option (\<lambda>x. dump_agent_market_view x) (cdr_agent_market_view r)),
     (''risk_context_evidence'', dump_option (\<lambda>x. dump_risk_context_evidence x) (cdr_risk_context_evidence r)),
     (''shadow_record'', dump_option (\<lambda>x. dump_shadow_decision_record x) (cdr_shadow_record r)),
     (''failure_category'', dump_option (\<lambda>x. PStr (value_observation_failure_category x)) (cdr_failure_category r)),
     (''sanitized_detail'', dump_option (\<lambda>x. PStr x) (cdr_sanitized_detail r))]"

record pending_shadow_outcome =
  psho_schema_version :: string
  psho_tracking_id :: string
  psho_decision_record_id :: string
  psho_decision_record_digest :: string
  psho_shadow_intent :: shadow_trade_intent
  psho_decision_candle_close_at :: instant
  psho_horizon :: outcome_horizon
  psho_segment_facts :: segment_facts
  psho_state :: outcome_tracking_state
  psho_created_at :: instant
  psho_updated_at :: instant
  psho_outcome :: "trade_outcome option"
  psho_failure_category :: "observation_failure_category option"

definition fields_pending_shadow_outcome :: "pending_shadow_outcome \<Rightarrow> bool" where
  "fields_pending_shadow_outcome r \<longleftrightarrow>
     psho_schema_version r = ''1.0.0'' \<and>
     is_identifier (psho_tracking_id r) \<and>
     is_identifier (psho_decision_record_id r) \<and>
     is_content_digest (psho_decision_record_digest r)"

definition dump_pending_shadow_outcome :: "pending_shadow_outcome \<Rightarrow> pyval" where
  "dump_pending_shadow_outcome r = PDict [
     (''schema_version'', PStr (psho_schema_version r)),
     (''tracking_id'', PStr (psho_tracking_id r)),
     (''decision_record_id'', PStr (psho_decision_record_id r)),
     (''decision_record_digest'', PStr (psho_decision_record_digest r)),
     (''shadow_intent'', dump_shadow_trade_intent (psho_shadow_intent r)),
     (''decision_candle_close_at'', PTime (psho_decision_candle_close_at r)),
     (''horizon'', dump_outcome_horizon (psho_horizon r)),
     (''segment_facts'', dump_segment_facts (psho_segment_facts r)),
     (''state'', PStr (value_outcome_tracking_state (psho_state r))),
     (''created_at'', PTime (psho_created_at r)),
     (''updated_at'', PTime (psho_updated_at r)),
     (''outcome'', dump_option (\<lambda>x. dump_trade_outcome x) (psho_outcome r)),
     (''failure_category'', dump_option (\<lambda>x. PStr (value_observation_failure_category x)) (psho_failure_category r))]"

record continuous_runtime_health =
  crh_schema_version :: string
  crh_state :: continuous_runtime_state
  crh_symbol :: string
  crh_timeframe :: timeframe
  crh_started_at :: "instant option"
  crh_last_poll_at :: "instant option"
  crh_last_observed_candle_close_at :: "instant option"
  crh_last_completed_cycle_id :: "string option"
  crh_in_flight_count :: int
  crh_pending_count :: int
  crh_missed_count :: int
  crh_pending_outcome_count :: int
  crh_symbol_eligible :: bool
  crh_providers_eligible :: bool
  crh_budget_available :: "bool option"
  crh_last_failure_category :: "observation_failure_category option"
  crh_updated_at :: instant

definition fields_continuous_runtime_health :: "continuous_runtime_health \<Rightarrow> bool" where
  "fields_continuous_runtime_health r \<longleftrightarrow>
     crh_schema_version r = ''1.0.0'' \<and>
     is_symbol (crh_symbol r) \<and>
     crh_timeframe r = timeframe.M15 \<and>
     pred_option (\<lambda>x. is_cycle_id x) (crh_last_completed_cycle_id r) \<and>
     is_non_negative_int (crh_in_flight_count r) \<and>
     is_non_negative_int (crh_pending_count r) \<and>
     is_non_negative_int (crh_missed_count r) \<and>
     is_non_negative_int (crh_pending_outcome_count r)"

section \<open>Validators\<close>

definition validate_completed_decision_candle :: "completed_decision_candle \<Rightarrow> bool" where
  "validate_completed_decision_candle c \<longleftrightarrow>
     cdc_candle_close_at c = cdc_candle_open_at c + timeframe_duration (cdc_timeframe c) \<and>
     \<not> cdc_candle_close_at c > cdc_observed_at c"

definition ok_completed_decision_candle :: "completed_decision_candle \<Rightarrow> bool" where
  "ok_completed_decision_candle c \<longleftrightarrow>
     fields_completed_decision_candle c \<and> validate_completed_decision_candle c"

definition failed_claim_states :: "decision_claim_state set" where
  "failed_claim_states =
     {decision_claim_state.FAILED, decision_claim_state.MISSED, decision_claim_state.ABANDONED}"

definition validate_decision_candle_claim :: "decision_candle_claim \<Rightarrow> bool" where
  "validate_decision_candle_claim c \<longleftrightarrow>
     \<not> dcc_updated_at c < dcc_discovered_at c \<and>
     dcc_candle_close_at c = dcc_candle_open_at c + timeframe_duration (dcc_timeframe c) \<and>
     (dcc_state c \<in> failed_claim_states) = (dcc_failure_category c \<noteq> None) \<and>
     \<not> (dcc_failure_category c = None \<and> dcc_sanitized_detail c \<noteq> None) \<and>
     \<not> (dcc_state c \<in> {decision_claim_state.PROCESSING, decision_claim_state.COMPLETED} \<and>
        dcc_actual_snapshot_id c = None) \<and>
     \<not> (dcc_state c = decision_claim_state.DISCOVERED \<and> dcc_actual_snapshot_id c \<noteq> None)"

definition ok_decision_candle_claim :: "decision_candle_claim \<Rightarrow> bool" where
  "ok_decision_candle_claim c \<longleftrightarrow> fields_decision_candle_claim c \<and> validate_decision_candle_claim c"

definition validate_risk_baseline_record :: "risk_baseline_record \<Rightarrow> bool" where
  "validate_risk_baseline_record b \<longleftrightarrow>
     day_number (rbr_trading_day_started_at b) = rbr_utc_trading_day b \<and>
     \<not> rbr_effective_from b < rbr_trading_day_started_at b \<and>
     (case rbr_effective_until b of None \<Rightarrow> True | Some u \<Rightarrow> \<not> u \<le> rbr_effective_from b) \<and>
     (case rbr_state b of
        risk_baseline_state.ACTIVE \<Rightarrow> rbr_superseded_by b = None \<and> rbr_invalidation_reason b = None
      | risk_baseline_state.SUPERSEDED \<Rightarrow> rbr_superseded_by b \<noteq> None \<and> rbr_invalidation_reason b = None
      | _ \<Rightarrow> rbr_invalidation_reason b \<noteq> None \<and> rbr_superseded_by b = None)"

definition ok_risk_baseline_record :: "risk_baseline_record \<Rightarrow> bool" where
  "ok_risk_baseline_record b \<longleftrightarrow> fields_risk_baseline_record b \<and> validate_risk_baseline_record b"

definition baseline_applies_at :: "risk_baseline_record \<Rightarrow> instant \<Rightarrow> bool" where
  "baseline_applies_at b t \<longleftrightarrow> rbr_effective_from b \<le> t \<and>
     (case rbr_effective_until b of None \<Rightarrow> True | Some u \<Rightarrow> t < u)"

definition validate_continuous_provider_acceptance_record :: "continuous_provider_acceptance_record \<Rightarrow> bool" where
  "validate_continuous_provider_acceptance_record r \<longleftrightarrow>
     (let ev = [cpar_m5_live_smoke r, cpar_m6_full_shadow r, cpar_m9_feature_input r]
      in cpar_provider r \<noteq> model_provider.FAKE \<and> \<not> cpar_expires_at r \<le> cpar_accepted_at r \<and>
         list_all (\<lambda>e. \<not> aer_accepted_at e > cpar_accepted_at r) ev \<and>
         distinct (map aer_acceptance_id ev))"

definition validate_symbol_timestamp_acceptance_record :: "symbol_timestamp_acceptance_record \<Rightarrow> bool" where
  "validate_symbol_timestamp_acceptance_record r \<longleftrightarrow>
     star_timeframes r = [timeframe.M15, timeframe.H1, timeframe.H4] \<and>
     \<not> star_expires_at r \<le> star_tested_at r"

text \<open>The snapshot-owned artifacts: each is absent when no snapshot was accepted.\<close>

definition snapshot_artifacts_ok :: "continuous_decision_record \<Rightarrow> bool" where
  "snapshot_artifacts_ok r \<longleftrightarrow>
     (cdr_actual_snapshot_id r = None \<longrightarrow>
        cdr_snapshot_digest r = None \<and> cdr_feature_set_digest r = None \<and>
        cdr_agent_feature_view_digest r = None \<and> cdr_agent_market_view r = None \<and>
        cdr_risk_context_evidence r = None \<and> cdr_shadow_record r = None)"

definition decision_bindings_ok :: "continuous_decision_record \<Rightarrow> bool" where
  "decision_bindings_ok r \<longleftrightarrow>
     (case cdr_agent_market_view r of None \<Rightarrow> True
      | Some v \<Rightarrow> amv_schema_version v = ''2.0.0'' \<and>
          cdr_agent_feature_view_digest r = amv_agent_feature_view_digest v \<and>
          amv_cycle_id v = cdr_cycle_id r \<and> Some (amv_snapshot_id v) = cdr_actual_snapshot_id r \<and>
          amv_symbol v = cdr_symbol r) \<and>
     (case cdr_risk_context_evidence r of None \<Rightarrow> True
      | Some e \<Rightarrow> arc_cycle_id (rce_context e) = cdr_cycle_id r \<and>
          Some (arc_snapshot_id (rce_context e)) = cdr_actual_snapshot_id r) \<and>
     (case cdr_shadow_record r of None \<Rightarrow> True
      | Some s \<Rightarrow> dcyc_cycle_id (sdr_decision_cycle s) = cdr_cycle_id r \<and>
          Some (dcyc_initial_snapshot_id (sdr_decision_cycle s)) = cdr_actual_snapshot_id r \<and>
          dcyc_symbol (sdr_decision_cycle s) = cdr_symbol r)"

definition validate_continuous_decision_record :: "continuous_decision_record \<Rightarrow> bool" where
  "validate_continuous_decision_record r \<longleftrightarrow>
     snapshot_artifacts_ok r \<and> decision_bindings_ok r \<and>
     (if cdr_disposition r = m9_decision_disposition.SHADOW_RECORDED
      then cdr_shadow_record r \<noteq> None \<and> cdr_failure_category r = None \<and>
        cdr_actual_snapshot_id r \<noteq> None \<and> cdr_snapshot_digest r \<noteq> None \<and>
        cdr_feature_set_digest r \<noteq> None \<and> cdr_agent_market_view r \<noteq> None \<and>
        cdr_risk_context_evidence r \<noteq> None
      else cdr_failure_category r \<noteq> None \<and> cdr_shadow_record r = None)"

definition ok_continuous_decision_record :: "continuous_decision_record \<Rightarrow> bool" where
  "ok_continuous_decision_record r \<longleftrightarrow>
     fields_continuous_decision_record r \<and> validate_continuous_decision_record r"

definition validate_pending_shadow_outcome :: "pending_shadow_outcome \<Rightarrow> bool" where
  "validate_pending_shadow_outcome r \<longleftrightarrow>
     \<not> psho_updated_at r < psho_created_at r \<and>
     \<not> (psho_state r = outcome_tracking_state.PENDING \<and>
        (psho_outcome r \<noteq> None \<or> psho_failure_category r \<noteq> None)) \<and>
     (if psho_state r = outcome_tracking_state.FAILED
      then psho_failure_category r \<noteq> None \<and> psho_outcome r = None
      else psho_state r \<noteq> outcome_tracking_state.PENDING \<longrightarrow> psho_outcome r \<noteq> None)"

definition ok_pending_shadow_outcome :: "pending_shadow_outcome \<Rightarrow> bool" where
  "ok_pending_shadow_outcome r \<longleftrightarrow> fields_pending_shadow_outcome r \<and> validate_pending_shadow_outcome r"

end
