(* ===== verification/QualificationSchemas.thy ===== *)
theory QualificationSchemas
  imports ObservationSchemas
begin

text \<open>
  \<open>schemas/qualification.py\<close>: the dependency manifest of a qualified generation, the predeclared
  evidence partition, the evidence dataset with its OPEN, SEALED, EVALUATED lifecycle, graduation
  gates and summaries, and the current status that combines a historical graduation with currently
  valid evidence.
\<close>

record qualification_artifact_reference =
  qar_artifact_type :: string
  qar_artifact_id :: string
  qar_schema_version :: string
  qar_content_digest :: string

definition fields_qualification_artifact_reference :: "qualification_artifact_reference \<Rightarrow> bool" where
  "fields_qualification_artifact_reference r \<longleftrightarrow>
     is_identifier (qar_artifact_type r) \<and>
     is_identifier (qar_artifact_id r) \<and>
     is_schema_version (qar_schema_version r) \<and>
     is_content_digest (qar_content_digest r)"

definition dump_qualification_artifact_reference :: "qualification_artifact_reference \<Rightarrow> pyval" where
  "dump_qualification_artifact_reference r = PDict [
     (''artifact_type'', PStr (qar_artifact_type r)),
     (''artifact_id'', PStr (qar_artifact_id r)),
     (''schema_version'', PStr (qar_schema_version r)),
     (''content_digest'', PStr (qar_content_digest r))]"

record qualified_role_assignment =
  qra_role :: string
  qra_provider :: model_provider
  qra_model_identifier :: string
  qra_agent_version :: string
  qra_prompt_id :: string
  qra_prompt_version :: string
  qra_prompt_digest :: string
  qra_adapter_version :: string
  qra_provider_sdk_version :: string
  qra_capability_profile_digest :: string
  qra_runtime_profile_ref :: string
  qra_runtime_profile_digest :: string
  qra_input_schema_digest :: string
  qra_output_schema_digest :: string
  qra_m5_live_smoke :: "acceptance_evidence_reference option"
  qra_m6_full_shadow :: "acceptance_evidence_reference option"
  qra_m9_feature_input :: "acceptance_evidence_reference option"
  qra_m9_continuous_acceptance :: "qualification_artifact_reference option"
  qra_acceptance_valid_until :: "instant option"

definition fields_qualified_role_assignment :: "qualified_role_assignment \<Rightarrow> bool" where
  "fields_qualified_role_assignment r \<longleftrightarrow>
     is_identifier (qra_role r) \<and>
     is_identifier (qra_model_identifier r) \<and>
     is_schema_version (qra_agent_version r) \<and>
     is_identifier (qra_prompt_id r) \<and>
     is_schema_version (qra_prompt_version r) \<and>
     is_content_digest (qra_prompt_digest r) \<and>
     is_schema_version (qra_adapter_version r) \<and>
     1 \<le> length (qra_provider_sdk_version r) \<and>
     length (qra_provider_sdk_version r) \<le> 128 \<and>
     is_content_digest (qra_capability_profile_digest r) \<and>
     is_identifier (qra_runtime_profile_ref r) \<and>
     is_content_digest (qra_runtime_profile_digest r) \<and>
     is_content_digest (qra_input_schema_digest r) \<and>
     is_content_digest (qra_output_schema_digest r)"

definition dump_qualified_role_assignment :: "qualified_role_assignment \<Rightarrow> pyval" where
  "dump_qualified_role_assignment r = PDict [
     (''role'', PStr (qra_role r)),
     (''provider'', PStr (value_model_provider (qra_provider r))),
     (''model_identifier'', PStr (qra_model_identifier r)),
     (''agent_version'', PStr (qra_agent_version r)),
     (''prompt_id'', PStr (qra_prompt_id r)),
     (''prompt_version'', PStr (qra_prompt_version r)),
     (''prompt_digest'', PStr (qra_prompt_digest r)),
     (''adapter_version'', PStr (qra_adapter_version r)),
     (''provider_sdk_version'', PStr (qra_provider_sdk_version r)),
     (''capability_profile_digest'', PStr (qra_capability_profile_digest r)),
     (''runtime_profile_ref'', PStr (qra_runtime_profile_ref r)),
     (''runtime_profile_digest'', PStr (qra_runtime_profile_digest r)),
     (''input_schema_digest'', PStr (qra_input_schema_digest r)),
     (''output_schema_digest'', PStr (qra_output_schema_digest r)),
     (''m5_live_smoke'', dump_option (\<lambda>x. dump_acceptance_evidence_reference x) (qra_m5_live_smoke r)),
     (''m6_full_shadow'', dump_option (\<lambda>x. dump_acceptance_evidence_reference x) (qra_m6_full_shadow r)),
     (''m9_feature_input'', dump_option (\<lambda>x. dump_acceptance_evidence_reference x) (qra_m9_feature_input r)),
     (''m9_continuous_acceptance'', dump_option (\<lambda>x. dump_qualification_artifact_reference x) (qra_m9_continuous_acceptance r)),
     (''acceptance_valid_until'', dump_option (\<lambda>x. PTime x) (qra_acceptance_valid_until r))]"

record qualification_dependency_manifest =
  qdm_schema_version :: string
  qdm_generation_id :: string
  qdm_assignments :: "qualified_role_assignment list"
  qdm_agent_market_view_version :: string
  qdm_agent_market_view_schema_digest :: string
  qdm_feature_allowlist_version :: string
  qdm_feature_allowlist_digest :: string
  qdm_feature_engine_version :: string
  qdm_feature_engine_digest :: string
  qdm_risk_engine_version :: string
  qdm_risk_policy_digest :: string
  qdm_orchestration_policy_version :: string
  qdm_orchestration_policy_digest :: string
  qdm_outcome_policy_version :: string
  qdm_outcome_policy_digest :: string
  qdm_budget_policy_ref :: string
  qdm_budget_policy_version :: string
  qdm_budget_policy_digest :: string
  qdm_pricing_profile_refs :: "qualification_artifact_reference list"
  qdm_symbol_timestamp_acceptance :: symbol_timestamp_acceptance_record
  qdm_created_at :: instant

definition fields_qualification_dependency_manifest :: "qualification_dependency_manifest \<Rightarrow> bool" where
  "fields_qualification_dependency_manifest r \<longleftrightarrow>
     qdm_schema_version r = ''1.0.0'' \<and>
     is_identifier (qdm_generation_id r) \<and>
     1 \<le> length (qdm_assignments r) \<and>
     is_schema_version (qdm_agent_market_view_version r) \<and>
     is_content_digest (qdm_agent_market_view_schema_digest r) \<and>
     is_schema_version (qdm_feature_allowlist_version r) \<and>
     is_content_digest (qdm_feature_allowlist_digest r) \<and>
     is_schema_version (qdm_feature_engine_version r) \<and>
     is_content_digest (qdm_feature_engine_digest r) \<and>
     is_schema_version (qdm_risk_engine_version r) \<and>
     is_content_digest (qdm_risk_policy_digest r) \<and>
     is_schema_version (qdm_orchestration_policy_version r) \<and>
     is_content_digest (qdm_orchestration_policy_digest r) \<and>
     is_schema_version (qdm_outcome_policy_version r) \<and>
     is_content_digest (qdm_outcome_policy_digest r) \<and>
     is_identifier (qdm_budget_policy_ref r) \<and>
     is_schema_version (qdm_budget_policy_version r) \<and>
     is_content_digest (qdm_budget_policy_digest r)"

definition dump_qualification_dependency_manifest :: "qualification_dependency_manifest \<Rightarrow> pyval" where
  "dump_qualification_dependency_manifest r = PDict [
     (''schema_version'', PStr (qdm_schema_version r)),
     (''generation_id'', PStr (qdm_generation_id r)),
     (''assignments'', PList (map (\<lambda>x. dump_qualified_role_assignment x) (qdm_assignments r))),
     (''agent_market_view_version'', PStr (qdm_agent_market_view_version r)),
     (''agent_market_view_schema_digest'', PStr (qdm_agent_market_view_schema_digest r)),
     (''feature_allowlist_version'', PStr (qdm_feature_allowlist_version r)),
     (''feature_allowlist_digest'', PStr (qdm_feature_allowlist_digest r)),
     (''feature_engine_version'', PStr (qdm_feature_engine_version r)),
     (''feature_engine_digest'', PStr (qdm_feature_engine_digest r)),
     (''risk_engine_version'', PStr (qdm_risk_engine_version r)),
     (''risk_policy_digest'', PStr (qdm_risk_policy_digest r)),
     (''orchestration_policy_version'', PStr (qdm_orchestration_policy_version r)),
     (''orchestration_policy_digest'', PStr (qdm_orchestration_policy_digest r)),
     (''outcome_policy_version'', PStr (qdm_outcome_policy_version r)),
     (''outcome_policy_digest'', PStr (qdm_outcome_policy_digest r)),
     (''budget_policy_ref'', PStr (qdm_budget_policy_ref r)),
     (''budget_policy_version'', PStr (qdm_budget_policy_version r)),
     (''budget_policy_digest'', PStr (qdm_budget_policy_digest r)),
     (''pricing_profile_refs'', PList (map (\<lambda>x. dump_qualification_artifact_reference x) (qdm_pricing_profile_refs r))),
     (''symbol_timestamp_acceptance'', dump_symbol_timestamp_acceptance_record (qdm_symbol_timestamp_acceptance r)),
     (''created_at'', PTime (qdm_created_at r))]"

record qualification_partition_declaration =
  qpd_schema_version :: string
  qpd_declaration_id :: string
  qpd_partition :: dataset_partition
  qpd_collection_mode :: qualification_collection_mode
  qpd_declared_at :: instant
  qpd_evidence_source_ref :: string
  qpd_evidence_source_digest :: string

definition fields_qualification_partition_declaration :: "qualification_partition_declaration \<Rightarrow> bool" where
  "fields_qualification_partition_declaration r \<longleftrightarrow>
     qpd_schema_version r = ''1.0.0'' \<and>
     is_identifier (qpd_declaration_id r) \<and>
     is_identifier (qpd_evidence_source_ref r) \<and>
     is_content_digest (qpd_evidence_source_digest r)"

definition dump_qualification_partition_declaration :: "qualification_partition_declaration \<Rightarrow> pyval" where
  "dump_qualification_partition_declaration r = PDict [
     (''schema_version'', PStr (qpd_schema_version r)),
     (''declaration_id'', PStr (qpd_declaration_id r)),
     (''partition'', dump_dataset_partition (qpd_partition r)),
     (''collection_mode'', PStr (value_qualification_collection_mode (qpd_collection_mode r))),
     (''declared_at'', PTime (qpd_declared_at r)),
     (''evidence_source_ref'', PStr (qpd_evidence_source_ref r)),
     (''evidence_source_digest'', PStr (qpd_evidence_source_digest r))]"

record qualification_incident =
  qi_schema_version :: string
  qi_incident_id :: string
  qi_category :: qualification_incident_category
  qi_occurred_at :: instant
  qi_evidence :: qualification_artifact_reference
  qi_decision_key :: "string option"
  qi_cycle_id :: "string option"
  qi_invocation_id :: "string option"

definition fields_qualification_incident :: "qualification_incident \<Rightarrow> bool" where
  "fields_qualification_incident r \<longleftrightarrow>
     qi_schema_version r = ''1.0.0'' \<and>
     is_identifier (qi_incident_id r) \<and>
     pred_option (\<lambda>x. is_identifier x) (qi_decision_key r) \<and>
     pred_option (\<lambda>x. is_identifier x) (qi_cycle_id r) \<and>
     pred_option (\<lambda>x. is_identifier x) (qi_invocation_id r)"

definition dump_qualification_incident :: "qualification_incident \<Rightarrow> pyval" where
  "dump_qualification_incident r = PDict [
     (''schema_version'', PStr (qi_schema_version r)),
     (''incident_id'', PStr (qi_incident_id r)),
     (''category'', PStr (value_qualification_incident_category (qi_category r))),
     (''occurred_at'', PTime (qi_occurred_at r)),
     (''evidence'', dump_qualification_artifact_reference (qi_evidence r)),
     (''decision_key'', dump_option (\<lambda>x. PStr x) (qi_decision_key r)),
     (''cycle_id'', dump_option (\<lambda>x. PStr x) (qi_cycle_id r)),
     (''invocation_id'', dump_option (\<lambda>x. PStr x) (qi_invocation_id r))]"

record qualification_evidence_dataset =
  qed_schema_version :: string
  qed_dataset_id :: string
  qed_qualification_run_id :: string
  qed_generation_id :: string
  qed_generation_digest :: string
  qed_partition :: qualification_partition_declaration
  qed_lifecycle :: qualification_evidence_lifecycle
  qed_revision :: int
  qed_previous_revision_digest :: "string option"
  qed_opened_at :: instant
  qed_sealed_at :: "instant option"
  qed_evaluated_at :: "instant option"
  qed_sealed_content_digest :: "string option"
  qed_evaluation_reference :: "qualification_artifact_reference option"
  qed_claims :: "decision_candle_claim list"
  qed_decisions :: "continuous_decision_record list"
  qed_outcomes :: "trade_outcome list"
  qed_pricing_profiles :: "pricing_profile list"
  qed_incidents :: "qualification_incident list"
  qed_safety_evidence :: "qualification_artifact_reference list"

definition fields_qualification_evidence_dataset :: "qualification_evidence_dataset \<Rightarrow> bool" where
  "fields_qualification_evidence_dataset r \<longleftrightarrow>
     qed_schema_version r = ''1.0.0'' \<and>
     is_identifier (qed_dataset_id r) \<and>
     is_identifier (qed_qualification_run_id r) \<and>
     is_identifier (qed_generation_id r) \<and>
     is_content_digest (qed_generation_digest r) \<and>
     is_positive_int (qed_revision r) \<and>
     pred_option (\<lambda>x. is_content_digest x) (qed_previous_revision_digest r) \<and>
     pred_option (\<lambda>x. is_content_digest x) (qed_sealed_content_digest r) \<and>
     1 \<le> length (qed_safety_evidence r)"

definition dump_qualification_evidence_dataset :: "qualification_evidence_dataset \<Rightarrow> pyval" where
  "dump_qualification_evidence_dataset r = PDict [
     (''schema_version'', PStr (qed_schema_version r)),
     (''dataset_id'', PStr (qed_dataset_id r)),
     (''qualification_run_id'', PStr (qed_qualification_run_id r)),
     (''generation_id'', PStr (qed_generation_id r)),
     (''generation_digest'', PStr (qed_generation_digest r)),
     (''partition'', dump_qualification_partition_declaration (qed_partition r)),
     (''lifecycle'', PStr (value_qualification_evidence_lifecycle (qed_lifecycle r))),
     (''revision'', PInt (qed_revision r)),
     (''previous_revision_digest'', dump_option (\<lambda>x. PStr x) (qed_previous_revision_digest r)),
     (''opened_at'', PTime (qed_opened_at r)),
     (''sealed_at'', dump_option (\<lambda>x. PTime x) (qed_sealed_at r)),
     (''evaluated_at'', dump_option (\<lambda>x. PTime x) (qed_evaluated_at r)),
     (''sealed_content_digest'', dump_option (\<lambda>x. PStr x) (qed_sealed_content_digest r)),
     (''evaluation_reference'', dump_option (\<lambda>x. dump_qualification_artifact_reference x) (qed_evaluation_reference r)),
     (''claims'', PList (map (\<lambda>x. dump_decision_candle_claim x) (qed_claims r))),
     (''decisions'', PList (map (\<lambda>x. dump_continuous_decision_record x) (qed_decisions r))),
     (''outcomes'', PList (map (\<lambda>x. dump_trade_outcome x) (qed_outcomes r))),
     (''pricing_profiles'', PList (map (\<lambda>x. dump_pricing_profile x) (qed_pricing_profiles r))),
     (''incidents'', PList (map (\<lambda>x. dump_qualification_incident x) (qed_incidents r))),
     (''safety_evidence'', PList (map (\<lambda>x. dump_qualification_artifact_reference x) (qed_safety_evidence r)))]"

record qualification_run =
  qr_schema_version :: string
  qr_qualification_run_id :: string
  qr_dependency_manifest :: qualification_dependency_manifest
  qr_dependency_manifest_digest :: string
  qr_partition :: qualification_partition_declaration
  qr_symbol :: string
  qr_timeframe :: timeframe
  qr_started_at :: instant
  qr_completed_at :: instant
  qr_evidence_dataset_id :: string
  qr_evidence_dataset_digest :: string
  qr_created_at :: instant

definition fields_qualification_run :: "qualification_run \<Rightarrow> bool" where
  "fields_qualification_run r \<longleftrightarrow>
     qr_schema_version r = ''1.0.0'' \<and>
     is_identifier (qr_qualification_run_id r) \<and>
     is_content_digest (qr_dependency_manifest_digest r) \<and>
     is_symbol (qr_symbol r) \<and>
     qr_timeframe r = timeframe.M15 \<and>
     is_identifier (qr_evidence_dataset_id r) \<and>
     is_content_digest (qr_evidence_dataset_digest r)"

definition dump_qualification_run :: "qualification_run \<Rightarrow> pyval" where
  "dump_qualification_run r = PDict [
     (''schema_version'', PStr (qr_schema_version r)),
     (''qualification_run_id'', PStr (qr_qualification_run_id r)),
     (''dependency_manifest'', dump_qualification_dependency_manifest (qr_dependency_manifest r)),
     (''dependency_manifest_digest'', PStr (qr_dependency_manifest_digest r)),
     (''partition'', dump_qualification_partition_declaration (qr_partition r)),
     (''symbol'', PStr (qr_symbol r)),
     (''timeframe'', PStr (value_timeframe (qr_timeframe r))),
     (''started_at'', PTime (qr_started_at r)),
     (''completed_at'', PTime (qr_completed_at r)),
     (''evidence_dataset_id'', PStr (qr_evidence_dataset_id r)),
     (''evidence_dataset_digest'', PStr (qr_evidence_dataset_digest r)),
     (''created_at'', PTime (qr_created_at r))]"

record qualification_validity_assessment =
  qva_schema_version :: string
  qva_assessment_id :: string
  qva_qualification_run_id :: string
  qva_evidence_dataset_id :: string
  qva_evidence_dataset_digest :: string
  qva_dependency_manifest_digest :: string
  qva_state :: qualification_evidence_validity
  qva_assessed_at :: instant
  qva_valid_until :: "instant option"
  qva_reasons :: "string list"
  qva_evidence :: "qualification_artifact_reference list"

definition fields_qualification_validity_assessment :: "qualification_validity_assessment \<Rightarrow> bool" where
  "fields_qualification_validity_assessment r \<longleftrightarrow>
     qva_schema_version r = ''1.0.0'' \<and>
     is_identifier (qva_assessment_id r) \<and>
     is_identifier (qva_qualification_run_id r) \<and>
     is_identifier (qva_evidence_dataset_id r) \<and>
     is_content_digest (qva_evidence_dataset_digest r) \<and>
     is_content_digest (qva_dependency_manifest_digest r) \<and>
     1 \<le> length (qva_evidence r)"

definition dump_qualification_validity_assessment :: "qualification_validity_assessment \<Rightarrow> pyval" where
  "dump_qualification_validity_assessment r = PDict [
     (''schema_version'', PStr (qva_schema_version r)),
     (''assessment_id'', PStr (qva_assessment_id r)),
     (''qualification_run_id'', PStr (qva_qualification_run_id r)),
     (''evidence_dataset_id'', PStr (qva_evidence_dataset_id r)),
     (''evidence_dataset_digest'', PStr (qva_evidence_dataset_digest r)),
     (''dependency_manifest_digest'', PStr (qva_dependency_manifest_digest r)),
     (''state'', PStr (value_qualification_evidence_validity (qva_state r))),
     (''assessed_at'', PTime (qva_assessed_at r)),
     (''valid_until'', dump_option (\<lambda>x. PTime x) (qva_valid_until r)),
     (''reasons'', PList (map (\<lambda>x. PStr x) (qva_reasons r))),
     (''evidence'', PList (map (\<lambda>x. dump_qualification_artifact_reference x) (qva_evidence r)))]"

record shadow_graduation_policy =
  sgp_schema_version :: string
  sgp_policy_ref :: string
  sgp_policy_version :: string
  sgp_minimum_completed_decision_cycles :: int
  sgp_minimum_ai_invoked_cycles :: int
  sgp_minimum_trade_candidates :: int
  sgp_minimum_risk_approved_intents :: int
  sgp_minimum_resolved_outcomes :: int
  sgp_maximum_runtime_failure_rate :: decimal
  sgp_maximum_provider_failure_rate :: decimal
  sgp_maximum_abandoned_cycles :: int
  sgp_maximum_unexplained_abandoned_cycles :: int
  sgp_maximum_total_assessed_observed_cost :: decimal
  sgp_maximum_projected_30d_cost :: decimal
  sgp_currency :: string
  sgp_expected_decisions_per_30d :: int
  sgp_minimum_expectancy_r :: "decimal option"
  sgp_minimum_profit_factor :: "decimal option"
  sgp_maximum_sequence_max_drawdown_r :: "decimal option"
  sgp_maximum_ambiguous_rate :: decimal
  sgp_maximum_unresolved_rate :: decimal
  sgp_minimum_win_rate :: "decimal option"
  sgp_win_rate_justification :: "string option"

definition fields_shadow_graduation_policy :: "shadow_graduation_policy \<Rightarrow> bool" where
  "fields_shadow_graduation_policy r \<longleftrightarrow>
     sgp_schema_version r = ''1.0.0'' \<and>
     is_identifier (sgp_policy_ref r) \<and>
     is_schema_version (sgp_policy_version r) \<and>
     is_positive_int (sgp_minimum_completed_decision_cycles r) \<and>
     is_positive_int (sgp_minimum_ai_invoked_cycles r) \<and>
     is_positive_int (sgp_minimum_trade_candidates r) \<and>
     is_positive_int (sgp_minimum_risk_approved_intents r) \<and>
     is_positive_int (sgp_minimum_resolved_outcomes r) \<and>
     is_rate (sgp_maximum_runtime_failure_rate r) \<and>
     is_rate (sgp_maximum_provider_failure_rate r) \<and>
     is_non_negative_int (sgp_maximum_abandoned_cycles r) \<and>
     is_non_negative_int (sgp_maximum_unexplained_abandoned_cycles r) \<and>
     is_non_negative_decimal (sgp_maximum_total_assessed_observed_cost r) \<and>
     is_non_negative_decimal (sgp_maximum_projected_30d_cost r) \<and>
     3 \<le> length (sgp_currency r) \<and>
     length (sgp_currency r) \<le> 3 \<and>
     is_currency (sgp_currency r) \<and>
     is_positive_int (sgp_expected_decisions_per_30d r) \<and>
     pred_option (\<lambda>x. is_non_negative_decimal x) (sgp_minimum_profit_factor r) \<and>
     pred_option (\<lambda>x. is_non_negative_decimal x) (sgp_maximum_sequence_max_drawdown_r r) \<and>
     is_rate (sgp_maximum_ambiguous_rate r) \<and>
     is_rate (sgp_maximum_unresolved_rate r) \<and>
     pred_option (\<lambda>x. is_rate x) (sgp_minimum_win_rate r) \<and>
     pred_option (\<lambda>x. 1 \<le> length x \<and> length x \<le> 512) (sgp_win_rate_justification r)"

definition dump_shadow_graduation_policy :: "shadow_graduation_policy \<Rightarrow> pyval" where
  "dump_shadow_graduation_policy r = PDict [
     (''schema_version'', PStr (sgp_schema_version r)),
     (''policy_ref'', PStr (sgp_policy_ref r)),
     (''policy_version'', PStr (sgp_policy_version r)),
     (''minimum_completed_decision_cycles'', PInt (sgp_minimum_completed_decision_cycles r)),
     (''minimum_ai_invoked_cycles'', PInt (sgp_minimum_ai_invoked_cycles r)),
     (''minimum_trade_candidates'', PInt (sgp_minimum_trade_candidates r)),
     (''minimum_risk_approved_intents'', PInt (sgp_minimum_risk_approved_intents r)),
     (''minimum_resolved_outcomes'', PInt (sgp_minimum_resolved_outcomes r)),
     (''maximum_runtime_failure_rate'', PDec (sgp_maximum_runtime_failure_rate r)),
     (''maximum_provider_failure_rate'', PDec (sgp_maximum_provider_failure_rate r)),
     (''maximum_abandoned_cycles'', PInt (sgp_maximum_abandoned_cycles r)),
     (''maximum_unexplained_abandoned_cycles'', PInt (sgp_maximum_unexplained_abandoned_cycles r)),
     (''maximum_total_assessed_observed_cost'', PDec (sgp_maximum_total_assessed_observed_cost r)),
     (''maximum_projected_30d_cost'', PDec (sgp_maximum_projected_30d_cost r)),
     (''currency'', PStr (sgp_currency r)),
     (''expected_decisions_per_30d'', PInt (sgp_expected_decisions_per_30d r)),
     (''minimum_expectancy_r'', dump_option (\<lambda>x. PDec x) (sgp_minimum_expectancy_r r)),
     (''minimum_profit_factor'', dump_option (\<lambda>x. PDec x) (sgp_minimum_profit_factor r)),
     (''maximum_sequence_max_drawdown_r'', dump_option (\<lambda>x. PDec x) (sgp_maximum_sequence_max_drawdown_r r)),
     (''maximum_ambiguous_rate'', PDec (sgp_maximum_ambiguous_rate r)),
     (''maximum_unresolved_rate'', PDec (sgp_maximum_unresolved_rate r)),
     (''minimum_win_rate'', dump_option (\<lambda>x. PDec x) (sgp_minimum_win_rate r)),
     (''win_rate_justification'', dump_option (\<lambda>x. PStr x) (sgp_win_rate_justification r))]"

record qualification_metric =
  qm_status :: qualification_metric_status
  qm_value :: "decimal option"
  qm_unit :: string
  qm_evidence :: "qualification_artifact_reference list"

definition fields_qualification_metric :: "qualification_metric \<Rightarrow> bool" where
  "fields_qualification_metric r \<longleftrightarrow>
     is_identifier (qm_unit r) \<and>
     1 \<le> length (qm_evidence r)"

definition dump_qualification_metric :: "qualification_metric \<Rightarrow> pyval" where
  "dump_qualification_metric r = PDict [
     (''status'', PStr (value_qualification_metric_status (qm_status r))),
     (''value'', dump_option (\<lambda>x. PDec x) (qm_value r)),
     (''unit'', PStr (qm_unit r)),
     (''evidence'', PList (map (\<lambda>x. dump_qualification_artifact_reference x) (qm_evidence r)))]"

record qualification_gate_rule =
  qgr_comparator :: qualification_comparator
  qgr_threshold :: decimal
  qgr_unit :: string

definition fields_qualification_gate_rule :: "qualification_gate_rule \<Rightarrow> bool" where
  "fields_qualification_gate_rule r \<longleftrightarrow>
     is_identifier (qgr_unit r)"

definition dump_qualification_gate_rule :: "qualification_gate_rule \<Rightarrow> pyval" where
  "dump_qualification_gate_rule r = PDict [
     (''comparator'', PStr (value_qualification_comparator (qgr_comparator r))),
     (''threshold'', PDec (qgr_threshold r)),
     (''unit'', PStr (qgr_unit r))]"

record qualification_gate_result =
  qgres_gate_id :: string
  qgres_category :: qualification_gate_category
  qgres_metric_name :: string
  qgres_measurement :: qualification_metric
  qgres_required_rule :: qualification_gate_rule
  qgres_status :: qualification_gate_status
  qgres_reason_code :: "qualification_reason_code option"
  qgres_policy_ref :: string
  qgres_policy_version :: string
  qgres_policy_digest :: string

definition fields_qualification_gate_result :: "qualification_gate_result \<Rightarrow> bool" where
  "fields_qualification_gate_result r \<longleftrightarrow>
     is_identifier (qgres_gate_id r) \<and>
     is_identifier (qgres_metric_name r) \<and>
     is_identifier (qgres_policy_ref r) \<and>
     is_schema_version (qgres_policy_version r) \<and>
     is_content_digest (qgres_policy_digest r)"

definition dump_qualification_gate_result :: "qualification_gate_result \<Rightarrow> pyval" where
  "dump_qualification_gate_result r = PDict [
     (''gate_id'', PStr (qgres_gate_id r)),
     (''category'', PStr (value_qualification_gate_category (qgres_category r))),
     (''metric_name'', PStr (qgres_metric_name r)),
     (''measurement'', dump_qualification_metric (qgres_measurement r)),
     (''required_rule'', dump_qualification_gate_rule (qgres_required_rule r)),
     (''status'', PStr (value_qualification_gate_status (qgres_status r))),
     (''reason_code'', dump_option (\<lambda>x. PStr (value_qualification_reason_code x)) (qgres_reason_code r)),
     (''policy_ref'', PStr (qgres_policy_ref r)),
     (''policy_version'', PStr (qgres_policy_version r)),
     (''policy_digest'', PStr (qgres_policy_digest r))]"

record qualification_sample_summary =
  qss_claimed_decisions :: int
  qss_completed_decisions :: int
  qss_ai_invoked_cycles :: int
  qss_trade_candidates :: int
  qss_risk_approved_intents :: int
  qss_resolved_outcomes :: int

definition fields_qualification_sample_summary :: "qualification_sample_summary \<Rightarrow> bool" where
  "fields_qualification_sample_summary r \<longleftrightarrow>
     is_non_negative_int (qss_claimed_decisions r) \<and>
     is_non_negative_int (qss_completed_decisions r) \<and>
     is_non_negative_int (qss_ai_invoked_cycles r) \<and>
     is_non_negative_int (qss_trade_candidates r) \<and>
     is_non_negative_int (qss_risk_approved_intents r) \<and>
     is_non_negative_int (qss_resolved_outcomes r)"

definition dump_qualification_sample_summary :: "qualification_sample_summary \<Rightarrow> pyval" where
  "dump_qualification_sample_summary r = PDict [
     (''claimed_decisions'', PInt (qss_claimed_decisions r)),
     (''completed_decisions'', PInt (qss_completed_decisions r)),
     (''ai_invoked_cycles'', PInt (qss_ai_invoked_cycles r)),
     (''trade_candidates'', PInt (qss_trade_candidates r)),
     (''risk_approved_intents'', PInt (qss_risk_approved_intents r)),
     (''resolved_outcomes'', PInt (qss_resolved_outcomes r))]"

record qualification_operational_summary =
  qos_runtime_failure_count :: int
  qos_runtime_failure_rate :: qualification_metric
  qos_provider_runtime_failure_count :: int
  qos_provider_runtime_failure_rate :: qualification_metric
  qos_duplicate_decision_count :: int
  qos_abandoned_cycle_count :: int
  qos_unexplained_abandoned_cycle_count :: int
  qos_trace_mismatch_count :: int
  qos_schema_validation_failure_count :: int
  qos_source_revision_count :: int
  qos_timestamp_eligibility_current :: bool

definition fields_qualification_operational_summary :: "qualification_operational_summary \<Rightarrow> bool" where
  "fields_qualification_operational_summary r \<longleftrightarrow>
     is_non_negative_int (qos_runtime_failure_count r) \<and>
     is_non_negative_int (qos_provider_runtime_failure_count r) \<and>
     is_non_negative_int (qos_duplicate_decision_count r) \<and>
     is_non_negative_int (qos_abandoned_cycle_count r) \<and>
     is_non_negative_int (qos_unexplained_abandoned_cycle_count r) \<and>
     is_non_negative_int (qos_trace_mismatch_count r) \<and>
     is_non_negative_int (qos_schema_validation_failure_count r) \<and>
     is_non_negative_int (qos_source_revision_count r)"

definition dump_qualification_operational_summary :: "qualification_operational_summary \<Rightarrow> pyval" where
  "dump_qualification_operational_summary r = PDict [
     (''runtime_failure_count'', PInt (qos_runtime_failure_count r)),
     (''runtime_failure_rate'', dump_qualification_metric (qos_runtime_failure_rate r)),
     (''provider_runtime_failure_count'', PInt (qos_provider_runtime_failure_count r)),
     (''provider_runtime_failure_rate'', dump_qualification_metric (qos_provider_runtime_failure_rate r)),
     (''duplicate_decision_count'', PInt (qos_duplicate_decision_count r)),
     (''abandoned_cycle_count'', PInt (qos_abandoned_cycle_count r)),
     (''unexplained_abandoned_cycle_count'', PInt (qos_unexplained_abandoned_cycle_count r)),
     (''trace_mismatch_count'', PInt (qos_trace_mismatch_count r)),
     (''schema_validation_failure_count'', PInt (qos_schema_validation_failure_count r)),
     (''source_revision_count'', PInt (qos_source_revision_count r)),
     (''timestamp_eligibility_current'', PBool (qos_timestamp_eligibility_current r))]"

record qualification_safety_summary =
  qssum_risk_engine_bypass_count :: int
  qssum_unapproved_shadow_intent_count :: int
  qssum_confidence_risk_coupling_count :: int
  qssum_execution_or_order_mutation_count :: int
  qssum_demo_invocation_count :: int
  qssum_live_invocation_count :: int
  qssum_provider_fallback_count :: int
  qssum_strategy_mutation_count :: int
  qssum_prompt_self_mutation_count :: int

definition fields_qualification_safety_summary :: "qualification_safety_summary \<Rightarrow> bool" where
  "fields_qualification_safety_summary r \<longleftrightarrow>
     is_non_negative_int (qssum_risk_engine_bypass_count r) \<and>
     is_non_negative_int (qssum_unapproved_shadow_intent_count r) \<and>
     is_non_negative_int (qssum_confidence_risk_coupling_count r) \<and>
     is_non_negative_int (qssum_execution_or_order_mutation_count r) \<and>
     is_non_negative_int (qssum_demo_invocation_count r) \<and>
     is_non_negative_int (qssum_live_invocation_count r) \<and>
     is_non_negative_int (qssum_provider_fallback_count r) \<and>
     is_non_negative_int (qssum_strategy_mutation_count r) \<and>
     is_non_negative_int (qssum_prompt_self_mutation_count r)"

definition dump_qualification_safety_summary :: "qualification_safety_summary \<Rightarrow> pyval" where
  "dump_qualification_safety_summary r = PDict [
     (''risk_engine_bypass_count'', PInt (qssum_risk_engine_bypass_count r)),
     (''unapproved_shadow_intent_count'', PInt (qssum_unapproved_shadow_intent_count r)),
     (''confidence_risk_coupling_count'', PInt (qssum_confidence_risk_coupling_count r)),
     (''execution_or_order_mutation_count'', PInt (qssum_execution_or_order_mutation_count r)),
     (''demo_invocation_count'', PInt (qssum_demo_invocation_count r)),
     (''live_invocation_count'', PInt (qssum_live_invocation_count r)),
     (''provider_fallback_count'', PInt (qssum_provider_fallback_count r)),
     (''strategy_mutation_count'', PInt (qssum_strategy_mutation_count r)),
     (''prompt_self_mutation_count'', PInt (qssum_prompt_self_mutation_count r))]"

record observed_cost_summary =
  ocs_currency :: string
  ocs_settled_observed_cost :: decimal
  ocs_conservative_uncertain_reserved_cost :: decimal
  ocs_total_assessed_observed_cost :: decimal
  ocs_observed_decision_count :: int
  ocs_observed_ai_invoked_cycle_count :: int
  ocs_observed_evidence_duration_seconds :: decimal
  ocs_dispatched_attempt_count :: int
  ocs_cost_status :: qualification_metric_status

definition fields_observed_cost_summary :: "observed_cost_summary \<Rightarrow> bool" where
  "fields_observed_cost_summary r \<longleftrightarrow>
     3 \<le> length (ocs_currency r) \<and>
     length (ocs_currency r) \<le> 3 \<and>
     is_currency (ocs_currency r) \<and>
     is_non_negative_decimal (ocs_settled_observed_cost r) \<and>
     is_non_negative_decimal (ocs_conservative_uncertain_reserved_cost r) \<and>
     is_non_negative_decimal (ocs_total_assessed_observed_cost r) \<and>
     is_non_negative_int (ocs_observed_decision_count r) \<and>
     is_non_negative_int (ocs_observed_ai_invoked_cycle_count r) \<and>
     is_non_negative_decimal (ocs_observed_evidence_duration_seconds r) \<and>
     is_non_negative_int (ocs_dispatched_attempt_count r)"

definition dump_observed_cost_summary :: "observed_cost_summary \<Rightarrow> pyval" where
  "dump_observed_cost_summary r = PDict [
     (''currency'', PStr (ocs_currency r)),
     (''settled_observed_cost'', PDec (ocs_settled_observed_cost r)),
     (''conservative_uncertain_reserved_cost'', PDec (ocs_conservative_uncertain_reserved_cost r)),
     (''total_assessed_observed_cost'', PDec (ocs_total_assessed_observed_cost r)),
     (''observed_decision_count'', PInt (ocs_observed_decision_count r)),
     (''observed_ai_invoked_cycle_count'', PInt (ocs_observed_ai_invoked_cycle_count r)),
     (''observed_evidence_duration_seconds'', PDec (ocs_observed_evidence_duration_seconds r)),
     (''dispatched_attempt_count'', PInt (ocs_dispatched_attempt_count r)),
     (''cost_status'', PStr (value_qualification_metric_status (ocs_cost_status r)))]"

record projected_cost_summary =
  pcs_currency :: string
  pcs_projected_30d_cost :: "decimal option"
  pcs_projection_status :: qualification_metric_status
  pcs_projection_policy_ref :: string
  pcs_projection_policy_version :: string
  pcs_expected_decisions_per_30d :: int
  pcs_projection_basis :: string
  pcs_observed_cost_summary_digest :: string

definition fields_projected_cost_summary :: "projected_cost_summary \<Rightarrow> bool" where
  "fields_projected_cost_summary r \<longleftrightarrow>
     3 \<le> length (pcs_currency r) \<and>
     length (pcs_currency r) \<le> 3 \<and>
     is_currency (pcs_currency r) \<and>
     pred_option (\<lambda>x. is_non_negative_decimal x) (pcs_projected_30d_cost r) \<and>
     is_identifier (pcs_projection_policy_ref r) \<and>
     is_schema_version (pcs_projection_policy_version r) \<and>
     is_positive_int (pcs_expected_decisions_per_30d r) \<and>
     pcs_projection_basis r = ''OBSERVED_COST_PER_COMPLETED_DECISION'' \<and>
     is_content_digest (pcs_observed_cost_summary_digest r)"

definition dump_projected_cost_summary :: "projected_cost_summary \<Rightarrow> pyval" where
  "dump_projected_cost_summary r = PDict [
     (''currency'', PStr (pcs_currency r)),
     (''projected_30d_cost'', dump_option (\<lambda>x. PDec x) (pcs_projected_30d_cost r)),
     (''projection_status'', PStr (value_qualification_metric_status (pcs_projection_status r))),
     (''projection_policy_ref'', PStr (pcs_projection_policy_ref r)),
     (''projection_policy_version'', PStr (pcs_projection_policy_version r)),
     (''expected_decisions_per_30d'', PInt (pcs_expected_decisions_per_30d r)),
     (''projection_basis'', PStr (pcs_projection_basis r)),
     (''observed_cost_summary_digest'', PStr (pcs_observed_cost_summary_digest r))]"

record qualification_trading_summary =
  qts_outcome_count :: int
  qts_resolved_count :: int
  qts_ambiguous_count :: int
  qts_unresolved_count :: int
  qts_ambiguous_rate :: qualification_metric
  qts_unresolved_rate :: qualification_metric
  qts_performance :: "performance_summary option"

definition fields_qualification_trading_summary :: "qualification_trading_summary \<Rightarrow> bool" where
  "fields_qualification_trading_summary r \<longleftrightarrow>
     is_non_negative_int (qts_outcome_count r) \<and>
     is_non_negative_int (qts_resolved_count r) \<and>
     is_non_negative_int (qts_ambiguous_count r) \<and>
     is_non_negative_int (qts_unresolved_count r)"

definition dump_qualification_trading_summary :: "qualification_trading_summary \<Rightarrow> pyval" where
  "dump_qualification_trading_summary r = PDict [
     (''outcome_count'', PInt (qts_outcome_count r)),
     (''resolved_count'', PInt (qts_resolved_count r)),
     (''ambiguous_count'', PInt (qts_ambiguous_count r)),
     (''unresolved_count'', PInt (qts_unresolved_count r)),
     (''ambiguous_rate'', dump_qualification_metric (qts_ambiguous_rate r)),
     (''unresolved_rate'', dump_qualification_metric (qts_unresolved_rate r)),
     (''performance'', dump_option (\<lambda>x. dump_performance_summary x) (qts_performance r))]"

record shadow_graduation_evaluation =
  sge_schema_version :: string
  sge_evaluation_id :: string
  sge_qualification_run_id :: string
  sge_evidence_dataset_id :: string
  sge_evidence_dataset_digest :: string
  sge_validity_assessment_reference :: qualification_artifact_reference
  sge_policy_ref :: string
  sge_policy_version :: string
  sge_policy_digest :: string
  sge_evaluated_at :: instant
  sge_sample_summary :: qualification_sample_summary
  sge_operational_summary :: qualification_operational_summary
  sge_safety_summary :: qualification_safety_summary
  sge_observed_cost :: observed_cost_summary
  sge_projected_cost :: projected_cost_summary
  sge_trading_summary :: qualification_trading_summary
  sge_gate_results :: "qualification_gate_result list"
  sge_disposition :: graduation_disposition
  sge_evaluation_digest :: string

definition fields_shadow_graduation_evaluation :: "shadow_graduation_evaluation \<Rightarrow> bool" where
  "fields_shadow_graduation_evaluation r \<longleftrightarrow>
     sge_schema_version r = ''1.0.0'' \<and>
     is_identifier (sge_evaluation_id r) \<and>
     is_identifier (sge_qualification_run_id r) \<and>
     is_identifier (sge_evidence_dataset_id r) \<and>
     is_content_digest (sge_evidence_dataset_digest r) \<and>
     is_identifier (sge_policy_ref r) \<and>
     is_schema_version (sge_policy_version r) \<and>
     is_content_digest (sge_policy_digest r) \<and>
     1 \<le> length (sge_gate_results r) \<and>
     is_content_digest (sge_evaluation_digest r)"

definition dump_shadow_graduation_evaluation :: "shadow_graduation_evaluation \<Rightarrow> pyval" where
  "dump_shadow_graduation_evaluation r = PDict [
     (''schema_version'', PStr (sge_schema_version r)),
     (''evaluation_id'', PStr (sge_evaluation_id r)),
     (''qualification_run_id'', PStr (sge_qualification_run_id r)),
     (''evidence_dataset_id'', PStr (sge_evidence_dataset_id r)),
     (''evidence_dataset_digest'', PStr (sge_evidence_dataset_digest r)),
     (''validity_assessment_reference'', dump_qualification_artifact_reference (sge_validity_assessment_reference r)),
     (''policy_ref'', PStr (sge_policy_ref r)),
     (''policy_version'', PStr (sge_policy_version r)),
     (''policy_digest'', PStr (sge_policy_digest r)),
     (''evaluated_at'', PTime (sge_evaluated_at r)),
     (''sample_summary'', dump_qualification_sample_summary (sge_sample_summary r)),
     (''operational_summary'', dump_qualification_operational_summary (sge_operational_summary r)),
     (''safety_summary'', dump_qualification_safety_summary (sge_safety_summary r)),
     (''observed_cost'', dump_observed_cost_summary (sge_observed_cost r)),
     (''projected_cost'', dump_projected_cost_summary (sge_projected_cost r)),
     (''trading_summary'', dump_qualification_trading_summary (sge_trading_summary r)),
     (''gate_results'', PList (map (\<lambda>x. dump_qualification_gate_result x) (sge_gate_results r))),
     (''disposition'', PStr (value_graduation_disposition (sge_disposition r))),
     (''evaluation_digest'', PStr (sge_evaluation_digest r))]"

record current_qualification_status =
  cqs_schema_version :: string
  cqs_qualification_run_id :: string
  cqs_graduation_evaluation_reference :: qualification_artifact_reference
  cqs_graduation_disposition :: graduation_disposition
  cqs_validity_assessment :: qualification_validity_assessment
  cqs_currently_eligible_for_demo_review :: bool
  cqs_assessed_at :: instant

definition fields_current_qualification_status :: "current_qualification_status \<Rightarrow> bool" where
  "fields_current_qualification_status r \<longleftrightarrow>
     cqs_schema_version r = ''1.0.0'' \<and>
     is_identifier (cqs_qualification_run_id r)"

definition dump_current_qualification_status :: "current_qualification_status \<Rightarrow> pyval" where
  "dump_current_qualification_status r = PDict [
     (''schema_version'', PStr (cqs_schema_version r)),
     (''qualification_run_id'', PStr (cqs_qualification_run_id r)),
     (''graduation_evaluation_reference'', dump_qualification_artifact_reference (cqs_graduation_evaluation_reference r)),
     (''graduation_disposition'', PStr (value_graduation_disposition (cqs_graduation_disposition r))),
     (''validity_assessment'', dump_qualification_validity_assessment (cqs_validity_assessment r)),
     (''currently_eligible_for_demo_review'', PBool (cqs_currently_eligible_for_demo_review r)),
     (''assessed_at'', PTime (cqs_assessed_at r))]"

record qualification_performance_review_input =
  qpri_schema_version :: string
  qpri_qualification_run_id :: string
  qpri_evaluation_reference :: qualification_artifact_reference
  qpri_validity_reference :: qualification_artifact_reference
  qpri_prepared_at :: instant
  qpri_automatic_strategy_change_permitted :: bool
  qpri_threshold_change_permitted :: bool
  qpri_mode_change_permitted :: bool

definition fields_qualification_performance_review_input :: "qualification_performance_review_input \<Rightarrow> bool" where
  "fields_qualification_performance_review_input r \<longleftrightarrow>
     qpri_schema_version r = ''1.0.0'' \<and>
     is_identifier (qpri_qualification_run_id r) \<and>
     \<not> (qpri_automatic_strategy_change_permitted r) \<and>
     \<not> (qpri_threshold_change_permitted r) \<and>
     \<not> (qpri_mode_change_permitted r)"

definition dump_qualification_performance_review_input :: "qualification_performance_review_input \<Rightarrow> pyval" where
  "dump_qualification_performance_review_input r = PDict [
     (''schema_version'', PStr (qpri_schema_version r)),
     (''qualification_run_id'', PStr (qpri_qualification_run_id r)),
     (''evaluation_reference'', dump_qualification_artifact_reference (qpri_evaluation_reference r)),
     (''validity_reference'', dump_qualification_artifact_reference (qpri_validity_reference r)),
     (''prepared_at'', PTime (qpri_prepared_at r)),
     (''automatic_strategy_change_permitted'', PBool (qpri_automatic_strategy_change_permitted r)),
     (''threshold_change_permitted'', PBool (qpri_threshold_change_permitted r)),
     (''mode_change_permitted'', PBool (qpri_mode_change_permitted r))]"

section \<open>Dependencies\<close>

definition validate_qualified_role_assignment :: "qualified_role_assignment \<Rightarrow> bool" where
  "validate_qualified_role_assignment a \<longleftrightarrow>
     (let present = [qra_m5_live_smoke a \<noteq> None, qra_m6_full_shadow a \<noteq> None,
        qra_m9_feature_input a \<noteq> None, qra_m9_continuous_acceptance a \<noteq> None,
        qra_acceptance_valid_until a \<noteq> None]
      in if qra_provider a = model_provider.FAKE then \<not> list_ex id present else list_all id present)"

definition validate_qualification_dependency_manifest :: "qualification_dependency_manifest \<Rightarrow> bool" where
  "validate_qualification_dependency_manifest m \<longleftrightarrow>
     distinct (map qra_role (qdm_assignments m)) \<and>
     distinct (map qar_artifact_id (qdm_pricing_profile_refs m))"

definition validate_qualification_partition_declaration :: "qualification_partition_declaration \<Rightarrow> bool" where
  "validate_qualification_partition_declaration d \<longleftrightarrow>
     \<not> qpd_declared_at d > dp_evaluation_start (qpd_partition d)"

section \<open>Evidence\<close>

definition evidence_lifecycle_ok :: "qualification_evidence_dataset \<Rightarrow> bool" where
  "evidence_lifecycle_ok d \<longleftrightarrow>
     (case qed_lifecycle d of
        qualification_evidence_lifecycle.OPEN \<Rightarrow>
          qed_sealed_at d = None \<and> qed_evaluated_at d = None \<and>
          qed_sealed_content_digest d = None \<and> qed_evaluation_reference d = None
      | qualification_evidence_lifecycle.SEALED \<Rightarrow>
          qed_sealed_at d \<noteq> None \<and> qed_sealed_content_digest d \<noteq> None \<and>
          qed_evaluated_at d = None \<and> qed_evaluation_reference d = None
      | _ \<Rightarrow> qed_sealed_at d \<noteq> None \<and> qed_evaluated_at d \<noteq> None \<and>
          qed_sealed_content_digest d \<noteq> None \<and> qed_evaluation_reference d \<noteq> None) \<and>
     (case qed_sealed_at d of None \<Rightarrow> True | Some s \<Rightarrow> \<not> s < qed_opened_at d) \<and>
     (case qed_evaluated_at d of None \<Rightarrow> True
      | Some e \<Rightarrow> (case qed_sealed_at d of None \<Rightarrow> False | Some s \<Rightarrow> \<not> e < s))"

definition evidence_unique_identity :: "qualification_evidence_dataset \<Rightarrow> bool" where
  "evidence_unique_identity d \<longleftrightarrow>
     distinct (map dcc_decision_key (qed_claims d)) \<and>
     distinct (map cdr_record_id (qed_decisions d)) \<and>
     distinct (map to_outcome_id (qed_outcomes d)) \<and>
     distinct (map pp_profile_ref (qed_pricing_profiles d)) \<and>
     distinct (map qi_incident_id (qed_incidents d)) \<and>
     distinct (map qar_artifact_id (qed_safety_evidence d))"

definition evidence_partition_membership :: "qualification_evidence_dataset \<Rightarrow> bool" where
  "evidence_partition_membership d \<longleftrightarrow>
     (let p = qpd_partition (qed_partition d); keys = map dcc_decision_key (qed_claims d)
      in list_all (\<lambda>c. dp_evaluation_start p \<le> dcc_candle_close_at c \<and>
             dcc_candle_close_at c < dp_evaluation_end p) (qed_claims d) \<and>
         list_all (\<lambda>x. cdr_decision_key x \<in> set keys) (qed_decisions d) \<and>
         list_all (\<lambda>x. to_partition_id x = dp_partition_id p \<and> to_partition_kind x = dp_kind p \<and>
             \<not> to_decision_cutoff x < dp_evaluation_start p \<and>
             \<not> to_evaluation_ended_at x > dp_evaluation_end p) (qed_outcomes d))"

text \<open>The shadow intents of the retained decisions, by cycle, snapshot and proposal; a later one wins.\<close>

definition retained_intents ::
  "continuous_decision_record list \<Rightarrow> (string \<times> string option \<times> string, shadow_trade_intent) dict" where
  "retained_intents rs = foldl (\<lambda>d r. case cdr_shadow_record r of None \<Rightarrow> d
     | Some s \<Rightarrow> (case sdr_shadow_trade_intent s of None \<Rightarrow> d
        | Some i \<Rightarrow> AList.update
            (cdr_cycle_id r, cdr_actual_snapshot_id r, tp_proposal_id (sti_proposal i)) i d)) [] rs"

definition evidence_outcome_linkage :: "sha \<Rightarrow> qualification_evidence_dataset \<Rightarrow> bool" where
  "evidence_outcome_linkage sha d \<longleftrightarrow>
     list_all (\<lambda>x. case map_of (retained_intents (qed_decisions d))
           (to_cycle_id x, Some (to_snapshot_id x), to_proposal_id x) of
         None \<Rightarrow> False
       | Some i \<Rightarrow> to_proposal_digest x = content_digest sha (dump_trade_proposal (sti_proposal i)))
       (qed_outcomes d)"

definition validate_qualification_evidence_dataset :: "sha \<Rightarrow> qualification_evidence_dataset \<Rightarrow> bool" where
  "validate_qualification_evidence_dataset sha d \<longleftrightarrow>
     evidence_lifecycle_ok d \<and> evidence_unique_identity d \<and> evidence_partition_membership d \<and>
     evidence_outcome_linkage sha d"

definition ok_qualification_evidence_dataset :: "sha \<Rightarrow> qualification_evidence_dataset \<Rightarrow> bool" where
  "ok_qualification_evidence_dataset sha d \<longleftrightarrow>
     fields_qualification_evidence_dataset d \<and> validate_qualification_evidence_dataset sha d"

definition validate_qualification_run :: "qualification_run \<Rightarrow> bool" where
  "validate_qualification_run r \<longleftrightarrow>
     (let p = qpd_partition (qr_partition r)
      in qr_started_at r \<le> qr_completed_at r \<and> qr_completed_at r \<le> qr_created_at r \<and>
         \<not> qr_started_at r < dp_evaluation_start p \<and> \<not> qr_completed_at r > dp_evaluation_end p \<and>
         star_symbol (qdm_symbol_timestamp_acceptance (qr_dependency_manifest r)) = qr_symbol r)"

definition validate_qualification_validity_assessment :: "qualification_validity_assessment \<Rightarrow> bool" where
  "validate_qualification_validity_assessment v \<longleftrightarrow>
     (if qva_state v = qualification_evidence_validity.VALID
      then qva_reasons v = [] \<and>
        (case qva_valid_until v of None \<Rightarrow> False | Some u \<Rightarrow> \<not> u \<le> qva_assessed_at v)
      else qva_reasons v \<noteq> [])"

section \<open>Graduation\<close>

definition validate_shadow_graduation_policy :: "shadow_graduation_policy \<Rightarrow> bool" where
  "validate_shadow_graduation_policy p \<longleftrightarrow>
     \<not> list_all (\<lambda>v. v = None) [sgp_minimum_expectancy_r p, sgp_minimum_profit_factor p,
         sgp_maximum_sequence_max_drawdown_r p] \<and>
     (sgp_minimum_win_rate p = None) = (sgp_win_rate_justification p = None)"

definition validate_qualification_metric :: "qualification_metric \<Rightarrow> bool" where
  "validate_qualification_metric m \<longleftrightarrow>
     (qm_status m = qualification_metric_status.UNAVAILABLE) = (qm_value m = None)"

definition validate_qualification_gate_result :: "qualification_gate_result \<Rightarrow> bool" where
  "validate_qualification_gate_result g \<longleftrightarrow>
     (qgres_status g = qualification_gate_status.FAIL) = (qgres_reason_code g \<noteq> None)"

definition validate_observed_cost_summary :: "observed_cost_summary \<Rightarrow> bool" where
  "validate_observed_cost_summary c \<longleftrightarrow>
     ocs_total_assessed_observed_cost c =
       rd28 (ocs_settled_observed_cost c + ocs_conservative_uncertain_reserved_cost c)"

definition validate_projected_cost_summary :: "projected_cost_summary \<Rightarrow> bool" where
  "validate_projected_cost_summary c \<longleftrightarrow>
     (pcs_projection_status c = qualification_metric_status.UNAVAILABLE) = (pcs_projected_30d_cost c = None)"

definition validate_shadow_graduation_evaluation :: "shadow_graduation_evaluation \<Rightarrow> bool" where
  "validate_shadow_graduation_evaluation e \<longleftrightarrow>
     (let ids = map qgres_gate_id (sge_gate_results e)
      in ids = sort ids \<and> distinct ids \<and>
         list_all (\<lambda>g. qgres_status g = qualification_gate_status.PASS) (sge_gate_results e) =
           (sge_disposition e = graduation_disposition.ELIGIBLE_FOR_DEMO_REVIEW))"

definition validate_current_qualification_status :: "current_qualification_status \<Rightarrow> bool" where
  "validate_current_qualification_status s \<longleftrightarrow>
     cqs_currently_eligible_for_demo_review s =
       (cqs_graduation_disposition s = graduation_disposition.ELIGIBLE_FOR_DEMO_REVIEW \<and>
        qva_state (cqs_validity_assessment s) = qualification_evidence_validity.VALID)"

definition ok_current_qualification_status :: "current_qualification_status \<Rightarrow> bool" where
  "ok_current_qualification_status s \<longleftrightarrow>
     fields_current_qualification_status s \<and> validate_current_qualification_status s"

end
