(* ===== verification/ExecutionSchemas.thy ===== *)
theory ExecutionSchemas
  imports QualificationSchemas
begin

text \<open>
  \<open>schemas/execution.py\<close>: approvals, policies, the sealed order intent, the records each step of an
  execution leaves, the lifecycle of an execution record and of the execution control, and the
  exact conversion of slippage ticks into points.
\<close>

section \<open>Records\<close>

record demo_execution_environment_acceptance =
  deea_schema_version :: string
  deea_acceptance_id :: string
  deea_account_ref :: string
  deea_environment_ref :: string
  deea_account_mode :: broker_account_mode
  deea_symbol :: string
  deea_package_version :: string
  deea_terminal_version :: string
  deea_terminal_build :: int
  deea_adapter_version :: string
  deea_symbol_capability_digest :: string
  deea_execution_policy_digest :: string
  deea_evidence_ref :: string
  deea_evidence_digest :: string
  deea_accepted_at :: instant
  deea_expires_at :: instant
  deea_accepted :: bool

definition fields_demo_execution_environment_acceptance :: "demo_execution_environment_acceptance \<Rightarrow> bool" where
  "fields_demo_execution_environment_acceptance r \<longleftrightarrow>
     deea_schema_version r = ''1.0.0'' \<and>
     is_identifier (deea_acceptance_id r) \<and>
     is_account_reference (deea_account_ref r) \<and>
     is_environment_reference (deea_environment_ref r) \<and>
     deea_account_mode r = broker_account_mode.DEMO \<and>
     is_symbol (deea_symbol r) \<and>
     1 \<le> length (deea_package_version r) \<and>
     length (deea_package_version r) \<le> 128 \<and>
     1 \<le> length (deea_terminal_version r) \<and>
     length (deea_terminal_version r) \<le> 128 \<and>
     is_non_negative_int (deea_terminal_build r) \<and>
     is_schema_version (deea_adapter_version r) \<and>
     is_content_digest (deea_symbol_capability_digest r) \<and>
     is_content_digest (deea_execution_policy_digest r) \<and>
     is_identifier (deea_evidence_ref r) \<and>
     is_content_digest (deea_evidence_digest r) \<and>
     (deea_accepted r)"

definition dump_demo_execution_environment_acceptance :: "demo_execution_environment_acceptance \<Rightarrow> pyval" where
  "dump_demo_execution_environment_acceptance r = PDict [
     (''schema_version'', PStr (deea_schema_version r)),
     (''acceptance_id'', PStr (deea_acceptance_id r)),
     (''account_ref'', PStr (deea_account_ref r)),
     (''environment_ref'', PStr (deea_environment_ref r)),
     (''account_mode'', PInt (value_broker_account_mode (deea_account_mode r))),
     (''symbol'', PStr (deea_symbol r)),
     (''package_version'', PStr (deea_package_version r)),
     (''terminal_version'', PStr (deea_terminal_version r)),
     (''terminal_build'', PInt (deea_terminal_build r)),
     (''adapter_version'', PStr (deea_adapter_version r)),
     (''symbol_capability_digest'', PStr (deea_symbol_capability_digest r)),
     (''execution_policy_digest'', PStr (deea_execution_policy_digest r)),
     (''evidence_ref'', PStr (deea_evidence_ref r)),
     (''evidence_digest'', PStr (deea_evidence_digest r)),
     (''accepted_at'', PTime (deea_accepted_at r)),
     (''expires_at'', PTime (deea_expires_at r)),
     (''accepted'', PBool (deea_accepted r))]"

record demo_execution_approval =
  dea_schema_version :: string
  dea_approval_id :: string
  dea_reviewer_ref :: string
  dea_candidate_id :: string
  dea_source_decision_record_digest :: string
  dea_source_shadow_intent_digest :: string
  dea_analysis_proposal_digest :: string
  dea_analysis_risk_decision_digest :: string
  dea_qualification_run_id :: string
  dea_qualification_status_digest :: string
  dea_generation_id :: string
  dea_generation_digest :: string
  dea_environment_acceptance_id :: string
  dea_environment_acceptance_digest :: string
  dea_account_ref :: string
  dea_environment_ref :: string
  dea_symbol :: string
  dea_execution_policy_digest :: string
  dea_effective_from :: instant
  dea_expires_at :: instant
  dea_approved_at :: instant

definition fields_demo_execution_approval :: "demo_execution_approval \<Rightarrow> bool" where
  "fields_demo_execution_approval r \<longleftrightarrow>
     dea_schema_version r = ''1.0.0'' \<and>
     is_identifier (dea_approval_id r) \<and>
     is_identifier (dea_reviewer_ref r) \<and>
     is_identifier (dea_candidate_id r) \<and>
     is_content_digest (dea_source_decision_record_digest r) \<and>
     is_content_digest (dea_source_shadow_intent_digest r) \<and>
     is_content_digest (dea_analysis_proposal_digest r) \<and>
     is_content_digest (dea_analysis_risk_decision_digest r) \<and>
     is_identifier (dea_qualification_run_id r) \<and>
     is_content_digest (dea_qualification_status_digest r) \<and>
     is_identifier (dea_generation_id r) \<and>
     is_content_digest (dea_generation_digest r) \<and>
     is_identifier (dea_environment_acceptance_id r) \<and>
     is_content_digest (dea_environment_acceptance_digest r) \<and>
     is_account_reference (dea_account_ref r) \<and>
     is_environment_reference (dea_environment_ref r) \<and>
     is_symbol (dea_symbol r) \<and>
     is_content_digest (dea_execution_policy_digest r)"

definition dump_demo_execution_approval :: "demo_execution_approval \<Rightarrow> pyval" where
  "dump_demo_execution_approval r = PDict [
     (''schema_version'', PStr (dea_schema_version r)),
     (''approval_id'', PStr (dea_approval_id r)),
     (''reviewer_ref'', PStr (dea_reviewer_ref r)),
     (''candidate_id'', PStr (dea_candidate_id r)),
     (''source_decision_record_digest'', PStr (dea_source_decision_record_digest r)),
     (''source_shadow_intent_digest'', PStr (dea_source_shadow_intent_digest r)),
     (''analysis_proposal_digest'', PStr (dea_analysis_proposal_digest r)),
     (''analysis_risk_decision_digest'', PStr (dea_analysis_risk_decision_digest r)),
     (''qualification_run_id'', PStr (dea_qualification_run_id r)),
     (''qualification_status_digest'', PStr (dea_qualification_status_digest r)),
     (''generation_id'', PStr (dea_generation_id r)),
     (''generation_digest'', PStr (dea_generation_digest r)),
     (''environment_acceptance_id'', PStr (dea_environment_acceptance_id r)),
     (''environment_acceptance_digest'', PStr (dea_environment_acceptance_digest r)),
     (''account_ref'', PStr (dea_account_ref r)),
     (''environment_ref'', PStr (dea_environment_ref r)),
     (''symbol'', PStr (dea_symbol r)),
     (''execution_policy_digest'', PStr (dea_execution_policy_digest r)),
     (''effective_from'', PTime (dea_effective_from r)),
     (''expires_at'', PTime (dea_expires_at r)),
     (''approved_at'', PTime (dea_approved_at r))]"

record demo_execution_approval_revocation =
  dear_schema_version :: string
  dear_revocation_id :: string
  dear_approval_id :: string
  dear_approval_digest :: string
  dear_reviewer_ref :: string
  dear_revoked_at :: instant
  dear_reason :: string

definition fields_demo_execution_approval_revocation :: "demo_execution_approval_revocation \<Rightarrow> bool" where
  "fields_demo_execution_approval_revocation r \<longleftrightarrow>
     dear_schema_version r = ''1.0.0'' \<and>
     is_identifier (dear_revocation_id r) \<and>
     is_identifier (dear_approval_id r) \<and>
     is_content_digest (dear_approval_digest r) \<and>
     is_identifier (dear_reviewer_ref r) \<and>
     1 \<le> length (dear_reason r) \<and>
     length (dear_reason r) \<le> 512"

definition dump_demo_execution_approval_revocation :: "demo_execution_approval_revocation \<Rightarrow> pyval" where
  "dump_demo_execution_approval_revocation r = PDict [
     (''schema_version'', PStr (dear_schema_version r)),
     (''revocation_id'', PStr (dear_revocation_id r)),
     (''approval_id'', PStr (dear_approval_id r)),
     (''approval_digest'', PStr (dear_approval_digest r)),
     (''reviewer_ref'', PStr (dear_reviewer_ref r)),
     (''revoked_at'', PTime (dear_revoked_at r)),
     (''reason'', PStr (dear_reason r))]"

record demo_execution_policy =
  dep_schema_version :: string
  dep_policy_ref :: string
  dep_policy_version :: string
  dep_maximum_tick_age_seconds :: int
  dep_maximum_decision_age_seconds :: int
  dep_maximum_preflight_seconds :: int
  dep_intent_ttl_seconds :: int
  dep_maximum_spread_ticks :: decimal
  dep_maximum_price_drift_ticks :: decimal
  dep_maximum_adverse_slippage_ticks :: decimal
  dep_supported_execution_modes :: "demo_order_execution_mode set"
  dep_filling_mode :: demo_filling_mode
  dep_maximum_account_positions_before_dispatch :: int
  dep_maximum_symbol_positions_before_dispatch :: int
  dep_require_initial_stop_loss :: bool
  dep_require_initial_take_profit :: bool
  dep_exact_volume_match_required :: bool
  dep_magic :: int
  dep_comment_prefix :: string

definition fields_demo_execution_policy :: "demo_execution_policy \<Rightarrow> bool" where
  "fields_demo_execution_policy r \<longleftrightarrow>
     dep_schema_version r = ''1.0.0'' \<and>
     is_identifier (dep_policy_ref r) \<and>
     is_schema_version (dep_policy_version r) \<and>
     is_positive_int (dep_maximum_tick_age_seconds r) \<and>
     is_positive_int (dep_maximum_decision_age_seconds r) \<and>
     is_positive_int (dep_maximum_preflight_seconds r) \<and>
     is_positive_int (dep_intent_ttl_seconds r) \<and>
     is_positive_decimal (dep_maximum_spread_ticks r) \<and>
     is_non_negative_decimal (dep_maximum_price_drift_ticks r) \<and>
     is_non_negative_decimal (dep_maximum_adverse_slippage_ticks r) \<and>
     dep_supported_execution_modes r \<noteq> {} \<and>
     dep_maximum_account_positions_before_dispatch r = 0 \<and>
     dep_maximum_symbol_positions_before_dispatch r = 0 \<and>
     (dep_require_initial_stop_loss r) \<and>
     (dep_require_initial_take_profit r) \<and>
     (dep_exact_volume_match_required r) \<and>
     is_positive_int (dep_magic r) \<and>
     1 \<le> length (dep_comment_prefix r) \<and>
     length (dep_comment_prefix r) \<le> 12 \<and>
     is_comment_prefix (dep_comment_prefix r)"

definition dump_demo_execution_policy :: "demo_execution_policy \<Rightarrow> pyval" where
  "dump_demo_execution_policy r = PDict [
     (''schema_version'', PStr (dep_schema_version r)),
     (''policy_ref'', PStr (dep_policy_ref r)),
     (''policy_version'', PStr (dep_policy_version r)),
     (''maximum_tick_age_seconds'', PInt (dep_maximum_tick_age_seconds r)),
     (''maximum_decision_age_seconds'', PInt (dep_maximum_decision_age_seconds r)),
     (''maximum_preflight_seconds'', PInt (dep_maximum_preflight_seconds r)),
     (''intent_ttl_seconds'', PInt (dep_intent_ttl_seconds r)),
     (''maximum_spread_ticks'', PDec (dep_maximum_spread_ticks r)),
     (''maximum_price_drift_ticks'', PDec (dep_maximum_price_drift_ticks r)),
     (''maximum_adverse_slippage_ticks'', PDec (dep_maximum_adverse_slippage_ticks r)),
     (''supported_execution_modes'', PSet (map (\<lambda>x. PInt (value_demo_order_execution_mode x)) (filter (\<lambda>x. x \<in> (dep_supported_execution_modes r)) [demo_order_execution_mode.REQUEST, demo_order_execution_mode.INSTANT, demo_order_execution_mode.MARKET, demo_order_execution_mode.EXCHANGE]))),
     (''filling_mode'', PStr (value_demo_filling_mode (dep_filling_mode r))),
     (''maximum_account_positions_before_dispatch'', PInt (dep_maximum_account_positions_before_dispatch r)),
     (''maximum_symbol_positions_before_dispatch'', PInt (dep_maximum_symbol_positions_before_dispatch r)),
     (''require_initial_stop_loss'', PBool (dep_require_initial_stop_loss r)),
     (''require_initial_take_profit'', PBool (dep_require_initial_take_profit r)),
     (''exact_volume_match_required'', PBool (dep_exact_volume_match_required r)),
     (''magic'', PInt (dep_magic r)),
     (''comment_prefix'', PStr (dep_comment_prefix r))]"

record demo_symbol_execution_capabilities =
  dsec_schema_version :: string
  dsec_symbol :: string
  dsec_observed_at :: instant
  dsec_symbol_info_digest :: string
  dsec_execution_mode :: demo_order_execution_mode
  dsec_filling_modes :: "demo_filling_mode set"
  dsec_market_order_allowed :: bool
  dsec_stop_loss_allowed :: bool
  dsec_take_profit_allowed :: bool

definition fields_demo_symbol_execution_capabilities :: "demo_symbol_execution_capabilities \<Rightarrow> bool" where
  "fields_demo_symbol_execution_capabilities r \<longleftrightarrow>
     dsec_schema_version r = ''1.0.0'' \<and>
     is_symbol (dsec_symbol r) \<and>
     is_content_digest (dsec_symbol_info_digest r) \<and>
     dsec_filling_modes r \<noteq> {}"

definition dump_demo_symbol_execution_capabilities :: "demo_symbol_execution_capabilities \<Rightarrow> pyval" where
  "dump_demo_symbol_execution_capabilities r = PDict [
     (''schema_version'', PStr (dsec_schema_version r)),
     (''symbol'', PStr (dsec_symbol r)),
     (''observed_at'', PTime (dsec_observed_at r)),
     (''symbol_info_digest'', PStr (dsec_symbol_info_digest r)),
     (''execution_mode'', PInt (value_demo_order_execution_mode (dsec_execution_mode r))),
     (''filling_modes'', PSet (map (\<lambda>x. PStr (value_demo_filling_mode x)) (filter (\<lambda>x. x \<in> (dsec_filling_modes r)) [demo_filling_mode.FOK, demo_filling_mode.IOC, demo_filling_mode.RETURN]))),
     (''market_order_allowed'', PBool (dsec_market_order_allowed r)),
     (''stop_loss_allowed'', PBool (dsec_stop_loss_allowed r)),
     (''take_profit_allowed'', PBool (dsec_take_profit_allowed r))]"

record execution_snapshot_link =
  esl_analysis_snapshot_id :: string
  esl_execution_snapshot_id :: string
  esl_purpose :: execution_snapshot_purpose

definition fields_execution_snapshot_link :: "execution_snapshot_link \<Rightarrow> bool" where
  "fields_execution_snapshot_link r \<longleftrightarrow>
     is_snapshot_id (esl_analysis_snapshot_id r) \<and>
     is_snapshot_id (esl_execution_snapshot_id r) \<and>
     esl_purpose r = execution_snapshot_purpose.PRE_SEND_REVALIDATION"

definition dump_execution_snapshot_link :: "execution_snapshot_link \<Rightarrow> pyval" where
  "dump_execution_snapshot_link r = PDict [
     (''analysis_snapshot_id'', PStr (esl_analysis_snapshot_id r)),
     (''execution_snapshot_id'', PStr (esl_execution_snapshot_id r)),
     (''purpose'', PStr (value_execution_snapshot_purpose (esl_purpose r)))]"

record qualified_demo_execution_candidate =
  qdec_schema_version :: string
  qdec_candidate_id :: string
  qdec_decision :: continuous_decision_record
  qdec_qualification_status :: current_qualification_status
  qdec_dependency_manifest :: qualification_dependency_manifest
  qdec_dependency_manifest_digest :: string
  qdec_qualification_status_digest :: string

definition fields_qualified_demo_execution_candidate :: "qualified_demo_execution_candidate \<Rightarrow> bool" where
  "fields_qualified_demo_execution_candidate r \<longleftrightarrow>
     qdec_schema_version r = ''1.0.0'' \<and>
     is_identifier (qdec_candidate_id r) \<and>
     is_content_digest (qdec_dependency_manifest_digest r) \<and>
     is_content_digest (qdec_qualification_status_digest r)"

record fresh_execution_observation =
  feo_schema_version :: string
  feo_captured_at :: instant
  feo_environment_ref :: string
  feo_snapshot :: market_snapshot
  feo_risk_context_evidence :: risk_context_evidence
  feo_account_positions :: "mt5_open_position list"
  feo_capabilities :: demo_symbol_execution_capabilities

definition fields_fresh_execution_observation :: "fresh_execution_observation \<Rightarrow> bool" where
  "fields_fresh_execution_observation r \<longleftrightarrow>
     feo_schema_version r = ''1.0.0'' \<and>
     is_environment_reference (feo_environment_ref r)"

record fresh_risk_revalidation =
  frr_schema_version :: string
  frr_snapshot_link :: execution_snapshot_link
  frr_original_proposal_id :: string
  frr_original_proposal_digest :: string
  frr_original_risk_decision_digest :: string
  frr_revalidation_proposal :: trade_proposal
  frr_revalidation_proposal_digest :: string
  frr_risk_decision :: risk_decision
  frr_risk_decision_digest :: string
  frr_evaluated_at :: instant

definition fields_fresh_risk_revalidation :: "fresh_risk_revalidation \<Rightarrow> bool" where
  "fields_fresh_risk_revalidation r \<longleftrightarrow>
     frr_schema_version r = ''1.0.0'' \<and>
     is_identifier (frr_original_proposal_id r) \<and>
     is_content_digest (frr_original_proposal_digest r) \<and>
     is_content_digest (frr_original_risk_decision_digest r) \<and>
     is_content_digest (frr_revalidation_proposal_digest r) \<and>
     is_content_digest (frr_risk_decision_digest r)"

definition dump_fresh_risk_revalidation :: "fresh_risk_revalidation \<Rightarrow> pyval" where
  "dump_fresh_risk_revalidation r = PDict [
     (''schema_version'', PStr (frr_schema_version r)),
     (''snapshot_link'', dump_execution_snapshot_link (frr_snapshot_link r)),
     (''original_proposal_id'', PStr (frr_original_proposal_id r)),
     (''original_proposal_digest'', PStr (frr_original_proposal_digest r)),
     (''original_risk_decision_digest'', PStr (frr_original_risk_decision_digest r)),
     (''revalidation_proposal'', dump_trade_proposal (frr_revalidation_proposal r)),
     (''revalidation_proposal_digest'', PStr (frr_revalidation_proposal_digest r)),
     (''risk_decision'', dump_risk_decision (frr_risk_decision r)),
     (''risk_decision_digest'', PStr (frr_risk_decision_digest r)),
     (''evaluated_at'', PTime (frr_evaluated_at r))]"

record demo_execution_failure =
  def_code :: demo_execution_failure_category
  def_sanitized_detail :: string

definition fields_demo_execution_failure :: "demo_execution_failure \<Rightarrow> bool" where
  "fields_demo_execution_failure r \<longleftrightarrow>
     1 \<le> length (def_sanitized_detail r) \<and>
     length (def_sanitized_detail r) \<le> 512"

definition dump_demo_execution_failure :: "demo_execution_failure \<Rightarrow> pyval" where
  "dump_demo_execution_failure r = PDict [
     (''code'', PStr (value_demo_execution_failure_category (def_code r))),
     (''sanitized_detail'', PStr (def_sanitized_detail r))]"

record demo_execution_preflight =
  depre_schema_version :: string
  depre_snapshot_link :: execution_snapshot_link
  depre_started_at :: instant
  depre_completed_at :: instant
  depre_reference_price :: decimal
  depre_risk_validation_price :: decimal
  depre_spread_ticks :: decimal
  depre_price_drift_ticks :: decimal
  depre_maximum_deviation_points :: int
  depre_execution_mode :: demo_order_execution_mode
  depre_passed :: bool
  depre_failure :: "demo_execution_failure option"

definition fields_demo_execution_preflight :: "demo_execution_preflight \<Rightarrow> bool" where
  "fields_demo_execution_preflight r \<longleftrightarrow>
     depre_schema_version r = ''1.0.0'' \<and>
     is_positive_decimal (depre_reference_price r) \<and>
     is_positive_decimal (depre_risk_validation_price r) \<and>
     is_non_negative_decimal (depre_spread_ticks r) \<and>
     is_non_negative_decimal (depre_price_drift_ticks r) \<and>
     is_non_negative_int (depre_maximum_deviation_points r)"

definition dump_demo_execution_preflight :: "demo_execution_preflight \<Rightarrow> pyval" where
  "dump_demo_execution_preflight r = PDict [
     (''schema_version'', PStr (depre_schema_version r)),
     (''snapshot_link'', dump_execution_snapshot_link (depre_snapshot_link r)),
     (''started_at'', PTime (depre_started_at r)),
     (''completed_at'', PTime (depre_completed_at r)),
     (''reference_price'', PDec (depre_reference_price r)),
     (''risk_validation_price'', PDec (depre_risk_validation_price r)),
     (''spread_ticks'', PDec (depre_spread_ticks r)),
     (''price_drift_ticks'', PDec (depre_price_drift_ticks r)),
     (''maximum_deviation_points'', PInt (depre_maximum_deviation_points r)),
     (''execution_mode'', PInt (value_demo_order_execution_mode (depre_execution_mode r))),
     (''passed'', PBool (depre_passed r)),
     (''failure'', dump_option (\<lambda>x. dump_demo_execution_failure x) (depre_failure r))]"

record demo_order_intent =
  doi_schema_version :: string
  doi_execution_intent_id :: string
  doi_client_trade_id :: string
  doi_cycle_id :: string
  doi_snapshot_link :: execution_snapshot_link
  doi_account_ref :: string
  doi_environment_ref :: string
  doi_symbol :: string
  doi_side :: trade_side
  doi_volume :: decimal
  doi_reference_price :: decimal
  doi_risk_validation_price :: decimal
  doi_stop_loss :: decimal
  doi_take_profit :: decimal
  doi_maximum_deviation_points :: int
  doi_execution_mode :: demo_order_execution_mode
  doi_filling_mode :: demo_filling_mode
  doi_magic :: int
  doi_comment :: string
  doi_source_decision_record_digest :: string
  doi_source_shadow_intent_digest :: string
  doi_analysis_proposal_id :: string
  doi_analysis_proposal_digest :: string
  doi_analysis_risk_decision_digest :: string
  doi_revalidation_proposal_id :: string
  doi_revalidation_proposal_digest :: string
  doi_revalidation_risk_decision_digest :: string
  doi_qualification_run_id :: string
  doi_qualification_status_digest :: string
  doi_generation_id :: string
  doi_generation_digest :: string
  doi_environment_acceptance_id :: string
  doi_environment_acceptance_digest :: string
  doi_approval_id :: string
  doi_approval_digest :: string
  doi_execution_policy_digest :: string
  doi_created_at :: instant
  doi_expires_at :: instant
  doi_intent_digest :: string

definition fields_demo_order_intent :: "demo_order_intent \<Rightarrow> bool" where
  "fields_demo_order_intent r \<longleftrightarrow>
     doi_schema_version r = ''1.0.0'' \<and>
     is_identifier (doi_execution_intent_id r) \<and>
     is_identifier (doi_client_trade_id r) \<and>
     is_cycle_id (doi_cycle_id r) \<and>
     is_account_reference (doi_account_ref r) \<and>
     is_environment_reference (doi_environment_ref r) \<and>
     is_symbol (doi_symbol r) \<and>
     is_positive_decimal (doi_volume r) \<and>
     is_positive_decimal (doi_reference_price r) \<and>
     is_positive_decimal (doi_risk_validation_price r) \<and>
     is_positive_decimal (doi_stop_loss r) \<and>
     is_positive_decimal (doi_take_profit r) \<and>
     is_non_negative_int (doi_maximum_deviation_points r) \<and>
     is_positive_int (doi_magic r) \<and>
     1 \<le> length (doi_comment r) \<and>
     length (doi_comment r) \<le> 31 \<and>
     is_content_digest (doi_source_decision_record_digest r) \<and>
     is_content_digest (doi_source_shadow_intent_digest r) \<and>
     is_identifier (doi_analysis_proposal_id r) \<and>
     is_content_digest (doi_analysis_proposal_digest r) \<and>
     is_content_digest (doi_analysis_risk_decision_digest r) \<and>
     is_identifier (doi_revalidation_proposal_id r) \<and>
     is_content_digest (doi_revalidation_proposal_digest r) \<and>
     is_content_digest (doi_revalidation_risk_decision_digest r) \<and>
     is_identifier (doi_qualification_run_id r) \<and>
     is_content_digest (doi_qualification_status_digest r) \<and>
     is_identifier (doi_generation_id r) \<and>
     is_content_digest (doi_generation_digest r) \<and>
     is_identifier (doi_environment_acceptance_id r) \<and>
     is_content_digest (doi_environment_acceptance_digest r) \<and>
     is_identifier (doi_approval_id r) \<and>
     is_content_digest (doi_approval_digest r) \<and>
     is_content_digest (doi_execution_policy_digest r) \<and>
     is_content_digest (doi_intent_digest r)"

definition dump_demo_order_intent :: "demo_order_intent \<Rightarrow> pyval" where
  "dump_demo_order_intent r = PDict [
     (''schema_version'', PStr (doi_schema_version r)),
     (''execution_intent_id'', PStr (doi_execution_intent_id r)),
     (''client_trade_id'', PStr (doi_client_trade_id r)),
     (''cycle_id'', PStr (doi_cycle_id r)),
     (''snapshot_link'', dump_execution_snapshot_link (doi_snapshot_link r)),
     (''account_ref'', PStr (doi_account_ref r)),
     (''environment_ref'', PStr (doi_environment_ref r)),
     (''symbol'', PStr (doi_symbol r)),
     (''side'', PStr (value_trade_side (doi_side r))),
     (''volume'', PDec (doi_volume r)),
     (''reference_price'', PDec (doi_reference_price r)),
     (''risk_validation_price'', PDec (doi_risk_validation_price r)),
     (''stop_loss'', PDec (doi_stop_loss r)),
     (''take_profit'', PDec (doi_take_profit r)),
     (''maximum_deviation_points'', PInt (doi_maximum_deviation_points r)),
     (''execution_mode'', PInt (value_demo_order_execution_mode (doi_execution_mode r))),
     (''filling_mode'', PStr (value_demo_filling_mode (doi_filling_mode r))),
     (''magic'', PInt (doi_magic r)),
     (''comment'', PStr (doi_comment r)),
     (''source_decision_record_digest'', PStr (doi_source_decision_record_digest r)),
     (''source_shadow_intent_digest'', PStr (doi_source_shadow_intent_digest r)),
     (''analysis_proposal_id'', PStr (doi_analysis_proposal_id r)),
     (''analysis_proposal_digest'', PStr (doi_analysis_proposal_digest r)),
     (''analysis_risk_decision_digest'', PStr (doi_analysis_risk_decision_digest r)),
     (''revalidation_proposal_id'', PStr (doi_revalidation_proposal_id r)),
     (''revalidation_proposal_digest'', PStr (doi_revalidation_proposal_digest r)),
     (''revalidation_risk_decision_digest'', PStr (doi_revalidation_risk_decision_digest r)),
     (''qualification_run_id'', PStr (doi_qualification_run_id r)),
     (''qualification_status_digest'', PStr (doi_qualification_status_digest r)),
     (''generation_id'', PStr (doi_generation_id r)),
     (''generation_digest'', PStr (doi_generation_digest r)),
     (''environment_acceptance_id'', PStr (doi_environment_acceptance_id r)),
     (''environment_acceptance_digest'', PStr (doi_environment_acceptance_digest r)),
     (''approval_id'', PStr (doi_approval_id r)),
     (''approval_digest'', PStr (doi_approval_digest r)),
     (''execution_policy_digest'', PStr (doi_execution_policy_digest r)),
     (''created_at'', PTime (doi_created_at r)),
     (''expires_at'', PTime (doi_expires_at r)),
     (''intent_digest'', PStr (doi_intent_digest r))]"

record demo_order_check_result =
  docr_schema_version :: string
  docr_execution_intent_id :: string
  docr_intent_digest :: string
  docr_checked_at :: instant
  docr_accepted :: bool
  docr_broker_code :: "int option"
  docr_sanitized_detail :: string

definition fields_demo_order_check_result :: "demo_order_check_result \<Rightarrow> bool" where
  "fields_demo_order_check_result r \<longleftrightarrow>
     docr_schema_version r = ''1.0.0'' \<and>
     is_identifier (docr_execution_intent_id r) \<and>
     is_content_digest (docr_intent_digest r) \<and>
     1 \<le> length (docr_sanitized_detail r) \<and>
     length (docr_sanitized_detail r) \<le> 512"

definition dump_demo_order_check_result :: "demo_order_check_result \<Rightarrow> pyval" where
  "dump_demo_order_check_result r = PDict [
     (''schema_version'', PStr (docr_schema_version r)),
     (''execution_intent_id'', PStr (docr_execution_intent_id r)),
     (''intent_digest'', PStr (docr_intent_digest r)),
     (''checked_at'', PTime (docr_checked_at r)),
     (''accepted'', PBool (docr_accepted r)),
     (''broker_code'', dump_option (\<lambda>x. PInt x) (docr_broker_code r)),
     (''sanitized_detail'', PStr (docr_sanitized_detail r))]"

record final_dispatch_observation =
  fdo_schema_version :: string
  fdo_observed_at :: instant
  fdo_account_ref :: string
  fdo_environment_ref :: string
  fdo_health :: mt5_terminal_health
  fdo_account :: mt5_account_info
  fdo_symbol_info :: mt5_symbol_info
  fdo_capabilities :: demo_symbol_execution_capabilities
  fdo_tick :: mt5_tick
  fdo_positions :: "mt5_open_position list"

definition fields_final_dispatch_observation :: "final_dispatch_observation \<Rightarrow> bool" where
  "fields_final_dispatch_observation r \<longleftrightarrow>
     fdo_schema_version r = ''1.0.0'' \<and>
     is_account_reference (fdo_account_ref r) \<and>
     is_environment_reference (fdo_environment_ref r)"

record final_dispatch_guard_result =
  fdgr_schema_version :: string
  fdgr_execution_intent_id :: string
  fdgr_evaluated_at :: instant
  fdgr_passed :: bool
  fdgr_checks :: "string list"
  fdgr_failure :: "demo_execution_failure option"

definition fields_final_dispatch_guard_result :: "final_dispatch_guard_result \<Rightarrow> bool" where
  "fields_final_dispatch_guard_result r \<longleftrightarrow>
     fdgr_schema_version r = ''1.0.0'' \<and>
     is_identifier (fdgr_execution_intent_id r) \<and>
     list_all (\<lambda>x. is_identifier x) (fdgr_checks r) \<and>
     1 \<le> length (fdgr_checks r)"

definition dump_final_dispatch_guard_result :: "final_dispatch_guard_result \<Rightarrow> pyval" where
  "dump_final_dispatch_guard_result r = PDict [
     (''schema_version'', PStr (fdgr_schema_version r)),
     (''execution_intent_id'', PStr (fdgr_execution_intent_id r)),
     (''evaluated_at'', PTime (fdgr_evaluated_at r)),
     (''passed'', PBool (fdgr_passed r)),
     (''checks'', PList (map (\<lambda>x. PStr x) (fdgr_checks r))),
     (''failure'', dump_option (\<lambda>x. dump_demo_execution_failure x) (fdgr_failure r))]"

record composite_broker_evidence =
  cbe_schema_version :: string
  cbe_account_ref :: string
  cbe_environment_ref :: string
  cbe_symbol :: string
  cbe_side :: trade_side
  cbe_volume :: decimal
  cbe_dispatch_started_at :: instant
  cbe_dispatch_completed_at :: instant
  cbe_observed_at :: instant
  cbe_client_trade_reference :: "string option"
  cbe_broker_order_id :: "int option"
  cbe_broker_deal_id :: "int option"
  cbe_resulting_position_id :: "int option"
  cbe_fill_price :: "decimal option"
  cbe_stop_loss :: "decimal option"
  cbe_take_profit :: "decimal option"
  cbe_magic :: "int option"
  cbe_comment :: "string option"

definition fields_composite_broker_evidence :: "composite_broker_evidence \<Rightarrow> bool" where
  "fields_composite_broker_evidence r \<longleftrightarrow>
     cbe_schema_version r = ''1.0.0'' \<and>
     is_account_reference (cbe_account_ref r) \<and>
     is_environment_reference (cbe_environment_ref r) \<and>
     is_symbol (cbe_symbol r) \<and>
     is_positive_decimal (cbe_volume r) \<and>
     pred_option (\<lambda>x. is_identifier x) (cbe_client_trade_reference r) \<and>
     pred_option (\<lambda>x. is_positive_int x) (cbe_broker_order_id r) \<and>
     pred_option (\<lambda>x. is_positive_int x) (cbe_broker_deal_id r) \<and>
     pred_option (\<lambda>x. is_positive_int x) (cbe_resulting_position_id r) \<and>
     pred_option (\<lambda>x. is_positive_decimal x) (cbe_fill_price r) \<and>
     pred_option (\<lambda>x. is_positive_decimal x) (cbe_stop_loss r) \<and>
     pred_option (\<lambda>x. is_positive_decimal x) (cbe_take_profit r) \<and>
     pred_option (\<lambda>x. length x \<le> 128) (cbe_comment r)"

definition dump_composite_broker_evidence :: "composite_broker_evidence \<Rightarrow> pyval" where
  "dump_composite_broker_evidence r = PDict [
     (''schema_version'', PStr (cbe_schema_version r)),
     (''account_ref'', PStr (cbe_account_ref r)),
     (''environment_ref'', PStr (cbe_environment_ref r)),
     (''symbol'', PStr (cbe_symbol r)),
     (''side'', PStr (value_trade_side (cbe_side r))),
     (''volume'', PDec (cbe_volume r)),
     (''dispatch_started_at'', PTime (cbe_dispatch_started_at r)),
     (''dispatch_completed_at'', PTime (cbe_dispatch_completed_at r)),
     (''observed_at'', PTime (cbe_observed_at r)),
     (''client_trade_reference'', dump_option (\<lambda>x. PStr x) (cbe_client_trade_reference r)),
     (''broker_order_id'', dump_option (\<lambda>x. PInt x) (cbe_broker_order_id r)),
     (''broker_deal_id'', dump_option (\<lambda>x. PInt x) (cbe_broker_deal_id r)),
     (''resulting_position_id'', dump_option (\<lambda>x. PInt x) (cbe_resulting_position_id r)),
     (''fill_price'', dump_option (\<lambda>x. PDec x) (cbe_fill_price r)),
     (''stop_loss'', dump_option (\<lambda>x. PDec x) (cbe_stop_loss r)),
     (''take_profit'', dump_option (\<lambda>x. PDec x) (cbe_take_profit r)),
     (''magic'', dump_option (\<lambda>x. PInt x) (cbe_magic r)),
     (''comment'', dump_option (\<lambda>x. PStr x) (cbe_comment r))]"

record demo_submission_receipt =
  dsr_schema_version :: string
  dsr_execution_intent_id :: string
  dsr_intent_digest :: string
  dsr_disposition :: demo_submission_disposition
  dsr_dispatch_started_at :: instant
  dsr_dispatch_completed_at :: instant
  dsr_broker_code :: "int option"
  dsr_evidence :: "composite_broker_evidence option"
  dsr_sanitized_detail :: string

definition fields_demo_submission_receipt :: "demo_submission_receipt \<Rightarrow> bool" where
  "fields_demo_submission_receipt r \<longleftrightarrow>
     dsr_schema_version r = ''1.0.0'' \<and>
     is_identifier (dsr_execution_intent_id r) \<and>
     is_content_digest (dsr_intent_digest r) \<and>
     1 \<le> length (dsr_sanitized_detail r) \<and>
     length (dsr_sanitized_detail r) \<le> 512"

definition dump_demo_submission_receipt :: "demo_submission_receipt \<Rightarrow> pyval" where
  "dump_demo_submission_receipt r = PDict [
     (''schema_version'', PStr (dsr_schema_version r)),
     (''execution_intent_id'', PStr (dsr_execution_intent_id r)),
     (''intent_digest'', PStr (dsr_intent_digest r)),
     (''disposition'', PStr (value_demo_submission_disposition (dsr_disposition r))),
     (''dispatch_started_at'', PTime (dsr_dispatch_started_at r)),
     (''dispatch_completed_at'', PTime (dsr_dispatch_completed_at r)),
     (''broker_code'', dump_option (\<lambda>x. PInt x) (dsr_broker_code r)),
     (''evidence'', dump_option (\<lambda>x. dump_composite_broker_evidence x) (dsr_evidence r)),
     (''sanitized_detail'', PStr (dsr_sanitized_detail r))]"

record demo_reconciliation_record =
  drr_schema_version :: string
  drr_execution_intent_id :: string
  drr_intent_digest :: string
  drr_status :: demo_reconciliation_status
  drr_reconciled_at :: instant
  drr_evidence :: "composite_broker_evidence list"
  drr_failure :: "demo_execution_failure option"

definition fields_demo_reconciliation_record :: "demo_reconciliation_record \<Rightarrow> bool" where
  "fields_demo_reconciliation_record r \<longleftrightarrow>
     drr_schema_version r = ''1.0.0'' \<and>
     is_identifier (drr_execution_intent_id r) \<and>
     is_content_digest (drr_intent_digest r)"

definition dump_demo_reconciliation_record :: "demo_reconciliation_record \<Rightarrow> pyval" where
  "dump_demo_reconciliation_record r = PDict [
     (''schema_version'', PStr (drr_schema_version r)),
     (''execution_intent_id'', PStr (drr_execution_intent_id r)),
     (''intent_digest'', PStr (drr_intent_digest r)),
     (''status'', PStr (value_demo_reconciliation_status (drr_status r))),
     (''reconciled_at'', PTime (drr_reconciled_at r)),
     (''evidence'', PList (map (\<lambda>x. dump_composite_broker_evidence x) (drr_evidence r))),
     (''failure'', dump_option (\<lambda>x. dump_demo_execution_failure x) (drr_failure r))]"

record demo_execution_event =
  dee_sequence :: int
  dee_state :: demo_execution_state
  dee_occurred_at :: instant
  dee_failure :: "demo_execution_failure option"

definition fields_demo_execution_event :: "demo_execution_event \<Rightarrow> bool" where
  "fields_demo_execution_event r \<longleftrightarrow>
     is_positive_int (dee_sequence r)"

definition dump_demo_execution_event :: "demo_execution_event \<Rightarrow> pyval" where
  "dump_demo_execution_event r = PDict [
     (''sequence'', PInt (dee_sequence r)),
     (''state'', PStr (value_demo_execution_state (dee_state r))),
     (''occurred_at'', PTime (dee_occurred_at r)),
     (''failure'', dump_option (\<lambda>x. dump_demo_execution_failure x) (dee_failure r))]"

record demo_execution_record =
  der_schema_version :: string
  der_intent :: demo_order_intent
  der_state :: demo_execution_state
  der_claim_owner :: "string option"
  der_preflight :: "demo_execution_preflight option"
  der_risk_revalidation :: "fresh_risk_revalidation option"
  der_order_check :: "demo_order_check_result option"
  der_final_guard :: "final_dispatch_guard_result option"
  der_submission :: "demo_submission_receipt option"
  der_reconciliation :: "demo_reconciliation_record option"
  der_events :: "demo_execution_event list"

definition fields_demo_execution_record :: "demo_execution_record \<Rightarrow> bool" where
  "fields_demo_execution_record r \<longleftrightarrow>
     der_schema_version r = ''1.0.0'' \<and>
     pred_option (\<lambda>x. is_identifier x) (der_claim_owner r) \<and>
     1 \<le> length (der_events r)"

definition dump_demo_execution_record :: "demo_execution_record \<Rightarrow> pyval" where
  "dump_demo_execution_record r = PDict [
     (''schema_version'', PStr (der_schema_version r)),
     (''intent'', dump_demo_order_intent (der_intent r)),
     (''state'', PStr (value_demo_execution_state (der_state r))),
     (''claim_owner'', dump_option (\<lambda>x. PStr x) (der_claim_owner r)),
     (''preflight'', dump_option (\<lambda>x. dump_demo_execution_preflight x) (der_preflight r)),
     (''risk_revalidation'', dump_option (\<lambda>x. dump_fresh_risk_revalidation x) (der_risk_revalidation r)),
     (''order_check'', dump_option (\<lambda>x. dump_demo_order_check_result x) (der_order_check r)),
     (''final_guard'', dump_option (\<lambda>x. dump_final_dispatch_guard_result x) (der_final_guard r)),
     (''submission'', dump_option (\<lambda>x. dump_demo_submission_receipt x) (der_submission r)),
     (''reconciliation'', dump_option (\<lambda>x. dump_demo_reconciliation_record x) (der_reconciliation r)),
     (''events'', PList (map (\<lambda>x. dump_demo_execution_event x) (der_events r)))]"

record execution_control_event =
  ece_schema_version :: string
  ece_event_id :: string
  ece_previous_state :: "execution_control_state option"
  ece_state :: execution_control_state
  ece_operator_ref :: string
  ece_occurred_at :: instant
  ece_reason :: string

definition fields_execution_control_event :: "execution_control_event \<Rightarrow> bool" where
  "fields_execution_control_event r \<longleftrightarrow>
     ece_schema_version r = ''1.0.0'' \<and>
     is_identifier (ece_event_id r) \<and>
     is_identifier (ece_operator_ref r) \<and>
     1 \<le> length (ece_reason r) \<and>
     length (ece_reason r) \<le> 512"

definition dump_execution_control_event :: "execution_control_event \<Rightarrow> pyval" where
  "dump_execution_control_event r = PDict [
     (''schema_version'', PStr (ece_schema_version r)),
     (''event_id'', PStr (ece_event_id r)),
     (''previous_state'', dump_option (\<lambda>x. PStr (value_execution_control_state x)) (ece_previous_state r)),
     (''state'', PStr (value_execution_control_state (ece_state r))),
     (''operator_ref'', PStr (ece_operator_ref r)),
     (''occurred_at'', PTime (ece_occurred_at r)),
     (''reason'', PStr (ece_reason r))]"

section \<open>Authority\<close>

definition validate_demo_execution_environment_acceptance :: "demo_execution_environment_acceptance \<Rightarrow> bool" where
  "validate_demo_execution_environment_acceptance a \<longleftrightarrow> \<not> deea_expires_at a \<le> deea_accepted_at a"

definition validate_demo_execution_approval :: "demo_execution_approval \<Rightarrow> bool" where
  "validate_demo_execution_approval a \<longleftrightarrow>
     \<not> (dea_approved_at a > dea_effective_from a \<or> dea_expires_at a \<le> dea_effective_from a)"

definition approval_applies_at :: "demo_execution_approval \<Rightarrow> instant \<Rightarrow> bool" where
  "approval_applies_at a t \<longleftrightarrow> dea_effective_from a \<le> t \<and> t < dea_expires_at a"

definition validate_execution_snapshot_link :: "execution_snapshot_link \<Rightarrow> bool" where
  "validate_execution_snapshot_link l \<longleftrightarrow> esl_analysis_snapshot_id l \<noteq> esl_execution_snapshot_id l"

definition ok_execution_snapshot_link :: "execution_snapshot_link \<Rightarrow> bool" where
  "ok_execution_snapshot_link l \<longleftrightarrow> fields_execution_snapshot_link l \<and> validate_execution_snapshot_link l"

text \<open>The shadow intent of a decision, when there is one.\<close>

definition decision_intent :: "continuous_decision_record \<Rightarrow> shadow_trade_intent option" where
  "decision_intent r = Option.bind (cdr_shadow_record r) sdr_shadow_trade_intent"

definition validate_qualified_demo_execution_candidate :: "qualified_demo_execution_candidate \<Rightarrow> bool" where
  "validate_qualified_demo_execution_candidate c \<longleftrightarrow>
     (let st = qdec_qualification_status c; r = qdec_decision c
      in cqs_currently_eligible_for_demo_review st \<and>
         qva_state (cqs_validity_assessment st) = qualification_evidence_validity.VALID \<and>
         cqs_qualification_run_id st = qva_qualification_run_id (cqs_validity_assessment st) \<and>
         \<not> list_ex (\<lambda>a. qra_provider a = model_provider.FAKE) (qdm_assignments (qdec_dependency_manifest c)) \<and>
         decision_intent r \<noteq> None \<and> cdr_actual_snapshot_id r \<noteq> None \<and>
         (case cdr_shadow_record r of None \<Rightarrow> False
          | Some s \<Rightarrow> Some (dcyc_initial_snapshot_id (sdr_decision_cycle s)) = cdr_actual_snapshot_id r))"

definition ok_qualified_demo_execution_candidate :: "qualified_demo_execution_candidate \<Rightarrow> bool" where
  "ok_qualified_demo_execution_candidate c \<longleftrightarrow>
     fields_qualified_demo_execution_candidate c \<and> validate_qualified_demo_execution_candidate c"

section \<open>Observation, revalidation, preflight\<close>

definition validate_fresh_execution_observation_trace :: "fresh_execution_observation \<Rightarrow> bool" where
  "validate_fresh_execution_observation_trace r \<longleftrightarrow>
     (let c = rce_context (feo_risk_context_evidence r); s = feo_snapshot r
      in \<not> (arc_cycle_id c \<noteq> ms_cycle_id s \<or> arc_snapshot_id c \<noteq> ms_snapshot_id s) \<and>
         arc_account_open_position_count c = int (length (feo_account_positions r)) \<and>
         dsec_symbol (feo_capabilities r) = ms_symbol s \<and>
         \<not> feo_captured_at r < ms_snapshot_completed_at s)"

definition ok_fresh_execution_observation :: "fresh_execution_observation \<Rightarrow> bool" where
  "ok_fresh_execution_observation r \<longleftrightarrow>
     fields_fresh_execution_observation r \<and> validate_fresh_execution_observation_trace r"

definition validate_fresh_risk_revalidation :: "fresh_risk_revalidation \<Rightarrow> bool" where
  "validate_fresh_risk_revalidation r \<longleftrightarrow>
     (let p = frr_revalidation_proposal r; d = frr_risk_decision r; l = frr_snapshot_link r
      in tp_snapshot_id p = esl_execution_snapshot_id l \<and> rd_snapshot_id d = esl_execution_snapshot_id l \<and>
         rd_proposal_id d = tp_proposal_id p \<and> rd_cycle_id d = tp_cycle_id p \<and> rd_symbol d = tp_symbol p)"

definition ok_fresh_risk_revalidation :: "fresh_risk_revalidation \<Rightarrow> bool" where
  "ok_fresh_risk_revalidation r \<longleftrightarrow> fields_fresh_risk_revalidation r \<and> validate_fresh_risk_revalidation r"

definition validate_demo_execution_preflight :: "demo_execution_preflight \<Rightarrow> bool" where
  "validate_demo_execution_preflight p \<longleftrightarrow>
     \<not> depre_completed_at p < depre_started_at p \<and> depre_passed p \<noteq> (depre_failure p \<noteq> None)"

definition ok_demo_execution_preflight :: "demo_execution_preflight \<Rightarrow> bool" where
  "ok_demo_execution_preflight p \<longleftrightarrow> fields_demo_execution_preflight p \<and> validate_demo_execution_preflight p"

definition validate_demo_order_intent :: "demo_order_intent \<Rightarrow> bool" where
  "validate_demo_order_intent i \<longleftrightarrow>
     \<not> doi_expires_at i \<le> doi_created_at i \<and>
     \<not> (doi_side i = trade_side.BUY \<and>
        \<not> (doi_stop_loss i < doi_risk_validation_price i \<and> doi_risk_validation_price i < doi_take_profit i)) \<and>
     \<not> (doi_side i = trade_side.SELL \<and>
        \<not> (doi_take_profit i < doi_risk_validation_price i \<and> doi_risk_validation_price i < doi_stop_loss i))"

definition ok_demo_order_intent :: "demo_order_intent \<Rightarrow> bool" where
  "ok_demo_order_intent i \<longleftrightarrow> fields_demo_order_intent i \<and> validate_demo_order_intent i"

section \<open>Dispatch and reconciliation\<close>

definition validate_final_dispatch_observation :: "final_dispatch_observation \<Rightarrow> bool" where
  "validate_final_dispatch_observation r \<longleftrightarrow>
     msi_symbol (fdo_symbol_info r) = mt_symbol (fdo_tick r) \<and>
     dsec_symbol (fdo_capabilities r) = mt_symbol (fdo_tick r) \<and>
     \<not> fdo_observed_at r < max (mth_retrieved_at (fdo_health r)) (max (mai_retrieved_at (fdo_account r))
         (max (msi_retrieved_at (fdo_symbol_info r)) (mt_retrieved_at (fdo_tick r))))"

definition validate_final_dispatch_guard_result :: "final_dispatch_guard_result \<Rightarrow> bool" where
  "validate_final_dispatch_guard_result r \<longleftrightarrow> fdgr_passed r \<noteq> (fdgr_failure r \<noteq> None)"

definition ok_final_dispatch_guard_result :: "final_dispatch_guard_result \<Rightarrow> bool" where
  "ok_final_dispatch_guard_result r \<longleftrightarrow>
     fields_final_dispatch_guard_result r \<and> validate_final_dispatch_guard_result r"

definition validate_composite_broker_evidence :: "composite_broker_evidence \<Rightarrow> bool" where
  "validate_composite_broker_evidence e \<longleftrightarrow>
     cbe_dispatch_started_at e \<le> cbe_dispatch_completed_at e \<and> cbe_dispatch_completed_at e \<le> cbe_observed_at e"

definition validate_demo_submission_receipt :: "demo_submission_receipt \<Rightarrow> bool" where
  "validate_demo_submission_receipt r \<longleftrightarrow>
     \<not> dsr_dispatch_completed_at r < dsr_dispatch_started_at r \<and>
     \<not> (dsr_disposition r = demo_submission_disposition.ACCEPTED \<and> dsr_evidence r = None)"

definition ok_demo_submission_receipt :: "demo_submission_receipt \<Rightarrow> bool" where
  "ok_demo_submission_receipt r \<longleftrightarrow> fields_demo_submission_receipt r \<and> validate_demo_submission_receipt r"

definition validate_demo_reconciliation_record :: "demo_reconciliation_record \<Rightarrow> bool" where
  "validate_demo_reconciliation_record r \<longleftrightarrow>
     (if drr_status r = demo_reconciliation_status.CONFIRMED
      then \<not> (length (drr_evidence r) \<noteq> 1 \<or> drr_failure r \<noteq> None)
      else drr_failure r \<noteq> None)"

definition ok_demo_reconciliation_record :: "demo_reconciliation_record \<Rightarrow> bool" where
  "ok_demo_reconciliation_record r \<longleftrightarrow>
     fields_demo_reconciliation_record r \<and> validate_demo_reconciliation_record r"

section \<open>The lifecycle of an execution\<close>

definition execution_allowed :: "demo_execution_state \<Rightarrow> demo_execution_state \<Rightarrow> bool" where
  "execution_allowed s t \<longleftrightarrow>
     t \<in> (case s of
        demo_execution_state.CREATED \<Rightarrow> {demo_execution_state.CLAIMED}
      | demo_execution_state.CLAIMED \<Rightarrow> {demo_execution_state.DISPATCHING, demo_execution_state.REJECTED}
      | demo_execution_state.DISPATCHING \<Rightarrow>
          {demo_execution_state.SUBMITTED, demo_execution_state.REJECTED, demo_execution_state.UNKNOWN}
      | demo_execution_state.SUBMITTED \<Rightarrow>
          {demo_execution_state.CONFIRMED, demo_execution_state.UNKNOWN,
           demo_execution_state.RECONCILIATION_FAILED}
      | demo_execution_state.UNKNOWN \<Rightarrow>
          {demo_execution_state.CONFIRMED, demo_execution_state.RECONCILIATION_FAILED}
      | _ \<Rightarrow> {})"

definition post_dispatch_states :: "demo_execution_state set" where
  "post_dispatch_states = {demo_execution_state.SUBMITTED, demo_execution_state.CONFIRMED,
     demo_execution_state.UNKNOWN, demo_execution_state.RECONCILIATION_FAILED}"

definition validate_demo_execution_record :: "demo_execution_record \<Rightarrow> bool" where
  "validate_demo_execution_record r \<longleftrightarrow>
     dee_state (hd (der_events r)) = demo_execution_state.CREATED \<and>
     dee_state (last (der_events r)) = der_state r \<and>
     map dee_sequence (der_events r) = py_range1 (length (der_events r)) \<and>
     successively (\<lambda>x y. \<not> dee_occurred_at y < dee_occurred_at x) (der_events r) \<and>
     successively execution_allowed (map dee_state (der_events r)) \<and>
     \<not> (der_state r \<noteq> demo_execution_state.CREATED \<and> der_claim_owner r = None) \<and>
     \<not> (der_state r \<in> post_dispatch_states \<and> der_submission r = None) \<and>
     \<not> (der_state r = demo_execution_state.CONFIRMED \<and>
        map_option drr_status (der_reconciliation r) \<noteq> Some demo_reconciliation_status.CONFIRMED)"

definition ok_demo_execution_record :: "demo_execution_record \<Rightarrow> bool" where
  "ok_demo_execution_record r \<longleftrightarrow> fields_demo_execution_record r \<and> validate_demo_execution_record r"

section \<open>Execution control\<close>

definition control_allowed :: "execution_control_state \<Rightarrow> execution_control_state \<Rightarrow> bool" where
  "control_allowed s t \<longleftrightarrow>
     t \<in> (case s of
        execution_control_state.DISABLED \<Rightarrow>
          {execution_control_state.ENABLED, execution_control_state.HALTED}
      | execution_control_state.ENABLED \<Rightarrow>
          {execution_control_state.PAUSED, execution_control_state.DISABLED, execution_control_state.HALTED}
      | execution_control_state.PAUSED \<Rightarrow>
          {execution_control_state.ENABLED, execution_control_state.DISABLED, execution_control_state.HALTED}
      | execution_control_state.HALTED \<Rightarrow> {execution_control_state.DISABLED})"

definition validate_execution_control_event :: "execution_control_event \<Rightarrow> bool" where
  "validate_execution_control_event e \<longleftrightarrow>
     (case ece_previous_state e of
        None \<Rightarrow> ece_state e = execution_control_state.DISABLED
      | Some p \<Rightarrow> control_allowed p (ece_state e))"

definition ok_execution_control_event :: "execution_control_event \<Rightarrow> bool" where
  "ok_execution_control_event e \<longleftrightarrow> fields_execution_control_event e \<and> validate_execution_control_event e"

section \<open>Slippage in points\<close>

text \<open>
  The product and the quotient are Decimal operations of the default context; a quotient that is
  not an integer is refused, so nothing is rounded away.
\<close>

definition exact_deviation_points :: "decimal \<Rightarrow> decimal \<Rightarrow> decimal \<Rightarrow> int fallible" where
  "exact_deviation_points slippage tick_size pt =
     (if tick_size \<le> 0 \<or> pt \<le> 0 then Inl (ValueError ''tick size and point must be positive'')
      else let v = rd28 (rd28 (slippage * tick_size) / pt); n = round_half_even v
        in if v \<noteq> of_int n \<or> n < 0
           then Inl (ValueError ''slippage ticks must convert to an exact non-negative point count'')
           else Inr n)"

end
