(* ===== verification/Effects.thy ===== *)
theory Effects
  imports SchemaCommon
begin

text \<open>
  Stateful code that may raise: an operation maps a state to its result and the state afterwards,
  the state being kept also when it raises. \<open>try_op\<close> is \<open>try: x = m; except Exception: h\<close>
  followed by the rest of the function: it does not catch \<open>ProcessExit\<close>, which stands for the
  exceptions outside \<open>Exception\<close> and for the process being killed in the middle of a call.
\<close>

named_theorems op_simps "unfolding of stateful operations"

type_synonym ('s, 'a) op = "'s \<Rightarrow> 'a fallible \<times> 's"

definition ret :: "'a \<Rightarrow> ('s, 'a) op" where
  "ret x s = (Inr x, s)"

definition raise_op :: "py_exception \<Rightarrow> ('s, 'a) op" where
  "raise_op e s = (Inl e, s)"

definition lift_op :: "'a fallible \<Rightarrow> ('s, 'a) op" where
  "lift_op r s = (r, s)"

definition bind_op :: "('s, 'a) op \<Rightarrow> ('a \<Rightarrow> ('s, 'b) op) \<Rightarrow> ('s, 'b) op" where
  "bind_op m f s = (case m s of (Inl e, s') \<Rightarrow> (Inl e, s') | (Inr x, s') \<Rightarrow> f x s')"

definition try_op :: "('s, 'a) op \<Rightarrow> (py_exception \<Rightarrow> ('s, 'b) op) \<Rightarrow> ('a \<Rightarrow> ('s, 'b) op) \<Rightarrow> ('s, 'b) op" where
  "try_op m h f s = (case m s of
     (Inl e, s') \<Rightarrow> if e = ProcessExit then (Inl e, s') else h e s'
   | (Inr x, s') \<Rightarrow> f x s')"

lemma ret_eq [op_simps]: "ret x s = (r, s') \<longleftrightarrow> r = Inr x \<and> s' = s"
  by (auto simp: ret_def)

lemma raise_op_eq [op_simps]: "raise_op e s = (r, s') \<longleftrightarrow> r = Inl e \<and> s' = s"
  by (auto simp: raise_op_def)

lemma lift_op_eq [op_simps]: "lift_op x s = (r, s') \<longleftrightarrow> r = x \<and> s' = s"
  by (auto simp: lift_op_def)

lemma bind_op_Inr:
  "bind_op m f s = (Inr y, s') \<longleftrightarrow> (\<exists>x t. m s = (Inr x, t) \<and> f x t = (Inr y, s'))"
  by (auto simp: bind_op_def split: prod.splits sum.splits)

text \<open>
  Reasoning about every outcome at once: \<open>holds P Q m\<close> says that from a state with \<open>P\<close> the
  operation ends, returning or raising, in a state with \<open>Q\<close> of the result.
\<close>

definition holds :: "('s \<Rightarrow> bool) \<Rightarrow> ('s, 'a) op \<Rightarrow> ('a fallible \<Rightarrow> 's \<Rightarrow> bool) \<Rightarrow> bool" where
  "holds P m Q \<longleftrightarrow> (\<forall>s r t. P s \<longrightarrow> m s = (r, t) \<longrightarrow> Q r t)"

lemma holdsI: "(\<And>s r t. P s \<Longrightarrow> m s = (r, t) \<Longrightarrow> Q r t) \<Longrightarrow> holds P m Q"
  by (simp add: holds_def)

lemma holdsD: "holds P m Q \<Longrightarrow> P s \<Longrightarrow> m s = (r, t) \<Longrightarrow> Q r t"
  by (simp add: holds_def)

lemma holds_weaken:
  "holds P' m Q' \<Longrightarrow> (\<And>s. P s \<Longrightarrow> P' s) \<Longrightarrow> (\<And>r t. Q' r t \<Longrightarrow> Q r t) \<Longrightarrow> holds P m Q"
  by (rule holdsI) (blast dest: holdsD)

lemma holds_bind:
  assumes "holds P m (\<lambda>r t. case r of Inl e \<Rightarrow> Q (Inl e) t | Inr x \<Rightarrow> R x t)"
    and "\<And>x. holds (R x) (f x) Q"
  shows "holds P (bind_op m f) Q"
  unfolding holds_def
proof (intro allI impI)
  fix s r t
  assume P: "P s" and run: "bind_op m f s = (r, t)"
  obtain x u where m: "m s = (x, u)" by (cases "m s")
  with assms(1) P have x: "case x of Inl e \<Rightarrow> Q (Inl e) u | Inr y \<Rightarrow> R y u"
    by (auto simp: holds_def)
  show "Q r t"
  proof (cases x)
    case (Inl e)
    with m x run show ?thesis by (simp add: bind_op_def)
  next
    case (Inr y)
    with m x run have "R y u" "f y u = (r, t)" by (simp_all add: bind_op_def)
    with assms(2) [of y] show ?thesis by (auto simp: holds_def)
  qed
qed

lemma holds_try:
  assumes "holds P m (\<lambda>r t. case r of Inl e \<Rightarrow> H e t \<and> Q (Inl ProcessExit) t | Inr x \<Rightarrow> R x t)"
    and "\<And>e. holds (H e) (h e) Q" and "\<And>x. holds (R x) (f x) Q"
  shows "holds P (try_op m h f) Q"
  unfolding holds_def
proof (intro allI impI)
  fix s r t
  assume P: "P s" and run: "try_op m h f s = (r, t)"
  obtain x u where m: "m s = (x, u)" by (cases "m s")
  with assms(1) P have x: "case x of Inl e \<Rightarrow> H e u \<and> Q (Inl ProcessExit) u | Inr y \<Rightarrow> R y u"
    by (auto simp: holds_def)
  show "Q r t"
  proof (cases x)
    case (Inl e)
    with m x run assms(2) [of e] show ?thesis
      by (auto simp: try_op_def holds_def split: if_splits)
  next
    case (Inr y)
    with m x run have "R y u" "f y u = (r, t)" by (simp_all add: try_op_def)
    with assms(3) [of y] show ?thesis by (auto simp: holds_def)
  qed
qed

lemma holds_ret: "(\<And>s. P s \<Longrightarrow> Q (Inr x) s) \<Longrightarrow> holds P (ret x) Q"
  by (simp add: holds_def ret_def)

lemma holds_raise: "(\<And>s. P s \<Longrightarrow> Q (Inl e) s) \<Longrightarrow> holds P (raise_op e) Q"
  by (simp add: holds_def raise_op_def)

lemma holds_lift: "(\<And>s. P s \<Longrightarrow> Q x s) \<Longrightarrow> holds P (lift_op x) Q"
  by (simp add: holds_def lift_op_def)

lemma holds_if: "(c \<Longrightarrow> holds P m Q) \<Longrightarrow> (\<not> c \<Longrightarrow> holds P n Q) \<Longrightarrow> holds P (if c then m else n) Q"
  by simp

text \<open>
  The same with one assertion for every exception and one, of the result, for a return; the rules
  below are the ones the verification of stateful components is done with.
\<close>

definition post :: "('s \<Rightarrow> bool) \<Rightarrow> ('a \<Rightarrow> 's \<Rightarrow> bool) \<Rightarrow> 'a fallible \<Rightarrow> 's \<Rightarrow> bool" where
  "post E R r = (case r of Inl e \<Rightarrow> E | Inr x \<Rightarrow> R x)"

lemma post_simps [simp]: "post E R (Inl e) = E" "post E R (Inr x) = R x"
  by (simp_all add: post_def)

lemma hoare_bind:
  assumes "holds P m (post E R)" and "\<And>x. holds (R x) (f x) (post E S)"
  shows "holds P (bind_op m f) (post E S)"
proof (rule holds_bind)
  show "holds P m (\<lambda>r t. case r of Inl e \<Rightarrow> post E S (Inl e) t | Inr x \<Rightarrow> R x t)"
    using assms(1) unfolding holds_def post_def by (auto split: sum.splits)
qed (rule assms(2))

lemma hoare_try:
  assumes "holds P m (post H R)" and "\<And>t. H t \<Longrightarrow> E t" and "\<And>e. holds H (h e) (post E S)"
    and "\<And>x. holds (R x) (f x) (post E S)"
  shows "holds P (try_op m h f) (post E S)"
proof (rule holds_try)
  show "holds P m (\<lambda>r t. case r of Inl e \<Rightarrow> H t \<and> post E S (Inl ProcessExit) t | Inr x \<Rightarrow> R x t)"
    using assms(1,2) unfolding holds_def post_def by (auto split: sum.splits)
qed (rule assms(3,4))+

lemma hoare_weaken:
  assumes "holds P' m (post E' R')" and "\<And>s. P s \<Longrightarrow> P' s" and "\<And>s. E' s \<Longrightarrow> E s" and "\<And>y s. R' y s \<Longrightarrow> R y s"
  shows "holds P m (post E R)"
  using assms(1)
proof (rule holds_weaken)
  fix r t
  assume "post E' R' r t"
  then show "post E R r t" using assms(3,4) by (cases r) simp_all
qed (rule assms(2))

lemma hoare_strengthen:
  "holds P' m (post E R) \<Longrightarrow> (\<And>s. P s \<Longrightarrow> P' s) \<Longrightarrow> holds P m (post E R)"
  by (rule holds_weaken)

lemma hoare_ret: "(\<And>s. P s \<Longrightarrow> R y s) \<Longrightarrow> holds P (ret y) (post E R)"
  by (rule holds_ret) simp

lemma hoare_raise: "(\<And>s. P s \<Longrightarrow> E s) \<Longrightarrow> holds P (raise_op e) (post E R)"
  by (rule holds_raise) simp

lemma hoare_lift: "(\<And>s. P s \<Longrightarrow> E s) \<Longrightarrow> holds P (lift_op r) (post E (\<lambda>y s. P s \<and> r = Inr y))"
  by (rule holds_lift) (cases r; simp)

lemma hoare_pure: "(c \<Longrightarrow> holds P m Q) \<Longrightarrow> holds (\<lambda>s. P s \<and> c) m Q"
  unfolding holds_def by blast

text \<open>And with an assertion of the exception.\<close>

definition outcome :: "(py_exception \<Rightarrow> 's \<Rightarrow> bool) \<Rightarrow> ('a \<Rightarrow> 's \<Rightarrow> bool) \<Rightarrow> 'a fallible \<Rightarrow> 's \<Rightarrow> bool" where
  "outcome E R r s = (case r of Inl e \<Rightarrow> E e s | Inr x \<Rightarrow> R x s)"

lemma outcome_simps [simp]: "outcome E R (Inl e) s = E e s" "outcome E R (Inr x) s = R x s"
  by (simp_all add: outcome_def)

lemma outcome_bind:
  assumes "holds P m (outcome E R)" and "\<And>x. holds (R x) (f x) (outcome E S)"
  shows "holds P (bind_op m f) (outcome E S)"
proof (rule holds_bind)
  show "holds P m (\<lambda>r t. case r of Inl e \<Rightarrow> outcome E S (Inl e) t | Inr x \<Rightarrow> R x t)"
    using assms(1) unfolding holds_def outcome_def by (auto split: sum.splits)
qed (rule assms(2))

lemma outcome_weaken:
  assumes "holds P' m (outcome E' R')" and "\<And>s. P s \<Longrightarrow> P' s" and "\<And>e s. E' e s \<Longrightarrow> E e s"
    and "\<And>x s. R' x s \<Longrightarrow> R x s"
  shows "holds P m (outcome E R)"
  using assms(1)
proof (rule holds_weaken)
  fix r t
  assume "outcome E' R' r t"
  then show "outcome E R r t" using assms(3,4) by (cases r) simp_all
qed (rule assms(2))

lemma outcome_ret: "(\<And>s. P s \<Longrightarrow> R x s) \<Longrightarrow> holds P (ret x) (outcome E R)"
  by (simp add: holds_def ret_def)

lemma outcome_raise: "(\<And>s. P s \<Longrightarrow> E e s) \<Longrightarrow> holds P (raise_op e) (outcome E R)"
  by (simp add: holds_def raise_op_def)

lemma outcome_lift:
  "(\<And>s e. P s \<Longrightarrow> r = Inl e \<Longrightarrow> E e s) \<Longrightarrow> holds P (lift_op r) (outcome E (\<lambda>x s. P s \<and> r = Inr x))"
  by (cases r) (simp_all add: holds_def lift_op_def)

end
