(* ===== verification/ExecutionStore.thy ===== *)
theory ExecutionStore
  imports ExecutionSchemas Effects
begin

text \<open>
  \<open>storage/execution.py\<close>: the repository of the execution layer, in memory and on SQLite.

  The repository in memory is a record of its dicts. The one on SQLite adds the tables; a row keeps
  the model whose JSON text the code stores, since \<open>model_validate_json\<close> of \<open>model_dump_json\<close> is
  the model again when it still validates, and it is validated again on load. Every insertion takes
  the outcome of the driver as an argument \<open>fault\<close>: when it is set, or when a key is already
  there, the insertion raises and the transaction is rolled back.

  An operation maps a repository to its result and the repository afterwards, also when it raises:
  recovery in memory raises after it has already updated some records.
\<close>

section \<open>The repository in memory\<close>

record exec_store =
  xs_acceptances :: "(string, demo_execution_environment_acceptance) dict"
  xs_approvals :: "(string, demo_execution_approval) dict"
  xs_revocations :: "(string, demo_execution_approval_revocation) dict"
  xs_control_events :: "execution_control_event list"
  xs_records :: "(string, demo_execution_record) dict"
  xs_source_index :: "(string, string) dict"
  xs_client_index :: "(string, string) dict"

definition empty_store :: exec_store where
  "empty_store = \<lparr>xs_acceptances = [], xs_approvals = [], xs_revocations = [], xs_control_events = [],
     xs_records = [], xs_source_index = [], xs_client_index = []\<rparr>"

definition xs_add_environment_acceptance ::
  "demo_execution_environment_acceptance \<Rightarrow> (exec_store, unit) op" where
  "xs_add_environment_acceptance a s =
     (if map_of (xs_acceptances s) (deea_acceptance_id a) \<noteq> None
      then (Inl (ValueError ''environment acceptance identity already exists''), s)
      else (Inr (), s\<lparr>xs_acceptances := AList.update (deea_acceptance_id a) a (xs_acceptances s)\<rparr>))"

definition xs_add_approval :: "demo_execution_approval \<Rightarrow> (exec_store, unit) op" where
  "xs_add_approval a s =
     (if map_of (xs_approvals s) (dea_approval_id a) \<noteq> None
      then (Inl (ValueError ''DEMO approval identity already exists''), s)
      else (Inr (), s\<lparr>xs_approvals := AList.update (dea_approval_id a) a (xs_approvals s)\<rparr>))"

definition xs_revoke_approval :: "sha \<Rightarrow> demo_execution_approval_revocation \<Rightarrow> (exec_store, unit) op" where
  "xs_revoke_approval sha r s =
     (if map_of (xs_revocations s) (dear_revocation_id r) \<noteq> None
      then (Inl (ValueError ''approval revocation identity already exists''), s)
      else if (case map_of (xs_approvals s) (dear_approval_id r) of None \<Rightarrow> True
          | Some a \<Rightarrow> content_digest sha (dump_demo_execution_approval a) \<noteq> dear_approval_digest r)
      then (Inl (ValueError ''approval revocation does not match an accepted approval''), s)
      else (Inr (), s\<lparr>xs_revocations := AList.update (dear_revocation_id r) r (xs_revocations s)\<rparr>))"

definition xs_approval_is_revoked :: "exec_store \<Rightarrow> string \<Rightarrow> string \<Rightarrow> bool" where
  "xs_approval_is_revoked s aid digest \<longleftrightarrow>
     list_ex (\<lambda>(k, r). dear_approval_id r = aid \<and> dear_approval_digest r = digest) (xs_revocations s)"

definition xs_effective_approvals ::
  "sha \<Rightarrow> exec_store \<Rightarrow> string \<Rightarrow> string \<Rightarrow> string \<Rightarrow> instant \<Rightarrow> demo_execution_approval list" where
  "xs_effective_approvals sha s account environment sy t =
     sort_key dea_approval_id (filter (\<lambda>a. dea_account_ref a = account \<and> dea_environment_ref a = environment \<and>
         dea_symbol a = sy \<and> approval_applies_at a t \<and>
         \<not> xs_approval_is_revoked s (dea_approval_id a) (content_digest sha (dump_demo_execution_approval a)))
       (map snd (xs_approvals s)))"

definition xs_current_control_event :: "exec_store \<Rightarrow> execution_control_event option" where
  "xs_current_control_event s =
     (if xs_control_events s = [] then None else Some (last (xs_control_events s)))"

definition xs_control_state :: "exec_store \<Rightarrow> execution_control_state" where
  "xs_control_state s =
     (if xs_control_events s = [] then execution_control_state.DISABLED
      else ece_state (last (xs_control_events s)))"

definition xs_append_control_event :: "execution_control_event \<Rightarrow> (exec_store, unit) op" where
  "xs_append_control_event e s =
     (if ece_previous_state e \<noteq> map_option ece_state (xs_current_control_event s)
      then (Inl (ValueError ''control event does not continue the append-only state''), s)
      else (Inr (), s\<lparr>xs_control_events := xs_control_events s @ [e]\<rparr>))"

definition build_record :: "demo_execution_record \<Rightarrow> demo_execution_record fallible" where
  "build_record = build ''DemoExecutionRecord'' ok_demo_execution_record"

definition claimed_record ::
  "demo_order_intent \<Rightarrow> demo_execution_preflight \<Rightarrow> fresh_risk_revalidation \<Rightarrow> string \<Rightarrow> instant \<Rightarrow>
     demo_execution_record" where
  "claimed_record i p r owner t =
     \<lparr>der_schema_version = ''1.0.0'', der_intent = i, der_state = demo_execution_state.CLAIMED,
      der_claim_owner = Some owner, der_preflight = Some p, der_risk_revalidation = Some r,
      der_order_check = None, der_final_guard = None, der_submission = None, der_reconciliation = None,
      der_events = [
        \<lparr>dee_sequence = 1, dee_state = demo_execution_state.CREATED, dee_occurred_at = doi_created_at i,
         dee_failure = None\<rparr>,
        \<lparr>dee_sequence = 2, dee_state = demo_execution_state.CLAIMED, dee_occurred_at = t,
         dee_failure = None\<rparr>]\<rparr>"

definition xs_claim ::
  "demo_order_intent \<Rightarrow> demo_execution_preflight \<Rightarrow> fresh_risk_revalidation \<Rightarrow> string \<Rightarrow> instant \<Rightarrow>
     (exec_store, demo_execution_record) op" where
  "xs_claim i p r owner t s =
     (if map_of (xs_records s) (doi_execution_intent_id i) \<noteq> None \<or>
         map_of (xs_source_index s) (doi_source_shadow_intent_digest i) \<noteq> None \<or>
         map_of (xs_client_index s) (doi_client_trade_id i) \<noteq> None
      then (Inl (DemoExecutionError demo_execution_failure_category.DUPLICATE_EXECUTION_INTENT
              ''execution identity or source shadow intent was already claimed''), s)
      else case build_record (claimed_record i p r owner t) of
          Inl e \<Rightarrow> (Inl e, s)
        | Inr x \<Rightarrow> (Inr x, s\<lparr>
            xs_records := AList.update (doi_execution_intent_id i) x (xs_records s),
            xs_source_index := AList.update (doi_source_shadow_intent_digest i)
              (doi_execution_intent_id i) (xs_source_index s),
            xs_client_index := AList.update (doi_client_trade_id i)
              (doi_execution_intent_id i) (xs_client_index s)\<rparr>))"

definition xs_claim_is_owned :: "exec_store \<Rightarrow> string \<Rightarrow> string \<Rightarrow> bool" where
  "xs_claim_is_owned s iid owner \<longleftrightarrow>
     (case map_of (xs_records s) iid of None \<Rightarrow> False
      | Some r \<Rightarrow> der_claim_owner r = Some owner \<and> der_state r = demo_execution_state.CLAIMED)"

definition xs_save :: "demo_execution_record \<Rightarrow> (exec_store, unit) op" where
  "xs_save r s =
     (case map_of (xs_records s) (doi_execution_intent_id (der_intent r)) of
        None \<Rightarrow> (Inl (ValueError ''execution record has not been claimed''), s)
      | Some c \<Rightarrow>
          if der_intent r \<noteq> der_intent c \<or> der_claim_owner r \<noteq> der_claim_owner c
          then (Inl (ValueError ''execution intent or claim owner cannot be changed''), s)
          else if length (der_events r) \<noteq> length (der_events c) + 1 \<or> butlast (der_events r) \<noteq> der_events c
          then (Inl (ValueError ''execution record updates must append exactly one event''), s)
          else (Inr (), s\<lparr>xs_records := AList.update (doi_execution_intent_id (der_intent r)) r (xs_records s)\<rparr>))"

definition xs_get :: "exec_store \<Rightarrow> string \<Rightarrow> demo_execution_record option" where
  "xs_get s iid = map_of (xs_records s) iid"

definition xs_get_by_source_digest :: "exec_store \<Rightarrow> string \<Rightarrow> demo_execution_record option fallible" where
  "xs_get_by_source_digest s digest =
     (case map_of (xs_source_index s) digest of None \<Rightarrow> Inr None
      | Some iid \<Rightarrow> (case map_of (xs_records s) iid of None \<Rightarrow> Inl (KeyError iid) | Some r \<Rightarrow> Inr (Some r)))"

section \<open>Recovery after a restart\<close>

definition next_event ::
  "demo_execution_record \<Rightarrow> demo_execution_state \<Rightarrow> instant \<Rightarrow> demo_execution_failure option \<Rightarrow>
     demo_execution_event" where
  "next_event r st t f =
     \<lparr>dee_sequence = int (length (der_events r)) + 1, dee_state = st, dee_occurred_at = t, dee_failure = f\<rparr>"

text \<open>\<open>model_copy(update=...)\<close>: the updated record is not validated.\<close>

definition transition ::
  "demo_execution_record \<Rightarrow> demo_execution_state \<Rightarrow> instant \<Rightarrow> demo_execution_failure option \<Rightarrow>
     demo_submission_receipt option \<Rightarrow> demo_execution_record" where
  "transition r st t f submission = r\<lparr>der_state := st,
     der_submission := (case submission of None \<Rightarrow> der_submission r | Some x \<Rightarrow> Some x),
     der_events := der_events r @ [next_event r st t f]\<rparr>"

definition restart_receipt :: "demo_execution_record \<Rightarrow> instant \<Rightarrow> demo_submission_receipt" where
  "restart_receipt r t =
     \<lparr>dsr_schema_version = ''1.0.0'', dsr_execution_intent_id = doi_execution_intent_id (der_intent r),
      dsr_intent_digest = doi_intent_digest (der_intent r),
      dsr_disposition = demo_submission_disposition.UNKNOWN,
      dsr_dispatch_started_at = dee_occurred_at (last (der_events r)), dsr_dispatch_completed_at = t,
      dsr_broker_code = None, dsr_evidence = None,
      dsr_sanitized_detail = ''no broker response survived process restart''\<rparr>"

text \<open>One record: left alone, moved to its next version, or an exception of a constructor.\<close>

definition recover_record :: "instant \<Rightarrow> demo_execution_record \<Rightarrow> demo_execution_record option fallible" where
  "recover_record t r =
     (if der_state r \<in> {demo_execution_state.CREATED, demo_execution_state.CLAIMED}
      then Inr (Some (transition r demo_execution_state.REJECTED t
        (Some \<lparr>def_code = demo_execution_failure_category.PROCESS_RESTART,
          def_sanitized_detail = ''pre-dispatch execution was abandoned after restart''\<rparr>) None))
      else if der_state r \<in> {demo_execution_state.DISPATCHING, demo_execution_state.SUBMITTED}
      then bind_result (case der_submission r of Some x \<Rightarrow> Inr x
          | None \<Rightarrow> build ''DemoSubmissionReceipt'' ok_demo_submission_receipt (restart_receipt r t))
        (\<lambda>x. Inr (Some (transition r demo_execution_state.UNKNOWN t
           (Some \<lparr>def_code = demo_execution_failure_category.DISPATCH_RESULT_UNKNOWN,
             def_sanitized_detail = ''dispatch state is uncertain after process restart''\<rparr>) (Some x))))
      else Inr None)"

fun recover_loop ::
  "instant \<Rightarrow> demo_execution_record list \<Rightarrow> demo_execution_record list \<Rightarrow>
     (exec_store, demo_execution_record list) op" where
  "recover_loop t [] done s = (Inr (rev done), s)"
| "recover_loop t (r # rs) done s =
     (case recover_record t r of
        Inl e \<Rightarrow> (Inl e, s)
      | Inr None \<Rightarrow> recover_loop t rs done s
      | Inr (Some r') \<Rightarrow> recover_loop t rs (r' # done)
          (s\<lparr>xs_records := AList.update (doi_execution_intent_id (der_intent r)) r' (xs_records s)\<rparr>))"

definition xs_recover_incomplete :: "instant \<Rightarrow> (exec_store, demo_execution_record list) op" where
  "xs_recover_incomplete t s = recover_loop t (map snd (xs_records s)) [] s"

section \<open>The repository on SQLite\<close>

record exec_tables =
  xt_acceptances :: "(string \<times> demo_execution_environment_acceptance) list"
  xt_approvals :: "(string \<times> demo_execution_approval) list"
  xt_revocations :: "(string \<times> demo_execution_approval_revocation) list"
  xt_control_events :: "(string \<times> instant \<times> execution_control_event) list"
  xt_intents :: "(string \<times> string \<times> string \<times> demo_order_intent) list"
  xt_revisions :: "((string \<times> nat) \<times> demo_execution_record) list"

record sql_repo =
  sq_mem :: exec_store
  sq_db :: exec_tables

definition empty_tables :: exec_tables where
  "empty_tables = \<lparr>xt_acceptances = [], xt_approvals = [], xt_revocations = [], xt_control_events = [],
     xt_intents = [], xt_revisions = []\<rparr>"

text \<open>\<open>INSERT INTO\<close> a table with a primary key.\<close>

definition insert_row :: "bool \<Rightarrow> 'k \<Rightarrow> 'v \<Rightarrow> ('k \<times> 'v) list \<Rightarrow> ('k \<times> 'v) list fallible" where
  "insert_row fault k v rows =
     (if fault then Inl (StorageError ''sqlite'')
      else if map_of rows k \<noteq> None then Inl IntegrityError
      else Inr (rows @ [(k, v)]))"

text \<open>
  The pattern of every SQLite method: the operation in memory, then the transaction; when the
  transaction raises, the memory is put back by \<open>undo\<close> and the exception goes on.
\<close>

definition persist ::
  "(exec_store, 'a) op \<Rightarrow> ('a \<Rightarrow> exec_tables \<Rightarrow> exec_tables fallible) \<Rightarrow>
     (exec_store \<Rightarrow> exec_store \<Rightarrow> exec_store) \<Rightarrow> (sql_repo, 'a) op" where
  "persist f write undo q =
     (case f (sq_mem q) of
        (Inl e, m) \<Rightarrow> (Inl e, q\<lparr>sq_mem := m\<rparr>)
      | (Inr x, m) \<Rightarrow> (case write x (sq_db q) of
            Inl e \<Rightarrow> (Inl e, q\<lparr>sq_mem := undo (sq_mem q) m\<rparr>)
          | Inr db \<Rightarrow> (Inr x, q\<lparr>sq_mem := m, sq_db := db\<rparr>)))"

definition sq_add_environment_acceptance ::
  "bool \<Rightarrow> demo_execution_environment_acceptance \<Rightarrow> (sql_repo, unit) op" where
  "sq_add_environment_acceptance fault a = persist (xs_add_environment_acceptance a)
     (\<lambda>_ db. bind_result (insert_row fault (deea_acceptance_id a) a (xt_acceptances db))
        (\<lambda>rows. Inr (db\<lparr>xt_acceptances := rows\<rparr>)))
     (\<lambda>_ m. m\<lparr>xs_acceptances := AList.delete (deea_acceptance_id a) (xs_acceptances m)\<rparr>)"

definition sq_add_approval :: "bool \<Rightarrow> demo_execution_approval \<Rightarrow> (sql_repo, unit) op" where
  "sq_add_approval fault a = persist (xs_add_approval a)
     (\<lambda>_ db. bind_result (insert_row fault (dea_approval_id a) a (xt_approvals db))
        (\<lambda>rows. Inr (db\<lparr>xt_approvals := rows\<rparr>)))
     (\<lambda>_ m. m\<lparr>xs_approvals := AList.delete (dea_approval_id a) (xs_approvals m)\<rparr>)"

definition sq_revoke_approval ::
  "sha \<Rightarrow> bool \<Rightarrow> demo_execution_approval_revocation \<Rightarrow> (sql_repo, unit) op" where
  "sq_revoke_approval sha fault r = persist (xs_revoke_approval sha r)
     (\<lambda>_ db. bind_result (insert_row fault (dear_revocation_id r) r (xt_revocations db))
        (\<lambda>rows. Inr (db\<lparr>xt_revocations := rows\<rparr>)))
     (\<lambda>_ m. m\<lparr>xs_revocations := AList.delete (dear_revocation_id r) (xs_revocations m)\<rparr>)"

definition sq_append_control_event :: "bool \<Rightarrow> execution_control_event \<Rightarrow> (sql_repo, unit) op" where
  "sq_append_control_event fault e = persist (xs_append_control_event e)
     (\<lambda>_ db. bind_result (insert_row fault (ece_event_id e) (ece_occurred_at e, e) (xt_control_events db))
        (\<lambda>rows. Inr (db\<lparr>xt_control_events := rows\<rparr>)))
     (\<lambda>_ m. m\<lparr>xs_control_events := butlast (xs_control_events m)\<rparr>)"

definition insert_revision :: "bool \<Rightarrow> demo_execution_record \<Rightarrow> exec_tables \<Rightarrow> exec_tables fallible" where
  "insert_revision fault r db =
     bind_result (insert_row fault (doi_execution_intent_id (der_intent r), length (der_events r)) r
        (xt_revisions db))
       (\<lambda>rows. Inr (db\<lparr>xt_revisions := rows\<rparr>))"

text \<open>The intents table has two more unique columns.\<close>

definition insert_intent :: "bool \<Rightarrow> demo_order_intent \<Rightarrow> exec_tables \<Rightarrow> exec_tables fallible" where
  "insert_intent fault i db =
     (if \<not> fault \<and> list_ex (\<lambda>(k, src, cl, x). src = doi_source_shadow_intent_digest i \<or>
          cl = doi_client_trade_id i) (xt_intents db)
      then Inl IntegrityError
      else bind_result (insert_row fault (doi_execution_intent_id i)
          (doi_source_shadow_intent_digest i, doi_client_trade_id i, i) (xt_intents db))
        (\<lambda>rows. Inr (db\<lparr>xt_intents := rows\<rparr>)))"

definition sq_claim ::
  "bool \<Rightarrow> demo_order_intent \<Rightarrow> demo_execution_preflight \<Rightarrow> fresh_risk_revalidation \<Rightarrow> string \<Rightarrow> instant \<Rightarrow>
     (sql_repo, demo_execution_record) op" where
  "sq_claim fault i p r owner t = persist (xs_claim i p r owner t)
     (\<lambda>x db. bind_result (insert_intent fault i db) (insert_revision False x))
     (\<lambda>_ m. m\<lparr>
        xs_records := AList.delete (doi_execution_intent_id i) (xs_records m),
        xs_source_index := AList.delete (doi_source_shadow_intent_digest i) (xs_source_index m),
        xs_client_index := AList.delete (doi_client_trade_id i) (xs_client_index m)\<rparr>)"

definition sq_save :: "bool \<Rightarrow> demo_execution_record \<Rightarrow> (sql_repo, unit) op" where
  "sq_save fault r = persist (xs_save r) (\<lambda>_. insert_revision fault r)
     (\<lambda>old m. let iid = doi_execution_intent_id (der_intent r)
        in case map_of (xs_records old) iid of None \<Rightarrow> m
           | Some c \<Rightarrow> m\<lparr>xs_records := AList.update iid c (xs_records m)\<rparr>)"

fun insert_revisions :: "bool \<Rightarrow> demo_execution_record list \<Rightarrow> exec_tables \<Rightarrow> exec_tables fallible" where
  "insert_revisions fault [] db = (if fault then Inl (StorageError ''sqlite'') else Inr db)"
| "insert_revisions fault (r # rs) db = bind_result (insert_revision False r db) (insert_revisions fault rs)"

definition sq_recover_incomplete :: "bool \<Rightarrow> instant \<Rightarrow> (sql_repo, demo_execution_record list) op" where
  "sq_recover_incomplete fault t = persist (xs_recover_incomplete t) (insert_revisions fault)
     (\<lambda>old m. m\<lparr>xs_records := xs_records old\<rparr>)"

section \<open>Loading\<close>

text \<open>The latest revision of each intent, in the order the intents first appear.\<close>

definition latest_revision :: "((string \<times> nat) \<times> demo_execution_record) list \<Rightarrow> string \<Rightarrow> nat" where
  "latest_revision rows iid = Max (set (map (snd \<circ> fst) (filter (\<lambda>row. fst (fst row) = iid) rows)))"

definition latest_rows :: "((string \<times> nat) \<times> demo_execution_record) list \<Rightarrow> demo_execution_record list" where
  "latest_rows rows = map snd (filter (\<lambda>((iid, n), r). n = latest_revision rows iid) rows)"

text \<open>
  \<open>ORDER BY occurred_at, event_id\<close>: the ISO texts of UTC times order as the times do.
\<close>

definition control_order :: "(string \<times> instant \<times> execution_control_event) list \<Rightarrow> execution_control_event list" where
  "control_order rows = map (snd \<circ> snd) (sort_key (fst \<circ> snd) (sort_key fst rows))"

definition load_record :: "exec_store \<Rightarrow> demo_execution_record \<Rightarrow> exec_store" where
  "load_record s r = (let i = der_intent r; iid = doi_execution_intent_id i in s\<lparr>
     xs_records := AList.update iid r (xs_records s),
     xs_source_index := AList.update (doi_source_shadow_intent_digest i) iid (xs_source_index s),
     xs_client_index := AList.update (doi_client_trade_id i) iid (xs_client_index s)\<rparr>)"

definition load_store :: "exec_tables \<Rightarrow> exec_store fallible" where
  "load_store db =
     (let events = control_order (xt_control_events db); records = latest_rows (xt_revisions db)
      in if \<not> list_all ok_execution_control_event events then Inl (ValidationError ''ExecutionControlEvent'')
         else if \<not> list_all ok_demo_execution_record records then Inl (ValidationError ''DemoExecutionRecord'')
         else Inr (foldl load_record (empty_store\<lparr>
            xs_acceptances := foldl (\<lambda>d (k, a). AList.update (deea_acceptance_id a) a d) [] (xt_acceptances db),
            xs_approvals := foldl (\<lambda>d (k, a). AList.update (dea_approval_id a) a d) [] (xt_approvals db),
            xs_revocations := foldl (\<lambda>d (k, a). AList.update (dear_revocation_id a) a d) []
              (xt_revocations db),
            xs_control_events := events\<rparr>) records))"

end
