(* ===== verification/ExecutionGuards.thy ===== *)
theory ExecutionGuards
  imports ExecutionSchemas
begin

text \<open>
  \<open>execution/identifiers.py\<close>, \<open>execution/acceptance.py\<close> and \<open>execution/preflight.py\<close>: identities and
  digests of execution artifacts, the authority checks, the fresh-observation preflight and the
  final dispatch guard. Each function that raises on its first failed check is a run of guards.
  Durations given in seconds are taken to be within \<open>timedelta\<close>'s bound.
\<close>

section \<open>Identifiers\<close>

definition environment_fingerprint :: "sha \<Rightarrow> mt5_account_info \<Rightarrow> mt5_terminal_health \<Rightarrow> string" where
  "environment_fingerprint sha a h =
     ''env-v1:'' @ remove_prefix ''sha256:'' (content_digest sha (PDict
       [(''domain'', PStr ''ai-trading-team-demo-environment-v1''),
        (''account_ref'', PStr (account_fingerprint sha (mai_account_id a) (mai_server a))),
        (''account_mode'', PInt (value_broker_account_mode (mai_trade_mode a))),
        (''company'', PStr (mai_company a)),
        (''package_version'', PStr (mth_package_version h)),
        (''terminal_version'', dump_option PStr (mth_terminal_version h)),
        (''terminal_build'', dump_option PInt (mth_terminal_build h)),
        (''terminal_name'', dump_option PStr (mth_terminal_name h)),
        (''terminal_company'', dump_option PStr (mth_terminal_company h))]))"

definition capability_definition_digest :: "sha \<Rightarrow> demo_symbol_execution_capabilities \<Rightarrow> string" where
  "capability_definition_digest sha c =
     content_digest sha (dump_without ''observed_at'' (dump_demo_symbol_execution_capabilities c))"

definition symbol_definition_digest :: "sha \<Rightarrow> mt5_symbol_info \<Rightarrow> string" where
  "symbol_definition_digest sha i =
     content_digest sha (dump_without ''retrieved_at'' (dump_mt5_symbol_info i))"

definition intent_payload_digest :: "sha \<Rightarrow> demo_order_intent \<Rightarrow> string" where
  "intent_payload_digest sha i = content_digest sha (dump_without ''intent_digest'' (dump_demo_order_intent i))"

text \<open>
  The payload is the intent without its digest: the placeholder is overwritten for validation and
  then replaced by the digest (a \<open>model_copy\<close>, not validated).
\<close>

definition seal_demo_order_intent :: "sha \<Rightarrow> demo_order_intent \<Rightarrow> demo_order_intent fallible" where
  "seal_demo_order_intent sha payload =
     bind_result (build ''DemoOrderIntent'' ok_demo_order_intent
        (payload\<lparr>doi_intent_digest := ''sha256:'' @ replicate 64 (CHR ''0'')\<rparr>))
       (\<lambda>i. Inr (i\<lparr>doi_intent_digest := intent_payload_digest sha i\<rparr>))"

definition verify_demo_order_intent :: "sha \<Rightarrow> demo_order_intent \<Rightarrow> bool" where
  "verify_demo_order_intent sha i \<longleftrightarrow> intent_payload_digest sha i = doi_intent_digest i"

definition execution_snapshot_id :: "sha \<Rightarrow> string \<Rightarrow> instant \<Rightarrow> string" where
  "execution_snapshot_id sha cycle captured_at = deterministic_id sha ''execution-snapshot'' (PDict
     [(''cycle_id'', PStr cycle), (''purpose'', PStr ''PRE_SEND_REVALIDATION''),
      (''captured_at'', PTime captured_at)])"

definition revalidation_proposal_id :: "sha \<Rightarrow> string \<Rightarrow> string \<Rightarrow> string" where
  "revalidation_proposal_id sha source snapshot =
     deterministic_id sha ''execution-revalidation-proposal'' (PDict
       [(''source_proposal_id'', PStr source), (''snapshot_id'', PStr snapshot)])"

definition execution_intent_id :: "sha \<Rightarrow> string \<Rightarrow> string \<Rightarrow> string \<Rightarrow> string" where
  "execution_intent_id sha source environment policy = deterministic_id sha ''demo-execution-intent'' (PDict
     [(''source_intent_digest'', PStr source), (''environment_ref'', PStr environment),
      (''policy_digest'', PStr policy)])"

definition client_trade_id :: "sha \<Rightarrow> string \<Rightarrow> string" where
  "client_trade_id sha intent =
     deterministic_id sha ''demo-client-trade'' (PDict [(''execution_intent_id'', PStr intent)])"

section \<open>Authority\<close>

abbreviation exec_error :: "demo_execution_failure_category \<Rightarrow> string \<Rightarrow> py_exception" where
  "exec_error \<equiv> DemoExecutionError"

primrec control_failure :: "execution_control_state \<Rightarrow> demo_execution_failure_category" where
  "control_failure execution_control_state.DISABLED = demo_execution_failure_category.EXECUTION_DISABLED"
| "control_failure execution_control_state.ENABLED = demo_execution_failure_category.UNKNOWN"
| "control_failure execution_control_state.PAUSED = demo_execution_failure_category.EXECUTION_PAUSED"
| "control_failure execution_control_state.HALTED = demo_execution_failure_category.EXECUTION_HALTED"

text \<open>The approval names exactly this candidate, generation and environment.\<close>

definition approval_binds ::
  "sha \<Rightarrow> qualified_demo_execution_candidate \<Rightarrow> demo_execution_environment_acceptance \<Rightarrow>
     demo_execution_approval \<Rightarrow> demo_execution_policy \<Rightarrow> shadow_trade_intent \<Rightarrow> bool" where
  "approval_binds sha cand acc app pol i \<longleftrightarrow>
     dea_candidate_id app = qdec_candidate_id cand \<and>
     dea_source_decision_record_digest app =
       content_digest sha (dump_continuous_decision_record (qdec_decision cand)) \<and>
     dea_source_shadow_intent_digest app = content_digest sha (dump_shadow_trade_intent i) \<and>
     dea_analysis_proposal_digest app = content_digest sha (dump_trade_proposal (sti_proposal i)) \<and>
     dea_analysis_risk_decision_digest app = content_digest sha (dump_risk_decision (sti_risk_decision i)) \<and>
     dea_qualification_run_id app = cqs_qualification_run_id (qdec_qualification_status cand) \<and>
     dea_qualification_status_digest app = qdec_qualification_status_digest cand \<and>
     dea_generation_id app = qdm_generation_id (qdec_dependency_manifest cand) \<and>
     dea_generation_digest app = qdec_dependency_manifest_digest cand \<and>
     dea_environment_acceptance_id app = deea_acceptance_id acc \<and>
     dea_environment_acceptance_digest app =
       content_digest sha (dump_demo_execution_environment_acceptance acc) \<and>
     dea_account_ref app = deea_account_ref acc \<and> dea_environment_ref app = deea_environment_ref acc \<and>
     dea_symbol app = deea_symbol acc \<and>
     dea_execution_policy_digest app = content_digest sha (dump_demo_execution_policy pol)"

definition authority_guards ::
  "sha \<Rightarrow> qualified_demo_execution_candidate \<Rightarrow> demo_execution_environment_acceptance \<Rightarrow>
     demo_execution_approval \<Rightarrow> demo_execution_policy \<Rightarrow> execution_control_state \<Rightarrow> bool \<Rightarrow> instant \<Rightarrow>
     (bool \<times> py_exception) list" where
  "authority_guards sha cand acc app pol control revoked now =
     (let st = qdec_qualification_status cand; val = cqs_validity_assessment st;
          man = qdec_dependency_manifest cand; dec = qdec_decision cand;
          star = qdm_symbol_timestamp_acceptance man
      in [
       (control \<noteq> execution_control_state.ENABLED,
          exec_error (control_failure control) ''DEMO execution control is not enabled''),
       (cqs_graduation_disposition st \<noteq> graduation_disposition.ELIGIBLE_FOR_DEMO_REVIEW,
          exec_error demo_execution_failure_category.QUALIFICATION_INELIGIBLE
            ''qualification did not pass human DEMO-review eligibility''),
       (qva_state val \<noteq> qualification_evidence_validity.VALID,
          exec_error demo_execution_failure_category.QUALIFICATION_EVIDENCE_INVALID
            ''qualification evidence is not currently valid''),
       (qva_assessed_at val > now \<or> (case qva_valid_until val of None \<Rightarrow> True | Some u \<Rightarrow> now \<ge> u),
          exec_error demo_execution_failure_category.QUALIFICATION_EVIDENCE_INVALID
            ''qualification validity window is not current''),
       (qdec_dependency_manifest_digest cand \<noteq>
            content_digest sha (dump_qualification_dependency_manifest man) \<or>
          qva_dependency_manifest_digest val \<noteq> qdec_dependency_manifest_digest cand,
          exec_error demo_execution_failure_category.ACCEPTANCE_CHAIN_INVALID
            ''qualified material generation digest is incompatible''),
       (qdec_qualification_status_digest cand \<noteq>
            content_digest sha (dump_current_qualification_status st),
          exec_error demo_execution_failure_category.ACCEPTANCE_CHAIN_INVALID
            ''qualification status digest is incompatible''),
       (list_ex (\<lambda>a. qra_provider a = model_provider.FAKE) (qdm_assignments man),
          exec_error demo_execution_failure_category.FAKE_PROVIDER_EVIDENCE
            ''fake-provider evidence cannot authorize DEMO execution''),
       (list_ex (\<lambda>a. case qra_acceptance_valid_until a of None \<Rightarrow> True | Some u \<Rightarrow> now \<ge> u)
            (qdm_assignments man),
          exec_error demo_execution_failure_category.ACCEPTANCE_CHAIN_INVALID
            ''one or more real-provider acceptance records are absent or expired''),
       (now \<ge> star_expires_at star \<or> star_symbol star \<noteq> cdr_symbol dec,
          exec_error demo_execution_failure_category.TIMESTAMP_SEMANTICS_INVALID
            ''symbol timestamp acceptance is absent, expired, or incompatible''),
       (deea_execution_policy_digest acc \<noteq> content_digest sha (dump_demo_execution_policy pol),
          exec_error demo_execution_failure_category.ENVIRONMENT_MISMATCH
            ''environment acceptance does not bind the current execution policy''),
       (now \<ge> deea_expires_at acc,
          exec_error demo_execution_failure_category.ENVIRONMENT_ACCEPTANCE_EXPIRED
            ''DEMO environment acceptance has expired''),
       (deea_symbol acc \<noteq> cdr_symbol dec,
          exec_error demo_execution_failure_category.SYMBOL_MISMATCH
            ''accepted DEMO symbol differs from the qualified decision symbol''),
       (revoked,
          exec_error demo_execution_failure_category.APPROVAL_REVOKED
            ''human DEMO approval has been revoked''),
       (\<not> approval_applies_at app now,
          exec_error demo_execution_failure_category.APPROVAL_EXPIRED
            ''human DEMO approval is not effective'')])"

definition validate_execution_authority ::
  "sha \<Rightarrow> qualified_demo_execution_candidate \<Rightarrow> demo_execution_environment_acceptance \<Rightarrow>
     demo_execution_approval \<Rightarrow> demo_execution_policy \<Rightarrow> execution_control_state \<Rightarrow> bool \<Rightarrow> instant \<Rightarrow>
     unit fallible" where
  "validate_execution_authority sha cand acc app pol control revoked now =
     bind_result (run_guards (authority_guards sha cand acc app pol control revoked now))
       (\<lambda>_. case decision_intent (qdec_decision cand) of
          None \<Rightarrow> Inl (exec_error demo_execution_failure_category.QUALIFICATION_INELIGIBLE
            ''qualified decision has no immutable SHADOW intent'')
        | Some i \<Rightarrow> if approval_binds sha cand acc app pol i then Inr ()
            else Inl (exec_error demo_execution_failure_category.APPROVAL_MISSING
              ''human approval does not exactly authorize this generation and environment''))"

section \<open>Preflight\<close>

definition shadow_intent_of :: "qualified_demo_execution_candidate \<Rightarrow> shadow_trade_intent fallible" where
  "shadow_intent_of cand = (case decision_intent (qdec_decision cand) of
       None \<Rightarrow> Inl (exec_error demo_execution_failure_category.QUALIFICATION_INELIGIBLE
         ''qualified decision has no approved shadow intent'')
     | Some i \<Rightarrow> Inr i)"

definition symbol_capability_guards ::
  "sha \<Rightarrow> mt5_symbol_info \<Rightarrow> demo_symbol_execution_capabilities \<Rightarrow> demo_execution_environment_acceptance \<Rightarrow>
     demo_execution_policy \<Rightarrow> (bool \<times> py_exception) list" where
  "symbol_capability_guards sha info cap acc pol = [
     (dsec_symbol_info_digest cap \<noteq> symbol_definition_digest sha info,
        exec_error demo_execution_failure_category.BROKER_METADATA_CHANGED
          ''execution capabilities do not bind current symbol metadata''),
     (capability_definition_digest sha cap \<noteq> deea_symbol_capability_digest acc,
        exec_error demo_execution_failure_category.BROKER_METADATA_CHANGED
          ''current execution capabilities differ from environment acceptance''),
     (dsec_execution_mode cap \<notin> dep_supported_execution_modes pol,
        exec_error demo_execution_failure_category.UNSUPPORTED_EXECUTION_MODE
          ''symbol execution mode is not accepted by policy''),
     (dep_filling_mode pol \<notin> dsec_filling_modes cap,
        exec_error demo_execution_failure_category.UNSUPPORTED_FILLING_MODE
          ''configured filling mode is unavailable''),
     (\<not> (dsec_market_order_allowed cap \<and> dsec_stop_loss_allowed cap \<and> dsec_take_profit_allowed cap),
        exec_error demo_execution_failure_category.PROTECTION_UNSUPPORTED
          ''symbol cannot accept the single protected market-order scope''),
     (\<not> msi_selected info \<or> \<not> msi_visible info \<or>
        msi_trading_mode info \<in> {symbol_trade_mode.DISABLED, symbol_trade_mode.CLOSE_ONLY},
        exec_error demo_execution_failure_category.UNSUPPORTED_EXECUTION_MODE
          ''symbol is unavailable, unselected, or not open-capable'')]"

text \<open>The spread and the drift in ticks; each is one rounded quotient.\<close>

definition validate_quote ::
  "mt5_tick \<Rightarrow> decimal \<Rightarrow> decimal \<Rightarrow> decimal \<Rightarrow> demo_execution_policy \<Rightarrow> instant \<Rightarrow> (decimal \<times> decimal) fallible" where
  "validate_quote tick reference comparison tick_size pol now =
     (let spread = rd28 (mt_spread tick / tick_size);
          drift = rd28 (\<bar>rd28 (reference - comparison)\<bar> / tick_size)
      in bind_result (run_guards [
         (tick_size \<le> 0, exec_error demo_execution_failure_category.BROKER_METADATA_CHANGED
            ''tick or tick-size metadata is invalid''),
         (mt_source_time tick > now \<or> now - mt_source_time tick > seconds (dep_maximum_tick_age_seconds pol),
            exec_error demo_execution_failure_category.STALE_EXECUTION_TICK
              ''latest execution tick is future-dated or stale''),
         (spread > dep_maximum_spread_ticks pol,
            exec_error demo_execution_failure_category.SPREAD_LIMIT_EXCEEDED
              ''execution spread exceeds the reviewed tick limit''),
         (drift > dep_maximum_price_drift_ticks pol,
            exec_error demo_execution_failure_category.PRICE_DRIFT_EXCEEDED
              ''execution price drift exceeds the reviewed tick limit'')])
       (\<lambda>_. Inr (spread, drift)))"

definition fresh_guards ::
  "sha \<Rightarrow> qualified_demo_execution_candidate \<Rightarrow> shadow_trade_intent \<Rightarrow> fresh_execution_observation \<Rightarrow>
     demo_execution_environment_acceptance \<Rightarrow> demo_execution_policy \<Rightarrow> instant \<Rightarrow> instant \<Rightarrow>
     (bool \<times> py_exception) list" where
  "fresh_guards sha cand i obs acc pol started completed =
     (let s = feo_snapshot obs
      in [
       (completed < started \<or> completed - started > seconds (dep_maximum_preflight_seconds pol),
          exec_error demo_execution_failure_category.PREFLIGHT_EXPIRED
            ''execution preflight exceeded its deterministic time bound''),
       (completed - cdr_recorded_at (qdec_decision cand) > seconds (dep_maximum_decision_age_seconds pol),
          exec_error demo_execution_failure_category.DECISION_EXPIRED
            ''qualified shadow decision is too old for execution''),
       (ms_cycle_id s \<noteq> sti_cycle_id i \<or> ms_symbol s \<noteq> tp_symbol (sti_proposal i),
          exec_error demo_execution_failure_category.SYMBOL_MISMATCH
            ''execution snapshot does not match the qualified decision trace''),
       (account_fingerprint sha (mai_account_id (ms_account s)) (mai_server (ms_account s)) \<noteq>
            deea_account_ref acc \<or>
          arc_account_ref (rce_context (feo_risk_context_evidence obs)) \<noteq> deea_account_ref acc,
          exec_error demo_execution_failure_category.ACCOUNT_MISMATCH
            ''fresh execution account differs from accepted DEMO account''),
       (feo_environment_ref obs \<noteq> deea_environment_ref acc,
          exec_error demo_execution_failure_category.ENVIRONMENT_MISMATCH
            ''fresh execution environment differs from acceptance''),
       (mai_trade_mode (ms_account s) \<noteq> broker_account_mode.DEMO,
          exec_error demo_execution_failure_category.NON_DEMO_ACCOUNT
            ''fresh execution account is not a DEMO account''),
       (feo_account_positions obs \<noteq> [],
          exec_error demo_execution_failure_category.OPEN_POSITION_CONFLICT
            ''M11 requires zero account positions before dispatch'')] @
      symbol_capability_guards sha (ms_symbol_info s) (feo_capabilities obs) acc pol)"

definition validate_fresh_execution_observation ::
  "sha \<Rightarrow> qualified_demo_execution_candidate \<Rightarrow> fresh_execution_observation \<Rightarrow>
     demo_execution_environment_acceptance \<Rightarrow> demo_execution_policy \<Rightarrow> instant \<Rightarrow> instant \<Rightarrow>
     demo_execution_preflight fallible" where
  "validate_fresh_execution_observation sha cand obs acc pol started completed =
     bind_result (shadow_intent_of cand) (\<lambda>i.
       let s = feo_snapshot obs; info = ms_symbol_info s; p = sti_proposal i;
           link = \<lparr>esl_analysis_snapshot_id = sti_snapshot_id i, esl_execution_snapshot_id = ms_snapshot_id s,
             esl_purpose = execution_snapshot_purpose.PRE_SEND_REVALIDATION\<rparr>;
           reference = (if tp_side p = trade_side.BUY then mt_ask (ms_tick s) else mt_bid (ms_tick s));
           adverse = rd28 (dep_maximum_adverse_slippage_ticks pol * msi_trade_tick_size info);
           risk_price = (if tp_side p = trade_side.BUY then rd28 (reference + adverse)
             else rd28 (reference - adverse))
       in bind_result (build ''ExecutionSnapshotLink'' ok_execution_snapshot_link link) (\<lambda>_.
          bind_result (run_guards (fresh_guards sha cand i obs acc pol started completed)) (\<lambda>_.
          bind_result (validate_quote (ms_tick s) reference (sti_hypothetical_entry i)
            (msi_trade_tick_size info) pol completed) (\<lambda>(spread, drift).
          bind_result (exact_deviation_points (dep_maximum_adverse_slippage_ticks pol)
            (msi_trade_tick_size info) (msi_point info)) (\<lambda>deviation.
          build ''DemoExecutionPreflight'' ok_demo_execution_preflight
            \<lparr>depre_schema_version = ''1.0.0'', depre_snapshot_link = link, depre_started_at = started,
             depre_completed_at = completed, depre_reference_price = reference,
             depre_risk_validation_price = risk_price, depre_spread_ticks = spread,
             depre_price_drift_ticks = drift, depre_maximum_deviation_points = deviation,
             depre_execution_mode = dsec_execution_mode (feo_capabilities obs), depre_passed = True,
             depre_failure = None\<rparr>)))))"

section \<open>The final dispatch guard\<close>

definition guard_checks :: "string list" where
  "guard_checks = [''claim_ownership'', ''intent_expiry'', ''human_approval'', ''execution_control'',
     ''demo_environment'', ''open_positions'', ''tick_freshness'', ''spread'', ''price_drift'',
     ''symbol_capability'', ''sealed_linkage'']"

definition final_observation_check ::
  "sha \<Rightarrow> demo_order_intent \<Rightarrow> demo_execution_environment_acceptance \<Rightarrow> demo_execution_policy \<Rightarrow>
     final_dispatch_observation \<Rightarrow> instant \<Rightarrow> unit fallible" where
  "final_observation_check sha i acc pol obs now =
     bind_result (run_guards [
       (mai_trade_mode (fdo_account obs) \<noteq> broker_account_mode.DEMO,
          exec_error demo_execution_failure_category.NON_DEMO_ACCOUNT ''final dispatch account is not DEMO''),
       (fdo_account_ref obs \<noteq> doi_account_ref i \<or> fdo_account_ref obs \<noteq> deea_account_ref acc,
          exec_error demo_execution_failure_category.ACCOUNT_MISMATCH
            ''final dispatch account differs from the sealed intent''),
       (fdo_environment_ref obs \<noteq> doi_environment_ref i \<or> fdo_environment_ref obs \<noteq> deea_environment_ref acc,
          exec_error demo_execution_failure_category.ENVIRONMENT_MISMATCH
            ''final dispatch environment differs from the sealed intent''),
       (fdo_positions obs \<noteq> [],
          exec_error demo_execution_failure_category.OPEN_POSITION_CONFLICT
            ''a conflicting position appeared before dispatch''),
       (mth_connection_state (fdo_health obs) \<noteq> mt5_connection_state.CONNECTED \<or>
          \<not> mth_authenticated (fdo_health obs) \<or> mth_trade_api_disabled (fdo_health obs) \<noteq> Some False,
          exec_error demo_execution_failure_category.ENVIRONMENT_MISMATCH
            ''terminal is not connected and enabled for accepted DEMO execution''),
       (mt_symbol (fdo_tick obs) \<noteq> doi_symbol i,
          exec_error demo_execution_failure_category.SYMBOL_MISMATCH
            ''final tick symbol differs from the sealed intent'')])
     (\<lambda>_. bind_result (validate_quote (fdo_tick obs)
          (if doi_side i = trade_side.BUY then mt_ask (fdo_tick obs) else mt_bid (fdo_tick obs))
          (doi_reference_price i) (msi_trade_tick_size (fdo_symbol_info obs)) pol now)
       (\<lambda>_. run_guards (symbol_capability_guards sha (fdo_symbol_info obs) (fdo_capabilities obs) acc pol)))"

definition final_linkage_check ::
  "sha \<Rightarrow> demo_execution_record \<Rightarrow> qualified_demo_execution_candidate \<Rightarrow>
     demo_execution_environment_acceptance \<Rightarrow> demo_execution_approval \<Rightarrow> demo_execution_policy \<Rightarrow>
     unit fallible" where
  "final_linkage_check sha r cand acc app pol =
     bind_result (shadow_intent_of cand) (\<lambda>si. let i = der_intent r in run_guards [
       (\<not> verify_demo_order_intent sha i,
          exec_error demo_execution_failure_category.ACCEPTANCE_CHAIN_INVALID ''sealed intent digest changed''),
       (\<not> (doi_source_decision_record_digest i =
              content_digest sha (dump_continuous_decision_record (qdec_decision cand)) \<and>
            doi_source_shadow_intent_digest i = content_digest sha (dump_shadow_trade_intent si) \<and>
            doi_analysis_risk_decision_digest i = content_digest sha (dump_risk_decision (sti_risk_decision si)) \<and>
            doi_qualification_status_digest i =
              content_digest sha (dump_current_qualification_status (qdec_qualification_status cand)) \<and>
            doi_generation_digest i =
              content_digest sha (dump_qualification_dependency_manifest (qdec_dependency_manifest cand)) \<and>
            doi_environment_acceptance_digest i =
              content_digest sha (dump_demo_execution_environment_acceptance acc) \<and>
            doi_approval_digest i = content_digest sha (dump_demo_execution_approval app) \<and>
            doi_execution_policy_digest i = content_digest sha (dump_demo_execution_policy pol) \<and>
            (case der_risk_revalidation r of None \<Rightarrow> False
             | Some v \<Rightarrow> doi_revalidation_risk_decision_digest i =
                 content_digest sha (dump_risk_decision (frr_risk_decision v)))),
          exec_error demo_execution_failure_category.ACCEPTANCE_CHAIN_INVALID
            ''intent, RiskDecision, or qualification linkage changed'')])"

definition final_dispatch_check ::
  "sha \<Rightarrow> demo_execution_record \<Rightarrow> qualified_demo_execution_candidate \<Rightarrow>
     demo_execution_environment_acceptance \<Rightarrow> demo_execution_approval \<Rightarrow> demo_execution_policy \<Rightarrow>
     final_dispatch_observation \<Rightarrow> bool \<Rightarrow> bool \<Rightarrow> execution_control_state \<Rightarrow> instant \<Rightarrow> unit fallible" where
  "final_dispatch_check sha r cand acc app pol obs owned revoked control now =
     bind_result (run_guards [
       (\<not> owned, exec_error demo_execution_failure_category.CLAIM_NOT_OWNED
          ''execution claim is no longer uniquely owned''),
       (now \<ge> doi_expires_at (der_intent r),
          exec_error demo_execution_failure_category.INTENT_EXPIRED ''sealed intent expired before dispatch'')])
     (\<lambda>_. bind_result (validate_execution_authority sha cand acc app pol control revoked now)
     (\<lambda>_. bind_result (final_observation_check sha (der_intent r) acc pol obs now)
     (\<lambda>_. final_linkage_check sha r cand acc app pol)))"

definition guard_result ::
  "demo_execution_record \<Rightarrow> instant \<Rightarrow> demo_execution_failure option \<Rightarrow> final_dispatch_guard_result" where
  "guard_result r now f =
     \<lparr>fdgr_schema_version = ''1.0.0'',
      fdgr_execution_intent_id = doi_execution_intent_id (der_intent r),
      fdgr_evaluated_at = now, fdgr_passed = (f = None), fdgr_checks = guard_checks, fdgr_failure = f\<rparr>"

definition guard_evaluate ::
  "sha \<Rightarrow> demo_execution_record \<Rightarrow> qualified_demo_execution_candidate \<Rightarrow>
     demo_execution_environment_acceptance \<Rightarrow> demo_execution_approval \<Rightarrow> demo_execution_policy \<Rightarrow>
     final_dispatch_observation \<Rightarrow> bool \<Rightarrow> bool \<Rightarrow> execution_control_state \<Rightarrow> instant \<Rightarrow>
     final_dispatch_guard_result fallible" where
  "guard_evaluate sha r cand acc app pol obs owned revoked control now =
     (case final_dispatch_check sha r cand acc app pol obs owned revoked control now of
        Inl (DemoExecutionError c m) \<Rightarrow>
          bind_result (build ''DemoExecutionFailure'' fields_demo_execution_failure
              \<lparr>def_code = c, def_sanitized_detail = m\<rparr>) (\<lambda>f.
            build ''FinalDispatchGuardResult'' ok_final_dispatch_guard_result (guard_result r now (Some f)))
      | Inl e \<Rightarrow> Inl e
      | Inr _ \<Rightarrow> build ''FinalDispatchGuardResult'' ok_final_dispatch_guard_result (guard_result r now None))"

end
