(* ===== verification/Reconciliation.thy ===== *)
theory Reconciliation
  imports ExecutionSchemas
begin

text \<open>
  \<open>execution/reconciliation.py\<close>: the verdict on the broker evidence found for a dispatched intent.
  Only one exact composite match is confirmed; the checks are made in the source's order, and the
  first that fails gives the failure category.
\<close>

definition reconciliation_failure ::
  "demo_order_intent \<Rightarrow> demo_reconciliation_status \<Rightarrow> demo_execution_failure_category \<Rightarrow> string \<Rightarrow> instant \<Rightarrow>
     composite_broker_evidence list \<Rightarrow> demo_reconciliation_record" where
  "reconciliation_failure i st c detail t ev =
     \<lparr>drr_schema_version = ''1.0.0'', drr_execution_intent_id = doi_execution_intent_id i,
      drr_intent_digest = doi_intent_digest i, drr_status = st, drr_reconciled_at = t, drr_evidence = ev,
      drr_failure = Some \<lparr>def_code = c, def_sanitized_detail = detail\<rparr>\<rparr>"

definition base_identity_matches ::
  "demo_order_intent \<Rightarrow> demo_submission_receipt \<Rightarrow> composite_broker_evidence \<Rightarrow> bool" where
  "base_identity_matches i receipt e \<longleftrightarrow>
     cbe_account_ref e = doi_account_ref i \<and> cbe_environment_ref e = doi_environment_ref i \<and>
     cbe_symbol e = doi_symbol i \<and> cbe_side e = doi_side i \<and>
     cbe_dispatch_started_at e \<ge> dsr_dispatch_started_at receipt \<and>
     cbe_dispatch_completed_at e \<le> cbe_observed_at e \<and>
     (cbe_broker_order_id e \<noteq> None \<or> cbe_broker_deal_id e \<noteq> None) \<and>
     cbe_resulting_position_id e \<noteq> None"

definition adverse_fill :: "demo_order_intent \<Rightarrow> decimal \<Rightarrow> bool" where
  "adverse_fill i fill \<longleftrightarrow>
     (if doi_side i = trade_side.BUY then fill > doi_risk_validation_price i
      else fill < doi_risk_validation_price i)"

definition reconcile_item ::
  "demo_order_intent \<Rightarrow> demo_submission_receipt \<Rightarrow> composite_broker_evidence \<Rightarrow> instant \<Rightarrow>
     demo_reconciliation_record" where
  "reconcile_item i receipt e t =
     (let mismatch = (\<lambda>c d. reconciliation_failure i demo_reconciliation_status.MISMATCH c d t [e])
      in if base_identity_matches i receipt e \<and> cbe_volume e \<noteq> doi_volume i
         then mismatch demo_execution_failure_category.PARTIAL_FILL
           ''broker evidence volume differs from the sealed all-or-nothing intent''
         else if \<not> (base_identity_matches i receipt e \<and> cbe_volume e = doi_volume i)
         then mismatch demo_execution_failure_category.BROKER_IDENTITY_MISMATCH
           ''composite broker identity differs from the sealed intent''
         else case cbe_fill_price e of
             None \<Rightarrow> mismatch demo_execution_failure_category.RECONCILIATION_FAILED
               ''broker evidence has no confirmed fill price''
           | Some fill \<Rightarrow>
               if adverse_fill i fill
               then mismatch demo_execution_failure_category.FILL_OUTSIDE_POLICY
                 ''confirmed fill exceeded the M3 worst-case risk-validation price''
               else if cbe_stop_loss e \<noteq> Some (doi_stop_loss i) \<or> cbe_take_profit e \<noteq> Some (doi_take_profit i)
               then mismatch demo_execution_failure_category.PROTECTIVE_LEVEL_MISMATCH
                 ''broker position does not retain the mandatory sealed SL and TP''
               else \<lparr>drr_schema_version = ''1.0.0'', drr_execution_intent_id = doi_execution_intent_id i,
                 drr_intent_digest = doi_intent_digest i, drr_status = demo_reconciliation_status.CONFIRMED,
                 drr_reconciled_at = t, drr_evidence = [e], drr_failure = None\<rparr>)"

definition reconcile_verdict ::
  "demo_order_intent \<Rightarrow> demo_submission_receipt \<Rightarrow> composite_broker_evidence list \<Rightarrow> instant \<Rightarrow>
     demo_reconciliation_record" where
  "reconcile_verdict i receipt ev t =
     (case ev of
        [] \<Rightarrow> reconciliation_failure i demo_reconciliation_status.NOT_FOUND
          demo_execution_failure_category.RECONCILIATION_TIMEOUT
          ''no conclusive broker evidence was found; submission remains uncertain'' t []
      | [e] \<Rightarrow> reconcile_item i receipt e t
      | _ \<Rightarrow> reconciliation_failure i demo_reconciliation_status.MISMATCH
          demo_execution_failure_category.BROKER_IDENTITY_MISMATCH
          ''broker reconciliation returned multiple candidate executions'' t ev)"

definition reconcile_broker_evidence ::
  "demo_order_intent \<Rightarrow> demo_submission_receipt \<Rightarrow> composite_broker_evidence list \<Rightarrow> instant \<Rightarrow>
     demo_reconciliation_record fallible" where
  "reconcile_broker_evidence i receipt ev t =
     build ''DemoReconciliationRecord'' ok_demo_reconciliation_record (reconcile_verdict i receipt ev t)"

text \<open>What each verdict says of the evidence.\<close>

definition exact_match ::
  "demo_order_intent \<Rightarrow> demo_submission_receipt \<Rightarrow> composite_broker_evidence \<Rightarrow> bool" where
  "exact_match i receipt e \<longleftrightarrow>
     base_identity_matches i receipt e \<and> cbe_volume e = doi_volume i \<and>
     (case cbe_fill_price e of None \<Rightarrow> False | Some fill \<Rightarrow> \<not> adverse_fill i fill) \<and>
     cbe_stop_loss e = Some (doi_stop_loss i) \<and> cbe_take_profit e = Some (doi_take_profit i)"

lemma verdict_status:
  "drr_status (reconcile_verdict i receipt ev t) =
     (case ev of [] \<Rightarrow> demo_reconciliation_status.NOT_FOUND
      | [e] \<Rightarrow> (if exact_match i receipt e then demo_reconciliation_status.CONFIRMED
               else demo_reconciliation_status.MISMATCH)
      | _ \<Rightarrow> demo_reconciliation_status.MISMATCH)"
  by (auto simp: reconcile_verdict_def reconcile_item_def reconciliation_failure_def exact_match_def Let_def
      split: list.splits option.splits)

end
