(* ===== verification/RiskEngine.thy ===== *)
theory RiskEngine
  imports RiskSchemas Serialization
begin

text \<open>
  The package \<open>risk/\<close>: account guards (\<open>account.py\<close>), proposal checks (\<open>proposal.py\<close>), position
  sizing (\<open>sizing.py\<close>) and their composition (\<open>engine.py\<close>). Each check that appends a reason is a
  pair of its condition and the reason (\<open>collect\<close>); Decimal operators that can signal are
  sequenced with \<open>bind_result\<close>.
\<close>

section \<open>Reasons\<close>

definition risk_reason_of :: "risk_reason_code \<Rightarrow> string \<Rightarrow> risk_reason" where
  "risk_reason_of code message = \<lparr>rr_code = code, rr_message = message\<rparr>"

text \<open>The operators \<open>/\<close> and \<open>%\<close> of the default context.\<close>

definition div28 :: "decimal \<Rightarrow> decimal \<Rightarrow> decimal fallible" where
  "div28 x y = lift_dec (dec_div 28 x y)"

definition mod28 :: "decimal \<Rightarrow> decimal \<Rightarrow> decimal fallible" where
  "mod28 x y = lift_dec (dec_mod 28 x y)"

lemma div28_nz [simp]: "y \<noteq> 0 \<Longrightarrow> div28 x y = Inr (rd28 (x / y))"
  by (simp add: div28_def dec_div_def lift_dec_def)

section \<open>Account guards\<close>

record account_risk_assessment =
  ara_state :: risk_state
  ara_metrics :: account_risk_metrics
  ara_reasons :: "risk_reason list"

definition drawdown_state :: "risk_constitution_settings \<Rightarrow> decimal \<Rightarrow> risk_state" where
  "drawdown_state cfg dd =
     (if rcs_drawdown_stop_percent cfg \<le> dd then risk_state.HALTED
      else if rcs_drawdown_safe_mode_percent cfg \<le> dd then risk_state.SAFE_MODE
      else if rcs_drawdown_warning_percent cfg \<le> dd then risk_state.CAUTION
      else risk_state.NORMAL)"

text \<open>The reasons that do not depend on the computed percentages.\<close>

definition account_context_reasons ::
  "sha \<Rightarrow> risk_constitution_settings \<Rightarrow> market_snapshot \<Rightarrow> account_risk_context \<Rightarrow> instant \<Rightarrow> risk_reason list" where
  "account_context_reasons sha cfg s c now = collect [
     (arc_cycle_id c \<noteq> ms_cycle_id s \<or> arc_snapshot_id c \<noteq> ms_snapshot_id s,
      risk_reason_of risk_reason_code.TRACEABILITY_MISMATCH
        ''account context does not belong to the snapshot trace''),
     (arc_account_ref c \<noteq> account_fingerprint sha (mai_account_id (ms_account s)) (mai_server (ms_account s)),
      risk_reason_of risk_reason_code.ACCOUNT_CONTEXT_MISMATCH
        ''account context does not match the snapshot account''),
     (arc_context_as_of c > now,
      risk_reason_of risk_reason_code.ACCOUNT_CONTEXT_FUTURE_DATED
        ''account context is later than the evaluation timestamp''),
     (arc_context_as_of c < ms_snapshot_completed_at s,
      risk_reason_of risk_reason_code.ACCOUNT_CONTEXT_PREDATES_SNAPSHOT
        ''account context predates snapshot completion''),
     (arc_trading_day_started_at c > arc_context_as_of c,
      risk_reason_of risk_reason_code.TRADING_DAY_CONTEXT_INVALID
        ''trading-day start is later than account context''),
     (arc_account_open_position_count c < int (length (ms_open_positions s)),
      risk_reason_of risk_reason_code.ACCOUNT_POSITION_COUNT_INCONSISTENT
        ''account-wide position count is below the snapshot symbol count''),
     (arc_account_open_position_count c \<ge> rcs_maximum_open_positions cfg,
      risk_reason_of risk_reason_code.MAXIMUM_POSITIONS_REACHED
        ''maximum concurrent position count has been reached'')]"

text \<open>The percentages: \<open>drawdown_amount / effective_peak * 100\<close> and the daily loss alike.\<close>

definition loss_percent :: "decimal \<Rightarrow> decimal \<Rightarrow> decimal fallible" where
  "loss_percent amount base = bind_result (div28 amount base) (\<lambda>q. Inr (rd28 (q * 100)))"

definition account_limit_reasons ::
  "risk_constitution_settings \<Rightarrow> decimal \<Rightarrow> decimal \<Rightarrow> decimal \<Rightarrow> risk_reason list" where
  "account_limit_reasons cfg equity dd daily = collect [
     (equity \<le> 0,
      risk_reason_of risk_reason_code.NON_POSITIVE_EQUITY ''account equity must be positive''),
     (daily \<ge> rcs_maximum_daily_loss_percent cfg,
      risk_reason_of risk_reason_code.DAILY_LOSS_LIMIT_REACHED ''daily loss limit has been reached''),
     (dd \<ge> rcs_drawdown_stop_percent cfg,
      risk_reason_of risk_reason_code.MAXIMUM_DRAWDOWN_REACHED
        ''maximum cash-flow-adjusted drawdown has been reached'')]"

definition account_state ::
  "risk_constitution_settings \<Rightarrow> decimal \<Rightarrow> decimal \<Rightarrow> decimal \<Rightarrow> risk_state" where
  "account_state cfg equity dd daily =
     (let st = drawdown_state cfg dd;
          st = (if equity \<le> 0 then risk_state.HALTED else st);
          st = (if daily \<ge> rcs_maximum_daily_loss_percent cfg then risk_state.HALTED else st)
      in if dd \<ge> rcs_drawdown_stop_percent cfg then risk_state.HALTED else st)"

definition permitted_risk :: "risk_constitution_settings \<Rightarrow> risk_state \<Rightarrow> decimal" where
  "permitted_risk cfg st =
     (if st = risk_state.HALTED then 0
      else if st = risk_state.NORMAL then rcs_normal_risk_percent cfg
      else rcs_minimum_risk_percent cfg)"

definition account_evaluate ::
  "sha \<Rightarrow> risk_constitution_settings \<Rightarrow> market_snapshot \<Rightarrow> account_risk_context \<Rightarrow> py_datetime \<Rightarrow>
     account_risk_assessment fallible" where
  "account_evaluate sha cfg s c evaluated_at =
     (if is_naive evaluated_at then Inl (ValueError ''evaluated_at must be timezone-aware'')
      else
        let now = as_utc evaluated_at;
            equity = mai_equity (ms_account s);
            peak = max (arc_cash_flow_adjusted_peak_equity c) equity;
            dd_amount = max 0 (rd28 (peak - equity));
            daily_amount = max 0 (rd28 (arc_adjusted_day_start_equity c - equity))
        in bind_result (loss_percent dd_amount peak) (\<lambda>dd.
           bind_result (loss_percent daily_amount (arc_adjusted_day_start_equity c)) (\<lambda>daily.
           let st = account_state cfg equity dd daily
           in bind_result (build ''AccountRiskMetrics'' fields_account_risk_metrics
                \<lparr>arm_account_ref = arc_account_ref c, arm_current_equity = equity,
                 arm_effective_peak_equity = peak, arm_drawdown_amount = dd_amount,
                 arm_drawdown_percent = dd, arm_daily_loss_amount = daily_amount,
                 arm_daily_loss_percent = daily,
                 arm_account_open_position_count = arc_account_open_position_count c,
                 arm_permitted_risk_percent = permitted_risk cfg st\<rparr>)
              (\<lambda>m. Inr \<lparr>ara_state = st, ara_metrics = m,
                 ara_reasons = account_context_reasons sha cfg s c now @
                   account_limit_reasons cfg equity dd daily\<rparr>))))"

section \<open>Proposal checks\<close>

record proposal_validation_result =
  pvr_reasons :: "risk_reason list"
  pvr_stop_distance :: "decimal option"
  pvr_reward_distance :: "decimal option"
  pvr_risk_reward :: "decimal option"

definition pvr_valid :: "proposal_validation_result \<Rightarrow> bool" where
  "pvr_valid r \<longleftrightarrow> pvr_reasons r = []"

text \<open>\<open>price is None\<close>, and \<open>price <= 0\<close> of a price that is there.\<close>

definition price_reasons ::
  "decimal option \<Rightarrow> risk_reason \<Rightarrow> risk_reason \<Rightarrow> risk_reason list" where
  "price_reasons p missing invalid =
     (case p of None \<Rightarrow> [missing] | Some x \<Rightarrow> if x \<le> 0 then [invalid] else [])"

definition proposal_geometry ::
  "risk_constitution_settings \<Rightarrow> trade_side \<Rightarrow> decimal \<Rightarrow> decimal \<Rightarrow> decimal \<Rightarrow>
     proposal_validation_result fallible" where
  "proposal_geometry cfg side entry sl tp =
     (let valid_stop = (if side = trade_side.BUY then sl < entry else sl > entry);
          valid_tp = (if side = trade_side.BUY then tp > entry else tp < entry);
          rs = collect [
            (\<not> valid_stop, risk_reason_of risk_reason_code.INVALID_STOP_GEOMETRY
               ''stop loss is on the wrong side of entry''),
            (\<not> valid_tp, risk_reason_of risk_reason_code.INVALID_TAKE_PROFIT_GEOMETRY
               ''take profit is on the wrong side of entry'')];
          stop = (if valid_stop then Some \<bar>rd28 (entry - sl)\<bar> else None);
          reward = (if valid_tp then Some \<bar>rd28 (tp - entry)\<bar> else None)
      in case (stop, reward) of
           (Some d, Some w) \<Rightarrow> bind_result (div28 w d) (\<lambda>rr.
              Inr \<lparr>pvr_reasons = rs @ collect [
                     (rr < rcs_minimum_risk_reward cfg,
                      risk_reason_of risk_reason_code.RISK_REWARD_BELOW_MINIMUM
                        ''proposal risk/reward is below the configured minimum'')],
                   pvr_stop_distance = stop, pvr_reward_distance = reward, pvr_risk_reward = Some rr\<rparr>)
         | _ \<Rightarrow> Inr \<lparr>pvr_reasons = rs, pvr_stop_distance = stop, pvr_reward_distance = reward,
                   pvr_risk_reward = None\<rparr>)"

text \<open>The loop over the prices stops at the first one off the tick grid.\<close>

fun any_misaligned :: "decimal \<Rightarrow> decimal option list \<Rightarrow> bool fallible" where
  "any_misaligned tick [] = Inr False"
| "any_misaligned tick (None # ps) = any_misaligned tick ps"
| "any_misaligned tick (Some p # ps) =
     (if p > 0
      then bind_result (mod28 p tick) (\<lambda>m. if m \<noteq> 0 then Inr True else any_misaligned tick ps)
      else any_misaligned tick ps)"

definition proposal_grid_reasons ::
  "mt5_symbol_info \<Rightarrow> decimal option list \<Rightarrow> decimal option \<Rightarrow> decimal option \<Rightarrow>
     risk_reason list fallible" where
  "proposal_grid_reasons info prices stop reward =
     (if msi_trade_tick_size info \<le> 0 \<or> msi_point info \<le> 0
      then Inr [risk_reason_of risk_reason_code.INVALID_BROKER_RISK_METADATA
                  ''broker tick size and point must be positive'']
      else bind_result (any_misaligned (msi_trade_tick_size info) prices) (\<lambda>off.
        let minimum_distance = rd28 (of_int (msi_trade_stops_level info) * msi_point info)
        in Inr (collect [
          (off, risk_reason_of risk_reason_code.PRICE_NOT_ALIGNED_TO_TICK_SIZE
             ''proposal price is not aligned to broker tick size''),
          (case stop of None \<Rightarrow> False | Some d \<Rightarrow> d < minimum_distance,
           risk_reason_of risk_reason_code.STOP_DISTANCE_BELOW_BROKER_MINIMUM
             ''stop distance is below the broker minimum''),
          (case reward of None \<Rightarrow> False | Some d \<Rightarrow> d < minimum_distance,
           risk_reason_of risk_reason_code.TAKE_PROFIT_DISTANCE_BELOW_BROKER_MINIMUM
             ''take-profit distance is below the broker minimum'')])))"

definition proposal_capability_reasons :: "trade_proposal \<Rightarrow> market_snapshot \<Rightarrow> risk_reason list" where
  "proposal_capability_reasons p s =
     (let mode = msi_trading_mode (ms_symbol_info s)
      in collect [
        (mode \<in> {symbol_trade_mode.DISABLED, symbol_trade_mode.CLOSE_ONLY},
         risk_reason_of risk_reason_code.SYMBOL_TRADING_DISABLED
           ''symbol is not enabled for opening trades''),
        (mode \<notin> {symbol_trade_mode.DISABLED, symbol_trade_mode.CLOSE_ONLY} \<and>
         ((mode = symbol_trade_mode.LONG_ONLY \<and> tp_side p = trade_side.SELL) \<or>
          (mode = symbol_trade_mode.SHORT_ONLY \<and> tp_side p = trade_side.BUY)),
         risk_reason_of risk_reason_code.TRADE_SIDE_NOT_ALLOWED
           ''proposal side is not allowed by broker symbol mode''),
        (\<not> mai_trade_allowed (ms_account s),
         risk_reason_of risk_reason_code.ACCOUNT_TRADING_DISABLED
           ''account is not enabled for trading''),
        (\<not> mai_expert_trading_allowed (ms_account s),
         risk_reason_of risk_reason_code.EXPERT_TRADING_DISABLED
           ''account is not enabled for programmatic trading'')])"

text \<open>The reasons found before the geometry is looked at.\<close>

definition proposal_head_reasons :: "trade_proposal \<Rightarrow> market_snapshot \<Rightarrow> risk_reason list" where
  "proposal_head_reasons p s =
     collect [
       (tp_cycle_id p \<noteq> ms_cycle_id s \<or> tp_snapshot_id p \<noteq> ms_snapshot_id s,
        risk_reason_of risk_reason_code.TRACEABILITY_MISMATCH
          ''proposal does not belong to the snapshot trace''),
       (tp_symbol p \<noteq> ms_symbol s,
        risk_reason_of risk_reason_code.SYMBOL_MISMATCH
          ''proposal symbol does not match snapshot symbol'')] @
     price_reasons (tp_entry p)
       (risk_reason_of risk_reason_code.ENTRY_PRICE_REQUIRED ''entry is required'')
       (risk_reason_of risk_reason_code.ENTRY_PRICE_INVALID ''entry must be positive'') @
     price_reasons (tp_stop_loss p)
       (risk_reason_of risk_reason_code.STOP_LOSS_REQUIRED ''stop loss is mandatory'')
       (risk_reason_of risk_reason_code.STOP_LOSS_INVALID ''stop loss must be positive'') @
     price_reasons (tp_take_profit p)
       (risk_reason_of risk_reason_code.TAKE_PROFIT_REQUIRED
          ''take profit is required to validate minimum risk/reward'')
       (risk_reason_of risk_reason_code.TAKE_PROFIT_INVALID ''take profit must be positive'')"

text \<open>The distances when all three prices are there and positive, and nothing otherwise.\<close>

definition proposal_distances ::
  "risk_constitution_settings \<Rightarrow> trade_proposal \<Rightarrow> proposal_validation_result fallible" where
  "proposal_distances cfg p =
     (let none = Inr \<lparr>pvr_reasons = [], pvr_stop_distance = None, pvr_reward_distance = None,
                      pvr_risk_reward = None\<rparr>
      in case (tp_entry p, tp_stop_loss p, tp_take_profit p) of
           (Some e, Some l, Some t) \<Rightarrow>
             if e > 0 \<and> l > 0 \<and> t > 0 then proposal_geometry cfg (tp_side p) e l t else none
         | _ \<Rightarrow> none)"

definition proposal_validate ::
  "risk_constitution_settings \<Rightarrow> trade_proposal \<Rightarrow> market_snapshot \<Rightarrow>
     proposal_validation_result fallible" where
  "proposal_validate cfg p s =
     bind_result (proposal_distances cfg p) (\<lambda>g.
     bind_result (proposal_grid_reasons (ms_symbol_info s)
         [tp_entry p, tp_stop_loss p, tp_take_profit p] (pvr_stop_distance g) (pvr_reward_distance g))
       (\<lambda>grid. Inr (g\<lparr>pvr_reasons := proposal_head_reasons p s @ pvr_reasons g @ grid @
          proposal_capability_reasons p s\<rparr>)))"

section \<open>Position sizing\<close>

record position_sizing_outcome =
  pso_result :: "position_sizing_result option"
  pso_reasons :: "risk_reason list"

text \<open>The dict \<open>base\<close>, as a result with the given status, volume and risk.\<close>

definition sizing_base ::
  "decimal \<Rightarrow> decimal \<Rightarrow> decimal \<Rightarrow> mt5_symbol_info \<Rightarrow> position_sizing_result fallible" where
  "sizing_base equity risk_percent stop_distance info =
     (let allowed_risk = rd28 (rd28 (equity * risk_percent) / 100)
      in bind_result (div28 stop_distance (msi_trade_tick_size info)) (\<lambda>ticks.
         let loss = rd28 (ticks * msi_trade_tick_value info)
         in bind_result (div28 allowed_risk loss) (\<lambda>raw.
            Inr \<lparr>psr_status = position_sizing_status.REJECTED, psr_risk_percent = risk_percent,
                 psr_allowed_risk_amount = allowed_risk, psr_stop_distance = stop_distance,
                 psr_tick_size = msi_trade_tick_size info, psr_tick_value = msi_trade_tick_value info,
                 psr_trade_contract_size = msi_trade_contract_size info, psr_ticks_to_stop = ticks,
                 psr_monetary_loss_per_lot = loss, psr_raw_volume = raw,
                 psr_volume_min = msi_volume_min info, psr_volume_max = msi_volume_max info,
                 psr_volume_step = msi_volume_step info,
                 psr_minimum_volume_risk_amount = rd28 (loss * msi_volume_min info),
                 psr_selected_volume = None, psr_estimated_risk_amount = None\<rparr>)))"

definition selected_volume_of :: "position_sizing_result \<Rightarrow> decimal fallible" where
  "selected_volume_of b =
     (let capped = min (psr_raw_volume b) (psr_volume_max b)
      in bind_result (div28 (rd28 (capped - psr_volume_min b)) (psr_volume_step b)) (\<lambda>q.
           Inr (rd28 (psr_volume_min b + rd28 (of_int \<lfloor>q\<rfloor> * psr_volume_step b)))))"

definition rejected_sizing ::
  "position_sizing_result \<Rightarrow> risk_reason \<Rightarrow> position_sizing_outcome fallible" where
  "rejected_sizing b reason = bind_result (build_position_sizing_result b)
     (\<lambda>r. Inr \<lparr>pso_result = Some r, pso_reasons = [reason]\<rparr>)"

definition position_size ::
  "decimal \<Rightarrow> decimal \<Rightarrow> decimal \<Rightarrow> mt5_symbol_info \<Rightarrow> position_sizing_outcome fallible" where
  "position_size equity risk_percent stop_distance info =
     (if equity \<le> 0 \<or> risk_percent \<le> 0 \<or> stop_distance \<le> 0 \<or> msi_trade_tick_size info \<le> 0 \<or>
         msi_trade_tick_value info \<le> 0 \<or> msi_trade_contract_size info \<le> 0 \<or> msi_volume_min info \<le> 0 \<or>
         msi_volume_max info < msi_volume_min info \<or> msi_volume_step info \<le> 0
      then Inr \<lparr>pso_result = None,
             pso_reasons = [risk_reason_of risk_reason_code.INVALID_BROKER_RISK_METADATA
               ''position sizing inputs and broker metadata must be positive and coherent'']\<rparr>
      else bind_result (sizing_base equity risk_percent stop_distance info) (\<lambda>b.
        if psr_minimum_volume_risk_amount b > psr_allowed_risk_amount b
        then rejected_sizing b (risk_reason_of risk_reason_code.MINIMUM_VOLUME_EXCEEDS_RISK
               ''broker minimum volume would exceed allowed monetary risk'')
        else bind_result (selected_volume_of b) (\<lambda>v.
          case build_position_sizing_result
                 (b\<lparr>psr_status := position_sizing_status.APPROVED, psr_selected_volume := Some v,
                    psr_estimated_risk_amount := Some (rd28 (psr_monetary_loss_per_lot b * v))\<rparr>) of
            Inr r \<Rightarrow> Inr \<lparr>pso_result = Some r, pso_reasons = []\<rparr>
          | Inl (ValidationError cls) \<Rightarrow>
              rejected_sizing b (risk_reason_of risk_reason_code.POSITION_SIZE_INVARIANT_FAILED
                ''final broker-volume invariants failed'')
          | Inl e \<Rightarrow> Inl e)))"

section \<open>The engine\<close>

definition risk_evaluate ::
  "sha \<Rightarrow> risk_constitution_settings \<Rightarrow> trade_proposal \<Rightarrow> market_snapshot \<Rightarrow> account_risk_context \<Rightarrow>
     py_datetime \<Rightarrow> risk_decision fallible" where
  "risk_evaluate sha cfg p s c evaluated_at =
     (if is_naive evaluated_at then Inl (ValueError ''evaluated_at must be timezone-aware'')
      else
        let now = as_utc evaluated_at
        in bind_result (proposal_validate cfg p s) (\<lambda>pv.
           bind_result (account_evaluate sha cfg s c (Aware now)) (\<lambda>acc.
           let reasons = pvr_reasons pv @ ara_reasons acc @ collect [
                 (now < ms_snapshot_completed_at s \<or> now < tp_timestamp p,
                  risk_reason_of risk_reason_code.EVALUATION_TIMESTAMP_INVALID
                    ''evaluation timestamp predates an evaluated input'')]
           in bind_result
             (case (reasons, pvr_stop_distance pv) of
                ([], Some d) \<Rightarrow> position_size (arm_current_equity (ara_metrics acc))
                     (arm_permitted_risk_percent (ara_metrics acc)) d (ms_symbol_info s)
              | _ \<Rightarrow> Inr \<lparr>pso_result = None, pso_reasons = []\<rparr>)
             (\<lambda>sz.
              let all_reasons = reasons @ pso_reasons sz;
                  status = (if ara_state acc = risk_state.HALTED then risk_decision_status.HALTED
                            else if all_reasons \<noteq> [] then risk_decision_status.REJECTED
                            else risk_decision_status.APPROVED)
              in build ''RiskDecision'' ok_risk_decision
                   \<lparr>rd_cycle_id = ms_cycle_id s, rd_schema_version = ''1.0.0'', rd_timestamp = now,
                    rd_snapshot_id = ms_snapshot_id s, rd_proposal_id = tp_proposal_id p,
                    rd_account_ref = arc_account_ref c, rd_symbol = ms_symbol s, rd_status = status,
                    rd_risk_state = ara_state acc, rd_reasons = all_reasons,
                    rd_account_metrics = ara_metrics acc, rd_position_sizing = pso_result sz\<rparr>))))"

end
