(* ===== verification/ExecutionService.thy ===== *)
theory ExecutionService
  imports ExecutionStore ExecutionGuards Reconciliation RiskEngine
begin

text \<open>
  \<open>execution/service.py\<close>: the coordinator that turns one qualified shadow decision into at most one
  protected order.

  The clock, the observation source and the broker adapter are code that talks to a terminal: they
  are parameters (\<open>terminal\<close>) that read and change a state \<open>'w\<close> of their own and may raise. The
  repository is a parameter too (\<open>repository\<close>), given below for the store in memory and for the
  one on SQLite. The state of a service adds a log of the calls that matter for what is claimed:
  the claims and saves the repository accepted, and every call of \<open>submit_demo_market_intent\<close>
  with the control state in force, logged before the adapter runs. Logging to the logger is not modelled.
\<close>

section \<open>Collaborators\<close>

record 'w terminal =
  tm_now :: "'w \<Rightarrow> py_datetime \<times> 'w"
  tm_capture :: "string \<Rightarrow> string \<Rightarrow> ('w, fresh_execution_observation) op"
  tm_order_check :: "demo_order_intent \<Rightarrow> ('w, demo_order_check_result) op"
  tm_observe_final :: "demo_order_intent \<Rightarrow> ('w, final_dispatch_observation) op"
  tm_submit :: "demo_order_intent \<Rightarrow> ('w, demo_submission_receipt) op"
  tm_find_evidence ::
    "demo_order_intent \<Rightarrow> demo_submission_receipt \<Rightarrow> ('w, composite_broker_evidence list) op"

record 's repository =
  rp_effective_approvals ::
    "'s \<Rightarrow> string \<Rightarrow> string \<Rightarrow> string \<Rightarrow> instant \<Rightarrow> demo_execution_approval list"
  rp_approval_is_revoked :: "'s \<Rightarrow> string \<Rightarrow> string \<Rightarrow> bool"
  rp_append_control_event :: "execution_control_event \<Rightarrow> ('s, unit) op"
  rp_control_state :: "'s \<Rightarrow> execution_control_state"
  rp_claim :: "demo_order_intent \<Rightarrow> demo_execution_preflight \<Rightarrow> fresh_risk_revalidation \<Rightarrow> string \<Rightarrow>
    instant \<Rightarrow> ('s, demo_execution_record) op"
  rp_claim_is_owned :: "'s \<Rightarrow> string \<Rightarrow> string \<Rightarrow> bool"
  rp_save :: "demo_execution_record \<Rightarrow> ('s, unit) op"
  rp_get :: "'s \<Rightarrow> string \<Rightarrow> demo_execution_record option"
  rp_recover_incomplete :: "instant \<Rightarrow> ('s, demo_execution_record list) op"

definition mem_repository :: "sha \<Rightarrow> exec_store repository" where
  "mem_repository sha = \<lparr>
     rp_effective_approvals = xs_effective_approvals sha, rp_approval_is_revoked = xs_approval_is_revoked,
     rp_append_control_event = xs_append_control_event, rp_control_state = xs_control_state,
     rp_claim = xs_claim, rp_claim_is_owned = xs_claim_is_owned, rp_save = xs_save, rp_get = xs_get,
     rp_recover_incomplete = xs_recover_incomplete\<rparr>"

text \<open>
  The SQLite repository with the faults its driver will raise: each write consumes one entry of the
  schedule, and an exhausted schedule is a driver without faults.
\<close>

type_synonym faulty_repo = "sql_repo \<times> bool list"

definition next_fault :: "bool list \<Rightarrow> bool" where
  "next_fault fs = (fs \<noteq> [] \<and> hd fs)"

definition faulty :: "(bool \<Rightarrow> (sql_repo, 'a) op) \<Rightarrow> (faulty_repo, 'a) op" where
  "faulty f qf = (case f (next_fault (snd qf)) (fst qf) of (r, q) \<Rightarrow> (r, q, tl (snd qf)))"

definition sql_repository :: "sha \<Rightarrow> faulty_repo repository" where
  "sql_repository sha = \<lparr>
     rp_effective_approvals = (\<lambda>qf. xs_effective_approvals sha (sq_mem (fst qf))),
     rp_approval_is_revoked = (\<lambda>qf. xs_approval_is_revoked (sq_mem (fst qf))),
     rp_append_control_event = (\<lambda>e. faulty (\<lambda>fault. sq_append_control_event fault e)),
     rp_control_state = (\<lambda>qf. xs_control_state (sq_mem (fst qf))),
     rp_claim = (\<lambda>i p r owner t. faulty (\<lambda>fault. sq_claim fault i p r owner t)),
     rp_claim_is_owned = (\<lambda>qf. xs_claim_is_owned (sq_mem (fst qf))),
     rp_save = (\<lambda>r. faulty (\<lambda>fault. sq_save fault r)),
     rp_get = (\<lambda>qf. xs_get (sq_mem (fst qf))),
     rp_recover_incomplete = (\<lambda>t. faulty (\<lambda>fault. sq_recover_incomplete fault t))\<rparr>"

record ('s, 'w) exec_service =
  sv_sha :: sha
  sv_terminal :: "'w terminal"
  sv_repository :: "'s repository"
  sv_constitution :: risk_constitution_settings
  sv_risk_engine_version :: string
  sv_risk_policy_digest :: string

datatype service_event =
    EvClaimed demo_execution_record
  | EvSaved demo_execution_record
  | EvSubmit demo_order_intent execution_control_state
  | EvRecovered "demo_execution_record list"

record ('s, 'w) service_state =
  st_repo :: 's
  st_world :: 'w
  st_log :: "service_event list"

definition on_world :: "('w, 'a) op \<Rightarrow> (('s, 'w) service_state, 'a) op" where
  "on_world f s = (case f (st_world s) of (r, w) \<Rightarrow> (r, s\<lparr>st_world := w\<rparr>))"

definition on_repo :: "('a \<Rightarrow> service_event list) \<Rightarrow> ('s, 'a) op \<Rightarrow> (('s, 'w) service_state, 'a) op" where
  "on_repo ev f s = (case f (st_repo s) of
       (Inl e, q) \<Rightarrow> (Inl e, s\<lparr>st_repo := q\<rparr>)
     | (Inr x, q) \<Rightarrow> (Inr x, s\<lparr>st_repo := q, st_log := st_log s @ ev x\<rparr>))"

definition read_repo :: "('s \<Rightarrow> 'a) \<Rightarrow> (('s, 'w) service_state, 'a) op" where
  "read_repo f s = (Inr (f (st_repo s)), s)"

definition log_event :: "('s \<Rightarrow> service_event) \<Rightarrow> (('s, 'w) service_state, unit) op" where
  "log_event f s = (Inr (), s\<lparr>st_log := st_log s @ [f (st_repo s)]\<rparr>)"

definition sv_now :: "('s, 'w) exec_service \<Rightarrow> (('s, 'w) service_state, instant) op" where
  "sv_now x s = (case tm_now (sv_terminal x) (st_world s) of (t, w) \<Rightarrow>
     (if is_naive t then Inl (exec_error demo_execution_failure_category.UNKNOWN
        ''execution clock must be timezone-aware'') else Inr (as_utc t), s\<lparr>st_world := w\<rparr>))"

definition sv_claim ::
  "('s, 'w) exec_service \<Rightarrow> demo_order_intent \<Rightarrow> demo_execution_preflight \<Rightarrow> fresh_risk_revalidation \<Rightarrow>
     string \<Rightarrow> instant \<Rightarrow> (('s, 'w) service_state, demo_execution_record) op" where
  "sv_claim x i p r owner t = on_repo (\<lambda>d. [EvClaimed d]) (rp_claim (sv_repository x) i p r owner t)"

definition sv_save ::
  "('s, 'w) exec_service \<Rightarrow> demo_execution_record \<Rightarrow> (('s, 'w) service_state, unit) op" where
  "sv_save x r = on_repo (\<lambda>_. [EvSaved r]) (rp_save (sv_repository x) r)"

definition sv_submit ::
  "('s, 'w) exec_service \<Rightarrow> demo_order_intent \<Rightarrow> (('s, 'w) service_state, demo_submission_receipt) op" where
  "sv_submit x i = bind_op (log_event (\<lambda>q. EvSubmit i (rp_control_state (sv_repository x) q))) (\<lambda>_. on_world (tm_submit (sv_terminal x) i))"

section \<open>Advancing a record\<close>

text \<open>
  \<open>_advance\<close> dumps the record and validates the dump: its intent, preflight and revalidation are
  validated once more (parts nested in them were validated when they were built and are unchanged).
\<close>

definition revalidated :: "demo_execution_record \<Rightarrow> bool" where
  "revalidated r \<longleftrightarrow> ok_demo_order_intent (der_intent r) \<and>
     pred_option ok_demo_execution_preflight (der_preflight r) \<and>
     pred_option ok_fresh_risk_revalidation (der_risk_revalidation r)"

definition keep_or :: "'a option \<Rightarrow> 'a option \<Rightarrow> 'a option" where
  "keep_or new old = (case new of None \<Rightarrow> old | Some x \<Rightarrow> Some x)"

definition advance ::
  "demo_execution_record \<Rightarrow> demo_execution_state \<Rightarrow> instant \<Rightarrow> demo_execution_failure option \<Rightarrow>
     demo_order_check_result option \<Rightarrow> final_dispatch_guard_result option \<Rightarrow>
     demo_submission_receipt option \<Rightarrow> demo_reconciliation_record option \<Rightarrow> demo_execution_record fallible" where
  "advance r st t f chk guard rc rec =
     build ''DemoExecutionRecord'' (\<lambda>x. ok_demo_execution_record x \<and> revalidated x)
       (r\<lparr>der_state := st, der_order_check := keep_or chk (der_order_check r),
          der_final_guard := keep_or guard (der_final_guard r),
          der_submission := keep_or rc (der_submission r),
          der_reconciliation := keep_or rec (der_reconciliation r),
          der_events := der_events r @ [next_event r st t f]\<rparr>)"

definition failure_of :: "demo_execution_failure_category \<Rightarrow> string \<Rightarrow> demo_execution_failure option" where
  "failure_of c d = Some \<lparr>def_code = c, def_sanitized_detail = d\<rparr>"

definition advance_and_save ::
  "('s, 'w) exec_service \<Rightarrow> demo_execution_record fallible \<Rightarrow>
     (('s, 'w) service_state, demo_execution_record) op" where
  "advance_and_save x next = bind_op (lift_op next) (\<lambda>r. bind_op (sv_save x r) (\<lambda>_. ret r))"

definition reject_before_dispatch ::
  "('s, 'w) exec_service \<Rightarrow> demo_execution_record \<Rightarrow> demo_execution_failure_category \<Rightarrow> string \<Rightarrow> instant \<Rightarrow>
     demo_order_check_result option \<Rightarrow> final_dispatch_guard_result option \<Rightarrow>
     (('s, 'w) service_state, demo_execution_record) op" where
  "reject_before_dispatch x r c d t chk guard =
     advance_and_save x (advance r demo_execution_state.REJECTED t (failure_of c d) chk guard None None)"

definition halt_event ::
  "sha \<Rightarrow> execution_control_state \<Rightarrow> instant \<Rightarrow> string \<Rightarrow> execution_control_event" where
  "halt_event sha previous t reason =
     \<lparr>ece_schema_version = ''1.0.0'',
      ece_event_id = deterministic_id sha ''execution-control'' (PDict
        [(''previous'', PStr (value_execution_control_state previous)), (''state'', PStr ''HALTED''),
         (''at'', PTime t), (''reason'', PStr reason)]),
      ece_previous_state = Some previous, ece_state = execution_control_state.HALTED,
      ece_operator_ref = ''m11-safety-guard'', ece_occurred_at = t, ece_reason = reason\<rparr>"

definition sv_halt :: "('s, 'w) exec_service \<Rightarrow> instant \<Rightarrow> string \<Rightarrow> (('s, 'w) service_state, unit) op" where
  "sv_halt x t reason =
     bind_op (read_repo (rp_control_state (sv_repository x))) (\<lambda>previous.
       if previous = execution_control_state.HALTED then ret ()
       else bind_op (lift_op (build ''ExecutionControlEvent'' ok_execution_control_event
           (halt_event (sv_sha x) previous t reason)))
         (\<lambda>e. on_repo (\<lambda>_. []) (rp_append_control_event (sv_repository x) e)))"

section \<open>Reconciliation\<close>

definition reconcile_record ::
  "('s, 'w) exec_service \<Rightarrow> demo_execution_record \<Rightarrow> (('s, 'w) service_state, demo_execution_record) op" where
  "reconcile_record x r =
     (case der_submission r of
        None \<Rightarrow> raise_op (exec_error demo_execution_failure_category.RECONCILIATION_FAILED
          ''post-dispatch record has no normalized submission receipt'')
      | Some receipt \<Rightarrow>
          try_op (on_world (tm_find_evidence (sv_terminal x) (der_intent r) receipt))
            (\<lambda>_. if der_state r = demo_execution_state.SUBMITTED
               then bind_op (sv_now x) (\<lambda>t. bind_op (advance_and_save x (advance r
                   demo_execution_state.UNKNOWN t
                   (failure_of demo_execution_failure_category.RECONCILIATION_TIMEOUT
                     ''broker reconciliation failed; no resubmission is permitted'')
                   None None None None))
                 (\<lambda>u. bind_op (sv_now x) (\<lambda>t'. bind_op (sv_halt x t' ''broker reconciliation failed'')
                   (\<lambda>_. ret u))))
               else ret r)
            (\<lambda>ev. bind_op (sv_now x) (\<lambda>t.
               bind_op (lift_op (reconcile_broker_evidence (der_intent r) receipt ev t)) (\<lambda>rec.
               if drr_status rec = demo_reconciliation_status.CONFIRMED
               then advance_and_save x (advance r demo_execution_state.CONFIRMED
                 (drr_reconciled_at rec) None None None None (Some rec))
               else if drr_status rec = demo_reconciliation_status.NOT_FOUND
               then (if der_state r = demo_execution_state.UNKNOWN then ret r
                 else bind_op (advance_and_save x (advance r demo_execution_state.UNKNOWN
                     (drr_reconciled_at rec) (drr_failure rec) None None None (Some rec)))
                   (\<lambda>u. bind_op (sv_halt x (drr_reconciled_at rec) ''broker evidence remains inconclusive'')
                     (\<lambda>_. ret u)))
               else bind_op (advance_and_save x (advance r demo_execution_state.RECONCILIATION_FAILED
                   (drr_reconciled_at rec) (drr_failure rec) None None None (Some rec)))
                 (\<lambda>u. bind_op (sv_halt x (drr_reconciled_at rec) ''broker reconciliation mismatch'')
                   (\<lambda>_. ret u))))))"

definition reconcile_unknown ::
  "('s, 'w) exec_service \<Rightarrow> string \<Rightarrow> (('s, 'w) service_state, demo_execution_record) op" where
  "reconcile_unknown x iid =
     bind_op (read_repo (\<lambda>q. rp_get (sv_repository x) q iid)) (\<lambda>found.
       case found of
         None \<Rightarrow> raise_op (exec_error demo_execution_failure_category.RECONCILIATION_FAILED
           ''only an existing UNKNOWN execution may be reconciled'')
       | Some r \<Rightarrow> if der_state r \<noteq> demo_execution_state.UNKNOWN
           then raise_op (exec_error demo_execution_failure_category.RECONCILIATION_FAILED
             ''only an existing UNKNOWN execution may be reconciled'')
           else reconcile_record x r)"

section \<open>From a candidate to a sealed intent\<close>

definition require_single_approval ::
  "('s, 'w) exec_service \<Rightarrow> qualified_demo_execution_candidate \<Rightarrow> demo_execution_environment_acceptance \<Rightarrow>
     instant \<Rightarrow> (('s, 'w) service_state, demo_execution_approval) op" where
  "require_single_approval x cand acc t =
     bind_op (read_repo (\<lambda>q. rp_effective_approvals (sv_repository x) q (deea_account_ref acc)
         (deea_environment_ref acc) (cdr_symbol (qdec_decision cand)) t))
       (\<lambda>apps. case apps of
          [a] \<Rightarrow> ret a
        | _ \<Rightarrow> raise_op (exec_error demo_execution_failure_category.APPROVAL_MISSING
            ''exactly one compatible effective human DEMO approval is required''))"

definition approval_revoked_now ::
  "('s, 'w) exec_service \<Rightarrow> demo_execution_approval \<Rightarrow> 's \<Rightarrow> bool" where
  "approval_revoked_now x app q \<longleftrightarrow>
     rp_approval_is_revoked (sv_repository x) q (dea_approval_id app)
       (content_digest (sv_sha x) (dump_demo_execution_approval app))"

definition sv_validate_authority ::
  "('s, 'w) exec_service \<Rightarrow> qualified_demo_execution_candidate \<Rightarrow> demo_execution_environment_acceptance \<Rightarrow>
     demo_execution_approval \<Rightarrow> demo_execution_policy \<Rightarrow> instant \<Rightarrow> (('s, 'w) service_state, unit) op" where
  "sv_validate_authority x cand acc app pol t =
     bind_op (read_repo (\<lambda>q. validate_execution_authority (sv_sha x) cand acc app pol
         (rp_control_state (sv_repository x) q) (approval_revoked_now x app q) t)) lift_op"

definition validate_risk_generation ::
  "('s, 'w) exec_service \<Rightarrow> qualified_demo_execution_candidate \<Rightarrow> unit fallible" where
  "validate_risk_generation x cand = run_guards [
     (qdm_risk_engine_version (qdec_dependency_manifest cand) \<noteq> sv_risk_engine_version x \<or>
      qdm_risk_policy_digest (qdec_dependency_manifest cand) \<noteq> sv_risk_policy_digest x,
      exec_error demo_execution_failure_category.ACCEPTANCE_CHAIN_INVALID
        ''current M3 Risk generation differs from qualified evidence'')]"

definition revalidation_proposal ::
  "sha \<Rightarrow> trade_proposal \<Rightarrow> market_snapshot \<Rightarrow> decimal \<Rightarrow> trade_proposal" where
  "revalidation_proposal sha source s price =
     \<lparr>tp_cycle_id = ms_cycle_id s, tp_schema_version = ''1.0.0'',
      tp_timestamp = ms_snapshot_completed_at s,
      tp_proposal_id = revalidation_proposal_id sha (tp_proposal_id source) (ms_snapshot_id s),
      tp_snapshot_id = ms_snapshot_id s, tp_symbol = tp_symbol source, tp_side = tp_side source,
      tp_entry = Some price, tp_stop_loss = tp_stop_loss source, tp_take_profit = tp_take_profit source,
      tp_rationale = ''Trusted pre-send revalidation of the immutable SHADOW proposal''\<rparr>"

definition revalidate_risk ::
  "('s, 'w) exec_service \<Rightarrow> qualified_demo_execution_candidate \<Rightarrow> fresh_execution_observation \<Rightarrow>
     demo_execution_preflight \<Rightarrow> fresh_risk_revalidation fallible" where
  "revalidate_risk x cand obs pre =
     (let sha = sv_sha x; s = feo_snapshot obs
      in bind_result (shadow_intent_of cand) (\<lambda>si.
         bind_result (build ''TradeProposal'' fields_trade_proposal
           (revalidation_proposal sha (sti_proposal si) s (depre_risk_validation_price pre))) (\<lambda>p.
         bind_result (risk_evaluate sha (sv_constitution x) p s
           (rce_context (feo_risk_context_evidence obs)) (Aware (depre_completed_at pre))) (\<lambda>d.
         bind_result (run_guards [
           (rd_status d = risk_decision_status.HALTED,
              exec_error demo_execution_failure_category.RISK_HALTED
                ''fresh deterministic Risk evaluation halted execution''),
           (rd_status d \<noteq> risk_decision_status.APPROVED \<or> rd_position_sizing d = None,
              exec_error demo_execution_failure_category.RISK_REJECTED
                ''fresh deterministic Risk evaluation rejected execution''),
           (Option.bind (rd_position_sizing d) psr_selected_volume \<noteq> Some (sti_selected_volume si),
              exec_error demo_execution_failure_category.FRESH_VOLUME_MISMATCH
                ''fresh M3 volume differs from the immutable SHADOW-approved volume'')]) (\<lambda>_.
         build ''FreshRiskRevalidation'' ok_fresh_risk_revalidation
           \<lparr>frr_schema_version = ''1.0.0'', frr_snapshot_link = depre_snapshot_link pre,
            frr_original_proposal_id = tp_proposal_id (sti_proposal si),
            frr_original_proposal_digest = content_digest sha (dump_trade_proposal (sti_proposal si)),
            frr_original_risk_decision_digest = content_digest sha (dump_risk_decision (sti_risk_decision si)),
            frr_revalidation_proposal = p,
            frr_revalidation_proposal_digest = content_digest sha (dump_trade_proposal p),
            frr_risk_decision = d, frr_risk_decision_digest = content_digest sha (dump_risk_decision d),
            frr_evaluated_at = depre_completed_at pre\<rparr>)))))"

text \<open>\<open>client_id[-16:]\<close>\<close>

definition last_chars :: "nat \<Rightarrow> string \<Rightarrow> string" where
  "last_chars n s = drop (length s - n) s"

definition intent_payload ::
  "('s, 'w) exec_service \<Rightarrow> qualified_demo_execution_candidate \<Rightarrow> demo_execution_environment_acceptance \<Rightarrow>
     demo_execution_approval \<Rightarrow> demo_execution_policy \<Rightarrow> demo_execution_preflight \<Rightarrow>
     fresh_risk_revalidation \<Rightarrow> shadow_trade_intent \<Rightarrow> decimal \<Rightarrow> decimal \<Rightarrow> decimal \<Rightarrow> instant \<Rightarrow>
     demo_order_intent" where
  "intent_payload x cand acc app pol pre rvl si vol stop target t =
     (let sha = sv_sha x; p = sti_proposal si;
          source = content_digest sha (dump_shadow_trade_intent si);
          policy = content_digest sha (dump_demo_execution_policy pol);
          iid = execution_intent_id sha source (deea_environment_ref acc) policy;
          cid = client_trade_id sha iid
      in \<lparr>doi_schema_version = ''1.0.0'', doi_execution_intent_id = iid, doi_client_trade_id = cid,
          doi_cycle_id = cdr_cycle_id (qdec_decision cand), doi_snapshot_link = depre_snapshot_link pre,
          doi_account_ref = deea_account_ref acc, doi_environment_ref = deea_environment_ref acc,
          doi_symbol = cdr_symbol (qdec_decision cand), doi_side = tp_side p, doi_volume = vol,
          doi_reference_price = depre_reference_price pre,
          doi_risk_validation_price = depre_risk_validation_price pre,
          doi_stop_loss = stop, doi_take_profit = target,
          doi_maximum_deviation_points = depre_maximum_deviation_points pre,
          doi_execution_mode = depre_execution_mode pre, doi_filling_mode = dep_filling_mode pol,
          doi_magic = dep_magic pol, doi_comment = dep_comment_prefix pol @ '':'' @ last_chars 16 cid,
          doi_source_decision_record_digest =
            content_digest sha (dump_continuous_decision_record (qdec_decision cand)),
          doi_source_shadow_intent_digest = source, doi_analysis_proposal_id = tp_proposal_id p,
          doi_analysis_proposal_digest = content_digest sha (dump_trade_proposal p),
          doi_analysis_risk_decision_digest = content_digest sha (dump_risk_decision (sti_risk_decision si)),
          doi_revalidation_proposal_id = tp_proposal_id (frr_revalidation_proposal rvl),
          doi_revalidation_proposal_digest =
            content_digest sha (dump_trade_proposal (frr_revalidation_proposal rvl)),
          doi_revalidation_risk_decision_digest =
            content_digest sha (dump_risk_decision (frr_risk_decision rvl)),
          doi_qualification_run_id = cqs_qualification_run_id (qdec_qualification_status cand),
          doi_qualification_status_digest =
            content_digest sha (dump_current_qualification_status (qdec_qualification_status cand)),
          doi_generation_id = qdm_generation_id (qdec_dependency_manifest cand),
          doi_generation_digest =
            content_digest sha (dump_qualification_dependency_manifest (qdec_dependency_manifest cand)),
          doi_environment_acceptance_id = deea_acceptance_id acc,
          doi_environment_acceptance_digest =
            content_digest sha (dump_demo_execution_environment_acceptance acc),
          doi_approval_id = dea_approval_id app,
          doi_approval_digest = content_digest sha (dump_demo_execution_approval app),
          doi_execution_policy_digest = policy, doi_created_at = t,
          doi_expires_at = t + seconds (dep_intent_ttl_seconds pol), doi_intent_digest = []\<rparr>)"

text \<open>A proposal without stop or target fails the validation of the intent.\<close>

definition seal_intent ::
  "('s, 'w) exec_service \<Rightarrow> qualified_demo_execution_candidate \<Rightarrow> demo_execution_environment_acceptance \<Rightarrow>
     demo_execution_approval \<Rightarrow> demo_execution_policy \<Rightarrow> demo_execution_preflight \<Rightarrow>
     fresh_risk_revalidation \<Rightarrow> instant \<Rightarrow> demo_order_intent fallible" where
  "seal_intent x cand acc app pol pre rvl t =
     bind_result (shadow_intent_of cand) (\<lambda>si.
       case Option.bind (rd_position_sizing (frr_risk_decision rvl)) psr_selected_volume of
         None \<Rightarrow> Inl (exec_error demo_execution_failure_category.RISK_REJECTED
           ''fresh Risk decision has no approved volume'')
       | Some vol \<Rightarrow> (case (tp_stop_loss (sti_proposal si), tp_take_profit (sti_proposal si)) of
           (Some stop, Some target) \<Rightarrow> seal_demo_order_intent (sv_sha x)
             (intent_payload x cand acc app pol pre rvl si vol stop target t)
         | _ \<Rightarrow> Inl (ValidationError ''DemoOrderIntent'')))"

section \<open>Dispatch\<close>

definition submit_and_record ::
  "('s, 'w) exec_service \<Rightarrow> demo_execution_record \<Rightarrow> instant \<Rightarrow>
     (('s, 'w) service_state, demo_execution_record) op" where
  "submit_and_record x d guard_time =
     (let i = der_intent d
      in try_op (sv_submit x i)
        (\<lambda>_. bind_op (sv_now x) (\<lambda>t.
           bind_op (lift_op (build ''DemoSubmissionReceipt'' ok_demo_submission_receipt
             \<lparr>dsr_schema_version = ''1.0.0'', dsr_execution_intent_id = doi_execution_intent_id i,
              dsr_intent_digest = doi_intent_digest i,
              dsr_disposition = demo_submission_disposition.UNKNOWN,
              dsr_dispatch_started_at = guard_time, dsr_dispatch_completed_at = t,
              dsr_broker_code = None, dsr_evidence = None,
              dsr_sanitized_detail = ''broker dispatch result is unknown''\<rparr>)) (\<lambda>rc.
           bind_op (advance_and_save x (advance d demo_execution_state.UNKNOWN t
             (failure_of demo_execution_failure_category.DISPATCH_RESULT_UNKNOWN
               ''broker dispatch may have occurred; reconciliation only'') None None (Some rc) None)) (\<lambda>u.
           bind_op (sv_halt x t ''unknown broker dispatch result'') (\<lambda>_. ret u)))))
        (\<lambda>rc. case dsr_disposition rc of
           demo_submission_disposition.REJECTED \<Rightarrow>
             advance_and_save x (advance d demo_execution_state.REJECTED (dsr_dispatch_completed_at rc)
               (failure_of demo_execution_failure_category.BROKER_REJECTED
                 ''broker definitively rejected the protected DEMO request'') None None (Some rc) None)
         | demo_submission_disposition.UNKNOWN \<Rightarrow>
             bind_op (advance_and_save x (advance d demo_execution_state.UNKNOWN (dsr_dispatch_completed_at rc)
               (failure_of demo_execution_failure_category.DISPATCH_RESULT_UNKNOWN
                 ''broker dispatch result is unknown; reconciliation only'') None None (Some rc) None))
               (\<lambda>u. bind_op (sv_halt x (dsr_dispatch_completed_at rc) ''unknown broker dispatch result'')
                 (\<lambda>_. ret u))
         | demo_submission_disposition.ACCEPTED \<Rightarrow>
             bind_op (advance_and_save x (advance d demo_execution_state.SUBMITTED
               (dsr_dispatch_completed_at rc) None None None (Some rc) None)) (reconcile_record x)))"

definition sv_guard ::
  "('s, 'w) exec_service \<Rightarrow> demo_execution_record \<Rightarrow> qualified_demo_execution_candidate \<Rightarrow>
     demo_execution_environment_acceptance \<Rightarrow> demo_execution_approval \<Rightarrow> demo_execution_policy \<Rightarrow>
     string \<Rightarrow> final_dispatch_observation \<Rightarrow> instant \<Rightarrow>
     (('s, 'w) service_state, final_dispatch_guard_result) op" where
  "sv_guard x r cand acc app pol owner obs t =
     bind_op (read_repo (\<lambda>q. guard_evaluate (sv_sha x) r cand acc app pol obs
         (rp_claim_is_owned (sv_repository x) q (doi_execution_intent_id (der_intent r)) owner)
         (approval_revoked_now x app q) (rp_control_state (sv_repository x) q) t)) lift_op"

text \<open>From the claimed record on: the broker's check, the final observation, the guard, the dispatch.\<close>

definition dispatch_claimed ::
  "('s, 'w) exec_service \<Rightarrow> qualified_demo_execution_candidate \<Rightarrow> demo_execution_environment_acceptance \<Rightarrow>
     demo_execution_approval \<Rightarrow> demo_execution_policy \<Rightarrow> string \<Rightarrow> demo_execution_record \<Rightarrow>
     (('s, 'w) service_state, demo_execution_record) op" where
  "dispatch_claimed x cand acc app pol owner r =
     (let i = der_intent r; tm = sv_terminal x
      in try_op (on_world (tm_order_check tm i))
        (\<lambda>_. bind_op (sv_now x) (\<lambda>t. reject_before_dispatch x r
           demo_execution_failure_category.ADAPTER_FAILURE
           ''broker pre-dispatch check failed safely'' t None None))
        (\<lambda>chk. if \<not> docr_accepted chk
           then bind_op (sv_now x) (\<lambda>t. reject_before_dispatch x r
             demo_execution_failure_category.ORDER_CHECK_REJECTED
             ''broker pre-dispatch check rejected the sealed request'' t (Some chk) None)
           else try_op (on_world (tm_observe_final tm i))
             (\<lambda>_. bind_op (sv_now x) (\<lambda>t. reject_before_dispatch x r
                demo_execution_failure_category.ADAPTER_FAILURE
                ''final read-only dispatch observation failed'' t (Some chk) None))
             (\<lambda>obs. bind_op (sv_now x) (\<lambda>t. bind_op (sv_guard x r cand acc app pol owner obs t) (\<lambda>g.
                if \<not> fdgr_passed g
                then (case fdgr_failure g of
                   None \<Rightarrow> raise_op AssertionError
                 | Some f \<Rightarrow> reject_before_dispatch x r (def_code f) (def_sanitized_detail f) t
                     (Some chk) (Some g))
                else bind_op (advance_and_save x (advance r demo_execution_state.DISPATCHING t None
                    (Some chk) (Some g) None None))
                  (\<lambda>d. submit_and_record x d t))))))"

definition claim_candidate ::
  "('s, 'w) exec_service \<Rightarrow> qualified_demo_execution_candidate \<Rightarrow> demo_execution_environment_acceptance \<Rightarrow>
     demo_execution_policy \<Rightarrow> string \<Rightarrow>
     (('s, 'w) service_state, demo_execution_approval \<times> demo_execution_record) op" where
  "claim_candidate x cand acc pol owner =
     (let sha = sv_sha x; cycle = cdr_cycle_id (qdec_decision cand)
      in bind_op (sv_now x) (\<lambda>started.
         bind_op (require_single_approval x cand acc started) (\<lambda>app.
         bind_op (sv_validate_authority x cand acc app pol started) (\<lambda>_.
         bind_op (lift_op (validate_risk_generation x cand)) (\<lambda>_.
         bind_op (on_world (tm_capture (sv_terminal x) cycle (execution_snapshot_id sha cycle started))) (\<lambda>obs.
         bind_op (sv_now x) (\<lambda>completed.
         bind_op (lift_op (validate_fresh_execution_observation sha cand obs acc pol started completed)) (\<lambda>pre.
         bind_op (lift_op (revalidate_risk x cand obs pre)) (\<lambda>rvl.
         bind_op (sv_now x) (\<lambda>created.
         bind_op (lift_op (seal_intent x cand acc app pol pre rvl created)) (\<lambda>i.
         bind_op (sv_now x) (\<lambda>claimed.
         bind_op (sv_claim x i pre rvl owner claimed) (\<lambda>r.
         ret (app, r))))))))))))))"

definition execute ::
  "('s, 'w) exec_service \<Rightarrow> qualified_demo_execution_candidate \<Rightarrow> demo_execution_environment_acceptance \<Rightarrow>
     demo_execution_policy \<Rightarrow> string \<Rightarrow> (('s, 'w) service_state, demo_execution_record) op" where
  "execute x cand acc pol owner =
     bind_op (claim_candidate x cand acc pol owner)
       (\<lambda>(app, r). dispatch_claimed x cand acc app pol owner r)"

section \<open>Calls on a service\<close>

text \<open>
  What an operator process does with a service: executions, reconciliations, recovery after a
  restart, and control events; each call ends in a state, whether it returns or raises.
\<close>

datatype service_call =
    CallExecute qualified_demo_execution_candidate demo_execution_environment_acceptance
      demo_execution_policy string
  | CallReconcile string
  | CallRecover instant
  | CallControl execution_control_event

fun service_step :: "('s, 'w) exec_service \<Rightarrow> service_call \<Rightarrow> ('s, 'w) service_state \<Rightarrow> ('s, 'w) service_state" where
  "service_step x (CallExecute cand acc pol owner) s = snd (execute x cand acc pol owner s)"
| "service_step x (CallReconcile iid) s = snd (reconcile_unknown x iid s)"
| "service_step x (CallRecover t) s =
     snd (on_repo (\<lambda>rs. [EvRecovered rs]) (rp_recover_incomplete (sv_repository x) t) s)"
| "service_step x (CallControl e) s =
     snd (on_repo (\<lambda>_. []) (rp_append_control_event (sv_repository x) e) s)"

definition service_run ::
  "('s, 'w) exec_service \<Rightarrow> service_call list \<Rightarrow> ('s, 'w) service_state \<Rightarrow> ('s, 'w) service_state" where
  "service_run x cs s = fold (service_step x) cs s"

end
