(* ===== verification/ExecutionStoreTheorems.thy ===== *)
theory ExecutionStoreTheorems
  imports ExecutionStore
begin

text \<open>
  Correctness of the execution repositories: the lifecycle every stored record keeps, the invariant
  of the store, and the SQLite repository as an implementation of the one in memory.
\<close>

section \<open>The lifecycle of a record\<close>

primrec execution_rank :: "demo_execution_state \<Rightarrow> nat" where
  "execution_rank demo_execution_state.CREATED = 0"
| "execution_rank demo_execution_state.CLAIMED = 1"
| "execution_rank demo_execution_state.DISPATCHING = 2"
| "execution_rank demo_execution_state.SUBMITTED = 3"
| "execution_rank demo_execution_state.UNKNOWN = 4"
| "execution_rank demo_execution_state.CONFIRMED = 5"
| "execution_rank demo_execution_state.REJECTED = 5"
| "execution_rank demo_execution_state.RECONCILIATION_FAILED = 5"

interpretation execution_lifecycle: ranked_lifecycle execution_allowed execution_rank
proof
  show "execution_allowed s t \<Longrightarrow> execution_rank s < execution_rank t" for s t
    by (cases s) (auto simp: execution_allowed_def)
qed

lemma execution_rank_le: "execution_rank s \<le> 5"
  by (cases s) simp_all

lemma not_back_to_claimed:
  "execution_allowed s t \<Longrightarrow> s \<noteq> demo_execution_state.CREATED \<Longrightarrow>
     t \<noteq> demo_execution_state.CREATED \<and> t \<noteq> demo_execution_state.CLAIMED"
  by (cases s) (auto simp: execution_allowed_def)

text \<open>What every stored record satisfies, whether it was validated or made by recovery.\<close>

definition history :: "demo_execution_record \<Rightarrow> demo_execution_state list" where
  "history r = map dee_state (der_events r)"

definition lifecycle_ok :: "demo_execution_record \<Rightarrow> bool" where
  "lifecycle_ok r \<longleftrightarrow>
     der_events r \<noteq> [] \<and> hd (history r) = demo_execution_state.CREATED \<and> last (history r) = der_state r \<and>
     map dee_sequence (der_events r) = py_range1 (length (der_events r)) \<and>
     successively execution_allowed (history r) \<and> der_state r \<noteq> demo_execution_state.CREATED \<and>
     der_claim_owner r \<noteq> None \<and>
     (der_state r \<in> post_dispatch_states \<longrightarrow> der_submission r \<noteq> None)"

lemma validated_lifecycle:
  "ok_demo_execution_record r \<Longrightarrow> der_state r \<noteq> demo_execution_state.CREATED \<Longrightarrow> lifecycle_ok r"
  by (cases "der_events r")
    (auto simp: ok_demo_execution_record_def validate_demo_execution_record_def lifecycle_ok_def history_def
      fields_demo_execution_record_def last_map)

lemma lifecycle_distinct: "lifecycle_ok r \<Longrightarrow> distinct (history r)"
  by (simp add: lifecycle_ok_def execution_lifecycle.history_distinct)

lemma lifecycle_length: "lifecycle_ok r \<Longrightarrow> length (der_events r) \<le> 6"
  using execution_lifecycle.history_bounded [of "history r" 5] execution_rank_le
  by (simp add: lifecycle_ok_def history_def)

text \<open>A record with one more event, whose other fields may change except intent and owner.\<close>

definition extends_by :: "demo_execution_record \<Rightarrow> demo_execution_state \<Rightarrow> demo_execution_record \<Rightarrow> bool" where
  "extends_by c st r \<longleftrightarrow>
     der_intent r = der_intent c \<and> der_claim_owner r = der_claim_owner c \<and> der_state r = st \<and>
     (\<exists>t f. der_events r = der_events c @ [next_event c st t f])"

lemma extends_lifecycle:
  assumes "lifecycle_ok c" and "extends_by c st r" and "execution_allowed (der_state c) st"
    and "st \<in> post_dispatch_states \<longrightarrow> der_submission r \<noteq> None"
  shows "lifecycle_ok r"
proof -
  from assms(2) obtain t f where e: "der_events r = der_events c @ [next_event c st t f]"
    by (auto simp: extends_by_def)
  then have h: "history r = history c @ [st]" by (simp add: history_def next_event_def)
  have "history c \<noteq> []" using assms(1) by (simp add: lifecycle_ok_def history_def)
  moreover have "st \<noteq> demo_execution_state.CREATED"
    using assms(1,3) not_back_to_claimed by (auto simp: lifecycle_ok_def)
  ultimately show ?thesis
    using assms e h by (simp add: lifecycle_ok_def extends_by_def successively_snoc next_event_def)
qed

lemma transition_extends: "extends_by r st (transition r st t f x)"
  unfolding extends_by_def transition_def by (intro conjI exI [of _ t] exI [of _ f]) simp_all

section \<open>The invariant of the store\<close>

abbreviation intent_id :: "demo_execution_record \<Rightarrow> string" where
  "intent_id r \<equiv> doi_execution_intent_id (der_intent r)"

abbreviation source_digest :: "demo_execution_record \<Rightarrow> string" where
  "source_digest r \<equiv> doi_source_shadow_intent_digest (der_intent r)"

abbreviation client_id :: "demo_execution_record \<Rightarrow> string" where
  "client_id r \<equiv> doi_client_trade_id (der_intent r)"

definition indexed :: "exec_store \<Rightarrow> string \<times> demo_execution_record \<Rightarrow> bool" where
  "indexed m kr \<longleftrightarrow> (case kr of (k, r) \<Rightarrow>
     k = intent_id r \<and> lifecycle_ok r \<and> map_of (xs_source_index m) (source_digest r) = Some k \<and>
     map_of (xs_client_index m) (client_id r) = Some k)"

definition store_ok :: "exec_store \<Rightarrow> bool" where
  "store_ok m \<longleftrightarrow> distinct (map fst (xs_records m)) \<and> list_all (indexed m) (xs_records m)"

abbreviation stored :: "exec_store \<Rightarrow> demo_execution_record \<Rightarrow> bool" where
  "stored m r \<equiv> map_of (xs_records m) (intent_id r) = Some r"

lemma store_ok_empty [simp]: "store_ok empty_store"
  by (simp add: store_ok_def empty_store_def)

lemma store_okD:
  assumes "store_ok m" and "map_of (xs_records m) k = Some r"
  shows "k = intent_id r" "lifecycle_ok r" "map_of (xs_source_index m) (source_digest r) = Some k"
    "map_of (xs_client_index m) (client_id r) = Some k"
proof -
  have "\<forall>x \<in> set (xs_records m). indexed m x"
    using assms(1) by (simp add: store_ok_def list_all_iff)
  then have "indexed m (k, r)" using map_of_SomeD [OF assms(2)] by blast
  then show "k = intent_id r" "lifecycle_ok r" "map_of (xs_source_index m) (source_digest r) = Some k"
    "map_of (xs_client_index m) (client_id r) = Some k"
    by (simp_all add: indexed_def)
qed

lemma store_ok_same_source:
  assumes "store_ok m" and "map_of (xs_records m) k = Some r" and "map_of (xs_records m) k' = Some r'"
    and "source_digest r = source_digest r'"
  shows "k = k' \<and> r = r'"
proof -
  have "Some k = Some k'"
    using store_okD(3) [OF assms(1,2)] store_okD(3) [OF assms(1,3)] assms(4) by metis
  with assms(2,3) show ?thesis by simp
qed

text \<open>Replacing a record by a later version of it.\<close>

lemma store_ok_update:
  assumes "store_ok m" and "map_of (xs_records m) (intent_id c) = Some c" and "der_intent r = der_intent c"
    and "lifecycle_ok r"
  shows "store_ok (m\<lparr>xs_records := AList.update (intent_id r) r (xs_records m)\<rparr>)"
  using assms store_okD [OF assms(1,2)]
  by (auto simp: store_ok_def list_all_iff indexed_def set_dict_update)

lemma xs_claim_ok:
  assumes "xs_claim i p rv ow t m = (Inr r, m')"
  shows "r = claimed_record i p rv ow t" "ok_demo_execution_record r"
    "map_of (xs_records m) (doi_execution_intent_id i) = None"
    "map_of (xs_source_index m) (doi_source_shadow_intent_digest i) = None"
    "map_of (xs_client_index m) (doi_client_trade_id i) = None"
    "m' = m\<lparr>xs_records := xs_records m @ [(doi_execution_intent_id i, r)],
       xs_source_index := xs_source_index m @ [(doi_source_shadow_intent_digest i, doi_execution_intent_id i)],
       xs_client_index := xs_client_index m @ [(doi_client_trade_id i, doi_execution_intent_id i)]\<rparr>"
  using assms
  by (auto simp: xs_claim_def build_record_def result_simps dict_update_fresh split: if_splits sum.splits)

lemma xs_claim_fail: "xs_claim i p rv ow t m = (Inl e, m') \<Longrightarrow> m' = m"
  by (auto simp: xs_claim_def split: if_splits sum.splits)

lemma claimed_record_simps [simp]:
  "der_intent (claimed_record i p rv ow t) = i"
  "der_state (claimed_record i p rv ow t) = demo_execution_state.CLAIMED"
  "der_claim_owner (claimed_record i p rv ow t) = Some ow"
  "der_preflight (claimed_record i p rv ow t) = Some p"
  "der_risk_revalidation (claimed_record i p rv ow t) = Some rv"
  by (simp_all add: claimed_record_def)

lemma xs_claim_store_ok:
  assumes "store_ok m" and c: "xs_claim i p rv ow t m = (Inr r, m')"
  shows "store_ok m'"
proof -
  note f = xs_claim_ok [OF c]
  have "lifecycle_ok r" using f(1,2) by (intro validated_lifecycle) simp_all
  moreover have "(k, x) \<in> set (xs_records m) \<Longrightarrow> indexed m' (k, x)" for k x
    using assms(1) f by (auto simp: store_ok_def list_all_iff indexed_def map_add_def)
  moreover have "doi_execution_intent_id i \<notin> fst ` set (xs_records m)"
    using f(3) by (simp add: map_of_eq_None_iff)
  ultimately show ?thesis
    using assms(1) f by (auto simp: store_ok_def list_all_iff indexed_def map_add_def)
qed

lemma xs_save_ok:
  assumes "xs_save r m = (Inr u, m')"
  obtains c where "stored m c" "der_intent r = der_intent c" "der_claim_owner r = der_claim_owner c"
    "butlast (der_events r) = der_events c" "length (der_events r) = Suc (length (der_events c))"
    "m' = m\<lparr>xs_records := AList.update (intent_id r) r (xs_records m)\<rparr>"
  using assms by (auto simp: xs_save_def split: if_splits option.splits)

lemma xs_save_fail: "xs_save r m = (Inl e, m') \<Longrightarrow> m' = m"
  by (auto simp: xs_save_def split: if_splits option.splits)

text \<open>A record that extends the stored one is accepted.\<close>

lemma xs_save_extends:
  assumes "stored m c" and "extends_by c st r"
  shows "xs_save r m = (Inr (), m\<lparr>xs_records := AList.update (intent_id c) r (xs_records m)\<rparr>)"
  using assms by (auto simp: xs_save_def extends_by_def)

lemma xs_append_control_event_ok:
  "xs_append_control_event e m = (x, m') \<Longrightarrow>
     (x = Inr () \<and> m' = m\<lparr>xs_control_events := xs_control_events m @ [e]\<rparr> \<and>
        ece_previous_state e = map_option ece_state (xs_current_control_event m)) \<or> (\<exists>err. x = Inl err) \<and> m' = m"
  by (auto simp: xs_append_control_event_def split: if_splits)

lemma store_ok_control [simp]: "store_ok (m\<lparr>xs_control_events := es\<rparr>) = store_ok m"
  by (simp add: store_ok_def indexed_def list_all_iff)

section \<open>Recovery\<close>

lemma recover_record_next:
  assumes "recover_record t r = Inr (Some r')" and "lifecycle_ok r"
  shows "lifecycle_ok r'" "der_intent r' = der_intent r"
    "der_state r' \<in> {demo_execution_state.REJECTED, demo_execution_state.UNKNOWN}"
proof -
  from assms(1) show i: "der_intent r' = der_intent r"
    "der_state r' \<in> {demo_execution_state.REJECTED, demo_execution_state.UNKNOWN}"
    by (auto simp: recover_record_def transition_def result_simps split: if_splits option.splits)
  from assms obtain st f x where r': "r' = transition r st t f x"
    and a: "execution_allowed (der_state r) st" and s: "st \<in> post_dispatch_states \<longrightarrow> x \<noteq> None"
    by (auto simp: recover_record_def result_simps execution_allowed_def post_dispatch_states_def lifecycle_ok_def
        split: if_splits option.splits)
  have "st \<in> post_dispatch_states \<longrightarrow> der_submission r' \<noteq> None"
    using s r' by (auto simp: transition_def)
  then show "lifecycle_ok r'"
    using extends_lifecycle [OF assms(2)] transition_extends r' a by blast
qed

text \<open>A record and what recovery makes of it: the same, or the same intent REJECTED or UNKNOWN.\<close>

definition recovered_from :: "demo_execution_record \<Rightarrow> demo_execution_record \<Rightarrow> bool" where
  "recovered_from r r' \<longleftrightarrow> r' = r \<or> der_intent r' = der_intent r \<and>
     der_state r' \<in> {demo_execution_state.REJECTED, demo_execution_state.UNKNOWN}"

definition recovers :: "exec_store \<Rightarrow> exec_store \<Rightarrow> bool" where
  "recovers m m' \<longleftrightarrow> store_ok m' \<and> xs_control_events m' = xs_control_events m \<and>
     (\<forall>k. rel_option recovered_from (map_of (xs_records m) k) (map_of (xs_records m') k))"

lemma recovered_from_refl [simp]: "recovered_from r r"
  by (simp add: recovered_from_def)

lemma recovered_from_trans: "recovered_from r r' \<Longrightarrow> recovered_from r' r'' \<Longrightarrow> recovered_from r r''"
  unfolding recovered_from_def by metis

lemma recovers_refl: "store_ok m \<Longrightarrow> recovers m m"
  by (simp add: recovers_def option.rel_refl)

lemma recovers_trans:
  assumes "recovers m m'" and "recovers m' m''"
  shows "recovers m m''"
proof -
  have "rel_option recovered_from (map_of (xs_records m) k) (map_of (xs_records m'') k)" for k
  proof -
    have "rel_option recovered_from (map_of (xs_records m) k) (map_of (xs_records m') k)"
      and "rel_option recovered_from (map_of (xs_records m') k) (map_of (xs_records m'') k)"
      using assms unfolding recovers_def by blast+
    then show ?thesis by (rule option.rel_transp [unfolded transp_def, rule_format, rotated])
        (rule recovered_from_trans)
  qed
  with assms show ?thesis unfolding recovers_def by metis
qed

lemma recovers_step:
  assumes "store_ok m" and "stored m r" and "recover_record t r = Inr (Some r')"
  shows "recovers m (m\<lparr>xs_records := AList.update (intent_id r) r' (xs_records m)\<rparr>)"
proof -
  note n = recover_record_next [OF assms(3) store_okD(2) [OF assms(1,2)]]
  have "recovered_from r r'" unfolding recovered_from_def using n by blast
  moreover have "store_ok (m\<lparr>xs_records := AList.update (intent_id r) r' (xs_records m)\<rparr>)"
    using store_ok_update [OF assms(1,2) n(2,1)] n(2) by simp
  ultimately show ?thesis
    using assms(2) by (simp add: recovers_def option.rel_refl)
qed

lemma recover_loop_ok:
  "recover_loop t rs done m = (x, m') \<Longrightarrow> store_ok m \<Longrightarrow> list_all (stored m) rs \<Longrightarrow>
     distinct (map intent_id rs) \<Longrightarrow> recovers m m'"
proof (induction t rs "done" m rule: recover_loop.induct)
  case (1 t "done" m)
  then show ?case by (simp add: recovers_refl)
next
  case (2 t r rs "done" m)
  show ?case
  proof (cases "recover_record t r")
    case (Inl e)
    then show ?thesis using 2(3,4) by (simp add: recovers_refl)
  next
    case (Inr nx)
    show ?thesis
    proof (cases nx)
      case None
      show ?thesis by (rule 2(1) [OF Inr None]) (use 2(3-6) Inr None in simp_all)
    next
      case (Some r')
      let ?m = "m\<lparr>xs_records := AList.update (intent_id r) r' (xs_records m)\<rparr>"
      have st: "stored m r" using 2(5) by simp
      have step: "recovers m ?m" by (rule recovers_step [OF 2(4) st Inr [unfolded Some]])
      have "stored ?m y" if y: "y \<in> set rs" for y
      proof -
        have "intent_id r \<notin> intent_id ` set rs" using 2(6) by simp
        then have "intent_id y \<noteq> intent_id r" using imageI [OF y, of intent_id] by metis
        moreover have "stored m y" using 2(5) y by (simp add: list_all_iff)
        ultimately show ?thesis by simp
      qed
      then have "list_all (stored ?m) rs" by (simp only: list_all_iff ball_simps) blast
      moreover have "store_ok ?m" using step by (simp add: recovers_def)
      ultimately have "recovers ?m m'"
        by (intro 2(2) [OF Inr Some]) (use 2(3,6) Inr Some in simp_all)
      with step show ?thesis by (rule recovers_trans)
    qed
  qed
qed

text \<open>
  Recovery keeps the invariant and loses no record, also when it raises.
\<close>

lemma xs_recover_ok:
  assumes "xs_recover_incomplete t m = (x, m')" and "store_ok m"
  shows "recovers m m'"
proof (rule recover_loop_ok [OF assms(1) [unfolded xs_recover_incomplete_def] assms(2)])
  have d: "distinct (map fst (xs_records m))" using assms(2) by (simp add: store_ok_def)
  have ix: "\<forall>kr \<in> set (xs_records m). fst kr = intent_id (snd kr)"
    using assms(2) by (simp add: store_ok_def list_all_iff indexed_def case_prod_unfold)
  show "list_all (stored m) (map snd (xs_records m))"
    unfolding list_all_iff using d ix map_of_is_SomeI [OF d] by fastforce
  have "map intent_id (map snd (xs_records m)) = map fst (xs_records m)"
    using ix by simp
  then show "distinct (map intent_id (map snd (xs_records m)))" by (simp only: d)
qed

section \<open>SQLite implements the memory\<close>

text \<open>
  An operation simulates another through a view when every run of it is a run of the other, or
  raises and leaves the view as it was (a driver fault).
\<close>

definition simulates :: "('r \<Rightarrow> 'm) \<Rightarrow> ('r, 'a) op \<Rightarrow> ('m, 'a) op \<Rightarrow> bool" where
  "simulates view g f \<longleftrightarrow> (\<forall>q r q'. g q = (r, q') \<longrightarrow>
     f (view q) = (r, view q') \<or> (\<exists>e. r = Inl e) \<and> view q' = view q)"

lemma simulates_refl: "simulates (\<lambda>m. m) f f"
  by (simp add: simulates_def)

lemma simulatesD:
  assumes "simulates view g f" and "g q = (r, q')"
  shows "f (view q) = (r, view q') \<or> (\<exists>e. r = Inl e) \<and> view q' = view q"
  using assms unfolding simulates_def by blast

lemma persist_simulates:
  assumes "\<And>s x m. f s = (Inr x, m) \<Longrightarrow> undo s m = s"
  shows "simulates sq_mem (persist f w undo) f"
  unfolding simulates_def
proof (intro allI impI)
  fix q r q'
  assume run: "persist f w undo q = (r, q')"
  obtain a m where f: "f (sq_mem q) = (a, m)" by (cases "f (sq_mem q)")
  show "f (sq_mem q) = (r, sq_mem q') \<or> (\<exists>e. r = Inl e) \<and> sq_mem q' = sq_mem q"
  proof (cases a)
    case (Inl e)
    with run f show ?thesis by (auto simp: persist_def)
  next
    case (Inr x)
    with f assms have "undo (sq_mem q) m = sq_mem q" by simp
    with run f Inr show ?thesis by (auto simp: persist_def split: sum.splits)
  qed
qed

lemma dict_update_update [simp]: "AList.update k v (AList.update k w d) = AList.update k v d"
  by (induction d) auto

lemma dict_delete_snoc:
  "map_of d k = None \<Longrightarrow> AList.delete k (d @ [(k, v)]) = d"
  by (induction d) (auto split: if_splits)

lemma dict_restore:
  "map_of d k = Some c \<Longrightarrow> AList.update k c (AList.update k v d) = d"
  by (simp add: dict_update_same)

lemma recover_loop_only_records:
  "recover_loop t rs done m = (x, m') \<Longrightarrow> m'\<lparr>xs_records := xs_records m\<rparr> = m"
proof (induction t rs "done" m arbitrary: x m' rule: recover_loop.induct)
  case (1 t "done" m)
  then show ?case by simp
next
  case (2 t r rs "done" m)
  show ?case
  proof (cases "recover_record t r")
    case (Inl e)
    then show ?thesis using 2(3) by simp
  next
    case (Inr nx)
    show ?thesis
    proof (cases nx)
      case None
      show ?thesis by (rule 2(1) [OF Inr None]) (use 2(3) Inr None in simp)
    next
      case (Some r')
      have "recover_loop t rs (r' # done)
          (m\<lparr>xs_records := AList.update (intent_id r) r' (xs_records m)\<rparr>) = (x, m')"
        using 2(3) Inr Some by simp
      from 2(2) [OF Inr Some this] show ?thesis by (cases m, cases m') simp
    qed
  qed
qed

lemma sq_claim_simulates: "simulates sq_mem (sq_claim fault i p rv ow t) (xs_claim i p rv ow t)"
  unfolding sq_claim_def
proof (rule persist_simulates)
  fix s x m
  assume "xs_claim i p rv ow t s = (Inr x, m)"
  note f = xs_claim_ok(3-6) [OF this]
  show "m\<lparr>xs_records := AList.delete (doi_execution_intent_id i) (xs_records m),
      xs_source_index := AList.delete (doi_source_shadow_intent_digest i) (xs_source_index m),
      xs_client_index := AList.delete (doi_client_trade_id i) (xs_client_index m)\<rparr> = s"
    using f(1-3) by (simp add: f(4) dict_delete_snoc)
qed

lemma sq_add_acceptance_simulates:
  "simulates sq_mem (sq_add_environment_acceptance fault a) (xs_add_environment_acceptance a)"
  unfolding sq_add_environment_acceptance_def
  by (rule persist_simulates)
    (auto simp: xs_add_environment_acceptance_def dict_update_fresh dict_delete_snoc split: if_splits)

lemma sq_add_approval_simulates: "simulates sq_mem (sq_add_approval fault a) (xs_add_approval a)"
  unfolding sq_add_approval_def
  by (rule persist_simulates) (auto simp: xs_add_approval_def dict_update_fresh dict_delete_snoc split: if_splits)

lemma sq_revoke_simulates: "simulates sq_mem (sq_revoke_approval sha fault r) (xs_revoke_approval sha r)"
  unfolding sq_revoke_approval_def
  by (rule persist_simulates)
    (auto simp: xs_revoke_approval_def dict_update_fresh dict_delete_snoc split: if_splits option.splits)

lemma sq_save_simulates: "simulates sq_mem (sq_save fault r) (xs_save r)"
  unfolding sq_save_def
proof (rule persist_simulates)
  fix s x m
  assume "xs_save r s = (Inr x, m)"
  then obtain c where "stored s c" "der_intent r = der_intent c"
    "m = s\<lparr>xs_records := AList.update (intent_id r) r (xs_records s)\<rparr>"
    by (rule xs_save_ok)
  then show "(let iid = intent_id r in case map_of (xs_records s) iid of None \<Rightarrow> m
      | Some c \<Rightarrow> m\<lparr>xs_records := AList.update iid c (xs_records m)\<rparr>) = s"
    by (simp add: dict_restore dict_update_same)
qed

lemma sq_append_simulates: "simulates sq_mem (sq_append_control_event fault e) (xs_append_control_event e)"
  unfolding sq_append_control_event_def
  by (rule persist_simulates) (auto simp: xs_append_control_event_def split: if_splits)

lemma sq_recover_simulates: "simulates sq_mem (sq_recover_incomplete fault t) (xs_recover_incomplete t)"
  unfolding sq_recover_incomplete_def
  by (rule persist_simulates) (simp add: xs_recover_incomplete_def recover_loop_only_records)

end
