(* ===== verification/ExecutionTheorems.thy ===== *)
theory ExecutionTheorems
  imports ExecutionService ExecutionStoreTheorems
begin

text \<open>
  Correctness of the execution service over any repository that behaves like the store in memory
  or raises: what must hold before an order is submitted, that no decision is submitted twice, and
  what a call that returns has left in the repository. The locale \<open>execution_service\<close> is
  interpreted on the service over each of the two repositories of the code.
\<close>

section \<open>What a submission rests on\<close>

definition submissions :: "service_event list \<Rightarrow> demo_order_intent list" where
  "submissions l = List.map_filter (\<lambda>e. case e of EvSubmit i c \<Rightarrow> Some i | _ \<Rightarrow> None) l"

lemma submissions_simps [simp]:
  "submissions [] = []"
  "submissions (xs @ ys) = submissions xs @ submissions ys"
  "submissions (EvSubmit i c # l) = i # submissions l"
  "submissions (EvSaved r # l) = submissions l"
  "submissions (EvClaimed r # l) = submissions l"
  "submissions (EvRecovered rs # l) = submissions l"
  by (simp_all add: submissions_def List.map_filter_def)

text \<open>
  The fresh Risk decision behind a record: the Risk Engine's answer, under the constitution of the
  service, for the proposal at the intent's worst-case price with its stop and target, approving
  exactly the intent's volume.
\<close>

definition risk_backed :: "('s, 'w) exec_service \<Rightarrow> demo_order_intent \<Rightarrow> fresh_risk_revalidation \<Rightarrow> bool" where
  "risk_backed x i rv \<longleftrightarrow>
     (\<exists>s c t. risk_evaluate (sv_sha x) (sv_constitution x) (frr_revalidation_proposal rv) s c t =
        Inr (frr_risk_decision rv)) \<and>
     rd_status (frr_risk_decision rv) = risk_decision_status.APPROVED \<and>
     Option.bind (rd_position_sizing (frr_risk_decision rv)) psr_selected_volume = Some (doi_volume i) \<and>
     tp_side (frr_revalidation_proposal rv) = doi_side i \<and>
     tp_entry (frr_revalidation_proposal rv) = Some (doi_risk_validation_price i) \<and>
     tp_stop_loss (frr_revalidation_proposal rv) = Some (doi_stop_loss i) \<and>
     tp_take_profit (frr_revalidation_proposal rv) = Some (doi_take_profit i)"

definition dispatch_ready :: "('s, 'w) exec_service \<Rightarrow> demo_execution_record \<Rightarrow> bool" where
  "dispatch_ready x d \<longleftrightarrow>
     der_state d = demo_execution_state.DISPATCHING \<and> ok_demo_order_intent (der_intent d) \<and>
     verify_demo_order_intent (sv_sha x) (der_intent d) \<and>
     pred_option (risk_backed x (der_intent d)) (der_risk_revalidation d) \<and> der_risk_revalidation d \<noteq> None \<and>
     map_option docr_accepted (der_order_check d) = Some True \<and>
     map_option fdgr_passed (der_final_guard d) = Some True"

text \<open>
  A log, latest event first: every submission was made with the control ENABLED, right after the
  repository had accepted a ready DISPATCHING record of the same intent.
\<close>

fun log_ok :: "('s, 'w) exec_service \<Rightarrow> service_event list \<Rightarrow> bool" where
  "log_ok x [] = True"
| "log_ok x (EvSubmit i c # es) = (log_ok x es \<and> c = execution_control_state.ENABLED \<and>
     (case es of EvSaved d # _ \<Rightarrow> der_intent d = i \<and> dispatch_ready x d | _ \<Rightarrow> False))"
| "log_ok x (_ # es) = log_ok x es"

text \<open>A submitted intent has a record that is past its claim.\<close>

definition known :: "exec_store \<Rightarrow> demo_order_intent \<Rightarrow> bool" where
  "known m i \<longleftrightarrow> (\<exists>r. map_of (xs_records m) (doi_execution_intent_id i) = Some r \<and> der_intent r = i \<and>
     der_state r \<noteq> demo_execution_state.CLAIMED)"

definition sent_sources :: "service_event list \<Rightarrow> string list" where
  "sent_sources l = map doi_source_shadow_intent_digest (submissions l)"

definition service_inv :: "('s, 'w) exec_service \<Rightarrow> exec_store \<Rightarrow> service_event list \<Rightarrow> bool" where
  "service_inv x m l \<longleftrightarrow>
     store_ok m \<and> log_ok x (rev l) \<and> distinct (sent_sources l) \<and> list_all (known m) (submissions l)"

lemma service_inv_empty [simp]: "service_inv x empty_store []"
  by (simp add: service_inv_def sent_sources_def)

lemma known_other: "known m i \<Longrightarrow> map_of (xs_records m') (doi_execution_intent_id i) =
    map_of (xs_records m) (doi_execution_intent_id i) \<Longrightarrow> known m' i"
  by (simp add: known_def)

lemma known_updated:
  assumes "known m i" and "store_ok m" and "stored m c" and "extends_by c st r"
    and "execution_allowed (der_state c) st"
  shows "known (m\<lparr>xs_records := AList.update (intent_id r) r (xs_records m)\<rparr>) i"
proof (cases "doi_execution_intent_id i = intent_id c")
  case True
  have "st \<noteq> demo_execution_state.CLAIMED"
    using not_back_to_claimed [OF assms(5)] store_okD(2) [OF assms(2,3)] by (simp add: lifecycle_ok_def)
  moreover have "der_intent c = i" using assms(1,3) True unfolding known_def by (metis option.inject)
  ultimately show ?thesis
    using assms(4) True by (simp add: known_def extends_by_def)
next
  case False
  then show ?thesis
    by (intro known_other [OF assms(1)]) (use assms(4) in \<open>simp add: extends_by_def\<close>)
qed

text \<open>An intent whose record is only CLAIMED has not been submitted, nor any of its source.\<close>

lemma claimed_unsent:
  assumes "service_inv x m l" and "stored m c" and "der_state c = demo_execution_state.CLAIMED"
  shows "source_digest c \<notin> set (sent_sources l)"
proof
  assume "source_digest c \<in> set (sent_sources l)"
  then obtain i where i: "i \<in> set (submissions l)" "doi_source_shadow_intent_digest i = source_digest c"
    by (auto simp: sent_sources_def)
  then have "known m i" using assms(1) by (simp add: service_inv_def list_all_iff)
  then obtain r where r: "map_of (xs_records m) (doi_execution_intent_id i) = Some r" "der_intent r = i"
    "der_state r \<noteq> demo_execution_state.CLAIMED" unfolding known_def by blast
  have "r = c"
    using store_ok_same_source [OF _ r(1) assms(2)] assms(1) i(2) r(2) unfolding service_inv_def by metis
  with r(3) assms(3) show False by simp
qed

section \<open>Steps of the invariant\<close>

lemma inv_saved:
  assumes "service_inv x m l" and "stored m c" and "extends_by c st r" and "ok_demo_execution_record r"
    and "st \<noteq> demo_execution_state.CREATED"
    and m': "m' = m\<lparr>xs_records := AList.update (intent_id r) r (xs_records m)\<rparr>"
  shows "service_inv x m' (l @ [EvSaved r])" "stored m' r"
proof -
  have ok: "store_ok m" using assms(1) by (simp add: service_inv_def)
  have lc: "lifecycle_ok r"
    using assms(3,4,5) by (intro validated_lifecycle) (simp_all add: extends_by_def)
  have i: "der_intent r = der_intent c" using assms(3) by (simp add: extends_by_def)
  obtain t f where ev: "der_events r = der_events c @ [next_event c st t f]"
    using assms(3) unfolding extends_by_def by blast
  have lcc: "lifecycle_ok c" by (rule store_okD(2) [OF ok assms(2)])
  have "history r = history c @ [st]" using ev by (simp add: history_def next_event_def)
  moreover have "history c \<noteq> []" using lcc by (simp add: lifecycle_ok_def history_def)
  moreover have "successively execution_allowed (history r)" "last (history c) = der_state c"
    using lc lcc by (simp_all add: lifecycle_ok_def)
  ultimately have "execution_allowed (der_state c) st" by (simp add: successively_snoc)
  then have "list_all (known m') (submissions l)"
    using assms(1) known_updated [OF _ ok assms(2,3)] m' by (simp add: service_inv_def list_all_iff)
  moreover have "store_ok m'" unfolding m' by (rule store_ok_update [OF ok _ i lc]) (use assms(2) i in simp)
  ultimately show "service_inv x m' (l @ [EvSaved r])"
    using assms(1) by (simp add: service_inv_def sent_sources_def)
  show "stored m' r" by (simp add: m')
qed

lemma inv_claimed:
  assumes "service_inv x m l" and c: "xs_claim i p rv ow t m = (Inr r, m')"
  shows "service_inv x m' (l @ [EvClaimed r])" "stored m' r"
proof -
  note f = xs_claim_ok [OF c]
  have keep: "known m' j" if k: "known m j" for j
  proof (rule known_other [OF k])
    have "map_of (xs_records m) (doi_execution_intent_id j) \<noteq> None" using k by (auto simp: known_def)
    with f(3) have "doi_execution_intent_id j \<noteq> doi_execution_intent_id i" by metis
    then show "map_of (xs_records m') (doi_execution_intent_id j) = map_of (xs_records m) (doi_execution_intent_id j)"
      by (simp add: f(6) map_add_def split: option.split)
  qed
  have "list_all (known m') (submissions l)"
    using assms(1) keep unfolding service_inv_def list_all_iff by blast
  then show "service_inv x m' (l @ [EvClaimed r])"
    using assms(1) xs_claim_store_ok [OF _ c] by (simp add: service_inv_def sent_sources_def)
  show "stored m' r" using f(1,3,6) by (simp add: map_add_def)
qed

lemma known_recovered:
  assumes "known m i" and "recovers m m'"
  shows "known m' i"
proof -
  obtain r where r: "map_of (xs_records m) (doi_execution_intent_id i) = Some r" "der_intent r = i"
    "der_state r \<noteq> demo_execution_state.CLAIMED" using assms(1) unfolding known_def by blast
  have "rel_option recovered_from (map_of (xs_records m) (doi_execution_intent_id i))
      (map_of (xs_records m') (doi_execution_intent_id i))"
    using assms(2) unfolding recovers_def by blast
  then obtain r' where r': "map_of (xs_records m') (doi_execution_intent_id i) = Some r'" "recovered_from r r'"
    unfolding r(1) by (auto simp: option_rel_Some1)
  then have "der_intent r' = i" "der_state r' \<noteq> demo_execution_state.CLAIMED"
    using r(2,3) unfolding recovered_from_def by auto
  with r'(1) show ?thesis unfolding known_def by blast
qed

lemma inv_recovered:
  assumes "service_inv x m l" and "xs_recover_incomplete t m = (r, m')" and "e = [] \<or> (\<exists>rs. e = [EvRecovered rs])"
  shows "service_inv x m' (l @ e)"
proof -
  have rec: "recovers m m'"
    by (rule xs_recover_ok [OF assms(2)]) (use assms(1) in \<open>simp add: service_inv_def\<close>)
  have "list_all (known m') (submissions l)"
    using assms(1) known_recovered [OF _ rec] unfolding service_inv_def list_all_iff by blast
  moreover have "store_ok m'" using rec by (simp add: recovers_def)
  ultimately show ?thesis using assms(1,3) by (auto simp: service_inv_def sent_sources_def)
qed

lemma inv_control:
  "service_inv x (m\<lparr>xs_control_events := es\<rparr>) l = service_inv x m l"
proof -
  have "known (m\<lparr>xs_control_events := es\<rparr>) = known m" by (rule ext) (simp add: known_def)
  then show ?thesis by (simp add: service_inv_def)
qed

text \<open>Advancing a record extends it, keeps what it does not set, and validates the result.\<close>

lemma advance_ok:
  assumes "advance c st t f chk g rc rec = Inr r"
  shows "extends_by c st r" "ok_demo_execution_record r" "revalidated r" "der_state r = st"
    "der_intent r = der_intent c" "der_risk_revalidation r = der_risk_revalidation c"
    "der_order_check r = keep_or chk (der_order_check c)" "der_final_guard r = keep_or g (der_final_guard c)"
    "der_submission r = keep_or rc (der_submission c)"
    "der_reconciliation r = keep_or rec (der_reconciliation c)"
proof -
  have r: "r = c\<lparr>der_state := st, der_order_check := keep_or chk (der_order_check c),
      der_final_guard := keep_or g (der_final_guard c), der_submission := keep_or rc (der_submission c),
      der_reconciliation := keep_or rec (der_reconciliation c),
      der_events := der_events c @ [next_event c st t f]\<rparr>"
    and ok: "ok_demo_execution_record r \<and> revalidated r"
    using assms unfolding advance_def build_Inr by auto
  show "extends_by c st r"
    unfolding extends_by_def r by (intro conjI exI [of _ t] exI [of _ f]) simp_all
  show "ok_demo_execution_record r" "revalidated r" using ok by simp_all
qed (use assms in \<open>simp_all add: advance_def build_Inr\<close>)

section \<open>Assertions about the repository and the log\<close>

definition ast :: "('s \<Rightarrow> exec_store) \<Rightarrow> (exec_store \<Rightarrow> service_event list \<Rightarrow> bool) \<Rightarrow>
    ('s, 'w) service_state \<Rightarrow> bool" where
  "ast view A s \<longleftrightarrow> A (view (st_repo s)) (st_log s)"

lemma astD: "ast view A s \<Longrightarrow> (\<And>m l. A m l \<Longrightarrow> B m l) \<Longrightarrow> ast view B s"
  by (simp add: ast_def)

lemma hoare_world: "holds (ast view A) (on_world f) (post (ast view A) (\<lambda>_. ast view A))"
  by (rule holdsI) (auto simp: on_world_def ast_def post_def split: prod.splits sum.splits)

lemma hoare_now: "holds (ast view A) (sv_now x) (post (ast view A) (\<lambda>_. ast view A))"
  by (rule holdsI) (auto simp: sv_now_def ast_def post_def split: prod.splits sum.splits if_splits)

lemma hoare_read:
  "holds (ast view A) (read_repo g)
     (post E (\<lambda>v. ast view (\<lambda>m l. A m l \<and> (\<exists>q. view q = m \<and> v = g q))))"
  by (rule holdsI) (auto simp: read_repo_def ast_def)

text \<open>A call of the repository that simulates an operation of the store.\<close>

lemma hoare_repo:
  assumes "simulates view g f"
    and "\<And>m l y m'. A m l \<Longrightarrow> f m = (Inr y, m') \<Longrightarrow> R y m' (l @ ev y)"
    and "\<And>m l e m'. A m l \<Longrightarrow> f m = (Inl e, m') \<Longrightarrow> E m' l"
    and "\<And>m l. A m l \<Longrightarrow> E m l"
  shows "holds (ast view A) (on_repo ev g) (post (ast view E) (\<lambda>y. ast view (R y)))"
proof (rule holdsI)
  fix s r t
  assume A: "ast view A s" and run: "on_repo ev g s = (r, t)"
  obtain a q where g: "g (st_repo s) = (a, q)" by (cases "g (st_repo s)")
  note sim = simulatesD [OF assms(1) g]
  show "post (ast view E) (\<lambda>y. ast view (R y)) r t"
  proof (cases a)
    case (Inl e)
    with run g have "r = Inl e" "st_repo t = q" "st_log t = st_log s" by (auto simp: on_repo_def)
    with sim A assms(3,4) Inl show ?thesis by (auto simp: ast_def)
  next
    case (Inr y)
    with run g have "r = Inr y" "st_repo t = q" "st_log t = st_log s @ ev y" by (auto simp: on_repo_def)
    with sim A assms(2) Inr show ?thesis by (auto simp: ast_def)
  qed
qed

text \<open>A record is being worked on: it is the stored version of its intent.\<close>

definition running :: "('s, 'w) exec_service \<Rightarrow> demo_execution_record \<Rightarrow> execution_control_state set \<Rightarrow> bool \<Rightarrow>
    exec_store \<Rightarrow> service_event list \<Rightarrow> bool" where
  "running x c cs unsent m l \<longleftrightarrow> service_inv x m l \<and> stored m c \<and> xs_control_state m \<in> cs \<and>
     (unsent \<longrightarrow> source_digest c \<notin> set (sent_sources l))"

definition just_saved :: "demo_execution_record \<Rightarrow> service_event list \<Rightarrow> bool" where
  "just_saved r l \<longleftrightarrow> (\<exists>es. l = es @ [EvSaved r])"

lemma running_inv: "running x c cs u m l \<Longrightarrow> service_inv x m l"
  by (simp add: running_def)

lemma running_mono: "running x c cs u m l \<Longrightarrow> cs \<subseteq> cs' \<Longrightarrow> (u' \<longrightarrow> u) \<Longrightarrow> running x c cs' u' m l"
  by (auto simp: running_def)

text \<open>What a finished call says of the record it returns.\<close>

definition confirmed_exactly :: "demo_execution_record \<Rightarrow> bool" where
  "confirmed_exactly r \<longleftrightarrow> (\<exists>rc v e. der_submission r = Some rc \<and> der_reconciliation r = Some v \<and>
     drr_evidence v = [e] \<and> exact_match (der_intent r) rc e)"

definition settled :: "demo_execution_record \<Rightarrow> exec_store \<Rightarrow> bool" where
  "settled r m \<longleftrightarrow> stored m r \<and>
     (case der_state r of
        demo_execution_state.REJECTED \<Rightarrow> True
      | demo_execution_state.CONFIRMED \<Rightarrow> confirmed_exactly r
      | demo_execution_state.UNKNOWN \<Rightarrow> xs_control_state m = execution_control_state.HALTED
      | demo_execution_state.RECONCILIATION_FAILED \<Rightarrow> xs_control_state m = execution_control_state.HALTED
      | _ \<Rightarrow> False)"

definition finished :: "('s, 'w) exec_service \<Rightarrow> demo_order_intent \<Rightarrow> demo_execution_record \<Rightarrow>
    exec_store \<Rightarrow> service_event list \<Rightarrow> bool" where
  "finished x i r m l \<longleftrightarrow> service_inv x m l \<and> der_intent r = i \<and> settled r m"

section \<open>The service over a repository\<close>

locale execution_repository =
  fixes R :: "'s repository" and sha :: sha and view :: "'s \<Rightarrow> exec_store"
  assumes repo_effective: "rp_effective_approvals R q = xs_effective_approvals sha (view q)"
    and repo_revoked: "rp_approval_is_revoked R q = xs_approval_is_revoked (view q)"
    and repo_control: "rp_control_state R q = xs_control_state (view q)"
    and repo_owned: "rp_claim_is_owned R q = xs_claim_is_owned (view q)"
    and repo_get: "rp_get R q = xs_get (view q)"
    and repo_claim: "simulates view (rp_claim R i p rv ow t) (xs_claim i p rv ow t)"
    and repo_save: "simulates view (rp_save R r) (xs_save r)"
    and repo_append: "simulates view (rp_append_control_event R e) (xs_append_control_event e)"
    and repo_recover: "simulates view (rp_recover_incomplete R t) (xs_recover_incomplete t)"

locale execution_service =
  execution_repository "sv_repository x" "sv_sha x" view
  for x :: "('s, 'w) exec_service" and view :: "'s \<Rightarrow> exec_store"
begin

lemma save_step:
  assumes "extends_by c st r" and "ok_demo_execution_record r" and "st \<noteq> demo_execution_state.CREATED"
  shows "holds (ast view (running x c cs u)) (sv_save x r)
    (post (ast view (service_inv x)) (\<lambda>_. ast view (\<lambda>m l. running x r cs u m l \<and> just_saved r l)))"
  unfolding sv_save_def
proof (rule hoare_repo [OF repo_save])
  fix m l y m'
  assume A: "running x c cs u m l" and "xs_save r m = (Inr y, m')"
  then have m': "m' = m\<lparr>xs_records := AList.update (intent_id c) r (xs_records m)\<rparr>"
    using xs_save_extends [OF _ assms(1)] by (auto simp: running_def)
  have i: "der_intent r = der_intent c" using assms(1) by (simp add: extends_by_def)
  have "service_inv x m l" "stored m c" using A by (simp_all add: running_def)
  note sv = inv_saved [OF this assms, of m']
  have "m' = m\<lparr>xs_records := AList.update (intent_id r) r (xs_records m)\<rparr>" using m' i by simp
  note sv = sv [OF this]
  have "xs_control_state m' = xs_control_state m" using m' by (simp add: xs_control_state_def)
  with sv A i show "running x r cs u m' (l @ [EvSaved r]) \<and> just_saved r (l @ [EvSaved r])"
    by (auto simp: running_def just_saved_def sent_sources_def)
next
  fix m l e m'
  assume "running x c cs u m l" "xs_save r m = (Inl e, m')"
  then show "service_inv x m' l" using xs_save_fail by (auto simp: running_def)
qed (rule running_inv)

lemma advance_step:
  assumes "st \<noteq> demo_execution_state.CREATED"
  shows "holds (ast view (running x c cs u)) (advance_and_save x (advance c st t f chk g rc v))
    (post (ast view (service_inv x)) (\<lambda>r. ast view (\<lambda>m l. running x r cs u m l \<and> just_saved r l \<and>
       advance c st t f chk g rc v = Inr r)))"
  unfolding advance_and_save_def
proof (rule hoare_bind [OF hoare_lift])
  show "ast view (running x c cs u) s \<Longrightarrow> ast view (service_inv x) s" for s
    by (erule astD) (rule running_inv)
  show "holds (\<lambda>s. ast view (running x c cs u) s \<and> advance c st t f chk g rc v = Inr r)
      (bind_op (sv_save x r) (\<lambda>_. ret r)) (post (ast view (service_inv x)) (\<lambda>r. ast view (\<lambda>m l.
        running x r cs u m l \<and> just_saved r l \<and> advance c st t f chk g rc v = Inr r)))" for r
  proof (rule hoare_pure)
    assume a: "advance c st t f chk g rc v = Inr r"
    note ok = advance_ok [OF a]
    show "holds (ast view (running x c cs u)) (bind_op (sv_save x r) (\<lambda>_. ret r))
      (post (ast view (service_inv x)) (\<lambda>r. ast view (\<lambda>m l.
        running x r cs u m l \<and> just_saved r l \<and> advance c st t f chk g rc v = Inr r)))"
      by (rule hoare_bind [OF save_step [OF ok(1,2) assms]], rule hoare_ret) (simp add: a ast_def)
  qed
qed

lemma halt_step:
  "holds (ast view (running x c cs u)) (sv_halt x t reason)
    (post (ast view (service_inv x)) (\<lambda>_. ast view (running x c {execution_control_state.HALTED} u)))"
  unfolding sv_halt_def
proof (rule hoare_bind [OF hoare_read])
  fix previous
  let ?P = "ast view (\<lambda>m l. running x c cs u m l \<and> (\<exists>q. view q = m \<and>
    previous = rp_control_state (sv_repository x) q))"
  have inv: "?P s \<Longrightarrow> ast view (service_inv x) s" for s
    by (erule astD) (auto simp: running_def)
  have halted: "holds ?P (ret ()) (post (ast view (service_inv x)) (\<lambda>_. ast view
      (running x c {execution_control_state.HALTED} u)))"
    if "previous = execution_control_state.HALTED"
    by (rule hoare_ret, erule astD) (use that in \<open>auto simp: running_def repo_control\<close>)
  have appended: "holds ?P (bind_op (lift_op (build ''ExecutionControlEvent'' ok_execution_control_event
        (halt_event (sv_sha x) previous t reason)))
      (\<lambda>e. on_repo (\<lambda>_. []) (rp_append_control_event (sv_repository x) e)))
    (post (ast view (service_inv x)) (\<lambda>_. ast view (running x c {execution_control_state.HALTED} u)))"
  proof (rule hoare_bind [OF hoare_lift [OF inv]])
    fix e
    show "holds (\<lambda>s. ?P s \<and> build ''ExecutionControlEvent'' ok_execution_control_event
        (halt_event (sv_sha x) previous t reason) = Inr e)
      (on_repo (\<lambda>_. []) (rp_append_control_event (sv_repository x) e))
      (post (ast view (service_inv x)) (\<lambda>_. ast view (running x c {execution_control_state.HALTED} u)))"
    proof (rule hoare_pure)
      assume "build ''ExecutionControlEvent'' ok_execution_control_event
        (halt_event (sv_sha x) previous t reason) = Inr e"
      then have st: "ece_state e = execution_control_state.HALTED"
        by (auto simp: build_Inr halt_event_def)
      show "holds ?P (on_repo (\<lambda>_. []) (rp_append_control_event (sv_repository x) e))
        (post (ast view (service_inv x)) (\<lambda>_. ast view (running x c {execution_control_state.HALTED} u)))"
      proof (rule hoare_repo [OF repo_append])
        fix m l y m'
        assume A: "running x c cs u m l \<and> (\<exists>q. view q = m \<and> previous = rp_control_state (sv_repository x) q)"
          and "xs_append_control_event e m = (Inr y, m')"
        then have "m' = m\<lparr>xs_control_events := xs_control_events m @ [e]\<rparr>"
          by (auto dest: xs_append_control_event_ok)
        with A st show "running x c {execution_control_state.HALTED} u m' (l @ [])"
          by (simp add: running_def inv_control xs_control_state_def)
      next
        fix m l err m'
        assume "running x c cs u m l \<and> (\<exists>q. view q = m \<and> previous = rp_control_state (sv_repository x) q)"
          "xs_append_control_event e m = (Inl err, m')"
        then show "service_inv x m' l" by (auto dest: xs_append_control_event_ok simp: running_def)
      qed (simp add: running_def)
    qed
  qed
  show "holds ?P (if previous = execution_control_state.HALTED then ret ()
      else bind_op (lift_op (build ''ExecutionControlEvent'' ok_execution_control_event
        (halt_event (sv_sha x) previous t reason)))
      (\<lambda>e. on_repo (\<lambda>_. []) (rp_append_control_event (sv_repository x) e)))
    (post (ast view (service_inv x)) (\<lambda>_. ast view (running x c {execution_control_state.HALTED} u)))"
    by (rule holds_if) (rule halted, assumption, rule appended)
qed

end

end
