(* ===== verification/ExecutionCalls.thy ===== *)
theory ExecutionCalls
  imports ExecutionTheorems
begin

text \<open>
  The calls of the execution service, verified inside the locale \<open>execution_service\<close> with the rules
  for stateful operations: reconciliation, dispatch, claim, execution.
\<close>

text \<open>A verdict of CONFIRMED is made on one exactly matching piece of evidence.\<close>

lemma confirmed_verdict:
  assumes "reconcile_broker_evidence i rc ev t = Inr v" and "drr_status v = demo_reconciliation_status.CONFIRMED"
  shows "\<exists>e. drr_evidence v = [e] \<and> exact_match i rc e"
proof -
  have v: "v = reconcile_verdict i rc ev t" using assms(1) by (auto simp: reconcile_broker_evidence_def build_Inr)
  with assms(2) obtain e where e: "ev = [e]" "exact_match i rc e"
    by (auto simp: verdict_status split: list.splits if_splits)
  have "drr_status (reconcile_item i rc e t) = demo_reconciliation_status.CONFIRMED"
    using assms(2) v e(1) by (simp add: reconcile_verdict_def)
  then have "drr_evidence (reconcile_item i rc e t) = [e]"
    by (auto simp: reconcile_item_def reconciliation_failure_def Let_def split: if_splits option.splits)
  then show ?thesis using v e by (simp add: reconcile_verdict_def)
qed

lemma settled_halted:
  assumes "running x r {execution_control_state.HALTED} u m l" and "advance c st t f chk g rc v = Inr r"
    and "st \<in> {demo_execution_state.UNKNOWN, demo_execution_state.RECONCILIATION_FAILED}"
  shows "finished x (der_intent c) r m l"
  using assms advance_ok(4,5) [OF assms(2)] by (auto simp: finished_def settled_def running_def)

lemma settled_rejected:
  assumes "running x r cs u m l" and "advance c demo_execution_state.REJECTED t f chk g rc v = Inr r"
  shows "finished x (der_intent c) r m l"
  using assms advance_ok(4,5) [OF assms(2)] by (auto simp: finished_def settled_def running_def)

lemma settled_confirmed:
  assumes "running x r cs u m l" and "advance c demo_execution_state.CONFIRMED t f None None None (Some v) = Inr r"
    and "der_submission c = Some rc" and "drr_evidence v = [e]" and "exact_match (der_intent c) rc e"
  shows "finished x (der_intent c) r m l"
proof -
  note a = advance_ok [OF assms(2)]
  have "confirmed_exactly r"
    unfolding confirmed_exactly_def using a(5,9,10) assms(3-5) by (simp add: keep_or_def)
  then show ?thesis using assms(1) a(4,5) by (auto simp: finished_def settled_def running_def)
qed

text \<open>A reconciliation ends in a settled record, or leaves an UNKNOWN one as it was.\<close>

definition reconciled :: "('s, 'w) exec_service \<Rightarrow> demo_execution_record \<Rightarrow> demo_execution_record \<Rightarrow>
    exec_store \<Rightarrow> service_event list \<Rightarrow> bool" where
  "reconciled x c r m l \<longleftrightarrow> finished x (der_intent c) r m l \<or>
     r = c \<and> der_state c = demo_execution_state.UNKNOWN \<and> service_inv x m l \<and> stored m c"

text \<open>What the final guard has checked when it passes, as far as the dispatch relies on it.\<close>

lemma guard_passed_iff:
  assumes "guard_evaluate sha r cand acc app pol obs owned revoked control now = Inr g"
  shows "fdgr_passed g \<longleftrightarrow> final_dispatch_check sha r cand acc app pol obs owned revoked control now = Inr ()"
  using assms by (auto simp: guard_evaluate_def build_Inr guard_result_def result_simps split: sum.splits py_exception.splits)

lemma dispatch_check_control:
  assumes "final_dispatch_check sha r cand acc app pol obs owned revoked control now = Inr ()"
  shows "control = execution_control_state.ENABLED" "verify_demo_order_intent sha (der_intent r)"
    "owned" "\<not> revoked" "now < doi_expires_at (der_intent r)"
proof -
  have a: "owned \<and> now < doi_expires_at (der_intent r)"
    "validate_execution_authority sha cand acc app pol control revoked now = Inr ()"
    "final_linkage_check sha r cand acc app pol = Inr ()"
    using assms by (auto simp: final_dispatch_check_def result_simps run_guards_ok simp del: run_guards.simps)
  then show "owned" "now < doi_expires_at (der_intent r)" by simp_all
  have g: "run_guards (authority_guards sha cand acc app pol control revoked now) = Inr ()"
    using a(2) by (auto simp: validate_execution_authority_def result_simps)
  then show "control = execution_control_state.ENABLED" "\<not> revoked"
    unfolding run_guards_ok by (simp_all add: authority_guards_def Let_def)
  show "verify_demo_order_intent sha (der_intent r)"
    using a(3) by (auto simp: final_linkage_check_def result_simps Let_def run_guards_ok simp del: run_guards.simps)
qed

text \<open>A record right after its claim, with the fresh Risk decision it rests on.\<close>

definition claim_ready :: "('s, 'w) exec_service \<Rightarrow> demo_execution_record \<Rightarrow> bool" where
  "claim_ready x r \<longleftrightarrow> der_state r = demo_execution_state.CLAIMED \<and>
     (\<exists>rv. der_risk_revalidation r = Some rv \<and> risk_backed x (der_intent r) rv)"

lemma dispatch_ready_advance:
  assumes "claim_ready x r" and "advance r demo_execution_state.DISPATCHING t None (Some chk) (Some g) None None = Inr d"
    and "docr_accepted chk" and "fdgr_passed g" and "verify_demo_order_intent (sv_sha x) (der_intent r)"
  shows "dispatch_ready x d"
proof -
  note a = advance_ok [OF assms(2)]
  have "ok_demo_order_intent (der_intent d)" using a(3) by (simp add: revalidated_def)
  moreover obtain rv where "der_risk_revalidation r = Some rv" "risk_backed x (der_intent r) rv"
    using assms(1) unfolding claim_ready_def by blast
  ultimately show ?thesis
    unfolding dispatch_ready_def using a(4-8) assms(3-5) by (simp add: keep_or_def)
qed

text \<open>The sealed intent is backed by the fresh Risk decision it was sealed with.\<close>

lemma sealed_risk_backed:
  assumes "revalidate_risk x cand obs pre = Inr rv" and "seal_intent x cand acc app pol pre rv t = Inr i"
  shows "risk_backed x i rv"
proof -
  obtain si where si: "shadow_intent_of cand = Inr si"
    using assms(2) by (auto simp: seal_intent_def result_simps)
  obtain p d where p: "p = revalidation_proposal (sv_sha x) (sti_proposal si) (feo_snapshot obs)
        (depre_risk_validation_price pre)"
    and d: "risk_evaluate (sv_sha x) (sv_constitution x) p (feo_snapshot obs)
        (rce_context (feo_risk_context_evidence obs)) (Aware (depre_completed_at pre)) = Inr d"
    and st: "rd_status d = risk_decision_status.APPROVED"
    and rv: "frr_revalidation_proposal rv = p" "frr_risk_decision rv = d"
    using assms(1) si unfolding revalidate_risk_def Let_def
    by (auto simp: result_simps build_Inr run_guards_ok simp del: run_guards.simps)
  obtain vol stop target where v: "Option.bind (rd_position_sizing d) psr_selected_volume = Some vol"
      "tp_stop_loss (sti_proposal si) = Some stop" "tp_take_profit (sti_proposal si) = Some target"
    and i: "seal_demo_order_intent (sv_sha x) (intent_payload x cand acc app pol pre rv si vol stop target t) = Inr i"
    using assms(2) si rv unfolding seal_intent_def
    by (auto simp: result_simps split: option.splits)
  have f: "doi_volume i = vol" "doi_side i = tp_side (sti_proposal si)" "doi_stop_loss i = stop"
    "doi_take_profit i = target" "doi_risk_validation_price i = depre_risk_validation_price pre"
    using i by (auto simp: seal_demo_order_intent_def result_simps build_Inr intent_payload_def Let_def)
  show ?thesis
    unfolding risk_backed_def rv using d st v f by (auto simp: p revalidation_proposal_def)
qed

context execution_service
begin

text \<open>
  A record advanced and saved before the rest of the call, and the control halted at its end: the
  way every uncertain outcome goes.
\<close>

lemma advance_bind:
  assumes "st \<noteq> demo_execution_state.CREATED"
    and "\<And>r. advance c st t f chk g rc v = Inr r \<Longrightarrow>
      holds (ast view (\<lambda>m l. running x r cs u m l \<and> just_saved r l)) (k r) (post (ast view (service_inv x)) S)"
  shows "holds (ast view (running x c cs u)) (bind_op (advance_and_save x (advance c st t f chk g rc v)) k)
    (post (ast view (service_inv x)) S)"
proof (rule hoare_bind [OF advance_step [OF assms(1)]])
  fix r
  show "holds (ast view (\<lambda>m l. running x r cs u m l \<and> just_saved r l \<and> advance c st t f chk g rc v = Inr r))
      (k r) (post (ast view (service_inv x)) S)"
  proof (cases "advance c st t f chk g rc v = Inr r")
    case True
    show ?thesis by (rule hoare_strengthen [OF assms(2) [OF True]]) (simp add: ast_def)
  qed (simp add: holds_def ast_def)
qed

lemma saved_bind:
  assumes "holds (ast view (running x r cs u)) k Q"
  shows "holds (ast view (\<lambda>m l. running x r cs u m l \<and> just_saved r l)) k Q"
  using assms by (rule holds_weaken) (simp_all add: ast_def)

lemma halt_ret:
  assumes "advance c st t f chk g rc v = Inr r"
    and "st \<in> {demo_execution_state.UNKNOWN, demo_execution_state.RECONCILIATION_FAILED}"
  shows "holds (ast view (running x r cs u)) (bind_op (sv_halt x t' reason) (\<lambda>_. ret r))
    (post (ast view (service_inv x)) (\<lambda>r. ast view (finished x (der_intent c) r)))"
  by (rule hoare_bind [OF halt_step], rule hoare_ret, erule astD) (rule settled_halted [OF _ assms])

lemma uncertain_step:
  assumes "st \<in> {demo_execution_state.UNKNOWN, demo_execution_state.RECONCILIATION_FAILED}"
  shows "holds (ast view (running x c cs u))
    (bind_op (advance_and_save x (advance c st t f chk g rc v))
      (\<lambda>r. bind_op (sv_halt x t' reason) (\<lambda>_. ret r)))
    (post (ast view (service_inv x)) (\<lambda>r. ast view (finished x (der_intent c) r)))"
proof (rule advance_bind)
  show "st \<noteq> demo_execution_state.CREATED" using assms by auto
qed (rule saved_bind, rule halt_ret [OF _ assms])

lemma finished_rejected:
  "holds (ast view (running x c cs u)) (advance_and_save x (advance c demo_execution_state.REJECTED t f chk g rc v))
     (post (ast view (service_inv x)) (\<lambda>r. ast view (finished x (der_intent c) r)))"
  by (rule hoare_weaken [OF advance_step]) (auto simp: ast_def dest: settled_rejected)

lemma reject_step:
  "holds (ast view (running x c cs u)) (reject_before_dispatch x c cat d t chk g)
     (post (ast view (service_inv x)) (\<lambda>r. ast view (finished x (der_intent c) r)))"
  unfolding reject_before_dispatch_def by (rule finished_rejected)

text \<open>The clock may raise; it changes neither the repository nor the log.\<close>

lemma now_bind:
  assumes "\<And>t. holds (ast view A) (f t) (post (ast view E) S)" and "\<And>m l. A m l \<Longrightarrow> E m l"
  shows "holds (ast view A) (bind_op (sv_now x) f) (post (ast view E) S)"
proof (rule hoare_bind [OF _ assms(1)])
  show "holds (ast view A) (sv_now x) (post (ast view E) (\<lambda>_. ast view A))"
    by (rule hoare_weaken [OF hoare_now]) (auto simp: ast_def assms(2))
qed

lemma lift_bind:
  assumes "\<And>y. r = Inr y \<Longrightarrow> holds (ast view A) (f y) (post (ast view E) S)" and "\<And>m l. A m l \<Longrightarrow> E m l"
  shows "holds (ast view A) (bind_op (lift_op r) f) (post (ast view E) S)"
proof (rule hoare_bind [OF hoare_lift])
  show "ast view A s \<Longrightarrow> ast view E s" for s using assms(2) by (simp add: ast_def)
qed (rule hoare_pure, rule assms(1))

lemma world_try:
  assumes "\<And>e. holds (ast view A) (h e) (post (ast view E) S)"
    and "\<And>y. holds (ast view A) (f y) (post (ast view E) S)" and "\<And>m l. A m l \<Longrightarrow> E m l"
  shows "holds (ast view A) (try_op (on_world g) h f) (post (ast view E) S)"
  by (rule hoare_try [OF hoare_world _ assms(1,2)]) (simp add: ast_def assms(3))

section \<open>Reconciliation\<close>

lemma reconcile_step:
  assumes rc: "der_submission c = Some rc"
    and st: "der_state c \<in> {demo_execution_state.SUBMITTED, demo_execution_state.UNKNOWN}"
  shows "holds (ast view (running x c cs False)) (reconcile_record x c)
    (post (ast view (service_inv x)) (\<lambda>r. ast view (reconciled x c r)))"
proof -
  let ?A = "ast view (running x c cs False)"
  let ?F = "post (ast view (service_inv x)) (\<lambda>r. ast view (reconciled x c r))"
  have fin: "holds ?A m (post (ast view (service_inv x)) (\<lambda>r. ast view (finished x (der_intent c) r))) \<Longrightarrow>
      holds ?A m ?F" for m
    by (erule hoare_weaken) (auto simp: ast_def reconciled_def)
  have same: "holds ?A (ret c) ?F" if "der_state c = demo_execution_state.UNKNOWN"
    by (rule hoare_ret) (use that in \<open>auto simp: ast_def reconciled_def running_def\<close>)
  have failed: "holds ?A (if der_state c = demo_execution_state.SUBMITTED
      then bind_op (sv_now x) (\<lambda>t. bind_op (advance_and_save x (advance c demo_execution_state.UNKNOWN t
          (failure_of demo_execution_failure_category.RECONCILIATION_TIMEOUT
            ''broker reconciliation failed; no resubmission is permitted'') None None None None))
        (\<lambda>u. bind_op (sv_now x) (\<lambda>t'. bind_op (sv_halt x t' ''broker reconciliation failed'') (\<lambda>_. ret u))))
      else ret c) ?F"
  proof (rule holds_if)
    show "holds ?A (bind_op (sv_now x) (\<lambda>t. bind_op (advance_and_save x (advance c demo_execution_state.UNKNOWN t
          (failure_of demo_execution_failure_category.RECONCILIATION_TIMEOUT
            ''broker reconciliation failed; no resubmission is permitted'') None None None None))
        (\<lambda>u. bind_op (sv_now x) (\<lambda>t'. bind_op (sv_halt x t' ''broker reconciliation failed'')
          (\<lambda>_. ret u))))) ?F"
      by (rule fin, rule now_bind, rule advance_bind, simp, rule saved_bind, rule now_bind, rule halt_ret)
        (auto intro: running_inv)
  qed (use st in \<open>auto intro: same\<close>)
  show ?thesis
    unfolding reconcile_record_def rc option.case
  proof (rule world_try, rule failed, rule now_bind, rule lift_bind)
    fix ev t v
    assume v: "reconcile_broker_evidence (der_intent c) rc ev t = Inr v"
    have confirmed: "holds ?A (advance_and_save x (advance c demo_execution_state.CONFIRMED (drr_reconciled_at v)
        None None None None (Some v))) ?F" if st: "drr_status v = demo_reconciliation_status.CONFIRMED"
    proof -
      obtain e where "drr_evidence v = [e]" "exact_match (der_intent c) rc e"
        using confirmed_verdict [OF v st] by blast
      with rc show ?thesis
        by (intro fin hoare_weaken [OF advance_step]) (auto simp: ast_def intro: settled_confirmed)
    qed
    show "holds ?A (if drr_status v = demo_reconciliation_status.CONFIRMED
        then advance_and_save x (advance c demo_execution_state.CONFIRMED (drr_reconciled_at v)
          None None None None (Some v))
        else if drr_status v = demo_reconciliation_status.NOT_FOUND
        then (if der_state c = demo_execution_state.UNKNOWN then ret c
          else bind_op (advance_and_save x (advance c demo_execution_state.UNKNOWN (drr_reconciled_at v)
              (drr_failure v) None None None (Some v)))
            (\<lambda>u. bind_op (sv_halt x (drr_reconciled_at v) ''broker evidence remains inconclusive'') (\<lambda>_. ret u)))
        else bind_op (advance_and_save x (advance c demo_execution_state.RECONCILIATION_FAILED
            (drr_reconciled_at v) (drr_failure v) None None None (Some v)))
          (\<lambda>u. bind_op (sv_halt x (drr_reconciled_at v) ''broker reconciliation mismatch'') (\<lambda>_. ret u))) ?F"
      by (intro holds_if confirmed same fin uncertain_step) simp_all
  qed (auto intro: running_inv)
qed

section \<open>Dispatch\<close>

lemma submit_log:
  assumes "dispatch_ready x d"
  shows "holds (ast view (\<lambda>m l. running x d {execution_control_state.ENABLED} True m l \<and> just_saved d l))
    (sv_submit x (der_intent d))
    (post (ast view (running x d UNIV False)) (\<lambda>_. ast view (running x d UNIV False)))"
  unfolding sv_submit_def
proof (rule hoare_bind [OF _ hoare_world])
  show "holds (ast view (\<lambda>m l. running x d {execution_control_state.ENABLED} True m l \<and> just_saved d l))
      (log_event (\<lambda>q. EvSubmit (der_intent d) (rp_control_state (sv_repository x) q)))
      (post (ast view (running x d UNIV False)) (\<lambda>_. ast view (running x d UNIV False)))"
  proof (rule holdsI)
    fix s r t
    assume A: "ast view (\<lambda>m l. running x d {execution_control_state.ENABLED} True m l \<and> just_saved d l) s"
      and run: "log_event (\<lambda>q. EvSubmit (der_intent d) (rp_control_state (sv_repository x) q)) s = (r, t)"
    let ?m = "view (st_repo s)"
    from A have i: "service_inv x ?m (st_log s)" "stored ?m d" "xs_control_state ?m = execution_control_state.ENABLED"
      "source_digest d \<notin> set (sent_sources (st_log s))" and j: "just_saved d (st_log s)"
      by (simp_all add: ast_def running_def)
    from run have t: "r = Inr ()" "st_repo t = st_repo s"
      "st_log t = st_log s @ [EvSubmit (der_intent d) execution_control_state.ENABLED]"
      using i(3) by (auto simp: log_event_def repo_control)
    obtain es where es: "st_log s = es @ [EvSaved d]" using j unfolding just_saved_def by blast
    have "der_state d \<noteq> demo_execution_state.CLAIMED" using assms by (simp add: dispatch_ready_def)
    then have "known ?m (der_intent d)" using i(2) unfolding known_def by blast
    with i t es assms have "service_inv x ?m (st_log t)"
      by (simp add: service_inv_def sent_sources_def)
    with i(2) t show "post (ast view (running x d UNIV False)) (\<lambda>_. ast view (running x d UNIV False)) r t"
      by (simp add: ast_def running_def)
  qed
qed

lemma submit_step:
  assumes "dispatch_ready x d"
  shows "holds (ast view (\<lambda>m l. running x d {execution_control_state.ENABLED} True m l \<and> just_saved d l))
    (submit_and_record x d g) (post (ast view (service_inv x)) (\<lambda>r. ast view (finished x (der_intent d) r)))"
  unfolding submit_and_record_def Let_def
proof (rule hoare_try [OF submit_log [OF assms]])
  show "ast view (running x d UNIV False) s \<Longrightarrow> ast view (service_inv x) s" for s
    by (erule astD) (rule running_inv)
  show "holds (ast view (running x d UNIV False)) (bind_op (sv_now x) (\<lambda>t.
      bind_op (lift_op (build ''DemoSubmissionReceipt'' ok_demo_submission_receipt
        \<lparr>dsr_schema_version = ''1.0.0'', dsr_execution_intent_id = doi_execution_intent_id (der_intent d),
         dsr_intent_digest = doi_intent_digest (der_intent d),
         dsr_disposition = demo_submission_disposition.UNKNOWN,
         dsr_dispatch_started_at = g, dsr_dispatch_completed_at = t,
         dsr_broker_code = None, dsr_evidence = None,
         dsr_sanitized_detail = ''broker dispatch result is unknown''\<rparr>)) (\<lambda>rc.
      bind_op (advance_and_save x (advance d demo_execution_state.UNKNOWN t
        (failure_of demo_execution_failure_category.DISPATCH_RESULT_UNKNOWN
          ''broker dispatch may have occurred; reconciliation only'') None None (Some rc) None)) (\<lambda>u.
      bind_op (sv_halt x t ''unknown broker dispatch result'') (\<lambda>_. ret u)))))
    (post (ast view (service_inv x)) (\<lambda>r. ast view (finished x (der_intent d) r)))" for e
    by (rule now_bind, rule lift_bind, rule uncertain_step) (simp_all add: running_inv)
next
  fix rc
  have accepted: "holds (ast view (running x d UNIV False)) (bind_op (advance_and_save x (advance d
      demo_execution_state.SUBMITTED (dsr_dispatch_completed_at rc) None None None (Some rc) None))
      (reconcile_record x)) (post (ast view (service_inv x)) (\<lambda>r. ast view (finished x (der_intent d) r)))"
  proof (rule advance_bind)
    fix r
    assume "advance d demo_execution_state.SUBMITTED (dsr_dispatch_completed_at rc) None None None (Some rc) None = Inr r"
    note a = advance_ok(4,5,9) [OF this]
    show "holds (ast view (\<lambda>m l. running x r UNIV False m l \<and> just_saved r l)) (reconcile_record x r)
        (post (ast view (service_inv x)) (\<lambda>r. ast view (finished x (der_intent d) r)))"
      by (rule saved_bind, rule hoare_weaken [OF reconcile_step [of r rc UNIV]])
        (use a in \<open>auto simp: keep_or_def ast_def reconciled_def\<close>)
  qed simp
  show "holds (ast view (running x d UNIV False)) (case dsr_disposition rc of
       demo_submission_disposition.ACCEPTED \<Rightarrow>
         bind_op (advance_and_save x (advance d demo_execution_state.SUBMITTED
           (dsr_dispatch_completed_at rc) None None None (Some rc) None)) (reconcile_record x)
     | demo_submission_disposition.REJECTED \<Rightarrow>
         advance_and_save x (advance d demo_execution_state.REJECTED (dsr_dispatch_completed_at rc)
           (failure_of demo_execution_failure_category.BROKER_REJECTED
             ''broker definitively rejected the protected DEMO request'') None None (Some rc) None)
     | demo_submission_disposition.UNKNOWN \<Rightarrow>
         bind_op (advance_and_save x (advance d demo_execution_state.UNKNOWN (dsr_dispatch_completed_at rc)
           (failure_of demo_execution_failure_category.DISPATCH_RESULT_UNKNOWN
             ''broker dispatch result is unknown; reconciliation only'') None None (Some rc) None))
           (\<lambda>u. bind_op (sv_halt x (dsr_dispatch_completed_at rc) ''unknown broker dispatch result'')
             (\<lambda>_. ret u)))
    (post (ast view (service_inv x)) (\<lambda>r. ast view (finished x (der_intent d) r)))"
    by (cases "dsr_disposition rc")
      (simp_all add: accepted uncertain_step finished_rejected)
qed

lemma guard_bind:
  assumes "\<And>g. fdgr_passed g \<Longrightarrow> verify_demo_order_intent (sv_sha x) (der_intent r) \<Longrightarrow>
      holds (ast view (running x r {execution_control_state.ENABLED} u)) (k g) (post (ast view E) S)"
    and "\<And>g. \<not> fdgr_passed g \<Longrightarrow> holds (ast view (running x r cs u)) (k g) (post (ast view E) S)"
    and "\<And>m l. running x r cs u m l \<Longrightarrow> E m l"
  shows "holds (ast view (running x r cs u)) (bind_op (sv_guard x r cand acc app pol owner obs t) k)
    (post (ast view E) S)"
proof (rule holdsI)
  fix s y s'
  assume A: "ast view (running x r cs u) s"
    and run: "bind_op (sv_guard x r cand acc app pol owner obs t) k s = (y, s')"
  define g where "g = guard_evaluate (sv_sha x) r cand acc app pol obs
     (rp_claim_is_owned (sv_repository x) (st_repo s) (doi_execution_intent_id (der_intent r)) owner)
     (approval_revoked_now x app (st_repo s)) (rp_control_state (sv_repository x) (st_repo s)) t"
  have guard: "sv_guard x r cand acc app pol owner obs t s = (g, s)"
    by (simp add: sv_guard_def bind_op_def read_repo_def lift_op_def g_def)
  show "post (ast view E) S y s'"
  proof (cases g)
    case (Inl e)
    with run guard A assms(3) show ?thesis by (auto simp: bind_op_def ast_def)
  next
    case (Inr v)
    with run guard have k: "k v s = (y, s')" by (simp add: bind_op_def)
    show ?thesis
    proof (cases "fdgr_passed v")
      case True
      with Inr have c: "final_dispatch_check (sv_sha x) r cand acc app pol obs
          (rp_claim_is_owned (sv_repository x) (st_repo s) (doi_execution_intent_id (der_intent r)) owner)
          (approval_revoked_now x app (st_repo s)) (rp_control_state (sv_repository x) (st_repo s)) t = Inr ()"
        using guard_passed_iff unfolding g_def by blast
      note d = dispatch_check_control(1,2) [OF c]
      have "ast view (running x r {execution_control_state.ENABLED} u) s"
        using A d(1) by (simp add: ast_def running_def repo_control)
      from holdsD [OF assms(1) [OF True d(2)] this k] show ?thesis .
    next
      case False
      from holdsD [OF assms(2) [OF False] A k] show ?thesis .
    qed
  qed
qed

lemma dispatch_step:
  assumes "claim_ready x r"
  shows "holds (ast view (running x r UNIV True)) (dispatch_claimed x cand acc app pol owner r)
    (post (ast view (service_inv x)) (\<lambda>d. ast view (finished x (der_intent r) d)))"
  unfolding dispatch_claimed_def Let_def
proof (rule world_try, rule now_bind, rule reject_step)
  fix chk
  let ?A = "ast view (running x r UNIV True)"
  let ?F = "post (ast view (service_inv x)) (\<lambda>d. ast view (finished x (der_intent r) d))"
  have passed: "holds (ast view (running x r {execution_control_state.ENABLED} True))
      (bind_op (advance_and_save x (advance r demo_execution_state.DISPATCHING t None
        (Some chk) (Some g) None None)) (\<lambda>d. submit_and_record x d t)) ?F"
    if p: "docr_accepted chk" "fdgr_passed g" "verify_demo_order_intent (sv_sha x) (der_intent r)" for g t
  proof (rule advance_bind)
    fix d
    assume a: "advance r demo_execution_state.DISPATCHING t None (Some chk) (Some g) None None = Inr d"
    show "holds (ast view (\<lambda>m l. running x d {execution_control_state.ENABLED} True m l \<and> just_saved d l))
        (submit_and_record x d t) ?F"
      using submit_step [OF dispatch_ready_advance [OF assms a p]] advance_ok(5) [OF a] by simp
  qed simp
  have failed: "holds ?A (case fdgr_failure g of None \<Rightarrow> raise_op AssertionError
      | Some f \<Rightarrow> reject_before_dispatch x r (def_code f) (def_sanitized_detail f) t (Some chk) (Some g)) ?F" for g t
    by (cases "fdgr_failure g") (auto intro!: hoare_raise reject_step elim!: astD running_inv)
  show "holds ?A (if \<not> docr_accepted chk
      then bind_op (sv_now x) (\<lambda>t. reject_before_dispatch x r
        demo_execution_failure_category.ORDER_CHECK_REJECTED
        ''broker pre-dispatch check rejected the sealed request'' t (Some chk) None)
      else try_op (on_world (tm_observe_final (sv_terminal x) (der_intent r)))
        (\<lambda>_. bind_op (sv_now x) (\<lambda>t. reject_before_dispatch x r
           demo_execution_failure_category.ADAPTER_FAILURE
           ''final read-only dispatch observation failed'' t (Some chk) None))
        (\<lambda>obs. bind_op (sv_now x) (\<lambda>t. bind_op (sv_guard x r cand acc app pol owner obs t) (\<lambda>g.
           if \<not> fdgr_passed g
           then (case fdgr_failure g of
              None \<Rightarrow> raise_op AssertionError
            | Some f \<Rightarrow> reject_before_dispatch x r (def_code f) (def_sanitized_detail f) t
                (Some chk) (Some g))
           else bind_op (advance_and_save x (advance r demo_execution_state.DISPATCHING t None
               (Some chk) (Some g) None None))
             (\<lambda>d. submit_and_record x d t))))) ?F"
  proof (rule holds_if)
    show "holds ?A (bind_op (sv_now x) (\<lambda>t. reject_before_dispatch x r
        demo_execution_failure_category.ORDER_CHECK_REJECTED
        ''broker pre-dispatch check rejected the sealed request'' t (Some chk) None)) ?F"
      by (rule now_bind, rule reject_step, rule running_inv)
  next
    assume c: "\<not> \<not> docr_accepted chk"
    show "holds ?A (try_op (on_world (tm_observe_final (sv_terminal x) (der_intent r)))
        (\<lambda>_. bind_op (sv_now x) (\<lambda>t. reject_before_dispatch x r
           demo_execution_failure_category.ADAPTER_FAILURE
           ''final read-only dispatch observation failed'' t (Some chk) None))
        (\<lambda>obs. bind_op (sv_now x) (\<lambda>t. bind_op (sv_guard x r cand acc app pol owner obs t) (\<lambda>g.
           if \<not> fdgr_passed g
           then (case fdgr_failure g of
              None \<Rightarrow> raise_op AssertionError
            | Some f \<Rightarrow> reject_before_dispatch x r (def_code f) (def_sanitized_detail f) t
                (Some chk) (Some g))
           else bind_op (advance_and_save x (advance r demo_execution_state.DISPATCHING t None
               (Some chk) (Some g) None None))
             (\<lambda>d. submit_and_record x d t))))) ?F"
      by (rule world_try, rule now_bind, rule reject_step, erule running_inv,
          rule now_bind, rule guard_bind)
        (use passed failed c running_inv in auto)
  qed
qed (auto intro: running_inv)

section \<open>Claim and execution\<close>

lemma reader_bind:
  assumes "\<And>s. snd (m s) = s" and "\<And>y. holds (ast view A) (f y) (post (ast view E) S)"
    and "\<And>m l. A m l \<Longrightarrow> E m l"
  shows "holds (ast view A) (bind_op m f) (post (ast view E) S)"
proof (rule hoare_bind [OF _ assms(2)])
  show "holds (ast view A) m (post (ast view E) (\<lambda>_. ast view A))"
  proof (rule holdsI)
    fix s r t
    assume "ast view A s" and "m s = (r, t)"
    then show "post (ast view E) (\<lambda>_. ast view A) r t"
      using assms(1) [of s] assms(3) by (cases r) (auto simp: ast_def)
  qed
qed

lemma world_bind:
  assumes "\<And>y. holds (ast view A) (f y) (post (ast view E) S)" and "\<And>m l. A m l \<Longrightarrow> E m l"
  shows "holds (ast view A) (bind_op (on_world g) f) (post (ast view E) S)"
proof (rule hoare_bind [OF _ assms(1)])
  show "holds (ast view A) (on_world g) (post (ast view E) (\<lambda>_. ast view A))"
    by (rule hoare_weaken [OF hoare_world]) (auto simp: ast_def assms(2))
qed

lemma claim_repo_step:
  assumes "risk_backed x i rv"
  shows "holds (ast view (service_inv x)) (sv_claim x i p rv owner t)
    (post (ast view (service_inv x)) (\<lambda>r. ast view (\<lambda>m l. running x r UNIV True m l \<and> claim_ready x r)))"
  unfolding sv_claim_def
proof (rule hoare_repo [OF repo_claim])
  fix m l r m'
  assume A: "service_inv x m l" and c: "xs_claim i p rv owner t m = (Inr r, m')"
  note inv = inv_claimed [OF A c]
  have r: "der_state r = demo_execution_state.CLAIMED" "der_intent r = i" "der_risk_revalidation r = Some rv"
    using xs_claim_ok(1) [OF c] by simp_all
  have "source_digest r \<notin> set (sent_sources (l @ [EvClaimed r]))"
    by (rule claimed_unsent [OF inv r(1)])
  with inv r assms show "running x r UNIV True m' (l @ [EvClaimed r]) \<and> claim_ready x r"
    by (simp add: running_def claim_ready_def)
qed (auto dest: xs_claim_fail)

lemma claim_step:
  "holds (ast view (service_inv x)) (claim_candidate x cand acc pol owner)
    (post (ast view (service_inv x)) (\<lambda>(app, r). ast view (\<lambda>m l. running x r UNIV True m l \<and> claim_ready x r)))"
  unfolding claim_candidate_def Let_def
proof (rule now_bind, rule reader_bind, goal_cases)
  case (1 t s)
  show ?case by (simp add: require_single_approval_def bind_op_def read_repo_def ret_def raise_op_def split: list.split)
next
  case (2 started app)
  show ?case
  proof (rule reader_bind, goal_cases)
    case (1 s)
    show ?case by (simp add: sv_validate_authority_def bind_op_def read_repo_def lift_op_def)
  next
    case (2 _)
    show ?case
    proof (rule lift_bind, rule world_bind, rule now_bind, rule lift_bind, rule lift_bind, rule now_bind,
        rule lift_bind, rule now_bind, goal_cases)
      case (1 _ obs completed pre rv created i claimed)
      show ?case
        by (rule hoare_bind [OF claim_repo_step [OF sealed_risk_backed [OF 1(3,4)]]], rule hoare_ret) simp
    qed
  qed
qed

lemma execute_step:
  "holds (ast view (service_inv x)) (execute x cand acc pol owner)
    (post (ast view (service_inv x)) (\<lambda>r. ast view (\<lambda>m l. service_inv x m l \<and> settled r m)))"
  unfolding execute_def
proof (rule hoare_bind [OF claim_step])
  fix ar :: "demo_execution_approval \<times> demo_execution_record"
  obtain app r where ar: "ar = (app, r)" by (cases ar)
  have "holds (\<lambda>s. ast view (running x r UNIV True) s \<and> claim_ready x r)
      (dispatch_claimed x cand acc app pol owner r)
    (post (ast view (service_inv x)) (\<lambda>r. ast view (\<lambda>m l. service_inv x m l \<and> settled r m)))"
    by (rule hoare_pure, rule hoare_weaken [OF dispatch_step]) (auto simp: ast_def finished_def)
  then show "holds (case ar of (app, r) \<Rightarrow> ast view (\<lambda>m l. running x r UNIV True m l \<and> claim_ready x r))
      (case ar of (app, r) \<Rightarrow> dispatch_claimed x cand acc app pol owner r)
    (post (ast view (service_inv x)) (\<lambda>r. ast view (\<lambda>m l. service_inv x m l \<and> settled r m)))"
    unfolding ar prod.case by (rule holds_weaken) (simp_all add: ast_def)
qed

lemma reconcile_unknown_step:
  "holds (ast view (service_inv x)) (reconcile_unknown x iid)
    (post (ast view (service_inv x)) (\<lambda>r. ast view (\<lambda>m l. service_inv x m l \<and> intent_id r = iid \<and>
       (settled r m \<or> der_state r = demo_execution_state.UNKNOWN \<and> stored m r))))"
  unfolding reconcile_unknown_def
proof (rule hoare_bind [OF hoare_read])
  fix found
  let ?A = "ast view (\<lambda>m l. service_inv x m l \<and> (\<exists>q. view q = m \<and> found = rp_get (sv_repository x) q iid))"
  let ?F = "post (ast view (service_inv x)) (\<lambda>r. ast view (\<lambda>m l. service_inv x m l \<and> intent_id r = iid \<and>
       (settled r m \<or> der_state r = demo_execution_state.UNKNOWN \<and> stored m r)))"
  have refused: "holds ?A (raise_op e) ?F" for e
    by (rule hoare_raise) (simp add: ast_def)
  have found: "holds ?A (reconcile_record x r) ?F"
    if f: "found = Some r" and st: "der_state r = demo_execution_state.UNKNOWN" for r
  proof (cases "intent_id r = iid \<and> der_submission r \<noteq> None")
    case True
    then obtain rc where rc: "der_submission r = Some rc" and iid: "intent_id r = iid" by blast
    show ?thesis
      by (rule hoare_weaken [OF reconcile_step [OF rc, of UNIV]])
        (use st f iid in \<open>auto simp: ast_def running_def repo_get xs_get_def reconciled_def finished_def\<close>)
  next
    case False
    have "\<not> ?A s" for s
    proof
      assume "?A s"
      then have "store_ok (view (st_repo s))" "map_of (xs_records (view (st_repo s))) iid = Some r"
        using f by (auto simp: ast_def service_inv_def repo_get xs_get_def)
      note k = store_okD(1,2) [OF this]
      with st False show False by (simp add: lifecycle_ok_def post_dispatch_states_def)
    qed
    then show ?thesis unfolding holds_def by blast
  qed
  show "holds ?A (case found of
        None \<Rightarrow> raise_op (exec_error demo_execution_failure_category.RECONCILIATION_FAILED
          ''only an existing UNKNOWN execution may be reconciled'')
      | Some r \<Rightarrow> if der_state r \<noteq> demo_execution_state.UNKNOWN
          then raise_op (exec_error demo_execution_failure_category.RECONCILIATION_FAILED
            ''only an existing UNKNOWN execution may be reconciled'')
          else reconcile_record x r) ?F"
    using refused found by (cases found) auto
qed

text \<open>Every call keeps the invariant, whether it returns or raises.\<close>

lemma kept:
  assumes "holds (ast view (service_inv x)) m (post (ast view (service_inv x)) R)"
    and "\<And>y s. R y s \<Longrightarrow> ast view (service_inv x) s" and "ast view (service_inv x) s"
  shows "ast view (service_inv x) (snd (m s))"
proof -
  obtain r t where m: "m s = (r, t)" by (cases "m s")
  from holdsD [OF assms(1,3) m] m assms(2) show ?thesis by (cases r) auto
qed

lemma step_inv:
  assumes "ast view (service_inv x) s"
  shows "ast view (service_inv x) (service_step x c s)"
proof (cases c)
  case (CallExecute cand acc pol owner)
  show ?thesis unfolding CallExecute service_step.simps
    by (rule kept [OF execute_step _ assms]) (simp add: ast_def)
next
  case (CallReconcile iid)
  show ?thesis unfolding CallReconcile service_step.simps
    by (rule kept [OF reconcile_unknown_step _ assms]) (simp add: ast_def)
next
  case (CallRecover t)
  have "holds (ast view (service_inv x)) (on_repo (\<lambda>rs. [EvRecovered rs]) (rp_recover_incomplete (sv_repository x) t))
      (post (ast view (service_inv x)) (\<lambda>_. ast view (service_inv x)))"
    by (rule hoare_repo [OF repo_recover])
      (auto dest: inv_recovered [where e = "[EvRecovered _]"] inv_recovered [where e = "[]"])
  from kept [OF this _ assms] show ?thesis unfolding CallRecover service_step.simps by blast
next
  case (CallControl e)
  have "holds (ast view (service_inv x)) (on_repo (\<lambda>_. []) (rp_append_control_event (sv_repository x) e))
      (post (ast view (service_inv x)) (\<lambda>_. ast view (service_inv x)))"
    by (rule hoare_repo [OF repo_append])
      (auto dest!: xs_append_control_event_ok simp: inv_control)
  from kept [OF this _ assms] show ?thesis unfolding CallControl service_step.simps by blast
qed

lemma run_inv:
  "ast view (service_inv x) s \<Longrightarrow> ast view (service_inv x) (service_run x cs s)"
  unfolding service_run_def by (induction cs arbitrary: s) (simp_all add: step_inv)

end

end
