(* ===== verification/ExecutionRuns.thy ===== *)
theory ExecutionRuns
  imports ExecutionCalls
begin

text \<open>
  The service over the two repositories of the code: the locale \<open>execution_service\<close> interpreted on
  the store in memory and on SQLite with a schedule of driver faults, and what every run of calls
  guarantees.
\<close>

section \<open>The two services\<close>

definition over_memory :: "(exec_store, 'w) exec_service \<Rightarrow> (exec_store, 'w) exec_service" where
  "over_memory x = x\<lparr>sv_repository := mem_repository (sv_sha x)\<rparr>"

definition over_sqlite :: "(faulty_repo, 'w) exec_service \<Rightarrow> (faulty_repo, 'w) exec_service" where
  "over_sqlite x = x\<lparr>sv_repository := sql_repository (sv_sha x)\<rparr>"

definition sql_view :: "faulty_repo \<Rightarrow> exec_store" where
  "sql_view q = sq_mem (fst q)"

lemma faulty_simulates: "(\<And>b. simulates sq_mem (f b) g) \<Longrightarrow> simulates sql_view (faulty f) g"
  unfolding simulates_def faulty_def sql_view_def
  by (auto split: prod.splits)

interpretation memory_service: execution_service "over_memory x" "\<lambda>m. m" for x
  by unfold_locales (simp_all add: over_memory_def mem_repository_def simulates_refl)

interpretation sqlite_service: execution_service "over_sqlite x" sql_view for x
  by unfold_locales
    (simp_all add: over_sqlite_def sql_repository_def sql_view_def faulty_simulates sq_claim_simulates
      sq_save_simulates sq_append_simulates sq_recover_simulates)

text \<open>A service in a new process: an empty log.\<close>

definition started :: "'s \<Rightarrow> 'w \<Rightarrow> ('s, 'w) service_state" where
  "started q w = \<lparr>st_repo = q, st_world = w, st_log = []\<rparr>"

definition service_log :: "('s, 'w) exec_service \<Rightarrow> service_call list \<Rightarrow> 's \<Rightarrow> 'w \<Rightarrow> service_event list" where
  "service_log x cs q w = st_log (service_run x cs (started q w))"

lemma memory_run:
  "service_inv (over_memory x) (st_repo (service_run (over_memory x) cs (started empty_store w)))
     (service_log (over_memory x) cs empty_store w)"
proof -
  have "ast (\<lambda>m. m) (service_inv (over_memory x)) (started empty_store w)"
    by (simp add: ast_def started_def)
  from memory_service.run_inv [OF this, of cs] show ?thesis by (simp add: ast_def service_log_def)
qed

end
