(* ===== verification/ServiceInvariants.thy ===== *)
theory ServiceInvariants
  imports ExecutionRuns
begin

text \<open>
  Invariants of the repository and the log that every call of the service keeps: the locale
  \<open>repository_invariant\<close> asks for them repository call by repository call and gives them for every
  operation that does not submit; \<open>service_invariant\<close> adds the submission and gives them for every run.
  It is the tool for what has to be known of the tables of the SQLite repository when a process
  restarts.
\<close>

named_theorems keep_intros "operations of the service that keep an invariant"

definition keeps :: "('s \<Rightarrow> service_event list \<Rightarrow> bool) \<Rightarrow> (('s, 'w) service_state, 'a) op \<Rightarrow> bool" where
  "keeps I m \<longleftrightarrow> (\<forall>s. I (st_repo s) (st_log s) \<longrightarrow> I (st_repo (snd (m s))) (st_log (snd (m s))))"

lemma keeps_bind [keep_intros]: "keeps I m \<Longrightarrow> (\<And>y. keeps I (f y)) \<Longrightarrow> keeps I (bind_op m f)"
  by (auto simp: keeps_def bind_op_def split: prod.split sum.split)

lemma keeps_try [keep_intros]:
  "keeps I m \<Longrightarrow> (\<And>e. keeps I (h e)) \<Longrightarrow> (\<And>y. keeps I (f y)) \<Longrightarrow> keeps I (try_op m h f)"
  by (auto simp: keeps_def try_op_def split: prod.split sum.split)

lemma keeps_const [keep_intros]:
  "keeps I (ret y)" "keeps I (raise_op e)" "keeps I (lift_op r)" "keeps I (read_repo g)"
  by (simp_all add: keeps_def ret_def raise_op_def lift_op_def read_repo_def)

lemma bind_lift_Inr: "bind_op (lift_op (Inr y)) f = f y"
  by (rule ext) (simp add: bind_op_def lift_op_def)

lemma keeps_world [keep_intros]: "keeps I (on_world g)" "keeps I (sv_now x)"
  by (simp_all add: keeps_def on_world_def sv_now_def split: prod.split)

lemma keeps_if [keep_intros]: "keeps I m \<Longrightarrow> keeps I n \<Longrightarrow> keeps I (if c then m else n)"
  by simp

lemma keeps_option [keep_intros]:
  "keeps I m \<Longrightarrow> (\<And>y. keeps I (f y)) \<Longrightarrow> keeps I (case v of None \<Rightarrow> m | Some y \<Rightarrow> f y)"
  by (cases v) simp_all

lemma keeps_prod [keep_intros]: "(\<And>a b. keeps I (f a b)) \<Longrightarrow> keeps I (case v of (a, b) \<Rightarrow> f a b)"
  by (cases v) simp

lemma keeps_disposition [keep_intros]:
  "keeps I a \<Longrightarrow> keeps I b \<Longrightarrow> keeps I c \<Longrightarrow> keeps I (case v of demo_submission_disposition.ACCEPTED \<Rightarrow> a
     | demo_submission_disposition.REJECTED \<Rightarrow> b | demo_submission_disposition.UNKNOWN \<Rightarrow> c)"
  by (cases v) simp_all

lemma keeps_on_repo:
  fixes I :: "'s \<Rightarrow> service_event list \<Rightarrow> bool"
  assumes "\<And>q l y q'. I q l \<Longrightarrow> f q = (Inr y, q') \<Longrightarrow> I q' (l @ ev y)"
    and "\<And>q l e q'. I q l \<Longrightarrow> f q = (Inl e, q') \<Longrightarrow> I q' l"
  shows "keeps I (on_repo ev f)"
  unfolding keeps_def
proof (intro allI impI)
  fix s :: "('s, 'w) service_state"
  assume A: "I (st_repo s) (st_log s)"
  obtain r q where f: "f (st_repo s) = (r, q)" by (cases "f (st_repo s)")
  show "I (st_repo (snd (on_repo ev f s))) (st_log (snd (on_repo ev f s)))"
    using assms [OF A] f by (cases r) (auto simp: on_repo_def)
qed

lemma keeps_single_approval [keep_intros]: "keeps I (require_single_approval x cand acc t)"
  by (simp add: keeps_def require_single_approval_def bind_op_def read_repo_def ret_def raise_op_def
      split: list.split)

lemma keeps_authority [keep_intros]: "keeps I (sv_validate_authority x cand acc app pol t)"
  by (simp add: keeps_def sv_validate_authority_def bind_op_def read_repo_def lift_op_def)

lemma keeps_guard [keep_intros]: "keeps I (sv_guard x r cand acc app pol owner obs t)"
  by (simp add: keeps_def sv_guard_def bind_op_def read_repo_def lift_op_def)

locale repository_invariant =
  fixes x :: "('s, 'w) exec_service" and I :: "'s \<Rightarrow> service_event list \<Rightarrow> bool"
  assumes claim_keeps [keep_intros]: "keeps I (sv_claim x i p rv owner t)"
    and save_keeps: "ok_demo_execution_record r \<Longrightarrow> der_state r \<noteq> demo_execution_state.CREATED \<Longrightarrow>
      keeps I (sv_save x r)"
    and append_keeps [keep_intros]: "keeps I (on_repo (\<lambda>_. []) (rp_append_control_event (sv_repository x) e) ::
      (('s, 'w) service_state, unit) op)"
    and recover_keeps: "keeps I (on_repo (\<lambda>rs. [EvRecovered rs]) (rp_recover_incomplete (sv_repository x) t) ::
      (('s, 'w) service_state, demo_execution_record list) op)"
begin

lemma advance_keeps [keep_intros]:
  assumes "st \<noteq> demo_execution_state.CREATED"
  shows "keeps I (advance_and_save x (advance c st t f chk g rc v))"
proof (cases "advance c st t f chk g rc v")
  case (Inl e)
  then show ?thesis by (simp add: advance_and_save_def keeps_def bind_op_def lift_op_def)
next
  case (Inr r)
  have "keeps I (bind_op (sv_save x r) (\<lambda>_. ret r))"
    using save_keeps [of r] advance_ok(2,4) [OF Inr] assms by (intro keep_intros) simp
  with Inr show ?thesis by (simp add: advance_and_save_def bind_lift_Inr)
qed

lemma halt_keeps [keep_intros]: "keeps I (sv_halt x t reason)"
  unfolding sv_halt_def by (intro keep_intros)

lemma reject_keeps [keep_intros]: "keeps I (reject_before_dispatch x r c d t chk g)"
  unfolding reject_before_dispatch_def by (intro keep_intros) simp

lemma reconcile_record_keeps [keep_intros]: "keeps I (reconcile_record x r)"
  unfolding reconcile_record_def by (intro keep_intros) simp_all

lemma reconcile_unknown_keeps: "keeps I (reconcile_unknown x iid)"
  unfolding reconcile_unknown_def by (intro keep_intros)

end

locale service_invariant = repository_invariant +
  assumes submit_keeps: "I q l \<Longrightarrow> I q (l @ [EvSubmit i c])"
begin

lemma submit_call_keeps [keep_intros]: "keeps I (sv_submit x i)"
proof -
  have "keeps I (log_event (\<lambda>q. EvSubmit i (rp_control_state (sv_repository x) q)))"
    by (simp add: keeps_def log_event_def submit_keeps)
  then show ?thesis unfolding sv_submit_def by (intro keep_intros)
qed

lemma submit_and_record_keeps [keep_intros]: "keeps I (submit_and_record x d g)"
  unfolding submit_and_record_def Let_def by (intro keep_intros) simp_all

lemma dispatch_keeps [keep_intros]: "keeps I (dispatch_claimed x cand acc app pol owner r)"
  unfolding dispatch_claimed_def Let_def by (intro keep_intros) simp_all

lemma execute_keeps: "keeps I (execute x cand acc pol owner)"
  unfolding execute_def claim_candidate_def Let_def by (intro keep_intros)

lemma step_keeps:
  "I (st_repo s) (st_log s) \<Longrightarrow> I (st_repo (service_step x c s)) (st_log (service_step x c s))"
  by (cases c) (use execute_keeps reconcile_unknown_keeps append_keeps recover_keeps in \<open>auto simp: keeps_def\<close>)

lemma run_keeps:
  "I (st_repo s) (st_log s) \<Longrightarrow> I (st_repo (service_run x cs s)) (st_log (service_run x cs s))"
  unfolding service_run_def by (induction cs arbitrary: s) (simp_all add: step_keeps)

end

text \<open>What has been submitted does not change in an operation that does not submit.\<close>

interpretation quiet: repository_invariant x "\<lambda>_ l. submissions l = S" for x S
  by unfold_locales
    (simp_all add: sv_claim_def sv_save_def keeps_def on_repo_def split: prod.split sum.split)

end
