(* ===== verification/ExecutionRestart.thy ===== *)
theory ExecutionRestart
  imports ServiceInvariants
begin

text \<open>
  Processes over one SQLite file: calls with driver faults, and restarts that load the store from
  the tables. What the tables keep of the memory is an invariant of the service
  (\<open>db_ok\<close>, through the locale \<open>service_invariant\<close>); with it a reloaded store knows every intent that
  was ever submitted.
\<close>

section \<open>Processes\<close>

datatype process_step = Call service_call | Restart

text \<open>A new process opens the file; when loading raises there is no repository and the run ends.\<close>

definition sq_restart :: "sql_repo \<Rightarrow> sql_repo fallible" where
  "sq_restart q = bind_result (load_store (sq_db q)) (\<lambda>m. Inr (q\<lparr>sq_mem := m\<rparr>))"

fun process_run ::
  "(faulty_repo, 'w) exec_service \<Rightarrow> process_step list \<Rightarrow> (faulty_repo, 'w) service_state \<Rightarrow>
     (faulty_repo, 'w) service_state" where
  "process_run x [] s = s"
| "process_run x (Call c # ps) s = process_run x ps (service_step x c s)"
| "process_run x (Restart # ps) s = (case sq_restart (fst (st_repo s)) of
       Inl e \<Rightarrow> s
     | Inr q \<Rightarrow> process_run x ps (s\<lparr>st_repo := (q, snd (st_repo s))\<rparr>))"

section \<open>What the tables keep\<close>

definition intent_row :: "demo_order_intent \<Rightarrow> string \<times> string \<times> demo_order_intent" where
  "intent_row i = (doi_source_shadow_intent_digest i, doi_client_trade_id i, i)"

definition revision_ok :: "exec_tables \<Rightarrow> (string \<times> nat) \<times> demo_execution_record \<Rightarrow> bool" where
  "revision_ok db row \<longleftrightarrow> (case row of (k, r) \<Rightarrow> k = (intent_id r, length (der_events r)) \<and> lifecycle_ok r \<and>
     map_of (xt_intents db) (intent_id r) = Some (intent_row (der_intent r)))"

definition tables_ok :: "exec_tables \<Rightarrow> bool" where
  "tables_ok db \<longleftrightarrow> distinct (map fst (xt_revisions db)) \<and> list_all (revision_ok db) (xt_revisions db) \<and>
     distinct (map fst (xt_intents db)) \<and> distinct (map (fst \<circ> snd) (xt_intents db)) \<and>
     distinct (map (fst \<circ> snd \<circ> snd) (xt_intents db))"

definition mirrored :: "exec_tables \<Rightarrow> exec_store \<Rightarrow> bool" where
  "mirrored db m \<longleftrightarrow> (\<forall>k r. map_of (xs_records m) k = Some r \<longrightarrow>
     map_of (xt_intents db) k = Some (intent_row (der_intent r)))"

definition saves_kept :: "exec_tables \<Rightarrow> service_event list \<Rightarrow> bool" where
  "saves_kept db l \<longleftrightarrow> (\<forall>r. EvSaved r \<in> set l \<longrightarrow>
     ((intent_id r, length (der_events r)), r) \<in> set (xt_revisions db))"

definition db_ok :: "sql_repo \<Rightarrow> service_event list \<Rightarrow> bool" where
  "db_ok q l \<longleftrightarrow> store_ok (sq_mem q) \<and> tables_ok (sq_db q) \<and> mirrored (sq_db q) (sq_mem q) \<and>
     saves_kept (sq_db q) l"

lemma persist_cases:
  assumes "persist f w undo q = (r, q')"
  obtains (written) y m db where "f (sq_mem q) = (Inr y, m)" "w y (sq_db q) = Inr db" "r = Inr y"
      "q' = q\<lparr>sq_mem := m, sq_db := db\<rparr>"
  | (refused) e m where "f (sq_mem q) = (Inl e, m)" "r = Inl e" "q' = q\<lparr>sq_mem := m\<rparr>"
  | (undone) e y m where "f (sq_mem q) = (Inr y, m)" "r = Inl e" "q' = q\<lparr>sq_mem := undo (sq_mem q) m\<rparr>"
  using assms unfolding persist_def by (auto split: prod.splits sum.splits)

lemma insert_row_ok:
  "insert_row fault k v rows = Inr rows' \<longleftrightarrow> \<not> fault \<and> map_of rows k = None \<and> rows' = rows @ [(k, v)]"
  by (auto simp: insert_row_def)

lemma insert_revision_ok:
  assumes "insert_revision fault r db = Inr db'"
  shows "map_of (xt_revisions db) (intent_id r, length (der_events r)) = None"
    "db' = db\<lparr>xt_revisions := xt_revisions db @ [((intent_id r, length (der_events r)), r)]\<rparr>"
  using assms by (auto simp: insert_revision_def result_simps insert_row_ok)

lemma tables_ok_revision:
  assumes "tables_ok db" and "insert_revision fault r db = Inr db'" and "lifecycle_ok r"
    and "map_of (xt_intents db) (intent_id r) = Some (intent_row (der_intent r))"
  shows "tables_ok db'"
proof -
  note ins = insert_revision_ok [OF assms(2)]
  have "(intent_id r, length (der_events r)) \<notin> fst ` set (xt_revisions db)"
    using ins(1) by (simp add: map_of_eq_None_iff)
  moreover have "revision_ok db' = revision_ok db"
    by (rule ext) (simp add: revision_ok_def ins(2))
  ultimately show ?thesis
    using assms(1,3,4) by (simp add: tables_ok_def ins(2) revision_ok_def)
qed

lemma insert_intent_ok:
  assumes "insert_intent fault i db = Inr db'"
  shows "map_of (xt_intents db) (doi_execution_intent_id i) = None"
    "doi_source_shadow_intent_digest i \<notin> (fst \<circ> snd) ` set (xt_intents db)"
    "doi_client_trade_id i \<notin> (fst \<circ> snd \<circ> snd) ` set (xt_intents db)"
    "db' = db\<lparr>xt_intents := xt_intents db @ [(doi_execution_intent_id i, intent_row i)]\<rparr>"
  using assms
  by (auto simp: insert_intent_def result_simps insert_row_ok intent_row_def list_ex_iff split: if_splits)

lemma map_of_snoc:
  "map_of (d @ [(k, v)]) j = (if map_of d j \<noteq> None then map_of d j else if j = k then Some v else None)"
  by (simp add: map_add_def split: option.split)

lemma tables_ok_intent:
  assumes "tables_ok db" and "insert_intent fault i db = Inr db'"
  shows "tables_ok db'" "map_of (xt_intents db') (doi_execution_intent_id i) = Some (intent_row i)"
    "map_of (xt_intents db) k = Some v \<Longrightarrow> map_of (xt_intents db') k = Some v"
proof -
  note ins = insert_intent_ok [OF assms(2)]
  show keep: "map_of (xt_intents db') k = Some v" if "map_of (xt_intents db) k = Some v" for k v
    using that by (simp add: ins(4) map_of_snoc del: map_of_append)
  have "list_all (revision_ok db') (xt_revisions db)"
    using assms(1) keep unfolding tables_ok_def list_all_iff revision_ok_def by fast
  moreover have "doi_execution_intent_id i \<notin> fst ` set (xt_intents db)"
    using ins(1) by (simp add: map_of_eq_None_iff)
  ultimately show "tables_ok db'"
    using assms(1) ins(2,3) by (simp add: tables_ok_def ins(4) intent_row_def comp_def image_image)
  show "map_of (xt_intents db') (doi_execution_intent_id i) = Some (intent_row i)"
    using ins(1) by (simp add: ins(4) map_of_snoc del: map_of_append)
qed

section \<open>Every call keeps it\<close>

lemma keeps_faulty:
  assumes "\<And>b q l y q'. I q l \<Longrightarrow> f b q = (Inr y, q') \<Longrightarrow> I q' (l @ ev y)"
    and "\<And>b q l e q'. I q l \<Longrightarrow> f b q = (Inl e, q') \<Longrightarrow> I q' l"
  shows "keeps (\<lambda>qf. I (fst qf)) (on_repo ev (faulty f))"
proof (rule keeps_on_repo)
  fix q :: faulty_repo and l y q'
  assume A: "I (fst q) l" and "faulty f q = (Inr y, q')"
  then have "f (next_fault (snd q)) (fst q) = (Inr y, fst q')"
    by (auto simp: faulty_def split: prod.splits)
  then show "I (fst q') (l @ ev y)" by (rule assms(1) [OF A])
next
  fix q :: faulty_repo and l e q'
  assume A: "I (fst q) l" and "faulty f q = (Inl e, q')"
  then have "f (next_fault (snd q)) (fst q) = (Inl e, fst q')"
    by (auto simp: faulty_def split: prod.splits)
  then show "I (fst q') l" by (rule assms(2) [OF A])
qed

text \<open>An operation that raises leaves the tables alone, and the memory too unless it is a recovery.\<close>

lemma db_ok_memory:
  assumes "db_ok q l" and "store_ok m" and "mirrored (sq_db q) m"
  shows "db_ok (q\<lparr>sq_mem := m\<rparr>) l"
  using assms by (simp add: db_ok_def)

lemma db_ok_same: "db_ok q l \<Longrightarrow> m = sq_mem q \<Longrightarrow> db_ok (q\<lparr>sq_mem := m\<rparr>) l"
  by simp

lemma saves_kept_mono:
  "saves_kept db l \<Longrightarrow> set (xt_revisions db) \<subseteq> set (xt_revisions db') \<Longrightarrow> saves_kept db' l"
  unfolding saves_kept_def by blast

lemma saves_kept_snoc [simp]:
  "saves_kept db (l @ [EvClaimed r]) = saves_kept db l" "saves_kept db (l @ [EvRecovered rs]) = saves_kept db l"
  "saves_kept db (l @ [EvSubmit i c]) = saves_kept db l"
  "saves_kept db (l @ [EvSaved r]) \<longleftrightarrow> saves_kept db l \<and>
     ((intent_id r, length (der_events r)), r) \<in> set (xt_revisions db)"
  by (auto simp: saves_kept_def)

lemma db_ok_claim:
  assumes "db_ok q l" and "sq_claim fault i p rv ow t q = (r, q')"
  shows "case r of Inl e \<Rightarrow> db_ok q' l | Inr y \<Rightarrow> db_ok q' (l @ [EvClaimed y])"
  using assms(2) unfolding sq_claim_def
proof (cases rule: persist_cases)
  case (written y m db)
  note c = xs_claim_ok [OF written(1)]
  obtain db1 where i: "insert_intent fault i (sq_db q) = Inr db1" and v: "insert_revision False y db1 = Inr db"
    using written(2) by (auto simp: result_simps)
  note ti = tables_ok_intent [OF _ i]
  have ok: "tables_ok (sq_db q)" "store_ok (sq_mem q)" "mirrored (sq_db q) (sq_mem q)" "saves_kept (sq_db q) l"
    using assms(1) by (simp_all add: db_ok_def)
  have y: "der_intent y = i" "lifecycle_ok y"
    using c(1,2) by (auto intro: validated_lifecycle)
  have db: "db = db1\<lparr>xt_revisions := xt_revisions db1 @ [((intent_id y, length (der_events y)), y)]\<rparr>"
    by (rule insert_revision_ok [OF v])
  have "tables_ok db" by (rule tables_ok_revision [OF ti(1) v y(2)]) (use ok(1) ti(2) y(1) in simp_all)
  moreover have "store_ok m" by (rule xs_claim_store_ok [OF ok(2) written(1)])
  moreover have "mirrored db m"
    unfolding mirrored_def
  proof (intro allI impI)
    fix k z
    assume z: "map_of (xs_records m) k = Some z"
    show "map_of (xt_intents db) k = Some (intent_row (der_intent z))"
    proof (cases "map_of (xs_records (sq_mem q)) k = None")
      case True
      then have "k = doi_execution_intent_id i \<and> z = y"
        using z by (simp add: c(6) map_of_snoc split: if_splits del: map_of_append)
      then show ?thesis using ti(2) [OF ok(1)] y(1) db by simp
    next
      case False
      then have "map_of (xs_records (sq_mem q)) k = Some z"
        using z by (simp add: c(6) map_of_snoc split: if_splits del: map_of_append)
      then show ?thesis using ti(3) [OF ok(1)] ok(3) db unfolding mirrored_def by simp
    qed
  qed
  moreover have "saves_kept db l"
    by (rule saves_kept_mono [OF ok(4)]) (use insert_intent_ok(4) [OF i] db in auto)
  ultimately show ?thesis using written by (simp add: db_ok_def)
next
  case (refused e m)
  then show ?thesis using assms(1) xs_claim_fail [OF refused(1)] by simp
next
  case (undone e y m)
  note f = xs_claim_ok(3-6) [OF undone(1)]
  show ?thesis
    using assms(1) f(1-3) by (simp add: undone(2,3) f(4) dict_delete_snoc)
qed

lemma db_ok_save:
  assumes "db_ok q l" and "sq_save fault d q = (r, q')"
    and "ok_demo_execution_record d" and "der_state d \<noteq> demo_execution_state.CREATED"
  shows "case r of Inl e \<Rightarrow> db_ok q' l | Inr y \<Rightarrow> db_ok q' (l @ [EvSaved d])"
  using assms(2) unfolding sq_save_def
proof (cases rule: persist_cases)
  case (written y m db)
  obtain c where c: "stored (sq_mem q) c" "der_intent d = der_intent c"
    "m = (sq_mem q)\<lparr>xs_records := AList.update (intent_id d) d (xs_records (sq_mem q))\<rparr>"
    using written(1) by (cases rule: xs_save_ok) auto
  have ok: "tables_ok (sq_db q)" "store_ok (sq_mem q)" "mirrored (sq_db q) (sq_mem q)" "saves_kept (sq_db q) l"
    using assms(1) by (simp_all add: db_ok_def)
  have lc: "lifecycle_ok d" by (rule validated_lifecycle [OF assms(3,4)])
  note v = insert_revision_ok [OF written(2)]
  have row: "map_of (xt_intents (sq_db q)) (intent_id d) = Some (intent_row (der_intent d))"
    using ok(3) c(1,2) unfolding mirrored_def by simp
  have "tables_ok db" by (rule tables_ok_revision [OF ok(1) written(2) lc row])
  moreover have "store_ok m" unfolding c(3)
    by (rule store_ok_update [OF ok(2) c(1,2) lc])
  moreover have "mirrored db m"
    using ok(3) row unfolding mirrored_def v(2) c(3) by simp
  moreover have "saves_kept db (l @ [EvSaved d])"
    using saves_kept_mono [OF ok(4), of db] by (auto simp: v(2))
  ultimately show ?thesis using written by (simp add: db_ok_def)
next
  case (refused e m)
  then show ?thesis using assms(1) xs_save_fail [OF refused(1)] by simp
next
  case (undone e y m)
  obtain c where "stored (sq_mem q) c" "der_intent d = der_intent c"
    "m = (sq_mem q)\<lparr>xs_records := AList.update (intent_id d) d (xs_records (sq_mem q))\<rparr>"
    using undone(1) by (cases rule: xs_save_ok) auto
  then show ?thesis
    using assms(1) by (simp add: undone(2,3) Let_def dict_restore dict_update_same)
qed

lemma db_ok_control:
  assumes "db_ok q l" and "sq_append_control_event fault e q = (r, q')"
  shows "db_ok q' l"
  using assms(2) unfolding sq_append_control_event_def
proof (cases rule: persist_cases)
  case (written y m db)
  have "m = (sq_mem q)\<lparr>xs_control_events := xs_control_events (sq_mem q) @ [e]\<rparr>"
    using xs_append_control_event_ok [OF written(1)] by simp
  moreover obtain rows where "db = (sq_db q)\<lparr>xt_control_events := rows\<rparr>"
    using written(2) by (auto simp: result_simps)
  moreover from this have "revision_ok db = revision_ok (sq_db q)"
    by (intro ext) (simp add: revision_ok_def)
  ultimately show ?thesis using assms(1) written
    by (simp add: db_ok_def tables_ok_def mirrored_def saves_kept_def)
next
  case (refused err m)
  then show ?thesis using assms(1) xs_append_control_event_ok [OF refused(1)] by simp
next
  case (undone err y m)
  then show ?thesis using assms(1) xs_append_control_event_ok [OF undone(1)] by simp
qed

text \<open>Recovery: the records it returns are the ones it changed in memory.\<close>

lemma recover_loop_results:
  assumes "recover_loop t rs res m = (Inr out, m')" and "\<forall>r \<in> set rs. lifecycle_ok r"
  shows "\<forall>r' \<in> set out. r' \<in> set res \<or> lifecycle_ok r' \<and> (\<exists>r \<in> set rs. der_intent r' = der_intent r)"
  using assms
proof (induction t rs res m rule: recover_loop.induct)
  case (1 t res m)
  then show ?case by auto
next
  case (2 t r rs res m)
  show ?case
  proof (cases "recover_record t r")
    case (Inl e)
    with 2(3) show ?thesis by simp
  next
    case (Inr nx)
    show ?thesis
    proof (cases nx)
      case None
      then have "recover_loop t rs res m = (Inr out, m')" using 2(3) Inr by simp
      from 2(1) [OF Inr None this] 2(4) show ?thesis by (meson list.set_intros)
    next
      case (Some r')
      then have run: "recover_loop t rs (r' # res)
          (m\<lparr>xs_records := AList.update (intent_id r) r' (xs_records m)\<rparr>) = (Inr out, m')"
        using 2(3) Inr by simp
      have "lifecycle_ok r'" "der_intent r' = der_intent r"
        using recover_record_next [OF Inr [unfolded Some]] 2(4) by simp_all
      with 2(2) [OF Inr Some run] 2(4) show ?thesis by (metis list.set_intros set_ConsD)
    qed
  qed
qed

lemma insert_revisions_ok:
  assumes "insert_revisions fault rs db = Inr db'" and "tables_ok db"
    and "\<forall>r \<in> set rs. lifecycle_ok r \<and> map_of (xt_intents db) (intent_id r) = Some (intent_row (der_intent r))"
  shows "tables_ok db' \<and> xt_intents db' = xt_intents db \<and> set (xt_revisions db) \<subseteq> set (xt_revisions db')"
  using assms
proof (induction rs arbitrary: db)
  case Nil
  then show ?case by (simp split: if_splits)
next
  case (Cons r rs)
  then obtain db1 where v: "insert_revision False r db = Inr db1" and i: "insert_revisions fault rs db1 = Inr db'"
    by (auto simp: result_simps)
  note f = insert_revision_ok(2) [OF v]
  have "tables_ok db1" by (rule tables_ok_revision [OF Cons.prems(2) v]) (use Cons.prems(3) in simp_all)
  moreover have "\<forall>r \<in> set rs. lifecycle_ok r \<and>
      map_of (xt_intents db1) (intent_id r) = Some (intent_row (der_intent r))"
    using Cons.prems(3) f by simp
  ultimately have "tables_ok db' \<and> xt_intents db' = xt_intents db1 \<and> set (xt_revisions db1) \<subseteq> set (xt_revisions db')"
    by (rule Cons.IH [OF i])
  with f show ?case by auto
qed

lemma mirrored_recovers:
  assumes "mirrored db m" and "recovers m m'"
  shows "mirrored db m'"
  unfolding mirrored_def
proof (intro allI impI)
  fix k r'
  assume r': "map_of (xs_records m') k = Some r'"
  have "rel_option recovered_from (map_of (xs_records m) k) (map_of (xs_records m') k)"
    using assms(2) unfolding recovers_def by blast
  then obtain r where r: "map_of (xs_records m) k = Some r" "recovered_from r r'"
    unfolding r' by (auto simp: option_rel_Some2)
  then have "der_intent r' = der_intent r" unfolding recovered_from_def by auto
  with assms(1) r(1) show "map_of (xt_intents db) k = Some (intent_row (der_intent r'))"
    unfolding mirrored_def by metis
qed

lemma db_ok_recover:
  assumes "db_ok q l" and "sq_recover_incomplete fault t q = (r, q')"
  shows "case r of Inl e \<Rightarrow> db_ok q' l | Inr rs \<Rightarrow> db_ok q' (l @ [EvRecovered rs])"
  using assms(2) unfolding sq_recover_incomplete_def
proof (cases rule: persist_cases)
  case (written rs m db)
  have ok: "tables_ok (sq_db q)" "store_ok (sq_mem q)" "mirrored (sq_db q) (sq_mem q)" "saves_kept (sq_db q) l"
    using assms(1) by (simp_all add: db_ok_def)
  have rec: "recovers (sq_mem q) m" by (rule xs_recover_ok [OF written(1) ok(2)])
  have from_mem: "map_of (xs_records (sq_mem q)) (intent_id z) = Some z \<and> lifecycle_ok z"
    if "z \<in> set (map snd (xs_records (sq_mem q)))" for z
  proof -
    from that obtain k where "(k, z) \<in> set (xs_records (sq_mem q))" by auto
    moreover have "distinct (map fst (xs_records (sq_mem q)))" using ok(2) by (simp add: store_ok_def)
    ultimately have "map_of (xs_records (sq_mem q)) k = Some z" by simp
    with store_okD(1,2) [OF ok(2) this] show ?thesis by simp
  qed
  have "lifecycle_ok y \<and> map_of (xt_intents (sq_db q)) (intent_id y) = Some (intent_row (der_intent y))"
    if y: "y \<in> set rs" for y
  proof -
    have "lifecycle_ok y \<and> (\<exists>z \<in> set (map snd (xs_records (sq_mem q))). der_intent y = der_intent z)"
      using recover_loop_results [OF written(1) [unfolded xs_recover_incomplete_def]] from_mem y
      by (metis empty_iff list.set(1))
    then obtain z where "lifecycle_ok y" "z \<in> set (map snd (xs_records (sq_mem q)))" "der_intent y = der_intent z"
      by blast
    with from_mem [of z] ok(3) show ?thesis unfolding mirrored_def by metis
  qed
  then have "tables_ok db \<and> xt_intents db = xt_intents (sq_db q) \<and>
      set (xt_revisions (sq_db q)) \<subseteq> set (xt_revisions db)"
    using insert_revisions_ok [OF written(2) ok(1)] by blast
  moreover have "mirrored (sq_db q) m" by (rule mirrored_recovers [OF ok(3) rec])
  moreover have "store_ok m" using rec by (simp add: recovers_def)
  ultimately show ?thesis
    using written(3,4) saves_kept_mono [OF ok(4), of db] by (simp add: db_ok_def mirrored_def)
next
  case (refused e m)
  have "recovers (sq_mem q) m"
    by (rule xs_recover_ok [OF refused(1)]) (use assms(1) in \<open>simp add: db_ok_def\<close>)
  then have "store_ok m" "mirrored (sq_db q) m"
    using assms(1) mirrored_recovers by (auto simp: recovers_def db_ok_def)
  then show ?thesis using db_ok_memory [OF assms(1)] refused by simp
next
  case (undone e y m)
  have "m\<lparr>xs_records := xs_records (sq_mem q)\<rparr> = sq_mem q"
    by (rule recover_loop_only_records [OF undone(1) [unfolded xs_recover_incomplete_def]])
  then show ?thesis using assms(1) by (simp add: undone(2,3))
qed

text \<open>The same, in the form in which a faulty call asks for it.\<close>

lemmas db_ok_results =
  db_ok_claim [where r = "Inr _", simplified] db_ok_claim [where r = "Inl _", simplified]
  db_ok_recover [where r = "Inr _", simplified] db_ok_recover [where r = "Inl _", simplified]

interpretation sqlite_tables: service_invariant "over_sqlite x" "\<lambda>qf. db_ok (fst qf)" for x
proof
  show "keeps (\<lambda>qf. db_ok (fst qf)) (sv_claim (over_sqlite x) i p rv owner t)" for i p rv owner t
    unfolding sv_claim_def over_sqlite_def sql_repository_def
    by simp (rule keeps_faulty; erule db_ok_results; assumption)
  show "keeps (\<lambda>qf. db_ok (fst qf)) (sv_save (over_sqlite x) r)"
    if "ok_demo_execution_record r" "der_state r \<noteq> demo_execution_state.CREATED" for r
    unfolding sv_save_def over_sqlite_def sql_repository_def
    by simp (rule keeps_faulty; drule (1) db_ok_save [OF _ _ that]; simp)
  show "keeps (\<lambda>qf. db_ok (fst qf))
      (on_repo (\<lambda>_. []) (rp_append_control_event (sv_repository (over_sqlite x)) e))" for e
    unfolding over_sqlite_def sql_repository_def
    by simp (rule keeps_faulty; drule (1) db_ok_control; simp)
  show "keeps (\<lambda>qf. db_ok (fst qf))
      (on_repo (\<lambda>rs. [EvRecovered rs]) (rp_recover_incomplete (sv_repository (over_sqlite x)) t))" for t
    unfolding over_sqlite_def sql_repository_def
    by simp (rule keeps_faulty; erule db_ok_results; assumption)
qed (simp add: db_ok_def)

section \<open>Loading\<close>

lemma foldl_update_fresh:
  assumes "distinct (map f xs)" and "\<forall>x \<in> set xs. f x \<notin> fst ` set d"
  shows "foldl (\<lambda>d x. AList.update (f x) (g x) d) d xs = d @ map (\<lambda>x. (f x, g x)) xs"
  using assms
proof (induction xs arbitrary: d)
  case (Cons x xs)
  have "map_of d (f x) = None" using Cons.prems(2) by (simp add: map_of_eq_None_iff)
  then have "AList.update (f x) (g x) d = d @ [(f x, g x)]" by (rule dict_update_fresh)
  moreover have "foldl (\<lambda>d x. AList.update (f x) (g x) d) (d @ [(f x, g x)]) xs =
      (d @ [(f x, g x)]) @ map (\<lambda>x. (f x, g x)) xs"
    using Cons.prems by (intro Cons.IH) (auto, metis image_eqI)
  ultimately show ?case by simp
qed simp

lemma foldl_load_record:
  "foldl load_record s rs = s\<lparr>
     xs_records := foldl (\<lambda>d r. AList.update (intent_id r) r d) (xs_records s) rs,
     xs_source_index := foldl (\<lambda>d r. AList.update (source_digest r) (intent_id r) d) (xs_source_index s) rs,
     xs_client_index := foldl (\<lambda>d r. AList.update (client_id r) (intent_id r) d) (xs_client_index s) rs\<rparr>"
  by (induction rs arbitrary: s) (simp_all add: load_record_def Let_def)

lemma load_store_ok:
  assumes "load_store db = Inr m"
  defines "rs \<equiv> latest_rows (xt_revisions db)"
  shows "list_all ok_demo_execution_record rs"
    "xs_records m = foldl (\<lambda>d r. AList.update (intent_id r) r d) [] rs"
    "xs_source_index m = foldl (\<lambda>d r. AList.update (source_digest r) (intent_id r) d) [] rs"
    "xs_client_index m = foldl (\<lambda>d r. AList.update (client_id r) (intent_id r) d) [] rs"
    "xs_control_events m = control_order (xt_control_events db)"
  using assms by (auto simp: load_store_def Let_def foldl_load_record empty_store_def split: if_splits)

text \<open>The latest rows of well-formed tables: one for each intent, of its highest revision.\<close>

lemma latest_rows_distinct:
  assumes "tables_ok db"
  shows "distinct (map intent_id (latest_rows (xt_revisions db)))"
proof -
  let ?rows = "filter (\<lambda>((iid, n), r). n = latest_revision (xt_revisions db) iid) (xt_revisions db)"
  have "distinct (map fst ?rows)" using assms by (simp add: tables_ok_def distinct_map_filter)
  moreover have "inj_on fst (set (map fst ?rows))" by (auto simp: inj_on_def)
  ultimately have "distinct (map fst (map fst ?rows))" by (simp only: distinct_map [of fst "map fst ?rows"])
  moreover have "map fst (map fst ?rows) = map intent_id (map snd ?rows)"
    using assms by (auto simp: tables_ok_def list_all_iff revision_ok_def)
  ultimately show ?thesis unfolding latest_rows_def by metis
qed

lemma latest_rows_set:
  assumes "tables_ok db" and "r \<in> set (latest_rows (xt_revisions db))"
  shows "lifecycle_ok r" "map_of (xt_intents db) (intent_id r) = Some (intent_row (der_intent r))"
    "((intent_id r, length (der_events r)), r) \<in> set (xt_revisions db)"
    "length (der_events r) = latest_revision (xt_revisions db) (intent_id r)"
proof -
  obtain k n where row: "((k, n), r) \<in> set (xt_revisions db)" "n = latest_revision (xt_revisions db) k"
    using assms(2) by (auto simp: latest_rows_def)
  with assms(1) have ok: "revision_ok db ((k, n), r)" unfolding tables_ok_def list_all_iff by blast
  then show "lifecycle_ok r" "map_of (xt_intents db) (intent_id r) = Some (intent_row (der_intent r))"
    by (simp_all add: revision_ok_def)
  from ok have "k = intent_id r" "n = length (der_events r)" by (simp_all add: revision_ok_def)
  with row show "((intent_id r, length (der_events r)), r) \<in> set (xt_revisions db)"
    "length (der_events r) = latest_revision (xt_revisions db) (intent_id r)"
    by metis+
qed

lemma latest_row_exists:
  assumes "tables_ok db" and "((k, n), d) \<in> set (xt_revisions db)"
  obtains r where "r \<in> set (latest_rows (xt_revisions db))" "intent_id r = k" "n \<le> length (der_events r)"
proof -
  let ?ns = "set (map (snd \<circ> fst) (filter (\<lambda>row. fst (fst row) = k) (xt_revisions db)))"
  have fin: "finite ?ns" "n \<in> ?ns" using assms(2) by (auto intro!: image_eqI [where x = "((k, n), d)"])
  then have "Max ?ns \<in> ?ns" by (metis Max_in empty_iff)
  then obtain r where r: "((k, Max ?ns), r) \<in> set (xt_revisions db)" by auto
  have l: "latest_revision (xt_revisions db) k = Max ?ns" by (simp only: latest_revision_def)
  with r have "r \<in> set (latest_rows (xt_revisions db))" unfolding latest_rows_def by force
  moreover have "revision_ok db ((k, Max ?ns), r)" using assms(1) r unfolding tables_ok_def list_all_iff by blast
  then have "intent_id r = k" "length (der_events r) = Max ?ns"
    unfolding revision_ok_def prod.case prod.inject by metis+
  moreover have "n \<le> Max ?ns" using fin by (rule Max_ge)
  ultimately show ?thesis using that by metis
qed

text \<open>Unique columns make their values identify the intent.\<close>

lemma unique_column:
  assumes "distinct (map f d)" and "map_of d k = Some v" and "map_of d k' = Some v'" and "f (k, v) = f (k', v')"
  shows "k = k' \<and> v = v'"
proof -
  have "inj_on f (set d)" using assms(1) by (simp add: distinct_map)
  with assms(4) map_of_SomeD [OF assms(2)] map_of_SomeD [OF assms(3)] show ?thesis
    by (auto dest: inj_onD)
qed

lemma latest_rows_columns:
  assumes "tables_ok db"
  shows "distinct (map source_digest (latest_rows (xt_revisions db)))"
    "distinct (map client_id (latest_rows (xt_revisions db)))"
proof -
  let ?rs = "latest_rows (xt_revisions db)"
  have d: "distinct (map (fst \<circ> snd) (xt_intents db))" "distinct (map (fst \<circ> snd \<circ> snd) (xt_intents db))"
    using assms by (simp_all add: tables_ok_def)
  have rows: "distinct ?rs" "inj_on intent_id (set ?rs)"
    using latest_rows_distinct [OF assms] by (simp_all add: distinct_map)
  have same: "r = r'" if "r \<in> set ?rs" "r' \<in> set ?rs"
      and "source_digest r = source_digest r' \<or> client_id r = client_id r'" for r r'
  proof -
    have "intent_id r = intent_id r'"
      using that(3) unique_column [OF d(1) latest_rows_set(2) [OF assms that(1)] latest_rows_set(2) [OF assms that(2)]]
        unique_column [OF d(2) latest_rows_set(2) [OF assms that(1)] latest_rows_set(2) [OF assms that(2)]]
      by (auto simp: intent_row_def)
    with rows(2) that(1,2) show ?thesis by (auto dest: inj_onD)
  qed
  have "inj_on source_digest (set ?rs)" "inj_on client_id (set ?rs)"
    unfolding inj_on_def using same by blast+
  with rows(1) show "distinct (map source_digest ?rs)" "distinct (map client_id ?rs)"
    by (simp_all add: distinct_map)
qed

lemma map_of_records:
  "distinct (map f rs) \<Longrightarrow> r \<in> set rs \<Longrightarrow> map_of (map (\<lambda>r. (f r, g r)) rs) (f r) = Some (g r)"
  by (rule map_of_is_SomeI) (auto simp: comp_def)

lemma reloaded:
  assumes "tables_ok db" and "load_store db = Inr m"
  shows "store_ok m" "mirrored db m"
    "r \<in> set (latest_rows (xt_revisions db)) \<Longrightarrow> stored m r"
proof -
  let ?rs = "latest_rows (xt_revisions db)"
  note d = latest_rows_distinct [OF assms(1)] latest_rows_columns [OF assms(1)]
  have m: "xs_records m = map (\<lambda>r. (intent_id r, r)) ?rs"
    "xs_source_index m = map (\<lambda>r. (source_digest r, intent_id r)) ?rs"
    "xs_client_index m = map (\<lambda>r. (client_id r, intent_id r)) ?rs"
    using load_store_ok(2-4) [OF assms(2)] d by (simp_all add: foldl_update_fresh)
  show stored: "stored m r" if "r \<in> set ?rs" for r
    unfolding m(1) by (rule map_of_records [OF d(1) that])
  have "indexed m (intent_id r, r)" if r: "r \<in> set ?rs" for r
    unfolding indexed_def prod.case m(2,3)
    by (intro conjI refl latest_rows_set(1) [OF assms(1) r] map_of_records [OF d(2) r] map_of_records [OF d(3) r])
  then show "store_ok m" using d(1) by (simp add: store_ok_def m(1) list_all_iff comp_def)
  show "mirrored db m"
    unfolding mirrored_def
  proof (intro allI impI)
    fix k r
    assume "map_of (xs_records m) k = Some r"
    then have "(k, r) \<in> set (xs_records m)" by (rule map_of_SomeD)
    then have "r \<in> set ?rs" "k = intent_id r" by (auto simp: m(1))
    with latest_rows_set(2) [OF assms(1)] show "map_of (xt_intents db) k = Some (intent_row (der_intent r))"
      by blast
  qed
qed

text \<open>Records that were dispatched have a history no claim has.\<close>

lemma claimed_history:
  assumes "lifecycle_ok r" and "der_state r = demo_execution_state.CLAIMED"
  shows "length (der_events r) \<le> 2"
proof -
  have h: "successively execution_allowed (history r)" "history r \<noteq> []" "last (history r) = demo_execution_state.CLAIMED"
    using assms by (simp_all add: lifecycle_ok_def history_def)
  have s: "sorted_wrt (<) (map execution_rank (history r))" by (rule execution_lifecycle.history_ranks [OF h(1)])
  have "set (map execution_rank (history r)) \<subseteq> {..1}"
  proof
    fix n
    assume "n \<in> set (map execution_rank (history r))"
    moreover have "sorted (map execution_rank (history r))" using s by (simp add: strict_sorted_iff)
    moreover have "last (map execution_rank (history r)) = 1" using h(2,3) by (simp add: last_map)
    moreover have "sorted xs \<Longrightarrow> y \<in> set xs \<Longrightarrow> y \<le> last xs" for y :: nat and xs
      by (induction xs) auto
    ultimately show "n \<in> {..1}" by (metis atMost_iff)
  qed
  then have "card (set (map execution_rank (history r))) \<le> card {..(1 :: nat)}" by (rule card_mono [rotated]) simp
  moreover have "distinct (map execution_rank (history r))" using s by (simp add: strict_sorted_iff)
  then have "card (set (map execution_rank (history r))) = length (history r)" by (simp only: distinct_card length_map)
  ultimately have "length (history r) \<le> 2" by (simp only: card_atMost numeral_2_eq_2 One_nat_def)
  then show ?thesis by (simp add: history_def)
qed

lemma dispatched_history:
  assumes "lifecycle_ok r" and "der_state r = demo_execution_state.DISPATCHING"
  shows "3 \<le> length (der_events r)"
proof -
  have h: "successively execution_allowed (history r)" "history r \<noteq> []"
    "hd (history r) = demo_execution_state.CREATED" "last (history r) = demo_execution_state.DISPATCHING"
    using assms by (simp_all add: lifecycle_ok_def history_def)
  consider a where "history r = [a]" | a b where "history r = [a, b]" | a b c l where "history r = a # b # c # l"
    using h(2) by (metis list.exhaust)
  then have "3 \<le> length (history r)"
    by cases (use h in \<open>auto simp: execution_allowed_def\<close>)
  then show ?thesis by (simp add: history_def)
qed

section \<open>Runs of processes\<close>

lemma submission_saved:
  "log_ok x l \<Longrightarrow> i \<in> set (submissions l) \<Longrightarrow> \<exists>d. EvSaved d \<in> set l \<and> der_intent d = i \<and> dispatch_ready x d"
proof (induction x l rule: log_ok.induct)
  case (2 x i' c es)
  show ?case
  proof (cases "i = i'")
    case True
    with 2(2) obtain d ds where "es = EvSaved d # ds" "der_intent d = i" "dispatch_ready x d"
      by (auto split: list.splits service_event.splits)
    then show ?thesis by auto
  next
    case False
    with 2 show ?thesis by auto
  qed
qed auto

lemma submissions_rev: "submissions (rev l) = rev (submissions l)"
  by (simp add: submissions_def List.map_filter_def rev_filter rev_map)

lemma restart_inv:
  assumes "db_ok q l" and "service_inv x (sq_mem q) l" and "sq_restart q = Inr q'"
  shows "db_ok q' l" "service_inv x (sq_mem q') l"
proof -
  obtain m where m: "load_store (sq_db q) = Inr m" and q': "q' = q\<lparr>sq_mem := m\<rparr>"
    using assms(3) by (auto simp: sq_restart_def result_simps)
  have ok: "tables_ok (sq_db q)" "saves_kept (sq_db q) l" using assms(1) by (simp_all add: db_ok_def)
  note r = reloaded [OF ok(1) m]
  show "db_ok q' l" unfolding q' by (rule db_ok_memory [OF assms(1) r(1,2)])
  have "known m i" if i: "i \<in> set (submissions l)" for i
  proof -
    have "log_ok x (rev l)" "i \<in> set (submissions (rev l))"
      using assms(2) i by (simp_all add: service_inv_def submissions_rev)
    then obtain d where d: "EvSaved d \<in> set l" "der_intent d = i" "dispatch_ready x d"
      using submission_saved by force
    then have row: "((intent_id d, length (der_events d)), d) \<in> set (xt_revisions (sq_db q))"
      using ok(2) unfolding saves_kept_def by blast
    then have rok: "revision_ok (sq_db q) ((intent_id d, length (der_events d)), d)"
      using ok(1) unfolding tables_ok_def list_all_iff by blast
    obtain r' where r': "r' \<in> set (latest_rows (xt_revisions (sq_db q)))" "intent_id r' = intent_id d"
      "length (der_events d) \<le> length (der_events r')"
      by (rule latest_row_exists [OF ok(1) row])
    note l = latest_rows_set [OF ok(1) r'(1)]
    have "der_intent r' = i"
      using l(2) rok d(2) r'(2) by (simp add: revision_ok_def intent_row_def)
    moreover have "3 \<le> length (der_events d)"
      using rok d(3) by (intro dispatched_history) (simp_all add: revision_ok_def dispatch_ready_def)
    then have "der_state r' \<noteq> demo_execution_state.CLAIMED"
      using claimed_history [OF l(1)] r'(3) by linarith
    moreover have "stored m r'" by (rule r(3) [OF r'(1)])
    ultimately show ?thesis unfolding known_def by blast
  qed
  then have "list_all (known m) (submissions l)" by (simp add: list_all_iff)
  then show "service_inv x (sq_mem q') l"
    using assms(2) r(1) unfolding service_inv_def q' by simp
qed

lemma process_inv:
  assumes "db_ok (fst (st_repo s)) (st_log s)"
    and "service_inv (over_sqlite x) (sq_mem (fst (st_repo s))) (st_log s)"
  shows "db_ok (fst (st_repo (process_run (over_sqlite x) ps s))) (st_log (process_run (over_sqlite x) ps s)) \<and>
    service_inv (over_sqlite x) (sq_mem (fst (st_repo (process_run (over_sqlite x) ps s))))
      (st_log (process_run (over_sqlite x) ps s))"
  using assms
proof (induction ps arbitrary: s)
  case (Cons p ps)
  show ?case
  proof (cases p)
    case (Call c)
    have "db_ok (fst (st_repo (service_step (over_sqlite x) c s))) (st_log (service_step (over_sqlite x) c s))"
      by (rule sqlite_tables.step_keeps [OF Cons.prems(1)])
    moreover have "service_inv (over_sqlite x) (sq_mem (fst (st_repo (service_step (over_sqlite x) c s))))
        (st_log (service_step (over_sqlite x) c s))"
      using sqlite_service.step_inv [of x s c] Cons.prems(2) by (simp add: ast_def sql_view_def)
    ultimately show ?thesis unfolding Call process_run.simps by (rule Cons.IH)
  next
    case Restart
    show ?thesis
    proof (cases "sq_restart (fst (st_repo s))")
      case (Inl e)
      with Cons.prems Restart show ?thesis by simp
    next
      case (Inr q)
      note r = restart_inv [OF Cons.prems Inr]
      show ?thesis
        unfolding Restart process_run.simps Inr sum.case by (rule Cons.IH) (use r in simp_all)
    qed
  qed
qed simp

text \<open>A new file, with the faults its driver will have.\<close>

definition new_file :: "bool list \<Rightarrow> faulty_repo" where
  "new_file faults = (\<lparr>sq_mem = empty_store, sq_db = empty_tables\<rparr>, faults)"

definition after :: "(faulty_repo, 'w) exec_service \<Rightarrow> bool list \<Rightarrow> 'w \<Rightarrow> process_step list \<Rightarrow>
    (faulty_repo, 'w) service_state" where
  "after x faults w ps = process_run (over_sqlite x) ps (started (new_file faults) w)"

lemma after_inv:
  "db_ok (fst (st_repo (after x faults w ps))) (st_log (after x faults w ps))"
  "service_inv (over_sqlite x) (sql_view (st_repo (after x faults w ps))) (st_log (after x faults w ps))"
proof -
  have "db_ok (fst (st_repo (started (new_file faults) w))) (st_log (started (new_file faults) w))"
    by (simp add: started_def new_file_def db_ok_def tables_ok_def empty_tables_def mirrored_def empty_store_def
        saves_kept_def store_ok_def)
  moreover have "service_inv (over_sqlite x) (sq_mem (fst (st_repo (started (new_file faults) w))))
      (st_log (started (new_file faults) w))"
    by (simp add: started_def new_file_def)
  ultimately have "db_ok (fst (st_repo (after x faults w ps))) (st_log (after x faults w ps)) \<and>
      service_inv (over_sqlite x) (sq_mem (fst (st_repo (after x faults w ps)))) (st_log (after x faults w ps))"
    unfolding after_def by (rule process_inv)
  then show "db_ok (fst (st_repo (after x faults w ps))) (st_log (after x faults w ps))"
    "service_inv (over_sqlite x) (sql_view (st_repo (after x faults w ps))) (st_log (after x faults w ps))"
    by (simp_all add: sql_view_def)
qed

end
