(* ===== verification/GuardTheorems.thy ===== *)
theory GuardTheorems
  imports ExecutionCalls
begin

text \<open>
  What the final dispatch guard lets pass: its runs of checks against one plain conjunction of
  conditions, and that it always comes back with a verdict.
\<close>

section \<open>The conditions\<close>

definition qualification_current ::
  "sha \<Rightarrow> qualified_demo_execution_candidate \<Rightarrow> instant \<Rightarrow> bool" where
  "qualification_current sha cand now \<longleftrightarrow>
     (let st = qdec_qualification_status cand; val = cqs_validity_assessment st;
          man = qdec_dependency_manifest cand; star = qdm_symbol_timestamp_acceptance man
      in cqs_graduation_disposition st = graduation_disposition.ELIGIBLE_FOR_DEMO_REVIEW \<and>
         qva_state val = qualification_evidence_validity.VALID \<and>
         qva_assessed_at val \<le> now \<and> (\<exists>u. qva_valid_until val = Some u \<and> now < u) \<and>
         qdec_dependency_manifest_digest cand = content_digest sha (dump_qualification_dependency_manifest man) \<and>
         qva_dependency_manifest_digest val = qdec_dependency_manifest_digest cand \<and>
         qdec_qualification_status_digest cand = content_digest sha (dump_current_qualification_status st) \<and>
         (\<forall>a \<in> set (qdm_assignments man). qra_provider a \<noteq> model_provider.FAKE \<and>
            (\<exists>u. qra_acceptance_valid_until a = Some u \<and> now < u)) \<and>
         now < star_expires_at star \<and> star_symbol star = cdr_symbol (qdec_decision cand))"

definition environment_accepted ::
  "sha \<Rightarrow> qualified_demo_execution_candidate \<Rightarrow> demo_execution_environment_acceptance \<Rightarrow>
     demo_execution_policy \<Rightarrow> instant \<Rightarrow> bool" where
  "environment_accepted sha cand acc pol now \<longleftrightarrow>
     deea_execution_policy_digest acc = content_digest sha (dump_demo_execution_policy pol) \<and>
     now < deea_expires_at acc \<and> deea_symbol acc = cdr_symbol (qdec_decision cand)"

text \<open>A human approval in force for exactly this candidate, generation and environment.\<close>

definition humanly_approved ::
  "sha \<Rightarrow> qualified_demo_execution_candidate \<Rightarrow> demo_execution_environment_acceptance \<Rightarrow>
     demo_execution_approval \<Rightarrow> demo_execution_policy \<Rightarrow> bool \<Rightarrow> instant \<Rightarrow> bool" where
  "humanly_approved sha cand acc app pol revoked now \<longleftrightarrow>
     \<not> revoked \<and> approval_applies_at app now \<and>
     (\<exists>i. decision_intent (qdec_decision cand) = Some i \<and> approval_binds sha cand acc app pol i)"

definition quote_acceptable ::
  "mt5_tick \<Rightarrow> decimal \<Rightarrow> decimal \<Rightarrow> decimal \<Rightarrow> demo_execution_policy \<Rightarrow> instant \<Rightarrow> bool" where
  "quote_acceptable tick reference comparison tick_size pol now \<longleftrightarrow>
     0 < tick_size \<and> mt_source_time tick \<le> now \<and>
     now \<le> mt_source_time tick + seconds (dep_maximum_tick_age_seconds pol) \<and>
     rd28 (mt_spread tick / tick_size) \<le> dep_maximum_spread_ticks pol \<and>
     rd28 (\<bar>rd28 (reference - comparison)\<bar> / tick_size) \<le> dep_maximum_price_drift_ticks pol"

definition symbol_capable ::
  "sha \<Rightarrow> mt5_symbol_info \<Rightarrow> demo_symbol_execution_capabilities \<Rightarrow> demo_execution_environment_acceptance \<Rightarrow>
     demo_execution_policy \<Rightarrow> bool" where
  "symbol_capable sha info cap acc pol \<longleftrightarrow>
     dsec_symbol_info_digest cap = symbol_definition_digest sha info \<and>
     capability_definition_digest sha cap = deea_symbol_capability_digest acc \<and>
     dsec_execution_mode cap \<in> dep_supported_execution_modes pol \<and>
     dep_filling_mode pol \<in> dsec_filling_modes cap \<and>
     dsec_market_order_allowed cap \<and> dsec_stop_loss_allowed cap \<and> dsec_take_profit_allowed cap \<and>
     msi_selected info \<and> msi_visible info \<and>
     msi_trading_mode info \<notin> {symbol_trade_mode.DISABLED, symbol_trade_mode.CLOSE_ONLY}"

text \<open>The terminal shows the accepted DEMO account, flat, connected, with an acceptable quote.\<close>

definition terminal_safe ::
  "sha \<Rightarrow> demo_order_intent \<Rightarrow> demo_execution_environment_acceptance \<Rightarrow> demo_execution_policy \<Rightarrow>
     final_dispatch_observation \<Rightarrow> instant \<Rightarrow> bool" where
  "terminal_safe sha i acc pol obs now \<longleftrightarrow>
     mai_trade_mode (fdo_account obs) = broker_account_mode.DEMO \<and>
     fdo_account_ref obs = doi_account_ref i \<and> fdo_account_ref obs = deea_account_ref acc \<and>
     fdo_environment_ref obs = doi_environment_ref i \<and> fdo_environment_ref obs = deea_environment_ref acc \<and>
     fdo_positions obs = [] \<and>
     mth_connection_state (fdo_health obs) = mt5_connection_state.CONNECTED \<and>
     mth_authenticated (fdo_health obs) \<and> mth_trade_api_disabled (fdo_health obs) = Some False \<and>
     mt_symbol (fdo_tick obs) = doi_symbol i \<and>
     quote_acceptable (fdo_tick obs)
       (if doi_side i = trade_side.BUY then mt_ask (fdo_tick obs) else mt_bid (fdo_tick obs))
       (doi_reference_price i) (msi_trade_tick_size (fdo_symbol_info obs)) pol now \<and>
     symbol_capable sha (fdo_symbol_info obs) (fdo_capabilities obs) acc pol"

text \<open>The sealed intent still binds the evidence it was made from.\<close>

definition linkage_intact ::
  "sha \<Rightarrow> demo_execution_record \<Rightarrow> qualified_demo_execution_candidate \<Rightarrow>
     demo_execution_environment_acceptance \<Rightarrow> demo_execution_approval \<Rightarrow> demo_execution_policy \<Rightarrow> bool" where
  "linkage_intact sha r cand acc app pol \<longleftrightarrow>
     (let i = der_intent r in
      verify_demo_order_intent sha i \<and>
      doi_source_decision_record_digest i =
        content_digest sha (dump_continuous_decision_record (qdec_decision cand)) \<and>
      (\<exists>si. decision_intent (qdec_decision cand) = Some si \<and>
         doi_source_shadow_intent_digest i = content_digest sha (dump_shadow_trade_intent si) \<and>
         doi_analysis_risk_decision_digest i = content_digest sha (dump_risk_decision (sti_risk_decision si))) \<and>
      doi_qualification_status_digest i =
        content_digest sha (dump_current_qualification_status (qdec_qualification_status cand)) \<and>
      doi_generation_digest i =
        content_digest sha (dump_qualification_dependency_manifest (qdec_dependency_manifest cand)) \<and>
      doi_environment_acceptance_digest i =
        content_digest sha (dump_demo_execution_environment_acceptance acc) \<and>
      doi_approval_digest i = content_digest sha (dump_demo_execution_approval app) \<and>
      doi_execution_policy_digest i = content_digest sha (dump_demo_execution_policy pol) \<and>
      (\<exists>v. der_risk_revalidation r = Some v \<and>
         doi_revalidation_risk_decision_digest i = content_digest sha (dump_risk_decision (frr_risk_decision v))))"

definition dispatch_permitted ::
  "sha \<Rightarrow> demo_execution_record \<Rightarrow> qualified_demo_execution_candidate \<Rightarrow>
     demo_execution_environment_acceptance \<Rightarrow> demo_execution_approval \<Rightarrow> demo_execution_policy \<Rightarrow>
     final_dispatch_observation \<Rightarrow> bool \<Rightarrow> bool \<Rightarrow> execution_control_state \<Rightarrow> instant \<Rightarrow> bool" where
  "dispatch_permitted sha r cand acc app pol obs owned revoked control now \<longleftrightarrow>
     owned \<and> now < doi_expires_at (der_intent r) \<and> control = execution_control_state.ENABLED \<and>
     qualification_current sha cand now \<and> environment_accepted sha cand acc pol now \<and>
     humanly_approved sha cand acc app pol revoked now \<and>
     terminal_safe sha (der_intent r) acc pol obs now \<and> linkage_intact sha r cand acc app pol"

section \<open>Each stage of the guard\<close>

lemma authority_iff:
  "validate_execution_authority sha cand acc app pol control revoked now = Inr () \<longleftrightarrow>
     control = execution_control_state.ENABLED \<and> qualification_current sha cand now \<and>
     environment_accepted sha cand acc pol now \<and> humanly_approved sha cand acc app pol revoked now"
proof -
  have "validate_execution_authority sha cand acc app pol control revoked now = Inr () \<longleftrightarrow>
      run_guards (authority_guards sha cand acc app pol control revoked now) = Inr () \<and>
      (\<exists>i. decision_intent (qdec_decision cand) = Some i \<and> approval_binds sha cand acc app pol i)"
    by (auto simp: validate_execution_authority_def result_simps split: option.splits if_splits)
  also have "\<dots> \<longleftrightarrow> control = execution_control_state.ENABLED \<and> qualification_current sha cand now \<and>
     environment_accepted sha cand acc pol now \<and> humanly_approved sha cand acc app pol revoked now"
    unfolding run_guards_ok authority_guards_def qualification_current_def environment_accepted_def
      humanly_approved_def Let_def
    by (auto simp: list_ex_iff not_le not_less split: option.splits)
  finally show ?thesis .
qed

lemma quote_iff:
  "validate_quote tick reference comparison tick_size pol now =
     Inr (rd28 (mt_spread tick / tick_size), rd28 (\<bar>rd28 (reference - comparison)\<bar> / tick_size)) \<longleftrightarrow>
   quote_acceptable tick reference comparison tick_size pol now"
  "(\<exists>v. validate_quote tick reference comparison tick_size pol now = Inr v) \<longleftrightarrow>
   quote_acceptable tick reference comparison tick_size pol now"
  unfolding validate_quote_def quote_acceptable_def Let_def result_simps run_guards_ok
  by (auto simp: not_le not_less)

lemma capability_iff:
  "run_guards (symbol_capability_guards sha info cap acc pol) = Inr () \<longleftrightarrow> symbol_capable sha info cap acc pol"
  unfolding run_guards_ok symbol_capability_guards_def symbol_capable_def by auto

lemma observation_iff:
  "final_observation_check sha i acc pol obs now = Inr () \<longleftrightarrow> terminal_safe sha i acc pol obs now"
proof -
  let ?q = "validate_quote (fdo_tick obs)
       (if doi_side i = trade_side.BUY then mt_ask (fdo_tick obs) else mt_bid (fdo_tick obs))
       (doi_reference_price i) (msi_trade_tick_size (fdo_symbol_info obs)) pol now"
  have "final_observation_check sha i acc pol obs now = Inr () \<longleftrightarrow>
      mai_trade_mode (fdo_account obs) = broker_account_mode.DEMO \<and>
      fdo_account_ref obs = doi_account_ref i \<and> fdo_account_ref obs = deea_account_ref acc \<and>
      fdo_environment_ref obs = doi_environment_ref i \<and> fdo_environment_ref obs = deea_environment_ref acc \<and>
      fdo_positions obs = [] \<and> mth_connection_state (fdo_health obs) = mt5_connection_state.CONNECTED \<and>
      mth_authenticated (fdo_health obs) \<and> mth_trade_api_disabled (fdo_health obs) = Some False \<and>
      mt_symbol (fdo_tick obs) = doi_symbol i \<and> (\<exists>v. ?q = Inr v) \<and>
      run_guards (symbol_capability_guards sha (fdo_symbol_info obs) (fdo_capabilities obs) acc pol) = Inr ()"
    unfolding final_observation_check_def bind_result_Inr_iff run_guards_ok by auto
  then show ?thesis unfolding quote_iff capability_iff terminal_safe_def by metis
qed

lemma linkage_iff:
  "final_linkage_check sha r cand acc app pol = Inr () \<longleftrightarrow> linkage_intact sha r cand acc app pol"
  unfolding final_linkage_check_def linkage_intact_def shadow_intent_of_def Let_def bind_result_Inr_iff run_guards_ok
  by (auto split: option.splits)

lemma dispatch_check_iff:
  "final_dispatch_check sha r cand acc app pol obs owned revoked control now = Inr () \<longleftrightarrow>
     dispatch_permitted sha r cand acc app pol obs owned revoked control now"
proof -
  have "final_dispatch_check sha r cand acc app pol obs owned revoked control now = Inr () \<longleftrightarrow>
      owned \<and> now < doi_expires_at (der_intent r) \<and>
      validate_execution_authority sha cand acc app pol control revoked now = Inr () \<and>
      final_observation_check sha (der_intent r) acc pol obs now = Inr () \<and>
      final_linkage_check sha r cand acc app pol = Inr ()"
    unfolding final_dispatch_check_def bind_result_Inr_iff run_guards_ok by (auto simp: not_le)
  then show ?thesis
    unfolding authority_iff observation_iff linkage_iff dispatch_permitted_def by blast
qed

section \<open>The guard always answers\<close>

definition refusal :: "py_exception \<Rightarrow> bool" where
  "refusal e \<longleftrightarrow> (\<exists>c m. e = DemoExecutionError c m \<and> 1 \<le> length m \<and> length m \<le> 512)"

definition refuses :: "'a fallible \<Rightarrow> bool" where
  "refuses r \<longleftrightarrow> (\<forall>e. r = Inl e \<longrightarrow> refusal e)"

lemma refusal_simp [simp]: "refusal (DemoExecutionError c m) \<longleftrightarrow> m \<noteq> [] \<and> length m \<le> 512"
  by (cases m) (auto simp: refusal_def)

lemma refuses_simps [simp]: "refuses (Inr y)" "refuses (Inl e) = refusal e"
  by (simp_all add: refuses_def)

lemma refuses_bind: "refuses m \<Longrightarrow> (\<And>y. refuses (f y)) \<Longrightarrow> refuses (bind_result m f)"
  by (cases m) (simp_all add: refuses_def)

lemma refuses_guards: "\<forall>(c, e) \<in> set gs. refusal e \<Longrightarrow> refuses (run_guards gs)"
  by (induction gs rule: run_guards.induct) auto

lemma refuses_check:
  "refuses (final_dispatch_check sha r cand acc app pol obs owned revoked control now)"
proof -
  have "refuses (validate_execution_authority sha cand acc app pol control revoked now)"
    unfolding validate_execution_authority_def authority_guards_def Let_def
    by (intro refuses_bind refuses_guards) (auto split: option.split)
  moreover have caps: "refuses (run_guards (symbol_capability_guards sha info cap acc pol))" for info cap
    unfolding symbol_capability_guards_def by (rule refuses_guards) simp
  moreover have "refuses (validate_quote tick a b c pol now)" for tick a b c
    unfolding validate_quote_def Let_def by (intro refuses_bind refuses_guards) simp_all
  then have "refuses (final_observation_check sha (der_intent r) acc pol obs now)"
    unfolding final_observation_check_def by (intro refuses_bind refuses_guards caps) simp_all
  moreover have "refuses (shadow_intent_of cand)"
    unfolding shadow_intent_of_def by (simp split: option.split)
  then have "refuses (final_linkage_check sha r cand acc app pol)"
    unfolding final_linkage_check_def Let_def by (intro refuses_bind refuses_guards) simp_all
  ultimately show ?thesis
    unfolding final_dispatch_check_def by (intro refuses_bind refuses_guards) simp_all
qed

lemma guard_checks_named: "list_all is_identifier guard_checks \<and> 1 \<le> length guard_checks"
  unfolding guard_checks_def by code_simp

lemma guard_answers:
  assumes "is_identifier (intent_id r)"
  obtains g where "guard_evaluate sha r cand acc app pol obs owned revoked control now = Inr g"
    "fdgr_passed g \<longleftrightarrow> dispatch_permitted sha r cand acc app pol obs owned revoked control now"
    "fdgr_failure g = None \<longleftrightarrow> fdgr_passed g"
proof (cases "final_dispatch_check sha r cand acc app pol obs owned revoked control now")
  case (Inl e)
  then obtain c m where e: "e = DemoExecutionError c m" "1 \<le> length m" "length m \<le> 512"
    using refuses_check [of sha r cand acc app pol obs owned revoked control now]
    unfolding refuses_def refusal_def by blast
  let ?g = "guard_result r now (Some \<lparr>def_code = c, def_sanitized_detail = m\<rparr>)"
  have "guard_evaluate sha r cand acc app pol obs owned revoked control now = Inr ?g"
    using Inl e assms guard_checks_named
    by (simp add: guard_evaluate_def build_def guard_result_def fields_demo_execution_failure_def
        ok_final_dispatch_guard_result_def fields_final_dispatch_guard_result_def
        validate_final_dispatch_guard_result_def)
  moreover have "\<not> dispatch_permitted sha r cand acc app pol obs owned revoked control now"
    using Inl dispatch_check_iff by (metis sum.distinct(1))
  ultimately show ?thesis by (intro that) (auto simp: guard_result_def)
next
  case (Inr u)
  have "guard_evaluate sha r cand acc app pol obs owned revoked control now = Inr (guard_result r now None)"
    using Inr assms guard_checks_named
    by (simp add: guard_evaluate_def build_def guard_result_def
        ok_final_dispatch_guard_result_def fields_final_dispatch_guard_result_def
        validate_final_dispatch_guard_result_def)
  moreover have "dispatch_permitted sha r cand acc app pol obs owned revoked control now"
    using Inr dispatch_check_iff by simp
  ultimately show ?thesis by (intro that) (auto simp: guard_result_def)
qed

end
