(* ===== verification/Samples.thy ===== *)
theory Samples
  imports RiskEngine
begin

text \<open>
  One concrete market: a snapshot of EURUSD, an account, a proposal and the matching contexts, on
  which the properties are instantiated.
\<close>

definition sample_sha :: sha where
  "sample_sha s = replicate 64 (CHR ''a'')"

definition t0 :: instant where
  "t0 = seconds 1700001000"

definition sample_symbol_info :: mt5_symbol_info where
  "sample_symbol_info = \<lparr>
     msi_schema_version = ''1.0.0'', msi_retrieved_at = t0, msi_symbol = ''EURUSD'',
     msi_description = ''Euro'', msi_path = ''FX'', msi_selected = True, msi_visible = True,
     msi_digits = 5, msi_point = 1 / 100000, msi_trade_tick_size = 1 / 100000,
     msi_trade_tick_value = 1, msi_trade_contract_size = 100000, msi_volume_min = 1 / 100,
     msi_volume_max = 100, msi_volume_step = 1 / 100, msi_trade_stops_level = 10,
     msi_trade_freeze_level = 0, msi_currency_base = ''EUR'', msi_currency_profit = ''USD'',
     msi_trading_mode = symbol_trade_mode.FULL\<rparr>"

definition sample_tick :: mt5_tick where
  "sample_tick = \<lparr>
     mt_schema_version = ''1.0.0'', mt_retrieved_at = t0, mt_symbol = ''EURUSD'',
     mt_source_time = t0, mt_bid = 109999 / 100000, mt_ask = 110001 / 100000, mt_spread = 1 / 50000,
     mt_last = 0, mt_volume = 0, mt_flags = 0\<rparr>"

definition sample_account :: mt5_account_info where
  "sample_account = \<lparr>
     mai_schema_version = ''1.0.0'', mai_retrieved_at = t0, mai_account_id = 7,
     mai_trade_mode = broker_account_mode.DEMO, mai_leverage = 100, mai_limit_orders = 0,
     mai_margin_stop_out_mode = 0, mai_trade_allowed = True, mai_expert_trading_allowed = True,
     mai_margin_mode = 0, mai_currency_digits = 2, mai_fifo_close = False, mai_balance = 1000,
     mai_credit = 0, mai_profit = 0, mai_equity = 1000, mai_margin = 0, mai_margin_free = 1000,
     mai_margin_level = 0, mai_margin_stop_out_call = 0, mai_margin_stop_out_stop = 0,
     mai_margin_initial = 0, mai_margin_maintenance = 0, mai_assets = 0, mai_liabilities = 0,
     mai_commission_blocked = 0, mai_currency = ''USD'', mai_server = ''Demo'',
     mai_company = ''Broker''\<rparr>"

definition sample_candle :: "timeframe \<Rightarrow> mt5_candle" where
  "sample_candle tf = \<lparr>
     mc_schema_version = ''1.0.0'', mc_retrieved_at = t0, mc_symbol = ''EURUSD'', mc_timeframe = tf,
     mc_open_time = t0 - timeframe_duration tf, mc_open = 11 / 10, mc_high = 12 / 10, mc_low = 1,
     mc_close = 11 / 10, mc_tick_volume = 10, mc_broker_spread_points = 2, mc_real_volume = 0\<rparr>"

definition sample_freshness :: observation_freshness where
  "sample_freshness = \<lparr>
     ofre_observed_at = t0, ofre_evaluated_at = t0 + seconds 1, ofre_age = seconds 1,
     ofre_maximum_age = seconds 60, ofre_state = freshness_state.FRESH\<rparr>"

definition sample_snapshot :: market_snapshot where
  "sample_snapshot = \<lparr>
     ms_schema_version = ''1.0.0'', ms_cycle_id = ''cycle-1'', ms_snapshot_id = ''snap-1'',
     ms_symbol = ''EURUSD'', ms_primary_timeframe = timeframe.H1, ms_snapshot_started_at = t0,
     ms_snapshot_completed_at = t0 + seconds 1, ms_symbol_info = sample_symbol_info,
     ms_tick = sample_tick, ms_spread = 1 / 50000,
     ms_candles = \<lparr>sc_m15 = [sample_candle timeframe.M15], sc_h1 = [sample_candle timeframe.H1],
       sc_h4 = [sample_candle timeframe.H4]\<rparr>,
     ms_account = sample_account, ms_open_positions = [],
     ms_consistency = \<lparr>scm_validity = data_validity_state.VALID,
       scm_source_timestamps = \<lparr>sst_symbol_info = t0, sst_account = t0, sst_m15_candles = t0,
         sst_h1_candles = t0, sst_h4_candles = t0, sst_positions = t0, sst_tick = t0\<rparr>,
       scm_snapshot_duration = seconds 1,
       scm_freshness = \<lparr>sfre_tick = sample_freshness, sfre_account = sample_freshness,
         sfre_m15_candles = sample_freshness, sfre_h1_candles = sample_freshness,
         sfre_h4_candles = sample_freshness, sfre_overall = freshness_state.FRESH\<rparr>,
       scm_validation_warnings = []\<rparr>\<rparr>"

definition sample_proposal :: trade_proposal where
  "sample_proposal = \<lparr>
     tp_cycle_id = ''cycle-1'', tp_schema_version = ''1.0.0'', tp_timestamp = t0 + seconds 2,
     tp_proposal_id = ''prop-1'', tp_snapshot_id = ''snap-1'', tp_symbol = ''EURUSD'',
     tp_side = trade_side.BUY, tp_entry = Some (11 / 10), tp_stop_loss = Some (1098 / 1000),
     tp_take_profit = Some (1104 / 1000), tp_rationale = ''trend''\<rparr>"

definition sample_context :: account_risk_context where
  "sample_context = \<lparr>
     arc_schema_version = ''1.0.0'', arc_cycle_id = ''cycle-1'', arc_snapshot_id = ''snap-1'',
     arc_account_ref = ''acct-v1:'' @ replicate 64 (CHR ''a''), arc_context_as_of = t0 + seconds 2,
     arc_trading_day_started_at = t0, arc_cash_flow_adjusted_peak_equity = 1000,
     arc_adjusted_day_start_equity = 1000, arc_account_open_position_count = 0\<rparr>"

lemmas sample_defs = sample_sha_def t0_def sample_symbol_info_def sample_tick_def sample_account_def
  sample_candle_def sample_freshness_def sample_snapshot_def sample_proposal_def sample_context_def

lemma sample_snapshot_ok: "ok_market_snapshot sample_snapshot"
  unfolding ok_market_snapshot_def
  by (simp add: fields_market_snapshot_def validate_market_snapshot_def sample_defs scalar_defs
      candle_collection_ok_def source_times_def seconds_def Let_def) code_simp

lemma sample_context_ok: "ok_account_risk_context sample_context"
  by code_simp

lemma sample_proposal_ok: "fields_trade_proposal sample_proposal"
  by code_simp

section \<open>The engine on these values\<close>

lemma sample_account_ref_ok: "is_account_reference (''acct-v1:'' @ replicate 64 (CHR ''a''))"
  by code_simp

lemma sample_proposal_checked:
  "proposal_validate default_risk_constitution sample_proposal sample_snapshot = Inr
     \<lparr>pvr_reasons = [], pvr_stop_distance = Some (1 / 500), pvr_reward_distance = Some (1 / 250),
      pvr_risk_reward = Some 2\<rparr>"
  by (simp add: proposal_validate_def proposal_distances_def proposal_geometry_def
      proposal_grid_reasons_def mod28_def dec_mod_def lift_dec_def sample_proposal_def sample_snapshot_def
      sample_symbol_info_def trunc_rat_def default_risk_constitution_def proposal_head_reasons_def
      price_reasons_def proposal_capability_reasons_def sample_account_def Let_def)

definition sample_metrics :: account_risk_metrics where
  "sample_metrics = \<lparr>
     arm_account_ref = ''acct-v1:'' @ replicate 64 (CHR ''a''), arm_current_equity = 1000,
     arm_effective_peak_equity = 1000, arm_drawdown_amount = 0, arm_drawdown_percent = 0,
     arm_daily_loss_amount = 0, arm_daily_loss_percent = 0, arm_account_open_position_count = 0,
     arm_permitted_risk_percent = 1 / 2\<rparr>"

lemma sample_metrics_simps [simp]:
  "arm_current_equity sample_metrics = 1000" "arm_permitted_risk_percent sample_metrics = 1 / 2"
  by (simp_all add: sample_metrics_def)

lemma sample_metrics_ok: "fields_account_risk_metrics sample_metrics"
  using sample_account_ref_ok by (simp add: fields_account_risk_metrics_def sample_metrics_def scalar_defs)

lemma sample_account_assessed:
  "account_evaluate sample_sha default_risk_constitution sample_snapshot sample_context (Aware (t0 + seconds 3)) =
     Inr \<lparr>ara_state = risk_state.NORMAL, ara_metrics = sample_metrics, ara_reasons = []\<rparr>"
  using sample_metrics_ok
  by (simp add: account_evaluate_def is_naive_def sample_snapshot_def sample_account_def sample_context_def
      default_risk_constitution_def loss_percent_def account_state_def drawdown_state_def
      permitted_risk_def account_context_reasons_def account_fingerprint_def sample_sha_def seconds_def
      account_limit_reasons_def sample_metrics_def build_def Let_def)

definition sample_sizing :: position_sizing_result where
  "sample_sizing = \<lparr>
     psr_status = position_sizing_status.APPROVED, psr_risk_percent = 1 / 2,
     psr_allowed_risk_amount = 5, psr_stop_distance = 1 / 500, psr_tick_size = 1 / 100000,
     psr_tick_value = 1, psr_trade_contract_size = 100000, psr_ticks_to_stop = 200,
     psr_monetary_loss_per_lot = 200, psr_raw_volume = 1 / 40, psr_volume_min = 1 / 100,
     psr_volume_max = 100, psr_volume_step = 1 / 100, psr_minimum_volume_risk_amount = 2,
     psr_selected_volume = Some (1 / 50), psr_estimated_risk_amount = Some 4\<rparr>"

lemma sample_sizing_built: "build_position_sizing_result sample_sizing = Inr sample_sizing"
  by (simp add: build_position_sizing_result_def fields_position_sizing_result_def
      validate_position_sizing_result_def sample_sizing_def scalar_defs dec_mod_def lift_dec_def trunc_rat_def)

lemma floor_three_halves: "\<lfloor>3 / 2 :: rat\<rfloor> = 1"
  by (simp add: floor_eq_iff)

lemma sample_sized:
  "position_size 1000 (1 / 2) (1 / 500) sample_symbol_info =
     Inr \<lparr>pso_result = Some sample_sizing, pso_reasons = []\<rparr>"
  using sample_sizing_built
  by (simp add: position_size_def sizing_base_def sample_symbol_info_def selected_volume_of_def
      sample_sizing_def floor_three_halves Let_def)

definition sample_decision :: risk_decision where
  "sample_decision = \<lparr>
     rd_cycle_id = ''cycle-1'', rd_schema_version = ''1.0.0'', rd_timestamp = t0 + seconds 3,
     rd_snapshot_id = ''snap-1'', rd_proposal_id = ''prop-1'',
     rd_account_ref = ''acct-v1:'' @ replicate 64 (CHR ''a''), rd_symbol = ''EURUSD'',
     rd_status = risk_decision_status.APPROVED, rd_risk_state = risk_state.NORMAL, rd_reasons = [],
     rd_account_metrics = sample_metrics, rd_position_sizing = Some sample_sizing\<rparr>"

lemma sample_decision_ok: "ok_risk_decision sample_decision"
proof -
  have "is_schema_version ''1.0.0''" "is_cycle_id ''cycle-1''" "is_snapshot_id ''snap-1''"
    "is_identifier ''prop-1''" "is_symbol ''EURUSD''"
    by code_simp+
  then show ?thesis
    using sample_account_ref_ok
    by (simp add: ok_risk_decision_def fields_risk_decision_def validate_risk_decision_def
        sample_decision_def sample_metrics_def sample_sizing_def)
qed

lemma sample_evaluated:
  "risk_evaluate sample_sha default_risk_constitution sample_proposal sample_snapshot sample_context
     (Aware (t0 + seconds 3)) = Inr sample_decision"
proof -
  have "ms_snapshot_completed_at sample_snapshot = t0 + seconds 1" "tp_timestamp sample_proposal = t0 + seconds 2"
    "ms_symbol_info sample_snapshot = sample_symbol_info" "ms_cycle_id sample_snapshot = ''cycle-1''"
    "ms_snapshot_id sample_snapshot = ''snap-1''" "tp_proposal_id sample_proposal = ''prop-1''"
    "arc_account_ref sample_context = ''acct-v1:'' @ replicate 64 (CHR ''a'')"
    "ms_symbol sample_snapshot = ''EURUSD''"
    by (simp_all add: sample_snapshot_def sample_proposal_def sample_context_def sample_metrics_def)
  then show ?thesis
    using sample_decision_ok sample_account_assessed sample_sized
    by (simp add: risk_evaluate_def is_naive_def sample_proposal_checked sample_decision_def
        seconds_def Let_def)
qed

end
