(* ===== verification/ExecutionSamples.thy ===== *)
theory ExecutionSamples
  imports ExecutionStore Samples
begin

text \<open>A concrete sealed intent, claimed record and control history.\<close>

definition sample_digest :: string where
  "sample_digest = ''sha256:'' @ replicate 64 (CHR ''a'')"

definition sample_order_intent :: demo_order_intent where
  "sample_order_intent = \<lparr>doi_schema_version = ''1.0.0'', doi_execution_intent_id = ''intent-1'',
     doi_client_trade_id = ''client-1'', doi_cycle_id = ''cycle-1'',
     doi_snapshot_link = \<lparr>esl_analysis_snapshot_id = ''snap-1'', esl_execution_snapshot_id = ''snap-2'',
       esl_purpose = execution_snapshot_purpose.PRE_SEND_REVALIDATION\<rparr>,
     doi_account_ref = ''acct-v1:'' @ replicate 64 (CHR ''a''), doi_environment_ref = ''env-v1:'' @ replicate 64 (CHR ''a''),
     doi_symbol = ''EURUSD'', doi_side = trade_side.BUY, doi_volume = 1 / 50, doi_reference_price = 11 / 10,
     doi_risk_validation_price = 11 / 10, doi_stop_loss = 1098 / 1000, doi_take_profit = 1104 / 1000,
     doi_maximum_deviation_points = 5, doi_execution_mode = demo_order_execution_mode.MARKET,
     doi_filling_mode = demo_filling_mode.FOK, doi_magic = 11, doi_comment = ''demo:1'',
     doi_source_decision_record_digest = sample_digest, doi_source_shadow_intent_digest = sample_digest,
     doi_analysis_proposal_id = ''prop-1'', doi_analysis_proposal_digest = sample_digest,
     doi_analysis_risk_decision_digest = sample_digest, doi_revalidation_proposal_id = ''prop-2'',
     doi_revalidation_proposal_digest = sample_digest, doi_revalidation_risk_decision_digest = sample_digest,
     doi_qualification_run_id = ''run-1'', doi_qualification_status_digest = sample_digest,
     doi_generation_id = ''generation-1'', doi_generation_digest = sample_digest,
     doi_environment_acceptance_id = ''acceptance-1'', doi_environment_acceptance_digest = sample_digest,
     doi_approval_id = ''approval-1'', doi_approval_digest = sample_digest,
     doi_execution_policy_digest = sample_digest, doi_created_at = t0, doi_expires_at = t0 + seconds 30,
     doi_intent_digest = sample_digest\<rparr>"

definition sample_execution_record :: demo_execution_record where
  "sample_execution_record = \<lparr>der_schema_version = ''1.0.0'', der_intent = sample_order_intent,
     der_state = demo_execution_state.CLAIMED, der_claim_owner = Some ''owner-1'', der_preflight = None,
     der_risk_revalidation = None, der_order_check = None, der_final_guard = None, der_submission = None,
     der_reconciliation = None, der_events = [
       \<lparr>dee_sequence = 1, dee_state = demo_execution_state.CREATED, dee_occurred_at = t0, dee_failure = None\<rparr>,
       \<lparr>dee_sequence = 2, dee_state = demo_execution_state.CLAIMED, dee_occurred_at = t0 + seconds 1,
        dee_failure = None\<rparr>]\<rparr>"

lemma sample_digest_ok: "is_content_digest sample_digest"
  by code_simp

lemma sample_names_ok:
  "is_identifier ''intent-1''" "is_identifier ''client-1''" "is_identifier ''prop-1''" "is_identifier ''prop-2''"
  "is_identifier ''run-1''" "is_identifier ''generation-1''" "is_identifier ''acceptance-1''"
  "is_identifier ''approval-1''" "is_identifier ''owner-1''" "is_cycle_id ''cycle-1''" "is_symbol ''EURUSD''"
  "is_account_reference (''acct-v1:'' @ replicate 64 (CHR ''a''))"
  "is_environment_reference (''env-v1:'' @ replicate 64 (CHR ''a''))"
  by code_simp+

lemma sample_order_intent_ok: "ok_demo_order_intent sample_order_intent"
  using sample_digest_ok sample_names_ok
  by (simp add: ok_demo_order_intent_def fields_demo_order_intent_def validate_demo_order_intent_def
      sample_order_intent_def scalar_defs seconds_def t0_def)

lemma sample_execution_record_ok: "ok_demo_execution_record sample_execution_record"
  using sample_names_ok
  by (simp add: ok_demo_execution_record_def fields_demo_execution_record_def validate_demo_execution_record_def
      sample_execution_record_def execution_allowed_def post_dispatch_states_def seconds_def py_range1_def)

end
