(* ===== verification/ExecutionProperties.thy ===== *)
theory ExecutionProperties
  imports ExecutionRestart GuardTheorems ExecutionSamples
begin

text \<open>
  The properties of DEMO execution, over every run of processes on one SQLite file
  (\<open>after x faults w ps\<close>: calls and restarts \<open>ps\<close>, any terminal, any driver faults) and over every run
  on the store in memory.
\<close>

section \<open>Submission\<close>

text \<open>
  C12: whatever the calls, their outcomes, the driver faults and the restarts, no
  shadow decision is ever submitted to the broker twice, nor is any sealed intent.
\<close>

theorem submitted_at_most_once:
  "distinct (map doi_source_shadow_intent_digest (submissions (st_log (after x faults w ps)))) \<and>
   distinct (map doi_execution_intent_id (submissions (st_log (after x faults w ps))))"
proof -
  let ?s = "after x faults w ps"
  note inv = after_inv(2) [of x faults w ps]
  have d: "distinct (map doi_source_shadow_intent_digest (submissions (st_log ?s)))"
    using inv by (simp add: service_inv_def sent_sources_def)
  have "inj_on doi_execution_intent_id (set (submissions (st_log ?s)))"
  proof (rule inj_onI)
    fix i j
    assume "i \<in> set (submissions (st_log ?s))" "j \<in> set (submissions (st_log ?s))"
      and id: "doi_execution_intent_id i = doi_execution_intent_id j"
    then have "known (sql_view (st_repo ?s)) i" "known (sql_view (st_repo ?s)) j"
      using inv by (simp_all add: service_inv_def list_all_iff)
    with id show "i = j" unfolding known_def by (metis option.inject)
  qed
  with d show ?thesis by (simp add: distinct_map)
qed

text \<open>
  The same for the service over the repository in memory.
\<close>

theorem memory_submits_at_most_once:
  "distinct (map doi_source_shadow_intent_digest (submissions (service_log (over_memory x) cs empty_store w)))"
  using memory_run [of x cs w] by (simp add: service_inv_def sent_sources_def)

text \<open>
  C13: every submission was made with the control ENABLED, directly after the
  repository had accepted a DISPATCHING record of the same intent that holds a passed broker check, a
  passed final guard, an intact seal, and an APPROVED decision of the Risk Engine for exactly the
  volume, side, worst-case price, stop and target that are submitted.
\<close>

theorem submissions_are_ready:
  "log_ok (over_sqlite x) (rev (st_log (after x faults w ps)))"
  using after_inv(2) [of x faults w ps] by (simp add: service_inv_def)

text \<open>
  C17: reconciling an UNKNOWN execution never submits, over any repository.
\<close>

theorem reconciliation_never_submits:
  "submissions (st_log (snd (reconcile_unknown x iid s))) = submissions (st_log s)"
  using quiet.reconcile_unknown_keeps [of "submissions (st_log s)" x iid] by (simp add: keeps_def)

section \<open>What a call leaves\<close>

text \<open>
  C14: an execution that returns has stored the record it returns, settled: REJECTED;
  CONFIRMED on one exactly matching broker evidence; or UNKNOWN or RECONCILIATION_FAILED with the
  control HALTED. One that raises leaves the store consistent.
\<close>

theorem executions_settle:
  "case execute (over_sqlite x) cand acc pol owner (after x faults w ps) of
     (Inl e, s) \<Rightarrow> store_ok (sql_view (st_repo s))
   | (Inr r, s) \<Rightarrow> settled r (sql_view (st_repo s))"
proof -
  have pre: "ast sql_view (service_inv (over_sqlite x)) (after x faults w ps)"
    using after_inv(2) by (simp add: ast_def)
  obtain r s where run: "execute (over_sqlite x) cand acc pol owner (after x faults w ps) = (r, s)"
    by fastforce
  from holdsD [OF sqlite_service.execute_step pre run] run show ?thesis
    by (cases r) (simp_all add: ast_def service_inv_def)
qed

text \<open>
  C18: a reconciliation that returns gives back the stored record of the intent asked
  for, settled, or still UNKNOWN.
\<close>

theorem reconciliations_settle:
  "case reconcile_unknown (over_sqlite x) iid (after x faults w ps) of
     (Inl e, s) \<Rightarrow> store_ok (sql_view (st_repo s))
   | (Inr r, s) \<Rightarrow> intent_id r = iid \<and> stored (sql_view (st_repo s)) r \<and>
       (settled r (sql_view (st_repo s)) \<or> der_state r = demo_execution_state.UNKNOWN)"
proof -
  have pre: "ast sql_view (service_inv (over_sqlite x)) (after x faults w ps)"
    using after_inv(2) by (simp add: ast_def)
  obtain r s where run: "reconcile_unknown (over_sqlite x) iid (after x faults w ps) = (r, s)"
    by fastforce
  from holdsD [OF sqlite_service.reconcile_unknown_step pre run] run show ?thesis
    by (cases r) (auto simp: ast_def service_inv_def settled_def)
qed

section \<open>The repository\<close>

text \<open>
  C19: every record of the store and every revision in the file has a history of
  distinct states from CREATED to its state, along the allowed transitions and of at most six events;
  the file keeps one intent for each source decision and each client identity.
\<close>

theorem stored_histories_bounded:
  "let q = fst (st_repo (after x faults w ps)); rs = map snd (xs_records (sq_mem q)) @ map snd (xt_revisions (sq_db q))
   in list_all (\<lambda>r. successively execution_allowed (history r) \<and> distinct (history r) \<and>
        hd (history r) = demo_execution_state.CREATED \<and> last (history r) = der_state r \<and>
        length (der_events r) \<le> 6) rs \<and>
      distinct (map (fst \<circ> snd) (xt_intents (sq_db q))) \<and> distinct (map (fst \<circ> snd \<circ> snd) (xt_intents (sq_db q)))"
proof -
  let ?q = "fst (st_repo (after x faults w ps))"
  have "store_ok (sq_mem ?q)" "tables_ok (sq_db ?q)"
    using after_inv(1) [of x faults w ps] by (simp_all add: db_ok_def)
  then have "list_all lifecycle_ok (map snd (xs_records (sq_mem ?q)) @ map snd (xt_revisions (sq_db ?q)))"
    "distinct (map (fst \<circ> snd) (xt_intents (sq_db ?q)))" "distinct (map (fst \<circ> snd \<circ> snd) (xt_intents (sq_db ?q)))"
    by (auto simp: store_ok_def tables_ok_def list_all_iff indexed_def revision_ok_def)
  then show ?thesis
    unfolding Let_def list_all_iff using lifecycle_distinct lifecycle_length
    by (simp add: lifecycle_ok_def)
qed

text \<open>
  C20: each of the seven operations of the SQLite repository that change it is the
  one in memory, or raises (a driver fault) and leaves the memory as it was.
\<close>

theorem sqlite_repository_refines_memory:
  "simulates sq_mem (sq_add_environment_acceptance fault acc) (xs_add_environment_acceptance acc) \<and>
   simulates sq_mem (sq_add_approval fault app) (xs_add_approval app) \<and>
   simulates sq_mem (sq_revoke_approval sha fault rvk) (xs_revoke_approval sha rvk) \<and>
   simulates sq_mem (sq_claim fault i p rv owner t) (xs_claim i p rv owner t) \<and>
   simulates sq_mem (sq_save fault r) (xs_save r) \<and>
   simulates sq_mem (sq_append_control_event fault e) (xs_append_control_event e) \<and>
   simulates sq_mem (sq_recover_incomplete fault t') (xs_recover_incomplete t')"
  by (intro conjI sq_add_acceptance_simulates sq_add_approval_simulates sq_revoke_simulates
      sq_claim_simulates sq_save_simulates sq_append_simulates sq_recover_simulates)

section \<open>Guard and reconciliation\<close>

text \<open>
  C15: for a record with an intent identifier the final guard always returns a result, and it
  passes exactly when dispatch is permitted; a result carries a failure exactly when it did not pass.
\<close>

theorem final_guard_exact:
  assumes "is_identifier (intent_id r)"
  shows "\<exists>g. guard_evaluate sha r cand acc app pol obs owned revoked control now = Inr g \<and>
     (fdgr_passed g \<longleftrightarrow> dispatch_permitted sha r cand acc app pol obs owned revoked control now) \<and>
     (fdgr_failure g = None \<longleftrightarrow> fdgr_passed g)"
  using guard_answers [OF assms] by metis

lemma final_guard_exact_witness:
  "\<forall>cand acc app pol obs control now. \<exists>g.
     guard_evaluate sample_sha sample_execution_record cand acc app pol obs False False control now = Inr g \<and>
     \<not> fdgr_passed g"
proof (intro allI)
  fix cand acc app pol obs control now
  show "\<exists>g. guard_evaluate sample_sha sample_execution_record cand acc app pol obs False False control now = Inr g \<and>
     \<not> fdgr_passed g"
    using final_guard_exact [of sample_execution_record sample_sha cand acc app pol obs False False control now]
      sample_order_intent_ok
    by (auto simp: sample_execution_record_def ok_demo_order_intent_def fields_demo_order_intent_def
        dispatch_permitted_def)
qed


end
