(* ===== verification/MarketService.thy ===== *)
theory MarketService
  imports MarketSchemas Effects
begin

text \<open>
  \<open>market/freshness.py\<close> and \<open>market/service.py\<close>: the composition of the reads of one terminal into a
  market snapshot. The terminal and the clock are parameters (\<open>market_source\<close>) with a state \<open>'w\<close> of
  their own; logging is not modelled, and an error carries its category and message.
\<close>

record market_data_settings =
  mds_m15_candle_count :: int
  mds_h1_candle_count :: int
  mds_h4_candle_count :: int
  mds_max_tick_age_seconds :: int
  mds_max_account_age_seconds :: int
  mds_max_m15_candle_age_seconds :: int
  mds_max_h1_candle_age_seconds :: int
  mds_max_h4_candle_age_seconds :: int
  mds_slow_snapshot_seconds :: int

definition fields_market_data_settings :: "market_data_settings \<Rightarrow> bool" where
  "fields_market_data_settings r \<longleftrightarrow>
     1 \<le> mds_m15_candle_count r \<and>
     mds_m15_candle_count r \<le> 5000 \<and>
     1 \<le> mds_h1_candle_count r \<and>
     mds_h1_candle_count r \<le> 5000 \<and>
     1 \<le> mds_h4_candle_count r \<and>
     mds_h4_candle_count r \<le> 5000 \<and>
     1 \<le> mds_max_tick_age_seconds r \<and>
     mds_max_tick_age_seconds r \<le> 86400 \<and>
     1 \<le> mds_max_account_age_seconds r \<and>
     mds_max_account_age_seconds r \<le> 86400 \<and>
     1 \<le> mds_max_m15_candle_age_seconds r \<and>
     mds_max_m15_candle_age_seconds r \<le> 604800 \<and>
     1 \<le> mds_max_h1_candle_age_seconds r \<and>
     mds_max_h1_candle_age_seconds r \<le> 604800 \<and>
     1 \<le> mds_max_h4_candle_age_seconds r \<and>
     mds_max_h4_candle_age_seconds r \<le> 604800 \<and>
     1 \<le> mds_slow_snapshot_seconds r \<and>
     mds_slow_snapshot_seconds r \<le> 3600"

definition dump_market_data_settings :: "market_data_settings \<Rightarrow> pyval" where
  "dump_market_data_settings r = PDict [
     (''m15_candle_count'', PInt (mds_m15_candle_count r)),
     (''h1_candle_count'', PInt (mds_h1_candle_count r)),
     (''h4_candle_count'', PInt (mds_h4_candle_count r)),
     (''max_tick_age_seconds'', PInt (mds_max_tick_age_seconds r)),
     (''max_account_age_seconds'', PInt (mds_max_account_age_seconds r)),
     (''max_m15_candle_age_seconds'', PInt (mds_max_m15_candle_age_seconds r)),
     (''max_h1_candle_age_seconds'', PInt (mds_max_h1_candle_age_seconds r)),
     (''max_h4_candle_age_seconds'', PInt (mds_max_h4_candle_age_seconds r)),
     (''slow_snapshot_seconds'', PInt (mds_slow_snapshot_seconds r))]"

definition build_freshness :: "observation_freshness \<Rightarrow> observation_freshness fallible" where
  "build_freshness = build ''ObservationFreshness'' validate_observation_freshness"

definition assess_freshness :: "instant \<Rightarrow> instant \<Rightarrow> duration \<Rightarrow> observation_freshness fallible" where
  "assess_freshness observed evaluated maximum_age = build_freshness
     \<lparr>ofre_observed_at = observed, ofre_evaluated_at = evaluated, ofre_age = evaluated - observed,
      ofre_maximum_age = maximum_age,
      ofre_state = (if evaluated - observed \<le> maximum_age then freshness_state.FRESH else freshness_state.STALE)\<rparr>"

text \<open>The summary the service and the historical builder share.\<close>

definition summarize_freshness ::
  "observation_freshness \<Rightarrow> observation_freshness \<Rightarrow> observation_freshness \<Rightarrow> observation_freshness \<Rightarrow>
     observation_freshness \<Rightarrow> snapshot_freshness fallible" where
  "summarize_freshness tick account m15 h1 h4 = build ''SnapshotFreshness'' validate_snapshot_freshness
     \<lparr>sfre_tick = tick, sfre_account = account, sfre_m15_candles = m15, sfre_h1_candles = h1,
      sfre_h4_candles = h4,
      sfre_overall = (if list_ex (\<lambda>x. ofre_state x = freshness_state.STALE) [tick, account, m15, h1, h4]
        then freshness_state.STALE else freshness_state.FRESH)\<rparr>"

section \<open>The source\<close>

record 'w market_source =
  src_clock :: "('w, py_datetime) op"
  src_symbol_info :: "string \<Rightarrow> ('w, mt5_symbol_info) op"
  src_account_info :: "('w, mt5_account_info) op"
  src_candles :: "string \<Rightarrow> timeframe \<Rightarrow> int \<Rightarrow> ('w, mt5_candle list) op"
  src_positions :: "string \<Rightarrow> ('w, mt5_open_position list) op"
  src_tick :: "string \<Rightarrow> ('w, mt5_tick) op"

record 'w market_service =
  mks_source :: "'w market_source"
  mks_settings :: market_data_settings
  mks_symbol :: "string option"

abbreviation market_error :: "market_data_error_category \<Rightarrow> string \<Rightarrow> py_exception" where
  "market_error \<equiv> MarketDataError"

abbreviation inconsistent :: "string \<Rightarrow> py_exception" where
  "inconsistent \<equiv> market_error market_data_error_category.INCONSISTENT_TIMESTAMPS"

section \<open>Checks\<close>

definition check_observation_times :: "instant \<Rightarrow> instant \<Rightarrow> instant list \<Rightarrow> unit fallible" where
  "check_observation_times started completed stamps = run_guards
     [(started > completed \<or> list_ex (\<lambda>v. v < started \<or> v > completed) stamps,
       inconsistent ''observation retrieval time falls outside the snapshot window'')]"

definition check_symbol_observations :: "string \<Rightarrow> string \<Rightarrow> string \<Rightarrow> unit fallible" where
  "check_symbol_observations expected symbol_info tick = run_guards
     [(symbol_info \<noteq> expected \<or> tick \<noteq> expected, market_error market_data_error_category.MISSING_SYMBOL
       ''market observations do not match the configured broker symbol'')]"

definition check_tick_time :: "instant \<Rightarrow> instant \<Rightarrow> instant \<Rightarrow> unit fallible" where
  "check_tick_time source_time retrieved completed = run_guards
     [(source_time > retrieved \<or> source_time > completed,
       inconsistent ''tick source time is later than its retrieval or snapshot completion'')]"

fun check_candles ::
  "string \<Rightarrow> timeframe \<Rightarrow> instant \<Rightarrow> instant \<Rightarrow> instant option \<Rightarrow> mt5_candle list \<Rightarrow> unit fallible" where
  "check_candles sy tf started completed previous [] = Inr ()"
| "check_candles sy tf started completed previous (c # cs) = bind_result (run_guards [
     (mc_symbol c \<noteq> sy \<or> mc_timeframe c \<noteq> tf,
       market_error market_data_error_category.INVALID_TIMEFRAME_DATA
         ''candle symbol or timeframe does not match its requested collection''),
     (case previous of None \<Rightarrow> False | Some p \<Rightarrow> mc_open_time c \<le> p,
       market_error market_data_error_category.INVALID_TIMEFRAME_DATA
         ''candle timestamps must be unique and strictly increasing''),
     (mc_open_time c + timeframe_duration tf > completed,
       inconsistent ''incomplete or future candle is not permitted'')]) (\<lambda>_.
     bind_result (check_observation_times started completed [mc_retrieved_at c]) (\<lambda>_.
     check_candles sy tf started completed (Some (mc_open_time c)) cs))"

fun check_positions :: "instant \<Rightarrow> instant \<Rightarrow> mt5_open_position list \<Rightarrow> unit fallible" where
  "check_positions started completed [] = Inr ()"
| "check_positions started completed (p # ps) = bind_result (run_guards
     [(mop_open_time p > mop_update_time p \<or> mop_update_time p > completed,
       inconsistent ''position timestamps are inconsistent with the snapshot'')]) (\<lambda>_.
     bind_result (check_observation_times started completed [mop_retrieved_at p]) (\<lambda>_.
     check_positions started completed ps))"

definition collection_retrieved_at :: "mt5_candle list \<Rightarrow> instant fallible" where
  "collection_retrieved_at cs = (case remdups (map mc_retrieved_at cs) of
       [t] \<Rightarrow> Inr t
     | _ \<Rightarrow> Inl (inconsistent ''one source read produced inconsistent retrieval timestamps''))"

definition candle_freshness :: "mt5_candle list \<Rightarrow> timeframe \<Rightarrow> int \<Rightarrow> instant \<Rightarrow> observation_freshness fallible" where
  "candle_freshness cs tf maximum_age completed =
     (if cs = [] then Inl (IndexError ''tuple index out of range'')
      else assess_freshness (mc_open_time (last cs) + timeframe_duration tf) completed (seconds maximum_age))"

definition service_freshness ::
  "market_data_settings \<Rightarrow> instant \<Rightarrow> instant \<Rightarrow> mt5_candle list \<Rightarrow> mt5_candle list \<Rightarrow> mt5_candle list \<Rightarrow>
     instant \<Rightarrow> snapshot_freshness fallible" where
  "service_freshness g account_time tick_time m15 h1 h4 completed =
     bind_result (assess_freshness tick_time completed (seconds (mds_max_tick_age_seconds g))) (\<lambda>tick.
     bind_result (assess_freshness account_time completed (seconds (mds_max_account_age_seconds g))) (\<lambda>account.
     bind_result (candle_freshness m15 timeframe.M15 (mds_max_m15_candle_age_seconds g) completed) (\<lambda>f15.
     bind_result (candle_freshness h1 timeframe.H1 (mds_max_h1_candle_age_seconds g) completed) (\<lambda>f1.
     bind_result (candle_freshness h4 timeframe.H4 (mds_max_h4_candle_age_seconds g) completed) (\<lambda>f4.
     summarize_freshness tick account f15 f1 f4)))))"

definition warning_if ::
  "bool \<Rightarrow> snapshot_warning_code \<Rightarrow> string \<Rightarrow> timeframe option \<Rightarrow> int option \<Rightarrow> snapshot_validation_warning list" where
  "warning_if c code message tf omitted =
     (if c then [\<lparr>svw_code = code, svw_message = message, svw_timeframe = tf, svw_omitted_count = omitted\<rparr>]
      else [])"

definition service_warnings ::
  "market_data_settings \<Rightarrow> snapshot_freshness \<Rightarrow> duration \<Rightarrow> int \<Rightarrow> snapshot_validation_warning list" where
  "service_warnings g f d omitted =
     (let stale = (\<lambda>x. ofre_state x = freshness_state.STALE);
          candle = (\<lambda>x tf. warning_if (stale x) snapshot_warning_code.STALE_CANDLE
            ''latest completed candle is valid but stale'' (Some tf) None)
      in warning_if (stale (sfre_tick f)) snapshot_warning_code.STALE_TICK
           ''tick is valid but older than the configured freshness threshold'' None None @
         warning_if (stale (sfre_account f)) snapshot_warning_code.STALE_ACCOUNT
           ''account observation is valid but stale'' None None @
         candle (sfre_m15_candles f) timeframe.M15 @ candle (sfre_h1_candles f) timeframe.H1 @
         candle (sfre_h4_candles f) timeframe.H4 @
         warning_if (d > seconds (mds_slow_snapshot_seconds g)) snapshot_warning_code.SLOW_SNAPSHOT
           ''snapshot duration exceeded the configured warning threshold'' None None @
         warning_if (omitted \<noteq> 0) snapshot_warning_code.OUT_OF_SCOPE_POSITION_OMITTED
           ''positions for other symbols were omitted from this snapshot'' None (Some omitted))"

section \<open>Reading\<close>

text \<open>An exception the clock raises itself is not its own to translate, unless it is a \<open>ValueError\<close>.\<close>

definition read_clock :: "'w market_service \<Rightarrow> ('w, instant) op" where
  "read_clock m w =
     (let wrong = Inl (inconsistent ''snapshot clock must return a timezone-aware timestamp'')
      in case src_clock (mks_source m) w of
           (Inl e, w') \<Rightarrow> (if is_value_error e then wrong else Inl e, w')
         | (Inr t, w') \<Rightarrow> (if is_naive t then wrong else Inr (as_utc t), w'))"

definition read_candles :: "'w market_service \<Rightarrow> string \<Rightarrow> timeframe \<Rightarrow> int \<Rightarrow> ('w, mt5_candle list) op" where
  "read_candles m sy tf count =
     bind_op (src_candles (mks_source m) sy tf count) (\<lambda>cs. lift_op (bind_result (run_guards
       [(int (length cs) < count, market_error market_data_error_category.INSUFFICIENT_CANDLE_HISTORY
          (value_timeframe tf @ '' returned fewer completed candles than requested'')),
        (int (length cs) > count, market_error market_data_error_category.INVALID_TIMEFRAME_DATA
          (value_timeframe tf @ '' returned more candles than requested''))]) (\<lambda>_. Inr cs)))"

section \<open>Composition\<close>

text \<open>What the reads of one snapshot returned, in the order they are made.\<close>

record snapshot_reads =
  sr_started :: instant
  sr_symbol_info :: mt5_symbol_info
  sr_account :: mt5_account_info
  sr_m15 :: "mt5_candle list"
  sr_h1 :: "mt5_candle list"
  sr_h4 :: "mt5_candle list"
  sr_positions :: "mt5_open_position list"
  sr_positions_at :: instant
  sr_tick :: mt5_tick
  sr_completed :: instant

definition read_observations :: "'w market_service \<Rightarrow> string \<Rightarrow> ('w, snapshot_reads) op" where
  "read_observations m sy =
     (let src = mks_source m; g = mks_settings m
      in bind_op (read_clock m) (\<lambda>started.
         bind_op (src_symbol_info src sy) (\<lambda>info.
         bind_op (src_account_info src) (\<lambda>account.
         bind_op (read_candles m sy timeframe.M15 (mds_m15_candle_count g)) (\<lambda>m15.
         bind_op (read_candles m sy timeframe.H1 (mds_h1_candle_count g)) (\<lambda>h1.
         bind_op (read_candles m sy timeframe.H4 (mds_h4_candle_count g)) (\<lambda>h4.
         bind_op (src_positions src sy) (\<lambda>positions.
         bind_op (read_clock m) (\<lambda>positions_at.
         bind_op (src_tick src sy) (\<lambda>tick.
         bind_op (read_clock m) (\<lambda>completed.
         ret \<lparr>sr_started = started, sr_symbol_info = info, sr_account = account, sr_m15 = m15, sr_h1 = h1,
           sr_h4 = h4, sr_positions = positions, sr_positions_at = positions_at, sr_tick = tick,
           sr_completed = completed\<rparr>)))))))))))"

definition compose_snapshot ::
  "market_data_settings \<Rightarrow> string \<Rightarrow> string \<Rightarrow> string \<Rightarrow> timeframe \<Rightarrow> snapshot_reads \<Rightarrow> market_snapshot fallible" where
  "compose_snapshot g sy cycle snap primary r =
     (let started = sr_started r; completed = sr_completed r; tick = sr_tick r; info = sr_symbol_info r;
          account = sr_account r; m15 = sr_m15 r; h1 = sr_h1 r; h4 = sr_h4 r;
          positions = filter (\<lambda>p. mop_symbol p = sy) (sr_positions r);
          omitted = int (length (sr_positions r)) - int (length positions)
      in bind_result (check_symbol_observations sy (msi_symbol info) (mt_symbol tick)) (\<lambda>_.
         bind_result (check_observation_times started completed
           [msi_retrieved_at info, mai_retrieved_at account, mt_retrieved_at tick]) (\<lambda>_.
         bind_result (check_tick_time (mt_source_time tick) (mt_retrieved_at tick) completed) (\<lambda>_.
         bind_result (check_candles sy timeframe.M15 started completed None m15) (\<lambda>_.
         bind_result (check_candles sy timeframe.H1 started completed None h1) (\<lambda>_.
         bind_result (check_candles sy timeframe.H4 started completed None h4) (\<lambda>_.
         bind_result (check_positions started completed positions) (\<lambda>_.
         bind_result (service_freshness g (mai_retrieved_at account) (mt_source_time tick) m15 h1 h4 completed)
           (\<lambda>freshness.
         bind_result (collection_retrieved_at m15) (\<lambda>at15.
         bind_result (collection_retrieved_at h1) (\<lambda>at1.
         bind_result (collection_retrieved_at h4) (\<lambda>at4.
         let stamps = \<lparr>sst_symbol_info = msi_retrieved_at info, sst_account = mai_retrieved_at account,
               sst_m15_candles = at15, sst_h1_candles = at1, sst_h4_candles = at4,
               sst_positions = sr_positions_at r, sst_tick = mt_retrieved_at tick\<rparr>
         in bind_result (check_observation_times started completed
              [sst_symbol_info stamps, sst_account stamps, sst_m15_candles stamps, sst_h1_candles stamps,
               sst_h4_candles stamps, sst_positions stamps, sst_tick stamps]) (\<lambda>_.
            bind_result (build ''SnapshotCandles'' fields_snapshot_candles
              \<lparr>sc_m15 = m15, sc_h1 = h1, sc_h4 = h4\<rparr>) (\<lambda>candles.
            bind_result (build ''SnapshotConsistencyMetadata'' (\<lambda>c. fields_snapshot_consistency_metadata c \<and>
                validate_snapshot_consistency_metadata c)
              \<lparr>scm_validity = data_validity_state.VALID, scm_source_timestamps = stamps,
               scm_snapshot_duration = completed - started, scm_freshness = freshness,
               scm_validation_warnings = service_warnings g freshness (completed - started) omitted\<rparr>)
              (\<lambda>consistency.
            build ''MarketSnapshot'' ok_market_snapshot
              \<lparr>ms_schema_version = ''1.0.0'', ms_cycle_id = cycle, ms_snapshot_id = snap, ms_symbol = sy,
               ms_primary_timeframe = primary, ms_snapshot_started_at = started,
               ms_snapshot_completed_at = completed, ms_symbol_info = info, ms_tick = tick,
               ms_spread = mt_spread tick, ms_candles = candles, ms_account = account,
               ms_open_positions = positions, ms_consistency = consistency\<rparr>)))))))))))))))"

text \<open>The handlers of \<open>build_snapshot\<close>: a market error passes, every other \<open>Exception\<close> becomes one.\<close>

definition as_market_error :: "py_exception \<Rightarrow> py_exception" where
  "as_market_error e = (case e of
       MarketDataError c m \<Rightarrow> e
     | ProcessExit \<Rightarrow> e
     | MT5ClientError c operation m code \<Rightarrow> market_error
         (if c \<in> {mt5_error_category.SYMBOL_UNAVAILABLE, mt5_error_category.SYMBOL_NOT_SELECTED,
            mt5_error_category.SYMBOL_INFO_ERROR}
          then market_data_error_category.MISSING_SYMBOL
          else market_data_error_category.SNAPSHOT_COMPOSITION_FAILURE)
         ''read-only market source could not provide the snapshot''
     | _ \<Rightarrow> market_error market_data_error_category.SNAPSHOT_COMPOSITION_FAILURE
         (if is_value_error e \<or> (case e of TypeError t \<Rightarrow> True | _ \<Rightarrow> False)
          then ''snapshot failed boundary validation'' else ''snapshot composition failed unexpectedly''))"

text \<open>
  The type adapters of the two identifiers strip the surrounding white space; a symbol is taken as
  configured, and refused when it is blank.
\<close>

definition build_snapshot :: "'w market_service \<Rightarrow> string \<Rightarrow> string \<Rightarrow> timeframe \<Rightarrow> ('w, market_snapshot) op" where
  "build_snapshot m cycle snap primary w =
     (let cycle' = strip_of is_space_char cycle; snap' = strip_of is_space_char snap
      in if \<not> (is_cycle_id cycle' \<and> is_snapshot_id snap')
         then (Inl (market_error market_data_error_category.SNAPSHOT_COMPOSITION_FAILURE
           ''cycle_id or snapshot_id is invalid''), w)
         else case mks_symbol m of
           None \<Rightarrow> (Inl (market_error market_data_error_category.MISSING_SYMBOL
             ''a configured broker symbol is required''), w)
         | Some sy \<Rightarrow>
             if blank sy then (Inl (market_error market_data_error_category.MISSING_SYMBOL
               ''a configured broker symbol is required''), w)
             else case bind_op (read_observations m sy)
                 (\<lambda>r. lift_op (compose_snapshot (mks_settings m) sy cycle' snap' primary r)) w of
               (Inl e, w') \<Rightarrow> (Inl (as_market_error e), w')
             | (Inr s, w') \<Rightarrow> (Inr s, w'))"

end
