(* ===== verification/MarketServiceTheorems.thy ===== *)
theory MarketServiceTheorems
  imports MarketService
begin

text \<open>What the market data service returns, and what it raises.\<close>

lemma as_market_error_cases:
  "as_market_error e = ProcessExit \<or> (\<exists>c m. as_market_error e = MarketDataError c m)"
  by (cases e) (simp_all add: as_market_error_def)

lemma compose_snapshot_Inr:
  assumes "compose_snapshot g sy cycle snap primary r = Inr s"
  shows "ok_market_snapshot s" "ms_cycle_id s = cycle" "ms_snapshot_id s = snap" "ms_symbol s = sy"
    "ms_snapshot_started_at s = sr_started r" "ms_snapshot_completed_at s = sr_completed r"
    "ms_open_positions s = filter (\<lambda>p. mop_symbol p = sy) (sr_positions r)"
    "sc_m15 (ms_candles s) = sr_m15 r" "sc_h1 (ms_candles s) = sr_h1 r" "sc_h4 (ms_candles s) = sr_h4 r"
  using assms by (auto simp: compose_snapshot_def Let_def result_simps)

lemma read_candles_count:
  "read_candles m sy tf count w = (Inr cs, w') \<Longrightarrow> int (length cs) = count"
  by (auto simp: read_candles_def bind_op_Inr lift_op_eq result_simps split: if_splits)

lemma read_observations_counts:
  assumes "read_observations m sy w = (Inr r, w')"
  shows "int (length (sr_m15 r)) = mds_m15_candle_count (mks_settings m)"
    "int (length (sr_h1 r)) = mds_h1_candle_count (mks_settings m)"
    "int (length (sr_h4 r)) = mds_h4_candle_count (mks_settings m)"
  using assms
  by (auto simp: read_observations_def Let_def bind_op_Inr ret_eq dest: read_candles_count)

lemma candle_collection_closed:
  assumes "candle_collection_ok s tf cs t fr"
  shows "list_all (\<lambda>c. mc_open_time c + timeframe_duration (mc_timeframe c) \<le> ms_snapshot_completed_at s) cs"
  using assms candle_sequence_times by (fastforce simp: candle_collection_ok_def list_all_iff)

lemma snapshot_candles_closed:
  assumes "validate_market_snapshot s"
  shows "list_all (\<lambda>c. mc_open_time c + timeframe_duration (mc_timeframe c) \<le> ms_snapshot_completed_at s)
      (sc_m15 (ms_candles s) @ sc_h1 (ms_candles s) @ sc_h4 (ms_candles s))"
proof -
  obtain a b c x y z where "candle_collection_ok s timeframe.M15 (sc_m15 (ms_candles s)) a x"
      "candle_collection_ok s timeframe.H1 (sc_h1 (ms_candles s)) b y"
      "candle_collection_ok s timeframe.H4 (sc_h4 (ms_candles s)) c z"
    using assms unfolding validate_market_snapshot_def Let_def by blast
  then show ?thesis by (simp add: candle_collection_closed)
qed

text \<open>
  C28: whatever the terminal and the clock do, the service either raises a market
  error (or the process is ended from outside), or it returns a valid snapshot of the configured symbol
  that holds exactly the requested number of completed candles per timeframe and no position of another
  symbol.
\<close>

theorem snapshot_or_market_error:
  "case fst (build_snapshot m cycle snap primary w) of
     Inl e \<Rightarrow> e = ProcessExit \<or> (\<exists>c msg. e = MarketDataError c msg)
   | Inr s \<Rightarrow> ok_market_snapshot s \<and> mks_symbol m = Some (ms_symbol s) \<and>
       map (int \<circ> length) [sc_m15 (ms_candles s), sc_h1 (ms_candles s), sc_h4 (ms_candles s)] =
         [mds_m15_candle_count (mks_settings m), mds_h1_candle_count (mks_settings m),
          mds_h4_candle_count (mks_settings m)] \<and>
       list_all (\<lambda>c. mc_open_time c + timeframe_duration (mc_timeframe c) \<le> ms_snapshot_completed_at s)
         (sc_m15 (ms_candles s) @ sc_h1 (ms_candles s) @ sc_h4 (ms_candles s)) \<and>
       list_all (\<lambda>p. mop_symbol p = ms_symbol s) (ms_open_positions s)"
proof (cases "fst (build_snapshot m cycle snap primary w)")
  case (Inl e)
  then show ?thesis
    using as_market_error_cases
    by (auto simp: build_snapshot_def Let_def split: if_splits option.splits prod.splits sum.splits)
next
  case (Inr s)
  then obtain sy r cycle' snap' w' w'' where sy: "mks_symbol m = Some sy"
    and reads: "read_observations m sy w = (Inr r, w')"
    and s: "compose_snapshot (mks_settings m) sy cycle' snap' primary r = Inr s"
    by (auto simp: build_snapshot_def Let_def bind_op_def lift_op_def
        split: if_splits option.splits prod.splits sum.splits)
  note s' = compose_snapshot_Inr [OF s]
  have v: "validate_market_snapshot s" using s'(1) by (simp add: ok_market_snapshot_def)
  have "list_all (\<lambda>p. mop_symbol p = ms_symbol s) (ms_open_positions s)"
    using v by (simp add: validate_market_snapshot_def Let_def list_all_iff)
  then show ?thesis
    using Inr sy s' snapshot_candles_closed [OF v] read_observations_counts [OF reads] by simp
qed

end
