(* ===== verification/ObservationStore.thy ===== *)
theory ObservationStore
  imports ObservationSchemas Serialization Effects "HOL-Library.Product_Lexorder"
begin

text \<open>
  \<open>storage/observation.py\<close>: the claims of decision candles, the decision records, the risk baselines
  and the pending outcomes, in memory and on SQLite. The in-memory operations come first; a SQLite
  operation runs the in-memory one, writes, and undoes the in-memory change when the write raises.
  A stored row is the instance it was written from (the JSON round trip of a record keeps it), and
  the identities that reach a repository are given stripped, as the validated contracts carry them.
\<close>

section \<open>In memory\<close>

record observation_memory =
  om_claims :: "(string, decision_candle_claim) dict"
  om_snapshot_ids :: "string list"
  om_decisions :: "(string, continuous_decision_record) dict"
  om_baselines :: "(string, risk_baseline_record) dict"
  om_outcomes :: "(string, pending_shadow_outcome) dict"

definition empty_observations :: observation_memory where
  "empty_observations = \<lparr>om_claims = [], om_snapshot_ids = [], om_decisions = [], om_baselines = [], om_outcomes = []\<rparr>"

definition repository_utc :: "py_datetime \<Rightarrow> instant fallible" where
  "repository_utc t =
     (if is_naive t then Inl (ValueError ''repository timestamp must be timezone-aware'') else Inr (as_utc t))"

definition validated_claim :: "decision_candle_claim \<Rightarrow> decision_candle_claim fallible" where
  "validated_claim c = build ''DecisionCandleClaim'' ok_decision_candle_claim c"

definition validated_baseline :: "risk_baseline_record \<Rightarrow> risk_baseline_record fallible" where
  "validated_baseline b = build ''RiskBaselineRecord'' ok_risk_baseline_record b"

text \<open>\<open>self._claims[key]\<close> and the other subscriptions raise on a missing key.\<close>

definition subscript :: "(string, 'v) dict \<Rightarrow> string \<Rightarrow> 'v fallible" where
  "subscript d k = (case map_of d k of None \<Rightarrow> Inl (KeyError k) | Some x \<Rightarrow> Inr x)"

definition store_claim :: "string \<Rightarrow> decision_candle_claim fallible \<Rightarrow> (observation_memory, decision_candle_claim) op" where
  "store_claim k r s = (case r of
     Inl e \<Rightarrow> (Inl e, s)
   | Inr c \<Rightarrow> (Inr c, s\<lparr>om_claims := AList.update k c (om_claims s)\<rparr>))"

subsection \<open>Claims\<close>

definition discovered_claim :: "completed_decision_candle \<Rightarrow> decision_candle_claim" where
  "discovered_claim c = \<lparr>dcc_schema_version = ''1.0.0'', dcc_decision_key = cdc_decision_key c,
     dcc_cycle_id = cdc_cycle_id c, dcc_actual_snapshot_id = None, dcc_symbol = cdc_symbol c,
     dcc_timeframe = cdc_timeframe c, dcc_candle_open_at = cdc_candle_open_at c,
     dcc_candle_close_at = cdc_candle_close_at c, dcc_candle_digest = cdc_candle_digest c,
     dcc_state = decision_claim_state.DISCOVERED, dcc_discovered_at = cdc_observed_at c,
     dcc_updated_at = cdc_observed_at c, dcc_failure_category = None, dcc_sanitized_detail = None\<rparr>"

definition om_discover :: "completed_decision_candle \<Rightarrow> (observation_memory, decision_candle_claim) op" where
  "om_discover c s = (case map_of (om_claims s) (cdc_decision_key c) of
     Some x \<Rightarrow>
       (if dcc_candle_digest x \<noteq> cdc_candle_digest c
        then (Inl (ObservationRuntimeError observation_failure_category.SOURCE_CANDLE_REVISED
               ''an existing decision candle was observed with revised content''), s)
        else (Inr x, s))
   | None \<Rightarrow>
       (if list_ex (\<lambda>(k, x). dcc_cycle_id x = cdc_cycle_id c) (om_claims s)
        then (Inl (ValueError ''cycle identity is already bound to another decision key''), s)
        else store_claim (cdc_decision_key c) (validated_claim (discovered_claim c)) s))"

definition require_state :: "string \<Rightarrow> decision_claim_state \<Rightarrow> observation_memory \<Rightarrow> decision_candle_claim fallible" where
  "require_state k st s = bind_result (subscript (om_claims s) k) (\<lambda>c.
     if dcc_state c \<noteq> st then Inl (ValueError (''claim must be '' @ value_decision_claim_state st)) else Inr c)"

definition om_transition :: "string \<Rightarrow> decision_claim_state \<Rightarrow> decision_claim_state \<Rightarrow> py_datetime \<Rightarrow>
    (observation_memory, decision_candle_claim) op" where
  "om_transition k expected target t s = store_claim k
     (bind_result (require_state k expected s) (\<lambda>c. bind_result (repository_utc t) (\<lambda>moment.
      validated_claim (c\<lparr>dcc_state := target, dcc_updated_at := moment\<rparr>)))) s"

definition om_claim :: "string \<Rightarrow> py_datetime \<Rightarrow> (observation_memory, decision_candle_claim) op" where
  "om_claim k t = om_transition k decision_claim_state.DISCOVERED decision_claim_state.CLAIMED t"

definition om_bind_snapshot :: "string \<Rightarrow> string \<Rightarrow> py_datetime \<Rightarrow> (observation_memory, decision_candle_claim) op" where
  "om_bind_snapshot k snap t s =
     (case bind_result (require_state k decision_claim_state.CLAIMED s) (\<lambda>c.
        if snap \<in> set (om_snapshot_ids s)
        then Inl (ObservationRuntimeError observation_failure_category.SNAPSHOT_ID_CONFLICT
          ''accepted snapshot identity is already bound to another decision'')
        else bind_result (repository_utc t) (\<lambda>moment.
          validated_claim (c\<lparr>dcc_actual_snapshot_id := Some snap, dcc_updated_at := moment\<rparr>))) of
        Inl e \<Rightarrow> (Inl e, s)
      | Inr c \<Rightarrow> (Inr c, s\<lparr>om_claims := AList.update k c (om_claims s),
          om_snapshot_ids := List.insert snap (om_snapshot_ids s)\<rparr>))"

definition om_mark_processing :: "string \<Rightarrow> py_datetime \<Rightarrow> (observation_memory, decision_candle_claim) op" where
  "om_mark_processing k t s = (case require_state k decision_claim_state.CLAIMED s of
     Inl e \<Rightarrow> (Inl e, s)
   | Inr c \<Rightarrow>
       (if dcc_actual_snapshot_id c = None
        then (Inl (ValueError ''actual accepted snapshot must be bound before processing''), s)
        else om_transition k decision_claim_state.CLAIMED decision_claim_state.PROCESSING t s))"

definition terminal_states :: "decision_claim_state list" where
  "terminal_states = [decision_claim_state.COMPLETED, decision_claim_state.FAILED,
     decision_claim_state.MISSED, decision_claim_state.ABANDONED]"

definition live_states :: "decision_claim_state list" where
  "live_states = [decision_claim_state.DISCOVERED, decision_claim_state.CLAIMED,
     decision_claim_state.PROCESSING]"

definition om_mark_terminal :: "string \<Rightarrow> decision_claim_state \<Rightarrow> py_datetime \<Rightarrow>
    observation_failure_category option \<Rightarrow> string option \<Rightarrow> (observation_memory, decision_candle_claim) op" where
  "om_mark_terminal k st t category detail s =
     (if st \<notin> set terminal_states then (Inl (ValueError ''target claim state is not terminal''), s)
      else store_claim k (bind_result (subscript (om_claims s) k) (\<lambda>c.
        if dcc_state c \<notin> set live_states then Inl (ValueError ''terminal claim cannot transition again'')
        else bind_result (repository_utc t) (\<lambda>moment.
          validated_claim (c\<lparr>dcc_state := st, dcc_updated_at := moment,
            dcc_failure_category := category, dcc_sanitized_detail := detail\<rparr>)))) s)"

text \<open>
  The loop over a copy of the items, with the \<open>mark_terminal\<close> of the repository it runs on: the
  subclass overrides it.
\<close>

fun recover_with :: "(string \<Rightarrow> ('s, decision_candle_claim) op) \<Rightarrow> (string, decision_candle_claim) dict \<Rightarrow>
    ('s, decision_candle_claim list) op" where
  "recover_with mark [] = ret []"
| "recover_with mark ((k, c) # items) =
     (if dcc_state c \<in> {decision_claim_state.CLAIMED, decision_claim_state.PROCESSING}
      then bind_op (mark k) (\<lambda>x. bind_op (recover_with mark items) (\<lambda>xs. ret (x # xs)))
      else recover_with mark items)"

definition abandoning :: "(string \<Rightarrow> decision_claim_state \<Rightarrow> py_datetime \<Rightarrow> observation_failure_category option \<Rightarrow>
    string option \<Rightarrow> 'b) \<Rightarrow> py_datetime \<Rightarrow> string \<Rightarrow> 'b" where
  "abandoning mark t k = mark k decision_claim_state.ABANDONED t
     (Some observation_failure_category.PROCESS_RESTART)
     (Some ''unfinished cycle was abandoned after process restart'')"

definition om_recover_incomplete :: "py_datetime \<Rightarrow> (observation_memory, decision_candle_claim list) op" where
  "om_recover_incomplete t s = recover_with (abandoning om_mark_terminal t) (om_claims s) s"

definition om_get_claim :: "observation_memory \<Rightarrow> string \<Rightarrow> decision_candle_claim option" where
  "om_get_claim s k = map_of (om_claims s) k"

definition om_claims_in_range :: "observation_memory \<Rightarrow> py_datetime \<Rightarrow> py_datetime \<Rightarrow> decision_candle_claim list fallible" where
  "om_claims_in_range s a b = bind_result (repository_utc a) (\<lambda>start. bind_result (repository_utc b) (\<lambda>stop.
     if stop \<le> start then Inl (ValueError ''observation query range must be increasing'')
     else Inr (sort_key (\<lambda>c. (dcc_candle_close_at c, dcc_decision_key c))
       (filter (\<lambda>c. start \<le> dcc_candle_close_at c \<and> dcc_candle_close_at c < stop) (map snd (om_claims s))))))"

subsection \<open>Decision records\<close>

definition om_append_decision :: "continuous_decision_record \<Rightarrow> (observation_memory, unit) op" where
  "om_append_decision r s =
     (if map_of (om_decisions s) (cdr_decision_key r) \<noteq> None
      then (Inl (ValueError ''continuous decision record is append-only''), s)
      else (Inr (), s\<lparr>om_decisions := AList.update (cdr_decision_key r) r (om_decisions s)\<rparr>))"

definition om_get_decision :: "observation_memory \<Rightarrow> string \<Rightarrow> continuous_decision_record option" where
  "om_get_decision s k = map_of (om_decisions s) k"

definition om_decisions_in_range ::
  "observation_memory \<Rightarrow> py_datetime \<Rightarrow> py_datetime \<Rightarrow> continuous_decision_record list fallible" where
  "om_decisions_in_range s a b = bind_result (repository_utc a) (\<lambda>start. bind_result (repository_utc b) (\<lambda>stop.
     if stop \<le> start then Inl (ValueError ''observation query range must be increasing'')
     else bind_result (om_claims_in_range s (Aware start) (Aware stop)) (\<lambda>claims.
       Inr (sort_key (\<lambda>r. (cdr_recorded_at r, cdr_decision_key r))
         (filter (\<lambda>r. cdr_decision_key r \<in> set (map dcc_decision_key claims)) (map snd (om_decisions s)))))))"

subsection \<open>Risk baselines\<close>

definition om_append_baseline :: "risk_baseline_record \<Rightarrow> (observation_memory, unit) op" where
  "om_append_baseline b s =
     (if map_of (om_baselines s) (rbr_baseline_id b) \<noteq> None
      then (Inl (ValueError ''risk baseline identity already exists''), s)
      else (Inr (), s\<lparr>om_baselines := AList.update (rbr_baseline_id b) b (om_baselines s)\<rparr>))"

definition om_active_baselines :: "observation_memory \<Rightarrow> string \<Rightarrow> int \<Rightarrow> py_datetime \<Rightarrow> risk_baseline_record list fallible" where
  "om_active_baselines s account day t = bind_result (repository_utc t) (\<lambda>moment.
     Inr (filter (\<lambda>b. rbr_state b = risk_baseline_state.ACTIVE \<and> rbr_account_ref b = account \<and>
       rbr_utc_trading_day b = day \<and> baseline_applies_at b moment) (map snd (om_baselines s))))"

definition om_supersede_baseline :: "string \<Rightarrow> risk_baseline_record \<Rightarrow> py_datetime \<Rightarrow> (observation_memory, unit) op" where
  "om_supersede_baseline k new t s =
     (case bind_result (subscript (om_baselines s) k) (\<lambda>current. bind_result (repository_utc t) (\<lambda>moment.
        bind_result (run_guards
          [(rbr_state current \<noteq> risk_baseline_state.ACTIVE, ValueError ''only an active baseline may be superseded''),
           (rbr_state new \<noteq> risk_baseline_state.ACTIVE, ValueError ''replacement baseline must be active''),
           (rbr_account_ref new \<noteq> rbr_account_ref current \<or>
            rbr_utc_trading_day new \<noteq> rbr_utc_trading_day current \<or> rbr_effective_from new \<noteq> moment,
            ValueError ''replacement baseline identity or effective time is incompatible''),
           (map_of (om_baselines s) (rbr_baseline_id new) \<noteq> None,
            ValueError ''replacement baseline identity already exists'')]) (\<lambda>_.
        validated_baseline (current\<lparr>rbr_state := risk_baseline_state.SUPERSEDED,
          rbr_effective_until := Some moment, rbr_superseded_by := Some (rbr_baseline_id new)\<rparr>)))) of
        Inl e \<Rightarrow> (Inl e, s)
      | Inr old \<Rightarrow> (Inr (), s\<lparr>om_baselines :=
          AList.update (rbr_baseline_id new) new (AList.update k old (om_baselines s))\<rparr>))"

definition om_invalidate_baseline :: "string \<Rightarrow> py_datetime \<Rightarrow> string \<Rightarrow> (observation_memory, unit) op" where
  "om_invalidate_baseline k t reason s =
     (case bind_result (subscript (om_baselines s) k) (\<lambda>current.
        if rbr_state current \<noteq> risk_baseline_state.ACTIVE
        then Inl (ValueError ''only an active baseline may be invalidated'')
        else bind_result (repository_utc t) (\<lambda>moment.
          validated_baseline (current\<lparr>rbr_state := risk_baseline_state.INVALIDATED,
            rbr_effective_until := Some moment, rbr_invalidation_reason := Some reason\<rparr>))) of
        Inl e \<Rightarrow> (Inl e, s)
      | Inr b \<Rightarrow> (Inr (), s\<lparr>om_baselines := AList.update k b (om_baselines s)\<rparr>))"

subsection \<open>Pending outcomes\<close>

definition om_append_outcome :: "pending_shadow_outcome \<Rightarrow> (observation_memory, unit) op" where
  "om_append_outcome r s =
     (if map_of (om_outcomes s) (psho_tracking_id r) \<noteq> None
      then (Inl (ValueError ''outcome tracking identity already exists''), s)
      else (Inr (), s\<lparr>om_outcomes := AList.update (psho_tracking_id r) r (om_outcomes s)\<rparr>))"

definition om_update_outcome :: "pending_shadow_outcome \<Rightarrow> (observation_memory, unit) op" where
  "om_update_outcome r s =
     (case bind_result (subscript (om_outcomes s) (psho_tracking_id r)) (\<lambda>current. run_guards
        [(psho_state current \<noteq> outcome_tracking_state.PENDING \<or> psho_state r = outcome_tracking_state.PENDING,
          ValueError ''outcome tracking permits exactly one terminal transition''),
         (psho_decision_record_id current \<noteq> psho_decision_record_id r \<or>
          psho_decision_record_digest current \<noteq> psho_decision_record_digest r \<or>
          psho_shadow_intent current \<noteq> psho_shadow_intent r,
          ValueError ''terminal outcome cannot alter its frozen decision'')]) of
        Inl e \<Rightarrow> (Inl e, s)
      | Inr _ \<Rightarrow> (Inr (), s\<lparr>om_outcomes := AList.update (psho_tracking_id r) r (om_outcomes s)\<rparr>))"

definition om_get_outcome :: "observation_memory \<Rightarrow> string \<Rightarrow> pending_shadow_outcome option" where
  "om_get_outcome s k = map_of (om_outcomes s) k"

definition om_pending_outcomes :: "observation_memory \<Rightarrow> pending_shadow_outcome list" where
  "om_pending_outcomes s = filter (\<lambda>r. psho_state r = outcome_tracking_state.PENDING) (map snd (om_outcomes s))"

end
