(* ===== verification/SqlFile.thy ===== *)
theory SqlFile
  imports Effects
begin

text \<open>
  A store that keeps its records in memory and on SQLite, the way the repositories under \<open>storage/\<close> do: an
  operation changes the memory, writes, and undoes the change when the write raises. A connection sees its
  own uncommitted writes; the file holds the committed tables, and a process that opens it again loads
  those. \<open>fl_faults\<close> says which of the coming statements and commits fail in the driver;
  \<open>with connection\<close> commits its body and rolls it back when the body or the commit raises.
\<close>

section \<open>Dicts of records\<close>

lemma dict_delete_update: "map_of d k = None \<Longrightarrow> AList.delete k (AList.update k v d) = d"
  by (induction d) (auto split: if_splits simp: AList.delete_idem map_of_eq_None_iff)

lemma dict_update_back:
  "map_of d k = Some v \<Longrightarrow> AList.update k v (AList.update k w d) = d"
  by (induction d) (auto split: if_splits)

lemma dict_update_present:
  "distinct (map fst d) \<Longrightarrow> map_of d k \<noteq> None \<Longrightarrow>
     AList.update k v d = map (\<lambda>(k', v'). if k' = k then (k', v) else (k', v')) d"
  by (induction d) (auto split: if_splits intro!: map_idI [symmetric] simp: image_iff)

lemma set_map_filter: "set (List.map_filter f xs) = {y. \<exists>x \<in> set xs. f x = Some y}"
  by (induction xs) (auto simp: List.map_filter_simps split: option.splits)

text \<open>A dict filled record by record under the key of each record.\<close>

definition keyed :: "('r \<Rightarrow> 'k) \<Rightarrow> ('r \<Rightarrow> bool) \<Rightarrow> ('k, 'r) dict \<Rightarrow> bool" where
  "keyed key ok d \<longleftrightarrow> distinct (map fst d) \<and> (\<forall>(k, r) \<in> set d. key r = k \<and> ok r)"

lemma keyed_empty [simp]: "keyed key ok []"
  by (simp add: keyed_def)

lemma keyed_update: "keyed key ok d \<Longrightarrow> key r = k \<Longrightarrow> ok r \<Longrightarrow> keyed key ok (AList.update k r d)"
  by (auto simp: keyed_def set_dict_update)

lemma keyed_lookup: "keyed key ok d \<Longrightarrow> map_of d k = Some r \<Longrightarrow> key r = k \<and> ok r"
  by (auto simp: keyed_def dest: map_of_SomeD)

lemma keyed_rows: "keyed key ok d \<Longrightarrow> map (\<lambda>r. (key r, r)) (map snd d) = d"
  by (force simp: keyed_def intro: map_idI)

text \<open>The dict of the rows, which are read in their order.\<close>

definition fill :: "('r \<Rightarrow> 'k) \<Rightarrow> 'r list \<Rightarrow> ('k, 'r) dict" where
  "fill key rows = fold (\<lambda>r. AList.update (key r) r) rows []"

lemma fold_update_fresh:
  "distinct (map key rs) \<Longrightarrow> (\<forall>r \<in> set rs. key r \<notin> fst ` set d) \<Longrightarrow>
     fold (\<lambda>r. AList.update (key r) r) rs d = d @ map (\<lambda>r. (key r, r)) rs"
proof (induction rs arbitrary: d)
  case (Cons r rs)
  then have "AList.update (key r) r d = d @ [(key r, r)]"
    by (intro dict_update_fresh) (simp add: map_of_eq_None_iff)
  moreover have "fold (\<lambda>r. AList.update (key r) r) rs (d @ [(key r, r)]) =
      (d @ [(key r, r)]) @ map (\<lambda>r. (key r, r)) rs"
    using Cons.prems by (intro Cons.IH) (auto simp: image_iff)
  ultimately show ?case by simp
qed simp

lemma fill_keyed: "keyed key ok d \<Longrightarrow> fill key (map snd d) = d"
proof -
  assume k: "keyed key ok d"
  then have "map key (map snd d) = map fst d" by (auto simp: keyed_def)
  with k have "distinct (map key (map snd d))" by (simp only: keyed_def)
  from fold_update_fresh [of key "map snd d" "[]", OF this] show ?thesis
    unfolding fill_def by (simp only: keyed_rows [OF k] append_Nil) simp
qed

lemma keyed_values_ok: "keyed key ok d \<Longrightarrow> list_all ok (map snd d)"
  by (auto simp: keyed_def list_all_iff)

section \<open>The driver\<close>

record ('m, 't) sql_file =
  fl_memory :: 'm
  fl_disk :: 't
  fl_view :: 't
  fl_faults :: "bool list"

definition next_fault :: "('m, 't) sql_file \<Rightarrow> bool \<times> ('m, 't) sql_file" where
  "next_fault s = (case fl_faults s of [] \<Rightarrow> (False, s) | b # bs \<Rightarrow> (b, s\<lparr>fl_faults := bs\<rparr>))"

definition sql_execute :: "('t \<Rightarrow> 't fallible) \<Rightarrow> (('m, 't) sql_file, unit) op" where
  "sql_execute f s = (case next_fault s of (fault, s) \<Rightarrow>
     if fault then (Inl (StorageError ''statement failed''), s)
     else case f (fl_view s) of Inl e \<Rightarrow> (Inl e, s) | Inr t \<Rightarrow> (Inr (), s\<lparr>fl_view := t\<rparr>))"

definition sql_commit :: "(('m, 't) sql_file, unit) op" where
  "sql_commit s = (case next_fault s of (fault, s) \<Rightarrow>
     if fault then (Inl (StorageError ''commit failed''), s)
     else (Inr (), s\<lparr>fl_disk := fl_view s\<rparr>))"

definition sql_rollback :: "('m, 't) sql_file \<Rightarrow> ('m, 't) sql_file" where
  "sql_rollback s = s\<lparr>fl_view := fl_disk s\<rparr>"

definition with_connection :: "(('m, 't) sql_file, unit) op \<Rightarrow> (('m, 't) sql_file, unit) op" where
  "with_connection body s = (case bind_op body (\<lambda>_. sql_commit) s of
     (Inl e, s') \<Rightarrow> (Inl e, sql_rollback s')
   | (Inr x, s') \<Rightarrow> (Inr x, s'))"

definition insert_row :: "('k \<times> 'r) \<Rightarrow> ('k \<times> 'r) list \<Rightarrow> ('k \<times> 'r) list fallible" where
  "insert_row row rows = (if fst row \<in> set (map fst rows) then Inl IntegrityError else Inr (rows @ [row]))"

definition update_row :: "string \<Rightarrow> 'r \<Rightarrow> (string \<times> 'r) list \<Rightarrow> (string \<times> 'r) list" where
  "update_row k r rows = map (\<lambda>(k', r'). if k' = k then (k', r) else (k', r')) rows"

section \<open>Memory and file\<close>

definition in_memory :: "('m, 'a) op \<Rightarrow> (('m, 't) sql_file, 'a) op" where
  "in_memory m s = (case m (fl_memory s) of (r, t) \<Rightarrow> (r, s\<lparr>fl_memory := t\<rparr>))"

text \<open>\<open>try: write; except Exception: undo the in-memory change; raise\<close>\<close>

definition or_undo :: "(('m, 't) sql_file, unit) op \<Rightarrow> ('m \<Rightarrow> 'm) \<Rightarrow> (('m, 't) sql_file, unit) op" where
  "or_undo write undo = try_op write
     (\<lambda>e s. (Inl e, s\<lparr>fl_memory := undo (fl_memory s)\<rparr>)) (\<lambda>_. ret ())"

section \<open>Statements\<close>

text \<open>Statements touch the connection's view only, and raise nothing but driver errors.\<close>

definition statement :: "('t \<Rightarrow> 't \<Rightarrow> bool) \<Rightarrow> (('m, 't) sql_file, unit) op \<Rightarrow> bool" where
  "statement f body \<longleftrightarrow> (\<forall>u r u'. body u = (r, u') \<longrightarrow> fl_memory u' = fl_memory u \<and> fl_disk u' = fl_disk u \<and>
     (case r of Inl e \<Rightarrow> e \<noteq> ProcessExit | Inr _ \<Rightarrow> f (fl_view u) (fl_view u')))"

lemma next_fault_keeps:
  "next_fault s = (b, s') \<Longrightarrow> fl_memory s' = fl_memory s \<and> fl_disk s' = fl_disk s \<and> fl_view s' = fl_view s"
  by (auto simp: next_fault_def split: list.splits)

lemma statement_execute:
  assumes "\<And>t e. g t = Inl e \<Longrightarrow> e \<noteq> ProcessExit"
  shows "statement (\<lambda>t t'. g t = Inr t') (sql_execute g)"
  using assms by (auto simp: statement_def sql_execute_def dest!: next_fault_keeps split: prod.splits sum.splits if_splits)

lemma statementI:
  assumes "\<And>u r u'. body u = (r, u') \<Longrightarrow> fl_memory u' = fl_memory u \<and> fl_disk u' = fl_disk u"
    and "\<And>u e u'. body u = (Inl e, u') \<Longrightarrow> e \<noteq> ProcessExit"
    and "\<And>u u'. body u = (Inr (), u') \<Longrightarrow> f (fl_view u) (fl_view u')"
  shows "statement f body"
  unfolding statement_def
proof (intro allI impI)
  fix u r u'
  assume "body u = (r, u')"
  with assms show "fl_memory u' = fl_memory u \<and> fl_disk u' = fl_disk u \<and>
     (case r of Inl e \<Rightarrow> e \<noteq> ProcessExit | Inr _ \<Rightarrow> f (fl_view u) (fl_view u'))"
    by (cases r) simp_all
qed

lemma statementD:
  assumes "statement f body"
  shows "body u = (r, u') \<Longrightarrow> fl_memory u' = fl_memory u" "body u = (r, u') \<Longrightarrow> fl_disk u' = fl_disk u"
    "body u = (Inl e, u') \<Longrightarrow> e \<noteq> ProcessExit" "body u = (Inr (), u') \<Longrightarrow> f (fl_view u) (fl_view u')"
  using assms unfolding statement_def by fastforce+

lemma statement_weaken:
  assumes "statement f body" "\<And>t t'. f t t' \<Longrightarrow> g t t'"
  shows "statement g body"
proof (rule statementI)
  fix u r u'
  assume "body u = (r, u')"
  then show "fl_memory u' = fl_memory u \<and> fl_disk u' = fl_disk u" using statementD(1,2) [OF assms(1)] by blast
next
  fix u e u'
  assume "body u = (Inl e, u')"
  then show "e \<noteq> ProcessExit" by (rule statementD(3) [OF assms(1)])
next
  fix u u'
  assume "body u = (Inr (), u')"
  then show "g (fl_view u) (fl_view u')" by (rule assms(2) [OF statementD(4) [OF assms(1)]])
qed

lemma statement_bind:
  assumes "statement f a" "statement g b" "\<And>t u v. f t u \<Longrightarrow> g u v \<Longrightarrow> h t v"
  shows "statement h (bind_op a (\<lambda>_. b))"
proof -
  have split: "(\<exists>e. a u = (Inl e, u') \<and> r = Inl e) \<or> (\<exists>w. a u = (Inr (), w) \<and> b w = (r, u'))"
    if "bind_op a (\<lambda>_. b) u = (r, u')" for u r u'
    using that by (auto simp: bind_op_def split: prod.splits sum.splits)
  note D = statementD [OF assms(1)] statementD [OF assms(2)]
  show ?thesis
  proof (rule statementI)
    fix u r u'
    assume "bind_op a (\<lambda>_. b) u = (r, u')"
    from split [OF this] show "fl_memory u' = fl_memory u \<and> fl_disk u' = fl_disk u"
      using D by metis
  next
    fix u e u'
    assume "bind_op a (\<lambda>_. b) u = (Inl e, u')"
    from split [OF this] show "e \<noteq> ProcessExit" by (auto dest: D(3,7))
  next
    fix u u'
    assume "bind_op a (\<lambda>_. b) u = (Inr (), u')"
    from split [OF this] obtain w where "a u = (Inr (), w)" "b w = (Inr (), u')" by auto
    then show "h (fl_view u) (fl_view u')" by (rule assms(3) [OF D(4) D(8)])
  qed
qed

lemma with_connection_result:
  assumes "statement f body" "with_connection body s = (r, t)"
  shows "fl_memory t = fl_memory s \<and> (case r of
     Inl e \<Rightarrow> e \<noteq> ProcessExit \<and> fl_disk t = fl_disk s \<and> fl_view t = fl_disk s
   | Inr _ \<Rightarrow> f (fl_view s) (fl_disk t) \<and> fl_view t = fl_disk t)"
proof -
  obtain r' u where u: "body s = (r', u)" by fastforce
  have body: "fl_memory u = fl_memory s" "fl_disk u = fl_disk s"
    "case r' of Inl e \<Rightarrow> e \<noteq> ProcessExit | Inr _ \<Rightarrow> f (fl_view s) (fl_view u)"
    using assms(1) u unfolding statement_def by blast+
  obtain b v where v: "next_fault u = (b, v)" by fastforce
  have "fl_memory v = fl_memory u" "fl_disk v = fl_disk u" "fl_view v = fl_view u"
    using next_fault_keeps [OF v] by simp_all
  with body u v assms(2) show ?thesis
    by (auto simp: with_connection_def bind_op_def sql_commit_def sql_rollback_def
        split: sum.splits prod.splits if_splits)
qed

lemma insert_row_fresh [result_simps]:
  "insert_row (k, x) rows = Inr ys \<longleftrightarrow> map_of rows k = None \<and> ys = rows @ [(k, x)]"
  by (auto simp: insert_row_def map_of_eq_None_iff)

lemma insert_row_error [result_simps]: "insert_row row rows = Inl e \<Longrightarrow> e \<noteq> ProcessExit"
  by (simp add: insert_row_def split: if_splits)

section \<open>Write through\<close>

text \<open>The memory is well formed, and the file mirrors it.\<close>

definition stored :: "('m \<Rightarrow> bool) \<Rightarrow> ('m \<Rightarrow> 't \<Rightarrow> bool) \<Rightarrow> ('m, 't) sql_file \<Rightarrow> bool" where
  "stored ok mirror s \<longleftrightarrow> ok (fl_memory s) \<and> mirror (fl_memory s) (fl_disk s) \<and> mirror (fl_memory s) (fl_view s)"

text \<open>What an operation on the file does to the memory, and that it keeps the mirror.\<close>

definition wrote :: "('m \<Rightarrow> bool) \<Rightarrow> ('m \<Rightarrow> 't \<Rightarrow> bool) \<Rightarrow> ('m, 't) sql_file \<Rightarrow> ('a fallible \<times> 'm) \<Rightarrow> 'a fallible \<Rightarrow>
    ('m, 't) sql_file \<Rightarrow> bool" where
  "wrote ok mirror s mt r t \<longleftrightarrow> stored ok mirror t \<and>
     (case r of Inl e \<Rightarrow> fl_memory t = fl_memory s | Inr x \<Rightarrow> mt = (Inr x, fl_memory t))"

lemma write_back:
  assumes s: "stored ok mirror s" and ok: "ok m'" and body: "statement f body"
    and view: "\<And>t t'. mirror (fl_memory s) t \<Longrightarrow> f t t' \<Longrightarrow> mirror m' t'"
    and undo: "undo m' = fl_memory s"
    and run: "or_undo (with_connection body) undo (s\<lparr>fl_memory := m'\<rparr>) = (r, t)"
  shows "stored ok mirror t \<and> fl_memory t = (case r of Inl e \<Rightarrow> fl_memory s | Inr _ \<Rightarrow> m')"
proof -
  obtain r' u where u: "with_connection body (s\<lparr>fl_memory := m'\<rparr>) = (r', u)" by fastforce
  note result = with_connection_result [OF body u]
  have m: "fl_memory u = m'" using result by simp
  have s': "mirror (fl_memory s) (fl_disk s)" "mirror (fl_memory s) (fl_view s)" "ok (fl_memory s)"
    using s by (simp_all add: stored_def)
  show ?thesis
  proof (cases r')
    case (Inl e)
    then have "e \<noteq> ProcessExit" "fl_disk u = fl_disk s" "fl_view u = fl_disk s" using result by simp_all
    moreover have "r = Inl e" "t = u\<lparr>fl_memory := undo m'\<rparr>"
      using run u Inl \<open>e \<noteq> ProcessExit\<close> m by (simp_all add: or_undo_def try_op_def)
    ultimately show ?thesis using s' undo by (simp add: stored_def)
  next
    case (Inr x)
    then have "f (fl_view s) (fl_disk u)" "fl_view u = fl_disk u" using result by simp_all
    moreover have "r = Inr ()" "t = u"
      using run u Inr by (simp_all add: or_undo_def try_op_def ret_def)
    ultimately show ?thesis using m ok view [OF s'(2)] by (simp add: stored_def)
  qed
qed

lemma wrote_raise: "stored ok mirror s \<Longrightarrow> fl_memory t = fl_memory s \<Longrightarrow> fl_disk t = fl_disk s \<Longrightarrow>
    fl_view t = fl_view s \<Longrightarrow> wrote ok mirror s mt (Inl e) t"
  by (simp add: wrote_def stored_def)

lemma in_memory_result: "in_memory m s = (r, t) \<longleftrightarrow> (\<exists>u. m (fl_memory s) = (r, u) \<and> t = s\<lparr>fl_memory := u\<rparr>)"
  by (auto simp: in_memory_def split: prod.splits)

lemma file_memory_id [simp]: "s\<lparr>fl_memory := fl_memory s\<rparr> = s"
  by simp

text \<open>The common shape: the in-memory operation, then the write with its compensation.\<close>

lemma write_through:
  assumes s: "stored ok mirror s" and err: "\<And>e u. m (fl_memory s) = (Inl e, u) \<Longrightarrow> u = fl_memory s"
    and step: "\<And>x u. m (fl_memory s) = (Inr x, u) \<Longrightarrow> ok u \<and> undo u = fl_memory s \<and>
       (\<exists>f. statement f (body x) \<and> (\<forall>t t'. mirror (fl_memory s) t \<longrightarrow> f t t' \<longrightarrow> mirror u t'))"
    and run: "bind_op (in_memory m) (\<lambda>x. bind_op (or_undo (with_connection (body x)) undo) (\<lambda>_. ret x)) s = (r, t)"
  shows "wrote ok mirror s (m (fl_memory s)) r t"
proof (cases "m (fl_memory s)")
  case (Pair q u)
  show ?thesis
  proof (cases q)
    case (Inl e)
    with Pair err have "u = fl_memory s" by blast
    with Pair Inl run have "r = Inl e" "t = s" by (simp_all add: bind_op_def in_memory_def)
    then show ?thesis by (simp add: wrote_raise [OF s])
  next
    case (Inr x)
    from step Pair Inr obtain f where f: "ok u" "undo u = fl_memory s" "statement f (body x)"
      "\<And>t t'. mirror (fl_memory s) t \<Longrightarrow> f t t' \<Longrightarrow> mirror u t'" by blast
    obtain q' v where v: "or_undo (with_connection (body x)) undo (s\<lparr>fl_memory := u\<rparr>) = (q', v)" by fastforce
    have "stored ok mirror v \<and> fl_memory v = (case q' of Inl e \<Rightarrow> fl_memory s | Inr _ \<Rightarrow> u)"
      by (rule write_back [OF s f(1,3) _ f(2) v]) (rule f(4))
    with run Pair Inr v show ?thesis
      by (auto simp: bind_op_def in_memory_def ret_def wrote_def split: sum.splits)
  qed
qed

lemma bind_ret: "bind_op m ret = m"
  by (rule ext) (auto simp: bind_op_def ret_def split: prod.splits sum.splits)

lemma write_through_unit:
  assumes "stored ok mirror s" "\<And>e u. m (fl_memory s) = (Inl e, u) \<Longrightarrow> u = fl_memory s"
    and "\<And>u. m (fl_memory s) = (Inr (), u) \<Longrightarrow> ok u \<and> undo u = fl_memory s \<and>
       (\<exists>f. statement f body \<and> (\<forall>t t'. mirror (fl_memory s) t \<longrightarrow> f t t' \<longrightarrow> mirror u t'))"
    and "bind_op (in_memory m) (\<lambda>_. or_undo (with_connection body) undo) s = (r, t)"
  shows "wrote ok mirror s (m (fl_memory s)) r t"
  by (rule write_through [where body = "\<lambda>_. body" and undo = undo, OF assms(1,2)])
    (use assms(3,4) in \<open>auto simp: bind_ret\<close>)

end
