(* ===== verification/ObservationFile.thy ===== *)
theory ObservationFile
  imports ObservationStore SqlFile
begin

text \<open>
  The SQLite half of \<open>storage/observation.py\<close>: its tables, its statements and its operations.
\<close>

section \<open>Tables\<close>

record observation_tables =
  ot_claims :: "(string \<times> string \<times> string option \<times> decision_candle_claim) list"
  ot_decisions :: "(string \<times> continuous_decision_record) list"
  ot_baselines :: "(string \<times> risk_baseline_record) list"
  ot_outcomes :: "(string \<times> pending_shadow_outcome) list"

definition empty_observation_tables :: observation_tables where
  "empty_observation_tables = \<lparr>ot_claims = [], ot_decisions = [], ot_baselines = [], ot_outcomes = []\<rparr>"

text \<open>
  The columns of the baseline and outcome tables that repeat fields of the stored record are read by
  nothing, and are not modelled.
\<close>

type_synonym observation_file = "(observation_memory, observation_tables) sql_file"

section \<open>Statements\<close>

definition insert_claim :: "decision_candle_claim \<Rightarrow> (observation_file, unit) op" where
  "insert_claim c = sql_execute (\<lambda>t.
     if list_ex (\<lambda>(k, cycle, snap, r). k = dcc_decision_key c \<or> cycle = dcc_cycle_id c) (ot_claims t)
     then Inl IntegrityError
     else Inr (t\<lparr>ot_claims := ot_claims t @ [(dcc_decision_key c, dcc_cycle_id c, None, c)]\<rparr>))"

definition update_claim :: "decision_candle_claim \<Rightarrow> (observation_file, unit) op" where
  "update_claim c = sql_execute (\<lambda>t.
     if dcc_actual_snapshot_id c \<noteq> None \<and>
       list_ex (\<lambda>(k, cycle, snap, r). k \<noteq> dcc_decision_key c \<and> snap = dcc_actual_snapshot_id c) (ot_claims t)
     then Inl IntegrityError
     else Inr (t\<lparr>ot_claims := map (\<lambda>(k, cycle, snap, r).
       if k = dcc_decision_key c then (k, cycle, dcc_actual_snapshot_id c, c) else (k, cycle, snap, r)) (ot_claims t)\<rparr>))"

definition persist_claim :: "decision_candle_claim \<Rightarrow> (observation_file, unit) op" where
  "persist_claim c = with_connection (update_claim c)"

definition insert_decision :: "continuous_decision_record \<Rightarrow> (observation_file, unit) op" where
  "insert_decision r = sql_execute (\<lambda>t.
     bind_result (insert_row (cdr_decision_key r, r) (ot_decisions t)) (\<lambda>rows. Inr (t\<lparr>ot_decisions := rows\<rparr>)))"

definition insert_baseline :: "risk_baseline_record \<Rightarrow> bool \<Rightarrow> (observation_file, unit) op" where
  "insert_baseline b commit = bind_op (sql_execute (\<lambda>t.
     bind_result (insert_row (rbr_baseline_id b, b) (ot_baselines t)) (\<lambda>rows. Inr (t\<lparr>ot_baselines := rows\<rparr>))))
     (\<lambda>_. if commit then sql_commit else ret ())"

definition update_baseline :: "risk_baseline_record \<Rightarrow> (observation_file, unit) op" where
  "update_baseline b = sql_execute (\<lambda>t. Inr (t\<lparr>ot_baselines := update_row (rbr_baseline_id b) b (ot_baselines t)\<rparr>))"

definition insert_outcome :: "pending_shadow_outcome \<Rightarrow> (observation_file, unit) op" where
  "insert_outcome r = sql_execute (\<lambda>t.
     bind_result (insert_row (psho_tracking_id r, r) (ot_outcomes t)) (\<lambda>rows. Inr (t\<lparr>ot_outcomes := rows\<rparr>)))"

definition update_outcome_row :: "pending_shadow_outcome \<Rightarrow> (observation_file, unit) op" where
  "update_outcome_row r = sql_execute (\<lambda>t. Inr (t\<lparr>ot_outcomes := update_row (psho_tracking_id r) r (ot_outcomes t)\<rparr>))"

section \<open>Operations\<close>

definition restore_claim :: "string \<Rightarrow> decision_candle_claim \<Rightarrow> observation_memory \<Rightarrow> observation_memory" where
  "restore_claim k before m = m\<lparr>om_claims := AList.update k before (om_claims m)\<rparr>"

definition fl_discover :: "completed_decision_candle \<Rightarrow> (observation_file, decision_candle_claim) op" where
  "fl_discover c s =
     (if map_of (om_claims (fl_memory s)) (cdc_decision_key c) \<noteq> None then in_memory (om_discover c) s
      else bind_op (in_memory (om_discover c)) (\<lambda>claim.
        bind_op (or_undo (with_connection (insert_claim claim))
          (\<lambda>m. m\<lparr>om_claims := AList.delete (cdc_decision_key c) (om_claims m)\<rparr>)) (\<lambda>_. ret claim)) s)"

text \<open>
  The claim before is read, the in-memory operation run, its result written, and the claim before put
  back when that raises.
\<close>

definition persisted :: "string \<Rightarrow> (observation_memory, decision_candle_claim) op \<Rightarrow>
    (decision_candle_claim \<Rightarrow> observation_memory \<Rightarrow> observation_memory) \<Rightarrow> (observation_file, decision_candle_claim) op" where
  "persisted k m undo s = (case subscript (om_claims (fl_memory s)) k of
     Inl e \<Rightarrow> (Inl e, s)
   | Inr before \<Rightarrow> bind_op (in_memory m) (\<lambda>c.
       bind_op (or_undo (persist_claim c) (undo before)) (\<lambda>_. ret c)) s)"

definition fl_claim :: "string \<Rightarrow> py_datetime \<Rightarrow> (observation_file, decision_candle_claim) op" where
  "fl_claim k t = persisted k (om_claim k t) (restore_claim k)"

definition fl_bind_snapshot :: "string \<Rightarrow> string \<Rightarrow> py_datetime \<Rightarrow> (observation_file, decision_candle_claim) op" where
  "fl_bind_snapshot k snap t = persisted k (om_bind_snapshot k snap t) (\<lambda>before m.
     restore_claim k before (m\<lparr>om_snapshot_ids := removeAll snap (om_snapshot_ids m)\<rparr>))"

definition fl_mark_processing :: "string \<Rightarrow> py_datetime \<Rightarrow> (observation_file, decision_candle_claim) op" where
  "fl_mark_processing k t = persisted k (om_mark_processing k t) (restore_claim k)"

definition fl_mark_terminal :: "string \<Rightarrow> decision_claim_state \<Rightarrow> py_datetime \<Rightarrow>
    observation_failure_category option \<Rightarrow> string option \<Rightarrow> (observation_file, decision_candle_claim) op" where
  "fl_mark_terminal k st t category detail =
     persisted k (om_mark_terminal k st t category detail) (restore_claim k)"

definition fl_recover_incomplete :: "py_datetime \<Rightarrow> (observation_file, decision_candle_claim list) op" where
  "fl_recover_incomplete t s = recover_with (abandoning fl_mark_terminal t) (om_claims (fl_memory s)) s"

text \<open>\<open>get_claim\<close> and \<open>pending_outcomes\<close> are inherited.\<close>

definition fl_get_claim :: "observation_file \<Rightarrow> string \<Rightarrow> decision_candle_claim option" where
  "fl_get_claim s = om_get_claim (fl_memory s)"

definition fl_append_decision :: "continuous_decision_record \<Rightarrow> (observation_file, unit) op" where
  "fl_append_decision r = bind_op (in_memory (om_append_decision r)) (\<lambda>_.
     or_undo (with_connection (insert_decision r))
       (\<lambda>m. m\<lparr>om_decisions := AList.delete (cdr_decision_key r) (om_decisions m)\<rparr>))"

definition fl_append_baseline :: "risk_baseline_record \<Rightarrow> (observation_file, unit) op" where
  "fl_append_baseline b = bind_op (in_memory (om_append_baseline b)) (\<lambda>_.
     or_undo (insert_baseline b True)
       (\<lambda>m. m\<lparr>om_baselines := AList.delete (rbr_baseline_id b) (om_baselines m)\<rparr>))"

text \<open>The stored form of a baseline after the in-memory change, which the statements write.\<close>

definition with_baseline :: "string \<Rightarrow> (risk_baseline_record \<Rightarrow> (observation_file, 'a) op) \<Rightarrow> (observation_file, 'a) op" where
  "with_baseline k f s = (case subscript (om_baselines (fl_memory s)) k of
     Inl e \<Rightarrow> (Inl e, s) | Inr b \<Rightarrow> f b s)"

definition fl_supersede_baseline :: "string \<Rightarrow> risk_baseline_record \<Rightarrow> py_datetime \<Rightarrow> (observation_file, unit) op" where
  "fl_supersede_baseline k new t = with_baseline k (\<lambda>before.
     bind_op (in_memory (om_supersede_baseline k new t)) (\<lambda>_.
     or_undo (with_connection (with_baseline k (\<lambda>old.
         bind_op (update_baseline old) (\<lambda>_. insert_baseline new False))))
       (\<lambda>m. m\<lparr>om_baselines := AList.delete (rbr_baseline_id new) (AList.update k before (om_baselines m))\<rparr>)))"

definition fl_invalidate_baseline :: "string \<Rightarrow> py_datetime \<Rightarrow> string \<Rightarrow> (observation_file, unit) op" where
  "fl_invalidate_baseline k t reason = with_baseline k (\<lambda>before.
     bind_op (in_memory (om_invalidate_baseline k t reason)) (\<lambda>_.
     or_undo (with_connection (with_baseline k update_baseline))
       (\<lambda>m. m\<lparr>om_baselines := AList.update k before (om_baselines m)\<rparr>)))"

definition fl_append_outcome :: "pending_shadow_outcome \<Rightarrow> (observation_file, unit) op" where
  "fl_append_outcome r = bind_op (in_memory (om_append_outcome r)) (\<lambda>_.
     or_undo (with_connection (insert_outcome r))
       (\<lambda>m. m\<lparr>om_outcomes := AList.delete (psho_tracking_id r) (om_outcomes m)\<rparr>))"

definition fl_update_outcome :: "pending_shadow_outcome \<Rightarrow> (observation_file, unit) op" where
  "fl_update_outcome r s = (case subscript (om_outcomes (fl_memory s)) (psho_tracking_id r) of
     Inl e \<Rightarrow> (Inl e, s)
   | Inr before \<Rightarrow> bind_op (in_memory (om_update_outcome r)) (\<lambda>_.
       or_undo (with_connection (update_outcome_row r))
         (\<lambda>m. m\<lparr>om_outcomes := AList.update (psho_tracking_id r) before (om_outcomes m)\<rparr>)) s)"

section \<open>Opening a file\<close>

text \<open>Each row is validated again, and the dicts are filled in the order of the rows.\<close>

definition load_observations :: "observation_tables \<Rightarrow> observation_memory fallible" where
  "load_observations t =
     (let claims = map (snd \<circ> snd \<circ> snd) (ot_claims t); decisions = map snd (ot_decisions t);
          baselines = map snd (ot_baselines t); outcomes = map snd (ot_outcomes t)
      in bind_result (run_guards
        [(\<not> list_all ok_decision_candle_claim claims, ValidationError ''DecisionCandleClaim''),
         (\<not> list_all ok_continuous_decision_record decisions, ValidationError ''ContinuousDecisionRecord''),
         (\<not> list_all ok_risk_baseline_record baselines, ValidationError ''RiskBaselineRecord''),
         (\<not> list_all ok_pending_shadow_outcome outcomes, ValidationError ''PendingShadowOutcome'')]) (\<lambda>_.
      Inr \<lparr>om_claims = fill dcc_decision_key claims,
        om_snapshot_ids = fold List.insert (List.map_filter dcc_actual_snapshot_id claims) [],
        om_decisions = fill cdr_decision_key decisions,
        om_baselines = fill rbr_baseline_id baselines,
        om_outcomes = fill psho_tracking_id outcomes\<rparr>))"

definition open_observations :: "observation_tables \<Rightarrow> bool list \<Rightarrow> observation_file fallible" where
  "open_observations t faults = bind_result (load_observations t) (\<lambda>m.
     Inr \<lparr>fl_memory = m, fl_disk = t, fl_view = t, fl_faults = faults\<rparr>)"

end
