(* ===== verification/Orchestration.thy ===== *)
theory Orchestration
  imports ShadowSchemas Serialization
begin

text \<open>
  \<open>agents/access.py\<close>, \<open>orchestration/identifiers.py\<close>, \<open>orchestration/preflight.py\<close>,
  \<open>orchestration/failures.py\<close>, \<open>orchestration/stages.py\<close>, \<open>orchestration/debate.py\<close> and
  \<open>orchestration/context.py\<close>: the fixed policies around a decision cycle, and the inputs the roles get.
\<close>

record agent_framework_settings =
  afs_max_debate_rounds :: int

definition fields_agent_framework_settings :: "agent_framework_settings \<Rightarrow> bool" where
  "fields_agent_framework_settings r \<longleftrightarrow>
     0 \<le> afs_max_debate_rounds r \<and>
     afs_max_debate_rounds r \<le> 3"

definition dump_agent_framework_settings :: "agent_framework_settings \<Rightarrow> pyval" where
  "dump_agent_framework_settings r = PDict [
     (''max_debate_rounds'', PInt (afs_max_debate_rounds r))]"

section \<open>Access\<close>

primrec role_information :: "agent_role \<Rightarrow> information_resource list" where
  "role_information agent_role.MARKET_CONTEXT = [information_resource.MARKET_SNAPSHOT_VIEW]"
| "role_information agent_role.TREND_ANALYST = [information_resource.MARKET_SNAPSHOT_VIEW]"
| "role_information agent_role.PRICE_ACTION_ANALYST = [information_resource.MARKET_SNAPSHOT_VIEW]"
| "role_information agent_role.ENTRY_ANALYST =
     [information_resource.MARKET_SNAPSHOT_VIEW, information_resource.UPSTREAM_AGENT_OUTPUTS]"
| "role_information agent_role.QUANT_RESEARCHER =
     [information_resource.MARKET_SNAPSHOT_VIEW, information_resource.UPSTREAM_AGENT_OUTPUTS,
      information_resource.QUANTITATIVE_EVIDENCE, information_resource.PERFORMANCE_HISTORY]"
| "role_information agent_role.SENIOR_QUANT_DEVELOPER =
     [information_resource.MARKET_SNAPSHOT_VIEW, information_resource.UPSTREAM_AGENT_OUTPUTS,
      information_resource.QUANTITATIVE_EVIDENCE, information_resource.PERFORMANCE_HISTORY]"
| "role_information agent_role.SKEPTIC =
     [information_resource.MARKET_SNAPSHOT_VIEW, information_resource.UPSTREAM_AGENT_OUTPUTS,
      information_resource.TRADE_PROPOSAL, information_resource.QUANTITATIVE_EVIDENCE]"
| "role_information agent_role.CHIEF_TRADER =
     [information_resource.MARKET_SNAPSHOT_VIEW, information_resource.UPSTREAM_AGENT_OUTPUTS,
      information_resource.TRADE_PROPOSAL, information_resource.QUANTITATIVE_EVIDENCE]"
| "role_information agent_role.PERFORMANCE_REVIEWER =
     [information_resource.UPSTREAM_AGENT_OUTPUTS, information_resource.TRADE_PROPOSAL,
      information_resource.QUANTITATIVE_EVIDENCE, information_resource.RISK_DECISION,
      information_resource.PERFORMANCE_HISTORY]"

primrec role_profiles :: "agent_role \<Rightarrow> agent_execution_profile list" where
  "role_profiles agent_role.MARKET_CONTEXT = [agent_execution_profile.REALTIME]"
| "role_profiles agent_role.TREND_ANALYST = [agent_execution_profile.REALTIME]"
| "role_profiles agent_role.PRICE_ACTION_ANALYST = [agent_execution_profile.REALTIME]"
| "role_profiles agent_role.ENTRY_ANALYST = [agent_execution_profile.REALTIME]"
| "role_profiles agent_role.QUANT_RESEARCHER =
     [agent_execution_profile.CONDITIONAL, agent_execution_profile.OFFLINE]"
| "role_profiles agent_role.SENIOR_QUANT_DEVELOPER =
     [agent_execution_profile.CONDITIONAL, agent_execution_profile.OFFLINE]"
| "role_profiles agent_role.SKEPTIC = [agent_execution_profile.REALTIME]"
| "role_profiles agent_role.CHIEF_TRADER = [agent_execution_profile.REALTIME]"
| "role_profiles agent_role.PERFORMANCE_REVIEWER = [agent_execution_profile.OFFLINE]"

definition can_access :: "agent_role \<Rightarrow> information_resource \<Rightarrow> bool" where
  "can_access role resource \<longleftrightarrow> resource \<in> set (role_information role)"

definition execution_profile_allowed :: "agent_role \<Rightarrow> agent_execution_profile \<Rightarrow> bool" where
  "execution_profile_allowed role profile \<longleftrightarrow> profile \<in> set (role_profiles role)"

section \<open>Identities\<close>

definition nul :: string where "nul = [char_of (0::nat)]"

text \<open>\<open>debate_round or 0\<close>\<close>

definition round_value :: "int option \<Rightarrow> int" where
  "round_value r = (case r of None \<Rightarrow> 0 | Some n \<Rightarrow> n)"

definition logical_invocation_id ::
  "sha \<Rightarrow> string \<Rightarrow> string \<Rightarrow> int \<Rightarrow> agent_role \<Rightarrow> int option \<Rightarrow> string" where
  "logical_invocation_id sha cycle snap stage role r =
     ''inv-m6-'' @ sha (''m6-invocation-v1'' @ nul @ cycle @ nul @ snap @ nul @ show_int stage @ nul @
       value_agent_role role @ nul @ show_int (round_value r))"

definition logical_output_id :: "sha \<Rightarrow> string \<Rightarrow> string" where
  "logical_output_id sha invocation = ''out-m6-'' @ sha invocation"

definition shadow_record_id :: "sha \<Rightarrow> string \<Rightarrow> string \<Rightarrow> string" where
  "shadow_record_id sha cycle snap = ''shadow-m6-'' @ sha (''m6-record-v1'' @ nul @ cycle @ nul @ snap)"

section \<open>Preflight\<close>

definition validate_shadow_inputs ::
  "sha \<Rightarrow> market_snapshot \<Rightarrow> account_risk_context \<Rightarrow> py_datetime \<Rightarrow> unit fallible" where
  "validate_shadow_inputs sha s c evaluated =
     (let moment = as_utc evaluated; account = ms_account s
      in run_guards (map (\<lambda>(b, m). (b, ShadowPreflightError m))
        [(is_naive evaluated, ''preflight timestamp must be timezone-aware''),
         (arc_cycle_id c \<noteq> ms_cycle_id s \<or> arc_snapshot_id c \<noteq> ms_snapshot_id s,
            ''account context does not match the snapshot trace''),
         (arc_account_ref c \<noteq> account_fingerprint sha (mai_account_id account) (mai_server account),
            ''account context does not match the snapshot account''),
         (ms_snapshot_completed_at s > moment, ''snapshot completion is later than preflight time''),
         (arc_context_as_of c > moment, ''account context is later than preflight time''),
         (arc_context_as_of c < ms_snapshot_completed_at s, ''account context predates snapshot completion''),
         (arc_trading_day_started_at c > arc_context_as_of c,
            ''trading-day context is temporally inconsistent'')]))"

section \<open>Failure policy\<close>

definition resolve_failure ::
  "agent_failure_category \<Rightarrow> agent_role option \<Rightarrow> int \<Rightarrow> failure_disposition fallible" where
  "resolve_failure category role successes =
     (if successes < 0 \<or> successes > 3
      then Inl (ValueError ''stage_one_successes must be between zero and three'')
      else Inr
       (if category \<in> {agent_failure_category.INVALID_SNAPSHOT, agent_failure_category.SCHEMA_MISMATCH,
             agent_failure_category.UNKNOWN} then failure_disposition.ABORT_CYCLE
        else if category \<in> {agent_failure_category.STALE_SNAPSHOT,
             agent_failure_category.MISSING_REQUIRED_UPSTREAM} then failure_disposition.HOLD
        else if category = agent_failure_category.INVALID_OUTPUT
        then (if role = Some agent_role.PERFORMANCE_REVIEWER then failure_disposition.CONTINUE_DEGRADED
              else failure_disposition.HOLD)
        else if category \<in> {agent_failure_category.TIMEOUT, agent_failure_category.UNAVAILABLE_AGENT}
        then (if role \<in> {Some agent_role.QUANT_RESEARCHER, Some agent_role.SENIOR_QUANT_DEVELOPER,
                  Some agent_role.PERFORMANCE_REVIEWER} then failure_disposition.CONTINUE_DEGRADED
              else if role \<in> {Some agent_role.MARKET_CONTEXT, Some agent_role.TREND_ANALYST,
                  Some agent_role.PRICE_ACTION_ANALYST} \<and> successes \<ge> 2
              then failure_disposition.CONTINUE_DEGRADED
              else failure_disposition.HOLD)
        else failure_disposition.ABORT_CYCLE))"

definition stale_snapshot_disposition :: "agent_market_view \<Rightarrow> failure_disposition option" where
  "stale_snapshot_disposition m =
     (if sfre_overall (amv_freshness m) = freshness_state.STALE then Some failure_disposition.HOLD else None)"

section \<open>Stages\<close>

definition stage_member_of :: "pipeline_component \<Rightarrow> bool \<Rightarrow> agent_execution_profile list \<Rightarrow> stage_member" where
  "stage_member_of c required profiles =
     \<lparr>sm_component = c, sm_required = required, sm_allowed_profiles = profiles\<rparr>"

definition stage_of :: "pipeline_kind \<Rightarrow> int \<Rightarrow> string \<Rightarrow> stage_member list \<Rightarrow> bool \<Rightarrow> int \<Rightarrow> stage_definition" where
  "stage_of kind number name members parallel successes =
     \<lparr>sd_pipeline = kind, sd_stage_number = number, sd_name = name, sd_members = members,
      sd_parallel = parallel, sd_minimum_successes = successes\<rparr>"

definition realtime_decision_stages :: "stage_definition list" where
  "realtime_decision_stages =
     (let st = stage_of pipeline_kind.REALTIME_DECISION; rt = [agent_execution_profile.REALTIME];
          cond = [agent_execution_profile.CONDITIONAL]
      in [st 1 ''parallel-analysis''
            [stage_member_of pipeline_component.MARKET_CONTEXT False rt,
             stage_member_of pipeline_component.TREND_ANALYST False rt,
             stage_member_of pipeline_component.PRICE_ACTION_ANALYST False rt] True 2,
          st 2 ''entry-analysis'' [stage_member_of pipeline_component.ENTRY_ANALYST True rt] False 1,
          st 3 ''conditional-quant-review''
            [stage_member_of pipeline_component.QUANT_RESEARCHER False cond,
             stage_member_of pipeline_component.SENIOR_QUANT_DEVELOPER False cond] False 0,
          st 4 ''skeptic-review'' [stage_member_of pipeline_component.SKEPTIC True rt] False 1,
          st 5 ''chief-decision'' [stage_member_of pipeline_component.CHIEF_TRADER True rt] False 1,
          st 6 ''deterministic-risk'' [stage_member_of pipeline_component.RISK_ENGINE True []] False 1])"

definition retrospective_review_stages :: "stage_definition list" where
  "retrospective_review_stages =
     [stage_of pipeline_kind.RETROSPECTIVE_REVIEW 1 ''performance-review''
       [stage_member_of pipeline_component.PERFORMANCE_REVIEWER False [agent_execution_profile.OFFLINE]] False 0]"

primrec component_dependencies :: "pipeline_component \<Rightarrow> pipeline_component list" where
  "component_dependencies pipeline_component.MARKET_CONTEXT = []"
| "component_dependencies pipeline_component.TREND_ANALYST = []"
| "component_dependencies pipeline_component.PRICE_ACTION_ANALYST = []"
| "component_dependencies pipeline_component.ENTRY_ANALYST =
     [pipeline_component.MARKET_CONTEXT, pipeline_component.TREND_ANALYST, pipeline_component.PRICE_ACTION_ANALYST]"
| "component_dependencies pipeline_component.QUANT_RESEARCHER = [pipeline_component.ENTRY_ANALYST]"
| "component_dependencies pipeline_component.SENIOR_QUANT_DEVELOPER = [pipeline_component.ENTRY_ANALYST]"
| "component_dependencies pipeline_component.SKEPTIC = [pipeline_component.ENTRY_ANALYST]"
| "component_dependencies pipeline_component.CHIEF_TRADER =
     [pipeline_component.ENTRY_ANALYST, pipeline_component.SKEPTIC]"
| "component_dependencies pipeline_component.RISK_ENGINE = [pipeline_component.CHIEF_TRADER]"
| "component_dependencies pipeline_component.PERFORMANCE_REVIEWER = []"

fun check_components :: "pipeline_component list \<Rightarrow> pipeline_component list \<Rightarrow> unit fallible" where
  "check_components seen [] = Inr ()"
| "check_components seen (c # cs) = bind_result (run_guards
     [(c \<in> set seen, ValueError ''pipeline component must appear exactly once''),
      (\<not> set (component_dependencies c) \<subseteq> set seen,
         ValueError ''component dependency must occur in an earlier stage'')])
     (\<lambda>_. check_components (c # seen) cs)"

definition validate_pipeline :: "stage_definition list \<Rightarrow> unit fallible" where
  "validate_pipeline stages = bind_result (run_guards
     [(stages = [], ValueError ''pipeline must contain at least one stage''),
      (map sd_stage_number stages \<noteq> py_range1 (length stages),
         ValueError ''pipeline stage numbers must be consecutive and ordered''),
      (length (remdups (map sd_pipeline stages)) \<noteq> 1, ValueError ''all stages must belong to one pipeline'')])
     (\<lambda>_. check_components [] (concat (map (\<lambda>s. map sm_component (sd_members s)) stages)))"

text \<open>The two pipelines are validated when the module is loaded.\<close>

lemma pipelines_valid:
  "validate_pipeline realtime_decision_stages = Inr ()" "validate_pipeline retrospective_review_stages = Inr ()"
  "list_all ok_stage_definition (realtime_decision_stages @ retrospective_review_stages)"
  by code_simp+

section \<open>Debate policy\<close>

definition can_start_round :: "int \<Rightarrow> int \<Rightarrow> bool fallible" where
  "can_start_round max_rounds completed =
     (if completed < 0 then Inl (ValueError ''completed_rounds must not be negative'')
      else Inr (completed < max_rounds))"

definition validate_challenge :: "int \<Rightarrow> debate_challenge \<Rightarrow> int \<Rightarrow> unit fallible" where
  "validate_challenge max_rounds c completed = run_guards
     [(completed < 0, ValueError ''completed_rounds must not be negative''),
      (dc_round_number c > max_rounds, ValueError ''challenge exceeds configured debate-round limit''),
      (dc_round_number c \<noteq> completed + 1,
         ValueError ''challenge round must follow the completed round monotonically'')]"

section \<open>Role inputs\<close>

text \<open>
  The three snapshot inputs are classes without fields of their own: one constructor, which carries
  the role whose class it is.
\<close>

datatype role_context =
    CtxSnapshot agent_role snapshot_agent_input
  | CtxEntry entry_analysis_input
  | CtxQuantResearch quant_research_input
  | CtxQuantDeveloper quant_developer_input
  | CtxSkeptic skeptic_input
  | CtxChief chief_trader_input

primrec ctx_trace :: "role_context \<Rightarrow> trace" where
  "ctx_trace (CtxSnapshot role x) = (sai_cycle_id x, sai_snapshot_id x)"
| "ctx_trace (CtxEntry x) = (eai_cycle_id x, eai_snapshot_id x)"
| "ctx_trace (CtxQuantResearch x) = (qri_cycle_id x, qri_snapshot_id x)"
| "ctx_trace (CtxQuantDeveloper x) = (qdi_cycle_id x, qdi_snapshot_id x)"
| "ctx_trace (CtxSkeptic x) = (si_cycle_id x, si_snapshot_id x)"
| "ctx_trace (CtxChief x) = (cti_cycle_id x, cti_snapshot_id x)"

definition require_access :: "agent_role \<Rightarrow> information_resource list \<Rightarrow> unit fallible" where
  "require_access role resources = run_guards
     [(list_ex (\<lambda>r. \<not> can_access role r) resources,
       PermissionError ''role context exceeds the M4 information-access matrix'')]"

definition market_input :: "agent_role \<Rightarrow> agent_market_view \<Rightarrow> role_context fallible" where
  "market_input role m =
     bind_result (require_access role [information_resource.MARKET_SNAPSHOT_VIEW]) (\<lambda>_.
     bind_result (build ''SnapshotAgentInput'' ok_snapshot_agent_input
       \<lparr>sai_schema_version = ''1.0.0'', sai_cycle_id = amv_cycle_id m, sai_snapshot_id = amv_snapshot_id m,
        sai_market = m\<rparr>) (\<lambda>x. Inr (CtxSnapshot role x)))"

definition market_context_input where "market_context_input m = market_input agent_role.MARKET_CONTEXT m"
definition trend_input where "trend_input m = market_input agent_role.TREND_ANALYST m"
definition price_action_input where "price_action_input m = market_input agent_role.PRICE_ACTION_ANALYST m"

definition entry_input :: "agent_market_view \<Rightarrow> stage_one_context \<Rightarrow> role_context fallible" where
  "entry_input m one =
     bind_result (require_access agent_role.ENTRY_ANALYST
       [information_resource.MARKET_SNAPSHOT_VIEW, information_resource.UPSTREAM_AGENT_OUTPUTS]) (\<lambda>_.
     bind_result (build ''EntryAnalysisInput'' ok_entry_analysis_input
       \<lparr>eai_schema_version = ''1.0.0'', eai_cycle_id = amv_cycle_id m, eai_snapshot_id = amv_snapshot_id m,
        eai_market = m, eai_stage_one = one\<rparr>) (\<lambda>x. Inr (CtxEntry x)))"

definition quant_research_input_of ::
  "agent_market_view \<Rightarrow> stage_one_context \<Rightarrow> entry_analysis_output \<Rightarrow> role_context fallible" where
  "quant_research_input_of m one entry =
     bind_result (require_access agent_role.QUANT_RESEARCHER
       [information_resource.MARKET_SNAPSHOT_VIEW, information_resource.UPSTREAM_AGENT_OUTPUTS,
        information_resource.QUANTITATIVE_EVIDENCE]) (\<lambda>_.
     bind_result (build ''QuantResearchInput'' ok_quant_research_input
       \<lparr>qri_schema_version = ''1.0.0'', qri_cycle_id = amv_cycle_id m, qri_snapshot_id = amv_snapshot_id m,
        qri_market = m, qri_stage_one = one, qri_entry = entry, qri_performance_history = None\<rparr>)
       (\<lambda>x. Inr (CtxQuantResearch x)))"

definition quant_developer_input_of ::
  "agent_market_view \<Rightarrow> stage_one_context \<Rightarrow> entry_analysis_output \<Rightarrow> quant_research_output option \<Rightarrow>
     role_context fallible" where
  "quant_developer_input_of m one entry quant =
     bind_result (require_access agent_role.SENIOR_QUANT_DEVELOPER
       [information_resource.MARKET_SNAPSHOT_VIEW, information_resource.UPSTREAM_AGENT_OUTPUTS,
        information_resource.QUANTITATIVE_EVIDENCE]) (\<lambda>_.
     bind_result (build ''QuantDeveloperInput'' ok_quant_developer_input
       \<lparr>qdi_schema_version = ''1.0.0'', qdi_cycle_id = amv_cycle_id m, qdi_snapshot_id = amv_snapshot_id m,
        qdi_market = m, qdi_stage_one = one, qdi_entry = entry, qdi_quant_research = quant,
        qdi_performance_history = None\<rparr>) (\<lambda>x. Inr (CtxQuantDeveloper x)))"

definition debate_resources :: "information_resource list" where
  "debate_resources = [information_resource.MARKET_SNAPSHOT_VIEW, information_resource.UPSTREAM_AGENT_OUTPUTS,
     information_resource.TRADE_PROPOSAL, information_resource.QUANTITATIVE_EVIDENCE]"

definition skeptic_input_of ::
  "agent_market_view \<Rightarrow> stage_one_context \<Rightarrow> entry_analysis_output \<Rightarrow> quant_research_output option \<Rightarrow>
     quant_developer_output option \<Rightarrow> chief_trader_output option \<Rightarrow> role_context fallible" where
  "skeptic_input_of m one entry quant developer draft =
     bind_result (require_access agent_role.SKEPTIC debate_resources) (\<lambda>_.
     bind_result (build ''SkepticInput'' ok_skeptic_input
       \<lparr>si_schema_version = ''1.0.0'', si_cycle_id = amv_cycle_id m, si_snapshot_id = amv_snapshot_id m,
        si_market = m, si_stage_one = one, si_entry = entry, si_quant_research = quant,
        si_quant_developer = developer, si_chief_draft = draft\<rparr>) (\<lambda>x. Inr (CtxSkeptic x)))"

definition chief_input_of ::
  "agent_market_view \<Rightarrow> stage_one_context \<Rightarrow> entry_analysis_output \<Rightarrow> quant_research_output option \<Rightarrow>
     quant_developer_output option \<Rightarrow> skeptic_output \<Rightarrow> role_context fallible" where
  "chief_input_of m one entry quant developer skeptic =
     bind_result (require_access agent_role.CHIEF_TRADER debate_resources) (\<lambda>_.
     bind_result (build ''ChiefTraderInput'' ok_chief_trader_input
       \<lparr>cti_schema_version = ''1.0.0'', cti_cycle_id = amv_cycle_id m, cti_snapshot_id = amv_snapshot_id m,
        cti_market = m, cti_stage_one = one, cti_entry = entry, cti_quant_research = quant,
        cti_quant_developer = developer, cti_skeptic = skeptic\<rparr>) (\<lambda>x. Inr (CtxChief x)))"

text \<open>The matrix grants every access the factory asks for: no role input is refused.\<close>

lemma access_granted [simp]:
  "require_access agent_role.MARKET_CONTEXT [information_resource.MARKET_SNAPSHOT_VIEW] = Inr ()"
  "require_access agent_role.TREND_ANALYST [information_resource.MARKET_SNAPSHOT_VIEW] = Inr ()"
  "require_access agent_role.PRICE_ACTION_ANALYST [information_resource.MARKET_SNAPSHOT_VIEW] = Inr ()"
  "require_access agent_role.SKEPTIC debate_resources = Inr ()"
  "require_access agent_role.CHIEF_TRADER debate_resources = Inr ()"
  by (simp_all add: require_access_def can_access_def debate_resources_def)

end
