(* ===== verification/ContinuousRuntime.thy ===== *)
theory ContinuousRuntime
  imports ObservationFile Orchestration
begin

text \<open>
  \<open>observation/identifiers.py\<close>, \<open>observation/candles.py\<close>, \<open>observation/risk_context.py\<close>,
  \<open>observation/outcomes.py\<close> and the settings of the runtime: discovery of completed candles, the account
  context of a decision, and the resolution of pending outcomes. The services of \<open>observation/protocols.py\<close> are operations on the outside world.
\<close>

record continuous_shadow_settings =
  css_enabled :: bool
  css_poll_interval_seconds :: int
  css_discovery_lookback :: int
  css_maximum_decision_age_seconds :: int
  css_maximum_pending_cycles :: int
  css_shutdown_grace_seconds :: int
  css_repository_path :: string
  css_symbol_acceptance_path :: string
  css_provider_acceptance_path :: string

definition fields_continuous_shadow_settings :: "continuous_shadow_settings \<Rightarrow> bool" where
  "fields_continuous_shadow_settings r \<longleftrightarrow>
     1 \<le> css_poll_interval_seconds r \<and>
     css_poll_interval_seconds r \<le> 60 \<and>
     1 \<le> css_discovery_lookback r \<and>
     css_discovery_lookback r \<le> 100 \<and>
     1 \<le> css_maximum_decision_age_seconds r \<and>
     css_maximum_decision_age_seconds r \<le> 900 \<and>
     css_maximum_pending_cycles r = 1 \<and>
     1 \<le> css_shutdown_grace_seconds r \<and>
     css_shutdown_grace_seconds r \<le> 300"

definition dump_continuous_shadow_settings :: "continuous_shadow_settings \<Rightarrow> pyval" where
  "dump_continuous_shadow_settings r = PDict [
     (''enabled'', PBool (css_enabled r)),
     (''poll_interval_seconds'', PInt (css_poll_interval_seconds r)),
     (''discovery_lookback'', PInt (css_discovery_lookback r)),
     (''maximum_decision_age_seconds'', PInt (css_maximum_decision_age_seconds r)),
     (''maximum_pending_cycles'', PInt (css_maximum_pending_cycles r)),
     (''shutdown_grace_seconds'', PInt (css_shutdown_grace_seconds r)),
     (''repository_path'', PStr (css_repository_path r)),
     (''symbol_acceptance_path'', PStr (css_symbol_acceptance_path r)),
     (''provider_acceptance_path'', PStr (css_provider_acceptance_path r))]"

section \<open>Identities\<close>

definition decision_key :: "sha \<Rightarrow> string \<Rightarrow> timeframe \<Rightarrow> instant \<Rightarrow> instant \<Rightarrow> string" where
  "decision_key sha sy tf opened close_at = ''decision-m9-'' @ sha (canonical_json_bytes (JObj
     [(''identity_version'', JStr ''1.0.0''), (''symbol'', JStr sy), (''timeframe'', JStr (value_timeframe tf)),
      (''candle_open_at'', JStr (canonical_timestamp opened)),
      (''candle_close_at'', JStr (canonical_timestamp close_at))]))"

definition cycle_id_for_decision :: "sha \<Rightarrow> string \<Rightarrow> string" where
  "cycle_id_for_decision sha key = ''cycle-m9-'' @ sha key"

definition decision_candle_content_digest :: "sha \<Rightarrow> mt5_candle \<Rightarrow> string" where
  "decision_candle_content_digest sha c = ''sha256:'' @ sha (canonical_json_bytes (JObj
     [(''identity_version'', JStr ''1.0.0''), (''schema_version'', JStr (mc_schema_version c)),
      (''symbol'', JStr (mc_symbol c)), (''timeframe'', JStr (value_timeframe (mc_timeframe c))),
      (''open_time'', JStr (canonical_timestamp (mc_open_time c))),
      (''open'', JStr (canonical_decimal (mc_open c))), (''high'', JStr (canonical_decimal (mc_high c))),
      (''low'', JStr (canonical_decimal (mc_low c))), (''close'', JStr (canonical_decimal (mc_close c))),
      (''tick_volume'', JInt (mc_tick_volume c)),
      (''broker_spread_points'', JInt (mc_broker_spread_points c)),
      (''real_volume'', JInt (mc_real_volume c))]))"

definition record_id_for_decision :: "sha \<Rightarrow> string \<Rightarrow> string" where
  "record_id_for_decision sha key = ''record-m9-'' @ sha key"

section \<open>Discovery\<close>

text \<open>The clock and the candle source of \<open>CompletedCandleDiscovery\<close>.\<close>

record 'w candle_discovery =
  cd_sha :: sha
  cd_get_candles :: "string \<Rightarrow> timeframe \<Rightarrow> int \<Rightarrow> bool \<Rightarrow> ('w, mt5_candle list) op"
  cd_settings :: continuous_shadow_settings
  cd_symbol :: string
  cd_clock :: "'w \<Rightarrow> py_datetime \<times> 'w"

definition invalid_candles :: "string \<Rightarrow> py_exception" where
  "invalid_candles m = ObservationRuntimeError observation_failure_category.INVALID_COMPLETED_CANDLE m"

definition discovery_now :: "'w candle_discovery \<Rightarrow> ('w, instant) op" where
  "discovery_now d w = (case cd_clock d w of (t, w') \<Rightarrow>
     (if is_naive t then Inl (invalid_candles ''discovery clock must be timezone-aware'') else Inr (as_utc t), w'))"

text \<open>The loop body; an aware \<open>open_time\<close> is what a validated candle has.\<close>

definition decision_candle :: "'w candle_discovery \<Rightarrow> instant \<Rightarrow> mt5_candle \<Rightarrow> completed_decision_candle fallible" where
  "decision_candle d observed c =
     (let close_at = mc_open_time c + timeframe_duration timeframe.M15;
          key = decision_key (cd_sha d) (cd_symbol d) timeframe.M15 (mc_open_time c) close_at
      in bind_result (run_guards
        [(mc_symbol c \<noteq> cd_symbol d \<or> mc_timeframe c \<noteq> timeframe.M15,
          invalid_candles ''completed candle does not match runtime symbol/timeframe''),
         (close_at > observed, invalid_candles ''incomplete candle entered completed-candle discovery'')]) (\<lambda>_.
      build ''CompletedDecisionCandle'' ok_completed_decision_candle
        \<lparr>cdc_schema_version = ''1.0.0'', cdc_decision_key = key,
         cdc_cycle_id = cycle_id_for_decision (cd_sha d) key, cdc_symbol = cd_symbol d,
         cdc_timeframe = timeframe.M15, cdc_candle_open_at = mc_open_time c, cdc_candle_close_at = close_at,
         cdc_candle_digest = decision_candle_content_digest (cd_sha d) c, cdc_observed_at = observed\<rparr>))"

fun map_fallible :: "('a \<Rightarrow> 'b fallible) \<Rightarrow> 'a list \<Rightarrow> 'b list fallible" where
  "map_fallible f [] = Inr []"
| "map_fallible f (x # xs) = bind_result (f x) (\<lambda>y. bind_result (map_fallible f xs) (\<lambda>ys. Inr (y # ys)))"

definition discover_candles :: "'w candle_discovery \<Rightarrow> ('w, completed_decision_candle list) op" where
  "discover_candles d = bind_op (discovery_now d) (\<lambda>observed.
     try_op (cd_get_candles d (cd_symbol d) timeframe.M15 (css_discovery_lookback (cd_settings d)) False)
       (\<lambda>_. raise_op (ObservationRuntimeError observation_failure_category.MT5_UNAVAILABLE
         ''completed-candle discovery source is unavailable''))
       (\<lambda>candles. lift_op
         (if sort_key mc_open_time candles \<noteq> candles
          then Inl (invalid_candles ''completed candles must be strictly ordered'')
          else if \<not> distinct (map mc_open_time candles)
          then Inl (invalid_candles ''completed candle timestamps must be unique'')
          else map_fallible (decision_candle d observed) candles)))"

definition is_timely :: "continuous_shadow_settings \<Rightarrow> completed_decision_candle \<Rightarrow> bool" where
  "is_timely cfg c \<longleftrightarrow>
     cdc_observed_at c - cdc_candle_close_at c \<le> seconds (css_maximum_decision_age_seconds cfg)"

section \<open>Account context\<close>

record ('r, 'w) risk_context_provider =
  rp_sha :: sha
  rp_account_info :: "('w, mt5_account_info) op"
  rp_positions :: "('w, mt5_open_position list) op"
  rp_active_baselines :: "'r \<Rightarrow> string \<Rightarrow> int \<Rightarrow> py_datetime \<Rightarrow> risk_baseline_record list fallible"
  rp_clock :: "'w \<Rightarrow> py_datetime \<times> 'w"

definition risk_context_now :: "('r, 'w) risk_context_provider \<Rightarrow> ('w, instant) op" where
  "risk_context_now p w = (case rp_clock p w of (t, w') \<Rightarrow>
     (if is_naive t then Inl (ObservationRuntimeError observation_failure_category.RISK_CONTEXT_INVALID
        ''risk context clock must be timezone-aware'') else Inr (as_utc t), w'))"

definition join_context :: "('r, 'w) risk_context_provider \<Rightarrow> 'r \<Rightarrow> market_snapshot \<Rightarrow> mt5_account_info \<Rightarrow>
    mt5_open_position list \<Rightarrow> instant \<Rightarrow> risk_context_evidence fallible" where
  "join_context p repo s account positions as_of =
     (let sha = rp_sha p;
          ref = account_fingerprint sha (mai_account_id account) (mai_server account);
          snapshot_ref = account_fingerprint sha (mai_account_id (ms_account s)) (mai_server (ms_account s));
          outside = (\<lambda>t. t < ms_snapshot_completed_at s \<or> t > as_of)
      in bind_result (run_guards
        [(ref \<noteq> snapshot_ref, ObservationRuntimeError observation_failure_category.RISK_CONTEXT_INVALID
           ''current account observation does not match the accepted snapshot''),
         (outside (mai_retrieved_at account) \<or> list_ex (\<lambda>x. outside (mop_retrieved_at x)) positions,
           ObservationRuntimeError observation_failure_category.RISK_CONTEXT_INVALID
           ''account context source is outside its explicit temporal window'')]) (\<lambda>_.
      bind_result (rp_active_baselines p repo ref (day_number as_of) (Aware as_of)) (\<lambda>baselines.
      case baselines of
        [] \<Rightarrow> Inl (ObservationRuntimeError observation_failure_category.RISK_BASELINE_MISSING
             ''no compatible active risk baseline exists'')
      | b # others \<Rightarrow>
        if others \<noteq> [] then Inl (ObservationRuntimeError observation_failure_category.RISK_BASELINE_AMBIGUOUS
             ''multiple compatible active risk baselines exist'')
        else bind_result (build ''AccountRiskContext'' ok_account_risk_context
          \<lparr>arc_schema_version = ''1.0.0'', arc_cycle_id = ms_cycle_id s, arc_snapshot_id = ms_snapshot_id s,
           arc_account_ref = ref, arc_context_as_of = as_of,
           arc_trading_day_started_at = rbr_trading_day_started_at b,
           arc_cash_flow_adjusted_peak_equity = rbr_cash_flow_adjusted_peak_equity b,
           arc_adjusted_day_start_equity = rbr_adjusted_day_start_equity b,
           arc_account_open_position_count = int (length positions)\<rparr>) (\<lambda>context.
        bind_result (case validate_shadow_inputs sha s context (Aware as_of) of
            Inl (ShadowPreflightError m) \<Rightarrow>
              Inl (ObservationRuntimeError observation_failure_category.RISK_CONTEXT_INVALID
                ''account risk context is incompatible with the accepted snapshot'')
          | r \<Rightarrow> r) (\<lambda>_.
        build ''RiskContextEvidence'' fields_risk_context_evidence
          \<lparr>rce_baseline_id = rbr_baseline_id b,
           rce_baseline_digest = content_digest sha (dump_risk_baseline_record b),
           rce_account_observation_digest = content_digest sha (dump_mt5_account_info account),
           rce_positions_observation_digest = content_digest sha (PList (map dump_mt5_open_position positions)),
           rce_context = context\<rparr>)))))"

definition build_risk_context :: "('r, 'w) risk_context_provider \<Rightarrow> market_snapshot \<Rightarrow> 'r \<Rightarrow>
    ('w, risk_context_evidence) op" where
  "build_risk_context p s repo = bind_op (rp_account_info p) (\<lambda>account. bind_op (rp_positions p) (\<lambda>positions.
     bind_op (risk_context_now p) (\<lambda>as_of. lift_op (join_context p repo s account positions as_of))))"

section \<open>Outcomes of decisions\<close>

definition tracking_utc :: "py_datetime \<Rightarrow> instant fallible" where
  "tracking_utc t = (if is_naive t then Inl (ValueError ''outcome tracking timestamp must be timezone-aware'')
     else Inr (as_utc t))"

definition register_outcome :: "sha \<Rightarrow> (pending_shadow_outcome \<Rightarrow> ('r, unit) op) \<Rightarrow> continuous_decision_record \<Rightarrow>
    instant \<Rightarrow> outcome_horizon \<Rightarrow> segment_facts \<Rightarrow> py_datetime \<Rightarrow> ('r, pending_shadow_outcome option) op" where
  "register_outcome sha store d close_at horizon facts t =
     (case Option.bind (cdr_shadow_record d) sdr_shadow_trade_intent of
        None \<Rightarrow> ret None
      | Some intent \<Rightarrow> bind_op (lift_op (bind_result (tracking_utc t) (\<lambda>moment.
          build ''PendingShadowOutcome'' ok_pending_shadow_outcome
            \<lparr>psho_schema_version = ''1.0.0'', psho_tracking_id = ''outcome-m9-'' @ sha (cdr_record_id d),
             psho_decision_record_id = cdr_record_id d,
             psho_decision_record_digest = content_digest sha (dump_continuous_decision_record d),
             psho_shadow_intent = intent, psho_decision_candle_close_at = close_at, psho_horizon = horizon,
             psho_segment_facts = facts, psho_state = outcome_tracking_state.PENDING,
             psho_created_at = moment, psho_updated_at = moment, psho_outcome = None,
             psho_failure_category = None\<rparr>))) (\<lambda>pending.
          bind_op (store pending) (\<lambda>_. ret (Some pending))))"

definition tracking_state :: "trade_outcome_status \<Rightarrow> outcome_tracking_state" where
  "tracking_state s = (case s of
     trade_outcome_status.AMBIGUOUS_INTRABAR \<Rightarrow> outcome_tracking_state.AMBIGUOUS
   | trade_outcome_status.UNRESOLVED_HORIZON \<Rightarrow> outcome_tracking_state.UNRESOLVED_HORIZON
   | _ \<Rightarrow> outcome_tracking_state.RESOLVED)"

definition attach_outcome :: "sha \<Rightarrow> ('r \<Rightarrow> string \<Rightarrow> pending_shadow_outcome option) \<Rightarrow>
    (pending_shadow_outcome \<Rightarrow> ('r, unit) op) \<Rightarrow> string \<Rightarrow> trade_outcome \<Rightarrow> py_datetime \<Rightarrow> ('r, pending_shadow_outcome) op" where
  "attach_outcome sha get update k x t s =
     (case get s k of
        None \<Rightarrow> (Inl (ValueError ''outcome tracking record is missing or already terminal''), s)
      | Some p \<Rightarrow>
        (let intent = psho_shadow_intent p; proposal = sti_proposal intent in
         if psho_state p \<noteq> outcome_tracking_state.PENDING
         then (Inl (ValueError ''outcome tracking record is missing or already terminal''), s)
         else if to_cycle_id x \<noteq> sti_cycle_id intent \<or> to_snapshot_id x \<noteq> sti_snapshot_id intent \<or>
           to_proposal_id x \<noteq> tp_proposal_id proposal \<or>
           to_proposal_digest x \<noteq> content_digest sha (dump_trade_proposal proposal) \<or>
           to_symbol x \<noteq> tp_symbol proposal \<or> to_decision_cutoff x \<noteq> psho_decision_candle_close_at p \<or>
           to_horizon x \<noteq> psho_horizon p \<or> to_segment_facts x \<noteq> psho_segment_facts p
         then (Inl (ValueError ''M8 outcome does not match the frozen M9 decision''), s)
         else bind_op (lift_op (bind_result (tracking_utc t) (\<lambda>moment.
           build ''PendingShadowOutcome'' ok_pending_shadow_outcome
             (p\<lparr>psho_state := tracking_state (to_status x), psho_updated_at := moment, psho_outcome := Some x\<rparr>))))
           (\<lambda>p'. bind_op (update p') (\<lambda>_. ret p')) s))"

end
