(* ===== verification/ObservationRuntime.thy ===== *)
theory ObservationRuntime
  imports ContinuousRuntime
begin

text \<open>
  \<open>observation/runtime.py\<close>: the runtime over any repository and any services. \<open>rt_dispatched\<close> is not in
  the code: it records the decision keys for which \<open>run_shadow_cycle\<close> was called. While that call is
  awaited other tasks may poll or shut the runtime down; \<open>sv_meanwhile\<close> says which of the two happen.
\<close>

section \<open>Interfaces\<close>

record 'r repository_operations =
  ro_discover :: "completed_decision_candle \<Rightarrow> ('r, decision_candle_claim) op"
  ro_claim :: "string \<Rightarrow> py_datetime \<Rightarrow> ('r, decision_candle_claim) op"
  ro_bind_snapshot :: "string \<Rightarrow> string \<Rightarrow> py_datetime \<Rightarrow> ('r, decision_candle_claim) op"
  ro_mark_processing :: "string \<Rightarrow> py_datetime \<Rightarrow> ('r, decision_candle_claim) op"
  ro_mark_terminal :: "string \<Rightarrow> decision_claim_state \<Rightarrow> py_datetime \<Rightarrow> observation_failure_category option \<Rightarrow>
    string option \<Rightarrow> ('r, decision_candle_claim) op"
  ro_recover_incomplete :: "py_datetime \<Rightarrow> ('r, decision_candle_claim list) op"
  ro_append_decision :: "continuous_decision_record \<Rightarrow> ('r, unit) op"
  ro_get_claim :: "'r \<Rightarrow> string \<Rightarrow> decision_candle_claim option"
  ro_pending_outcomes :: "'r \<Rightarrow> pending_shadow_outcome list"

definition memory_operations :: "observation_memory repository_operations" where
  "memory_operations = \<lparr>ro_discover = om_discover, ro_claim = om_claim, ro_bind_snapshot = om_bind_snapshot,
     ro_mark_processing = om_mark_processing, ro_mark_terminal = om_mark_terminal,
     ro_recover_incomplete = om_recover_incomplete, ro_append_decision = om_append_decision,
     ro_get_claim = om_get_claim, ro_pending_outcomes = om_pending_outcomes\<rparr>"

definition file_operations :: "observation_file repository_operations" where
  "file_operations = \<lparr>ro_discover = fl_discover, ro_claim = fl_claim, ro_bind_snapshot = fl_bind_snapshot,
     ro_mark_processing = fl_mark_processing, ro_mark_terminal = fl_mark_terminal,
     ro_recover_incomplete = fl_recover_incomplete, ro_append_decision = fl_append_decision,
     ro_get_claim = fl_get_claim, ro_pending_outcomes = (\<lambda>s. om_pending_outcomes (fl_memory s))\<rparr>"

lemma file_operations_simps [simp]:
  "ro_discover file_operations = fl_discover" "ro_claim file_operations = fl_claim"
  "ro_bind_snapshot file_operations = fl_bind_snapshot" "ro_mark_processing file_operations = fl_mark_processing"
  "ro_mark_terminal file_operations = fl_mark_terminal"
  "ro_recover_incomplete file_operations = fl_recover_incomplete"
  "ro_append_decision file_operations = fl_append_decision" "ro_get_claim file_operations = fl_get_claim"
  by (simp_all add: file_operations_def)

lemma memory_operations_simps [simp]:
  "ro_discover memory_operations = om_discover" "ro_claim memory_operations = om_claim"
  "ro_bind_snapshot memory_operations = om_bind_snapshot" "ro_mark_processing memory_operations = om_mark_processing"
  "ro_mark_terminal memory_operations = om_mark_terminal"
  "ro_recover_incomplete memory_operations = om_recover_incomplete"
  "ro_append_decision memory_operations = om_append_decision" "ro_get_claim memory_operations = om_get_claim"
  by (simp_all add: memory_operations_def)

datatype overlapping_call = OverlappingPoll | OverlappingShutdown

text \<open>\<open>sv_text\<close> is \<open>str(exc)\<close>; a stored baseline is read through the repository the provider shares.\<close>

record ('r, 'w) runtime_services =
  sv_sha :: sha
  sv_view_digest :: view_digest
  sv_text :: "py_exception \<Rightarrow> string"
  sv_symbol :: string
  sv_account_ref :: string
  sv_adapter_version :: string
  sv_settings :: continuous_shadow_settings
  sv_poll :: "('w, completed_decision_candle list) op"
  sv_build_snapshot :: "string \<Rightarrow> string \<Rightarrow> timeframe \<Rightarrow> ('w, market_snapshot) op"
  sv_calculate :: "market_snapshot \<Rightarrow> ('w, market_feature_set) op"
  sv_build_risk :: "market_snapshot \<Rightarrow> 'r \<Rightarrow> ('w, risk_context_evidence) op"
  sv_require_eligible :: "agent_market_view \<Rightarrow> instant \<Rightarrow> ('w, unit) op"
  sv_run_shadow_cycle :: "market_snapshot \<Rightarrow> account_risk_context \<Rightarrow> agent_market_view \<Rightarrow> ('w, shadow_decision_record) op"
  sv_meanwhile :: "'w \<Rightarrow> overlapping_call list"
  sv_repository :: "'r repository_operations"
  sv_symbol_eligibility :: "string \<Rightarrow> string \<Rightarrow> string \<Rightarrow> py_datetime \<Rightarrow> symbol_timestamp_acceptance_record fallible"
  sv_snapshot_id :: "('w, string) op"
  sv_clock :: "'w \<Rightarrow> py_datetime \<times> 'w"

section \<open>State\<close>

record ('r, 'w) runtime =
  rt_state :: continuous_runtime_state
  rt_started_at :: "instant option"
  rt_last_poll_at :: "instant option"
  rt_last_candle_close_at :: "instant option"
  rt_last_completed_cycle_id :: "string option"
  rt_last_failure :: "observation_failure_category option"
  rt_missed_count :: int
  rt_processing :: bool
  rt_shutdown_requested :: bool
  rt_repository :: 'r
  rt_world :: 'w
  rt_dispatched :: "string list"

text \<open>A new runtime on a repository.\<close>

definition new_runtime :: "'r \<Rightarrow> 'w \<Rightarrow> string list \<Rightarrow> ('r, 'w) runtime" where
  "new_runtime r w dispatched = \<lparr>rt_state = continuous_runtime_state.STOPPED, rt_started_at = None,
     rt_last_poll_at = None, rt_last_candle_close_at = None, rt_last_completed_cycle_id = None,
     rt_last_failure = None, rt_missed_count = 0, rt_processing = False, rt_shutdown_requested = False,
     rt_repository = r, rt_world = w, rt_dispatched = dispatched\<rparr>"

definition on_repository :: "('r, 'a) op \<Rightarrow> (('r, 'w) runtime, 'a) op" where
  "on_repository m s = (case m (rt_repository s) of (r, t) \<Rightarrow> (r, s\<lparr>rt_repository := t\<rparr>))"

definition on_world :: "('w, 'a) op \<Rightarrow> (('r, 'w) runtime, 'a) op" where
  "on_world m s = (case m (rt_world s) of (r, t) \<Rightarrow> (r, s\<lparr>rt_world := t\<rparr>))"

definition update_op :: "('s \<Rightarrow> 's) \<Rightarrow> ('s, unit) op" where
  "update_op f s = (Inr (), f s)"

definition runtime_now :: "('r, 'w) runtime_services \<Rightarrow> (('r, 'w) runtime, instant) op" where
  "runtime_now sv s = (case sv_clock sv (rt_world s) of (t, w) \<Rightarrow>
     (if is_naive t then Inl (ValueError ''continuous runtime clock must be timezone-aware'') else Inr (as_utc t),
      s\<lparr>rt_world := w\<rparr>))"

section \<open>Starting and stopping\<close>

text \<open>What follows the block that validates the eligibility and abandons the prior claims.\<close>

definition start_outcome :: "instant \<Rightarrow> 'a fallible \<times> ('r, 'w) runtime \<Rightarrow> 'a fallible \<times> ('r, 'w) runtime" where
  "start_outcome now rt = (case fst rt of
     Inr x \<Rightarrow> (Inr x, (snd rt)\<lparr>rt_started_at := Some now, rt_shutdown_requested := False,
       rt_state := continuous_runtime_state.READY\<rparr>)
   | Inl e \<Rightarrow> (case e of
       SymbolTimestampIneligible m \<Rightarrow>
         (Inl (ObservationRuntimeError observation_failure_category.SYMBOL_TIMESTAMP_INELIGIBLE m),
          (snd rt)\<lparr>rt_state := continuous_runtime_state.FAULTED,
            rt_last_failure := Some observation_failure_category.SYMBOL_TIMESTAMP_INELIGIBLE\<rparr>)
     | _ \<Rightarrow> rt))"

definition start_runtime :: "('r, 'w) runtime_services \<Rightarrow> (('r, 'w) runtime, decision_candle_claim list) op" where
  "start_runtime sv s =
     (if rt_state s \<noteq> continuous_runtime_state.STOPPED
      then (Inl (RuntimeError ''continuous runtime may only start from STOPPED''), s)
      else bind_op (update_op (\<lambda>s. s\<lparr>rt_state := continuous_runtime_state.STARTING\<rparr>)) (\<lambda>_.
        bind_op (runtime_now sv) (\<lambda>now s. start_outcome now
          (bind_op (lift_op (sv_symbol_eligibility sv (sv_symbol sv) (sv_account_ref sv) (sv_adapter_version sv) (Aware now)))
            (\<lambda>_. on_repository (ro_recover_incomplete (sv_repository sv) (Aware now))) s))) s)"

definition shutdown_runtime :: "('r, 'w) runtime \<Rightarrow> ('r, 'w) runtime" where
  "shutdown_runtime s =
     (if rt_state s = continuous_runtime_state.STOPPED then s
      else s\<lparr>rt_shutdown_requested := True,
        rt_state := (if \<not> rt_processing s then continuous_runtime_state.STOPPED
                     else continuous_runtime_state.STOPPING)\<rparr>)"

definition runtime_health :: "('r, 'w) runtime_services \<Rightarrow> (('r, 'w) runtime, continuous_runtime_health) op" where
  "runtime_health sv s = bind_op (runtime_now sv) (\<lambda>now. lift_op (build ''ContinuousRuntimeHealth''
     fields_continuous_runtime_health
     \<lparr>crh_schema_version = ''1.0.0'', crh_state = rt_state s, crh_symbol = sv_symbol sv,
      crh_timeframe = timeframe.M15, crh_started_at = rt_started_at s, crh_last_poll_at = rt_last_poll_at s,
      crh_last_observed_candle_close_at = rt_last_candle_close_at s,
      crh_last_completed_cycle_id = rt_last_completed_cycle_id s,
      crh_in_flight_count = (if rt_processing s then 1 else 0), crh_pending_count = 0,
      crh_missed_count = rt_missed_count s,
      crh_pending_outcome_count = int (length (ro_pending_outcomes (sv_repository sv) (rt_repository s))),
      crh_symbol_eligible = (rt_state s \<notin> {continuous_runtime_state.STOPPED, continuous_runtime_state.FAULTED}),
      crh_providers_eligible =
        (rt_last_failure s \<noteq> Some observation_failure_category.PROVIDER_CONFIGURATION_INELIGIBLE),
      crh_budget_available = None, crh_last_failure_category = rt_last_failure s, crh_updated_at = now\<rparr>)) s"

section \<open>Checks\<close>

definition validate_snapshot :: "sha \<Rightarrow> completed_decision_candle \<Rightarrow> market_snapshot \<Rightarrow> unit fallible" where
  "validate_snapshot sha c s =
     (let matches = filter (\<lambda>x. mc_open_time x = cdc_candle_open_at c \<and>
            mc_open_time x + timeframe_duration timeframe.M15 = cdc_candle_close_at c) (sc_m15 (ms_candles s))
      in run_guards
        [(ms_cycle_id s \<noteq> cdc_cycle_id c \<or> ms_symbol s \<noteq> cdc_symbol c \<or> ms_primary_timeframe s \<noteq> timeframe.M15,
          ObservationRuntimeError observation_failure_category.SNAPSHOT_INVALID
            ''accepted snapshot does not match the claimed decision trace''),
         (map (decision_candle_content_digest sha) matches \<noteq> [cdc_candle_digest c],
          ObservationRuntimeError observation_failure_category.SNAPSHOT_CANDLE_MISMATCH
            ''accepted snapshot does not contain the exact claimed decision candle'')])"

definition validate_features :: "market_snapshot \<Rightarrow> market_feature_set \<Rightarrow> unit fallible" where
  "validate_features s f = run_guards
     [(mfs_cycle_id f \<noteq> ms_cycle_id s \<or> mfs_snapshot_id f \<noteq> ms_snapshot_id s \<or> mfs_symbol f \<noteq> ms_symbol s \<or>
       mfs_primary_timeframe f \<noteq> ms_primary_timeframe s,
       ObservationRuntimeError observation_failure_category.FEATURE_TRACE_MISMATCH
         ''feature set does not match the accepted snapshot trace'')]"

section \<open>One decision\<close>

text \<open>The local variables of \<open>_process\<close>, as they are when an exception leaves the block.\<close>

record process_locals =
  pl_snapshot :: "market_snapshot option"
  pl_features :: "market_feature_set option"
  pl_view :: "agent_market_view option"
  pl_risk :: "risk_context_evidence option"

definition no_locals :: process_locals where
  "no_locals = \<lparr>pl_snapshot = None, pl_features = None, pl_view = None, pl_risk = None\<rparr>"

definition with_locals :: "('s, 'a) op \<Rightarrow> ('s \<times> process_locals, 'a) op" where
  "with_locals m sl = (case m (fst sl) of (r, t) \<Rightarrow> (r, t, snd sl))"

definition set_local :: "(process_locals \<Rightarrow> process_locals) \<Rightarrow> ('s \<times> process_locals, unit) op" where
  "set_local f = update_op (\<lambda>(s, l). (s, f l))"

text \<open>\<open>at=self._now()\<close> of a repository call.\<close>

definition repository_call :: "('r, 'w) runtime_services \<Rightarrow> (py_datetime \<Rightarrow> ('r, 'a) op) \<Rightarrow> (('r, 'w) runtime, 'a) op" where
  "repository_call sv m = bind_op (runtime_now sv) (\<lambda>now. on_repository (m (Aware now)))"

text \<open>Build the record, store it, and end the claim.\<close>

definition store_decision :: "('r, 'w) runtime_services \<Rightarrow> (instant \<Rightarrow> continuous_decision_record) \<Rightarrow>
    decision_claim_state \<Rightarrow> observation_failure_category option \<Rightarrow> string option \<Rightarrow>
    (('r, 'w) runtime, continuous_decision_record) op" where
  "store_decision sv rec st category detail = bind_op (runtime_now sv) (\<lambda>now.
     bind_op (lift_op (build ''ContinuousDecisionRecord'' ok_continuous_decision_record (rec now))) (\<lambda>r.
     bind_op (on_repository (ro_append_decision (sv_repository sv) r)) (\<lambda>_.
     bind_op (repository_call sv (\<lambda>t. ro_mark_terminal (sv_repository sv) (cdr_decision_key r) st t category detail))
       (\<lambda>_. ret r))))"

definition decision_of :: "('r, 'w) runtime_services \<Rightarrow> completed_decision_candle \<Rightarrow> instant \<Rightarrow> continuous_decision_record" where
  "decision_of sv c now = \<lparr>cdr_schema_version = ''1.0.0'',
     cdr_record_id = record_id_for_decision (sv_sha sv) (cdc_decision_key c), cdr_decision_key = cdc_decision_key c,
     cdr_cycle_id = cdc_cycle_id c, cdr_actual_snapshot_id = None, cdr_symbol = cdc_symbol c,
     cdr_timeframe = timeframe.M15, cdr_decision_candle_digest = cdc_candle_digest c,
     cdr_disposition = m9_decision_disposition.FAILED, cdr_recorded_at = now, cdr_snapshot_digest = None,
     cdr_feature_set_digest = None, cdr_agent_feature_view_digest = None, cdr_agent_market_view = None,
     cdr_risk_context_evidence = None, cdr_shadow_record = None, cdr_failure_category = None,
     cdr_sanitized_detail = None\<rparr>"

definition snapshot_digest_of :: "sha \<Rightarrow> market_snapshot \<Rightarrow> string" where
  "snapshot_digest_of sha s = content_digest sha (dump_market_snapshot s)"

definition features_digest_of :: "sha \<Rightarrow> market_feature_set \<Rightarrow> string" where
  "features_digest_of sha f = content_digest sha (dump_market_feature_set f)"

definition hold_decision :: "('r, 'w) runtime_services \<Rightarrow> completed_decision_candle \<Rightarrow> process_locals \<Rightarrow>
    observation_failure_category \<Rightarrow> string \<Rightarrow> (('r, 'w) runtime, continuous_decision_record) op" where
  "hold_decision sv c l category detail =
     bind_op (store_decision sv (\<lambda>now. (decision_of sv c now)\<lparr>
         cdr_actual_snapshot_id := map_option ms_snapshot_id (pl_snapshot l),
         cdr_disposition := m9_decision_disposition.POLICY_HOLD,
         cdr_snapshot_digest := map_option (snapshot_digest_of (sv_sha sv)) (pl_snapshot l),
         cdr_feature_set_digest := map_option (features_digest_of (sv_sha sv)) (pl_features l),
         cdr_agent_feature_view_digest := Option.bind (pl_view l) amv_agent_feature_view_digest,
         cdr_agent_market_view := pl_view l, cdr_risk_context_evidence := pl_risk l,
         cdr_failure_category := Some category, cdr_sanitized_detail := Some detail\<rparr>)
       decision_claim_state.COMPLETED None None) (\<lambda>r.
     bind_op (update_op (\<lambda>s. s\<lparr>rt_last_completed_cycle_id := Some (cdc_cycle_id c),
       rt_last_failure := Some category\<rparr>)) (\<lambda>_. ret r))"

definition record_missed :: "('r, 'w) runtime_services \<Rightarrow> observation_failure_category \<Rightarrow> completed_decision_candle \<Rightarrow>
    (('r, 'w) runtime, unit) op" where
  "record_missed sv category c =
     bind_op (on_repository (ro_discover (sv_repository sv) c)) (\<lambda>_.
     bind_op (repository_call sv (\<lambda>t. ro_mark_terminal (sv_repository sv) (cdc_decision_key c)
       decision_claim_state.MISSED t (Some category)
       (Some ''decision candle was not eligible for timely bounded processing''))) (\<lambda>_.
     update_op (\<lambda>s. s\<lparr>rt_missed_count := rt_missed_count s + 1, rt_last_failure := Some category\<rparr>)))"

definition fail_claim :: "('r, 'w) runtime_services \<Rightarrow> completed_decision_candle \<Rightarrow> process_locals \<Rightarrow>
    observation_failure_category \<Rightarrow> string \<Rightarrow> (('r, 'w) runtime, unit) op" where
  "fail_claim sv c l category detail s =
     (let bound = Option.bind (ro_get_claim (sv_repository sv) (rt_repository s) (cdc_decision_key c)) dcc_actual_snapshot_id;
          accepted = (case pl_snapshot l of None \<Rightarrow> None
            | Some x \<Rightarrow> if Some (ms_snapshot_id x) = bound then Some x else None)
      in bind_op (store_decision sv (\<lambda>now. (decision_of sv c now)\<lparr>
           cdr_actual_snapshot_id := bound,
           cdr_snapshot_digest := map_option (snapshot_digest_of (sv_sha sv)) accepted,
           cdr_feature_set_digest := (if accepted = None then None
             else map_option (features_digest_of (sv_sha sv)) (pl_features l)),
           cdr_agent_feature_view_digest := Option.bind (pl_view l) amv_agent_feature_view_digest,
           cdr_agent_market_view := (if accepted = None then None else pl_view l),
           cdr_risk_context_evidence := (if accepted = None then None else pl_risk l),
           cdr_failure_category := Some category, cdr_sanitized_detail := Some detail\<rparr>)
         decision_claim_state.FAILED (Some category) (Some detail)) (\<lambda>_.
       update_op (\<lambda>s. s\<lparr>rt_last_failure := Some category\<rparr>)) s)"

text \<open>
  The await: the key is dispatched, the cycle runs, and the calls of other tasks find the runtime
  processing, so that a poll only notes the backpressure.
\<close>

primrec overlap :: "overlapping_call \<Rightarrow> ('r, 'w) runtime \<Rightarrow> ('r, 'w) runtime" where
  "overlap OverlappingPoll s = s\<lparr>rt_last_failure := Some observation_failure_category.BACKPRESSURE\<rparr>"
| "overlap OverlappingShutdown s = shutdown_runtime s"

definition dispatch_cycle :: "('r, 'w) runtime_services \<Rightarrow> string \<Rightarrow> market_snapshot \<Rightarrow> account_risk_context \<Rightarrow>
    agent_market_view \<Rightarrow> (('r, 'w) runtime, shadow_decision_record) op" where
  "dispatch_cycle sv key snap ctx v =
     bind_op (update_op (\<lambda>s. s\<lparr>rt_dispatched := rt_dispatched s @ [key]\<rparr>)) (\<lambda>_.
     bind_op (update_op (\<lambda>s. fold overlap (sv_meanwhile sv (rt_world s)) s)) (\<lambda>_.
     on_world (sv_run_shadow_cycle sv snap ctx v)))"

definition process_body :: "('r, 'w) runtime_services \<Rightarrow> completed_decision_candle \<Rightarrow>
    (('r, 'w) runtime \<times> process_locals, continuous_decision_record) op" where
  "process_body sv c =
     bind_op (with_locals (on_world (sv_snapshot_id sv))) (\<lambda>requested.
     bind_op (with_locals (on_world (sv_build_snapshot sv (cdc_cycle_id c) requested timeframe.M15))) (\<lambda>snap.
     bind_op (set_local (\<lambda>l. l\<lparr>pl_snapshot := Some snap\<rparr>)) (\<lambda>_.
     bind_op (lift_op (validate_snapshot (sv_sha sv) c snap)) (\<lambda>_.
     bind_op (with_locals (repository_call sv (ro_bind_snapshot (sv_repository sv) (cdc_decision_key c) (ms_snapshot_id snap)))) (\<lambda>_.
     if sfre_overall (scm_freshness (ms_consistency snap)) = freshness_state.STALE
     then with_locals (hold_decision sv c (no_locals\<lparr>pl_snapshot := Some snap\<rparr>)
       observation_failure_category.STALE_SNAPSHOT ''valid snapshot is stale under continuous SHADOW policy'')
     else bind_op (\<lambda>sl. with_locals (on_world (sv_build_risk sv snap (rt_repository (fst sl)))) sl) (\<lambda>risk.
     bind_op (set_local (\<lambda>l. l\<lparr>pl_risk := Some risk\<rparr>)) (\<lambda>_.
     bind_op (with_locals (on_world (sv_calculate sv snap))) (\<lambda>features.
     bind_op (set_local (\<lambda>l. l\<lparr>pl_features := Some features\<rparr>)) (\<lambda>_.
     bind_op (lift_op (validate_features snap features)) (\<lambda>_.
     bind_op (lift_op (market_view (sv_view_digest sv) snap (Some features))) (\<lambda>v.
     bind_op (set_local (\<lambda>l. l\<lparr>pl_view := Some v\<rparr>)) (\<lambda>_.
     bind_op (with_locals (bind_op (runtime_now sv) (\<lambda>now. on_world (sv_require_eligible sv v now)))) (\<lambda>_.
     bind_op (with_locals (repository_call sv (ro_mark_processing (sv_repository sv) (cdc_decision_key c)))) (\<lambda>_.
     bind_op (with_locals (dispatch_cycle sv (cdc_decision_key c) snap (rce_context risk) v)) (\<lambda>shadow.
     bind_op (with_locals (store_decision sv (\<lambda>now. (decision_of sv c now)\<lparr>
         cdr_actual_snapshot_id := Some (ms_snapshot_id snap),
         cdr_disposition := m9_decision_disposition.SHADOW_RECORDED,
         cdr_snapshot_digest := Some (snapshot_digest_of (sv_sha sv) snap),
         cdr_feature_set_digest := Some (features_digest_of (sv_sha sv) features),
         cdr_agent_feature_view_digest := amv_agent_feature_view_digest v,
         cdr_agent_market_view := Some v, cdr_risk_context_evidence := Some risk,
         cdr_shadow_record := Some shadow\<rparr>) decision_claim_state.COMPLETED None None)) (\<lambda>r.
     bind_op (with_locals (update_op (\<lambda>s. s\<lparr>rt_last_completed_cycle_id := Some (cdc_cycle_id c),
       rt_last_failure := None\<rparr>))) (\<lambda>_. ret r)))))))))))))))))"

text \<open>The handlers, in their order; \<open>ProcessExit\<close> is no \<open>Exception\<close>.\<close>

definition process_failure :: "('r, 'w) runtime_services \<Rightarrow> completed_decision_candle \<Rightarrow> process_locals \<Rightarrow> py_exception \<Rightarrow>
    (('r, 'w) runtime, continuous_decision_record option) op" where
  "process_failure sv c l e =
     (let held = (\<lambda>l category detail. bind_op (hold_decision sv c l category detail) (\<lambda>r. ret (Some r)));
          failed = (\<lambda>category detail. bind_op (fail_claim sv c l category detail) (\<lambda>_. ret None))
      in case e of
        ProviderConfigurationIneligible m \<Rightarrow>
          held l observation_failure_category.PROVIDER_CONFIGURATION_INELIGIBLE (sv_text sv e)
      | ObservationRuntimeError category m \<Rightarrow>
          if category \<in> {observation_failure_category.RISK_BASELINE_MISSING,
            observation_failure_category.RISK_BASELINE_AMBIGUOUS, observation_failure_category.RISK_CONTEXT_INVALID}
          then held (no_locals\<lparr>pl_snapshot := pl_snapshot l\<rparr>) category (sv_text sv e)
          else failed category (sv_text sv e)
      | FeatureEngineError category m \<Rightarrow> failed observation_failure_category.FEATURE_FAILURE (sv_text sv e)
      | MarketDataError category m \<Rightarrow> failed observation_failure_category.SNAPSHOT_INVALID (sv_text sv e)
      | ProcessExit \<Rightarrow> raise_op ProcessExit
      | _ \<Rightarrow> failed observation_failure_category.PROVIDER_RUNTIME_FAILURE
          ''continuous SHADOW processing failed after preflight'')"

definition process_candle :: "('r, 'w) runtime_services \<Rightarrow> completed_decision_candle \<Rightarrow>
    (('r, 'w) runtime, continuous_decision_record option) op" where
  "process_candle sv c =
     bind_op (on_repository (ro_discover (sv_repository sv) c)) (\<lambda>_.
     bind_op (repository_call sv (ro_claim (sv_repository sv) (cdc_decision_key c))) (\<lambda>_.
     bind_op (update_op (\<lambda>s. s\<lparr>rt_state := continuous_runtime_state.PROCESSING,
       rt_last_candle_close_at := Some (cdc_candle_close_at c)\<rparr>)) (\<lambda>_ s.
     case process_body sv c (s, no_locals) of
       (Inr r, t, l) \<Rightarrow> (Inr (Some r), t)
     | (Inl e, t, l) \<Rightarrow> process_failure sv c l e t)))"

section \<open>One poll\<close>

fun for_each :: "('a \<Rightarrow> ('s, unit) op) \<Rightarrow> 'a list \<Rightarrow> ('s, unit) op" where
  "for_each f [] = ret ()"
| "for_each f (x # xs) = bind_op (f x) (\<lambda>_. for_each f xs)"

text \<open>At most the last timely candidate is processed, the others are missed.\<close>

definition poll_body :: "('r, 'w) runtime_services \<Rightarrow> (('r, 'w) runtime, continuous_decision_record list) op" where
  "poll_body sv = bind_op (on_world (sv_poll sv)) (\<lambda>candles s.
     (let eligible = filter (\<lambda>c. ro_get_claim (sv_repository sv) (rt_repository s) (cdc_decision_key c) = None) candles;
          timely = filter (is_timely (sv_settings sv)) eligible
      in bind_op (for_each (record_missed sv observation_failure_category.DECISION_TOO_OLD)
           (filter (\<lambda>c. c \<notin> set timely) eligible)) (\<lambda>_.
         case rev timely of
           [] \<Rightarrow> ret []
         | c # skipped \<Rightarrow>
             bind_op (for_each (record_missed sv observation_failure_category.BACKPRESSURE) (rev skipped)) (\<lambda>_.
             bind_op (process_candle sv c) (\<lambda>r. ret (case r of None \<Rightarrow> [] | Some x \<Rightarrow> [x])))) s))"

definition finish_poll :: "('r, 'w) runtime \<Rightarrow> ('r, 'w) runtime" where
  "finish_poll s = s\<lparr>rt_processing := False, rt_state :=
     (if rt_state s = continuous_runtime_state.FAULTED then continuous_runtime_state.FAULTED
      else if rt_shutdown_requested s then continuous_runtime_state.STOPPED
      else continuous_runtime_state.READY)\<rparr>"

text \<open>The clock is read before the \<open>try\<close>: when that raises, nothing resets the processing flag.\<close>

definition poll_once :: "('r, 'w) runtime_services \<Rightarrow> (('r, 'w) runtime, continuous_decision_record list) op" where
  "poll_once sv s =
     (if rt_processing s
      then (Inr [], s\<lparr>rt_last_failure := Some observation_failure_category.BACKPRESSURE\<rparr>)
      else if rt_state s \<noteq> continuous_runtime_state.READY
      then (Inl (RuntimeError ''continuous runtime must be READY before polling''), s)
      else bind_op (update_op (\<lambda>s. s\<lparr>rt_processing := True, rt_state := continuous_runtime_state.POLLING\<rparr>)) (\<lambda>_.
        bind_op (runtime_now sv) (\<lambda>now s.
        case poll_body sv (s\<lparr>rt_last_poll_at := Some now\<rparr>) of
          (Inl e, t) \<Rightarrow> (case e of
              ObservationRuntimeError category m \<Rightarrow> (Inr [], finish_poll (t\<lparr>rt_last_failure := Some category\<rparr>))
            | _ \<Rightarrow> (Inl e, finish_poll t))
        | (Inr rs, t) \<Rightarrow> (Inr rs, finish_poll t))) s)"

end
