(* ===== verification/ObservationTheorems.thy ===== *)
theory ObservationTheorems
  imports ObservationFile
begin

text \<open>
  What the observation repositories promise: stored records are well formed and unique, and what the
  SQLite file holds is, after any calls and any failures of the driver, what the process has in memory.
\<close>

lemma inj_on_replace:
  assumes "inj_on f S" "p \<in> S" "f q = f p" "T \<subseteq> insert q (S - {p})"
  shows "inj_on f T"
proof -
  have "f q \<notin> f ` (S - {p})" using assms(1-3) by (metis DiffE image_iff inj_onD insertI1)
  then have "inj_on f (insert q (S - {p}))"
    using assms(1) by (auto simp: inj_on_insert intro: inj_on_subset)
  then show ?thesis using assms(4) by (rule inj_on_subset)
qed

section \<open>Well-formed repositories\<close>

definition bound_ids :: "(string, decision_candle_claim) dict \<Rightarrow> string set" where
  "bound_ids d = {x. \<exists>(k, c) \<in> set d. dcc_actual_snapshot_id c = Some x}"

definition bound_once :: "(string, decision_candle_claim) dict \<Rightarrow> bool" where
  "bound_once d \<longleftrightarrow> (\<forall>k c k' c' x. (k, c) \<in> set d \<longrightarrow> (k', c') \<in> set d \<longrightarrow>
     dcc_actual_snapshot_id c = Some x \<longrightarrow> dcc_actual_snapshot_id c' = Some x \<longrightarrow> k = k')"

definition observations_ok :: "observation_memory \<Rightarrow> bool" where
  "observations_ok m \<longleftrightarrow>
     keyed dcc_decision_key ok_decision_candle_claim (om_claims m) \<and>
     inj_on (dcc_cycle_id \<circ> snd) (set (om_claims m)) \<and>
     bound_once (om_claims m) \<and>
     bound_ids (om_claims m) \<subseteq> set (om_snapshot_ids m) \<and>
     keyed cdr_decision_key ok_continuous_decision_record (om_decisions m) \<and>
     keyed rbr_baseline_id ok_risk_baseline_record (om_baselines m) \<and>
     keyed psho_tracking_id ok_pending_shadow_outcome (om_outcomes m)"

lemma empty_observations_ok: "observations_ok empty_observations"
  by (simp add: observations_ok_def empty_observations_def bound_ids_def bound_once_def)

text \<open>
  A claim update: the record keeps its key and its cycle, and the snapshot it is bound to unless it is
  bound to one nobody else has.
\<close>

definition claim_successor :: "observation_memory \<Rightarrow> string \<Rightarrow> decision_candle_claim \<Rightarrow> bool" where
  "claim_successor m k c \<longleftrightarrow> (\<exists>b. map_of (om_claims m) k = Some b \<and> ok_decision_candle_claim c \<and>
     dcc_decision_key c = k \<and> dcc_cycle_id c = dcc_cycle_id b \<and>
     (dcc_actual_snapshot_id c = dcc_actual_snapshot_id b \<or>
      (\<exists>x. dcc_actual_snapshot_id c = Some x \<and> x \<notin> bound_ids (om_claims m))))"

lemma claim_update_ok:
  assumes "observations_ok m" and "claim_successor m k c"
    and "set (om_snapshot_ids m) \<union> set_option (dcc_actual_snapshot_id c) \<subseteq> set ids"
  shows "observations_ok (m\<lparr>om_claims := AList.update k c (om_claims m), om_snapshot_ids := ids\<rparr>)"
proof -
  from assms(2) obtain b where b: "map_of (om_claims m) k = Some b" "ok_decision_candle_claim c"
    "dcc_decision_key c = k" "dcc_cycle_id c = dcc_cycle_id b"
    "dcc_actual_snapshot_id c = dcc_actual_snapshot_id b \<or>
      (\<exists>x. dcc_actual_snapshot_id c = Some x \<and> x \<notin> bound_ids (om_claims m))"
    by (auto simp: claim_successor_def)
  have parts: "bound_ids (om_claims m) \<subseteq> set (om_snapshot_ids m)"
    "keyed dcc_decision_key ok_decision_candle_claim (om_claims m)"
    "keyed cdr_decision_key ok_continuous_decision_record (om_decisions m)"
    "keyed rbr_baseline_id ok_risk_baseline_record (om_baselines m)"
    "keyed psho_tracking_id ok_pending_shadow_outcome (om_outcomes m)"
    using assms(1) unfolding observations_ok_def by blast+
  have d: "distinct (map fst (om_claims m))" using parts(2) by (simp add: keyed_def)
  have kb: "(k, b) \<in> set (om_claims m)" using b(1) by (rule map_of_SomeD)
  note s = set_dict_update [OF d]
  have inj: "inj_on (dcc_cycle_id \<circ> snd) (set (AList.update k c (om_claims m)))"
  proof (rule inj_on_replace [of _ "set (om_claims m)" "(k, b)" "(k, c)"])
    show "inj_on (dcc_cycle_id \<circ> snd) (set (om_claims m))" using assms(1) unfolding observations_ok_def by blast
    show "set (AList.update k c (om_claims m)) \<subseteq> insert (k, c) (set (om_claims m) - {(k, b)})"
      unfolding s by auto
  qed (use kb b(4) in auto)
  have sub: "bound_ids (AList.update k c (om_claims m)) \<subseteq> bound_ids (om_claims m) \<union> set_option (dcc_actual_snapshot_id c)"
    unfolding bound_ids_def s by auto
  have once: "bound_once (AList.update k c (om_claims m))"
    unfolding bound_once_def
  proof (intro allI impI)
    fix k1 c1 k2 c2 x
    assume mem: "(k1, c1) \<in> set (AList.update k c (om_claims m))" "(k2, c2) \<in> set (AList.update k c (om_claims m))"
      and x: "dcc_actual_snapshot_id c1 = Some x" "dcc_actual_snapshot_id c2 = Some x"
    have old: "k1 = k2" if "(k1, c1) \<in> set (om_claims m)" "(k2, c2) \<in> set (om_claims m)"
      "dcc_actual_snapshot_id c1 = Some x" "dcc_actual_snapshot_id c2 = Some x" for k1 c1 k2 c2
      using that assms(1) unfolding observations_ok_def bound_once_def by blast
    have new: "k1 = k" if that: "(k1, c1) \<in> set (om_claims m)" "dcc_actual_snapshot_id c1 = Some x"
      "dcc_actual_snapshot_id c = Some x" for k1 c1
    proof -
      from that(1,2) have "x \<in> bound_ids (om_claims m)" by (auto simp: bound_ids_def)
      with b(5) that(3) have "dcc_actual_snapshot_id b = Some x" by auto
      with old kb that(1,2) show ?thesis by blast
    qed
    from mem have "(k1, c1) = (k, c) \<or> (k1, c1) \<in> set (om_claims m)"
      "(k2, c2) = (k, c) \<or> (k2, c2) \<in> set (om_claims m)" by (auto simp: s)
    then show "k1 = k2"
      using x new [of k1 c1] new [of k2 c2] old [of k1 c1 k2 c2] by (elim disjE) simp_all
  qed
  from parts(1) sub assms(3) have "bound_ids (AList.update k c (om_claims m)) \<subseteq> set ids" by blast
  then show ?thesis
    by (simp add: observations_ok_def inj once parts keyed_update [OF parts(2) b(3,2)])
qed

section \<open>What an in-memory operation changes\<close>

lemma subscript_Inr [result_simps]: "subscript d k = Inr x \<longleftrightarrow> map_of d k = Some x"
  by (auto simp: subscript_def split: option.splits)

lemma require_state_Inr [result_simps]:
  "require_state k st s = Inr c \<longleftrightarrow> map_of (om_claims s) k = Some c \<and> dcc_state c = st"
  by (auto simp: require_state_def result_simps)

lemma store_claim_result:
  "store_claim k r s = (Inl e, t) \<longleftrightarrow> r = Inl e \<and> t = s"
  "store_claim k r s = (Inr c, t) \<longleftrightarrow> r = Inr c \<and> t = s\<lparr>om_claims := AList.update k c (om_claims s)\<rparr>"
  by (auto simp: store_claim_def split: sum.splits)

text \<open>
  An operation on the claim under one key: it raises and changes nothing, or stores the claim it
  returns, and its compensation leads back to the state before.
\<close>

definition claim_change :: "string \<Rightarrow> (decision_candle_claim \<Rightarrow> observation_memory \<Rightarrow> observation_memory) \<Rightarrow>
    observation_memory \<Rightarrow> decision_candle_claim \<Rightarrow> observation_memory \<Rightarrow> bool" where
  "claim_change k undo s c t \<longleftrightarrow> claim_successor s k c \<and>
     (\<exists>ids. t = s\<lparr>om_claims := AList.update k c (om_claims s), om_snapshot_ids := ids\<rparr> \<and>
        set (om_snapshot_ids s) \<union> set_option (dcc_actual_snapshot_id c) \<subseteq> set ids) \<and>
     (\<forall>b. map_of (om_claims s) k = Some b \<longrightarrow> undo b t = s)"

definition claim_op :: "string \<Rightarrow> (observation_memory, decision_candle_claim) op \<Rightarrow>
    (decision_candle_claim \<Rightarrow> observation_memory \<Rightarrow> observation_memory) \<Rightarrow> bool" where
  "claim_op k m undo \<longleftrightarrow> (\<forall>s r t. observations_ok s \<longrightarrow> m s = (r, t) \<longrightarrow>
     (case r of Inl e \<Rightarrow> t = s | Inr c \<Rightarrow> claim_change k undo s c t))"

lemma claim_opI:
  assumes "\<And>s e t. m s = (Inl e, t) \<Longrightarrow> t = s"
    and "\<And>s c t. observations_ok s \<Longrightarrow> m s = (Inr c, t) \<Longrightarrow> claim_change k undo s c t"
  shows "claim_op k m undo"
  using assms by (auto simp: claim_op_def split: sum.splits)

lemma bound_lookup: "map_of d k = Some b \<Longrightarrow> set_option (dcc_actual_snapshot_id b) \<subseteq> bound_ids d"
  unfolding bound_ids_def by (cases "dcc_actual_snapshot_id b") (auto dest!: map_of_SomeD)

lemma restoring_change:
  assumes "observations_ok s" "map_of (om_claims s) k = Some b" "ok_decision_candle_claim c"
    and "dcc_decision_key c = dcc_decision_key b" "dcc_cycle_id c = dcc_cycle_id b"
    and "dcc_actual_snapshot_id c = dcc_actual_snapshot_id b"
  shows "claim_change k (restore_claim k) s c (s\<lparr>om_claims := AList.update k c (om_claims s)\<rparr>)"
proof -
  have key: "dcc_decision_key b = k"
    using assms(1,2) by (auto simp: observations_ok_def dest: keyed_lookup)
  have "set_option (dcc_actual_snapshot_id c) \<subseteq> set (om_snapshot_ids s)"
    using bound_lookup [OF assms(2)] assms(1,6) by (auto simp: observations_ok_def)
  then show ?thesis
    using assms key unfolding claim_change_def claim_successor_def
    by (intro conjI exI [of _ b] exI [of _ "om_snapshot_ids s"])
      (auto simp: restore_claim_def dict_update_back dict_update_same)
qed

lemma om_transition_op: "claim_op k (om_transition k st st' t) (restore_claim k)"
  by (rule claim_opI)
    (auto simp: om_transition_def store_claim_result result_simps validated_claim_def intro!: restoring_change)

lemma om_claim_op: "claim_op k (om_claim k t) (restore_claim k)"
  unfolding om_claim_def by (rule om_transition_op)

lemma om_mark_processing_op: "claim_op k (om_mark_processing k t) (restore_claim k)"
  using om_transition_op [of k "decision_claim_state.CLAIMED" "decision_claim_state.PROCESSING" t]
  unfolding claim_op_def om_mark_processing_def by (auto split: sum.splits if_splits)

lemma om_mark_terminal_op: "claim_op k (om_mark_terminal k st t category detail) (restore_claim k)"
  by (rule claim_opI)
    (auto simp: om_mark_terminal_def store_claim_result result_simps validated_claim_def
      split: if_splits intro!: restoring_change)

lemma om_bind_snapshot_op:
  "claim_op k (om_bind_snapshot k snap t) (\<lambda>before m.
     restore_claim k before (m\<lparr>om_snapshot_ids := removeAll snap (om_snapshot_ids m)\<rparr>))" (is "claim_op k ?m ?undo")
proof (rule claim_opI)
  fix s c s'
  assume ok: "observations_ok s" and run: "?m s = (Inr c, s')"
  from run obtain b moment where b: "map_of (om_claims s) k = Some b" "snap \<notin> set (om_snapshot_ids s)"
    "ok_decision_candle_claim c" "c = b\<lparr>dcc_actual_snapshot_id := Some snap, dcc_updated_at := moment\<rparr>"
    "s' = s\<lparr>om_claims := AList.update k c (om_claims s), om_snapshot_ids := snap # om_snapshot_ids s\<rparr>"
    by (auto simp: om_bind_snapshot_def result_simps validated_claim_def split: sum.splits if_splits)
  have "dcc_decision_key b = k" "snap \<notin> bound_ids (om_claims s)"
    using ok b(1,2) by (auto simp: observations_ok_def dest: keyed_lookup)
  with b show "claim_change k ?undo s c s'"
    unfolding claim_change_def claim_successor_def
    by (intro conjI exI [of _ b] exI [of _ "snap # om_snapshot_ids s"])
      (auto simp: restore_claim_def dict_update_back dict_update_same)
qed (auto simp: om_bind_snapshot_def split: sum.splits)

lemma claim_change_ok: "observations_ok s \<Longrightarrow> claim_change k undo s c t \<Longrightarrow> observations_ok t"
  by (auto simp: claim_change_def intro: claim_update_ok)

section \<open>The file mirrors the memory\<close>

text \<open>
  \<open>append_baseline\<close> is the one operation that commits outside \<open>with connection\<close>: when its commit fails,
  the inserted row stays in the open transaction. The flag says whether the baselines are mirrored, too.
\<close>

definition claim_rows :: "(string, decision_candle_claim) dict \<Rightarrow>
    (string \<times> string \<times> string option \<times> decision_candle_claim) list" where
  "claim_rows d = map (\<lambda>(k, c). (k, dcc_cycle_id c, dcc_actual_snapshot_id c, c)) d"

definition mirrors :: "bool \<Rightarrow> observation_memory \<Rightarrow> observation_tables \<Rightarrow> bool" where
  "mirrors p m t \<longleftrightarrow> ot_claims t = claim_rows (om_claims m) \<and> ot_decisions t = om_decisions m \<and>
     ot_outcomes t = om_outcomes m \<and> (p \<longrightarrow> ot_baselines t = om_baselines m)"

abbreviation file_ok :: "bool \<Rightarrow> observation_file \<Rightarrow> bool" where
  "file_ok p \<equiv> stored observations_ok (mirrors p)"

abbreviation written :: "bool \<Rightarrow> observation_file \<Rightarrow> ('a fallible \<times> observation_memory) \<Rightarrow> 'a fallible \<Rightarrow> observation_file \<Rightarrow> bool" where
  "written p \<equiv> wrote observations_ok (mirrors p)"

lemmas file_ok_def = stored_def [of observations_ok "mirrors p" for p]
lemmas written_def = wrote_def [of observations_ok "mirrors p" for p]

section \<open>Every operation writes through\<close>

subsection \<open>Claims\<close>

lemma claim_rows_update:
  assumes "keyed dcc_decision_key ok d" "map_of d (dcc_decision_key c) = Some b" "dcc_cycle_id c = dcc_cycle_id b"
  shows "map (\<lambda>(k, cycle, snap, r). if k = dcc_decision_key c then (k, cycle, dcc_actual_snapshot_id c, c)
      else (k, cycle, snap, r)) (claim_rows d) = claim_rows (AList.update (dcc_decision_key c) c d)"
proof -
  have d: "distinct (map fst d)" using assms(1) by (simp add: keyed_def)
  have "x = b" if "(dcc_decision_key c, x) \<in> set d" for x
    using d that assms(2) by (metis map_of_is_SomeI option.inject)
  then show ?thesis
    using assms(2,3) by (auto simp: claim_rows_def dict_update_present [OF d])
qed

lemma persisted_written:
  assumes s: "file_ok p s" and m: "claim_op k m undo" and run: "persisted k m undo s = (r, t)"
  shows "written p s (m (fl_memory s)) r t"
proof (cases "map_of (om_claims (fl_memory s)) k")
  case None
  with run have "r = Inl (KeyError k)" "t = s" by (simp_all add: persisted_def subscript_def)
  then show ?thesis by (simp add: wrote_raise [OF s])
next
  case (Some before)
  have ok: "observations_ok (fl_memory s)" using s by (simp add: file_ok_def)
  note change = m [unfolded claim_op_def, rule_format, OF ok]
  show ?thesis
  proof (rule write_through [where body = update_claim and undo = "undo before", OF s])
    show "u = fl_memory s" if "m (fl_memory s) = (Inl e, u)" for e u
      using change [OF that] by simp
    show "observations_ok u \<and> undo before u = fl_memory s \<and> (\<exists>f. statement f (update_claim c) \<and>
       (\<forall>t t'. mirrors p (fl_memory s) t \<longrightarrow> f t t' \<longrightarrow> mirrors p u t'))"
      if "m (fl_memory s) = (Inr c, u)" for c u
    proof -
      have c: "claim_change k undo (fl_memory s) c u" using change [OF that] by simp
      then obtain ids where u: "u = fl_memory s\<lparr>om_claims := AList.update k c (om_claims (fl_memory s)), om_snapshot_ids := ids\<rparr>"
        and b: "dcc_decision_key c = k" "dcc_cycle_id c = dcc_cycle_id before"
        unfolding claim_change_def claim_successor_def using Some by auto
      have "keyed dcc_decision_key ok_decision_candle_claim (om_claims (fl_memory s))"
        using ok by (simp add: observations_ok_def)
      note rows = claim_rows_update [OF this, of c before, unfolded b, OF Some refl]
      have "statement (\<lambda>t t'. t' = t\<lparr>ot_claims := map (\<lambda>(k, cycle, snap, r).
          if k = dcc_decision_key c then (k, cycle, dcc_actual_snapshot_id c, c) else (k, cycle, snap, r)) (ot_claims t)\<rparr>)
          (update_claim c)" (is "statement ?f _")
        unfolding update_claim_def
        by (rule statement_weaken [OF statement_execute]) (auto split: if_splits)
      moreover have "mirrors p u t'" if "mirrors p (fl_memory s) t" "?f t t'" for t t'
        using that rows b by (simp add: mirrors_def u)
      moreover have "undo before u = fl_memory s" using c Some by (simp add: claim_change_def)
      ultimately show ?thesis using claim_change_ok [OF ok c] by blast
    qed
    show "bind_op (in_memory m) (\<lambda>x. bind_op (or_undo (with_connection (update_claim x)) (undo before)) (\<lambda>_. ret x)) s = (r, t)"
      using run Some by (simp add: persisted_def subscript_def persist_claim_def)
  qed
qed

lemmas claim_calls_written =
  persisted_written [OF _ om_claim_op, folded fl_claim_def]
  persisted_written [OF _ om_bind_snapshot_op, folded fl_bind_snapshot_def]
  persisted_written [OF _ om_mark_processing_op, folded fl_mark_processing_def]
  persisted_written [OF _ om_mark_terminal_op, folded fl_mark_terminal_def]

lemma discovered_change:
  assumes ok: "observations_ok s" and new: "map_of (om_claims s) (cdc_decision_key c) = None"
    and run: "om_discover c s = (Inr x, t)"
  shows "x = discovered_claim c" "t = s\<lparr>om_claims := om_claims s @ [(cdc_decision_key c, x)]\<rparr>" "observations_ok t"
proof -
  from run new have x: "x = discovered_claim c" "ok_decision_candle_claim x"
    "\<And>k y. (k, y) \<in> set (om_claims s) \<Longrightarrow> dcc_cycle_id y \<noteq> cdc_cycle_id c"
    "t = s\<lparr>om_claims := om_claims s @ [(cdc_decision_key c, x)]\<rparr>"
    by (auto simp: om_discover_def store_claim_result validated_claim_def result_simps dict_update_fresh
        list_ex_iff split: if_splits)
  show "x = discovered_claim c" "t = s\<lparr>om_claims := om_claims s @ [(cdc_decision_key c, x)]\<rparr>" by fact+
  have parts: "keyed dcc_decision_key ok_decision_candle_claim (om_claims s)"
    "inj_on (dcc_cycle_id \<circ> snd) (set (om_claims s))" "bound_once (om_claims s)"
    "bound_ids (om_claims s) \<subseteq> set (om_snapshot_ids s)"
    using ok unfolding observations_ok_def by blast+
  have cx: "dcc_decision_key x = cdc_decision_key c" "dcc_cycle_id x = cdc_cycle_id c" "dcc_actual_snapshot_id x = None"
    by (simp_all add: x(1) discovered_claim_def)
  have "keyed dcc_decision_key ok_decision_candle_claim (om_claims s @ [(cdc_decision_key c, x)])"
    using keyed_update [OF parts(1) cx(1) x(2)] by (simp add: dict_update_fresh [OF new])
  moreover have "inj_on (dcc_cycle_id \<circ> snd) (set (om_claims s @ [(cdc_decision_key c, x)]))"
    using parts(2) x(3) cx(2) by (force simp: inj_on_insert)
  moreover have "bound_once (om_claims s @ [(cdc_decision_key c, x)])"
    using parts(3) cx(3) unfolding bound_once_def by auto
  moreover have "bound_ids (om_claims s @ [(cdc_decision_key c, x)]) = bound_ids (om_claims s)"
    using cx(3) unfolding bound_ids_def by auto
  ultimately show "observations_ok t"
    using ok by (simp add: x(4) observations_ok_def)
qed

lemma discover_written:
  assumes s: "file_ok p s" and run: "fl_discover c s = (r, t)"
  shows "written p s (om_discover c (fl_memory s)) r t"
proof (cases "map_of (om_claims (fl_memory s)) (cdc_decision_key c)")
  case (Some x)
  then have same: "\<exists>q. om_discover c (fl_memory s) = (q, fl_memory s)" by (simp add: om_discover_def)
  then obtain q where q: "om_discover c (fl_memory s) = (q, fl_memory s)" by blast
  with run Some have "r = q" "t = s" by (simp_all add: fl_discover_def in_memory_def)
  with q s show ?thesis by (cases q) (simp_all add: written_def)
next
  case None
  have ok: "observations_ok (fl_memory s)" using s by (simp add: file_ok_def)
  show ?thesis
  proof (rule write_through [where body = insert_claim and
        undo = "\<lambda>m. m\<lparr>om_claims := AList.delete (cdc_decision_key c) (om_claims m)\<rparr>", OF s])
    show "u = fl_memory s" if "om_discover c (fl_memory s) = (Inl e, u)" for e u
      using that None by (auto simp: om_discover_def store_claim_result split: if_splits)
    show "observations_ok u \<and> u\<lparr>om_claims := AList.delete (cdc_decision_key c) (om_claims u)\<rparr> = fl_memory s \<and>
       (\<exists>f. statement f (insert_claim x) \<and> (\<forall>t t'. mirrors p (fl_memory s) t \<longrightarrow> f t t' \<longrightarrow> mirrors p u t'))"
      if "om_discover c (fl_memory s) = (Inr x, u)" for x u
    proof -
      note u = discovered_change [OF ok None that]
      have "statement (\<lambda>t t'. t' = t\<lparr>ot_claims := ot_claims t @ [(dcc_decision_key x, dcc_cycle_id x, None, x)]\<rparr>)
          (insert_claim x)" (is "statement ?f _")
        unfolding insert_claim_def
        by (rule statement_weaken [OF statement_execute]) (auto split: if_splits)
      moreover have "mirrors p u t'" if "mirrors p (fl_memory s) t" "?f t t'" for t t'
        using that by (simp add: mirrors_def u(1,2) claim_rows_def discovered_claim_def)
      moreover have "u\<lparr>om_claims := AList.delete (cdc_decision_key c) (om_claims u)\<rparr> = fl_memory s"
        using dict_delete_update [OF None, of x] by (simp add: u(2) dict_update_fresh [OF None])
      ultimately show ?thesis using u(3) by blast
    qed
    show "bind_op (in_memory (om_discover c)) (\<lambda>x. bind_op (or_undo (with_connection (insert_claim x))
        (\<lambda>m. m\<lparr>om_claims := AList.delete (cdc_decision_key c) (om_claims m)\<rparr>)) (\<lambda>_. ret x)) s = (r, t)"
      using run None by (simp add: fl_discover_def)
  qed
qed

subsection \<open>Recovery\<close>

lemma recover_written:
  assumes step: "\<And>k s r t. file_ok p s \<Longrightarrow> mark k s = (r, t) \<Longrightarrow> written p s (mark' k (fl_memory s)) r t"
    and s: "file_ok p s" and run: "recover_with mark items s = (r, t)"
  shows "file_ok p t \<and> (\<forall>xs. r = Inr xs \<longrightarrow> recover_with mark' items (fl_memory s) = (Inr xs, fl_memory t))"
  using s run
proof (induction items arbitrary: s r t)
  case (Cons i items)
  obtain k c where i: "i = (k, c)" by fastforce
  show ?case
  proof (cases "dcc_state c \<in> {decision_claim_state.CLAIMED, decision_claim_state.PROCESSING}")
    case True
    obtain q u where u: "mark k s = (q, u)" by fastforce
    note w = step [OF Cons.prems(1) u]
    obtain q' v where v: "recover_with mark items u = (q', v)" by fastforce
    have u': "file_ok p u" using w by (simp add: written_def)
    note IH = Cons.IH [OF u' v]
    show ?thesis
    proof (cases q)
      case (Inl e)
      with True i u Cons.prems(2) have "r = Inl e" "t = u" by (simp_all add: bind_op_def)
      with u' show ?thesis by simp
    next
      case (Inr x)
      with w have m: "mark' k (fl_memory s) = (Inr x, fl_memory u)" by (simp add: written_def)
      from True i u Inr v Cons.prems(2) have t: "t = v" "r = (case q' of Inl e \<Rightarrow> Inl e | Inr xs \<Rightarrow> Inr (x # xs))"
        by (auto simp: bind_op_def ret_def split: sum.splits)
      with IH m True i show ?thesis by (auto simp: bind_op_def ret_def split: sum.splits)
    qed
  next
    case False
    with Cons.prems(2) i have "recover_with mark items s = (r, t)" by auto
    from Cons.IH [OF Cons.prems(1) this] False i show ?thesis by auto
  qed
qed (simp add: ret_def)

lemma recover_incomplete_written:
  assumes "file_ok p s" "fl_recover_incomplete at' s = (r, t)"
  shows "file_ok p t \<and> (\<forall>xs. r = Inr xs \<longrightarrow> om_recover_incomplete at' (fl_memory s) = (Inr xs, fl_memory t))"
  unfolding om_recover_incomplete_def
  by (rule recover_written [where mark = "abandoning fl_mark_terminal at'", OF _ assms(1)])
    (use assms(2) in \<open>auto simp: abandoning_def fl_recover_incomplete_def intro: claim_calls_written(4)\<close>)

subsection \<open>Records\<close>

lemma update_row_dict:
  "distinct (map fst d) \<Longrightarrow> map_of d k \<noteq> None \<Longrightarrow> update_row k x d = AList.update k x d"
  by (simp add: update_row_def dict_update_present)

lemma insert_decision_statement:
  "statement (\<lambda>t t'. t' = t\<lparr>ot_decisions := ot_decisions t @ [(cdr_decision_key r, r)]\<rparr>) (insert_decision r)"
  unfolding insert_decision_def
  by (rule statement_weaken [OF statement_execute]) (auto simp: result_simps dest: insert_row_error)

lemma insert_baseline_statement:
  "statement (\<lambda>t t'. t' = t\<lparr>ot_baselines := ot_baselines t @ [(rbr_baseline_id b, b)]\<rparr>) (insert_baseline b False)"
proof -
  have "insert_baseline b False = sql_execute (\<lambda>t.
     bind_result (insert_row (rbr_baseline_id b, b) (ot_baselines t)) (\<lambda>rows. Inr (t\<lparr>ot_baselines := rows\<rparr>)))"
    unfolding insert_baseline_def by (simp add: bind_ret)
  then show ?thesis
    by (simp only:) (rule statement_weaken [OF statement_execute], auto simp: result_simps dest: insert_row_error)
qed

lemma update_baseline_statement:
  "statement (\<lambda>t t'. t' = t\<lparr>ot_baselines := update_row (rbr_baseline_id b) b (ot_baselines t)\<rparr>) (update_baseline b)"
  unfolding update_baseline_def
  by (rule statement_weaken [OF statement_execute]) auto

lemma insert_outcome_statement:
  "statement (\<lambda>t t'. t' = t\<lparr>ot_outcomes := ot_outcomes t @ [(psho_tracking_id r, r)]\<rparr>) (insert_outcome r)"
  unfolding insert_outcome_def
  by (rule statement_weaken [OF statement_execute]) (auto simp: result_simps dest: insert_row_error)

lemma update_outcome_statement:
  "statement (\<lambda>t t'. t' = t\<lparr>ot_outcomes := update_row (psho_tracking_id r) r (ot_outcomes t)\<rparr>) (update_outcome_row r)"
  unfolding update_outcome_row_def
  by (rule statement_weaken [OF statement_execute]) auto

lemma append_decision_written:
  assumes s: "file_ok p s" and r: "ok_continuous_decision_record d" and run: "fl_append_decision d s = (r, t)"
  shows "written p s (om_append_decision d (fl_memory s)) r t"
proof (rule write_through_unit [where undo = "\<lambda>m. m\<lparr>om_decisions := AList.delete (cdr_decision_key d) (om_decisions m)\<rparr>"
      and body = "insert_decision d", OF s])
  show "u = fl_memory s" if "om_append_decision d (fl_memory s) = (Inl e, u)" for e u
    using that by (simp add: om_append_decision_def split: if_splits)
  show "bind_op (in_memory (om_append_decision d)) (\<lambda>_. or_undo (with_connection (insert_decision d))
      (\<lambda>m. m\<lparr>om_decisions := AList.delete (cdr_decision_key d) (om_decisions m)\<rparr>)) s = (r, t)"
    using run by (simp add: fl_append_decision_def)
  fix u
  assume "om_append_decision d (fl_memory s) = (Inr (), u)"
  then have new: "map_of (om_decisions (fl_memory s)) (cdr_decision_key d) = None"
    and u: "u = fl_memory s\<lparr>om_decisions := AList.update (cdr_decision_key d) d (om_decisions (fl_memory s))\<rparr>"
    by (auto simp: om_append_decision_def split: if_splits)
  have "observations_ok u" using s r by (simp add: u file_ok_def observations_ok_def keyed_update)
  moreover have "u\<lparr>om_decisions := AList.delete (cdr_decision_key d) (om_decisions u)\<rparr> = fl_memory s"
    by (simp add: u dict_delete_update [OF new])
  moreover have "mirrors p u t'" if "mirrors p (fl_memory s) t"
    "t' = t\<lparr>ot_decisions := ot_decisions t @ [(cdr_decision_key d, d)]\<rparr>" for t t'
    using that by (simp add: mirrors_def u dict_update_fresh [OF new])
  ultimately show "observations_ok u \<and> u\<lparr>om_decisions := AList.delete (cdr_decision_key d) (om_decisions u)\<rparr> = fl_memory s \<and>
      (\<exists>f. statement f (insert_decision d) \<and> (\<forall>t t'. mirrors p (fl_memory s) t \<longrightarrow> f t t' \<longrightarrow> mirrors p u t'))"
    using insert_decision_statement by blast
qed

lemma append_outcome_written:
  assumes s: "file_ok p s" and r: "ok_pending_shadow_outcome d" and run: "fl_append_outcome d s = (r, t)"
  shows "written p s (om_append_outcome d (fl_memory s)) r t"
proof (rule write_through_unit [where undo = "\<lambda>m. m\<lparr>om_outcomes := AList.delete (psho_tracking_id d) (om_outcomes m)\<rparr>"
      and body = "insert_outcome d", OF s])
  show "u = fl_memory s" if "om_append_outcome d (fl_memory s) = (Inl e, u)" for e u
    using that by (simp add: om_append_outcome_def split: if_splits)
  show "bind_op (in_memory (om_append_outcome d)) (\<lambda>_. or_undo (with_connection (insert_outcome d))
      (\<lambda>m. m\<lparr>om_outcomes := AList.delete (psho_tracking_id d) (om_outcomes m)\<rparr>)) s = (r, t)"
    using run by (simp add: fl_append_outcome_def)
  fix u
  assume "om_append_outcome d (fl_memory s) = (Inr (), u)"
  then have new: "map_of (om_outcomes (fl_memory s)) (psho_tracking_id d) = None"
    and u: "u = fl_memory s\<lparr>om_outcomes := AList.update (psho_tracking_id d) d (om_outcomes (fl_memory s))\<rparr>"
    by (auto simp: om_append_outcome_def split: if_splits)
  have "observations_ok u" using s r by (simp add: u file_ok_def observations_ok_def keyed_update)
  moreover have "u\<lparr>om_outcomes := AList.delete (psho_tracking_id d) (om_outcomes u)\<rparr> = fl_memory s"
    by (simp add: u dict_delete_update [OF new])
  moreover have "mirrors p u t'" if "mirrors p (fl_memory s) t"
    "t' = t\<lparr>ot_outcomes := ot_outcomes t @ [(psho_tracking_id d, d)]\<rparr>" for t t'
    using that by (simp add: mirrors_def u dict_update_fresh [OF new])
  ultimately show "observations_ok u \<and> u\<lparr>om_outcomes := AList.delete (psho_tracking_id d) (om_outcomes u)\<rparr> = fl_memory s \<and>
      (\<exists>f. statement f (insert_outcome d) \<and> (\<forall>t t'. mirrors p (fl_memory s) t \<longrightarrow> f t t' \<longrightarrow> mirrors p u t'))"
    using insert_outcome_statement by blast
qed

lemma update_outcome_written:
  assumes s: "file_ok p s" and r: "ok_pending_shadow_outcome d" and run: "fl_update_outcome d s = (r, t)"
  shows "written p s (om_update_outcome d (fl_memory s)) r t"
proof (cases "map_of (om_outcomes (fl_memory s)) (psho_tracking_id d)")
  case None
  with run have "r = Inl (KeyError (psho_tracking_id d))" "t = s" by (simp_all add: fl_update_outcome_def subscript_def)
  then show ?thesis by (simp add: wrote_raise [OF s])
next
  case (Some before)
  let ?undo = "\<lambda>m. m\<lparr>om_outcomes := AList.update (psho_tracking_id d) before (om_outcomes m)\<rparr>"
  show ?thesis
  proof (rule write_through_unit [where undo = ?undo and body = "update_outcome_row d", OF s])
    show "u = fl_memory s" if "om_update_outcome d (fl_memory s) = (Inl e, u)" for e u
      using that by (simp add: om_update_outcome_def split: sum.splits)
    show "bind_op (in_memory (om_update_outcome d)) (\<lambda>_. or_undo (with_connection (update_outcome_row d)) ?undo) s = (r, t)"
      using run Some by (simp add: fl_update_outcome_def subscript_def)
    fix u
    assume "om_update_outcome d (fl_memory s) = (Inr (), u)"
    then have u: "u = fl_memory s\<lparr>om_outcomes := AList.update (psho_tracking_id d) d (om_outcomes (fl_memory s))\<rparr>"
      by (auto simp: om_update_outcome_def split: sum.splits)
    have "observations_ok u" using s r by (simp add: u file_ok_def observations_ok_def keyed_update)
    moreover have "?undo u = fl_memory s" by (simp add: u dict_update_back [OF Some] dict_update_same [OF Some])
    moreover have "distinct (map fst (om_outcomes (fl_memory s)))"
      using s by (simp add: file_ok_def observations_ok_def keyed_def)
    then have "mirrors p u t'" if "mirrors p (fl_memory s) t"
      "t' = t\<lparr>ot_outcomes := update_row (psho_tracking_id d) d (ot_outcomes t)\<rparr>" for t t'
      using that Some by (simp add: mirrors_def u update_row_dict)
    ultimately show "observations_ok u \<and> ?undo u = fl_memory s \<and>
        (\<exists>f. statement f (update_outcome_row d) \<and> (\<forall>t t'. mirrors p (fl_memory s) t \<longrightarrow> f t t' \<longrightarrow> mirrors p u t'))"
      using update_outcome_statement by blast
  qed
qed

subsection \<open>Baselines\<close>

lemma bind_op_cong: "(\<And>x u. m s = (Inr x, u) \<Longrightarrow> f x u = g x u) \<Longrightarrow> bind_op m f s = bind_op m g s"
  by (auto simp: bind_op_def split: prod.splits sum.splits)

lemma write_with_baseline:
  assumes "map_of (om_baselines (fl_memory s)) k = Some b"
  shows "or_undo (with_connection (with_baseline k f)) undo s = or_undo (with_connection (f b)) undo s"
  using assms by (simp add: or_undo_def try_op_def with_connection_def bind_op_def with_baseline_def subscript_def)

text \<open>A stored baseline is replaced by one with its identity, and others may be appended.\<close>

definition baseline_change :: "observation_memory \<Rightarrow> string \<Rightarrow> risk_baseline_record \<Rightarrow> risk_baseline_record list \<Rightarrow>
    observation_memory \<Rightarrow> bool" where
  "baseline_change s k b new t \<longleftrightarrow> map_of (om_baselines s) k \<noteq> None \<and> rbr_baseline_id b = k \<and>
     list_all ok_risk_baseline_record (b # new) \<and> distinct (map rbr_baseline_id new) \<and>
     list_all (\<lambda>x. map_of (om_baselines s) (rbr_baseline_id x) = None) new \<and>
     t = s\<lparr>om_baselines := AList.update k b (om_baselines s) @ map (\<lambda>x. (rbr_baseline_id x, x)) new\<rparr>"

lemma baseline_change_ok:
  assumes s: "observations_ok s" and c: "baseline_change s k b new t"
  shows "observations_ok t" "mirrors p s u \<Longrightarrow> mirrors p t (u\<lparr>ot_baselines :=
    update_row k b (ot_baselines u) @ map (\<lambda>x. (rbr_baseline_id x, x)) new\<rparr>)"
proof -
  have c': "map_of (om_baselines s) k \<noteq> None" "rbr_baseline_id b = k" "\<forall>x \<in> set (b # new). ok_risk_baseline_record x"
    "distinct (map rbr_baseline_id new)" "\<forall>x \<in> set new. rbr_baseline_id x \<notin> fst ` set (om_baselines s)"
    "t = s\<lparr>om_baselines := AList.update k b (om_baselines s) @ map (\<lambda>x. (rbr_baseline_id x, x)) new\<rparr>"
    using c by (auto simp: baseline_change_def list_all_iff map_of_eq_None_iff)
  have fresh: "(rbr_baseline_id x, y) \<notin> set (om_baselines s)" if "x \<in> set new" for x y
    using c'(5) that by (metis fst_conv imageI)
  have keyed: "keyed rbr_baseline_id ok_risk_baseline_record (om_baselines s)"
    using s by (simp add: observations_ok_def)
  then have "keyed rbr_baseline_id ok_risk_baseline_record (AList.update k b (om_baselines s))"
    using c'(2,3) by (simp add: keyed_update)
  moreover have "fst ` set (AList.update k b (om_baselines s)) = fst ` set (om_baselines s)"
    using dict_update_keys [of k b "om_baselines s"] c'(1) by (metis list.set_map map_of_eq_None_iff)
  ultimately have "keyed rbr_baseline_id ok_risk_baseline_record
      (AList.update k b (om_baselines s) @ map (\<lambda>x. (rbr_baseline_id x, x)) new)"
    using c'(3-5) unfolding keyed_def map_append distinct_append set_map
    by (auto simp: comp_def fresh)
  then show "observations_ok t" using s by (simp add: c'(6) observations_ok_def)
  have "update_row k b (om_baselines s) = AList.update k b (om_baselines s)"
    using keyed c'(1) by (simp add: update_row_dict keyed_def)
  then show "mirrors p t (u\<lparr>ot_baselines := update_row k b (ot_baselines u) @ map (\<lambda>x. (rbr_baseline_id x, x)) new\<rparr>)"
    if "mirrors p s u" using that by (auto simp: mirrors_def c'(6))
qed

lemma baseline_written:
  assumes s: "file_ok p s" and before: "map_of (om_baselines (fl_memory s)) k = Some before"
    and err: "\<And>e u. m (fl_memory s) = (Inl e, u) \<Longrightarrow> u = fl_memory s"
    and step: "\<And>u. m (fl_memory s) = (Inr (), u) \<Longrightarrow> baseline_change (fl_memory s) k b new u \<and> undo u = fl_memory s"
    and body: "statement (\<lambda>t t'. t' = t\<lparr>ot_baselines := update_row k b (ot_baselines t) @
        map (\<lambda>x. (rbr_baseline_id x, x)) new\<rparr>) (f b)"
    and run: "bind_op (in_memory m) (\<lambda>_. or_undo (with_connection (with_baseline k f)) undo) s = (r, t)"
  shows "written p s (m (fl_memory s)) r t"
proof (rule write_through_unit [where undo = undo and body = "f b", OF s err])
  have ok: "observations_ok (fl_memory s)" using s by (simp add: file_ok_def)
  show "observations_ok u \<and> undo u = fl_memory s \<and>
      (\<exists>g. statement g (f b) \<and> (\<forall>t t'. mirrors p (fl_memory s) t \<longrightarrow> g t t' \<longrightarrow> mirrors p u t'))"
    if "m (fl_memory s) = (Inr (), u)" for u
    using body step [OF that] baseline_change_ok [OF ok] by blast
  have "bind_op (in_memory m) (\<lambda>_. or_undo (with_connection (f b)) undo) s =
      bind_op (in_memory m) (\<lambda>_. or_undo (with_connection (with_baseline k f)) undo) s"
  proof (rule bind_op_cong)
    fix x :: unit and v
    assume "in_memory m s = (Inr x, v)"
    then have "m (fl_memory s) = (Inr (), fl_memory v)" by (auto simp: in_memory_result)
    from step [OF this] have c: "baseline_change (fl_memory s) k b new (fl_memory v)" by blast
    then have "map_of (om_baselines (fl_memory v)) k = Some b"
      by (auto simp: baseline_change_def map_add_def split: option.splits dest!: map_of_SomeD)
    then show "or_undo (with_connection (f b)) undo v = or_undo (with_connection (with_baseline k f)) undo v"
      by (simp add: write_with_baseline)
  qed
  with run show "bind_op (in_memory m) (\<lambda>_. or_undo (with_connection (f b)) undo) s = (r, t)" by simp
qed (use assms in auto)

lemma dict_update_back_append:
  "map_of d k = Some v \<Longrightarrow> k' \<noteq> k \<Longrightarrow> AList.update k v (AList.update k w d @ [(k', x)]) = d @ [(k', x)]"
  by (induction d) (auto split: if_splits simp: dict_update_same)

lemma supersede_change:
  assumes run: "om_supersede_baseline k new t s = (Inr (), u)" and ok: "ok_risk_baseline_record new"
    and s: "observations_ok s" and before: "map_of (om_baselines s) k = Some before"
  shows "\<exists>old. baseline_change s k old [new] u \<and>
    old = before\<lparr>rbr_state := risk_baseline_state.SUPERSEDED, rbr_effective_until := Some (as_utc t),
      rbr_superseded_by := Some (rbr_baseline_id new)\<rparr> \<and>
    u\<lparr>om_baselines := AList.delete (rbr_baseline_id new) (AList.update k before (om_baselines u))\<rparr> = s"
proof -
  let ?old = "before\<lparr>rbr_state := risk_baseline_state.SUPERSEDED, rbr_effective_until := Some (as_utc t),
      rbr_superseded_by := Some (rbr_baseline_id new)\<rparr>"
  from run before have old: "ok_risk_baseline_record ?old" "map_of (om_baselines s) (rbr_baseline_id new) = None"
    and u: "u = s\<lparr>om_baselines := AList.update (rbr_baseline_id new) new (AList.update k ?old (om_baselines s))\<rparr>"
    by (auto simp: om_supersede_baseline_def result_simps guard_simps repository_utc_def validated_baseline_def
        split: sum.splits if_splits)
  have ne: "rbr_baseline_id new \<noteq> k" using before old(2) by auto
  have k: "rbr_baseline_id before = k" using s before by (auto simp: observations_ok_def dest: keyed_lookup)
  have u': "om_baselines u = AList.update k ?old (om_baselines s) @ [(rbr_baseline_id new, new)]"
    using old(2) ne by (simp add: u dict_update_fresh)
  have "AList.update k before (AList.update k ?old (om_baselines s) @ [(rbr_baseline_id new, new)]) =
      om_baselines s @ [(rbr_baseline_id new, new)]"
    by (rule dict_update_back_append [OF before ne])
  then have "AList.update k before (om_baselines u) = om_baselines s @ [(rbr_baseline_id new, new)]"
    by (simp only: u')
  then have "AList.delete (rbr_baseline_id new) (AList.update k before (om_baselines u)) = om_baselines s"
    using dict_delete_update [OF old(2), of new] by (simp add: dict_update_fresh [OF old(2)])
  then show ?thesis
    using old k ok before u' by (intro exI [of _ ?old]) (simp add: baseline_change_def u)
qed

lemma supersede_written:
  assumes s: "file_ok p s" and ok: "ok_risk_baseline_record new" and run: "fl_supersede_baseline k new at' s = (r, t)"
  shows "written p s (om_supersede_baseline k new at' (fl_memory s)) r t"
proof (cases "map_of (om_baselines (fl_memory s)) k")
  case None
  with run have "r = Inl (KeyError k)" "t = s" by (simp_all add: fl_supersede_baseline_def with_baseline_def subscript_def)
  then show ?thesis by (simp add: wrote_raise [OF s])
next
  case (Some before)
  let ?old = "before\<lparr>rbr_state := risk_baseline_state.SUPERSEDED, rbr_effective_until := Some (as_utc at'),
      rbr_superseded_by := Some (rbr_baseline_id new)\<rparr>"
  have mem: "observations_ok (fl_memory s)" using s by (simp add: file_ok_def)
  have key: "rbr_baseline_id before = k" using mem Some by (auto simp: observations_ok_def dest: keyed_lookup)
  show ?thesis
  proof (rule baseline_written [where b = ?old and new = "[new]", OF s Some])
    show "u = fl_memory s" if "om_supersede_baseline k new at' (fl_memory s) = (Inl e, u)" for e u
      using that by (simp add: om_supersede_baseline_def split: sum.splits)
    show "baseline_change (fl_memory s) k ?old [new] u \<and>
        u\<lparr>om_baselines := AList.delete (rbr_baseline_id new) (AList.update k before (om_baselines u))\<rparr> = fl_memory s"
      if "om_supersede_baseline k new at' (fl_memory s) = (Inr (), u)" for u
      using supersede_change [OF that ok mem Some] by blast
    show "statement (\<lambda>t t'. t' = t\<lparr>ot_baselines := update_row k ?old (ot_baselines t) @
        map (\<lambda>x. (rbr_baseline_id x, x)) [new]\<rparr>) (bind_op (update_baseline ?old) (\<lambda>_. insert_baseline new False))"
      by (rule statement_bind [OF update_baseline_statement insert_baseline_statement]) (simp add: key)
  qed (use run Some in \<open>simp add: fl_supersede_baseline_def with_baseline_def subscript_def\<close>)
qed

lemma invalidate_written:
  assumes s: "file_ok p s" and run: "fl_invalidate_baseline k at' reason s = (r, t)"
  shows "written p s (om_invalidate_baseline k at' reason (fl_memory s)) r t"
proof (cases "map_of (om_baselines (fl_memory s)) k")
  case None
  with run have "r = Inl (KeyError k)" "t = s" by (simp_all add: fl_invalidate_baseline_def with_baseline_def subscript_def)
  then show ?thesis by (simp add: wrote_raise [OF s])
next
  case (Some before)
  let ?old = "before\<lparr>rbr_state := risk_baseline_state.INVALIDATED, rbr_effective_until := Some (as_utc at'),
      rbr_invalidation_reason := Some reason\<rparr>"
  have mem: "observations_ok (fl_memory s)" using s by (simp add: file_ok_def)
  have key: "rbr_baseline_id before = k" using mem Some by (auto simp: observations_ok_def dest: keyed_lookup)
  show ?thesis
  proof (rule baseline_written [where b = ?old and new = "[]" and f = update_baseline, OF s Some])
    show "u = fl_memory s" if "om_invalidate_baseline k at' reason (fl_memory s) = (Inl e, u)" for e u
      using that by (simp add: om_invalidate_baseline_def split: sum.splits)
    show "baseline_change (fl_memory s) k ?old [] u \<and>
        u\<lparr>om_baselines := AList.update k before (om_baselines u)\<rparr> = fl_memory s"
      if "om_invalidate_baseline k at' reason (fl_memory s) = (Inr (), u)" for u
      using that Some key
      by (auto simp: om_invalidate_baseline_def result_simps repository_utc_def validated_baseline_def
          baseline_change_def dict_update_back dict_update_same split: sum.splits if_splits)
    show "statement (\<lambda>t t'. t' = t\<lparr>ot_baselines := update_row k ?old (ot_baselines t) @
        map (\<lambda>x. (rbr_baseline_id x, x)) []\<rparr>) (update_baseline ?old)"
      by (rule statement_weaken [OF update_baseline_statement]) (simp add: key)
  qed (use run Some in \<open>simp add: fl_invalidate_baseline_def with_baseline_def subscript_def\<close>)
qed

text \<open>The commit that \<open>append_baseline\<close> does not roll back: its second step fails, its first does not.\<close>

definition commit_fails :: "observation_file \<Rightarrow> bool" where
  "commit_fails s \<longleftrightarrow> take 2 (fl_faults s) = [False, True]"

lemma execute_raises:
  "sql_execute g s = (Inl e, t) \<Longrightarrow> fl_memory t = fl_memory s \<and> fl_disk t = fl_disk s \<and> fl_view t = fl_view s"
  by (auto simp: sql_execute_def dest!: next_fault_keeps split: prod.splits sum.splits if_splits)

lemma execute_returns:
  assumes "sql_execute g s = (Inr x, t)"
  shows "fl_memory t = fl_memory s" "fl_disk t = fl_disk s" "g (fl_view s) = Inr (fl_view t)"
    "fl_faults s = False # fl_faults t \<or> fl_faults s = [] \<and> fl_faults t = []"
  using assms by (auto simp: sql_execute_def next_fault_def split: prod.splits sum.splits if_splits list.splits)

lemma commit_result:
  assumes "sql_commit s = (r, t)"
  shows "fl_memory t = fl_memory s" "fl_view t = fl_view s"
    "r = Inr () \<and> fl_disk t = fl_view s \<or>
     r = Inl (StorageError ''commit failed'') \<and> fl_disk t = fl_disk s \<and> (\<exists>fs. fl_faults s = True # fs)"
  using assms by (auto simp: sql_commit_def next_fault_def split: prod.splits list.splits if_splits)

lemma append_baseline_written:
  assumes s: "file_ok p s" and ok: "ok_risk_baseline_record b" and clean: "p \<Longrightarrow> \<not> commit_fails s"
    and run: "fl_append_baseline b s = (r, t)"
  shows "written p s (om_append_baseline b (fl_memory s)) r t"
proof (cases "map_of (om_baselines (fl_memory s)) (rbr_baseline_id b)")
  case (Some x)
  with run have "r = Inl (ValueError ''risk baseline identity already exists'')" "t = s"
    by (auto simp: fl_append_baseline_def bind_op_def in_memory_def om_append_baseline_def)
  then show ?thesis by (simp add: wrote_raise [OF s])
next
  case None
  define u where "u = fl_memory s\<lparr>om_baselines := AList.update (rbr_baseline_id b) b (om_baselines (fl_memory s))\<rparr>"
  define g where "g t = bind_result (insert_row (rbr_baseline_id b, b) (ot_baselines t)) (\<lambda>rows. Inr (t\<lparr>ot_baselines := rows\<rparr>))" for t :: observation_tables
  define undo where "undo m = m\<lparr>om_baselines := AList.delete (rbr_baseline_id b) (om_baselines m)\<rparr>" for m :: observation_memory
  have m: "om_append_baseline b (fl_memory s) = (Inr (), u)" using None by (simp add: om_append_baseline_def u_def)
  have s': "observations_ok (fl_memory s)" "mirrors p (fl_memory s) (fl_disk s)" "mirrors p (fl_memory s) (fl_view s)"
    using s by (simp_all add: file_ok_def)
  have u: "observations_ok u" using s'(1) ok by (simp add: u_def observations_ok_def keyed_update)
  have undone: "undo u = fl_memory s" by (simp add: undo_def u_def dict_delete_update [OF None])
  let ?s = "s\<lparr>fl_memory := u\<rparr>"
  have body: "or_undo (bind_op (sql_execute g) (\<lambda>_. sql_commit)) undo ?s = (r, t)"
    using run by (simp add: fl_append_baseline_def insert_baseline_def bind_op_def in_memory_def m g_def [abs_def] undo_def [abs_def])
  obtain q v where v: "sql_execute g ?s = (q, v)" by fastforce
  show ?thesis
  proof (cases q)
    case (Inl e)
    with v have e: "e \<noteq> ProcessExit"
      by (auto simp: sql_execute_def g_def result_simps dest: insert_row_error split: prod.splits sum.splits if_splits)
    with body v Inl have "r = Inl e" "t = v\<lparr>fl_memory := undo (fl_memory v)\<rparr>"
      by (simp_all add: or_undo_def try_op_def bind_op_def)
    with execute_raises [OF v [unfolded Inl]] show ?thesis by (simp add: wrote_raise [OF s] undone)
  next
    case (Inr x)
    note v' = execute_returns [OF v [unfolded Inr], simplified]
    obtain c w where w: "sql_commit v = (c, w)" by fastforce
    note w' = commit_result [OF w]
    have view: "fl_view v = fl_view s\<lparr>ot_baselines := ot_baselines (fl_view s) @ [(rbr_baseline_id b, b)]\<rparr>"
      using v'(3) by (auto simp: g_def result_simps)
    from w'(3) show ?thesis
    proof (elim disjE conjE exE)
      assume c: "c = Inr ()" "fl_disk w = fl_view v"
      with body v Inr w have "r = Inr ()" "t = w" by (simp_all add: or_undo_def try_op_def bind_op_def ret_def)
      moreover have "mirrors p u (fl_view v)"
        using s'(3) by (simp add: view mirrors_def u_def dict_update_fresh [OF None])
      ultimately show ?thesis using u w' c v'(1) m by (simp add: written_def file_ok_def)
    next
      fix fs
      assume c: "c = Inl (StorageError ''commit failed'')" "fl_disk w = fl_disk v" "fl_faults v = True # fs"
      with body v Inr w have "r = Inl (StorageError ''commit failed'')" "t = w\<lparr>fl_memory := undo (fl_memory w)\<rparr>"
        by (simp_all add: or_undo_def try_op_def bind_op_def)
      moreover have "\<not> p" using clean v'(4) c(3) by (auto simp: commit_fails_def)
      moreover have "mirrors p (fl_memory s) (fl_view v)" if "\<not> p"
        using s'(3) that by (simp add: view mirrors_def)
      ultimately show ?thesis using s' c v' w' undone by (simp add: written_def file_ok_def)
    qed
  qed
qed

section \<open>Calls\<close>

datatype observation_call =
    CallDiscover completed_decision_candle
  | CallClaim string py_datetime
  | CallBind string string py_datetime
  | CallProcessing string py_datetime
  | CallTerminal string decision_claim_state py_datetime "observation_failure_category option" "string option"
  | CallRecover py_datetime
  | CallAppendDecision continuous_decision_record
  | CallAppendBaseline risk_baseline_record
  | CallSupersede string risk_baseline_record py_datetime
  | CallInvalidate string py_datetime string
  | CallAppendOutcome pending_shadow_outcome
  | CallUpdateOutcome pending_shadow_outcome

primrec fl_run :: "observation_call \<Rightarrow> observation_file \<Rightarrow> observation_file" where
  "fl_run (CallDiscover c) s = snd (fl_discover c s)"
| "fl_run (CallClaim k t) s = snd (fl_claim k t s)"
| "fl_run (CallBind k snap t) s = snd (fl_bind_snapshot k snap t s)"
| "fl_run (CallProcessing k t) s = snd (fl_mark_processing k t s)"
| "fl_run (CallTerminal k st t category detail) s = snd (fl_mark_terminal k st t category detail s)"
| "fl_run (CallRecover t) s = snd (fl_recover_incomplete t s)"
| "fl_run (CallAppendDecision d) s = snd (fl_append_decision d s)"
| "fl_run (CallAppendBaseline b) s = snd (fl_append_baseline b s)"
| "fl_run (CallSupersede k b t) s = snd (fl_supersede_baseline k b t s)"
| "fl_run (CallInvalidate k t reason) s = snd (fl_invalidate_baseline k t reason s)"
| "fl_run (CallAppendOutcome d) s = snd (fl_append_outcome d s)"
| "fl_run (CallUpdateOutcome d) s = snd (fl_update_outcome d s)"

text \<open>The records handed to a repository are validated contracts.\<close>

fun valid_call :: "observation_call \<Rightarrow> bool" where
  "valid_call (CallAppendDecision d) \<longleftrightarrow> ok_continuous_decision_record d"
| "valid_call (CallAppendBaseline b) \<longleftrightarrow> ok_risk_baseline_record b"
| "valid_call (CallSupersede k b t) \<longleftrightarrow> ok_risk_baseline_record b"
| "valid_call (CallAppendOutcome d) \<longleftrightarrow> ok_pending_shadow_outcome d"
| "valid_call (CallUpdateOutcome d) \<longleftrightarrow> ok_pending_shadow_outcome d"
| "valid_call _ \<longleftrightarrow> True"

fun commits :: "observation_call \<Rightarrow> observation_file \<Rightarrow> bool" where
  "commits (CallAppendBaseline b) s \<longleftrightarrow> \<not> commit_fails s"
| "commits _ s \<longleftrightarrow> True"

fun all_commit :: "observation_call list \<Rightarrow> observation_file \<Rightarrow> bool" where
  "all_commit [] s \<longleftrightarrow> True"
| "all_commit (c # cs) s \<longleftrightarrow> commits c s \<and> all_commit cs (fl_run c s)"

lemma written_ok: "written p s mt (fst rt) (snd rt) \<Longrightarrow> file_ok p (snd rt)"
  by (simp add: written_def)

lemma run_file_ok:
  assumes "file_ok p s" "valid_call c" "p \<Longrightarrow> commits c s"
  shows "file_ok p (fl_run c s)"
proof (cases c)
  case (CallRecover t)
  then show ?thesis using recover_incomplete_written [OF assms(1) prod.collapse [symmetric]] by simp
next
  case (CallDiscover x)
  then show ?thesis using written_ok [OF discover_written [OF assms(1) prod.collapse [symmetric]]] by simp
next
  case (CallClaim k t)
  then show ?thesis using written_ok [OF claim_calls_written(1) [OF assms(1) prod.collapse [symmetric]]] by simp
next
  case (CallBind k x t)
  then show ?thesis using written_ok [OF claim_calls_written(2) [OF assms(1) prod.collapse [symmetric]]] by simp
next
  case (CallProcessing k t)
  then show ?thesis using written_ok [OF claim_calls_written(3) [OF assms(1) prod.collapse [symmetric]]] by simp
next
  case (CallTerminal k st t x y)
  then show ?thesis using written_ok [OF claim_calls_written(4) [OF assms(1) prod.collapse [symmetric]]] by simp
next
  case (CallAppendDecision d)
  then show ?thesis
    using assms(2) written_ok [OF append_decision_written [OF assms(1) _ prod.collapse [symmetric]]] by simp
next
  case (CallAppendBaseline b)
  then show ?thesis
    using assms(2,3) written_ok [OF append_baseline_written [OF assms(1) _ _ prod.collapse [symmetric]]] by simp
next
  case (CallSupersede k b t)
  then show ?thesis
    using assms(2) written_ok [OF supersede_written [OF assms(1) _ prod.collapse [symmetric]]] by simp
next
  case (CallInvalidate k t x)
  then show ?thesis using written_ok [OF invalidate_written [OF assms(1) prod.collapse [symmetric]]] by simp
next
  case (CallAppendOutcome d)
  then show ?thesis
    using assms(2) written_ok [OF append_outcome_written [OF assms(1) _ prod.collapse [symmetric]]] by simp
next
  case (CallUpdateOutcome d)
  then show ?thesis
    using assms(2) written_ok [OF update_outcome_written [OF assms(1) _ prod.collapse [symmetric]]] by simp
qed

lemma runs_file_ok:
  "file_ok p s \<Longrightarrow> list_all valid_call cs \<Longrightarrow> (p \<Longrightarrow> all_commit cs s) \<Longrightarrow> file_ok p (fold fl_run cs s)"
proof (induction cs arbitrary: s)
  case (Cons c cs)
  have "file_ok p (fl_run c s)" using Cons.prems by (intro run_file_ok) auto
  with Cons show ?case by simp
qed simp

section \<open>Reopening\<close>

lemma rows_claims: "map (snd \<circ> snd \<circ> snd) (claim_rows d) = map snd d"
  by (simp add: claim_rows_def comp_def case_prod_unfold)

lemma set_insert_all: "set (fold List.insert xs ys) = set xs \<union> set ys"
  by (induction xs arbitrary: ys) auto

lemma reopened:
  assumes "file_ok True s"
  shows "\<exists>ids. load_observations (fl_disk s) = Inr ((fl_memory s)\<lparr>om_snapshot_ids := ids\<rparr>) \<and>
    set ids = bound_ids (om_claims (fl_memory s))"
proof -
  let ?m = "fl_memory s"
  have m: "keyed dcc_decision_key ok_decision_candle_claim (om_claims ?m)"
    "keyed cdr_decision_key ok_continuous_decision_record (om_decisions ?m)"
    "keyed rbr_baseline_id ok_risk_baseline_record (om_baselines ?m)"
    "keyed psho_tracking_id ok_pending_shadow_outcome (om_outcomes ?m)"
    and t: "ot_claims (fl_disk s) = claim_rows (om_claims ?m)" "ot_decisions (fl_disk s) = om_decisions ?m"
      "ot_outcomes (fl_disk s) = om_outcomes ?m" "ot_baselines (fl_disk s) = om_baselines ?m"
    using assms by (simp_all add: file_ok_def observations_ok_def mirrors_def)
  let ?ids = "fold List.insert (List.map_filter dcc_actual_snapshot_id (map snd (om_claims ?m))) []"
  have "load_observations (fl_disk s) = Inr (?m\<lparr>om_snapshot_ids := ?ids\<rparr>)"
    by (simp add: load_observations_def Let_def t rows_claims keyed_values_ok [OF m(1)] keyed_values_ok [OF m(2)]
        keyed_values_ok [OF m(3)] keyed_values_ok [OF m(4)] fill_keyed [OF m(1)] fill_keyed [OF m(2)]
        fill_keyed [OF m(3)] fill_keyed [OF m(4)] guard_simps)
  moreover have "set ?ids = bound_ids (om_claims ?m)"
    by (force simp: set_insert_all set_map_filter bound_ids_def)
  ultimately show ?thesis by blast
qed

definition new_file :: "bool list \<Rightarrow> observation_file" where
  "new_file faults = \<lparr>fl_memory = empty_observations, fl_disk = empty_observation_tables,
     fl_view = empty_observation_tables, fl_faults = faults\<rparr>"

lemma new_file_opened: "open_observations empty_observation_tables faults = Inr (new_file faults)"
  by (simp add: open_observations_def load_observations_def empty_observation_tables_def new_file_def
      empty_observations_def fill_def guard_simps List.map_filter_simps)

lemma new_file_ok: "file_ok p (new_file faults)"
  by (simp add: file_ok_def new_file_def empty_observations_ok mirrors_def claim_rows_def)
    (simp add: empty_observations_def empty_observation_tables_def)


text \<open>
  The exception is real: after a failed commit of \<open>append_baseline\<close> the memory has no baseline, and the
  next successful write of anything commits the row.
\<close>

lemma unrolled_baseline:
  assumes "s = fold fl_run [CallAppendBaseline b, CallAppendOutcome d] (new_file [False, True])"
  shows "om_baselines (fl_memory s) = []" "ot_baselines (fl_disk s) = [(rbr_baseline_id b, b)]"
  by (simp_all add: assms new_file_def empty_observations_def empty_observation_tables_def
      fl_append_baseline_def fl_append_outcome_def in_memory_def om_append_baseline_def om_append_outcome_def
      bind_op_def or_undo_def try_op_def insert_baseline_def insert_outcome_def sql_execute_def sql_commit_def
      with_connection_def next_fault_def insert_row_def ret_def)

end
