(* ===== verification/ObservationRuntimeTheorems.thy ===== *)
theory ObservationRuntimeTheorems
  imports ObservationRuntime ObservationTheorems
begin

text \<open>
  What the runtime promises over every repository that keeps claims moving forward: whatever the
  services, the clock and the driver do, no decision key is dispatched twice, and a poll that returns
  leaves none of the claims it made open. Both repositories are shown to be of that kind.
\<close>

section \<open>Repositories of claims\<close>

definition advanced :: "decision_candle_claim option \<Rightarrow> bool" where
  "advanced x \<longleftrightarrow> (case x of None \<Rightarrow> False | Some c \<Rightarrow> dcc_state c \<noteq> decision_claim_state.DISCOVERED)"

definition ended :: "decision_candle_claim option \<Rightarrow> bool" where
  "ended x \<longleftrightarrow> (case x of None \<Rightarrow> False | Some c \<Rightarrow> dcc_state c \<in> set terminal_states)"

definition observation_error :: "py_exception \<Rightarrow> bool" where
  "observation_error e \<longleftrightarrow> (\<exists>c m. e = ObservationRuntimeError c m)"

text \<open>
  A call about one key: the other claims stay, a call that raises changes nothing, and one that
  returns stores the claim it returns.
\<close>

definition about_key :: "('r \<Rightarrow> bool) \<Rightarrow> ('r \<Rightarrow> string \<Rightarrow> decision_candle_claim option) \<Rightarrow> string \<Rightarrow>
    ('r, decision_candle_claim) op \<Rightarrow> bool" where
  "about_key good get k m \<longleftrightarrow> (\<forall>r x u. good r \<longrightarrow> m r = (x, u) \<longrightarrow>
     good u \<and> (\<forall>k'. k' \<noteq> k \<longrightarrow> get u k' = get r k') \<and>
     (case x of Inl e \<Rightarrow> get u k = get r k | Inr c \<Rightarrow> get u k = Some c))"

locale claim_repository =
  fixes ops :: "'r repository_operations" and good :: "'r \<Rightarrow> bool"
  assumes discover_about: "about_key good (ro_get_claim ops) (cdc_decision_key cand) (ro_discover ops cand)"
    and claim_about: "about_key good (ro_get_claim ops) k (ro_claim ops k t)"
    and bind_about: "about_key good (ro_get_claim ops) k (ro_bind_snapshot ops k snap t)"
    and processing_about: "about_key good (ro_get_claim ops) k (ro_mark_processing ops k t)"
    and terminal_about: "about_key good (ro_get_claim ops) k (ro_mark_terminal ops k st t category detail)"
    and discover_known: "good r \<Longrightarrow> ro_discover ops cand r = (Inr x, u) \<Longrightarrow>
      ro_get_claim ops r (cdc_decision_key cand) = Some y \<Longrightarrow> x = y"
    and claim_once: "good r \<Longrightarrow> ro_claim ops k t r = (Inr c, u) \<Longrightarrow>
      \<not> advanced (ro_get_claim ops r k) \<and> advanced (Some c)"
    and bind_advanced: "good r \<Longrightarrow> ro_bind_snapshot ops k snap t r = (Inr c, u) \<Longrightarrow> advanced (Some c)"
    and processing_advanced: "good r \<Longrightarrow> ro_mark_processing ops k t r = (Inr c, u) \<Longrightarrow> advanced (Some c)"
    and terminal_ended: "good r \<Longrightarrow> ro_mark_terminal ops k st t category detail r = (Inr c, u) \<Longrightarrow> ended (Some c)"
    and recover_keeps: "good r \<Longrightarrow> ro_recover_incomplete ops t r = (ys, u) \<Longrightarrow>
      good u \<and> (\<forall>k. advanced (ro_get_claim ops r k) \<longrightarrow> advanced (ro_get_claim ops u k))"
    and append_keeps: "good r \<Longrightarrow> ok_continuous_decision_record d \<Longrightarrow> ro_append_decision ops d r = (z, u) \<Longrightarrow>
      good u \<and> ro_get_claim ops u = ro_get_claim ops r"
    and discover_error: "good r \<Longrightarrow> ro_discover ops cand r = (Inl e, u) \<Longrightarrow> observation_error e \<Longrightarrow>
      ro_get_claim ops r (cdc_decision_key cand) \<noteq> None"
    and claim_error: "good r \<Longrightarrow> ro_claim ops k t r = (Inl e, u) \<Longrightarrow> \<not> observation_error e"
    and terminal_error: "good r \<Longrightarrow> ro_mark_terminal ops k st t category detail r = (Inl e, u) \<Longrightarrow> \<not> observation_error e"
    and append_error: "good r \<Longrightarrow> ro_append_decision ops d r = (Inl e, u) \<Longrightarrow> \<not> observation_error e"

lemma ended_advanced: "ended x \<Longrightarrow> advanced x"
  by (auto simp: ended_def advanced_def terminal_states_def split: option.splits)

lemma about_keyD:
  assumes "about_key good get k m" "good r" "m r = (x, u)"
  shows "good u" "k' \<noteq> k \<Longrightarrow> get u k' = get r k'" "x = Inl e \<Longrightarrow> get u k = get r k" "x = Inr c \<Longrightarrow> get u k = Some c"
  using assms unfolding about_key_def by fastforce+

section \<open>Rules\<close>

text \<open>
  From \<open>P\<close> an operation that raises \<open>e\<close> ends with \<open>E e\<close>, and one that returns ends with \<open>Q\<close>; mostly what is
  known after a raise does not depend on the exception.
\<close>

definition runs :: "('s \<Rightarrow> bool) \<Rightarrow> ('s, 'a) op \<Rightarrow> (py_exception \<Rightarrow> 's \<Rightarrow> bool) \<Rightarrow> ('s \<Rightarrow> bool) \<Rightarrow> bool" where
  "runs P m E Q \<longleftrightarrow> holds P m (outcome E (\<lambda>_. Q))"

lemma runs_unfold:
  "runs P m E Q \<longleftrightarrow> (\<forall>s r t. P s \<longrightarrow> m s = (r, t) \<longrightarrow> (case r of Inl e \<Rightarrow> E e t | Inr x \<Rightarrow> Q t))"
  by (simp add: runs_def holds_def outcome_def)

abbreviation leads :: "('s \<Rightarrow> bool) \<Rightarrow> ('s, 'a) op \<Rightarrow> ('s \<Rightarrow> bool) \<Rightarrow> ('s \<Rightarrow> bool) \<Rightarrow> bool" where
  "leads P m E Q \<equiv> runs P m (\<lambda>_. E) Q"

lemma runsI:
  "(\<And>s e t. P s \<Longrightarrow> m s = (Inl e, t) \<Longrightarrow> E e t) \<Longrightarrow> (\<And>s x t. P s \<Longrightarrow> m s = (Inr x, t) \<Longrightarrow> Q t) \<Longrightarrow>
     runs P m E Q"
  by (auto simp: runs_unfold split: sum.splits)

lemma runsD:
  assumes "runs P m E Q" "P s" "m s = (r, t)"
  shows "case r of Inl e \<Rightarrow> E e t | Inr x \<Rightarrow> Q t"
  using assms unfolding runs_unfold by blast

lemma runs_raised: "runs P m E Q \<Longrightarrow> P s \<Longrightarrow> m s = (Inl e, t) \<Longrightarrow> E e t"
  by (drule runsD) auto

lemma runs_returned: "runs P m E Q \<Longrightarrow> P s \<Longrightarrow> m s = (Inr x, t) \<Longrightarrow> Q t"
  by (drule runsD) auto

lemma runs_bind: "runs P m E R \<Longrightarrow> (\<And>x. runs R (f x) E Q) \<Longrightarrow> runs P (bind_op m f) E Q"
  unfolding runs_def by (rule outcome_bind)

lemma runs_weaken:
  "runs P' m E' Q' \<Longrightarrow> (\<And>s. P s \<Longrightarrow> P' s) \<Longrightarrow> (\<And>e s. E' e s \<Longrightarrow> E e s) \<Longrightarrow> (\<And>s. Q' s \<Longrightarrow> Q s) \<Longrightarrow> runs P m E Q"
  by (rule runsI) (blast dest: runs_raised runs_returned)+

lemma runs_ret: "(\<And>s. P s \<Longrightarrow> Q s) \<Longrightarrow> runs P (ret x) E Q"
  by (auto simp: runs_unfold ret_def)

lemma runs_raise: "(\<And>s. P s \<Longrightarrow> E e s) \<Longrightarrow> runs P (raise_op e) E Q"
  by (auto simp: runs_unfold raise_op_def)

lemma runs_lift: "(\<And>e s. P s \<Longrightarrow> E e s) \<Longrightarrow> (\<And>s. P s \<Longrightarrow> Q s) \<Longrightarrow> runs P (lift_op x) E Q"
  by (auto simp: runs_unfold lift_op_def split: sum.splits)

lemma runs_update: "(\<And>s. P s \<Longrightarrow> Q (f s)) \<Longrightarrow> runs P (update_op f) E Q"
  by (auto simp: runs_unfold update_op_def)

lemma runs_if: "runs P m E Q \<Longrightarrow> runs P n E Q \<Longrightarrow> runs P (if b then m else n) E Q"
  by simp

lemma runs_for_each: "(\<And>x. x \<in> set xs \<Longrightarrow> runs P (f x) E P) \<Longrightarrow> runs P (for_each f xs) E P"
proof (induction xs)
  case (Cons x xs)
  then show ?case by (auto intro!: runs_bind)
qed (simp add: runs_ret)

lemma runs_with_locals:
  assumes "runs P m E Q"
  shows "runs (\<lambda>sl. P (fst sl)) (with_locals m) (\<lambda>e sl. E e (fst sl)) (\<lambda>sl. Q (fst sl))"
  by (rule runsI) (auto simp: with_locals_def split: prod.splits dest: runs_raised [OF assms] runs_returned [OF assms])

lemma runs_set_local:
  assumes "\<And>s. P s \<Longrightarrow> Q s"
  shows "runs (\<lambda>sl. P (fst sl)) (set_local f) E (\<lambda>sl. Q (fst sl))"
  using assms by (auto simp: set_local_def intro!: runs_update)

text \<open>Assertions that do not read the world.\<close>

definition world_free :: "(('r, 'w) runtime \<Rightarrow> bool) \<Rightarrow> bool" where
  "world_free P \<longleftrightarrow> (\<forall>s w. P (s\<lparr>rt_world := w\<rparr>) = P s)"

lemma runs_on_world: "world_free P \<Longrightarrow> (\<And>e s. P s \<Longrightarrow> E e s) \<Longrightarrow> runs P (on_world m) E P"
  by (auto simp: runs_unfold on_world_def world_free_def split: sum.splits prod.splits)

lemma runs_now: "world_free P \<Longrightarrow> (\<And>m s. P s \<Longrightarrow> E (ValueError m) s) \<Longrightarrow> runs P (runtime_now sv) E P"
  by (auto simp: runs_unfold runtime_now_def world_free_def split: sum.splits prod.splits if_splits)

section \<open>Dispatched at most once\<close>

definition forward :: "'r repository_operations \<Rightarrow> ('r \<Rightarrow> bool) \<Rightarrow> ('r, 'a) op \<Rightarrow> bool" where
  "forward ops good m \<longleftrightarrow> (\<forall>r x u. good r \<longrightarrow> m r = (x, u) \<longrightarrow> good u \<and>
     (\<forall>k. advanced (ro_get_claim ops r k) \<longrightarrow> advanced (ro_get_claim ops u k)))"

definition dispatches_ok :: "'r repository_operations \<Rightarrow> ('r \<Rightarrow> bool) \<Rightarrow> nat \<Rightarrow> ('r, 'w) runtime \<Rightarrow> bool" where
  "dispatches_ok ops good n s \<longleftrightarrow> good (rt_repository s) \<and> distinct (rt_dispatched s) \<and>
     (\<forall>k \<in> set (rt_dispatched s). advanced (ro_get_claim ops (rt_repository s) k)) \<and>
     length (rt_dispatched s) \<le> n"

definition owns :: "'r repository_operations \<Rightarrow> ('r \<Rightarrow> bool) \<Rightarrow> nat \<Rightarrow> string \<Rightarrow> ('r, 'w) runtime \<Rightarrow> bool" where
  "owns ops good n k s \<longleftrightarrow> dispatches_ok ops good n s \<and> advanced (ro_get_claim ops (rt_repository s) k) \<and>
     k \<notin> set (rt_dispatched s)"

lemma world_free_dispatches: "world_free (dispatches_ok ops good n)" "world_free (owns ops good n k)"
  by (simp_all add: world_free_def dispatches_ok_def owns_def)

lemma owns_dispatches: "owns ops good n k s \<Longrightarrow> dispatches_ok ops good n s"
  by (simp add: owns_def)

lemma owns_Suc: "owns ops good n k s \<Longrightarrow> dispatches_ok ops good (Suc n) s"
  by (simp add: owns_def dispatches_ok_def)

lemma dispatches_Suc: "dispatches_ok ops good n s \<Longrightarrow> dispatches_ok ops good (Suc n) s"
  by (simp add: dispatches_ok_def)

lemma overlap_step:
  "rt_repository (overlap c s) = rt_repository s \<and> rt_dispatched (overlap c s) = rt_dispatched s"
  by (cases c) (simp_all add: shutdown_runtime_def)

lemma overlap_fields:
  "rt_repository (fold overlap cs s) = rt_repository s \<and> rt_dispatched (fold overlap cs s) = rt_dispatched s"
  by (induction cs arbitrary: s) (simp_all add: overlap_step)

context claim_repository
begin

lemma about_forward:
  assumes "about_key good (ro_get_claim ops) k m"
    and "\<And>r c u. good r \<Longrightarrow> m r = (Inr c, u) \<Longrightarrow> advanced (ro_get_claim ops r k) \<Longrightarrow> advanced (Some c)"
  shows "forward ops good m"
  unfolding forward_def
proof (intro allI impI conjI)
  fix r x u k'
  assume r: "good r" "m r = (x, u)"
  show "good u" by (rule about_keyD(1) [OF assms(1) r])
  assume adv: "advanced (ro_get_claim ops r k')"
  show "advanced (ro_get_claim ops u k')"
  proof (cases "k' = k")
    case False
    then show ?thesis using about_keyD(2) [OF assms(1) r] adv by simp
  next
    case True
    with about_keyD(3,4) [OF assms(1) r] adv assms(2) r show ?thesis by (cases x) auto
  qed
qed

lemma discover_forward: "forward ops good (ro_discover ops c)"
  by (rule about_forward [OF discover_about]) (auto simp: advanced_def split: option.splits dest!: discover_known)

lemma claim_forward: "forward ops good (ro_claim ops k t)"
  using claim_once by (intro about_forward [OF claim_about]) blast

lemma bind_forward: "forward ops good (ro_bind_snapshot ops k snap t)"
  using bind_advanced by (intro about_forward [OF bind_about]) blast

lemma processing_forward: "forward ops good (ro_mark_processing ops k t)"
  using processing_advanced by (intro about_forward [OF processing_about]) blast

lemma terminal_forward: "forward ops good (ro_mark_terminal ops k st t category detail)"
  using terminal_ended by (intro about_forward [OF terminal_about]) (blast intro: ended_advanced)

lemma recover_forward: "forward ops good (ro_recover_incomplete ops t)"
  using recover_keeps by (simp add: forward_def)

lemma append_forward: "ok_continuous_decision_record d \<Longrightarrow> forward ops good (ro_append_decision ops d)"
  using append_keeps by (simp add: forward_def)

lemma forward_step:
  assumes "forward ops good m" "dispatches_ok ops good n s" "m (rt_repository s) = (x, u)"
  shows "dispatches_ok ops good n (s\<lparr>rt_repository := u\<rparr>)"
    and "owns ops good n k s \<Longrightarrow> owns ops good n k (s\<lparr>rt_repository := u\<rparr>)"
  using assms unfolding forward_def dispatches_ok_def owns_def by auto

lemma leads_forward:
  assumes "forward ops good m" "\<And>s. dispatches_ok ops good n s \<Longrightarrow> E s"
  shows "leads (dispatches_ok ops good n) (on_repository m) E (dispatches_ok ops good n)"
  using forward_step(1) [OF assms(1)] assms(2) by (auto simp: runs_unfold on_repository_def split: prod.splits sum.splits)

lemma leads_owns:
  assumes "forward ops good m" "\<And>s. dispatches_ok ops good n s \<Longrightarrow> E s"
  shows "leads (owns ops good n k) (on_repository m) E (owns ops good n k)"
proof (rule runsI)
  fix s :: "('r, 'b) runtime" and e t
  assume s: "owns ops good n k s" and run: "on_repository m s = (Inl e, t)"
  then obtain u where "m (rt_repository s) = (Inl e, u)" "t = s\<lparr>rt_repository := u\<rparr>"
    by (auto simp: on_repository_def split: prod.splits)
  with forward_step(1) [OF assms(1) owns_dispatches [OF s]] show "E t" by (simp add: assms(2))
next
  fix s :: "('r, 'b) runtime" and x t
  assume s: "owns ops good n k s" and run: "on_repository m s = (Inr x, t)"
  then obtain u where "m (rt_repository s) = (Inr x, u)" "t = s\<lparr>rt_repository := u\<rparr>"
    by (auto simp: on_repository_def split: prod.splits)
  with forward_step(2) [OF assms(1) owns_dispatches [OF s]] s show "owns ops good n k t" by simp
qed

end

text \<open>A validated record is known to be valid.\<close>

lemma runs_build:
  assumes "\<And>m s. P s \<Longrightarrow> E (ValidationError m) s" "ok r \<Longrightarrow> runs P (f r) E Q"
  shows "runs P (bind_op (lift_op (build cls ok r)) f) E Q"
  using assms by (cases "ok r") (auto simp: runs_unfold bind_op_def lift_op_def build_def)

lemma dispatches_mono: "dispatches_ok ops good n s \<Longrightarrow> n \<le> m \<Longrightarrow> dispatches_ok ops good m s"
  by (simp add: dispatches_ok_def)

context claim_repository
begin

lemma repository_call_ok:
  assumes "\<And>t. forward ops good (m t)" "\<And>s. dispatches_ok ops good n s \<Longrightarrow> E s"
  shows "leads (dispatches_ok ops good n) (repository_call sv m) E (dispatches_ok ops good n)"
  unfolding repository_call_def
  by (rule runs_bind runs_now world_free_dispatches assms leads_forward | assumption)+

lemma repository_call_owns:
  assumes "\<And>t. forward ops good (m t)" "\<And>s. dispatches_ok ops good n s \<Longrightarrow> E s"
  shows "leads (owns ops good n k) (repository_call sv m) E (owns ops good n k)"
  unfolding repository_call_def
  by (rule runs_bind runs_now world_free_dispatches assms leads_owns | assumption | erule owns_dispatches)+

lemma store_decision_ok:
  assumes "sv_repository sv = ops"
  shows "leads (dispatches_ok ops good n) (store_decision sv rec st category detail) (dispatches_ok ops good n)
    (dispatches_ok ops good n)"
  unfolding store_decision_def assms
  by (rule runs_build runs_bind [where R = "dispatches_ok ops good n"] runs_now world_free_dispatches
      leads_forward append_forward repository_call_ok terminal_forward runs_ret | assumption)+

lemma hold_decision_ok:
  assumes "sv_repository sv = ops"
  shows "leads (dispatches_ok ops good n) (hold_decision sv c l category detail) (dispatches_ok ops good n)
    (dispatches_ok ops good n)"
  unfolding hold_decision_def
  by (rule runs_bind [where R = "dispatches_ok ops good n"] store_decision_ok [OF assms] runs_update runs_ret
      | assumption | simp add: dispatches_ok_def)+

lemma record_missed_ok:
  assumes "sv_repository sv = ops"
  shows "leads (dispatches_ok ops good n) (record_missed sv category c) (dispatches_ok ops good n)
    (dispatches_ok ops good n)"
  unfolding record_missed_def assms
  by (rule runs_bind [where R = "dispatches_ok ops good n"] leads_forward discover_forward repository_call_ok
      terminal_forward runs_update | assumption | simp add: dispatches_ok_def)+

lemma fail_claim_ok:
  assumes "sv_repository sv = ops"
  shows "leads (dispatches_ok ops good n) (fail_claim sv c l category detail) (dispatches_ok ops good n)
    (dispatches_ok ops good n)"
proof -
  have "leads (dispatches_ok ops good n) (bind_op (store_decision sv rec st category' detail')
      (\<lambda>_. update_op (\<lambda>s. s\<lparr>rt_last_failure := f\<rparr>))) (dispatches_ok ops good n) (dispatches_ok ops good n)"
    for rec st category' detail' f
    by (rule runs_bind [where R = "dispatches_ok ops good n"] store_decision_ok [OF assms] runs_update
        | assumption | simp add: dispatches_ok_def)+
  then show ?thesis unfolding fail_claim_def Let_def runs_unfold by blast
qed

lemma dispatch_cycle_ok:
  "leads (owns ops good n key) (dispatch_cycle sv key snap ctx v) (dispatches_ok ops good (Suc n))
    (dispatches_ok ops good (Suc n))"
  unfolding dispatch_cycle_def
proof (rule runs_bind)
  show "leads (owns ops good n key) (update_op (\<lambda>s. s\<lparr>rt_dispatched := rt_dispatched s @ [key]\<rparr>))
      (dispatches_ok ops good (Suc n)) (dispatches_ok ops good (Suc n))"
    by (rule runs_update) (auto simp: owns_def dispatches_ok_def)
  show "leads (dispatches_ok ops good (Suc n)) (bind_op (update_op (\<lambda>s. fold overlap (sv_meanwhile sv (rt_world s)) s))
      (\<lambda>_. on_world (sv_run_shadow_cycle sv snap ctx v))) (dispatches_ok ops good (Suc n)) (dispatches_ok ops good (Suc n))"
    for x :: unit
    by (rule runs_bind [where R = "dispatches_ok ops good (Suc n)"] runs_update runs_on_world world_free_dispatches
        | assumption | simp add: dispatches_ok_def overlap_fields)+
qed

lemma process_body_ok:
  fixes sv :: "('r, 'w) runtime_services"
  assumes sv: "sv_repository sv = ops"
  shows "leads (\<lambda>sl. owns ops good n (cdc_decision_key c) (fst sl)) (process_body sv c)
    (\<lambda>sl. dispatches_ok ops good (Suc n) (fst sl)) (\<lambda>sl. dispatches_ok ops good (Suc n) (fst sl))"
proof -
  let ?O = "owns ops good n (cdc_decision_key c)" and ?D = "dispatches_ok ops good (Suc n)"
  note OD = owns_Suc and DD = dispatches_Suc
  have world: "leads (\<lambda>sl. ?O (fst sl)) (with_locals (on_world m)) (\<lambda>sl. ?D (fst sl)) (\<lambda>sl. ?O (fst sl))" for m
    by (rule runs_with_locals runs_on_world world_free_dispatches OD | assumption)+
  have risk: "leads (\<lambda>sl. ?O (fst sl)) (\<lambda>sl. with_locals (on_world (m (rt_repository (fst sl)))) sl)
      (\<lambda>sl. ?D (fst sl)) (\<lambda>sl. ?O (fst sl))" for m
    using world unfolding runs_unfold by blast
  have lift: "leads (\<lambda>sl. ?O (fst sl)) (lift_op m) (\<lambda>sl. ?D (fst sl)) (\<lambda>sl. ?O (fst sl))" for m
    by (rule runs_lift) (simp_all add: OD)
  have set: "leads (\<lambda>sl. ?O (fst sl)) (set_local f) (\<lambda>sl. ?D (fst sl)) (\<lambda>sl. ?O (fst sl))" for f
    by (rule runs_set_local)
  have call: "leads (\<lambda>sl. ?O (fst sl)) (with_locals (repository_call sv m)) (\<lambda>sl. ?D (fst sl)) (\<lambda>sl. ?O (fst sl))"
    if "\<And>t. forward ops good (m t)" for m
    by (rule runs_with_locals repository_call_owns that DD | assumption)+
  have hold: "leads (\<lambda>sl. ?O (fst sl)) (with_locals (hold_decision sv c l category detail)) (\<lambda>sl. ?D (fst sl)) (\<lambda>sl. ?D (fst sl))"
    for l category detail
    by (rule runs_with_locals, rule runs_weaken [OF hold_decision_ok [OF sv, of "Suc n"]]) (simp_all add: OD)
  have eligible: "leads (\<lambda>sl. ?O (fst sl)) (with_locals (bind_op (runtime_now sv) (\<lambda>now. on_world (m now))))
      (\<lambda>sl. ?D (fst sl)) (\<lambda>sl. ?O (fst sl))" for m
    by (rule runs_with_locals runs_bind runs_now runs_on_world world_free_dispatches OD | assumption)+
  have dispatch: "leads (\<lambda>sl. ?O (fst sl)) (with_locals (dispatch_cycle sv (cdc_decision_key c) snap ctx v))
      (\<lambda>sl. ?D (fst sl)) (\<lambda>sl. ?D (fst sl))" for snap ctx v
    by (rule runs_with_locals dispatch_cycle_ok)+
  have finish: "leads (\<lambda>sl. ?D (fst sl)) (bind_op (with_locals (store_decision sv rec st category detail)) (\<lambda>r.
      bind_op (with_locals (update_op (\<lambda>s. s\<lparr>rt_last_completed_cycle_id := x, rt_last_failure := y\<rparr>))) (\<lambda>_. ret r)))
      (\<lambda>sl. ?D (fst sl)) (\<lambda>sl. ?D (fst sl))" for rec st category detail x y
    by (rule runs_bind [where R = "\<lambda>sl. ?D (fst sl)"] runs_with_locals store_decision_ok [OF sv] runs_update
        runs_ret | assumption | simp add: dispatches_ok_def)+
  have front: "leads (\<lambda>sl. ?O (fst sl)) (bind_op m f) (\<lambda>sl. ?D (fst sl)) (\<lambda>sl. ?D (fst sl))"
    if "leads (\<lambda>sl. ?O (fst sl)) m (\<lambda>sl. ?D (fst sl)) (\<lambda>sl. ?O (fst sl))"
      "\<And>x. leads (\<lambda>sl. ?O (fst sl)) (f x) (\<lambda>sl. ?D (fst sl)) (\<lambda>sl. ?D (fst sl))"
    for m :: "(('r, 'w) runtime \<times> process_locals, 'x) op" and f :: "'x \<Rightarrow> (('r, 'w) runtime \<times> process_locals, 'y) op"
    using that by (rule runs_bind)
  have bind: "forward ops good (ro_bind_snapshot (sv_repository sv) k snap t)"
    "forward ops good (ro_mark_processing (sv_repository sv) k t)" for k snap t
    by (simp_all add: sv bind_forward processing_forward)
  show ?thesis
    unfolding process_body_def
    by (rule runs_if hold runs_bind [OF dispatch finish] front world risk lift set call eligible bind)+
qed

lemma process_failure_ok:
  fixes sv :: "('r, 'w) runtime_services"
  assumes sv: "sv_repository sv = ops"
  shows "leads (dispatches_ok ops good n) (process_failure sv c l e) (dispatches_ok ops good n) (dispatches_ok ops good n)"
proof -
  have "leads (dispatches_ok ops good n) (bind_op (hold_decision sv c l category detail) (\<lambda>r. ret (Some r)))
      (dispatches_ok ops good n) (dispatches_ok ops good n)"
    "leads (dispatches_ok ops good n) (bind_op (fail_claim sv c l category detail) (\<lambda>r. ret None :: (('r, 'w) runtime, continuous_decision_record option) op))
      (dispatches_ok ops good n) (dispatches_ok ops good n)" for l category detail
    by (rule runs_bind [where R = "dispatches_ok ops good n"] hold_decision_ok [OF sv] fail_claim_ok [OF sv] runs_ret
        | assumption)+
  then show ?thesis
    unfolding process_failure_def Let_def by (auto split: py_exception.split intro: runs_raise)
qed

lemma claim_owns:
  "leads (dispatches_ok ops good n) (on_repository (ro_claim ops k t)) (dispatches_ok ops good n) (owns ops good n k)"
proof (rule runsI)
  fix s :: "('r, 'w) runtime" and e u
  assume "dispatches_ok ops good n s" "on_repository (ro_claim ops k t) s = (Inl e, u)"
  with runs_raised [OF leads_forward [OF claim_forward], of n "dispatches_ok ops good n"]
  show "dispatches_ok ops good n u" by blast
next
  fix s :: "('r, 'w) runtime" and x u
  assume s: "dispatches_ok ops good n s" and run: "on_repository (ro_claim ops k t) s = (Inr x, u)"
  then obtain v where v: "ro_claim ops k t (rt_repository s) = (Inr x, v)" "u = s\<lparr>rt_repository := v\<rparr>"
    by (auto simp: on_repository_def split: prod.splits)
  have g: "good (rt_repository s)" using s by (simp add: dispatches_ok_def)
  note once = claim_once [OF g v(1)]
  have "ro_get_claim ops v k = Some x" using about_keyD(4) [OF claim_about g v(1) refl] .
  moreover have "k \<notin> set (rt_dispatched s)" using s once by (auto simp: dispatches_ok_def)
  moreover have "dispatches_ok ops good n u" using forward_step(1) [OF claim_forward s v(1)] by (simp add: v(2))
  ultimately show "owns ops good n k u" using once by (simp add: owns_def v(2))
qed

lemma process_candle_ok:
  fixes sv :: "('r, 'w) runtime_services"
  assumes sv: "sv_repository sv = ops"
  shows "leads (dispatches_ok ops good n) (process_candle sv c) (dispatches_ok ops good (Suc n)) (dispatches_ok ops good (Suc n))"
proof -
  let ?D = "dispatches_ok ops good (Suc n)" and ?O = "owns ops good n (cdc_decision_key c)"
  note DD = dispatches_Suc
  have body: "leads ?O (\<lambda>s. case process_body sv c (s, no_locals) of
       (Inr r, t, l) \<Rightarrow> (Inr (Some r), t) | (Inl e, t, l) \<Rightarrow> process_failure sv c l e t) ?D ?D"
  proof -
    have run: "case process_body sv c (s, no_locals) of (x, t, l) \<Rightarrow> ?D t" if "?O s" for s
      using runsD [OF process_body_ok [OF sv], of n c "(s, no_locals)"] that
      by (auto split: prod.splits sum.splits)
    show ?thesis
    proof (rule runsI)
      fix s e t
      assume "?O s" and out: "(case process_body sv c (s, no_locals) of
       (Inr r, t, l) \<Rightarrow> (Inr (Some r), t) | (Inl e, t, l) \<Rightarrow> process_failure sv c l e t) = (Inl e, t)"
      with run [OF \<open>?O s\<close>] show "?D t"
        by (auto split: prod.splits sum.splits dest: runs_raised [OF process_failure_ok [OF sv]])
    next
      fix s x t
      assume "?O s" and out: "(case process_body sv c (s, no_locals) of
       (Inr r, t, l) \<Rightarrow> (Inr (Some r), t) | (Inl e, t, l) \<Rightarrow> process_failure sv c l e t) = (Inr x, t)"
      with run [OF \<open>?O s\<close>] show "?D t"
        by (auto split: prod.splits sum.splits dest: runs_returned [OF process_failure_ok [OF sv]])
    qed
  qed
  have claim: "leads (dispatches_ok ops good n) (repository_call sv (ro_claim ops (cdc_decision_key c))) ?D ?O"
    unfolding repository_call_def
    by (rule runs_bind runs_now world_free_dispatches runs_weaken [OF claim_owns] | assumption | erule DD)+
  show ?thesis
    unfolding process_candle_def sv
    by (rule runs_bind [OF leads_forward [OF discover_forward]], erule DD,
        rule runs_bind [OF claim], rule runs_bind [OF runs_update body])
      (simp add: owns_def dispatches_ok_def)
qed

lemma record_all_missed:
  assumes "sv_repository sv = ops"
  shows "leads (dispatches_ok ops good n) (for_each (record_missed sv category) cs) (dispatches_ok ops good n)
    (dispatches_ok ops good n)"
  by (rule runs_for_each record_missed_ok [OF assms])+

lemma poll_body_ok:
  fixes sv :: "('r, 'w) runtime_services"
  assumes sv: "sv_repository sv = ops"
  shows "leads (dispatches_ok ops good n) (poll_body sv) (dispatches_ok ops good (Suc n)) (dispatches_ok ops good (Suc n))"
proof -
  let ?D = "dispatches_ok ops good n" and ?E = "dispatches_ok ops good (Suc n)"
  have missed: "leads ?D (for_each (record_missed sv category) cs) ?E ?D" for category cs
    by (rule runs_weaken [OF record_all_missed [OF sv]]) (simp_all add: dispatches_Suc)
  have last: "leads ?D (case rev timely of [] \<Rightarrow> ret []
     | c # skipped \<Rightarrow> bind_op (for_each (record_missed sv category) (rev skipped)) (\<lambda>_.
         bind_op (process_candle sv c) (\<lambda>r. ret (f r)))) ?E ?E" for timely category f
    by (cases "rev timely")
      (auto intro!: runs_bind [OF missed] runs_bind [OF process_candle_ok [OF sv]] runs_ret simp: dispatches_Suc)
  have rest: "leads ?D (bind_op (for_each (record_missed sv category) cs) (\<lambda>_. case rev timely of [] \<Rightarrow> ret []
     | c # skipped \<Rightarrow> bind_op (for_each (record_missed sv category') (rev skipped)) (\<lambda>_.
         bind_op (process_candle sv c) (\<lambda>r. ret (f r))))) ?E ?E" for cs timely category category' f
    by (rule runs_bind [OF missed last])
  have "leads ?D (on_world (sv_poll sv)) ?E ?D"
    by (rule runs_on_world world_free_dispatches | erule dispatches_Suc)+
  then show ?thesis
    unfolding poll_body_def
    by (rule runs_bind) (use rest in \<open>unfold runs_unfold Let_def, blast\<close>)
qed

lemma poll_once_ok:
  fixes sv :: "('r, 'w) runtime_services"
  assumes sv: "sv_repository sv = ops" and s: "dispatches_ok ops good n s" and run: "poll_once sv s = (r, t)"
  shows "dispatches_ok ops good (Suc n) t"
proof -
  have finish: "dispatches_ok ops good m (finish_poll u) = dispatches_ok ops good m u"
    "dispatches_ok ops good m (u\<lparr>rt_last_failure := x\<rparr>) = dispatches_ok ops good m u" for m x and u :: "('r, 'w) runtime"
    by (simp_all add: dispatches_ok_def finish_poll_def)
  have poll: "leads (dispatches_ok ops good n) (\<lambda>s. case poll_body sv (s\<lparr>rt_last_poll_at := Some now\<rparr>) of
      (Inl e, t) \<Rightarrow> (case e of
          ObservationRuntimeError category m \<Rightarrow> (Inr [], finish_poll (t\<lparr>rt_last_failure := Some category\<rparr>))
        | _ \<Rightarrow> (Inl e, finish_poll t))
    | (Inr rs, t) \<Rightarrow> (Inr rs, finish_poll t)) (dispatches_ok ops good (Suc n)) (dispatches_ok ops good (Suc n))" for now
  proof -
    have body: "dispatches_ok ops good (Suc n) u"
      if "dispatches_ok ops good n s" "poll_body sv (s\<lparr>rt_last_poll_at := Some now\<rparr>) = (x, u)" for s x u
    proof -
      have "dispatches_ok ops good n (s\<lparr>rt_last_poll_at := Some now\<rparr>)" using that(1) by (simp add: dispatches_ok_def)
      from runsD [OF poll_body_ok [OF sv] this that(2)] show ?thesis by (cases x) simp_all
    qed
    show ?thesis
      by (rule runsI) (auto simp: finish dest!: body split: prod.splits sum.splits py_exception.splits)
  qed
  have "leads (dispatches_ok ops good n) (poll_once sv) (dispatches_ok ops good (Suc n)) (dispatches_ok ops good (Suc n))"
  proof -
    have "leads (dispatches_ok ops good n) (bind_op (update_op (\<lambda>s. s\<lparr>rt_processing := True,
        rt_state := continuous_runtime_state.POLLING\<rparr>)) (\<lambda>_. bind_op (runtime_now sv) (\<lambda>now s.
        case poll_body sv (s\<lparr>rt_last_poll_at := Some now\<rparr>) of
          (Inl e, t) \<Rightarrow> (case e of
              ObservationRuntimeError category m \<Rightarrow> (Inr [], finish_poll (t\<lparr>rt_last_failure := Some category\<rparr>))
            | _ \<Rightarrow> (Inl e, finish_poll t))
        | (Inr rs, t) \<Rightarrow> (Inr rs, finish_poll t)))) (dispatches_ok ops good (Suc n)) (dispatches_ok ops good (Suc n))"
      by (rule runs_bind [where R = "dispatches_ok ops good n"] runs_update runs_now world_free_dispatches poll
          | erule dispatches_Suc | simp add: dispatches_ok_def)+
    then show ?thesis
      unfolding runs_unfold poll_once_def by (auto simp: dispatches_Suc finish split: sum.splits)
  qed
  from runsD [OF this s run] show ?thesis by (cases r) simp_all
qed

lemma start_outcome_ok: "dispatches_ok ops good n (snd (start_outcome now rt)) = dispatches_ok ops good n (snd rt)"
proof (cases "fst rt")
  case (Inl e)
  then show ?thesis by (cases e) (simp_all add: start_outcome_def dispatches_ok_def)
qed (simp add: start_outcome_def dispatches_ok_def)

lemma start_ok:
  fixes sv :: "('r, 'w) runtime_services"
  assumes sv: "sv_repository sv = ops" and s: "dispatches_ok ops good n s" and run: "start_runtime sv s = (r, t)"
  shows "dispatches_ok ops good n t"
proof -
  let ?D = "dispatches_ok ops good n"
  have recover: "leads ?D (bind_op (lift_op el) (\<lambda>_. on_repository (ro_recover_incomplete ops at'))) ?D ?D"
    for el :: "symbol_timestamp_acceptance_record fallible" and at'
    by (rule runs_bind [where R = ?D], rule runs_lift, assumption, assumption, rule leads_forward, rule recover_forward)
  have outcome: "leads ?D (\<lambda>s. start_outcome now (m s)) ?D ?D" if "leads ?D m ?D ?D"
    for m :: "(('r, 'w) runtime, decision_candle_claim list) op" and now
  proof (rule runsI)
    fix s e t
    assume "?D s" "start_outcome now (m s) = (Inl e, t)"
    moreover have "?D (snd (m s))" using runsD [OF that \<open>?D s\<close> prod.collapse [symmetric]] by (cases "fst (m s)") simp_all
    ultimately show "?D t" using start_outcome_ok [of n now "m s"] by simp
  next
    fix s x t
    assume "?D s" "start_outcome now (m s) = (Inr x, t)"
    moreover have "?D (snd (m s))" using runsD [OF that \<open>?D s\<close> prod.collapse [symmetric]] by (cases "fst (m s)") simp_all
    ultimately show "?D t" using start_outcome_ok [of n now "m s"] by simp
  qed
  have "leads ?D (bind_op (update_op (\<lambda>s. s\<lparr>rt_state := continuous_runtime_state.STARTING\<rparr>)) (\<lambda>_.
      bind_op (runtime_now sv) (\<lambda>now s. start_outcome now
        (bind_op (lift_op (sv_symbol_eligibility sv (sv_symbol sv) (sv_account_ref sv) (sv_adapter_version sv) (Aware now)))
            (\<lambda>_. on_repository (ro_recover_incomplete ops (Aware now))) s)))) ?D ?D"
    by (rule runs_bind [where R = ?D], rule runs_update, simp add: dispatches_ok_def,
        rule runs_bind [where R = ?D], rule runs_now [OF world_free_dispatches(1)], assumption, rule outcome, rule recover)
  then show ?thesis
    using s run unfolding start_runtime_def sv by (cases r) (auto split: if_splits dest: runs_raised runs_returned)
qed

end

section \<open>Claims that a poll leaves behind\<close>

text \<open>Every claim outside a set of keys has ended.\<close>

definition settled :: "'r repository_operations \<Rightarrow> ('r \<Rightarrow> bool) \<Rightarrow> string set \<Rightarrow> ('r, 'w) runtime \<Rightarrow> bool" where
  "settled ops good B s \<longleftrightarrow> good (rt_repository s) \<and> (\<forall>k. k \<notin> B \<longrightarrow>
     ro_get_claim ops (rt_repository s) k \<noteq> None \<longrightarrow> ended (ro_get_claim ops (rt_repository s) k))"

lemma world_free_settled: "world_free (settled ops good B)"
  by (simp add: world_free_def settled_def)

lemma settled_insert: "settled ops good B s \<Longrightarrow> settled ops good (insert k B) s"
  by (auto simp: settled_def)

context claim_repository
begin

lemma settled_kept:
  assumes "settled ops good B s" "good u"
    and "\<And>k. k \<notin> B' \<Longrightarrow> k \<in> B \<or> ro_get_claim ops u k \<noteq> ro_get_claim ops (rt_repository s) k \<Longrightarrow> ended (ro_get_claim ops u k)"
  shows "settled ops good B' (s\<lparr>rt_repository := u\<rparr>)"
  unfolding settled_def
proof (intro conjI allI impI)
  show "good (rt_repository (s\<lparr>rt_repository := u\<rparr>))" using assms(2) by simp
  fix k
  assume k: "k \<notin> B'" "ro_get_claim ops (rt_repository (s\<lparr>rt_repository := u\<rparr>)) k \<noteq> None"
  show "ended (ro_get_claim ops (rt_repository (s\<lparr>rt_repository := u\<rparr>)) k)"
  proof (cases "k \<in> B \<or> ro_get_claim ops u k \<noteq> ro_get_claim ops (rt_repository s) k")
    case True
    with assms(3) [OF k(1)] show ?thesis by simp
  next
    case False
    with k assms(1) show ?thesis unfolding settled_def by simp
  qed
qed

lemma settled_about:
  assumes "about_key good (ro_get_claim ops) k m"
  shows "runs (settled ops good (insert k B)) (on_repository m) (\<lambda>_. settled ops good (insert k B))
    (settled ops good (insert k B))"
proof -
  have "settled ops good (insert k B) (s\<lparr>rt_repository := u\<rparr>)"
    if "settled ops good (insert k B) s" "m (rt_repository s) = (x, u)" for s x u
  proof (rule settled_kept [OF that(1)])
    note about = about_keyD [OF assms _ that(2)]
    show "good u" using about(1) that(1) by (simp add: settled_def)
    show "ended (ro_get_claim ops u k')" if "k' \<notin> insert k B"
      "k' \<in> insert k B \<or> ro_get_claim ops u k' \<noteq> ro_get_claim ops (rt_repository s) k'" for k'
      using about(2) [of k'] \<open>settled ops good (insert k B) s\<close> that by (simp add: settled_def)
  qed
  then show ?thesis unfolding runs_unfold on_repository_def by (auto split: prod.splits sum.splits)
qed

lemma settled_call:
  assumes "\<And>t. about_key good (ro_get_claim ops) k (m t)"
  shows "runs (settled ops good (insert k B)) (repository_call sv m) (\<lambda>_. settled ops good (insert k B))
    (settled ops good (insert k B))"
  unfolding repository_call_def
  by (rule runs_bind, rule runs_now [OF world_free_settled], assumption, rule settled_about [OF assms])

lemma settled_discover:
  "runs (settled ops good B) (on_repository (ro_discover ops c)) (\<lambda>_. settled ops good B)
     (settled ops good (insert (cdc_decision_key c) B))"
proof (rule runsI)
  fix s e t
  assume s: "settled ops good B s" and run: "on_repository (ro_discover ops c) s = (Inl e, t)"
  then obtain u where u: "ro_discover ops c (rt_repository s) = (Inl e, u)" "t = s\<lparr>rt_repository := u\<rparr>"
    by (auto simp: on_repository_def split: prod.splits)
  have g: "good (rt_repository s)" using s by (simp add: settled_def)
  note about = about_keyD [OF discover_about g u(1)]
  have "ro_get_claim ops u k = ro_get_claim ops (rt_repository s) k" for k
    using about(2,3) by (cases "k = cdc_decision_key c") auto
  then show "settled ops good B t" using s about(1) by (simp add: settled_def u(2))
next
  fix s x t
  assume s: "settled ops good B s" and "on_repository (ro_discover ops c) s = (Inr x, t)"
  with runs_returned [OF settled_about [OF discover_about] settled_insert]
  show "settled ops good (insert (cdc_decision_key c) B) t" by blast
qed

lemma settled_terminal:
  "runs (settled ops good (insert k B)) (repository_call sv (\<lambda>t. ro_mark_terminal ops k st t category detail))
     (\<lambda>e s. \<not> observation_error e \<and> settled ops good (insert k B) s) (settled ops good B)"
  unfolding repository_call_def
proof (rule runs_bind)
  show "runs (settled ops good (insert k B)) (runtime_now sv)
      (\<lambda>e s. \<not> observation_error e \<and> settled ops good (insert k B) s) (settled ops good (insert k B))"
    by (rule runs_now [OF world_free_settled]) (simp add: observation_error_def)
  fix now
  show "runs (settled ops good (insert k B)) (on_repository (ro_mark_terminal ops k st (Aware now) category detail))
     (\<lambda>e s. \<not> observation_error e \<and> settled ops good (insert k B) s) (settled ops good B)"
  proof (rule runsI)
    fix s e t
    assume s: "settled ops good (insert k B) s"
      and run: "on_repository (ro_mark_terminal ops k st (Aware now) category detail) s = (Inl e, t)"
    then obtain u where u: "ro_mark_terminal ops k st (Aware now) category detail (rt_repository s) = (Inl e, u)"
      by (auto simp: on_repository_def split: prod.splits)
    have g: "good (rt_repository s)" using s by (simp add: settled_def)
    show "\<not> observation_error e \<and> settled ops good (insert k B) t"
      using terminal_error [OF g u] runs_raised [OF settled_about [OF terminal_about] s run] by blast
  next
    fix s x t
    assume s: "settled ops good (insert k B) s"
      and run: "on_repository (ro_mark_terminal ops k st (Aware now) category detail) s = (Inr x, t)"
    then obtain u where u: "ro_mark_terminal ops k st (Aware now) category detail (rt_repository s) = (Inr x, u)"
      "t = s\<lparr>rt_repository := u\<rparr>"
      by (auto simp: on_repository_def split: prod.splits)
    have g: "good (rt_repository s)" using s by (simp add: settled_def)
    note about = about_keyD [OF terminal_about g u(1)]
    have ended: "ended (ro_get_claim ops u k)" using about(4) [OF refl] terminal_ended [OF g u(1)] by simp
    show "settled ops good B t"
      unfolding u(2)
    proof (rule settled_kept [OF s about(1)])
      show "ended (ro_get_claim ops u k')" if "k' \<notin> B"
        "k' \<in> insert k B \<or> ro_get_claim ops u k' \<noteq> ro_get_claim ops (rt_repository s) k'" for k'
        using that ended about(2) [of k'] by (cases "k' = k") simp_all
    qed
  qed
qed

lemma settled_store:
  assumes sv: "sv_repository sv = ops" and key: "\<And>now. cdr_decision_key (rec now) = k"
  shows "runs (settled ops good (insert k B)) (store_decision sv rec st category detail)
     (\<lambda>e s. \<not> observation_error e \<and> settled ops good (insert k B) s) (settled ops good B)"
proof -
  let ?I = "settled ops good (insert k B)" and ?E = "\<lambda>e s. \<not> observation_error e \<and> settled ops good (insert k B) s"
  have append: "runs ?I (on_repository (ro_append_decision ops d)) ?E ?I" if "ok_continuous_decision_record d" for d
  proof (rule runsI)
    fix s e t
    assume "?I s" "on_repository (ro_append_decision ops d) s = (Inl e, t)"
    then obtain u where u: "ro_append_decision ops d (rt_repository s) = (Inl e, u)" "t = s\<lparr>rt_repository := u\<rparr>"
      by (auto simp: on_repository_def split: prod.splits)
    have g: "good (rt_repository s)" using \<open>?I s\<close> by (simp add: settled_def)
    show "?E e t" using append_error [OF g u(1)] append_keeps [OF g that u(1)] \<open>?I s\<close> by (simp add: settled_def u(2))
  next
    fix s x t
    assume "?I s" "on_repository (ro_append_decision ops d) s = (Inr x, t)"
    then obtain u where u: "ro_append_decision ops d (rt_repository s) = (Inr x, u)" "t = s\<lparr>rt_repository := u\<rparr>"
      by (auto simp: on_repository_def split: prod.splits)
    have g: "good (rt_repository s)" using \<open>?I s\<close> by (simp add: settled_def)
    show "?I t" using append_keeps [OF g that u(1)] \<open>?I s\<close> by (simp add: settled_def u(2))
  qed
  show ?thesis
    unfolding store_decision_def sv
  proof (rule runs_bind)
    show "runs ?I (runtime_now sv) ?E ?I"
      by (rule runs_now [OF world_free_settled]) (simp add: observation_error_def)
    show "runs ?I (bind_op (lift_op (build ''ContinuousDecisionRecord'' ok_continuous_decision_record (rec now))) (\<lambda>r.
     bind_op (on_repository (ro_append_decision ops r)) (\<lambda>_.
     bind_op (repository_call sv (\<lambda>t. ro_mark_terminal ops (cdr_decision_key r) st t category detail))
       (\<lambda>_. ret r)))) ?E (settled ops good B)" for now
    proof (rule runs_build)
      show "\<not> observation_error (ValidationError m) \<and> ?I s" if "?I s" for m s
        using that by (simp add: observation_error_def)
      assume ok: "ok_continuous_decision_record (rec now)"
      show "runs ?I (bind_op (on_repository (ro_append_decision ops (rec now))) (\<lambda>_.
         bind_op (repository_call sv (\<lambda>t. ro_mark_terminal ops (cdr_decision_key (rec now)) st t category detail))
           (\<lambda>_. ret (rec now)))) ?E (settled ops good B)"
        unfolding key
        by (rule runs_bind [OF append [OF ok]], rule runs_bind [OF settled_terminal], rule runs_ret)
    qed
  qed
qed

end

abbreviation only_settled :: "'r repository_operations \<Rightarrow> ('r \<Rightarrow> bool) \<Rightarrow> string set \<Rightarrow> py_exception \<Rightarrow> ('r, 'w) runtime \<Rightarrow> bool" where
  "only_settled ops good B \<equiv> \<lambda>e s. observation_error e \<longrightarrow> settled ops good B s"

context claim_repository
begin

lemma settled_hold:
  assumes "sv_repository sv = ops"
  shows "runs (settled ops good (insert (cdc_decision_key c) B)) (hold_decision sv c l category detail)
     (\<lambda>e s. \<not> observation_error e \<and> settled ops good (insert (cdc_decision_key c) B) s) (settled ops good B)"
  unfolding hold_decision_def
  by (rule runs_bind, rule settled_store [OF assms], simp add: decision_of_def,
      rule runs_bind [where R = "settled ops good B"], rule runs_update, simp add: settled_def, rule runs_ret)

lemma settled_fail:
  assumes "sv_repository sv = ops"
  shows "runs (settled ops good (insert (cdc_decision_key c) B)) (fail_claim sv c l category detail)
     (\<lambda>e s. \<not> observation_error e \<and> settled ops good (insert (cdc_decision_key c) B) s) (settled ops good B)"
proof -
  have store: "runs (settled ops good (insert (cdc_decision_key c) B))
      (bind_op (store_decision sv rec st category' detail') (\<lambda>_. update_op (\<lambda>s. s\<lparr>rt_last_failure := f\<rparr>)))
      (\<lambda>e s. \<not> observation_error e \<and> settled ops good (insert (cdc_decision_key c) B) s) (settled ops good B)"
    if "\<And>now. cdr_decision_key (rec now) = cdc_decision_key c" for rec st category' detail' f
    by (rule runs_bind [OF settled_store [OF assms that] runs_update]) (simp add: settled_def)
  show ?thesis unfolding fail_claim_def Let_def runs_unfold
    by (intro allI impI, rule runsD [OF store]) (simp_all add: decision_of_def)
qed

lemma settled_failure:
  fixes sv :: "('r, 'w) runtime_services"
  assumes sv: "sv_repository sv = ops"
  shows "runs (settled ops good (insert (cdc_decision_key c) B)) (process_failure sv c l e) (only_settled ops good B)
    (settled ops good B)"
proof -
  have E: "runs P m (\<lambda>e s. \<not> observation_error e \<and> R e s) Q \<Longrightarrow> runs P m (only_settled ops good B) Q"
    for P R Q and m :: "(('r, 'w) runtime, 'a) op"
    by (erule runs_weaken) auto
  have "runs (settled ops good (insert (cdc_decision_key c) B)) (bind_op (hold_decision sv c l category detail) (\<lambda>r. ret (Some r)))
      (only_settled ops good B) (settled ops good B)"
    "runs (settled ops good (insert (cdc_decision_key c) B))
      (bind_op (fail_claim sv c l category detail) (\<lambda>r. ret None :: (('r, 'w) runtime, continuous_decision_record option) op))
      (only_settled ops good B) (settled ops good B)" for l category detail
    by (rule runs_bind [OF E [OF settled_hold [OF sv]] runs_ret], assumption,
        rule runs_bind [OF E [OF settled_fail [OF sv]] runs_ret], assumption)
  moreover have "runs P (raise_op ProcessExit) (only_settled ops good B) Q" for P Q
    by (rule runs_raise) (simp add: observation_error_def)
  ultimately show ?thesis
    unfolding process_failure_def Let_def by (cases e) (simp_all only: py_exception.case split: if_split, simp_all)
qed

lemma settled_body:
  fixes sv :: "('r, 'w) runtime_services"
  assumes sv: "sv_repository sv = ops"
  shows "leads (\<lambda>sl. settled ops good (insert (cdc_decision_key c) B) (fst sl)) (process_body sv c)
    (\<lambda>sl. settled ops good (insert (cdc_decision_key c) B) (fst sl)) (\<lambda>sl. settled ops good B (fst sl))"
proof -
  let ?I = "settled ops good (insert (cdc_decision_key c) B)" and ?S = "settled ops good B"
  let ?L = "\<lambda>m. leads (\<lambda>sl. ?I (fst sl)) m (\<lambda>sl. ?I (fst sl)) (\<lambda>sl. ?I (fst sl))"
  have world: "?L (with_locals (on_world m))" for m
    by (rule runs_with_locals runs_on_world world_free_settled | assumption)+
  have risk: "?L (\<lambda>sl. with_locals (on_world (m (rt_repository (fst sl)))) sl)" for m
    using world unfolding runs_unfold by blast
  have lift: "?L (lift_op m)" for m by (rule runs_lift)
  have set: "?L (set_local f)" for f by (rule runs_set_local)
  have call: "?L (with_locals (repository_call sv m))"
    if "\<And>t. about_key good (ro_get_claim ops) (cdc_decision_key c) (m t)" for m
    by (rule runs_with_locals settled_call that)+
  have eligible: "?L (with_locals (bind_op (runtime_now sv) (\<lambda>now. on_world (m now))))" for m
    by (rule runs_with_locals runs_bind runs_now runs_on_world world_free_settled | assumption)+
  have dispatch: "?L (with_locals (dispatch_cycle sv key snap ctx v))" for key snap ctx v
    unfolding dispatch_cycle_def
    by (rule runs_with_locals runs_bind [where R = ?I] runs_update runs_on_world world_free_settled
        | assumption | simp add: settled_def overlap_fields)+
  have E: "leads P m (\<lambda>s. ?I s) Q" if "runs P m (\<lambda>e s. \<not> observation_error e \<and> ?I s) Q" for P Q and m :: "(('r, 'w) runtime, 'a) op"
    by (rule runs_weaken [OF that]) auto
  have hold: "leads (\<lambda>sl. ?I (fst sl)) (with_locals (hold_decision sv c l category detail)) (\<lambda>sl. ?I (fst sl)) (\<lambda>sl. ?S (fst sl))"
    for l category detail
    by (rule runs_with_locals [OF E [OF settled_hold [OF sv]]])
  have finish: "leads (\<lambda>sl. ?I (fst sl)) (bind_op (with_locals (store_decision sv rec st category detail)) (\<lambda>r.
      bind_op (with_locals (update_op (\<lambda>s. s\<lparr>rt_last_completed_cycle_id := x, rt_last_failure := y\<rparr>))) (\<lambda>_. ret r)))
      (\<lambda>sl. ?I (fst sl)) (\<lambda>sl. ?S (fst sl))" if "\<And>now. cdr_decision_key (rec now) = cdc_decision_key c"
    for rec st category detail x y
    by (rule runs_bind [OF runs_with_locals [OF E [OF settled_store [OF sv that]]]])
      (rule runs_bind [where R = "\<lambda>sl. ?S (fst sl)"] runs_with_locals runs_update runs_ret
        | assumption | simp add: settled_def)+
  have front: "leads (\<lambda>sl. ?I (fst sl)) (bind_op m f) (\<lambda>sl. ?I (fst sl)) (\<lambda>sl. ?S (fst sl))"
    if "?L m" "\<And>x. leads (\<lambda>sl. ?I (fst sl)) (f x) (\<lambda>sl. ?I (fst sl)) (\<lambda>sl. ?S (fst sl))"
    for m :: "(('r, 'w) runtime \<times> process_locals, 'x) op" and f :: "'x \<Rightarrow> (('r, 'w) runtime \<times> process_locals, 'y) op"
    using that by (rule runs_bind)
  show ?thesis
    unfolding process_body_def sv
    by (rule runs_if hold runs_bind [OF dispatch finish] front world risk lift set call eligible bind_about
        processing_about | simp add: decision_of_def)+
qed

lemma settled_candle:
  fixes sv :: "('r, 'w) runtime_services"
  assumes sv: "sv_repository sv = ops"
  shows "runs (settled ops good B) (process_candle sv c) (only_settled ops good B) (settled ops good B)"
proof -
  let ?k = "cdc_decision_key c"
  let ?I = "settled ops good (insert ?k B)" and ?S = "settled ops good B" and ?E = "only_settled ops good B"
  have body: "runs ?I (\<lambda>s. case process_body sv c (s, no_locals) of
       (Inr r, t, l) \<Rightarrow> (Inr (Some r), t) | (Inl e, t, l) \<Rightarrow> process_failure sv c l e t) ?E ?S"
    unfolding runs_unfold
  proof (intro allI impI)
    fix s x t
    assume "?I s" and out: "(case process_body sv c (s, no_locals) of
       (Inr r, t, l) \<Rightarrow> (Inr (Some r), t) | (Inl e, t, l) \<Rightarrow> process_failure sv c l e t) = (x, t)"
    obtain y u l where run: "process_body sv c (s, no_locals) = (y, u, l)" using prod_cases3 by blast
    from runsD [OF settled_body [OF sv, where B = B] _ run] \<open>?I s\<close>
    have y: "case y of Inl e \<Rightarrow> ?I u | Inr r \<Rightarrow> ?S u" by (cases y) simp_all
    show "case x of Inl e \<Rightarrow> ?E e t | Inr r \<Rightarrow> ?S t"
    proof (cases y)
      case (Inl e)
      with out run y show ?thesis by (intro runsD [OF settled_failure [OF sv]]) auto
    next
      case (Inr r)
      with out run y show ?thesis by auto
    qed
  qed
  have discover: "runs ?S (on_repository (ro_discover ops c)) ?E ?I"
    by (rule runs_weaken [OF settled_discover]) auto
  have claim: "runs ?I (repository_call sv (ro_claim ops ?k)) ?E ?I"
    unfolding repository_call_def
  proof (rule runs_bind)
    show "runs ?I (runtime_now sv) ?E ?I"
      by (rule runs_now [OF world_free_settled]) (simp add: observation_error_def)
    show "runs ?I (on_repository (ro_claim ops ?k (Aware now))) ?E ?I" for now
    proof (rule runsI)
      fix s e t
      assume s: "?I s" and "on_repository (ro_claim ops ?k (Aware now)) s = (Inl e, t)"
      then obtain u where "ro_claim ops ?k (Aware now) (rt_repository s) = (Inl e, u)"
        by (auto simp: on_repository_def split: prod.splits)
      with claim_error s show "?E e t" by (auto simp: settled_def)
    qed (rule runs_returned [OF settled_about [OF claim_about]])
  qed
  show ?thesis
    unfolding process_candle_def sv
    by (rule runs_bind [OF discover], rule runs_bind [OF claim], rule runs_bind [OF runs_update body])
      (simp add: settled_def)
qed

lemma settled_missed:
  fixes sv :: "('r, 'w) runtime_services"
  assumes sv: "sv_repository sv = ops"
  shows "runs (settled ops good B) (record_missed sv category c) (only_settled ops good B) (settled ops good B)"
proof -
  have discover: "runs (settled ops good B) (on_repository (ro_discover ops c)) (only_settled ops good B)
      (settled ops good (insert (cdc_decision_key c) B))"
    by (rule runs_weaken [OF settled_discover]) auto
  have terminal: "runs (settled ops good (insert (cdc_decision_key c) B)) (repository_call sv
        (\<lambda>t. ro_mark_terminal ops (cdc_decision_key c) st t category' detail)) (only_settled ops good B) (settled ops good B)"
    for st category' detail
    by (rule runs_weaken [OF settled_terminal]) auto
  show ?thesis
    unfolding record_missed_def sv
    by (rule runs_bind [OF discover], rule runs_bind [OF terminal], rule runs_update, simp add: settled_def)
qed

lemma settled_poll_body:
  fixes sv :: "('r, 'w) runtime_services"
  assumes sv: "sv_repository sv = ops"
  shows "runs (settled ops good B) (poll_body sv) (only_settled ops good B) (settled ops good B)"
proof -
  let ?S = "settled ops good B" and ?E = "only_settled ops good B"
  have missed: "runs ?S (for_each (record_missed sv category) cs) ?E ?S" for category cs
    by (rule runs_for_each settled_missed [OF sv])+
  have last: "runs ?S (case rev timely of [] \<Rightarrow> ret []
     | c # skipped \<Rightarrow> bind_op (for_each (record_missed sv category) (rev skipped)) (\<lambda>_.
         bind_op (process_candle sv c) (\<lambda>r. ret (f r)))) ?E ?S" for timely category f
    by (cases "rev timely")
      (auto intro!: runs_bind [OF missed] runs_bind [OF settled_candle [OF sv]] runs_ret)
  have rest: "runs ?S (bind_op (for_each (record_missed sv category) cs) (\<lambda>_. case rev timely of [] \<Rightarrow> ret []
     | c # skipped \<Rightarrow> bind_op (for_each (record_missed sv category') (rev skipped)) (\<lambda>_.
         bind_op (process_candle sv c) (\<lambda>r. ret (f r))))) ?E ?S" for cs timely category category' f
    by (rule runs_bind [OF missed last])
  have "runs ?S (on_world (sv_poll sv)) ?E ?S"
    by (rule runs_on_world world_free_settled | simp)+
  then show ?thesis
    unfolding poll_body_def
    by (rule runs_bind) (use rest in \<open>unfold runs_unfold Let_def, blast\<close>)
qed

lemma settled_poll:
  fixes sv :: "('r, 'w) runtime_services"
  assumes sv: "sv_repository sv = ops" and s: "good (rt_repository s)" and run: "poll_once sv s = (Inr rs, t)"
    and none: "ro_get_claim ops (rt_repository s) k = None" and some: "ro_get_claim ops (rt_repository t) k = Some c"
  shows "dcc_state c \<in> set terminal_states"
proof -
  define B where "B = {k. ro_get_claim ops (rt_repository s) k \<noteq> None}"
  have start: "settled ops good B s" using s by (simp add: settled_def B_def)
  have keep: "settled ops good B (finish_poll u) = settled ops good B u"
    "settled ops good B (u\<lparr>rt_last_failure := x\<rparr>) = settled ops good B u" for x and u :: "('r, 'w) runtime"
    by (simp_all add: settled_def finish_poll_def)
  have "settled ops good B t"
  proof (cases "rt_processing s")
    case True
    with run start show ?thesis by (auto simp: poll_once_def settled_def)
  next
    case False
    let ?s = "s\<lparr>rt_processing := True, rt_state := continuous_runtime_state.POLLING\<rparr>"
    obtain now u where now: "runtime_now sv ?s = (Inr now, u)" and "rt_state s = continuous_runtime_state.READY"
      and body: "(case poll_body sv (u\<lparr>rt_last_poll_at := Some now\<rparr>) of
          (Inl e, t) \<Rightarrow> (case e of
              ObservationRuntimeError category m \<Rightarrow> (Inr [], finish_poll (t\<lparr>rt_last_failure := Some category\<rparr>))
            | _ \<Rightarrow> (Inl e, finish_poll t))
        | (Inr rs, t) \<Rightarrow> (Inr rs, finish_poll t)) = (Inr rs, t)"
      using run False by (auto simp: poll_once_def bind_op_def update_op_def split: if_splits sum.splits prod.splits)
    have "settled ops good B ?s" using start by (simp add: settled_def)
    from runs_returned [OF runs_now [OF world_free_settled] this now, of "\<lambda>_ _. True"]
    have u: "settled ops good B (u\<lparr>rt_last_poll_at := Some now\<rparr>)" by (simp add: settled_def)
    obtain y v where v: "poll_body sv (u\<lparr>rt_last_poll_at := Some now\<rparr>) = (y, v)" by fastforce
    note out = runsD [OF settled_poll_body [OF sv] u v]
    show ?thesis
    proof (cases y)
      case (Inr r)
      with body v out show ?thesis by (auto simp: keep)
    next
      case (Inl e)
      then obtain category m where e: "e = ObservationRuntimeError category m"
        using body v by (cases e) simp_all
      with body v out Inl show ?thesis by (auto simp: keep observation_error_def)
    qed
  qed
  then have "k \<notin> B \<longrightarrow> ended (ro_get_claim ops (rt_repository t) k)" using some by (auto simp: settled_def)
  with none some show ?thesis by (simp add: B_def ended_def)
qed

end

section \<open>Both repositories\<close>

lemma claim_op_about: "claim_op k m undo \<Longrightarrow> about_key observations_ok om_get_claim k m"
  unfolding about_key_def
proof (intro allI impI)
  fix r x u
  assume m: "claim_op k m undo" and r: "observations_ok r" and run: "m r = (x, u)"
  note c = m [unfolded claim_op_def, rule_format, OF r run]
  show "observations_ok u \<and> (\<forall>k'. k' \<noteq> k \<longrightarrow> om_get_claim u k' = om_get_claim r k') \<and>
      (case x of Inl e \<Rightarrow> om_get_claim u k = om_get_claim r k | Inr c \<Rightarrow> om_get_claim u k = Some c)"
  proof (cases x)
    case (Inl e)
    with c r show ?thesis by simp
  next
    case (Inr y)
    with c have "claim_change k undo r y u" by simp
    with claim_change_ok [OF r this] Inr show ?thesis by (auto simp: claim_change_def om_get_claim_def)
  qed
qed

lemma om_discover_about: "about_key observations_ok om_get_claim (cdc_decision_key c) (om_discover c)"
  unfolding about_key_def
proof (intro allI impI)
  fix r x u
  assume r: "observations_ok r" and run: "om_discover c r = (x, u)"
  show "observations_ok u \<and> (\<forall>k'. k' \<noteq> cdc_decision_key c \<longrightarrow> om_get_claim u k' = om_get_claim r k') \<and>
      (case x of Inl e \<Rightarrow> om_get_claim u (cdc_decision_key c) = om_get_claim r (cdc_decision_key c)
       | Inr y \<Rightarrow> om_get_claim u (cdc_decision_key c) = Some y)"
  proof (cases "map_of (om_claims r) (cdc_decision_key c)")
    case (Some y)
    with run r show ?thesis by (auto simp: om_discover_def om_get_claim_def split: if_splits)
  next
    case None
    show ?thesis
    proof (cases x)
      case (Inl e)
      with run None r have "u = r" by (auto simp: om_discover_def store_claim_result split: if_splits)
      with Inl r show ?thesis by simp
    next
      case (Inr y)
      from discovered_change [OF r None run [unfolded Inr]] Inr None show ?thesis
        by (auto simp: om_get_claim_def map_add_def split: option.splits)
    qed
  qed
qed

lemma om_transition_state: "om_transition k st st' t r = (Inr c, u) \<Longrightarrow>
    dcc_state c = st' \<and> (\<exists>b. om_get_claim r k = Some b \<and> dcc_state b = st)"
  by (auto simp: om_transition_def store_claim_result result_simps validated_claim_def om_get_claim_def)

lemma memory_laws:
  "om_discover cand r = (Inr x, u) \<Longrightarrow> om_get_claim r (cdc_decision_key cand) = Some y \<Longrightarrow> x = y"
  "om_claim k t r = (Inr c, u) \<Longrightarrow> \<not> advanced (om_get_claim r k) \<and> advanced (Some c)"
  "om_bind_snapshot k snap t r = (Inr c, u) \<Longrightarrow> advanced (Some c)"
  "om_mark_processing k t r = (Inr c, u) \<Longrightarrow> advanced (Some c)"
  "om_mark_terminal k st t category detail r = (Inr c, u) \<Longrightarrow> ended (Some c)"
proof -
  show "om_discover cand r = (Inr x, u) \<Longrightarrow> om_get_claim r (cdc_decision_key cand) = Some y \<Longrightarrow> x = y"
    by (auto simp: om_discover_def om_get_claim_def split: if_splits)
  show "om_claim k t r = (Inr c, u) \<Longrightarrow> \<not> advanced (om_get_claim r k) \<and> advanced (Some c)"
    by (auto simp: om_claim_def advanced_def dest!: om_transition_state)
  show "om_bind_snapshot k snap t r = (Inr c, u) \<Longrightarrow> advanced (Some c)"
    by (auto simp: om_bind_snapshot_def advanced_def result_simps validated_claim_def split: sum.splits if_splits)
  show "om_mark_processing k t r = (Inr c, u) \<Longrightarrow> advanced (Some c)"
    by (auto simp: om_mark_processing_def advanced_def dest!: om_transition_state split: sum.splits if_splits)
  show "om_mark_terminal k st t category detail r = (Inr c, u) \<Longrightarrow> ended (Some c)"
    by (auto simp: om_mark_terminal_def ended_def store_claim_result result_simps validated_claim_def split: if_splits)
qed

lemma memory_errors:
  "om_discover cand r = (Inl e, u) \<Longrightarrow> observation_error e \<Longrightarrow> om_get_claim r (cdc_decision_key cand) \<noteq> None"
  "om_transition k st st' t r = (Inl e, u) \<Longrightarrow> \<not> observation_error e"
  "om_mark_terminal k st t category detail r = (Inl e, u) \<Longrightarrow> \<not> observation_error e"
  "om_append_decision d r = (Inl e, u) \<Longrightarrow> \<not> observation_error e"
  by (auto simp: om_discover_def om_transition_def om_mark_terminal_def om_append_decision_def observation_error_def
      store_claim_result result_simps validated_claim_def require_state_def repository_utc_def subscript_def
      om_get_claim_def split: option.splits if_splits)

lemma recover_advances:
  assumes "\<And>k. about_key good get k (mark k)" "\<And>k r c u. good r \<Longrightarrow> mark k r = (Inr c, u) \<Longrightarrow> ended (Some c)"
    and "good r" "recover_with mark items r = (ys, u)"
  shows "good u \<and> (\<forall>k. advanced (get r k) \<longrightarrow> advanced (get u k))"
  using assms(3,4)
proof (induction items arbitrary: r ys u)
  case (Cons i items)
  obtain k c where i: "i = (k, c)" by fastforce
  show ?case
  proof (cases "dcc_state c \<in> {decision_claim_state.CLAIMED, decision_claim_state.PROCESSING}")
    case False
    with Cons.prems(2) i have "recover_with mark items r = (ys, u)" by auto
    then show ?thesis by (rule Cons.IH [OF Cons.prems(1)])
  next
    case True
    obtain q v where v: "mark k r = (q, v)" by fastforce
    note about = about_keyD [OF assms(1) Cons.prems(1) v]
    have adv: "advanced (get v k')" if "advanced (get r k')" for k'
    proof (cases "k' = k")
      case True
      with about(3,4) assms(2) [OF Cons.prems(1)] v that show ?thesis by (cases q) (auto intro: ended_advanced)
    qed (use about(2) that in simp)
    show ?thesis
    proof (cases q)
      case (Inl e)
      with True i v Cons.prems(2) have "u = v" by (simp add: bind_op_def)
      with about(1) adv show ?thesis by blast
    next
      case (Inr x)
      obtain q' w where w: "recover_with mark items v = (q', w)" by fastforce
      with True i v Inr Cons.prems(2) have "u = w" by (auto simp: bind_op_def ret_def split: sum.splits)
      with Cons.IH [OF about(1) w] adv show ?thesis by blast
    qed
  qed
qed (simp add: ret_def)

interpretation memory: claim_repository memory_operations observations_ok
proof (unfold_locales, unfold memory_operations_simps)
  show "observations_ok r \<Longrightarrow> om_recover_incomplete t r = (ys, u) \<Longrightarrow>
      observations_ok u \<and> (\<forall>k. advanced (om_get_claim r k) \<longrightarrow> advanced (om_get_claim u k))" for r t ys u
    unfolding om_recover_incomplete_def
    by (rule recover_advances [where mark = "abandoning om_mark_terminal t"])
      (auto simp: abandoning_def intro: claim_op_about om_mark_terminal_op memory_laws(5))
  show "observations_ok r \<Longrightarrow> ok_continuous_decision_record d \<Longrightarrow> om_append_decision d r = (z, u) \<Longrightarrow>
      observations_ok u \<and> om_get_claim u = om_get_claim r" for r d z u
    by (auto simp: om_append_decision_def om_get_claim_def observations_ok_def keyed_update split: if_splits)
qed (auto simp: om_claim_def intro: om_discover_about claim_op_about om_claim_op [unfolded om_claim_def]
    om_bind_snapshot_op om_mark_processing_op om_mark_terminal_op
    dest: memory_laws [unfolded om_claim_def] memory_errors)

lemma file_about:
  assumes m: "about_key observations_ok om_get_claim k m"
    and step: "\<And>s r t. file_ok False s \<Longrightarrow> op s = (r, t) \<Longrightarrow> written False s (m (fl_memory s)) r t"
  shows "about_key (file_ok False) fl_get_claim k op"
  unfolding about_key_def
proof (intro allI impI)
  fix s r t
  assume s: "file_ok False s" and run: "op s = (r, t)"
  have w: "written False s (m (fl_memory s)) r t" by (rule step [OF s run])
  have ok: "observations_ok (fl_memory s)" using s by (simp add: file_ok_def)
  show "file_ok False t \<and> (\<forall>k'. k' \<noteq> k \<longrightarrow> fl_get_claim t k' = fl_get_claim s k') \<and>
      (case r of Inl e \<Rightarrow> fl_get_claim t k = fl_get_claim s k | Inr c \<Rightarrow> fl_get_claim t k = Some c)"
  proof (cases r)
    case (Inl e)
    with w show ?thesis by (simp add: written_def fl_get_claim_def)
  next
    case (Inr c)
    with w have "m (fl_memory s) = (Inr c, fl_memory t)" "file_ok False t" by (simp_all add: written_def)
    with about_keyD(2,4) [OF m ok this(1)] Inr show ?thesis by (simp add: fl_get_claim_def)
  qed
qed

lemma written_returned: "written p s mt (Inr x) t \<Longrightarrow> mt = (Inr x, fl_memory t)"
  by (simp add: written_def)

text \<open>A call on the file raises what the in-memory call raises, or an error of the driver.\<close>

definition driver_error :: "py_exception \<Rightarrow> bool" where
  "driver_error e \<longleftrightarrow> e = IntegrityError \<or> (\<exists>m. e = StorageError m)"

lemma driver_no_observation: "driver_error e \<Longrightarrow> \<not> observation_error e"
  by (auto simp: driver_error_def observation_error_def)

definition fails_in_driver :: "(observation_file, unit) op \<Rightarrow> bool" where
  "fails_in_driver m \<longleftrightarrow> (\<forall>s e t. m s = (Inl e, t) \<longrightarrow> driver_error e)"

lemma fails_execute: "(\<And>t e. g t = Inl e \<Longrightarrow> e = IntegrityError) \<Longrightarrow> fails_in_driver (sql_execute g)"
  by (auto simp: fails_in_driver_def sql_execute_def driver_error_def split: prod.splits sum.splits if_splits)

lemma fails_write:
  assumes "fails_in_driver body" "or_undo (with_connection body) undo s = (Inl e, t)"
  shows "driver_error e"
proof -
  obtain r u where u: "with_connection body s = (r, u)" by fastforce
  with assms(2) have r: "r = Inl e" by (auto simp: or_undo_def try_op_def ret_def split: sum.splits if_splits)
  obtain q v where v: "body s = (q, v)" by fastforce
  show ?thesis
  proof (cases q)
    case (Inl f)
    with u v r have "body s = (Inl e, v)" by (simp add: with_connection_def bind_op_def)
    with assms(1) show ?thesis unfolding fails_in_driver_def by blast
  next
    case (Inr x)
    obtain c w where w: "sql_commit v = (c, w)" by fastforce
    with u v r Inr have "c = Inl e" by (auto simp: with_connection_def bind_op_def split: sum.splits)
    with commit_result(3) [OF w] show ?thesis by (auto simp: driver_error_def)
  qed
qed

lemma write_through_error:
  assumes "bind_op (in_memory m) (\<lambda>x. bind_op (or_undo (with_connection (body x)) undo) (\<lambda>_. ret x)) s = (Inl e, t)"
    and "\<And>x. fails_in_driver (body x)"
  shows "(\<exists>u. m (fl_memory s) = (Inl e, u)) \<or> driver_error e"
  using assms(1) fails_write [OF assms(2)]
  by (auto simp: bind_op_def in_memory_def ret_def split: prod.splits sum.splits)

lemma update_claim_fails: "fails_in_driver (update_claim c)"
  unfolding update_claim_def by (rule fails_execute) (auto split: if_splits)

lemma persisted_error:
  assumes "persisted k m undo s = (Inl e, t)"
  shows "e = KeyError k \<or> (\<exists>u. m (fl_memory s) = (Inl e, u)) \<or> driver_error e"
proof (cases "map_of (om_claims (fl_memory s)) k")
  case None
  with assms show ?thesis by (simp add: persisted_def subscript_def)
next
  case (Some before)
  with assms have "bind_op (in_memory m) (\<lambda>x. bind_op (or_undo (with_connection (update_claim x)) (undo before)) (\<lambda>_. ret x)) s = (Inl e, t)"
    by (simp add: persisted_def subscript_def persist_claim_def)
  from write_through_error [OF this update_claim_fails] show ?thesis by blast
qed

lemma discover_file_error:
  assumes "fl_discover c s = (Inl e, t)" "observation_error e"
  shows "fl_get_claim s (cdc_decision_key c) \<noteq> None"
proof (rule ccontr)
  assume "\<not> ?thesis"
  then have none: "map_of (om_claims (fl_memory s)) (cdc_decision_key c) = None" by (simp add: fl_get_claim_def om_get_claim_def)
  have fails: "fails_in_driver (insert_claim x)" for x
    unfolding insert_claim_def by (rule fails_execute) (auto split: if_splits)
  from assms(1) none have "bind_op (in_memory (om_discover c)) (\<lambda>claim. bind_op (or_undo (with_connection (insert_claim claim))
          (\<lambda>m. m\<lparr>om_claims := AList.delete (cdc_decision_key c) (om_claims m)\<rparr>)) (\<lambda>_. ret claim)) s = (Inl e, t)"
    by (simp add: fl_discover_def)
  from write_through_error [OF this fails] assms(2) none memory_errors(1) [of c "fl_memory s" e]
  show False by (auto simp: om_get_claim_def dest: driver_no_observation)
qed

lemma file_errors:
  "fl_claim k t s = (Inl e, u) \<Longrightarrow> \<not> observation_error e"
  "fl_mark_terminal k st t category detail s = (Inl e, u) \<Longrightarrow> \<not> observation_error e"
  "fl_append_decision d s = (Inl e, u) \<Longrightarrow> \<not> observation_error e"
proof -
  have key: "\<not> observation_error (KeyError k)" for k by (simp add: observation_error_def)
  show "fl_claim k t s = (Inl e, u) \<Longrightarrow> \<not> observation_error e"
    unfolding fl_claim_def
    using key driver_no_observation memory_errors(2) by (fastforce simp: om_claim_def dest!: persisted_error)
  show "fl_mark_terminal k st t category detail s = (Inl e, u) \<Longrightarrow> \<not> observation_error e"
    unfolding fl_mark_terminal_def
    using key driver_no_observation memory_errors(3) by (fastforce dest!: persisted_error)
  have fails: "fails_in_driver (insert_decision d)"
    unfolding insert_decision_def by (rule fails_execute) (auto simp: insert_row_def result_simps split: if_splits)
  show "\<not> observation_error e" if "fl_append_decision d s = (Inl e, u)"
  proof -
    from that have "bind_op (in_memory (om_append_decision d)) (\<lambda>x. bind_op (or_undo (with_connection (insert_decision d))
       (\<lambda>m. m\<lparr>om_decisions := AList.delete (cdr_decision_key d) (om_decisions m)\<rparr>)) (\<lambda>_. ret x)) s = (Inl e, u)"
      by (simp add: fl_append_decision_def bind_ret)
    from write_through_error [OF this fails] show ?thesis
      using driver_no_observation memory_errors(4) by blast
  qed
qed

lemma file_calls_about:
  "about_key (file_ok False) fl_get_claim (cdc_decision_key c) (fl_discover c)"
  "about_key (file_ok False) fl_get_claim k (fl_claim k t)"
  "about_key (file_ok False) fl_get_claim k (fl_bind_snapshot k snap t)"
  "about_key (file_ok False) fl_get_claim k (fl_mark_processing k t)"
  "about_key (file_ok False) fl_get_claim k (fl_mark_terminal k st t category detail)"
  by (rule file_about, rule om_discover_about claim_op_about [OF om_claim_op] claim_op_about [OF om_bind_snapshot_op]
      claim_op_about [OF om_mark_processing_op] claim_op_about [OF om_mark_terminal_op],
      erule (1) discover_written claim_calls_written)+

lemma file_laws:
  assumes "file_ok False r"
  shows "fl_discover cand r = (Inr x, u) \<Longrightarrow> fl_get_claim r (cdc_decision_key cand) = Some y \<Longrightarrow> x = y"
    "fl_claim k t r = (Inr c, u) \<Longrightarrow> \<not> advanced (fl_get_claim r k) \<and> advanced (Some c)"
    "fl_bind_snapshot k snap t r = (Inr c, u) \<Longrightarrow> advanced (Some c)"
    "fl_mark_processing k t r = (Inr c, u) \<Longrightarrow> advanced (Some c)"
    "fl_mark_terminal k st t category detail r = (Inr c, u) \<Longrightarrow> ended (Some c)"
  unfolding fl_get_claim_def
  by (rule memory_laws, erule written_returned [OF discover_written [OF assms]] written_returned [OF claim_calls_written(1) [OF assms]]
      written_returned [OF claim_calls_written(2) [OF assms]] written_returned [OF claim_calls_written(3) [OF assms]]
      written_returned [OF claim_calls_written(4) [OF assms]]; assumption?)+

lemma append_decision_claims: "om_append_decision d m = (Inr z, m') \<Longrightarrow> om_claims m' = om_claims m"
  by (auto simp: om_append_decision_def split: if_splits)

interpretation sqlite: claim_repository file_operations "file_ok False"
proof (unfold_locales, unfold file_operations_simps)
  show "file_ok False r \<Longrightarrow> fl_recover_incomplete t r = (ys, u) \<Longrightarrow>
      file_ok False u \<and> (\<forall>k. advanced (fl_get_claim r k) \<longrightarrow> advanced (fl_get_claim u k))" for r t ys u
    unfolding fl_recover_incomplete_def
    by (rule recover_advances [where mark = "abandoning fl_mark_terminal t"])
      (auto simp: abandoning_def intro: file_calls_about dest: file_laws(5))
  show "file_ok False r \<Longrightarrow> ok_continuous_decision_record d \<Longrightarrow> fl_append_decision d r = (z, u) \<Longrightarrow>
      file_ok False u \<and> fl_get_claim u = fl_get_claim r" for r d z u
    using append_decision_written [of False r d z u]
    by (cases z) (auto simp: written_def fl_get_claim_def om_get_claim_def fun_eq_iff dest!: append_decision_claims)
qed (auto intro: file_calls_about dest: file_laws discover_file_error file_errors)

section \<open>Runs\<close>

text \<open>
  What can happen to a runtime on a SQLite file: it is started, polled or shut down, the process ends and
  another one opens the file and makes a new runtime, or another client calls the repository.
\<close>

datatype runtime_event = Start | Poll | Shutdown | Reopen "bool list" | OtherCall observation_call

primrec run_event :: "(observation_file, 'w) runtime_services \<Rightarrow> runtime_event \<Rightarrow>
    (observation_file, 'w) runtime \<Rightarrow> (observation_file, 'w) runtime" where
  "run_event sv Start s = snd (start_runtime sv s)"
| "run_event sv Poll s = snd (poll_once sv s)"
| "run_event sv Shutdown s = shutdown_runtime s"
| "run_event sv (Reopen faults) s = (case open_observations (fl_disk (rt_repository s)) faults of
     Inl e \<Rightarrow> s | Inr f \<Rightarrow> new_runtime f (rt_world s) (rt_dispatched s))"
| "run_event sv (OtherCall c) s = s\<lparr>rt_repository := fl_run c (rt_repository s)\<rparr>"

fun valid_event :: "runtime_event \<Rightarrow> bool" where
  "valid_event (OtherCall c) \<longleftrightarrow> valid_call c"
| "valid_event _ \<longleftrightarrow> True"

lemma keyed_fill: "list_all ok rows \<Longrightarrow> keyed key ok (fill key rows)"
proof -
  have "keyed key ok (fold (\<lambda>r. AList.update (key r) r) rows d)" if "list_all ok rows" "keyed key ok d" for d
    using that by (induction rows arbitrary: d) (auto intro: keyed_update)
  then show "list_all ok rows \<Longrightarrow> keyed key ok (fill key rows)" by (simp add: fill_def)
qed

lemma reopened_ok:
  assumes s: "file_ok False s" and f: "open_observations (fl_disk s) faults = Inr f"
  shows "file_ok False f" "fl_get_claim f = fl_get_claim s"
proof -
  let ?m = "fl_memory s"
  have m: "keyed dcc_decision_key ok_decision_candle_claim (om_claims ?m)"
    "keyed cdr_decision_key ok_continuous_decision_record (om_decisions ?m)"
    "keyed psho_tracking_id ok_pending_shadow_outcome (om_outcomes ?m)"
    "inj_on (dcc_cycle_id \<circ> snd) (set (om_claims ?m))" "bound_once (om_claims ?m)"
    and t: "ot_claims (fl_disk s) = claim_rows (om_claims ?m)" "ot_decisions (fl_disk s) = om_decisions ?m"
      "ot_outcomes (fl_disk s) = om_outcomes ?m"
    using s by (simp_all add: file_ok_def observations_ok_def mirrors_def)
  obtain ids bs where load: "fl_memory f = ?m\<lparr>om_snapshot_ids := ids, om_baselines := bs\<rparr>"
    and ids: "set ids = bound_ids (om_claims ?m)" and bs: "keyed rbr_baseline_id ok_risk_baseline_record bs"
    and disk: "fl_disk f = fl_disk s" "fl_view f = fl_disk s"
  proof
    have ok: "list_all ok_risk_baseline_record (map snd (ot_baselines (fl_disk s)))"
      using f by (auto simp: open_observations_def load_observations_def Let_def result_simps split: if_splits)
    let ?ids = "fold List.insert (List.map_filter dcc_actual_snapshot_id (map snd (om_claims ?m))) []"
    let ?bs = "fill rbr_baseline_id (map snd (ot_baselines (fl_disk s)))"
    have "f = \<lparr>fl_memory = ?m\<lparr>om_snapshot_ids := ?ids, om_baselines := ?bs\<rparr>, fl_disk = fl_disk s,
        fl_view = fl_disk s, fl_faults = faults\<rparr>"
      using f by (auto simp: open_observations_def load_observations_def Let_def result_simps guard_simps t rows_claims
          fill_keyed [OF m(1)] fill_keyed [OF m(2)] fill_keyed [OF m(3)])
    then show "fl_memory f = ?m\<lparr>om_snapshot_ids := ?ids, om_baselines := ?bs\<rparr>"
      "fl_disk f = fl_disk s" "fl_view f = fl_disk s" by simp_all
    show "set ?ids = bound_ids (om_claims ?m)" by (force simp: set_insert_all set_map_filter bound_ids_def)
    show "keyed rbr_baseline_id ok_risk_baseline_record ?bs" by (rule keyed_fill [OF ok])
  qed
  show "file_ok False f"
    using m t ids bs by (simp add: file_ok_def load disk mirrors_def observations_ok_def)
  show "fl_get_claim f = fl_get_claim s" by (simp add: load fl_get_claim_def om_get_claim_def fun_eq_iff)
qed

lemma run_forward:
  assumes s: "file_ok False s" and c: "valid_call c"
  shows "file_ok False (fl_run c s) \<and> (\<forall>k. advanced (fl_get_claim s k) \<longrightarrow> advanced (fl_get_claim (fl_run c s) k))"
proof -
  have same: "fl_get_claim t k = fl_get_claim s k"
    if "written False s mt r t" "\<And>x u. mt = (Inr x, u) \<Longrightarrow> om_claims u = om_claims (fl_memory s)" for mt r t k
    using that by (cases r) (auto simp: written_def fl_get_claim_def om_get_claim_def)
  have claims: "om_append_baseline b m = (Inr x, u) \<Longrightarrow> om_claims u = om_claims m"
    "om_supersede_baseline k b t m = (Inr x, u) \<Longrightarrow> om_claims u = om_claims m"
    "om_invalidate_baseline k t reason m = (Inr x, u) \<Longrightarrow> om_claims u = om_claims m"
    "om_append_outcome d m = (Inr x, u) \<Longrightarrow> om_claims u = om_claims m"
    "om_update_outcome d m = (Inr x, u) \<Longrightarrow> om_claims u = om_claims m" for b m x u k t reason d
    by (auto simp: om_append_baseline_def om_supersede_baseline_def om_invalidate_baseline_def om_append_outcome_def
        om_update_outcome_def split: sum.splits if_splits)
  note fwd = sqlite.discover_forward sqlite.claim_forward sqlite.bind_forward sqlite.processing_forward
    sqlite.terminal_forward sqlite.recover_forward
  note fwd = fwd [unfolded file_operations_simps]
  have forward: "advanced (fl_get_claim s k) \<longrightarrow> advanced (fl_get_claim (snd (op s)) k)"
    if "forward file_operations (file_ok False) op" for op :: "(observation_file, 'a) op" and k
    using that s unfolding forward_def by (cases "op s") auto
  have "advanced (fl_get_claim s k) \<longrightarrow> advanced (fl_get_claim (fl_run c s) k)" for k
  proof (cases c)
    case (CallAppendDecision d)
    with c same [OF append_decision_written [OF s _ prod.collapse [symmetric]]] append_decision_claims
    show ?thesis by simp
  next
    case (CallAppendBaseline b)
    with c same [OF append_baseline_written [OF s _ _ prod.collapse [symmetric]]] claims(1) show ?thesis by simp
  next
    case (CallSupersede k b t)
    with c same [OF supersede_written [OF s _ prod.collapse [symmetric]]] claims(2) show ?thesis by simp
  next
    case (CallInvalidate k t reason)
    with same [OF invalidate_written [OF s prod.collapse [symmetric]]] claims(3) show ?thesis by simp
  next
    case (CallAppendOutcome d)
    with c same [OF append_outcome_written [OF s _ prod.collapse [symmetric]]] claims(4) show ?thesis by simp
  next
    case (CallUpdateOutcome d)
    with c same [OF update_outcome_written [OF s _ prod.collapse [symmetric]]] claims(5) show ?thesis by simp
  qed (simp_all add: forward fwd)
  with run_file_ok [OF s c] show ?thesis by blast
qed

lemma event_ok:
  fixes sv :: "(observation_file, 'w) runtime_services"
  assumes sv: "sv_repository sv = file_operations" and ev: "valid_event e"
    and s: "dispatches_ok file_operations (file_ok False) n s"
  shows "dispatches_ok file_operations (file_ok False) (if e = Poll then Suc n else n) (run_event sv e s)"
proof (cases e)
  case Start
  then show ?thesis using sqlite.start_ok [OF sv s prod.collapse [symmetric]] by simp
next
  case Poll
  then show ?thesis using sqlite.poll_once_ok [OF sv s prod.collapse [symmetric]] by simp
next
  case Shutdown
  then show ?thesis using s by (simp add: shutdown_runtime_def dispatches_ok_def)
next
  case (Reopen faults)
  show ?thesis
  proof (cases "open_observations (fl_disk (rt_repository s)) faults")
    case (Inl x)
    then show ?thesis using s Reopen by simp
  next
    case (Inr f)
    have "file_ok False (rt_repository s)" using s by (simp add: dispatches_ok_def)
    note f = reopened_ok [OF this Inr]
    then show ?thesis using s Reopen Inr by (simp add: dispatches_ok_def new_runtime_def)
  qed
next
  case (OtherCall c)
  have "file_ok False (rt_repository s)" using s by (simp add: dispatches_ok_def)
  from run_forward [OF this] ev OtherCall s show ?thesis
    by (auto simp: dispatches_ok_def)
qed

lemma events_ok:
  fixes sv :: "(observation_file, 'w) runtime_services"
  assumes "sv_repository sv = file_operations" "list_all valid_event es"
    and "dispatches_ok file_operations (file_ok False) n s"
  shows "dispatches_ok file_operations (file_ok False) (n + length (filter (\<lambda>e. e = Poll) es)) (fold (run_event sv) es s)"
  using assms(2,3)
proof (induction es arbitrary: n s)
  case (Cons e es)
  have "dispatches_ok file_operations (file_ok False) (if e = Poll then Suc n else n) (run_event sv e s)"
    using Cons.prems by (intro event_ok [OF assms(1)]) simp_all
  from Cons.IH [OF _ this] Cons.prems(1) show ?case by (cases "e = Poll") simp_all
qed simp

text \<open>
  C21: over any runs of the runtime on one SQLite file, with restarts, with
  other clients of the repository, whatever the services and the clock do and wherever the driver fails,
  the shadow cycle is called at most once for a decision key and at most once in a poll, and every key it
  was called for has a claim that is past \<open>DISCOVERED\<close> in the file.
\<close>

theorem decisions_dispatched_once:
  fixes sv :: "(observation_file, 'w) runtime_services"
  assumes "sv_repository sv = file_operations" and "list_all valid_event events"
    and "s = fold (run_event sv) events (new_runtime (new_file faults) w [])"
  shows "distinct (rt_dispatched s) \<and> length (rt_dispatched s) \<le> length (filter (\<lambda>e. e = Poll) events) \<and>
    (\<forall>k \<in> set (rt_dispatched s). \<exists>cycle snap c. (k, cycle, snap, c) \<in> set (ot_claims (fl_disk (rt_repository s))) \<and>
      dcc_state c \<noteq> decision_claim_state.DISCOVERED)"
proof -
  have "dispatches_ok file_operations (file_ok False) 0 (new_runtime (new_file faults) w [])"
    by (simp add: dispatches_ok_def new_runtime_def new_file_ok)
  from events_ok [OF assms(1,2) this]
  have ok: "dispatches_ok file_operations (file_ok False) (length (filter (\<lambda>e. e = Poll) events)) s"
    by (simp add: assms(3))
  have rows: "ot_claims (fl_disk (rt_repository s)) = claim_rows (om_claims (fl_memory (rt_repository s)))"
    using ok by (simp add: dispatches_ok_def file_ok_def mirrors_def)
  have "\<exists>cycle snap c. (k, cycle, snap, c) \<in> set (ot_claims (fl_disk (rt_repository s))) \<and>
      dcc_state c \<noteq> decision_claim_state.DISCOVERED" if "k \<in> set (rt_dispatched s)" for k
  proof -
    have "advanced (om_get_claim (fl_memory (rt_repository s)) k)"
      using ok that by (auto simp: dispatches_ok_def fl_get_claim_def)
    then obtain c where "map_of (om_claims (fl_memory (rt_repository s))) k = Some c"
      "dcc_state c \<noteq> decision_claim_state.DISCOVERED"
      by (auto simp: advanced_def om_get_claim_def split: option.splits)
    then show ?thesis unfolding rows claim_rows_def by (force dest: map_of_SomeD)
  qed
  then show ?thesis using ok by (simp add: dispatches_ok_def)
qed

text \<open>
  C22: a poll that returns leaves every claim that it created in a terminal state in the
  file: processed, held, failed or missed, whatever the services answer or raise and whatever the driver
  does. Only a poll that raises can leave a claim open.
\<close>

theorem poll_settles:
  fixes sv :: "(observation_file, 'w) runtime_services"
  assumes "sv_repository sv = file_operations" and "list_all valid_event events"
    and "s = fold (run_event sv) events (new_runtime (new_file faults) w [])"
    and "poll_once sv s = (Inr rs, t)"
    and "fl_get_claim (rt_repository s) k = None" and "fl_get_claim (rt_repository t) k = Some c"
  shows "dcc_state c \<in> set terminal_states"
proof -
  have "dispatches_ok file_operations (file_ok False) 0 (new_runtime (new_file faults) w [])"
    by (simp add: dispatches_ok_def new_runtime_def new_file_ok)
  from events_ok [OF assms(1,2) this] have "file_ok False (rt_repository s)"
    by (simp add: assms(3) dispatches_ok_def)
  from sqlite.settled_poll [OF assms(1) this assms(4)] assms(5,6) show ?thesis by simp
qed

section \<open>Two exceptions\<close>

text \<open>
  Candles whose claim is known are not looked at again: a revised candle is never compared with its claim,
  and a claim left \<open>DISCOVERED\<close> by a process that ended before \<open>claim\<close> stays so.
\<close>

lemma known_candles_ignored:
  assumes "poll_body sv s = (r, t)" "sv_poll sv (rt_world s) = (Inr candles, w)"
    and "\<And>c. c \<in> set candles \<Longrightarrow> ro_get_claim (sv_repository sv) (rt_repository s) (cdc_decision_key c) \<noteq> None"
  shows "r = Inr [] \<and> t = s\<lparr>rt_world := w\<rparr>"
proof -
  have "filter (\<lambda>c. ro_get_claim (sv_repository sv) (rt_repository s) (cdc_decision_key c) = None) candles = []"
    using assms(3) by (simp add: filter_empty_conv)
  with assms(1,2) show ?thesis
    by (simp add: poll_body_def bind_op_def on_world_def ret_def Let_def del: filter_filter)
qed

text \<open>The clock of a poll is read before the \<open>try\<close>: when it is naive, no later poll does anything.\<close>

lemma stuck_after_naive_clock:
  assumes "rt_state s = continuous_runtime_state.READY" "\<not> rt_processing s" "sv_clock sv (rt_world s) = (now, w)" "is_naive now"
    and "t = snd (poll_once sv s)"
  shows "\<exists>m. fst (poll_once sv s) = Inl (ValueError m)"
    "poll_once sv t = (Inr [], t\<lparr>rt_last_failure := Some observation_failure_category.BACKPRESSURE\<rparr>)"
  using assms by (simp_all add: poll_once_def bind_op_def update_op_def runtime_now_def)

end
