(* ===== verification/ObservationSamples.thy ===== *)
theory ObservationSamples
  imports ObservationRuntimeTheorems Samples
begin

text \<open>
  One decision candle and services that take it to the shadow cycle, whose call fails: the properties of
  the observation runtime and of its repository on a run of them.
\<close>

section \<open>Values\<close>

definition observed_snapshot :: market_snapshot where
  "observed_snapshot = sample_snapshot\<lparr>ms_primary_timeframe := timeframe.M15\<rparr>"

definition observed_candle :: completed_decision_candle where
  "observed_candle = \<lparr>cdc_schema_version = ''1.0.0'', cdc_decision_key = ''key-1'', cdc_cycle_id = ''cycle-1'',
     cdc_symbol = ''EURUSD'', cdc_timeframe = timeframe.M15, cdc_candle_open_at = t0 - timeframe_duration timeframe.M15,
     cdc_candle_close_at = t0, cdc_candle_digest = ''sha256:'' @ replicate 64 (CHR ''a''), cdc_observed_at = t0\<rparr>"

definition no_value :: decimal_feature_value where
  "no_value = \<lparr>dfv_status = feature_availability.UNAVAILABLE, dfv_unit = feature_unit.RATIO, dfv_value = None,
     dfv_required_candles = 1, dfv_available_candles = 1, dfv_reason = Some ''none''\<rparr>"

definition no_swing :: swing_feature_value where
  "no_swing = \<lparr>sfv_status = feature_availability.UNAVAILABLE, sfv_value = None, sfv_required_candles = 1,
     sfv_available_candles = 1, sfv_reason = Some ''none''\<rparr>"

definition observed_timeframe :: "timeframe \<Rightarrow> timeframe_feature_set" where
  "observed_timeframe tf = (let opened = t0 - timeframe_duration tf in
     \<lparr>tfs_timeframe = tf, tfs_source_candle_count = 1, tfs_source_first_candle_open_at = opened,
      tfs_source_last_candle_open_at = opened, tfs_source_last_candle_close_at = t0,
      tfs_evaluation_candle_open_at = opened, tfs_source_candle_digest = ''sha256:'' @ replicate 64 (CHR ''a''),
      tfs_validity = data_validity_state.VALID, tfs_availability = feature_availability.UNAVAILABLE,
      tfs_trend = \<lparr>tf_ema_20 = no_value, tf_ema_50 = no_value, tf_ema_200 = no_value,
        tf_distance_from_ema_20 = no_value, tf_distance_from_ema_50 = no_value, tf_distance_from_ema_200 = no_value\<rparr>,
      tfs_momentum = \<lparr>mf_rsi_14 = no_value\<rparr>, tfs_volatility = \<lparr>vf_atr_14 = no_value\<rparr>,
      tfs_trend_strength = \<lparr>tsf_adx_14 = no_value\<rparr>,
      tfs_candle_geometry = \<lparr>cgf_candle_open_at = opened, cgf_candle_range = no_value, cgf_real_body = no_value,
        cgf_upper_wick = no_value, cgf_lower_wick = no_value, cgf_body_range_ratio = no_value\<rparr>,
      tfs_market_structure = \<lparr>msf_recent_swing_high = no_swing, msf_recent_swing_low = no_swing,
        msf_recent_range_high = no_value, msf_recent_range_low = no_value,
        msf_distance_from_recent_swing_high = no_value, msf_distance_from_recent_swing_low = no_value,
        msf_distance_from_recent_range_high = no_value, msf_distance_from_recent_range_low = no_value\<rparr>,
      tfs_warnings = []\<rparr>)"

definition observed_features :: market_feature_set where
  "observed_features = (let digest = ''sha256:'' @ replicate 64 (CHR ''a'');
       digests = \<lparr>scd_m15 = digest, scd_h1 = digest, scd_h4 = digest\<rparr>; v = ''1.0.0'' in
     \<lparr>mfs_schema_version = v, mfs_feature_set_version = v, mfs_feature_engine_version = v,
      mfs_cycle_id = ''cycle-1'', mfs_snapshot_id = ''snap-1'', mfs_symbol = ''EURUSD'',
      mfs_primary_timeframe = timeframe.M15, mfs_generated_at = t0 + seconds 1,
      mfs_source_validity = data_validity_state.VALID,
      mfs_source_freshness = scm_freshness (ms_consistency observed_snapshot),
      mfs_timeframes = \<lparr>tfc_m15 = observed_timeframe timeframe.M15, tfc_h1 = observed_timeframe timeframe.H1,
        tfc_h4 = observed_timeframe timeframe.H4\<rparr>,
      mfs_warnings = [],
      mfs_provenance = \<lparr>fp_canonicalization_version = v, fp_source_snapshot_schema_version = v,
        fp_source_snapshot_completed_at = t0 + seconds 1, fp_feature_engine_version = v, fp_feature_set_version = v,
        fp_configuration_version = v, fp_configuration_digest = digest, fp_source_candle_digests = digests,
        fp_definition_versions = \<lparr>fdv_ema = v, fdv_rsi = v, fdv_atr = v, fdv_adx = v, fdv_candle_geometry = v,
          fdv_confirmed_swing = v, fdv_recent_range = v, fdv_signed_distance = v\<rparr>,
        fp_decimal_precision = 28, fp_decimal_rounding = ''ROUND_HALF_EVEN'', fp_completed_candles_only = True\<rparr>\<rparr>)"

definition observed_risk :: risk_context_evidence where
  "observed_risk = (let digest = ''sha256:'' @ replicate 64 (CHR ''a'') in
     \<lparr>rce_baseline_id = ''base-1'', rce_baseline_digest = digest, rce_account_observation_digest = digest,
      rce_positions_observation_digest = digest, rce_context = sample_context\<rparr>)"

definition observed_acceptance :: symbol_timestamp_acceptance_record where
  "observed_acceptance = (let digest = ''sha256:'' @ replicate 64 (CHR ''a'') in
     \<lparr>star_schema_version = ''1.0.0'', star_acceptance_id = ''accepted-1'', star_symbol = ''EURUSD'',
      star_timeframes = [timeframe.M15, timeframe.H1, timeframe.H4],
      star_account_ref = ''acct-v1:'' @ replicate 64 (CHR ''a''), star_adapter_version = ''1.0.0'',
      star_validation_policy_digest = digest, star_test_result_id = ''test-1'', star_tested_at = t0,
      star_expires_at = t0 + seconds 60, star_accepted = True\<rparr>)"

definition observed_settings :: continuous_shadow_settings where
  "observed_settings = \<lparr>css_enabled = True, css_poll_interval_seconds = 10, css_discovery_lookback = 10,
     css_maximum_decision_age_seconds = 60, css_maximum_pending_cycles = 1, css_shutdown_grace_seconds = 10,
     css_repository_path = ''db'', css_symbol_acceptance_path = ''s'', css_provider_acceptance_path = ''p''\<rparr>"

text \<open>Another task polls while the cycle is awaited, and the cycle raises.\<close>

definition observed_services :: "(observation_file, unit) runtime_services" where
  "observed_services = \<lparr>sv_sha = sample_sha, sv_view_digest = (\<lambda>_. ''sha256:'' @ replicate 64 (CHR ''a'')),
     sv_text = (\<lambda>_. ''failed''), sv_symbol = ''EURUSD'', sv_account_ref = ''acct-v1:'' @ replicate 64 (CHR ''a''),
     sv_adapter_version = ''1.0.0'', sv_settings = observed_settings, sv_poll = ret [observed_candle],
     sv_build_snapshot = (\<lambda>_ _ _. ret observed_snapshot), sv_calculate = (\<lambda>_. ret observed_features),
     sv_build_risk = (\<lambda>_ _. ret observed_risk), sv_require_eligible = (\<lambda>_ _. ret ()),
     sv_run_shadow_cycle = (\<lambda>_ _ _. raise_op (RuntimeError ''provider'')), sv_meanwhile = (\<lambda>_. [OverlappingPoll]),
     sv_repository = file_operations, sv_symbol_eligibility = (\<lambda>_ _ _ _. Inr observed_acceptance),
     sv_snapshot_id = ret ''snap-1'', sv_clock = (\<lambda>w. (Aware (t0 + seconds 2), w))\<rparr>"

definition observed_start :: "(observation_file, unit) runtime" where
  "observed_start = new_runtime (new_file []) () []"

section \<open>The calls on the repository\<close>

definition observed_claim :: "decision_claim_state \<Rightarrow> string option \<Rightarrow> observation_failure_category option \<Rightarrow>
    string option \<Rightarrow> decision_candle_claim" where
  "observed_claim st snap category detail = (discovered_claim observed_candle)\<lparr>dcc_actual_snapshot_id := snap,
     dcc_state := st, dcc_updated_at := t0 + seconds 2, dcc_failure_category := category,
     dcc_sanitized_detail := detail\<rparr>"

definition observed_file :: "decision_candle_claim \<Rightarrow> string list \<Rightarrow> continuous_decision_record list \<Rightarrow> observation_file" where
  "observed_file c ids ds = (let t = \<lparr>ot_claims = [(''key-1'', ''cycle-1'', dcc_actual_snapshot_id c, c)],
       ot_decisions = map (Pair ''key-1'') ds, ot_baselines = [], ot_outcomes = []\<rparr>
     in \<lparr>fl_memory = \<lparr>om_claims = [(''key-1'', c)], om_snapshot_ids = ids, om_decisions = map (Pair ''key-1'') ds,
          om_baselines = [], om_outcomes = []\<rparr>, fl_disk = t, fl_view = t, fl_faults = []\<rparr>)"

lemma observed_digest_ok: "is_content_digest (''sha256:'' @ replicate 64 (CHR ''a''))"
  by code_simp

lemma observed_names_ok: "is_identifier ''key-1''" "is_cycle_id ''cycle-1''" "is_symbol ''EURUSD''"
  "is_snapshot_id ''snap-1''" "is_schema_version ''1.0.0''"
  by code_simp+

lemma discovered_ok: "ok_decision_candle_claim (discovered_claim observed_candle)"
  using observed_digest_ok observed_names_ok
  by (simp add: ok_decision_candle_claim_def fields_decision_candle_claim_def validate_decision_candle_claim_def
      discovered_claim_def observed_candle_def failed_claim_states_def)

lemma observed_claim_ok:
  "ok_decision_candle_claim (observed_claim decision_claim_state.CLAIMED None None None)"
  "ok_decision_candle_claim (observed_claim decision_claim_state.CLAIMED (Some ''snap-1'') None None)"
  "ok_decision_candle_claim (observed_claim decision_claim_state.PROCESSING (Some ''snap-1'') None None)"
  "ok_decision_candle_claim (observed_claim decision_claim_state.FAILED (Some ''snap-1'')
     (Some observation_failure_category.PROVIDER_RUNTIME_FAILURE)
     (Some ''continuous SHADOW processing failed after preflight''))"
  using observed_digest_ok observed_names_ok
  by (simp_all add: ok_decision_candle_claim_def fields_decision_candle_claim_def validate_decision_candle_claim_def
      observed_claim_def discovered_claim_def observed_candle_def failed_claim_states_def seconds_def)

lemmas write_defs = with_connection_def or_undo_def try_op_def bind_op_def in_memory_def ret_def sql_execute_def
  sql_commit_def next_fault_def observed_file_def Let_def

lemma observed_discover:
  "fl_discover observed_candle (new_file []) = (Inr (discovered_claim observed_candle), observed_file (discovered_claim observed_candle) [] [])"
  using discovered_ok
  by (simp add: fl_discover_def om_discover_def validated_claim_def build_def store_claim_def insert_claim_def write_defs
      new_file_def empty_observations_def empty_observation_tables_def)
    (simp add: observed_candle_def discovered_claim_def)

lemma observed_key [simp]: "dcc_decision_key (observed_claim st snap category detail) = ''key-1''"
  "dcc_actual_snapshot_id (observed_claim st snap category detail) = snap"
  "dcc_state (observed_claim st snap category detail) = st"
  by (simp_all add: observed_claim_def discovered_claim_def observed_candle_def)

lemma observed_memory:
  "fl_memory (observed_file c ids ds) = \<lparr>om_claims = [(''key-1'', c)], om_snapshot_ids = ids,
     om_decisions = map (Pair ''key-1'') ds, om_baselines = [], om_outcomes = []\<rparr>"
  by (simp add: observed_file_def Let_def)

lemma observed_persisted:
  assumes "m (fl_memory (observed_file c ids ds)) = (Inr c', fl_memory (observed_file c' ids' ds))"
    and "dcc_decision_key c' = ''key-1''"
  shows "persisted ''key-1'' m undo (observed_file c ids ds) = (Inr c', observed_file c' ids' ds)"
  using assms by (simp add: persisted_def subscript_def persist_claim_def update_claim_def write_defs)

lemma transition_sample:
  assumes "dcc_state c = st" "c\<lparr>dcc_state := st', dcc_updated_at := as_utc t\<rparr> = c'" "ok_decision_candle_claim c'" "\<not> is_naive t"
  shows "om_transition ''key-1'' st st' t (fl_memory (observed_file c ids ds)) = (Inr c', fl_memory (observed_file c' ids ds))"
  using assms
  by (simp add: om_transition_def require_state_def subscript_def repository_utc_def validated_claim_def build_def
      store_claim_def observed_memory)

abbreviation now_2 :: py_datetime where
  "now_2 \<equiv> Aware (t0 + seconds 2)"

abbreviation claimed_sample :: decision_candle_claim where
  "claimed_sample \<equiv> observed_claim decision_claim_state.CLAIMED None None None"

abbreviation bound_sample :: decision_candle_claim where
  "bound_sample \<equiv> observed_claim decision_claim_state.CLAIMED (Some ''snap-1'') None None"

abbreviation processing_sample :: decision_candle_claim where
  "processing_sample \<equiv> observed_claim decision_claim_state.PROCESSING (Some ''snap-1'') None None"

abbreviation failed_sample :: decision_candle_claim where
  "failed_sample \<equiv> observed_claim decision_claim_state.FAILED (Some ''snap-1'')
     (Some observation_failure_category.PROVIDER_RUNTIME_FAILURE)
     (Some ''continuous SHADOW processing failed after preflight'')"

lemma observed_claiming:
  "fl_claim ''key-1'' now_2 (observed_file (discovered_claim observed_candle) [] []) =
     (Inr claimed_sample, observed_file claimed_sample [] [])"
  unfolding fl_claim_def om_claim_def
  by (rule observed_persisted, rule transition_sample)
    (simp_all add: observed_claim_ok is_naive_def, simp_all add: observed_claim_def discovered_claim_def)

lemma observed_bind:
  "fl_bind_snapshot ''key-1'' ''snap-1'' now_2 (observed_file claimed_sample [] []) =
     (Inr bound_sample, observed_file bound_sample [''snap-1''] [])"
proof -
  have "claimed_sample\<lparr>dcc_actual_snapshot_id := Some ''snap-1'', dcc_updated_at := t0 + seconds 2\<rparr> = bound_sample"
    by (simp add: observed_claim_def)
  then have "om_bind_snapshot ''key-1'' ''snap-1'' now_2 (fl_memory (observed_file claimed_sample [] [])) =
      (Inr bound_sample, fl_memory (observed_file bound_sample [''snap-1''] []))"
    by (simp add: om_bind_snapshot_def require_state_def subscript_def repository_utc_def validated_claim_def build_def
        store_claim_def observed_memory observed_claim_ok is_naive_def)
  then show ?thesis unfolding fl_bind_snapshot_def by (rule observed_persisted) simp
qed

lemma observed_processing:
  "fl_mark_processing ''key-1'' now_2 (observed_file bound_sample [''snap-1''] []) =
     (Inr processing_sample, observed_file processing_sample [''snap-1''] [])"
proof -
  have step: "om_transition ''key-1'' decision_claim_state.CLAIMED decision_claim_state.PROCESSING now_2
      (fl_memory (observed_file bound_sample [''snap-1''] [])) = (Inr processing_sample, fl_memory (observed_file processing_sample [''snap-1''] []))"
    by (rule transition_sample) (simp_all add: observed_claim_ok is_naive_def, simp add: observed_claim_def)
  have mem: "om_claims (fl_memory (observed_file bound_sample [''snap-1''] [])) = [(''key-1'', bound_sample)]"
    by (simp add: observed_memory)
  have "om_mark_processing ''key-1'' now_2 (fl_memory (observed_file bound_sample [''snap-1''] [])) =
      (Inr processing_sample, fl_memory (observed_file processing_sample [''snap-1''] []))"
    using step by (simp add: om_mark_processing_def require_state_def subscript_def mem)
  then show ?thesis unfolding fl_mark_processing_def by (rule observed_persisted) simp
qed

lemma observed_terminal:
  "fl_mark_terminal ''key-1'' decision_claim_state.FAILED now_2
       (Some observation_failure_category.PROVIDER_RUNTIME_FAILURE)
       (Some ''continuous SHADOW processing failed after preflight'') (observed_file processing_sample ids ds) =
     (Inr failed_sample, observed_file failed_sample ids ds)"
proof -
  have "processing_sample\<lparr>dcc_state := decision_claim_state.FAILED, dcc_updated_at := t0 + seconds 2,
      dcc_failure_category := Some observation_failure_category.PROVIDER_RUNTIME_FAILURE,
      dcc_sanitized_detail := Some ''continuous SHADOW processing failed after preflight''\<rparr> = failed_sample"
    by (simp add: observed_claim_def)
  then have "om_mark_terminal ''key-1'' decision_claim_state.FAILED now_2
       (Some observation_failure_category.PROVIDER_RUNTIME_FAILURE)
       (Some ''continuous SHADOW processing failed after preflight'') (fl_memory (observed_file processing_sample ids ds)) =
      (Inr failed_sample, fl_memory (observed_file failed_sample ids ds))"
    using observed_claim_ok
    by (simp add: om_mark_terminal_def terminal_states_def live_states_def subscript_def repository_utc_def is_naive_def
        validated_claim_def build_def store_claim_def observed_memory)
  then show ?thesis unfolding fl_mark_terminal_def by (rule observed_persisted) simp
qed

lemma observed_append:
  "cdr_decision_key r = ''key-1'' \<Longrightarrow> fl_append_decision r (observed_file c ids []) = (Inr (), observed_file c ids [r])"
  by (simp add: fl_append_decision_def om_append_decision_def insert_decision_def insert_row_def write_defs)

section \<open>The checks of the runtime\<close>

definition observed_feature_view :: agent_feature_view where
  "observed_feature_view = projr (feature_view observed_features)"

lemma observed_snapshot_valid: "validate_snapshot sample_sha observed_candle observed_snapshot = Inr ()"
  by (simp add: validate_snapshot_def guard_simps observed_snapshot_def observed_candle_def sample_snapshot_def
      sample_candle_def decision_candle_content_digest_def sample_sha_def Let_def)

lemma observed_features_valid: "validate_features observed_snapshot observed_features = Inr ()"
  by (simp add: validate_features_def guard_simps observed_snapshot_def observed_features_def sample_snapshot_def Let_def)

lemma observed_fresh: "sfre_overall (scm_freshness (ms_consistency observed_snapshot)) = freshness_state.FRESH"
  by (simp add: observed_snapshot_def sample_snapshot_def)

lemma observed_projection: "feature_view observed_features = Inr observed_feature_view"
  using observed_names_ok observed_digest_ok
  by (simp add: observed_feature_view_def feature_view_def build_def fields_agent_feature_collection_def
      validate_agent_feature_collection_def project_timeframe_def observed_features_def observed_timeframe_def Let_def
      fields_agent_feature_view_def is_non_negative_int_def)

lemma observed_symbol_view: "fields_agent_symbol_view \<lparr>asv_symbol = ''EURUSD'', asv_digits = 5, asv_point = 1 / 100000,
    asv_trade_tick_size = 1 / 100000, asv_trade_stops_level = 10, asv_trading_mode = symbol_trade_mode.FULL\<rparr>"
  using observed_names_ok by (simp add: fields_agent_symbol_view_def scalar_defs)

lemma observed_tick_view: "ok_agent_tick_view \<lparr>atv_symbol = ''EURUSD'', atv_source_time = t0, atv_bid = 109999 / 100000,
    atv_ask = 110001 / 100000, atv_spread = 1 / 50000, atv_last = 0, atv_volume = 0\<rparr>"
  using observed_names_ok
  by (simp add: ok_agent_tick_view_def fields_agent_tick_view_def validate_agent_tick_view_def scalar_defs)

lemma observed_feature_trace:
  "afv_cycle_id observed_feature_view = ''cycle-1''" "afv_snapshot_id observed_feature_view = ''snap-1''"
  "afv_symbol observed_feature_view = ''EURUSD''" "afv_primary_timeframe observed_feature_view = timeframe.M15"
  "afv_generated_at observed_feature_view = t0 + seconds 1"
  by (simp_all add: observed_feature_view_def feature_view_def build_def fields_agent_feature_collection_def
      validate_agent_feature_collection_def project_timeframe_def observed_features_def observed_timeframe_def Let_def
      fields_agent_feature_view_def is_non_negative_int_def observed_names_ok observed_digest_ok [simplified])

lemma observed_viewed:
  "\<exists>v. market_view (\<lambda>_. ''sha256:'' @ replicate 64 (CHR ''a'')) observed_snapshot (Some observed_features) = Inr v \<and>
     amv_schema_version v = ''2.0.0'' \<and> amv_agent_feature_view_digest v = Some (''sha256:'' @ replicate 64 (CHR ''a'')) \<and>
     amv_cycle_id v = ''cycle-1'' \<and> amv_snapshot_id v = ''snap-1'' \<and> amv_symbol v = ''EURUSD''"
  using observed_symbol_view observed_tick_view observed_names_ok observed_digest_ok observed_feature_trace
  by (simp add: market_view_def observed_projection build_def fields_agent_candle_set_def ok_agent_market_view_def
      fields_agent_market_view_def validate_agent_market_view_def candle_view_def sample_candle_def
      ok_agent_candle_def fields_agent_candle_def validate_agent_candle_def
      is_non_negative_int_def observed_snapshot_def sample_snapshot_def sample_symbol_info_def sample_tick_def)

section \<open>The run\<close>

lemma observed_services_simps [simp]:
  "sv_sha observed_services = sample_sha" "sv_view_digest observed_services = (\<lambda>_. ''sha256:'' @ replicate 64 (CHR ''a''))"
  "sv_settings observed_services = observed_settings" "sv_poll observed_services w = (Inr [observed_candle], w)"
  "sv_build_snapshot observed_services cycle snap tf w = (Inr observed_snapshot, w)"
  "sv_calculate observed_services s w = (Inr observed_features, w)"
  "sv_build_risk observed_services s f w = (Inr observed_risk, w)" "sv_require_eligible observed_services v now w = (Inr (), w)"
  "sv_run_shadow_cycle observed_services s c v w = (Inl (RuntimeError ''provider''), w)"
  "sv_meanwhile observed_services w = [OverlappingPoll]" "sv_repository observed_services = file_operations"
  "sv_symbol_eligibility observed_services x y z t = Inr observed_acceptance"
  "sv_snapshot_id observed_services w = (Inr ''snap-1'', w)" "sv_clock observed_services w = (now_2, w)"
  by (simp_all add: observed_services_def ret_def raise_op_def)

lemma observed_candle_simps [simp]:
  "cdc_decision_key observed_candle = ''key-1''" "cdc_cycle_id observed_candle = ''cycle-1''"
  "cdc_symbol observed_candle = ''EURUSD''" "cdc_candle_close_at observed_candle = t0"
  "cdc_candle_digest observed_candle = ''sha256:'' @ replicate 64 (CHR ''a'')"
  "ms_snapshot_id observed_snapshot = ''snap-1''" "is_timely observed_settings observed_candle"
  by (simp_all add: observed_candle_def observed_snapshot_def sample_snapshot_def is_timely_def observed_settings_def seconds_def)

definition observed_record :: "agent_market_view \<Rightarrow> continuous_decision_record" where
  "observed_record v = (decision_of observed_services observed_candle (t0 + seconds 2))\<lparr>
     cdr_actual_snapshot_id := Some ''snap-1'', cdr_snapshot_digest := Some (snapshot_digest_of sample_sha observed_snapshot),
     cdr_feature_set_digest := Some (features_digest_of sample_sha observed_features),
     cdr_agent_feature_view_digest := Some (''sha256:'' @ replicate 64 (CHR ''a'')), cdr_agent_market_view := Some v,
     cdr_risk_context_evidence := Some observed_risk,
     cdr_failure_category := Some observation_failure_category.PROVIDER_RUNTIME_FAILURE,
     cdr_sanitized_detail := Some ''continuous SHADOW processing failed after preflight''\<rparr>"

lemma observed_record_ok:
  assumes "amv_schema_version v = ''2.0.0''" "amv_agent_feature_view_digest v = Some (''sha256:'' @ replicate 64 (CHR ''a''))"
    "amv_cycle_id v = ''cycle-1''" "amv_snapshot_id v = ''snap-1''" "amv_symbol v = ''EURUSD''"
  shows "ok_continuous_decision_record (observed_record v)"
proof -
  have id: "is_identifier (''record-m9-'' @ replicate 64 (CHR ''a''))" by code_simp
  have digest: "content_digest sample_sha d = ''sha256:'' @ replicate 64 (CHR ''a'')" for d
    by (simp add: content_digest_def sample_sha_def)
  show ?thesis
    using assms id observed_digest_ok observed_names_ok
    by (simp add: ok_continuous_decision_record_def fields_continuous_decision_record_def
        validate_continuous_decision_record_def snapshot_artifacts_ok_def decision_bindings_ok_def observed_record_def
        decision_of_def snapshot_digest_of_def features_digest_of_def digest observed_risk_def sample_context_def
        record_id_for_decision_def sample_sha_def Let_def)
qed

lemma observed_body:
  assumes "market_view (\<lambda>_. ''sha256:'' @ replicate 64 (CHR ''a'')) observed_snapshot (Some observed_features) = Inr v"
    "rt_repository s = observed_file claimed_sample [] []"
  shows "process_body observed_services observed_candle (s, no_locals) =
     (Inl (RuntimeError ''provider''),
      s\<lparr>rt_repository := observed_file processing_sample [''snap-1''] [], rt_dispatched := rt_dispatched s @ [''key-1''],
        rt_last_failure := Some observation_failure_category.BACKPRESSURE\<rparr>,
      \<lparr>pl_snapshot = Some observed_snapshot, pl_features = Some observed_features, pl_view = Some v, pl_risk = Some observed_risk\<rparr>)"
  using assms observed_fresh
  by (simp add: process_body_def bind_op_def with_locals_def on_world_def set_local_def update_op_def lift_op_def
      observed_snapshot_valid observed_features_valid repository_call_def runtime_now_def is_naive_def on_repository_def
      observed_bind observed_processing no_locals_def dispatch_cycle_def Let_def)

definition observed_ready :: "(observation_file, unit) runtime" where
  "observed_ready = observed_start\<lparr>rt_state := continuous_runtime_state.READY, rt_started_at := Some (t0 + seconds 2)\<rparr>"

lemma observed_starts: "run_event observed_services Start observed_start = observed_ready"
  by (simp add: start_runtime_def observed_start_def observed_ready_def new_runtime_def bind_op_def update_op_def
      runtime_now_def is_naive_def start_outcome_def lift_op_def on_repository_def fl_recover_incomplete_def
      new_file_def empty_observations_def ret_def)

lemma observed_failure:
  assumes "ok_continuous_decision_record (observed_record v)" "amv_agent_feature_view_digest v = Some (''sha256:'' @ replicate 64 (CHR ''a''))"
    and "rt_repository s = observed_file processing_sample ids []"
  shows "process_failure observed_services observed_candle
      \<lparr>pl_snapshot = Some observed_snapshot, pl_features = Some observed_features, pl_view = Some v, pl_risk = Some observed_risk\<rparr>
      (RuntimeError ''provider'') s =
    (Inr None, s\<lparr>rt_repository := observed_file failed_sample ids [observed_record v],
       rt_last_failure := Some observation_failure_category.PROVIDER_RUNTIME_FAILURE\<rparr>)"
proof -
  have get: "fl_get_claim (observed_file processing_sample ids []) ''key-1'' = Some processing_sample"
    by (simp add: fl_get_claim_def om_get_claim_def observed_memory)
  have rec: "(decision_of observed_services observed_candle (t0 + seconds 2))
      \<lparr>cdr_actual_snapshot_id := Some ''snap-1'', cdr_snapshot_digest := Some (snapshot_digest_of sample_sha observed_snapshot),
       cdr_feature_set_digest := Some (features_digest_of sample_sha observed_features),
       cdr_agent_feature_view_digest := Some (''sha256:'' @ replicate 64 (CHR ''a'')), cdr_agent_market_view := Some v,
       cdr_risk_context_evidence := Some observed_risk,
       cdr_failure_category := Some observation_failure_category.PROVIDER_RUNTIME_FAILURE,
       cdr_sanitized_detail := Some ''continuous SHADOW processing failed after preflight''\<rparr> = observed_record v"
    by (simp add: observed_record_def)
  have key: "cdr_decision_key (observed_record v) = ''key-1''" by (simp add: observed_record_def decision_of_def)
  show ?thesis
    using assms observed_append [OF key]
    by (simp add: process_failure_def fail_claim_def get store_decision_def bind_op_def runtime_now_def is_naive_def
        lift_op_def build_def rec [simplified] on_repository_def key repository_call_def observed_terminal update_op_def ret_def
        Let_def)
qed

definition observed_done :: "agent_market_view \<Rightarrow> (observation_file, unit) runtime" where
  "observed_done v = observed_ready\<lparr>rt_repository := observed_file failed_sample [''snap-1''] [observed_record v],
     rt_dispatched := [''key-1''], rt_last_poll_at := Some (t0 + seconds 2), rt_last_candle_close_at := Some t0,
     rt_last_failure := Some observation_failure_category.PROVIDER_RUNTIME_FAILURE\<rparr>"

lemma observed_poll:
  obtains v where "poll_once observed_services observed_ready = (Inr [], observed_done v)"
proof -
  obtain v where v: "market_view (\<lambda>_. ''sha256:'' @ replicate 64 (CHR ''a'')) observed_snapshot (Some observed_features) = Inr v"
    "amv_agent_feature_view_digest v = Some (''sha256:'' @ replicate 64 (CHR ''a''))" "ok_continuous_decision_record (observed_record v)"
    using observed_viewed observed_record_ok by blast
  have none: "fl_get_claim (new_file []) ''key-1'' = None"
    by (simp add: new_file_def empty_observations_def fl_get_claim_def om_get_claim_def)
  have "poll_once observed_services observed_ready = (Inr [], observed_done v)"
    by (simp add: poll_once_def observed_ready_def observed_start_def new_runtime_def bind_op_def update_op_def runtime_now_def
        is_naive_def poll_body_def on_world_def none ret_def process_candle_def on_repository_def observed_discover
        repository_call_def observed_claiming observed_body [OF v(1)] observed_failure [OF v(3,2)] finish_poll_def
        observed_done_def Let_def)
  then show ?thesis by (rule that)
qed

text \<open>The decision was dispatched once, and its claim has failed.\<close>

lemma decisions_dispatched_once_witness:
  "\<exists>s. s = fold (run_event observed_services) [Start, Poll] observed_start \<and> rt_dispatched s = [''key-1''] \<and>
     (\<exists>cycle snap c. (''key-1'', cycle, snap, c) \<in> set (ot_claims (fl_disk (rt_repository s))) \<and>
        dcc_state c \<noteq> decision_claim_state.DISCOVERED)"
proof -
  obtain v where v: "poll_once observed_services observed_ready = (Inr [], observed_done v)" by (rule observed_poll)
  have run: "fold (run_event observed_services) [Start, Poll] observed_start = observed_done v"
    using v by (simp add: observed_starts del: run_event.simps(1))
  have "rt_dispatched (observed_done v) = [''key-1'']" by (simp add: observed_done_def)
  with run decisions_dispatched_once [of observed_services "[Start, Poll]" "observed_done v" "[]" "()"] show ?thesis
    by (auto simp: observed_start_def)
qed

lemma poll_settles_witness:
  "\<exists>t c. poll_once observed_services observed_ready = (Inr [], t) \<and>
     fl_get_claim (rt_repository t) ''key-1'' = Some c \<and> dcc_state c \<in> set terminal_states"
proof -
  obtain v where v: "poll_once observed_services observed_ready = (Inr [], observed_done v)" by (rule observed_poll)
  have "observed_ready = fold (run_event observed_services) [Start] (new_runtime (new_file []) () [])"
    using observed_starts by (simp add: observed_start_def)
  moreover have "fl_get_claim (rt_repository observed_ready) ''key-1'' = None"
    by (simp add: observed_ready_def observed_start_def new_runtime_def new_file_def empty_observations_def fl_get_claim_def
        om_get_claim_def)
  moreover have "fl_get_claim (rt_repository (observed_done v)) ''key-1'' = Some failed_sample"
    by (simp add: observed_done_def fl_get_claim_def om_get_claim_def observed_memory)
  ultimately have "dcc_state failed_sample \<in> set terminal_states"
    using v by (intro poll_settles [of observed_services "[Start]" observed_ready "[]" "()" "[]" "observed_done v" "''key-1''"]) simp_all
  with v \<open>fl_get_claim (rt_repository (observed_done v)) ''key-1'' = Some failed_sample\<close> show ?thesis by blast
qed


end
