(* ===== verification/Indicators.thy ===== *)
theory Indicators
  imports FeatureSchemas
begin

text \<open>
  \<open>features/indicators.py\<close>, \<open>features/structure.py\<close> and \<open>features/geometry.py\<close>: rolling indicators,
  confirmed swings, recent range and candle geometry. Every arithmetic operation runs in a context of
  50 digits (\<open>rd50\<close>); comparison, \<open>max\<close> and \<open>min\<close> are exact. A series is a list as long as its input
  with None where the history is too short. A loop over a window that carries an average is \<open>scan\<close>.
\<close>

section \<open>Shared arithmetic\<close>

definition sum50 :: "decimal list \<Rightarrow> decimal" where
  "sum50 xs = foldl (\<lambda>a v. rd50 (a + v)) 0 xs"

text \<open>All the states a loop goes through, the first included.\<close>

fun scan :: "('s \<Rightarrow> 'a \<Rightarrow> 's) \<Rightarrow> 's \<Rightarrow> 'a list \<Rightarrow> 's list" where
  "scan f s [] = [s]"
| "scan f s (x # xs) = s # scan f (f s x) xs"

definition require_period :: "int \<Rightarrow> unit fallible" where
  "require_period p = (if p \<le> 0 then Inl (ValueError ''indicator period must be positive'') else Inr ())"

text \<open>A series from the \<open>n\<close>-th value on.\<close>

definition from_index :: "nat \<Rightarrow> decimal list \<Rightarrow> decimal option list" where
  "from_index n xs = replicate n None @ map (\<lambda>x. Some (rd50 x)) xs"

definition mean50 :: "int \<Rightarrow> decimal list \<Rightarrow> decimal" where
  "mean50 p xs = rd50 (sum50 xs / of_int p)"

section \<open>Exponential moving average\<close>

definition ema_next :: "decimal \<Rightarrow> decimal \<Rightarrow> decimal \<Rightarrow> decimal" where
  "ema_next alpha current v = rd50 (rd50 (alpha * v) + rd50 (rd50 (1 - alpha) * current))"

definition ema_series :: "decimal list \<Rightarrow> int \<Rightarrow> decimal option list fallible" where
  "ema_series vs p = bind_result (require_period p) (\<lambda>_.
     let n = nat p; alpha = rd50 (2 / of_int (p + 1))
     in if length vs < n then Inr (replicate (length vs) None)
        else Inr (from_index (n - 1)
          (scan (ema_next alpha) (mean50 p (take n vs)) (drop n vs))))"

section \<open>Relative strength index\<close>

definition rsi_value :: "decimal \<Rightarrow> decimal \<Rightarrow> decimal" where
  "rsi_value gain loss =
     (if loss = 0 then (if gain = 0 then 50 else 100)
      else rd50 (100 - rd50 (100 / rd50 (1 + rd50 (gain / loss)))))"

text \<open>Wilder's average: \<open>(average * (period - 1) + value) / period\<close>.\<close>

definition wilder_next :: "int \<Rightarrow> decimal \<Rightarrow> decimal \<Rightarrow> decimal" where
  "wilder_next p average v = rd50 (rd50 (rd50 (average * of_int (p - 1)) + v) / of_int p)"

definition changes :: "decimal list \<Rightarrow> decimal list" where
  "changes vs = map2 (\<lambda>a b. rd50 (b - a)) vs (tl vs)"

definition rsi_series :: "decimal list \<Rightarrow> int \<Rightarrow> decimal option list fallible" where
  "rsi_series vs p = bind_result (require_period p) (\<lambda>_.
     let n = nat p;
         moves = map (\<lambda>c. (max c 0, max (- c) 0)) (changes vs);
         next_averages = (\<lambda>(g, l) (g', l'). (wilder_next p g g', wilder_next p l l'))
     in if length vs \<le> n then Inr (replicate (length vs) None)
        else Inr (replicate n None @ map (\<lambda>(g, l). Some (rsi_value g l))
          (scan next_averages (mean50 p (map fst (take n moves)), mean50 p (map snd (take n moves)))
            (drop n moves))))"

section \<open>Average true range\<close>

definition true_range :: "mt5_candle \<Rightarrow> decimal \<Rightarrow> decimal" where
  "true_range c previous_close =
     max (rd50 (mc_high c - mc_low c))
       (max \<bar>rd50 (mc_high c - previous_close)\<bar> \<bar>rd50 (mc_low c - previous_close)\<bar>)"

definition true_ranges :: "mt5_candle list \<Rightarrow> decimal list" where
  "true_ranges cs = map2 (\<lambda>previous c. true_range c (mc_close previous)) cs (tl cs)"

definition atr_series :: "mt5_candle list \<Rightarrow> int \<Rightarrow> decimal option list fallible" where
  "atr_series cs p = bind_result (require_period p) (\<lambda>_.
     let n = nat p; trs = true_ranges cs
     in if length cs \<le> n then Inr (replicate (length cs) None)
        else Inr (from_index n (scan (wilder_next p) (mean50 p (take n trs)) (drop n trs))))"

section \<open>Average directional index\<close>

definition directional_index :: "decimal \<times> decimal \<times> decimal \<Rightarrow> decimal" where
  "directional_index s = (case s of (tr, pos, neg) \<Rightarrow>
     if tr = 0 then 0
     else let pdi = rd50 (rd50 (100 * pos) / tr); ndi = rd50 (rd50 (100 * neg) / tr);
              denominator = rd50 (pdi + ndi)
       in if denominator = 0 then 0
          else rd50 (rd50 (100 * \<bar>rd50 (pdi - ndi)\<bar>) / denominator))"

definition directional_move :: "mt5_candle \<Rightarrow> mt5_candle \<Rightarrow> decimal \<times> decimal \<times> decimal" where
  "directional_move previous c =
     (let up = rd50 (mc_high c - mc_high previous); down = rd50 (mc_low previous - mc_low c)
      in (true_range c (mc_close previous),
          if up > down \<and> up > 0 then up else 0, if down > up \<and> down > 0 then down else 0))"

definition directional_moves :: "mt5_candle list \<Rightarrow> (decimal \<times> decimal \<times> decimal) list" where
  "directional_moves cs = map2 directional_move cs (tl cs)"

definition smooth_next :: "int \<Rightarrow> decimal \<Rightarrow> decimal \<Rightarrow> decimal" where
  "smooth_next p s v = rd50 (rd50 (s - rd50 (s / of_int p)) + v)"

definition smooth3 ::
  "int \<Rightarrow> decimal \<times> decimal \<times> decimal \<Rightarrow> decimal \<times> decimal \<times> decimal \<Rightarrow> decimal \<times> decimal \<times> decimal" where
  "smooth3 p s v = (case (s, v) of ((a, b, c), (x, y, z)) \<Rightarrow>
     (smooth_next p a x, smooth_next p b y, smooth_next p c z))"

definition sum3 :: "(decimal \<times> decimal \<times> decimal) list \<Rightarrow> decimal \<times> decimal \<times> decimal" where
  "sum3 ms = (sum50 (map fst ms), sum50 (map (fst \<circ> snd) ms), sum50 (map (snd \<circ> snd) ms))"

text \<open>
  The loop over the remaining moves: the smoothed sums, the directional indices so far, and the
  current average, which is there from the \<open>period\<close>-th index on. With a period of one the first
  index is there before the loop, the average is not, and the loop raises.
\<close>

fun adx_loop ::
  "int \<Rightarrow> decimal \<times> decimal \<times> decimal \<Rightarrow> decimal list \<Rightarrow> decimal option \<Rightarrow>
     (decimal \<times> decimal \<times> decimal) list \<Rightarrow> decimal option list fallible" where
  "adx_loop p s dxs current [] = Inr []"
| "adx_loop p s dxs current (m # ms) =
     (let s' = smooth3 p s m; dx = directional_index s'; dxs' = dxs @ [dx]
      in if length dxs' = nat p
         then let c = mean50 p dxs'
           in bind_result (adx_loop p s' dxs' (Some c) ms) (\<lambda>rest. Inr (Some (rd50 c) # rest))
         else if length dxs' > nat p
         then (case current of
             None \<Rightarrow> Inl (RuntimeError ''ADX smoothing state is unexpectedly unavailable'')
           | Some a \<Rightarrow> let c = wilder_next p a dx
             in bind_result (adx_loop p s' dxs' (Some c) ms) (\<lambda>rest. Inr (Some (rd50 c) # rest)))
         else bind_result (adx_loop p s' dxs' current ms) (\<lambda>rest. Inr (None # rest)))"

definition adx_series :: "mt5_candle list \<Rightarrow> int \<Rightarrow> decimal option list fallible" where
  "adx_series cs p = bind_result (require_period p) (\<lambda>_.
     let n = nat p; ms = directional_moves cs; s = sum3 (take n ms)
     in if length cs < n * 2 then Inr (replicate (length cs) None)
        else bind_result (adx_loop p s [directional_index s] None (drop n ms))
          (\<lambda>rest. Inr (replicate (n + 1) None @ rest)))"

section \<open>Structure and geometry\<close>

definition recent_range :: "mt5_candle list \<Rightarrow> int \<Rightarrow> (decimal \<times> decimal) option fallible" where
  "recent_range cs lookback =
     (if lookback \<le> 0 then Inl (ValueError ''recent range lookback must be positive'')
      else let n = nat lookback in if length cs < n then Inr None
        else let w = drop (length cs - n) cs
          in Inr (Some (Max (set (map mc_high w)), Min (set (map mc_low w)))))"

definition swing_level :: "bool \<Rightarrow> mt5_candle \<Rightarrow> decimal" where
  "swing_level high c = (if high then mc_high c else mc_low c)"

text \<open>The candle at \<open>i\<close> lies strictly beyond the \<open>l\<close> before it and the \<open>r\<close> after it.\<close>

definition swing_at :: "bool \<Rightarrow> mt5_candle list \<Rightarrow> nat \<Rightarrow> nat \<Rightarrow> nat \<Rightarrow> bool" where
  "swing_at high cs l r i =
     (let v = swing_level high (cs ! i);
          others = map (swing_level high) (take l (drop (i - l) cs) @ take r (drop (i + 1) cs))
      in list_all (\<lambda>x. if high then v > x else v < x) others)"

definition swing_point_at :: "bool \<Rightarrow> mt5_candle list \<Rightarrow> timeframe \<Rightarrow> nat \<Rightarrow> nat \<Rightarrow> nat \<Rightarrow> swing_point fallible" where
  "swing_point_at high cs tf l r i = build ''SwingPoint'' ok_swing_point
     \<lparr>sp_price = swing_level high (cs ! i), sp_candle_open_at = mc_open_time (cs ! i),
      sp_confirmed_at = mc_open_time (cs ! (i + r)) + timeframe_duration tf,
      sp_left_bars = int l, sp_right_bars = int r\<rparr>"

text \<open>The scan from the latest candidate downwards.\<close>

fun swing_search :: "bool \<Rightarrow> mt5_candle list \<Rightarrow> timeframe \<Rightarrow> nat \<Rightarrow> nat \<Rightarrow> nat list \<Rightarrow> swing_point option fallible" where
  "swing_search high cs tf l r [] = Inr None"
| "swing_search high cs tf l r (i # is) =
     (if swing_at high cs l r i then bind_result (swing_point_at high cs tf l r i) (\<lambda>p. Inr (Some p))
      else swing_search high cs tf l r is)"

definition latest_confirmed_swing ::
  "mt5_candle list \<Rightarrow> timeframe \<Rightarrow> int \<Rightarrow> int \<Rightarrow> bool \<Rightarrow> swing_point option fallible" where
  "latest_confirmed_swing cs tf left right high =
     (if left \<le> 0 \<or> right \<le> 0 then Inl (ValueError ''swing confirmation windows must be positive'')
      else let l = nat left; r = nat right
        in if length cs < l + r + 1 then Inr None
           else swing_search high cs tf l r (rev [l..<length cs - r]))"

definition latest_confirmed_swing_high where
  "latest_confirmed_swing_high cs tf left right = latest_confirmed_swing cs tf left right True"

definition latest_confirmed_swing_low where
  "latest_confirmed_swing_low cs tf left right = latest_confirmed_swing cs tf left right False"

record candle_geometry =
  cg_candle_range :: decimal
  cg_real_body :: decimal
  cg_upper_wick :: decimal
  cg_lower_wick :: decimal
  cg_body_range_ratio :: "decimal option"

definition geometry_of :: "mt5_candle \<Rightarrow> candle_geometry" where
  "geometry_of c =
     (let range = rd50 (mc_high c - mc_low c); body = \<bar>rd50 (mc_close c - mc_open c)\<bar>
      in \<lparr>cg_candle_range = range, cg_real_body = body,
          cg_upper_wick = rd50 (mc_high c - max (mc_open c) (mc_close c)),
          cg_lower_wick = rd50 (min (mc_open c) (mc_close c) - mc_low c),
          cg_body_range_ratio = (if range = 0 then None else Some (rd50 (body / range)))\<rparr>)"

end
