(* ===== verification/FeatureEngine.thy ===== *)
theory FeatureEngine
  imports Indicators Serialization
begin

text \<open>
  \<open>features/validation.py\<close> and \<open>features/engine.py\<close>: the market feature set of a snapshot. The values
  are computed by \<open>Indicators\<close>, rounded to the symbol's digits (or eight places) and wrapped with
  their availability; every exception other than a \<open>FeatureEngineError\<close> becomes one.
\<close>

section \<open>Input checks\<close>

abbreviation feature_error :: "feature_error_category \<Rightarrow> string \<Rightarrow> py_exception" where
  "feature_error \<equiv> FeatureEngineError"

text \<open>
  \<open>model_validate(model_dump())\<close> validates the snapshot and every model in it once more.
\<close>

definition snapshot_revalidates :: "market_snapshot \<Rightarrow> bool" where
  "snapshot_revalidates s \<longleftrightarrow>
     (let cs = ms_candles s; m = ms_consistency s; f = scm_freshness m
      in fields_mt5_symbol_info (ms_symbol_info s) \<and> fields_mt5_tick (ms_tick s) \<and>
         fields_mt5_account_info (ms_account s) \<and>
         list_all ok_mt5_candle (sc_m15 cs @ sc_h1 cs @ sc_h4 cs) \<and> fields_snapshot_candles cs \<and>
         list_all fields_mt5_open_position (ms_open_positions s) \<and>
         list_all validate_observation_freshness
           [sfre_tick f, sfre_account f, sfre_m15_candles f, sfre_h1_candles f, sfre_h4_candles f] \<and>
         validate_snapshot_freshness f \<and> fields_snapshot_consistency_metadata m \<and>
         validate_snapshot_consistency_metadata m \<and>
         list_all fields_snapshot_validation_warning (scm_validation_warnings m) \<and> ok_market_snapshot s)"

definition revalidate_snapshot :: "market_snapshot \<Rightarrow> market_snapshot fallible" where
  "revalidate_snapshot s =
     (if snapshot_revalidates s then Inr s
      else Inl (feature_error feature_error_category.INVALID_SNAPSHOT
        ''MarketSnapshot failed structural validation''))"

fun validate_candle_run :: "market_snapshot \<Rightarrow> timeframe \<Rightarrow> instant option \<Rightarrow> mt5_candle list \<Rightarrow> unit fallible" where
  "validate_candle_run s tf previous [] = Inr ()"
| "validate_candle_run s tf previous (c # cs) = bind_result (run_guards [
     (mc_symbol c \<noteq> ms_symbol s, feature_error feature_error_category.SYMBOL_MISMATCH
        ''source candle symbol does not match snapshot symbol''),
     (mc_timeframe c \<noteq> tf, feature_error feature_error_category.TIMEFRAME_MISMATCH
        ''source candle timeframe does not match its collection''),
     ((case previous of None \<Rightarrow> False | Some p \<Rightarrow> mc_open_time c \<le> p),
        feature_error feature_error_category.INVALID_CANDLE_ORDER
        ''source candle times must be unique and strictly increasing''),
     (mc_open_time c > ms_snapshot_completed_at s, feature_error feature_error_category.FUTURE_CANDLE
        ''source candle opens after snapshot completion''),
     (mc_open_time c + timeframe_duration tf > ms_snapshot_completed_at s,
        feature_error feature_error_category.INCOMPLETE_CANDLE
        ''source candle was incomplete at snapshot completion'')])
     (\<lambda>_. validate_candle_run s tf (Some (mc_open_time c)) cs)"

definition validate_candles :: "market_snapshot \<Rightarrow> timeframe \<Rightarrow> mt5_candle list \<Rightarrow> unit fallible" where
  "validate_candles s tf cs =
     (if cs = [] then Inl (feature_error feature_error_category.INVALID_SNAPSHOT
        ''snapshot candle collection is empty'')
      else validate_candle_run s tf None cs)"

section \<open>Values\<close>

text \<open>
  \<open>value.quantize(10 ** -places)\<close> in the context of 50 digits: a coefficient that does not fit raises.
\<close>

definition quantize50 :: "int \<Rightarrow> decimal \<Rightarrow> decimal fallible" where
  "quantize50 places x =
     (let k = round_half_even (x * 10 powi places)
      in if 10 ^ 50 \<le> \<bar>k\<bar> then Inl (DecimalSignal InvalidOperation) else Inr (of_int k / 10 powi places))"

definition quantize_feature :: "decimal \<Rightarrow> feature_unit \<Rightarrow> int \<Rightarrow> decimal fallible" where
  "quantize_feature x unit digits = quantize50 (if unit = feature_unit.PRICE then digits else 8) x"

definition build_value :: "decimal_feature_value \<Rightarrow> decimal_feature_value fallible" where
  "build_value = build ''DecimalFeatureValue'' ok_decimal_feature_value"

definition valid_value :: "decimal \<Rightarrow> feature_unit \<Rightarrow> int \<Rightarrow> int \<Rightarrow> int \<Rightarrow> decimal_feature_value fallible" where
  "valid_value x unit required available digits =
     bind_result (quantize_feature x unit digits) (\<lambda>v. build_value
       \<lparr>dfv_status = feature_availability.VALID, dfv_unit = unit, dfv_value = Some v,
        dfv_required_candles = required, dfv_available_candles = available, dfv_reason = None\<rparr>)"

definition insufficient_value :: "feature_unit \<Rightarrow> int \<Rightarrow> int \<Rightarrow> decimal_feature_value fallible" where
  "insufficient_value unit required available = build_value
     \<lparr>dfv_status = feature_availability.INSUFFICIENT_HISTORY, dfv_unit = unit, dfv_value = None,
      dfv_required_candles = required, dfv_available_candles = available,
      dfv_reason = Some ''accepted completed-candle history is insufficient''\<rparr>"

definition unavailable_value :: "feature_unit \<Rightarrow> int \<Rightarrow> int \<Rightarrow> string \<Rightarrow> decimal_feature_value fallible" where
  "unavailable_value unit required available reason = build_value
     \<lparr>dfv_status = feature_availability.UNAVAILABLE, dfv_unit = unit, dfv_value = None,
      dfv_required_candles = required, dfv_available_candles = available, dfv_reason = Some reason\<rparr>"

definition series_feature :: "decimal option \<Rightarrow> feature_unit \<Rightarrow> int \<Rightarrow> int \<Rightarrow> int \<Rightarrow> decimal_feature_value fallible" where
  "series_feature x unit required available digits =
     (if available < required then insufficient_value unit required available
      else case x of
          None \<Rightarrow> Inl (feature_error feature_error_category.CALCULATION_FAILURE
            ''indicator did not produce a value after its required history'')
        | Some v \<Rightarrow> valid_value v unit required available digits)"

definition distance_feature :: "decimal \<Rightarrow> decimal_feature_value \<Rightarrow> int \<Rightarrow> decimal_feature_value fallible" where
  "distance_feature latest r digits =
     (if dfv_status r = feature_availability.VALID
      then case dfv_value r of
          None \<Rightarrow> Inl (feature_error feature_error_category.CALCULATION_FAILURE
            ''valid reference feature has no value'')
        | Some v \<Rightarrow> valid_value (rd50 (latest - v)) feature_unit.PRICE (dfv_required_candles r)
            (dfv_available_candles r) digits
      else build_value
        \<lparr>dfv_status = dfv_status r, dfv_unit = feature_unit.PRICE, dfv_value = None,
         dfv_required_candles = dfv_required_candles r, dfv_available_candles = dfv_available_candles r,
         dfv_reason = dfv_reason r\<rparr>)"

text \<open>The rounded point is a \<open>model_copy\<close>: only its price changes, and it is not validated again.\<close>

definition swing_feature :: "swing_point option \<Rightarrow> int \<Rightarrow> int \<Rightarrow> int \<Rightarrow> swing_feature_value fallible" where
  "swing_feature x required available digits =
     (let missing = (\<lambda>status reason. build ''SwingFeatureValue'' ok_swing_feature_value
        \<lparr>sfv_status = status, sfv_value = None, sfv_required_candles = required,
         sfv_available_candles = available, sfv_reason = Some reason\<rparr>)
      in if available < required
         then missing feature_availability.INSUFFICIENT_HISTORY
           ''accepted completed-candle history is insufficient''
         else case x of
             None \<Rightarrow> missing feature_availability.UNAVAILABLE
               ''no strictly confirmed swing exists in the accepted history''
           | Some p \<Rightarrow> bind_result (quantize_feature (sp_price p) feature_unit.PRICE digits) (\<lambda>v.
               build ''SwingFeatureValue'' ok_swing_feature_value
                 \<lparr>sfv_status = feature_availability.VALID, sfv_value = Some (p\<lparr>sp_price := v\<rparr>),
                  sfv_required_candles = required, sfv_available_candles = available, sfv_reason = None\<rparr>))"

definition swing_distance :: "decimal \<Rightarrow> swing_feature_value \<Rightarrow> int \<Rightarrow> decimal_feature_value fallible" where
  "swing_distance latest r digits =
     (if sfv_status r = feature_availability.VALID
      then case sfv_value r of
          None \<Rightarrow> Inl (feature_error feature_error_category.CALCULATION_FAILURE
            ''valid swing reference has no point'')
        | Some p \<Rightarrow> valid_value (rd50 (latest - sp_price p)) feature_unit.PRICE (sfv_required_candles r)
            (sfv_available_candles r) digits
      else build_value
        \<lparr>dfv_status = sfv_status r, dfv_unit = feature_unit.PRICE, dfv_value = None,
         dfv_required_candles = sfv_required_candles r, dfv_available_candles = sfv_available_candles r,
         dfv_reason = sfv_reason r\<rparr>)"

section \<open>Required history\<close>

definition ema_required :: "int \<Rightarrow> int" where "ema_required p = p"

definition rsi_required :: int where "rsi_required = 14 + 1"

definition atr_required :: int where "atr_required = 14 + 1"

definition adx_required :: int where "adx_required = 14 * 2"

definition swing_required :: "int \<Rightarrow> int \<Rightarrow> int" where "swing_required l r = l + r + 1"

lemmas required_defs = ema_required_def rsi_required_def atr_required_def adx_required_def swing_required_def

section \<open>One timeframe\<close>

definition ema_value :: "decimal list \<Rightarrow> int \<Rightarrow> int \<Rightarrow> decimal_feature_value fallible" where
  "ema_value closes p digits =
     bind_result (ema_series closes p) (\<lambda>s.
       series_feature (last s) feature_unit.PRICE (ema_required p) (int (length closes)) digits)"

definition trend_of :: "decimal list \<Rightarrow> int \<Rightarrow> trend_features fallible" where
  "trend_of closes digits =
     bind_result (ema_value closes 20 digits) (\<lambda>e20.
     bind_result (ema_value closes 50 digits) (\<lambda>e50.
     bind_result (ema_value closes 200 digits) (\<lambda>e200.
     bind_result (distance_feature (last closes) e20 digits) (\<lambda>d20.
     bind_result (distance_feature (last closes) e50 digits) (\<lambda>d50.
     bind_result (distance_feature (last closes) e200 digits) (\<lambda>d200.
       build ''TrendFeatures'' validate_trend_features
         \<lparr>tf_ema_20 = e20, tf_ema_50 = e50, tf_ema_200 = e200, tf_distance_from_ema_20 = d20,
          tf_distance_from_ema_50 = d50, tf_distance_from_ema_200 = d200\<rparr>))))))"

definition geometry_features :: "mt5_candle \<Rightarrow> int \<Rightarrow> int \<Rightarrow> candle_geometry_features fallible" where
  "geometry_features c count digits =
     (let g = geometry_of c; price = (\<lambda>x. valid_value x feature_unit.PRICE 1 count digits)
      in bind_result (price (cg_candle_range g)) (\<lambda>range.
         bind_result (price (cg_real_body g)) (\<lambda>body.
         bind_result (price (cg_upper_wick g)) (\<lambda>upper.
         bind_result (price (cg_lower_wick g)) (\<lambda>lower.
         bind_result (case cg_body_range_ratio g of
             None \<Rightarrow> unavailable_value feature_unit.RATIO 1 count
               ''zero-range candle has no defined body/range ratio''
           | Some x \<Rightarrow> valid_value x feature_unit.RATIO 1 count digits) (\<lambda>ratio.
         Inr \<lparr>cgf_candle_open_at = mc_open_time c, cgf_candle_range = range, cgf_real_body = body,
           cgf_upper_wick = upper, cgf_lower_wick = lower, cgf_body_range_ratio = ratio\<rparr>))))))"

definition structure_features ::
  "feature_engine_settings \<Rightarrow> timeframe \<Rightarrow> mt5_candle list \<Rightarrow> decimal \<Rightarrow> int \<Rightarrow> market_structure_features fallible" where
  "structure_features cfg tf cs latest digits =
     (let count = int (length cs); l = fes_swing_left_bars cfg; r = fes_swing_right_bars cfg;
          need = swing_required l r; lookback = fes_recent_range_lookback cfg
      in bind_result (latest_confirmed_swing_high cs tf l r) (\<lambda>ph.
         bind_result (swing_feature ph need count digits) (\<lambda>high.
         bind_result (latest_confirmed_swing_low cs tf l r) (\<lambda>pl.
         bind_result (swing_feature pl need count digits) (\<lambda>low.
         bind_result (recent_range cs lookback) (\<lambda>range.
         bind_result (case range of None \<Rightarrow> insufficient_value feature_unit.PRICE lookback count
           | Some (h, b) \<Rightarrow> valid_value h feature_unit.PRICE lookback count digits) (\<lambda>range_high.
         bind_result (case range of None \<Rightarrow> insufficient_value feature_unit.PRICE lookback count
           | Some (h, b) \<Rightarrow> valid_value b feature_unit.PRICE lookback count digits) (\<lambda>range_low.
         bind_result (swing_distance latest high digits) (\<lambda>dh.
         bind_result (swing_distance latest low digits) (\<lambda>dl.
         bind_result (distance_feature latest range_high digits) (\<lambda>drh.
         bind_result (distance_feature latest range_low digits) (\<lambda>drl.
           build ''MarketStructureFeatures'' validate_market_structure_features
             \<lparr>msf_recent_swing_high = high, msf_recent_swing_low = low, msf_recent_range_high = range_high,
              msf_recent_range_low = range_low, msf_distance_from_recent_swing_high = dh,
              msf_distance_from_recent_swing_low = dl, msf_distance_from_recent_range_high = drh,
              msf_distance_from_recent_range_low = drl\<rparr>))))))))))))"

definition availability_summary :: "feature_availability list \<Rightarrow> feature_availability" where
  "availability_summary statuses =
     (if feature_availability.INSUFFICIENT_HISTORY \<in> set statuses
      then feature_availability.INSUFFICIENT_HISTORY
      else if feature_availability.UNAVAILABLE \<in> set statuses
      then feature_availability.UNAVAILABLE else feature_availability.VALID)"

definition availability_warnings :: "timeframe \<Rightarrow> feature_availability list \<Rightarrow> feature_warning list" where
  "availability_warnings tf statuses =
     (if feature_availability.INSUFFICIENT_HISTORY \<in> set statuses
      then [\<lparr>fw_code = feature_warning_code.INSUFFICIENT_HISTORY,
        fw_message = ''one or more features require additional completed candles'',
        fw_timeframe = Some tf, fw_feature_names = []\<rparr>] else []) @
     (if feature_availability.UNAVAILABLE \<in> set statuses
      then [\<lparr>fw_code = feature_warning_code.FEATURE_UNAVAILABLE,
        fw_message = ''one or more features are undefined for the accepted history'',
        fw_timeframe = Some tf, fw_feature_names = []\<rparr>] else [])"

definition feature_statuses :: "timeframe_feature_set \<Rightarrow> feature_availability list" where
  "feature_statuses f = map dfv_status (numeric_features f) @
     [sfv_status (msf_recent_swing_high (tfs_market_structure f)),
      sfv_status (msf_recent_swing_low (tfs_market_structure f))]"

definition calculate_timeframe ::
  "sha \<Rightarrow> feature_engine_settings \<Rightarrow> market_snapshot \<Rightarrow> timeframe \<Rightarrow> mt5_candle list \<Rightarrow>
     timeframe_feature_set fallible" where
  "calculate_timeframe sha cfg s tf cs =
     (let count = int (length cs); digits = msi_digits (ms_symbol_info s); closes = map mc_close cs
      in bind_result (trend_of closes digits) (\<lambda>trend.
         bind_result (rsi_series closes 14) (\<lambda>rsi.
         bind_result (series_feature (last rsi) feature_unit.INDEX rsi_required count digits) (\<lambda>rsi14.
         bind_result (atr_series cs 14) (\<lambda>atr.
         bind_result (series_feature (last atr) feature_unit.PRICE atr_required count digits) (\<lambda>atr14.
         bind_result (adx_series cs 14) (\<lambda>adx.
         bind_result (series_feature (last adx) feature_unit.INDEX adx_required count digits) (\<lambda>adx14.
         bind_result (geometry_features (last cs) count digits) (\<lambda>geometry.
         bind_result (structure_features cfg tf cs (last closes) digits) (\<lambda>structure.
         let f = \<lparr>tfs_timeframe = tf, tfs_source_candle_count = count,
               tfs_source_first_candle_open_at = mc_open_time (hd cs),
               tfs_source_last_candle_open_at = mc_open_time (last cs),
               tfs_source_last_candle_close_at = mc_open_time (last cs) + timeframe_duration tf,
               tfs_evaluation_candle_open_at = mc_open_time (last cs),
               tfs_source_candle_digest = source_candle_digest sha (ms_symbol s) tf cs,
               tfs_validity = data_validity_state.VALID, tfs_availability = feature_availability.VALID,
               tfs_trend = trend, tfs_momentum = \<lparr>mf_rsi_14 = rsi14\<rparr>, tfs_volatility = \<lparr>vf_atr_14 = atr14\<rparr>,
               tfs_trend_strength = \<lparr>tsf_adx_14 = adx14\<rparr>, tfs_candle_geometry = geometry,
               tfs_market_structure = structure, tfs_warnings = []\<rparr>;
             statuses = feature_statuses f
         in build ''TimeframeFeatureSet'' ok_timeframe_feature_set
              (f\<lparr>tfs_availability := availability_summary statuses,
                 tfs_warnings := availability_warnings tf statuses\<rparr>)))))))))))"

section \<open>The engine\<close>

definition collections :: "market_snapshot \<Rightarrow> (timeframe \<times> mt5_candle list) list" where
  "collections s = [(timeframe.M15, sc_m15 (ms_candles s)), (timeframe.H1, sc_h1 (ms_candles s)),
     (timeframe.H4, sc_h4 (ms_candles s))]"

definition configuration_digest :: "sha \<Rightarrow> feature_engine_settings \<Rightarrow> string" where
  "configuration_digest sha cfg = content_digest sha (PDict
     [(''canonicalization_version'', PStr ''1.0.0''),
      (''configuration'', PDict
        [(''configuration_version'', PStr (fes_configuration_version cfg)),
         (''recent_range_lookback'', PInt (fes_recent_range_lookback cfg)),
         (''swing_left_bars'', PInt (fes_swing_left_bars cfg)),
         (''swing_right_bars'', PInt (fes_swing_right_bars cfg))])])"

definition definition_versions :: feature_definition_versions where
  "definition_versions = \<lparr>fdv_ema = ''1.0.0'', fdv_rsi = ''1.0.0'', fdv_atr = ''1.0.0'', fdv_adx = ''1.0.0'',
     fdv_candle_geometry = ''1.0.0'', fdv_confirmed_swing = ''1.0.0'', fdv_recent_range = ''1.0.0'',
     fdv_signed_distance = ''1.0.0''\<rparr>"

definition assemble_features ::
  "sha \<Rightarrow> feature_engine_settings \<Rightarrow> market_snapshot \<Rightarrow> timeframe_feature_set \<Rightarrow> timeframe_feature_set \<Rightarrow>
     timeframe_feature_set \<Rightarrow> market_feature_set fallible" where
  "assemble_features sha cfg s m15 h1 h4 =
     bind_result (build ''TimeframeFeatureCollection'' validate_timeframe_feature_collection
       \<lparr>tfc_m15 = m15, tfc_h1 = h1, tfc_h4 = h4\<rparr>) (\<lambda>collection.
     bind_result (build ''FeatureProvenance'' fields_feature_provenance
       \<lparr>fp_canonicalization_version = ''1.0.0'', fp_source_snapshot_schema_version = ms_schema_version s,
        fp_source_snapshot_completed_at = ms_snapshot_completed_at s, fp_feature_engine_version = ''1.0.0'',
        fp_feature_set_version = ''1.0.0'', fp_configuration_version = fes_configuration_version cfg,
        fp_configuration_digest = configuration_digest sha cfg,
        fp_source_candle_digests = \<lparr>scd_m15 = tfs_source_candle_digest m15,
          scd_h1 = tfs_source_candle_digest h1, scd_h4 = tfs_source_candle_digest h4\<rparr>,
        fp_definition_versions = definition_versions, fp_decimal_precision = 50,
        fp_decimal_rounding = ''ROUND_HALF_EVEN'', fp_completed_candles_only = True\<rparr>) (\<lambda>provenance.
     build ''MarketFeatureSet'' ok_market_feature_set
       \<lparr>mfs_schema_version = ''1.0.0'', mfs_feature_set_version = ''1.0.0'',
        mfs_feature_engine_version = ''1.0.0'', mfs_cycle_id = ms_cycle_id s,
        mfs_snapshot_id = ms_snapshot_id s, mfs_symbol = ms_symbol s,
        mfs_primary_timeframe = ms_primary_timeframe s, mfs_generated_at = ms_snapshot_completed_at s,
        mfs_source_validity = data_validity_state.VALID,
        mfs_source_freshness = scm_freshness (ms_consistency s), mfs_timeframes = collection,
        mfs_warnings = tfs_warnings m15 @ tfs_warnings h1 @ tfs_warnings h4 @
          (if sfre_overall (scm_freshness (ms_consistency s)) = freshness_state.STALE
           then [\<lparr>fw_code = feature_warning_code.STALE_SOURCE,
             fw_message = ''source snapshot is valid but contains stale observations'',
             fw_timeframe = None, fw_feature_names = []\<rparr>] else []),
        mfs_provenance = provenance\<rparr>))"

definition compute_features :: "sha \<Rightarrow> feature_engine_settings \<Rightarrow> market_snapshot \<Rightarrow> market_feature_set fallible" where
  "compute_features sha cfg s =
     bind_result (validate_candles s timeframe.M15 (sc_m15 (ms_candles s))) (\<lambda>_.
     bind_result (validate_candles s timeframe.H1 (sc_h1 (ms_candles s))) (\<lambda>_.
     bind_result (validate_candles s timeframe.H4 (sc_h4 (ms_candles s))) (\<lambda>_.
     bind_result (revalidate_snapshot s) (\<lambda>v.
     bind_result (calculate_timeframe sha cfg v timeframe.M15 (sc_m15 (ms_candles v))) (\<lambda>m15.
     bind_result (calculate_timeframe sha cfg v timeframe.H1 (sc_h1 (ms_candles v))) (\<lambda>h1.
     bind_result (calculate_timeframe sha cfg v timeframe.H4 (sc_h4 (ms_candles v))) (\<lambda>h4.
     assemble_features sha cfg v m15 h1 h4)))))))"

text \<open>Only feature errors leave the engine; an exception outside \<open>Exception\<close> is not caught.\<close>

definition as_feature_error :: "'a fallible \<Rightarrow> 'a fallible" where
  "as_feature_error r = (case r of
       Inl e \<Rightarrow> Inl (case e of
           FeatureEngineError c m \<Rightarrow> e
         | ProcessExit \<Rightarrow> e
         | _ \<Rightarrow> feature_error feature_error_category.CALCULATION_FAILURE
             ''deterministic feature calculation failed'')
     | Inr x \<Rightarrow> Inr x)"

definition calculate_features :: "sha \<Rightarrow> feature_engine_settings \<Rightarrow> market_snapshot \<Rightarrow> market_feature_set fallible" where
  "calculate_features sha cfg s = as_feature_error (compute_features sha cfg s)"

end
