(* ===== verification/Replay.thy ===== *)
theory Replay
  imports MarketService FeatureEngine EvaluationSchemas
begin

text \<open>
  \<open>replay/clock.py\<close>, \<open>replay/source.py\<close>, \<open>replay/snapshot.py\<close> and \<open>replay/engine.py\<close>: the decision world
  rebuilt from a historical dataset. A source is its dataset; reading a file into one is not modelled.
\<close>

abbreviation replay_error :: "replay_error_category \<Rightarrow> string \<Rightarrow> py_exception" where
  "replay_error \<equiv> ReplayError"

section \<open>The clock\<close>

definition replay_clock :: "py_datetime list \<Rightarrow> dataset_partition \<Rightarrow> instant list fallible" where
  "replay_clock schedule p =
     (let ts = map as_utc schedule
      in bind_result (run_guards
        [(list_ex is_naive schedule, replay_error replay_error_category.INVALID_REPLAY_CLOCK
           ''replay schedule timestamps must be timezone-aware''),
         (ts = [] \<or> sort (remdups ts) \<noteq> ts, replay_error replay_error_category.INVALID_REPLAY_CLOCK
           ''replay schedule must be non-empty, unique, and strictly increasing''),
         (list_ex (\<lambda>t. t < dp_evaluation_start p \<or> t \<ge> dp_evaluation_end p) ts,
           replay_error replay_error_category.PARTITION_VIOLATION
             ''replay schedule must remain inside the partition evaluation range'')]) (\<lambda>_. Inr ts))"

section \<open>The source\<close>

definition dataset_digest :: "sha \<Rightarrow> historical_dataset \<Rightarrow> string" where
  "dataset_digest sha d = content_digest sha (PDict
     [(''canonicalization_version'', PStr ''1.0.0''), (''schema_version'', PStr (hd_schema_version d)),
      (''metadata'', dump_historical_dataset_metadata (hd_metadata d)),
      (''candles'', PList (map dump_historical_candle (hd_candles d))),
      (''snapshot_observations'', PList (map dump_historical_snapshot_observations (hd_snapshot_observations d)))])"

definition open_source :: "sha \<Rightarrow> historical_dataset \<Rightarrow> historical_dataset fallible" where
  "open_source sha d = (if dataset_digest sha d \<noteq> hd_dataset_digest d
     then Inl (replay_error replay_error_category.DATASET_DIGEST_MISMATCH
       ''historical dataset digest does not match canonical contents'')
     else Inr d)"

definition find_partition :: "historical_dataset \<Rightarrow> string \<Rightarrow> dataset_partition fallible" where
  "find_partition d pid = (case find (\<lambda>p. dp_partition_id p = pid) (hdm_partitions (hd_metadata d)) of
       Some p \<Rightarrow> Inr p
     | None \<Rightarrow> Inl (replay_error replay_error_category.PARTITION_VIOLATION
         ''requested partition is not declared by the dataset''))"

record decision_view =
  dv_dataset :: historical_dataset
  dv_partition :: dataset_partition
  dv_cutoff :: instant

definition replay_utc :: "py_datetime \<Rightarrow> instant fallible" where
  "replay_utc t = (if is_naive t then Inl (replay_error replay_error_category.INVALID_REPLAY_CLOCK
     ''replay cutoff must be timezone-aware'') else Inr (as_utc t))"

definition decision_view_of :: "historical_dataset \<Rightarrow> string \<Rightarrow> py_datetime \<Rightarrow> decision_view fallible" where
  "decision_view_of d pid cutoff =
     bind_result (replay_utc cutoff) (\<lambda>moment.
     bind_result (find_partition d pid) (\<lambda>p.
     if moment < dp_evaluation_start p \<or> moment \<ge> dp_evaluation_end p
     then Inl (replay_error replay_error_category.PARTITION_VIOLATION
       ''decision cutoff is outside the partition evaluation range'')
     else Inr \<lparr>dv_dataset = d, dv_partition = p, dv_cutoff = moment\<rparr>))"

definition last_n :: "nat \<Rightarrow> 'a list \<Rightarrow> 'a list" where
  "last_n n xs = drop (length xs - n) xs"

definition completed_candles :: "decision_view \<Rightarrow> string \<Rightarrow> timeframe \<Rightarrow> int \<Rightarrow> historical_candle list fallible" where
  "completed_candles v sy tf count =
     (if count \<le> 0 \<or> count > 5000
      then Inl (replay_error replay_error_category.INVALID_DATASET
        ''decision candle count must be between 1 and 5000'')
      else Inr (last_n (nat count) (filter (\<lambda>c. hc_symbol c = sy \<and> hc_timeframe c = tf \<and>
        hc_open_time c \<ge> dp_context_start (dv_partition v) \<and> hc_close_time c \<le> dv_cutoff v)
        (hd_candles (dv_dataset v)))))"

definition observations_as_of :: "decision_view \<Rightarrow> string \<Rightarrow> historical_snapshot_observations fallible" where
  "observations_as_of v sy =
     (let candidates = filter (\<lambda>r. hso_symbol r = sy \<and>
        hso_effective_at r \<ge> dp_context_start (dv_partition v) \<and> hso_effective_at r \<le> dv_cutoff v)
        (hd_snapshot_observations (dv_dataset v))
      in if candidates = [] then Inl (replay_error replay_error_category.MISSING_AS_OF_OBSERVATION
           ''snapshot-capable as-of observations are unavailable'')
         else Inr (last candidates))"

record outcome_view =
  ov_dataset_digest :: string
  ov_partition :: dataset_partition
  ov_cutoff :: instant
  ov_timeframe :: timeframe
  ov_candles :: "historical_candle list"

definition outcome_view_of ::
  "historical_dataset \<Rightarrow> frozen_replay_decision \<Rightarrow> string \<Rightarrow> timeframe \<Rightarrow> outcome_horizon \<Rightarrow> outcome_view fallible" where
  "outcome_view_of d fz pid tf h =
     bind_result (find_partition d pid) (\<lambda>p.
     let cutoff = frd_decision_cutoff fz
     in if cutoff < dp_evaluation_start p \<or> cutoff \<ge> dp_evaluation_end p
        then Inl (replay_error replay_error_category.PARTITION_VIOLATION
          ''frozen decision cutoff is outside the partition evaluation range'')
        else let candidates = filter (\<lambda>c. hc_symbol c = frd_symbol fz \<and> hc_timeframe c = tf \<and>
               hc_open_time c \<ge> cutoff \<and> hc_close_time c > cutoff \<and>
               hc_close_time c \<le> dp_evaluation_end p) (hd_candles d)
          in bind_result (case oh_max_bars h of
                 Some n \<Rightarrow> Inr (if 0 \<le> n then take (nat n) candidates
                   else take (length candidates - nat (- n)) candidates)
               | None \<Rightarrow> (case oh_max_elapsed h of
                   None \<Rightarrow> Inl (replay_error replay_error_category.INVALID_HORIZON ''finite horizon missing'')
                 | Some x \<Rightarrow> Inr (filter (\<lambda>c. hc_close_time c \<le> min (cutoff + x) (dp_evaluation_end p)) candidates)))
             (\<lambda>selected.
             if selected = [] then Inl (replay_error replay_error_category.INVALID_OUTCOME_DATA
               ''no completed post-decision candles exist inside the finite horizon'')
             else Inr \<lparr>ov_dataset_digest = hd_dataset_digest d, ov_partition = p, ov_cutoff = cutoff,
               ov_timeframe = tf, ov_candles = selected\<rparr>))"

section \<open>Historical snapshots\<close>

definition to_snapshot_candle :: "instant \<Rightarrow> historical_candle \<Rightarrow> mt5_candle fallible" where
  "to_snapshot_candle cutoff c = (case (hc_tick_volume c, hc_broker_spread_points c, hc_real_volume c) of
       (Some tv, Some sp, Some rv) \<Rightarrow> build ''MT5Candle'' ok_mt5_candle
         \<lparr>mc_schema_version = ''1.0.0'', mc_retrieved_at = cutoff, mc_symbol = hc_symbol c,
          mc_timeframe = hc_timeframe c, mc_open_time = hc_open_time c, mc_open = hc_open c,
          mc_high = hc_high c, mc_low = hc_low c, mc_close = hc_close c, mc_tick_volume = tv,
          mc_broker_spread_points = sp, mc_real_volume = rv\<rparr>
     | _ \<Rightarrow> Inl (replay_error replay_error_category.MISSING_AS_OF_OBSERVATION
         ''snapshot reproduction requires accepted candle volume/spread metadata''))"

primrec map_result :: "('a \<Rightarrow> 'b fallible) \<Rightarrow> 'a list \<Rightarrow> 'b list fallible" where
  "map_result f [] = Inr []"
| "map_result f (x # xs) = bind_result (f x) (\<lambda>y. bind_result (map_result f xs) (\<lambda>ys. Inr (y # ys)))"

definition historical_freshness ::
  "market_data_settings \<Rightarrow> instant \<Rightarrow> mt5_tick \<Rightarrow> mt5_candle list \<Rightarrow> mt5_candle list \<Rightarrow> mt5_candle list \<Rightarrow>
     snapshot_freshness fallible" where
  "historical_freshness g cutoff tick m15 h1 h4 =
     (let fresh = (\<lambda>observed age. assess_freshness observed cutoff (seconds age))
      in bind_result (fresh (mt_source_time tick) (mds_max_tick_age_seconds g)) (\<lambda>ft.
         bind_result (fresh cutoff (mds_max_account_age_seconds g)) (\<lambda>fa.
         bind_result (fresh (mc_open_time (last m15) + seconds 900) (mds_max_m15_candle_age_seconds g)) (\<lambda>f15.
         bind_result (fresh (mc_open_time (last h1) + seconds 3600) (mds_max_h1_candle_age_seconds g)) (\<lambda>f1.
         bind_result (fresh (mc_open_time (last h4) + seconds 14400) (mds_max_h4_candle_age_seconds g)) (\<lambda>f4.
         summarize_freshness ft fa f15 f1 f4))))))"

definition historical_snapshot ::
  "market_data_settings \<Rightarrow> decision_view \<Rightarrow> string \<Rightarrow> string \<Rightarrow> string \<Rightarrow> timeframe \<Rightarrow> market_snapshot fallible" where
  "historical_snapshot g v cycle snap sy primary =
     (let cutoff = dv_cutoff v
      in bind_result (completed_candles v sy timeframe.M15 (mds_m15_candle_count g)) (\<lambda>hist15.
         bind_result (completed_candles v sy timeframe.H1 (mds_h1_candle_count g)) (\<lambda>hist1.
         bind_result (completed_candles v sy timeframe.H4 (mds_h4_candle_count g)) (\<lambda>hist4.
         if hist15 = [] \<or> hist1 = [] \<or> hist4 = []
         then Inl (replay_error replay_error_category.SNAPSHOT_REPRODUCTION_FAILURE
           ''all M15, H1, and H4 completed histories are required'')
         else
         bind_result (map_result (to_snapshot_candle cutoff) hist15) (\<lambda>m15.
         bind_result (map_result (to_snapshot_candle cutoff) hist1) (\<lambda>h1.
         bind_result (map_result (to_snapshot_candle cutoff) hist4) (\<lambda>h4.
         bind_result (observations_as_of v sy) (\<lambda>r.
         let info = (hso_symbol_info r)\<lparr>msi_retrieved_at := cutoff\<rparr>;
             tick = (hso_tick r)\<lparr>mt_retrieved_at := cutoff\<rparr>;
             account = (hso_account r)\<lparr>mai_retrieved_at := cutoff\<rparr>;
             positions = map (\<lambda>p. p\<lparr>mop_retrieved_at := cutoff\<rparr>)
               (filter (\<lambda>p. mop_symbol p = sy) (hso_open_positions r));
             stamps = \<lparr>sst_symbol_info = cutoff, sst_account = cutoff, sst_m15_candles = cutoff,
               sst_h1_candles = cutoff, sst_h4_candles = cutoff, sst_positions = cutoff, sst_tick = cutoff\<rparr>
         in bind_result (historical_freshness g cutoff tick m15 h1 h4) (\<lambda>freshness.
            bind_result (build ''SnapshotCandles'' fields_snapshot_candles
              \<lparr>sc_m15 = m15, sc_h1 = h1, sc_h4 = h4\<rparr>) (\<lambda>candles.
            bind_result (build ''SnapshotConsistencyMetadata'' (\<lambda>c. fields_snapshot_consistency_metadata c \<and>
                validate_snapshot_consistency_metadata c)
              \<lparr>scm_validity = data_validity_state.VALID, scm_source_timestamps = stamps,
               scm_snapshot_duration = 0, scm_freshness = freshness, scm_validation_warnings = []\<rparr>)
              (\<lambda>consistency.
            build ''MarketSnapshot'' ok_market_snapshot
              \<lparr>ms_schema_version = ''1.0.0'', ms_cycle_id = cycle, ms_snapshot_id = snap, ms_symbol = sy,
               ms_primary_timeframe = primary, ms_snapshot_started_at = cutoff,
               ms_snapshot_completed_at = cutoff, ms_symbol_info = info, ms_tick = tick,
               ms_spread = mt_spread tick, ms_candles = candles, ms_account = account,
               ms_open_positions = positions, ms_consistency = consistency\<rparr>)))))))))))"

text \<open>Validation errors become replay errors.\<close>

definition as_snapshot_error :: "'a fallible \<Rightarrow> 'a fallible" where
  "as_snapshot_error r = (case r of
       Inl e \<Rightarrow> Inl (if is_value_error e \<or> (case e of KeyError k \<Rightarrow> True | _ \<Rightarrow> False)
         then replay_error replay_error_category.SNAPSHOT_REPRODUCTION_FAILURE
           ''historical observations cannot reproduce a valid MarketSnapshot'' else e)
     | Inr x \<Rightarrow> Inr x)"

definition build_historical_snapshot ::
  "market_data_settings \<Rightarrow> decision_view \<Rightarrow> string \<Rightarrow> string \<Rightarrow> string \<Rightarrow> timeframe \<Rightarrow> market_snapshot fallible" where
  "build_historical_snapshot g v cycle snap sy primary =
     as_snapshot_error (historical_snapshot g v cycle snap sy primary)"

section \<open>The engine\<close>

record replay_engine =
  re_source :: historical_dataset
  re_market_settings :: market_data_settings
  re_feature_settings :: feature_engine_settings

definition ok_replay_frame :: "replay_frame \<Rightarrow> bool" where
  "ok_replay_frame f \<longleftrightarrow> fields_replay_frame f \<and> validate_replay_frame f"

definition artifact :: "string \<Rightarrow> string \<Rightarrow> string \<Rightarrow> artifact_reference fallible" where
  "artifact aid version digest = build ''ArtifactReference'' fields_artifact_reference
     \<lparr>ar_artifact_id = aid, ar_schema_version = version, ar_digest = digest\<rparr>"

definition frame_of ::
  "sha \<Rightarrow> replay_configuration \<Rightarrow> instant \<Rightarrow> decision_view \<Rightarrow> market_snapshot \<Rightarrow> market_feature_set \<Rightarrow>
     replay_build_result fallible" where
  "frame_of sha cfg t v s x =
     (let config_hash = content_digest sha (dump_replay_configuration cfg);
          rid = replay_id sha config_hash;
          fid = frame_id sha rid (rc_symbol cfg) (value_timeframe (rc_primary_timeframe cfg)) (PTime t);
          cid = cycle_id sha fid; sid = snapshot_id sha fid;
          snapshot_hash = content_digest sha (dump_market_snapshot s);
          features_hash = content_digest sha (dump_market_feature_set x)
      in bind_result (artifact sid (ms_schema_version s) snapshot_hash) (\<lambda>snap_ref.
         bind_result (artifact (deterministic_id sha ''features'' (PDict [(''snapshot_id'', PStr sid)]))
           (mfs_schema_version x) features_hash) (\<lambda>feature_ref.
         bind_result (build ''ReplayFrame'' ok_replay_frame
           \<lparr>rf_schema_version = ''1.0.0'', rf_replay_id = rid, rf_frame_id = fid,
            rf_dataset_id = rc_dataset_id cfg, rf_dataset_digest = rc_dataset_digest cfg,
            rf_partition_id = dp_partition_id (dv_partition v), rf_partition_kind = dp_kind (dv_partition v),
            rf_cycle_id = cid, rf_snapshot_id = sid, rf_symbol = rc_symbol cfg,
            rf_primary_timeframe = rc_primary_timeframe cfg, rf_replay_time = t,
            rf_decision_cutoff = dv_cutoff v, rf_market_snapshot = snap_ref, rf_market_features = feature_ref,
            rf_replay_configuration_digest = config_hash, rf_generated_at = t\<rparr>) (\<lambda>f.
         build ''ReplayBuildResult'' (\<lambda>r. fields_replay_build_result r \<and> validate_replay_build_result sha r)
           \<lparr>rbres_frame = f, rbres_snapshot = s, rbres_features = x\<rparr>))))"

definition build_frame ::
  "sha \<Rightarrow> replay_engine \<Rightarrow> replay_configuration \<Rightarrow> py_datetime \<Rightarrow> replay_build_result fallible" where
  "build_frame sha en cfg replay_time =
     (let d = re_source en; t = as_utc replay_time
      in bind_result (run_guards
        [(is_naive replay_time \<or> t \<notin> set (rc_replay_schedule cfg),
           replay_error replay_error_category.INVALID_REPLAY_CLOCK
             ''replay time is not present in the declared deterministic schedule''),
         (rc_dataset_id cfg \<noteq> hdm_dataset_id (hd_metadata d) \<or> rc_dataset_digest cfg \<noteq> hd_dataset_digest d,
           replay_error replay_error_category.DATASET_DIGEST_MISMATCH
             ''replay configuration does not match its historical dataset''),
         (rc_feature_configuration_digest cfg \<noteq> configuration_digest sha (re_feature_settings en),
           replay_error replay_error_category.FEATURE_REPRODUCTION_FAILURE
             ''replay feature configuration digest is incompatible'')]) (\<lambda>_.
         let rid = replay_id sha (content_digest sha (dump_replay_configuration cfg));
             fid = frame_id sha rid (rc_symbol cfg) (value_timeframe (rc_primary_timeframe cfg)) (PTime t)
         in bind_result (decision_view_of d (rc_partition_id cfg) replay_time) (\<lambda>v.
            bind_result (build_historical_snapshot (re_market_settings en) v (cycle_id sha fid)
              (snapshot_id sha fid) (rc_symbol cfg) (rc_primary_timeframe cfg)) (\<lambda>s.
            case calculate_features sha (re_feature_settings en) s of
              Inl e \<Rightarrow> Inl (if e = ProcessExit then e
                else replay_error replay_error_category.FEATURE_REPRODUCTION_FAILURE
                  ''M7 feature calculation failed for historical snapshot'')
            | Inr x \<Rightarrow> frame_of sha cfg t v s x))))"

definition freeze_replay_decision ::
  "sha \<Rightarrow> replay_frame \<Rightarrow> trade_proposal \<Rightarrow> replay_decision_source \<Rightarrow> instant \<Rightarrow> risk_decision option \<Rightarrow>
     frozen_replay_decision fallible" where
  "freeze_replay_decision sha f p source frozen_at risk =
     (let proposal_hash = content_digest sha (dump_trade_proposal p)
      in bind_result (case risk of None \<Rightarrow> Inr None
           | Some r \<Rightarrow> bind_result (build ''PersistedRiskDecisionLink'' fields_persisted_risk_decision_link
               \<lparr>prdl_schema_version = ''1.0.0'', prdl_proposal_digest = proposal_hash,
                prdl_risk_decision_digest = content_digest sha (dump_risk_decision r),
                prdl_risk_decision = r\<rparr>) (\<lambda>l. Inr (Some l))) (\<lambda>link.
         let d = \<lparr>frd_schema_version = ''1.0.0'',
               frd_frozen_decision_id = deterministic_id sha ''decision'' (PDict
                 [(''frame_id'', PStr (rf_frame_id f)), (''proposal_digest'', PStr proposal_hash)]),
               frd_replay_id = rf_replay_id f, frd_frame_id = rf_frame_id f, frd_cycle_id = rf_cycle_id f,
               frd_snapshot_id = rf_snapshot_id f, frd_symbol = rf_symbol f,
               frd_decision_cutoff = rf_decision_cutoff f, frd_frozen_at = frozen_at, frd_source = source,
               frd_proposal = p, frd_proposal_digest = proposal_hash,
               frd_entry_policy = entry_activation_policy.ACTIVE_AT_DECISION_CUTOFF, frd_risk_link = link\<rparr>
         in if ok_frozen_replay_decision sha d then Inr d
            else Inl (replay_error (if risk = None then replay_error_category.INVALID_PROPOSAL
                else replay_error_category.INVALID_RISK_LINKAGE)
              ''historical decision linkage is incompatible'')))"

end
