(* ===== verification/Outcomes.thy ===== *)
theory Outcomes
  imports Replay
begin

text \<open>
  \<open>evaluation/outcomes.py\<close>, \<open>evaluation/metrics.py\<close> and \<open>evaluation/segmentation.py\<close>: which level of
  a frozen proposal the price touches first, and the research metrics of a replay partition. Price
  differences are taken in the default context (\<open>rd28\<close>), quotients and sums in one of 50 digits.
\<close>

section \<open>Checks\<close>

definition validate_links ::
  "replay_frame \<Rightarrow> frozen_replay_decision \<Rightarrow> outcome_view \<Rightarrow> replay_configuration \<Rightarrow> unit fallible" where
  "validate_links f fz v cfg = run_guards
     [(frd_replay_id fz \<noteq> rf_replay_id f \<or> frd_frame_id fz \<noteq> rf_frame_id f \<or>
       frd_cycle_id fz \<noteq> rf_cycle_id f \<or> frd_snapshot_id fz \<noteq> rf_snapshot_id f \<or>
       frd_symbol fz \<noteq> rf_symbol f \<or> ov_cutoff v \<noteq> rf_decision_cutoff f \<or>
       dp_partition_id (ov_partition v) \<noteq> rf_partition_id f \<or>
       ov_dataset_digest v \<noteq> rf_dataset_digest f \<or> rc_dataset_digest cfg \<noteq> rf_dataset_digest f \<or>
       rc_outcome_timeframe cfg \<noteq> ov_timeframe v,
       replay_error replay_error_category.DECISION_NOT_FROZEN
         ''outcome inputs do not share one frozen replay identity'')]"

definition directional :: "trade_side \<Rightarrow> decimal \<Rightarrow> decimal \<Rightarrow> decimal \<Rightarrow> bool" where
  "directional side entry stop target \<longleftrightarrow>
     (if side = trade_side.BUY then stop < entry \<and> entry < target else target < entry \<and> entry < stop)"

definition frozen_levels :: "trade_proposal \<Rightarrow> (decimal \<times> decimal \<times> decimal) fallible" where
  "frozen_levels p = (case (tp_entry p, tp_stop_loss p, tp_take_profit p) of
       (Some entry, Some stop, Some target) \<Rightarrow>
         if directional (tp_side p) entry stop target then Inr (entry, stop, target)
         else Inl (replay_error replay_error_category.INVALID_PROPOSAL
           ''frozen proposal has invalid directional geometry'')
     | _ \<Rightarrow> Inl (replay_error replay_error_category.INVALID_PROPOSAL
         ''outcome evaluation requires frozen entry, stop loss, and take profit''))"

fun check_outcome_candles ::
  "frozen_replay_decision \<Rightarrow> timeframe \<Rightarrow> instant option \<Rightarrow> historical_candle list \<Rightarrow> unit fallible" where
  "check_outcome_candles fz tf previous [] = Inr ()"
| "check_outcome_candles fz tf previous (c # cs) = bind_result (run_guards
     [(hc_symbol c \<noteq> frd_symbol fz \<or> hc_timeframe c \<noteq> tf \<or> hc_open_time c < frd_decision_cutoff fz \<or>
       hc_close_time c \<le> frd_decision_cutoff fz, replay_error replay_error_category.FUTURE_DATA_ACCESS
         ''outcome candle violates the strict post-decision boundary''),
      (case previous of None \<Rightarrow> False | Some p \<Rightarrow> hc_open_time c \<le> p,
       replay_error replay_error_category.INVALID_OUTCOME_DATA
         ''outcome candles must be strictly chronological'')])
     (\<lambda>_. check_outcome_candles fz tf (Some (hc_open_time c)) cs)"

definition check_horizon ::
  "frozen_replay_decision \<Rightarrow> outcome_view \<Rightarrow> outcome_horizon \<Rightarrow> unit fallible" where
  "check_horizon fz v h = run_guards
     [(case oh_max_bars h of None \<Rightarrow> False | Some n \<Rightarrow> int (length (ov_candles v)) > n,
       replay_error replay_error_category.INVALID_HORIZON
         ''outcome view exceeds its declared maximum-bar horizon''),
      (case oh_max_elapsed h of None \<Rightarrow> False
         | Some x \<Rightarrow> list_ex (\<lambda>c. hc_close_time c > frd_decision_cutoff fz + x) (ov_candles v),
       replay_error replay_error_category.INVALID_HORIZON
         ''outcome view exceeds its declared elapsed-time horizon''),
      (list_ex (\<lambda>c. hc_close_time c > dp_evaluation_end (ov_partition v)) (ov_candles v),
       replay_error replay_error_category.PARTITION_VIOLATION
         ''outcome view crosses the partition evaluation end'')]"

section \<open>The price path\<close>

definition tp_hit :: "trade_side \<Rightarrow> decimal \<Rightarrow> historical_candle \<Rightarrow> bool" where
  "tp_hit side target c \<longleftrightarrow> (if side = trade_side.BUY then hc_high c \<ge> target else hc_low c \<le> target)"

definition sl_hit :: "trade_side \<Rightarrow> decimal \<Rightarrow> historical_candle \<Rightarrow> bool" where
  "sl_hit side stop c \<longleftrightarrow> (if side = trade_side.BUY then hc_low c \<le> stop else hc_high c \<ge> stop)"

definition gain_of :: "trade_side \<Rightarrow> decimal \<Rightarrow> historical_candle \<Rightarrow> decimal" where
  "gain_of side entry c = (if side = trade_side.BUY then rd28 (hc_high c - entry) else rd28 (entry - hc_low c))"

definition pain_of :: "trade_side \<Rightarrow> decimal \<Rightarrow> historical_candle \<Rightarrow> decimal" where
  "pain_of side entry c = (if side = trade_side.BUY then rd28 (entry - hc_low c) else rd28 (hc_high c - entry))"

text \<open>The excursions so far, the status, and the number of candles evaluated.\<close>

record price_path =
  pp_favorable :: decimal
  pp_adverse :: decimal
  pp_status :: trade_outcome_status
  pp_bars :: nat

fun walk :: "trade_side \<Rightarrow> decimal \<Rightarrow> decimal \<Rightarrow> decimal \<Rightarrow> decimal \<Rightarrow> decimal \<Rightarrow> nat \<Rightarrow> historical_candle list \<Rightarrow> price_path" where
  "walk side entry stop target favorable adverse n [] =
     \<lparr>pp_favorable = favorable, pp_adverse = adverse,
      pp_status = trade_outcome_status.UNRESOLVED_HORIZON, pp_bars = n\<rparr>"
| "walk side entry stop target favorable adverse n (c # cs) =
     (let f = max favorable (gain_of side entry c); a = max adverse (pain_of side entry c);
          tp = tp_hit side target c; sl = sl_hit side stop c;
          ended = (\<lambda>s. \<lparr>pp_favorable = f, pp_adverse = a, pp_status = s, pp_bars = n + 1\<rparr>)
      in if tp \<and> sl then ended trade_outcome_status.AMBIGUOUS_INTRABAR
         else if tp then ended trade_outcome_status.TAKE_PROFIT_REACHED
         else if sl then ended trade_outcome_status.STOP_LOSS_REACHED
         else walk side entry stop target f a (n + 1) cs)"

definition policy_digest :: "sha \<Rightarrow> replay_configuration \<Rightarrow> string" where
  "policy_digest sha cfg = content_digest sha (PDict
     [(''evaluation_policy_version'', PStr (rc_evaluation_policy_version cfg)),
      (''outcome_timeframe'', PStr (value_timeframe (rc_outcome_timeframe cfg))),
      (''horizon'', dump_outcome_horizon (rc_outcome_horizon cfg)),
      (''entry_policy'', PStr (value_entry_activation_policy (rc_entry_policy cfg))),
      (''intrabar_policy'', PStr (value_intrabar_policy (rc_intrabar_policy cfg))),
      (''outcome_basis'', PStr (value_outcome_basis (rc_outcome_basis cfg)))])"

definition segment_facts_for ::
  "replay_frame \<Rightarrow> trade_side \<Rightarrow> segment_facts option \<Rightarrow> segment_facts fallible" where
  "segment_facts_for f side given =
     (let facts = (case given of Some x \<Rightarrow> x | None \<Rightarrow>
        \<lparr>sf_direction = side, sf_timeframe = rf_primary_timeframe f, sf_partition = rf_partition_kind f,
         sf_feature_regime = None, sf_volatility_bucket = None, sf_trend_strength_bucket = None,
         sf_chief_decision = None, sf_skeptic_decision = None\<rparr>)
      in if sf_direction facts \<noteq> side \<or> sf_timeframe facts \<noteq> rf_primary_timeframe f \<or>
            sf_partition facts \<noteq> rf_partition_kind f
         then Inl (replay_error replay_error_category.INVALID_OUTCOME_DATA
           ''segment facts must be frozen decision-time facts'')
         else Inr facts)"

text \<open>The outcome of a path over the candles \<open>evaluated\<close>, of which there is at least one.\<close>

definition settle_outcome ::
  "sha \<Rightarrow> replay_frame \<Rightarrow> frozen_replay_decision \<Rightarrow> timeframe \<Rightarrow> replay_configuration \<Rightarrow> segment_facts option \<Rightarrow>
     decimal \<Rightarrow> decimal \<Rightarrow> decimal \<Rightarrow> price_path \<Rightarrow> historical_candle list \<Rightarrow> trade_outcome fallible" where
  "settle_outcome sha f fz tf cfg given entry stop target path evaluated =
     (let p = frd_proposal fz; side = tp_side p; terminal = last evaluated;
          risk_unit = \<bar>rd28 (entry - stop)\<bar>; status = pp_status path;
          mfe_r = rd50 (pp_favorable path / risk_unit); mae_r = rd50 (pp_adverse path / risk_unit);
          realized = (if status = trade_outcome_status.TAKE_PROFIT_REACHED
              then Some (rd50 (\<bar>rd50 (target - entry)\<bar> / risk_unit))
            else if status = trade_outcome_status.STOP_LOSS_REACHED then Some (- 1) else None);
          ended = (status \<noteq> trade_outcome_status.UNRESOLVED_HORIZON);
          elapsed = hc_close_time terminal - frd_decision_cutoff fz;
          policy_hash = policy_digest sha cfg
      in bind_result (segment_facts_for f side given) (\<lambda>facts.
         build ''TradeOutcome'' ok_trade_outcome
           \<lparr>to_schema_version = ''1.0.0'', to_evaluator_version = ''1.0.0'',
            to_outcome_id = outcome_id sha (rf_frame_id f) (frd_proposal_digest fz) policy_hash,
            to_replay_id = rf_replay_id f, to_frame_id = rf_frame_id f, to_cycle_id = rf_cycle_id f,
            to_snapshot_id = rf_snapshot_id f, to_proposal_id = tp_proposal_id p,
            to_proposal_digest = frd_proposal_digest fz, to_dataset_id = rf_dataset_id f,
            to_dataset_digest = rf_dataset_digest f, to_partition_id = rf_partition_id f,
            to_partition_kind = rf_partition_kind f, to_symbol = rf_symbol f, to_side = side,
            to_timeframe = tf, to_decision_cutoff = frd_decision_cutoff fz,
            to_evaluation_started_at = hc_open_time (hd evaluated),
            to_evaluation_ended_at = hc_close_time terminal, to_horizon = rc_outcome_horizon cfg,
            to_bars_evaluated = int (length evaluated), to_status = status,
            to_resolution_candle_open_at = (if ended then Some (hc_open_time terminal) else None),
            to_resolution_candle_close_at = (if ended then Some (hc_close_time terminal) else None),
            to_bars_to_resolution = (if ended then Some (int (length evaluated)) else None),
            to_seconds_to_resolution = (if ended then Some (rd28 (of_int elapsed / 1000000)) else None),
            to_entry = entry, to_stop_loss = stop, to_take_profit = target, to_risk_unit = risk_unit,
            to_realized_r_multiple = realized, to_maximum_favorable_excursion = pp_favorable path,
            to_maximum_adverse_excursion = pp_adverse path, to_mfe_r = mfe_r, to_mae_r = mae_r,
            to_outcome_candle_digest = content_digest sha (PList (map dump_historical_candle evaluated)),
            to_evaluation_policy_digest = policy_hash,
            to_outcome_basis = outcome_basis.THEORETICAL_LEVEL_TOUCH_NO_COSTS,
            to_segment_facts = facts\<rparr>))"

definition outcome_of ::
  "sha \<Rightarrow> replay_frame \<Rightarrow> frozen_replay_decision \<Rightarrow> outcome_view \<Rightarrow> replay_configuration \<Rightarrow> segment_facts option \<Rightarrow>
     decimal \<Rightarrow> decimal \<Rightarrow> decimal \<Rightarrow> trade_outcome fallible" where
  "outcome_of sha f fz v cfg given entry stop target =
     (let path = walk (tp_side (frd_proposal fz)) entry stop target 0 0 0 (ov_candles v);
          evaluated = take (pp_bars path) (ov_candles v)
      in if evaluated = [] then Inl (IndexError ''tuple index out of range'')
         else settle_outcome sha f fz (ov_timeframe v) cfg given entry stop target path evaluated)"

definition evaluate_outcome ::
  "sha \<Rightarrow> replay_frame \<Rightarrow> frozen_replay_decision \<Rightarrow> outcome_view \<Rightarrow> replay_configuration \<Rightarrow> segment_facts option \<Rightarrow>
     trade_outcome fallible" where
  "evaluate_outcome sha f fz v cfg given =
     bind_result (validate_links f fz v cfg) (\<lambda>_.
     bind_result (frozen_levels (frd_proposal fz)) (\<lambda>(entry, stop, target).
     bind_result (check_outcome_candles fz (ov_timeframe v) None (ov_candles v)) (\<lambda>_.
     bind_result (check_horizon fz v (rc_outcome_horizon cfg)) (\<lambda>_.
     outcome_of sha f fz v cfg given entry stop target))))"

section \<open>Research metrics\<close>

definition add50 :: "decimal list \<Rightarrow> decimal" where
  "add50 xs = foldl (\<lambda>a v. rd50 (a + v)) 0 xs"

definition valid_metric :: "decimal \<Rightarrow> research_metric" where
  "valid_metric x = \<lparr>rm_status = research_metric_status.VALID, rm_value = Some x\<rparr>"

definition unavailable_metric :: research_metric where
  "unavailable_metric = \<lparr>rm_status = research_metric_status.UNAVAILABLE, rm_value = None\<rparr>"

definition optional_metric :: "decimal option \<Rightarrow> research_metric" where
  "optional_metric x = (case x of None \<Rightarrow> unavailable_metric | Some v \<Rightarrow> valid_metric v)"

definition median :: "decimal list \<Rightarrow> decimal option" where
  "median xs =
     (let ys = sort xs; m = length ys div 2
      in if xs = [] then None
         else if odd (length ys) then Some (ys ! m)
         else Some (rd50 (rd50 (ys ! (m - 1) + ys ! m) / 2)))"

fun drawdown_from :: "decimal \<Rightarrow> decimal \<Rightarrow> decimal \<Rightarrow> decimal list \<Rightarrow> decimal" where
  "drawdown_from running peak maximum [] = maximum"
| "drawdown_from running peak maximum (x # xs) =
     (let r = rd50 (running + x); p = max peak r
      in drawdown_from r p (max maximum (rd50 (p - r))) xs)"

definition sequence_max_drawdown :: "decimal list \<Rightarrow> decimal" where
  "sequence_max_drawdown xs = drawdown_from 0 0 0 xs"

text \<open>The key (cut-off, identity) orders by two stable sorts, the minor key first.\<close>

definition chronological :: "trade_outcome list \<Rightarrow> trade_outcome list" where
  "chronological outcomes = sort_key to_decision_cutoff (sort_key to_outcome_id outcomes)"

definition average :: "decimal list \<Rightarrow> decimal option" where
  "average xs = (if xs = [] then None else Some (rd50 (add50 xs / of_nat (length xs))))"

text \<open>\<open>x or 0\<close>\<close>

definition or_zero :: "'a::zero option \<Rightarrow> 'a" where
  "or_zero x = (case x of None \<Rightarrow> 0 | Some v \<Rightarrow> v)"

definition with_status :: "trade_outcome_status \<Rightarrow> trade_outcome list \<Rightarrow> trade_outcome list" where
  "with_status s xs = filter (\<lambda>x. to_status x = s) xs"

definition profit_factor :: "decimal list \<Rightarrow> research_metric" where
  "profit_factor realized =
     (let win = add50 (filter (\<lambda>v. v > 0) realized); loss = \<bar>add50 (filter (\<lambda>v. v < 0) realized)\<bar>
      in if loss > 0 then valid_metric (rd50 (win / loss))
         else if win > 0 then \<lparr>rm_status = research_metric_status.UNBOUNDED, rm_value = None\<rparr>
         else unavailable_metric)"

definition summary_of :: "sha \<Rightarrow> trade_outcome list \<Rightarrow> performance_summary fallible" where
  "summary_of sha ordered =
     (let first = hd ordered;
          wins = with_status trade_outcome_status.TAKE_PROFIT_REACHED ordered;
          losses = with_status trade_outcome_status.STOP_LOSS_REACHED ordered;
          resolved = wins @ losses;
          realized = List.map_filter to_realized_r_multiple ordered;
          mean = average realized;
          outcome_hash = content_digest sha (PList (map dump_trade_outcome ordered))
      in build ''PerformanceSummary'' ok_performance_summary
           \<lparr>ps_schema_version = ''1.0.0'',
            ps_summary_id = deterministic_id sha ''summary'' (PDict
              [(''replay_id'', PStr (to_replay_id first)), (''partition_id'', PStr (to_partition_id first)),
               (''outcome_digest'', PStr outcome_hash)]),
            ps_replay_id = to_replay_id first, ps_dataset_digest = to_dataset_digest first,
            ps_partition_id = to_partition_id first, ps_partition_kind = to_partition_kind first,
            ps_outcome_count = int (length ordered), ps_resolved_count = int (length resolved),
            ps_unresolved_count = int (length (with_status trade_outcome_status.UNRESOLVED_HORIZON ordered)),
            ps_ambiguous_count = int (length (with_status trade_outcome_status.AMBIGUOUS_INTRABAR ordered)),
            ps_win_count = int (length wins), ps_loss_count = int (length losses),
            ps_win_rate = optional_metric (if resolved = [] then None
              else Some (rd50 (of_nat (length wins) / of_nat (length resolved)))),
            ps_cumulative_r = optional_metric (if realized = [] then None else Some (add50 realized)),
            ps_average_r = optional_metric mean, ps_median_r = optional_metric (median realized),
            ps_expectancy_r = optional_metric mean, ps_profit_factor = profit_factor realized,
            ps_sequence_max_drawdown_r = optional_metric (if realized = [] then None
              else Some (sequence_max_drawdown realized)),
            ps_average_holding_bars = optional_metric
              (average (map (\<lambda>x. of_int (or_zero (to_bars_to_resolution x))) resolved)),
            ps_average_holding_seconds = optional_metric
              (average (map (\<lambda>x. or_zero (to_seconds_to_resolution x)) resolved)),
            ps_average_mfe_r = valid_metric (rd50 (add50 (map to_mfe_r ordered) / of_nat (length ordered))),
            ps_average_mae_r = valid_metric (rd50 (add50 (map to_mae_r ordered) / of_nat (length ordered))),
            ps_outcome_digest = outcome_hash, ps_metrics_version = ''1.0.0'',
            ps_generated_at = Max (set (map to_evaluation_ended_at ordered))\<rparr>)"

definition summarize_performance :: "sha \<Rightarrow> trade_outcome list \<Rightarrow> performance_summary fallible" where
  "summarize_performance sha outcomes =
     (let ordered = chronological outcomes; first = hd ordered
      in bind_result (run_guards
        [(outcomes = [], replay_error replay_error_category.INVALID_OUTCOME_DATA
           ''performance summary requires at least one outcome''),
         (\<not> distinct (map to_outcome_id ordered), replay_error replay_error_category.INVALID_OUTCOME_DATA
           ''performance summary cannot contain duplicate outcome identities''),
         (list_ex (\<lambda>x. to_replay_id x \<noteq> to_replay_id first \<or> to_dataset_digest x \<noteq> to_dataset_digest first \<or>
            to_partition_id x \<noteq> to_partition_id first \<or> to_partition_kind x \<noteq> to_partition_kind first) ordered,
          replay_error replay_error_category.PARTITION_VIOLATION
            ''performance outcomes must belong to one replay partition'')]) (\<lambda>_. summary_of sha ordered))"

section \<open>Segments\<close>

primrec segment_value :: "trade_outcome \<Rightarrow> segment_dimension \<Rightarrow> string option" where
  "segment_value x segment_dimension.DIRECTION = Some (value_trade_side (sf_direction (to_segment_facts x)))"
| "segment_value x segment_dimension.TIMEFRAME = Some (value_timeframe (sf_timeframe (to_segment_facts x)))"
| "segment_value x segment_dimension.PARTITION =
     Some (value_dataset_partition_kind (sf_partition (to_segment_facts x)))"
| "segment_value x segment_dimension.FEATURE_REGIME = sf_feature_regime (to_segment_facts x)"
| "segment_value x segment_dimension.VOLATILITY_BUCKET = sf_volatility_bucket (to_segment_facts x)"
| "segment_value x segment_dimension.TREND_STRENGTH_BUCKET = sf_trend_strength_bucket (to_segment_facts x)"
| "segment_value x segment_dimension.CHIEF_DECISION = sf_chief_decision (to_segment_facts x)"
| "segment_value x segment_dimension.SKEPTIC_DECISION = sf_skeptic_decision (to_segment_facts x)"

definition summarize_by ::
  "sha \<Rightarrow> trade_outcome list \<Rightarrow> segment_dimension \<Rightarrow> segmented_performance_summary list fallible" where
  "summarize_by sha outcomes dimension = map_result
     (\<lambda>v. bind_result (summarize_performance sha (filter (\<lambda>x. segment_value x dimension = Some v) outcomes))
       (\<lambda>s. build ''SegmentedPerformanceSummary'' fields_segmented_performance_summary
         \<lparr>sps_dimension = dimension, sps_value = v, sps_summary = s\<rparr>))
     (sort (remdups (List.map_filter (\<lambda>x. segment_value x dimension) outcomes)))"

end
