(* ===== verification/Qualification.thy ===== *)
theory Qualification
  imports QualificationSchemas Outcomes
begin

text \<open>
  \<open>qualification/evidence.py\<close>, \<open>qualification/metrics.py\<close> and \<open>qualification/evaluator.py\<close>: the
  OPEN, SEALED, EVALUATED revisions of an evidence dataset, the summaries of sealed evidence, and the
  graduation gates. Durations are below the range where \<open>total_seconds()\<close>, a float, loses
  microseconds, so its text is the exact number of seconds.
\<close>

section \<open>Evidence\<close>

definition qualification_error :: "qualification_error_category \<Rightarrow> string \<Rightarrow> py_exception" where
  "qualification_error c m = QualificationError c m"

definition dataset_digest_of :: "sha \<Rightarrow> qualification_evidence_dataset \<Rightarrow> string" where
  "dataset_digest_of sha d = content_digest sha (dump_qualification_evidence_dataset d)"

definition evidence_content_digest :: "sha \<Rightarrow> qualification_evidence_dataset \<Rightarrow> string" where
  "evidence_content_digest sha d = content_digest sha (PDict
     [(''canonicalization_version'', PStr ''1.0.0''),
      (''schema_version'', PStr (qed_schema_version d)),
      (''dataset_id'', PStr (qed_dataset_id d)),
      (''qualification_run_id'', PStr (qed_qualification_run_id d)),
      (''generation_id'', PStr (qed_generation_id d)),
      (''generation_digest'', PStr (qed_generation_digest d)),
      (''partition'', dump_qualification_partition_declaration (qed_partition d)),
      (''opened_at'', PTime (qed_opened_at d)),
      (''claims'', PList (map dump_decision_candle_claim (qed_claims d))),
      (''decisions'', PList (map dump_continuous_decision_record (qed_decisions d))),
      (''outcomes'', PList (map dump_trade_outcome (qed_outcomes d))),
      (''pricing_profiles'', PList (map dump_pricing_profile (qed_pricing_profiles d))),
      (''incidents'', PList (map dump_qualification_incident (qed_incidents d))),
      (''safety_evidence'', PList (map dump_qualification_artifact_reference (qed_safety_evidence d)))])"

text \<open>What may be appended to open evidence.\<close>

record evidence_batch =
  eb_claims :: "decision_candle_claim list"
  eb_decisions :: "continuous_decision_record list"
  eb_outcomes :: "trade_outcome list"
  eb_pricing_profiles :: "pricing_profile list"
  eb_incidents :: "qualification_incident list"
  eb_safety_evidence :: "qualification_artifact_reference list"

definition validated_evidence :: "sha \<Rightarrow> qualification_evidence_dataset \<Rightarrow> qualification_evidence_dataset fallible" where
  "validated_evidence sha d = build ''QualificationEvidenceDataset'' (ok_qualification_evidence_dataset sha) d"

definition append_evidence :: "sha \<Rightarrow> qualification_evidence_dataset \<Rightarrow> evidence_batch \<Rightarrow>
    qualification_evidence_dataset fallible" where
  "append_evidence sha d b =
     (if qed_lifecycle d \<noteq> qualification_evidence_lifecycle.OPEN
      then Inl (qualification_error qualification_error_category.EVIDENCE_NOT_OPEN
        ''sealed or evaluated evidence cannot be changed or backfilled'')
      else validated_evidence sha (d\<lparr>qed_revision := qed_revision d + 1,
        qed_previous_revision_digest := Some (dataset_digest_of sha d),
        qed_claims := sort_key dcc_decision_key (qed_claims d @ eb_claims b),
        qed_decisions := sort_key cdr_decision_key (qed_decisions d @ eb_decisions b),
        qed_outcomes := sort_key to_outcome_id (qed_outcomes d @ eb_outcomes b),
        qed_pricing_profiles := sort_key pp_profile_ref (qed_pricing_profiles d @ eb_pricing_profiles b),
        qed_incidents := sort_key qi_incident_id (qed_incidents d @ eb_incidents b),
        qed_safety_evidence := sort_key qar_artifact_id (qed_safety_evidence d @ eb_safety_evidence b)\<rparr>))"

definition seal_evidence :: "sha \<Rightarrow> qualification_evidence_dataset \<Rightarrow> instant \<Rightarrow> qualification_evidence_dataset fallible" where
  "seal_evidence sha d t =
     (if qed_lifecycle d \<noteq> qualification_evidence_lifecycle.OPEN
      then Inl (qualification_error qualification_error_category.EVIDENCE_NOT_OPEN
        ''only open qualification evidence may be sealed'')
      else validated_evidence sha (d\<lparr>qed_lifecycle := qualification_evidence_lifecycle.SEALED,
        qed_revision := qed_revision d + 1,
        qed_previous_revision_digest := Some (dataset_digest_of sha d),
        qed_sealed_at := Some t, qed_sealed_content_digest := Some (evidence_content_digest sha d)\<rparr>))"

definition verify_sealed_evidence :: "sha \<Rightarrow> qualification_evidence_dataset \<Rightarrow> unit fallible" where
  "verify_sealed_evidence sha d = run_guards
     [(qed_lifecycle d \<noteq> qualification_evidence_lifecycle.SEALED \<and>
       qed_lifecycle d \<noteq> qualification_evidence_lifecycle.EVALUATED,
       qualification_error qualification_error_category.EVIDENCE_NOT_SEALED ''graduation requires sealed evidence''),
      (qed_sealed_content_digest d \<noteq> Some (evidence_content_digest sha d),
       qualification_error qualification_error_category.DIGEST_MISMATCH
         ''sealed qualification evidence digest is invalid'')]"

definition mark_evaluated :: "sha \<Rightarrow> qualification_evidence_dataset \<Rightarrow> qualification_artifact_reference \<Rightarrow> instant \<Rightarrow>
    qualification_evidence_dataset fallible" where
  "mark_evaluated sha d evaluation t = bind_result (verify_sealed_evidence sha d) (\<lambda>_.
     if qed_lifecycle d \<noteq> qualification_evidence_lifecycle.SEALED
     then Inl (qualification_error qualification_error_category.EVIDENCE_NOT_SEALED
       ''only sealed, unevaluated evidence may transition to evaluated'')
     else validated_evidence sha (d\<lparr>qed_lifecycle := qualification_evidence_lifecycle.EVALUATED,
       qed_revision := qed_revision d + 1,
       qed_previous_revision_digest := Some (dataset_digest_of sha d),
       qed_evaluated_at := Some t, qed_evaluation_reference := Some evaluation\<rparr>))"

section \<open>Summaries\<close>

definition counted :: "('a \<Rightarrow> bool) \<Rightarrow> 'a list \<Rightarrow> int" where
  "counted P xs = int (length (filter P xs))"

definition shadow_records :: "qualification_evidence_dataset \<Rightarrow> shadow_decision_record list" where
  "shadow_records d = List.map_filter cdr_shadow_record (qed_decisions d)"

definition evidence_cycles :: "qualification_evidence_dataset \<Rightarrow> decision_cycle list" where
  "evidence_cycles d = map sdr_decision_cycle (shadow_records d)"

definition evidence_reference :: "qualification_evidence_dataset \<Rightarrow> qualification_artifact_reference fallible" where
  "evidence_reference d = (case qed_sealed_content_digest d of
     None \<Rightarrow> Inl (ValueError ''metric evidence must be sealed'')
   | Some digest \<Rightarrow> build ''QualificationArtifactReference'' fields_qualification_artifact_reference
       \<lparr>qar_artifact_type = ''qualification_evidence_dataset'', qar_artifact_id = qed_dataset_id d,
        qar_schema_version = qed_schema_version d, qar_content_digest = digest\<rparr>)"

definition ok_qualification_metric :: "qualification_metric \<Rightarrow> bool" where
  "ok_qualification_metric m \<longleftrightarrow> fields_qualification_metric m \<and> validate_qualification_metric m"

definition qualification_metric_of :: "qualification_metric_status \<Rightarrow> decimal option \<Rightarrow> string \<Rightarrow>
    qualification_artifact_reference \<Rightarrow> qualification_metric fallible" where
  "qualification_metric_of status v unit_name ref = build ''QualificationMetric'' ok_qualification_metric
     \<lparr>qm_status = status, qm_value = v, qm_unit = unit_name, qm_evidence = [ref]\<rparr>"

definition rate_metric :: "int \<Rightarrow> int \<Rightarrow> qualification_artifact_reference \<Rightarrow> qualification_metric fallible" where
  "rate_metric num den ref =
     (if den = 0 then qualification_metric_of qualification_metric_status.UNAVAILABLE None ''RATIO'' ref
      else qualification_metric_of qualification_metric_status.VALID
        (Some (rd50 (of_int num / of_int den))) ''RATIO'' ref)"

definition incident_count :: "qualification_evidence_dataset \<Rightarrow> qualification_incident_category \<Rightarrow> int" where
  "incident_count d c = counted (\<lambda>i. qi_category i = c) (qed_incidents d)"

definition pricing_covers :: "pricing_profile list \<Rightarrow> model_provider \<Rightarrow> string \<Rightarrow> instant \<Rightarrow> bool" where
  "pricing_covers profiles provider model t \<longleftrightarrow>
     length (filter (\<lambda>p. pp_provider p = provider \<and> pp_model_identifier p = model \<and> pp_valid_from p \<le> t \<and>
       (case pp_valid_until p of None \<Rightarrow> True | Some u \<Rightarrow> t < u)) profiles) = 1"

definition is_resolved :: "trade_outcome \<Rightarrow> bool" where
  "is_resolved x \<longleftrightarrow> to_status x = trade_outcome_status.TAKE_PROFIT_REACHED \<or>
     to_status x = trade_outcome_status.STOP_LOSS_REACHED"

definition summarize_samples :: "qualification_evidence_dataset \<Rightarrow> qualification_sample_summary fallible" where
  "summarize_samples d = build ''QualificationSampleSummary'' fields_qualification_sample_summary
     \<lparr>qss_claimed_decisions = int (length (qed_claims d)),
      qss_completed_decisions = counted (\<lambda>c. dcc_state c = decision_claim_state.COMPLETED) (qed_claims d),
      qss_ai_invoked_cycles = counted (\<lambda>c. dcyc_invocations c \<noteq> []) (evidence_cycles d),
      qss_trade_candidates = counted (\<lambda>c. dcyc_trade_proposal c \<noteq> None) (evidence_cycles d),
      qss_risk_approved_intents = counted (\<lambda>s. sdr_shadow_trade_intent s \<noteq> None) (shadow_records d),
      qss_resolved_outcomes = counted is_resolved (qed_outcomes d)\<rparr>"

definition all_failures :: "qualification_evidence_dataset \<Rightarrow> agent_failure_record list" where
  "all_failures d = concat (map dcyc_agent_failures (evidence_cycles d))"

definition summarize_operational :: "qualification_evidence_dataset \<Rightarrow> bool \<Rightarrow> qualification_operational_summary fallible" where
  "summarize_operational d eligible = bind_result (evidence_reference d) (\<lambda>ref.
     let runtime_failures = counted (\<lambda>c. dcc_state c = decision_claim_state.FAILED) (qed_claims d) +
           counted (\<lambda>r. cdr_disposition r = m9_decision_disposition.FAILED) (qed_decisions d);
         provider_failures = counted (\<lambda>f. afr_category f = agent_failure_category.TIMEOUT \<or>
             afr_category f = agent_failure_category.UNAVAILABLE_AGENT) (all_failures d) +
           incident_count d qualification_incident_category.PROVIDER_RUNTIME_FAILURE;
         dispatched = counted (\<lambda>i. itel_attempt_count (aia_telemetry i) > 0)
           (concat (map dcyc_invocations (evidence_cycles d)));
         schema_failures = incident_count d qualification_incident_category.SCHEMA_VALIDATION_FAILURE +
           counted (\<lambda>f. afr_category f = agent_failure_category.INVALID_OUTPUT \<or>
             afr_category f = agent_failure_category.SCHEMA_MISMATCH) (all_failures d);
         source_revisions = incident_count d qualification_incident_category.SOURCE_REVISION +
           counted (\<lambda>c. dcc_failure_category c = Some observation_failure_category.SOURCE_CANDLE_REVISED) (qed_claims d);
         keys = map cdr_decision_key (qed_decisions d)
     in bind_result (rate_metric runtime_failures (int (length (qed_claims d))) ref) (\<lambda>runtime_rate.
        bind_result (rate_metric provider_failures dispatched ref) (\<lambda>provider_rate.
        build ''QualificationOperationalSummary'' fields_qualification_operational_summary
          \<lparr>qos_runtime_failure_count = runtime_failures, qos_runtime_failure_rate = runtime_rate,
           qos_provider_runtime_failure_count = provider_failures, qos_provider_runtime_failure_rate = provider_rate,
           qos_duplicate_decision_count = int (length keys) - int (card (set keys)),
           qos_abandoned_cycle_count = counted (\<lambda>c. dcc_state c = decision_claim_state.ABANDONED) (qed_claims d),
           qos_unexplained_abandoned_cycle_count =
             incident_count d qualification_incident_category.UNEXPLAINED_ABANDONED_CYCLE,
           qos_trace_mismatch_count = incident_count d qualification_incident_category.TRACE_MISMATCH,
           qos_schema_validation_failure_count = schema_failures,
           qos_source_revision_count = source_revisions, qos_timestamp_eligibility_current = eligible\<rparr>)))"

definition unapproved_intent :: "shadow_trade_intent \<Rightarrow> bool" where
  "unapproved_intent i \<longleftrightarrow> rd_status (sti_risk_decision i) \<noteq> risk_decision_status.APPROVED \<or>
     rd_position_sizing (sti_risk_decision i) = None"

definition summarize_safety :: "qualification_evidence_dataset \<Rightarrow> qualification_safety_summary fallible" where
  "summarize_safety d = build ''QualificationSafetySummary'' fields_qualification_safety_summary
     \<lparr>qssum_risk_engine_bypass_count = incident_count d qualification_incident_category.RISK_ENGINE_BYPASS,
      qssum_unapproved_shadow_intent_count =
        counted unapproved_intent (List.map_filter sdr_shadow_trade_intent (shadow_records d)),
      qssum_confidence_risk_coupling_count = incident_count d qualification_incident_category.CONFIDENCE_RISK_COUPLING,
      qssum_execution_or_order_mutation_count =
        incident_count d qualification_incident_category.EXECUTION_OR_ORDER_MUTATION,
      qssum_demo_invocation_count = incident_count d qualification_incident_category.DEMO_INVOCATION,
      qssum_live_invocation_count = incident_count d qualification_incident_category.LIVE_INVOCATION,
      qssum_provider_fallback_count = incident_count d qualification_incident_category.PROVIDER_FALLBACK,
      qssum_strategy_mutation_count = incident_count d qualification_incident_category.STRATEGY_MUTATION,
      qssum_prompt_self_mutation_count = incident_count d qualification_incident_category.PROMPT_SELF_MUTATION\<rparr>"

section \<open>Costs\<close>

record cost_state =
  cst_settled :: decimal
  cst_uncertain :: decimal
  cst_status :: qualification_metric_status

definition cost_of_reservation :: "cost_state \<Rightarrow> budget_reservation \<Rightarrow> cost_state" where
  "cost_of_reservation s r =
     (if br_state r = budget_reservation_state.SETTLED
      then (case br_settled_amount r of
          None \<Rightarrow> s\<lparr>cst_status := qualification_metric_status.UNAVAILABLE\<rparr>
        | Some a \<Rightarrow> s\<lparr>cst_settled := rd28 (cst_settled s + a)\<rparr>)
      else if br_state r = budget_reservation_state.UNCERTAIN
      then s\<lparr>cst_uncertain := rd28 (cst_uncertain s + br_reserved_amount r),
        cst_status := (if cst_status s = qualification_metric_status.VALID
          then qualification_metric_status.UNCERTAIN else cst_status s)\<rparr>
      else if br_state r = budget_reservation_state.RESERVED \<or> br_state r = budget_reservation_state.DISPATCHED
      then s\<lparr>cst_status := qualification_metric_status.UNAVAILABLE\<rparr>
      else s)"

definition cost_of_invocation :: "pricing_profile list \<Rightarrow> cost_state \<Rightarrow> agent_invocation_audit \<Rightarrow> cost_state" where
  "cost_of_invocation profiles s i =
     (let s1 = (if itel_attempt_count (aia_telemetry i) \<noteq> 0 \<and>
            \<not> pricing_covers profiles (it_provider (aia_trace i)) (it_model_identifier (aia_trace i))
              (it_request_started_at (aia_trace i))
          then s\<lparr>cst_status := qualification_metric_status.UNAVAILABLE\<rparr> else s)
      in foldl cost_of_reservation s1 (itel_attempt_reservations (aia_telemetry i)))"

definition ok_observed_cost_summary :: "observed_cost_summary \<Rightarrow> bool" where
  "ok_observed_cost_summary c \<longleftrightarrow> fields_observed_cost_summary c \<and> validate_observed_cost_summary c"

definition ok_projected_cost_summary :: "projected_cost_summary \<Rightarrow> bool" where
  "ok_projected_cost_summary c \<longleftrightarrow> fields_projected_cost_summary c \<and> validate_projected_cost_summary c"

definition summarize_costs :: "sha \<Rightarrow> qualification_evidence_dataset \<Rightarrow> shadow_graduation_policy \<Rightarrow> instant \<Rightarrow> instant \<Rightarrow>
    (observed_cost_summary \<times> projected_cost_summary) fallible" where
  "summarize_costs sha d policy started completed_at =
     (let invocations = concat (map dcyc_invocations (evidence_cycles d));
          s = foldl (cost_of_invocation (qed_pricing_profiles d))
            \<lparr>cst_settled = 0, cst_uncertain = 0, cst_status = qualification_metric_status.VALID\<rparr> invocations;
          assessed = rd28 (cst_settled s + cst_uncertain s)
      in bind_result (build ''ObservedCostSummary'' ok_observed_cost_summary
           \<lparr>ocs_currency = sgp_currency policy, ocs_settled_observed_cost = cst_settled s,
            ocs_conservative_uncertain_reserved_cost = cst_uncertain s,
            ocs_total_assessed_observed_cost = assessed,
            ocs_observed_decision_count = int (length (qed_decisions d)),
            ocs_observed_ai_invoked_cycle_count = counted (\<lambda>c. dcyc_invocations c \<noteq> []) (evidence_cycles d),
            ocs_observed_evidence_duration_seconds = of_int (completed_at - started) / 1000000,
            ocs_dispatched_attempt_count = sum_list (map (itel_attempt_count \<circ> aia_telemetry) invocations),
            ocs_cost_status = cst_status s\<rparr>) (\<lambda>observed.
         let completed = counted (\<lambda>c. dcc_state c = decision_claim_state.COMPLETED) (qed_claims d);
             none = (completed = 0 \<or> cst_status s = qualification_metric_status.UNAVAILABLE)
         in bind_result (build ''ProjectedCostSummary'' ok_projected_cost_summary
           \<lparr>pcs_currency = sgp_currency policy,
            pcs_projected_30d_cost = (if none then None
              else Some (rd50 (rd50 (assessed / of_int completed) * of_int (sgp_expected_decisions_per_30d policy)))),
            pcs_projection_status = (if none then qualification_metric_status.UNAVAILABLE else cst_status s),
            pcs_projection_policy_ref = sgp_policy_ref policy,
            pcs_projection_policy_version = sgp_policy_version policy,
            pcs_expected_decisions_per_30d = sgp_expected_decisions_per_30d policy,
            pcs_projection_basis = ''OBSERVED_COST_PER_COMPLETED_DECISION'',
            pcs_observed_cost_summary_digest = content_digest sha (dump_observed_cost_summary observed)\<rparr>)
           (\<lambda>projected. Inr (observed, projected))))"

definition summarize_trading :: "sha \<Rightarrow> qualification_evidence_dataset \<Rightarrow> qualification_trading_summary fallible" where
  "summarize_trading sha d = bind_result (evidence_reference d) (\<lambda>ref.
     let outcomes = qed_outcomes d; total = int (length outcomes);
         ambiguous = counted (\<lambda>x. to_status x = trade_outcome_status.AMBIGUOUS_INTRABAR) outcomes;
         unresolved = counted (\<lambda>x. to_status x = trade_outcome_status.UNRESOLVED_HORIZON) outcomes
     in bind_result (if outcomes = [] then Inr None
          else bind_result (summarize_performance sha outcomes) (\<lambda>p. Inr (Some p))) (\<lambda>performance.
        bind_result (rate_metric ambiguous total ref) (\<lambda>ambiguous_rate.
        bind_result (rate_metric unresolved total ref) (\<lambda>unresolved_rate.
        build ''QualificationTradingSummary'' fields_qualification_trading_summary
          \<lparr>qts_outcome_count = total, qts_resolved_count = counted is_resolved outcomes,
           qts_ambiguous_count = ambiguous, qts_unresolved_count = unresolved,
           qts_ambiguous_rate = ambiguous_rate, qts_unresolved_rate = unresolved_rate,
           qts_performance = performance\<rparr>))))"

end
