(* ===== verification/QualificationStore.thy ===== *)
theory QualificationStore
  imports Graduation SqlFile "HOL-Library.Product_Lexorder"
begin

text \<open>
  \<open>storage/qualification.py\<close>: the revisions of evidence datasets, qualification runs, validity
  assessments, graduation evaluations and current statuses, in memory and on SQLite. A \<open>defaultdict\<close> of
  lists is a function to lists: nothing lists its keys, and an absent key reads as the empty list.
\<close>

definition ok_qualification_run :: "qualification_run \<Rightarrow> bool" where
  "ok_qualification_run r \<longleftrightarrow> fields_qualification_run r \<and> validate_qualification_run r"

definition ok_qualification_validity_assessment :: "qualification_validity_assessment \<Rightarrow> bool" where
  "ok_qualification_validity_assessment v \<longleftrightarrow>
     fields_qualification_validity_assessment v \<and> validate_qualification_validity_assessment v"

section \<open>In memory\<close>

record qualification_memory =
  qst_evidence :: "string \<Rightarrow> qualification_evidence_dataset list"
  qst_runs :: "(string, qualification_run) dict"
  qst_validity :: "string \<Rightarrow> qualification_validity_assessment list"
  qst_evaluations :: "(string, shadow_graduation_evaluation) dict"
  qst_evaluation_by_run :: "(string, string) dict"
  qst_statuses :: "string \<Rightarrow> current_qualification_status list"

definition empty_qualification :: qualification_memory where
  "empty_qualification = \<lparr>qst_evidence = (\<lambda>_. []), qst_runs = [], qst_validity = (\<lambda>_. []),
     qst_evaluations = [], qst_evaluation_by_run = [], qst_statuses = (\<lambda>_. [])\<rparr>"

definition push :: "string \<Rightarrow> 'a \<Rightarrow> (string \<Rightarrow> 'a list) \<Rightarrow> string \<Rightarrow> 'a list" where
  "push k x f = f(k := f k @ [x])"

text \<open>\<open>if records and records[-1] == x: records.pop()\<close>\<close>

definition pop_if_last :: "string \<Rightarrow> 'a \<Rightarrow> (string \<Rightarrow> 'a list) \<Rightarrow> string \<Rightarrow> 'a list" where
  "pop_if_last k x f = (if f k \<noteq> [] \<and> last (f k) = x then f(k := butlast (f k)) else f)"

definition pop_last :: "string \<Rightarrow> (string \<Rightarrow> 'a list) \<Rightarrow> string \<Rightarrow> 'a list" where
  "pop_last k f = f(k := butlast (f k))"

subsection \<open>Evidence\<close>

definition revision_guards :: "sha \<Rightarrow> qualification_evidence_dataset list \<Rightarrow> qualification_evidence_dataset \<Rightarrow>
    (bool \<times> py_exception) list" where
  "revision_guards sha revisions d =
     (if revisions = []
      then [(qed_revision d \<noteq> 1 \<or> qed_previous_revision_digest d \<noteq> None \<or>
          qed_lifecycle d \<noteq> qualification_evidence_lifecycle.OPEN,
          ValueError ''first evidence revision must be OPEN revision one'')]
      else (let previous = last revisions in
        [(qed_revision d \<noteq> qed_revision previous + 1, ValueError ''evidence revisions must be consecutive''),
         (qed_previous_revision_digest d \<noteq> Some (dataset_digest_of sha previous),
          ValueError ''evidence revision chain digest mismatch'')] @
        (case qed_lifecycle previous of
           qualification_evidence_lifecycle.OPEN \<Rightarrow>
             [(qed_lifecycle d \<notin> {qualification_evidence_lifecycle.OPEN, qualification_evidence_lifecycle.SEALED},
               ValueError ''OPEN evidence may only remain OPEN or become SEALED'')]
         | qualification_evidence_lifecycle.SEALED \<Rightarrow>
             [(qed_lifecycle d \<noteq> qualification_evidence_lifecycle.EVALUATED,
               ValueError ''SEALED evidence may only become EVALUATED''),
              (qed_sealed_content_digest d \<noteq> qed_sealed_content_digest previous \<or>
               evidence_content_digest sha d \<noteq> evidence_content_digest sha previous,
               ValueError ''evaluated evidence cannot alter sealed content'')]
         | qualification_evidence_lifecycle.EVALUATED \<Rightarrow>
             [(True, ValueError ''EVALUATED evidence is terminal'')])))"

definition qs_append_evidence :: "sha \<Rightarrow> qualification_evidence_dataset \<Rightarrow> (qualification_memory, unit) op" where
  "qs_append_evidence sha d s =
     (case run_guards (revision_guards sha (qst_evidence s (qed_dataset_id d)) d) of
        Inl e \<Rightarrow> (Inl e, s)
      | Inr _ \<Rightarrow> (Inr (), s\<lparr>qst_evidence := push (qed_dataset_id d) d (qst_evidence s)\<rparr>))"

definition latest_of :: "'a list \<Rightarrow> 'a option" where
  "latest_of xs = (if xs = [] then None else Some (last xs))"

definition qs_latest_evidence :: "qualification_memory \<Rightarrow> string \<Rightarrow> qualification_evidence_dataset option" where
  "qs_latest_evidence s k = latest_of (qst_evidence s k)"

subsection \<open>Runs, assessments and evaluations\<close>

definition qs_append_run :: "qualification_run \<Rightarrow> (qualification_memory, unit) op" where
  "qs_append_run r s =
     (if map_of (qst_runs s) (qr_qualification_run_id r) \<noteq> None
      then (Inl (ValueError ''qualification run identity already exists''), s)
      else if list_ex (\<lambda>x. qr_evidence_dataset_digest x = qr_evidence_dataset_digest r) (map snd (qst_runs s))
      then (Inl (ValueError ''sealed evidence dataset is already bound to another run''), s)
      else (Inr (), s\<lparr>qst_runs := AList.update (qr_qualification_run_id r) r (qst_runs s)\<rparr>))"

definition qs_get_run :: "qualification_memory \<Rightarrow> string \<Rightarrow> qualification_run option" where
  "qs_get_run s k = map_of (qst_runs s) k"

definition qs_append_validity :: "qualification_validity_assessment \<Rightarrow> (qualification_memory, unit) op" where
  "qs_append_validity v s =
     (let records = qst_validity s (qva_qualification_run_id v)
      in if list_ex (\<lambda>x. qva_assessment_id x = qva_assessment_id v) records
         then (Inl (ValueError ''validity assessment identity already exists''), s)
         else if records \<noteq> [] \<and> qva_assessed_at v < qva_assessed_at (last records)
         then (Inl (ValueError ''validity assessments must be append-only in time''), s)
         else (Inr (), s\<lparr>qst_validity := push (qva_qualification_run_id v) v (qst_validity s)\<rparr>))"

definition qs_latest_validity :: "qualification_memory \<Rightarrow> string \<Rightarrow> qualification_validity_assessment option" where
  "qs_latest_validity s k = latest_of (qst_validity s k)"

definition qs_append_evaluation :: "shadow_graduation_evaluation \<Rightarrow> (qualification_memory, unit) op" where
  "qs_append_evaluation e s =
     (if map_of (qst_evaluations s) (sge_evaluation_id e) \<noteq> None
      then (Inl (ValueError ''graduation evaluation identity already exists''), s)
      else if map_of (qst_evaluation_by_run s) (sge_qualification_run_id e) \<noteq> None
      then (Inl (ValueError ''qualification run may be evaluated only once''), s)
      else (Inr (), s\<lparr>qst_evaluations := AList.update (sge_evaluation_id e) e (qst_evaluations s),
        qst_evaluation_by_run :=
          AList.update (sge_qualification_run_id e) (sge_evaluation_id e) (qst_evaluation_by_run s)\<rparr>))"

definition qs_get_evaluation :: "qualification_memory \<Rightarrow> string \<Rightarrow> shadow_graduation_evaluation option" where
  "qs_get_evaluation s k = map_of (qst_evaluations s) k"

definition qs_append_status :: "current_qualification_status \<Rightarrow> (qualification_memory, unit) op" where
  "qs_append_status x s =
     (let records = qst_statuses s (cqs_qualification_run_id x)
      in if records \<noteq> [] \<and> cqs_assessed_at x < cqs_assessed_at (last records)
         then (Inl (ValueError ''current status records must be append-only in time''), s)
         else (Inr (), s\<lparr>qst_statuses := push (cqs_qualification_run_id x) x (qst_statuses s)\<rparr>))"

subsection \<open>Finalizing an evaluation\<close>

text \<open>The four appends, and what the handler does when one of the last three raises.\<close>

definition undo_finalize :: "qualification_evidence_dataset \<Rightarrow> qualification_validity_assessment \<Rightarrow>
    shadow_graduation_evaluation \<Rightarrow> qualification_memory \<Rightarrow> qualification_memory" where
  "undo_finalize d v e s = s\<lparr>qst_validity := pop_if_last (qva_qualification_run_id v) v (qst_validity s),
     qst_evaluations := AList.delete (sge_evaluation_id e) (qst_evaluations s),
     qst_evaluation_by_run := AList.delete (sge_qualification_run_id e) (qst_evaluation_by_run s),
     qst_evidence := pop_if_last (qed_dataset_id d) d (qst_evidence s)\<rparr>"

definition undoing :: "('s \<Rightarrow> 's) \<Rightarrow> ('s, unit) op \<Rightarrow> ('s, unit) op" where
  "undoing undo m = try_op m (\<lambda>e s. (Inl e, undo s)) (\<lambda>_. ret ())"

definition append_results :: "sha \<Rightarrow> qualification_evidence_dataset \<Rightarrow> shadow_graduation_evaluation \<Rightarrow>
    current_qualification_status \<Rightarrow> (qualification_memory, unit) op" where
  "append_results sha d e x = bind_op (qs_append_evaluation e) (\<lambda>_.
     bind_op (qs_append_evidence sha d) (\<lambda>_. qs_append_status x))"

definition qs_finalize :: "sha \<Rightarrow> qualification_evidence_dataset \<Rightarrow> qualification_validity_assessment \<Rightarrow>
    shadow_graduation_evaluation \<Rightarrow> current_qualification_status \<Rightarrow> (qualification_memory, unit) op" where
  "qs_finalize sha d v e x = bind_op (qs_append_validity v) (\<lambda>_.
     undoing (undo_finalize d v e) (append_results sha d e x))"

section \<open>On SQLite\<close>

text \<open>
  The rows with their key columns, in the order of their insertion; the times of the rows are those of the
  records, and a text time is as good as the time.
\<close>

record qualification_tables =
  qt_evidence :: "((string \<times> int) \<times> qualification_evidence_dataset) list"
  qt_runs :: "(string \<times> qualification_run) list"
  qt_validity :: "(string \<times> qualification_validity_assessment) list"
  qt_evaluations :: "(string \<times> shadow_graduation_evaluation) list"
  qt_statuses :: "((string \<times> instant) \<times> current_qualification_status) list"

type_synonym qualification_file = "(qualification_memory, qualification_tables) sql_file"

definition empty_qualification_tables :: qualification_tables where
  "empty_qualification_tables =
     \<lparr>qt_evidence = [], qt_runs = [], qt_validity = [], qt_evaluations = [], qt_statuses = []\<rparr>"

subsection \<open>Statements\<close>

definition insert_evidence :: "qualification_evidence_dataset \<Rightarrow> (qualification_file, unit) op" where
  "insert_evidence d = sql_execute (\<lambda>t.
     bind_result (insert_row ((qed_dataset_id d, qed_revision d), d) (qt_evidence t)) (\<lambda>rows. Inr (t\<lparr>qt_evidence := rows\<rparr>)))"

definition insert_run :: "qualification_run \<Rightarrow> (qualification_file, unit) op" where
  "insert_run r = sql_execute (\<lambda>t.
     if qr_evidence_dataset_digest r \<in> set (map (qr_evidence_dataset_digest \<circ> snd) (qt_runs t)) then Inl IntegrityError
     else bind_result (insert_row (qr_qualification_run_id r, r) (qt_runs t)) (\<lambda>rows. Inr (t\<lparr>qt_runs := rows\<rparr>)))"

definition insert_validity :: "qualification_validity_assessment \<Rightarrow> (qualification_file, unit) op" where
  "insert_validity v = sql_execute (\<lambda>t.
     bind_result (insert_row (qva_assessment_id v, v) (qt_validity t)) (\<lambda>rows. Inr (t\<lparr>qt_validity := rows\<rparr>)))"

definition insert_evaluation :: "shadow_graduation_evaluation \<Rightarrow> (qualification_file, unit) op" where
  "insert_evaluation e = sql_execute (\<lambda>t.
     if sge_qualification_run_id e \<in> set (map (sge_qualification_run_id \<circ> snd) (qt_evaluations t)) then Inl IntegrityError
     else bind_result (insert_row (sge_evaluation_id e, e) (qt_evaluations t)) (\<lambda>rows. Inr (t\<lparr>qt_evaluations := rows\<rparr>)))"

definition insert_status :: "current_qualification_status \<Rightarrow> (qualification_file, unit) op" where
  "insert_status x = sql_execute (\<lambda>t.
     bind_result (insert_row ((cqs_qualification_run_id x, cqs_assessed_at x), x) (qt_statuses t))
       (\<lambda>rows. Inr (t\<lparr>qt_statuses := rows\<rparr>)))"

subsection \<open>Operations\<close>

definition written_through :: "('m, unit) op \<Rightarrow> (('m, 't) sql_file, unit) op \<Rightarrow> ('m \<Rightarrow> 'm) \<Rightarrow> (('m, 't) sql_file, unit) op" where
  "written_through m statements undo = bind_op (in_memory m) (\<lambda>_. or_undo (with_connection statements) undo)"

definition qf_append_evidence :: "sha \<Rightarrow> qualification_evidence_dataset \<Rightarrow> (qualification_file, unit) op" where
  "qf_append_evidence sha d = written_through (qs_append_evidence sha d) (insert_evidence d)
     (\<lambda>m. m\<lparr>qst_evidence := pop_last (qed_dataset_id d) (qst_evidence m)\<rparr>)"

definition qf_append_run :: "qualification_run \<Rightarrow> (qualification_file, unit) op" where
  "qf_append_run r = written_through (qs_append_run r) (insert_run r)
     (\<lambda>m. m\<lparr>qst_runs := AList.delete (qr_qualification_run_id r) (qst_runs m)\<rparr>)"

definition qf_append_validity :: "qualification_validity_assessment \<Rightarrow> (qualification_file, unit) op" where
  "qf_append_validity v = written_through (qs_append_validity v) (insert_validity v)
     (\<lambda>m. m\<lparr>qst_validity := pop_last (qva_qualification_run_id v) (qst_validity m)\<rparr>)"

definition qf_append_evaluation :: "shadow_graduation_evaluation \<Rightarrow> (qualification_file, unit) op" where
  "qf_append_evaluation e = written_through (qs_append_evaluation e) (insert_evaluation e)
     (\<lambda>m. m\<lparr>qst_evaluations := AList.delete (sge_evaluation_id e) (qst_evaluations m),
       qst_evaluation_by_run := AList.delete (sge_qualification_run_id e) (qst_evaluation_by_run m)\<rparr>)"

definition qf_append_status :: "current_qualification_status \<Rightarrow> (qualification_file, unit) op" where
  "qf_append_status x = written_through (qs_append_status x) (insert_status x)
     (\<lambda>m. m\<lparr>qst_statuses := pop_last (cqs_qualification_run_id x) (qst_statuses m)\<rparr>)"

text \<open>The four rows are inserted in one transaction; the handler covers the memory and the write.\<close>

definition undo_finalize_file :: "qualification_evidence_dataset \<Rightarrow> qualification_validity_assessment \<Rightarrow>
    shadow_graduation_evaluation \<Rightarrow> current_qualification_status \<Rightarrow> qualification_memory \<Rightarrow> qualification_memory" where
  "undo_finalize_file d v e x m = (undo_finalize d v e m)
     \<lparr>qst_statuses := pop_if_last (cqs_qualification_run_id x) x (qst_statuses m)\<rparr>"

definition insert_results :: "qualification_evidence_dataset \<Rightarrow> qualification_validity_assessment \<Rightarrow>
    shadow_graduation_evaluation \<Rightarrow> current_qualification_status \<Rightarrow> (qualification_file, unit) op" where
  "insert_results d v e x = bind_op (insert_validity v) (\<lambda>_. bind_op (insert_evaluation e) (\<lambda>_.
     bind_op (insert_evidence d) (\<lambda>_. insert_status x)))"

definition qf_finalize :: "sha \<Rightarrow> qualification_evidence_dataset \<Rightarrow> qualification_validity_assessment \<Rightarrow>
    shadow_graduation_evaluation \<Rightarrow> current_qualification_status \<Rightarrow> (qualification_file, unit) op" where
  "qf_finalize sha d v e x = bind_op (in_memory (qs_append_validity v)) (\<lambda>_.
     undoing (\<lambda>s. s\<lparr>fl_memory := undo_finalize_file d v e x (fl_memory s)\<rparr>)
       (bind_op (in_memory (append_results sha d e x)) (\<lambda>_. with_connection (insert_results d v e x))))"

subsection \<open>Opening\<close>

text \<open>
  Each row is validated again. SQLite gives rows of equal sort keys in the order of their insertion here.
\<close>

definition pushes :: "('a \<Rightarrow> string) \<Rightarrow> 'a list \<Rightarrow> string \<Rightarrow> 'a list" where
  "pushes key xs k = filter (\<lambda>x. key x = k) xs"

definition load_qualification :: "sha \<Rightarrow> qualification_tables \<Rightarrow> qualification_memory fallible" where
  "load_qualification sha t =
     (let evidence = map snd (sort_key fst (qt_evidence t)); runs = map snd (qt_runs t);
          validity = map snd (sort_key (\<lambda>(k, v). (qva_qualification_run_id v, qva_assessed_at v)) (qt_validity t));
          evaluations = map snd (qt_evaluations t); statuses = map snd (sort_key fst (qt_statuses t))
      in bind_result (run_guards
        [(\<not> list_all (ok_qualification_evidence_dataset sha) evidence, ValidationError ''QualificationEvidenceDataset''),
         (\<not> list_all ok_qualification_run runs, ValidationError ''QualificationRun''),
         (\<not> list_all ok_qualification_validity_assessment validity, ValidationError ''QualificationValidityAssessment''),
         (\<not> list_all ok_shadow_graduation_evaluation evaluations, ValidationError ''ShadowGraduationEvaluation''),
         (\<not> list_all ok_current_qualification_status statuses, ValidationError ''CurrentQualificationStatus'')]) (\<lambda>_.
      Inr \<lparr>qst_evidence = pushes qed_dataset_id evidence,
        qst_runs = fill qr_qualification_run_id runs,
        qst_validity = pushes qva_qualification_run_id validity,
        qst_evaluations = fill sge_evaluation_id evaluations,
        qst_evaluation_by_run =
          fold (\<lambda>e. AList.update (sge_qualification_run_id e) (sge_evaluation_id e)) evaluations [],
        qst_statuses = pushes cqs_qualification_run_id statuses\<rparr>))"

definition open_qualification :: "sha \<Rightarrow> qualification_tables \<Rightarrow> bool list \<Rightarrow> qualification_file fallible" where
  "open_qualification sha t faults = bind_result (load_qualification sha t) (\<lambda>m.
     Inr \<lparr>fl_memory = m, fl_disk = t, fl_view = t, fl_faults = faults\<rparr>)"

end
