(* ===== verification/QualificationService.thy ===== *)
theory QualificationService
  imports QualificationStore ObservationStore "HOL-Library.List_Lexorder"
begin

text \<open>
  \<open>qualification/acceptance.py\<close>, \<open>qualification/source.py\<close> and \<open>qualification/service.py\<close>: whether sealed
  evidence is still valid for the current dependencies, the extraction of evidence from the observation
  repository, and the service that seals, evaluates and reassesses over any qualification repository.
  The times given to these functions are aware.
\<close>

section \<open>Validity\<close>

definition dependency_manifest_digest :: "sha \<Rightarrow> qualification_dependency_manifest \<Rightarrow> string" where
  "dependency_manifest_digest sha m = content_digest sha (dump_qualification_dependency_manifest m)"

definition qualified_artifact :: "sha \<Rightarrow> string \<Rightarrow> string \<Rightarrow> pyval \<Rightarrow> qualification_artifact_reference fallible" where
  "qualified_artifact sha kind ident x = build ''QualificationArtifactReference''
     fields_qualification_artifact_reference
     \<lparr>qar_artifact_type = kind, qar_artifact_id = ident, qar_schema_version = ''1.0.0'',
      qar_content_digest = content_digest sha x\<rparr>"

definition view_reasons :: "qualification_dependency_manifest \<Rightarrow> agent_market_view \<Rightarrow> string list" where
  "view_reasons m v =
     (if amv_schema_version v \<noteq> qdm_agent_market_view_version m
      then [''AgentMarketView version differs from the qualified generation''] else []) @
     (case amv_features v of
        None \<Rightarrow> [''qualification decision lacks its feature projection'']
      | Some f \<Rightarrow>
          (if afv_allowlist_version f \<noteq> qdm_feature_allowlist_version m
           then [''AgentFeatureView allowlist version differs''] else []) @
          (if afv_source_feature_engine_version f \<noteq> qdm_feature_engine_version m
           then [''feature engine version differs from the qualified generation''] else []))"

definition same_identity :: "invocation_trace \<Rightarrow> qualified_role_assignment \<Rightarrow> bool" where
  "same_identity t a \<longleftrightarrow> it_provider t = qra_provider a \<and> it_model_identifier t = qra_model_identifier a \<and>
     it_agent_version t = qra_agent_version a \<and> it_prompt_id t = qra_prompt_id a \<and>
     it_prompt_version t = qra_prompt_version a \<and> it_prompt_digest t = qra_prompt_digest a \<and>
     it_runtime_profile_ref t = qra_runtime_profile_ref a"

definition role_assignments :: "qualification_dependency_manifest \<Rightarrow> (string, qualified_role_assignment) dict" where
  "role_assignments m = fill qra_role (qdm_assignments m)"

definition invocation_reasons :: "qualification_dependency_manifest \<Rightarrow> agent_invocation_audit \<Rightarrow> string list" where
  "invocation_reasons m i =
     (let t = aia_trace i; role = value_agent_role (it_agent_role t)
      in case map_of (role_assignments m) role of
           None \<Rightarrow> [''missing qualified role assignment for '' @ role]
         | Some a \<Rightarrow> if same_identity t a then []
             else [''invocation identity differs from qualified assignment for '' @ role])"

definition decision_reasons :: "qualification_dependency_manifest \<Rightarrow> continuous_decision_record \<Rightarrow> string list" where
  "decision_reasons m d =
     (case cdr_agent_market_view d of None \<Rightarrow> [] | Some v \<Rightarrow> view_reasons m v) @
     (case cdr_shadow_record d of None \<Rightarrow> []
      | Some s \<Rightarrow> concat (map (invocation_reasons m) (dcyc_invocations (sdr_decision_cycle s))))"

definition dict_of :: "('a \<Rightarrow> string) \<Rightarrow> ('a \<Rightarrow> 'b) \<Rightarrow> 'a list \<Rightarrow> (string, 'b) dict" where
  "dict_of key val xs = fold (\<lambda>x. AList.update (key x) (val x)) xs []"

definition evidence_dependency_reasons :: "sha \<Rightarrow> qualification_evidence_dataset \<Rightarrow>
    qualification_dependency_manifest \<Rightarrow> string list" where
  "evidence_dependency_reasons sha d m =
     (let reasons =
        (if qed_generation_id d \<noteq> qdm_generation_id m \<or> qed_generation_digest d \<noteq> dependency_manifest_digest sha m
         then [''sealed evidence generation differs from the dependency manifest''] else []) @
        concat (map (decision_reasons m) (qed_decisions d)) @
        (if set (dict_of qar_artifact_id qar_content_digest (qdm_pricing_profile_refs m)) \<noteq>
            set (dict_of pp_profile_ref (\<lambda>p. content_digest sha (dump_pricing_profile p)) (qed_pricing_profiles d))
         then [''sealed pricing profiles differ from the dependency manifest''] else []) @
        (if list_ex (\<lambda>x. to_evaluator_version x \<noteq> qdm_outcome_policy_version m) (qed_outcomes d)
         then [''outcome evaluator version differs from the qualified generation''] else [])
      in sort (remdups reasons))"

definition expiry_candidates :: "qualification_dependency_manifest \<Rightarrow> instant list" where
  "expiry_candidates m = star_expires_at (qdm_symbol_timestamp_acceptance m) #
     List.map_filter (\<lambda>a. if qra_provider a \<noteq> model_provider.FAKE then qra_acceptance_valid_until a else None)
       (qdm_assignments m)"

definition earliest_expiry :: "qualification_dependency_manifest \<Rightarrow> instant" where
  "earliest_expiry m = foldl min (hd (expiry_candidates m)) (tl (expiry_candidates m))"

definition assessed_state :: "sha \<Rightarrow> qualification_run \<Rightarrow> qualification_evidence_dataset \<Rightarrow>
    qualification_dependency_manifest \<Rightarrow> instant \<Rightarrow> string list \<Rightarrow> bool \<Rightarrow>
    qualification_evidence_validity \<times> string list" where
  "assessed_state sha run d current t invalidation contaminated =
     (let dependency = evidence_dependency_reasons sha d current in
      if contaminated
      then (qualification_evidence_validity.CONTAMINATED,
        [''sealed evidence was used for a material system change''])
      else if invalidation \<noteq> [] then (qualification_evidence_validity.INVALIDATED, invalidation)
      else if dependency \<noteq> [] then (qualification_evidence_validity.INVALIDATED, dependency)
      else if dependency_manifest_digest sha (qr_dependency_manifest run) \<noteq> qr_dependency_manifest_digest run \<or>
        dependency_manifest_digest sha current \<noteq> qr_dependency_manifest_digest run \<or>
        qdm_generation_id current \<noteq> qdm_generation_id (qr_dependency_manifest run)
      then (qualification_evidence_validity.INVALIDATED,
        [''current material dependencies differ from the qualified generation''])
      else if t \<ge> earliest_expiry current
      then (qualification_evidence_validity.EXPIRED, [''one or more required acceptance artifacts expired''])
      else (qualification_evidence_validity.VALID, []))"

definition assess_validity :: "sha \<Rightarrow> qualification_run \<Rightarrow> qualification_evidence_dataset \<Rightarrow>
    qualification_dependency_manifest \<Rightarrow> instant \<Rightarrow> string list \<Rightarrow> bool \<Rightarrow> qualification_validity_assessment fallible" where
  "assess_validity sha run d current t invalidation contaminated =
     bind_result (verify_sealed_evidence sha d) (\<lambda>_.
     bind_result (run_guards
       [(qr_evidence_dataset_id run \<noteq> qed_dataset_id d \<or>
         Some (qr_evidence_dataset_digest run) \<noteq> qed_sealed_content_digest d \<or>
         qr_qualification_run_id run \<noteq> qed_qualification_run_id d,
         qualification_error qualification_error_category.INVALID_EVIDENCE
           ''qualification run and sealed evidence do not match'')]) (\<lambda>_.
     bind_result (qualified_artifact sha ''qualification_dependency_manifest''
       (qdm_generation_id (qr_dependency_manifest run))
       (dump_qualification_dependency_manifest (qr_dependency_manifest run))) (\<lambda>manifest_ref.
     bind_result (qualified_artifact sha ''symbol_timestamp_acceptance''
       (star_acceptance_id (qdm_symbol_timestamp_acceptance current))
       (dump_symbol_timestamp_acceptance_record (qdm_symbol_timestamp_acceptance current))) (\<lambda>timestamp_ref.
     let (state, reasons) = assessed_state sha run d current t invalidation contaminated;
         digest = dependency_manifest_digest sha current
     in build ''QualificationValidityAssessment'' ok_qualification_validity_assessment
       \<lparr>qva_schema_version = ''1.0.0'',
        qva_assessment_id = deterministic_id sha ''qualification-validity'' (PDict
          [(''run_id'', PStr (qr_qualification_run_id run)),
           (''dataset_digest'', dump_option PStr (qed_sealed_content_digest d)),
           (''manifest_digest'', PStr digest), (''state'', PStr (value_qualification_evidence_validity state)),
           (''assessed_at'', PTime t), (''reasons'', PList (map PStr reasons))]),
        qva_qualification_run_id = qr_qualification_run_id run, qva_evidence_dataset_id = qed_dataset_id d,
        qva_evidence_dataset_digest = the (qed_sealed_content_digest d), qva_dependency_manifest_digest = digest,
        qva_state = state, qva_assessed_at = t,
        qva_valid_until = (if state \<in> {qualification_evidence_validity.VALID, qualification_evidence_validity.EXPIRED}
          then Some (earliest_expiry current) else None),
        qva_reasons = reasons, qva_evidence = [manifest_ref, timestamp_ref]\<rparr>))))"

section \<open>Evidence from the observation repository\<close>

definition collect_m9_evidence :: "sha \<Rightarrow> qualification_evidence_dataset \<Rightarrow> observation_memory \<Rightarrow>
    trade_outcome list \<Rightarrow> pricing_profile list \<Rightarrow> qualification_incident list \<Rightarrow>
    qualification_artifact_reference list \<Rightarrow> qualification_evidence_dataset fallible" where
  "collect_m9_evidence sha d source outcomes pricing incidents safety =
     (let p = qpd_partition (qed_partition d); start = Aware (dp_evaluation_start p); stop = Aware (dp_evaluation_end p)
      in bind_result (om_claims_in_range source start stop) (\<lambda>claims.
         bind_result (om_decisions_in_range source start stop) (\<lambda>decisions.
         append_evidence sha d
           \<lparr>eb_claims = claims, eb_decisions = decisions, eb_outcomes = outcomes, eb_pricing_profiles = pricing,
            eb_incidents = incidents, eb_safety_evidence = safety\<rparr>)))"

section \<open>The service\<close>

text \<open>What the service calls on its repository.\<close>

record 'r qualification_operations =
  qo_append_evidence :: "qualification_evidence_dataset \<Rightarrow> ('r, unit) op"
  qo_append_run :: "qualification_run \<Rightarrow> ('r, unit) op"
  qo_append_validity :: "qualification_validity_assessment \<Rightarrow> ('r, unit) op"
  qo_append_status :: "current_qualification_status \<Rightarrow> ('r, unit) op"
  qo_finalize :: "qualification_evidence_dataset \<Rightarrow> qualification_validity_assessment \<Rightarrow>
    shadow_graduation_evaluation \<Rightarrow> current_qualification_status \<Rightarrow> ('r, unit) op"

definition memory_qualification :: "sha \<Rightarrow> qualification_memory qualification_operations" where
  "memory_qualification sha = \<lparr>qo_append_evidence = qs_append_evidence sha, qo_append_run = qs_append_run,
     qo_append_validity = qs_append_validity, qo_append_status = qs_append_status, qo_finalize = qs_finalize sha\<rparr>"

definition file_qualification :: "sha \<Rightarrow> qualification_file qualification_operations" where
  "file_qualification sha = \<lparr>qo_append_evidence = qf_append_evidence sha, qo_append_run = qf_append_run,
     qo_append_validity = qf_append_validity, qo_append_status = qf_append_status, qo_finalize = qf_finalize sha\<rparr>"

definition qualification_seal :: "sha \<Rightarrow> 'r qualification_operations \<Rightarrow> qualification_evidence_dataset \<Rightarrow> instant \<Rightarrow>
    ('r, qualification_evidence_dataset) op" where
  "qualification_seal sha ops d t = bind_op (lift_op (seal_evidence sha d t)) (\<lambda>x.
     bind_op (qo_append_evidence ops x) (\<lambda>_. ret x))"

definition create_qualification_run :: "sha \<Rightarrow> 'r qualification_operations \<Rightarrow> string \<Rightarrow> qualification_dependency_manifest \<Rightarrow>
    qualification_evidence_dataset \<Rightarrow> string \<Rightarrow> instant \<Rightarrow> instant \<Rightarrow> instant \<Rightarrow> ('r, qualification_run) op" where
  "create_qualification_run sha ops run_id m d symbol started completed created =
     (let digest = dependency_manifest_digest sha m in
      bind_op (lift_op (bind_result (verify_sealed_evidence sha d) (\<lambda>_. bind_result (run_guards
        [(qed_lifecycle d \<noteq> qualification_evidence_lifecycle.SEALED,
          qualification_error qualification_error_category.EVIDENCE_NOT_SEALED
            ''qualification run requires sealed, unevaluated evidence''),
         (qed_qualification_run_id d \<noteq> run_id \<or> qed_generation_id d \<noteq> qdm_generation_id m \<or>
          qed_generation_digest d \<noteq> digest,
          qualification_error qualification_error_category.DEPENDENCY_INCOMPATIBLE
            ''evidence and dependency generation do not match'')]) (\<lambda>_.
        build ''QualificationRun'' ok_qualification_run
          \<lparr>qr_schema_version = ''1.0.0'', qr_qualification_run_id = run_id, qr_dependency_manifest = m,
           qr_dependency_manifest_digest = digest, qr_partition = qed_partition d, qr_symbol = symbol,
           qr_timeframe = timeframe.M15, qr_started_at = started, qr_completed_at = completed,
           qr_evidence_dataset_id = qed_dataset_id d,
           qr_evidence_dataset_digest = the (qed_sealed_content_digest d), qr_created_at = created\<rparr>)))) (\<lambda>run.
      bind_op (qo_append_run ops run) (\<lambda>_. ret run)))"

text \<open>The artifacts of an evaluation, all computed before the repository is called.\<close>

definition evaluation_artifacts :: "sha \<Rightarrow> qualification_run \<Rightarrow> qualification_evidence_dataset \<Rightarrow>
    qualification_dependency_manifest \<Rightarrow> shadow_graduation_policy \<Rightarrow> instant \<Rightarrow>
    (qualification_validity_assessment \<times> shadow_graduation_evaluation \<times> qualification_evidence_dataset \<times>
      current_qualification_status) fallible" where
  "evaluation_artifacts sha run d current policy t =
     bind_result (assess_validity sha run d current t [] False) (\<lambda>validity.
     bind_result (evaluate_graduation sha run d validity policy t) (\<lambda>evaluation.
     bind_result (build ''QualificationArtifactReference'' fields_qualification_artifact_reference
       \<lparr>qar_artifact_type = ''shadow_graduation_evaluation'', qar_artifact_id = sge_evaluation_id evaluation,
        qar_schema_version = sge_schema_version evaluation, qar_content_digest = sge_evaluation_digest evaluation\<rparr>) (\<lambda>ref.
     bind_result (mark_evaluated sha d ref t) (\<lambda>evaluated.
     bind_result (current_qualification_status evaluation validity t) (\<lambda>status.
     Inr (validity, evaluation, evaluated, status))))))"

definition qualification_evaluate :: "sha \<Rightarrow> 'r qualification_operations \<Rightarrow> qualification_run \<Rightarrow>
    qualification_evidence_dataset \<Rightarrow> qualification_dependency_manifest \<Rightarrow> shadow_graduation_policy \<Rightarrow> instant \<Rightarrow>
    ('r, shadow_graduation_evaluation \<times> qualification_evidence_dataset \<times> current_qualification_status) op" where
  "qualification_evaluate sha ops run d current policy t =
     bind_op (lift_op (evaluation_artifacts sha run d current policy t)) (\<lambda>(validity, evaluation, evaluated, status).
     bind_op (qo_finalize ops evaluated validity evaluation status) (\<lambda>_. ret (evaluation, evaluated, status)))"

definition reassess_current :: "sha \<Rightarrow> 'r qualification_operations \<Rightarrow> qualification_run \<Rightarrow>
    qualification_evidence_dataset \<Rightarrow> shadow_graduation_evaluation \<Rightarrow> qualification_dependency_manifest \<Rightarrow> instant \<Rightarrow>
    string list \<Rightarrow> bool \<Rightarrow> ('r, qualification_validity_assessment \<times> current_qualification_status) op" where
  "reassess_current sha ops run d evaluation current t invalidation contaminated =
     bind_op (lift_op (assess_validity sha run d current t invalidation contaminated)) (\<lambda>validity.
     bind_op (lift_op (current_qualification_status evaluation validity t)) (\<lambda>status.
     bind_op (qo_append_validity ops validity) (\<lambda>_.
     bind_op (qo_append_status ops status) (\<lambda>_. ret (validity, status)))))"

definition qualification_run_digest :: "sha \<Rightarrow> qualification_run \<Rightarrow> string" where
  "qualification_run_digest sha run = content_digest sha (dump_qualification_run run)"

end
