(* ===== verification/GraduationTheorems.thy ===== *)
theory GraduationTheorems
  imports Graduation
begin

text \<open>
  Sealed evidence stays what it was when it was sealed, and an evaluation makes a run eligible
  exactly when every criterion of the policy holds.
\<close>

section \<open>The life of an evidence dataset\<close>

datatype evidence_call =
    AppendEvidence evidence_batch
  | SealEvidence instant
  | MarkEvaluated qualification_artifact_reference instant

fun evidence_result :: "sha \<Rightarrow> qualification_evidence_dataset \<Rightarrow> evidence_call \<Rightarrow> qualification_evidence_dataset fallible" where
  "evidence_result sha d (AppendEvidence b) = append_evidence sha d b"
| "evidence_result sha d (SealEvidence t) = seal_evidence sha d t"
| "evidence_result sha d (MarkEvaluated r t) = mark_evaluated sha d r t"

text \<open>A call that raises leaves the dataset, an immutable value, as it was.\<close>

definition evidence_after :: "sha \<Rightarrow> qualification_evidence_dataset \<Rightarrow> evidence_call \<Rightarrow> qualification_evidence_dataset" where
  "evidence_after sha d c = (case evidence_result sha d c of Inl e \<Rightarrow> d | Inr d' \<Rightarrow> d')"

definition evidence_run :: "sha \<Rightarrow> qualification_evidence_dataset \<Rightarrow> evidence_call list \<Rightarrow> qualification_evidence_dataset" where
  "evidence_run sha d cs = foldl (evidence_after sha) d cs"

text \<open>The evidence proper: everything but the revision and the lifecycle.\<close>

definition same_evidence :: "qualification_evidence_dataset \<Rightarrow> qualification_evidence_dataset \<Rightarrow> bool" where
  "same_evidence d d' \<longleftrightarrow>
     qed_schema_version d' = qed_schema_version d \<and> qed_dataset_id d' = qed_dataset_id d \<and>
     qed_qualification_run_id d' = qed_qualification_run_id d \<and> qed_generation_id d' = qed_generation_id d \<and>
     qed_generation_digest d' = qed_generation_digest d \<and> qed_partition d' = qed_partition d \<and>
     qed_opened_at d' = qed_opened_at d \<and> qed_claims d' = qed_claims d \<and> qed_decisions d' = qed_decisions d \<and>
     qed_outcomes d' = qed_outcomes d \<and> qed_pricing_profiles d' = qed_pricing_profiles d \<and>
     qed_incidents d' = qed_incidents d \<and> qed_safety_evidence d' = qed_safety_evidence d"

lemma same_evidence_refl [simp]: "same_evidence d d"
  by (simp add: same_evidence_def)

lemma same_evidence_trans: "same_evidence a b \<Longrightarrow> same_evidence b c \<Longrightarrow> same_evidence a c"
  by (simp add: same_evidence_def)

lemma same_evidence_digest: "same_evidence d d' \<Longrightarrow> evidence_content_digest sha d' = evidence_content_digest sha d"
  by (simp add: same_evidence_def evidence_content_digest_def)

lemmas evidence_defs = append_evidence_def seal_evidence_def mark_evaluated_def validated_evidence_def
  verify_sealed_evidence_def

definition sealed :: "sha \<Rightarrow> qualification_evidence_dataset \<Rightarrow> qualification_evidence_dataset \<Rightarrow> bool" where
  "sealed sha d d' \<longleftrightarrow> same_evidence d d' \<and> verify_sealed_evidence sha d' = Inr ()"

lemma verify_Inr: "verify_sealed_evidence sha d = Inr () \<longleftrightarrow>
    qed_lifecycle d \<noteq> qualification_evidence_lifecycle.OPEN \<and>
    qed_sealed_content_digest d = Some (evidence_content_digest sha d)"
  by (cases "qed_lifecycle d") (auto simp: verify_sealed_evidence_def)

lemma seal_sealed:
  assumes "seal_evidence sha d t = Inr d'"
  shows "sealed sha d d'"
proof -
  from assms have d': "d' = d\<lparr>qed_lifecycle := qualification_evidence_lifecycle.SEALED,
        qed_revision := qed_revision d + 1, qed_previous_revision_digest := Some (dataset_digest_of sha d),
        qed_sealed_at := Some t, qed_sealed_content_digest := Some (evidence_content_digest sha d)\<rparr>"
    by (auto simp: seal_evidence_def validated_evidence_def result_simps split: if_splits)
  then have "same_evidence d d'" by (simp add: same_evidence_def)
  with d' show ?thesis by (simp add: sealed_def verify_Inr same_evidence_digest)
qed

lemma sealed_after:
  assumes "sealed sha d d'"
  shows "sealed sha d (evidence_after sha d' c)"
proof -
  have open_: "qed_lifecycle d' \<noteq> qualification_evidence_lifecycle.OPEN"
    and digest: "qed_sealed_content_digest d' = Some (evidence_content_digest sha d')" and same: "same_evidence d d'"
    using assms by (simp_all add: sealed_def verify_Inr)
  show ?thesis
  proof (cases "evidence_result sha d' c")
    case (Inl e)
    with assms show ?thesis by (simp add: evidence_after_def)
  next
    case (Inr x)
    obtain r t where x: "x = d'\<lparr>qed_lifecycle := qualification_evidence_lifecycle.EVALUATED,
       qed_revision := qed_revision d' + 1, qed_previous_revision_digest := Some (dataset_digest_of sha d'),
       qed_evaluated_at := Some t, qed_evaluation_reference := Some r\<rparr>"
    proof (cases c)
      case (MarkEvaluated r t)
      with Inr show thesis
        by (intro that [of r t]) (simp add: mark_evaluated_def validated_evidence_def result_simps split: if_splits)
    qed (use Inr open_ in \<open>simp_all add: append_evidence_def seal_evidence_def\<close>)
    then have s: "same_evidence d' x" by (simp add: same_evidence_def)
    from same_evidence_digest [OF s] digest x have "verify_sealed_evidence sha x = Inr ()"
      by (simp add: verify_Inr)
    with same_evidence_trans [OF same s] Inr show ?thesis
      by (simp add: evidence_after_def sealed_def)
  qed
qed

lemma sealed_run: "sealed sha d d' \<Longrightarrow> sealed sha d (evidence_run sha d' cs)"
  unfolding evidence_run_def by (induction cs arbitrary: d') (simp_all add: sealed_after)

text \<open>
  C40: after sealing, whatever is called on the dataset, it contains exactly the evidence
  that was there when it was sealed, its sealed digest is the digest of that evidence, and the
  evaluator's verification accepts it.
\<close>

theorem sealed_evidence_frozen:
  "case seal_evidence sha d t of
     Inl e \<Rightarrow> True
   | Inr s \<Rightarrow> \<forall>cs. same_evidence d (evidence_run sha s cs) \<and>
       qed_sealed_content_digest (evidence_run sha s cs) = Some (evidence_content_digest sha d) \<and>
       verify_sealed_evidence sha (evidence_run sha s cs) = Inr ()"
proof (cases "seal_evidence sha d t")
  case (Inr s)
  have "sealed sha d (evidence_run sha s cs)" for cs by (rule sealed_run [OF seal_sealed [OF Inr]])
  then have "same_evidence d (evidence_run sha s cs)" "verify_sealed_evidence sha (evidence_run sha s cs) = Inr ()" for cs
    by (simp_all add: sealed_def)
  with Inr show ?thesis by (auto simp: verify_Inr same_evidence_digest)
qed simp

section \<open>Graduation\<close>

text \<open>The criteria, read off the summaries of the evaluation.\<close>

definition at_most :: "qualification_metric \<Rightarrow> decimal \<Rightarrow> bool" where
  "at_most m t \<longleftrightarrow> qm_status m \<noteq> qualification_metric_status.UNAVAILABLE \<and> (\<exists>v. qm_value m = Some v \<and> v \<le> t)"

definition performs :: "qualification_trading_summary \<Rightarrow> (performance_summary \<Rightarrow> research_metric) \<Rightarrow>
    (decimal \<Rightarrow> decimal \<Rightarrow> bool) \<Rightarrow> decimal option \<Rightarrow> bool" where
  "performs trading metric rel threshold \<longleftrightarrow> (case threshold of None \<Rightarrow> True | Some t \<Rightarrow>
     \<exists>p v. qts_performance trading = Some p \<and> rm_status (metric p) = research_metric_status.VALID \<and>
       rm_value (metric p) = Some v \<and> rel v t)"

definition meets_policy :: "shadow_graduation_policy \<Rightarrow> bool \<Rightarrow> shadow_graduation_evaluation \<Rightarrow> bool" where
  "meets_policy p out_of_sample e \<longleftrightarrow>
     (let s = sge_sample_summary e; ops = sge_operational_summary e; safety = sge_safety_summary e;
          observed = sge_observed_cost e; projected = sge_projected_cost e; trading = sge_trading_summary e
      in qss_completed_decisions s \<ge> sgp_minimum_completed_decision_cycles p \<and>
         qss_ai_invoked_cycles s \<ge> sgp_minimum_ai_invoked_cycles p \<and>
         qss_trade_candidates s \<ge> sgp_minimum_trade_candidates p \<and>
         qss_risk_approved_intents s \<ge> sgp_minimum_risk_approved_intents p \<and>
         qss_resolved_outcomes s \<ge> sgp_minimum_resolved_outcomes p \<and>
         at_most (qos_runtime_failure_rate ops) (sgp_maximum_runtime_failure_rate p) \<and>
         at_most (qos_provider_runtime_failure_rate ops) (sgp_maximum_provider_failure_rate p) \<and>
         qos_duplicate_decision_count ops \<le> 0 \<and>
         qos_abandoned_cycle_count ops \<le> sgp_maximum_abandoned_cycles p \<and>
         qos_unexplained_abandoned_cycle_count ops \<le> sgp_maximum_unexplained_abandoned_cycles p \<and>
         qos_trace_mismatch_count ops \<le> 0 \<and> qos_schema_validation_failure_count ops \<le> 0 \<and>
         qos_source_revision_count ops \<le> 0 \<and> qos_timestamp_eligibility_current ops \<and>
         list_all (\<lambda>(n, v). v = 0) (safety_values safety) \<and>
         ocs_cost_status observed \<noteq> qualification_metric_status.UNAVAILABLE \<and>
         ocs_total_assessed_observed_cost observed \<le> sgp_maximum_total_assessed_observed_cost p \<and>
         pcs_projection_status projected \<noteq> qualification_metric_status.UNAVAILABLE \<and>
         (\<exists>v. pcs_projected_30d_cost projected = Some v \<and> v \<le> sgp_maximum_projected_30d_cost p) \<and>
         out_of_sample \<and>
         at_most (qts_ambiguous_rate trading) (sgp_maximum_ambiguous_rate p) \<and>
         at_most (qts_unresolved_rate trading) (sgp_maximum_unresolved_rate p) \<and>
         performs trading ps_expectancy_r (\<ge>) (sgp_minimum_expectancy_r p) \<and>
         performs trading ps_profit_factor (\<ge>) (sgp_minimum_profit_factor p) \<and>
         performs trading ps_sequence_max_drawdown_r (\<le>) (sgp_maximum_sequence_max_drawdown_r p) \<and>
         performs trading ps_win_rate (\<ge>) (sgp_minimum_win_rate p))"

definition gate_passes :: "gate_spec \<Rightarrow> bool" where
  "gate_passes g \<longleftrightarrow> (\<exists>m. gs_measurement g = Inr m \<and> passes m (gs_comparator g) (gs_threshold g))"

definition gate_measured :: "gate_spec \<Rightarrow> bool" where
  "gate_measured g \<longleftrightarrow> (\<exists>m. gs_measurement g = Inr m)"

lemma gate_result_Inr:
  "gate_result p digest g = Inr r \<Longrightarrow>
     gate_measured g \<and> (qgres_status r = qualification_gate_status.PASS) = gate_passes g"
  by (auto simp: gate_result_def gate_passes_def gate_measured_def result_simps Let_def split: if_splits)

lemma gate_results_Inr:
  assumes "gate_results p digest gs = Inr rs"
  shows "list_all gate_measured gs \<and>
    list_all (\<lambda>r. qgres_status r = qualification_gate_status.PASS) rs = list_all gate_passes gs"
  using assms by (induction gs arbitrary: rs) (auto simp: result_simps dest: gate_result_Inr)

lemma list_all_sort_key: "list_all P (sort_key f xs) = list_all P xs"
  by (simp add: list_all_iff)

lemma measured_rate: "passes m qualification_comparator.LESS_THAN_OR_EQUAL t = at_most m t"
  by (auto simp: passes_def at_most_def split: option.split)

lemma numeric_Inr: "numeric_metric v u ref st = Inr m \<Longrightarrow> qm_status m = st \<and>
    (st \<noteq> qualification_metric_status.UNAVAILABLE \<longrightarrow> qm_value m = Some v)"
  by (auto simp: numeric_metric_def qualification_metric_of_def result_simps split: if_splits)

lemma passes_numeric:
  assumes "numeric_metric v u ref st = Inr m"
  shows "passes m qualification_comparator.EQUAL t \<longleftrightarrow> st \<noteq> qualification_metric_status.UNAVAILABLE \<and> v = t"
    and "passes m qualification_comparator.LESS_THAN_OR_EQUAL t \<longleftrightarrow> st \<noteq> qualification_metric_status.UNAVAILABLE \<and> v \<le> t"
    and "passes m qualification_comparator.GREATER_THAN_OR_EQUAL t \<longleftrightarrow> st \<noteq> qualification_metric_status.UNAVAILABLE \<and> t \<le> v"
  using numeric_Inr [OF assms] by (auto simp: passes_def)

lemma gate_simps [simp]:
  "gs_measurement (gate i c n m k t r) = m" "gs_comparator (gate i c n m k t r) = k"
  "gs_threshold (gate i c n m k t r) = t"
  by (simp_all add: gate_def)

lemma count_gates:
  assumes "gate_measured (gate i c n (count_metric v ref) k t r)"
  shows "gate_passes (gate i c n (count_metric v ref) k t r) \<longleftrightarrow>
    (case k of qualification_comparator.EQUAL \<Rightarrow> of_int v = t | qualification_comparator.LESS_THAN_OR_EQUAL \<Rightarrow> of_int v \<le> t
     | qualification_comparator.GREATER_THAN_OR_EQUAL \<Rightarrow> t \<le> of_int v)"
proof -
  from assms obtain m where m: "numeric_metric (of_int v) ''COUNT'' ref qualification_metric_status.VALID = Inr m"
    by (auto simp: gate_measured_def count_metric_def)
  then show ?thesis
    by (cases k) (simp_all add: gate_passes_def count_metric_def passes_numeric [OF m])
qed

lemma boolean_gates:
  assumes "gate_measured (gate i c n (boolean_metric b ref) qualification_comparator.EQUAL 1 r)"
  shows "gate_passes (gate i c n (boolean_metric b ref) qualification_comparator.EQUAL 1 r) \<longleftrightarrow> b"
proof -
  from assms obtain m where m: "numeric_metric (if b then 1 else 0) ''BOOLEAN'' ref qualification_metric_status.VALID = Inr m"
    by (auto simp: gate_measured_def boolean_metric_def)
  then show ?thesis by (simp add: gate_passes_def boolean_metric_def passes_numeric [OF m])
qed

lemma sample_gates_pass:
  assumes "list_all gate_measured (sample_gates s p ref)"
  shows "list_all gate_passes (sample_gates s p ref) \<longleftrightarrow>
    qss_completed_decisions s \<ge> sgp_minimum_completed_decision_cycles p \<and>
    qss_ai_invoked_cycles s \<ge> sgp_minimum_ai_invoked_cycles p \<and>
    qss_trade_candidates s \<ge> sgp_minimum_trade_candidates p \<and>
    qss_risk_approved_intents s \<ge> sgp_minimum_risk_approved_intents p \<and>
    qss_resolved_outcomes s \<ge> sgp_minimum_resolved_outcomes p"
  using assms by (simp add: sample_gates_def count_gates)

lemma operational_gates_pass:
  assumes "list_all gate_measured (operational_gates ops p ref)"
  shows "list_all gate_passes (operational_gates ops p ref) \<longleftrightarrow>
    at_most (qos_runtime_failure_rate ops) (sgp_maximum_runtime_failure_rate p) \<and>
    at_most (qos_provider_runtime_failure_rate ops) (sgp_maximum_provider_failure_rate p) \<and>
    qos_duplicate_decision_count ops \<le> 0 \<and>
    qos_abandoned_cycle_count ops \<le> sgp_maximum_abandoned_cycles p \<and>
    qos_unexplained_abandoned_cycle_count ops \<le> sgp_maximum_unexplained_abandoned_cycles p \<and>
    qos_trace_mismatch_count ops \<le> 0 \<and> qos_schema_validation_failure_count ops \<le> 0 \<and>
    qos_source_revision_count ops \<le> 0 \<and> qos_timestamp_eligibility_current ops"
proof -
  have rate: "gate_passes (gate i c n (Inr m) qualification_comparator.LESS_THAN_OR_EQUAL t r) = at_most m t" for i c n m t r
    by (simp add: gate_passes_def measured_rate)
  show ?thesis
    using assms by (simp add: operational_gates_def Let_def rate count_gates boolean_gates)
qed

lemma safety_gates_pass:
  assumes "list_all gate_measured (safety_gates s ref)"
  shows "list_all gate_passes (safety_gates s ref) \<longleftrightarrow> list_all (\<lambda>(n, v). v = 0) (safety_values s)"
  using assms by (simp add: safety_gates_def safety_values_def count_gates upt_rec)

lemma cost_gates_pass:
  assumes "list_all gate_measured (cost_gates observed projected p ref)"
  shows "list_all gate_passes (cost_gates observed projected p ref) \<longleftrightarrow>
    ocs_cost_status observed \<noteq> qualification_metric_status.UNAVAILABLE \<and>
    ocs_total_assessed_observed_cost observed \<le> sgp_maximum_total_assessed_observed_cost p \<and>
    (\<exists>v. pcs_projected_30d_cost projected = Some v \<and>
       pcs_projection_status projected \<noteq> qualification_metric_status.UNAVAILABLE \<and> v \<le> sgp_maximum_projected_30d_cost p)"
proof -
  have unavailable: "\<not> gate_passes (gate i c n (qualification_metric_of qualification_metric_status.UNAVAILABLE None u ref) k t r)"
    for i c n u k t r
    by (auto simp: gate_passes_def qualification_metric_of_def passes_def result_simps)
  have numeric: "gate_passes (gate i c n (numeric_metric v u ref st) qualification_comparator.LESS_THAN_OR_EQUAL t r) \<longleftrightarrow>
      st \<noteq> qualification_metric_status.UNAVAILABLE \<and> v \<le> t"
    if "gate_measured (gate i c n (numeric_metric v u ref st) qualification_comparator.LESS_THAN_OR_EQUAL t r)" for i c n v u st t r
    using that passes_numeric(2) by (auto simp: gate_passes_def gate_measured_def)
  show ?thesis
    using assms by (cases "pcs_projected_30d_cost projected") (simp_all add: cost_gates_def unavailable numeric)
qed

lemma research_gate:
  assumes "gate_measured (gate i c n (research_metric_of m u ref) k t r)"
  shows "gate_passes (gate i c n (research_metric_of m u ref) k t r) \<longleftrightarrow>
    (\<exists>x v. m = Some x \<and> rm_status x = research_metric_status.VALID \<and> rm_value x = Some v \<and>
      (case k of qualification_comparator.EQUAL \<Rightarrow> v = t | qualification_comparator.LESS_THAN_OR_EQUAL \<Rightarrow> v \<le> t
       | qualification_comparator.GREATER_THAN_OR_EQUAL \<Rightarrow> t \<le> v))"
proof (cases "\<exists>x v. m = Some x \<and> rm_status x = research_metric_status.VALID \<and> rm_value x = Some v")
  case True
  then obtain x v where m: "m = Some x" "rm_status x = research_metric_status.VALID" "rm_value x = Some v" by blast
  with assms obtain y where y: "numeric_metric v u ref qualification_metric_status.VALID = Inr y"
    by (auto simp: gate_measured_def research_metric_of_def)
  with m show ?thesis
    by (cases k) (simp_all add: gate_passes_def research_metric_of_def passes_numeric [OF y])
next
  case False
  then have "research_metric_of m u ref = qualification_metric_of qualification_metric_status.UNAVAILABLE None u ref"
    by (auto simp: research_metric_of_def split: option.split prod.split research_metric_status.split)
  with False show ?thesis by (auto simp: gate_passes_def qualification_metric_of_def passes_def result_simps)
qed

lemma optional_gate_pass:
  assumes "list_all gate_measured (optional_gate i n u trading metric ref k threshold)"
  shows "list_all gate_passes (optional_gate i n u trading metric ref k threshold) \<longleftrightarrow>
    performs trading metric (\<lambda>v t. case k of qualification_comparator.EQUAL \<Rightarrow> v = t
      | qualification_comparator.LESS_THAN_OR_EQUAL \<Rightarrow> v \<le> t | qualification_comparator.GREATER_THAN_OR_EQUAL \<Rightarrow> t \<le> v) threshold"
  using assms by (cases threshold) (auto simp: optional_gate_def performs_def research_gate)

lemma trading_gates_pass:
  assumes "list_all gate_measured (trading_gates oos trading p ref)"
  shows "list_all gate_passes (trading_gates oos trading p ref) \<longleftrightarrow> oos \<and>
    at_most (qts_ambiguous_rate trading) (sgp_maximum_ambiguous_rate p) \<and>
    at_most (qts_unresolved_rate trading) (sgp_maximum_unresolved_rate p) \<and>
    performs trading ps_expectancy_r (\<ge>) (sgp_minimum_expectancy_r p) \<and>
    performs trading ps_profit_factor (\<ge>) (sgp_minimum_profit_factor p) \<and>
    performs trading ps_sequence_max_drawdown_r (\<le>) (sgp_maximum_sequence_max_drawdown_r p) \<and>
    performs trading ps_win_rate (\<ge>) (sgp_minimum_win_rate p)"
proof -
  have rate: "gate_passes (gate i c n (Inr m) qualification_comparator.LESS_THAN_OR_EQUAL t r) = at_most m t" for i c n m t r
    by (simp add: gate_passes_def measured_rate)
  show ?thesis
    using assms by (simp add: trading_gates_def rate boolean_gates optional_gate_pass)
qed

text \<open>
  The incidents of category RUNTIME_FAILURE are not counted: adding one changes no summary of the
  operation of the run.
\<close>

lemma runtime_incidents_ignored:
  assumes "qi_category i = qualification_incident_category.RUNTIME_FAILURE"
  shows "summarize_operational (d\<lparr>qed_incidents := i # qed_incidents d\<rparr>) eligible = summarize_operational d eligible"
    and "summarize_safety (d\<lparr>qed_incidents := i # qed_incidents d\<rparr>) = summarize_safety d"
proof -
  let ?d = "d\<lparr>qed_incidents := i # qed_incidents d\<rparr>"
  have records: "shadow_records ?d = shadow_records d" by (simp add: shadow_records_def)
  have frame: "evidence_reference ?d = evidence_reference d" "evidence_cycles ?d = evidence_cycles d"
    "all_failures ?d = all_failures d"
    by (simp_all add: evidence_reference_def all_failures_def evidence_cycles_def records split: option.split)
  have count: "incident_count ?d c = incident_count d c" if "c \<noteq> qualification_incident_category.RUNTIME_FAILURE" for c
    using assms that by (simp add: incident_count_def counted_def)
  show "summarize_operational ?d eligible = summarize_operational d eligible"
    unfolding summarize_operational_def frame by (simp add: count)
  show "summarize_safety ?d = summarize_safety d"
    unfolding summarize_safety_def records by (simp add: count)
qed

text \<open>
  C39: an evaluation that is returned was made of sealed, unevaluated evidence whose digest is
  that of its contents, of a run that names exactly this dataset and digest, and of an assessment with
  state VALID of the same run and the same digest; it carries the identities of all three and of the
  policy, and the summaries of that evidence; and it makes the run eligible for review exactly when
  every criterion of the policy holds of these summaries.
\<close>

theorem graduation_exact:
  "case evaluate_graduation sha run d validity policy t of
     Inl e \<Rightarrow> True
   | Inr e \<Rightarrow>
       qed_lifecycle d = qualification_evidence_lifecycle.SEALED \<and>
       qed_sealed_content_digest d = Some (evidence_content_digest sha d) \<and>
       qr_qualification_run_id run = qed_qualification_run_id d \<and>
       qr_evidence_dataset_id run = qed_dataset_id d \<and>
       qr_evidence_dataset_digest run = evidence_content_digest sha d \<and>
       qva_state validity = qualification_evidence_validity.VALID \<and>
       qva_qualification_run_id validity = qr_qualification_run_id run \<and>
       qva_evidence_dataset_digest validity = evidence_content_digest sha d \<and>
       sge_qualification_run_id e = qr_qualification_run_id run \<and>
       sge_evidence_dataset_id e = qed_dataset_id d \<and>
       sge_evidence_dataset_digest e = evidence_content_digest sha d \<and>
       qar_artifact_id (sge_validity_assessment_reference e) = qva_assessment_id validity \<and>
       qar_content_digest (sge_validity_assessment_reference e) =
         content_digest sha (dump_qualification_validity_assessment validity) \<and>
       sge_policy_digest e = content_digest sha (dump_shadow_graduation_policy policy) \<and>
       sge_evaluated_at e = t \<and>
       summarize_samples d = Inr (sge_sample_summary e) \<and>
       summarize_operational d True = Inr (sge_operational_summary e) \<and>
       summarize_safety d = Inr (sge_safety_summary e) \<and>
       summarize_costs sha d policy (qr_started_at run) (qr_completed_at run) =
         Inr (sge_observed_cost e, sge_projected_cost e) \<and>
       summarize_trading sha d = Inr (sge_trading_summary e) \<and>
       (sge_disposition e = graduation_disposition.ELIGIBLE_FOR_DEMO_REVIEW \<longleftrightarrow>
          meets_policy policy (is_out_of_sample run) e)"
proof (cases "evaluate_graduation sha run d validity policy t")
  case (Inr e)
  then obtain u ref gates p1 where
    sealed: "verify_sealed_evidence sha d = Inr u" "run_guards (evaluation_guards run d validity) = Inr ()"
    and summaries: "summarize_samples d = Inr (sge_sample_summary e)"
      "summarize_operational d True = Inr (sge_operational_summary e)" "summarize_safety d = Inr (sge_safety_summary e)"
      "summarize_costs sha d policy (qr_started_at run) (qr_completed_at run) =
         Inr (sge_observed_cost e, sge_projected_cost e)"
      "summarize_trading sha d = Inr (sge_trading_summary e)"
    and gates: "gate_results policy p1 (sample_gates (sge_sample_summary e) policy ref @
      operational_gates (sge_operational_summary e) policy ref @ safety_gates (sge_safety_summary e) ref @
      cost_gates (sge_observed_cost e) (sge_projected_cost e) policy ref @
      trading_gates (is_out_of_sample run) (sge_trading_summary e) policy ref) = Inr gates"
    and d: "sge_disposition e = (if list_all (\<lambda>g. qgres_status g = qualification_gate_status.PASS) (sort_key qgres_gate_id gates)
             then graduation_disposition.ELIGIBLE_FOR_DEMO_REVIEW else graduation_disposition.NOT_ELIGIBLE)"
    by (auto simp: evaluate_graduation_def sealed_evaluation_def result_simps Let_def split: prod.splits)
  from Inr have carried: "sge_qualification_run_id e = qr_qualification_run_id run"
    "sge_evidence_dataset_id e = qed_dataset_id d" "sge_evidence_dataset_digest e = the (qed_sealed_content_digest d)"
    "qar_artifact_id (sge_validity_assessment_reference e) = qva_assessment_id validity"
    "qar_content_digest (sge_validity_assessment_reference e) =
       content_digest sha (dump_qualification_validity_assessment validity)"
    "sge_policy_digest e = content_digest sha (dump_shadow_graduation_policy policy)" "sge_evaluated_at e = t"
    by (auto simp: evaluate_graduation_def sealed_evaluation_def result_simps Let_def split: prod.splits)
  from sealed have ids: "qr_qualification_run_id run = qed_qualification_run_id d"
    "qr_evidence_dataset_id run = qed_dataset_id d" "qr_evidence_dataset_digest run = evidence_content_digest sha d"
    "qva_state validity = qualification_evidence_validity.VALID"
    "qva_qualification_run_id validity = qr_qualification_run_id run"
    "qva_evidence_dataset_digest validity = evidence_content_digest sha d"
    "the (qed_sealed_content_digest d) = evidence_content_digest sha d"
    "qed_lifecycle d = qualification_evidence_lifecycle.SEALED"
    by (auto simp: evaluation_guards_def verify_Inr split: if_splits)
  note all = gate_results_Inr [OF gates, unfolded list_all_append]
  then have m: "list_all gate_measured (sample_gates (sge_sample_summary e) policy ref)"
    "list_all gate_measured (operational_gates (sge_operational_summary e) policy ref)"
    "list_all gate_measured (safety_gates (sge_safety_summary e) ref)"
    "list_all gate_measured (cost_gates (sge_observed_cost e) (sge_projected_cost e) policy ref)"
    "list_all gate_measured (trading_gates (is_out_of_sample run) (sge_trading_summary e) policy ref)"
    by blast+
  have "list_all (\<lambda>g. qgres_status g = qualification_gate_status.PASS) gates \<longleftrightarrow>
      meets_policy policy (is_out_of_sample run) e"
    unfolding conjunct2 [OF all] meets_policy_def Let_def sample_gates_pass [OF m(1)] operational_gates_pass [OF m(2)]
      safety_gates_pass [OF m(3)] cost_gates_pass [OF m(4)] trading_gates_pass [OF m(5)]
    by blast
  with d sealed(1) summaries ids carried Inr show ?thesis
    by (auto simp: list_all_sort_key verify_Inr split: if_splits)
qed simp

end
