(* ===== verification/QualificationTheorems.thy ===== *)
theory QualificationTheorems
  imports QualificationService GraduationTheorems
begin

text \<open>
  When a run is currently eligible for review: the verdict of the service is compared with the plain
  conditions on the evidence, the generation it was collected under, and the current dependencies.
\<close>

section \<open>Dicts of a list\<close>

lemma fold_update_lookup:
  "map_of (fold (\<lambda>x. AList.update (key x) (val x)) xs d) k =
     (case find (\<lambda>x. key x = k) (rev xs) of None \<Rightarrow> map_of d k | Some x \<Rightarrow> Some (val x))"
proof (induction xs arbitrary: d)
  case (Cons x xs)
  have "find P (ys @ [x]) = (case find P ys of None \<Rightarrow> if P x then Some x else None | Some y \<Rightarrow> Some y)" for P ys
    by (induction ys) auto
  then show ?case by (simp add: Cons.IH AList.update_conv' split: option.splits)
qed simp

lemma distinct_fold_update: "distinct (map fst d) \<Longrightarrow> distinct (map fst (fold (\<lambda>x. AList.update (key x) (val x)) xs d))"
  by (induction xs arbitrary: d) (simp_all add: distinct_dict_update)

lemma fill_lookup: "map_of (fill key xs) k = find (\<lambda>x. key x = k) (rev xs)"
  by (simp add: fill_def fold_update_lookup [where val = "\<lambda>x. x"] split: option.splits)

lemma dict_of_set: "set (dict_of key val xs) = set (dict_of key' val' ys) \<longleftrightarrow>
    map_of (dict_of key val xs) = map_of (dict_of key' val' ys)"
  by (rule map_of_inject_set [symmetric]) (simp_all add: dict_of_def distinct_fold_update)

section \<open>The plain conditions\<close>

text \<open>The evidence was produced under the qualified generation.\<close>

definition qualified_view :: "qualification_dependency_manifest \<Rightarrow> agent_market_view \<Rightarrow> bool" where
  "qualified_view m v \<longleftrightarrow> amv_schema_version v = qdm_agent_market_view_version m \<and>
     (\<exists>f. amv_features v = Some f \<and> afv_allowlist_version f = qdm_feature_allowlist_version m \<and>
        afv_source_feature_engine_version f = qdm_feature_engine_version m)"

definition qualified_invocation :: "qualification_dependency_manifest \<Rightarrow> agent_invocation_audit \<Rightarrow> bool" where
  "qualified_invocation m i \<longleftrightarrow> (\<exists>a. find (\<lambda>a. qra_role a = value_agent_role (it_agent_role (aia_trace i)))
      (rev (qdm_assignments m)) = Some a \<and> same_identity (aia_trace i) a)"

definition same_generation :: "sha \<Rightarrow> qualification_evidence_dataset \<Rightarrow> qualification_dependency_manifest \<Rightarrow> bool" where
  "same_generation sha d m \<longleftrightarrow>
     qed_generation_id d = qdm_generation_id m \<and> qed_generation_digest d = dependency_manifest_digest sha m \<and>
     (\<forall>r \<in> set (qed_decisions d). pred_option (qualified_view m) (cdr_agent_market_view r) \<and>
        pred_option (\<lambda>s. list_all (qualified_invocation m) (dcyc_invocations (sdr_decision_cycle s))) (cdr_shadow_record r)) \<and>
     map_of (dict_of qar_artifact_id qar_content_digest (qdm_pricing_profile_refs m)) =
       map_of (dict_of pp_profile_ref (\<lambda>p. content_digest sha (dump_pricing_profile p)) (qed_pricing_profiles d)) \<and>
     (\<forall>x \<in> set (qed_outcomes d). to_evaluator_version x = qdm_outcome_policy_version m)"

text \<open>The current dependencies are those of the run, and no acceptance among them has expired.\<close>

definition current_dependencies :: "sha \<Rightarrow> qualification_run \<Rightarrow> qualification_dependency_manifest \<Rightarrow> instant \<Rightarrow> bool" where
  "current_dependencies sha run m t \<longleftrightarrow>
     dependency_manifest_digest sha (qr_dependency_manifest run) = qr_dependency_manifest_digest run \<and>
     dependency_manifest_digest sha m = qr_dependency_manifest_digest run \<and>
     qdm_generation_id m = qdm_generation_id (qr_dependency_manifest run) \<and>
     t < star_expires_at (qdm_symbol_timestamp_acceptance m) \<and>
     (\<forall>a \<in> set (qdm_assignments m). qra_provider a \<noteq> model_provider.FAKE \<longrightarrow>
        pred_option (\<lambda>u. t < u) (qra_acceptance_valid_until a))"

section \<open>The verdict\<close>

lemma view_reasons_empty: "view_reasons m v = [] \<longleftrightarrow> qualified_view m v"
  by (auto simp: view_reasons_def qualified_view_def split: option.splits)

lemma invocation_reasons_empty: "invocation_reasons m i = [] \<longleftrightarrow> qualified_invocation m i"
  by (auto simp: invocation_reasons_def qualified_invocation_def role_assignments_def fill_lookup Let_def split: option.splits)

lemma decision_reasons_empty: "decision_reasons m r = [] \<longleftrightarrow>
    pred_option (qualified_view m) (cdr_agent_market_view r) \<and>
    pred_option (\<lambda>s. list_all (qualified_invocation m) (dcyc_invocations (sdr_decision_cycle s))) (cdr_shadow_record r)"
  by (auto simp: decision_reasons_def view_reasons_empty invocation_reasons_empty list_all_iff split: option.splits)

lemma sort_remdups_empty: "sort (remdups xs) = [] \<longleftrightarrow> xs = []"
proof -
  have "set (sort (remdups xs)) = set xs" by simp
  then show ?thesis by (metis set_empty)
qed

lemma dependency_reasons_empty: "evidence_dependency_reasons sha d m = [] \<longleftrightarrow> same_generation sha d m"
  unfolding evidence_dependency_reasons_def Let_def sort_remdups_empty same_generation_def
  by (simp add: dict_of_set decision_reasons_empty list_ex_iff) blast

lemma foldl_min_greater: "(t :: 'a :: linorder) < foldl min a xs \<longleftrightarrow> (\<forall>x \<in> set (a # xs). t < x)"
  by (induction xs arbitrary: a) auto

lemma before_expiry: "t < earliest_expiry m \<longleftrightarrow> t < star_expires_at (qdm_symbol_timestamp_acceptance m) \<and>
    (\<forall>a \<in> set (qdm_assignments m). qra_provider a \<noteq> model_provider.FAKE \<longrightarrow>
       pred_option (\<lambda>u. t < u) (qra_acceptance_valid_until a))"
  unfolding earliest_expiry_def expiry_candidates_def list.sel foldl_min_greater
  by (auto simp: set_map_filter pred_option_def split: if_splits)

lemma assessed_state_valid:
  "fst (assessed_state sha run d m t reasons contaminated) = qualification_evidence_validity.VALID \<longleftrightarrow>
     \<not> contaminated \<and> reasons = [] \<and> same_generation sha d m \<and> current_dependencies sha run m t"
proof (cases "contaminated \<or> reasons \<noteq> [] \<or> \<not> same_generation sha d m")
  case True
  then show ?thesis by (auto simp: assessed_state_def dependency_reasons_empty Let_def)
next
  case False
  then have "\<not> contaminated" "reasons = []" "evidence_dependency_reasons sha d m = []" "same_generation sha d m"
    by (simp_all add: dependency_reasons_empty)
  then show ?thesis
    by (auto simp: assessed_state_def current_dependencies_def before_expiry [symmetric] Let_def not_le)
qed

lemma assess_validity_Inr:
  assumes "assess_validity sha run d m t reasons contaminated = Inr v"
  shows "verify_sealed_evidence sha d = Inr ()" "qr_evidence_dataset_id run = qed_dataset_id d"
    "qed_sealed_content_digest d = Some (qr_evidence_dataset_digest run)"
    "qr_qualification_run_id run = qed_qualification_run_id d" "qva_qualification_run_id v = qr_qualification_run_id run"
    "qva_state v = fst (assessed_state sha run d m t reasons contaminated)" "qva_assessed_at v = t"
    "ok_qualification_validity_assessment v"
proof -
  obtain st rs where st: "assessed_state sha run d m t reasons contaminated = (st, rs)" by fastforce
  obtain refs where verified: "verify_sealed_evidence sha d = Inr ()"
    and same: "\<not> (qr_evidence_dataset_id run \<noteq> qed_dataset_id d \<or>
         Some (qr_evidence_dataset_digest run) \<noteq> qed_sealed_content_digest d \<or>
         qr_qualification_run_id run \<noteq> qed_qualification_run_id d)"
    and v: "build ''QualificationValidityAssessment'' ok_qualification_validity_assessment
       \<lparr>qva_schema_version = ''1.0.0'',
        qva_assessment_id = deterministic_id sha ''qualification-validity'' (PDict
          [(''run_id'', PStr (qr_qualification_run_id run)),
           (''dataset_digest'', dump_option PStr (qed_sealed_content_digest d)),
           (''manifest_digest'', PStr (dependency_manifest_digest sha m)),
           (''state'', PStr (value_qualification_evidence_validity st)),
           (''assessed_at'', PTime t), (''reasons'', PList (map PStr rs))]),
        qva_qualification_run_id = qr_qualification_run_id run, qva_evidence_dataset_id = qed_dataset_id d,
        qva_evidence_dataset_digest = the (qed_sealed_content_digest d),
        qva_dependency_manifest_digest = dependency_manifest_digest sha m,
        qva_state = st, qva_assessed_at = t,
        qva_valid_until = (if st \<in> {qualification_evidence_validity.VALID, qualification_evidence_validity.EXPIRED}
          then Some (earliest_expiry m) else None),
        qva_reasons = rs, qva_evidence = refs\<rparr> = Inr v"
    using assms unfolding assess_validity_def st Let_def prod.case bind_result_Inr_iff
    by (fastforce simp: guard_simps split: if_splits)
  show "verify_sealed_evidence sha d = Inr ()" by (rule verified)
  show "qr_evidence_dataset_id run = qed_dataset_id d" "qed_sealed_content_digest d = Some (qr_evidence_dataset_digest run)"
    "qr_qualification_run_id run = qed_qualification_run_id d"
    using same by simp_all
  from v show "ok_qualification_validity_assessment v" "qva_qualification_run_id v = qr_qualification_run_id run"
    "qva_state v = fst (assessed_state sha run d m t reasons contaminated)" "qva_assessed_at v = t"
    unfolding build_Inr by (simp_all add: st)
qed

text \<open>
  A reassessment that returns has stored a status of the run, and the
  status says eligible exactly when the graduation was, and the sealed evidence is intact, of the run, not
  contaminated or invalidated, from the qualified generation, and its dependencies are current and not expired.
\<close>

theorem current_eligibility_exact:
  "case reassess_current sha ops run d evaluation m t reasons contaminated s of
     (Inl e, s') \<Rightarrow> True
   | (Inr (v, x), s') \<Rightarrow>
       cqs_qualification_run_id x = qr_qualification_run_id run \<and> cqs_validity_assessment x = v \<and>
       qed_sealed_content_digest d = Some (evidence_content_digest sha d) \<and>
       qr_evidence_dataset_digest run = evidence_content_digest sha d \<and>
       (cqs_currently_eligible_for_demo_review x \<longleftrightarrow>
          sge_disposition evaluation = graduation_disposition.ELIGIBLE_FOR_DEMO_REVIEW \<and>
          \<not> contaminated \<and> reasons = [] \<and> same_generation sha d m \<and> current_dependencies sha run m t)"
proof (cases "reassess_current sha ops run d evaluation m t reasons contaminated s")
  case (Pair r s')
  show ?thesis
  proof (cases r)
    case (Inr vx)
    obtain v x where vx: "vx = (v, x)" by fastforce
    with Pair Inr have v: "assess_validity sha run d m t reasons contaminated = Inr v"
      and x: "current_qualification_status evaluation v t = Inr x"
      by (auto simp: reassess_current_def bind_op_Inr op_simps)
    note v' = assess_validity_Inr [OF v]
    from x have "cqs_validity_assessment x = v" "cqs_qualification_run_id x = qva_qualification_run_id v"
      "cqs_currently_eligible_for_demo_review x \<longleftrightarrow>
         sge_disposition evaluation = graduation_disposition.ELIGIBLE_FOR_DEMO_REVIEW \<and>
         qva_state v = qualification_evidence_validity.VALID"
      by (auto simp: current_qualification_status_def result_simps split: if_splits)
    moreover have "qed_sealed_content_digest d = Some (evidence_content_digest sha d)"
      using v'(1) by (simp add: verify_Inr)
    ultimately show ?thesis using v'(3,5,6) assessed_state_valid [of sha run d m t reasons contaminated] by (simp add: Pair Inr vx)
  qed (simp add: Pair)
qed

end
