(* ===== verification/QualificationStoreTheorems.thy ===== *)
theory QualificationStoreTheorems
  imports QualificationTheorems
begin

text \<open>
  What the qualification repositories promise: the revisions of a dataset form one history, and an
  evaluation is recorded with its evidence, validity and status or not at all, in memory and in the file,
  as long as a finalization is not repeated. Repeating one is the exception at the end.
\<close>

section \<open>Histories of evidence\<close>

definition history :: "sha \<Rightarrow> qualification_evidence_dataset list \<Rightarrow> bool" where
  "history sha ds \<longleftrightarrow> (\<forall>n < length ds. run_guards (revision_guards sha (take n ds) (ds ! n)) = Inr ())"

lemma history_empty [simp]: "history sha []"
  by (simp add: history_def)

lemma history_snoc: "history sha (ds @ [d]) \<longleftrightarrow> history sha ds \<and> run_guards (revision_guards sha ds d) = Inr ()"
  by (auto simp: history_def less_Suc_eq nth_append)

lemma history_butlast: "history sha ds \<Longrightarrow> history sha (butlast ds)"
  by (cases ds rule: rev_cases) (simp_all add: history_snoc)

text \<open>The stages of a dataset, and how far a revision is from its predecessor.\<close>

definition stage_of :: "qualification_evidence_dataset \<Rightarrow> nat" where
  "stage_of d = (case qed_lifecycle d of qualification_evidence_lifecycle.OPEN \<Rightarrow> 0
     | qualification_evidence_lifecycle.SEALED \<Rightarrow> 1 | qualification_evidence_lifecycle.EVALUATED \<Rightarrow> 2)"

definition follows :: "sha \<Rightarrow> qualification_evidence_dataset \<Rightarrow> qualification_evidence_dataset \<Rightarrow> bool" where
  "follows sha p d \<longleftrightarrow> qed_revision d = qed_revision p + 1 \<and>
     qed_previous_revision_digest d = Some (dataset_digest_of sha p) \<and>
     (stage_of p = 0 \<and> stage_of d \<le> 1 \<or> stage_of p = 1 \<and> stage_of d = 2 \<and>
       qed_sealed_content_digest d = qed_sealed_content_digest p \<and>
       evidence_content_digest sha d = evidence_content_digest sha p)"

lemma revision_accepted: "run_guards (revision_guards sha ds d) = Inr () \<longleftrightarrow>
    (if ds = [] then qed_revision d = 1 \<and> qed_previous_revision_digest d = None \<and> stage_of d = 0
     else follows sha (last ds) d)"
  by (cases "qed_lifecycle (last ds)"; cases "qed_lifecycle d")
    (auto simp: revision_guards_def follows_def stage_of_def guard_simps Let_def)

lemma history_step:
  assumes "history sha ds" "Suc n < length ds"
  shows "follows sha (ds ! n) (ds ! Suc n)"
proof -
  have "take (Suc n) ds \<noteq> []" using assms(2) by auto
  with assms show ?thesis
    unfolding history_def revision_accepted by (auto simp: last_conv_nth min_def)
qed

lemma history_first: "history sha ds \<Longrightarrow> ds \<noteq> [] \<Longrightarrow> qed_revision (ds ! 0) = 1 \<and> stage_of (ds ! 0) = 0"
  unfolding history_def revision_accepted by (drule spec [of _ 0]) simp

text \<open>
  The revisions are numbered from one, each names the digest of its predecessor, the stages never go back,
  and the content of sealed evidence does not change.
\<close>

lemma history_numbered:
  assumes "history sha ds" "n < length ds"
  shows "qed_revision (ds ! n) = int n + 1"
  using assms(2)
proof (induction n)
  case 0
  then show ?case using history_first [OF assms(1)] by auto
next
  case (Suc n)
  with history_step [OF assms(1), of n] show ?case by (simp add: follows_def)
qed

lemma history_frozen:
  assumes h: "history sha ds" and "m \<le> n" "n < length ds"
  shows "stage_of (ds ! m) \<le> stage_of (ds ! n) \<and>
    (stage_of (ds ! m) \<noteq> 0 \<longrightarrow> evidence_content_digest sha (ds ! n) = evidence_content_digest sha (ds ! m) \<and>
       qed_sealed_content_digest (ds ! n) = qed_sealed_content_digest (ds ! m))"
  using assms(2,3)
proof (induction n)
  case (Suc n)
  show ?case
  proof (cases "m = Suc n")
    case False
    with Suc have "m \<le> n" "n < length ds" by simp_all
    note IH = Suc.IH [OF this]
    from history_step [OF h Suc.prems(2)] show ?thesis
      unfolding follows_def using IH by auto
  qed simp
qed simp

section \<open>Well-formed repositories\<close>

definition timed :: "('a \<Rightarrow> string) \<Rightarrow> ('a \<Rightarrow> instant) \<Rightarrow> ('a \<Rightarrow> bool) \<Rightarrow> (string \<Rightarrow> 'a list) \<Rightarrow> bool" where
  "timed key at' ok f \<longleftrightarrow> (\<forall>k. sorted (map at' (f k)) \<and> (\<forall>x \<in> set (f k). key x = k \<and> ok x))"

definition qualification_ok :: "sha \<Rightarrow> qualification_memory \<Rightarrow> bool" where
  "qualification_ok sha m \<longleftrightarrow>
     (\<forall>k. history sha (qst_evidence m k) \<and>
        (\<forall>d \<in> set (qst_evidence m k). qed_dataset_id d = k \<and> ok_qualification_evidence_dataset sha d)) \<and>
     keyed qr_qualification_run_id ok_qualification_run (qst_runs m) \<and>
     timed qva_qualification_run_id qva_assessed_at ok_qualification_validity_assessment (qst_validity m) \<and>
     keyed sge_evaluation_id ok_shadow_graduation_evaluation (qst_evaluations m) \<and>
     qst_evaluation_by_run m = map (\<lambda>(k, e). (sge_qualification_run_id e, k)) (qst_evaluations m) \<and>
     distinct (map fst (qst_evaluation_by_run m)) \<and>
     timed cqs_qualification_run_id cqs_assessed_at ok_current_qualification_status (qst_statuses m)"

lemma empty_qualification_ok: "qualification_ok sha empty_qualification"
  by (simp add: qualification_ok_def empty_qualification_def timed_def)

lemma timed_push:
  assumes "timed key at' ok f" "key x = k" "ok x" "f k = [] \<or> at' (last (f k)) \<le> at' x"
  shows "timed key at' ok (push k x f)"
proof -
  have "sorted (map at' (f k))" using assms(1) by (simp add: timed_def)
  with assms(4) have "sorted (map at' (f k @ [x]))"
    by (cases "f k" rule: rev_cases) (auto simp: sorted_append intro: order.trans)
  then show ?thesis using assms(1-3) by (auto simp: timed_def push_def)
qed

lemma pop_push [simp]: "pop_last k (push k x f) = f" "pop_if_last k x (push k x f) = f"
  by (simp_all add: pop_last_def pop_if_last_def push_def)

section \<open>In memory\<close>

text \<open>Each append adds one record, or raises and changes nothing; its undo takes the record back.\<close>

lemma append_evidence_step:
  "qs_append_evidence sha d s = (Inl e, t) \<Longrightarrow> t = s \<and> e \<noteq> ProcessExit"
  "qs_append_evidence sha d s = (Inr x, t) \<Longrightarrow> t = s\<lparr>qst_evidence := push (qed_dataset_id d) d (qst_evidence s)\<rparr> \<and>
     run_guards (revision_guards sha (qst_evidence s (qed_dataset_id d)) d) = Inr ()"
proof -
  have "run_guards (revision_guards sha ds d) = Inl e \<Longrightarrow> e \<noteq> ProcessExit" for ds e
    by (cases "qed_lifecycle (last ds)") (auto simp: revision_guards_def guard_simps Let_def split: if_splits)
  then show "qs_append_evidence sha d s = (Inl e, t) \<Longrightarrow> t = s \<and> e \<noteq> ProcessExit"
    by (auto simp: qs_append_evidence_def split: sum.splits)
qed (auto simp: qs_append_evidence_def split: sum.splits)

lemma append_validity_step:
  "qs_append_validity v s = (Inl e, t) \<Longrightarrow> t = s \<and> e \<noteq> ProcessExit"
  "qs_append_validity v s = (Inr x, t) \<Longrightarrow> t = s\<lparr>qst_validity := push (qva_qualification_run_id v) v (qst_validity s)\<rparr> \<and>
     (qst_validity s (qva_qualification_run_id v) = [] \<or>
      qva_assessed_at (last (qst_validity s (qva_qualification_run_id v))) \<le> qva_assessed_at v)"
  by (auto simp: qs_append_validity_def Let_def split: if_splits)

lemma append_status_step:
  "qs_append_status v s = (Inl e, t) \<Longrightarrow> t = s \<and> e \<noteq> ProcessExit"
  "qs_append_status v s = (Inr x, t) \<Longrightarrow> t = s\<lparr>qst_statuses := push (cqs_qualification_run_id v) v (qst_statuses s)\<rparr> \<and>
     (qst_statuses s (cqs_qualification_run_id v) = [] \<or>
      cqs_assessed_at (last (qst_statuses s (cqs_qualification_run_id v))) \<le> cqs_assessed_at v)"
  by (auto simp: qs_append_status_def Let_def split: if_splits)

lemma append_run_step:
  "qs_append_run r s = (Inl e, t) \<Longrightarrow> t = s \<and> e \<noteq> ProcessExit"
  "qs_append_run r s = (Inr x, t) \<Longrightarrow> t = s\<lparr>qst_runs := AList.update (qr_qualification_run_id r) r (qst_runs s)\<rparr> \<and>
     map_of (qst_runs s) (qr_qualification_run_id r) = None"
  by (auto simp: qs_append_run_def split: if_splits)

lemma append_evaluation_step:
  "qs_append_evaluation g s = (Inl e, t) \<Longrightarrow> t = s \<and> e \<noteq> ProcessExit \<and>
     (map_of (qst_evaluations s) (sge_evaluation_id g) \<noteq> None \<or>
      map_of (qst_evaluation_by_run s) (sge_qualification_run_id g) \<noteq> None)"
  "qs_append_evaluation g s = (Inr x, t) \<Longrightarrow> t = s\<lparr>qst_evaluations := AList.update (sge_evaluation_id g) g (qst_evaluations s),
      qst_evaluation_by_run := AList.update (sge_qualification_run_id g) (sge_evaluation_id g) (qst_evaluation_by_run s)\<rparr> \<and>
     map_of (qst_evaluations s) (sge_evaluation_id g) = None \<and>
     map_of (qst_evaluation_by_run s) (sge_qualification_run_id g) = None"
  by (auto simp: qs_append_evaluation_def split: if_splits)

lemma append_ok:
  assumes "qualification_ok sha s"
  shows "ok_qualification_evidence_dataset sha d \<Longrightarrow> qs_append_evidence sha d s = (Inr x, t) \<Longrightarrow> qualification_ok sha t"
    "ok_qualification_run r \<Longrightarrow> qs_append_run r s = (Inr x, t) \<Longrightarrow> qualification_ok sha t"
    "ok_qualification_validity_assessment v \<Longrightarrow> qs_append_validity v s = (Inr x, t) \<Longrightarrow> qualification_ok sha t"
    "ok_shadow_graduation_evaluation g \<Longrightarrow> qs_append_evaluation g s = (Inr x, t) \<Longrightarrow> qualification_ok sha t"
    "ok_current_qualification_status y \<Longrightarrow> qs_append_status y s = (Inr x, t) \<Longrightarrow> qualification_ok sha t"
proof -
  show "ok_qualification_evidence_dataset sha d \<Longrightarrow> qs_append_evidence sha d s = (Inr x, t) \<Longrightarrow> qualification_ok sha t"
    using assms by (auto simp: qualification_ok_def push_def history_snoc dest!: append_evidence_step(2) split: if_splits)
  show "ok_qualification_run r \<Longrightarrow> qs_append_run r s = (Inr x, t) \<Longrightarrow> qualification_ok sha t"
    using assms by (auto simp: qualification_ok_def dest!: append_run_step(2) intro!: keyed_update)
  show "ok_qualification_validity_assessment v \<Longrightarrow> qs_append_validity v s = (Inr x, t) \<Longrightarrow> qualification_ok sha t"
    using assms by (auto simp: qualification_ok_def dest!: append_validity_step(2) intro!: timed_push)
  show "ok_current_qualification_status y \<Longrightarrow> qs_append_status y s = (Inr x, t) \<Longrightarrow> qualification_ok sha t"
    using assms by (auto simp: qualification_ok_def dest!: append_status_step(2) intro!: timed_push)
  assume g: "ok_shadow_graduation_evaluation g" and run: "qs_append_evaluation g s = (Inr x, t)"
  from append_evaluation_step(2) [OF run]
  have t: "t = s\<lparr>qst_evaluations := AList.update (sge_evaluation_id g) g (qst_evaluations s),
      qst_evaluation_by_run := AList.update (sge_qualification_run_id g) (sge_evaluation_id g) (qst_evaluation_by_run s)\<rparr>"
    and new: "map_of (qst_evaluations s) (sge_evaluation_id g) = None"
      "map_of (qst_evaluation_by_run s) (sge_qualification_run_id g) = None" by simp_all
  have s: "keyed sge_evaluation_id ok_shadow_graduation_evaluation (qst_evaluations s)"
    "qst_evaluation_by_run s = map (\<lambda>(k, e). (sge_qualification_run_id e, k)) (qst_evaluations s)"
    "distinct (map fst (qst_evaluation_by_run s))"
    using assms unfolding qualification_ok_def by blast+
  have "keyed sge_evaluation_id ok_shadow_graduation_evaluation (qst_evaluations t)"
    using keyed_update [OF s(1) refl g] by (simp add: t)
  moreover have "qst_evaluation_by_run t = map (\<lambda>(k, e). (sge_qualification_run_id e, k)) (qst_evaluations t)"
    using dict_update_fresh [OF new(1)] dict_update_fresh [OF new(2)] s(2) by (simp add: t)
  moreover have "distinct (map fst (qst_evaluation_by_run t))"
    using distinct_dict_update [OF s(3)] by (simp add: t)
  ultimately show "qualification_ok sha t" using assms by (simp add: qualification_ok_def t)
qed

subsection \<open>A finalization\<close>

text \<open>
  It has not been made before: the evaluation and the run are new, and the dataset and the status are not
  the last ones already.
\<close>

definition fresh_finalize :: "qualification_evidence_dataset \<Rightarrow> shadow_graduation_evaluation \<Rightarrow>
    current_qualification_status \<Rightarrow> qualification_memory \<Rightarrow> bool" where
  "fresh_finalize d g x s \<longleftrightarrow> map_of (qst_evaluations s) (sge_evaluation_id g) = None \<and>
     map_of (qst_evaluation_by_run s) (sge_qualification_run_id g) = None \<and>
     d \<notin> set (qst_evidence s (qed_dataset_id d)) \<and> x \<notin> set (qst_statuses s (cqs_qualification_run_id x))"

lemma pop_if_last_other: "x \<notin> set (f k) \<Longrightarrow> pop_if_last k x f = f"
  by (auto simp: pop_if_last_def dest: last_in_set)

text \<open>The state that the four appends make.\<close>

definition recorded :: "qualification_evidence_dataset \<Rightarrow> qualification_validity_assessment \<Rightarrow>
    shadow_graduation_evaluation \<Rightarrow> current_qualification_status \<Rightarrow> qualification_memory \<Rightarrow> qualification_memory" where
  "recorded d v g x s = s\<lparr>qst_validity := push (qva_qualification_run_id v) v (qst_validity s),
     qst_evaluations := AList.update (sge_evaluation_id g) g (qst_evaluations s),
     qst_evaluation_by_run := AList.update (sge_qualification_run_id g) (sge_evaluation_id g) (qst_evaluation_by_run s),
     qst_evidence := push (qed_dataset_id d) d (qst_evidence s),
     qst_statuses := push (cqs_qualification_run_id x) x (qst_statuses s)\<rparr>"

lemma undo_recorded:
  assumes "fresh_finalize d g x s"
  shows "undo_finalize_file d v g x (recorded d v g x s) = s"
    "undo_finalize d v g ((recorded d v g x s)\<lparr>qst_statuses := qst_statuses s\<rparr>) = s"
    "undo_finalize d v g ((recorded d v g x s)\<lparr>qst_statuses := qst_statuses s, qst_evidence := qst_evidence s\<rparr>) = s"
    "undo_finalize_file d v g x ((recorded d v g x s)\<lparr>qst_statuses := qst_statuses s\<rparr>) = s"
    "undo_finalize_file d v g x ((recorded d v g x s)\<lparr>qst_statuses := qst_statuses s, qst_evidence := qst_evidence s\<rparr>) = s"
  using assms
  by (simp_all add: undo_finalize_file_def undo_finalize_def recorded_def fresh_finalize_def dict_delete_update pop_if_last_other)

lemma append_results_step:
  assumes v: "qs_append_validity v s = (Inr (), u)" and run: "append_results sha d g x u = (r, w)"
    and fresh: "fresh_finalize d g x s"
  shows "case r of
     Inl e \<Rightarrow> e \<noteq> ProcessExit \<and> undo_finalize d v g w = s \<and> undo_finalize_file d v g x w = s
   | Inr _ \<Rightarrow> w = recorded d v g x s"
proof -
  from append_validity_step(2) [OF v]
  have u: "u = s\<lparr>qst_validity := push (qva_qualification_run_id v) v (qst_validity s)\<rparr>" by simp
  obtain p a where a: "qs_append_evaluation g u = (p, a)" by fastforce
  have "\<forall>e. p \<noteq> Inl e"
    using append_evaluation_step(1) [of g u _ a] a fresh by (auto simp: u fresh_finalize_def)
  then have p: "p = Inr ()" by (cases p) simp_all
  from append_evaluation_step(2) [OF a [unfolded p]]
  have a': "a = (recorded d v g x s)\<lparr>qst_statuses := qst_statuses s, qst_evidence := qst_evidence s\<rparr>"
    by (simp add: u recorded_def)
  obtain q b where b: "qs_append_evidence sha d a = (q, b)" by fastforce
  show ?thesis
  proof (cases q)
    case (Inl e)
    with append_evidence_step(1) [OF b [unfolded Inl]] run a b p have "r = Inl e" "w = a" "e \<noteq> ProcessExit"
      by (simp_all add: append_results_def bind_op_def)
    then show ?thesis using undo_recorded(3,5) [OF fresh] by (simp add: a')
  next
    case (Inr y)
    from append_evidence_step(2) [OF b [unfolded Inr]]
    have b': "b = (recorded d v g x s)\<lparr>qst_statuses := qst_statuses s\<rparr>" by (simp add: a' recorded_def)
    obtain z c where c: "qs_append_status x b = (z, c)" by fastforce
    with run a b p Inr have rw: "r = z" "w = c" by (simp_all add: append_results_def bind_op_def)
    show ?thesis
    proof (cases z)
      case (Inl e)
      with append_status_step(1) [OF c [unfolded Inl]] rw show ?thesis
        using undo_recorded(2,4) [OF fresh] by (simp add: b')
    next
      case (Inr y)
      with append_status_step(2) [OF c [unfolded Inr]] rw show ?thesis by (simp add: b' recorded_def)
    qed
  qed
qed

lemma append_results_ok:
  assumes "qualification_ok sha s" "qs_append_validity v s = (Inr (), u)" "append_results sha d g x u = (Inr y, w)"
    and "ok_qualification_validity_assessment v" "ok_shadow_graduation_evaluation g"
      "ok_qualification_evidence_dataset sha d" "ok_current_qualification_status x"
  shows "qualification_ok sha w"
proof -
  from assms(3) obtain a b where a: "qs_append_evaluation g u = (Inr (), a)" and b: "qs_append_evidence sha d a = (Inr (), b)"
    and w: "qs_append_status x b = (Inr y, w)" by (auto simp: append_results_def bind_op_Inr)
  have "qualification_ok sha u" by (rule append_ok(3) [OF assms(1,4,2)])
  from append_ok(4) [OF this assms(5) a] have "qualification_ok sha a" .
  from append_ok(1) [OF this assms(6) b] have "qualification_ok sha b" .
  from append_ok(5) [OF this assms(7) w] show ?thesis .
qed

text \<open>A finalization that is not a repetition records the four artifacts, or nothing.\<close>

lemma finalize_atomic:
  assumes fresh: "fresh_finalize d g x s" and run: "qs_finalize sha d v g x s = (r, t)"
  shows "case r of Inl e \<Rightarrow> t = s | Inr _ \<Rightarrow> t = recorded d v g x s"
proof -
  obtain p u where u: "qs_append_validity v s = (p, u)" by fastforce
  show ?thesis
  proof (cases p)
    case (Inl e)
    with append_validity_step(1) [OF u [unfolded Inl]] run u have "r = Inl e" "t = s"
      by (simp_all add: qs_finalize_def bind_op_def)
    then show ?thesis by simp
  next
    case (Inr y)
    obtain q w where w: "append_results sha d g x u = (q, w)" by fastforce
    from u Inr have u': "qs_append_validity v s = (Inr (), u)" by simp
    note step = append_results_step [OF u' w fresh]
    show ?thesis using run u w step Inr
      by (cases q) (auto simp: qs_finalize_def bind_op_def undoing_def try_op_def ret_def)
  qed
qed

text \<open>
  A second finalization of the same run with a new assessment raises, but its handler also removes what the
  first one recorded: the run no longer counts as evaluated, and another evaluation of it is accepted.
\<close>

lemma repeated_finalize_forgets:
  assumes first: "map_of (qst_evaluation_by_run s) (sge_qualification_run_id g) \<noteq> None"
    and v: "qs_append_validity v s = (Inr (), u)"
    and keys: "distinct (map fst (qst_evaluation_by_run s))"
    and run: "qs_finalize sha d v g x s = (r, t)"
    and other: "sge_qualification_run_id g' = sge_qualification_run_id g" "map_of (qst_evaluations s) (sge_evaluation_id g') = None"
  shows "\<exists>e. r = Inl e" "map_of (qst_evaluation_by_run t) (sge_qualification_run_id g) = None"
    "\<exists>t'. qs_append_evaluation g' t = (Inr (), t')"
proof -
  from append_validity_step(2) [OF v]
  have u: "u = s\<lparr>qst_validity := push (qva_qualification_run_id v) v (qst_validity s)\<rparr>" by simp
  have "\<exists>m. qs_append_evaluation g u = (Inl (ValueError m), u)"
    using first by (auto simp: qs_append_evaluation_def u)
  then obtain m where m: "append_results sha d g x u = (Inl (ValueError m), u)"
    by (auto simp: append_results_def bind_op_def)
  with run v have t: "r = Inl (ValueError m)" "t = undo_finalize d v g u"
    by (simp_all add: qs_finalize_def bind_op_def undoing_def try_op_def)
  then show "\<exists>e. r = Inl e" by blast
  show gone: "map_of (qst_evaluation_by_run t) (sge_qualification_run_id g) = None"
    by (simp add: t(2) undo_finalize_def u map_of_eq_None_iff AList.delete_keys)
  have "map_of (qst_evaluations t) (sge_evaluation_id g') = None"
    using other(2) by (simp add: t(2) undo_finalize_def u AList.delete_conv')
  with gone other(1) show "\<exists>t'. qs_append_evaluation g' t = (Inr (), t')"
    by (simp add: qs_append_evaluation_def)
qed

end
