(* ===== verification/ReplayStore.thy ===== *)
theory ReplayStore
  imports EvaluationSchemas Effects
begin

text \<open>
  \<open>storage/replay.py\<close>: the append-only stores of replay artefacts, in memory and on SQLite. A row of
  the SQLite table is a record, the driver's other failures are the flag \<open>fault\<close> of a call.
\<close>

section \<open>Records\<close>

datatype (plugins only: code) replay_record =
    RConfiguration replay_configuration
  | RFrame replay_frame
  | RDecision frozen_replay_decision
  | ROutcome trade_outcome
  | RSummary performance_summary

primrec dump_replay_record :: "replay_record \<Rightarrow> pyval" where
  "dump_replay_record (RConfiguration c) = dump_replay_configuration c"
| "dump_replay_record (RFrame f) = dump_replay_frame f"
| "dump_replay_record (RDecision d) = dump_frozen_replay_decision d"
| "dump_replay_record (ROutcome x) = dump_trade_outcome x"
| "dump_replay_record (RSummary s) = dump_performance_summary s"

primrec record_version :: "replay_record \<Rightarrow> string" where
  "record_version (RConfiguration c) = rc_schema_version c"
| "record_version (RFrame f) = rf_schema_version f"
| "record_version (RDecision d) = frd_schema_version d"
| "record_version (ROutcome x) = to_schema_version x"
| "record_version (RSummary s) = ps_schema_version s"

definition canonical_replay_bytes :: "pyval \<Rightarrow> string" where
  "canonical_replay_bytes v = canonical_json_bytes (canonical_value v)"

type_synonym replay_key = "string \<times> string \<times> string"

text \<open>What the five append operations hand to \<open>_append\<close>: identities, kind and record.\<close>

record replay_append =
  ra_replay_id :: string
  ra_partition_id :: string
  ra_record_id :: string
  ra_kind :: string
  ra_record :: replay_record

definition append_configuration :: "string \<Rightarrow> string \<Rightarrow> replay_configuration \<Rightarrow> replay_append" where
  "append_configuration rid pid c = \<lparr>ra_replay_id = rid, ra_partition_id = pid, ra_record_id = rid,
     ra_kind = ''CONFIGURATION'', ra_record = RConfiguration c\<rparr>"

definition append_frame :: "replay_frame \<Rightarrow> replay_append" where
  "append_frame f = \<lparr>ra_replay_id = rf_replay_id f, ra_partition_id = rf_partition_id f,
     ra_record_id = rf_frame_id f, ra_kind = ''FRAME'', ra_record = RFrame f\<rparr>"

definition append_decision :: "string \<Rightarrow> frozen_replay_decision \<Rightarrow> replay_append" where
  "append_decision pid d = \<lparr>ra_replay_id = frd_replay_id d, ra_partition_id = pid,
     ra_record_id = frd_frozen_decision_id d, ra_kind = ''DECISION'', ra_record = RDecision d\<rparr>"

definition append_outcome :: "trade_outcome \<Rightarrow> replay_append" where
  "append_outcome x = \<lparr>ra_replay_id = to_replay_id x, ra_partition_id = to_partition_id x,
     ra_record_id = to_outcome_id x, ra_kind = ''OUTCOME'', ra_record = ROutcome x\<rparr>"

definition append_summary :: "performance_summary \<Rightarrow> replay_append" where
  "append_summary s = \<lparr>ra_replay_id = ps_replay_id s, ra_partition_id = ps_partition_id s,
     ra_record_id = ps_summary_id s, ra_kind = ''SUMMARY'', ra_record = RSummary s\<rparr>"

definition ra_key :: "replay_append \<Rightarrow> replay_key" where
  "ra_key a = (ra_replay_id a, ra_partition_id a, ra_record_id a)"

definition ra_entry :: "replay_append \<Rightarrow> string \<times> string" where
  "ra_entry a = (ra_kind a, canonical_replay_bytes (dump_replay_record (ra_record a)))"

definition duplicate_record :: py_exception where
  "duplicate_record = ReplayError replay_error_category.DUPLICATE_REPLAY_RECORD
     ''replay record identity already exists''"

section \<open>The store in memory\<close>

record replay_memory =
  rm_records :: "(replay_key \<times> (string \<times> string)) list"
  rm_identities :: "string list"

definition empty_memory :: replay_memory where
  "empty_memory = \<lparr>rm_records = [], rm_identities = []\<rparr>"

definition rm_append :: "replay_append \<Rightarrow> (replay_memory, unit) op" where
  "rm_append a s =
     (if ra_record_id a \<in> set (rm_identities s) then (Inl duplicate_record, s)
      else (Inr (), s\<lparr>rm_records := AList.update (ra_key a) (ra_entry a) (rm_records s),
        rm_identities := ra_record_id a # rm_identities s\<rparr>))"

definition rm_get :: "replay_memory \<Rightarrow> replay_key \<Rightarrow> (string \<times> string) option" where
  "rm_get s k = map_of (rm_records s) k"

section \<open>The store on SQLite\<close>

record replay_row =
  rr_record_id :: string
  rr_record_kind :: string
  rr_replay_id :: string
  rr_partition_id :: string
  rr_schema_version :: string
  rr_record_digest :: string
  rr_record_json :: string

definition rs_append :: "sha \<Rightarrow> bool \<Rightarrow> replay_append \<Rightarrow> (replay_row list, unit) op" where
  "rs_append sha fault a rows =
     (let row = \<lparr>rr_record_id = ra_record_id a, rr_record_kind = ra_kind a, rr_replay_id = ra_replay_id a,
        rr_partition_id = ra_partition_id a, rr_schema_version = record_version (ra_record a),
        rr_record_digest = content_digest sha (dump_replay_record (ra_record a)),
        rr_record_json = canonical_replay_bytes (dump_replay_record (ra_record a))\<rparr>
      in if fault then (Inl (StorageError ''sqlite''), rows)
         else if list_ex (\<lambda>r. rr_record_id r = ra_record_id a) rows then (Inl duplicate_record, rows)
         else (Inr (), rows @ [row]))"

definition rs_get :: "replay_row list \<Rightarrow> replay_key \<Rightarrow> (string \<times> string) option" where
  "rs_get rows k = map_option (\<lambda>r. (rr_record_kind r, rr_record_json r))
     (find (\<lambda>r. (rr_replay_id r, rr_partition_id r, rr_record_id r) = k) rows)"

section \<open>Append-only stores\<close>

text \<open>
  The contract: appending a known identity raises and changes nothing; appending a new one makes
  exactly its key readable, with its entry.
\<close>

locale append_only_store =
  fixes append :: "replay_append \<Rightarrow> ('s, unit) op"
    and get :: "'s \<Rightarrow> replay_key \<Rightarrow> (string \<times> string) option"
    and known :: "'s \<Rightarrow> string \<Rightarrow> bool"
    and good :: "'s \<Rightarrow> bool"
    and start :: 's
  assumes start_good: "good start"
    and start_empty: "\<not> known start i" "get start k = None"
    and append_known: "good s \<Longrightarrow> known s (ra_record_id a) \<Longrightarrow> append a s = (Inl duplicate_record, s)"
    and append_new: "good s \<Longrightarrow> \<not> known s (ra_record_id a) \<Longrightarrow> \<exists>s'. append a s = (Inr (), s') \<and> good s' \<and>
        (\<forall>i. known s' i \<longleftrightarrow> i = ra_record_id a \<or> known s i) \<and>
        (\<forall>k. get s' k = (if k = ra_key a then Some (ra_entry a) else get s k))"
    and get_known: "good s \<Longrightarrow> get s (r, p, i) \<noteq> None \<Longrightarrow> known s i"

definition append_all :: "(replay_append \<Rightarrow> ('s, unit) op) \<Rightarrow> replay_append list \<Rightarrow> 's \<Rightarrow> 's" where
  "append_all f as s = foldl (\<lambda>t a. snd (f a t)) s as"

text \<open>What a reader of a key should see after the appends \<open>as\<close>: the first use of an identity counts.\<close>

definition first_write :: "replay_append list \<Rightarrow> replay_key \<Rightarrow> (string \<times> string) option" where
  "first_write as k = (case find (\<lambda>a. ra_record_id a = snd (snd k)) as of
       None \<Rightarrow> None
     | Some a \<Rightarrow> if ra_key a = k then Some (ra_entry a) else None)"

lemma append_all_simps [simp]:
  "append_all f [] s = s" "append_all f (a # as) s = append_all f as (snd (f a s))"
  by (simp_all add: append_all_def)

context append_only_store
begin

lemma get_unknown: "good s \<Longrightarrow> \<not> known s i \<Longrightarrow> get s (r, p, i) = None"
  using get_known by blast

lemma append_all_good: "good s \<Longrightarrow> good (append_all append as s)"
proof (induction as arbitrary: s)
  case (Cons a as)
  have "good (snd (append a s))"
    using append_known [OF Cons.prems, of a] append_new [OF Cons.prems, of a] Cons.prems
    by (cases "known s (ra_record_id a)") auto
  with Cons.IH show ?case by simp
qed simp

lemma get_after:
  assumes "good s"
  shows "get (append_all append as s) k = (if known s (snd (snd k)) then get s k else first_write as k)"
  using assms
proof (induction as arbitrary: s)
  case Nil
  obtain r p i where k: "k = (r, p, i)" by (cases k)
  with get_known [OF Nil, of r p i] show ?case by (cases "get s k") (auto simp: first_write_def)
next
  case (Cons a as)
  show ?case
  proof (cases "known s (ra_record_id a)")
    case True
    with append_known [OF Cons.prems True] Cons.IH [OF Cons.prems] show ?thesis
      by (auto simp: first_write_def)
  next
    case False
    with append_new [OF Cons.prems False] obtain s' where s': "append a s = (Inr (), s')" "good s'"
      "\<And>i. known s' i \<longleftrightarrow> i = ra_record_id a \<or> known s i"
      "\<And>k. get s' k = (if k = ra_key a then Some (ra_entry a) else get s k)" by blast
    obtain r p i where k: "k = (r, p, i)" by (cases k)
    show ?thesis
      using s' Cons.IH [OF s'(2)] False get_unknown [OF Cons.prems, of i r p]
      by (auto simp: first_write_def k ra_key_def)
  qed
qed

lemma first_write_wins: "get (append_all append as start) k = first_write as k"
  using get_after [OF start_good, of as k] start_empty by simp

end

text \<open>Both stores keep the contract; SQLite as long as its driver does not fail.\<close>

definition rm_good :: "replay_memory \<Rightarrow> bool" where
  "rm_good s \<longleftrightarrow> (\<forall>((r, p, i), e) \<in> set (rm_records s). i \<in> set (rm_identities s))"

lemma set_update_subset: "set (AList.update k v xs) \<subseteq> {(k, v)} \<union> set xs"
  by (induction xs) auto

interpretation memory_store: append_only_store rm_append rm_get "\<lambda>s i. i \<in> set (rm_identities s)" rm_good empty_memory
proof unfold_locales
  fix s :: replay_memory and a :: replay_append
  assume s: "rm_good s" "ra_record_id a \<notin> set (rm_identities s)"
  let ?t = "s\<lparr>rm_records := AList.update (ra_key a) (ra_entry a) (rm_records s),
        rm_identities := ra_record_id a # rm_identities s\<rparr>"
  have "set (AList.update (ra_key a) (ra_entry a) (rm_records s)) \<subseteq>
      {(ra_key a, ra_entry a)} \<union> set (rm_records s)" by (rule set_update_subset)
  then have "rm_good ?t" using s(1) unfolding rm_good_def by (auto simp: ra_key_def)
  then show "\<exists>s'. rm_append a s = (Inr (), s') \<and> rm_good s' \<and>
        (\<forall>i. (i \<in> set (rm_identities s')) = (i = ra_record_id a \<or> i \<in> set (rm_identities s))) \<and>
        (\<forall>k. rm_get s' k = (if k = ra_key a then Some (ra_entry a) else rm_get s k))"
    using s(2) by (intro exI [of _ ?t]) (simp add: rm_append_def rm_get_def update_conv')
next
  fix s :: replay_memory and r p i
  assume "rm_good s" "rm_get s (r, p, i) \<noteq> None"
  then show "i \<in> set (rm_identities s)"
    by (auto simp: rm_good_def rm_get_def dest!: map_of_SomeD)
qed (auto simp: rm_append_def rm_get_def rm_good_def empty_memory_def)

interpretation sqlite_store: append_only_store "rs_append sha False" rs_get
  "\<lambda>rows i. list_ex (\<lambda>r. rr_record_id r = i) rows" "\<lambda>rows. True" "[]"
proof unfold_locales
  fix rows :: "replay_row list" and a :: replay_append
  assume new: "\<not> list_ex (\<lambda>r. rr_record_id r = ra_record_id a) rows"
  let ?row = "\<lparr>rr_record_id = ra_record_id a, rr_record_kind = ra_kind a, rr_replay_id = ra_replay_id a,
        rr_partition_id = ra_partition_id a, rr_schema_version = record_version (ra_record a),
        rr_record_digest = content_digest sha (dump_replay_record (ra_record a)),
        rr_record_json = canonical_replay_bytes (dump_replay_record (ra_record a))\<rparr>"
  have get: "rs_get (rows @ [?row]) k = (if k = ra_key a then Some (ra_entry a) else rs_get rows k)" for k
    using new by (induction rows) (auto simp: rs_get_def ra_key_def ra_entry_def)
  show "\<exists>s'. rs_append sha False a rows = (Inr (), s') \<and> True \<and>
        (\<forall>i. list_ex (\<lambda>r. rr_record_id r = i) s' = (i = ra_record_id a \<or> list_ex (\<lambda>r. rr_record_id r = i) rows)) \<and>
        (\<forall>k. rs_get s' k = (if k = ra_key a then Some (ra_entry a) else rs_get rows k))"
    using new get by (intro exI [of _ "rows @ [?row]"]) (auto simp: rs_append_def)
next
  fix rows :: "replay_row list" and r p i
  assume "rs_get rows (r, p, i) \<noteq> None"
  then show "list_ex (\<lambda>r. rr_record_id r = i) rows"
    by (auto simp: rs_get_def list_ex_iff find_Some_iff)
qed (auto simp: rs_append_def rs_get_def)

text \<open>A call the driver fails changes nothing: only the others count.\<close>

definition append_faulty :: "sha \<Rightarrow> (bool \<times> replay_append) list \<Rightarrow> replay_row list \<Rightarrow> replay_row list" where
  "append_faulty sha fas rows = foldl (\<lambda>t (fault, a). snd (rs_append sha fault a t)) rows fas"

lemma rs_append_fault: "rs_append sha True a rows = (Inl (StorageError ''sqlite''), rows)"
  by (simp add: rs_append_def)

lemma append_faulty_effective:
  "append_faulty sha fas rows = append_all (rs_append sha False) (map snd (filter (\<lambda>fa. \<not> fst fa) fas)) rows"
proof (induction fas arbitrary: rows)
  case (Cons fa fas)
  obtain fault a where fa: "fa = (fault, a)" by (cases fa)
  have "append_faulty sha (fa # fas) rows = append_faulty sha fas (snd (rs_append sha fault a rows))"
    by (simp add: append_faulty_def fa)
  also have "\<dots> = append_all (rs_append sha False) (map snd (filter (\<lambda>fa. \<not> fst fa) (fa # fas))) rows"
    using Cons.IH by (cases fault) (simp_all add: fa rs_append_fault)
  finally show ?case .
qed (simp add: append_faulty_def)

text \<open>
  C31: after any sequence of appends a store in memory returns, for a replay, partition and
  record identity, exactly the kind and canonical bytes of the first append of that identity, if that
  was made under the same replay and partition; the SQLite store returns the same for the appends its
  driver did not fail.
\<close>

theorem replay_records_immutable:
  "rm_get (append_all rm_append as empty_memory) k = first_write as k \<and>
   rs_get (append_faulty sha fas []) k = first_write (map snd (filter (\<lambda>fa. \<not> fst fa) fas)) k"
  unfolding append_faulty_effective
  by (intro conjI memory_store.first_write_wins sqlite_store.first_write_wins)

end
