(* ===== verification/IndicatorTheorems.thy ===== *)
theory IndicatorTheorems
  imports Indicators
begin

text \<open>
  Indicators look only backwards, stay in their range, and swings are what they are said to be.
\<close>

section \<open>Rolling windows\<close>

text \<open>The shape the series share: nothing before the \<open>n\<close>-th value, then the states of a loop.\<close>

definition windowed :: "nat \<Rightarrow> ('a list \<Rightarrow> 's) \<Rightarrow> ('s \<Rightarrow> 'a \<Rightarrow> 's) \<Rightarrow> ('s \<Rightarrow> 'b) \<Rightarrow> 'a list \<Rightarrow> 'b option list" where
  "windowed n start f out xs =
     (if length xs < n then replicate (length xs) None
      else replicate (n - 1) None @ map (\<lambda>s. Some (out s)) (scan f (start (take n xs)) (drop n xs)))"

lemma scan_length [simp]: "length (scan f s xs) = Suc (length xs)"
  by (induction xs arbitrary: s) simp_all

lemma scan_take: "take (Suc k) (scan f s xs) = scan f s (take k xs)"
proof (induction xs arbitrary: k s)
  case (Cons x xs)
  then show ?case by (cases k) simp_all
qed simp

lemma windowed_length: "0 < n \<Longrightarrow> length (windowed n start f out xs) = length xs"
  by (auto simp: windowed_def)

lemma windowed_take:
  assumes "0 < n"
  shows "take k (windowed n start f out xs) = windowed n start f out (take k xs)"
proof (cases "length xs < n")
  case True
  then show ?thesis by (simp add: windowed_def min_def)
next
  case long: False
  show ?thesis
  proof (cases "k < n")
    case True
    with long assms show ?thesis by (simp add: windowed_def min_def)
  next
    case False
    then have k: "Suc k - n = Suc (k - n)" by simp
    show ?thesis using long False assms
      by (auto simp: windowed_def take_map scan_take drop_take k min_def)
  qed
qed

text \<open>
  A series is causal when it has one entry for each input and its entries on a prefix of the input
  are those on the whole.
\<close>

definition causal :: "('a list \<Rightarrow> 'b list fallible) \<Rightarrow> bool" where
  "causal f \<longleftrightarrow> (\<forall>xs s k. f xs = Inr s \<longrightarrow> length s = length xs \<and> f (take k xs) = Inr (take k s))"

lemma causalI:
  assumes "\<And>xs s. f xs = Inr s \<Longrightarrow> length s = length xs"
    and "\<And>xs s k. f xs = Inr s \<Longrightarrow> f (take k xs) = Inr (take k s)"
  shows "causal f"
  using assms by (simp add: causal_def)

lemma require_period_Inr [simp]: "require_period p = Inr u \<longleftrightarrow> 0 < p"
  by (simp add: require_period_def)

lemma ema_windowed:
  "ema_series vs p = (if p \<le> 0 then Inl (ValueError ''indicator period must be positive'')
     else Inr (windowed (nat p) (mean50 p) (ema_next (rd50 (2 / of_int (p + 1)))) rd50 vs))"
  by (auto simp: ema_series_def require_period_def windowed_def from_index_def Let_def)

lemma changes_length [simp]: "length (changes vs) = length vs - 1"
  by (simp add: changes_def)

lemma pairs_take: "map2 f (take k vs) (tl (take k vs)) = take (k - 1) (map2 f vs (tl vs))"
proof (induction vs arbitrary: k)
  case (Cons v us)
  show ?case
  proof (cases k)
    case (Suc j)
    show ?thesis
    proof (cases us)
      case us: (Cons u ws)
      show ?thesis
      proof (cases j)
        case (Suc i)
        with Cons.IH [of j] us \<open>k = Suc j\<close> show ?thesis by simp
      qed (simp add: \<open>k = Suc j\<close>)
    qed (simp add: Suc)
  qed simp
qed simp

lemma windowed_none:
  assumes "0 < n" and "k < n"
  shows "take k (windowed n start f out xs) = replicate (min k (length xs)) None"
  using assms by (auto simp: windowed_def min_def)

text \<open>RSI and ATR are windows over the moves between neighbours, after one None.\<close>

definition after_first :: "('a \<Rightarrow> 'a \<Rightarrow> 'm) \<Rightarrow> ('m list \<Rightarrow> 'b option list) \<Rightarrow> 'a list \<Rightarrow> 'b option list" where
  "after_first move w xs = (if xs = [] then [] else None # w (map2 move xs (tl xs)))"

lemma after_first_take:
  assumes "\<And>k ms. take k (w ms) = w (take k ms)"
  shows "take k (after_first move w xs) = after_first move w (take k xs)"
proof (cases k)
  case (Suc j)
  then show ?thesis
    using pairs_take [of move k xs] assms [of j "map2 move xs (tl xs)"] by (auto simp: after_first_def)
qed (simp add: after_first_def)

lemma after_first_length:
  "(\<And>ms. length (w ms) = length ms) \<Longrightarrow> length (after_first move w xs) = length xs"
  by (cases xs) (simp_all add: after_first_def)

definition price_move :: "decimal \<Rightarrow> decimal \<Rightarrow> decimal \<times> decimal" where
  "price_move a b = (max (rd50 (b - a)) 0, max (- rd50 (b - a)) 0)"

definition rsi_step :: "int \<Rightarrow> decimal \<times> decimal \<Rightarrow> decimal \<times> decimal \<Rightarrow> decimal \<times> decimal" where
  "rsi_step p = (\<lambda>(g, l) (g', l'). (wilder_next p g g', wilder_next p l l'))"

definition rsi_start :: "int \<Rightarrow> (decimal \<times> decimal) list \<Rightarrow> decimal \<times> decimal" where
  "rsi_start p ms = (mean50 p (map fst ms), mean50 p (map snd ms))"

lemma rsi_windowed:
  "rsi_series vs p = (if p \<le> 0 then Inl (ValueError ''indicator period must be positive'')
     else Inr (after_first price_move
       (windowed (nat p) (rsi_start p) (rsi_step p) (case_prod rsi_value)) vs))"
proof -
  have m: "map (\<lambda>c. (max c 0, max (- c) 0)) (changes vs) = map2 price_move vs (tl vs)"
    by (simp add: changes_def price_move_def comp_def case_prod_unfold)
  have r: "None # replicate (n - Suc 0) None = replicate n (None :: decimal option)" if "0 < n" for n
    using that by (cases n) simp_all
  show ?thesis
    using r [of "nat p"] r [of "length vs"]
    by (auto simp: rsi_series_def require_period_def Let_def m windowed_def after_first_def rsi_start_def
        rsi_step_def case_prod_unfold)
qed

lemma atr_windowed:
  "atr_series cs p = (if p \<le> 0 then Inl (ValueError ''indicator period must be positive'')
     else Inr (after_first (\<lambda>previous c. true_range c (mc_close previous))
       (windowed (nat p) (mean50 p) (wilder_next p) rd50) cs))"
proof -
  have r: "None # replicate (n - Suc 0) None = replicate n (None :: decimal option)" if "0 < n" for n
    using that by (cases n) simp_all
  show ?thesis
    using r [of "nat p"] r [of "length cs"]
    by (auto simp: atr_series_def require_period_def Let_def true_ranges_def windowed_def after_first_def
        from_index_def)
qed

lemma ema_causal: "causal (\<lambda>vs. ema_series vs p)"
  by (rule causalI) (auto simp: ema_windowed windowed_take windowed_length split: if_splits)

lemma rsi_causal: "causal (\<lambda>vs. rsi_series vs p)"
  by (rule causalI) (auto simp: rsi_windowed windowed_take windowed_length after_first_take after_first_length
      split: if_splits)

lemma atr_causal: "causal (\<lambda>cs. atr_series cs p)"
  by (rule causalI) (auto simp: atr_windowed windowed_take windowed_length after_first_take after_first_length
      split: if_splits)

text \<open>One turn of the ADX loop: the next smoothed sums, indices, average, and the entry it makes.\<close>

definition adx_turn ::
  "int \<Rightarrow> decimal \<times> decimal \<times> decimal \<Rightarrow> decimal list \<Rightarrow> decimal option \<Rightarrow> decimal \<times> decimal \<times> decimal \<Rightarrow>
     ((decimal \<times> decimal \<times> decimal) \<times> decimal list \<times> decimal option \<times> decimal option) fallible" where
  "adx_turn p s dxs current m =
     (let s' = smooth3 p s m; dx = directional_index s'; dxs' = dxs @ [dx]
      in if length dxs' = nat p then let c = mean50 p dxs' in Inr (s', dxs', Some c, Some (rd50 c))
         else if length dxs' > nat p
         then (case current of
             None \<Rightarrow> Inl (RuntimeError ''ADX smoothing state is unexpectedly unavailable'')
           | Some a \<Rightarrow> let c = wilder_next p a dx in Inr (s', dxs', Some c, Some (rd50 c)))
         else Inr (s', dxs', current, None))"

lemma adx_loop_Cons:
  "adx_loop p s dxs current (m # ms) = bind_result (adx_turn p s dxs current m)
     (\<lambda>(s', dxs', c, entry). bind_result (adx_loop p s' dxs' c ms) (\<lambda>rest. Inr (entry # rest)))"
  by (simp add: adx_turn_def Let_def split: option.split)

lemmas adx_loop_simps = adx_loop.simps(1) adx_loop_Cons

lemma adx_loop_take:
  "adx_loop p s dxs c ms = Inr out \<Longrightarrow> length out = length ms \<and> adx_loop p s dxs c (take k ms) = Inr (take k out)"
proof (induction ms arbitrary: s dxs c out k)
  case (Cons m ms)
  then obtain s' dxs' c' entry rest where t: "adx_turn p s dxs c m = Inr (s', dxs', c', entry)"
    and r: "adx_loop p s' dxs' c' ms = Inr rest" and out: "out = entry # rest"
    by (auto simp: adx_loop_simps result_simps simp del: adx_loop.simps)
  show ?case
  proof (cases k)
    case 0
    with Cons.IH [OF r] show ?thesis by (simp add: out)
  next
    case (Suc j)
    with Cons.IH [OF r, of j] t show ?thesis
      by (simp add: out adx_loop_Cons del: adx_loop.simps(2))
  qed
qed simp

lemma adx_loop_none:
  "adx_loop p s dxs c ms = Inr out \<Longrightarrow> k + length dxs < nat p \<Longrightarrow>
     take k out = replicate (min k (length out)) None"
proof (induction ms arbitrary: s dxs c out k)
  case (Cons m ms)
  then obtain s' dxs' c' entry rest where t: "adx_turn p s dxs c m = Inr (s', dxs', c', entry)"
    and r: "adx_loop p s' dxs' c' ms = Inr rest" and out: "out = entry # rest"
    by (auto simp: adx_loop_simps result_simps simp del: adx_loop.simps)
  show ?case
  proof (cases k)
    case (Suc j)
    then have "entry = None" "length dxs' = Suc (length dxs)"
      using t Cons.prems(2) by (auto simp: adx_turn_def Let_def)
    with Cons.IH [OF r, of j] Cons.prems(2) Suc show ?thesis by (simp add: out min_def)
  qed simp
qed simp

lemma directional_moves_take: "directional_moves (take k cs) = take (k - 1) (directional_moves cs)"
  unfolding directional_moves_def by (rule pairs_take)

lemma adx_series_Inr:
  assumes "adx_series cs p = Inr s" and "nat p * 2 \<le> length cs"
  obtains out where "s = replicate (nat p + 1) None @ out"
    "adx_loop p (sum3 (take (nat p) (directional_moves cs)))
       [directional_index (sum3 (take (nat p) (directional_moves cs)))] None
       (drop (nat p) (directional_moves cs)) = Inr out"
    "length out = length cs - 1 - nat p"
proof -
  obtain out where out: "adx_loop p (sum3 (take (nat p) (directional_moves cs)))
       [directional_index (sum3 (take (nat p) (directional_moves cs)))] None
       (drop (nat p) (directional_moves cs)) = Inr out" and s: "s = replicate (nat p + 1) None @ out"
    using assms by (auto simp: adx_series_def Let_def result_simps)
  have "length out = length cs - 1 - nat p"
    using adx_loop_take [OF out, of 0] by (simp add: directional_moves_def)
  with out s show ?thesis using that by blast
qed

lemma adx_short: "adx_series cs p = Inr s \<Longrightarrow> length cs < nat p * 2 \<Longrightarrow> s = replicate (length cs) None"
  by (simp add: adx_series_def result_simps)

lemma adx_length:
  assumes "adx_series cs p = Inr s"
  shows "length s = length cs"
proof (cases "length cs < nat p * 2")
  case True
  with adx_short [OF assms] show ?thesis by simp
next
  case False
  then obtain out where "s = replicate (nat p + 1) None @ out" "length out = length cs - 1 - nat p"
    using adx_series_Inr [OF assms] by (metis not_less)
  moreover have "0 < nat p" using assms by (auto simp: adx_series_def result_simps)
  ultimately show ?thesis using False by simp
qed

lemma adx_causal: "causal (\<lambda>cs. adx_series cs p)"
proof (rule causalI)
  fix cs s k
  assume run: "adx_series cs p = Inr s"
  define n where "n = nat p"
  define ms where "ms = directional_moves cs"
  from run have p: "0 < n" by (auto simp: adx_series_def result_simps n_def)
  have len: "length ms = length cs - 1" by (simp add: ms_def directional_moves_def)
  show "adx_series (take k cs) p = Inr (take k s)"
  proof (cases "length cs < n * 2 \<or> length cs \<le> k")
    case True
    then show ?thesis
    proof
      assume "length cs \<le> k"
      with run adx_length [OF run] show ?thesis by simp
    next
      assume short: "length cs < n * 2"
      have "s = replicate (length cs) None" by (rule adx_short [OF run]) (use short in \<open>simp add: n_def\<close>)
      with short p show ?thesis by (simp add: adx_series_def Let_def n_def require_period_def min_def)
    qed
  next
    case False
    then obtain out where out: "adx_loop p (sum3 (take n ms)) [directional_index (sum3 (take n ms))] None (drop n ms) = Inr out"
      and s: "s = replicate (n + 1) None @ out"
      using run by (auto simp: adx_series_def Let_def n_def ms_def result_simps)
    show ?thesis
    proof (cases "k < n * 2")
      case True
      have lo: "length out = length ms - n" using adx_loop_take [OF out, of 0] by simp
      have "take (k - (n + 1)) out = replicate (k - (n + 1)) None"
      proof (cases "k \<le> n + 1")
        case False
        have "(k - (n + 1)) + 1 < n" using False True by simp
        moreover have "k - (n + 1) \<le> length out"
          using lo len False \<open>\<not> (length cs < n * 2 \<or> length cs \<le> k)\<close> by linarith
        ultimately show ?thesis using adx_loop_none [OF out, of "k - (n + 1)"]
          by (simp add: n_def)
      qed simp
      moreover have "replicate (min k (n + 1)) (None :: decimal option) @ replicate (k - (n + 1)) None = replicate k None"
        by (simp add: replicate_add [symmetric] min_def)
      moreover have "take k s = replicate (min k (n + 1)) None @ take (k - (n + 1)) out"
        by (simp only: s take_append take_replicate length_replicate)
      ultimately have "take k s = replicate k None" by simp
      with True False p show ?thesis by (simp add: adx_series_def Let_def n_def require_period_def)
    next
      case k: False
      have "n \<le> k - 1" using k p by linarith
      then have t: "take n (take (k - 1) ms) = take n ms" "drop n (take (k - 1) ms) = take (k - (n + 1)) (drop n ms)"
        using k p by (simp_all add: min_def drop_take)
      have "adx_loop p (sum3 (take n ms)) [directional_index (sum3 (take n ms))] None (take (k - (n + 1)) (drop n ms)) =
          Inr (take (k - (n + 1)) out)"
        using adx_loop_take [OF out] by blast
      moreover have "take k s = replicate (n + 1) None @ take (k - (n + 1)) out"
      proof -
        have "min k (n + 1) = n + 1" using k p by linarith
        then show ?thesis by (simp only: s take_append take_replicate length_replicate)
      qed
      moreover have "0 < p" "\<not> length (take k cs) < n * 2" using p k False by (simp_all add: n_def)
      ultimately show ?thesis
        by (simp only: adx_series_def Let_def n_def [symmetric] directional_moves_take ms_def [symmetric]
            require_period_def t bind_result.simps if_False not_le [symmetric])
    qed
  qed
qed (rule adx_length)

section \<open>Ranges\<close>

text \<open>Adding and scaling in the context keeps to bounds that are short decimals.\<close>

lemma rd50_le_int: "x \<le> of_int m \<Longrightarrow> \<bar>m\<bar> \<le> 10 ^ 50 \<Longrightarrow> rd50 x \<le> of_int m"
  by (rule ctx50.rd_le_fixpoint) (simp_all add: fix_prec_of_int)

lemma rd50_nonneg: "0 \<le> x \<Longrightarrow> 0 \<le> rd50 x"
  by (rule ctx50.rd_nonneg)

lemma rd50_idem [simp]: "rd50 (rd50 x) = rd50 x"
  by (rule ctx50.rd_idem)

definition ranged :: "decimal \<Rightarrow> decimal \<Rightarrow> decimal \<Rightarrow> bool" where
  "ranged lo hi x \<longleftrightarrow> lo \<le> x \<and> x \<le> hi"

lemma sum50_ranged:
  assumes "\<forall>x \<in> set xs. ranged 0 100 x" and "length xs \<le> 10 ^ 40"
  shows "ranged 0 (of_nat (100 * length xs)) (sum50 xs)"
  using assms
proof (induction xs rule: rev_induct)
  case (snoc x xs)
  then have "ranged 0 (of_nat (100 * length xs)) (sum50 xs)" by simp
  then have b: "0 \<le> sum50 xs + x" "sum50 xs + x \<le> of_int (100 * int (length xs) + 100)"
    using snoc.prems(1) by (auto simp: ranged_def)
  have "\<bar>100 * int (length xs) + 100\<bar> \<le> 10 ^ 50" using snoc.prems(2) by simp
  from rd50_le_int [OF b(2) this] rd50_nonneg [OF b(1)] show ?case
    by (simp add: sum50_def ranged_def)
qed (simp add: sum50_def ranged_def)

lemma mean50_ranged:
  assumes "\<forall>x \<in> set xs. ranged 0 100 x" and "length xs = nat p" and "0 < p" and "p \<le> 10 ^ 40"
  shows "ranged 0 100 (mean50 p xs)"
proof -
  have l: "length xs \<le> 10 ^ 40" using assms(2-4) by simp
  have "sum50 xs \<le> 100 * of_int p" "0 \<le> sum50 xs"
    using sum50_ranged [OF assms(1) l] assms(2,3) by (simp_all add: ranged_def)
  then have "sum50 xs / of_int p \<le> of_int 100" "0 \<le> sum50 xs / of_int p"
    using assms(3) by (simp_all add: field_simps)
  then show ?thesis
    using rd50_le_int [of "sum50 xs / of_int p" 100] rd50_nonneg by (simp add: mean50_def ranged_def)
qed

lemma wilder_ranged:
  assumes "ranged 0 100 a" and "ranged 0 100 v" and "0 < p" and "p \<le> 10 ^ 40"
  shows "ranged 0 100 (wilder_next p a v)"
proof -
  have p: "0 \<le> (of_int (p - 1) :: rat)" using assms(3) by simp
  have "a * of_int (p - 1) \<le> 100 * of_int (p - 1)"
    using assms(1) p by (intro mult_right_mono) (simp_all add: ranged_def)
  then have "rd50 (a * of_int (p - 1)) \<le> of_int (100 * (p - 1))"
    by (intro rd50_le_int) (use assms(3,4) in simp_all)
  then have "rd50 (a * of_int (p - 1)) + v \<le> of_int (100 * p)" using assms(2) by (simp add: ranged_def)
  then have "rd50 (rd50 (a * of_int (p - 1)) + v) \<le> of_int (100 * p)"
    by (rule rd50_le_int) (use assms(3,4) in simp)
  then have "rd50 (rd50 (a * of_int (p - 1)) + v) / of_int p \<le> of_int 100"
    using assms(3) by (simp add: field_simps)
  moreover have "0 \<le> rd50 (rd50 (a * of_int (p - 1)) + v) / of_int p"
    using assms p by (intro divide_nonneg_nonneg rd50_nonneg add_nonneg_nonneg mult_nonneg_nonneg)
      (simp_all add: ranged_def)
  ultimately show ?thesis
    using rd50_le_int [of "rd50 (rd50 (a * of_int (p - 1)) + v) / of_int p" 100] rd50_nonneg
    by (simp add: wilder_next_def ranged_def)
qed

text \<open>RSI: the averages are not negative, so its value lies between 0 and 100.\<close>

lemma rsi_value_ranged:
  assumes "0 \<le> g" and "0 \<le> l"
  shows "ranged 0 100 (rsi_value g l)"
proof (cases "l = 0")
  case False
  have "0 \<le> rd50 (g / l)" using assms by (intro rd50_nonneg) simp
  then have one: "1 \<le> rd50 (1 + rd50 (g / l))"
    by (intro ctx50.rd_ge_fixpoint) simp_all
  then have q: "0 \<le> 100 / rd50 (1 + rd50 (g / l))" "100 / rd50 (1 + rd50 (g / l)) \<le> of_int 100"
    by (simp_all add: field_simps)
  then have "0 \<le> rd50 (100 / rd50 (1 + rd50 (g / l)))" "rd50 (100 / rd50 (1 + rd50 (g / l))) \<le> of_int 100"
    by (intro rd50_nonneg rd50_le_int; simp)+
  then have "0 \<le> 100 - rd50 (100 / rd50 (1 + rd50 (g / l)))"
    "100 - rd50 (100 / rd50 (1 + rd50 (g / l))) \<le> of_int 100" by simp_all
  then show ?thesis
    using False rd50_nonneg rd50_le_int [of "100 - rd50 (100 / rd50 (1 + rd50 (g / l)))" 100]
    by (simp add: rsi_value_def ranged_def)
qed (simp add: rsi_value_def ranged_def)

text \<open>The states of a loop that starts in an invariant and keeps it all have it.\<close>

lemma scan_all:
  assumes "I s" and "\<And>s x. I s \<Longrightarrow> x \<in> set xs \<Longrightarrow> I (f s x)"
  shows "\<forall>t \<in> set (scan f s xs). I t"
  using assms by (induction xs arbitrary: s) auto

lemma windowed_all:
  assumes "\<And>ys. set ys \<subseteq> set xs \<Longrightarrow> length ys = n \<Longrightarrow> I (start ys)"
    and "\<And>s x. I s \<Longrightarrow> x \<in> set xs \<Longrightarrow> I (f s x)" and "\<And>s. I s \<Longrightarrow> Q (out s)"
  shows "\<forall>v. Some v \<in> set (windowed n start f out xs) \<longrightarrow> Q v"
proof (cases "length xs < n")
  case False
  have "I (start (take n xs))" using False by (intro assms(1)) (auto dest: in_set_takeD)
  then have "\<forall>t \<in> set (scan f (start (take n xs)) (drop n xs)). I t"
    using assms(2) by (intro scan_all) (auto dest: in_set_dropD)
  with False assms(3) show ?thesis by (auto simp: windowed_def)
qed (auto simp: windowed_def)

lemma sum50_nonneg: "\<forall>x \<in> set xs. 0 \<le> x \<Longrightarrow> 0 \<le> sum50 xs"
  by (induction xs rule: rev_induct) (simp_all add: sum50_def rd50_nonneg)

lemma mean50_nonneg: "\<forall>x \<in> set xs. 0 \<le> x \<Longrightarrow> 0 < p \<Longrightarrow> 0 \<le> mean50 p xs"
  unfolding mean50_def by (intro rd50_nonneg divide_nonneg_nonneg sum50_nonneg) simp_all

lemma wilder_nonneg: "0 \<le> a \<Longrightarrow> 0 \<le> v \<Longrightarrow> 0 < p \<Longrightarrow> 0 \<le> wilder_next p a v"
  unfolding wilder_next_def by (intro rd50_nonneg divide_nonneg_nonneg add_nonneg_nonneg mult_nonneg_nonneg) simp_all

lemma rsi_ranged:
  assumes "rsi_series vs p = Inr s" and "Some v \<in> set s"
  shows "ranged 0 100 v"
proof -
  have p: "0 < p" and s: "s = after_first price_move (windowed (nat p) (rsi_start p) (rsi_step p) (case_prod rsi_value)) vs"
    using assms(1) by (auto simp: rsi_windowed split: if_splits)
  let ?ms = "map2 price_move vs (tl vs)"
  have moves: "\<forall>m \<in> set ?ms. 0 \<le> fst m \<and> 0 \<le> snd m" by (auto simp: price_move_def)
  have "\<forall>v. Some v \<in> set (windowed (nat p) (rsi_start p) (rsi_step p) (case_prod rsi_value) ?ms) \<longrightarrow> ranged 0 100 v"
  proof (rule windowed_all [where I = "\<lambda>s. 0 \<le> fst s \<and> 0 \<le> snd s"])
    fix ys
    assume "set ys \<subseteq> set ?ms"
    then have "\<forall>m \<in> set ys. 0 \<le> fst m \<and> 0 \<le> snd m" using moves by blast
    then show "0 \<le> fst (rsi_start p ys) \<and> 0 \<le> snd (rsi_start p ys)"
      using p by (auto simp: rsi_start_def intro!: mean50_nonneg)
  next
    fix s x :: "decimal \<times> decimal"
    assume "0 \<le> fst s \<and> 0 \<le> snd s" "x \<in> set ?ms"
    then show "0 \<le> fst (rsi_step p s x) \<and> 0 \<le> snd (rsi_step p s x)"
      using moves p by (auto simp: rsi_step_def case_prod_unfold intro!: wilder_nonneg)
  qed (simp add: case_prod_unfold rsi_value_ranged)
  then show ?thesis using assms(2) by (auto simp: s after_first_def split: if_splits)
qed

lemma atr_nonneg:
  assumes "atr_series cs p = Inr s" and "Some v \<in> set s"
  shows "0 \<le> v"
proof -
  let ?move = "\<lambda>previous c. true_range c (mc_close previous)"
  have p: "0 < p" and s: "s = after_first ?move (windowed (nat p) (mean50 p) (wilder_next p) rd50) cs"
    using assms(1) by (auto simp: atr_windowed split: if_splits)
  have moves: "\<forall>m \<in> set (map2 ?move cs (tl cs)). 0 \<le> m" by (auto simp: true_range_def max_def)
  have "\<forall>v. Some v \<in> set (windowed (nat p) (mean50 p) (wilder_next p) rd50 (map2 ?move cs (tl cs))) \<longrightarrow> 0 \<le> v"
  proof (rule windowed_all [where I = "\<lambda>s. 0 \<le> s"])
    fix ys
    assume "set ys \<subseteq> set (map2 ?move cs (tl cs))"
    then show "0 \<le> mean50 p ys" using moves p by (intro mean50_nonneg) auto
  next
    fix s x :: decimal
    assume "0 \<le> s" "x \<in> set (map2 ?move cs (tl cs))"
    then show "0 \<le> wilder_next p s x" using moves p by (intro wilder_nonneg) auto
  qed (rule rd50_nonneg)
  then show ?thesis using assms(2) by (auto simp: s after_first_def split: if_splits)
qed

text \<open>ADX: smoothed sums stay non-negative and rounded, so an index is a percentage.\<close>

lemma rd50_hundred: "rd50 a = a \<Longrightarrow> rd50 (100 * a) = 100 * a"
proof -
  assume a: "rd50 a = a"
  then have "representable 50 a" using representable_fix_prec [of 50 a] by simp
  then obtain m e where "a = of_int m * 10 powi e" "\<bar>m\<bar> \<le> 10 ^ 50" by (auto simp: representable_def)
  then have "100 * a = of_int m * 10 powi (e + 2)" by (simp add: power_int_add)
  then show "rd50 (100 * a) = 100 * a"
    using \<open>\<bar>m\<bar> \<le> 10 ^ 50\<close> by (intro fix_prec_exact [of _ _ m "e + 2"]) simp_all
qed

lemma directional_index_ranged:
  assumes "0 \<le> tr" and "0 \<le> pos" and "0 \<le> neg"
  shows "ranged 0 100 (directional_index (tr, pos, neg))"
proof -
  define pdi where "pdi = rd50 (rd50 (100 * pos) / tr)"
  define ndi where "ndi = rd50 (rd50 (100 * neg) / tr)"
  have nn: "0 \<le> pdi" "0 \<le> ndi"
    unfolding pdi_def ndi_def using assms by (auto intro!: rd50_nonneg divide_nonneg_nonneg)
  define a where "a = \<bar>rd50 (pdi - ndi)\<bar>"
  define d where "d = rd50 (pdi + ndi)"
  have "a = rd50 \<bar>pdi - ndi\<bar>" by (simp add: a_def ctx50.rd_abs)
  then have ad: "a \<le> d" "rd50 a = a" "0 \<le> a"
    using nn by (auto simp: d_def a_def intro!: ctx50.rd_mono)
  show ?thesis
  proof (cases "tr = 0 \<or> d = 0")
    case True
    then show ?thesis
      by (auto simp: directional_index_def Let_def pdi_def [symmetric] ndi_def [symmetric] d_def [symmetric] ranged_def)
  next
    case False
    with ad have "0 < d" by linarith
    then have q: "0 \<le> 100 * a / d" "100 * a / d \<le> of_int 100" using ad by (simp_all add: field_simps)
    have "directional_index (tr, pos, neg) = rd50 (100 * a / d)"
      using False rd50_hundred [OF ad(2)]
      by (simp add: directional_index_def Let_def pdi_def [symmetric] ndi_def [symmetric] d_def [symmetric]
          a_def [symmetric])
    then show ?thesis using rd50_nonneg [OF q(1)] rd50_le_int [OF q(2)] by (simp add: ranged_def)
  qed
qed

lemma smooth_nonneg:
  assumes "0 \<le> s" and "rd50 s = s" and "0 \<le> v" and "0 < p"
  shows "0 \<le> smooth_next p s v" "rd50 (smooth_next p s v) = smooth_next p s v"
proof -
  have "(1 :: rat) \<le> of_int p" using assms(4) by simp
  then have "s / of_int p \<le> s" using assms(1) mult_left_mono [of 1 "of_int p" s] by (simp add: divide_le_eq)
  then have "rd50 (s / of_int p) \<le> s" using ctx50.rd_mono assms(2) by metis
  then have "0 \<le> rd50 (s - rd50 (s / of_int p)) + v" using assms(3) rd50_nonneg by (simp add: add_nonneg_nonneg)
  then show "0 \<le> smooth_next p s v" unfolding smooth_next_def by (rule rd50_nonneg)
  show "rd50 (smooth_next p s v) = smooth_next p s v" by (simp add: smooth_next_def)
qed

definition smoothed_ok :: "decimal \<times> decimal \<times> decimal \<Rightarrow> bool" where
  "smoothed_ok s \<longleftrightarrow> (case s of (a, b, c) \<Rightarrow> 0 \<le> a \<and> 0 \<le> b \<and> 0 \<le> c \<and> rd50 a = a \<and> rd50 b = b \<and> rd50 c = c)"

definition move_ok :: "decimal \<times> decimal \<times> decimal \<Rightarrow> bool" where
  "move_ok m \<longleftrightarrow> (case m of (a, b, c) \<Rightarrow> 0 \<le> a \<and> 0 \<le> b \<and> 0 \<le> c)"

lemma smooth3_ok: "smoothed_ok s \<Longrightarrow> move_ok m \<Longrightarrow> 0 < p \<Longrightarrow> smoothed_ok (smooth3 p s m)"
  by (auto simp: smoothed_ok_def move_ok_def smooth3_def smooth_nonneg split: prod.splits)

lemma sum50_fixed: "rd50 (sum50 xs) = sum50 xs"
  by (induction xs rule: rev_induct) (simp_all add: sum50_def)

lemma sum3_ok: "\<forall>m \<in> set ms. move_ok m \<Longrightarrow> smoothed_ok (sum3 ms)"
  by (auto simp: smoothed_ok_def sum3_def sum50_fixed move_ok_def case_prod_unfold intro!: sum50_nonneg)

lemma adx_loop_ranged:
  "adx_loop p s dxs c ms = Inr out \<Longrightarrow> 0 < p \<Longrightarrow> p \<le> 10 ^ 40 \<Longrightarrow> smoothed_ok s \<Longrightarrow>
     \<forall>m \<in> set ms. move_ok m \<Longrightarrow> \<forall>x \<in> set dxs. ranged 0 100 x \<Longrightarrow> pred_option (ranged 0 100) c \<Longrightarrow>
     Some v \<in> set out \<Longrightarrow> ranged 0 100 v"
proof (induction ms arbitrary: s dxs c out)
  case (Cons m ms)
  from Cons.prems(1) obtain s' dxs' c' entry rest where t: "adx_turn p s dxs c m = Inr (s', dxs', c', entry)"
    and r: "adx_loop p s' dxs' c' ms = Inr rest" and out: "out = entry # rest"
    by (auto simp: adx_loop_simps result_simps simp del: adx_loop.simps)
  have s': "s' = smooth3 p s m" "dxs' = dxs @ [directional_index s']"
    using t by (auto simp: adx_turn_def Let_def split: if_splits option.splits)
  have ok: "smoothed_ok s'" unfolding s'(1) using Cons.prems by (intro smooth3_ok) simp_all
  have dx: "ranged 0 100 (directional_index s')"
    using ok directional_index_ranged by (cases s') (simp add: smoothed_ok_def)
  have all: "\<forall>x \<in> set dxs'. ranged 0 100 x" using Cons.prems(6) dx s'(2) by simp
  have both: "pred_option (ranged 0 100) c' \<and> pred_option (ranged 0 100) entry"
  proof (cases "length dxs' = nat p")
    case True
    then have "c' = Some (mean50 p dxs')" "entry = Some (rd50 (mean50 p dxs'))"
      using t s' by (auto simp: adx_turn_def Let_def)
    with mean50_ranged [OF all True Cons.prems(2,3)] show ?thesis by (simp add: mean50_def)
  next
    case False
    show ?thesis
    proof (cases "length dxs' > nat p")
      case True
      with False t s' obtain a where "c = Some a" "c' = Some (wilder_next p a (directional_index s'))"
        "entry = Some (rd50 (wilder_next p a (directional_index s')))"
        by (auto simp: adx_turn_def Let_def split: option.splits)
      with wilder_ranged [OF _ dx Cons.prems(2,3)] Cons.prems(7) show ?thesis by (simp add: wilder_next_def)
    next
      case False
      with \<open>length dxs' \<noteq> nat p\<close> t s' have "c' = c" "entry = None" by (auto simp: adx_turn_def Let_def)
      with Cons.prems(7) show ?thesis by simp
    qed
  qed
  show ?case
  proof (cases "Some v \<in> set rest")
    case True
    show ?thesis
      by (rule Cons.IH [OF r Cons.prems(2,3) ok _ all _ True]) (use Cons.prems(5) both in simp_all)
  next
    case False
    with Cons.prems(8) out have "entry = Some v" by auto
    with both show ?thesis by simp
  qed
qed simp

lemma adx_ranged:
  assumes "adx_series cs p = Inr s" and "Some v \<in> set s" and "p \<le> 10 ^ 40"
  shows "ranged 0 100 v"
proof (cases "length cs < nat p * 2")
  case True
  with adx_short [OF assms(1)] assms(2) show ?thesis by auto
next
  case False
  have p: "0 < p" using assms(1) by (auto simp: adx_series_def result_simps)
  let ?ms = "directional_moves cs" and ?s = "sum3 (take (nat p) (directional_moves cs))"
  have ms: "\<forall>m \<in> set ?ms. move_ok m"
    by (auto simp: directional_moves_def directional_move_def move_ok_def Let_def true_range_def max_def)
  from False obtain out where s: "s = replicate (nat p + 1) None @ out"
    and out: "adx_loop p ?s [directional_index ?s] None (drop (nat p) ?ms) = Inr out"
    using adx_series_Inr [OF assms(1)] by (metis not_less)
  have ok: "smoothed_ok ?s" by (rule sum3_ok) (use ms in \<open>auto dest: in_set_takeD\<close>)
  then have "ranged 0 100 (directional_index ?s)"
    using directional_index_ranged by (cases ?s) (simp add: smoothed_ok_def)
  moreover have "Some v \<in> set out" using assms(2) s by auto
  ultimately show ?thesis
    by (intro adx_loop_ranged [OF out p assms(3) ok]) (use ms in \<open>auto dest: in_set_dropD\<close>)
qed

section \<open>Where a series has values\<close>

text \<open>The entries that are there: from the one that completes \<open>required\<close> inputs on.\<close>

definition available_from :: "nat \<Rightarrow> 'b option list \<Rightarrow> bool" where
  "available_from required s \<longleftrightarrow> map (\<lambda>v. v \<noteq> None) s = map (\<lambda>i. required \<le> i + 1) [0..<length s]"

lemma available_fromI:
  assumes "s = replicate n None @ out" and "None \<notin> set out"
  shows "available_from (n + 1) s"
proof -
  have "map (\<lambda>v. v \<noteq> None) out = replicate (length out) True"
    using assms(2) by (intro nth_equalityI) (auto simp: in_set_conv_nth)
  then have "map (\<lambda>v. v \<noteq> None) s = replicate n False @ replicate (length out) True" by (simp add: assms(1))
  also have "\<dots> = map (\<lambda>i. n + 1 \<le> i + 1) [0..<n + length out]"
    by (rule nth_equalityI) (auto simp: nth_append)
  finally show ?thesis by (simp add: available_from_def assms(1))
qed

lemma available_from_short: "m < required \<Longrightarrow> available_from required (replicate m None)"
  unfolding available_from_def by (rule nth_equalityI) auto

lemma available_last:
  assumes "available_from required s" and "s \<noteq> []"
  shows "last s = None \<longleftrightarrow> length s < required"
proof -
  have "map (\<lambda>v. v \<noteq> None) s ! (length s - 1) = map (\<lambda>i. required \<le> i + 1) [0..<length s] ! (length s - 1)"
    using assms(1) by (simp add: available_from_def)
  with assms(2) show ?thesis by (auto simp: last_conv_nth)
qed

lemma windowed_available: "0 < n \<Longrightarrow> available_from n (windowed n start f out xs)"
proof (cases "length xs < n")
  case False
  assume "0 < n"
  then have "available_from (n - 1 + 1) (windowed n start f out xs)"
    using False by (intro available_fromI [of _ _ "map (\<lambda>s. Some (out s)) (scan f (start (take n xs)) (drop n xs))"])
      (auto simp: windowed_def)
  with \<open>0 < n\<close> show ?thesis by simp
qed (simp add: windowed_def available_from_short)

lemma after_first_available:
  assumes "\<And>ms. available_from n (w ms)" and "\<And>ms. length (w ms) = length ms" and "0 < n"
  shows "available_from (n + 1) (after_first move w xs)"
proof (cases "xs = []")
  case False
  let ?s = "w (map2 move xs (tl xs))"
  have "map (\<lambda>i. n + 1 \<le> i + 1) [0..<Suc (length ?s)] = False # map (\<lambda>i. n \<le> i + 1) [0..<length ?s]"
    using assms(3) by (simp add: upt_conv_Cons map_Suc_upt [symmetric] comp_def del: upt_Suc)
  with assms(1) [of "map2 move xs (tl xs)"] False show ?thesis
    by (simp add: available_from_def after_first_def del: upt_Suc)
qed (simp add: available_from_def after_first_def)

lemma adx_turn_total:
  assumes "c = None \<Longrightarrow> length dxs < nat p"
  shows "\<exists>s' dxs' c' entry. adx_turn p s dxs c m = Inr (s', dxs', c', entry) \<and>
    (c' = None \<longrightarrow> length dxs' < nat p)"
proof -
  let ?s = "smooth3 p s m"
  let ?d = "dxs @ [directional_index ?s]"
  consider "length ?d = nat p" | "length ?d < nat p" | a where "length ?d > nat p" "c = Some a"
    using assms by (cases c; cases "length ?d" "nat p" rule: linorder_cases) auto
  then show ?thesis
  proof cases
    case 1
    then have "adx_turn p s dxs c m = Inr (?s, ?d, Some (mean50 p ?d), Some (rd50 (mean50 p ?d)))"
      by (simp add: adx_turn_def Let_def)
    then show ?thesis by blast
  next
    case 2
    then have "adx_turn p s dxs c m = Inr (?s, ?d, c, None)" by (simp add: adx_turn_def Let_def)
    with 2 show ?thesis by blast
  next
    case 3
    then have "adx_turn p s dxs c m = Inr (?s, ?d, Some (wilder_next p a (directional_index ?s)),
        Some (rd50 (wilder_next p a (directional_index ?s))))" by (simp add: adx_turn_def Let_def)
    then show ?thesis by blast
  qed
qed

lemma adx_loop_total:
  assumes "c = None \<Longrightarrow> length dxs < nat p"
  shows "\<exists>out. adx_loop p s dxs c ms = Inr out"
  using assms
proof (induction ms arbitrary: s dxs c)
  case (Cons m ms)
  obtain s' dxs' c' entry where t: "adx_turn p s dxs c m = Inr (s', dxs', c', entry)"
    and n: "c' = None \<Longrightarrow> length dxs' < nat p"
    using adx_turn_total [OF Cons.prems] by blast
  from Cons.IH [OF n] obtain rest where "adx_loop p s' dxs' c' ms = Inr rest" by blast
  with t show ?case by (simp add: adx_loop_Cons del: adx_loop.simps(2))
qed simp

lemma adx_loop_some:
  "adx_loop p s dxs c ms = Inr out \<Longrightarrow> nat p \<le> Suc (length dxs) \<Longrightarrow> None \<notin> set out"
proof (induction ms arbitrary: s dxs c out)
  case (Cons m ms)
  from Cons.prems(1) obtain s' dxs' c' entry rest where t: "adx_turn p s dxs c m = Inr (s', dxs', c', entry)"
    and r: "adx_loop p s' dxs' c' ms = Inr rest" and out: "out = entry # rest"
    by (auto simp: adx_loop_simps result_simps simp del: adx_loop.simps)
  have "entry \<noteq> None" "length dxs' = Suc (length dxs)"
    using t Cons.prems(2) by (auto simp: adx_turn_def Let_def split: if_splits option.splits)
  with Cons.IH [OF r] Cons.prems(2) show ?case by (auto simp: out)
qed simp

lemma adx_loop_split:
  "adx_loop p s dxs c ms = Inr out \<Longrightarrow> length dxs + k + 1 = nat p \<Longrightarrow> k \<le> length ms \<Longrightarrow>
     \<exists>rest. out = replicate k None @ rest \<and> None \<notin> set rest"
proof (induction ms arbitrary: s dxs c out k)
  case Nil
  then show ?case by simp
next
  case (Cons m ms)
  from Cons.prems(1) obtain s' dxs' c' entry rest where t: "adx_turn p s dxs c m = Inr (s', dxs', c', entry)"
    and r: "adx_loop p s' dxs' c' ms = Inr rest" and out: "out = entry # rest"
    by (auto simp: adx_loop_simps result_simps simp del: adx_loop.simps)
  show ?case
  proof (cases k)
    case 0
    then show ?thesis using adx_loop_some [OF Cons.prems(1)] Cons.prems(2) by auto
  next
    case (Suc j)
    then have "entry = None" "length dxs' = Suc (length dxs)"
      using t Cons.prems(2) by (auto simp: adx_turn_def Let_def)
    with Cons.IH [OF r, of j] Cons.prems(2,3) Suc show ?thesis by (simp add: out)
  qed
qed

lemma adx_available:
  assumes "1 < p"
  obtains s where "adx_series cs p = Inr s" "available_from (2 * nat p) s"
proof (cases "length cs < nat p * 2")
  case True
  then have "adx_series cs p = Inr (replicate (length cs) None)"
    using assms by (simp add: adx_series_def require_period_def Let_def)
  with True available_from_short [of "length cs" "2 * nat p"] show ?thesis using that by simp
next
  case False
  let ?ms = "directional_moves cs" and ?s = "sum3 (take (nat p) (directional_moves cs))"
  obtain out where out: "adx_loop p ?s [directional_index ?s] None (drop (nat p) ?ms) = Inr out"
    using adx_loop_total [of None "[directional_index ?s]" p ?s "drop (nat p) ?ms"] assms by auto
  then have run: "adx_series cs p = Inr (replicate (nat p + 1) None @ out)"
    using False assms by (simp add: adx_series_def require_period_def Let_def)
  obtain rest where "out = replicate (nat p - 2) None @ rest" "None \<notin> set rest"
  proof -
    have "nat p - 2 \<le> length (drop (nat p) ?ms)" using False assms by (simp add: directional_moves_def)
    moreover have "length [directional_index ?s] + (nat p - 2) + 1 = nat p" using assms by simp
    ultimately show ?thesis using adx_loop_split [OF out] that by blast
  qed
  moreover have "nat p + 1 + (nat p - 2) = 2 * nat p - 1" using assms by linarith
  then have "replicate (2 * nat p - 1) None = replicate (nat p + 1) (None :: decimal option) @ replicate (nat p - 2) None"
    by (metis replicate_add)
  ultimately have "replicate (nat p + 1) None @ out = replicate (2 * nat p - 1) None @ rest" "None \<notin> set rest"
    by simp_all
  then have "available_from (2 * nat p - 1 + 1) (replicate (nat p + 1) None @ out)" by (rule available_fromI)
  then have "available_from (2 * nat p) (replicate (nat p + 1) None @ out)" using assms by simp
  with run show ?thesis by (rule that)
qed

section \<open>Swings\<close>

text \<open>Candle \<open>i\<close> lies strictly beyond every other candle from \<open>l\<close> before to \<open>r\<close> after it.\<close>

definition beyond :: "bool \<Rightarrow> decimal \<Rightarrow> decimal \<Rightarrow> bool" where
  "beyond high v x \<longleftrightarrow> (if high then x < v else v < x)"

definition strict_extreme :: "bool \<Rightarrow> mt5_candle list \<Rightarrow> nat \<Rightarrow> nat \<Rightarrow> nat \<Rightarrow> bool" where
  "strict_extreme high cs l r i \<longleftrightarrow> (\<forall>j. i \<le> j + l \<and> j \<le> i + r \<and> j \<noteq> i \<longrightarrow>
     beyond high (swing_level high (cs ! i)) (swing_level high (cs ! j)))"

lemma window_nth:
  assumes "l \<le> i" and "i + r < length cs"
  shows "set (take l (drop (i - l) cs) @ take r (drop (i + 1) cs)) =
    {cs ! j |j. i \<le> j + l \<and> j \<le> i + r \<and> j \<noteq> i}"
proof (intro set_eqI iffI)
  fix c
  assume "c \<in> set (take l (drop (i - l) cs) @ take r (drop (i + 1) cs))"
  then consider k where "k < l" "c = cs ! (i - l + k)" | k where "k < r" "c = cs ! (i + 1 + k)"
    using assms by (auto simp: in_set_conv_nth)
  then show "c \<in> {cs ! j |j. i \<le> j + l \<and> j \<le> i + r \<and> j \<noteq> i}"
  proof cases
    case 1
    then show ?thesis using assms(1) by (intro CollectI exI [of _ "i - l + k"]) auto
  next
    case 2
    then show ?thesis by (intro CollectI exI [of _ "i + 1 + k"]) auto
  qed
next
  fix c
  assume "c \<in> {cs ! j |j. i \<le> j + l \<and> j \<le> i + r \<and> j \<noteq> i}"
  then obtain j where j: "c = cs ! j" "i \<le> j + l" "j \<le> i + r" "j \<noteq> i" by blast
  show "c \<in> set (take l (drop (i - l) cs) @ take r (drop (i + 1) cs))"
  proof (cases "j < i")
    case True
    then have "c = take l (drop (i - l) cs) ! (j - (i - l))" "j - (i - l) < length (take l (drop (i - l) cs))"
      using j assms by auto
    then show ?thesis by (metis Un_iff nth_mem set_append)
  next
    case False
    then have "c = take r (drop (i + 1) cs) ! (j - (i + 1))" "j - (i + 1) < length (take r (drop (i + 1) cs))"
      using j assms by auto
    then show ?thesis by (metis Un_iff nth_mem set_append)
  qed
qed

lemma swing_at_iff:
  assumes "l \<le> i" and "i + r < length cs"
  shows "swing_at high cs l r i \<longleftrightarrow> strict_extreme high cs l r i"
proof -
  let ?w = "take l (drop (i - l) cs) @ take r (drop (i + 1) cs)"
  have "swing_at high cs l r i \<longleftrightarrow>
      (\<forall>c \<in> set ?w. beyond high (swing_level high (cs ! i)) (swing_level high c))"
    by (auto simp: swing_at_def Let_def list_all_iff beyond_def)
  also have "\<dots> \<longleftrightarrow> strict_extreme high cs l r i"
    unfolding window_nth [OF assms] strict_extreme_def by blast
  finally show ?thesis .
qed

lemma swing_search_result:
  assumes "swing_search high cs tf l r is = Inr res" and "sorted_wrt (>) is"
    and "\<forall>i \<in> set is. l \<le> i \<and> i + r < length cs"
  shows "case res of
      None \<Rightarrow> \<forall>i \<in> set is. \<not> strict_extreme high cs l r i
    | Some p \<Rightarrow> (\<exists>i \<in> set is. strict_extreme high cs l r i \<and> swing_point_at high cs tf l r i = Inr p \<and>
        (\<forall>j \<in> set is. i < j \<longrightarrow> \<not> strict_extreme high cs l r j))"
  using assms
proof (induction "is")
  case (Cons i "is")
  have at: "swing_at high cs l r i \<longleftrightarrow> strict_extreme high cs l r i" using Cons.prems(3) by (intro swing_at_iff) simp_all
  show ?case
  proof (cases "swing_at high cs l r i")
    case True
    then obtain p where "res = Some p" "swing_point_at high cs tf l r i = Inr p"
      using Cons.prems(1) by (auto simp: result_simps)
    with True at Cons.prems(2) show ?thesis by (auto intro!: bexI [of _ i])
  next
    case False
    with Cons have IH: "case res of
        None \<Rightarrow> \<forall>i \<in> set is. \<not> strict_extreme high cs l r i
      | Some p \<Rightarrow> (\<exists>i \<in> set is. strict_extreme high cs l r i \<and> swing_point_at high cs tf l r i = Inr p \<and>
          (\<forall>j \<in> set is. i < j \<longrightarrow> \<not> strict_extreme high cs l r j))" by simp
    with False at show ?thesis by (cases res) auto
  qed
qed simp

lemma swing_result:
  assumes "latest_confirmed_swing cs tf left right high = Inr res"
  shows "case res of
      None \<Rightarrow> \<forall>i. nat left \<le> i \<and> i + nat right < length cs \<longrightarrow> \<not> strict_extreme high cs (nat left) (nat right) i
    | Some p \<Rightarrow> (\<exists>i. nat left \<le> i \<and> i + nat right < length cs \<and> strict_extreme high cs (nat left) (nat right) i \<and>
        swing_point_at high cs tf (nat left) (nat right) i = Inr p \<and>
        (\<forall>j. i < j \<and> j + nat right < length cs \<longrightarrow> \<not> strict_extreme high cs (nat left) (nat right) j))"
proof (cases "length cs < nat left + nat right + 1")
  case True
  with assms have "res = None" by (auto simp: latest_confirmed_swing_def Let_def split: if_splits)
  with True show ?thesis by auto
next
  case False
  then have s: "swing_search high cs tf (nat left) (nat right) (rev [nat left..<length cs - nat right]) = Inr res"
    using assms by (auto simp: latest_confirmed_swing_def Let_def split: if_splits)
  have "sorted_wrt (>) (rev [nat left..<length cs - nat right])"
    by (simp add: sorted_wrt_rev)
  from swing_search_result [OF s this] show ?thesis
    by (cases res) (auto simp: less_diff_conv)
qed

section \<open>Properties\<close>

lemma after_fourteen: "available_from 15 (after_first move (windowed 14 start f out) xs)"
  using after_first_available [of 14 "windowed 14 start f out" move xs]
  by (simp add: windowed_available windowed_length)

text \<open>
  C24: a moving average, RSI, ATR or ADX value at a candle depends on that candle and the
  ones before it only: a series on a prefix of the history is the prefix of the series.
\<close>

theorem indicators_causal:
  "causal (\<lambda>closes. ema_series closes p) \<and> causal (\<lambda>closes. rsi_series closes p) \<and>
   causal (\<lambda>candles. atr_series candles p) \<and> causal (\<lambda>candles. adx_series candles p)"
  by (intro conjI ema_causal rsi_causal atr_causal adx_causal)

text \<open>
  C25: with the engine's period every indicator returns a series as long as its input; RSI
  and ADX values lie between 0 and 100, ATR values are not negative, and values are there exactly from
  the candle that completes the history the engine asks for.
\<close>

theorem indicators_in_range:
  "\<exists>rsi atr adx. rsi_series closes 14 = Inr rsi \<and> atr_series candles 14 = Inr atr \<and> adx_series candles 14 = Inr adx \<and>
     list_all (pred_option (ranged 0 100)) rsi \<and> list_all (pred_option (\<lambda>v. 0 \<le> v)) atr \<and>
     list_all (pred_option (ranged 0 100)) adx \<and>
     available_from 15 rsi \<and> available_from 15 atr \<and> available_from 28 adx"
proof -
  obtain rsi where rsi: "rsi_series closes 14 = Inr rsi" by (simp add: rsi_windowed)
  obtain atr where atr: "atr_series candles 14 = Inr atr" by (simp add: atr_windowed)
  obtain adx where adx: "adx_series candles 14 = Inr adx" "available_from (2 * nat 14) adx"
    by (rule adx_available [of 14 candles]) simp_all
  have "available_from 15 rsi" "available_from 15 atr"
    using rsi atr by (auto simp: rsi_windowed atr_windowed intro: after_fourteen)
  moreover have "list_all (pred_option (ranged 0 100)) rsi"
    using rsi_ranged [OF rsi] by (auto simp: list_all_iff pred_option_def)
  moreover have "list_all (pred_option (\<lambda>v. 0 \<le> v)) atr"
    using atr_nonneg [OF atr] by (auto simp: list_all_iff pred_option_def)
  moreover have "list_all (pred_option (ranged 0 100)) adx"
    using adx_ranged [OF adx(1)] by (auto simp: list_all_iff pred_option_def)
  ultimately show ?thesis using rsi atr adx by simp
qed

end
