(* ===== verification/FeatureEngineTheorems.thy ===== *)
theory FeatureEngineTheorems
  imports FeatureEngine IndicatorTheorems Samples
begin

text \<open>
  The market feature engine: only feature errors leave it, its results are valid feature sets over
  completed candles, and an indicator has a value exactly when the history is long enough.
\<close>

section \<open>Process exits\<close>

text \<open>No step of the calculation raises outside \<open>Exception\<close>.\<close>

named_theorems no_exit "calculations that cannot end the process"

definition contained :: "'a fallible \<Rightarrow> bool" where
  "contained r \<longleftrightarrow> r \<noteq> Inl ProcessExit"

lemma contained_Inr [no_exit]: "contained (Inr x)"
  by (simp add: contained_def)

lemma contained_Inl [no_exit]: "e \<noteq> ProcessExit \<Longrightarrow> contained (Inl e)"
  by (simp add: contained_def)

lemma contained_build [no_exit]: "contained (build cls ok r)"
  by (simp add: contained_def build_def)

lemma contained_bind [no_exit]:
  assumes "contained m" and "\<And>x. contained (f x)"
  shows "contained (bind_result m f)"
  using assms by (cases m) (simp_all add: contained_def)

lemma contained_if [no_exit]: "contained a \<Longrightarrow> contained b \<Longrightarrow> contained (if c then a else b)"
  by simp

lemma contained_option [no_exit]:
  "contained a \<Longrightarrow> (\<And>x. contained (f x)) \<Longrightarrow> contained (case m of None \<Rightarrow> a | Some x \<Rightarrow> f x)"
  by (cases m) simp_all

lemma contained_prod [no_exit]: "(\<And>a b. contained (f a b)) \<Longrightarrow> contained (case p of (a, b) \<Rightarrow> f a b)"
  by (cases p) simp

lemma contained_guards:
  "list_all (\<lambda>(c, e). e \<noteq> ProcessExit) gs \<Longrightarrow> contained (run_guards gs)"
  by (induction gs rule: run_guards.induct) (auto simp: contained_def)

lemma contained_candle_run [no_exit]: "contained (validate_candle_run s tf previous cs)"
  by (induction s tf previous cs rule: validate_candle_run.induct)
    (auto intro!: no_exit contained_guards)

lemma contained_candles [no_exit]: "contained (validate_candles s tf cs)"
  unfolding validate_candles_def by (intro no_exit) simp

lemma contained_revalidate [no_exit]: "contained (revalidate_snapshot s)"
  unfolding revalidate_snapshot_def by (intro no_exit) simp

lemma contained_quantize [no_exit]: "contained (quantize_feature x unit digits)"
  unfolding quantize_feature_def quantize50_def Let_def by (intro no_exit) simp

lemma contained_valid [no_exit]: "contained (valid_value x unit required available digits)"
  unfolding valid_value_def build_value_def by (intro no_exit)

lemma contained_insufficient [no_exit]: "contained (insufficient_value unit required available)"
  unfolding insufficient_value_def build_value_def by (rule no_exit)

lemma contained_unavailable [no_exit]: "contained (unavailable_value unit required available reason)"
  unfolding unavailable_value_def build_value_def by (rule no_exit)

lemma contained_series [no_exit]: "contained (series_feature x unit required available digits)"
  unfolding series_feature_def by (intro no_exit) simp

lemma contained_distance [no_exit]: "contained (distance_feature latest r digits)"
  unfolding distance_feature_def build_value_def by (intro no_exit) simp

lemma contained_swing [no_exit]: "contained (swing_feature x required available digits)"
  unfolding swing_feature_def Let_def by (intro no_exit)

lemma contained_swing_distance [no_exit]: "contained (swing_distance latest r digits)"
  unfolding swing_distance_def build_value_def by (intro no_exit) simp

lemma contained_period [no_exit]: "contained (require_period p)"
  unfolding require_period_def by (intro no_exit) simp

lemma contained_ema [no_exit]: "contained (ema_series closes p)"
  unfolding ema_series_def Let_def by (intro no_exit)

lemma contained_rsi [no_exit]: "contained (rsi_series closes p)"
  unfolding rsi_series_def Let_def by (intro no_exit)

lemma contained_atr [no_exit]: "contained (atr_series cs p)"
  unfolding atr_series_def Let_def by (intro no_exit)

lemma contained_adx_loop [no_exit]: "contained (adx_loop p s dxs current ms)"
  by (induction p s dxs current ms rule: adx_loop.induct)
    (auto simp: Let_def contained_def result_simps split: option.splits)

lemma contained_adx [no_exit]: "contained (adx_series cs p)"
  unfolding adx_series_def Let_def by (intro no_exit)

lemma contained_swing_search [no_exit]: "contained (swing_search high cs tf l r is)"
  by (induction "is") (auto simp: swing_point_at_def intro!: no_exit)

lemma contained_latest_swing [no_exit]: "contained (latest_confirmed_swing cs tf left right high)"
  unfolding latest_confirmed_swing_def Let_def by (intro no_exit) simp

lemma contained_range [no_exit]: "contained (recent_range cs lookback)"
  unfolding recent_range_def Let_def by (intro no_exit) simp

lemma contained_trend [no_exit]: "contained (trend_of closes digits)"
  unfolding trend_of_def ema_value_def by (intro no_exit)

lemma contained_geometry [no_exit]: "contained (geometry_features c count digits)"
  unfolding geometry_features_def Let_def by (intro no_exit)

lemma contained_structure [no_exit]: "contained (structure_features cfg tf cs latest digits)"
  unfolding structure_features_def latest_confirmed_swing_high_def latest_confirmed_swing_low_def Let_def
  by (intro no_exit)

lemma contained_timeframe [no_exit]: "contained (calculate_timeframe sha cfg s tf cs)"
  unfolding calculate_timeframe_def Let_def by (intro no_exit)

lemma contained_features [no_exit]: "contained (compute_features sha cfg s)"
  unfolding compute_features_def assemble_features_def by (intro no_exit)

lemma calculate_features_error:
  assumes "calculate_features sha cfg s = Inl e"
  obtains c m where "e = FeatureEngineError c m"
proof (cases "compute_features sha cfg s")
  case (Inl e')
  moreover have "e' \<noteq> ProcessExit" using contained_features [of sha cfg s] Inl by (simp add: contained_def)
  ultimately show ?thesis using assms that
    by (cases e') (auto simp: calculate_features_def as_feature_error_def)
qed (use assms in \<open>simp add: calculate_features_def as_feature_error_def\<close>)

lemma calculate_features_Inr: "calculate_features sha cfg s = Inr f \<longleftrightarrow> compute_features sha cfg s = Inr f"
  by (auto simp: calculate_features_def as_feature_error_def split: sum.split)

section \<open>Availability\<close>

definition history_status :: "nat \<Rightarrow> int \<Rightarrow> feature_availability" where
  "history_status available required =
     (if int available < required then feature_availability.INSUFFICIENT_HISTORY else feature_availability.VALID)"

lemma insufficient_status:
  "insufficient_value unit required available = Inr v \<Longrightarrow>
     dfv_status v = feature_availability.INSUFFICIENT_HISTORY \<and> ok_decimal_feature_value v"
  by (auto simp: insufficient_value_def build_value_def result_simps)

lemma valid_status:
  "valid_value x unit required available digits = Inr v \<Longrightarrow>
     dfv_status v = feature_availability.VALID \<and> ok_decimal_feature_value v"
  by (auto simp: valid_value_def build_value_def result_simps)

lemma series_status:
  "series_feature x unit required (int n) digits = Inr v \<Longrightarrow> dfv_status v = history_status n required"
  by (auto simp: series_feature_def history_status_def dest: insufficient_status valid_status
      split: if_splits option.splits)

lemma ema_status:
  "ema_value closes p digits = Inr v \<Longrightarrow> dfv_status v = history_status (length closes) p"
  by (auto simp: ema_value_def ema_required_def result_simps dest: series_status)

lemma range_status:
  assumes "recent_range cs lookback = Inr found"
    and "(case found of None \<Rightarrow> insufficient_value feature_unit.PRICE lookback (int (length cs))
           | Some (h, b) \<Rightarrow> valid_value (pick h b) feature_unit.PRICE lookback (int (length cs)) digits) = Inr v"
  shows "dfv_status v = history_status (length cs) lookback"
  using assms
  by (auto simp: recent_range_def history_status_def Let_def dest!: insufficient_status valid_status
      split: if_splits option.splits)

text \<open>The values whose availability is a matter of history alone, with the history each needs.\<close>

definition history_values :: "timeframe_feature_set \<Rightarrow> decimal_feature_value list" where
  "history_values t = [tf_ema_20 (tfs_trend t), tf_ema_50 (tfs_trend t), tf_ema_200 (tfs_trend t),
     mf_rsi_14 (tfs_momentum t), vf_atr_14 (tfs_volatility t), tsf_adx_14 (tfs_trend_strength t),
     msf_recent_range_high (tfs_market_structure t), msf_recent_range_low (tfs_market_structure t)]"

definition history_needs :: "feature_engine_settings \<Rightarrow> int list" where
  "history_needs cfg = [20, 50, 200, 15, 15, 28, fes_recent_range_lookback cfg, fes_recent_range_lookback cfg]"

lemma trend_statuses:
  "trend_of closes digits = Inr t \<Longrightarrow>
     dfv_status (tf_ema_20 t) = history_status (length closes) 20 \<and>
     dfv_status (tf_ema_50 t) = history_status (length closes) 50 \<and>
     dfv_status (tf_ema_200 t) = history_status (length closes) 200"
  by (auto simp: trend_of_def result_simps dest: ema_status)

lemma structure_statuses:
  "structure_features cfg tf cs latest digits = Inr m \<Longrightarrow>
     dfv_status (msf_recent_range_high m) = history_status (length cs) (fes_recent_range_lookback cfg) \<and>
     dfv_status (msf_recent_range_low m) = history_status (length cs) (fes_recent_range_lookback cfg)"
  unfolding structure_features_def Let_def
  by (auto simp: result_simps dest: range_status [where pick = "\<lambda>h b. h"] range_status [where pick = "\<lambda>h b. b"])

lemma timeframe_statuses:
  assumes "calculate_timeframe sha cfg s tf cs = Inr t"
  shows "tfs_timeframe t = tf \<and> tfs_source_candle_count t = int (length cs) \<and> ok_timeframe_feature_set t \<and>
    map dfv_status (history_values t) = map (history_status (length cs)) (history_needs cfg)"
  using assms unfolding calculate_timeframe_def Let_def
  by (auto simp: result_simps history_values_def history_needs_def rsi_required_def atr_required_def adx_required_def
      dest!: trend_statuses structure_statuses dest: series_status)

section \<open>Completed candles\<close>

definition candles_completed :: "market_snapshot \<Rightarrow> timeframe \<Rightarrow> mt5_candle list \<Rightarrow> bool" where
  "candles_completed s tf cs \<longleftrightarrow> cs \<noteq> [] \<and> sorted_wrt (<) (map mc_open_time cs) \<and>
     list_all (\<lambda>c. mc_symbol c = ms_symbol s \<and> mc_timeframe c = tf \<and>
       mc_open_time c + timeframe_duration tf \<le> ms_snapshot_completed_at s) cs"

lemma candle_run_sound:
  "validate_candle_run s tf previous cs = Inr u \<Longrightarrow>
     sorted_wrt (<) (map mc_open_time cs) \<and> (\<forall>p. previous = Some p \<longrightarrow> (\<forall>c \<in> set cs. p < mc_open_time c)) \<and>
     list_all (\<lambda>c. mc_symbol c = ms_symbol s \<and> mc_timeframe c = tf \<and>
       mc_open_time c + timeframe_duration tf \<le> ms_snapshot_completed_at s) cs"
proof (induction s tf previous cs rule: validate_candle_run.induct)
  case (2 s tf previous c cs)
  then have "validate_candle_run s tf (Some (mc_open_time c)) cs = Inr u"
    and "mc_symbol c = ms_symbol s" "mc_timeframe c = tf"
    "\<forall>p. previous = Some p \<longrightarrow> p < mc_open_time c"
    "mc_open_time c + timeframe_duration tf \<le> ms_snapshot_completed_at s"
    by (auto simp: bind_result_Inr_iff run_guards_ok simp del: run_guards.simps split: option.splits)
  with 2(1) show ?case by fastforce
qed simp

lemma validate_candles_sound: "validate_candles s tf cs = Inr u \<Longrightarrow> candles_completed s tf cs"
  using candle_run_sound [of s tf None cs u]
  by (auto simp: validate_candles_def candles_completed_def split: if_splits)

lemma compute_features_parts:
  assumes "compute_features sha cfg s = Inr f"
  shows "ok_market_feature_set f" "mfs_generated_at f = ms_snapshot_completed_at s"
    "list_all (\<lambda>(tf, cs). candles_completed s tf cs) (collections s)"
    "\<exists>m15 h1 h4. mfs_timeframes f = \<lparr>tfc_m15 = m15, tfc_h1 = h1, tfc_h4 = h4\<rparr> \<and>
       calculate_timeframe sha cfg s timeframe.M15 (sc_m15 (ms_candles s)) = Inr m15 \<and>
       calculate_timeframe sha cfg s timeframe.H1 (sc_h1 (ms_candles s)) = Inr h1 \<and>
       calculate_timeframe sha cfg s timeframe.H4 (sc_h4 (ms_candles s)) = Inr h4"
  using assms unfolding compute_features_def assemble_features_def revalidate_snapshot_def collections_def
  by (auto simp: result_simps dest!: validate_candles_sound split: if_splits)

section \<open>Properties\<close>

text \<open>
  C26: the engine either raises a feature error, whatever went wrong inside, or returns a
  valid feature set generated at the completion of the snapshot, in which every candle used had closed
  by then, each timeframe reports its candles, and an average, index or range is available exactly when
  there are as many candles as it needs.
\<close>

theorem features_follow_history:
  "case calculate_features sha cfg s of
     Inl e \<Rightarrow> \<exists>c m. e = FeatureEngineError c m
   | Inr f \<Rightarrow> ok_market_feature_set f \<and> mfs_generated_at f = ms_snapshot_completed_at s \<and>
       list_all (\<lambda>(tf, cs). candles_completed s tf cs) (collections s) \<and>
       list_all2 (\<lambda>t (tf, cs). tfs_timeframe t = tf \<and> tfs_source_candle_count t = int (length cs) \<and>
           map dfv_status (history_values t) = map (history_status (length cs)) (history_needs cfg))
         [tfc_m15 (mfs_timeframes f), tfc_h1 (mfs_timeframes f), tfc_h4 (mfs_timeframes f)] (collections s)"
proof (cases "calculate_features sha cfg s")
  case (Inl e)
  then show ?thesis by (auto elim: calculate_features_error)
next
  case (Inr f)
  then have run: "compute_features sha cfg s = Inr f" by (simp add: calculate_features_Inr)
  note parts = compute_features_parts [OF run]
  from parts(4) obtain m15 h1 h4 where t: "mfs_timeframes f = \<lparr>tfc_m15 = m15, tfc_h1 = h1, tfc_h4 = h4\<rparr>"
      "calculate_timeframe sha cfg s timeframe.M15 (sc_m15 (ms_candles s)) = Inr m15"
      "calculate_timeframe sha cfg s timeframe.H1 (sc_h1 (ms_candles s)) = Inr h1"
      "calculate_timeframe sha cfg s timeframe.H4 (sc_h4 (ms_candles s)) = Inr h4" by blast
  have "list_all2 (\<lambda>t (tf, cs). tfs_timeframe t = tf \<and> tfs_source_candle_count t = int (length cs) \<and>
           map dfv_status (history_values t) = map (history_status (length cs)) (history_needs cfg))
         [m15, h1, h4] (collections s)"
    using timeframe_statuses [OF t(2)] timeframe_statuses [OF t(3)] timeframe_statuses [OF t(4)]
    by (simp add: collections_def)
  with parts(1-3) t(1) Inr show ?thesis by simp
qed

text \<open>
  C27: the swing the engine reports is the latest candle, with enough candles on both
  sides, whose high (low) lies strictly beyond the highs (lows) of the confirming candles around it; it
  reports none exactly when there is no such candle.
\<close>

theorem latest_swing_is_last_extreme:
  assumes "latest_confirmed_swing cs tf left right high = Inr res"
  shows "case res of
      None \<Rightarrow> \<forall>i. nat left \<le> i \<and> i + nat right < length cs \<longrightarrow> \<not> strict_extreme high cs (nat left) (nat right) i
    | Some p \<Rightarrow> (\<exists>i. nat left \<le> i \<and> i + nat right < length cs \<and> strict_extreme high cs (nat left) (nat right) i \<and>
        sp_candle_open_at p = mc_open_time (cs ! i) \<and> sp_price p = swing_level high (cs ! i) \<and>
        sp_confirmed_at p = mc_open_time (cs ! (i + nat right)) + timeframe_duration tf \<and>
        (\<forall>j. i < j \<and> j + nat right < length cs \<longrightarrow> \<not> strict_extreme high cs (nat left) (nat right) j))"
proof (cases res)
  case None
  with swing_result [OF assms] show ?thesis by simp
next
  case (Some p)
  with swing_result [OF assms] show ?thesis
    by (fastforce simp: swing_point_at_def result_simps)
qed

definition swing_candles :: "mt5_candle list" where
  "swing_candles = map (\<lambda>(k, h). (sample_candle timeframe.M15)\<lparr>mc_open_time := t0 + seconds (900 * k), mc_high := h\<rparr>)
     [(0, 10), (1, 12), (2, 11)]"

lemma latest_swing_is_last_extreme_witness:
  "\<exists>p i. latest_confirmed_swing swing_candles timeframe.M15 1 1 True = Inr (Some p) \<and>
     strict_extreme True swing_candles (nat 1) (nat 1) i \<and> sp_price p = swing_level True (swing_candles ! i)"
proof -
  let ?p = "\<lparr>sp_price = 12, sp_candle_open_at = t0 + seconds 900, sp_confirmed_at = t0 + seconds 1800 + timeframe_duration timeframe.M15,
    sp_left_bars = 1, sp_right_bars = 1\<rparr>"
  have "latest_confirmed_swing swing_candles timeframe.M15 1 1 True = Inr (Some ?p)"
    by (simp add: latest_confirmed_swing_def swing_candles_def swing_at_def swing_level_def swing_point_at_def
        sample_candle_def build_def ok_swing_point_def fields_swing_point_def validate_swing_point_def result_simps
        is_positive_int_def seconds_def)
  from latest_swing_is_last_extreme [OF this] this show ?thesis by auto
qed

end
