(* ===== verification/ReplayTheorems.thy ===== *)
theory ReplayTheorems
  imports Outcomes FeatureEngineTheorems "HOL-Library.Multiset"
begin

text \<open>
  The decision world of a replay never sees past its cut-off, an outcome is the first touch after it,
  and the summary of a partition does not depend on the order of its outcomes.
\<close>

section \<open>No look-ahead\<close>

text \<open>What a dataset contains by the instant \<open>t\<close>; its declared digest is kept.\<close>

definition known_at :: "instant \<Rightarrow> historical_dataset \<Rightarrow> historical_dataset" where
  "known_at t d = d\<lparr>hd_candles := filter (\<lambda>c. hc_close_time c \<le> t) (hd_candles d),
     hd_snapshot_observations := filter (\<lambda>r. hso_effective_at r \<le> t) (hd_snapshot_observations d)\<rparr>"

definition known_view :: "decision_view \<Rightarrow> decision_view" where
  "known_view v = v\<lparr>dv_dataset := known_at (dv_cutoff v) (dv_dataset v)\<rparr>"

lemma known_view_simps [simp]:
  "dv_partition (known_view v) = dv_partition v" "dv_cutoff (known_view v) = dv_cutoff v"
  by (simp_all add: known_view_def)

lemma completed_candles_known: "completed_candles (known_view v) = completed_candles v"
  by (intro ext) (simp add: completed_candles_def known_view_def known_at_def conj_commute conj_left_commute
      cong: filter_cong)

lemma observations_known: "observations_as_of (known_view v) = observations_as_of v"
  by (intro ext) (simp add: observations_as_of_def known_view_def known_at_def Let_def conj_commute conj_left_commute
      cong: filter_cong)

lemma historical_snapshot_known:
  "build_historical_snapshot g (known_view v) cycle snap sy primary = build_historical_snapshot g v cycle snap sy primary"
  unfolding build_historical_snapshot_def historical_snapshot_def completed_candles_known observations_known
    known_view_simps by (rule refl)

lemma frame_of_known: "frame_of sha cfg t (known_view v) s x = frame_of sha cfg t v s x"
  unfolding frame_of_def known_view_simps by (rule refl)

lemma find_partition_known: "find_partition (known_at t d) pid = find_partition d pid"
  by (simp add: find_partition_def known_at_def)

lemma decision_view_known:
  "\<not> is_naive t \<Longrightarrow> decision_view_of (known_at (as_utc t) d) pid t = map_sum id known_view (decision_view_of d pid t)"
  by (cases "find_partition d pid")
    (auto simp: decision_view_of_def replay_utc_def find_partition_known known_view_def)

lemma bind_result_map: "bind_result (map_sum id f m) g = bind_result m (g \<circ> f)"
  by (cases m) simp_all

text \<open>
  C29: the replay frame, snapshot and features built for an instant, or the error raised
  instead, are the same when everything that closes or becomes effective after that instant is removed
  from the dataset.
\<close>

theorem replay_never_looks_ahead:
  "build_frame sha en cfg t = build_frame sha (en\<lparr>re_source := known_at (as_utc t) (re_source en)\<rparr>) cfg t"
proof (cases "is_naive t")
  case True
  then show ?thesis by (simp add: build_frame_def Let_def)
next
  case False
  have en: "re_source (en\<lparr>re_source := d\<rparr>) = d" "re_market_settings (en\<lparr>re_source := d\<rparr>) = re_market_settings en"
    "re_feature_settings (en\<lparr>re_source := d\<rparr>) = re_feature_settings en" for d by simp_all
  have "hdm_dataset_id (hd_metadata (known_at (as_utc t) (re_source en))) = hdm_dataset_id (hd_metadata (re_source en))"
    "hd_dataset_digest (known_at (as_utc t) (re_source en)) = hd_dataset_digest (re_source en)"
    by (simp_all add: known_at_def)
  then show ?thesis
    unfolding build_frame_def Let_def en decision_view_known [OF False] bind_result_map comp_def
      historical_snapshot_known frame_of_known by simp
qed

section \<open>First touch\<close>

definition untouched :: "trade_side \<Rightarrow> decimal \<Rightarrow> decimal \<Rightarrow> historical_candle \<Rightarrow> bool" where
  "untouched side stop target c \<longleftrightarrow> \<not> tp_hit side target c \<and> \<not> sl_hit side stop c"

definition touch_status :: "trade_side \<Rightarrow> decimal \<Rightarrow> decimal \<Rightarrow> historical_candle \<Rightarrow> trade_outcome_status" where
  "touch_status side stop target c =
     (if tp_hit side target c \<and> sl_hit side stop c then trade_outcome_status.AMBIGUOUS_INTRABAR
      else if tp_hit side target c then trade_outcome_status.TAKE_PROFIT_REACHED
      else if sl_hit side stop c then trade_outcome_status.STOP_LOSS_REACHED
      else trade_outcome_status.UNRESOLVED_HORIZON)"

text \<open>The candles up to and with the first that touches a level.\<close>

definition until_touch :: "trade_side \<Rightarrow> decimal \<Rightarrow> decimal \<Rightarrow> historical_candle list \<Rightarrow> historical_candle list" where
  "until_touch side stop target cs =
     takeWhile (untouched side stop target) cs @ take 1 (dropWhile (untouched side stop target) cs)"

lemma until_touch_Cons:
  "until_touch side stop target (c # cs) =
     (if untouched side stop target c then c # until_touch side stop target cs else [c])"
  by (simp add: until_touch_def)

lemma until_touch_prefix: "until_touch side stop target cs = take (length (until_touch side stop target cs)) cs"
  by (induction cs) (simp_all add: until_touch_Cons, simp add: until_touch_def)

lemma walk_is_first_touch:
  "walk side entry stop target f a n cs =
     (let w = until_touch side stop target cs
      in \<lparr>pp_favorable = fold (\<lambda>c m. max m (gain_of side entry c)) w f,
          pp_adverse = fold (\<lambda>c m. max m (pain_of side entry c)) w a,
          pp_status = (if w = [] then trade_outcome_status.UNRESOLVED_HORIZON
            else touch_status side stop target (last w)),
          pp_bars = n + length w\<rparr>)"
proof (induction cs arbitrary: f a n)
  case Nil
  show ?case by (simp add: until_touch_def)
next
  case (Cons c cs)
  show ?case
  proof (cases "untouched side stop target c")
    case True
    then have "touch_status side stop target c = trade_outcome_status.UNRESOLVED_HORIZON"
      by (simp add: untouched_def touch_status_def)
    with True Cons.IH show ?thesis by (simp add: until_touch_Cons untouched_def Let_def)
  next
    case False
    then show ?thesis by (auto simp: until_touch_Cons untouched_def touch_status_def Let_def)
  qed
qed

lemma fold_max: "fold (\<lambda>c m. max m (g c)) cs (x :: 'a :: linorder) = Max (insert x (g ` set cs))"
proof (induction cs arbitrary: x)
  case (Cons c cs)
  have "insert (max x (g c)) (g ` set cs) = insert (max x (g c)) (g ` set cs)" by simp
  have "Max (insert x (insert (g c) (g ` set cs))) = max x (Max (insert (g c) (g ` set cs)))" by (rule Max_insert) simp_all
  also have "\<dots> = Max (insert (max x (g c)) (g ` set cs))"
    by (cases "set cs = {}") (simp_all add: max.assoc)
  finally show ?case using Cons.IH [of "max x (g c)"] by simp
qed simp

text \<open>What an outcome says of the candles of its view.\<close>

definition outcome_explained :: "trade_outcome \<Rightarrow> historical_candle list \<Rightarrow> bool" where
  "outcome_explained x cs \<longleftrightarrow>
     (let side = to_side x; stop = to_stop_loss x; target = to_take_profit x;
          w = until_touch side stop target cs
      in directional side (to_entry x) stop target \<and> w \<noteq> [] \<and>
         list_all (\<lambda>c. hc_symbol c = to_symbol x \<and> hc_open_time c \<ge> to_decision_cutoff x) w \<and>
         to_bars_evaluated x = int (length w) \<and>
         to_status x = touch_status side stop target (last w) \<and>
         to_maximum_favorable_excursion x = Max (insert 0 (gain_of side (to_entry x) ` set w)) \<and>
         to_maximum_adverse_excursion x = Max (insert 0 (pain_of side (to_entry x) ` set w)) \<and>
         to_evaluation_ended_at x = hc_close_time (last w))"

lemma outcome_candles_sound:
  "check_outcome_candles fz tf previous cs = Inr u \<Longrightarrow>
     list_all (\<lambda>c. hc_symbol c = frd_symbol fz \<and> hc_open_time c \<ge> frd_decision_cutoff fz) cs"
  by (induction fz tf previous cs rule: check_outcome_candles.induct)
    (auto simp: bind_result_Inr_iff run_guards_ok simp del: run_guards.simps)

lemma frozen_levels_Inr:
  "frozen_levels p = Inr (entry, stop, target) \<Longrightarrow> directional (tp_side p) entry stop target"
  by (auto simp: frozen_levels_def split: option.splits if_splits)

lemma until_touch_subset: "set (until_touch side stop target cs) \<subseteq> set cs"
  by (metis until_touch_prefix set_take_subset)

lemma outcome_of_explained:
  assumes "outcome_of sha f fz v cfg given entry stop target = Inr x"
    and "directional (tp_side (frd_proposal fz)) entry stop target"
    and "list_all (\<lambda>c. hc_symbol c = frd_symbol fz \<and> hc_open_time c \<ge> frd_decision_cutoff fz) (ov_candles v)"
    and "frd_symbol fz = rf_symbol f"
  shows "ok_trade_outcome x \<and> outcome_explained x (ov_candles v)"
proof -
  let ?side = "tp_side (frd_proposal fz)"
  let ?w = "until_touch ?side stop target (ov_candles v)"
  let ?path = "walk ?side entry stop target 0 0 0 (ov_candles v)"
  have bars: "take (pp_bars ?path) (ov_candles v) = ?w"
    using until_touch_prefix [of ?side stop target "ov_candles v"] by (simp add: walk_is_first_touch Let_def)
  have ne: "?w \<noteq> []" and run: "settle_outcome sha f fz (ov_timeframe v) cfg given entry stop target ?path ?w = Inr x"
    using assms(1) unfolding outcome_of_def Let_def bars by (auto split: if_splits)
  have x: "ok_trade_outcome x" "to_side x = ?side" "to_entry x = entry" "to_stop_loss x = stop"
    "to_take_profit x = target" "to_symbol x = rf_symbol f" "to_decision_cutoff x = frd_decision_cutoff fz"
    "to_bars_evaluated x = int (length ?w)" "to_status x = pp_status ?path"
    "to_maximum_favorable_excursion x = pp_favorable ?path" "to_maximum_adverse_excursion x = pp_adverse ?path"
    "to_evaluation_ended_at x = hc_close_time (last ?w)"
    using run by (auto simp: settle_outcome_def Let_def bind_result_Inr_iff build_Inr)
  moreover have "list_all (\<lambda>c. hc_symbol c = frd_symbol fz \<and> hc_open_time c \<ge> frd_decision_cutoff fz) ?w"
    using assms(3) until_touch_subset by (fastforce simp: list_all_iff)
  ultimately show ?thesis
    using assms(2,4) ne
    by (simp add: outcome_explained_def Let_def walk_is_first_touch fold_max)
qed

lemma check_outcome_candles_error:
  "check_outcome_candles fz tf previous cs = Inl e \<Longrightarrow> \<exists>c m. e = ReplayError c m"
proof (induction fz tf previous cs rule: check_outcome_candles.induct)
  case (2 fz tf previous c cs)
  then show ?case by (auto simp: bind_result_Inl_iff split: if_splits)
qed simp

lemma evaluate_outcome_error:
  assumes "evaluate_outcome sha f fz v cfg given = Inl e"
  shows "(\<exists>c m. e = ReplayError c m) \<or> e = ValidationError ''TradeOutcome'' \<or>
    e = IndexError ''tuple index out of range'' \<and> ov_candles v = []"
proof -
  have "until_touch side stop target cs \<noteq> []" if "cs \<noteq> []" for side stop target cs
    using that by (cases cs) (simp_all add: until_touch_Cons)
  then have w: "take (pp_bars (walk side entry stop target 0 0 0 (ov_candles v))) (ov_candles v) = [] \<Longrightarrow> ov_candles v = []"
    for side entry stop target
    using until_touch_prefix [of side stop target "ov_candles v"] by (auto simp: walk_is_first_touch Let_def)
  consider "validate_links f fz v cfg = Inl e" | "frozen_levels (frd_proposal fz) = Inl e"
    | "check_outcome_candles fz (ov_timeframe v) None (ov_candles v) = Inl e"
    | "check_horizon fz v (rc_outcome_horizon cfg) = Inl e"
    | entry stop target where "outcome_of sha f fz v cfg given entry stop target = Inl e"
    using assms by (auto simp: evaluate_outcome_def bind_result_Inl_iff split: prod.splits)
  then show ?thesis
  proof cases
    case 5
    then show ?thesis
      using w by (auto simp: outcome_of_def settle_outcome_def Let_def bind_result_Inl_iff build_Inl segment_facts_for_def
          simp del: take_eq_Nil split: if_splits)
  qed (auto simp: validate_links_def frozen_levels_def check_horizon_def check_outcome_candles_error
      split: if_splits option.splits)
qed

section \<open>Order of outcomes\<close>

lemma sort_key_unique:
  assumes "mset xs = mset ys" and "distinct (map k xs)"
  shows "sort_key k xs = sort_key k ys"
proof (rule map_sorted_distinct_set_unique [of k])
  have s: "set xs = set ys" using assms(1) by (rule mset_eq_setD)
  have d: "distinct (map k ys)" using assms by (metis mset_map mset_eq_imp_distinct_iff)
  show "inj_on k (set (sort_key k xs) \<union> set (sort_key k ys))" using assms(2) s by (simp add: distinct_map)
  show "distinct (map k (sort_key k xs))" "distinct (map k (sort_key k ys))"
    using assms(2) d by (simp_all add: distinct_map)
  show "set (sort_key k xs) = set (sort_key k ys)" using s by simp
qed simp_all

section \<open>Properties\<close>

text \<open>
  C30: evaluating a frozen proposal raises a replay error (a validation error of the outcome,
  an index error on an empty view), or returns a valid outcome explained by the candles after the
  decision: they are followed up to and with the first that touches stop or target, the status says
  which it touched, ambiguous when both, and the excursions are the extremes over exactly those candles.
\<close>

theorem outcome_is_first_touch:
  "case evaluate_outcome sha f fz v cfg given of
     Inl e \<Rightarrow> (\<exists>c m. e = ReplayError c m) \<or> e = ValidationError ''TradeOutcome'' \<or>
       e = IndexError ''tuple index out of range'' \<and> ov_candles v = []
   | Inr x \<Rightarrow> ok_trade_outcome x \<and> outcome_explained x (ov_candles v)"
proof (cases "evaluate_outcome sha f fz v cfg given")
  case (Inl e)
  with evaluate_outcome_error [OF Inl] show ?thesis by simp
next
  case (Inr x)
  then obtain entry stop target where o: "outcome_of sha f fz v cfg given entry stop target = Inr x"
    and l: "frozen_levels (frd_proposal fz) = Inr (entry, stop, target)"
    and c: "check_outcome_candles fz (ov_timeframe v) None (ov_candles v) = Inr ()"
    and s: "frd_symbol fz = rf_symbol f"
    by (auto simp: evaluate_outcome_def bind_result_Inr_iff validate_links_def split: if_splits prod.splits)
  from outcome_of_explained [OF o frozen_levels_Inr [OF l] outcome_candles_sound [OF c] s] Inr
  show ?thesis by simp
qed

text \<open>
  C32: the performance summary of a partition, or the error raised instead, does not depend
  on the order in which its outcomes are given.
\<close>

theorem summary_order_independent:
  assumes "mset xs = mset ys"
  shows "summarize_performance sha xs = summarize_performance sha ys"
proof (cases "distinct (map to_outcome_id xs)")
  case True
  then have "chronological xs = chronological ys" unfolding chronological_def
    using sort_key_unique [OF assms True] by simp
  moreover have "xs = [] \<longleftrightarrow> ys = []" using assms by (metis mset_zero_iff)
  ultimately show ?thesis by (simp add: summarize_performance_def)
next
  case False
  have "distinct (map to_outcome_id (chronological zs)) \<longleftrightarrow> distinct (map to_outcome_id zs)" for zs
    unfolding chronological_def by (metis mset_eq_imp_distinct_iff mset_map mset_sort)
  moreover have "distinct (map to_outcome_id xs) \<longleftrightarrow> distinct (map to_outcome_id ys)"
    using assms by (metis mset_eq_imp_distinct_iff mset_map)
  moreover have "xs = [] \<longleftrightarrow> ys = []" using assms by (metis mset_zero_iff)
  ultimately show ?thesis using False by (auto simp: summarize_performance_def Let_def)
qed

lemma summary_order_independent_witness:
  "\<forall>x y. summarize_performance sample_sha [x, y] = summarize_performance sample_sha [y, x]"
proof (intro allI)
  fix x y :: trade_outcome
  have "mset [x, y] = mset [y, x]" by (simp add: add_mset_commute)
  then show "summarize_performance sample_sha [x, y] = summarize_performance sample_sha [y, x]"
    by (rule summary_order_independent)
qed

end
