(* ===== verification/BudgetLedger.thy ===== *)
theory BudgetLedger
  imports RuntimeSchemas
begin

text \<open>
  \<open>runtime/budget.py\<close> and \<open>storage/ai_budget.py\<close>: the atomic reservation ledger in memory and in
  SQLite, and the guard that reserves the conservative maximum cost before a dispatch. A ledger
  method takes the ledger and returns the reservation with the new ledger, or the exception it
  raises, which leaves the ledger as it was (the lock and the transaction make each call atomic).
  Timestamps passed as \<open>at\<close> are aware.
\<close>

section \<open>Amounts\<close>

definition charged_amount :: "budget_reservation \<Rightarrow> decimal" where
  "charged_amount r =
     (case br_settled_amount r of
        Some a \<Rightarrow> if br_state r = budget_reservation_state.SETTLED then a else br_reserved_amount r
      | None \<Rightarrow> br_reserved_amount r)"

definition total_charged :: "budget_reservation list \<Rightarrow> decimal" where
  "total_charged items = foldl (\<lambda>acc r. rd28 (acc + charged_amount r)) 0 items"

definition budget_error :: "string \<Rightarrow> py_exception" where
  "budget_error detail = RuntimeInvocationError runtime_failure_category.BUDGET_EXCEEDED detail"

section \<open>The limit checks\<close>

text \<open>
  The reservations that count against a policy, those of one day and month, and the limit checks
  given the active reservations.
\<close>

definition counts_against :: "ai_budget_policy \<Rightarrow> budget_reservation \<Rightarrow> bool" where
  "counts_against p r \<longleftrightarrow> br_state r \<noteq> budget_reservation_state.RELEASED \<and> br_policy_ref r = abp_policy_ref p"

definition same_day :: "budget_reservation \<Rightarrow> budget_reservation \<Rightarrow> bool" where
  "same_day r x \<longleftrightarrow> day_number (br_created_at x) = day_number (br_created_at r)"

definition same_month :: "budget_reservation \<Rightarrow> budget_reservation \<Rightarrow> bool" where
  "same_month r x \<longleftrightarrow> year_month (br_created_at x) = year_month (br_created_at r)"

definition limit_guards ::
  "budget_reservation list \<Rightarrow> budget_reservation \<Rightarrow> ai_budget_policy \<Rightarrow> (bool \<times> py_exception) list" where
  "limit_guards active r p =
     (let day = filter (same_day r) active;
          month = filter (same_month r) active
      in [(int (length (filter (\<lambda>x. br_cycle_id x = br_cycle_id r) active)) \<ge> abp_maximum_calls_per_cycle p,
           budget_error ''maximum calls per cycle exceeded''),
          (int (length day) \<ge> abp_maximum_calls_per_day p,
           budget_error ''maximum calls per day exceeded''),
          (rd28 (total_charged day + br_reserved_amount r) > abp_daily_budget p,
           budget_error ''daily AI budget exceeded''),
          (rd28 (total_charged month + br_reserved_amount r) > abp_monthly_budget p,
           budget_error ''monthly AI budget exceeded'')])"

text \<open>Duplicate identities, and attempts out of sequence, given the attempts already there.\<close>

definition attempt_guards :: "int set \<Rightarrow> budget_reservation \<Rightarrow> (bool \<times> py_exception) list" where
  "attempt_guards existing r =
     [(br_attempt_number r \<in> existing \<or> (br_attempt_number r = 1 \<and> existing \<noteq> {}),
       RuntimeInvocationError runtime_failure_category.DUPLICATE_INVOCATION
         ''invocation identity has already been reserved''),
      (br_attempt_number r > 1 \<and> br_attempt_number r - 1 \<notin> existing,
       RuntimeInvocationError runtime_failure_category.INVALID_REQUEST
         ''provider attempts must be reserved consecutively'')]"

section \<open>The ledger in memory\<close>

type_synonym ledger_key = "string \<times> int"
type_synonym mem_ledger = "(ledger_key, budget_reservation) dict"

definition reservation_key :: "budget_reservation \<Rightarrow> ledger_key" where
  "reservation_key r = (br_invocation_id r, br_attempt_number r)"

definition existing_attempts :: "mem_ledger \<Rightarrow> string \<Rightarrow> int set" where
  "existing_attempts l iid = {n. (iid, n) \<in> fst ` set l}"

lemma existing_attempts_code [code]:
  "existing_attempts l iid = set (map (snd \<circ> fst) (filter (\<lambda>x. fst (fst x) = iid) l))"
  by (force simp: existing_attempts_def)

definition mem_get :: "mem_ledger \<Rightarrow> string \<Rightarrow> int \<Rightarrow> budget_reservation option" where
  "mem_get l iid n = map_of l (iid, n)"

definition mem_attempts :: "mem_ledger \<Rightarrow> string \<Rightarrow> budget_reservation list" where
  "mem_attempts l iid = map snd (filter (\<lambda>x. fst (fst x) = iid) (sort_key (\<lambda>x. snd (fst x)) l))"

definition mem_reserve ::
  "mem_ledger \<Rightarrow> budget_reservation \<Rightarrow> ai_budget_policy \<Rightarrow> (budget_reservation \<times> mem_ledger) fallible" where
  "mem_reserve l r p =
     bind_result (run_guards (attempt_guards (existing_attempts l (br_invocation_id r)) r @
                              limit_guards (filter (counts_against p) (map snd l)) r p))
       (\<lambda>_. Inr (r, AList.update (reservation_key r) r l))"

definition mem_require :: "mem_ledger \<Rightarrow> string \<Rightarrow> int \<Rightarrow> budget_reservation fallible" where
  "mem_require l iid n =
     (case map_of l (iid, n) of None \<Rightarrow> Inl (KeyError ''budget reservation does not exist'')
      | Some r \<Rightarrow> Inr r)"

definition wrong_state :: "budget_reservation_state \<Rightarrow> budget_reservation_state \<Rightarrow> py_exception" where
  "wrong_state expected target = ValueError (''reservation must be '' @
     value_budget_reservation_state expected @ '' before '' @ value_budget_reservation_state target)"

definition mem_transition ::
  "mem_ledger \<Rightarrow> string \<Rightarrow> int \<Rightarrow> budget_reservation_state \<Rightarrow> budget_reservation_state \<Rightarrow> instant \<Rightarrow>
     (budget_reservation \<times> mem_ledger) fallible" where
  "mem_transition l iid n expected target t =
     bind_result (mem_require l iid n) (\<lambda>current.
       if br_state current \<noteq> expected then Inl (wrong_state expected target)
       else let updated = current\<lparr>br_state := target, br_updated_at := t\<rparr>
         in Inr (updated, AList.update (iid, n) updated l))"

definition mem_settle ::
  "mem_ledger \<Rightarrow> string \<Rightarrow> decimal \<Rightarrow> int \<Rightarrow> instant \<Rightarrow> (budget_reservation \<times> mem_ledger) fallible" where
  "mem_settle l iid amount n t =
     bind_result (mem_require l iid n) (\<lambda>current.
     bind_result (run_guards
       [(br_state current \<noteq> budget_reservation_state.DISPATCHED,
         ValueError ''only dispatched reservations may be settled''),
        (amount < 0 \<or> amount > br_reserved_amount current,
         ValueError ''settled amount must be within the reserved amount'')]) (\<lambda>_.
       let updated = current\<lparr>br_state := budget_reservation_state.SETTLED,
             br_settled_amount := Some amount, br_updated_at := t\<rparr>
       in Inr (updated, AList.update (iid, n) updated l)))"

definition mem_mark_dispatched where
  "mem_mark_dispatched l iid n t = mem_transition l iid n
     budget_reservation_state.RESERVED budget_reservation_state.DISPATCHED t"

definition mem_release where
  "mem_release l iid n t = mem_transition l iid n
     budget_reservation_state.RESERVED budget_reservation_state.RELEASED t"

definition mem_mark_uncertain where
  "mem_mark_uncertain l iid n t = mem_transition l iid n
     budget_reservation_state.DISPATCHED budget_reservation_state.UNCERTAIN t"

definition mem_release_undispatched_attempt where
  "mem_release_undispatched_attempt l iid n t = mem_transition l iid n
     budget_reservation_state.DISPATCHED budget_reservation_state.RELEASED t"

section \<open>The ledger in SQLite\<close>

text \<open>
  A row of \<open>ai_budget_attempt_reservations\<close>. The text columns for amounts and times hold the exact
  text of the value and are read back to it, so they are kept as values; the state column holds the
  name of the state. Rows are in insertion order, the order in which SQLite scans the table.
\<close>

record budget_row =
  bw_invocation_id :: string
  bw_attempt_number :: int
  bw_cycle_id :: string
  bw_policy_ref :: string
  bw_state :: string
  bw_reserved_amount :: decimal
  bw_settled_amount :: "decimal option"
  bw_currency :: string
  bw_created_at :: instant
  bw_updated_at :: instant

type_synonym sql_ledger = "budget_row list"

definition parse_budget_state :: "string \<Rightarrow> budget_reservation_state option" where
  "parse_budget_state s = find (\<lambda>x. value_budget_reservation_state x = s)
     [budget_reservation_state.RESERVED, budget_reservation_state.DISPATCHED,
      budget_reservation_state.SETTLED, budget_reservation_state.RELEASED,
      budget_reservation_state.UNCERTAIN]"

lemma parse_budget_state_value [simp]: "parse_budget_state (value_budget_reservation_state s) = Some s"
  by (cases s) (simp_all add: parse_budget_state_def)

lemmas parse_budget_state_names [simp] =
  parse_budget_state_value [of budget_reservation_state.RESERVED, simplified]
  parse_budget_state_value [of budget_reservation_state.DISPATCHED, simplified]
  parse_budget_state_value [of budget_reservation_state.SETTLED, simplified]
  parse_budget_state_value [of budget_reservation_state.RELEASED, simplified]
  parse_budget_state_value [of budget_reservation_state.UNCERTAIN, simplified]

definition row_to_model :: "budget_row \<Rightarrow> budget_reservation fallible" where
  "row_to_model w =
     (case parse_budget_state (bw_state w) of
        None \<Rightarrow> Inl (ValidationError ''BudgetReservation'')
      | Some s \<Rightarrow> build ''BudgetReservation'' fields_budget_reservation
          \<lparr>br_invocation_id = bw_invocation_id w, br_attempt_number = bw_attempt_number w,
           br_cycle_id = bw_cycle_id w, br_policy_ref = bw_policy_ref w, br_state = s,
           br_reserved_amount = bw_reserved_amount w, br_settled_amount = bw_settled_amount w,
           br_currency = bw_currency w, br_created_at = bw_created_at w, br_updated_at = bw_updated_at w\<rparr>)"

text \<open>The inserted values: the settled amount of a new row is always NULL.\<close>

definition row_of :: "budget_reservation \<Rightarrow> budget_row" where
  "row_of r = \<lparr>bw_invocation_id = br_invocation_id r, bw_attempt_number = br_attempt_number r,
     bw_cycle_id = br_cycle_id r, bw_policy_ref = br_policy_ref r,
     bw_state = value_budget_reservation_state (br_state r), bw_reserved_amount = br_reserved_amount r,
     bw_settled_amount = None, bw_currency = br_currency r, bw_created_at = br_created_at r,
     bw_updated_at = br_updated_at r\<rparr>"

definition row_is :: "string \<Rightarrow> int \<Rightarrow> budget_row \<Rightarrow> bool" where
  "row_is iid n w \<longleftrightarrow> bw_invocation_id w = iid \<and> bw_attempt_number w = n"

definition sql_get :: "sql_ledger \<Rightarrow> string \<Rightarrow> int \<Rightarrow> budget_reservation option fallible" where
  "sql_get l iid n =
     (case find (row_is iid n) l of
        None \<Rightarrow> Inr None
      | Some w \<Rightarrow> bind_result (row_to_model w) (\<lambda>r. Inr (Some r)))"

text \<open>\<open>tuple(self._to_model(row) for row in rows)\<close>\<close>

fun rows_to_models :: "budget_row list \<Rightarrow> budget_reservation list fallible" where
  "rows_to_models [] = Inr []"
| "rows_to_models (w # ws) =
     bind_result (row_to_model w) (\<lambda>r. bind_result (rows_to_models ws) (\<lambda>rs. Inr (r # rs)))"

definition sql_attempts :: "sql_ledger \<Rightarrow> string \<Rightarrow> budget_reservation list fallible" where
  "sql_attempts l iid =
     rows_to_models (sort_key bw_attempt_number (filter (\<lambda>w. bw_invocation_id w = iid) l))"

definition sql_reserve ::
  "sql_ledger \<Rightarrow> budget_reservation \<Rightarrow> ai_budget_policy \<Rightarrow> (budget_reservation \<times> sql_ledger) fallible" where
  "sql_reserve l r p =
     (let duplicate = find (\<lambda>w. bw_invocation_id w = br_invocation_id r) l;
          exact = find (row_is (br_invocation_id r) (br_attempt_number r)) l;
          previous = find (row_is (br_invocation_id r) (br_attempt_number r - 1)) l
      in bind_result (run_guards
           [(exact \<noteq> None \<or> (br_attempt_number r = 1 \<and> duplicate \<noteq> None),
             RuntimeInvocationError runtime_failure_category.DUPLICATE_INVOCATION
               ''invocation identity has already been reserved''),
            (br_attempt_number r > 1 \<and> previous = None,
             RuntimeInvocationError runtime_failure_category.INVALID_REQUEST
               ''provider attempts must be reserved consecutively'')]) (\<lambda>_.
         bind_result (rows_to_models (filter (\<lambda>w. bw_policy_ref w = abp_policy_ref p \<and>
             bw_state w \<noteq> value_budget_reservation_state budget_reservation_state.RELEASED) l)) (\<lambda>active.
         bind_result (run_guards (limit_guards active r p)) (\<lambda>_.
           Inr (r, l @ [row_of r])))))"

definition sql_require :: "sql_ledger \<Rightarrow> string \<Rightarrow> int \<Rightarrow> budget_reservation fallible" where
  "sql_require l iid n = bind_result (sql_get l iid n) (\<lambda>item.
     case item of None \<Rightarrow> Inl (KeyError ''budget reservation does not exist'') | Some r \<Rightarrow> Inr r)"

definition sql_update :: "(budget_row \<Rightarrow> budget_row) \<Rightarrow> string \<Rightarrow> int \<Rightarrow> sql_ledger \<Rightarrow> sql_ledger" where
  "sql_update f iid n l = map (\<lambda>w. if row_is iid n w then f w else w) l"

definition sql_transition ::
  "sql_ledger \<Rightarrow> string \<Rightarrow> int \<Rightarrow> budget_reservation_state \<Rightarrow> budget_reservation_state \<Rightarrow> instant \<Rightarrow>
     (budget_reservation \<times> sql_ledger) fallible" where
  "sql_transition l iid n expected target t =
     bind_result (sql_require l iid n) (\<lambda>current.
       if br_state current \<noteq> expected then Inl (wrong_state expected target)
       else let l' = sql_update (\<lambda>w. w\<lparr>bw_state := value_budget_reservation_state target,
              bw_updated_at := t\<rparr>) iid n l
         in bind_result (sql_require l' iid n) (\<lambda>r. Inr (r, l')))"

definition sql_settle ::
  "sql_ledger \<Rightarrow> string \<Rightarrow> decimal \<Rightarrow> int \<Rightarrow> instant \<Rightarrow> (budget_reservation \<times> sql_ledger) fallible" where
  "sql_settle l iid amount n t =
     bind_result (sql_require l iid n) (\<lambda>current.
     bind_result (run_guards
       [(br_state current \<noteq> budget_reservation_state.DISPATCHED,
         ValueError ''only dispatched reservations may be settled''),
        (amount < 0 \<or> amount > br_reserved_amount current,
         ValueError ''settled amount must be within the reserved amount'')]) (\<lambda>_.
       let l' = sql_update (\<lambda>w. w\<lparr>bw_state := value_budget_reservation_state budget_reservation_state.SETTLED,
              bw_settled_amount := Some amount, bw_updated_at := t\<rparr>) iid n l
       in bind_result (sql_require l' iid n) (\<lambda>r. Inr (r, l'))))"

definition sql_mark_dispatched where
  "sql_mark_dispatched l iid n t = sql_transition l iid n
     budget_reservation_state.RESERVED budget_reservation_state.DISPATCHED t"

definition sql_release where
  "sql_release l iid n t = sql_transition l iid n
     budget_reservation_state.RESERVED budget_reservation_state.RELEASED t"

definition sql_mark_uncertain where
  "sql_mark_uncertain l iid n t = sql_transition l iid n
     budget_reservation_state.DISPATCHED budget_reservation_state.UNCERTAIN t"

definition sql_release_undispatched_attempt where
  "sql_release_undispatched_attempt l iid n t = sql_transition l iid n
     budget_reservation_state.DISPATCHED budget_reservation_state.RELEASED t"

section \<open>The guard\<close>

definition estimate_maximum_cost :: "int \<Rightarrow> int \<Rightarrow> pricing_profile \<Rightarrow> decimal" where
  "estimate_maximum_cost input_tokens maximum_output_tokens pricing =
     (let input_cost = rd28 (rd28 (of_int input_tokens * pp_input_cost_per_million_tokens pricing) / 1000000);
          output_cost = rd28 (rd28 (of_int maximum_output_tokens *
                                pp_output_cost_per_million_tokens pricing) / 1000000)
      in rd28 (input_cost + output_cost))"

definition estimate_reported_cost :: "int \<Rightarrow> int \<Rightarrow> pricing_profile \<Rightarrow> decimal" where
  "estimate_reported_cost usage_input usage_output pricing =
     estimate_maximum_cost usage_input usage_output pricing"

abbreviation invalid_request :: "string \<Rightarrow> py_exception" where
  "invalid_request d \<equiv> RuntimeInvocationError runtime_failure_category.INVALID_REQUEST d"

text \<open>
  The checks before the ledger is asked, in two runs: the input estimate is read only after the
  check that it is there.
\<close>

definition guard_reservation ::
  "string \<Rightarrow> string \<Rightarrow> runtime_profile \<Rightarrow> token_estimate \<Rightarrow> ai_budget_policy \<Rightarrow> pricing_profile \<Rightarrow>
     instant \<Rightarrow> int \<Rightarrow> budget_reservation fallible" where
  "guard_reservation iid cycle runtime estimate policy pricing moment n =
     bind_result (run_guards
       [(rp_cost_policy_ref runtime \<noteq> abp_policy_ref policy,
         invalid_request ''runtime cost policy reference does not match supplied policy''),
        (rp_pricing_profile_ref runtime \<noteq> pp_profile_ref pricing \<or>
         (rp_provider runtime \<noteq> pp_provider pricing \<or>
          rp_model_identifier runtime \<noteq> pp_model_identifier pricing),
         invalid_request ''runtime provider/model does not match supplied pricing profile'')]) (\<lambda>_.
     case te_tokens estimate of
       None \<Rightarrow> Inl (budget_error ''input token estimate unavailable for conservative preflight'')
     | Some tokens \<Rightarrow>
       let estimated = estimate_maximum_cost tokens (rp_max_output_tokens runtime) pricing
       in bind_result (run_guards
         [(tokens > abp_maximum_input_tokens policy, budget_error ''maximum input tokens exceeded''),
          (rp_max_output_tokens runtime > abp_maximum_output_tokens policy,
           budget_error ''maximum output tokens exceeded''),
          (pp_currency pricing \<noteq> abp_currency policy,
           invalid_request ''pricing and budget currencies differ''),
          (moment < pp_valid_from pricing \<or>
           (case pp_valid_until pricing of None \<Rightarrow> False | Some u \<Rightarrow> moment \<ge> u),
           invalid_request ''pricing profile is not valid at invocation time''),
          (estimated > abp_maximum_estimated_cost_per_call policy,
           budget_error ''maximum estimated cost per call exceeded'')]) (\<lambda>_.
       build ''BudgetReservation'' fields_budget_reservation
         \<lparr>br_invocation_id = iid, br_attempt_number = n, br_cycle_id = cycle,
          br_policy_ref = abp_policy_ref policy, br_state = budget_reservation_state.RESERVED,
          br_reserved_amount = estimated, br_settled_amount = None,
          br_currency = abp_currency policy, br_created_at = moment, br_updated_at = moment\<rparr>))"

text \<open>The guard over a ledger whose reserving operation is given.\<close>

definition guard_reserve ::
  "('l \<Rightarrow> budget_reservation \<Rightarrow> ai_budget_policy \<Rightarrow> (budget_reservation \<times> 'l) fallible) \<Rightarrow> 'l \<Rightarrow>
     string \<Rightarrow> string \<Rightarrow> runtime_profile \<Rightarrow> token_estimate \<Rightarrow> ai_budget_policy \<Rightarrow> pricing_profile \<Rightarrow>
     instant \<Rightarrow> int \<Rightarrow> (budget_reservation \<times> 'l) fallible" where
  "guard_reserve reserve l iid cycle runtime estimate policy pricing moment n =
     bind_result (guard_reservation iid cycle runtime estimate policy pricing moment n)
       (\<lambda>r. reserve l r policy)"

section \<open>Calls on a ledger\<close>

text \<open>
  \<open>AtomicBudgetLedger\<close>: the methods a ledger offers, the calls a client makes, and what a run of
  calls leaves behind; a call that raises leaves the ledger as it was. Policies are looked up by
  their reference.
\<close>

record 'l ledger_ops =
  lo_reserve :: "'l \<Rightarrow> budget_reservation \<Rightarrow> ai_budget_policy \<Rightarrow> (budget_reservation \<times> 'l) fallible"
  lo_mark_dispatched :: "'l \<Rightarrow> string \<Rightarrow> int \<Rightarrow> instant \<Rightarrow> (budget_reservation \<times> 'l) fallible"
  lo_settle :: "'l \<Rightarrow> string \<Rightarrow> decimal \<Rightarrow> int \<Rightarrow> instant \<Rightarrow> (budget_reservation \<times> 'l) fallible"
  lo_release :: "'l \<Rightarrow> string \<Rightarrow> int \<Rightarrow> instant \<Rightarrow> (budget_reservation \<times> 'l) fallible"
  lo_mark_uncertain :: "'l \<Rightarrow> string \<Rightarrow> int \<Rightarrow> instant \<Rightarrow> (budget_reservation \<times> 'l) fallible"
  lo_release_undispatched :: "'l \<Rightarrow> string \<Rightarrow> int \<Rightarrow> instant \<Rightarrow> (budget_reservation \<times> 'l) fallible"

definition mem_ops :: "mem_ledger ledger_ops" where
  "mem_ops = \<lparr>lo_reserve = mem_reserve, lo_mark_dispatched = mem_mark_dispatched, lo_settle = mem_settle,
     lo_release = mem_release, lo_mark_uncertain = mem_mark_uncertain,
     lo_release_undispatched = mem_release_undispatched_attempt\<rparr>"

definition sql_ops :: "sql_ledger ledger_ops" where
  "sql_ops = \<lparr>lo_reserve = sql_reserve, lo_mark_dispatched = sql_mark_dispatched, lo_settle = sql_settle,
     lo_release = sql_release, lo_mark_uncertain = sql_mark_uncertain,
     lo_release_undispatched = sql_release_undispatched_attempt\<rparr>"

datatype budget_call =
    CallReserve budget_reservation
  | CallMarkDispatched string int instant
  | CallSettle string decimal int instant
  | CallRelease string int instant
  | CallMarkUncertain string int instant
  | CallReleaseUndispatched string int instant

fun ledger_call ::
  "'l ledger_ops \<Rightarrow> (string \<Rightarrow> ai_budget_policy) \<Rightarrow> 'l \<Rightarrow> budget_call \<Rightarrow> (budget_reservation \<times> 'l) fallible" where
  "ledger_call ops pol l (CallReserve r) = lo_reserve ops l r (pol (br_policy_ref r))"
| "ledger_call ops pol l (CallMarkDispatched iid n t) = lo_mark_dispatched ops l iid n t"
| "ledger_call ops pol l (CallSettle iid a n t) = lo_settle ops l iid a n t"
| "ledger_call ops pol l (CallRelease iid n t) = lo_release ops l iid n t"
| "ledger_call ops pol l (CallMarkUncertain iid n t) = lo_mark_uncertain ops l iid n t"
| "ledger_call ops pol l (CallReleaseUndispatched iid n t) = lo_release_undispatched ops l iid n t"

definition ledger_after ::
  "'l ledger_ops \<Rightarrow> (string \<Rightarrow> ai_budget_policy) \<Rightarrow> 'l \<Rightarrow> budget_call \<Rightarrow> 'l" where
  "ledger_after ops pol l c = (case ledger_call ops pol l c of Inl _ \<Rightarrow> l | Inr (_, l') \<Rightarrow> l')"

definition ledger_run ::
  "'l ledger_ops \<Rightarrow> (string \<Rightarrow> ai_budget_policy) \<Rightarrow> 'l \<Rightarrow> budget_call list \<Rightarrow> 'l" where
  "ledger_run ops pol l cs = foldl (ledger_after ops pol) l cs"

end
