(* ===== verification/Router.thy ===== *)
theory Router
  imports ShadowSchemas BudgetLedger Orchestration Effects
begin

text \<open>
  \<open>runtime/router.py\<close> and \<open>runtime/validation.py\<close>: one bounded invocation of one role through one
  provider, over any budget ledger. The provider adapter, the clocks and pydantic's schema and JSON
  functions are parameters; an adapter call that \<open>asyncio.wait_for\<close> cancels raises \<open>TimeoutError\<close>. The
  variables the exception handlers read after the \<open>try\<close> block are part of the state. Readings of the
  monotonic clock are taken as exact numbers.
\<close>

section \<open>Requests and bodies\<close>

record 'c agent_invocation_request =
  air_schema_version :: string
  air_invocation_id :: string
  air_output_id :: string
  air_cycle_id :: string
  air_snapshot_id :: string
  air_descriptor :: agent_descriptor
  air_requested_at :: instant
  air_input_schema :: schema_reference
  air_output_schema :: schema_reference
  air_context :: 'c

datatype role_payload =
    PayMarketContext market_context_result
  | PayTrendAnalysis trend_analysis_result
  | PayPriceAction price_action_result
  | PayEntryAnalysis entry_analysis_result
  | PayQuantResearch quant_research_result
  | PayQuantDeveloper quant_developer_review
  | PaySkeptic skeptic_review
  | PayChiefTrader chief_trader_result
  | PayPerformanceReview performance_review_result

record model_body =
  mb_confidence :: decimal
  mb_evidence :: "agent_evidence list"
  mb_warnings :: "agent_warning list"
  mb_invalidations :: "agent_invalidation list"
  mb_payload :: role_payload

text \<open>\<open>runtime/contracts.py\<close>: what the code uses of a role's contract.\<close>

record 'c role_contract =
  rcon_is_input :: "'c \<Rightarrow> bool"
  rcon_body_schema_json :: string
  rcon_parse_body :: "string \<Rightarrow> model_body option"

record 'w provider_adapter =
  pad_provider :: model_provider
  pad_prepare :: "('w, unit) op"
  pad_estimate :: "provider_request \<Rightarrow> ('w, token_estimate) op"
  pad_invoke :: "provider_request \<Rightarrow> rat \<Rightarrow> ('w, provider_response) op"

record ('c, 'l, 'w) runtime_router =
  rt_sha :: sha
  rt_prompts :: "((string \<times> string) \<times> prompt_artifact) list"
  rt_providers :: "(model_provider \<times> 'w provider_adapter) list"
  rt_ledger :: "'l ledger_ops"
  rt_clock :: "('w, py_datetime) op"
  rt_monotonic :: "('w, rat) op"
  rt_milliseconds :: "rat \<Rightarrow> decimal"
  rt_contract :: "agent_role \<Rightarrow> 'c role_contract"
  rt_context_json :: "'c \<Rightarrow> string"

text \<open>The profiles and policies of one invocation.\<close>

record invocation_settings =
  is_runtime :: runtime_profile
  is_capability :: model_capability_profile
  is_retry_policy :: retry_policy
  is_budget_policy :: ai_budget_policy
  is_pricing :: pricing_profile

record ('l, 'w) router_state =
  rst_ledger :: 'l
  rst_world :: 'w
  rst_attempts :: int
  rst_estimate :: token_estimate
  rst_reservations :: "budget_reservation list"
  rst_reservation_state :: "budget_reservation_state option"
  rst_response :: "provider_response option"

definition world_op :: "('w, 'a) op \<Rightarrow> (('l, 'w) router_state, 'a) op" where
  "world_op m s = (case m (rst_world s) of (x, w) \<Rightarrow> (x, s\<lparr>rst_world := w\<rparr>))"

definition ledger_op :: "('l \<Rightarrow> ('a \<times> 'l) fallible) \<Rightarrow> (('l, 'w) router_state, 'a) op" where
  "ledger_op f s = (case f (rst_ledger s) of Inl e \<Rightarrow> (Inl e, s) | Inr (x, l) \<Rightarrow> (Inr x, s\<lparr>rst_ledger := l\<rparr>))"

definition modify :: "('s \<Rightarrow> 's) \<Rightarrow> ('s, unit) op" where
  "modify f s = (Inr (), f s)"

definition reading :: "('s \<Rightarrow> 'a) \<Rightarrow> ('s, 'a) op" where
  "reading f s = (Inr (f s), s)"

section \<open>Prompts and compatibility\<close>

type_synonym prompt_key = "string \<times> string"

definition get_prompt :: "(prompt_key \<times> prompt_artifact) list \<Rightarrow> string \<Rightarrow> string \<Rightarrow> prompt_artifact fallible" where
  "get_prompt artifacts pid pv = (case map_of artifacts (pid, pv) of
     None \<Rightarrow> Inl (PromptRegistryError ''prompt reference is not registered'') | Some p \<Rightarrow> Inr p)"


definition incompatible :: "string \<Rightarrow> py_exception" where
  "incompatible d = RuntimeInvocationError runtime_failure_category.CAPABILITY_INCOMPATIBLE d"

definition validate_compatibility ::
  "'c agent_invocation_request \<Rightarrow> prompt_artifact \<Rightarrow> invocation_settings \<Rightarrow> 'c role_contract \<Rightarrow> token_estimate \<Rightarrow>
     unit fallible" where
  "validate_compatibility req prompt settings contract estimate =
     (let d = air_descriptor req; ref = ad_prompt_ref d; runtime = is_runtime settings; cap = is_capability settings
      in run_guards
        [(pr_prompt_id ref \<noteq> pa_prompt_id prompt \<or> pr_prompt_version ref \<noteq> pa_prompt_version prompt,
          incompatible ''descriptor prompt reference does not match artifact''),
         (pr_content_digest ref \<noteq> Some (pa_content_digest prompt),
          incompatible ''descriptor prompt digest does not match artifact''),
         (ad_role d \<noteq> pa_role prompt, incompatible ''prompt role does not match agent role''),
         (ad_runtime_profile_ref d \<noteq> rp_profile_ref runtime,
          incompatible ''descriptor runtime profile does not match requested profile''),
         (rp_capability_profile_ref runtime \<noteq> mcp_profile_ref cap,
          incompatible ''runtime capability reference does not match validated profile''),
         (rp_provider runtime \<noteq> mcp_provider cap \<or> rp_model_identifier runtime \<noteq> mcp_model_identifier cap,
          incompatible ''runtime provider/model does not match capability profile''),
         (air_input_schema req \<noteq> pa_compatible_input_schema prompt \<or>
          air_output_schema req \<noteq> pa_compatible_output_schema prompt,
          RuntimeInvocationError runtime_failure_category.SCHEMA_INCOMPATIBLE
            ''invocation schema references are incompatible with prompt artifact''),
         (\<not> rcon_is_input contract (air_context req),
          RuntimeInvocationError runtime_failure_category.SCHEMA_INCOMPATIBLE
            ''context type is incompatible with the role contract''),
         (rp_require_structured_output runtime \<and> \<not> mcp_structured_output_supported cap,
          incompatible ''structured output is unsupported''),
         (rp_require_json_schema runtime \<and> \<not> mcp_json_schema_supported cap,
          incompatible ''JSON Schema output is unsupported''),
         (rp_max_output_tokens runtime > mcp_max_output_tokens cap,
          incompatible ''requested output limit exceeds model capability''),
         (rp_reasoning_effort runtime \<noteq> reasoning_effort.NONE \<and>
          (\<not> mcp_reasoning_configuration_supported cap \<or>
           rp_reasoning_effort runtime \<notin> set (mcp_supported_reasoning_efforts cap)),
          incompatible ''requested reasoning configuration is unsupported''),
         (case te_tokens estimate of None \<Rightarrow> False
          | Some n \<Rightarrow> n + rp_max_output_tokens runtime > mcp_max_context_tokens cap,
          incompatible ''estimated request exceeds model context limit''),
         (te_method estimate \<notin> mcp_token_estimation_methods cap,
          incompatible ''token estimation method is not validated for this model''),
         (\<not> mcp_adapter_contract_accepted cap, incompatible ''provider adapter contract has not been accepted''),
         (mcp_provider cap \<noteq> model_provider.FAKE \<and> \<not> mcp_live_smoke_accepted cap,
          incompatible ''provider live smoke acceptance is required for runtime use'')])"

text \<open>JSON decoding and the validation against the role's body schema are parameters of the contract.\<close>

definition parse_model_body :: "string \<Rightarrow> 'c role_contract \<Rightarrow> model_body fallible" where
  "parse_model_body json contract = (case rcon_parse_body contract json of
     None \<Rightarrow> Inl (RuntimeInvocationError runtime_failure_category.INVALID_MODEL_OUTPUT
       ''provider response failed strict structured-output validation'')
   | Some b \<Rightarrow> Inr b)"

section \<open>Costs and metadata\<close>

definition reported_cost :: "invocation_usage \<Rightarrow> pricing_profile \<Rightarrow> decimal option" where
  "reported_cost usage pricing = (case (uv_value (iu_input_tokens usage), uv_value (iu_output_tokens usage)) of
     (Some i, Some j) \<Rightarrow> Some (estimate_reported_cost i j pricing) | _ \<Rightarrow> None)"

definition retry_allowed :: "runtime_failure_category \<Rightarrow> bool \<Rightarrow> retry_policy \<Rightarrow> bool" where
  "retry_allowed category retryable policy \<longleftrightarrow> retryable \<and>
     (if category = runtime_failure_category.PROVIDER_TIMEOUT then rpol_retry_timeouts policy
      else if category = runtime_failure_category.PROVIDER_TRANSIENT then rpol_retry_transient_errors policy
      else if category = runtime_failure_category.PROVIDER_RATE_LIMIT then rpol_retry_rate_limits policy
      else False)"

definition unavailable_estimate :: "instant \<Rightarrow> token_estimate fallible" where
  "unavailable_estimate t = build ''TokenEstimate'' ok_token_estimate
     \<lparr>te_tokens = None, te_method = token_estimate_method.UNAVAILABLE, te_conservative = False, te_estimated_at = t\<rparr>"

definition router_trace :: "'c agent_invocation_request \<Rightarrow> string \<Rightarrow> runtime_profile \<Rightarrow> instant \<Rightarrow> instant \<Rightarrow> int \<Rightarrow>
    invocation_trace fallible" where
  "router_trace req digest runtime started completed attempts =
     (let d = air_descriptor req
      in build ''InvocationTrace'' (\<lambda>t. fields_invocation_trace t \<and> validate_invocation_trace t)
        \<lparr>it_invocation_id = air_invocation_id req, it_output_id = air_output_id req,
         it_cycle_id = air_cycle_id req, it_snapshot_id = air_snapshot_id req, it_agent_role = ad_role d,
         it_agent_version = ad_agent_version d, it_prompt_id = pr_prompt_id (ad_prompt_ref d),
         it_prompt_version = pr_prompt_version (ad_prompt_ref d), it_prompt_digest = digest,
         it_runtime_profile_ref = rp_profile_ref runtime, it_provider = rp_provider runtime,
         it_model_identifier = rp_model_identifier runtime, it_request_started_at = started,
         it_request_completed_at = completed, it_attempts = attempts\<rparr>)"

definition failure_category :: "runtime_failure_category \<Rightarrow> agent_failure_category" where
  "failure_category c =
     (if c = runtime_failure_category.PROVIDER_TIMEOUT then agent_failure_category.TIMEOUT
      else if c = runtime_failure_category.INVALID_MODEL_OUTPUT then agent_failure_category.INVALID_OUTPUT
      else if c = runtime_failure_category.SCHEMA_INCOMPATIBLE then agent_failure_category.SCHEMA_MISMATCH
      else if c = runtime_failure_category.CAPABILITY_INCOMPATIBLE then agent_failure_category.SCHEMA_MISMATCH
      else if c = runtime_failure_category.PROVIDER_UNAVAILABLE then agent_failure_category.UNAVAILABLE_AGENT
      else agent_failure_category.UNKNOWN)"

definition router_failure :: "sha \<Rightarrow> 'c agent_invocation_request \<Rightarrow> runtime_failure_category \<Rightarrow> string \<Rightarrow> instant \<Rightarrow>
    agent_failure_record fallible" where
  "router_failure sha req c detail t =
     bind_result (resolve_failure (failure_category c) (Some (ad_role (air_descriptor req))) 0) (\<lambda>disposition.
     build ''AgentFailureRecord'' ok_agent_failure_record
       \<lparr>afr_schema_version = ''1.0.0'', afr_failure_id = ''failure-'' @ take 16 (sha (air_invocation_id req)),
        afr_cycle_id = air_cycle_id req, afr_snapshot_id = air_snapshot_id req,
        afr_agent_role = Some (ad_role (air_descriptor req)),
        afr_execution_profile = Some (ad_execution_profile (air_descriptor req)),
        afr_category = failure_category c, afr_occurred_at = t, afr_sanitized_detail = detail,
        afr_disposition = disposition\<rparr>)"

definition telemetry_amount :: "budget_reservation \<Rightarrow> decimal" where
  "telemetry_amount r = (case br_settled_amount r of
     Some a \<Rightarrow> if br_state r = budget_reservation_state.SETTLED then a
       else if br_state r \<noteq> budget_reservation_state.RELEASED then br_reserved_amount r else 0
   | None \<Rightarrow> if br_state r \<noteq> budget_reservation_state.RELEASED then br_reserved_amount r else 0)"

definition router_telemetry :: "invocation_usage \<Rightarrow> token_estimate \<Rightarrow> int \<Rightarrow> decimal \<Rightarrow> pricing_profile \<Rightarrow>
    budget_reservation list \<Rightarrow> string option \<Rightarrow> budget_reservation_state option \<Rightarrow> invocation_telemetry fallible" where
  "router_telemetry usage estimate attempts latency pricing reservations request_id state =
     (let reported = reported_cost usage pricing;
          reserved = foldl (\<lambda>a r. rd28 (a + telemetry_amount r)) 0 reservations;
          released = list_all (\<lambda>r. br_state r = budget_reservation_state.RELEASED) (butlast reservations);
          exact = (reported \<noteq> None \<and> released)
      in build ''InvocationTelemetry'' ok_invocation_telemetry
        \<lparr>itel_usage = usage, itel_input_estimate = estimate, itel_attempt_count = attempts,
         itel_retry_count = max (attempts - 1) 0, itel_latency_milliseconds = latency,
         itel_estimated_cost = (if exact then reported else if reservations \<noteq> [] then Some reserved else None),
         itel_estimated_cost_availability = (if exact then metric_availability.REPORTED
           else if reservations \<noteq> [] then metric_availability.ESTIMATED else metric_availability.UNAVAILABLE),
         itel_currency = pp_currency pricing, itel_provider_request_id = request_id,
         itel_reservation_state = state, itel_attempt_reservations = reservations\<rparr>)"

definition no_usage :: invocation_usage where
  "no_usage = \<lparr>iu_input_tokens = unavailable_usage, iu_cached_input_tokens = unavailable_usage,
     iu_output_tokens = unavailable_usage, iu_reasoning_tokens = unavailable_usage\<rparr>"

section \<open>Attempts\<close>

definition router_now :: "('c, 'l, 'w) runtime_router \<Rightarrow> (('l, 'w) router_state, instant) op" where
  "router_now r = bind_op (world_op (rt_clock r)) (\<lambda>t.
     if is_naive t then raise_op (ValueError ''runtime clock must return a timezone-aware timestamp'')
     else ret (as_utc t))"

text \<open>A new reservation of the running attempt, and its replacement after a transition.\<close>

definition note_reserved :: "int \<Rightarrow> budget_reservation \<Rightarrow> ('l, 'w) router_state \<Rightarrow> ('l, 'w) router_state" where
  "note_reserved n x s = s\<lparr>rst_attempts := n, rst_reservations := rst_reservations s @ [x]\<rparr>"

definition note_moved :: "budget_reservation \<Rightarrow> ('l, 'w) router_state \<Rightarrow> ('l, 'w) router_state" where
  "note_moved x s = s\<lparr>rst_reservations := butlast (rst_reservations s) @ [x],
     rst_reservation_state := Some (br_state x)\<rparr>"

text \<open>A transition of the reservation of attempt \<open>n\<close> at the present time.\<close>

definition move_reservation :: "('c, 'l, 'w) runtime_router \<Rightarrow> ('l \<Rightarrow> instant \<Rightarrow> (budget_reservation \<times> 'l) fallible) \<Rightarrow>
    (('l, 'w) router_state, unit) op" where
  "move_reservation r f = bind_op (router_now r) (\<lambda>t. bind_op (ledger_op (\<lambda>l. f l t)) (\<lambda>x. modify (note_moved x)))"

text \<open>How an exception of the adapter's \<open>invoke\<close> is kept: category, detail, retryable, dispatched.\<close>

definition provider_failure :: "py_exception \<Rightarrow> runtime_failure_category \<times> string \<times> bool \<times> bool" where
  "provider_failure e = (case e of
     TimeoutError \<Rightarrow> (runtime_failure_category.PROVIDER_TIMEOUT, ''provider request timed out'', True, True)
   | ProviderError c d retryable dispatched \<Rightarrow> (c, d, retryable, dispatched)
   | _ \<Rightarrow> (runtime_failure_category.UNKNOWN_PROVIDER_ERROR, ''provider adapter failed unexpectedly'', False, True))"

definition timed_out :: py_exception where
  "timed_out = ProviderError runtime_failure_category.PROVIDER_TIMEOUT ''total invocation timeout exceeded'' False False"

text \<open>
  The loop over the attempts still allowed. It returns the last error, or \<open>None\<close> when the provider
  answered; \<open>base\<close> is the reading of the monotonic clock at the start.
\<close>

primrec attempt_loop :: "int list \<Rightarrow> ('c, 'l, 'w) runtime_router \<Rightarrow> 'c agent_invocation_request \<Rightarrow>
    invocation_settings \<Rightarrow> 'w provider_adapter \<Rightarrow> provider_request \<Rightarrow> token_estimate \<Rightarrow> rat \<Rightarrow> py_exception option \<Rightarrow>
    (('l, 'w) router_state, py_exception option) op" where
  "attempt_loop [] r req settings adapter preq estimate base last_error = ret last_error"
| "attempt_loop (n # ns) r req settings adapter preq estimate base last_error =
     bind_op (world_op (rt_monotonic r)) (\<lambda>clock.
     let runtime = is_runtime settings; remaining = of_int (rp_total_timeout_seconds runtime) - (clock - base)
     in if remaining \<le> 0 then ret (Some timed_out)
        else bind_op (router_now r) (\<lambda>t.
          bind_op (ledger_op (\<lambda>l. guard_reserve (lo_reserve (rt_ledger r)) l (air_invocation_id req) (air_cycle_id req)
            runtime estimate (is_budget_policy settings) (is_pricing settings) t n)) (\<lambda>x.
          bind_op (modify (note_reserved n x)) (\<lambda>_.
          bind_op (move_reservation r (\<lambda>l. lo_mark_dispatched (rt_ledger r) l (air_invocation_id req) n)) (\<lambda>_.
          try_op (world_op (pad_invoke adapter (preq\<lparr>preq_attempt := n\<rparr>)
              (min (of_int (rp_request_timeout_seconds runtime)) remaining)))
            (\<lambda>e. case provider_failure e of (category, detail, retryable, dispatched) \<Rightarrow>
              bind_op (move_reservation r (\<lambda>l. if dispatched
                  then lo_mark_uncertain (rt_ledger r) l (air_invocation_id req) n
                  else lo_release_undispatched (rt_ledger r) l (air_invocation_id req) n)) (\<lambda>_.
              let err = Some (ProviderError category detail retryable dispatched)
              in if \<not> retry_allowed category retryable (is_retry_policy settings) \<or>
                    rpol_max_attempts (is_retry_policy settings) \<le> n
                 then ret err
                 else attempt_loop ns r req settings adapter preq estimate base err))
            (\<lambda>response. bind_op (modify (\<lambda>s. s\<lparr>rst_response := Some response\<rparr>)) (\<lambda>_. ret None)))))))"

section \<open>The answer\<close>

definition output_status :: "model_body \<Rightarrow> agent_output_status" where
  "output_status b = (if mb_warnings b \<noteq> [] then agent_output_status.DEGRADED else agent_output_status.SUCCESS)"

definition enveloped :: "'c agent_invocation_request \<Rightarrow> model_body \<Rightarrow> instant \<Rightarrow> 'p \<Rightarrow> 'p agent_output" where
  "enveloped req b t payload =
     (let d = air_descriptor req
      in \<lparr>ao_schema_version = ''1.0.0'', ao_output_id = air_output_id req, ao_cycle_id = air_cycle_id req,
          ao_snapshot_id = air_snapshot_id req, ao_agent_name = ad_agent_name d, ao_agent_role = ad_role d,
          ao_agent_version = ad_agent_version d, ao_prompt_ref = ad_prompt_ref d,
          ao_runtime_profile_ref = ad_runtime_profile_ref d, ao_invocation_policy_ref = ad_invocation_policy_ref d,
          ao_cost_policy_ref = ad_cost_policy_ref d, ao_produced_at = t, ao_status = output_status b,
          ao_confidence = mb_confidence b, ao_evidence = mb_evidence b, ao_warnings = mb_warnings b,
          ao_invalidations = mb_invalidations b, ao_payload = payload\<rparr>)"

definition valid_envelope :: "agent_role \<Rightarrow> ('p agent_output \<Rightarrow> bool) \<Rightarrow> ('p agent_output \<Rightarrow> invocation_output) \<Rightarrow>
    'p agent_output \<Rightarrow> invocation_output fallible" where
  "valid_envelope role ok wrap x = (if ok_role_output role x \<and> ok x then Inr (wrap x)
     else Inl (RuntimeInvocationError runtime_failure_category.INVALID_MODEL_OUTPUT
       ''validated body is incompatible with the trusted output envelope''))"

text \<open>\<open>contract.output_type.model_validate\<close>: the output class of the role, around its payload.\<close>

definition role_output :: "'c agent_invocation_request \<Rightarrow> model_body \<Rightarrow> instant \<Rightarrow> invocation_output fallible" where
  "role_output req b t = (let role = ad_role (air_descriptor req) in case mb_payload b of
     PayMarketContext p \<Rightarrow> valid_envelope agent_role.MARKET_CONTEXT (\<lambda>x. True) (Known \<circ> OutMarketContext) (enveloped req b t p)
   | PayTrendAnalysis p \<Rightarrow> valid_envelope agent_role.TREND_ANALYST (\<lambda>x. True) (Known \<circ> OutTrendAnalysis) (enveloped req b t p)
   | PayPriceAction p \<Rightarrow> valid_envelope agent_role.PRICE_ACTION_ANALYST (\<lambda>x. True) (Known \<circ> OutPriceAction) (enveloped req b t p)
   | PayEntryAnalysis p \<Rightarrow> valid_envelope agent_role.ENTRY_ANALYST (\<lambda>x. True) (Known \<circ> OutEntryAnalysis) (enveloped req b t p)
   | PayQuantResearch p \<Rightarrow> valid_envelope agent_role.QUANT_RESEARCHER (\<lambda>x. True) (Known \<circ> OutQuantResearch) (enveloped req b t p)
   | PayQuantDeveloper p \<Rightarrow> valid_envelope agent_role.SENIOR_QUANT_DEVELOPER (\<lambda>x. True) (Known \<circ> OutQuantDeveloper) (enveloped req b t p)
   | PaySkeptic p \<Rightarrow> valid_envelope agent_role.SKEPTIC (\<lambda>x. True) (Known \<circ> OutSkeptic) (enveloped req b t p)
   | PayChiefTrader p \<Rightarrow> valid_envelope agent_role.CHIEF_TRADER validate_chief_trader_output (Known \<circ> OutChiefTrader) (enveloped req b t p)
   | PayPerformanceReview p \<Rightarrow> valid_envelope agent_role.PERFORMANCE_REVIEWER (\<lambda>x. True) (\<lambda>x. Foreign) (enveloped req b t p))"

text \<open>The telemetry of what the state has recorded so far.\<close>

definition state_telemetry :: "('c, 'l, 'w) runtime_router \<Rightarrow> invocation_settings \<Rightarrow> rat \<Rightarrow>
    (('l, 'w) router_state, invocation_telemetry) op" where
  "state_telemetry r settings base =
     bind_op (world_op (rt_monotonic r)) (\<lambda>clock.
     bind_op (reading id) (\<lambda>s. lift_op (router_telemetry
       (case rst_response s of None \<Rightarrow> no_usage | Some x \<Rightarrow> pres_usage x) (rst_estimate s) (rst_attempts s)
       (rt_milliseconds r (clock - base)) (is_pricing settings) (rst_reservations s)
       (case rst_response s of None \<Rightarrow> None | Some x \<Rightarrow> pres_provider_request_id x) (rst_reservation_state s))))"

definition result_of :: "invocation_trace \<Rightarrow> invocation_output option \<Rightarrow> agent_failure_record option \<Rightarrow>
    runtime_failure_category option \<Rightarrow> invocation_telemetry \<Rightarrow> invocation_result fallible" where
  "result_of trace answer failure category telemetry = build ''AgentInvocationResult'' validate_invocation_result
     \<lparr>ir_trace = trace, ir_output = answer, ir_failure = failure, ir_runtime_failure_category = category,
      ir_telemetry = telemetry\<rparr>"

text \<open>Settling or marking the answered attempt, and its parsed output.\<close>

definition answer_result :: "('c, 'l, 'w) runtime_router \<Rightarrow> 'c agent_invocation_request \<Rightarrow> invocation_settings \<Rightarrow>
    prompt_artifact \<Rightarrow> instant \<Rightarrow> rat \<Rightarrow> provider_response \<Rightarrow> (('l, 'w) router_state, invocation_result) op" where
  "answer_result r req settings prompt started base response =
     bind_op (reading rst_attempts) (\<lambda>n.
     bind_op (move_reservation r (\<lambda>l t. case reported_cost (pres_usage response) (is_pricing settings) of
         None \<Rightarrow> lo_mark_uncertain (rt_ledger r) l (air_invocation_id req) n t
       | Some cost \<Rightarrow> lo_settle (rt_ledger r) l (air_invocation_id req) cost n t)) (\<lambda>_.
     bind_op (lift_op (parse_model_body (pres_response_json response) (rt_contract r (ad_role (air_descriptor req))))) (\<lambda>b.
     bind_op (lift_op (role_output req b (pres_responded_at response))) (\<lambda>answer.
     bind_op (router_now r) (\<lambda>completed.
     bind_op (lift_op (router_trace req (pa_content_digest prompt) (is_runtime settings) started completed n)) (\<lambda>trace.
     bind_op (state_telemetry r settings base) (\<lambda>telemetry.
     lift_op (result_of trace (Some answer) None None telemetry))))))))"

text \<open>The body of the \<open>try\<close> block.\<close>

definition invoke_body :: "('c, 'l, 'w) runtime_router \<Rightarrow> 'c agent_invocation_request \<Rightarrow> invocation_settings \<Rightarrow>
    instant \<Rightarrow> rat \<Rightarrow> (('l, 'w) router_state, invocation_result) op" where
  "invoke_body r req settings started base =
     (let d = air_descriptor req; runtime = is_runtime settings; contract = rt_contract r (ad_role d)
      in bind_op (lift_op (run_guards [(rp_retry_policy_ref runtime \<noteq> rpol_policy_ref (is_retry_policy settings),
           RuntimeInvocationError runtime_failure_category.INVALID_REQUEST
             ''runtime retry policy reference does not match supplied policy'')])) (\<lambda>_.
         bind_op (lift_op (get_prompt (rt_prompts r) (pr_prompt_id (ad_prompt_ref d)) (pr_prompt_version (ad_prompt_ref d)))) (\<lambda>prompt.
         case map_of (rt_providers r) (rp_provider runtime) of
           None \<Rightarrow> raise_op (RuntimeInvocationError runtime_failure_category.PROVIDER_UNAVAILABLE
             ''configured provider adapter is unavailable'')
         | Some adapter \<Rightarrow>
             if pad_provider adapter \<noteq> rp_provider runtime
             then raise_op (RuntimeInvocationError runtime_failure_category.PROVIDER_UNAVAILABLE
               ''configured provider adapter is unavailable'')
             else bind_op (lift_op (build ''ProviderRequest'' fields_provider_request
               \<lparr>preq_invocation_id = air_invocation_id req, preq_provider = rp_provider runtime,
                preq_model_identifier = rp_model_identifier runtime, preq_attempt = 1,
                preq_system_prompt = pa_content prompt, preq_context_json = rt_context_json r (air_context req),
                preq_output_json_schema = rcon_body_schema_json contract,
                preq_max_output_tokens = rp_max_output_tokens runtime,
                preq_timeout_seconds = rp_request_timeout_seconds runtime,
                preq_reasoning_effort = rp_reasoning_effort runtime\<rparr>)) (\<lambda>preq.
             bind_op (world_op (pad_prepare adapter)) (\<lambda>_.
             bind_op (world_op (pad_estimate adapter preq)) (\<lambda>estimate.
             bind_op (modify (\<lambda>s. s\<lparr>rst_estimate := estimate\<rparr>)) (\<lambda>_.
             bind_op (lift_op (validate_compatibility req prompt settings contract estimate)) (\<lambda>_.
             bind_op (attempt_loop (py_range1 (nat (rpol_max_attempts (is_retry_policy settings)))) r req settings adapter
               preq estimate base None) (\<lambda>last_error.
             bind_op (reading rst_response) (\<lambda>response.
             case response of
               None \<Rightarrow> raise_op (case last_error of None \<Rightarrow> AssertionError | Some e \<Rightarrow> e)
             | Some x \<Rightarrow> answer_result r req settings prompt started base x)))))))))) "

text \<open>The exceptions the router turns into a failed result.\<close>

definition runtime_error :: "py_exception \<Rightarrow> (runtime_failure_category \<times> string) option" where
  "runtime_error e = (case e of
     PromptRegistryError m \<Rightarrow>
       Some (runtime_failure_category.INVALID_PROMPT_REFERENCE, ''prompt artifact could not be resolved'')
   | RuntimeInvocationError c d \<Rightarrow> Some (c, d)
   | ProviderError c d retryable dispatched \<Rightarrow> Some (c, d)
   | _ \<Rightarrow> None)"

definition failed_result :: "('c, 'l, 'w) runtime_router \<Rightarrow> 'c agent_invocation_request \<Rightarrow> invocation_settings \<Rightarrow>
    instant \<Rightarrow> rat \<Rightarrow> runtime_failure_category \<Rightarrow> string \<Rightarrow> (('l, 'w) router_state, invocation_result) op" where
  "failed_result r req settings started base category detail =
     bind_op (router_now r) (\<lambda>completed.
     bind_op (reading rst_attempts) (\<lambda>n.
     bind_op (lift_op (router_trace req
       (case pr_content_digest (ad_prompt_ref (air_descriptor req)) of
          Some d \<Rightarrow> if d = [] then ''sha256:'' @ replicate 64 (CHR ''0'') else d
        | None \<Rightarrow> ''sha256:'' @ replicate 64 (CHR ''0''))
       (is_runtime settings) started completed n)) (\<lambda>trace.
     bind_op (lift_op (router_failure (rt_sha r) req category detail completed)) (\<lambda>failure.
     bind_op (state_telemetry r settings base) (\<lambda>telemetry.
     lift_op (result_of trace None (Some failure) (Some category) telemetry))))))"

definition start_state :: "'l \<Rightarrow> 'w \<Rightarrow> ('l, 'w) router_state" where
  "start_state l w = \<lparr>rst_ledger = l, rst_world = w, rst_attempts = 0,
     rst_estimate = \<lparr>te_tokens = None, te_method = token_estimate_method.UNAVAILABLE, te_conservative = False,
       te_estimated_at = 0\<rparr>,
     rst_reservations = [], rst_reservation_state = None, rst_response = None\<rparr>"

definition timed_invocation :: "('c, 'l, 'w) runtime_router \<Rightarrow> 'c agent_invocation_request \<Rightarrow> invocation_settings \<Rightarrow>
    (('l, 'w) router_state, invocation_result) op" where
  "timed_invocation r req settings =
     bind_op (router_now r) (\<lambda>started.
     bind_op (world_op (rt_monotonic r)) (\<lambda>base.
     bind_op (lift_op (unavailable_estimate started)) (\<lambda>estimate.
     bind_op (modify (\<lambda>s. s\<lparr>rst_estimate := estimate\<rparr>)) (\<lambda>_.
     try_op (invoke_body r req settings started base)
       (\<lambda>e. case runtime_error e of
           None \<Rightarrow> raise_op e
         | Some (category, detail) \<Rightarrow> failed_result r req settings started base category detail)
       ret))))"

definition router_invoke :: "('c, 'l, 'w) runtime_router \<Rightarrow> 'c agent_invocation_request \<Rightarrow> invocation_settings \<Rightarrow>
    ('l \<times> 'w, invocation_result) op" where
  "router_invoke r req settings u =
     (case timed_invocation r req settings (start_state (fst u) (snd u)) of
        (x, s) \<Rightarrow> (x, (rst_ledger s, rst_world s)))"

end
