(* ===== verification/RuntimeInvoker.thy ===== *)
theory RuntimeInvoker
  imports Router
begin

text \<open>
  \<open>runtime/acceptance.py\<close> and \<open>orchestration/runtime.py\<close>: the registry of accepted provider
  configurations, the assignment of runtime settings to roles, and the invoker the shadow cycle
  calls. TOML and pydantic's schema digests are parameters.
\<close>

section \<open>Profile digests\<close>

text \<open>
  \<open>model_dump(mode="json")\<close>: a \<open>frozenset\<close> becomes a list in the order in which the interpreter
  iterates over it, which depends on the hash seed of the process: it is the parameter \<open>order\<close>.
\<close>

primrec json_mode :: "(json list \<Rightarrow> json list) \<Rightarrow> pyval \<Rightarrow> json" where
  "json_mode order PNone = JNull"
| "json_mode order (PBool b) = JBool b"
| "json_mode order (PInt n) = JInt n"
| "json_mode order (PDec x) = JStr (canonical_decimal x)"
| "json_mode order (PStr s) = JStr s"
| "json_mode order (PTime t) = JStr (canonical_timestamp t)"
| "json_mode order (PDate n) = JStr (iso_date n)"
| "json_mode order (PDelta d) = JStr (show_int d @ ''us'')"
| "json_mode order (PList xs) = JList (map (json_mode order) xs)"
| "json_mode order (PSet xs) = JList (order (map (json_mode order) xs))"
| "json_mode order (PDict kvs) = JObj (map (map_prod id (json_mode order)) kvs)"

definition profile_digest :: "sha \<Rightarrow> (json list \<Rightarrow> json list) \<Rightarrow> pyval \<Rightarrow> string" where
  "profile_digest sha order v = ''sha256:'' @ sha (canonical_json_bytes (json_mode order v))"

section \<open>Accepted configurations\<close>

text \<open>What the registry needs of the process, and its records.\<close>

record acceptance_registry =
  areg_sha :: sha
  areg_order :: "json list \<Rightarrow> json list"
  areg_records :: "provider_acceptance_record list"

definition acceptance_registry_of ::
  "sha \<Rightarrow> (json list \<Rightarrow> json list) \<Rightarrow> provider_acceptance_record list \<Rightarrow> acceptance_registry fallible" where
  "acceptance_registry_of sha order records =
     (if \<not> distinct (map parec_acceptance_id records)
      then Inl (ValueError ''provider acceptance identifiers must be unique'')
      else Inr \<lparr>areg_sha = sha, areg_order = order, areg_records = records\<rparr>)"

text \<open>\<open>contents\<close> is what reading, parsing and validating the file gives, \<open>None\<close> when one of them fails.\<close>

definition registry_from_toml ::
  "sha \<Rightarrow> (json list \<Rightarrow> json list) \<Rightarrow> provider_acceptance_record list option \<Rightarrow> acceptance_registry fallible" where
  "registry_from_toml sha order contents = (case contents of
     None \<Rightarrow> Inl (ValueError ''provider acceptance registry is invalid'')
   | Some records \<Rightarrow> acceptance_registry_of sha order records)"

definition ineligible :: "string \<Rightarrow> py_exception" where
  "ineligible d = RuntimeInvocationError runtime_failure_category.CAPABILITY_INCOMPATIBLE d"

text \<open>A record for exactly the adapter and profiles in use.\<close>

definition acceptance_matches :: "acceptance_registry \<Rightarrow> runtime_profile \<Rightarrow> model_capability_profile \<Rightarrow>
    provider_adapter_identity \<Rightarrow> provider_acceptance_record \<Rightarrow> bool" where
  "acceptance_matches reg runtime cap adapter item \<longleftrightarrow>
     parec_adapter_version item = paide_adapter_version adapter \<and>
     parec_provider_sdk_version item = paide_provider_sdk_version adapter \<and>
     parec_capability_profile_digest item = profile_digest (areg_sha reg) (areg_order reg)
       (dump_without ''live_smoke_accepted'' (dump_model_capability_profile cap)) \<and>
     parec_runtime_profile_digest item = profile_digest (areg_sha reg) (areg_order reg) (dump_runtime_profile runtime)"

definition require_eligible :: "acceptance_registry \<Rightarrow> runtime_profile \<Rightarrow> model_capability_profile \<Rightarrow>
    provider_adapter_identity \<Rightarrow> provider_acceptance_record option fallible" where
  "require_eligible reg runtime cap adapter =
     (if rp_provider runtime = model_provider.FAKE
      then if \<not> mcp_adapter_contract_accepted cap
        then Inl (ineligible ''fake adapter contract has not been accepted'')
        else Inr None
      else if \<not> mcp_adapter_contract_accepted cap \<or> \<not> mcp_live_smoke_accepted cap
      then Inl (ineligible ''provider capability profile lacks accepted smoke evidence'')
      else let candidates = filter (\<lambda>item. parec_provider item = rp_provider runtime \<and>
             parec_model_identifier item = rp_model_identifier runtime) (areg_records reg)
        in case find (acceptance_matches reg runtime cap adapter) candidates of
             None \<Rightarrow> Inl (ineligible (if candidates = []
               then ''provider/model has no recorded live-smoke acceptance''
               else ''provider live-smoke acceptance is stale or incompatible''))
           | Some item \<Rightarrow> if paide_provider adapter \<noteq> rp_provider runtime
               then Inl (ineligible ''provider adapter identity is incompatible'')
               else Inr (Some item))"

section \<open>Assignments\<close>

record runtime_assignment =
  ra_descriptor :: agent_descriptor
  ra_runtime :: runtime_profile
  ra_capability :: model_capability_profile
  ra_retry_policy :: retry_policy
  ra_budget_policy :: ai_budget_policy
  ra_pricing :: pricing_profile
  ra_adapter_identity :: provider_adapter_identity

definition validate_runtime_assignment :: "runtime_assignment \<Rightarrow> bool" where
  "validate_runtime_assignment a \<longleftrightarrow>
     \<not> ad_runtime_profile_ref (ra_descriptor a) \<noteq> rp_profile_ref (ra_runtime a) \<and>
     \<not> ad_cost_policy_ref (ra_descriptor a) \<noteq> Some (abp_policy_ref (ra_budget_policy a)) \<and>
     \<not> rp_capability_profile_ref (ra_runtime a) \<noteq> mcp_profile_ref (ra_capability a) \<and>
     \<not> rp_retry_policy_ref (ra_runtime a) \<noteq> rpol_policy_ref (ra_retry_policy a) \<and>
     \<not> rp_cost_policy_ref (ra_runtime a) \<noteq> abp_policy_ref (ra_budget_policy a) \<and>
     \<not> rp_pricing_profile_ref (ra_runtime a) \<noteq> pp_profile_ref (ra_pricing a) \<and>
     \<not> (card {rp_provider (ra_runtime a), mcp_provider (ra_capability a), pp_provider (ra_pricing a),
          paide_provider (ra_adapter_identity a)} \<noteq> 1 \<or>
        card {rp_model_identifier (ra_runtime a), mcp_model_identifier (ra_capability a),
          pp_model_identifier (ra_pricing a)} \<noteq> 1)"

section \<open>The invoker\<close>

record ('l, 'w) runtime_invoker =
  ri_router :: "(role_context, 'l, 'w) runtime_router"
  ri_assignments :: "(agent_role \<times> runtime_assignment) list"
  ri_acceptance :: acceptance_registry
  ri_input_reference :: "agent_role \<Rightarrow> schema_reference"
  ri_body_reference :: "agent_role \<Rightarrow> schema_reference"

text \<open>\<open>isinstance(context, contract.input_type)\<close>.\<close>

fun is_role_input :: "agent_role \<Rightarrow> role_context \<Rightarrow> bool" where
  "is_role_input role (CtxSnapshot r x) \<longleftrightarrow> role = r"
| "is_role_input role (CtxEntry x) \<longleftrightarrow> role = agent_role.ENTRY_ANALYST"
| "is_role_input role (CtxQuantResearch x) \<longleftrightarrow> role = agent_role.QUANT_RESEARCHER"
| "is_role_input role (CtxQuantDeveloper x) \<longleftrightarrow> role = agent_role.SENIOR_QUANT_DEVELOPER"
| "is_role_input role (CtxSkeptic x) \<longleftrightarrow> role = agent_role.SKEPTIC"
| "is_role_input role (CtxChief x) \<longleftrightarrow> role = agent_role.CHIEF_TRADER"

primrec ctx_market :: "role_context \<Rightarrow> agent_market_view" where
  "ctx_market (CtxSnapshot r x) = sai_market x"
| "ctx_market (CtxEntry x) = eai_market x"
| "ctx_market (CtxQuantResearch x) = qri_market x"
| "ctx_market (CtxQuantDeveloper x) = qdi_market x"
| "ctx_market (CtxSkeptic x) = si_market x"
| "ctx_market (CtxChief x) = cti_market x"

text \<open>\<open>AgentInvocationRequest\<close> is validated when it is built.\<close>

definition fields_agent_invocation_request :: "'c agent_invocation_request \<Rightarrow> bool" where
  "fields_agent_invocation_request r \<longleftrightarrow>
     is_schema_version (air_schema_version r) \<and> is_identifier (air_invocation_id r) \<and>
     is_identifier (air_output_id r) \<and> is_cycle_id (air_cycle_id r) \<and> is_snapshot_id (air_snapshot_id r)"

definition validate_agent_invocation_request :: "trace \<Rightarrow> 'c agent_invocation_request \<Rightarrow> bool" where
  "validate_agent_invocation_request t r \<longleftrightarrow> \<not> (fst t \<noteq> air_cycle_id r \<or> snd t \<noteq> air_snapshot_id r)"

definition invocation_request :: "('l, 'w) runtime_invoker \<Rightarrow> agent_descriptor \<Rightarrow> agent_role \<Rightarrow> role_context \<Rightarrow> int \<Rightarrow>
    int option \<Rightarrow> role_context agent_invocation_request fallible" where
  "invocation_request agent d role ctx stage rnd =
     (let sha = rt_sha (ri_router agent); cycle = fst (ctx_trace ctx); snap = snd (ctx_trace ctx);
          invocation = logical_invocation_id sha cycle snap stage role rnd
      in build ''AgentInvocationRequest''
           (\<lambda>r. fields_agent_invocation_request r \<and> validate_agent_invocation_request (ctx_trace ctx) r)
         \<lparr>air_schema_version = ''1.0.0'', air_invocation_id = invocation,
          air_output_id = logical_output_id sha invocation, air_cycle_id = cycle, air_snapshot_id = snap,
          air_descriptor = d, air_requested_at = amv_snapshot_completed_at (ctx_market ctx),
          air_input_schema = ri_input_reference agent role, air_output_schema = ri_body_reference agent role,
          air_context = ctx\<rparr>)"

definition assignment_settings :: "runtime_assignment \<Rightarrow> invocation_settings" where
  "assignment_settings a = \<lparr>is_runtime = ra_runtime a, is_capability = ra_capability a,
     is_retry_policy = ra_retry_policy a, is_budget_policy = ra_budget_policy a, is_pricing = ra_pricing a\<rparr>"

definition invoker_invoke :: "('l, 'w) runtime_invoker \<Rightarrow> agent_role \<Rightarrow> role_context \<Rightarrow> int \<Rightarrow> int option \<Rightarrow>
    ('l \<times> 'w, invocation_result) op" where
  "invoker_invoke agent role ctx stage rnd = (case map_of (ri_assignments agent) role of
     None \<Rightarrow> raise_op (KeyError (value_agent_role role))
   | Some a \<Rightarrow>
       bind_op (lift_op (run_guards
         [(ad_role (ra_descriptor a) \<noteq> role, ValueError ''runtime assignment role does not match requested role''),
          (\<not> is_role_input role ctx, TypeError ''role context does not match its accepted M4 input contract'')])) (\<lambda>_.
       bind_op (lift_op (require_eligible (ri_acceptance agent) (ra_runtime a) (ra_capability a) (ra_adapter_identity a))) (\<lambda>_.
       bind_op (lift_op (invocation_request agent (ra_descriptor a) role ctx stage rnd)) (\<lambda>req.
       router_invoke (ri_router agent) req (assignment_settings a)))))"

end
