(* ===== verification/Providers.thy ===== *)
theory Providers
  imports Router
begin

text \<open>
  \<open>runtime/providers/base.py\<close> and \<open>prompts/registry.py\<close>: what every provider adapter does around its
  SDK transport, the classification of SDK exceptions, and the loading of the prompt manifest. The
  transports, \<open>asyncio.wait_for\<close>, TOML and the file system are parameters.
\<close>

section \<open>The adapter base\<close>

record 'w transport =
  trn_estimate :: "provider_request \<Rightarrow> ('w, token_estimate) op"
  trn_invoke :: "provider_request \<Rightarrow> ('w, provider_response) op"

record 'w adapter_base =
  ab_provider :: model_provider
  ab_api_key :: "string option"
  ab_create_transport :: "string \<Rightarrow> ('w, 'w transport) op"
  ab_wait_for :: "rat \<Rightarrow> ('w, provider_response) op \<Rightarrow> ('w, provider_response) op"

text \<open>The transport is created on first use and kept.\<close>

type_synonym 'w adapter_state = "'w transport option \<times> 'w"

definition on_world :: "('w, 'a) op \<Rightarrow> ('w adapter_state, 'a) op" where
  "on_world m s = (case m (snd s) of (x, w) \<Rightarrow> (x, (fst s, w)))"

definition get_transport :: "'w adapter_base \<Rightarrow> ('w adapter_state, 'w transport) op" where
  "get_transport a s = (case fst s of
     Some t \<Rightarrow> (Inr t, s)
   | None \<Rightarrow> (case ab_api_key a of
       None \<Rightarrow> (Inl (ProviderError runtime_failure_category.PROVIDER_UNAVAILABLE
         ''provider credentials are not configured'' False False), s)
     | Some key \<Rightarrow> if key = [] then (Inl (ProviderError runtime_failure_category.PROVIDER_UNAVAILABLE
           ''provider credentials are not configured'' False False), s)
         else (case ab_create_transport a key (snd s) of
             (Inl e, w) \<Rightarrow> (Inl e, (None, w)) | (Inr t, w) \<Rightarrow> (Inr t, (Some t, w)))))"

definition validate_request :: "'w adapter_base \<Rightarrow> provider_request \<Rightarrow> unit fallible" where
  "validate_request a q = run_guards [(preq_provider q \<noteq> ab_provider a,
     ProviderError runtime_failure_category.INVALID_REQUEST ''request provider does not match adapter'' False False)]"

definition base_prepare :: "'w adapter_base \<Rightarrow> ('w adapter_state, unit) op" where
  "base_prepare a = bind_op (get_transport a) (\<lambda>_. ret ())"

definition base_estimate :: "'w adapter_base \<Rightarrow> provider_request \<Rightarrow> ('w adapter_state, token_estimate) op" where
  "base_estimate a q = bind_op (lift_op (validate_request a q)) (\<lambda>_.
     bind_op (get_transport a) (\<lambda>t. on_world (trn_estimate t q)))"

definition invoke_error :: "py_exception \<Rightarrow> py_exception" where
  "invoke_error e = (case e of
     ProviderError c d retryable dispatched \<Rightarrow> e
   | TimeoutError \<Rightarrow> ProviderError runtime_failure_category.PROVIDER_TIMEOUT ''provider request timed out'' True True
   | _ \<Rightarrow> ProviderError runtime_failure_category.UNKNOWN_PROVIDER_ERROR ''provider request failed'' False True)"

definition base_invoke :: "'w adapter_base \<Rightarrow> provider_request \<Rightarrow> ('w adapter_state, provider_response) op" where
  "base_invoke a q = bind_op (lift_op (validate_request a q)) (\<lambda>_.
     bind_op (get_transport a) (\<lambda>t.
     try_op (on_world (ab_wait_for a (of_int (preq_timeout_seconds q)) (trn_invoke t q)))
       (\<lambda>e. raise_op (invoke_error e)) ret))"

section \<open>Estimates and usage\<close>

definition conservative_byte_estimate :: "provider_request \<Rightarrow> instant \<Rightarrow> token_estimate fallible" where
  "conservative_byte_estimate q t =
     (let material = preq_system_prompt q @ preq_context_json q @ preq_output_json_schema q
      in build ''TokenEstimate'' ok_token_estimate
        \<lparr>te_tokens = Some (int (length material) * 2 + 512), te_method = token_estimate_method.CONSERVATIVE_ESTIMATE,
         te_conservative = True, te_estimated_at = t\<rparr>)"

definition usage_item :: "int option \<Rightarrow> usage_value fallible" where
  "usage_item v = build ''UsageValue'' ok_usage_value \<lparr>uv_value = v,
     uv_availability = (if v \<noteq> None then metric_availability.REPORTED else metric_availability.UNAVAILABLE)\<rparr>"

definition reported_usage :: "int option \<Rightarrow> int option \<Rightarrow> int option \<Rightarrow> int option \<Rightarrow> invocation_usage fallible" where
  "reported_usage i c j k =
     bind_result (usage_item i) (\<lambda>i. bind_result (usage_item c) (\<lambda>c. bind_result (usage_item j) (\<lambda>j.
     bind_result (usage_item k) (\<lambda>k. Inr \<lparr>iu_input_tokens = i, iu_cached_input_tokens = c,
       iu_output_tokens = j, iu_reasoning_tokens = k\<rparr>))))"

section \<open>SDK exceptions\<close>

text \<open>What the code reads of an SDK exception: its status code, when it is an integer, and its class name.\<close>

record sdk_exception =
  sdk_status :: "int option"
  sdk_name :: string

definition has_substring :: "string \<Rightarrow> string \<Rightarrow> bool" where
  "has_substring sub s \<longleftrightarrow> list_ex (\<lambda>i. take (length sub) (drop i s) = sub) [0..<Suc (length s)]"

definition classify_provider_exception :: "sdk_exception \<Rightarrow> py_exception" where
  "classify_provider_exception e =
     (let status = sdk_status e; name = casefold (sdk_name e);
          cr = (if status = Some 401 \<or> has_substring ''authentication'' name
             then (runtime_failure_category.PROVIDER_AUTHENTICATION, False)
           else if status = Some 403 \<or> has_substring ''permission'' name
             then (runtime_failure_category.PROVIDER_PERMISSION, False)
           else if status = Some 429 \<or> has_substring ''ratelimit'' name \<or> has_substring ''resourceexhausted'' name
             then (runtime_failure_category.PROVIDER_RATE_LIMIT, True)
           else if status = Some 408 \<or> status = Some 504 \<or> has_substring ''timeout'' name
             then (runtime_failure_category.PROVIDER_TIMEOUT, True)
           else if (case status of None \<Rightarrow> False | Some n \<Rightarrow> n \<ge> 500)
             then (runtime_failure_category.PROVIDER_TRANSIENT, True)
           else (runtime_failure_category.UNKNOWN_PROVIDER_ERROR, False))
      in ProviderError (fst cr) ''provider request failed with a sanitized error'' (snd cr) True)"

section \<open>Prompts\<close>

text \<open>
  A manifest entry is a string dictionary. The files are a parameter: the directory of the manifest, the
  resolution of a name under it, reading, and UTF-8, with \<open>None\<close> for the exceptions the loader converts. A
  path is the list of its parts.
\<close>

record prompt_files =
  pf_root :: "string list"
  pf_resolve :: "string \<Rightarrow> string list option"
  pf_read_bytes :: "string list \<Rightarrow> string option"
  pf_decode :: "string \<Rightarrow> string option"

text \<open>\<open>path.relative_to(root)\<close> raises when the path is not under the root.\<close>

definition relative_to :: "string list \<Rightarrow> string list \<Rightarrow> bool" where
  "relative_to path base \<longleftrightarrow> take (length base) path = base"

definition parse_role :: "string \<Rightarrow> agent_role option" where
  "parse_role s = find (\<lambda>r. value_agent_role r = s)
     [agent_role.MARKET_CONTEXT, agent_role.TREND_ANALYST, agent_role.PRICE_ACTION_ANALYST, agent_role.ENTRY_ANALYST,
      agent_role.QUANT_RESEARCHER, agent_role.SENIOR_QUANT_DEVELOPER, agent_role.SKEPTIC, agent_role.CHIEF_TRADER,
      agent_role.PERFORMANCE_REVIEWER]"

definition invalid_artifact :: py_exception where
  "invalid_artifact = PromptRegistryError ''prompt artifact is invalid''"

definition present :: "'a option \<Rightarrow> 'a fallible" where
  "present x = (case x of None \<Rightarrow> Inl invalid_artifact | Some y \<Rightarrow> Inr y)"

text \<open>The identifier and the version are stripped by their types, and then checked.\<close>

definition prompt_artifact_of :: "sha \<Rightarrow> prompt_files \<Rightarrow> (agent_role \<Rightarrow> schema_reference) \<Rightarrow>
    (agent_role \<Rightarrow> schema_reference) \<Rightarrow> (string \<times> string) list \<Rightarrow> prompt_artifact fallible" where
  "prompt_artifact_of sha fs input_ref body_ref entry =
     bind_result (present (map_of entry ''role'')) (\<lambda>role_name.
     bind_result (present (parse_role role_name)) (\<lambda>role.
     bind_result (present (map_of entry ''file'')) (\<lambda>file.
     bind_result (present (pf_resolve fs file)) (\<lambda>path.
     if \<not> relative_to path (pf_root fs) then Inl invalid_artifact
     else bind_result (present (pf_read_bytes fs path)) (\<lambda>raw.
     if char_of (13 :: nat) \<in> set raw then Inl (PromptRegistryError ''prompt content must use LF line endings'')
     else bind_result (present (pf_decode fs raw)) (\<lambda>content.
     let digest = ''sha256:'' @ sha raw
     in bind_result (present (map_of entry ''content_digest'')) (\<lambda>expected.
     if digest \<noteq> expected then Inl (PromptRegistryError ''prompt content digest mismatch'')
     else bind_result (present (map_of entry ''prompt_id'')) (\<lambda>pid.
     bind_result (present (map_of entry ''prompt_version'')) (\<lambda>pv.
     let p = \<lparr>pa_prompt_id = strip_of is_space_char pid, pa_prompt_version = strip_of is_space_char pv,
           pa_role = role, pa_content = content, pa_content_digest = digest,
           pa_compatible_input_schema = input_ref role, pa_compatible_output_schema = body_ref role\<rparr>
     in if fields_prompt_artifact p then Inr p else Inl invalid_artifact)))))))))"

primrec load_artifacts :: "((string \<times> string) list \<Rightarrow> prompt_artifact fallible) \<Rightarrow> (string \<times> string) list list \<Rightarrow>
    (prompt_key \<times> prompt_artifact) list \<Rightarrow> (prompt_key \<times> prompt_artifact) list fallible" where
  "load_artifacts load [] artifacts = Inr artifacts"
| "load_artifacts load (entry # entries) artifacts =
     bind_result (load entry) (\<lambda>p. let key = (pa_prompt_id p, pa_prompt_version p)
       in if key \<in> fst ` set artifacts then Inl (PromptRegistryError ''duplicate prompt identity'')
          else load_artifacts load entries (artifacts @ [(key, p)]))"

definition load_prompts :: "sha \<Rightarrow> prompt_files \<Rightarrow> (agent_role \<Rightarrow> schema_reference) \<Rightarrow>
    (agent_role \<Rightarrow> schema_reference) \<Rightarrow> (string \<times> string) list list option \<Rightarrow>
    (prompt_key \<times> prompt_artifact) list fallible" where
  "load_prompts sha fs input_ref body_ref manifest = (case manifest of
     None \<Rightarrow> Inl (PromptRegistryError ''prompt manifest is invalid'')
   | Some entries \<Rightarrow> load_artifacts (prompt_artifact_of sha fs input_ref body_ref) entries [])"

end
