(* ===== verification/BudgetTheorems.thy ===== *)
theory BudgetTheorems
  imports BudgetLedger
begin

text \<open>
  Correctness of the budget ledgers: a run of calls never exceeds the daily and monthly budgets nor
  the call limits; a reservation moves forward through its states only; the SQLite ledger behaves
  as the one in memory; and the guard reserves the conservative maximum.
\<close>

section \<open>Sums in a rounding context\<close>

definition rounded_sum :: "(decimal \<Rightarrow> decimal) \<Rightarrow> decimal \<Rightarrow> decimal list \<Rightarrow> decimal" where
  "rounded_sum rd a xs = foldl (\<lambda>acc x. rd (acc + x)) a xs"

lemma rounded_sum_simps [simp]:
  "rounded_sum rd a [] = a"
  "rounded_sum rd a (x # xs) = rounded_sum rd (rd (a + x)) xs"
  by (simp_all add: rounded_sum_def)

lemma rounded_sum_snoc: "rounded_sum rd a (xs @ [x]) = rd (rounded_sum rd a xs + x)"
  by (simp add: rounded_sum_def)

context rounding_context
begin

lemma rounded_sum_mono_acc: "a \<le> b \<Longrightarrow> rounded_sum rd a xs \<le> rounded_sum rd b xs"
  by (induction xs arbitrary: a b) (simp_all add: rd_mono)

lemma rounded_sum_nonneg: "0 \<le> a \<Longrightarrow> (\<And>x. x \<in> set xs \<Longrightarrow> 0 \<le> x) \<Longrightarrow> 0 \<le> rounded_sum rd a xs"
  by (induction xs arbitrary: a) (simp_all add: rd_nonneg)

text \<open>
  Making selected summands smaller, or no longer selecting them, does not increase the rounded sum
  of the selected summands.
\<close>

lemma rounded_sum_thin:
  assumes "list_all2 (\<lambda>x y. (sel y \<longrightarrow> sel x \<and> w y \<le> w x) \<and> (sel x \<longrightarrow> 0 \<le> w x)) xs ys"
    and "a \<le> b" and "rd a = a"
  shows "rounded_sum rd a (map w (filter sel ys)) \<le> rounded_sum rd b (map w (filter sel xs))"
  using assms
proof (induction xs ys arbitrary: a b rule: list_all2_induct)
  case Nil
  then show ?case by simp
next
  case (Cons x xs y ys)
  have drop: "a \<le> rd (b + w x)" if "sel x"
    using Cons that rd_mono [of a "b + w x"] by fastforce
  have keep: "rd (a + w y) \<le> rd (b + w x)" if "sel y"
    using Cons that by (intro rd_mono) auto
  show ?case
    using Cons.IH [OF Cons.prems] Cons.IH [OF drop Cons.prems(2)] Cons.IH [OF keep rd_idem] Cons.hyps(1)
    by auto
qed

end

lemma total_charged_sum: "total_charged items = rounded_sum rd28 0 (map charged_amount items)"
  by (simp add: total_charged_def rounded_sum_def foldl_map)


lemma thinner_count:
  "list_all2 (\<lambda>x y. sel y \<longrightarrow> sel x) xs ys \<Longrightarrow> length (filter sel ys) \<le> length (filter sel xs)"
  by (induction rule: list_all2_induct) auto

section \<open>What a call may do to a reservation\<close>

text \<open>The transitions of a reservation, and their rank.\<close>

definition budget_allowed :: "budget_reservation_state \<Rightarrow> budget_reservation_state \<Rightarrow> bool" where
  "budget_allowed s t \<longleftrightarrow>
     (s, t) \<in> {(budget_reservation_state.RESERVED, budget_reservation_state.DISPATCHED),
       (budget_reservation_state.RESERVED, budget_reservation_state.RELEASED),
       (budget_reservation_state.DISPATCHED, budget_reservation_state.SETTLED),
       (budget_reservation_state.DISPATCHED, budget_reservation_state.RELEASED),
       (budget_reservation_state.DISPATCHED, budget_reservation_state.UNCERTAIN)}"

primrec budget_rank :: "budget_reservation_state \<Rightarrow> nat" where
  "budget_rank budget_reservation_state.RESERVED = 0"
| "budget_rank budget_reservation_state.DISPATCHED = 1"
| "budget_rank budget_reservation_state.SETTLED = 2"
| "budget_rank budget_reservation_state.RELEASED = 2"
| "budget_rank budget_reservation_state.UNCERTAIN = 2"

interpretation budget_lifecycle: ranked_lifecycle budget_allowed budget_rank
  by unfold_locales (auto simp: budget_allowed_def)

text \<open>
  A later version of a reservation: the same identity, amount and creation, an allowed transition,
  and a settled amount only in SETTLED and at most the reserved one.
\<close>

definition later_version :: "budget_reservation \<Rightarrow> budget_reservation \<Rightarrow> bool" where
  "later_version r r' \<longleftrightarrow>
     br_invocation_id r' = br_invocation_id r \<and> br_attempt_number r' = br_attempt_number r \<and>
     br_cycle_id r' = br_cycle_id r \<and> br_policy_ref r' = br_policy_ref r \<and>
     br_reserved_amount r' = br_reserved_amount r \<and> br_currency r' = br_currency r \<and>
     br_created_at r' = br_created_at r \<and> budget_allowed (br_state r) (br_state r') \<and>
     (if br_state r' = budget_reservation_state.SETTLED
      then \<exists>a. br_settled_amount r' = Some a \<and> 0 \<le> a \<and> a \<le> br_reserved_amount r
      else br_settled_amount r' = br_settled_amount r)"

definition same_or_later :: "budget_reservation \<Rightarrow> budget_reservation \<Rightarrow> bool" where
  "same_or_later r r' \<longleftrightarrow> r' = r \<or> later_version r r'"

text \<open>A well-formed reservation: valid fields, and a settled amount exactly when SETTLED.\<close>

definition wf_reservation :: "budget_reservation \<Rightarrow> bool" where
  "wf_reservation r \<longleftrightarrow> fields_budget_reservation r \<and>
     (br_settled_amount r \<noteq> None \<longleftrightarrow> br_state r = budget_reservation_state.SETTLED)"

lemma wf_later: "wf_reservation r \<Longrightarrow> later_version r r' \<Longrightarrow> wf_reservation r'"
  by (cases "br_state r'"; cases "br_state r")
    (auto simp: wf_reservation_def later_version_def fields_budget_reservation_def scalar_defs budget_allowed_def)

lemma charged_nonneg: "wf_reservation r \<Longrightarrow> 0 \<le> charged_amount r"
  by (auto simp: wf_reservation_def charged_amount_def fields_budget_reservation_def scalar_defs
      split: option.split)

lemma charged_later: "wf_reservation r \<Longrightarrow> later_version r r' \<Longrightarrow> charged_amount r' \<le> charged_amount r"
  by (cases "br_state r"; cases "br_state r'")
    (auto simp: wf_reservation_def charged_amount_def later_version_def budget_allowed_def split: option.splits)

lemma released_later: "later_version r r' \<Longrightarrow> br_state r \<noteq> budget_reservation_state.RELEASED"
  by (auto simp: later_version_def budget_allowed_def)

section \<open>Calls on the ledger in memory\<close>

definition wf_ledger :: "mem_ledger \<Rightarrow> bool" where
  "wf_ledger l \<longleftrightarrow> distinct (map fst l) \<and>
     (\<forall>(k, r) \<in> set l. k = reservation_key r \<and> wf_reservation r)"

definition evolves :: "mem_ledger \<Rightarrow> mem_ledger \<Rightarrow> bool" where
  "evolves l l' \<longleftrightarrow> list_all2 (\<lambda>(k, r) (k', r'). k' = k \<and> same_or_later r r') l l'"

lemma evolves_refl [simp]: "evolves l l"
  by (auto simp: evolves_def same_or_later_def list_all2_same)

lemma evolves_update:
  "distinct (map fst l) \<Longrightarrow> map_of l k = Some r \<Longrightarrow> later_version r r' \<Longrightarrow> evolves l (AList.update k r' l)"
proof (induction l)
  case (Cons x l)
  then show ?case
    by (cases x) (auto simp: evolves_def same_or_later_def list_all2_same)
qed simp

lemma evolves_wf:
  assumes "wf_ledger l" and "evolves l l'"
  shows "wf_ledger l'"
proof -
  have keys: "map fst l' = map fst l"
    using assms(2) unfolding evolves_def by (induction rule: list_all2_induct) auto
  have "k = reservation_key r \<and> wf_reservation r" if "(k, r) \<in> set l'" for k r
  proof -
    from that assms(2) obtain i where i: "i < length l" "l' ! i = (k, r)"
      by (auto simp: in_set_conv_nth evolves_def list_all2_conv_all_nth)
    obtain r0 where r0: "l ! i = (k, r0)" "same_or_later r0 r"
      using assms(2) i by (cases "l ! i") (auto simp: evolves_def list_all2_conv_all_nth)
    with assms(1) i have "k = reservation_key r0" "wf_reservation r0"
      by (force simp: wf_ledger_def in_set_conv_nth)+
    with r0(2) show ?thesis
      by (auto simp: same_or_later_def reservation_key_def later_version_def intro: wf_later)
  qed
  with keys assms(1) show ?thesis by (auto simp: wf_ledger_def)
qed

lemma mem_transition_evolves:
  assumes "wf_ledger l" and "mem_transition l iid n s t now = Inr (r, l')" and "budget_allowed s t"
    and "t \<noteq> budget_reservation_state.SETTLED"
  shows "evolves l l'"
  using assms
  by (auto simp: mem_transition_def mem_require_def result_simps Let_def wf_ledger_def later_version_def
      split: option.splits if_splits intro!: evolves_update)

lemma mem_settle_evolves:
  assumes "wf_ledger l" and "mem_settle l iid a n now = Inr (r, l')"
  shows "evolves l l'"
  using assms
  by (auto simp: mem_settle_def mem_require_def result_simps Let_def wf_ledger_def later_version_def
      budget_allowed_def split: option.splits if_splits intro!: evolves_update)

section \<open>The limits\<close>

definition within_limits :: "(string \<Rightarrow> ai_budget_policy) \<Rightarrow> budget_reservation list \<Rightarrow> bool" where
  "within_limits pol items \<longleftrightarrow>
     (\<forall>r. let p = pol (br_policy_ref r); active = filter (counts_against p) items
          in total_charged (filter (same_day r) active) \<le> abp_daily_budget p \<and>
             total_charged (filter (same_month r) active) \<le> abp_monthly_budget p \<and>
             int (length (filter (same_day r) active)) \<le> abp_maximum_calls_per_day p \<and>
             int (length (filter (\<lambda>x. br_cycle_id x = br_cycle_id r) active)) \<le> abp_maximum_calls_per_cycle p)"

text \<open>Policies are found under their own reference, and their limits are not negative.\<close>

definition policy_table :: "(string \<Rightarrow> ai_budget_policy) \<Rightarrow> bool" where
  "policy_table pol \<longleftrightarrow> (\<forall>ref. abp_policy_ref (pol ref) = ref \<and> 0 \<le> abp_daily_budget (pol ref) \<and>
     0 \<le> abp_monthly_budget (pol ref) \<and> 0 \<le> abp_maximum_calls_per_day (pol ref) \<and>
     0 \<le> abp_maximum_calls_per_cycle (pol ref))"

lemma total_charged_snoc: "total_charged (xs @ [x]) = rd28 (total_charged xs + charged_amount x)"
  by (simp add: total_charged_def)

lemma within_limits_Nil: "policy_table pol \<Longrightarrow> within_limits pol []"
  by (simp add: within_limits_def policy_table_def total_charged_def Let_def)

lemma evolves_thins:
  assumes "wf_ledger l" and "evolves l l'" and sel: "\<And>r r'. later_version r r' \<Longrightarrow> sel r' \<Longrightarrow> sel r"
  shows "list_all2 (\<lambda>x y. (sel y \<longrightarrow> sel x \<and> charged_amount y \<le> charged_amount x) \<and>
     (sel x \<longrightarrow> 0 \<le> charged_amount x)) (map snd l) (map snd l')"
proof -
  have "(sel y \<longrightarrow> sel x \<and> charged_amount y \<le> charged_amount x) \<and> (sel x \<longrightarrow> 0 \<le> charged_amount x)"
    if "wf_reservation x" "same_or_later x y" for x y
    using that sel charged_nonneg charged_later by (auto simp: same_or_later_def)
  with assms(1) show ?thesis
    unfolding list.rel_map
    by (intro list.rel_mono_strong [OF assms(2) [unfolded evolves_def]]) (auto simp: wf_ledger_def)
qed

lemma evolves_total:
  assumes "wf_ledger l" and "evolves l l'" and "\<And>r r'. later_version r r' \<Longrightarrow> sel r' \<Longrightarrow> sel r"
  shows "total_charged (filter sel (map snd l')) \<le> total_charged (filter sel (map snd l))"
  unfolding total_charged_sum
  by (rule ctx28.rounded_sum_thin [OF evolves_thins [of l l' sel, OF assms]]) (simp_all add: ctx28.rd_0)

lemma evolves_count:
  assumes "wf_ledger l" and "evolves l l'" and "\<And>r r'. later_version r r' \<Longrightarrow> sel r' \<Longrightarrow> sel r"
  shows "length (filter sel (map snd l')) \<le> length (filter sel (map snd l))"
  by (rule thinner_count, rule list_all2_mono [OF evolves_thins [of l l' sel, OF assms]]) blast+

lemma counts_against_later: "later_version r r' \<Longrightarrow> counts_against p r' \<Longrightarrow> counts_against p r"
  by (auto simp: counts_against_def later_version_def budget_allowed_def)

lemma evolves_within_limits:
  assumes "wf_ledger l" and "evolves l l'" and "within_limits pol (map snd l)"
  shows "within_limits pol (map snd l')"
proof -
  note t = evolves_total [OF assms(1,2)] and c = evolves_count [OF assms(1,2)]
  have sel: "total_charged (filter (\<lambda>x. counts_against p x \<and> f x) (map snd l')) \<le>
        total_charged (filter (\<lambda>x. counts_against p x \<and> f x) (map snd l))"
      "length (filter (\<lambda>x. counts_against p x \<and> f x) (map snd l')) \<le>
        length (filter (\<lambda>x. counts_against p x \<and> f x) (map snd l))"
    if "\<forall>r r'. later_version r r' \<longrightarrow> f r' \<longrightarrow> f r" for f and p :: ai_budget_policy
    using that counts_against_later by (blast intro!: t c)+
  have f: "\<forall>x y. later_version x y \<longrightarrow> same_day r y \<longrightarrow> same_day r x"
    "\<forall>x y. later_version x y \<longrightarrow> same_month r y \<longrightarrow> same_month r x"
    "\<forall>x y. later_version x y \<longrightarrow> br_cycle_id y = br_cycle_id r \<longrightarrow> br_cycle_id x = br_cycle_id r"
    for r :: budget_reservation
    by (auto simp: later_version_def same_day_def same_month_def)
  show ?thesis
    unfolding within_limits_def Let_def filter_filter
  proof (intro allI conjI)
    fix r :: budget_reservation
    let ?p = "pol (br_policy_ref r)"
    note w = assms(3) [unfolded within_limits_def Let_def filter_filter, rule_format, of r]
    note d = sel [of "same_day r" ?p, OF f(1)] and m = sel [of "same_month r" ?p, OF f(2)]
      and cy = sel [of "\<lambda>x. br_cycle_id x = br_cycle_id r" ?p, OF f(3)]
    from w d show "total_charged (filter (\<lambda>x. counts_against ?p x \<and> same_day r x) (map snd l')) \<le> abp_daily_budget ?p"
      by linarith
    from w m show "total_charged (filter (\<lambda>x. counts_against ?p x \<and> same_month r x) (map snd l')) \<le> abp_monthly_budget ?p"
      by linarith
    from w d show "int (length (filter (\<lambda>x. counts_against ?p x \<and> same_day r x) (map snd l'))) \<le> abp_maximum_calls_per_day ?p"
      by linarith
    from w cy show "int (length (filter (\<lambda>x. counts_against ?p x \<and> br_cycle_id x = br_cycle_id r) (map snd l'))) \<le>
        abp_maximum_calls_per_cycle ?p"
      by linarith
  qed
qed

section \<open>Runs of calls in memory\<close>

text \<open>What a client hands to the ledger: a new reservation, as the guard builds it.\<close>

definition fresh_reservation :: "budget_reservation \<Rightarrow> bool" where
  "fresh_reservation r \<longleftrightarrow> fields_budget_reservation r \<and>
     br_state r = budget_reservation_state.RESERVED \<and> br_settled_amount r = None"

fun proper_call :: "budget_call \<Rightarrow> bool" where
  "proper_call (CallReserve r) = fresh_reservation r"
| "proper_call _ = True"

lemma fresh_wf: "fresh_reservation r \<Longrightarrow> wf_reservation r"
  by (simp add: fresh_reservation_def wf_reservation_def)

lemma fresh_charged: "fresh_reservation r \<Longrightarrow> charged_amount r = br_reserved_amount r"
  by (simp add: fresh_reservation_def charged_amount_def)

lemma mem_reserve_ok:
  assumes "mem_reserve l r p = Inr (r', l')"
  shows "r' = r" and "l' = l @ [(reservation_key r, r)]"
    and "reservation_key r \<notin> fst ` set l"
    and "br_attempt_number r > 1 \<longrightarrow> (br_invocation_id r, br_attempt_number r - 1) \<in> fst ` set l"
    and "\<forall>(c, e) \<in> set (limit_guards (filter (counts_against p) (map snd l)) r p). \<not> c"
proof -
  from assms have g: "run_guards (attempt_guards (existing_attempts l (br_invocation_id r)) r) = Inr ()"
    "run_guards (limit_guards (filter (counts_against p) (map snd l)) r p) = Inr ()"
    and r: "r' = r" "l' = AList.update (reservation_key r) r l"
    by (auto simp: mem_reserve_def run_guards_append result_simps)
  from g(1) show new: "reservation_key r \<notin> fst ` set l"
    and "br_attempt_number r > 1 \<longrightarrow> (br_invocation_id r, br_attempt_number r - 1) \<in> fst ` set l"
    by (auto simp: attempt_guards_def existing_attempts_def reservation_key_def split: if_splits)
  from new r show "r' = r" "l' = l @ [(reservation_key r, r)]"
    by (simp_all add: dict_update_fresh map_of_eq_None_iff)
  from g(2) show "\<forall>(c, e) \<in> set (limit_guards (filter (counts_against p) (map snd l)) r p). \<not> c"
    by (simp add: run_guards_ok)
qed

lemma mem_reserve_wf:
  assumes "wf_ledger l" and "fresh_reservation r" and "mem_reserve l r p = Inr (r', l')"
  shows "wf_ledger l'"
  using assms(1) mem_reserve_ok(2,3) [OF assms(3)] fresh_wf [OF assms(2)] by (auto simp: wf_ledger_def)

lemma mem_reserve_within_limits:
  assumes pol: "policy_table pol" and fresh: "fresh_reservation r"
    and res: "mem_reserve l r (pol (br_policy_ref r)) = Inr (r', l')"
    and lim: "within_limits pol (map snd l)"
  shows "within_limits pol (map snd l')"
  unfolding within_limits_def Let_def
proof (intro allI conjI)
  fix x :: budget_reservation
  let ?p = "pol (br_policy_ref x)" and ?act = "filter (counts_against (pol (br_policy_ref x))) (map snd l)"
  have l': "map snd l' = map snd l @ [r]" using mem_reserve_ok(2) [OF res] by simp
  have counted: "counts_against ?p r \<longleftrightarrow> br_policy_ref x = br_policy_ref r"
    using fresh pol by (auto simp: counts_against_def fresh_reservation_def policy_table_def)
  note g = mem_reserve_ok(5) [OF res, unfolded limit_guards_def Let_def]
  note w = lim [unfolded within_limits_def Let_def, rule_format, of x]
  have day: "same_day x r \<Longrightarrow> same_day x = same_day r"
    and month: "same_month x r \<Longrightarrow> same_month x = same_month r"
    by (auto simp: same_day_def same_month_def fun_eq_iff)
  show "total_charged (filter (same_day x) (filter (counts_against ?p) (map snd l'))) \<le> abp_daily_budget ?p"
    using w g counted day by (auto simp: l' total_charged_snoc fresh_charged [OF fresh] not_less)
  show "total_charged (filter (same_month x) (filter (counts_against ?p) (map snd l'))) \<le> abp_monthly_budget ?p"
    using w g counted month by (auto simp: l' total_charged_snoc fresh_charged [OF fresh] not_less)
  show "int (length (filter (same_day x) (filter (counts_against ?p) (map snd l')))) \<le> abp_maximum_calls_per_day ?p"
    using w g counted day by (auto simp: l' not_le)
  show "int (length (filter (\<lambda>y. br_cycle_id y = br_cycle_id x) (filter (counts_against ?p) (map snd l')))) \<le>
      abp_maximum_calls_per_cycle ?p"
    using w g counted by (auto simp: l' not_le)
qed

definition attempts_consecutive :: "mem_ledger \<Rightarrow> bool" where
  "attempts_consecutive l \<longleftrightarrow> (\<forall>(iid, n) \<in> fst ` set l. 1 < n \<longrightarrow> (iid, n - 1) \<in> fst ` set l)"

lemma attempts_consecutive_iff:
  "attempts_consecutive l \<longleftrightarrow>
     (\<forall>iid n. (iid, n) \<in> set (map fst l) \<longrightarrow> 1 < n \<longrightarrow> (iid, n - 1) \<in> set (map fst l))"
  unfolding attempts_consecutive_def set_map by blast

lemma evolves_keys: "evolves l l' \<Longrightarrow> map fst l' = map fst l"
  unfolding evolves_def by (induction rule: list_all2_induct) auto

lemma evolves_consecutive: "evolves l l' \<Longrightarrow> attempts_consecutive l \<Longrightarrow> attempts_consecutive l'"
  using evolves_keys [of l l'] by (simp only: attempts_consecutive_iff)

lemma mem_reserve_consecutive:
  "mem_reserve l r p = Inr (r', l') \<Longrightarrow> attempts_consecutive l \<Longrightarrow> attempts_consecutive l'"
  using mem_reserve_ok(2,4) [of l r p r' l'] by (auto simp: attempts_consecutive_iff reservation_key_def)

text \<open>Every call of the ledger in memory either adds one reservation or moves one forward.\<close>

lemmas mem_call_defs = mem_ops_def mem_mark_dispatched_def mem_release_def mem_mark_uncertain_def
  mem_release_undispatched_attempt_def

lemma mem_call_cases:
  assumes "wf_ledger l" and "proper_call c" and "ledger_call mem_ops pol l c = Inr (r', l')"
  obtains (reserve) r where "c = CallReserve r" "fresh_reservation r"
      "mem_reserve l r (pol (br_policy_ref r)) = Inr (r', l')"
    | (advance) "evolves l l'"
proof (cases c)
  case (CallReserve r)
  with assms show thesis by (intro reserve) (simp_all add: mem_ops_def)
next
  case (CallSettle iid a n t)
  with assms(3) have "mem_settle l iid a n t = Inr (r', l')" by (simp add: mem_ops_def)
  then show thesis by (intro advance mem_settle_evolves [OF assms(1)])
qed (use assms(3) in \<open>auto simp: mem_call_defs budget_allowed_def
        intro!: advance mem_transition_evolves [OF assms(1)]\<close>)

text \<open>
  What a call that returns has done, exactly: a reservation call appended the reservation it was given,
  under a new key; any other call replaced one entry, that of the key it names, by the reservation it
  returns, a later version in the state the call is for.
\<close>

fun call_moves :: "budget_call \<Rightarrow> (ledger_key \<times> budget_reservation_state) option" where
  "call_moves (CallReserve r) = None"
| "call_moves (CallMarkDispatched iid n t) = Some ((iid, n), budget_reservation_state.DISPATCHED)"
| "call_moves (CallSettle iid a n t) = Some ((iid, n), budget_reservation_state.SETTLED)"
| "call_moves (CallRelease iid n t) = Some ((iid, n), budget_reservation_state.RELEASED)"
| "call_moves (CallMarkUncertain iid n t) = Some ((iid, n), budget_reservation_state.UNCERTAIN)"
| "call_moves (CallReleaseUndispatched iid n t) = Some ((iid, n), budget_reservation_state.RELEASED)"

definition adds :: "budget_call \<Rightarrow> budget_reservation \<Rightarrow> mem_ledger \<Rightarrow> mem_ledger \<Rightarrow> bool" where
  "adds c r l l' \<longleftrightarrow> c = CallReserve r \<and> fresh_reservation r \<and> reservation_key r \<notin> fst ` set l \<and>
     l' = l @ [(reservation_key r, r)]"

definition moves_one :: "budget_call \<Rightarrow> budget_reservation \<Rightarrow> mem_ledger \<Rightarrow> mem_ledger \<Rightarrow> bool" where
  "moves_one c r l l' \<longleftrightarrow> (\<exists>i k r0. i < length l \<and> l ! i = (k, r0) \<and> later_version r0 r \<and>
     call_moves c = Some (k, br_state r) \<and> l' = l[i := (k, r)])"

lemma dict_update_nth:
  "map_of l k = Some r \<Longrightarrow> \<exists>i < length l. l ! i = (k, r) \<and> AList.update k r' l = l[i := (k, r')]"
proof (induction l)
  case (Cons x l)
  show ?case
  proof (cases "fst x = k")
    case True
    with Cons.prems show ?thesis by (intro exI [of _ 0]) (cases x, auto)
  next
    case False
    with Cons obtain i where "i < length l" "l ! i = (k, r)" "AList.update k r' l = l[i := (k, r')]"
      by (cases x) auto
    with False show ?thesis by (intro exI [of _ "Suc i"]) (cases x, simp)
  qed
qed simp

lemma mem_transition_exact:
  assumes "mem_transition l iid n s t now = Inr (r, l')" and "budget_allowed s t"
    and "t \<noteq> budget_reservation_state.SETTLED"
  obtains r0 where "map_of l (iid, n) = Some r0" "later_version r0 r" "br_state r = t"
    "l' = AList.update (iid, n) r l"
  using assms
  by (auto simp: mem_transition_def mem_require_def result_simps Let_def later_version_def
      split: option.splits if_splits)

lemma mem_settle_exact:
  assumes "mem_settle l iid a n now = Inr (r, l')"
  obtains r0 where "map_of l (iid, n) = Some r0" "later_version r0 r"
    "br_state r = budget_reservation_state.SETTLED" "l' = AList.update (iid, n) r l"
  using assms
  by (auto simp: mem_settle_def mem_require_def result_simps Let_def later_version_def budget_allowed_def
      split: option.splits if_splits)

lemma moves_oneI:
  assumes "map_of l k = Some r0" and "later_version r0 r" and "l' = AList.update k r l"
    and "call_moves c = Some (k, br_state r)"
  shows "moves_one c r l l'"
  using dict_update_nth [OF assms(1), of r] assms(2-4) unfolding moves_one_def by metis

lemma mem_call_exact:
  assumes "proper_call c" and "ledger_call mem_ops pol l c = Inr (r, l')"
  shows "adds c r l l' \<or> moves_one c r l l'"
proof (cases c)
  case (CallReserve x)
  with assms have "mem_reserve l x (pol (br_policy_ref x)) = Inr (r, l')" "fresh_reservation x"
    by (simp_all add: mem_ops_def)
  with mem_reserve_ok(1-3) [OF this(1)] CallReserve show ?thesis by (simp add: adds_def)
next
  case (CallSettle iid a n t)
  with assms(2) have "mem_settle l iid a n t = Inr (r, l')" by (simp add: mem_ops_def)
  then show ?thesis by (rule mem_settle_exact) (rule disjI2, rule moves_oneI, auto simp: CallSettle)
qed (use assms(2) in \<open>auto simp: mem_call_defs budget_allowed_def intro!: moves_oneI
        elim!: mem_transition_exact\<close>)

definition ledger_ok :: "(string \<Rightarrow> ai_budget_policy) \<Rightarrow> mem_ledger \<Rightarrow> bool" where
  "ledger_ok pol l \<longleftrightarrow> wf_ledger l \<and> within_limits pol (map snd l) \<and> attempts_consecutive l"

lemma ledger_after_ok:
  assumes "policy_table pol" and "ledger_ok pol l" and "proper_call c"
  shows "ledger_ok pol (ledger_after mem_ops pol l c)"
proof (cases "ledger_call mem_ops pol l c")
  case (Inl e)
  with assms(2) show ?thesis by (simp add: ledger_after_def)
next
  case (Inr x)
  obtain r' l' where x: "x = (r', l')" by (cases x)
  with Inr have call: "ledger_call mem_ops pol l c = Inr (r', l')" by simp
  from assms(2) have wf: "wf_ledger l" by (simp add: ledger_ok_def)
  from mem_call_cases [OF wf assms(3) call] have "ledger_ok pol l'"
    using assms(1,2)
    by cases (auto simp: ledger_ok_def intro: mem_reserve_wf mem_reserve_within_limits
        mem_reserve_consecutive evolves_wf evolves_within_limits evolves_consecutive)
  with Inr x show ?thesis by (simp add: ledger_after_def)
qed

lemma ledger_run_snoc: "ledger_run ops pol l (cs @ [c]) = ledger_after ops pol (ledger_run ops pol l cs) c"
  by (simp add: ledger_run_def)

lemma ledger_run_ok:
  assumes "policy_table pol" and "list_all proper_call cs"
  shows "ledger_ok pol (ledger_run mem_ops pol [] cs)"
  using assms(2)
proof (induction cs rule: rev_induct)
  case Nil
  then show ?case
    using within_limits_Nil [OF assms(1)]
    by (simp add: ledger_run_def ledger_ok_def wf_ledger_def attempts_consecutive_def)
next
  case (snoc c cs)
  then show ?case by (simp add: ledger_run_snoc ledger_after_ok [OF assms(1)])
qed

section \<open>The interface of a ledger\<close>

text \<open>
  A ledger implementation: its operations, the reservations it shows, and its invariant. Each
  operation has the outcome of the one in memory on the shown reservations.
\<close>

definition simulates ::
  "('l \<Rightarrow> bool) \<Rightarrow> ('l \<Rightarrow> mem_ledger) \<Rightarrow> (budget_reservation \<times> mem_ledger) fallible \<Rightarrow>
     (budget_reservation \<times> 'l) fallible \<Rightarrow> bool" where
  "simulates valid view m m' \<longleftrightarrow>
     (case m of Inl e \<Rightarrow> m' = Inl e
      | Inr (r, l) \<Rightarrow> (\<exists>l'. m' = Inr (r, l') \<and> valid l' \<and> view l' = l))"

text \<open>What the client sees of a run: the reservation each call returned, or the exception it raised.\<close>

fun ledger_results ::
  "'l ledger_ops \<Rightarrow> (string \<Rightarrow> ai_budget_policy) \<Rightarrow> 'l \<Rightarrow> budget_call list \<Rightarrow> budget_reservation fallible list" where
  "ledger_results ops pol l [] = []"
| "ledger_results ops pol l (c # cs) =
     map_sum id fst (ledger_call ops pol l c) # ledger_results ops pol (ledger_after ops pol l c) cs"

locale budget_ledger =
  fixes ops :: "'l ledger_ops" and valid :: "'l \<Rightarrow> bool" and view :: "'l \<Rightarrow> mem_ledger" and empty :: 'l
  assumes empty_valid: "valid empty" and empty_view: "view empty = []"
    and view_wf: "valid l \<Longrightarrow> wf_ledger (view l)"
    and call_simulates: "valid l \<Longrightarrow> proper_call c \<Longrightarrow>
      simulates valid view (ledger_call mem_ops pol (view l) c) (ledger_call ops pol l c)"
begin

lemma after_simulates:
  assumes "valid l" and "proper_call c"
  shows "valid (ledger_after ops pol l c) \<and>
    view (ledger_after ops pol l c) = ledger_after mem_ops pol (view l) c"
  using call_simulates [OF assms, of pol] assms(1)
  by (auto simp: ledger_after_def simulates_def split: sum.splits)

lemma run_simulates:
  "list_all proper_call cs \<Longrightarrow>
     valid (ledger_run ops pol empty cs) \<and> view (ledger_run ops pol empty cs) = ledger_run mem_ops pol [] cs"
proof (induction cs rule: rev_induct)
  case Nil
  then show ?case by (simp add: ledger_run_def empty_valid empty_view)
next
  case (snoc c cs)
  then show ?case using after_simulates by (simp add: ledger_run_snoc)
qed

lemma run_ok: "policy_table pol \<Longrightarrow> list_all proper_call cs \<Longrightarrow> ledger_ok pol (view (ledger_run ops pol empty cs))"
  using run_simulates ledger_run_ok by simp

text \<open>Every call that returns adds one reservation or moves one forward along the lifecycle.\<close>

lemma call_advances:
  assumes "valid l" and "proper_call c" and "ledger_call ops pol l c = Inr (r, l')"
  shows "adds c r (view l) (view l') \<or> moves_one c r (view l) (view l')"
proof -
  from call_simulates [OF assms(1,2), of pol] assms(3)
  have "ledger_call mem_ops pol (view l) c = Inr (r, view l')"
    by (auto simp: simulates_def split: sum.splits)
  from mem_call_exact [OF assms(2) this] show ?thesis .
qed

text \<open>A run of calls gives the client the same answers as the ledger in memory.\<close>

lemma results_simulate:
  "valid l \<Longrightarrow> list_all proper_call cs \<Longrightarrow>
     ledger_results ops pol l cs = ledger_results mem_ops pol (view l) cs"
proof (induction cs arbitrary: l)
  case (Cons c cs)
  have "map_sum id fst (ledger_call ops pol l c) = map_sum id fst (ledger_call mem_ops pol (view l) c)"
    using call_simulates [of l c pol] Cons.prems by (auto simp: simulates_def split: sum.splits)
  moreover have "valid (ledger_after ops pol l c)"
    "view (ledger_after ops pol l c) = ledger_after mem_ops pol (view l) c"
    using after_simulates [of l c pol] Cons.prems by simp_all
  ultimately show ?case using Cons by simp
qed simp

end

text \<open>The ledger in memory is one, seen as it is.\<close>

interpretation mem_budget: budget_ledger mem_ops wf_ledger "\<lambda>l. l" "[]"
proof
  fix l pol c
  assume l: "wf_ledger l" and c: "proper_call c"
  show "simulates wf_ledger (\<lambda>l. l) (ledger_call mem_ops pol l c) (ledger_call mem_ops pol l c)"
  proof (cases "ledger_call mem_ops pol l c")
    case (Inr x)
    obtain r l' where x: "x = (r, l')" by (cases x)
    with Inr have "ledger_call mem_ops pol l c = Inr (r, l')" by simp
    from mem_call_cases [OF l c this] l have "wf_ledger l'"
      by cases (auto intro: mem_reserve_wf evolves_wf)
    with Inr x show ?thesis by (simp add: simulates_def)
  qed (simp add: simulates_def)
qed (simp_all add: wf_ledger_def)

section \<open>SQLite\<close>

text \<open>A row as a reservation, and the reservations a table shows.\<close>

definition row_model :: "budget_row \<Rightarrow> budget_reservation" where
  "row_model w = \<lparr>br_invocation_id = bw_invocation_id w, br_attempt_number = bw_attempt_number w,
     br_cycle_id = bw_cycle_id w, br_policy_ref = bw_policy_ref w,
     br_state = the (parse_budget_state (bw_state w)),
     br_reserved_amount = bw_reserved_amount w, br_settled_amount = bw_settled_amount w,
     br_currency = bw_currency w, br_created_at = bw_created_at w, br_updated_at = bw_updated_at w\<rparr>"

definition row_ok :: "budget_row \<Rightarrow> bool" where
  "row_ok w \<longleftrightarrow> bw_state w = value_budget_reservation_state (br_state (row_model w)) \<and> wf_reservation (row_model w)"

definition sql_view :: "sql_ledger \<Rightarrow> mem_ledger" where
  "sql_view l = map (\<lambda>w. (reservation_key (row_model w), row_model w)) l"

definition sql_valid :: "sql_ledger \<Rightarrow> bool" where
  "sql_valid l \<longleftrightarrow> distinct (map fst (sql_view l)) \<and> list_all row_ok l"

lemma row_to_model_ok:
  assumes "row_ok w"
  shows "row_to_model w = Inr (row_model w)"
proof -
  from assms obtain s where s: "parse_budget_state (bw_state w) = Some s"
    unfolding row_ok_def by (metis parse_budget_state_value)
  with assms show ?thesis
    by (simp add: row_to_model_def row_model_def row_ok_def wf_reservation_def)
qed

lemma rows_to_models_ok: "list_all row_ok ws \<Longrightarrow> rows_to_models ws = Inr (map row_model ws)"
  by (induction ws) (simp_all add: row_to_model_ok)

lemma row_model_fields [simp]:
  "br_invocation_id (row_model w) = bw_invocation_id w" "br_attempt_number (row_model w) = bw_attempt_number w"
  "br_policy_ref (row_model w) = bw_policy_ref w"
  by (simp_all add: row_model_def)

lemma sql_valid_wf: "sql_valid l \<Longrightarrow> wf_ledger (sql_view l)"
  by (auto simp: sql_valid_def wf_ledger_def sql_view_def list_all_iff row_ok_def)

lemma find_row: "map_of (sql_view l) (iid, n) = map_option row_model (find (row_is iid n) l)"
  by (induction l) (auto simp: sql_view_def reservation_key_def row_is_def)

lemma find_row_ok: "sql_valid l \<Longrightarrow> find (row_is iid n) l = Some w \<Longrightarrow> row_ok w \<and> row_is iid n w"
  by (auto simp: sql_valid_def list_all_iff find_Some_iff)

lemma sql_require_ok:
  assumes "sql_valid l"
  shows "sql_require l iid n = mem_require (sql_view l) iid n"
proof (cases "find (row_is iid n) l")
  case None
  then show ?thesis by (simp add: sql_require_def sql_get_def mem_require_def find_row)
next
  case (Some w)
  with row_to_model_ok find_row_ok [OF assms Some] show ?thesis
    by (simp add: sql_require_def sql_get_def mem_require_def find_row)
qed

lemma insort_key_map_row:
  "insort_key (\<lambda>x. snd (fst x)) (reservation_key (row_model w), row_model w)
     (map (\<lambda>w. (reservation_key (row_model w), row_model w)) ws) =
   map (\<lambda>w. (reservation_key (row_model w), row_model w)) (insort_key bw_attempt_number w ws)"
  by (induction ws) (simp_all add: reservation_key_def)

lemma sql_get_ok: "sql_valid l \<Longrightarrow> sql_get l iid n = Inr (mem_get (sql_view l) iid n)"
  using row_to_model_ok find_row_ok [of l iid n]
  by (auto simp: sql_get_def mem_get_def find_row split: option.split)

lemma sql_attempts_ok:
  assumes "sql_valid l"
  shows "sql_attempts l iid = Inr (mem_attempts (sql_view l) iid)"
proof -
  let ?rows = "sort_key bw_attempt_number (filter (\<lambda>w. bw_invocation_id w = iid) l)"
  have "list_all row_ok ?rows" using assms by (simp add: sql_valid_def list_all_iff)
  moreover have "sort_key (\<lambda>x. snd (fst x)) (map f ws) = map f (sort_key bw_attempt_number ws)"
    if f: "f = (\<lambda>w. (reservation_key (row_model w), row_model w))" for f ws
    by (induction ws) (simp_all add: f insort_key_map_row)
  ultimately show ?thesis
    by (simp add: sql_attempts_def mem_attempts_def rows_to_models_ok sql_view_def filter_sort filter_map
        comp_def reservation_key_def)
qed

lemma row_of_model: "fresh_reservation r \<Longrightarrow> row_ok (row_of r) \<and> row_model (row_of r) = r"
  by (cases r) (auto simp: row_of_def row_model_def row_ok_def fresh_reservation_def wf_reservation_def)

text \<open>An update of a row shows as the update of its reservation.\<close>

lemma sql_update_ok:
  assumes l: "sql_valid l" and w: "find (row_is iid n) l = Some w"
    and key: "row_is iid n (f w)" and ok: "row_ok (f w)"
  shows "sql_valid (sql_update f iid n l)"
    and "sql_view (sql_update f iid n l) = AList.update (iid, n) (row_model (f w)) (sql_view l)"
proof -
  have "sql_view (sql_update f iid n ws) = AList.update (iid, n) (row_model (f w)) (sql_view ws) \<and>
      (list_all row_ok ws \<longrightarrow> list_all row_ok (sql_update f iid n ws))"
    if "distinct (map fst (sql_view ws))" "find (row_is iid n) ws = Some w" for ws
    using that
  proof (induction ws)
    case (Cons v ws)
    show ?case
    proof (cases "row_is iid n v")
      case True
      then have "\<forall>u \<in> set ws. \<not> row_is iid n u"
        using Cons.prems(1) by (auto simp: sql_view_def row_is_def reservation_key_def image_iff)
      then have "map (\<lambda>u. if row_is iid n u then f u else u) ws = ws"
        by (intro map_idI) simp
      with True Cons.prems key ok show ?thesis
        by (auto simp: sql_update_def sql_view_def reservation_key_def row_is_def)
    next
      case False
      with Cons show ?thesis
        by (auto simp: sql_update_def sql_view_def reservation_key_def row_is_def)
    qed
  qed simp
  from this [of l] l w show view: "sql_view (sql_update f iid n l) = AList.update (iid, n) (row_model (f w)) (sql_view l)"
    and "sql_valid (sql_update f iid n l)"
    by (auto simp: sql_valid_def intro: distinct_dict_update)
qed

lemma sql_updated_require:
  assumes "sql_valid l'" and "sql_view l' = AList.update (iid, n) r m"
  shows "sql_require l' iid n = Inr r"
  by (simp add: sql_require_ok [OF assms(1)] assms(2) mem_require_def)

lemma row_ok_update:
  assumes "row_ok w" and "later_version (row_model w) (row_model w')"
    and "bw_state w' = value_budget_reservation_state (br_state (row_model w'))"
  shows "row_ok w'"
  using assms wf_later by (auto simp: row_ok_def)

lemma sql_transition_simulates:
  assumes l: "sql_valid l" and st: "budget_allowed s t" "t \<noteq> budget_reservation_state.SETTLED"
  shows "simulates sql_valid sql_view (mem_transition (sql_view l) iid n s t now) (sql_transition l iid n s t now)"
proof (cases "find (row_is iid n) l")
  case None
  then show ?thesis
    by (simp add: simulates_def sql_transition_def mem_transition_def sql_require_ok [OF l] mem_require_def find_row)
next
  case (Some w)
  then have req: "mem_require (sql_view l) iid n = Inr (row_model w)"
    by (simp add: mem_require_def find_row)
  show ?thesis
  proof (cases "br_state (row_model w) = s")
    case False
    with req show ?thesis
      by (simp add: simulates_def sql_transition_def mem_transition_def sql_require_ok [OF l])
  next
    case True
    let ?f = "\<lambda>w. w\<lparr>bw_state := value_budget_reservation_state t, bw_updated_at := now\<rparr>"
    have m: "row_model (?f w) = (row_model w)\<lparr>br_state := t, br_updated_at := now\<rparr>"
      by (simp add: row_model_def)
    from find_row_ok [OF l Some] have w: "row_ok w" "row_is iid n w" by auto
    have "row_ok (?f w)"
      by (rule row_ok_update [OF w(1)]) (use st True in \<open>auto simp: m later_version_def\<close>)
    moreover have "row_is iid n (?f w)" using w(2) by (simp add: row_is_def)
    ultimately have u: "sql_valid (sql_update ?f iid n l)"
      "sql_view (sql_update ?f iid n l) = AList.update (iid, n) (row_model (?f w)) (sql_view l)"
      by (auto intro: sql_update_ok [OF l Some])
    from req True u m sql_updated_require [OF u] show ?thesis
      by (simp add: simulates_def sql_transition_def mem_transition_def sql_require_ok [OF l] Let_def)
  qed
qed

lemma sql_settle_simulates:
  assumes l: "sql_valid l"
  shows "simulates sql_valid sql_view (mem_settle (sql_view l) iid a n now) (sql_settle l iid a n now)"
proof (cases "find (row_is iid n) l")
  case None
  then show ?thesis
    by (simp add: simulates_def sql_settle_def mem_settle_def sql_require_ok [OF l] mem_require_def find_row)
next
  case (Some w)
  then have req: "mem_require (sql_view l) iid n = Inr (row_model w)"
    by (simp add: mem_require_def find_row)
  show ?thesis
  proof (cases "br_state (row_model w) = budget_reservation_state.DISPATCHED \<and> 0 \<le> a \<and>
      a \<le> br_reserved_amount (row_model w)")
    case False
    with req show ?thesis
      by (auto simp: simulates_def sql_settle_def mem_settle_def sql_require_ok [OF l])
  next
    case True
    let ?f = "\<lambda>w. w\<lparr>bw_state := value_budget_reservation_state budget_reservation_state.SETTLED,
              bw_settled_amount := Some a, bw_updated_at := now\<rparr>"
    have m: "row_model (?f w) = (row_model w)\<lparr>br_state := budget_reservation_state.SETTLED,
        br_settled_amount := Some a, br_updated_at := now\<rparr>"
      by (simp add: row_model_def)
    from find_row_ok [OF l Some] have w: "row_ok w" "row_is iid n w" by auto
    have "later_version (row_model w) (row_model (?f w))"
      unfolding m using True by (simp add: later_version_def budget_allowed_def)
    then have "row_ok (?f w)"
      by (rule row_ok_update [OF w(1)]) (simp add: row_model_def)
    moreover have "row_is iid n (?f w)" using w(2) by (simp add: row_is_def)
    ultimately have u: "sql_valid (sql_update ?f iid n l)"
      "sql_view (sql_update ?f iid n l) = AList.update (iid, n) (row_model (?f w)) (sql_view l)"
      by (auto intro: sql_update_ok [OF l Some])
    from req True u m sql_updated_require [OF u] show ?thesis
      by (simp add: simulates_def sql_settle_def mem_settle_def sql_require_ok [OF l] Let_def not_less)
  qed
qed

lemma active_rows:
  assumes "sql_valid l"
  shows "rows_to_models (filter (\<lambda>w. bw_policy_ref w = abp_policy_ref p \<and>
             bw_state w \<noteq> value_budget_reservation_state budget_reservation_state.RELEASED) l) =
    Inr (filter (counts_against p) (map snd (sql_view l)))"
proof -
  have "(bw_policy_ref w = abp_policy_ref p \<and>
      bw_state w \<noteq> value_budget_reservation_state budget_reservation_state.RELEASED) =
      counts_against p (row_model w)" if "w \<in> set l" for w
  proof -
    from that assms have "bw_state w = value_budget_reservation_state (br_state (row_model w))"
      by (auto simp: sql_valid_def list_all_iff row_ok_def)
    then show ?thesis by (cases "br_state (row_model w)") (auto simp: counts_against_def)
  qed
  then have "filter (\<lambda>w. bw_policy_ref w = abp_policy_ref p \<and>
      bw_state w \<noteq> value_budget_reservation_state budget_reservation_state.RELEASED) l =
      filter (counts_against p \<circ> row_model) l"
    by (intro filter_cong) auto
  moreover have "list_all row_ok (filter (counts_against p \<circ> row_model) l)"
    using assms by (simp add: sql_valid_def list_all_iff)
  moreover have "map snd (sql_view l) = map row_model l" by (simp add: sql_view_def)
  ultimately show ?thesis
    by (simp add: rows_to_models_ok filter_map)
qed

lemma find_none_key: "find (row_is iid n) l = None \<longleftrightarrow> (iid, n) \<notin> fst ` set (sql_view l)"
  by (auto simp: find_None_iff sql_view_def row_is_def reservation_key_def image_iff)

lemma find_none_id: "find (\<lambda>w. bw_invocation_id w = iid) l = None \<longleftrightarrow> existing_attempts (sql_view l) iid = {}"
  by (force simp: find_None_iff sql_view_def existing_attempts_def reservation_key_def)

lemma sql_reserve_simulates:
  assumes l: "sql_valid l" and r: "fresh_reservation r"
  shows "simulates sql_valid sql_view (mem_reserve (sql_view l) r p) (sql_reserve l r p)"
proof -
  have guards: "[(find (row_is (br_invocation_id r) (br_attempt_number r)) l \<noteq> None \<or>
        (br_attempt_number r = 1 \<and> find (\<lambda>w. bw_invocation_id w = br_invocation_id r) l \<noteq> None),
       RuntimeInvocationError runtime_failure_category.DUPLICATE_INVOCATION
         ''invocation identity has already been reserved''),
      (br_attempt_number r > 1 \<and> find (row_is (br_invocation_id r) (br_attempt_number r - 1)) l = None,
       RuntimeInvocationError runtime_failure_category.INVALID_REQUEST
         ''provider attempts must be reserved consecutively'')] =
     attempt_guards (existing_attempts (sql_view l) (br_invocation_id r)) r"
    unfolding attempt_guards_def find_none_key find_none_id by (simp add: existing_attempts_def)
  have sql: "sql_reserve l r p = bind_result (run_guards
      (attempt_guards (existing_attempts (sql_view l) (br_invocation_id r)) r @
       limit_guards (filter (counts_against p) (map snd (sql_view l))) r p)) (\<lambda>_. Inr (r, l @ [row_of r]))"
    unfolding sql_reserve_def Let_def guards active_rows [OF l] run_guards_append bind_result_assoc
    by simp
  show ?thesis
  proof (cases "mem_reserve (sql_view l) r p")
    case (Inl e)
    then have "sql_reserve l r p = Inl e" by (auto simp: sql mem_reserve_def result_simps)
    with Inl show ?thesis by (simp add: simulates_def)
  next
    case (Inr x)
    obtain r' l' where x: "x = (r', l')" by (cases x)
    with Inr have mem: "mem_reserve (sql_view l) r p = Inr (r', l')" by simp
    then have "run_guards (attempt_guards (existing_attempts (sql_view l) (br_invocation_id r)) r @
        limit_guards (filter (counts_against p) (map snd (sql_view l))) r p) = Inr ()"
      by (auto simp: mem_reserve_def result_simps)
    then have "sql_reserve l r p = Inr (r, l @ [row_of r])" by (simp add: sql)
    moreover have "l' = sql_view (l @ [row_of r])" "r' = r"
      using mem_reserve_ok(1,2) [OF mem] row_of_model [OF r] by (simp_all add: sql_view_def)
    moreover have "sql_valid (l @ [row_of r])"
      using mem_reserve_ok(3) [OF mem] row_of_model [OF r] l
      by (auto simp: sql_valid_def sql_view_def image_iff)
    ultimately show ?thesis using mem by (auto simp: simulates_def)
  qed
qed

interpretation sql_budget: budget_ledger sql_ops sql_valid sql_view "[]"
proof
  fix l pol c
  assume l: "sql_valid l" and c: "proper_call c"
  show "simulates sql_valid sql_view (ledger_call mem_ops pol (sql_view l) c) (ledger_call sql_ops pol l c)"
  proof (cases c)
    case (CallReserve r)
    with c sql_reserve_simulates [OF l, of r] show ?thesis by (simp add: mem_ops_def sql_ops_def)
  next
    case (CallSettle iid a n t)
    with sql_settle_simulates [OF l] show ?thesis by (simp add: mem_ops_def sql_ops_def)
  qed (simp_all add: mem_call_defs sql_ops_def sql_mark_dispatched_def sql_release_def
      sql_mark_uncertain_def sql_release_undispatched_attempt_def
      sql_transition_simulates [OF l] budget_allowed_def)
qed (simp_all add: sql_valid_wf, simp_all add: sql_valid_def sql_view_def)

section \<open>Properties\<close>

text \<open>A policy and a run of calls to instantiate the properties on.\<close>

definition sample_policy :: "string \<Rightarrow> ai_budget_policy" where
  "sample_policy ref = \<lparr>abp_policy_ref = ref, abp_policy_version = ''1.0.0'', abp_currency = ''USD'',
     abp_maximum_estimated_cost_per_call = 5, abp_daily_budget = 10, abp_monthly_budget = 100,
     abp_maximum_calls_per_cycle = 3, abp_maximum_calls_per_day = 5,
     abp_maximum_input_tokens = 1000, abp_maximum_output_tokens = 500\<rparr>"

definition sample_reservation :: budget_reservation where
  "sample_reservation = \<lparr>br_invocation_id = ''inv-1'', br_attempt_number = 1, br_cycle_id = ''cycle-1'',
     br_policy_ref = ''policy-1'', br_state = budget_reservation_state.RESERVED, br_reserved_amount = 5,
     br_settled_amount = None, br_currency = ''USD'', br_created_at = 0, br_updated_at = 0\<rparr>"

definition sample_calls :: "budget_call list" where
  "sample_calls = [CallReserve sample_reservation, CallMarkDispatched ''inv-1'' 1 1,
     CallSettle ''inv-1'' 3 1 2, CallSettle ''inv-1'' 3 1 3]"

lemma sample_policy_table: "policy_table sample_policy"
  by (simp add: policy_table_def sample_policy_def)

lemma sample_reservation_fresh: "fresh_reservation sample_reservation"
  unfolding fresh_reservation_def fields_budget_reservation_def
  by (simp add: sample_reservation_def scalar_defs) code_simp

lemma sample_calls_proper: "list_all proper_call sample_calls"
  by (simp add: sample_calls_def sample_reservation_fresh)

text \<open>
  C7: after any run of ledger calls, whatever their order, timing and outcome, in
  memory or in SQLite, the reservations of every policy stay within its daily and monthly budgets
  and its calls per day and per cycle.
\<close>

theorem budget_never_exceeded:
  assumes "policy_table pol" and "list_all proper_call cs"
  shows "within_limits pol (map snd (ledger_run mem_ops pol [] cs)) \<and>
    within_limits pol (map row_model (ledger_run sql_ops pol [] cs))"
  using mem_budget.run_ok [OF assms] sql_budget.run_ok [OF assms]
  by (simp add: ledger_ok_def sql_view_def comp_def)

lemma budget_never_exceeded_witness:
  "within_limits sample_policy (map snd (ledger_run mem_ops sample_policy [] sample_calls))"
  using budget_never_exceeded [OF sample_policy_table sample_calls_proper] by blast

text \<open>
  C8: a client cannot tell the SQLite ledger from the one in memory. Over any run
  of calls each call returns the same reservation or raises the same exception; afterwards every row is
  readable, the rows show in order exactly the reservations of the ledger in memory, and \<open>get\<close> and
  \<open>attempts\<close> answer as they do there.
\<close>

theorem sqlite_ledger_refines_memory:
  assumes "list_all proper_call cs"
  shows "ledger_results sql_ops pol [] cs = ledger_results mem_ops pol [] cs \<and>
    (let l = ledger_run sql_ops pol [] cs; m = ledger_run mem_ops pol [] cs
     in rows_to_models l = Inr (map snd m) \<and> sql_get l iid n = Inr (mem_get m iid n) \<and>
        sql_attempts l iid = Inr (mem_attempts m iid))"
proof -
  from sql_budget.run_simulates [OF assms] have v: "sql_valid (ledger_run sql_ops pol [] cs)"
    and eq: "sql_view (ledger_run sql_ops pol [] cs) = ledger_run mem_ops pol [] cs" by blast+
  from v have "rows_to_models (ledger_run sql_ops pol [] cs) = Inr (map row_model (ledger_run sql_ops pol [] cs))"
    by (intro rows_to_models_ok) (simp add: sql_valid_def)
  moreover have "ledger_results sql_ops pol [] cs = ledger_results mem_ops pol [] cs"
    using sql_budget.results_simulate [OF sql_budget.empty_valid assms] by (simp add: sql_budget.empty_view)
  ultimately show ?thesis
    using sql_get_ok [OF v] sql_attempts_ok [OF v]
    by (simp add: Let_def eq [symmetric] sql_view_def comp_def)
qed

lemma sqlite_ledger_refines_memory_witness:
  "ledger_results sql_ops sample_policy [] sample_calls = ledger_results mem_ops sample_policy [] sample_calls \<and>
    rows_to_models (ledger_run sql_ops sample_policy [] sample_calls) =
     Inr (map snd (ledger_run mem_ops sample_policy [] sample_calls))"
  using sqlite_ledger_refines_memory [OF sample_calls_proper] by (simp add: Let_def)

text \<open>
  C9: a call that returns on a reachable SQLite ledger has had exactly one effect: it
  appended the reservation it was given, fresh and under a new key; or it replaced the one reservation it
  names by the one it returns, which is in the state the call is for, one allowed step further, with the
  same identity, reserved amount and creation time, settled only by \<open>settle\<close> and for an amount between
  zero and the reserved one. Every other reservation is as it was.
\<close>

theorem reservation_moves_forward:
  assumes "list_all proper_call cs" and "proper_call c"
    and "ledger_call sql_ops pol (ledger_run sql_ops pol [] cs) c = Inr (r, l')"
  shows "adds c r (sql_view (ledger_run sql_ops pol [] cs)) (sql_view l') \<or>
    moves_one c r (sql_view (ledger_run sql_ops pol [] cs)) (sql_view l')"
  using sql_budget.call_advances sql_budget.run_simulates [OF assms(1)] assms(2,3) by blast

lemma reservation_moves_forward_witness:
  "adds (CallReserve sample_reservation) sample_reservation (sql_view []) (sql_view [row_of sample_reservation]) \<or>
    moves_one (CallReserve sample_reservation) sample_reservation (sql_view []) (sql_view [row_of sample_reservation])"
proof -
  have "ledger_call sql_ops sample_policy (ledger_run sql_ops sample_policy [] []) (CallReserve sample_reservation) =
      Inr (sample_reservation, [row_of sample_reservation])"
    by (simp add: ledger_run_def sql_ops_def sql_reserve_def sample_reservation_def sample_policy_def
        limit_guards_def total_charged_def Let_def)
  from reservation_moves_forward [OF _ _ this] sample_calls_proper show ?thesis
    by (simp add: ledger_run_def sample_calls_def)
qed

text \<open>
  C10: in every reachable SQLite ledger a provider attempt after the first is there
  only together with the attempt before it, and no attempt is there twice.
\<close>

theorem attempts_reserved_in_order:
  assumes "policy_table pol" and "list_all proper_call cs"
  shows "attempts_consecutive (sql_view (ledger_run sql_ops pol [] cs)) \<and>
    distinct (map fst (sql_view (ledger_run sql_ops pol [] cs)))"
  using sql_budget.run_ok [OF assms] by (simp add: ledger_ok_def wf_ledger_def)

lemma attempts_reserved_in_order_witness:
  "attempts_consecutive (sql_view (ledger_run sql_ops sample_policy [] sample_calls))"
  using attempts_reserved_in_order [OF sample_policy_table sample_calls_proper] by blast

section \<open>The guard\<close>

lemma guard_reservation_facts:
  assumes "guard_reservation iid cycle runtime estimate policy pricing moment n = Inr r"
  obtains tokens where "te_tokens estimate = Some tokens" "tokens \<le> abp_maximum_input_tokens policy"
    "rp_max_output_tokens runtime \<le> abp_maximum_output_tokens policy"
    "pp_currency pricing = abp_currency policy" "pp_valid_from pricing \<le> moment"
    "\<forall>u. pp_valid_until pricing = Some u \<longrightarrow> moment < u"
    "br_reserved_amount r = estimate_maximum_cost tokens (rp_max_output_tokens runtime) pricing"
    "br_reserved_amount r \<le> abp_maximum_estimated_cost_per_call policy"
    "br_policy_ref r = abp_policy_ref policy" "reservation_key r = (iid, n)" "fresh_reservation r"
  using assms
  by (auto simp: guard_reservation_def result_simps Let_def fresh_reservation_def reservation_key_def
      not_le not_less split: option.splits if_splits)

lemma estimate_mono:
  assumes "fields_pricing_profile pricing" and "i \<le> i'" and "x \<le> x'"
  shows "estimate_maximum_cost i x pricing \<le> estimate_maximum_cost i' x' pricing"
proof -
  have pos: "0 \<le> pp_input_cost_per_million_tokens pricing" "0 \<le> pp_output_cost_per_million_tokens pricing"
    using assms(1) by (simp_all add: fields_pricing_profile_def scalar_defs)
  show ?thesis
    unfolding estimate_maximum_cost_def Let_def
    by (intro ctx28.rd_mono add_mono divide_right_mono mult_right_mono) (use pos assms(2,3) in simp_all)
qed

lemma estimate_nonneg:
  "fields_pricing_profile pricing \<Longrightarrow> 0 \<le> i \<Longrightarrow> 0 \<le> x \<Longrightarrow> 0 \<le> estimate_maximum_cost i x pricing"
  using estimate_mono [of pricing 0 i 0 x] by (simp add: estimate_maximum_cost_def)

text \<open>
  C11: when the guard reserves, the amount is the conservative maximum, within the
  per-call limit and the token limits; and once the attempt is dispatched, settling any usage of at
  most the estimated input and the configured maximum output succeeds.
\<close>

theorem reserved_cost_covers_usage:
  assumes pricing: "fields_pricing_profile pricing"
    and res: "guard_reserve mem_reserve l iid cycle runtime estimate policy pricing moment n = Inr (r, l')"
    and usage: "0 \<le> i" "0 \<le> x" "\<forall>t. te_tokens estimate = Some t \<longrightarrow> i \<le> t" "x \<le> rp_max_output_tokens runtime"
  shows "br_reserved_amount r \<le> abp_maximum_estimated_cost_per_call policy \<and>
    (\<exists>d l2 z l3. mem_mark_dispatched l' iid n t1 = Inr (d, l2) \<and>
       mem_settle l2 iid (estimate_reported_cost i x pricing) n t2 = Inr (z, l3) \<and>
       br_state z = budget_reservation_state.SETTLED \<and>
       charged_amount z = estimate_reported_cost i x pricing)"
proof -
  from res have g: "guard_reservation iid cycle runtime estimate policy pricing moment n = Inr r"
    and m: "mem_reserve l r policy = Inr (r, l')"
    by (auto simp: guard_reserve_def result_simps dest: mem_reserve_ok(1))
  obtain tokens where f: "te_tokens estimate = Some tokens"
    "br_reserved_amount r = estimate_maximum_cost tokens (rp_max_output_tokens runtime) pricing"
    "br_reserved_amount r \<le> abp_maximum_estimated_cost_per_call policy"
    "reservation_key r = (iid, n)" "fresh_reservation r"
    by (rule guard_reservation_facts [OF g])
  let ?c = "estimate_reported_cost i x pricing"
  have c: "0 \<le> ?c" "?c \<le> br_reserved_amount r"
    using estimate_nonneg [OF pricing usage(1,2)] estimate_mono [OF pricing _ usage(4), of i tokens] usage(3) f
    by (simp_all add: estimate_reported_cost_def)
  have "map_of l (iid, n) = None"
    using mem_reserve_ok(3) [OF m] f(4) by (simp add: map_of_eq_None_iff)
  then have "map_of l' (iid, n) = Some r"
    using mem_reserve_ok(2) [OF m] f(4) by (simp add: map_add_def)
  with c f(3,5) show ?thesis
    by (simp add: mem_mark_dispatched_def mem_transition_def mem_settle_def mem_require_def
        fresh_reservation_def charged_amount_def not_less Let_def)
qed

definition sample_runtime :: runtime_profile where
  "sample_runtime = \<lparr>rp_profile_ref = ''profile-1'', rp_profile_version = ''1.0.0'',
     rp_provider = model_provider.FAKE, rp_model_identifier = ''model-1'',
     rp_request_timeout_seconds = 30, rp_total_timeout_seconds = 90, rp_max_output_tokens = 500,
     rp_reasoning_effort = reasoning_effort.NONE, rp_require_structured_output = True,
     rp_require_json_schema = True, rp_capability_profile_ref = ''cap-1'',
     rp_retry_policy_ref = ''retry-1'', rp_cost_policy_ref = ''policy-1'',
     rp_pricing_profile_ref = ''price-1''\<rparr>"

definition sample_pricing :: pricing_profile where
  "sample_pricing = \<lparr>pp_profile_ref = ''price-1'', pp_profile_version = ''1.0.0'',
     pp_provider = model_provider.FAKE, pp_model_identifier = ''model-1'', pp_currency = ''USD'',
     pp_input_cost_per_million_tokens = 1000, pp_output_cost_per_million_tokens = 2000,
     pp_valid_from = 0, pp_valid_until = None\<rparr>"

definition sample_estimate :: token_estimate where
  "sample_estimate = \<lparr>te_tokens = Some 1000, te_method = token_estimate_method.CONSERVATIVE_ESTIMATE,
     te_conservative = True, te_estimated_at = 0\<rparr>"

lemma sample_pricing_ok: "fields_pricing_profile sample_pricing"
  unfolding fields_pricing_profile_def by (simp add: sample_pricing_def scalar_defs) code_simp

definition sample_guarded :: budget_reservation where
  "sample_guarded = sample_reservation\<lparr>br_reserved_amount := 2\<rparr>"

lemma sample_guarded_ok: "fields_budget_reservation sample_guarded"
  using sample_reservation_fresh
  by (simp add: fresh_reservation_def fields_budget_reservation_def sample_guarded_def scalar_defs)

lemma sample_guard_reserves:
  "guard_reserve mem_reserve [] ''inv-1'' ''cycle-1'' sample_runtime sample_estimate (sample_policy ''policy-1'')
     sample_pricing 0 1 = Inr (sample_guarded, [(reservation_key sample_guarded, sample_guarded)])"
  using sample_guarded_ok
  by (simp add: guard_reserve_def guard_reservation_def sample_runtime_def sample_estimate_def sample_policy_def
      sample_pricing_def estimate_maximum_cost_def mem_reserve_def attempt_guards_def existing_attempts_def
      limit_guards_def total_charged_def sample_guarded_def sample_reservation_def reservation_key_def
      build_def Let_def)

lemma reserved_cost_covers_usage_witness:
  "\<exists>d l2 z l3. mem_mark_dispatched [(reservation_key sample_guarded, sample_guarded)] ''inv-1'' 1 1 = Inr (d, l2) \<and>
     mem_settle l2 ''inv-1'' (estimate_reported_cost 900 400 sample_pricing) 1 2 = Inr (z, l3) \<and>
     br_state z = budget_reservation_state.SETTLED"
  using reserved_cost_covers_usage [OF sample_pricing_ok sample_guard_reserves, of 900 400 1 2]
  by (auto simp: sample_estimate_def sample_runtime_def)

end
