(* ===== verification/RouterTheorems.thy ===== *)
theory RouterTheorems
  imports Router BudgetTheorems Samples
begin

text \<open>
  What an invocation of the router does to the ledger and to the provider, over any ledger of the
  interface \<open>budget_ledger\<close>: every dispatch is paid by a reservation of its own attempt, made and
  marked before the dispatch; no other reservation is touched; and no reservation is left open when
  the invocation returns.
\<close>

section \<open>Observing the dispatches\<close>

text \<open>The router with an adapter that keeps the requests it was called with.\<close>

definition on_fst :: "('w, 'a) op \<Rightarrow> ('w \<times> 'log, 'a) op" where
  "on_fst m u = (case m (fst u) of (x, w) \<Rightarrow> (x, (w, snd u)))"

definition logged_adapter :: "'w provider_adapter \<Rightarrow> ('w \<times> provider_request list) provider_adapter" where
  "logged_adapter a = \<lparr>pad_provider = pad_provider a, pad_prepare = on_fst (pad_prepare a),
     pad_estimate = (\<lambda>q. on_fst (pad_estimate a q)),
     pad_invoke = (\<lambda>q t u. on_fst (pad_invoke a q t) (fst u, snd u @ [q]))\<rparr>"

definition logged_router :: "('c, 'l, 'w) runtime_router \<Rightarrow> ('c, 'l, 'w \<times> provider_request list) runtime_router" where
  "logged_router r = \<lparr>rt_sha = rt_sha r, rt_prompts = rt_prompts r,
     rt_providers = map (\<lambda>(p, a). (p, logged_adapter a)) (rt_providers r), rt_ledger = rt_ledger r,
     rt_clock = on_fst (rt_clock r), rt_monotonic = on_fst (rt_monotonic r),
     rt_milliseconds = rt_milliseconds r, rt_contract = rt_contract r, rt_context_json = rt_context_json r\<rparr>"

lemma logged_adapter_simps [simp]:
  "pad_provider (logged_adapter a) = pad_provider a" "pad_prepare (logged_adapter a) = on_fst (pad_prepare a)"
  "pad_estimate (logged_adapter a) q = on_fst (pad_estimate a q)"
  by (simp_all add: logged_adapter_def)

lemma logged_router_simps [simp]:
  "rt_ledger (logged_router r) = rt_ledger r" "rt_prompts (logged_router r) = rt_prompts r"
  "rt_contract (logged_router r) = rt_contract r" "rt_sha (logged_router r) = rt_sha r"
  by (simp_all add: logged_router_def)

text \<open>The clocks raise nothing, as those of the standard library.\<close>

definition steady_clocks :: "('c, 'l, 'w) runtime_router \<Rightarrow> bool" where
  "steady_clocks r \<longleftrightarrow> (\<forall>w e u. rt_clock r w \<noteq> (Inl e, u) \<and> rt_monotonic r w \<noteq> (Inl e, u))"

section \<open>Assertions\<close>

definition open_state :: "budget_reservation_state \<Rightarrow> bool" where
  "open_state s \<longleftrightarrow> s = budget_reservation_state.RESERVED \<or> s = budget_reservation_state.DISPATCHED"

definition keyed :: "budget_reservation \<Rightarrow> ledger_key \<times> budget_reservation" where
  "keyed x = (reservation_key x, x)"

definition closed_reservation :: "budget_reservation \<Rightarrow> bool" where
  "closed_reservation x \<longleftrightarrow> \<not> open_state (br_state x)"

text \<open>
  The ledger shows what it showed before, followed by the reservations of \<open>k\<close> attempts of the
  invocation; \<open>n\<close> requests were dispatched, each of a reservation that was marked.
\<close>

definition paid :: "('l \<Rightarrow> bool) \<Rightarrow> ('l \<Rightarrow> mem_ledger) \<Rightarrow> (string \<Rightarrow> ai_budget_policy) \<Rightarrow> mem_ledger \<Rightarrow> string \<Rightarrow>
    nat \<Rightarrow> nat \<Rightarrow> ('l, 'w \<times> provider_request list) router_state \<Rightarrow> bool" where
  "paid valid view pol before iid k n s \<longleftrightarrow>
     valid (rst_ledger s) \<and> ledger_ok pol (view (rst_ledger s)) \<and>
     view (rst_ledger s) = before @ map keyed (rst_reservations s) \<and>
     map reservation_key (rst_reservations s) = map (Pair iid) (py_range1 k) \<and>
     rst_attempts s = int k \<and> map preq_attempt (snd (rst_world s)) = py_range1 n"

text \<open>Between attempts, and while the last attempt's reservation is in the state \<open>st\<close>.\<close>

definition between where
  "between valid view pol before iid k s \<longleftrightarrow>
     paid valid view pol before iid k k s \<and> list_all closed_reservation (rst_reservations s)"

definition during where
  "during valid view pol before iid k n st s \<longleftrightarrow>
     paid valid view pol before iid k n s \<and> rst_reservations s \<noteq> [] \<and>
     list_all closed_reservation (butlast (rst_reservations s)) \<and> br_state (last (rst_reservations s)) = st"

lemma outcome_modify: "holds (\<lambda>s. R () (f s)) (modify f) (outcome E R)"
  by (simp add: holds_def modify_def)

lemma outcome_reading: "holds P (reading f) (outcome E (\<lambda>x s. P s \<and> x = f s))"
  by (simp add: holds_def reading_def)

text \<open>
  What holds whenever the invocation stops: every dispatch had its own marked reservation, at most
  one more was made, and an error that the router turns into a result leaves none open.
\<close>

definition marked :: "budget_reservation \<Rightarrow> bool" where
  "marked x \<longleftrightarrow> br_state x \<noteq> budget_reservation_state.RESERVED"

definition stopped where
  "stopped valid view pol before iid maximum e s \<longleftrightarrow> (\<exists>k n. k \<le> maximum \<and> n \<le> k \<and> k \<le> Suc n \<and>
     paid valid view pol before iid k n s \<and> list_all marked (take n (rst_reservations s)) \<and>
     (runtime_error e \<noteq> None \<longrightarrow> n = k \<and> list_all closed_reservation (rst_reservations s)))"

definition answered where
  "answered valid view pol before iid maximum s \<longleftrightarrow> (\<exists>k \<le> maximum.
     if rst_response s = None then between valid view pol before iid k s
     else during valid view pol before iid k k budget_reservation_state.DISPATCHED s)"

lemma stopped_exit:
  assumes "stopped valid view pol before iid maximum e s"
  shows "stopped valid view pol before iid maximum ProcessExit s"
proof -
  have "runtime_error ProcessExit = None" by (simp add: runtime_error_def)
  with assms show ?thesis unfolding stopped_def by metis
qed

lemma closed_marked: "list_all closed_reservation xs \<Longrightarrow> list_all marked xs"
  by (auto simp: list_all_iff closed_reservation_def marked_def open_state_def)

lemma between_stopped: "between valid view pol before iid k s \<Longrightarrow> k \<le> maximum \<Longrightarrow> stopped valid view pol before iid maximum e s"
  using closed_marked [of "take k (rst_reservations s)"]
  by (auto simp: stopped_def between_def list_all_iff dest: in_set_takeD intro!: exI [of _ k])

lemma paid_length: "paid valid view pol before iid k n s \<Longrightarrow> length (rst_reservations s) = k"
  using map_eq_imp_length_eq [of reservation_key "rst_reservations s" "Pair iid" "py_range1 k"]
  by (simp add: paid_def py_range1_def del: map_eq_imp_length_eq)

lemma during_closed:
  assumes "during valid view pol before iid k k st s" and "\<not> open_state st"
  shows "between valid view pol before iid k s"
proof -
  obtain xs x where "rst_reservations s = xs @ [x]"
    using assms(1) by (cases "rst_reservations s" rule: rev_cases) (simp_all add: during_def)
  with assms show ?thesis by (simp add: between_def during_def closed_reservation_def)
qed

lemma during_answered:
  "during valid view pol before iid k k budget_reservation_state.DISPATCHED s \<Longrightarrow> k \<le> maximum \<Longrightarrow>
     answered valid view pol before iid maximum (s\<lparr>rst_response := Some response\<rparr>)"
  by (auto simp: answered_def during_def paid_def)

lemma during_stopped:
  assumes "during valid view pol before iid k n st s" and "k \<le> maximum" and "runtime_error e = None"
    and "n = k \<and> st \<noteq> budget_reservation_state.RESERVED \<or> Suc n = k"
  shows "stopped valid view pol before iid maximum e s"
proof -
  have p: "paid valid view pol before iid k n s" and r: "rst_reservations s = butlast (rst_reservations s) @ [last (rst_reservations s)]"
    and m: "list_all marked (butlast (rst_reservations s))" and st: "br_state (last (rst_reservations s)) = st"
    using assms(1) closed_marked by (auto simp: during_def)
  have "list_all marked (take n (rst_reservations s))"
  proof (cases "n = k")
    case True
    with assms(4) st m paid_length [OF p] show ?thesis by (subst r) (auto simp: marked_def list_all_iff dest: in_set_takeD)
  next
    case False
    with assms(4) paid_length [OF p] m show ?thesis by (auto simp: butlast_conv_take)
  qed
  with p assms(2-4) show ?thesis unfolding stopped_def by (intro exI [of _ k] exI [of _ n]) auto
qed

text \<open>The calls that move the reservation of one attempt, and the state they move it to.\<close>

fun moving :: "string \<Rightarrow> int \<Rightarrow> budget_call \<Rightarrow> bool" where
  "moving iid n (CallMarkDispatched i m t) \<longleftrightarrow> i = iid \<and> m = n"
| "moving iid n (CallSettle i a m t) \<longleftrightarrow> i = iid \<and> m = n"
| "moving iid n (CallMarkUncertain i m t) \<longleftrightarrow> i = iid \<and> m = n"
| "moving iid n (CallReleaseUndispatched i m t) \<longleftrightarrow> i = iid \<and> m = n"
| "moving iid n _ \<longleftrightarrow> False"

fun target_state :: "budget_call \<Rightarrow> budget_reservation_state" where
  "target_state (CallReserve r) = budget_reservation_state.RESERVED"
| "target_state (CallMarkDispatched i m t) = budget_reservation_state.DISPATCHED"
| "target_state (CallSettle i a m t) = budget_reservation_state.SETTLED"
| "target_state (CallRelease i m t) = budget_reservation_state.RELEASED"
| "target_state (CallMarkUncertain i m t) = budget_reservation_state.UNCERTAIN"
| "target_state (CallReleaseUndispatched i m t) = budget_reservation_state.RELEASED"

section \<open>The last reservation of the ledger\<close>

lemma update_last [simp]: "k \<notin> fst ` set xs \<Longrightarrow> AList.update k v (xs @ [(k, u)]) = xs @ [(k, v)]"
  by (induction xs) auto

lemma mem_require_last [simp]:
  "(iid, n) \<notin> fst ` set xs \<Longrightarrow> mem_require (xs @ [((iid, n), u)]) iid n = Inr u"
  by (simp add: mem_require_def map_add_def map_of_eq_None_iff [THEN iffD2])

lemma reservation_key_update [simp]:
  "reservation_key (x\<lparr>br_state := st, br_updated_at := t\<rparr>) = reservation_key x"
  "reservation_key (x\<lparr>br_state := st, br_settled_amount := a, br_updated_at := t\<rparr>) = reservation_key x"
  by (simp_all add: reservation_key_def)

lemma mem_move:
  assumes "wf_ledger (before @ [keyed x])" and "reservation_key x = (iid, n)" and "moving iid n c"
    and "ledger_call mem_ops pol (before @ [keyed x]) c = Inr (y, l)"
  shows "l = before @ [keyed y] \<and> reservation_key y = (iid, n) \<and> br_state y = target_state c"
proof -
  from assms(1,2) have "(iid, n) \<notin> fst ` set before"
    by (auto simp: wf_ledger_def keyed_def)
  with assms(2-4) show ?thesis
    by (cases c) (auto simp: mem_call_defs mem_transition_def mem_settle_def keyed_def
        result_simps Let_def split: if_splits)
qed

lemma mem_move_fails:
  "ledger_call mem_ops pol l c = Inl e \<Longrightarrow> moving iid n c \<Longrightarrow> runtime_error e = None"
  by (cases c) (auto simp: mem_call_defs mem_transition_def mem_settle_def mem_require_def wrong_state_def
      runtime_error_def result_simps Let_def split: if_splits option.splits)

text \<open>A result leaves no reservation open and reports those of the invocation.\<close>

definition accounted where
  "accounted valid view pol before iid maximum x s \<longleftrightarrow> (\<exists>k \<le> maximum. between valid view pol before iid k s \<and>
     itel_attempt_reservations (ir_telemetry x) = rst_reservations s)"

lemma result_of_telemetry: "result_of trace answer failure category telemetry = Inr x \<Longrightarrow> ir_telemetry x = telemetry"
  by (auto simp: result_of_def build_def split: if_splits)

section \<open>Over any ledger\<close>

context budget_ledger
begin

lemma call_shown:
  assumes "valid l" and "proper_call c" and "ledger_call ops pol l c = Inr (x, l')"
  shows "valid l' \<and> ledger_call mem_ops pol (view l) c = Inr (x, view l')"
  using call_simulates [OF assms(1,2), of pol] assms(3) by (auto simp: simulates_def split: sum.splits)

lemma call_ok:
  assumes "policy_table pol" and "valid l" and "proper_call c" and "ledger_call ops pol l c = Inr (x, l')"
    and "ledger_ok pol (view l)"
  shows "ledger_ok pol (view l')"
  using ledger_after_ok [OF assms(1,5,3)] call_shown [OF assms(2-4)] by (simp add: ledger_after_def)

lemma call_fails:
  assumes "valid l" and "moving iid n c" and "ledger_call ops pol l c = Inl e"
  shows "runtime_error e = None"
proof -
  have "proper_call c" using assms(2) by (cases c) auto
  with call_simulates [OF assms(1), of c pol] assms(3)
  have "ledger_call mem_ops pol (view l) c = Inl e" by (auto simp: simulates_def split: sum.splits)
  with assms(2) show ?thesis by (rule mem_move_fails [rotated])
qed

text \<open>A new reservation comes after what the ledger shows; a move replaces the last one.\<close>

lemma reserve_last:
  assumes "policy_table pol" and "between valid view pol before iid k s" and "fresh_reservation x"
    and "reservation_key x = (iid, int (Suc k))" and "lo_reserve ops (rst_ledger s) x (pol (br_policy_ref x)) = Inr (y, l)"
  shows "during valid view pol before iid (Suc k) k budget_reservation_state.RESERVED
    (note_reserved (int (Suc k)) y (s\<lparr>rst_ledger := l\<rparr>))"
proof -
  have v: "valid (rst_ledger s)" "ledger_ok pol (view (rst_ledger s))"
    using assms(2) unfolding between_def paid_def by blast+
  have c: "proper_call (CallReserve x)" "ledger_call ops pol (rst_ledger s) (CallReserve x) = Inr (y, l)"
    using assms(3,5) by simp_all
  note shown = call_shown [OF v(1) c]
  from shown have m: "mem_reserve (view (rst_ledger s)) x (pol (br_policy_ref x)) = Inr (y, view l)"
    by (simp add: mem_ops_def)
  show ?thesis
    using assms(2-4) shown call_ok [OF assms(1) v(1) c v(2)] mem_reserve_ok(1,2) [OF m]
    by (auto simp: during_def between_def paid_def note_reserved_def keyed_def fresh_reservation_def py_range1_def)
qed

lemma move_last:
  assumes "policy_table pol" and "during valid view pol before iid k n st s" and "moving iid (int k) c"
    and "ledger_call ops pol (rst_ledger s) c = Inr (y, l)"
  shows "during valid view pol before iid k n (target_state c) (note_moved y (s\<lparr>rst_ledger := l\<rparr>))"
proof -
  define x where "x = last (rst_reservations s)"
  define xs where "xs = butlast (rst_reservations s)"
  have v: "valid (rst_ledger s)" "ledger_ok pol (view (rst_ledger s))"
    and keys: "map reservation_key (rst_reservations s) = map (Pair iid) (py_range1 k)"
    using assms(2) unfolding during_def paid_def by blast+
  have r: "rst_reservations s = xs @ [x]"
    using assms(2) by (simp add: during_def x_def xs_def)
  have k: "reservation_key x = (iid, int k)"
    using keys r by (cases k) (simp_all add: add.commute)
  have shows_x: "view (rst_ledger s) = (before @ map keyed xs) @ [keyed x]"
    using assms(2) r by (simp add: during_def paid_def)
  have p: "proper_call c" using assms(3) by (cases c) auto
  note shown = call_shown [OF v(1) p assms(4)]
  have m: "view l = (before @ map keyed xs) @ [keyed y] \<and> reservation_key y = (iid, int k) \<and> br_state y = target_state c"
    by (rule mem_move [OF view_wf [OF v(1), unfolded shows_x] k assms(3) conjunct2 [OF shown, unfolded shows_x]])
  show ?thesis
    using assms(2) shown call_ok [OF assms(1) v(1) p assms(4) v(2)] m r keys k
    by (auto simp: during_def paid_def note_moved_def)
qed

text \<open>The clocks, and a move of the running attempt's reservation at the present time.\<close>

lemma now_keeps:
  assumes "steady_clocks r" and "\<And>s w. P s \<Longrightarrow> P (s\<lparr>rst_world := (w, snd (rst_world s))\<rparr>)"
  shows "holds P (router_now (logged_router r)) (outcome (\<lambda>e s. P s \<and> runtime_error e = None) (\<lambda>_. P))"
  using assms
  by (auto simp: holds_def outcome_def router_now_def bind_op_def world_op_def logged_router_def on_fst_def
      raise_op_def ret_def steady_clocks_def runtime_error_def split: sum.splits prod.splits if_splits)

lemma monotonic_keeps:
  assumes "steady_clocks r" and "\<And>s w. P s \<Longrightarrow> P (s\<lparr>rst_world := (w, snd (rst_world s))\<rparr>)"
  shows "holds P (world_op (rt_monotonic (logged_router r))) (outcome (\<lambda>e s. P s \<and> runtime_error e = None) (\<lambda>_. P))"
  using assms
  by (auto simp: holds_def outcome_def world_op_def logged_router_def on_fst_def steady_clocks_def
      split: sum.splits prod.splits)

lemma paid_world [simp]:
  "paid valid view pol before iid k n (s\<lparr>rst_world := (w, snd (rst_world s))\<rparr>) =
     paid valid view pol before iid k n s"
  "during valid view pol before iid k n st (s\<lparr>rst_world := (w, snd (rst_world s))\<rparr>) =
     during valid view pol before iid k n st s"
  "between valid view pol before iid k (s\<lparr>rst_world := (w, snd (rst_world s))\<rparr>) =
     between valid view pol before iid k s"
  "between valid view pol before iid k (s\<lparr>rst_estimate := e\<rparr>) = between valid view pol before iid k s"
  by (simp_all add: paid_def during_def between_def)

lemma move_holds:
  assumes "policy_table pol" and "steady_clocks r" and "\<And>t. moving iid (int k) (c t)"
    and "\<And>l t. f l t = ledger_call ops pol l (c t)" and "\<And>t. target_state (c t) = st'"
  shows "holds (\<lambda>s. during valid view pol before iid k n st s \<and> rst_response s = a) (move_reservation (logged_router r) f)
    (outcome (\<lambda>e s. during valid view pol before iid k n st s \<and> runtime_error e = None)
      (\<lambda>_ s. during valid view pol before iid k n st' s \<and> rst_response s = a))"
    (is "holds ?P _ (outcome ?E ?R)")
  unfolding move_reservation_def
proof (rule outcome_bind)
  show "holds ?P (router_now (logged_router r)) (outcome ?E (\<lambda>_. ?P))"
    by (rule outcome_weaken [OF now_keeps [of _ ?P]]) (use assms(2) in auto)
next
  fix t
  show "holds ?P (bind_op (ledger_op (\<lambda>l. f l t)) (\<lambda>x. modify (note_moved x))) (outcome ?E ?R)"
  proof (rule outcome_bind)
    show "holds ?P (ledger_op (\<lambda>l. f l t)) (outcome ?E (\<lambda>x s. ?R () (note_moved x s)))"
    proof (rule holdsI)
      fix s q u
      assume s: "?P s" and run: "ledger_op (\<lambda>l. f l t) s = (q, u)"
      then have v: "valid (rst_ledger s)" by (simp add: during_def paid_def)
      show "outcome ?E (\<lambda>x s. ?R () (note_moved x s)) q u"
      proof (cases "f (rst_ledger s) t")
        case (Inl e)
        with run s call_fails [OF v assms(3), of pol t e] show ?thesis by (auto simp: ledger_op_def assms(4))
      next
        case (Inr y)
        with run s move_last [OF assms(1) conjunct1 [OF s] assms(3), of t "fst y" "snd y"] show ?thesis
          by (auto simp: ledger_op_def assms(4,5) note_moved_def split: prod.splits)
      qed
    qed
  next
    fix x
    show "holds (\<lambda>s. ?R () (note_moved x s)) (modify (note_moved x)) (outcome ?E ?R)"
      by (rule outcome_modify)
  qed
qed

text \<open>A dispatch, and the loop over the attempts.\<close>

lemma dispatch_holds:
  assumes "preq_attempt q = int (Suc k)"
  shows "holds (\<lambda>s. during valid view pol before iid (Suc k) k budget_reservation_state.DISPATCHED s \<and> rst_response s = None)
    (world_op (pad_invoke (logged_adapter a) q t))
    (\<lambda>_ s. during valid view pol before iid (Suc k) (Suc k) budget_reservation_state.DISPATCHED s \<and> rst_response s = None)"
  using assms
  by (auto simp: holds_def world_op_def logged_adapter_def on_fst_def during_def paid_def add.commute split: prod.splits)

lemma reserve_holds:
  assumes "policy_table pol" and "pol (abp_policy_ref policy) = policy"
  shows "holds (\<lambda>s. between valid view pol before iid k s \<and> rst_response s = None)
    (ledger_op (\<lambda>l. guard_reserve (lo_reserve ops) l iid cycle runtime estimate policy pricing t (int (Suc k))))
    (outcome (\<lambda>e s. between valid view pol before iid k s)
      (\<lambda>x s. during valid view pol before iid (Suc k) k budget_reservation_state.RESERVED (note_reserved (int (Suc k)) x s) \<and>
        rst_response (note_reserved (int (Suc k)) x s) = None))"
proof (rule holdsI)
  fix s q u
  assume s: "between valid view pol before iid k s \<and> rst_response s = None"
    and run: "ledger_op (\<lambda>l. guard_reserve (lo_reserve ops) l iid cycle runtime estimate policy pricing t (int (Suc k))) s = (q, u)"
  show "outcome (\<lambda>e s. between valid view pol before iid k s)
      (\<lambda>x s. during valid view pol before iid (Suc k) k budget_reservation_state.RESERVED (note_reserved (int (Suc k)) x s) \<and>
        rst_response (note_reserved (int (Suc k)) x s) = None) q u"
  proof (cases q)
    case (Inl e)
    with run s show ?thesis by (auto simp: ledger_op_def split: sum.splits prod.splits)
  next
    case (Inr y)
    with run obtain x l where x: "guard_reservation iid cycle runtime estimate policy pricing t (int (Suc k)) = Inr x"
      "lo_reserve ops (rst_ledger s) x policy = Inr (y, l)" and u: "u = s\<lparr>rst_ledger := l\<rparr>"
      by (auto simp: ledger_op_def guard_reserve_def result_simps split: sum.splits prod.splits)
    from x(1) have "br_policy_ref x = abp_policy_ref policy" "reservation_key x = (iid, int (Suc k))" "fresh_reservation x"
      by (auto elim: guard_reservation_facts)
    with reserve_last [OF assms(1) conjunct1 [OF s], of x y l] x(2) assms(2) s u Inr show ?thesis
      by (simp add: note_reserved_def)
  qed
qed

lemma loop_holds:
  fixes req :: "'c agent_invocation_request" and before :: mem_ledger and maximum :: nat
  assumes r: "rt_ledger r = ops" "steady_clocks r" and pol: "policy_table pol"
      "pol (abp_policy_ref (is_budget_policy settings)) = is_budget_policy settings"
  defines "S \<equiv> stopped valid view pol before (air_invocation_id req) maximum"
  defines "A \<equiv> answered valid view pol before (air_invocation_id req) maximum"
  shows "ns = map int [Suc k..<Suc maximum] \<Longrightarrow> k \<le> maximum \<Longrightarrow>
    holds (\<lambda>s. between valid view pol before (air_invocation_id req) k s \<and> rst_response s = None)
      (attempt_loop ns (logged_router r) req settings (logged_adapter a) q estimate base err)
      (outcome S (\<lambda>_. A))"
proof (induction ns arbitrary: k err)
  case Nil
  then show ?case by (auto simp: A_def answered_def intro!: outcome_ret)
next
  case (Cons n ns)
  let ?iid = "air_invocation_id req" and ?r = "logged_router r" and ?runtime = "is_runtime settings"
  let ?B = "\<lambda>j s. between valid view pol before ?iid j s \<and> rst_response s = None"
  let ?D = "\<lambda>n st s. during valid view pol before ?iid (Suc k) n st s \<and> rst_response s = None"
  from Cons.prems have k: "k < maximum" "n = int (Suc k)" "ns = map int [Suc (Suc k)..<Suc maximum]"
    by (auto simp: upt_rec [of "Suc k"] simp del: upt_Suc split: if_splits)
  have stop: "S e s" if "between valid view pol before ?iid j s" "j \<le> maximum" for e s j
    unfolding S_def by (rule between_stopped [OF that])
  have stop_during: "S e s" if "during valid view pol before ?iid (Suc k) m st s" "runtime_error e = None"
    "m = Suc k \<and> st \<noteq> budget_reservation_state.RESERVED \<or> m = k" for e s m st
    unfolding S_def using k(1) that by (intro during_stopped [OF that(1)]) auto
  have ends: "holds (?B j) (ret x) (outcome S (\<lambda>_. A))" if "j \<le> maximum" for j x
    using that by (auto simp: A_def answered_def intro!: outcome_ret)
  have monotonic: "holds (?B k) (world_op (rt_monotonic ?r)) (outcome S (\<lambda>_. ?B k))"
    by (rule outcome_weaken [OF monotonic_keeps [OF r(2), of "?B k"]]) (use k(1) stop in auto)
  have now: "holds (?B k) (router_now ?r) (outcome S (\<lambda>_. ?B k))"
    by (rule outcome_weaken [OF now_keeps [OF r(2), of "?B k"]]) (use k(1) stop in auto)
  have reserve: "holds (?B k) (ledger_op (\<lambda>l. guard_reserve (lo_reserve (rt_ledger ?r)) l ?iid (air_cycle_id req) ?runtime
      estimate (is_budget_policy settings) (is_pricing settings) t n))
    (outcome S (\<lambda>x s. ?D k budget_reservation_state.RESERVED (note_reserved n x s)))" for t
    unfolding k(2) logged_router_simps r(1)
    by (rule outcome_weaken [OF reserve_holds [OF pol]]) (use k(1) stop in auto)
  have mark: "holds (?D k budget_reservation_state.RESERVED)
      (move_reservation ?r (\<lambda>l. lo_mark_dispatched (rt_ledger ?r) l ?iid n))
      (outcome S (\<lambda>_. ?D k budget_reservation_state.DISPATCHED))"
    by (rule outcome_weaken [OF move_holds [OF pol(1) r(2), where c = "CallMarkDispatched ?iid n"]])
      (use r(1) k(2) stop_during in auto)
  have close: "holds (?D (Suc k) budget_reservation_state.DISPATCHED)
      (move_reservation ?r (\<lambda>l. if d then lo_mark_uncertain (rt_ledger ?r) l ?iid n
         else lo_release_undispatched (rt_ledger ?r) l ?iid n))
      (outcome S (\<lambda>_. ?B (Suc k)))" for d
    by (rule outcome_weaken [OF move_holds [OF pol(1) r(2),
        where c = "if d then CallMarkUncertain ?iid n else CallReleaseUndispatched ?iid n"
          and st' = "if d then budget_reservation_state.UNCERTAIN else budget_reservation_state.RELEASED"]])
      (use r(1) k(2) stop_during in \<open>auto intro!: during_closed simp: open_state_def split: if_splits\<close>)
  have failed: "holds (?D (Suc k) budget_reservation_state.DISPATCHED)
      (case provider_failure e of (category, detail, retryable, dispatched) \<Rightarrow>
         bind_op (move_reservation ?r (\<lambda>l. if dispatched then lo_mark_uncertain (rt_ledger ?r) l ?iid n
             else lo_release_undispatched (rt_ledger ?r) l ?iid n))
           (\<lambda>_. if \<not> retry_allowed category retryable (is_retry_policy settings) \<or>
                  rpol_max_attempts (is_retry_policy settings) \<le> n
                then ret (Some (ProviderError category detail retryable dispatched))
                else attempt_loop ns ?r req settings (logged_adapter a) q estimate base
                  (Some (ProviderError category detail retryable dispatched))))
      (outcome S (\<lambda>_. A))" for e
    using k(1) by (cases "provider_failure e")
      (auto intro!: outcome_bind [OF close] holds_if ends Cons.IH [OF k(3)])
  have answer: "holds (?D (Suc k) budget_reservation_state.DISPATCHED)
      (bind_op (modify (\<lambda>s. s\<lparr>rst_response := Some response\<rparr>)) (\<lambda>_. ret None)) (outcome S (\<lambda>_. A))" for response
    using k(1) by (auto simp: holds_def bind_op_def modify_def ret_def A_def intro: during_answered)
  have call: "holds (?D k budget_reservation_state.DISPATCHED)
      (try_op (world_op (pad_invoke (logged_adapter a) (q\<lparr>preq_attempt := n\<rparr>) t)) h g) (outcome S (\<lambda>_. A))"
    if "\<And>e. holds (?D (Suc k) budget_reservation_state.DISPATCHED) (h e) (outcome S (\<lambda>_. A))"
      and "\<And>x. holds (?D (Suc k) budget_reservation_state.DISPATCHED) (g x) (outcome S (\<lambda>_. A))" for t h g
    by (rule holds_try [OF holds_weaken [OF dispatch_holds] that])
      (use k(2) stop_during [of "Suc k" _ _ ProcessExit] in \<open>auto simp: runtime_error_def split: sum.split\<close>)
  show ?case
    unfolding attempt_loop.simps Let_def
    by (intro outcome_bind [OF monotonic] holds_if ends outcome_bind [OF now] outcome_bind [OF reserve]
        outcome_bind [OF outcome_modify] outcome_bind [OF mark] call failed answer)
      (use k(1) in simp_all)
qed

text \<open>The answer, the body of the invocation, and a failed result.\<close>

lemma telemetry_reservations:
  "router_telemetry usage estimate n latency pricing rs q st = Inr x \<Longrightarrow> itel_attempt_reservations x = rs"
  by (auto simp: router_telemetry_def Let_def build_def split: if_splits)

lemma telemetry_holds:
  assumes "steady_clocks r" and "\<And>s w. P s \<Longrightarrow> P (s\<lparr>rst_world := (w, snd (rst_world s))\<rparr>)"
    and "\<And>e s. P s \<Longrightarrow> E e s"
  shows "holds P (state_telemetry (logged_router r) settings base)
    (outcome E (\<lambda>x s. P s \<and> itel_attempt_reservations x = rst_reservations s))"
  unfolding state_telemetry_def
proof (rule outcome_bind)
  show "holds P (world_op (rt_monotonic (logged_router r))) (outcome E (\<lambda>_. P))"
    by (rule outcome_weaken [OF monotonic_keeps [OF assms(1), of P]]) (use assms in auto)
  show "holds P (bind_op (reading id) (\<lambda>s. lift_op (router_telemetry
       (case rst_response s of None \<Rightarrow> no_usage | Some x \<Rightarrow> pres_usage x) (rst_estimate s) (rst_attempts s)
       (rt_milliseconds (logged_router r) (clock - base)) (is_pricing settings) (rst_reservations s)
       (case rst_response s of None \<Rightarrow> None | Some x \<Rightarrow> pres_provider_request_id x) (rst_reservation_state s))))
    (outcome E (\<lambda>x s. P s \<and> itel_attempt_reservations x = rst_reservations s))" for clock
    using assms(3)
    by (auto simp: holds_def outcome_def bind_op_def reading_def lift_op_def dest: telemetry_reservations
        split: sum.split)
qed

lemma result_holds:
  assumes "steady_clocks r" and "k \<le> maximum"
  shows "holds (between valid view pol before iid k)
    (bind_op (state_telemetry (logged_router r) settings base) (\<lambda>telemetry.
       lift_op (result_of trace answer failure category telemetry)))
    (outcome (stopped valid view pol before iid maximum) (accounted valid view pol before iid maximum))"
proof (rule outcome_bind [OF telemetry_holds [OF assms(1)]])
  show "holds (\<lambda>s. between valid view pol before iid k s \<and> itel_attempt_reservations telemetry = rst_reservations s)
    (lift_op (result_of trace answer failure category telemetry))
    (outcome (stopped valid view pol before iid maximum) (accounted valid view pol before iid maximum))" for telemetry
    using assms(2) by (auto simp: holds_def lift_op_def outcome_def accounted_def between_stopped
        dest: result_of_telemetry split: sum.split)
qed (auto intro: between_stopped assms(2))

lemma failed_holds:
  assumes "steady_clocks r" and "k \<le> maximum"
  shows "holds (between valid view pol before iid k) (failed_result (logged_router r) req settings started base category detail)
    (outcome (stopped valid view pol before iid maximum) (accounted valid view pol before iid maximum))"
proof -
  let ?B = "between valid view pol before iid k" and ?S = "stopped valid view pol before iid maximum"
  have now: "holds ?B (router_now (logged_router r)) (outcome ?S (\<lambda>_. ?B))"
    by (rule outcome_weaken [OF now_keeps [OF assms(1), of ?B]]) (auto intro: between_stopped assms(2))
  have lift: "holds ?B (lift_op x) (outcome ?S (\<lambda>_. ?B))" for x :: "'x fallible"
    by (rule outcome_weaken [OF outcome_lift [where P = ?B]]) (auto intro: between_stopped assms(2))
  have attempts: "holds ?B (reading rst_attempts) (outcome ?S (\<lambda>_. ?B))"
    by (rule outcome_weaken [OF outcome_reading]) auto
  show ?thesis
    unfolding failed_result_def
    by (intro outcome_bind [OF now] outcome_bind [OF attempts] outcome_bind [OF lift] result_holds assms)
qed

lemma answer_holds:
  assumes r: "rt_ledger r = ops" "steady_clocks r" and pol: "policy_table pol" and k: "k \<le> maximum"
  shows "holds (\<lambda>s. during valid view pol before (air_invocation_id req) k k budget_reservation_state.DISPATCHED s \<and>
      rst_response s = Some response)
    (answer_result (logged_router r) req settings prompt started base response)
    (outcome (stopped valid view pol before (air_invocation_id req) maximum)
      (accounted valid view pol before (air_invocation_id req) maximum))"
    (is "holds ?P _ (outcome ?S ?R)")
proof -
  let ?iid = "air_invocation_id req"
  let ?B = "between valid view pol before ?iid k"
  have now: "holds ?B (router_now (logged_router r)) (outcome ?S (\<lambda>_. ?B))"
    by (rule outcome_weaken [OF now_keeps [OF r(2), of ?B]]) (auto intro: between_stopped k)
  have lift: "holds ?B (lift_op x) (outcome ?S (\<lambda>_. ?B))" for x :: "'x fallible"
    by (rule outcome_weaken [OF outcome_lift [where P = ?B]]) (auto intro: between_stopped k)
  have attempts: "holds ?P (reading rst_attempts) (outcome ?S (\<lambda>n s. ?P s \<and> n = int k))"
    by (rule outcome_weaken [OF outcome_reading]) (auto simp: during_def paid_def)
  have move: "holds ?P (move_reservation (logged_router r) (\<lambda>l t. case cost of
         None \<Rightarrow> lo_mark_uncertain (rt_ledger (logged_router r)) l ?iid (int k) t
       | Some a \<Rightarrow> lo_settle (rt_ledger (logged_router r)) l ?iid a (int k) t)) (outcome ?S (\<lambda>_. ?B))" for cost
    by (rule outcome_weaken [OF move_holds [OF pol r(2),
        where c = "\<lambda>t. case cost of None \<Rightarrow> CallMarkUncertain ?iid (int k) t | Some a \<Rightarrow> CallSettle ?iid a (int k) t"
          and st' = "case cost of None \<Rightarrow> budget_reservation_state.UNCERTAIN | Some a \<Rightarrow> budget_reservation_state.SETTLED"]])
      (use r(1) k in \<open>auto intro!: during_closed during_stopped simp: open_state_def split: option.splits\<close>)
  show ?thesis
    unfolding answer_result_def
    by (intro outcome_bind [OF attempts] hoare_pure)
      (simp, intro outcome_bind [OF move] outcome_bind [OF now] outcome_bind [OF lift] result_holds r k)
qed

lemma body_holds:
  fixes req :: "'c agent_invocation_request"
  assumes r: "rt_ledger r = ops" "steady_clocks r" and pol: "policy_table pol"
      "pol (abp_policy_ref (is_budget_policy settings)) = is_budget_policy settings"
    and m: "maximum = nat (rpol_max_attempts (is_retry_policy settings))"
  shows "holds (\<lambda>s. between valid view pol before (air_invocation_id req) 0 s \<and> rst_response s = None)
    (invoke_body (logged_router r) req settings started base)
    (outcome (stopped valid view pol before (air_invocation_id req) maximum)
      (accounted valid view pol before (air_invocation_id req) maximum))"
proof -
  let ?iid = "air_invocation_id req"
  let ?B = "\<lambda>s. between valid view pol before ?iid 0 s \<and> rst_response s = None"
  let ?S = "stopped valid view pol before ?iid maximum" and ?A = "answered valid view pol before ?iid maximum"
    and ?R = "accounted valid view pol before ?iid maximum"
  have lift: "holds ?B (lift_op x) (outcome ?S (\<lambda>_. ?B))" for x :: "'x fallible"
    by (rule outcome_weaken [OF outcome_lift [where P = ?B]]) (auto intro: between_stopped)
  have raise: "holds ?B (raise_op e) (outcome ?S ?R)" for e
    by (rule outcome_raise) (auto intro: between_stopped)
  have world: "holds ?B (world_op (on_fst x)) (outcome ?S (\<lambda>_. ?B))" for x :: "('w, 'x) op"
    by (auto simp: holds_def world_op_def on_fst_def outcome_def between_stopped split: prod.splits sum.split)
  have estimate: "holds ?B (modify (\<lambda>s. s\<lparr>rst_estimate := x\<rparr>)) (outcome ?S (\<lambda>_. ?B))" for x
    by (simp add: holds_def modify_def)
  have loop: "holds ?B (attempt_loop (py_range1 (nat (rpol_max_attempts (is_retry_policy settings)))) (logged_router r)
      req settings (logged_adapter a) q e base None) (outcome ?S (\<lambda>_. ?A))" for a q e
    by (rule loop_holds [OF r pol]) (simp_all add: py_range1_def m)
  have response: "holds ?A (reading rst_response) (outcome ?S (\<lambda>x s. ?A s \<and> x = rst_response s))"
    by (rule outcome_reading)
  have finish: "holds (\<lambda>s. ?A s \<and> x = rst_response s)
      (case x of None \<Rightarrow> raise_op e | Some y \<Rightarrow> answer_result (logged_router r) req settings prompt started base y)
      (outcome ?S ?R)" for x e prompt
  proof (cases x)
    case None
    then show ?thesis by (auto simp: answered_def intro!: outcome_raise intro: between_stopped)
  next
    case (Some y)
    show ?thesis
      unfolding Some option.case
    proof (rule holdsI)
      fix s q u
      assume "?A s \<and> Some y = rst_response s" and run: "answer_result (logged_router r) req settings prompt started base y s = (q, u)"
      then obtain k where "k \<le> maximum" "during valid view pol before ?iid k k budget_reservation_state.DISPATCHED s"
        "rst_response s = Some y"
        by (auto simp: answered_def split: if_splits)
      with holdsD [OF answer_holds [OF r pol(1)] _ run] show "outcome ?S ?R q u" by blast
    qed
  qed
  have providers: "map_of (rt_providers (logged_router r)) p = map_option logged_adapter (map_of (rt_providers r) p)" for p
    by (simp add: logged_router_def map_of_map)
  show ?thesis
    unfolding invoke_body_def Let_def providers
    apply (intro outcome_bind [OF lift])
    subgoal for u prompt
      by (cases "map_of (rt_providers r) (rp_provider (is_runtime settings))")
        (auto intro!: raise outcome_bind [OF lift] outcome_bind [OF world] outcome_bind [OF estimate]
        outcome_bind [OF loop] outcome_bind [OF response] finish)
    done
qed

text \<open>The whole invocation: the reservations made, the dispatches, and those reported.\<close>

lemma invocation_accounted:
  fixes r :: "('c, 'l, 'w) runtime_router" and w w' :: 'w
  assumes r: "rt_ledger r = ops" "steady_clocks r" and pol: "policy_table pol"
      "pol (abp_policy_ref (is_budget_policy settings)) = is_budget_policy settings"
    and l: "valid l" "ledger_ok pol (view l)"
    and run: "router_invoke (logged_router r) req settings (l, (w, [])) = (res, (l', (w', sent)))"
  shows "\<exists>made n. view l' = view l @ map keyed made \<and>
    map reservation_key made = map (Pair (air_invocation_id req)) (py_range1 (length made)) \<and>
    length made \<le> nat (rpol_max_attempts (is_retry_policy settings)) \<and>
    map preq_attempt sent = py_range1 n \<and> n \<le> length made \<and> list_all marked (take n made) \<and>
    valid l' \<and> ledger_ok pol (view l') \<and>
    (\<forall>x. res = Inr x \<longrightarrow> n = length made \<and> list_all closed_reservation made \<and>
       itel_attempt_reservations (ir_telemetry x) = made)"
proof -
  let ?iid = "air_invocation_id req" and ?m = "nat (rpol_max_attempts (is_retry_policy settings))"
  let ?B = "\<lambda>s. between valid view pol (view l) ?iid 0 s \<and> rst_response s = None"
  let ?S = "stopped valid view pol (view l) ?iid ?m" and ?R = "accounted valid view pol (view l) ?iid ?m"
  define s0 where "s0 = start_state l (w, [] :: provider_request list)"
  have s0: "?B s0" using l by (simp add: s0_def start_state_def between_def paid_def)
  have now: "holds ?B (router_now (logged_router r)) (outcome ?S (\<lambda>_. ?B))"
    by (rule outcome_weaken [OF now_keeps [OF r(2), of ?B]]) (auto intro: between_stopped)
  have monotonic: "holds ?B (world_op (rt_monotonic (logged_router r))) (outcome ?S (\<lambda>_. ?B))"
    by (rule outcome_weaken [OF monotonic_keeps [OF r(2), of ?B]]) (auto intro: between_stopped)
  have lift: "holds ?B (lift_op x) (outcome ?S (\<lambda>_. ?B))" for x :: "'x fallible"
    by (rule outcome_weaken [OF outcome_lift [where P = ?B]]) (auto intro: between_stopped)
  have estimate: "holds ?B (modify (\<lambda>s. s\<lparr>rst_estimate := x\<rparr>)) (outcome ?S (\<lambda>_. ?B))" for x
    by (simp add: holds_def modify_def)
  have handler: "holds (?S e) (case runtime_error e of None \<Rightarrow> raise_op e
      | Some (category, detail) \<Rightarrow> failed_result (logged_router r) req settings started base category detail) (outcome ?S ?R)"
    for e started base
  proof (cases "runtime_error e")
    case None
    then show ?thesis by (auto intro: outcome_raise)
  next
    case (Some d)
    have "outcome ?S ?R q u" if "?S e s" and "failed_result (logged_router r) req settings started base (fst d) (snd d) s = (q, u)"
      for s q u
    proof -
      from that(1) Some obtain k where "k \<le> ?m" "between valid view pol (view l) ?iid k s"
        by (auto simp: stopped_def between_def)
      with holdsD [OF failed_holds [OF r(2)] _ that(2)] show ?thesis by blast
    qed
    with Some show ?thesis by (auto simp: holds_def split: prod.splits)
  qed
  have caught: "holds ?B (try_op (invoke_body (logged_router r) req settings started base)
      (\<lambda>e. case runtime_error e of None \<Rightarrow> raise_op e
        | Some (category, detail) \<Rightarrow> failed_result (logged_router r) req settings started base category detail) ret)
      (outcome ?S ?R)" for started base
  proof (rule holds_try [OF holds_weaken [OF body_holds [OF r pol refl]] handler])
    show "holds (?R x) (ret x) (outcome ?S ?R)" for x
      by (rule outcome_ret)
  qed (auto simp: outcome_def intro: stopped_exit split: sum.split)
  obtain s :: "('l, 'w \<times> provider_request list) router_state"
    where s: "outcome ?S ?R res s" "rst_ledger s = l'" "snd (rst_world s) = sent"
  proof -
    have "holds ?B (timed_invocation (logged_router r) req settings) (outcome ?S ?R)"
      unfolding timed_invocation_def
      by (intro outcome_bind [OF now] outcome_bind [OF monotonic] outcome_bind [OF lift] outcome_bind [OF estimate] caught)
    moreover obtain s where s: "timed_invocation (logged_router r) req settings s0 = (res, s)" "rst_ledger s = l'" "rst_world s = (w', sent)"
      using run by (auto simp: router_invoke_def s0_def split: prod.splits)
    ultimately have "outcome ?S ?R res s" using s0 by (blast dest: holdsD)
    with s show thesis by (intro that [of s]) simp_all
  qed
  obtain k n where k: "k \<le> ?m" "n \<le> k" "paid valid view pol (view l) ?iid k n s"
    "list_all marked (take n (rst_reservations s))"
    "\<forall>x. res = Inr x \<longrightarrow> n = k \<and> list_all closed_reservation (rst_reservations s) \<and>
       itel_attempt_reservations (ir_telemetry x) = rst_reservations s"
  proof (cases res)
    case (Inl e)
    with s(1) show thesis by (auto simp: stopped_def intro: that)
  next
    case (Inr x)
    with s(1) obtain k where "k \<le> ?m" "between valid view pol (view l) ?iid k s"
      "itel_attempt_reservations (ir_telemetry x) = rst_reservations s"
      by (auto simp: accounted_def)
    with Inr closed_marked show thesis
      by (intro that [of k k]) (auto simp: between_def list_all_iff dest: in_set_takeD)
  qed
  have "ledger_ok pol (view l')" using k(3) s(2) unfolding paid_def by blast
  with k paid_length [OF k(3)] s(2,3) show ?thesis
    by (intro exI [of _ "rst_reservations s"] exI [of _ n]) (simp add: paid_def)
qed

text \<open>
  A response whose reported cost exceeds the reserved amount: settling raises \<open>ValueError\<close>, which the
  router does not turn into a result, and the reservation stays DISPATCHED.
\<close>

lemma excess_cost_escapes:
  assumes r: "rt_ledger r = ops" and now: "router_now (logged_router r) s = (Inr t, s)"
    and d: "during valid view pol before (air_invocation_id req) k k budget_reservation_state.DISPATCHED s"
    and cost: "reported_cost (pres_usage response) (is_pricing settings) = Some a"
      "a > br_reserved_amount (last (rst_reservations s))"
  shows "answer_result (logged_router r) req settings prompt started base response s =
    (Inl (ValueError ''settled amount must be within the reserved amount''), s)"
proof -
  let ?iid = "air_invocation_id req" and ?e = "ValueError ''settled amount must be within the reserved amount''"
  obtain xs x where xs: "rst_reservations s = xs @ [x]"
    using d by (cases "rst_reservations s" rule: rev_cases) (simp_all add: during_def)
  have v: "valid (rst_ledger s)" and shown: "view (rst_ledger s) = before @ map keyed xs @ [(reservation_key x, x)]"
    and keys: "map reservation_key (xs @ [x]) = map (Pair ?iid) (py_range1 k)" and n: "rst_attempts s = int k"
    and st: "br_state x = budget_reservation_state.DISPATCHED"
    using d xs by (simp_all add: during_def paid_def keyed_def)
  have key: "reservation_key x = (?iid, int k)" using keys by (cases k) (simp_all add: add.commute)
  have "(?iid, int k) \<notin> fst ` set (before @ map keyed xs)"
    using view_wf [OF v] shown key by (auto simp: wf_ledger_def)
  then have "mem_require (view (rst_ledger s)) ?iid (int k) = Inr x"
    using mem_require_last [of ?iid "int k" "before @ map keyed xs" x] shown key by simp
  then have "ledger_call mem_ops pol (view (rst_ledger s)) (CallSettle ?iid a (int k) t) = Inl ?e"
    using cost(2) xs st by (simp add: mem_ops_def mem_settle_def result_simps)
  then have "lo_settle ops (rst_ledger s) ?iid a (int k) t = Inl ?e"
    using call_simulates [OF v, of "CallSettle ?iid a (int k) t" pol] by (simp add: simulates_def)
  then show ?thesis
    using now cost(1) r n
    by (simp add: answer_result_def move_reservation_def bind_op_def reading_def ledger_op_def)
qed

end

section \<open>A run\<close>

text \<open>
  A fake provider that first reports a rate limit and then answers with the given token counts and
  a body that does not parse. The world counts the calls.
\<close>

definition sample_descriptor :: agent_descriptor where
  "sample_descriptor = \<lparr>ad_agent_name = ''skeptic'', ad_role = agent_role.SKEPTIC, ad_agent_version = ''1.0.0'',
     ad_prompt_ref = \<lparr>pr_prompt_id = ''prompt-1'', pr_prompt_version = ''1.0.0'', pr_content_digest = Some (''sha256:'' @ replicate 64 (CHR ''0''))\<rparr>,
     ad_execution_profile = agent_execution_profile.REALTIME, ad_runtime_profile_ref = ''profile-1'',
     ad_invocation_mode = agent_invocation_mode.REALTIME, ad_invocation_policy_ref = ''invocation-1'',
     ad_cost_policy_ref = Some ''policy-1''\<rparr>"

definition sample_schema :: schema_reference where
  "sample_schema = \<lparr>sref_schema_id = ''schema'', sref_schema_version = ''1.0.0'', sref_schema_digest = ''sha256:'' @ replicate 64 (CHR ''1'')\<rparr>"

definition sample_prompt :: prompt_artifact where
  "sample_prompt = \<lparr>pa_prompt_id = ''prompt-1'', pa_prompt_version = ''1.0.0'', pa_role = agent_role.SKEPTIC,
     pa_content = ''Review the proposal.'', pa_content_digest = (''sha256:'' @ replicate 64 (CHR ''0'')),
     pa_compatible_input_schema = sample_schema, pa_compatible_output_schema = sample_schema\<rparr>"

definition sample_capability :: model_capability_profile where
  "sample_capability = \<lparr>mcp_profile_ref = ''cap-1'', mcp_profile_version = ''1.0.0'', mcp_provider = model_provider.FAKE,
     mcp_model_identifier = ''model-1'', mcp_structured_output_supported = True, mcp_json_schema_supported = True,
     mcp_reasoning_configuration_supported = False, mcp_supported_reasoning_efforts = [reasoning_effort.NONE],
     mcp_max_context_tokens = 4000, mcp_max_output_tokens = 500, mcp_usage_metrics = {},
     mcp_token_estimation_methods = {token_estimate_method.CONSERVATIVE_ESTIMATE},
     mcp_adapter_contract_accepted = True, mcp_live_smoke_accepted = False\<rparr>"

definition sample_settings :: invocation_settings where
  "sample_settings = \<lparr>is_runtime = sample_runtime, is_capability = sample_capability,
     is_retry_policy = \<lparr>rpol_policy_ref = ''retry-1'', rpol_policy_version = ''1.0.0'', rpol_max_attempts = 2,
       rpol_retry_timeouts = False, rpol_retry_transient_errors = False, rpol_retry_rate_limits = True\<rparr>,
     is_budget_policy = sample_policy ''policy-1'', is_pricing = sample_pricing\<rparr>"

definition sample_request :: "unit agent_invocation_request" where
  "sample_request = \<lparr>air_schema_version = ''1.0.0'', air_invocation_id = ''inv-1'', air_output_id = ''out-1'', air_cycle_id = ''cycle-1'',
     air_snapshot_id = ''snapshot-1'', air_descriptor = sample_descriptor, air_requested_at = 0,
     air_input_schema = sample_schema, air_output_schema = sample_schema, air_context = ()\<rparr>"

definition sample_count :: "int \<Rightarrow> usage_value" where
  "sample_count n = \<lparr>uv_value = Some n, uv_availability = metric_availability.REPORTED\<rparr>"

definition sample_adapter :: "int \<Rightarrow> int \<Rightarrow> nat provider_adapter" where
  "sample_adapter i j = \<lparr>pad_provider = model_provider.FAKE, pad_prepare = ret (),
     pad_estimate = (\<lambda>q. ret sample_estimate),
     pad_invoke = (\<lambda>q t n. (if n = 0
       then Inl (ProviderError runtime_failure_category.PROVIDER_RATE_LIMIT ''rate limited'' True False)
       else Inr \<lparr>pres_response_json = ''{}'', pres_provider_request_id = None, pres_model_identifier = ''model-1'',
         pres_responded_at = 5, pres_usage = \<lparr>iu_input_tokens = sample_count i,
           iu_cached_input_tokens = unavailable_usage, iu_output_tokens = sample_count j,
           iu_reasoning_tokens = unavailable_usage\<rparr>\<rparr>, Suc n))\<rparr>"

definition sample_router :: "'l ledger_ops \<Rightarrow> int \<Rightarrow> int \<Rightarrow> (unit, 'l, nat) runtime_router" where
  "sample_router ops i j = \<lparr>rt_sha = sample_sha, rt_prompts = [((''prompt-1'', ''1.0.0''), sample_prompt)],
     rt_providers = [(model_provider.FAKE, sample_adapter i j)], rt_ledger = ops,
     rt_clock = ret (Aware 7), rt_monotonic = ret 0, rt_milliseconds = (\<lambda>d. 1000 * d),
     rt_contract = (\<lambda>_. \<lparr>rcon_is_input = (\<lambda>_. True), rcon_body_schema_json = ''{}'', rcon_parse_body = (\<lambda>_. None)\<rparr>),
     rt_context_json = (\<lambda>_. ''{}'')\<rparr>"

lemma sample_router_steady: "steady_clocks (sample_router ops i j)"
  by (simp add: steady_clocks_def sample_router_def ret_def)

lemma sample_router_ledger: "rt_ledger (sample_router ops i j) = ops"
  by (simp add: sample_router_def)

lemma empty_ledger_ok: "policy_table pol \<Longrightarrow> ledger_ok pol []"
  using ledger_run_ok [of pol "[]"] by (simp add: ledger_run_def)

text \<open>
  C36: an invocation of the router over the SQLite ledger, whatever the provider does:
  the ledger gains the reservations of the attempts made, numbered from one and at most the retry
  policy's maximum, and nothing else changes; each request sent to the provider was preceded by the
  marked reservation of its own attempt; the limits of every policy still hold; and when a result is
  returned, output or failure, every reservation is settled, released or uncertain and the result's
  telemetry reports exactly them.
\<close>

theorem router_invocation_accounted:
  assumes "rt_ledger r = sql_ops" and "steady_clocks r" and "policy_table pol"
    and "pol (abp_policy_ref (is_budget_policy settings)) = is_budget_policy settings"
    and "sql_valid l" and "ledger_ok pol (sql_view l)"
    and "router_invoke (logged_router r) req settings (l, (w, [])) = (res, (l', (w', sent)))"
  shows "\<exists>made n. sql_view l' = sql_view l @ map keyed made \<and>
    map reservation_key made = map (Pair (air_invocation_id req)) (py_range1 (length made)) \<and>
    length made \<le> nat (rpol_max_attempts (is_retry_policy settings)) \<and>
    map preq_attempt sent = py_range1 n \<and> n \<le> length made \<and> list_all marked (take n made) \<and>
    sql_valid l' \<and> ledger_ok pol (sql_view l') \<and>
    (\<forall>x. res = Inr x \<longrightarrow> n = length made \<and> list_all closed_reservation made \<and>
       itel_attempt_reservations (ir_telemetry x) = made)"
  by (rule sql_budget.invocation_accounted [OF assms])

lemma router_invocation_accounted_witness:
  "case router_invoke (logged_router (sample_router sql_ops 900 400)) sample_request sample_settings ([], (0, [])) of
     (res, (l', (w', sent))) \<Rightarrow> length sent \<le> 2 \<and> ledger_ok sample_policy (sql_view l') \<and>
       (\<forall>x. res = Inr x \<longrightarrow> sql_view l' = map keyed (itel_attempt_reservations (ir_telemetry x)))"
proof -
  obtain res l' w' sent where run: "router_invoke (logged_router (sample_router sql_ops 900 400)) sample_request
      sample_settings ([], (0, [])) = (res, (l', (w', sent)))"
    by (metis prod.exhaust)
  have "abp_policy_ref (is_budget_policy sample_settings) = ''policy-1''" "is_budget_policy sample_settings = sample_policy ''policy-1''"
    by (simp_all add: sample_settings_def sample_policy_def)
  then have pol: "sample_policy (abp_policy_ref (is_budget_policy sample_settings)) = is_budget_policy sample_settings" by simp
  have "nat (rpol_max_attempts (is_retry_policy sample_settings)) = 2" by (simp add: sample_settings_def)
  with router_invocation_accounted [OF sample_router_ledger sample_router_steady sample_policy_table pol sql_budget.empty_valid _ run]
    empty_ledger_ok [OF sample_policy_table]
  obtain made n where m: "sql_view l' = map keyed made" "length made \<le> 2" "map preq_attempt sent = py_range1 n" "n \<le> length made"
    "ledger_ok sample_policy (sql_view l')" "\<forall>x. res = Inr x \<longrightarrow> itel_attempt_reservations (ir_telemetry x) = made"
    by (auto simp: sql_budget.empty_view)
  have "length sent = n"
    using arg_cong [OF m(3), where f = length] by (simp add: py_range1_def del: upt_Suc)
  with run m(1,2,4-6) show ?thesis by auto
qed

end
