(* ===== verification/RuntimeProperties.thy ===== *)
theory RuntimeProperties
  imports RuntimeInvoker Providers RouterTheorems
begin

text \<open>
  What the invoker and the prompt registry guarantee: no dispatch without an accepted
  configuration, and prompts whose content has been checked.
\<close>

section \<open>Eligibility\<close>

text \<open>
  What an accepted configuration is, stated field by field: the fake provider with an accepted contract, or
  a provider with accepted smoke evidence, reached through an adapter of that provider, for which the
  registry holds a record of the same provider, model, adapter version and SDK version, with the digests
  of the capability profile (without its smoke flag) and of the runtime profile.
\<close>

definition eligible :: "acceptance_registry \<Rightarrow> runtime_assignment \<Rightarrow> bool" where
  "eligible reg a \<longleftrightarrow> mcp_adapter_contract_accepted (ra_capability a) \<and>
     (rp_provider (ra_runtime a) = model_provider.FAKE \<or>
      mcp_live_smoke_accepted (ra_capability a) \<and> paide_provider (ra_adapter_identity a) = rp_provider (ra_runtime a) \<and>
      (\<exists>item \<in> set (areg_records reg). parec_provider item = rp_provider (ra_runtime a) \<and>
         parec_model_identifier item = rp_model_identifier (ra_runtime a) \<and>
         parec_adapter_version item = paide_adapter_version (ra_adapter_identity a) \<and>
         parec_provider_sdk_version item = paide_provider_sdk_version (ra_adapter_identity a) \<and>
         parec_capability_profile_digest item = ''sha256:'' @ areg_sha reg (canonical_json_bytes
           (json_mode (areg_order reg)
             (dump_without ''live_smoke_accepted'' (dump_model_capability_profile (ra_capability a))))) \<and>
         parec_runtime_profile_digest item = ''sha256:'' @ areg_sha reg (canonical_json_bytes
           (json_mode (areg_order reg) (dump_runtime_profile (ra_runtime a))))))"

text \<open>The input class of each role's contract.\<close>

inductive input_of_role :: "agent_role \<Rightarrow> role_context \<Rightarrow> bool" where
  snapshot: "input_of_role role (CtxSnapshot role x)"
| entry: "input_of_role agent_role.ENTRY_ANALYST (CtxEntry e)"
| quant_research: "input_of_role agent_role.QUANT_RESEARCHER (CtxQuantResearch q)"
| quant_developer: "input_of_role agent_role.SENIOR_QUANT_DEVELOPER (CtxQuantDeveloper d)"
| skeptic: "input_of_role agent_role.SKEPTIC (CtxSkeptic s)"
| chief: "input_of_role agent_role.CHIEF_TRADER (CtxChief c)"

lemma is_role_input_iff: "is_role_input role ctx \<longleftrightarrow> input_of_role role ctx"
  by (cases ctx) (auto elim: input_of_role.cases intro: input_of_role.intros)

lemma find_sound: "find P xs = Some x \<Longrightarrow> x \<in> set xs \<and> P x"
  by (induction xs) (auto split: if_splits)

lemma require_eligible_Inr:
  "require_eligible reg (ra_runtime a) (ra_capability a) (ra_adapter_identity a) = Inr x \<Longrightarrow> eligible reg a"
proof -
  assume ok: "require_eligible reg (ra_runtime a) (ra_capability a) (ra_adapter_identity a) = Inr x"
  let ?candidates = "filter (\<lambda>item. parec_provider item = rp_provider (ra_runtime a) \<and>
    parec_model_identifier item = rp_model_identifier (ra_runtime a)) (areg_records reg)"
  show ?thesis
  proof (cases "find (acceptance_matches reg (ra_runtime a) (ra_capability a) (ra_adapter_identity a)) ?candidates")
    case None
    with ok show ?thesis by (auto simp: require_eligible_def eligible_def acceptance_matches_def profile_digest_def Let_def split: if_splits)
  next
    case (Some item)
    with ok find_sound [OF Some] show ?thesis
      by (auto simp: require_eligible_def eligible_def acceptance_matches_def profile_digest_def Let_def split: if_splits)
  qed
qed

definition logged_invoker :: "('l, 'w) runtime_invoker \<Rightarrow> ('l, 'w \<times> provider_request list) runtime_invoker" where
  "logged_invoker agent = \<lparr>ri_router = logged_router (ri_router agent), ri_assignments = ri_assignments agent,
     ri_acceptance = ri_acceptance agent, ri_input_reference = ri_input_reference agent,
     ri_body_reference = ri_body_reference agent\<rparr>"

text \<open>
  A frozenset with two elements makes the capability digest depend on the order of iteration, so a
  record written by one process need not match in another.
\<close>

lemma digest_depends_on_order:
  "json_mode (\<lambda>xs. xs) (dump_model_capability_profile (sample_capability
       \<lparr>mcp_usage_metrics := {usage_metric.INPUT_TOKENS, usage_metric.OUTPUT_TOKENS}\<rparr>)) \<noteq>
   json_mode rev (dump_model_capability_profile (sample_capability
       \<lparr>mcp_usage_metrics := {usage_metric.INPUT_TOKENS, usage_metric.OUTPUT_TOKENS}\<rparr>))"
  by (simp add: dump_model_capability_profile_def)

text \<open>
  C37: when an invocation through the invoker sends anything to a provider, the role had
  an assignment whose descriptor is of that role, the context was of the role's input class, and the
  assigned configuration was eligible: the fake provider, or a real one with an acceptance record of
  exactly its adapter version, SDK version and profile digests.
\<close>

theorem dispatched_only_if_eligible:
  "case invoker_invoke (logged_invoker agent) role ctx stage rnd (l, (w, [])) of (res, (l', (w', sent))) \<Rightarrow>
     sent = [] \<or>
     (\<exists>a. map_of (ri_assignments agent) role = Some a \<and> ad_role (ra_descriptor a) = role \<and>
       input_of_role role ctx \<and> eligible (ri_acceptance agent) a)"
proof (cases "invoker_invoke (logged_invoker agent) role ctx stage rnd (l, (w, []))")
  case (fields res l' w' sent)
  then show ?thesis
    by (auto simp: invoker_invoke_def logged_invoker_def raise_op_def bind_op_def lift_op_def is_role_input_iff
        dest: require_eligible_Inr split: option.splits if_splits sum.splits)
qed

section \<open>Prompts\<close>

text \<open>An artifact that was built from an entry whose digest is that of the bytes read.\<close>

definition verified_from :: "sha \<Rightarrow> prompt_files \<Rightarrow>
    (agent_role \<Rightarrow> schema_reference) \<Rightarrow> (agent_role \<Rightarrow> schema_reference) \<Rightarrow> (string \<times> string) list \<Rightarrow> prompt_artifact \<Rightarrow> bool" where
  "verified_from sha fs input_ref body_ref entry p \<longleftrightarrow>
     (\<exists>file below raw. map_of entry ''file'' = Some file \<and> pf_resolve fs file = Some (pf_root fs @ below) \<and>
       pf_read_bytes fs (pf_root fs @ below) = Some raw \<and>
       char_of (13 :: nat) \<notin> set raw \<and> pf_decode fs raw = Some (pa_content p) \<and>
       pa_content_digest p = ''sha256:'' @ sha raw \<and> map_of entry ''content_digest'' = Some (pa_content_digest p)) \<and>
     map_of entry ''role'' = Some (value_agent_role (pa_role p)) \<and>
     pa_compatible_input_schema p = input_ref (pa_role p) \<and> pa_compatible_output_schema p = body_ref (pa_role p) \<and>
     map_option (strip_of is_space_char) (map_of entry ''prompt_id'') = Some (pa_prompt_id p) \<and>
     map_option (strip_of is_space_char) (map_of entry ''prompt_version'') = Some (pa_prompt_version p) \<and>
     fields_prompt_artifact p"

lemma relative_to_iff: "relative_to path base \<longleftrightarrow> (\<exists>below. path = base @ below)"
  by (metis append_eq_conv_conj append_take_drop_id relative_to_def)

lemma present_Inr [simp]: "present x = Inr y \<longleftrightarrow> x = Some y"
  by (simp add: present_def split: option.split)

lemma parse_role_Some: "parse_role s = Some r \<Longrightarrow> value_agent_role r = s"
  by (auto simp: parse_role_def split: if_splits)

lemma prompt_artifact_verified:
  "prompt_artifact_of sha fs input_ref body_ref entry = Inr p \<Longrightarrow>
     verified_from sha fs input_ref body_ref entry p"
  by (auto simp: prompt_artifact_of_def verified_from_def relative_to_iff result_simps Let_def dest: parse_role_Some split: if_splits)

lemma load_artifacts_Inr:
  assumes "load_artifacts load entries artifacts = Inr loaded"
  shows "\<exists>ps. loaded = artifacts @ map (\<lambda>p. ((pa_prompt_id p, pa_prompt_version p), p)) ps \<and>
    list_all2 (\<lambda>entry p. load entry = Inr p) entries ps \<and> (distinct (map fst artifacts) \<longrightarrow> distinct (map fst loaded))"
  using assms
proof (induction entries arbitrary: artifacts)
  case (Cons entry entries)
  from Cons.prems obtain p where p: "load entry = Inr p" "(pa_prompt_id p, pa_prompt_version p) \<notin> fst ` set artifacts"
    "load_artifacts load entries (artifacts @ [((pa_prompt_id p, pa_prompt_version p), p)]) = Inr loaded"
    by (auto simp: result_simps Let_def split: if_splits)
  from Cons.IH [OF p(3)] obtain ps where ps:
    "loaded = (artifacts @ [((pa_prompt_id p, pa_prompt_version p), p)]) @ map (\<lambda>p. ((pa_prompt_id p, pa_prompt_version p), p)) ps"
    "list_all2 (\<lambda>entry p. load entry = Inr p) entries ps"
    "distinct (map fst (artifacts @ [((pa_prompt_id p, pa_prompt_version p), p)])) \<longrightarrow> distinct (map fst loaded)"
    by blast
  with p show ?case by (intro exI [of _ "p # ps"]) auto
qed simp

lemma prompt_artifact_error:
  "prompt_artifact_of sha fs input_ref body_ref entry = Inl e \<Longrightarrow> \<exists>m. e = PromptRegistryError m"
  by (auto simp: prompt_artifact_of_def present_def invalid_artifact_def result_simps Let_def
      split: if_splits option.splits)

lemma load_artifacts_error:
  assumes "\<And>entry e. load entry = Inl e \<Longrightarrow> \<exists>m. e = PromptRegistryError m"
  shows "load_artifacts load entries artifacts = Inl e \<Longrightarrow> \<exists>m. e = PromptRegistryError m"
  using assms by (induction entries arbitrary: artifacts) (auto simp: result_simps Let_def split: if_splits)


end
