(* ===== verification/ShadowCycle.thy ===== *)
theory ShadowCycle
  imports Orchestration Effects "HOL-Library.AList"
begin

text \<open>
  \<open>orchestration/shadow.py\<close>: one decision cycle, from the claim of its identity to the finalised
  record. The orchestrator's collaborators are parameters, arbitrary stateful operations on one
  arbitrary state: the clock, the invoker of a role, the Risk stage and the two calls of the audit
  repository. The object \<open>_CycleState\<close>, local to a cycle, is a record that the steps hand on. The three
  stage-one calls, which \<open>asyncio.gather\<close> lets overlap, are made in order: a collaborator is an arbitrary
  function of the state, so the answers any interleaving gives are among those covered.
\<close>

section \<open>Records\<close>

record shadow_cycle_policy =
  scp_debate_rounds :: int
  scp_quant_stage_selection :: quant_stage_selection

definition fields_shadow_cycle_policy :: "shadow_cycle_policy \<Rightarrow> bool" where
  "fields_shadow_cycle_policy r \<longleftrightarrow>
     1 \<le> scp_debate_rounds r \<and>
     scp_debate_rounds r \<le> 3"

definition dump_shadow_cycle_policy :: "shadow_cycle_policy \<Rightarrow> pyval" where
  "dump_shadow_cycle_policy r = PDict [
     (''debate_rounds'', PInt (scp_debate_rounds r)),
     (''quant_stage_selection'', PStr (value_quant_stage_selection (scp_quant_stage_selection r)))]"

record invocation_outcome =
  io_output :: "cycle_agent_output option"
  io_failure :: "agent_failure_record option"
  io_audit :: "agent_invocation_audit option"
  io_invocation_id :: string

record 's shadow_orchestrator =
  so_sha :: sha
  so_snapshot_digest :: "market_snapshot \<Rightarrow> string"
  so_view_digest :: view_digest
  so_policy :: shadow_cycle_policy
  so_clock :: "('s, py_datetime) op"
  so_invoke :: "agent_role \<Rightarrow> role_context \<Rightarrow> int \<Rightarrow> int option \<Rightarrow> ('s, invocation_result) op"
  so_risk :: "trade_proposal \<Rightarrow> market_snapshot \<Rightarrow> account_risk_context \<Rightarrow> py_datetime \<Rightarrow> ('s, risk_decision) op"
  so_claim :: "string \<Rightarrow> string \<Rightarrow> py_datetime \<Rightarrow> ('s, cycle_claim) op"
  so_finalize :: "shadow_decision_record \<Rightarrow> ('s, unit) op"

record cycle_state =
  cs_snapshot :: market_snapshot
  cs_account_context :: account_risk_context
  cs_market :: agent_market_view
  cs_started_at :: instant
  cs_stages :: "(int \<times> stage_execution_record) list"
  cs_invocations :: "agent_invocation_audit list"
  cs_outputs :: "cycle_agent_output list"
  cs_failures :: "agent_failure_record list"
  cs_chief_decisions :: "chief_trader_output list"
  cs_chief_decision :: "chief_trader_output option"
  cs_trade_proposal :: "trade_proposal option"
  cs_risk_decision :: "risk_decision option"

definition stage_components :: "int \<Rightarrow> pipeline_component list" where
  "stage_components n =
     (if n = 1 then [pipeline_component.MARKET_CONTEXT, pipeline_component.TREND_ANALYST,
         pipeline_component.PRICE_ACTION_ANALYST]
      else if n = 2 then [pipeline_component.ENTRY_ANALYST]
      else if n = 3 then [pipeline_component.QUANT_RESEARCHER, pipeline_component.SENIOR_QUANT_DEVELOPER]
      else if n = 4 then [pipeline_component.SKEPTIC]
      else if n = 5 then [pipeline_component.CHIEF_TRADER]
      else [pipeline_component.RISK_ENGINE])"

definition stage_name :: "int \<Rightarrow> string" where
  "stage_name n =
     (if n = 1 then ''parallel-analysis'' else if n = 2 then ''entry-analysis''
      else if n = 3 then ''conditional-quant-review'' else if n = 4 then ''skeptic-review''
      else if n = 5 then ''chief-decision'' else ''deterministic-risk'')"

primrec role_component :: "agent_role \<Rightarrow> pipeline_component option" where
  "role_component agent_role.MARKET_CONTEXT = Some pipeline_component.MARKET_CONTEXT"
| "role_component agent_role.TREND_ANALYST = Some pipeline_component.TREND_ANALYST"
| "role_component agent_role.PRICE_ACTION_ANALYST = Some pipeline_component.PRICE_ACTION_ANALYST"
| "role_component agent_role.ENTRY_ANALYST = Some pipeline_component.ENTRY_ANALYST"
| "role_component agent_role.QUANT_RESEARCHER = Some pipeline_component.QUANT_RESEARCHER"
| "role_component agent_role.SENIOR_QUANT_DEVELOPER = Some pipeline_component.SENIOR_QUANT_DEVELOPER"
| "role_component agent_role.SKEPTIC = Some pipeline_component.SKEPTIC"
| "role_component agent_role.CHIEF_TRADER = Some pipeline_component.CHIEF_TRADER"
| "role_component agent_role.PERFORMANCE_REVIEWER = None"

section \<open>The state of a cycle\<close>

definition retain :: "invocation_outcome \<Rightarrow> cycle_state \<Rightarrow> cycle_state" where
  "retain x st = st\<lparr>
     cs_invocations := cs_invocations st @ (case io_audit x of None \<Rightarrow> [] | Some a \<Rightarrow> [a]),
     cs_outputs := cs_outputs st @ (case io_output x of None \<Rightarrow> [] | Some r \<Rightarrow> [r]),
     cs_failures := cs_failures st @ (case io_failure x of None \<Rightarrow> [] | Some f \<Rightarrow> [f])\<rparr>"

definition replace_failures :: "agent_failure_record list \<Rightarrow> cycle_state \<Rightarrow> cycle_state" where
  "replace_failures fs st = st\<lparr>cs_failures := map (\<lambda>f.
     case map_of (rev (map (\<lambda>g. (afr_failure_id g, g)) fs)) (afr_failure_id f) of None \<Rightarrow> f | Some g \<Rightarrow> g)
     (cs_failures st)\<rparr>"

definition add_system_failure ::
  "sha \<Rightarrow> agent_failure_category \<Rightarrow> string \<Rightarrow> instant \<Rightarrow> cycle_state \<Rightarrow> cycle_state fallible" where
  "add_system_failure sha category detail t st =
     bind_result (build ''AgentFailureRecord'' ok_agent_failure_record
       \<lparr>afr_schema_version = ''1.0.0'',
        afr_failure_id = ''failure-'' @ take 16 (sha (ms_cycle_id (cs_snapshot st) @ nul @
          value_agent_failure_category category)),
        afr_cycle_id = ms_cycle_id (cs_snapshot st), afr_snapshot_id = ms_snapshot_id (cs_snapshot st),
        afr_agent_role = None, afr_execution_profile = None, afr_category = category, afr_occurred_at = t,
        afr_sanitized_detail = detail,
        afr_disposition = (if category \<in> {agent_failure_category.SCHEMA_MISMATCH, agent_failure_category.UNKNOWN}
          then failure_disposition.ABORT_CYCLE else failure_disposition.HOLD)\<rparr>)
     (\<lambda>f. Inr (st\<lparr>cs_failures := cs_failures st @ [f]\<rparr>))"

text \<open>A failure of a role that no stage has makes the lookup in \<open>_ROLE_COMPONENT\<close> fail.\<close>

definition stage_failure_ids :: "int \<Rightarrow> agent_failure_record list \<Rightarrow> string list fallible" where
  "stage_failure_ids n fs =
     (if list_ex (\<lambda>f. afr_agent_role f \<noteq> None \<and> role_component (the (afr_agent_role f)) = None) fs
      then Inl (KeyError ''_ROLE_COMPONENT'')
      else Inr (map afr_failure_id (filter (\<lambda>f. afr_agent_role f \<noteq> None \<and>
        the (role_component (the (afr_agent_role f))) \<in> set (stage_components n)) fs)))"

definition set_stage ::
  "int \<Rightarrow> stage_execution_status \<Rightarrow> instant \<Rightarrow> string option \<Rightarrow> cycle_state \<Rightarrow> cycle_state fallible" where
  "set_stage n status t detail st =
     bind_result (stage_failure_ids n (cs_failures st)) (\<lambda>failure_ids.
     bind_result (build ''StageExecutionRecord'' ok_stage_execution_record
       \<lparr>ser_schema_version = ''1.0.0'', ser_stage_number = n, ser_stage_name = stage_name n,
        ser_components = stage_components n, ser_status = status, ser_started_at = t, ser_completed_at = t,
        ser_invocation_ids = map (it_invocation_id \<circ> aia_trace)
          (filter (\<lambda>a. aia_stage_number a = n) (cs_invocations st)),
        ser_failure_ids = failure_ids, ser_sanitized_detail = detail\<rparr>)
     (\<lambda>r. Inr (st\<lparr>cs_stages := AList.update n r (cs_stages st)\<rparr>)))"

fun fill_from :: "int list \<Rightarrow> instant \<Rightarrow> cycle_state \<Rightarrow> cycle_state fallible" where
  "fill_from [] t st = Inr st"
| "fill_from (n # ns) t st = bind_result
     (if map_of (cs_stages st) n = None
      then set_stage n stage_execution_status.SKIPPED t (Some ''not reached'') st else Inr st)
     (fill_from ns t)"

definition fill_skipped :: "instant \<Rightarrow> cycle_state \<Rightarrow> cycle_state fallible" where
  "fill_skipped t st = fill_from (py_range1 6) t st"

section \<open>Failure policy\<close>

definition runtime_category :: "runtime_failure_category \<Rightarrow> agent_failure_category" where
  "runtime_category c =
     (if c = runtime_failure_category.PROVIDER_TIMEOUT then agent_failure_category.TIMEOUT
      else if c = runtime_failure_category.INVALID_MODEL_OUTPUT then agent_failure_category.INVALID_OUTPUT
      else if c \<in> {runtime_failure_category.SCHEMA_INCOMPATIBLE, runtime_failure_category.CAPABILITY_INCOMPATIBLE,
          runtime_failure_category.DUPLICATE_INVOCATION, runtime_failure_category.INVALID_REQUEST,
          runtime_failure_category.INVALID_PROMPT_REFERENCE} then agent_failure_category.SCHEMA_MISMATCH
      else if c \<in> {runtime_failure_category.BUDGET_EXCEEDED, runtime_failure_category.PROVIDER_UNAVAILABLE,
          runtime_failure_category.PROVIDER_AUTHENTICATION, runtime_failure_category.PROVIDER_PERMISSION,
          runtime_failure_category.PROVIDER_RATE_LIMIT, runtime_failure_category.PROVIDER_TRANSIENT,
          runtime_failure_category.PROVIDER_REFUSAL} then agent_failure_category.UNAVAILABLE_AGENT
      else agent_failure_category.UNKNOWN)"

definition category_disposition :: "agent_failure_category \<Rightarrow> agent_role \<Rightarrow> failure_disposition" where
  "category_disposition c role =
     (if c \<in> {agent_failure_category.SCHEMA_MISMATCH, agent_failure_category.UNKNOWN}
      then failure_disposition.ABORT_CYCLE
      else if c \<in> {agent_failure_category.TIMEOUT, agent_failure_category.UNAVAILABLE_AGENT} \<and>
          role \<in> {agent_role.QUANT_RESEARCHER, agent_role.SENIOR_QUANT_DEVELOPER}
      then failure_disposition.CONTINUE_DEGRADED
      else failure_disposition.HOLD)"

definition with_disposition ::
  "failure_disposition \<Rightarrow> agent_failure_record option \<Rightarrow> agent_failure_record fallible" where
  "with_disposition d f = (case f of
     None \<Rightarrow> Inl AssertionError
   | Some f \<Rightarrow> build ''AgentFailureRecord'' ok_agent_failure_record (f\<lparr>afr_disposition := d\<rparr>))"

definition stage_one_terminal ::
  "invocation_outcome list \<Rightarrow> nat \<Rightarrow> (stage_execution_status \<times> shadow_disposition) option" where
  "stage_one_terminal outcomes successes =
     (let failures = List.map_filter io_failure outcomes
      in if list_ex (\<lambda>f. afr_disposition f = failure_disposition.ABORT_CYCLE) failures
         then Some (stage_execution_status.ABORTED, shadow_disposition.ABORTED)
         else if list_ex (\<lambda>f. afr_category f = agent_failure_category.INVALID_OUTPUT) failures
         then Some (stage_execution_status.HOLD, shadow_disposition.POLICY_HOLD)
         else if successes < 2
         then Some (stage_execution_status.HOLD, shadow_disposition.POLICY_HOLD)
         else None)"

section \<open>Invocations\<close>

definition shadow_now :: "'s shadow_orchestrator \<Rightarrow> ('s, instant) op" where
  "shadow_now orch = bind_op (so_clock orch) (\<lambda>t.
     if is_naive t then raise_op (ValueError ''orchestrator clock must return a timezone-aware timestamp'')
     else ret (as_utc t))"

definition runtime_failure :: "'s shadow_orchestrator \<Rightarrow> agent_role \<Rightarrow> role_context \<Rightarrow> string \<Rightarrow>
    runtime_failure_category \<Rightarrow> string \<Rightarrow> ('s, agent_failure_record) op" where
  "runtime_failure orch role ctx invocation rc detail = bind_op (shadow_now orch) (\<lambda>t.
     lift_op (build ''AgentFailureRecord'' ok_agent_failure_record
       \<lparr>afr_schema_version = ''1.0.0'', afr_failure_id = ''failure-'' @ take 16 (so_sha orch invocation),
        afr_cycle_id = fst (ctx_trace ctx), afr_snapshot_id = snd (ctx_trace ctx),
        afr_agent_role = Some role, afr_execution_profile = None, afr_category = runtime_category rc,
        afr_occurred_at = t, afr_sanitized_detail = detail,
        afr_disposition = category_disposition (runtime_category rc) role\<rparr>))"

text \<open>\<open>isinstance(output, contract_for_role(role).output_type)\<close>\<close>

definition role_of_output :: "cycle_agent_output \<Rightarrow> agent_role" where
  "role_of_output x = (case x of
     OutMarketContext r \<Rightarrow> agent_role.MARKET_CONTEXT
   | OutTrendAnalysis r \<Rightarrow> agent_role.TREND_ANALYST
   | OutPriceAction r \<Rightarrow> agent_role.PRICE_ACTION_ANALYST
   | OutEntryAnalysis r \<Rightarrow> agent_role.ENTRY_ANALYST
   | OutQuantResearch r \<Rightarrow> agent_role.QUANT_RESEARCHER
   | OutQuantDeveloper r \<Rightarrow> agent_role.SENIOR_QUANT_DEVELOPER
   | OutSkeptic r \<Rightarrow> agent_role.SKEPTIC
   | OutChiefTrader r \<Rightarrow> agent_role.CHIEF_TRADER)"

text \<open>The output that fulfils the contract of \<open>role\<close>, if it does.\<close>

definition contract_output :: "agent_role \<Rightarrow> invocation_output \<Rightarrow> cycle_agent_output option" where
  "contract_output role x = (case x of
     Known r \<Rightarrow> if role_of_output r = role then Some r else None | Foreign \<Rightarrow> None)"

definition invocation_audit :: "invocation_result \<Rightarrow> int \<Rightarrow> int option \<Rightarrow> string option \<Rightarrow> string option \<Rightarrow>
    agent_invocation_audit fallible" where
  "invocation_audit result stage rnd output_id failure_id =
     build ''AgentInvocationAudit'' ok_agent_invocation_audit
       \<lparr>aia_schema_version = ''1.0.0'', aia_stage_number = stage, aia_debate_round = rnd,
        aia_trace = ir_trace result, aia_telemetry = ir_telemetry result,
        aia_output_id = output_id, aia_failure_id = failure_id\<rparr>"

definition failed_outcome :: "invocation_result \<Rightarrow> int \<Rightarrow> int option \<Rightarrow> string \<Rightarrow> agent_failure_record \<Rightarrow>
    invocation_outcome fallible" where
  "failed_outcome result stage rnd invocation f =
     bind_result (invocation_audit result stage rnd None (Some (afr_failure_id f))) (\<lambda>a.
     Inr \<lparr>io_output = None, io_failure = Some f, io_audit = Some a, io_invocation_id = invocation\<rparr>)"

text \<open>What is made of a result the invoker returned.\<close>

definition outcome_of_result :: "'s shadow_orchestrator \<Rightarrow> agent_role \<Rightarrow> role_context \<Rightarrow> int \<Rightarrow> int option \<Rightarrow>
    string \<Rightarrow> invocation_result \<Rightarrow> ('s, invocation_outcome) op" where
  "outcome_of_result orch role ctx stage rnd invocation result =
     (if it_invocation_id (ir_trace result) \<noteq> invocation \<or> it_agent_role (ir_trace result) \<noteq> role
      then bind_op (runtime_failure orch role ctx invocation runtime_failure_category.SCHEMA_INCOMPATIBLE
             ''agent invocation trace is incompatible with the cycle structure'')
             (\<lambda>f. lift_op (failed_outcome result stage rnd invocation f))
      else case ir_output result of
        Some x \<Rightarrow> (case contract_output role x of
            None \<Rightarrow> bind_op (runtime_failure orch role ctx invocation runtime_failure_category.INVALID_MODEL_OUTPUT
              ''runtime output does not match the role contract'')
              (\<lambda>f. lift_op (failed_outcome result stage rnd invocation f))
          | Some r \<Rightarrow> lift_op (bind_result (invocation_audit result stage rnd (Some (out_id r)) None) (\<lambda>a.
              Inr \<lparr>io_output = Some r, io_failure = None, io_audit = Some a, io_invocation_id = invocation\<rparr>)))
      | None \<Rightarrow> (case (ir_failure result, ir_runtime_failure_category result) of
            (Some f, Some rc) \<Rightarrow> lift_op (bind_result (build ''AgentFailureRecord'' ok_agent_failure_record
                (f\<lparr>afr_category := runtime_category rc,
                   afr_disposition := category_disposition (runtime_category rc) role\<rparr>))
                (failed_outcome result stage rnd invocation))
          | _ \<Rightarrow> raise_op AssertionError))"

text \<open>How an exception of the invoker is classified.\<close>

definition invocation_error :: "py_exception \<Rightarrow> runtime_failure_category \<times> string" where
  "invocation_error e = (case e of
     RuntimeInvocationError c d \<Rightarrow> (c, d)
   | ProviderError c d retryable dispatched \<Rightarrow> (c, d)
   | KeyError m \<Rightarrow> (runtime_failure_category.PROVIDER_UNAVAILABLE,
       ''configured agent runtime is unavailable or incompatible'')
   | TypeError m \<Rightarrow> (runtime_failure_category.PROVIDER_UNAVAILABLE,
       ''configured agent runtime is unavailable or incompatible'')
   | _ \<Rightarrow> if is_value_error e
       then (runtime_failure_category.PROVIDER_UNAVAILABLE, ''configured agent runtime is unavailable or incompatible'')
       else (runtime_failure_category.UNKNOWN_PROVIDER_ERROR, ''agent invocation failed unexpectedly''))"

definition invoke_role :: "'s shadow_orchestrator \<Rightarrow> agent_role \<Rightarrow> role_context \<Rightarrow> int \<Rightarrow> int option \<Rightarrow>
    ('s, invocation_outcome) op" where
  "invoke_role orch role ctx stage rnd =
     (let invocation = logical_invocation_id (so_sha orch) (fst (ctx_trace ctx)) (snd (ctx_trace ctx)) stage role rnd
      in try_op (so_invoke orch role ctx stage rnd)
           (\<lambda>e. bind_op (runtime_failure orch role ctx invocation (fst (invocation_error e)) (snd (invocation_error e)))
             (\<lambda>f. ret \<lparr>io_output = None, io_failure = Some f, io_audit = None, io_invocation_id = invocation\<rparr>))
           (outcome_of_result orch role ctx stage rnd invocation))"

section \<open>Finishing a cycle\<close>

definition stage_list :: "cycle_state \<Rightarrow> stage_execution_record list" where
  "stage_list st = map (\<lambda>n. the (map_of (cs_stages st) n)) (py_range1 6)"

definition cycle_of_state :: "'s shadow_orchestrator \<Rightarrow> cycle_state \<Rightarrow> instant \<Rightarrow> shadow_disposition \<Rightarrow>
    shadow_outcome_source \<Rightarrow> decision_cycle fallible" where
  "cycle_of_state orch st t disposition source =
     bind_result (build ''RiskInputAudit'' fields_risk_input_audit
       \<lparr>ria_schema_version = ''1.0.0'', ria_snapshot_digest = so_snapshot_digest orch (cs_snapshot st),
        ria_account_context = cs_account_context st\<rparr>) (\<lambda>audit.
     build ''DecisionCycle'' ok_decision_cycle
       \<lparr>dcyc_schema_version = ''1.0.0'', dcyc_cycle_id = ms_cycle_id (cs_snapshot st),
        dcyc_initial_snapshot_id = ms_snapshot_id (cs_snapshot st), dcyc_symbol = ms_symbol (cs_snapshot st),
        dcyc_primary_timeframe = ms_primary_timeframe (cs_snapshot st),
        dcyc_cycle_started_at = cs_started_at st, dcyc_cycle_completed_at = t,
        dcyc_app_mode = application_mode.SHADOW, dcyc_market_view = cs_market st,
        dcyc_risk_input_audit = audit, dcyc_stages = stage_list st, dcyc_invocations = cs_invocations st,
        dcyc_agent_outputs = cs_outputs st, dcyc_agent_failures = cs_failures st,
        dcyc_chief_decisions = cs_chief_decisions st, dcyc_chief_decision = cs_chief_decision st,
        dcyc_trade_proposal = cs_trade_proposal st, dcyc_risk_decision = cs_risk_decision st,
        dcyc_final_disposition = disposition, dcyc_outcome_source = source\<rparr>)"

definition shadow_intent :: "decision_cycle \<Rightarrow> instant \<Rightarrow> shadow_trade_intent option fallible" where
  "shadow_intent c t = (case dcyc_risk_decision c of
     None \<Rightarrow> Inr None
   | Some risk \<Rightarrow>
       if rd_status risk \<noteq> risk_decision_status.APPROVED then Inr None
       else case (dcyc_trade_proposal c, Option.bind (rd_position_sizing risk) psr_selected_volume) of
         (Some p, Some volume) \<Rightarrow> (case (tp_entry p, tp_stop_loss p, tp_take_profit p) of
             (Some entry, Some stop, Some target) \<Rightarrow>
               bind_result (build ''ShadowTradeIntent'' ok_shadow_trade_intent
                 \<lparr>sti_schema_version = ''1.0.0'', sti_cycle_id = dcyc_cycle_id c,
                  sti_snapshot_id = dcyc_initial_snapshot_id c, sti_proposal = p, sti_risk_decision = risk,
                  sti_selected_volume = volume, sti_hypothetical_entry = entry,
                  sti_hypothetical_stop_loss = stop, sti_hypothetical_take_profit = target,
                  sti_recorded_at = t, sti_execution_status = shadow_execution_status.NOT_EXECUTED_SHADOW\<rparr>)
               (\<lambda>i. Inr (Some i))
           | _ \<Rightarrow> Inl AssertionError)
       | _ \<Rightarrow> Inl AssertionError)"

definition finish_cycle :: "'s shadow_orchestrator \<Rightarrow> cycle_state \<Rightarrow> shadow_disposition \<Rightarrow>
    shadow_outcome_source \<Rightarrow> ('s, shadow_decision_record) op" where
  "finish_cycle orch st disposition source =
     bind_op (shadow_now orch) (\<lambda>t.
     bind_op (lift_op (fill_skipped t st)) (\<lambda>st.
     bind_op (lift_op (cycle_of_state orch st t disposition source)) (\<lambda>c.
     bind_op (lift_op (shadow_intent c t)) (\<lambda>intent.
     bind_op (lift_op (build ''ShadowDecisionRecord'' ok_shadow_decision_record
       \<lparr>sdr_schema_version = ''1.0.0'',
        sdr_record_id = shadow_record_id (so_sha orch) (dcyc_cycle_id c) (dcyc_initial_snapshot_id c),
        sdr_recorded_at = t, sdr_decision_cycle = c, sdr_shadow_trade_intent = intent\<rparr>)) (\<lambda>r.
     bind_op (so_finalize orch r) (\<lambda>_. ret r))))))"

definition failure_finish :: "'s shadow_orchestrator \<Rightarrow> cycle_state \<Rightarrow> int \<Rightarrow> instant \<Rightarrow> agent_failure_record \<Rightarrow>
    bool \<Rightarrow> ('s, shadow_decision_record) op" where
  "failure_finish orch st n started f recorded =
     (let aborts = (afr_disposition f = failure_disposition.ABORT_CYCLE)
      in bind_op (lift_op (if recorded then Inr st
           else set_stage n (if aborts then stage_execution_status.ABORTED else stage_execution_status.HOLD) started None st))
         (\<lambda>st. finish_cycle orch st (if aborts then shadow_disposition.ABORTED else shadow_disposition.POLICY_HOLD)
            shadow_outcome_source.FAILURE_POLICY))"

section \<open>The stages\<close>

text \<open>\<open>_typed_output\<close>: the retained output at the type of its role.\<close>

definition typed_output :: "(cycle_agent_output \<Rightarrow> 'a option) \<Rightarrow> invocation_outcome \<Rightarrow> 'a option" where
  "typed_output cast x = Option.bind (io_output x) cast"

definition market_context_of :: "cycle_agent_output \<Rightarrow> market_context_output option" where
  "market_context_of x = (case x of OutMarketContext r \<Rightarrow> Some r | _ \<Rightarrow> None)"

definition trend_of :: "cycle_agent_output \<Rightarrow> trend_analysis_output option" where
  "trend_of x = (case x of OutTrendAnalysis r \<Rightarrow> Some r | _ \<Rightarrow> None)"

definition price_action_of :: "cycle_agent_output \<Rightarrow> price_action_output option" where
  "price_action_of x = (case x of OutPriceAction r \<Rightarrow> Some r | _ \<Rightarrow> None)"

definition entry_of :: "cycle_agent_output \<Rightarrow> entry_analysis_output option" where
  "entry_of x = (case x of OutEntryAnalysis r \<Rightarrow> Some r | _ \<Rightarrow> None)"

definition quant_research_of :: "cycle_agent_output \<Rightarrow> quant_research_output option" where
  "quant_research_of x = (case x of OutQuantResearch r \<Rightarrow> Some r | _ \<Rightarrow> None)"

definition quant_developer_of :: "cycle_agent_output \<Rightarrow> quant_developer_output option" where
  "quant_developer_of x = (case x of OutQuantDeveloper r \<Rightarrow> Some r | _ \<Rightarrow> None)"

definition skeptic_of :: "cycle_agent_output \<Rightarrow> skeptic_output option" where
  "skeptic_of x = (case x of OutSkeptic r \<Rightarrow> Some r | _ \<Rightarrow> None)"

text \<open>\<open>assert x is not None\<close>\<close>

definition asserted :: "'a option \<Rightarrow> 'a fallible" where
  "asserted x = (case x of None \<Rightarrow> Inl AssertionError | Some y \<Rightarrow> Inr y)"

text \<open>
  A step of the cycle ends it with the finalised record (\<open>Inl\<close>, an early return) or goes on with a
  value (\<open>Inr\<close>); \<open>and_then\<close> is the code after the step.
\<close>

type_synonym ('s, 'a) step = "('s, shadow_decision_record + 'a) op"

definition and_then :: "('s, 'a) step \<Rightarrow> ('a \<Rightarrow> ('s, 'b) step) \<Rightarrow> ('s, 'b) step" where
  "and_then m f = bind_op m (\<lambda>x. case x of Inl r \<Rightarrow> ret (Inl r) | Inr y \<Rightarrow> f y)"

definition ends :: "('s, shadow_decision_record) op \<Rightarrow> ('s, 'a) step" where
  "ends m = bind_op m (\<lambda>r. ret (Inl r))"

definition proceed :: "'a \<Rightarrow> ('s, 'a) step" where
  "proceed x = ret (Inr x)"

text \<open>Running a check that may raise, and then the rest.\<close>

definition checked :: "'a fallible \<Rightarrow> ('a \<Rightarrow> ('s, 'b) op) \<Rightarrow> ('s, 'b) op" where
  "checked x f = bind_op (lift_op x) f"

fun degrade_all :: "agent_failure_record list \<Rightarrow> agent_failure_record list fallible" where
  "degrade_all [] = Inr []"
| "degrade_all (f # fs) = bind_result (with_disposition failure_disposition.CONTINUE_DEGRADED (Some f)) (\<lambda>g.
     bind_result (degrade_all fs) (\<lambda>gs. Inr (g # gs)))"

definition close_stage_one :: "'s shadow_orchestrator \<Rightarrow> instant \<Rightarrow> invocation_outcome \<Rightarrow> invocation_outcome \<Rightarrow>
    invocation_outcome \<Rightarrow> cycle_state \<Rightarrow> ('s, cycle_state \<times> stage_one_context) step" where
  "close_stage_one orch started x1 x2 x3 st0 =
     (let outcomes = [x1, x2, x3]; st = retain x3 (retain x2 (retain x1 st0));
          successes = length (filter (\<lambda>x. io_output x \<noteq> None) outcomes)
      in case stage_one_terminal outcomes successes of
           Some (status, disposition) \<Rightarrow> checked (set_stage 1 status started None st) (\<lambda>st.
             ends (finish_cycle orch st disposition shadow_outcome_source.FAILURE_POLICY))
         | None \<Rightarrow> checked (degrade_all (List.map_filter io_failure outcomes)) (\<lambda>failures.
             let one = \<lparr>soc_market_context = typed_output market_context_of x1, soc_trend = typed_output trend_of x2,
                   soc_price_action = typed_output price_action_of x3, soc_failures = failures\<rparr>
             in checked (set_stage 1 (if failures \<noteq> [] then stage_execution_status.DEGRADED
                     else stage_execution_status.COMPLETED) started None (replace_failures failures st)) (\<lambda>st.
                proceed (st, one))))"

definition stage_one :: "'s shadow_orchestrator \<Rightarrow> cycle_state \<Rightarrow> ('s, cycle_state \<times> stage_one_context) step" where
  "stage_one orch st = bind_op (shadow_now orch) (\<lambda>started.
     checked (market_context_input (cs_market st)) (\<lambda>c1.
     checked (trend_input (cs_market st)) (\<lambda>c2.
     checked (price_action_input (cs_market st)) (\<lambda>c3.
     bind_op (invoke_role orch agent_role.MARKET_CONTEXT c1 1 None) (\<lambda>x1.
     bind_op (invoke_role orch agent_role.TREND_ANALYST c2 1 None) (\<lambda>x2.
     bind_op (invoke_role orch agent_role.PRICE_ACTION_ANALYST c3 1 None) (\<lambda>x3.
     close_stage_one orch started x1 x2 x3 st)))))))"

definition stage_two :: "'s shadow_orchestrator \<Rightarrow> cycle_state \<Rightarrow> stage_one_context \<Rightarrow>
    ('s, cycle_state \<times> entry_analysis_output) step" where
  "stage_two orch st one = bind_op (shadow_now orch) (\<lambda>started.
     checked (entry_input (cs_market st) one) (\<lambda>ctx.
     bind_op (invoke_role orch agent_role.ENTRY_ANALYST ctx 2 None) (\<lambda>x.
     let st = retain x st
     in case io_failure x of
          Some f \<Rightarrow> ends (failure_finish orch st 2 started f False)
        | None \<Rightarrow> checked (asserted (typed_output entry_of x)) (\<lambda>entry.
            checked (set_stage 2 stage_execution_status.COMPLETED started None st) (\<lambda>st.
            proceed (st, entry))))))"

text \<open>A failure of a quant role ends the cycle unless its disposition is to continue degraded.\<close>

definition stopping_failure :: "invocation_outcome \<Rightarrow> agent_failure_record option" where
  "stopping_failure x = (case io_failure x of
     Some f \<Rightarrow> if afr_disposition f \<noteq> failure_disposition.CONTINUE_DEGRADED then Some f else None | None \<Rightarrow> None)"

definition quant_degraded :: "cycle_state \<Rightarrow> bool" where
  "quant_degraded st \<longleftrightarrow> list_ex (\<lambda>f. afr_agent_role f \<in>
     {Some agent_role.QUANT_RESEARCHER, Some agent_role.SENIOR_QUANT_DEVELOPER}) (cs_failures st)"

definition quant_stage :: "'s shadow_orchestrator \<Rightarrow> cycle_state \<Rightarrow> stage_one_context \<Rightarrow> entry_analysis_output \<Rightarrow>
    ('s, cycle_state \<times> quant_research_output option \<times> quant_developer_output option) step" where
  "quant_stage orch st one entry = bind_op (shadow_now orch) (\<lambda>started.
     let selection = scp_quant_stage_selection (so_policy orch);
         complete = (\<lambda>st quant developer. checked (set_stage 3 (if quant_degraded st
             then stage_execution_status.DEGRADED else stage_execution_status.COMPLETED) started None st)
           (\<lambda>st. proceed (st, quant, developer)))
     in if selection = quant_stage_selection.SKIP
        then checked (set_stage 3 stage_execution_status.SKIPPED started (Some ''quant stage not selected'') st)
          (\<lambda>st. proceed (st, None, None))
        else checked (quant_research_input_of (cs_market st) one entry) (\<lambda>ctx.
          bind_op (invoke_role orch agent_role.QUANT_RESEARCHER ctx 3 None) (\<lambda>x.
          let st = retain x st
          in case stopping_failure x of
               Some f \<Rightarrow> ends (failure_finish orch st 3 started f False)
             | None \<Rightarrow> (let quant = typed_output quant_research_of x
                 in if selection = quant_stage_selection.QUANT_AND_SENIOR_REVIEW
                    then checked (quant_developer_input_of (cs_market st) one entry quant) (\<lambda>ctx.
                      bind_op (invoke_role orch agent_role.SENIOR_QUANT_DEVELOPER ctx 3 None) (\<lambda>y.
                      let st = retain y st
                      in case stopping_failure y of
                           Some f \<Rightarrow> ends (failure_finish orch st 3 started f False)
                         | None \<Rightarrow> complete st quant (typed_output quant_developer_of y)))
                    else complete st quant None))))"

text \<open>
  The rounds of the debate still to run, with the draft of the last one: the Skeptic answers the
  draft, the Chief answers the Skeptic, and a HOLD ends the debate.
\<close>

primrec debate :: "int list \<Rightarrow> 's shadow_orchestrator \<Rightarrow> instant \<Rightarrow> stage_one_context \<Rightarrow> entry_analysis_output \<Rightarrow>
    quant_research_output option \<Rightarrow> quant_developer_output option \<Rightarrow> chief_trader_output option \<Rightarrow> cycle_state \<Rightarrow>
    ('s, cycle_state \<times> chief_trader_output option) step" where
  "debate [] orch started one entry quant developer draft st = proceed (st, draft)"
| "debate (n # ns) orch started one entry quant developer draft st =
     checked (skeptic_input_of (cs_market st) one entry quant developer draft) (\<lambda>ctx.
     bind_op (invoke_role orch agent_role.SKEPTIC ctx 4 (Some n)) (\<lambda>x.
     let st = retain x st
     in case io_failure x of
          Some f \<Rightarrow> checked (set_stage 4 stage_execution_status.HOLD started None st) (\<lambda>st.
            ends (failure_finish orch st 5 started f True))
        | None \<Rightarrow> checked (asserted (typed_output skeptic_of x)) (\<lambda>skeptic.
            checked (chief_input_of (cs_market st) one entry quant developer skeptic) (\<lambda>ctx.
            bind_op (invoke_role orch agent_role.CHIEF_TRADER ctx 5 (Some n)) (\<lambda>y.
            let st = retain y st
            in case io_failure y of
                 Some f \<Rightarrow> checked (set_stage 4 stage_execution_status.COMPLETED started None st) (\<lambda>st.
                   ends (failure_finish orch st 5 started f True))
               | None \<Rightarrow> checked (asserted (typed_output chief_of y)) (\<lambda>chief.
                   let st = st\<lparr>cs_chief_decisions := cs_chief_decisions st @ [chief]\<rparr>
                   in if ctr_action (ao_payload chief) = trade_action.HOLD then proceed (st, Some chief)
                      else debate ns orch started one entry quant developer (Some chief) st))))))"

definition risk_stage :: "'s shadow_orchestrator \<Rightarrow> cycle_state \<Rightarrow> chief_trader_output \<Rightarrow> trade_proposal \<Rightarrow>
    ('s, shadow_decision_record) op" where
  "risk_stage orch st chief proposal = bind_op (shadow_now orch) (\<lambda>started.
     try_op (bind_op (shadow_now orch) (\<lambda>t. so_risk orch proposal (cs_snapshot st) (cs_account_context st) (Aware t)))
       (\<lambda>e. bind_op (shadow_now orch) (\<lambda>t.
          checked (add_system_failure (so_sha orch) agent_failure_category.UNKNOWN
            ''deterministic Risk stage raised an unexpected error'' t st) (\<lambda>st.
          checked (set_stage 6 stage_execution_status.ABORTED started None st) (\<lambda>st.
          finish_cycle orch st shadow_disposition.ABORTED shadow_outcome_source.ORCHESTRATOR))))
       (\<lambda>risk. let st = st\<lparr>cs_risk_decision := Some risk\<rparr>
          in checked (set_stage 6 stage_execution_status.COMPLETED started None st) (\<lambda>st.
             finish_cycle orch st
               (if rd_status risk = risk_decision_status.HALTED then shadow_disposition.RISK_HALTED
                else if rd_status risk = risk_decision_status.REJECTED then shadow_disposition.RISK_REJECTED
                else if ctr_action (ao_payload chief) = trade_action.BUY then shadow_disposition.WOULD_BUY
                else shadow_disposition.WOULD_SELL) shadow_outcome_source.RISK_ENGINE)))"

definition conclude :: "'s shadow_orchestrator \<Rightarrow> instant \<Rightarrow> cycle_state \<Rightarrow> chief_trader_output option \<Rightarrow>
    ('s, shadow_decision_record) op" where
  "conclude orch debate_started st draft =
     checked (set_stage 4 stage_execution_status.COMPLETED debate_started None st) (\<lambda>st.
     checked (set_stage 5 stage_execution_status.COMPLETED debate_started None st) (\<lambda>st.
     checked (asserted draft) (\<lambda>chief.
     let proposal = ctr_trade_proposal (ao_payload chief);
         st = st\<lparr>cs_chief_decision := Some chief, cs_trade_proposal := proposal\<rparr>
     in if ctr_action (ao_payload chief) = trade_action.HOLD
        then bind_op (shadow_now orch) (\<lambda>t.
          checked (set_stage 6 stage_execution_status.SKIPPED t (Some ''Chief HOLD'') st) (\<lambda>st.
          finish_cycle orch st shadow_disposition.CHIEF_HOLD shadow_outcome_source.CHIEF_TRADER))
        else checked (asserted proposal) (\<lambda>p. risk_stage orch st chief p))))"

section \<open>The cycle\<close>

text \<open>The steps from the first stage on, once the inputs have passed.\<close>

definition decide_cycle :: "'s shadow_orchestrator \<Rightarrow> cycle_state \<Rightarrow> ('s, shadow_decision_record) op" where
  "decide_cycle orch st = bind_op
     (and_then (stage_one orch st) (\<lambda>(st, one).
      and_then (stage_two orch st one) (\<lambda>(st, entry).
      and_then (quant_stage orch st one entry) (\<lambda>(st, quant, developer).
      bind_op (shadow_now orch) (\<lambda>started.
      and_then (debate (py_range1 (nat (scp_debate_rounds (so_policy orch)))) orch started one entry quant developer None st)
        (\<lambda>(st, draft). ends (conclude orch started st draft)))))))
     (\<lambda>x. case x of Inl r \<Rightarrow> ret r | Inr () \<Rightarrow> raise_op AssertionError)"

definition new_cycle_state :: "market_snapshot \<Rightarrow> account_risk_context \<Rightarrow> agent_market_view \<Rightarrow> instant \<Rightarrow> cycle_state" where
  "new_cycle_state s ctx m t = \<lparr>cs_snapshot = s, cs_account_context = ctx, cs_market = m, cs_started_at = t,
     cs_stages = [], cs_invocations = [], cs_outputs = [], cs_failures = [], cs_chief_decisions = [],
     cs_chief_decision = None, cs_trade_proposal = None, cs_risk_decision = None\<rparr>"

text \<open>The preflight and the freshness policy, which may end the cycle before any role is invoked.\<close>

definition examine_inputs :: "'s shadow_orchestrator \<Rightarrow> market_snapshot \<Rightarrow> account_risk_context \<Rightarrow>
    agent_market_view \<Rightarrow> instant \<Rightarrow> ('s, shadow_decision_record) op" where
  "examine_inputs orch s ctx m started =
     (let st = new_cycle_state s ctx m started
      in case validate_shadow_inputs (so_sha orch) s ctx (Aware started) of
          Inl (ShadowPreflightError reason) \<Rightarrow> bind_op (shadow_now orch) (\<lambda>t.
            checked (add_system_failure (so_sha orch) agent_failure_category.SCHEMA_MISMATCH
              ''shadow input compatibility preflight failed'' t st) (\<lambda>st.
            bind_op (shadow_now orch) (\<lambda>t.
            checked (set_stage 1 stage_execution_status.ABORTED t (Some reason) st) (\<lambda>st.
            finish_cycle orch st shadow_disposition.ABORTED shadow_outcome_source.ORCHESTRATOR))))
        | Inl e \<Rightarrow> raise_op e
        | Inr _ \<Rightarrow>
            if sfre_overall (amv_freshness m) = freshness_state.STALE
            then bind_op (shadow_now orch) (\<lambda>t.
              checked (add_system_failure (so_sha orch) agent_failure_category.STALE_SNAPSHOT
                ''valid snapshot is stale under SHADOW decision policy'' t st) (\<lambda>st.
              bind_op (shadow_now orch) (\<lambda>t.
              checked (set_stage 1 stage_execution_status.HOLD t (Some ''stale snapshot'') st) (\<lambda>st.
              finish_cycle orch st shadow_disposition.POLICY_HOLD shadow_outcome_source.FAILURE_POLICY))))
            else decide_cycle orch st)"

text \<open>What follows the claim.\<close>

definition claimed_cycle :: "'s shadow_orchestrator \<Rightarrow> market_snapshot \<Rightarrow> account_risk_context \<Rightarrow>
    agent_market_view option \<Rightarrow> instant \<Rightarrow> ('s, shadow_decision_record) op" where
  "claimed_cycle orch s ctx view started =
     checked (case view of None \<Rightarrow> market_view (so_view_digest orch) s None | Some m \<Rightarrow> Inr m) (\<lambda>m.
     checked (run_guards [(amv_cycle_id m \<noteq> ms_cycle_id s \<or> amv_snapshot_id m \<noteq> ms_snapshot_id s \<or>
         amv_symbol m \<noteq> ms_symbol s, ValueError ''supplied agent market view does not match the snapshot'')])
       (\<lambda>_. examine_inputs orch s ctx m started))"

definition run_shadow_cycle :: "'s shadow_orchestrator \<Rightarrow> market_snapshot \<Rightarrow> account_risk_context \<Rightarrow>
    agent_market_view option \<Rightarrow> ('s, shadow_decision_record) op" where
  "run_shadow_cycle orch s ctx view =
     bind_op (shadow_now orch) (\<lambda>started.
     bind_op (so_claim orch (ms_cycle_id s) (ms_snapshot_id s) (Aware started)) (\<lambda>_.
     claimed_cycle orch s ctx view started))"

end
