(* ===== verification/ShadowAudit.thy ===== *)
theory ShadowAudit
  imports ShadowSchemas Effects
begin

text \<open>
  \<open>storage/shadow_audit.py\<close>: the claim of a cycle identity, its finalisation with the decision record
  and its abandonment, in memory and on SQLite. A row of a SQLite table is the instance it was written
  from (the JSON round trip of a record and the ISO round trip of a timestamp keep them); reading a
  claim row validates it again. The driver's other failures are the flag \<open>fault\<close> of a call. Cycle and
  snapshot identities are given stripped, as the validated snapshot of a cycle carries them.
\<close>

section \<open>Claims\<close>

definition audit_utc :: "py_datetime \<Rightarrow> instant fallible" where
  "audit_utc t = (if is_naive t then Inl (ValueError ''timestamp must be timezone-aware'') else Inr (as_utc t))"

definition fresh_claim :: "string \<Rightarrow> string \<Rightarrow> py_datetime \<Rightarrow> cycle_claim fallible" where
  "fresh_claim cycle snap t = bind_result (audit_utc t) (\<lambda>moment. build ''CycleClaim'' ok_cycle_claim
     \<lparr>cc_schema_version = ''1.0.0'', cc_cycle_id = cycle, cc_snapshot_id = snap,
      cc_state = cycle_claim_state.INCOMPLETE, cc_claimed_at = moment, cc_updated_at = moment,
      cc_sanitized_reason = None\<rparr>)"

text \<open>The tests every transition starts with, on what \<open>get_claim\<close> returned.\<close>

definition require_incomplete :: "cycle_claim option \<Rightarrow> cycle_claim fallible" where
  "require_incomplete x = (case x of
     None \<Rightarrow> Inl (KeyError ''cycle claim does not exist'')
   | Some c \<Rightarrow> if cc_state c \<noteq> cycle_claim_state.INCOMPLETE
               then Inl (ValueError ''only an incomplete cycle may transition'') else Inr c)"

definition record_cycle :: "shadow_decision_record \<Rightarrow> string" where
  "record_cycle r = dcyc_cycle_id (sdr_decision_cycle r)"

definition record_snapshot :: "shadow_decision_record \<Rightarrow> string" where
  "record_snapshot r = dcyc_initial_snapshot_id (sdr_decision_cycle r)"

definition finalized_claim :: "shadow_decision_record \<Rightarrow> cycle_claim \<Rightarrow> cycle_claim" where
  "finalized_claim r c = c\<lparr>cc_state := cycle_claim_state.FINALIZED, cc_updated_at := sdr_recorded_at r\<rparr>"

definition abandoned_claim :: "instant \<Rightarrow> string \<Rightarrow> cycle_claim \<Rightarrow> cycle_claim" where
  "abandoned_claim t reason c =
     c\<lparr>cc_state := cycle_claim_state.ABANDONED, cc_updated_at := t, cc_sanitized_reason := Some reason\<rparr>"

definition snapshot_check :: "shadow_decision_record \<Rightarrow> cycle_claim \<Rightarrow> unit fallible" where
  "snapshot_check r c = run_guards [(cc_snapshot_id c \<noteq> record_snapshot r,
     ValueError ''final record snapshot does not match cycle claim'')]"

section \<open>In memory\<close>

record audit_memory =
  am_claims :: "(string \<times> cycle_claim) list"
  am_records :: "(string \<times> shadow_decision_record) list"

definition empty_audit :: audit_memory where
  "empty_audit = \<lparr>am_claims = [], am_records = []\<rparr>"

definition am_claim_cycle :: "string \<Rightarrow> string \<Rightarrow> py_datetime \<Rightarrow> (audit_memory, cycle_claim) op" where
  "am_claim_cycle cycle snap t s =
     (if map_of (am_claims s) cycle \<noteq> None then (Inl DuplicateCycleError, s)
      else case fresh_claim cycle snap t of
        Inl e \<Rightarrow> (Inl e, s)
      | Inr c \<Rightarrow> (Inr c, s\<lparr>am_claims := AList.update cycle c (am_claims s)\<rparr>))"

definition am_finalize :: "shadow_decision_record \<Rightarrow> (audit_memory, unit) op" where
  "am_finalize r s =
     (case bind_result (require_incomplete (map_of (am_claims s) (record_cycle r)))
             (\<lambda>c. bind_result (snapshot_check r c) (\<lambda>_. Inr c)) of
        Inl e \<Rightarrow> (Inl e, s)
      | Inr c \<Rightarrow> (Inr (), s\<lparr>am_records := AList.update (record_cycle r) r (am_records s),
          am_claims := AList.update (record_cycle r) (finalized_claim r c) (am_claims s)\<rparr>))"

definition am_abandon :: "string \<Rightarrow> py_datetime \<Rightarrow> string \<Rightarrow> (audit_memory, cycle_claim) op" where
  "am_abandon cycle t reason s =
     (case bind_result (require_incomplete (map_of (am_claims s) cycle)) (\<lambda>c.
           bind_result (audit_utc t) (\<lambda>moment.
           build ''CycleClaim'' ok_cycle_claim (abandoned_claim moment reason c))) of
        Inl e \<Rightarrow> (Inl e, s)
      | Inr c \<Rightarrow> (Inr c, s\<lparr>am_claims := AList.update cycle c (am_claims s)\<rparr>))"

definition am_get_claim :: "audit_memory \<Rightarrow> string \<Rightarrow> cycle_claim option" where
  "am_get_claim s cycle = map_of (am_claims s) cycle"

definition am_get_record :: "audit_memory \<Rightarrow> string \<Rightarrow> shadow_decision_record option" where
  "am_get_record s cycle = map_of (am_records s) cycle"

section \<open>On SQLite\<close>

record audit_tables =
  at_claims :: "cycle_claim list"
  at_records :: "shadow_decision_record list"

definition empty_tables :: audit_tables where
  "empty_tables = \<lparr>at_claims = [], at_records = []\<rparr>"

definition claim_row :: "audit_tables \<Rightarrow> string \<Rightarrow> cycle_claim option" where
  "claim_row s cycle = find (\<lambda>c. cc_cycle_id c = cycle) (at_claims s)"

definition update_rows :: "string \<Rightarrow> (cycle_claim \<Rightarrow> cycle_claim) \<Rightarrow> cycle_claim list \<Rightarrow> cycle_claim list" where
  "update_rows cycle f rows = map (\<lambda>c. if cc_cycle_id c = cycle then f c else c) rows"

definition at_get_claim :: "audit_tables \<Rightarrow> string \<Rightarrow> cycle_claim option fallible" where
  "at_get_claim s cycle = (case claim_row s cycle of
     None \<Rightarrow> Inr None
   | Some c \<Rightarrow> bind_result (build ''CycleClaim'' ok_cycle_claim c) (\<lambda>c. Inr (Some c)))"

definition at_get_record :: "audit_tables \<Rightarrow> string \<Rightarrow> shadow_decision_record option" where
  "at_get_record s cycle = find (\<lambda>r. record_cycle r = cycle) (at_records s)"

definition at_require_incomplete :: "audit_tables \<Rightarrow> string \<Rightarrow> cycle_claim fallible" where
  "at_require_incomplete s cycle = bind_result (at_get_claim s cycle) require_incomplete"

definition at_claim_cycle :: "bool \<Rightarrow> string \<Rightarrow> string \<Rightarrow> py_datetime \<Rightarrow> (audit_tables, cycle_claim) op" where
  "at_claim_cycle fault cycle snap t s =
     (case fresh_claim cycle snap t of
        Inl e \<Rightarrow> (Inl e, s)
      | Inr c \<Rightarrow>
          if fault then (Inl (StorageError ''sqlite''), s)
          else if claim_row s cycle \<noteq> None then (Inl DuplicateCycleError, s)
          else (Inr c, s\<lparr>at_claims := at_claims s @ [c]\<rparr>))"

definition at_finalize :: "bool \<Rightarrow> shadow_decision_record \<Rightarrow> (audit_tables, unit) op" where
  "at_finalize fault r s =
     (if fault then (Inl (StorageError ''sqlite''), s)
      else case bind_result (at_require_incomplete s (record_cycle r)) (\<lambda>c.
                bind_result (snapshot_check r c) (\<lambda>_.
                run_guards [(list_ex (\<lambda>x. record_cycle x = record_cycle r \<or> sdr_record_id x = sdr_record_id r)
                   (at_records s), IntegrityError)])) of
        Inl e \<Rightarrow> (Inl e, s)
      | Inr _ \<Rightarrow> (Inr (), s\<lparr>at_records := at_records s @ [r],
          at_claims := update_rows (record_cycle r) (finalized_claim r) (at_claims s)\<rparr>))"

text \<open>The update is committed before the row is read back, and so before it is validated.\<close>

definition at_abandon :: "bool \<Rightarrow> string \<Rightarrow> py_datetime \<Rightarrow> string \<Rightarrow> (audit_tables, cycle_claim) op" where
  "at_abandon fault cycle t reason s =
     (case bind_result (audit_utc t) (\<lambda>moment.
           bind_result (if fault then Inl (StorageError ''sqlite'') else at_require_incomplete s cycle)
             (\<lambda>_. Inr moment)) of
        Inl e \<Rightarrow> (Inl e, s)
      | Inr moment \<Rightarrow>
          (let s' = s\<lparr>at_claims := update_rows cycle (abandoned_claim moment reason) (at_claims s)\<rparr>
           in (bind_result (at_get_claim s' cycle) (\<lambda>c. case c of None \<Rightarrow> Inl AssertionError | Some c \<Rightarrow> Inr c), s')))"

end
