(* ===== verification/ShadowAuditTheorems.thy ===== *)
theory ShadowAuditTheorems
  imports ShadowAudit
begin

text \<open>
  What an audit repository promises: each cycle identity goes once from absent to claimed, and from
  there at most once to finalised, with the record of that cycle and snapshot, or to abandoned. The
  contract is a locale over what a repository knows of an identity; both repositories refine it.
\<close>

section \<open>The life of a cycle identity\<close>

datatype audit_entry =
    Absent
  | Claimed string
  | Finalized string "shadow_decision_record option"
  | Abandoned string

inductive entry_step :: "string \<Rightarrow> audit_entry \<Rightarrow> audit_entry \<Rightarrow> bool" for cycle where
  step_claim: "entry_step cycle Absent (Claimed snap)"
| step_finalize: "record_cycle r = cycle \<Longrightarrow> record_snapshot r = snap \<Longrightarrow>
    entry_step cycle (Claimed snap) (Finalized snap (Some r))"
| step_abandon: "entry_step cycle (Claimed snap) (Abandoned snap)"

inductive_simps entry_step_from [simp]:
  "entry_step cycle Absent y" "entry_step cycle (Claimed snap) y" "entry_step cycle (Finalized snap r) y"
  "entry_step cycle (Abandoned snap) y"

definition claim_entry :: "cycle_claim option \<Rightarrow> shadow_decision_record option \<Rightarrow> audit_entry" where
  "claim_entry x r = (case x of
     None \<Rightarrow> Absent
   | Some c \<Rightarrow> (case cc_state c of
       cycle_claim_state.INCOMPLETE \<Rightarrow> Claimed (cc_snapshot_id c)
     | cycle_claim_state.FINALIZED \<Rightarrow> Finalized (cc_snapshot_id c) r
     | cycle_claim_state.ABANDONED \<Rightarrow> Abandoned (cc_snapshot_id c)))"

text \<open>The calls a client makes; a call that raises leaves the other identities as they are, too.\<close>

datatype audit_call =
    CallClaim string string py_datetime
  | CallFinalize shadow_decision_record
  | CallAbandon string py_datetime string

primrec call_cycle :: "audit_call \<Rightarrow> string" where
  "call_cycle (CallClaim cycle snap t) = cycle"
| "call_cycle (CallFinalize r) = record_cycle r"
| "call_cycle (CallAbandon cycle t reason) = cycle"

locale audit_repository =
  fixes run :: "'c \<Rightarrow> 's \<Rightarrow> 's"
    and target :: "'c \<Rightarrow> string"
    and entry :: "'s \<Rightarrow> string \<Rightarrow> audit_entry"
    and good :: "'s \<Rightarrow> bool"
    and start :: 's
  assumes start_good: "good start" and start_absent: "entry start c = Absent"
    and run_good: "good s \<Longrightarrow> good (run a s)"
    and run_frame: "good s \<Longrightarrow> c \<noteq> target a \<Longrightarrow> entry (run a s) c = entry s c"
    and run_step: "good s \<Longrightarrow> entry (run a s) (target a) = entry s (target a) \<or>
        entry_step (target a) (entry s (target a)) (entry (run a s) (target a))"

definition run_calls :: "('c \<Rightarrow> 's \<Rightarrow> 's) \<Rightarrow> 'c list \<Rightarrow> 's \<Rightarrow> 's" where
  "run_calls f as s = foldl (\<lambda>t a. f a t) s as"

lemma run_calls_simps [simp]:
  "run_calls f [] s = s" "run_calls f (a # as) s = run_calls f as (f a s)"
  "run_calls f (as @ bs) s = run_calls f bs (run_calls f as s)"
  by (simp_all add: run_calls_def)

context audit_repository
begin

lemma calls_good: "good s \<Longrightarrow> good (run_calls run as s)"
  by (induction as arbitrary: s) (auto simp: run_good)

lemma call_progress: "good s \<Longrightarrow> (entry_step c)\<^sup>*\<^sup>* (entry s c) (entry (run a s) c)"
  using run_frame [of s c a] run_step [of s a] by (cases "c = target a") auto

lemma calls_progress: "good s \<Longrightarrow> (entry_step c)\<^sup>*\<^sup>* (entry s c) (entry (run_calls run as s) c)"
proof (induction as arbitrary: s)
  case (Cons a as)
  from Cons.IH [OF run_good [OF Cons.prems]] call_progress [OF Cons.prems]
  show ?case by (auto intro: rtranclp_trans)
qed simp

lemma lifecycle: "(entry_step c)\<^sup>*\<^sup>* Absent (entry (run_calls run as start) c)"
  using calls_progress [OF start_good, of c as] by (simp add: start_absent)

lemma continued:
  "(entry_step c)\<^sup>*\<^sup>* (entry (run_calls run as start) c) (entry (run_calls run (as @ bs) start) c)"
  using calls_progress [OF calls_good [OF start_good], of c as bs] by simp

end

text \<open>Nothing leaves a final state, and a finalised entry carries the record of the claimed snapshot.\<close>

lemma final_stays:
  "(entry_step c)\<^sup>*\<^sup>* x y \<Longrightarrow> x = Finalized snap r \<or> x = Abandoned snap \<Longrightarrow> y = x"
  by (induction rule: rtranclp_induct) auto

lemma from_claimed:
  assumes "(entry_step c)\<^sup>*\<^sup>* (Claimed snap) y"
  shows "y = Claimed snap \<or> y = Abandoned snap \<or>
    (\<exists>r. y = Finalized snap (Some r) \<and> record_cycle r = c \<and> record_snapshot r = snap)"
  using assms by (induction rule: rtranclp_induct) auto

lemma from_absent:
  assumes "(entry_step c)\<^sup>*\<^sup>* Absent y"
  shows "y = Absent \<or> (\<exists>snap. (entry_step c)\<^sup>*\<^sup>* (Claimed snap) y)"
  using assms by (induction rule: rtranclp_induct) (auto intro: rtranclp.rtrancl_into_rtrancl)

section \<open>The repositories\<close>

primrec am_run :: "audit_call \<Rightarrow> audit_memory \<Rightarrow> audit_memory" where
  "am_run (CallClaim cycle snap t) s = snd (am_claim_cycle cycle snap t s)"
| "am_run (CallFinalize r) s = snd (am_finalize r s)"
| "am_run (CallAbandon cycle t reason) s = snd (am_abandon cycle t reason s)"

primrec at_run :: "bool \<times> audit_call \<Rightarrow> audit_tables \<Rightarrow> audit_tables" where
  "at_run (fault, a) s = (case a of
     CallClaim cycle snap t \<Rightarrow> snd (at_claim_cycle fault cycle snap t s)
   | CallFinalize r \<Rightarrow> snd (at_finalize fault r s)
   | CallAbandon cycle t reason \<Rightarrow> snd (at_abandon fault cycle t reason s))"

definition am_entry :: "audit_memory \<Rightarrow> string \<Rightarrow> audit_entry" where
  "am_entry s c = claim_entry (am_get_claim s c) (am_get_record s c)"

definition at_entry :: "audit_tables \<Rightarrow> string \<Rightarrow> audit_entry" where
  "at_entry s c = claim_entry (claim_row s c) (at_get_record s c)"

lemma fresh_claim_Inr:
  "fresh_claim cycle snap t = Inr c \<Longrightarrow>
     cc_cycle_id c = cycle \<and> cc_snapshot_id c = snap \<and> cc_state c = cycle_claim_state.INCOMPLETE \<and> ok_cycle_claim c"
  by (auto simp: fresh_claim_def result_simps)

lemma require_incomplete_Inr [result_simps]:
  "require_incomplete x = Inr c \<longleftrightarrow> x = Some c \<and> cc_state c = cycle_claim_state.INCOMPLETE"
  by (auto simp: require_incomplete_def split: option.splits if_splits)

lemma snapshot_check_Inr [result_simps]: "snapshot_check r c = Inr () \<longleftrightarrow> cc_snapshot_id c = record_snapshot r"
  by (auto simp: snapshot_check_def)

lemma claim_entry_simps [simp]:
  "claim_entry None r = Absent"
  "cc_state c = cycle_claim_state.INCOMPLETE \<Longrightarrow> claim_entry (Some c) r = Claimed (cc_snapshot_id c)"
  "claim_entry (Some (finalized_claim d c)) r = Finalized (cc_snapshot_id c) r"
  "claim_entry (Some (abandoned_claim t reason c)) r = Abandoned (cc_snapshot_id c)"
  by (simp_all add: claim_entry_def finalized_claim_def abandoned_claim_def)

lemma claim_keeps_identity [simp]:
  "cc_cycle_id (finalized_claim r c) = cc_cycle_id c" "cc_cycle_id (abandoned_claim t reason c) = cc_cycle_id c"
  by (simp_all add: finalized_claim_def abandoned_claim_def)

interpretation memory_audit: audit_repository am_run call_cycle am_entry "\<lambda>s. True" empty_audit
proof unfold_locales
  fix s :: audit_memory and c :: string and a :: audit_call
  assume "c \<noteq> call_cycle a"
  then show "am_entry (am_run a s) c = am_entry s c"
    by (cases a) (auto simp: am_claim_cycle_def am_finalize_def am_abandon_def am_entry_def am_get_claim_def
      am_get_record_def update_conv' split: sum.splits)
next
  fix s :: audit_memory and a :: audit_call
  show "am_entry (am_run a s) (call_cycle a) = am_entry s (call_cycle a) \<or>
     entry_step (call_cycle a) (am_entry s (call_cycle a)) (am_entry (am_run a s) (call_cycle a))"
    by (cases a) (auto simp: am_claim_cycle_def am_finalize_def am_abandon_def am_entry_def am_get_claim_def
      am_get_record_def update_conv' result_simps split: sum.splits dest: fresh_claim_Inr)
qed (simp_all add: am_entry_def am_get_claim_def empty_audit_def)

text \<open>On SQLite a claim row keeps the identity it was inserted under.\<close>

lemma find_append: "find P (xs @ ys) = (case find P xs of None \<Rightarrow> find P ys | Some x \<Rightarrow> Some x)"
  by (induction xs) auto

lemma find_update_rows:
  assumes "\<And>c. cc_cycle_id (f c) = cc_cycle_id c"
  shows "find (\<lambda>c. cc_cycle_id c = x) (update_rows cycle f rows) =
    map_option (\<lambda>c. if x = cycle then f c else c) (find (\<lambda>c. cc_cycle_id c = x) rows)"
  using assms by (induction rows) (auto simp: update_rows_def)

lemma claim_row_update [simp]:
  "claim_row (s\<lparr>at_claims := update_rows cycle (finalized_claim r) (at_claims s)\<rparr>) x =
     map_option (\<lambda>c. if x = cycle then finalized_claim r c else c) (claim_row s x)"
  "claim_row (s\<lparr>at_claims := update_rows cycle (abandoned_claim t reason) (at_claims s)\<rparr>) x =
     map_option (\<lambda>c. if x = cycle then abandoned_claim t reason c else c) (claim_row s x)"
  "claim_row (s\<lparr>at_records := rs\<rparr>) x = claim_row s x"
  "claim_row (s\<lparr>at_records := rs, at_claims := cs\<rparr>) x = claim_row (s\<lparr>at_claims := cs\<rparr>) x"
  by (simp_all add: claim_row_def find_update_rows)

lemma claim_row_insert [simp]:
  "claim_row (s\<lparr>at_claims := at_claims s @ [c]\<rparr>) x =
     (case claim_row s x of None \<Rightarrow> if cc_cycle_id c = x then Some c else None | Some y \<Rightarrow> Some y)"
  by (simp add: claim_row_def find_append split: option.split)

lemma at_get_record_simps [simp]:
  "at_get_record (s\<lparr>at_claims := cs\<rparr>) x = at_get_record s x"
  "at_get_record (s\<lparr>at_records := at_records s @ [r]\<rparr>) x =
     (case at_get_record s x of None \<Rightarrow> if record_cycle r = x then Some r else None | Some y \<Rightarrow> Some y)"
  by (simp_all add: at_get_record_def find_append split: option.split)

lemma at_require_incomplete_Inr [result_simps]:
  "at_require_incomplete s cycle = Inr c \<longleftrightarrow>
     claim_row s cycle = Some c \<and> ok_cycle_claim c \<and> cc_state c = cycle_claim_state.INCOMPLETE"
  by (auto simp: at_require_incomplete_def at_get_claim_def result_simps split: option.splits)

lemma no_record:
  "\<not> list_ex (\<lambda>x. record_cycle x = cycle \<or> P x) rows \<Longrightarrow> find (\<lambda>r. record_cycle r = cycle) rows = None"
  by (auto simp: find_None_iff list_ex_iff)

lemma at_claim_entry:
  "at_entry (snd (at_claim_cycle fault cycle snap t s)) c = at_entry s c \<or>
     c = cycle \<and> entry_step c (at_entry s c) (at_entry (snd (at_claim_cycle fault cycle snap t s)) c)"
  by (auto simp: at_claim_cycle_def at_entry_def split: sum.splits option.splits dest!: fresh_claim_Inr)

lemma at_finalize_entry:
  "at_entry (snd (at_finalize fault r s)) c = at_entry s c \<or>
     c = record_cycle r \<and> entry_step c (at_entry s c) (at_entry (snd (at_finalize fault r s)) c)"
  by (cases "c = record_cycle r") (auto simp: at_finalize_def at_entry_def result_simps at_get_record_def [of s] no_record
      option.map_ident split: sum.splits option.splits)

lemma at_abandon_entry:
  "at_entry (snd (at_abandon fault cycle t reason s)) c = at_entry s c \<or>
     c = cycle \<and> entry_step c (at_entry s c) (at_entry (snd (at_abandon fault cycle t reason s)) c)"
  by (cases "c = cycle") (auto simp: at_abandon_def at_entry_def result_simps Let_def option.map_ident
      split: sum.splits option.splits if_splits)

lemma at_run_entry:
  "at_entry (at_run fa s) c = at_entry s c \<or>
     c = call_cycle (snd fa) \<and> entry_step c (at_entry s c) (at_entry (at_run fa s) c)"
proof -
  obtain fault a where fa: "fa = (fault, a)" by (cases fa)
  show ?thesis
    using at_claim_entry [of fault _ _ _ s c] at_finalize_entry [of fault _ s c] at_abandon_entry [of fault _ _ _ s c]
    unfolding fa by (cases a) simp_all
qed

interpretation sqlite_audit: audit_repository at_run "\<lambda>fa. call_cycle (snd fa)" at_entry "\<lambda>s. True" empty_tables
proof unfold_locales
  fix s :: audit_tables and c :: string and fa :: "bool \<times> audit_call"
  assume "c \<noteq> call_cycle (snd fa)"
  then show "at_entry (at_run fa s) c = at_entry s c" using at_run_entry [of fa s c] by blast
next
  fix s :: audit_tables and fa :: "bool \<times> audit_call"
  show "at_entry (at_run fa s) (call_cycle (snd fa)) = at_entry s (call_cycle (snd fa)) \<or>
    entry_step (call_cycle (snd fa)) (at_entry s (call_cycle (snd fa))) (at_entry (at_run fa s) (call_cycle (snd fa)))"
    using at_run_entry [of fa s "call_cycle (snd fa)"] by blast
qed (simp_all add: at_entry_def claim_row_def empty_tables_def)

text \<open>
  C35: whatever calls are made of a repository, in memory or on SQLite with its driver failing some of
  them, the state of every cycle identity follows the life-cycle: claimed once, then at most once
  finalised, with a record of that identity and of the claimed snapshot, or abandoned; later calls
  continue the life-cycle, so a final state and its record stay.
\<close>

theorem audit_lifecycle:
  "(entry_step c)\<^sup>*\<^sup>* Absent (am_entry (run_calls am_run as empty_audit) c) \<and>
   (entry_step c)\<^sup>*\<^sup>* (am_entry (run_calls am_run as empty_audit) c) (am_entry (run_calls am_run (as @ bs) empty_audit) c) \<and>
   (entry_step c)\<^sup>*\<^sup>* Absent (at_entry (run_calls at_run fas empty_tables) c) \<and>
   (entry_step c)\<^sup>*\<^sup>* (at_entry (run_calls at_run fas empty_tables) c)
      (at_entry (run_calls at_run (fas @ fbs) empty_tables) c)"
  by (intro conjI memory_audit.lifecycle memory_audit.continued sqlite_audit.lifecycle sqlite_audit.continued)

section \<open>Errors\<close>

text \<open>In memory a call that raises changes nothing.\<close>

lemma memory_error_unchanged:
  "am_claim_cycle cycle snap t s = (Inl e, s') \<Longrightarrow> s' = s"
  "am_finalize r s = (Inl e, s') \<Longrightarrow> s' = s"
  "am_abandon cycle t reason s = (Inl e, s') \<Longrightarrow> s' = s"
  by (auto simp: am_claim_cycle_def am_finalize_def am_abandon_def split: if_splits sum.splits)

text \<open>
  On SQLite \<open>abandon\<close> commits before it validates: an empty reason, which the claim's validator
  refuses, leaves a row that no call can read again.
\<close>

lemma sqlite_abandon_unreadable:
  assumes "claim_row s cycle = Some c" "ok_cycle_claim c" "cc_state c = cycle_claim_state.INCOMPLETE"
    and "\<not> is_naive t"
  shows "\<exists>s'. at_abandon False cycle t [] s = (Inl (ValidationError ''CycleClaim''), s') \<and>
     at_get_claim s' cycle = Inl (ValidationError ''CycleClaim'')"
proof -
  have bad: "\<not> ok_cycle_claim (abandoned_claim moment [] c)" for moment
    by (simp add: ok_cycle_claim_def validate_cycle_claim_def abandoned_claim_def truthy_def)
  have "at_require_incomplete s cycle = Inr c" using assms by (simp add: result_simps)
  with assms bad show ?thesis
    by (simp add: at_abandon_def audit_utc_def at_get_claim_def build_def)
qed

end
