(* ===== verification/ShadowCycleTheorems.thy ===== *)
theory ShadowCycleTheorems
  imports ShadowCycle ShadowAuditTheorems
begin

text \<open>
  What a decision cycle guarantees, for arbitrary collaborators: the rules below carry an invariant
  \<open>inv\<close> of the state, which every collaborator keeps, through all returns and exceptions of a cycle, and
  what is known of the cycle's own state from stage to stage.
\<close>

section \<open>What a record says\<close>

definition stage_one_roles :: "agent_role list" where
  "stage_one_roles = [agent_role.MARKET_CONTEXT, agent_role.TREND_ANALYST, agent_role.PRICE_ACTION_ANALYST]"

definition has_role :: "agent_role \<Rightarrow> cycle_agent_output list \<Rightarrow> bool" where
  "has_role role xs \<longleftrightarrow> list_ex (\<lambda>x. role_of_output x = role) xs"

text \<open>The analyses without which a cycle does not trade: two of the first stage and one of every later role.\<close>

definition analysed_one :: "cycle_agent_output list \<Rightarrow> agent_failure_record list \<Rightarrow> bool" where
  "analysed_one outs fails \<longleftrightarrow>
     2 \<le> length (filter (\<lambda>x. role_of_output x \<in> set stage_one_roles) outs) \<and>
     list_all (\<lambda>f. afr_disposition f = failure_disposition.CONTINUE_DEGRADED) fails"

definition analysed :: "cycle_agent_output list \<Rightarrow> agent_failure_record list \<Rightarrow> bool" where
  "analysed outs fails \<longleftrightarrow> analysed_one outs fails \<and> has_role agent_role.ENTRY_ANALYST outs \<and>
     has_role agent_role.SKEPTIC outs \<and> has_role agent_role.CHIEF_TRADER outs"

text \<open>The Risk stage returned \<open>d\<close> for the proposal \<open>p\<close> on these inputs.\<close>

definition assessed ::
  "'s shadow_orchestrator \<Rightarrow> market_snapshot \<Rightarrow> account_risk_context \<Rightarrow> trade_proposal \<Rightarrow> risk_decision \<Rightarrow> bool" where
  "assessed orch s ctx p d \<longleftrightarrow> (\<exists>t u v. so_risk orch p s ctx (Aware t) u = (Inr d, v))"

definition sound_record ::
  "'s shadow_orchestrator \<Rightarrow> market_snapshot \<Rightarrow> account_risk_context \<Rightarrow> shadow_decision_record \<Rightarrow> bool" where
  "sound_record orch s ctx r \<longleftrightarrow>
     (let c = sdr_decision_cycle r
      in ok_shadow_decision_record r \<and> ok_decision_cycle c \<and>
         dcyc_cycle_id c = ms_cycle_id s \<and> dcyc_initial_snapshot_id c = ms_snapshot_id s \<and>
         (\<forall>i. sdr_shadow_trade_intent r = Some i \<longrightarrow>
            ok_shadow_trade_intent i \<and> rd_status (sti_risk_decision i) = risk_decision_status.APPROVED \<and>
            dcyc_trade_proposal c = Some (sti_proposal i) \<and> dcyc_risk_decision c = Some (sti_risk_decision i) \<and>
            assessed orch s ctx (sti_proposal i) (sti_risk_decision i) \<and>
            analysed (dcyc_agent_outputs c) (dcyc_agent_failures c)))"

text \<open>The same for the state of a cycle, and what holds before the Risk stage.\<close>

definition tradable :: "'s shadow_orchestrator \<Rightarrow> market_snapshot \<Rightarrow> account_risk_context \<Rightarrow> cycle_state \<Rightarrow> bool" where
  "tradable orch s ctx st \<longleftrightarrow> analysed (cs_outputs st) (cs_failures st) \<and>
     (\<forall>p d. cs_trade_proposal st = Some p \<longrightarrow> cs_risk_decision st = Some d \<longrightarrow> assessed orch s ctx p d)"

definition of_inputs :: "market_snapshot \<Rightarrow> account_risk_context \<Rightarrow> cycle_state \<Rightarrow> bool" where
  "of_inputs s ctx st \<longleftrightarrow> cs_snapshot st = s \<and> cs_account_context st = ctx"

definition unassessed :: "market_snapshot \<Rightarrow> account_risk_context \<Rightarrow> cycle_state \<Rightarrow> bool" where
  "unassessed s ctx st \<longleftrightarrow> of_inputs s ctx st \<and> cs_risk_decision st = None"

section \<open>The steps of the cycle's state\<close>

lemma set_stage_frame:
  assumes "set_stage n status t detail st = Inr st'"
  shows "cs_snapshot st' = cs_snapshot st" "cs_account_context st' = cs_account_context st"
    "cs_outputs st' = cs_outputs st" "cs_failures st' = cs_failures st"
    "cs_trade_proposal st' = cs_trade_proposal st" "cs_risk_decision st' = cs_risk_decision st"
    "cs_chief_decisions st' = cs_chief_decisions st"
  using assms by (auto simp: set_stage_def result_simps)

lemma fill_from_frame:
  assumes "fill_from ns t st = Inr st'"
  shows "cs_snapshot st' = cs_snapshot st \<and> cs_account_context st' = cs_account_context st \<and>
    cs_outputs st' = cs_outputs st \<and> cs_failures st' = cs_failures st \<and>
    cs_trade_proposal st' = cs_trade_proposal st \<and> cs_risk_decision st' = cs_risk_decision st"
  using assms
proof (induction ns t st rule: fill_from.induct)
  case (2 n ns t st)
  then obtain st1 where st1: "(if map_of (cs_stages st) n = None
      then set_stage n stage_execution_status.SKIPPED t (Some ''not reached'') st else Inr st) = Inr st1"
    "fill_from ns t st1 = Inr st'" by (auto simp: bind_result_Inr_iff)
  with "2.IH" [OF st1(2)] show ?case
    by (auto split: if_splits dest: set_stage_frame)
qed simp

lemma add_system_failure_frame:
  assumes "add_system_failure sha category detail t st = Inr st'"
  shows "cs_snapshot st' = cs_snapshot st" "cs_account_context st' = cs_account_context st"
    "cs_risk_decision st' = cs_risk_decision st"
  using assms by (auto simp: add_system_failure_def result_simps)

lemma retain_simps [simp]:
  "cs_snapshot (retain x st) = cs_snapshot st" "cs_account_context (retain x st) = cs_account_context st"
  "cs_market (retain x st) = cs_market st" "cs_risk_decision (retain x st) = cs_risk_decision st"
  "cs_outputs (retain x st) = cs_outputs st @ (case io_output x of None \<Rightarrow> [] | Some r \<Rightarrow> [r])"
  "cs_failures (retain x st) = cs_failures st @ (case io_failure x of None \<Rightarrow> [] | Some f \<Rightarrow> [f])"
  by (simp_all add: retain_def)

lemma unassessed_frames:
  "set_stage n status t detail st = Inr st' \<Longrightarrow> unassessed s ctx st' = unassessed s ctx st"
  "add_system_failure sha category text t' st = Inr st' \<Longrightarrow> unassessed s ctx st' = unassessed s ctx st"
  "unassessed s ctx (retain x st) = unassessed s ctx st"
  "unassessed s ctx (replace_failures fs st) = unassessed s ctx st"
  by (auto simp: unassessed_def of_inputs_def set_stage_frame add_system_failure_frame replace_failures_def)

lemma fill_skipped_frame:
  "fill_skipped t st = Inr st' \<Longrightarrow> tradable orch s ctx st' = tradable orch s ctx st"
  "fill_skipped t st = Inr st' \<Longrightarrow> of_inputs s ctx st' = of_inputs s ctx st"
  "fill_skipped t st = Inr st' \<Longrightarrow> cs_risk_decision st' = cs_risk_decision st"
  unfolding fill_skipped_def
  by (drule fill_from_frame; simp add: tradable_def of_inputs_def)+

lemma cycle_of_state_Inr:
  assumes "cycle_of_state orch st t d src = Inr c"
  shows "ok_decision_cycle c \<and> dcyc_cycle_id c = ms_cycle_id (cs_snapshot st) \<and>
    dcyc_initial_snapshot_id c = ms_snapshot_id (cs_snapshot st) \<and> dcyc_agent_outputs c = cs_outputs st \<and>
    dcyc_agent_failures c = cs_failures st \<and> dcyc_trade_proposal c = cs_trade_proposal st \<and>
    dcyc_risk_decision c = cs_risk_decision st"
  using assms unfolding cycle_of_state_def bind_result_Inr_iff build_Inr by (elim exE conjE) simp

lemma shadow_intent_Inr:
  assumes "shadow_intent c t = Inr (Some i)"
  shows "ok_shadow_trade_intent i \<and> rd_status (sti_risk_decision i) = risk_decision_status.APPROVED \<and>
    dcyc_trade_proposal c = Some (sti_proposal i) \<and> dcyc_risk_decision c = Some (sti_risk_decision i)"
  using assms unfolding shadow_intent_def
  by (auto simp: result_simps split: option.splits if_splits)

text \<open>A record built from a state without a Risk decision, or from a tradable one, is sound.\<close>

lemma record_sound:
  assumes "cycle_of_state orch st t d src = Inr c" "shadow_intent c t = Inr intent"
    and "of_inputs s ctx st" "cs_risk_decision st \<noteq> None \<Longrightarrow> tradable orch s ctx st"
    and "ok_shadow_decision_record r" "sdr_decision_cycle r = c" "sdr_shadow_trade_intent r = intent"
  shows "sound_record orch s ctx r"
proof -
  note c = cycle_of_state_Inr [OF assms(1)]
  have "assessed orch s ctx (sti_proposal i) (sti_risk_decision i) \<and>
      analysed (dcyc_agent_outputs c) (dcyc_agent_failures c)" if "intent = Some i" for i
    using shadow_intent_Inr [of c t i] that c assms(2,4) by (auto simp: tradable_def)
  then show ?thesis
    using assms(2,3,5-7) c shadow_intent_Inr [of c t]
    unfolding sound_record_def Let_def of_inputs_def by (simp add: assms(6,7))
qed

section \<open>Rules\<close>

locale cycle_collaborators =
  fixes orch :: "'s shadow_orchestrator" and s :: market_snapshot and ctx :: account_risk_context
    and inv :: "'s \<Rightarrow> bool" and final :: "shadow_decision_record \<Rightarrow> 's \<Rightarrow> bool"
  assumes clock_keeps: "holds inv (so_clock orch) (post inv (\<lambda>t. inv))"
    and invoke_keeps: "holds inv (so_invoke orch role c n k) (post inv (\<lambda>x. inv))"
    and risk_keeps: "holds inv (so_risk orch p s ctx t) (post inv (\<lambda>d. inv))"
    and finalize_final: "record_cycle r = ms_cycle_id s \<Longrightarrow> record_snapshot r = ms_snapshot_id s \<Longrightarrow>
        holds inv (so_finalize orch r) (post inv (\<lambda>u. final r))"
begin

definition concluded :: "shadow_decision_record \<Rightarrow> 's \<Rightarrow> bool" where
  "concluded r u \<longleftrightarrow> final r u \<and> sound_record orch s ctx r"

definition step_post :: "('a \<Rightarrow> bool) \<Rightarrow> shadow_decision_record + 'a \<Rightarrow> 's \<Rightarrow> bool" where
  "step_post Q x u = (case x of Inl r \<Rightarrow> concluded r u | Inr y \<Rightarrow> inv u \<and> Q y)"

text \<open>
  \<open>keeps m Q\<close>: \<open>m\<close> keeps the invariant and returns only results with \<open>Q\<close>; \<open>keeps_step\<close> the same for
  a step; \<open>reaches m\<close>: what \<open>m\<close> returns is the sound, finalised record.
\<close>

definition keeps :: "('s, 'a) op \<Rightarrow> ('a \<Rightarrow> bool) \<Rightarrow> bool" where
  "keeps m Q \<longleftrightarrow> holds inv m (post inv (\<lambda>x u. inv u \<and> Q x))"

definition keeps_step :: "('s, 'a) step \<Rightarrow> ('a \<Rightarrow> bool) \<Rightarrow> bool" where
  "keeps_step m Q \<longleftrightarrow> holds inv m (post inv (step_post Q))"

definition reaches :: "('s, shadow_decision_record) op \<Rightarrow> bool" where
  "reaches m \<longleftrightarrow> holds inv m (post inv concluded)"

lemma keeps_op: "holds inv m (post inv (\<lambda>x. inv)) \<Longrightarrow> keeps m (\<lambda>x. \<exists>u v. m u = (Inr x, v))"
  unfolding keeps_def holds_def post_def by (auto split: sum.splits)

lemma bind_keeps:
  assumes "keeps m Q" "\<And>x. Q x \<Longrightarrow> holds inv (f x) (post inv S)"
  shows "holds inv (bind_op m f) (post inv S)"
  using assms(1) unfolding keeps_def
proof (rule hoare_bind)
  show "holds (\<lambda>u. inv u \<and> Q x) (f x) (post inv S)" for x by (rule hoare_pure) (rule assms(2))
qed

lemma try_keeps:
  assumes "keeps m Q" "\<And>e. holds inv (h e) (post inv S)" "\<And>x. Q x \<Longrightarrow> holds inv (f x) (post inv S)"
  shows "holds inv (try_op m h f) (post inv S)"
  using assms(1) unfolding keeps_def
proof (rule hoare_try)
  show "holds (\<lambda>u. inv u \<and> Q x) (f x) (post inv S)" for x by (rule hoare_pure) (rule assms(3))
  show "holds inv (h e) (post inv S)" for e by (rule assms(2))
qed

lemma lift_rule: "(\<And>y. x = Inr y \<Longrightarrow> Q y) \<Longrightarrow> keeps (lift_op x) Q"
  by (auto simp: keeps_def holds_def lift_op_def post_def split: sum.splits)

lemma checked_rule:
  assumes "\<And>y. x = Inr y \<Longrightarrow> holds inv (f y) (post inv S)"
  shows "holds inv (checked x f) (post inv S)"
  unfolding checked_def
  by (rule bind_keeps [where Q = "\<lambda>y. x = Inr y"]) (rule lift_rule, assumption, rule assms)

lemma ret_rule: "Q x \<Longrightarrow> keeps (ret x) Q"
  unfolding keeps_def by (rule hoare_ret) simp

lemma raise_rule: "holds inv (raise_op e) (post inv S)"
  by (rule hoare_raise)

lemma keeps_weaken: "keeps m Q' \<Longrightarrow> (\<And>x. Q' x \<Longrightarrow> Q x) \<Longrightarrow> keeps m Q"
  unfolding keeps_def by (erule hoare_weaken) auto

lemma proceed_rule: "Q x \<Longrightarrow> keeps_step (proceed x) Q"
  unfolding keeps_step_def proceed_def by (rule hoare_ret) (simp add: step_post_def)

lemma ends_rule: "reaches m \<Longrightarrow> keeps_step (ends m) Q"
  unfolding keeps_step_def reaches_def ends_def
  by (rule hoare_bind, assumption, rule hoare_ret) (simp add: step_post_def)

lemma and_then_rule:
  assumes "keeps_step m Q" "\<And>y. Q y \<Longrightarrow> keeps_step (f y) S"
  shows "keeps_step (and_then m f) S"
  using assms(1) unfolding keeps_step_def and_then_def
proof (rule hoare_bind)
  fix x
  show "holds (step_post Q x) (case x of Inl r \<Rightarrow> ret (Inl r) | Inr y \<Rightarrow> f y) (post inv (step_post S))"
  proof (cases x)
    case (Inl r)
    then show ?thesis by (simp, intro hoare_ret) (simp add: step_post_def)
  next
    case (Inr y)
    have "holds (\<lambda>u. inv u \<and> Q y) (f y) (post inv (step_post S))"
      using assms(2) [of y] unfolding keeps_step_def by (rule hoare_pure)
    then have "holds (step_post Q (Inr y)) (f y) (post inv (step_post S))"
      by (rule hoare_strengthen) (simp add: step_post_def)
    with Inr show ?thesis by simp
  qed
qed

lemmas fold_keeps = keeps_def [symmetric] keeps_step_def [symmetric] reaches_def [symmetric]

end

section \<open>Invocations\<close>

text \<open>An invocation gives an output of its role or a failure, never both.\<close>

definition outcome_of :: "agent_role \<Rightarrow> invocation_outcome \<Rightarrow> bool" where
  "outcome_of role x \<longleftrightarrow> (case io_output x of
     Some y \<Rightarrow> role_of_output y = role \<and> io_failure x = None | None \<Rightarrow> io_failure x \<noteq> None)"

lemma failed_outcome_Inr:
  "failed_outcome result n k i f = Inr x \<Longrightarrow> io_output x = None \<and> io_failure x = Some f"
  unfolding failed_outcome_def bind_result_Inr_iff by (elim exE conjE) auto

lemma contract_output_role: "contract_output role y = Some r \<Longrightarrow> role_of_output r = role"
  by (auto simp: contract_output_def split: invocation_output.splits if_splits)

context cycle_collaborators
begin

lemma now_keeps: "keeps (shadow_now orch) (\<lambda>t. True)"
  unfolding shadow_now_def keeps_def
  by (rule hoare_bind [OF clock_keeps]) (auto intro: hoare_ret hoare_raise)

lemma runtime_failure_keeps: "keeps (runtime_failure orch role c i rc detail) (\<lambda>f. True)"
  unfolding runtime_failure_def keeps_def
  by (rule bind_keeps [OF now_keeps]) (unfold fold_keeps, rule lift_rule, simp)

lemma failure_rule:
  "(\<And>f x. g f = Inr x \<Longrightarrow> Q x) \<Longrightarrow>
     keeps (bind_op (runtime_failure orch role c i rc detail) (\<lambda>f. lift_op (g f))) Q"
  unfolding keeps_def by (rule bind_keeps [OF runtime_failure_keeps]) (unfold fold_keeps, rule lift_rule)

lemma outcome_keeps: "keeps (outcome_of_result orch role c n k i result) (outcome_of role)"
proof (cases "it_invocation_id (ir_trace result) \<noteq> i \<or> it_agent_role (ir_trace result) \<noteq> role")
  case True
  then show ?thesis
    unfolding outcome_of_result_def
    by (simp add: failure_rule outcome_of_def failed_outcome_Inr)
next
  case False
  have raise: "keeps (raise_op e) Q" for e and Q :: "invocation_outcome \<Rightarrow> bool"
    unfolding keeps_def by (rule raise_rule)
  show ?thesis
  proof (cases "ir_output result")
    case None
    then show ?thesis
      unfolding outcome_of_result_def using False
      by (auto split: option.split intro!: lift_rule raise simp: bind_result_Inr_iff outcome_of_def dest!: failed_outcome_Inr)
  next
    case (Some y)
    then show ?thesis
      unfolding outcome_of_result_def using False
      by (auto split: option.split intro!: lift_rule failure_rule simp: bind_result_Inr_iff outcome_of_def
          dest!: failed_outcome_Inr contract_output_role)
  qed
qed

lemma invoke_keeps': "keeps (invoke_role orch role c n k) (outcome_of role)"
  unfolding invoke_role_def Let_def keeps_def
proof (rule try_keeps [OF keeps_op [OF invoke_keeps]], goal_cases)
  case (1 e)
  show ?case
    by (rule bind_keeps [OF runtime_failure_keeps]) (unfold fold_keeps, rule ret_rule, simp add: outcome_of_def)
next
  case (2 x)
  show ?case unfolding fold_keeps by (rule outcome_keeps)
qed

section \<open>The end of a cycle\<close>

lemma finish_reaches:
  assumes st: "of_inputs s ctx st" "cs_risk_decision st \<noteq> None \<Longrightarrow> tradable orch s ctx st"
  shows "reaches (finish_cycle orch st d src)"
  unfolding finish_cycle_def reaches_def
proof (rule bind_keeps [OF now_keeps])
  fix t
  have build: "keeps (lift_op x) (\<lambda>y. x = Inr y)" for x :: "'b fallible" by (rule lift_rule)
  show "holds inv (bind_op (lift_op (fill_skipped t st)) (\<lambda>st. bind_op (lift_op (cycle_of_state orch st t d src)) (\<lambda>c.
     bind_op (lift_op (shadow_intent c t)) (\<lambda>intent. bind_op (lift_op (build ''ShadowDecisionRecord'' ok_shadow_decision_record
       \<lparr>sdr_schema_version = ''1.0.0'',
        sdr_record_id = shadow_record_id (so_sha orch) (dcyc_cycle_id c) (dcyc_initial_snapshot_id c),
        sdr_recorded_at = t, sdr_decision_cycle = c, sdr_shadow_trade_intent = intent\<rparr>)) (\<lambda>r.
     bind_op (so_finalize orch r) (\<lambda>_. ret r)))))) (post inv concluded)"
  proof (rule bind_keeps [OF build], rule bind_keeps [OF build], rule bind_keeps [OF build], rule bind_keeps [OF build])
    fix st' c intent r
    assume steps: "fill_skipped t st = Inr st'" "cycle_of_state orch st' t d src = Inr c" "shadow_intent c t = Inr intent"
      "build ''ShadowDecisionRecord'' ok_shadow_decision_record
       \<lparr>sdr_schema_version = ''1.0.0'',
        sdr_record_id = shadow_record_id (so_sha orch) (dcyc_cycle_id c) (dcyc_initial_snapshot_id c),
        sdr_recorded_at = t, sdr_decision_cycle = c, sdr_shadow_trade_intent = intent\<rparr> = Inr r"
    have r: "ok_shadow_decision_record r" "sdr_decision_cycle r = c" "sdr_shadow_trade_intent r = intent"
      using steps(4) unfolding build_Inr by simp_all
    have st': "of_inputs s ctx st'" "cs_risk_decision st' \<noteq> None \<Longrightarrow> tradable orch s ctx st'"
      using st fill_skipped_frame(1) [OF steps(1), of orch s ctx] fill_skipped_frame(2,3) [OF steps(1)] by simp_all
    have sound: "sound_record orch s ctx r" by (rule record_sound [OF steps(2,3) st' r])
    then have "record_cycle r = ms_cycle_id s" "record_snapshot r = ms_snapshot_id s"
      by (simp_all add: sound_record_def record_cycle_def record_snapshot_def Let_def)
    then have "holds inv (so_finalize orch r) (post inv (\<lambda>u. final r))" by (rule finalize_final)
    then show "holds inv (bind_op (so_finalize orch r) (\<lambda>_. ret r)) (post inv concluded)"
      by (rule hoare_bind) (rule hoare_ret, simp add: concluded_def sound)
  qed
qed

lemma unassessed_finish: "unassessed s ctx st \<Longrightarrow> reaches (finish_cycle orch st d src)"
  by (rule finish_reaches) (simp_all add: unassessed_def)

lemma failure_finish_reaches: "unassessed s ctx st \<Longrightarrow> reaches (failure_finish orch st n t f recorded)"
  unfolding failure_finish_def Let_def reaches_def checked_def [symmetric]
  by (rule checked_rule, unfold fold_keeps, rule unassessed_finish)
    (auto simp: unassessed_frames split: if_splits)

end

section \<open>Stages\<close>

lemma degrade_all_Inr:
  "degrade_all fs = Inr gs \<Longrightarrow> map afr_failure_id gs = map afr_failure_id fs \<and>
     list_all (\<lambda>g. afr_disposition g = failure_disposition.CONTINUE_DEGRADED) gs"
  by (induction fs arbitrary: gs) (auto simp: bind_result_Inr_iff with_disposition_def build_Inr)

lemma replaced_degraded:
  assumes "degrade_all (cs_failures st) = Inr gs"
  shows "list_all (\<lambda>g. afr_disposition g = failure_disposition.CONTINUE_DEGRADED) (cs_failures (replace_failures gs st))"
proof -
  note gs = degrade_all_Inr [OF assms]
  have "afr_disposition (case map_of (rev (map (\<lambda>g. (afr_failure_id g, g)) gs)) (afr_failure_id f) of
      None \<Rightarrow> f | Some g \<Rightarrow> g) = failure_disposition.CONTINUE_DEGRADED" if f: "f \<in> set (cs_failures st)" for f
  proof (cases "map_of (rev (map (\<lambda>g. (afr_failure_id g, g)) gs)) (afr_failure_id f)")
    case None
    then have "afr_failure_id f \<notin> set (map afr_failure_id gs)" by (simp add: map_of_eq_None_iff image_image)
    with gs f show ?thesis by simp
  next
    case (Some g)
    then have "g \<in> set gs" by (auto dest!: map_of_SomeD)
    with gs Some show ?thesis by (simp add: list_all_iff)
  qed
  then show ?thesis by (simp add: replace_failures_def list_all_iff)
qed

lemma stage_one_count:
  assumes "stage_one_terminal xs n = None" shows "2 \<le> n"
  using assms by (auto simp: stage_one_terminal_def Let_def split: if_splits)

lemma stage_one_outputs:
  assumes "outcome_of r1 x1" "outcome_of r2 x2" "outcome_of r3 x3" "{r1, r2, r3} \<subseteq> R"
    and "2 \<le> length (filter (\<lambda>x. io_output x \<noteq> None) [x1, x2, x3])"
  shows "2 \<le> length (filter (\<lambda>y. role_of_output y \<in> R)
    (concat (map (\<lambda>x. case io_output x of None \<Rightarrow> [] | Some r \<Rightarrow> [r]) [x1, x2, x3])))"
  using assms by (auto simp: outcome_of_def split: option.splits if_splits)

lemma outputs_frame [simp]:
  "cs_outputs (replace_failures gs st) = cs_outputs st"
  "cs_snapshot (replace_failures gs st) = cs_snapshot st"
  by (simp_all add: replace_failures_def)

lemma failures_of_outcomes:
  "concat (map (\<lambda>x. case io_failure x of None \<Rightarrow> [] | Some f \<Rightarrow> [f]) xs) = List.map_filter io_failure xs"
  by (induction xs) (auto simp: List.map_filter_simps split: option.splits)

lemma analysed_one_append:
  "analysed_one outs fails \<Longrightarrow> analysed_one (outs @ ys) fails"
  "analysed_one outs fails \<Longrightarrow> afr_disposition f = failure_disposition.CONTINUE_DEGRADED \<Longrightarrow> analysed_one outs (fails @ [f])"
  by (simp_all add: analysed_one_def)

lemma has_role_append [simp]: "has_role role (xs @ ys) \<longleftrightarrow> has_role role xs \<or> has_role role ys"
  by (simp add: has_role_def)

context cycle_collaborators
begin

lemma end_rule:
  assumes "unassessed s ctx st"
  shows "holds inv (checked (set_stage n status t detail st) (\<lambda>st. ends (finish_cycle orch st d src))) (post inv (step_post Q))"
  using assms by (intro checked_rule, unfold fold_keeps, intro ends_rule unassessed_finish) (simp add: unassessed_frames)

definition after_one :: "cycle_state \<Rightarrow> bool" where
  "after_one st \<longleftrightarrow> unassessed s ctx st \<and> analysed_one (cs_outputs st) (cs_failures st)"

lemma close_stage_one_keeps:
  assumes st: "unassessed s ctx st" "cs_outputs st = []" "cs_failures st = []"
    and x: "outcome_of agent_role.MARKET_CONTEXT x1" "outcome_of agent_role.TREND_ANALYST x2"
      "outcome_of agent_role.PRICE_ACTION_ANALYST x3"
  shows "holds inv (close_stage_one orch started x1 x2 x3 st) (post inv (step_post (\<lambda>(st, one). after_one st)))"
proof -
  define st1 where "st1 = retain x3 (retain x2 (retain x1 st))"
  define n where "n = length (filter (\<lambda>x. io_output x \<noteq> None) [x1, x2, x3])"
  have un: "unassessed s ctx st1" using st(1) by (simp add: st1_def unassessed_frames)
  have fails: "cs_failures st1 = List.map_filter io_failure [x1, x2, x3]"
    using st(3) by (simp add: st1_def List.map_filter_simps split: option.splits)
  have outs: "cs_outputs st1 = concat (map (\<lambda>x. case io_output x of None \<Rightarrow> [] | Some r \<Rightarrow> [r]) [x1, x2, x3])"
    using st(2) by (simp add: st1_def)
  have enough: "2 \<le> length (filter (\<lambda>y. role_of_output y \<in> set stage_one_roles) (cs_outputs st1))" if "2 \<le> n"
    unfolding outs using that by (intro stage_one_outputs [OF x]) (simp_all add: stage_one_roles_def n_def)
  show ?thesis
  proof (cases "stage_one_terminal [x1, x2, x3] n")
    case (Some p)
    then show ?thesis
      unfolding close_stage_one_def Let_def n_def [symmetric] st1_def [symmetric]
      by (cases p) (simp add: end_rule un)
  next
    case None
    note two = enough [OF stage_one_count [OF None]]
    show ?thesis
      unfolding close_stage_one_def Let_def n_def [symmetric] st1_def [symmetric] None option.case
    proof (intro checked_rule, unfold fold_keeps, intro proceed_rule, unfold prod.case)
      fix gs st2
      assume gs: "degrade_all (List.map_filter io_failure [x1, x2, x3]) = Inr gs"
        and st2: "set_stage 1 (if gs \<noteq> [] then stage_execution_status.DEGRADED
          else stage_execution_status.COMPLETED) started None (replace_failures gs st1) = Inr st2"
      have "degrade_all (cs_failures st1) = Inr gs" using gs fails by simp
      from replaced_degraded [OF this] two un
      show "after_one st2"
        by (simp add: after_one_def analysed_one_def unassessed_frames(1) [OF st2] unassessed_frames(4)
            set_stage_frame(3,4) [OF st2])
    qed
  qed
qed

lemma stage_one_keeps:
  assumes "unassessed s ctx st" "cs_outputs st = []" "cs_failures st = []"
  shows "keeps_step (stage_one orch st) (\<lambda>(st, one). after_one st)"
  unfolding stage_one_def keeps_step_def using assms
  by (intro bind_keeps [OF now_keeps] checked_rule bind_keeps [OF invoke_keeps'] close_stage_one_keeps)

definition after_two :: "cycle_state \<Rightarrow> bool" where
  "after_two st \<longleftrightarrow> after_one st \<and> has_role agent_role.ENTRY_ANALYST (cs_outputs st)"

lemma after_frames:
  "set_stage n status t detail st = Inr st' \<Longrightarrow> after_one st' = after_one st"
  "set_stage n status t detail st = Inr st' \<Longrightarrow> after_two st' = after_two st"
  "after_one st \<Longrightarrow> stopping_failure x = None \<Longrightarrow> after_one (retain x st)"
  "after_two st \<Longrightarrow> stopping_failure x = None \<Longrightarrow> after_two (retain x st)"
  by (auto simp: after_two_def after_one_def unassessed_frames set_stage_frame analysed_one_append stopping_failure_def
      split: option.splits if_splits)

lemma no_failure:
  assumes "outcome_of role x" "io_failure x = None"
  shows "stopping_failure x = None" "\<exists>y. io_output x = Some y \<and> role_of_output y = role"
  using assms by (auto simp: outcome_of_def stopping_failure_def split: option.splits)

lemma stage_two_keeps:
  assumes st: "after_one st"
  shows "keeps_step (stage_two orch st one) (\<lambda>(st, entry). after_two st)"
  unfolding stage_two_def keeps_step_def Let_def
proof (rule bind_keeps [OF now_keeps], rule checked_rule, rule bind_keeps [OF invoke_keeps'])
  fix started x
  assume x: "outcome_of agent_role.ENTRY_ANALYST x"
  show "holds inv (case io_failure x of
          Some f \<Rightarrow> ends (failure_finish orch (retain x st) 2 started f False)
        | None \<Rightarrow> checked (asserted (typed_output entry_of x)) (\<lambda>entry.
            checked (set_stage 2 stage_execution_status.COMPLETED started None (retain x st)) (\<lambda>st.
            proceed (st, entry)))) (post inv (step_post (\<lambda>(st, entry). after_two st)))"
  proof (cases "io_failure x")
    case None
    from no_failure [OF x None] st have "after_two (retain x st)"
      by (auto simp: after_two_def after_frames has_role_def)
    then show ?thesis unfolding None option.case
      by (intro checked_rule, unfold fold_keeps, intro proceed_rule) (simp add: after_frames)
  next
    case (Some f)
    with st show ?thesis unfolding Some option.case fold_keeps
      by (intro ends_rule failure_finish_reaches) (simp add: after_one_def unassessed_frames)
  qed
qed

lemma stopped:
  "stopping_failure x = Some f \<Longrightarrow> unassessed s ctx st \<Longrightarrow> keeps_step (ends (failure_finish orch (retain x st) n t f b)) Q"
  by (intro ends_rule failure_finish_reaches) (simp add: unassessed_frames)

lemma quant_stage_keeps:
  assumes st: "after_two st"
  shows "keeps_step (quant_stage orch st one entry) (\<lambda>(st, quant, developer). after_two st)"
proof -
  let ?S = "step_post (\<lambda>(st, quant, developer). after_two st)"
  let ?complete = "\<lambda>started st quant developer. checked (set_stage 3 (if quant_degraded st
             then stage_execution_status.DEGRADED else stage_execution_status.COMPLETED) started None st)
           (\<lambda>st. proceed (st, quant, developer))"
  have complete: "holds inv (?complete started st quant developer) (post inv ?S)" if "after_two st" for started st quant developer
    using that by (intro checked_rule, unfold fold_keeps, intro proceed_rule) (simp add: after_frames)
  have skip: "holds inv (checked (set_stage 3 stage_execution_status.SKIPPED started d st) (\<lambda>st. proceed (st, None, None))) (post inv ?S)" for started d
    using st by (intro checked_rule, unfold fold_keeps, intro proceed_rule) (simp add: after_frames)
  have branch: "holds inv (case stopping_failure x of
        Some f \<Rightarrow> ends (failure_finish orch (retain x st) n t f False) | None \<Rightarrow> m) (post inv ?S)"
    if "after_two st" "after_two (retain x st) \<Longrightarrow> holds inv m (post inv ?S)" for x st n t m
  proof (cases "stopping_failure x")
    case None
    with that show ?thesis by (simp add: after_frames)
  next
    case (Some f)
    with that(1) stopped [OF Some, of st n t False] show ?thesis
      by (simp add: fold_keeps after_two_def after_one_def)
  qed
  have developer: "holds inv (checked (quant_developer_input_of m one entry quant) (\<lambda>ctx.
         bind_op (invoke_role orch agent_role.SENIOR_QUANT_DEVELOPER ctx 3 None) (\<lambda>y.
         case stopping_failure y of
           Some f \<Rightarrow> ends (failure_finish orch (retain y st) 3 started f False)
         | None \<Rightarrow> ?complete started (retain y st) quant (typed_output quant_developer_of y)))) (post inv ?S)"
    if "after_two st" for m quant started st
    using that by (intro checked_rule bind_keeps [OF invoke_keeps'] branch complete)
  show ?thesis
    unfolding quant_stage_def Let_def keeps_step_def
  proof (rule bind_keeps [OF now_keeps], rule holds_if, rule skip, rule checked_rule, rule bind_keeps [OF invoke_keeps'],
      rule branch [OF st], rule holds_if)
    fix started c x
    assume x: "after_two (retain x st)"
    show "holds inv (checked (quant_developer_input_of (cs_market (retain x st)) one entry (typed_output quant_research_of x)) (\<lambda>ctx.
         bind_op (invoke_role orch agent_role.SENIOR_QUANT_DEVELOPER ctx 3 None) (\<lambda>y.
         case stopping_failure y of
           Some f \<Rightarrow> ends (failure_finish orch (retain y (retain x st)) 3 started f False)
         | None \<Rightarrow> ?complete started (retain y (retain x st)) (typed_output quant_research_of x) (typed_output quant_developer_of y)))) (post inv ?S)"
      by (rule developer [OF x])
    show "holds inv (?complete started (retain x st) (typed_output quant_research_of x) None) (post inv ?S)"
      by (rule complete [OF x])
  qed
qed

text \<open>After a round the draft is the Chief's, and the Skeptic has answered.\<close>

definition debated :: "cycle_state \<Rightarrow> chief_trader_output option \<Rightarrow> bool" where
  "debated st draft \<longleftrightarrow> after_two st \<and> (draft \<noteq> None \<longrightarrow>
     has_role agent_role.SKEPTIC (cs_outputs st) \<and> has_role agent_role.CHIEF_TRADER (cs_outputs st))"

lemma debated_frame:
  "set_stage n status t detail st = Inr st' \<Longrightarrow> debated st' draft = debated st draft"
  "debated (st\<lparr>cs_chief_decisions := cs\<rparr>) draft = debated st draft"
  by (auto simp: debated_def after_frames set_stage_frame after_two_def after_one_def unassessed_def of_inputs_def)

lemma debate_failure:
  assumes "unassessed s ctx st"
  shows "holds inv (checked (set_stage 4 status t None st) (\<lambda>st. ends (failure_finish orch st 5 t f True)))
    (post inv (step_post Q))"
  using assms by (intro checked_rule, unfold fold_keeps, intro ends_rule failure_finish_reaches) (simp add: unassessed_frames)

lemma debate_keeps:
  "debated st draft \<Longrightarrow>
     keeps_step (debate ns orch started one entry quant developer draft st) (\<lambda>(st, draft). debated st draft)"
proof (induction ns arbitrary: st draft)
  case Nil
  then show ?case by (simp add: proceed_rule)
next
  case (Cons n ns)
  let ?S = "step_post (\<lambda>(st, draft). debated st draft)"
  have un: "unassessed s ctx st" using Cons.prems by (simp add: debated_def after_two_def after_one_def)
  have chief: "holds inv (case io_failure y of
         Some f \<Rightarrow> checked (set_stage 4 stage_execution_status.COMPLETED started None (retain y st1)) (\<lambda>st.
           ends (failure_finish orch st 5 started f True))
       | None \<Rightarrow> checked (asserted (typed_output chief_of y)) (\<lambda>chief.
           if ctr_action (ao_payload chief) = trade_action.HOLD
           then proceed ((retain y st1)\<lparr>cs_chief_decisions := cs_chief_decisions (retain y st1) @ [chief]\<rparr>, Some chief)
           else debate ns orch started one entry quant developer (Some chief)
             ((retain y st1)\<lparr>cs_chief_decisions := cs_chief_decisions (retain y st1) @ [chief]\<rparr>))) (post inv ?S)"
    if y: "outcome_of agent_role.CHIEF_TRADER y" and st1: "after_two st1" "has_role agent_role.SKEPTIC (cs_outputs st1)"
    for y st1
  proof (cases "io_failure y")
    case None
    from no_failure [OF y None] st1 have d: "debated (retain y st1) (Some chief)" for chief
      by (auto simp: debated_def after_frames has_role_def)
    show ?thesis unfolding None option.case
    proof (rule checked_rule, rule holds_if)
      fix chief
      show "holds inv (proceed ((retain y st1)\<lparr>cs_chief_decisions := cs_chief_decisions (retain y st1) @ [chief]\<rparr>, Some chief)) (post inv ?S)"
        unfolding fold_keeps by (rule proceed_rule) (simp add: debated_frame d)
      show "holds inv (debate ns orch started one entry quant developer (Some chief)
             ((retain y st1)\<lparr>cs_chief_decisions := cs_chief_decisions (retain y st1) @ [chief]\<rparr>)) (post inv ?S)"
        unfolding fold_keeps by (rule Cons.IH) (simp add: debated_frame d)
    qed
  next
    case (Some f)
    with st1 show ?thesis by (simp add: debate_failure after_two_def after_one_def unassessed_frames)
  qed
  have skeptic: "holds inv (case io_failure x of
          Some f \<Rightarrow> checked (set_stage 4 stage_execution_status.HOLD started None (retain x st)) (\<lambda>st.
            ends (failure_finish orch st 5 started f True))
        | None \<Rightarrow> checked (asserted (typed_output skeptic_of x)) (\<lambda>skeptic. m skeptic)) (post inv ?S)"
    if x: "outcome_of agent_role.SKEPTIC x"
      and m: "\<And>skeptic. after_two (retain x st) \<Longrightarrow> has_role agent_role.SKEPTIC (cs_outputs (retain x st)) \<Longrightarrow>
        holds inv (m skeptic) (post inv ?S)" for x m
  proof (cases "io_failure x")
    case None
    from no_failure [OF x None] Cons.prems have "after_two (retain x st)" "has_role agent_role.SKEPTIC (cs_outputs (retain x st))"
      by (auto simp: debated_def after_frames has_role_def)
    with m show ?thesis unfolding None option.case by (intro checked_rule)
  next
    case (Some f)
    with un show ?thesis by (simp add: debate_failure unassessed_frames)
  qed
  show ?case
    unfolding debate.simps Let_def keeps_step_def
    by (intro checked_rule bind_keeps [OF invoke_keeps'] skeptic chief)
qed

section \<open>The Risk stage and the whole cycle\<close>

lemma risk_stage_reaches:
  assumes st: "unassessed s ctx st" "analysed (cs_outputs st) (cs_failures st)" "cs_trade_proposal st = Some p"
  shows "reaches (risk_stage orch st chief p)"
  unfolding risk_stage_def Let_def reaches_def
proof (rule bind_keeps [OF now_keeps], rule try_keeps [where Q = "\<lambda>d. assessed orch s ctx p d"])
  have inputs: "cs_snapshot st = s" "cs_account_context st = ctx"
    using st(1) by (simp_all add: unassessed_def of_inputs_def)
  show "keeps (bind_op (shadow_now orch) (\<lambda>t. so_risk orch p (cs_snapshot st) (cs_account_context st) (Aware t)))
    (assessed orch s ctx p)"
    unfolding keeps_def inputs
  proof (rule bind_keeps [OF now_keeps], unfold fold_keeps)
    show "keeps (so_risk orch p s ctx (Aware t)) (assessed orch s ctx p)" for t
      by (rule keeps_weaken [OF keeps_op [OF risk_keeps]]) (auto simp: assessed_def)
  qed
  show "holds inv (bind_op (shadow_now orch) (\<lambda>t.
          checked (add_system_failure (so_sha orch) agent_failure_category.UNKNOWN
            ''deterministic Risk stage raised an unexpected error'' t st) (\<lambda>st.
          checked (set_stage 6 stage_execution_status.ABORTED started None st) (\<lambda>st.
          finish_cycle orch st shadow_disposition.ABORTED shadow_outcome_source.ORCHESTRATOR)))) (post inv concluded)"
    for started
    using st(1) by (intro bind_keeps [OF now_keeps] checked_rule, unfold fold_keeps, intro unassessed_finish)
      (simp add: unassessed_frames)
next
  fix started d disposition
  assume d: "assessed orch s ctx p d"
  show "holds inv (checked (set_stage 6 stage_execution_status.COMPLETED started None (st\<lparr>cs_risk_decision := Some d\<rparr>)) (\<lambda>st.
             finish_cycle orch st
               (if rd_status d = risk_decision_status.HALTED then shadow_disposition.RISK_HALTED
                else if rd_status d = risk_decision_status.REJECTED then shadow_disposition.RISK_REJECTED
                else if ctr_action (ao_payload chief) = trade_action.BUY then shadow_disposition.WOULD_BUY
                else shadow_disposition.WOULD_SELL) shadow_outcome_source.RISK_ENGINE)) (post inv concluded)"
  proof (rule checked_rule, unfold fold_keeps, rule finish_reaches)
    fix st1
    assume st1: "set_stage 6 stage_execution_status.COMPLETED started None (st\<lparr>cs_risk_decision := Some d\<rparr>) = Inr st1"
    show "of_inputs s ctx st1" using st(1) by (simp add: of_inputs_def unassessed_def set_stage_frame [OF st1])
    show "tradable orch s ctx st1" using st d by (simp add: tradable_def set_stage_frame [OF st1])
  qed
qed

lemma conclude_reaches:
  assumes "debated st draft"
  shows "reaches (conclude orch started st draft)"
  unfolding conclude_def Let_def reaches_def
proof (intro checked_rule)
  fix st1 st2 chief
  assume st1: "set_stage 4 stage_execution_status.COMPLETED started None st = Inr st1"
    and st2: "set_stage 5 stage_execution_status.COMPLETED started None st1 = Inr st2"
    and chief: "asserted draft = Inr chief"
  define st3 where "st3 = st2\<lparr>cs_chief_decision := Some chief, cs_trade_proposal := ctr_trade_proposal (ao_payload chief)\<rparr>"
  have "debated st2 draft" using assms by (simp add: debated_frame(1) [OF st2] debated_frame(1) [OF st1])
  then have st3: "unassessed s ctx st3" "analysed (cs_outputs st3) (cs_failures st3)"
    using chief by (auto simp: debated_def after_two_def after_one_def st3_def unassessed_def of_inputs_def
        analysed_def asserted_def split: option.splits)
  have hold: "holds inv (bind_op (shadow_now orch) (\<lambda>t.
      checked (set_stage 6 stage_execution_status.SKIPPED t (Some ''Chief HOLD'') st3) (\<lambda>st.
      finish_cycle orch st shadow_disposition.CHIEF_HOLD shadow_outcome_source.CHIEF_TRADER))) (post inv concluded)"
    using st3(1) by (intro bind_keeps [OF now_keeps] checked_rule, unfold fold_keeps, intro unassessed_finish)
      (simp add: unassessed_frames)
  have trade: "holds inv (checked (asserted (ctr_trade_proposal (ao_payload chief)))
      (\<lambda>p. risk_stage orch st3 chief p)) (post inv concluded)"
    using st3 by (intro checked_rule, unfold fold_keeps, intro risk_stage_reaches)
      (auto simp: st3_def asserted_def split: option.splits)
  show "holds inv (if ctr_action (ao_payload chief) = trade_action.HOLD
        then bind_op (shadow_now orch) (\<lambda>t.
          checked (set_stage 6 stage_execution_status.SKIPPED t (Some ''Chief HOLD'')
            (st2\<lparr>cs_chief_decision := Some chief, cs_trade_proposal := ctr_trade_proposal (ao_payload chief)\<rparr>)) (\<lambda>st.
          finish_cycle orch st shadow_disposition.CHIEF_HOLD shadow_outcome_source.CHIEF_TRADER))
        else checked (asserted (ctr_trade_proposal (ao_payload chief))) (\<lambda>p. risk_stage orch
          (st2\<lparr>cs_chief_decision := Some chief, cs_trade_proposal := ctr_trade_proposal (ao_payload chief)\<rparr>) chief p))
      (post inv concluded)"
    using hold trade unfolding st3_def by simp
qed

lemma decide_reaches:
  assumes st: "unassessed s ctx st" "cs_outputs st = []" "cs_failures st = []"
  shows "reaches (decide_cycle orch st)"
proof -
  have "keeps_step (and_then (stage_one orch st) (\<lambda>(st, one).
      and_then (stage_two orch st one) (\<lambda>(st, entry).
      and_then (quant_stage orch st one entry) (\<lambda>(st, quant, developer).
      bind_op (shadow_now orch) (\<lambda>started.
      and_then (debate (py_range1 (nat (scp_debate_rounds (so_policy orch)))) orch started one entry quant developer None st)
        (\<lambda>(st, draft). (ends (conclude orch started st draft) :: ('s, unit) step))))))) (\<lambda>u. True)"
  proof (rule and_then_rule [OF stage_one_keeps [OF st]], clarify, rule and_then_rule [OF stage_two_keeps], assumption,
      clarify, rule and_then_rule [OF quant_stage_keeps], assumption, clarify)
    fix st1 one entry quant developer
    assume st1: "after_two st1"
    show "keeps_step (bind_op (shadow_now orch) (\<lambda>started.
        and_then (debate (py_range1 (nat (scp_debate_rounds (so_policy orch)))) orch started one entry quant developer None st1)
          (\<lambda>(st, draft). (ends (conclude orch started st draft) :: ('s, unit) step)))) (\<lambda>u. True)"
      unfolding keeps_step_def
    proof (rule bind_keeps [OF now_keeps], unfold fold_keeps, rule and_then_rule [OF debate_keeps])
      show "debated st1 None" using st1 by (simp add: debated_def)
      show "keeps_step (case x of (st, draft) \<Rightarrow> ends (conclude orch started st draft)) (\<lambda>u. True)"
        if "case x of (st, draft) \<Rightarrow> debated st draft" for x started
        using that by (auto intro: ends_rule conclude_reaches)
    qed
  qed
  then show ?thesis
    unfolding decide_cycle_def reaches_def keeps_step_def
  proof (rule hoare_bind)
    fix x :: "shadow_decision_record + unit"
    show "holds (step_post (\<lambda>u. True) x) (case x of Inl r \<Rightarrow> ret r | Inr () \<Rightarrow> raise_op AssertionError) (post inv concluded)"
      by (cases x) (auto simp: step_post_def split: unit.splits intro!: hoare_ret hoare_raise)
  qed
qed

lemma refusal_reaches:
  assumes "unassessed s ctx st"
  shows "holds inv (bind_op (shadow_now orch) (\<lambda>t.
      checked (add_system_failure (so_sha orch) category text t st) (\<lambda>st.
      bind_op (shadow_now orch) (\<lambda>t.
      checked (set_stage n status t detail st) (\<lambda>st.
      finish_cycle orch st d src))))) (post inv concluded)"
  using assms by (intro bind_keeps [OF now_keeps] checked_rule, unfold fold_keeps, intro unassessed_finish)
    (simp add: unassessed_frames)

lemma examine_reaches: "reaches (examine_inputs orch s ctx m started)"
proof -
  have st: "unassessed s ctx (new_cycle_state s ctx m started)" "cs_outputs (new_cycle_state s ctx m started) = []"
    "cs_failures (new_cycle_state s ctx m started) = []"
    by (simp_all add: new_cycle_state_def unassessed_def of_inputs_def)
  have raise: "reaches (raise_op e)" for e unfolding reaches_def by (rule raise_rule)
  from refusal_reaches [OF st(1)] decide_reaches [OF st] raise show ?thesis
    unfolding examine_inputs_def Let_def fold_keeps by (auto split: sum.splits py_exception.splits)
qed

text \<open>From the invariant, what follows the claim ends in the invariant or in its sound, final record.\<close>

lemma claimed_reaches: "reaches (claimed_cycle orch s ctx view started)"
  unfolding claimed_cycle_def reaches_def
  by (intro checked_rule, unfold fold_keeps, rule examine_reaches)

lemma claimed_run:
  assumes "claimed_cycle orch s ctx view started u = (result, v)" "inv u"
  shows "case result of Inl e \<Rightarrow> inv v | Inr r \<Rightarrow> final r v \<and> sound_record orch s ctx r"
  using claimed_reaches [unfolded reaches_def, THEN holdsD, OF assms(2,1)]
  by (cases result) (simp_all add: concluded_def)

end

text \<open>For any orchestrator at all, every record a cycle returns is sound.\<close>

interpretation any_collaborators: cycle_collaborators orch s ctx "\<lambda>u. True" "\<lambda>r u. True"
  by unfold_locales (auto simp: holds_def post_def split: sum.splits)

lemma returned_record:
  assumes "run_shadow_cycle orch s ctx view u = (Inr r, v)"
  shows "sound_record orch s ctx r"
proof -
  from assms obtain t w x y where "claimed_cycle orch s ctx view t w = (Inr r, y)"
    by (auto simp: run_shadow_cycle_def bind_op_Inr)
  from any_collaborators.claimed_run [OF this] show ?thesis by simp
qed

section \<open>The repository over a cycle\<close>

text \<open>
  What an orchestrator's repository does to the entries of \<open>ShadowAuditTheorems\<close>, and that the other
  collaborators leave them alone.
\<close>

locale cycle_store =
  fixes orch :: "'s shadow_orchestrator" and entry :: "'s \<Rightarrow> string \<Rightarrow> audit_entry"
  assumes clock_frame: "so_clock orch u = (t, v) \<Longrightarrow> entry v = entry u"
    and invoke_frame: "so_invoke orch role c n k u = (answer, v) \<Longrightarrow> entry v = entry u"
    and risk_frame: "so_risk orch p s ctx at_time u = (d, v) \<Longrightarrow> entry v = entry u"
    and claim_ok: "so_claim orch cycle snap at_time u = (Inr x, v) \<Longrightarrow>
        entry u cycle = Absent \<and> entry v = (entry u)(cycle := Claimed snap)"
    and claim_error: "so_claim orch cycle snap at_time u = (Inl e, v) \<Longrightarrow> entry v = entry u"
    and finalize_ok: "so_finalize orch r u = (Inr y, v) \<Longrightarrow>
        entry v = (entry u)(record_cycle r := Finalized (record_snapshot r) (Some r))"
    and finalize_error: "so_finalize orch r u = (Inl e, v) \<Longrightarrow> entry v = entry u"

lemma hoare_cases:
  "(\<And>u e v. P u \<Longrightarrow> m u = (Inl e, v) \<Longrightarrow> E v) \<Longrightarrow> (\<And>u x v. P u \<Longrightarrow> m u = (Inr x, v) \<Longrightarrow> R x v) \<Longrightarrow>
     holds P m (post E R)"
  unfolding holds_def post_def by (auto split: sum.splits)

sublocale cycle_store \<subseteq> during: cycle_collaborators orch s ctx
  "\<lambda>u. entry u = E(ms_cycle_id s := Claimed (ms_snapshot_id s))"
  "\<lambda>r u. entry u = E(ms_cycle_id s := Finalized (ms_snapshot_id s) (Some r))" for s ctx E
proof unfold_locales
  fix r
  assume "record_cycle r = ms_cycle_id s" "record_snapshot r = ms_snapshot_id s"
  then show "holds (\<lambda>u. entry u = E(ms_cycle_id s := Claimed (ms_snapshot_id s))) (so_finalize orch r)
      (post (\<lambda>u. entry u = E(ms_cycle_id s := Claimed (ms_snapshot_id s)))
        (\<lambda>y u. entry u = E(ms_cycle_id s := Finalized (ms_snapshot_id s) (Some r))))"
    by (intro hoare_cases) (simp_all add: finalize_ok finalize_error)
qed (intro hoare_cases; simp add: clock_frame invoke_frame risk_frame)+

text \<open>What one run makes of the entries, given what it returned.\<close>

definition run_once ::
  "market_snapshot \<Rightarrow> (string \<Rightarrow> audit_entry) \<Rightarrow> (string \<Rightarrow> audit_entry) \<Rightarrow> shadow_decision_record fallible \<Rightarrow> bool" where
  "run_once s E E' result \<longleftrightarrow> (case result of
     Inr r \<Rightarrow> E (ms_cycle_id s) = Absent \<and> E' = E(ms_cycle_id s := Finalized (ms_snapshot_id s) (Some r))
   | Inl e \<Rightarrow> E' = E \<or> E (ms_cycle_id s) = Absent \<and> E' = E(ms_cycle_id s := Claimed (ms_snapshot_id s)))"

context cycle_store
begin

lemma now_frame: "shadow_now orch u = (t, v) \<Longrightarrow> entry v = entry u"
  by (auto simp: shadow_now_def bind_op_def raise_op_def ret_def dest: clock_frame split: prod.splits sum.splits if_splits)

lemma runs_once:
  assumes "run_shadow_cycle orch s ctx view u = (result, v)"
  shows "run_once s (entry u) (entry v) result"
proof -
  obtain t u1 where now: "shadow_now orch u = (t, u1)" by (cases "shadow_now orch u")
  note u1 = now_frame [OF now]
  show ?thesis
  proof (cases t)
    case (Inl e)
    with assms now u1 show ?thesis by (auto simp: run_shadow_cycle_def bind_op_def run_once_def)
  next
    case (Inr started)
    obtain c u2 where claim: "so_claim orch (ms_cycle_id s) (ms_snapshot_id s) (Aware started) u1 = (c, u2)"
      by (cases "so_claim orch (ms_cycle_id s) (ms_snapshot_id s) (Aware started) u1")
    show ?thesis
    proof (cases c)
      case (Inl e)
      with assms now claim claim_error [of "ms_cycle_id s" "ms_snapshot_id s" "Aware started" u1 e u2] u1 Inr
      show ?thesis by (auto simp: run_shadow_cycle_def bind_op_def run_once_def)
    next
      case (Inr x)
      with claim claim_ok [of "ms_cycle_id s" "ms_snapshot_id s" "Aware started" u1 x u2] u1
      have e: "entry u (ms_cycle_id s) = Absent" "entry u2 = (entry u)(ms_cycle_id s := Claimed (ms_snapshot_id s))"
        by simp_all
      from assms now claim \<open>t = Inr started\<close> Inr have "claimed_cycle orch s ctx view started u2 = (result, v)"
        by (simp add: run_shadow_cycle_def bind_op_def)
      from during.claimed_run [OF this, of "entry u"] e show ?thesis
        unfolding run_once_def by (cases result) simp_all
    qed
  qed
qed

end

text \<open>The two repositories under an orchestrator; the other collaborators work on a state of their own.\<close>

definition on_world :: "('w, 'a) op \<Rightarrow> ('r \<times> 'w, 'a) op" where
  "on_world m u = (case m (snd u) of (x, w) \<Rightarrow> (x, (fst u, w)))"

definition on_repository :: "('w \<Rightarrow> ('r, 'a) op) \<Rightarrow> ('r \<times> 'w, 'a) op" where
  "on_repository m u = (case m (snd u) (fst u) of (x, r) \<Rightarrow> (x, (r, snd u)))"

definition backed_by :: "('w \<Rightarrow> string \<Rightarrow> string \<Rightarrow> py_datetime \<Rightarrow> ('r, cycle_claim) op) \<Rightarrow>
    ('w \<Rightarrow> shadow_decision_record \<Rightarrow> ('r, unit) op) \<Rightarrow> 'w shadow_orchestrator \<Rightarrow> ('r \<times> 'w) shadow_orchestrator" where
  "backed_by claim finalize orch = \<lparr>so_sha = so_sha orch, so_snapshot_digest = so_snapshot_digest orch,
     so_view_digest = so_view_digest orch, so_policy = so_policy orch, so_clock = on_world (so_clock orch),
     so_invoke = (\<lambda>role c n k. on_world (so_invoke orch role c n k)),
     so_risk = (\<lambda>p s ctx t. on_world (so_risk orch p s ctx t)),
     so_claim = (\<lambda>cycle snap t. on_repository (\<lambda>w. claim w cycle snap t)),
     so_finalize = (\<lambda>r. on_repository (\<lambda>w. finalize w r))\<rparr>"

lemma backed_simps [simp]:
  "so_clock (backed_by claim finalize orch) = on_world (so_clock orch)"
  "so_invoke (backed_by claim finalize orch) role c n k = on_world (so_invoke orch role c n k)"
  "so_risk (backed_by claim finalize orch) p s ctx t = on_world (so_risk orch p s ctx t)"
  "so_claim (backed_by claim finalize orch) cycle snap t = on_repository (\<lambda>w. claim w cycle snap t)"
  "so_finalize (backed_by claim finalize orch) r = on_repository (\<lambda>w. finalize w r)"
  by (simp_all add: backed_by_def)

lemma on_world_frame: "on_world m u = (x, v) \<Longrightarrow> fst v = fst u"
  by (auto simp: on_world_def split: prod.splits)

lemma on_repository_run: "on_repository m u = (x, v) \<longleftrightarrow> m (snd u) (fst u) = (x, fst v) \<and> snd v = snd u"
  by (cases v) (auto simp: on_repository_def split: prod.splits)

definition memory_backed :: "'w shadow_orchestrator \<Rightarrow> (audit_memory \<times> 'w) shadow_orchestrator" where
  "memory_backed = backed_by (\<lambda>w. am_claim_cycle) (\<lambda>w. am_finalize)"

definition sqlite_backed :: "('w \<Rightarrow> bool) \<Rightarrow> 'w shadow_orchestrator \<Rightarrow> (audit_tables \<times> 'w) shadow_orchestrator" where
  "sqlite_backed fault = backed_by (\<lambda>w. at_claim_cycle (fault w)) (\<lambda>w. at_finalize (fault w))"

lemma am_results:
  "am_claim_cycle cycle snap t m = (Inr x, m') \<Longrightarrow> am_entry m cycle = Absent \<and> am_entry m' = (am_entry m)(cycle := Claimed snap)"
  "am_claim_cycle cycle snap t m = (Inl e, m') \<Longrightarrow> m' = m"
  "am_finalize r m = (Inr y, m') \<Longrightarrow> am_entry m' = (am_entry m)(record_cycle r := Finalized (record_snapshot r) (Some r))"
  "am_finalize r m = (Inl e, m') \<Longrightarrow> m' = m"
  by (auto simp: fun_eq_iff am_claim_cycle_def am_finalize_def am_entry_def am_get_claim_def am_get_record_def result_simps
      split: if_splits sum.splits dest: fresh_claim_Inr)

lemma at_results:
  "at_claim_cycle fault cycle snap t m = (Inr x, m') \<Longrightarrow> at_entry m cycle = Absent \<and> at_entry m' = (at_entry m)(cycle := Claimed snap)"
  "at_claim_cycle fault cycle snap t m = (Inl e, m') \<Longrightarrow> m' = m"
  "at_finalize fault r m = (Inr y, m') \<Longrightarrow> at_entry m' = (at_entry m)(record_cycle r := Finalized (record_snapshot r) (Some r))"
  "at_finalize fault r m = (Inl e, m') \<Longrightarrow> m' = m"
proof -
  assume "at_finalize fault r m = (Inr y, m')"
  then show "at_entry m' = (at_entry m)(record_cycle r := Finalized (record_snapshot r) (Some r))"
    by (auto simp: fun_eq_iff at_finalize_def at_entry_def result_simps at_get_record_def [of m] no_record option.map_ident
        split: if_splits sum.splits option.splits)
qed (auto simp: fun_eq_iff at_claim_cycle_def at_finalize_def at_entry_def result_simps
      split: if_splits sum.splits option.splits dest: fresh_claim_Inr)

interpretation memory_cycle: cycle_store "memory_backed orch" "\<lambda>u. am_entry (fst u)"
  by unfold_locales (auto simp: memory_backed_def on_repository_run dest: on_world_frame am_results)

interpretation sqlite_cycle: cycle_store "sqlite_backed fault orch" "\<lambda>u. at_entry (fst u)"
  by unfold_locales (auto simp: sqlite_backed_def on_repository_run dest: on_world_frame at_results)

end
