(* ===== verification/ShadowSamples.thy ===== *)
theory ShadowSamples
  imports ShadowCycle Samples
begin

text \<open>
  One concrete cycle on the market of \<open>Samples\<close>: every role answers, the Chief proposes the sample
  trade and the Risk Engine decides on it.
\<close>

text \<open>A digest that tells the six invocations apart.\<close>

definition cycle_sha :: sha where
  "cycle_sha s = (if take 13 s = ''m6-invocation'' then drop 16 s else sample_sha s)"

definition sample_output :: "agent_role \<Rightarrow> 'p \<Rightarrow> 'p agent_output" where
  "sample_output role payload = \<lparr>
     ao_schema_version = ''1.0.0'', ao_output_id = ''out-'' @ value_agent_role role, ao_cycle_id = ''cycle-1'',
     ao_snapshot_id = ''snap-1'', ao_agent_name = ''agent'', ao_agent_role = role, ao_agent_version = ''1.0.0'',
     ao_prompt_ref = \<lparr>pr_prompt_id = ''prompt'', pr_prompt_version = ''1.0.0'',
       pr_content_digest = None\<rparr>,
     ao_runtime_profile_ref = ''runtime'', ao_invocation_policy_ref = ''policy'', ao_cost_policy_ref = None,
     ao_produced_at = t0 + seconds 3, ao_status = agent_output_status.SUCCESS, ao_confidence = 1 / 2,
     ao_evidence = [], ao_warnings = [], ao_invalidations = [], ao_payload = payload\<rparr>"

definition sample_skeptic :: cycle_agent_output where
  "sample_skeptic = OutSkeptic (sample_output agent_role.SKEPTIC
     \<lparr>sr_verdict = skeptic_verdict.APPROVE, sr_challenged_output_ids = [], sr_objections = []\<rparr>)"

primrec sample_answer :: "agent_role \<Rightarrow> cycle_agent_output" where
  "sample_answer agent_role.MARKET_CONTEXT = OutMarketContext (sample_output agent_role.MARKET_CONTEXT
     \<lparr>mcr_regime = market_regime.TREND, mcr_summary = ''trend''\<rparr>)"
| "sample_answer agent_role.TREND_ANALYST = OutTrendAnalysis (sample_output agent_role.TREND_ANALYST
     \<lparr>tar_bias = directional_bias.BULLISH, tar_strength = trend_strength.STRONG, tar_summary = ''up''\<rparr>)"
| "sample_answer agent_role.PRICE_ACTION_ANALYST = OutPriceAction (sample_output agent_role.PRICE_ACTION_ANALYST
     \<lparr>par_bias = directional_bias.BULLISH, par_facts = [], par_interpretations = []\<rparr>)"
| "sample_answer agent_role.ENTRY_ANALYST = OutEntryAnalysis (sample_output agent_role.ENTRY_ANALYST
     \<lparr>ear_disposition = entry_disposition.ENTER_NOW, ear_side = Some trade_side.BUY, ear_entry = Some (11 / 10),
      ear_stop_loss = Some (1098 / 1000), ear_take_profit = None, ear_rationale = ''pullback''\<rparr>)"
| "sample_answer agent_role.QUANT_RESEARCHER = sample_skeptic"
| "sample_answer agent_role.SENIOR_QUANT_DEVELOPER = sample_skeptic"
| "sample_answer agent_role.SKEPTIC = sample_skeptic"
| "sample_answer agent_role.CHIEF_TRADER = OutChiefTrader (sample_output agent_role.CHIEF_TRADER
     \<lparr>ctr_action = trade_action.BUY, ctr_rationale = ''agreed'', ctr_trade_proposal = Some sample_proposal\<rparr>)"
| "sample_answer agent_role.PERFORMANCE_REVIEWER = sample_skeptic"

definition sample_usage :: usage_value where
  "sample_usage = \<lparr>uv_value = None, uv_availability = metric_availability.UNAVAILABLE\<rparr>"

definition sample_telemetry :: invocation_telemetry where
  "sample_telemetry = \<lparr>
     itel_usage = \<lparr>iu_input_tokens = sample_usage, iu_cached_input_tokens = sample_usage,
       iu_output_tokens = sample_usage, iu_reasoning_tokens = sample_usage\<rparr>,
     itel_input_estimate = \<lparr>te_tokens = None, te_method = token_estimate_method.UNAVAILABLE,
       te_conservative = True, te_estimated_at = t0\<rparr>,
     itel_attempt_count = 1, itel_retry_count = 0, itel_latency_milliseconds = 0, itel_estimated_cost = None,
     itel_estimated_cost_availability = metric_availability.UNAVAILABLE, itel_currency = ''USD'',
     itel_provider_request_id = None, itel_reservation_state = None, itel_attempt_reservations = []\<rparr>"

definition sample_invocation :: "agent_role \<Rightarrow> role_context \<Rightarrow> int \<Rightarrow> int option \<Rightarrow> invocation_result" where
  "sample_invocation role ctx n k = \<lparr>
     ir_trace = \<lparr>
       it_invocation_id = logical_invocation_id cycle_sha (fst (ctx_trace ctx)) (snd (ctx_trace ctx)) n role k,
       it_output_id = out_id (sample_answer role), it_cycle_id = ''cycle-1'', it_snapshot_id = ''snap-1'',
       it_agent_role = role, it_agent_version = ''1.0.0'', it_prompt_id = ''prompt'', it_prompt_version = ''1.0.0'',
       it_prompt_digest = ''sha256:'' @ replicate 64 (CHR ''a''), it_runtime_profile_ref = ''runtime'',
       it_provider = model_provider.FAKE, it_model_identifier = ''fake'', it_request_started_at = t0 + seconds 3,
       it_request_completed_at = t0 + seconds 3, it_attempts = 1\<rparr>,
     ir_output = Some (Known (sample_answer role)), ir_failure = None, ir_runtime_failure_category = None,
     ir_telemetry = sample_telemetry\<rparr>"

text \<open>The Risk Engine as the Risk stage.\<close>

definition engine_stage :: "sha \<Rightarrow> risk_constitution_settings \<Rightarrow> trade_proposal \<Rightarrow> market_snapshot \<Rightarrow>
    account_risk_context \<Rightarrow> py_datetime \<Rightarrow> ('s, risk_decision) op" where
  "engine_stage sha cfg p s ctx t = lift_op (risk_evaluate sha cfg p s ctx t)"

definition sample_orchestrator :: "unit shadow_orchestrator" where
  "sample_orchestrator = \<lparr>so_sha = cycle_sha, so_snapshot_digest = (\<lambda>s. ''sha256:'' @ replicate 64 (CHR ''a'')),
     so_view_digest = (\<lambda>v. ''sha256:'' @ replicate 64 (CHR ''a'')),
     so_policy = \<lparr>scp_debate_rounds = 1, scp_quant_stage_selection = quant_stage_selection.SKIP\<rparr>,
     so_clock = ret (Aware (t0 + seconds 3)), so_invoke = (\<lambda>role ctx n k. ret (sample_invocation role ctx n k)),
     so_risk = engine_stage sample_sha default_risk_constitution,
     so_claim = (\<lambda>c n t. ret \<lparr>cc_schema_version = ''1.0.0'', cc_cycle_id = c, cc_snapshot_id = n,
       cc_state = cycle_claim_state.INCOMPLETE, cc_claimed_at = as_utc t, cc_updated_at = as_utc t,
       cc_sanitized_reason = None\<rparr>), so_finalize = (\<lambda>r. ret ())\<rparr>"

definition sample_view :: agent_market_view where
  "sample_view = \<lparr>
     amv_schema_version = ''1.0.0'', amv_source_schema_version = ''1.0.0'', amv_cycle_id = ''cycle-1'',
     amv_snapshot_id = ''snap-1'', amv_symbol = ''EURUSD'', amv_primary_timeframe = timeframe.H1,
     amv_snapshot_completed_at = t0 + seconds 1,
     amv_symbol_info = \<lparr>asv_symbol = ''EURUSD'', asv_digits = 5, asv_point = 1 / 100000,
       asv_trade_tick_size = 1 / 100000, asv_trade_stops_level = 10, asv_trading_mode = symbol_trade_mode.FULL\<rparr>,
     amv_tick = \<lparr>atv_symbol = ''EURUSD'', atv_source_time = t0, atv_bid = 109999 / 100000, atv_ask = 110001 / 100000,
       atv_spread = 1 / 50000, atv_last = 0, atv_volume = 0\<rparr>,
     amv_candles = \<lparr>acs_m15 = [candle_view (sample_candle timeframe.M15)],
       acs_h1 = [candle_view (sample_candle timeframe.H1)], acs_h4 = [candle_view (sample_candle timeframe.H4)]\<rparr>,
     amv_freshness = \<lparr>sfre_tick = sample_freshness, sfre_account = sample_freshness,
       sfre_m15_candles = sample_freshness, sfre_h1_candles = sample_freshness,
       sfre_h4_candles = sample_freshness, sfre_overall = freshness_state.FRESH\<rparr>,
     amv_validation_warning_codes = [], amv_symbol_open_position_count = 0, amv_features = None,
     amv_agent_feature_view_digest = None\<rparr>"

section \<open>The cycle step by step\<close>

definition sample_time :: instant where
  "sample_time = t0 + seconds 3"

lemma sample_orchestrator_simps [simp]:
  "so_sha sample_orchestrator = cycle_sha" "so_claim sample_orchestrator cycle snap t u =
     (Inr \<lparr>cc_schema_version = ''1.0.0'', cc_cycle_id = cycle, cc_snapshot_id = snap,
       cc_state = cycle_claim_state.INCOMPLETE, cc_claimed_at = as_utc t, cc_updated_at = as_utc t,
       cc_sanitized_reason = None\<rparr>, u)"
  "so_finalize sample_orchestrator r u = (Inr (), u)"
  "so_invoke sample_orchestrator role ctx n k u = (Inr (sample_invocation role ctx n k), u)"
  "so_risk sample_orchestrator = engine_stage sample_sha default_risk_constitution"
  "scp_debate_rounds (so_policy sample_orchestrator) = 1"
  "scp_quant_stage_selection (so_policy sample_orchestrator) = quant_stage_selection.SKIP"
  "so_snapshot_digest sample_orchestrator s = ''sha256:'' @ replicate 64 (CHR ''a'')"
  by (simp_all add: sample_orchestrator_def ret_def)

lemma sample_now [simp]: "shadow_now sample_orchestrator u = (Inr sample_time, u)"
  by (simp add: shadow_now_def bind_op_def sample_orchestrator_def ret_def is_naive_def sample_time_def)

definition sample_audit :: "agent_role \<Rightarrow> role_context \<Rightarrow> int \<Rightarrow> int option \<Rightarrow> agent_invocation_audit" where
  "sample_audit role ctx n k = \<lparr>aia_schema_version = ''1.0.0'', aia_stage_number = n, aia_debate_round = k,
     aia_trace = ir_trace (sample_invocation role ctx n k), aia_telemetry = sample_telemetry,
     aia_output_id = Some (out_id (sample_answer role)), aia_failure_id = None\<rparr>"

definition sample_outcome :: "agent_role \<Rightarrow> role_context \<Rightarrow> int \<Rightarrow> int option \<Rightarrow> invocation_outcome" where
  "sample_outcome role ctx n k = \<lparr>io_output = Some (sample_answer role), io_failure = None,
     io_audit = Some (sample_audit role ctx n k),
     io_invocation_id = logical_invocation_id cycle_sha (fst (ctx_trace ctx)) (snd (ctx_trace ctx)) n role k\<rparr>"

definition sample_roles :: "agent_role list" where
  "sample_roles = [agent_role.MARKET_CONTEXT, agent_role.TREND_ANALYST, agent_role.PRICE_ACTION_ANALYST,
     agent_role.ENTRY_ANALYST, agent_role.SKEPTIC, agent_role.CHIEF_TRADER]"

lemma version_ok: "is_schema_version ''1.0.0''" and cycle_id_ok: "is_cycle_id ''cycle-1''"
  and snapshot_id_ok: "is_snapshot_id ''snap-1''" and symbol_ok: "is_symbol ''EURUSD''"
  by code_simp+

lemma sample_out_ids: "list_all (\<lambda>role. is_identifier (out_id (sample_answer role)) \<and>
    role_of_output (sample_answer role) = role \<and> out_trace (sample_answer role) = (''cycle-1'', ''snap-1'')) sample_roles"
  by code_simp

lemma sample_invoked:
  assumes "role \<in> set sample_roles" "1 \<le> n" "n \<le> 5" "k = None \<or> k = Some 1"
  shows "invoke_role sample_orchestrator role ctx n k u = (Inr (sample_outcome role ctx n k), u)"
proof -
  have "ok_agent_invocation_audit (sample_audit role ctx n k)"
    using assms sample_out_ids version_ok
    by (auto simp: ok_agent_invocation_audit_def fields_agent_invocation_audit_def validate_agent_invocation_audit_def
        sample_audit_def sample_invocation_def is_positive_int_def list_all_iff)
  moreover have "role_of_output (sample_answer role) = role" using assms sample_out_ids by (simp add: list_all_iff)
  ultimately show ?thesis
    by (simp add: invoke_role_def try_op_def outcome_of_result_def lift_op_def invocation_audit_def contract_output_def
        sample_invocation_def sample_outcome_def sample_audit_def Let_def)
qed

text \<open>The six results, which depend on the role, the stage and the round only.\<close>

definition sample_ctx :: role_context where
  "sample_ctx = CtxSnapshot agent_role.MARKET_CONTEXT \<lparr>sai_schema_version = ''1.0.0'', sai_cycle_id = ''cycle-1'', sai_snapshot_id = ''snap-1'',
     sai_market = sample_view\<rparr>"

lemma sample_outcome_ctx:
  "ctx_trace ctx = (''cycle-1'', ''snap-1'') \<Longrightarrow> sample_outcome role ctx n k = sample_outcome role sample_ctx n k"
  by (simp add: sample_outcome_def sample_audit_def sample_invocation_def sample_ctx_def)

lemma sample_invoked':
  assumes "role \<in> set sample_roles" "1 \<le> n" "n \<le> 5" "k = None \<or> k = Some 1"
    and "ctx_trace ctx = (''cycle-1'', ''snap-1'')"
  shows "invoke_role sample_orchestrator role ctx n k u = (Inr (sample_outcome role sample_ctx n k), u)"
  using sample_invoked [OF assms(1-4)] sample_outcome_ctx [OF assms(5)] by simp

definition sample_id :: "agent_role \<Rightarrow> int \<Rightarrow> int option \<Rightarrow> string" where
  "sample_id role n k = logical_invocation_id cycle_sha ''cycle-1'' ''snap-1'' n role k"

definition sample_ids :: "string list" where
  "sample_ids = [sample_id agent_role.MARKET_CONTEXT 1 None, sample_id agent_role.TREND_ANALYST 1 None,
     sample_id agent_role.PRICE_ACTION_ANALYST 1 None, sample_id agent_role.ENTRY_ANALYST 2 None,
     sample_id agent_role.SKEPTIC 4 (Some 1), sample_id agent_role.CHIEF_TRADER 5 (Some 1)]"

lemma sample_ids_ok: "distinct sample_ids \<and> list_all is_identifier sample_ids"
  by code_simp

lemma sample_outcome_simps [simp]:
  "io_output (sample_outcome role ctx n k) = Some (sample_answer role)"
  "io_failure (sample_outcome role ctx n k) = None"
  "io_audit (sample_outcome role ctx n k) = Some (sample_audit role ctx n k)"
  "aia_stage_number (sample_audit role ctx n k) = n"
  "it_invocation_id (aia_trace (sample_audit role sample_ctx n k)) = sample_id role n k"
  "aia_output_id (sample_audit role ctx n k) = Some (out_id (sample_answer role))"
  "aia_failure_id (sample_audit role ctx n k) = None"
  by (simp_all add: sample_outcome_def sample_audit_def sample_invocation_def sample_ctx_def sample_id_def)

definition stage_record :: "int \<Rightarrow> stage_execution_status \<Rightarrow> instant \<Rightarrow> string list \<Rightarrow> string option \<Rightarrow> stage_execution_record" where
  "stage_record n status t ids detail = \<lparr>ser_schema_version = ''1.0.0'', ser_stage_number = n,
     ser_stage_name = stage_name n, ser_components = stage_components n, ser_status = status, ser_started_at = t,
     ser_completed_at = t, ser_invocation_ids = ids, ser_failure_ids = [], ser_sanitized_detail = detail\<rparr>"

lemma stage_names_ok: "list_all (\<lambda>n. is_identifier (stage_name n)) [1, 2, 3, 4, 5, 6]"
  by code_simp

lemma set_stage_ok:
  assumes "cs_failures st = []" "n \<in> set [1, 2, 3, 4, 5, 6]" "pred_option (\<lambda>d. length d \<le> 512) detail"
    and "ids = map (it_invocation_id \<circ> aia_trace) (filter (\<lambda>a. aia_stage_number a = n) (cs_invocations st))"
    and "distinct ids" "list_all is_identifier ids"
  shows "set_stage n status t detail st = Inr (st\<lparr>cs_stages := AList.update n (stage_record n status t ids detail) (cs_stages st)\<rparr>)"
proof -
  have "ok_stage_execution_record (stage_record n status t ids detail)"
    using assms stage_names_ok version_ok
    by (auto simp: ok_stage_execution_record_def fields_stage_execution_record_def validate_stage_execution_record_def
        stage_record_def is_positive_int_def stage_components_def)
  then show ?thesis
    using assms(1,4) by (simp add: set_stage_def stage_failure_ids_def stage_record_def)
qed

lemma sample_id_facts:
  "distinct [sample_id agent_role.MARKET_CONTEXT 1 None, sample_id agent_role.TREND_ANALYST 1 None,
     sample_id agent_role.PRICE_ACTION_ANALYST 1 None]"
  "role \<in> set sample_roles \<Longrightarrow> is_identifier (sample_id agent_role.MARKET_CONTEXT 1 None)"
  "is_identifier (sample_id agent_role.MARKET_CONTEXT 1 None)" "is_identifier (sample_id agent_role.TREND_ANALYST 1 None)"
  "is_identifier (sample_id agent_role.PRICE_ACTION_ANALYST 1 None)" "is_identifier (sample_id agent_role.ENTRY_ANALYST 2 None)"
  "is_identifier (sample_id agent_role.SKEPTIC 4 (Some 1))" "is_identifier (sample_id agent_role.CHIEF_TRADER 5 (Some 1))"
  using sample_ids_ok by (simp_all add: sample_ids_def)

definition sample_start :: cycle_state where
  "sample_start = new_cycle_state sample_snapshot sample_context sample_view sample_time"

definition sample_one :: stage_one_context where
  "sample_one = \<lparr>soc_market_context = market_context_of (sample_answer agent_role.MARKET_CONTEXT),
     soc_trend = trend_of (sample_answer agent_role.TREND_ANALYST),
     soc_price_action = price_action_of (sample_answer agent_role.PRICE_ACTION_ANALYST), soc_failures = []\<rparr>"

definition sample_after_one :: cycle_state where
  "sample_after_one = sample_start\<lparr>
     cs_stages := [(1, stage_record 1 stage_execution_status.COMPLETED sample_time (take 3 sample_ids) None)],
     cs_invocations := [sample_audit agent_role.MARKET_CONTEXT sample_ctx 1 None,
       sample_audit agent_role.TREND_ANALYST sample_ctx 1 None, sample_audit agent_role.PRICE_ACTION_ANALYST sample_ctx 1 None],
     cs_outputs := map sample_answer (take 3 sample_roles)\<rparr>"

lemma sample_inputs_ok:
  "\<exists>ctx. market_input role sample_view = Inr ctx \<and> ctx_trace ctx = (''cycle-1'', ''snap-1'')"
  if "role \<in> {agent_role.MARKET_CONTEXT, agent_role.TREND_ANALYST, agent_role.PRICE_ACTION_ANALYST}"
  using that version_ok cycle_id_ok snapshot_id_ok
  by (auto simp: market_input_def ok_snapshot_agent_input_def fields_snapshot_agent_input_def
      validate_market_trace_def sample_view_def)

lemma sample_stage_one: "stage_one sample_orchestrator sample_start () = (Inr (Inr (sample_after_one, sample_one)), ())"
proof -
  have view: "cs_market sample_start = sample_view" "cs_failures sample_start = []" "cs_invocations sample_start = []"
    "cs_outputs sample_start = []" "cs_stages sample_start = []"
    by (simp_all add: sample_start_def new_cycle_state_def)
  have ctx: "ctx_trace sample_ctx = (''cycle-1'', ''snap-1'')" by (simp add: sample_ctx_def)
  let ?x = "\<lambda>role. sample_outcome role sample_ctx 1 None"
  have close: "close_stage_one sample_orchestrator sample_time (?x agent_role.MARKET_CONTEXT) (?x agent_role.TREND_ANALYST)
      (?x agent_role.PRICE_ACTION_ANALYST) sample_start () = (Inr (Inr (sample_after_one, sample_one)), ())"
    using view sample_id_facts
    by (simp add: close_stage_one_def stage_one_terminal_def List.map_filter_simps checked_def bind_op_def lift_op_def
        proceed_def ret_def set_stage_ok retain_def replace_failures_def typed_output_def sample_after_one_def
        sample_one_def sample_ids_def sample_roles_def Let_def)
  obtain c1 where c1: "market_input agent_role.MARKET_CONTEXT sample_view = Inr c1" "ctx_trace c1 = (''cycle-1'', ''snap-1'')"
    using sample_inputs_ok [of agent_role.MARKET_CONTEXT] by auto
  obtain c2 where c2: "market_input agent_role.TREND_ANALYST sample_view = Inr c2" "ctx_trace c2 = (''cycle-1'', ''snap-1'')"
    using sample_inputs_ok [of agent_role.TREND_ANALYST] by auto
  obtain c3 where c3: "market_input agent_role.PRICE_ACTION_ANALYST sample_view = Inr c3" "ctx_trace c3 = (''cycle-1'', ''snap-1'')"
    using sample_inputs_ok [of agent_role.PRICE_ACTION_ANALYST] by auto
  note c = c1 c2 c3
  show ?thesis
    unfolding stage_one_def market_context_input_def trend_input_def price_action_input_def view
    by (simp add: checked_def bind_op_def lift_op_def c sample_invoked' sample_roles_def close)
qed

definition sample_entry :: entry_analysis_output where
  "sample_entry = the (entry_of (sample_answer agent_role.ENTRY_ANALYST))"

definition sample_after_two :: cycle_state where
  "sample_after_two = sample_after_one\<lparr>
     cs_stages := cs_stages sample_after_one @
       [(2, stage_record 2 stage_execution_status.COMPLETED sample_time [sample_id agent_role.ENTRY_ANALYST 2 None] None)],
     cs_invocations := cs_invocations sample_after_one @ [sample_audit agent_role.ENTRY_ANALYST sample_ctx 2 None],
     cs_outputs := map sample_answer (take 4 sample_roles)\<rparr>"

definition sample_after_three :: cycle_state where
  "sample_after_three = sample_after_two\<lparr>
     cs_stages := cs_stages sample_after_two @
       [(3, stage_record 3 stage_execution_status.SKIPPED sample_time [] (Some ''quant stage not selected''))]\<rparr>"

lemma sample_views [simp]:
  "cs_market sample_start = sample_view" "cs_market sample_after_one = sample_view"
  "cs_market sample_after_two = sample_view" "cs_market sample_after_three = sample_view"
  "cs_failures sample_start = []" "cs_failures sample_after_one = []" "cs_failures sample_after_two = []"
  "cs_failures sample_after_three = []"
  by (simp_all add: sample_start_def new_cycle_state_def sample_after_one_def sample_after_two_def sample_after_three_def)

lemma sample_traces [simp]:
  "ctx_trace sample_ctx = (''cycle-1'', ''snap-1'')" "amv_cycle_id sample_view = ''cycle-1''" "amv_snapshot_id sample_view = ''snap-1''"
  "validate_market_trace ''cycle-1'' ''snap-1'' sample_view"
  "validate_output_trace ''cycle-1'' ''snap-1'' (stage_one_records sample_one)"
  "output_trace sample_entry = (''cycle-1'', ''snap-1'')"
  by (simp_all add: sample_ctx_def sample_view_def validate_market_trace_def validate_output_trace_def
      stage_one_records_def sample_one_def sample_entry_def market_context_of_def trend_of_def price_action_of_def
      entry_of_def output_trace_def sample_output_def)

lemma sample_stage_two: "stage_two sample_orchestrator sample_after_one sample_one () = (Inr (Inr (sample_after_two, sample_entry)), ())"
proof -
  have access: "require_access agent_role.ENTRY_ANALYST
      [information_resource.MARKET_SNAPSHOT_VIEW, information_resource.UPSTREAM_AGENT_OUTPUTS] = Inr ()"
    by (simp add: require_access_def can_access_def)
  obtain ctx where ctx: "entry_input sample_view sample_one = Inr ctx" "ctx_trace ctx = (''cycle-1'', ''snap-1'')"
    using access version_ok cycle_id_ok snapshot_id_ok
    by (simp add: entry_input_def ok_entry_analysis_input_def fields_entry_analysis_input_def validate_entry_analysis_input_def)
  have entry: "typed_output entry_of (sample_outcome agent_role.ENTRY_ANALYST sample_ctx 2 None) = Some sample_entry"
    by (simp add: typed_output_def sample_entry_def entry_of_def)
  show ?thesis
    using sample_id_facts
    by (simp add: stage_two_def checked_def bind_op_def lift_op_def ctx sample_invoked' sample_roles_def entry asserted_def
        set_stage_ok retain_def proceed_def ret_def sample_after_two_def sample_after_one_def sample_start_def
        new_cycle_state_def)
qed

lemma sample_quant_stage:
  "quant_stage sample_orchestrator sample_after_two sample_one sample_entry () = (Inr (Inr (sample_after_three, None, None)), ())"
proof -
  have none: "filter (\<lambda>a. aia_stage_number a = 3) (cs_invocations sample_after_two) = []"
    by (simp add: sample_after_two_def sample_after_one_def)
  have keys: "map_of (cs_stages sample_after_two) 3 = None"
    by (simp add: sample_after_two_def sample_after_one_def)
  have "set_stage 3 stage_execution_status.SKIPPED sample_time (Some ''quant stage not selected'') sample_after_two =
      Inr sample_after_three"
    by (subst set_stage_ok [OF _ _ _ refl]) (simp_all add: none sample_after_three_def dict_update_fresh [OF keys])
  then show ?thesis
    by (simp add: quant_stage_def checked_def bind_op_def lift_op_def proceed_def ret_def)
qed

definition sample_chief :: chief_trader_output where
  "sample_chief = the (chief_of (sample_answer agent_role.CHIEF_TRADER))"

definition sample_debated :: cycle_state where
  "sample_debated = sample_after_three\<lparr>
     cs_invocations := cs_invocations sample_after_three @
       [sample_audit agent_role.SKEPTIC sample_ctx 4 (Some 1), sample_audit agent_role.CHIEF_TRADER sample_ctx 5 (Some 1)],
     cs_outputs := map sample_answer sample_roles, cs_chief_decisions := [sample_chief]\<rparr>"

lemma sample_chief_simps [simp]:
  "ctr_action (ao_payload sample_chief) = trade_action.BUY"
  "ctr_trade_proposal (ao_payload sample_chief) = Some sample_proposal"
  by (simp_all add: sample_chief_def chief_of_def sample_output_def)

lemma sample_debate:
  "debate [1] sample_orchestrator sample_time sample_one sample_entry None None None sample_after_three () =
     (Inr (Inr (sample_debated, Some sample_chief)), ())"
proof -
  obtain ctx1 where ctx1: "skeptic_input_of sample_view sample_one sample_entry None None None = Inr ctx1"
    "ctx_trace ctx1 = (''cycle-1'', ''snap-1'')"
    using version_ok cycle_id_ok snapshot_id_ok sample_traces(5,6)
    by (simp add: skeptic_input_of_def ok_skeptic_input_def fields_skeptic_input_def validate_skeptic_input_def
        validate_output_trace_def)
  have skeptic: "typed_output skeptic_of (sample_outcome agent_role.SKEPTIC sample_ctx 4 (Some 1)) = skeptic_of sample_skeptic"
    by (simp add: typed_output_def)
  obtain out where out: "skeptic_of sample_skeptic = Some out" "output_trace out = (''cycle-1'', ''snap-1'')"
    by (simp add: sample_skeptic_def skeptic_of_def sample_output_def output_trace_def)
  obtain ctx2 where ctx2: "chief_input_of sample_view sample_one sample_entry None None out = Inr ctx2"
    "ctx_trace ctx2 = (''cycle-1'', ''snap-1'')"
    using version_ok cycle_id_ok snapshot_id_ok sample_traces(5,6) out(2)
    by (simp add: chief_input_of_def ok_chief_trader_input_def fields_chief_trader_input_def validate_chief_trader_input_def
        validate_output_trace_def)
  have chief: "typed_output chief_of (sample_outcome agent_role.CHIEF_TRADER sample_ctx 5 (Some 1)) = Some sample_chief"
    by (simp add: typed_output_def sample_chief_def chief_of_def)
  have outs: "cs_outputs sample_after_three = map sample_answer (take 4 sample_roles)"
    "cs_chief_decisions sample_after_three = []" "cs_failures sample_after_three = []"
    by (simp_all add: sample_after_three_def sample_after_two_def sample_after_one_def sample_start_def new_cycle_state_def)
  show ?thesis
    by (simp add: checked_def bind_op_def lift_op_def ctx1 ctx2 sample_invoked' sample_roles_def skeptic out chief
        asserted_def proceed_def ret_def retain_def outs sample_debated_def Let_def)
qed

definition sample_concluded :: cycle_state where
  "sample_concluded = sample_debated\<lparr>
     cs_stages := cs_stages sample_debated @
       [(4, stage_record 4 stage_execution_status.COMPLETED sample_time [sample_id agent_role.SKEPTIC 4 (Some 1)] None),
        (5, stage_record 5 stage_execution_status.COMPLETED sample_time [sample_id agent_role.CHIEF_TRADER 5 (Some 1)] None),
        (6, stage_record 6 stage_execution_status.COMPLETED sample_time [] None)],
     cs_chief_decision := Some sample_chief, cs_trade_proposal := Some sample_proposal,
     cs_risk_decision := Some sample_decision\<rparr>"

definition sample_cycle :: decision_cycle where
  "sample_cycle = \<lparr>dcyc_schema_version = ''1.0.0'', dcyc_cycle_id = ''cycle-1'', dcyc_initial_snapshot_id = ''snap-1'',
     dcyc_symbol = ''EURUSD'', dcyc_primary_timeframe = timeframe.H1, dcyc_cycle_started_at = sample_time,
     dcyc_cycle_completed_at = sample_time, dcyc_app_mode = application_mode.SHADOW, dcyc_market_view = sample_view,
     dcyc_risk_input_audit = \<lparr>ria_schema_version = ''1.0.0'',
       ria_snapshot_digest = ''sha256:'' @ replicate 64 (CHR ''a''), ria_account_context = sample_context\<rparr>,
     dcyc_stages = stage_list sample_concluded, dcyc_invocations = cs_invocations sample_concluded,
     dcyc_agent_outputs = map sample_answer sample_roles, dcyc_agent_failures = [],
     dcyc_chief_decisions = [sample_chief], dcyc_chief_decision = Some sample_chief,
     dcyc_trade_proposal = Some sample_proposal, dcyc_risk_decision = Some sample_decision,
     dcyc_final_disposition = shadow_disposition.WOULD_BUY, dcyc_outcome_source = shadow_outcome_source.RISK_ENGINE\<rparr>"

definition sample_intent :: shadow_trade_intent where
  "sample_intent = \<lparr>sti_schema_version = ''1.0.0'', sti_cycle_id = ''cycle-1'', sti_snapshot_id = ''snap-1'',
     sti_proposal = sample_proposal, sti_risk_decision = sample_decision, sti_selected_volume = 1 / 50,
     sti_hypothetical_entry = 11 / 10, sti_hypothetical_stop_loss = 1098 / 1000,
     sti_hypothetical_take_profit = 1104 / 1000, sti_recorded_at = sample_time,
     sti_execution_status = shadow_execution_status.NOT_EXECUTED_SHADOW\<rparr>"

definition sample_record :: shadow_decision_record where
  "sample_record = \<lparr>sdr_schema_version = ''1.0.0'', sdr_record_id = shadow_record_id cycle_sha ''cycle-1'' ''snap-1'',
     sdr_recorded_at = sample_time, sdr_decision_cycle = sample_cycle, sdr_shadow_trade_intent = Some sample_intent\<rparr>"

lemma six: "py_range1 6 = [1, 2, 3, 4, 5, 6]"
  by code_simp

lemma sample_stage_keys:
  "cs_stages sample_debated = [(1, stage_record 1 stage_execution_status.COMPLETED sample_time (take 3 sample_ids) None),
     (2, stage_record 2 stage_execution_status.COMPLETED sample_time [sample_id agent_role.ENTRY_ANALYST 2 None] None),
     (3, stage_record 3 stage_execution_status.SKIPPED sample_time [] (Some ''quant stage not selected''))]"
  by (simp add: sample_debated_def sample_after_three_def sample_after_two_def sample_after_one_def)

lemma sample_invocations:
  "cs_invocations sample_debated = [sample_audit agent_role.MARKET_CONTEXT sample_ctx 1 None,
     sample_audit agent_role.TREND_ANALYST sample_ctx 1 None, sample_audit agent_role.PRICE_ACTION_ANALYST sample_ctx 1 None,
     sample_audit agent_role.ENTRY_ANALYST sample_ctx 2 None, sample_audit agent_role.SKEPTIC sample_ctx 4 (Some 1),
     sample_audit agent_role.CHIEF_TRADER sample_ctx 5 (Some 1)]"
  by (simp add: sample_debated_def sample_after_three_def sample_after_two_def sample_after_one_def)

lemma sample_stage_list: "map ser_stage_number (stage_list sample_concluded) = py_range1 6"
  by (simp add: stage_list_def six sample_concluded_def sample_stage_keys stage_record_def)

lemma sample_outs_distinct: "distinct (map (\<lambda>role. out_id (sample_answer role)) sample_roles) \<and>
    list_all (\<lambda>role. out_id (sample_answer role) \<noteq> []) sample_roles"
  by code_simp

lemma sample_results_ok: "cycle_results_ok sample_cycle"
proof -
  have outs: "map out_id (dcyc_agent_outputs sample_cycle) = map (\<lambda>role. out_id (sample_answer role)) sample_roles"
    by (simp add: sample_cycle_def)
  have inv: "dcyc_invocations sample_cycle = cs_invocations sample_debated"
    by (simp add: sample_cycle_def sample_concluded_def)
  have ids: "map (it_invocation_id \<circ> aia_trace) (cs_invocations sample_debated) = sample_ids"
    by (simp add: sample_invocations sample_ids_def)
  have refs: "referenced aia_output_id (cs_invocations sample_debated) = set (map (\<lambda>role. out_id (sample_answer role)) sample_roles)"
    using sample_outs_distinct
    by (auto simp: referenced_def sample_invocations truthy_def List.map_filter_simps sample_roles_def)
  have fails: "referenced aia_failure_id (cs_invocations sample_debated) = {}"
    by (simp add: referenced_def sample_invocations truthy_def List.map_filter_simps)
  have traces: "\<forall>x \<in> set (dcyc_agent_outputs sample_cycle). out_trace x = (''cycle-1'', ''snap-1'')"
    using sample_out_ids by (simp add: sample_cycle_def list_all_iff)
  show ?thesis
    using sample_outs_distinct sample_ids_ok traces
    unfolding cycle_results_ok_def Let_def outs inv ids refs fails
    by (simp add: sample_cycle_def sample_stage_list)
qed

lemma sample_snapshot_simps [simp]:
  "ms_cycle_id sample_snapshot = ''cycle-1''" "ms_snapshot_id sample_snapshot = ''snap-1''"
  "ms_symbol sample_snapshot = ''EURUSD''" "ms_primary_timeframe sample_snapshot = timeframe.H1"
  by (simp_all add: sample_snapshot_def)

lemma sample_decision_simps [simp]:
  "rd_status sample_decision = risk_decision_status.APPROVED" "rd_cycle_id sample_decision = ''cycle-1''"
  "rd_snapshot_id sample_decision = ''snap-1''" "rd_proposal_id sample_decision = ''prop-1''"
  "rd_position_sizing sample_decision = Some sample_sizing" "psr_selected_volume sample_sizing = Some (1 / 50)"
  "tp_proposal_id sample_proposal = ''prop-1''" "tp_cycle_id sample_proposal = ''cycle-1''"
  "tp_snapshot_id sample_proposal = ''snap-1''" "tp_entry sample_proposal = Some (11 / 10)"
  "tp_stop_loss sample_proposal = Some (1098 / 1000)" "tp_take_profit sample_proposal = Some (1104 / 1000)"
  by (simp_all add: sample_decision_def sample_sizing_def sample_proposal_def)

lemma sample_cycle_ok: "ok_decision_cycle sample_cycle"
proof -
  have "cycle_trace_ok sample_cycle"
    by (simp add: cycle_trace_ok_def sample_cycle_def sample_view_def sample_context_def)
  moreover have "cycle_chief_ok sample_cycle"
    by (simp add: cycle_chief_ok_def sample_cycle_def sample_roles_def List.map_filter_simps chief_of_def sample_chief_def
        sample_skeptic_def sample_output_def)
  moreover have "cycle_disposition_ok sample_cycle"
    by (simp add: cycle_disposition_ok_def chief_action_def sample_cycle_def)
  moreover have "fields_decision_cycle sample_cycle"
    using version_ok cycle_id_ok snapshot_id_ok symbol_ok by (simp add: fields_decision_cycle_def sample_cycle_def)
  ultimately show ?thesis
    using sample_results_ok by (simp add: ok_decision_cycle_def validate_decision_cycle_def)
qed

lemma sample_intent_ok: "ok_shadow_trade_intent sample_intent"
  using version_ok cycle_id_ok snapshot_id_ok
  by (simp add: ok_shadow_trade_intent_def fields_shadow_trade_intent_def validate_shadow_trade_intent_def sample_intent_def
      is_positive_decimal_def Let_def)

lemma sample_record_ok: "ok_shadow_decision_record sample_record"
proof -
  have "is_identifier (shadow_record_id cycle_sha ''cycle-1'' ''snap-1'')" by code_simp
  then show ?thesis
    using version_ok
    by (simp add: ok_shadow_decision_record_def fields_shadow_decision_record_def validate_shadow_decision_record_def
        sample_record_def sample_cycle_def sample_intent_def)
qed

text \<open>The Risk stage and the end of the cycle.\<close>

lemma cycle_digest_ok: "is_content_digest (''sha256:'' @ replicate 64 (CHR ''a''))"
  by code_simp

lemma sample_finish:
  "finish_cycle sample_orchestrator sample_concluded shadow_disposition.WOULD_BUY shadow_outcome_source.RISK_ENGINE () =
     (Inr sample_record, ())"
proof -
  have filled: "fill_skipped sample_time sample_concluded = Inr sample_concluded"
    by (simp add: fill_skipped_def six sample_concluded_def sample_stage_keys)
  have cycle: "cycle_of_state sample_orchestrator sample_concluded sample_time shadow_disposition.WOULD_BUY
      shadow_outcome_source.RISK_ENGINE = Inr sample_cycle"
    using sample_cycle_ok cycle_digest_ok version_ok
    unfolding cycle_of_state_def
    by (simp add: fields_risk_input_audit_def sample_cycle_def sample_concluded_def sample_debated_def sample_after_three_def
        sample_after_two_def sample_after_one_def sample_start_def new_cycle_state_def)
  have intent: "shadow_intent sample_cycle sample_time = Inr (Some sample_intent)"
    using sample_intent_ok by (simp add: shadow_intent_def sample_cycle_def sample_intent_def)
  have ids: "dcyc_cycle_id sample_cycle = ''cycle-1''" "dcyc_initial_snapshot_id sample_cycle = ''snap-1''"
    by (simp_all add: sample_cycle_def)
  show ?thesis
    using sample_record_ok
    by (simp add: finish_cycle_def bind_op_def lift_op_def filled cycle intent ids ret_def sample_record_def)
qed

lemma sample_conclude:
  "conclude sample_orchestrator sample_time sample_debated (Some sample_chief) () = (Inr sample_record, ())"
proof -
  define s4 where "s4 = sample_debated\<lparr>cs_stages := cs_stages sample_debated @
    [(4, stage_record 4 stage_execution_status.COMPLETED sample_time [sample_id agent_role.SKEPTIC 4 (Some 1)] None)]\<rparr>"
  define s5 where "s5 = s4\<lparr>cs_stages := cs_stages s4 @
    [(5, stage_record 5 stage_execution_status.COMPLETED sample_time [sample_id agent_role.CHIEF_TRADER 5 (Some 1)] None)]\<rparr>"
  define s5' where "s5' = s5\<lparr>cs_chief_decision := Some sample_chief, cs_trade_proposal := Some sample_proposal\<rparr>"
  have fails: "cs_failures sample_debated = []" by (simp add: sample_debated_def)
  have 4: "set_stage 4 stage_execution_status.COMPLETED sample_time None sample_debated = Inr s4"
    using fails sample_id_facts
    by (simp add: set_stage_ok sample_invocations s4_def dict_update_fresh sample_stage_keys)
  have 5: "set_stage 5 stage_execution_status.COMPLETED sample_time None s4 = Inr s5"
    using fails sample_id_facts
    by (simp add: set_stage_ok sample_invocations s4_def s5_def dict_update_fresh sample_stage_keys)
  have 6: "set_stage 6 stage_execution_status.COMPLETED sample_time None (s5'\<lparr>cs_risk_decision := Some sample_decision\<rparr>) =
      Inr sample_concluded"
    using fails
    by (simp add: set_stage_ok sample_invocations s4_def s5_def s5'_def dict_update_fresh sample_stage_keys sample_concluded_def)
  have inputs: "cs_snapshot s5' = sample_snapshot" "cs_account_context s5' = sample_context"
    by (simp_all add: s5'_def s5_def s4_def sample_debated_def sample_after_three_def sample_after_two_def
        sample_after_one_def sample_start_def new_cycle_state_def)
  have risk: "engine_stage sample_sha default_risk_constitution sample_proposal sample_snapshot sample_context
      (Aware sample_time) () = (Inr sample_decision, ())"
    by (simp add: engine_stage_def lift_op_def sample_evaluated sample_time_def)
  show ?thesis
    by (simp add: conclude_def checked_def bind_op_def lift_op_def 4 5 6 asserted_def s5'_def [symmetric] risk_stage_def
        try_op_def inputs risk sample_finish Let_def)
qed

lemma sample_checked: "validate_shadow_inputs cycle_sha sample_snapshot sample_context (Aware sample_time) = Inr ()"
  by (simp add: validate_shadow_inputs_def is_naive_def sample_context_def sample_snapshot_def sample_account_def
      account_fingerprint_def cycle_sha_def sample_sha_def sample_time_def seconds_def)

lemma sample_run:
  "run_shadow_cycle sample_orchestrator sample_snapshot sample_context (Some sample_view) () = (Inr sample_record, ())"
proof -
  have one: "py_range1 (Suc 0) = [1]" by code_simp
  have fresh: "sfre_overall (amv_freshness sample_view) = freshness_state.FRESH" "amv_symbol sample_view = ''EURUSD''"
    by (simp_all add: sample_view_def)
  have "decide_cycle sample_orchestrator sample_start () = (Inr sample_record, ())"
    by (simp add: decide_cycle_def and_then_def bind_op_def sample_stage_one sample_stage_two sample_quant_stage one
        sample_debate ends_def sample_conclude ret_def del: debate.simps)
  then show ?thesis
    by (simp add: run_shadow_cycle_def claimed_cycle_def checked_def bind_op_def lift_op_def examine_inputs_def
        sample_checked fresh sample_start_def Let_def)
qed

end
