(* ===== verification/RiskTheorems.thy ===== *)
theory RiskTheorems
  imports Samples
begin

text \<open>
  Correctness of the Risk Engine: the assessment of an account with a valid context never fails,
  is monotone in the equity and halts exactly on its three limits; the proposal checks accept
  exactly the proposals with the stated geometry; sizing never exceeds the allowed risk; and the
  engine as a whole returns a decision on all well-formed inputs and approves only when every
  guard holds.
\<close>

section \<open>Account assessment\<close>

definition loss_pct :: "decimal \<Rightarrow> decimal \<Rightarrow> decimal" where
  "loss_pct amount base = rd28 (rd28 (amount / base) * 100)"

lemma loss_percent_eq: "base \<noteq> 0 \<Longrightarrow> loss_percent amount base = Inr (loss_pct amount base)"
  by (simp add: loss_percent_def loss_pct_def result_simps)

lemma loss_pct_nonneg: "0 \<le> amount \<Longrightarrow> 0 < base \<Longrightarrow> 0 \<le> loss_pct amount base"
  unfolding loss_pct_def by (intro ctx28.rd_nonneg mult_nonneg_nonneg) simp_all

lemma loss_pct_mono: "a \<le> b \<Longrightarrow> 0 < base \<Longrightarrow> loss_pct a base \<le> loss_pct b base"
  unfolding loss_pct_def by (intro ctx28.rd_mono mult_right_mono divide_right_mono) simp_all

lemma loss_pct_0 [simp]: "loss_pct 0 base = 0"
  by (simp add: loss_pct_def ctx28.rd_0)

text \<open>The quantities of an assessment as functions of the equity.\<close>

definition drawdown_of :: "decimal \<Rightarrow> decimal \<Rightarrow> decimal" where
  "drawdown_of peak equity = loss_pct (max 0 (rd28 (max peak equity - equity))) (max peak equity)"

definition daily_loss_of :: "decimal \<Rightarrow> decimal \<Rightarrow> decimal" where
  "daily_loss_of start equity = loss_pct (max 0 (rd28 (start - equity))) start"

lemma drawdown_of_nonneg: "0 < peak \<Longrightarrow> 0 \<le> drawdown_of peak equity"
  unfolding drawdown_of_def by (rule loss_pct_nonneg) (auto simp: max_def)

lemma daily_loss_of_nonneg: "0 < start \<Longrightarrow> 0 \<le> daily_loss_of start equity"
  unfolding daily_loss_of_def by (rule loss_pct_nonneg) auto

lemma drawdown_of_antitone:
  assumes "0 < peak" and "e \<le> e'"
  shows "drawdown_of peak e' \<le> drawdown_of peak e"
proof (cases "peak \<le> e'")
  case True
  then show ?thesis
    using drawdown_of_nonneg [OF assms(1), of e] by (simp add: drawdown_of_def ctx28.rd_0 max_absorb2)
next
  case False
  have "rd28 (peak - e') \<le> rd28 (peak - e)"
    using assms(2) by (intro ctx28.rd_mono) simp
  then have "loss_pct (max 0 (rd28 (peak - e'))) peak \<le> loss_pct (max 0 (rd28 (peak - e))) peak"
    using assms(1) by (intro loss_pct_mono) auto
  with False assms(2) show ?thesis
    by (simp add: drawdown_of_def max_absorb1)
qed

lemma daily_loss_of_antitone:
  assumes "0 < start" and "e \<le> e'"
  shows "daily_loss_of start e' \<le> daily_loss_of start e"
proof -
  have "rd28 (start - e') \<le> rd28 (start - e)"
    using assms(2) by (intro ctx28.rd_mono) simp
  then show ?thesis
    unfolding daily_loss_of_def using assms(1) by (intro loss_pct_mono) auto
qed

lemma drawdown_state_mono: "dd \<le> dd' \<Longrightarrow> ok_risk_constitution_settings cfg \<Longrightarrow>
    drawdown_state cfg dd \<le> drawdown_state cfg dd'"
  by (auto simp: drawdown_state_def less_eq_risk_state_def ok_risk_constitution_settings_def
      validate_risk_constitution_settings_def)

lemma account_state_HALTED_iff:
  "account_state cfg equity dd daily = risk_state.HALTED \<longleftrightarrow>
     equity \<le> 0 \<or> rcs_maximum_daily_loss_percent cfg \<le> daily \<or> rcs_drawdown_stop_percent cfg \<le> dd"
  by (auto simp: account_state_def drawdown_state_def Let_def)

lemma drawdown_state_HALTED_iff [simp]:
  "drawdown_state cfg dd = risk_state.HALTED \<longleftrightarrow> rcs_drawdown_stop_percent cfg \<le> dd"
  by (simp add: drawdown_state_def)

lemma account_state_eq:
  "account_state cfg equity dd daily =
     (if equity \<le> 0 \<or> rcs_maximum_daily_loss_percent cfg \<le> daily \<or> rcs_drawdown_stop_percent cfg \<le> dd
      then risk_state.HALTED else drawdown_state cfg dd)"
  by (simp add: account_state_def Let_def)

lemma le_HALTED [simp]: "st \<le> risk_state.HALTED"
  by (cases st) (simp_all add: less_eq_risk_state_def)

lemma account_state_mono:
  assumes "ok_risk_constitution_settings cfg" and "e' \<le> e" and "dd \<le> dd'" and "daily \<le> daily'"
  shows "account_state cfg e dd daily \<le> account_state cfg e' dd' daily'"
  unfolding account_state_eq using drawdown_state_mono [OF assms(3,1)] assms(2-4) by auto

lemma permitted_risk_antitone:
  assumes "ok_risk_constitution_settings cfg" and "st \<le> st'"
  shows "permitted_risk cfg st' \<le> permitted_risk cfg st"
  using assms
  by (cases st; cases st')
    (auto simp: permitted_risk_def less_eq_risk_state_def ok_risk_constitution_settings_def
      validate_risk_constitution_settings_def fields_risk_constitution_settings_def scalar_defs)

lemma permitted_risk_bounds:
  "ok_risk_constitution_settings cfg \<Longrightarrow>
     0 \<le> permitted_risk cfg st \<and> permitted_risk cfg st \<le> rcs_maximum_risk_percent cfg \<and>
     permitted_risk cfg st \<le> 1"
  by (auto simp: permitted_risk_def ok_risk_constitution_settings_def
      validate_risk_constitution_settings_def fields_risk_constitution_settings_def scalar_defs)

text \<open>An assessment with a valid context and constitution succeeds, with this value.\<close>

definition assessed_metrics ::
  "risk_constitution_settings \<Rightarrow> market_snapshot \<Rightarrow> account_risk_context \<Rightarrow> account_risk_metrics" where
  "assessed_metrics cfg s c =
     (let e = mai_equity (ms_account s);
          peak = max (arc_cash_flow_adjusted_peak_equity c) e;
          dd = drawdown_of (arc_cash_flow_adjusted_peak_equity c) e;
          daily = daily_loss_of (arc_adjusted_day_start_equity c) e
      in \<lparr>arm_account_ref = arc_account_ref c, arm_current_equity = e,
          arm_effective_peak_equity = peak, arm_drawdown_amount = max 0 (rd28 (peak - e)),
          arm_drawdown_percent = dd,
          arm_daily_loss_amount = max 0 (rd28 (arc_adjusted_day_start_equity c - e)),
          arm_daily_loss_percent = daily,
          arm_account_open_position_count = arc_account_open_position_count c,
          arm_permitted_risk_percent = permitted_risk cfg (account_state cfg e dd daily)\<rparr>)"

definition assessed_state ::
  "risk_constitution_settings \<Rightarrow> market_snapshot \<Rightarrow> account_risk_context \<Rightarrow> risk_state" where
  "assessed_state cfg s c = account_state cfg (mai_equity (ms_account s))
     (drawdown_of (arc_cash_flow_adjusted_peak_equity c) (mai_equity (ms_account s)))
     (daily_loss_of (arc_adjusted_day_start_equity c) (mai_equity (ms_account s)))"

lemma account_evaluate_eq:
  assumes "ok_risk_constitution_settings cfg" and "fields_account_risk_context c"
  shows "account_evaluate sha cfg s c (Aware t) = Inr
     \<lparr>ara_state = assessed_state cfg s c, ara_metrics = assessed_metrics cfg s c,
      ara_reasons = account_context_reasons sha cfg s c t @
        account_limit_reasons cfg (mai_equity (ms_account s))
          (drawdown_of (arc_cash_flow_adjusted_peak_equity c) (mai_equity (ms_account s)))
          (daily_loss_of (arc_adjusted_day_start_equity c) (mai_equity (ms_account s)))\<rparr>"
proof -
  let ?e = "mai_equity (ms_account s)" and ?p = "arc_cash_flow_adjusted_peak_equity c"
    and ?d = "arc_adjusted_day_start_equity c"
  from assms(2) have pos: "0 < ?p" "0 < ?d"
    and rest: "is_account_reference (arc_account_ref c)" "0 \<le> arc_account_open_position_count c"
    by (simp_all add: fields_account_risk_context_def scalar_defs)
  from pos have peak: "0 < max ?p ?e" by simp
  have "fields_account_risk_metrics (assessed_metrics cfg s c)"
    using rest peak drawdown_of_nonneg [OF pos(1), of ?e] daily_loss_of_nonneg [OF pos(2), of ?e]
      permitted_risk_bounds [OF assms(1)]
    by (simp add: fields_account_risk_metrics_def assessed_metrics_def scalar_defs Let_def)
  then show ?thesis
    using pos peak
    by (simp add: account_evaluate_def is_naive_def loss_percent_eq assessed_metrics_def
        assessed_state_def drawdown_of_def daily_loss_of_def Let_def result_simps)
qed

text \<open>
  C3: when the equity of the account falls and everything else stays the same, the
  assessment still succeeds, its risk state is at least as severe, and the risk it permits is not
  larger.
\<close>

theorem account_risk_monotone:
  assumes "ok_risk_constitution_settings cfg" and "fields_account_risk_context c"
    and "e \<le> mai_equity (ms_account s)"
  shows "\<exists>lo hi.
    account_evaluate sha cfg (s\<lparr>ms_account := (ms_account s)\<lparr>mai_equity := e\<rparr>\<rparr>) c (Aware t) = Inr lo \<and>
    account_evaluate sha cfg s c (Aware t) = Inr hi \<and>
    ara_state hi \<le> ara_state lo \<and>
    arm_permitted_risk_percent (ara_metrics lo) \<le> arm_permitted_risk_percent (ara_metrics hi)"
proof -
  let ?lo = "s\<lparr>ms_account := (ms_account s)\<lparr>mai_equity := e\<rparr>\<rparr>"
  from assms(2) have pos: "0 < arc_cash_flow_adjusted_peak_equity c" "0 < arc_adjusted_day_start_equity c"
    by (simp_all add: fields_account_risk_context_def scalar_defs)
  have st: "assessed_state cfg s c \<le> assessed_state cfg ?lo c"
    unfolding assessed_state_def using assms(3)
    by (intro account_state_mono [OF assms(1)] drawdown_of_antitone daily_loss_of_antitone pos) simp_all
  then show ?thesis
    using permitted_risk_antitone [OF assms(1) st]
    by (simp add: account_evaluate_eq [OF assms(1,2)] assessed_metrics_def assessed_state_def Let_def)
qed

lemma account_risk_monotone_witness:
  "\<exists>lo hi.
    account_evaluate sample_sha default_risk_constitution
      (sample_snapshot\<lparr>ms_account := (ms_account sample_snapshot)\<lparr>mai_equity := 930\<rparr>\<rparr>) sample_context (Aware t0) = Inr lo \<and>
    account_evaluate sample_sha default_risk_constitution sample_snapshot sample_context (Aware t0) = Inr hi \<and>
    ara_state hi \<le> ara_state lo \<and>
    arm_permitted_risk_percent (ara_metrics lo) \<le> arm_permitted_risk_percent (ara_metrics hi)"
  using default_risk_constitution_ok sample_context_ok
  by (intro account_risk_monotone) (simp_all add: ok_account_risk_context_def sample_snapshot_def sample_account_def)

lemma halted_limit_reasons:
  "account_state cfg e dd daily = risk_state.HALTED \<Longrightarrow> account_limit_reasons cfg e dd daily \<noteq> []"
  by (auto simp: account_limit_reasons_def account_state_HALTED_iff)

lemma halted_has_reasons:
  assumes "ok_risk_constitution_settings cfg" and "fields_account_risk_context c"
    and "account_evaluate sha cfg s c (Aware t) = Inr a" and "ara_state a = risk_state.HALTED"
  shows "ara_reasons a \<noteq> []"
  using assms(3,4) halted_limit_reasons unfolding account_evaluate_eq [OF assms(1,2)]
  by (auto simp: assessed_state_def)

text \<open>
  C4: with a valid context, the assessment is HALTED exactly when the equity is not
  positive, the daily loss reached its limit or the drawdown reached the stop, and then it carries
  at least one reason and permits no risk at all.
\<close>

theorem account_halts_exactly:
  assumes "ok_risk_constitution_settings cfg" and "fields_account_risk_context c"
    and "account_evaluate sha cfg s c (Aware t) = Inr a"
  shows "(ara_state a = risk_state.HALTED \<longleftrightarrow>
      arm_current_equity (ara_metrics a) \<le> 0 \<or>
      rcs_maximum_daily_loss_percent cfg \<le> arm_daily_loss_percent (ara_metrics a) \<or>
      rcs_drawdown_stop_percent cfg \<le> arm_drawdown_percent (ara_metrics a)) \<and>
    (ara_state a = risk_state.HALTED \<longrightarrow>
      ara_reasons a \<noteq> [] \<and> arm_permitted_risk_percent (ara_metrics a) = 0) \<and>
    (ara_state a \<noteq> risk_state.HALTED \<longrightarrow>
      ara_state a = drawdown_state cfg (arm_drawdown_percent (ara_metrics a)))"
proof -
  from assms(3) have a: "ara_state a = assessed_state cfg s c" "ara_metrics a = assessed_metrics cfg s c"
    "ara_reasons a = account_context_reasons sha cfg s c t @
        account_limit_reasons cfg (mai_equity (ms_account s))
          (drawdown_of (arc_cash_flow_adjusted_peak_equity c) (mai_equity (ms_account s)))
          (daily_loss_of (arc_adjusted_day_start_equity c) (mai_equity (ms_account s)))"
    unfolding account_evaluate_eq [OF assms(1,2)] by auto
  show ?thesis
    unfolding a using halted_limit_reasons
    by (auto simp: assessed_state_def assessed_metrics_def account_state_HALTED_iff permitted_risk_def
        account_state_eq [of cfg] Let_def split: if_splits)
qed

lemma account_halts_exactly_witness:
  "arm_daily_loss_percent sample_metrics < rcs_maximum_daily_loss_percent default_risk_constitution \<and>
   arm_drawdown_percent sample_metrics < rcs_drawdown_stop_percent default_risk_constitution"
  using account_halts_exactly [OF default_risk_constitution_ok _ sample_account_assessed] sample_context_ok
  by (auto simp: ok_account_risk_context_def)

section \<open>Proposal checks\<close>

text \<open>A price is on the grid when it is an integer multiple of the tick size.\<close>

definition on_grid :: "decimal \<Rightarrow> decimal \<Rightarrow> bool" where
  "on_grid step x \<longleftrightarrow> (\<exists>n::int. x = of_int n * step)"

lemma mod28_zero: "mod28 x y = Inr m \<Longrightarrow> m = 0 \<longleftrightarrow> on_grid y x"
  unfolding on_grid_def using dec_mod_zero_iff [of 28 x y m] by (simp add: mod28_def lift_dec_Inr)

lemma mod28_defined: "0 < y \<Longrightarrow> 0 \<le> x \<Longrightarrow> x < 10 ^ 28 * y \<Longrightarrow> \<exists>m. mod28 x y = Inr m"
proof -
  assume a: "0 < y" "0 \<le> x" "x < 10 ^ 28 * y"
  then have "x / y < 10 ^ 28" "0 \<le> x / y" by (simp_all add: divide_less_eq)
  then have "\<bar>trunc_rat (x / y)\<bar> < 10 ^ 28"
    by (simp add: trunc_rat_def floor_less_iff)
  with a(1) show ?thesis
    using dec_mod_ok [of y x 28] by (simp add: mod28_def lift_dec_def)
qed

lemma any_misaligned_iff:
  "any_misaligned tick ps = Inr b \<Longrightarrow> b \<longleftrightarrow> (\<exists>p. Some p \<in> set ps \<and> 0 < p \<and> \<not> on_grid tick p)"
proof (induction tick ps arbitrary: b rule: any_misaligned.induct)
  case (3 tick p ps)
  show ?case
  proof (cases "0 < p")
    case True
    with 3(3) obtain m where m: "mod28 p tick = Inr m"
      and r: "(if m \<noteq> 0 then Inr True else any_misaligned tick ps) = Inr b"
      by (auto simp: result_simps)
    show ?thesis
    proof (cases "m = 0")
      case True
      with r mod28_zero [OF m] \<open>0 < p\<close> show ?thesis
        using 3(1) [of m b] m by auto
    next
      case False
      with r mod28_zero [OF m] \<open>0 < p\<close> show ?thesis by auto
    qed
  next
    case False
    with 3(3) show ?thesis using 3(2) [of b] by auto
  qed
qed auto

lemma any_misaligned_defined:
  assumes "0 < tick" and "\<And>p. Some p \<in> set ps \<Longrightarrow> p < 10 ^ 28 * tick"
  shows "\<exists>b. any_misaligned tick ps = Inr b"
  using assms
proof (induction tick ps rule: any_misaligned.induct)
  case (3 tick p ps)
  have rest: "\<exists>b. any_misaligned tick ps = Inr b" if "\<not> 0 < p \<or> (\<exists>m. mod28 p tick = Inr m \<and> m = 0)"
    using 3 that by auto
  show ?case
  proof (cases "0 < p")
    case True
    with mod28_defined [of tick p] 3(3,4) obtain m where "mod28 p tick = Inr m" by fastforce
    with True rest show ?thesis by (cases "m = 0") (auto simp: result_simps)
  qed (use rest in simp)
qed auto

text \<open>The conditions under which a proposal's prices are acceptable.\<close>

definition sound_geometry ::
  "risk_constitution_settings \<Rightarrow> mt5_symbol_info \<Rightarrow> trade_side \<Rightarrow> decimal \<Rightarrow> decimal \<Rightarrow> decimal \<Rightarrow> bool" where
  "sound_geometry cfg info side e l t \<longleftrightarrow>
     0 < e \<and> 0 < l \<and> 0 < t \<and>
     (if side = trade_side.BUY then l < e \<and> e < t else t < e \<and> e < l) \<and>
     rcs_minimum_risk_reward cfg \<le> rd28 (\<bar>rd28 (t - e)\<bar> / \<bar>rd28 (e - l)\<bar>) \<and>
     rd28 (of_int (msi_trade_stops_level info) * msi_point info) \<le> \<bar>rd28 (e - l)\<bar> \<and>
     rd28 (of_int (msi_trade_stops_level info) * msi_point info) \<le> \<bar>rd28 (t - e)\<bar> \<and>
     on_grid (msi_trade_tick_size info) e \<and> on_grid (msi_trade_tick_size info) l \<and>
     on_grid (msi_trade_tick_size info) t"

definition may_open :: "trade_proposal \<Rightarrow> market_snapshot \<Rightarrow> bool" where
  "may_open p s \<longleftrightarrow>
     (case msi_trading_mode (ms_symbol_info s) of
        symbol_trade_mode.FULL \<Rightarrow> True
      | symbol_trade_mode.LONG_ONLY \<Rightarrow> tp_side p = trade_side.BUY
      | symbol_trade_mode.SHORT_ONLY \<Rightarrow> tp_side p = trade_side.SELL
      | _ \<Rightarrow> False) \<and>
     mai_trade_allowed (ms_account s) \<and> mai_expert_trading_allowed (ms_account s)"

definition acceptable_proposal :: "risk_constitution_settings \<Rightarrow> trade_proposal \<Rightarrow> market_snapshot \<Rightarrow> bool" where
  "acceptable_proposal cfg p s \<longleftrightarrow>
     tp_cycle_id p = ms_cycle_id s \<and> tp_snapshot_id p = ms_snapshot_id s \<and> tp_symbol p = ms_symbol s \<and>
     0 < msi_trade_tick_size (ms_symbol_info s) \<and> 0 < msi_point (ms_symbol_info s) \<and>
     (case (tp_entry p, tp_stop_loss p, tp_take_profit p) of
        (Some e, Some l, Some t) \<Rightarrow> sound_geometry cfg (ms_symbol_info s) (tp_side p) e l t
      | _ \<Rightarrow> False) \<and>
     may_open p s"

lemma capability_reasons_empty: "proposal_capability_reasons p s = [] \<longleftrightarrow> may_open p s"
  unfolding proposal_capability_reasons_def may_open_def Let_def
  by (cases "tp_side p"; cases "msi_trading_mode (ms_symbol_info s)") auto

text \<open>The geometry check never fails, and what it reports.\<close>

lemma proposal_geometry_result:
  obtains g where "proposal_geometry cfg side e l t = Inr g"
    "pvr_reasons g = [] \<longleftrightarrow> (if side = trade_side.BUY then l < e \<and> e < t else t < e \<and> e < l) \<and>
       rcs_minimum_risk_reward cfg \<le> rd28 (\<bar>rd28 (t - e)\<bar> / \<bar>rd28 (e - l)\<bar>)"
    "pvr_reasons g = [] \<longrightarrow> pvr_stop_distance g = Some \<bar>rd28 (e - l)\<bar> \<and>
       pvr_reward_distance g = Some \<bar>rd28 (t - e)\<bar>"
    "\<forall>d. pvr_stop_distance g = Some d \<longrightarrow> 0 < d"
    "\<forall>x \<in> set (pvr_reasons g). fields_risk_reason x"
proof (cases "(if side = trade_side.BUY then l < e \<and> e < t else t < e \<and> e < l)")
  case True
  then have nz: "rd28 (e - l) \<noteq> 0" by (auto simp: ctx28.rd_eq_0 split: if_splits)
  with True show thesis
    by (intro that [of "\<lparr>pvr_reasons = (if rd28 (\<bar>rd28 (t - e)\<bar> / \<bar>rd28 (e - l)\<bar>) < rcs_minimum_risk_reward cfg
            then [risk_reason_of risk_reason_code.RISK_REWARD_BELOW_MINIMUM
                        ''proposal risk/reward is below the configured minimum''] else []),
          pvr_stop_distance = Some \<bar>rd28 (e - l)\<bar>, pvr_reward_distance = Some \<bar>rd28 (t - e)\<bar>,
          pvr_risk_reward = Some (rd28 (\<bar>rd28 (t - e)\<bar> / \<bar>rd28 (e - l)\<bar>))\<rparr>"])
      (auto simp: proposal_geometry_def Let_def result_simps fields_risk_reason_def risk_reason_of_def
        split: if_splits)
next
  case False
  have pos: "0 < \<bar>rd28 (e - l)\<bar>" if "if side = trade_side.BUY then l < e else l > e"
    using that by (auto simp: ctx28.rd_eq_0 split: if_splits)
  from False show thesis
    by (intro that [of "\<lparr>pvr_reasons = collect [
            (\<not> (if side = trade_side.BUY then l < e else l > e),
              risk_reason_of risk_reason_code.INVALID_STOP_GEOMETRY
               ''stop loss is on the wrong side of entry''),
            (\<not> (if side = trade_side.BUY then t > e else t < e),
              risk_reason_of risk_reason_code.INVALID_TAKE_PROFIT_GEOMETRY
               ''take profit is on the wrong side of entry'')],
          pvr_stop_distance = (if (if side = trade_side.BUY then l < e else l > e) then Some \<bar>rd28 (e - l)\<bar> else None),
          pvr_reward_distance = (if (if side = trade_side.BUY then t > e else t < e) then Some \<bar>rd28 (t - e)\<bar> else None),
          pvr_risk_reward = None\<rparr>"])
      (use pos in \<open>auto simp: proposal_geometry_def Let_def fields_risk_reason_def risk_reason_of_def
        split: if_splits\<close>)
qed

lemma grid_reasons_empty:
  assumes "proposal_grid_reasons info ps stop reward = Inr rs"
  shows "rs = [] \<longleftrightarrow> 0 < msi_trade_tick_size info \<and> 0 < msi_point info \<and>
     (\<forall>p. Some p \<in> set ps \<and> 0 < p \<longrightarrow> on_grid (msi_trade_tick_size info) p) \<and>
     (\<forall>d. stop = Some d \<or> reward = Some d \<longrightarrow>
        rd28 (of_int (msi_trade_stops_level info) * msi_point info) \<le> d)"
proof (cases "msi_trade_tick_size info \<le> 0 \<or> msi_point info \<le> 0")
  case True
  then show ?thesis using assms by (auto simp: proposal_grid_reasons_def)
next
  case False
  with assms obtain b where b: "any_misaligned (msi_trade_tick_size info) ps = Inr b"
    and rs: "rs = [] \<longleftrightarrow> \<not> b \<and> (\<forall>d. stop = Some d \<or> reward = Some d \<longrightarrow>
        rd28 (of_int (msi_trade_stops_level info) * msi_point info) \<le> d)"
    by (auto simp: proposal_grid_reasons_def result_simps Let_def not_less split: option.splits if_splits)
  with any_misaligned_iff [OF b] False show ?thesis by auto
qed

lemma grid_reasons_fields:
  "proposal_grid_reasons info ps stop reward = Inr rs \<Longrightarrow> \<forall>x \<in> set rs. fields_risk_reason x"
  by (auto simp: proposal_grid_reasons_def result_simps Let_def fields_risk_reason_def risk_reason_of_def
      split: if_splits)

lemma price_reasons_empty [simp]:
  "price_reasons p a b = [] \<longleftrightarrow> (\<exists>x. p = Some x \<and> 0 < x)"
  by (auto simp: price_reasons_def not_le split: option.splits)

lemma head_reasons_empty:
  "proposal_head_reasons p s = [] \<longleftrightarrow>
     tp_cycle_id p = ms_cycle_id s \<and> tp_snapshot_id p = ms_snapshot_id s \<and> tp_symbol p = ms_symbol s \<and>
     (\<exists>e l t. tp_entry p = Some e \<and> tp_stop_loss p = Some l \<and> tp_take_profit p = Some t \<and>
        0 < e \<and> 0 < l \<and> 0 < t)"
  by (auto simp: proposal_head_reasons_def)

lemma proposal_validateE:
  assumes "proposal_validate cfg p s = Inr r"
  obtains g grid where "proposal_distances cfg p = Inr g"
    "proposal_grid_reasons (ms_symbol_info s) [tp_entry p, tp_stop_loss p, tp_take_profit p]
       (pvr_stop_distance g) (pvr_reward_distance g) = Inr grid"
    "r = g\<lparr>pvr_reasons := proposal_head_reasons p s @ pvr_reasons g @ grid @
          proposal_capability_reasons p s\<rparr>"
  using assms by (auto simp: proposal_validate_def result_simps)

lemma accepted_proposal_iff:
  assumes "proposal_validate cfg p s = Inr r"
  shows "pvr_valid r \<longleftrightarrow> acceptable_proposal cfg p s"
proof -
  from assms obtain g grid where d: "proposal_distances cfg p = Inr g"
    and grid: "proposal_grid_reasons (ms_symbol_info s) [tp_entry p, tp_stop_loss p, tp_take_profit p]
       (pvr_stop_distance g) (pvr_reward_distance g) = Inr grid"
    and r: "r = g\<lparr>pvr_reasons := proposal_head_reasons p s @ pvr_reasons g @ grid @
          proposal_capability_reasons p s\<rparr>"
    by (rule proposal_validateE)
  show ?thesis
  proof (cases "proposal_head_reasons p s = []")
    case False
    then show ?thesis unfolding r pvr_valid_def
      by (auto simp: head_reasons_empty acceptable_proposal_def sound_geometry_def split: option.splits)
  next
    case True
    then obtain e l t where p: "tp_entry p = Some e" "tp_stop_loss p = Some l" "tp_take_profit p = Some t"
      and pos: "0 < e" "0 < l" "0 < t" by (auto simp: head_reasons_empty)
    obtain h where h: "proposal_geometry cfg (tp_side p) e l t = Inr h"
      "pvr_reasons h = [] \<longleftrightarrow> (if tp_side p = trade_side.BUY then l < e \<and> e < t else t < e \<and> e < l) \<and>
         rcs_minimum_risk_reward cfg \<le> rd28 (\<bar>rd28 (t - e)\<bar> / \<bar>rd28 (e - l)\<bar>)"
      "pvr_reasons h = [] \<longrightarrow> pvr_stop_distance h = Some \<bar>rd28 (e - l)\<bar> \<and>
         pvr_reward_distance h = Some \<bar>rd28 (t - e)\<bar>"
      by (rule proposal_geometry_result)
    with d p pos have "g = h" by (simp add: proposal_distances_def)
    with True h(2,3) pos p show ?thesis
      unfolding r pvr_valid_def acceptable_proposal_def
      by (auto simp: sound_geometry_def head_reasons_empty capability_reasons_empty
          grid_reasons_empty [OF grid])
  qed
qed

text \<open>
  C5: the proposal checks give no reason exactly for the proposals of the snapshot's
  trace and symbol whose entry, stop and target are present, positive, on the tick grid, on the
  right sides, with the minimum risk/reward and broker distance, for a symbol and account that may
  open that side.
\<close>

theorem proposal_accepted_iff:
  assumes "proposal_validate cfg p s = Inr r"
  shows "pvr_valid r \<longleftrightarrow> acceptable_proposal cfg p s"
  by (rule accepted_proposal_iff [OF assms])

lemma proposal_accepted_iff_witness:
  "acceptable_proposal default_risk_constitution sample_proposal sample_snapshot"
  using proposal_accepted_iff [OF sample_proposal_checked] by (simp add: pvr_valid_def)

section \<open>Position sizing\<close>

definition sizing_metadata_ok :: "decimal \<Rightarrow> decimal \<Rightarrow> decimal \<Rightarrow> mt5_symbol_info \<Rightarrow> bool" where
  "sizing_metadata_ok e rp d info \<longleftrightarrow>
     0 < e \<and> 0 < rp \<and> 0 < d \<and> 0 < msi_trade_tick_size info \<and> 0 < msi_trade_tick_value info \<and>
     0 < msi_trade_contract_size info \<and> 0 < msi_volume_min info \<and>
     msi_volume_min info \<le> msi_volume_max info \<and> 0 < msi_volume_step info"

text \<open>With positive inputs, the base of a result is computed without a signal and is a valid rejection.\<close>

lemma sizing_base_ok:
  assumes "sizing_metadata_ok e rp d info" and "rp \<le> 1"
  obtains b where "sizing_base e rp d info = Inr b" "build_position_sizing_result b = Inr b"
    "psr_status b = position_sizing_status.REJECTED"
    "psr_allowed_risk_amount b = rd28 (rd28 (e * rp) / 100)"
    "psr_volume_min b = msi_volume_min info" "psr_volume_max b = msi_volume_max info"
    "psr_volume_step b = msi_volume_step info" "psr_stop_distance b = d"
    "0 < psr_monetary_loss_per_lot b"
    "psr_monetary_loss_per_lot b = rd28 (rd28 (d / msi_trade_tick_size info) * msi_trade_tick_value info)"
    "psr_risk_percent b = rp"
proof -
  let ?allowed = "rd28 (rd28 (e * rp) / 100)" and ?ticks = "rd28 (d / msi_trade_tick_size info)"
  let ?loss = "rd28 (?ticks * msi_trade_tick_value info)"
  have pos: "0 < ?allowed" "0 < ?ticks" "0 < ?loss" "0 < rd28 (?allowed / ?loss)"
    "0 < rd28 (?loss * msi_volume_min info)" "0 < msi_volume_max info"
    using assms by (auto simp: sizing_metadata_ok_def ctx28.rd_gt_0 zero_less_mult_iff)
  from assms pos obtain b where b: "sizing_base e rp d info = Inr b"
    and bdef: "b = \<lparr>psr_status = position_sizing_status.REJECTED, psr_risk_percent = rp,
                 psr_allowed_risk_amount = ?allowed, psr_stop_distance = d,
                 psr_tick_size = msi_trade_tick_size info, psr_tick_value = msi_trade_tick_value info,
                 psr_trade_contract_size = msi_trade_contract_size info, psr_ticks_to_stop = ?ticks,
                 psr_monetary_loss_per_lot = ?loss, psr_raw_volume = rd28 (?allowed / ?loss),
                 psr_volume_min = msi_volume_min info, psr_volume_max = msi_volume_max info,
                 psr_volume_step = msi_volume_step info,
                 psr_minimum_volume_risk_amount = rd28 (?loss * msi_volume_min info),
                 psr_selected_volume = None, psr_estimated_risk_amount = None\<rparr>"
    by (simp add: sizing_base_def sizing_metadata_ok_def Let_def result_simps)
  have f: "fields_position_sizing_result b"
    using assms pos by (simp add: bdef fields_position_sizing_result_def scalar_defs sizing_metadata_ok_def)
  have v: "validate_position_sizing_result b = Inr ()"
    using assms by (simp add: bdef validate_position_sizing_result_def sizing_metadata_ok_def result_simps guard_simps)
  show thesis
    by (rule that [OF b]) (use f v pos in \<open>simp_all add: bdef build_position_sizing_result_def result_simps\<close>)
qed

lemma position_size_unfold:
  "position_size e rp d info =
     (if \<not> sizing_metadata_ok e rp d info
      then Inr \<lparr>pso_result = None,
             pso_reasons = [risk_reason_of risk_reason_code.INVALID_BROKER_RISK_METADATA
               ''position sizing inputs and broker metadata must be positive and coherent'']\<rparr>
      else bind_result (sizing_base e rp d info) (\<lambda>b.
        if psr_minimum_volume_risk_amount b > psr_allowed_risk_amount b
        then rejected_sizing b (risk_reason_of risk_reason_code.MINIMUM_VOLUME_EXCEEDS_RISK
               ''broker minimum volume would exceed allowed monetary risk'')
        else bind_result (selected_volume_of b) (\<lambda>v.
          case build_position_sizing_result
                 (b\<lparr>psr_status := position_sizing_status.APPROVED, psr_selected_volume := Some v,
                    psr_estimated_risk_amount := Some (rd28 (psr_monetary_loss_per_lot b * v))\<rparr>) of
            Inr r \<Rightarrow> Inr \<lparr>pso_result = Some r, pso_reasons = []\<rparr>
          | Inl (ValidationError cls) \<Rightarrow>
              rejected_sizing b (risk_reason_of risk_reason_code.POSITION_SIZE_INVARIANT_FAILED
                ''final broker-volume invariants failed'')
          | Inl e \<Rightarrow> Inl e)))"
  unfolding position_size_def sizing_metadata_ok_def by (rule if_cong) (auto simp: not_less not_le)

lemma selected_volume_defined: "0 < psr_volume_step b \<Longrightarrow> \<exists>v. selected_volume_of b = Inr v"
  by (simp add: selected_volume_of_def Let_def result_simps)

text \<open>
  Validating a computed approval fails in one way only, the validation error; the remainder in the
  validator is defined when the volume range has fewer than \<open>10\<^sup>2\<^sup>8\<close> steps.
\<close>

definition fails_only_with :: "'e \<Rightarrow> 'e + 'a \<Rightarrow> bool" where
  "fails_only_with e m \<longleftrightarrow> (\<forall>x. m = Inl x \<longrightarrow> x = e)"

lemma fails_only_guards: "(\<forall>g \<in> set gs. snd g = e) \<Longrightarrow> fails_only_with e (run_guards gs)"
  by (induction gs rule: run_guards.induct) (auto simp: fails_only_with_def)

lemma fails_only_bind:
  "fails_only_with e m \<Longrightarrow> (\<And>x. m = Inr x \<Longrightarrow> fails_only_with e (f x)) \<Longrightarrow>
     fails_only_with e (bind_result m f)"
  by (cases m) (auto simp: fails_only_with_def)

lemma fails_only_simps [simp]:
  "fails_only_with e (Inr x)"
  "fails_only_with e (Inl e') \<longleftrightarrow> e' = e"
  by (auto simp: fails_only_with_def)

lemma approved_build_cases:
  assumes f: "0 < psr_volume_step r" and range: "rd28 (psr_volume_max r) < 10 ^ 28 * psr_volume_step r"
    and min: "0 < psr_volume_min r"
  shows "build_position_sizing_result r = Inr r \<or> build_position_sizing_result r = Inl sizing_invalid"
proof -
  have "\<exists>m. dec_mod 28 (rd28 (v - psr_volume_min r)) (psr_volume_step r) = Inr m"
    if "psr_volume_min r \<le> v" "v \<le> psr_volume_max r" for v
  proof -
    have "0 \<le> rd28 (v - psr_volume_min r)" using that by (intro ctx28.rd_nonneg) simp
    moreover have "rd28 (v - psr_volume_min r) \<le> rd28 (psr_volume_max r)"
      using that min by (intro ctx28.rd_mono) linarith
    ultimately show ?thesis
      using mod28_defined [OF f, of "rd28 (v - psr_volume_min r)"] range
      by (auto simp: mod28_def lift_dec_def split: sum.splits)
  qed
  then have tail: "fails_only_with sizing_invalid
      (bind_result (lift_dec (dec_mod 28 (rd28 (v - psr_volume_min r)) (psr_volume_step r))) f)"
    if "psr_volume_min r \<le> v" "v \<le> psr_volume_max r" "\<And>m. fails_only_with sizing_invalid (f m)"
    for v and f :: "decimal \<Rightarrow> unit fallible"
    using that by (fastforce simp: lift_dec_def)
  have "fails_only_with sizing_invalid (validate_position_sizing_result r)"
    unfolding validate_position_sizing_result_def
  proof (rule fails_only_bind, goal_cases)
    case 1
    show ?case by (rule fails_only_guards) simp
  next
    case (2 x)
    show ?case
      by (auto split: option.split intro!: tail)
  qed
  then show ?thesis
    by (cases "validate_position_sizing_result r") (auto simp: build_position_sizing_result_def)
qed

lemma rejected_sizing_ok: "build_position_sizing_result b = Inr b \<Longrightarrow>
    rejected_sizing b reason = Inr \<lparr>pso_result = Some b, pso_reasons = [reason]\<rparr>"
  by (simp add: rejected_sizing_def)

text \<open>The four outcomes of sizing.\<close>

lemma position_size_cases:
  assumes "rp \<le> 1" and "position_size e rp d info = Inr out"
  obtains (metadata) "\<not> sizing_metadata_ok e rp d info" "pso_result out = None"
      "\<exists>x. pso_reasons out = [x] \<and> fields_risk_reason x"
    | (rejected) r where "pso_result out = Some r" "psr_status r = position_sizing_status.REJECTED"
      "\<exists>x. pso_reasons out = [x] \<and> fields_risk_reason x"
    | (approved) r where "sizing_metadata_ok e rp d info" "pso_result out = Some r" "pso_reasons out = []"
      "psr_status r = position_sizing_status.APPROVED" "validate_position_sizing_result r = Inr ()"
      "psr_allowed_risk_amount r = rd28 (rd28 (e * rp) / 100)" "psr_volume_min r = msi_volume_min info"
      "psr_volume_max r = msi_volume_max info" "psr_volume_step r = msi_volume_step info"
      "psr_stop_distance r = d" "psr_risk_percent r = rp"
proof (cases "sizing_metadata_ok e rp d info")
  case False
  with assms(2) show thesis
    by (intro metadata) (auto simp: position_size_unfold risk_reason_of_def fields_risk_reason_def)
next
  case True
  obtain b where b: "sizing_base e rp d info = Inr b" "build_position_sizing_result b = Inr b"
    "psr_status b = position_sizing_status.REJECTED"
    "psr_allowed_risk_amount b = rd28 (rd28 (e * rp) / 100)"
    "psr_volume_min b = msi_volume_min info" "psr_volume_max b = msi_volume_max info"
    "psr_volume_step b = msi_volume_step info" "psr_stop_distance b = d" "psr_risk_percent b = rp"
    by (rule sizing_base_ok [OF True assms(1)])
  let ?r = "\<lambda>v. b\<lparr>psr_status := position_sizing_status.APPROVED, psr_selected_volume := Some v,
                    psr_estimated_risk_amount := Some (rd28 (psr_monetary_loss_per_lot b * v))\<rparr>"
  consider reason where "out = \<lparr>pso_result = Some b, pso_reasons = [reason]\<rparr>" "fields_risk_reason reason"
    | v where "out = \<lparr>pso_result = Some (?r v), pso_reasons = []\<rparr>" "build_position_sizing_result (?r v) = Inr (?r v)"
  proof (cases "psr_minimum_volume_risk_amount b > psr_allowed_risk_amount b")
    case True
    with assms(2) \<open>sizing_metadata_ok e rp d info\<close> show thesis
      by (intro that(1)) (auto simp: position_size_unfold b(1) rejected_sizing_ok [OF b(2)]
          risk_reason_of_def fields_risk_reason_def)
  next
    case False
    with assms(2) True obtain v where v: "selected_volume_of b = Inr v"
      by (auto simp: position_size_unfold b(1) result_simps)
    let ?sized = "build_position_sizing_result (?r v)"
    from False True v assms(2) have out: "(case ?sized of
            Inr r \<Rightarrow> Inr \<lparr>pso_result = Some r, pso_reasons = []\<rparr>
          | Inl (ValidationError cls) \<Rightarrow>
              rejected_sizing b (risk_reason_of risk_reason_code.POSITION_SIZE_INVARIANT_FAILED
                ''final broker-volume invariants failed'')
          | Inl e \<Rightarrow> Inl e) = Inr out"
      by (simp add: position_size_unfold b(1))
    show thesis
    proof (cases ?sized)
      case (Inl x)
      with out show thesis
        by (intro that(1)) (auto simp: rejected_sizing_ok [OF b(2)] risk_reason_of_def fields_risk_reason_def
            split: py_exception.splits)
    next
      case (Inr r)
      with sizing_result_ok [OF this] out show thesis by (intro that(2) [of v]) auto
    qed
  qed
  then show thesis
  proof cases
    case 1
    with b show thesis by (intro rejected [of b]) auto
  next
    case 2
    with sizing_result_ok [OF 2(2)] b True show thesis by (intro approved [of "?r v"]) simp_all
  qed
qed

lemma position_size_defined:
  assumes "rp \<le> 1" and "rd28 (msi_volume_max info) < 10 ^ 28 * msi_volume_step info"
  shows "\<exists>out. position_size e rp d info = Inr out"
proof (cases "sizing_metadata_ok e rp d info")
  case False
  then show ?thesis by (simp add: position_size_unfold)
next
  case True
  obtain b where b: "sizing_base e rp d info = Inr b" "build_position_sizing_result b = Inr b"
    "psr_volume_min b = msi_volume_min info" "psr_volume_max b = msi_volume_max info"
    "psr_volume_step b = msi_volume_step info"
    by (rule sizing_base_ok [OF True assms(1)])
  from True b(5) obtain v where v: "selected_volume_of b = Inr v"
    using selected_volume_defined [of b] by (auto simp: sizing_metadata_ok_def)
  have "build_position_sizing_result r = Inr r \<or> build_position_sizing_result r = Inl sizing_invalid"
    if "psr_volume_min r = psr_volume_min b" "psr_volume_max r = psr_volume_max b"
      "psr_volume_step r = psr_volume_step b" for r
    using True assms(2) that b by (intro approved_build_cases) (simp_all add: sizing_metadata_ok_def)
  from this [of "b\<lparr>psr_status := position_sizing_status.APPROVED, psr_selected_volume := Some v,
                    psr_estimated_risk_amount := Some (rd28 (psr_monetary_loss_per_lot b * v))\<rparr>"]
  show ?thesis
    using True by (auto simp: position_size_unfold b(1) v rejected_sizing_ok [OF b(2)])
qed

lemma approved_sizing_facts:
  assumes "rp \<le> 1" and "position_size e rp d info = Inr out" and "pso_reasons out = []"
  shows "\<exists>r v est. pso_result out = Some r \<and> psr_status r = position_sizing_status.APPROVED \<and>
    psr_selected_volume r = Some v \<and> psr_estimated_risk_amount r = Some est \<and>
    msi_volume_min info \<le> v \<and> v \<le> msi_volume_max info \<and>
    on_grid (msi_volume_step info) (rd28 (v - msi_volume_min info)) \<and>
    est = rd28 (psr_monetary_loss_per_lot r * v) \<and> est \<le> rd28 (rd28 (e * rp) / 100)"
  using assms(1,2)
proof (cases rule: position_size_cases)
  case (approved r)
  obtain v est where "psr_selected_volume r = Some v" "psr_estimated_risk_amount r = Some est"
    "psr_volume_min r \<le> v" "v \<le> psr_volume_max r"
    "est = rd28 (psr_monetary_loss_per_lot r * v)" "est \<le> psr_allowed_risk_amount r"
    "\<exists>n::int. rd28 (v - psr_volume_min r) = of_int n * psr_volume_step r"
    using approved_sizing_final_volume [OF approved(5,4)] by blast
  with approved show ?thesis by (auto simp: on_grid_def)
qed (use assms(3) in auto)

text \<open>
  C6: when sizing gives no reason, it selects a volume within the broker's bounds and
  on its step grid whose estimated monetary risk, computed from the loss per lot, is at most the
  allowed share of the equity.
\<close>

theorem sizing_never_over_risks:
  assumes "rp \<le> 1" and "position_size e rp d info = Inr out" and "pso_reasons out = []"
  shows "\<exists>r v est. pso_result out = Some r \<and> psr_status r = position_sizing_status.APPROVED \<and>
    psr_selected_volume r = Some v \<and> psr_estimated_risk_amount r = Some est \<and>
    msi_volume_min info \<le> v \<and> v \<le> msi_volume_max info \<and>
    on_grid (msi_volume_step info) (rd28 (v - msi_volume_min info)) \<and>
    est = rd28 (psr_monetary_loss_per_lot r * v) \<and> est \<le> rd28 (rd28 (e * rp) / 100)"
  by (rule approved_sizing_facts [OF assms])

lemma sizing_never_over_risks_witness:
  "\<exists>v est. psr_selected_volume sample_sizing = Some v \<and> psr_estimated_risk_amount sample_sizing = Some est \<and>
     est \<le> rd28 (rd28 (1000 * (1 / 2)) / 100) \<and>
     msi_volume_min sample_symbol_info \<le> v \<and> v \<le> msi_volume_max sample_symbol_info"
  using sizing_never_over_risks [OF _ sample_sized] by auto

section \<open>The engine\<close>

text \<open>
  Quotients of prices by the tick size, and of the volume range by its step, below \<open>10\<^sup>2\<^sup>8\<close>: outside
  this range Python's \<open>%\<close> raises \<open>decimal.InvalidOperation\<close>.
\<close>

definition decimals_in_range :: "trade_proposal \<Rightarrow> mt5_symbol_info \<Rightarrow> bool" where
  "decimals_in_range p info \<longleftrightarrow>
     list_all (pred_option (\<lambda>x. x < 10 ^ 28 * msi_trade_tick_size info))
       [tp_entry p, tp_stop_loss p, tp_take_profit p] \<and>
     rd28 (msi_volume_max info) < 10 ^ 28 * msi_volume_step info"

lemma proposal_distances_result:
  obtains g where "proposal_distances cfg p = Inr g" "\<forall>d. pvr_stop_distance g = Some d \<longrightarrow> 0 < d"
proof -
  have "\<exists>g. proposal_geometry cfg side e l t = Inr g \<and> (\<forall>d. pvr_stop_distance g = Some d \<longrightarrow> 0 < d)"
    for side e l t
    using proposal_geometry_result [of cfg side e l t] by metis
  then have "\<exists>g. proposal_distances cfg p = Inr g \<and> (\<forall>d. pvr_stop_distance g = Some d \<longrightarrow> 0 < d)"
    by (simp add: proposal_distances_def Let_def split: option.split)
  with that show thesis by blast
qed

lemma pred_option_SomeD: "pred_option P x \<Longrightarrow> Some y = x \<Longrightarrow> P y"
  by auto

lemma proposal_validate_defined:
  assumes "decimals_in_range p (ms_symbol_info s)"
  shows "\<exists>r. proposal_validate cfg p s = Inr r"
proof -
  obtain g where g: "proposal_distances cfg p = Inr g"
    by (rule proposal_distances_result)
  have "\<exists>grid. proposal_grid_reasons (ms_symbol_info s) [tp_entry p, tp_stop_loss p, tp_take_profit p]
       (pvr_stop_distance g) (pvr_reward_distance g) = Inr grid"
  proof (cases "msi_trade_tick_size (ms_symbol_info s) \<le> 0")
    case False
    then have "\<exists>b. any_misaligned (msi_trade_tick_size (ms_symbol_info s))
        [tp_entry p, tp_stop_loss p, tp_take_profit p] = Inr b"
      using assms by (intro any_misaligned_defined) (auto simp: decimals_in_range_def dest: pred_option_SomeD)
    then show ?thesis by (auto simp: proposal_grid_reasons_def Let_def)
  qed (simp add: proposal_grid_reasons_def)
  with g show ?thesis by (auto simp: proposal_validate_def)
qed

text \<open>The parts of an evaluation.\<close>

lemma risk_evaluateE:
  assumes "risk_evaluate sha cfg p s c (Aware t) = Inr d"
  obtains pv acc sz where "proposal_validate cfg p s = Inr pv"
    "account_evaluate sha cfg s c (Aware t) = Inr acc"
    "(if pvr_reasons pv = [] \<and> ara_reasons acc = [] \<and> ms_snapshot_completed_at s \<le> t \<and> tp_timestamp p \<le> t \<and>
         pvr_stop_distance pv \<noteq> None
      then position_size (arm_current_equity (ara_metrics acc))
             (arm_permitted_risk_percent (ara_metrics acc)) (the (pvr_stop_distance pv)) (ms_symbol_info s)
      else Inr \<lparr>pso_result = None, pso_reasons = []\<rparr>) = Inr sz"
    "rd_reasons d = pvr_reasons pv @ ara_reasons acc @
       (if t < ms_snapshot_completed_at s \<or> t < tp_timestamp p
        then [risk_reason_of risk_reason_code.EVALUATION_TIMESTAMP_INVALID
                ''evaluation timestamp predates an evaluated input''] else []) @ pso_reasons sz"
    "rd_status d = (if ara_state acc = risk_state.HALTED then risk_decision_status.HALTED
       else if rd_reasons d \<noteq> [] then risk_decision_status.REJECTED else risk_decision_status.APPROVED)"
    "rd_risk_state d = ara_state acc" "rd_account_metrics d = ara_metrics acc"
    "rd_position_sizing d = pso_result sz" "rd_cycle_id d = ms_cycle_id s"
    "rd_snapshot_id d = ms_snapshot_id s" "rd_proposal_id d = tp_proposal_id p"
    "rd_symbol d = ms_symbol s" "rd_timestamp d = t" "rd_account_ref d = arc_account_ref c"
    "ok_risk_decision d"
proof -
  from assms obtain pv where pv: "proposal_validate cfg p s = Inr pv"
    by (auto simp: risk_evaluate_def is_naive_def Let_def result_simps)
  from assms pv obtain acc where acc: "account_evaluate sha cfg s c (Aware t) = Inr acc"
    by (auto simp: risk_evaluate_def is_naive_def Let_def result_simps)
  let ?rs = "pvr_reasons pv @ ara_reasons acc @ collect [(t < ms_snapshot_completed_at s \<or> t < tp_timestamp p,
        risk_reason_of risk_reason_code.EVALUATION_TIMESTAMP_INVALID
          ''evaluation timestamp predates an evaluated input'')]"
  from assms pv acc obtain sz where
    sz: "(case (?rs, pvr_stop_distance pv) of
            ([], Some x) \<Rightarrow> position_size (arm_current_equity (ara_metrics acc))
                 (arm_permitted_risk_percent (ara_metrics acc)) x (ms_symbol_info s)
          | _ \<Rightarrow> Inr \<lparr>pso_result = None, pso_reasons = []\<rparr>) = Inr sz"
    and d: "d = \<lparr>rd_cycle_id = ms_cycle_id s, rd_schema_version = ''1.0.0'', rd_timestamp = t,
        rd_snapshot_id = ms_snapshot_id s, rd_proposal_id = tp_proposal_id p,
        rd_account_ref = arc_account_ref c, rd_symbol = ms_symbol s,
        rd_status = (if ara_state acc = risk_state.HALTED then risk_decision_status.HALTED
            else if ?rs @ pso_reasons sz \<noteq> [] then risk_decision_status.REJECTED
            else risk_decision_status.APPROVED),
        rd_risk_state = ara_state acc, rd_reasons = ?rs @ pso_reasons sz,
        rd_account_metrics = ara_metrics acc, rd_position_sizing = pso_result sz\<rparr>"
    and ok: "ok_risk_decision d"
    by (simp only: risk_evaluate_def is_naive_def Let_def result_simps py_datetime.case if_False
        as_utc.simps append_assoc) blast
  have sz': "(if pvr_reasons pv = [] \<and> ara_reasons acc = [] \<and> ms_snapshot_completed_at s \<le> t \<and> tp_timestamp p \<le> t \<and>
         pvr_stop_distance pv \<noteq> None
      then position_size (arm_current_equity (ara_metrics acc))
             (arm_permitted_risk_percent (ara_metrics acc)) (the (pvr_stop_distance pv)) (ms_symbol_info s)
      else Inr \<lparr>pso_result = None, pso_reasons = []\<rparr>) = Inr sz"
    using sz by (auto split: list.splits option.splits if_splits)
  show thesis
    by (rule that [OF pv acc sz']) (use ok in \<open>simp_all add: d\<close>)
qed

lemma accepted_stop_distance:
  assumes "proposal_validate cfg p s = Inr pv" and "pvr_reasons pv = []"
  obtains e l where "tp_entry p = Some e" "tp_stop_loss p = Some l"
    "pvr_stop_distance pv = Some \<bar>rd28 (e - l)\<bar>" "0 < \<bar>rd28 (e - l)\<bar>"
proof -
  from assms(1) obtain g grid where g: "proposal_distances cfg p = Inr g"
    and pv: "pv = g\<lparr>pvr_reasons := proposal_head_reasons p s @ pvr_reasons g @ grid @
          proposal_capability_reasons p s\<rparr>"
    by (rule proposal_validateE)
  from assms(2) pv have e: "proposal_head_reasons p s = []" "pvr_reasons g = []" by simp_all
  from e(1) obtain e l t where p: "tp_entry p = Some e" "tp_stop_loss p = Some l" "tp_take_profit p = Some t"
    and pos: "0 < e" "0 < l" "0 < t" by (auto simp: head_reasons_empty)
  with g have h: "proposal_geometry cfg (tp_side p) e l t = Inr g"
    by (simp add: proposal_distances_def)
  obtain h where h: "h = g" "pvr_reasons h = [] \<longrightarrow> pvr_stop_distance h = Some \<bar>rd28 (e - l)\<bar> \<and>
       pvr_reward_distance h = Some \<bar>rd28 (t - e)\<bar>" "\<forall>d. pvr_stop_distance h = Some d \<longrightarrow> 0 < d"
    using h by (auto intro: proposal_geometry_result [of cfg "tp_side p" e l t])
  with e(2) p pv show thesis by (intro that) auto
qed

text \<open>
  C2: for a valid constitution, snapshot, proposal and account context whose price and
  volume quotients stay within Decimal's integer range, the engine always returns a decision: no
  check, division or consistency validator raises.
\<close>

theorem risk_engine_total:
  assumes cfg: "ok_risk_constitution_settings cfg" and s: "ok_market_snapshot s"
    and p: "fields_trade_proposal p" and c: "ok_account_risk_context c"
    and range: "decimals_in_range p (ms_symbol_info s)"
  shows "\<exists>d. risk_evaluate sha cfg p s c (Aware t) = Inr d"
proof -
  from c have fc: "fields_account_risk_context c" by (simp add: ok_account_risk_context_def)
  obtain pv where pv: "proposal_validate cfg p s = Inr pv"
    using proposal_validate_defined [OF range] by blast
  obtain acc where acc: "account_evaluate sha cfg s c (Aware t) = Inr acc"
    and st: "ara_state acc = assessed_state cfg s c" and m: "ara_metrics acc = assessed_metrics cfg s c"
    by (simp add: account_evaluate_eq [OF cfg fc])
  have rp: "arm_permitted_risk_percent (ara_metrics acc) \<le> 1"
    using permitted_risk_bounds [OF cfg] by (simp add: m assessed_metrics_def Let_def)
  have halted: "ara_reasons acc \<noteq> []" if "ara_state acc = risk_state.HALTED"
    using halted_has_reasons [OF cfg fc acc that] .
  let ?rs = "pvr_reasons pv @ ara_reasons acc @ collect [(t < ms_snapshot_completed_at s \<or> t < tp_timestamp p,
        risk_reason_of risk_reason_code.EVALUATION_TIMESTAMP_INVALID
          ''evaluation timestamp predates an evaluated input'')]"
  let ?size = "case (?rs, pvr_stop_distance pv) of
            ([], Some x) \<Rightarrow> position_size (arm_current_equity (ara_metrics acc))
                 (arm_permitted_risk_percent (ara_metrics acc)) x (ms_symbol_info s)
          | _ \<Rightarrow> Inr \<lparr>pso_result = None, pso_reasons = []\<rparr>"
  obtain sz where sz: "?size = Inr sz"
    and consistent: "?rs @ pso_reasons sz = [] \<Longrightarrow>
        \<exists>z. pso_result sz = Some z \<and> psr_status z = position_sizing_status.APPROVED"
      "?rs @ pso_reasons sz \<noteq> [] \<Longrightarrow> \<forall>z. pso_result sz = Some z \<longrightarrow>
         psr_status z \<noteq> position_sizing_status.APPROVED"
  proof (cases "?rs = []")
    case False
    then obtain r rs where "?rs = r # rs" by (meson list.exhaust)
    then have "?size = Inr \<lparr>pso_result = None, pso_reasons = []\<rparr>" by (simp only: list.case prod.case)
    with False show thesis by (intro that) auto
  next
    case True
    then obtain e l where d: "pvr_stop_distance pv = Some \<bar>rd28 (e - l)\<bar>"
      using accepted_stop_distance [OF pv] by (auto split: if_splits)
    obtain out where out: "position_size (arm_current_equity (ara_metrics acc))
                 (arm_permitted_risk_percent (ara_metrics acc)) \<bar>rd28 (e - l)\<bar> (ms_symbol_info s) = Inr out"
      using position_size_defined [OF rp] range unfolding decimals_in_range_def by blast
    from True have size: "?size = Inr out" by (simp only: d out list.case option.case prod.case)
    show thesis
      by (rule position_size_cases [OF rp out]; rule that [OF size]) (use True in \<open>auto split: if_splits\<close>)
  qed
  have ref: "arm_account_ref (ara_metrics acc) = arc_account_ref c"
    by (simp add: m assessed_metrics_def Let_def)
  let ?d = "\<lparr>rd_cycle_id = ms_cycle_id s, rd_schema_version = ''1.0.0'', rd_timestamp = t,
        rd_snapshot_id = ms_snapshot_id s, rd_proposal_id = tp_proposal_id p,
        rd_account_ref = arc_account_ref c, rd_symbol = ms_symbol s,
        rd_status = (if ara_state acc = risk_state.HALTED then risk_decision_status.HALTED
            else if ?rs @ pso_reasons sz \<noteq> [] then risk_decision_status.REJECTED
            else risk_decision_status.APPROVED),
        rd_risk_state = ara_state acc, rd_reasons = ?rs @ pso_reasons sz,
        rd_account_metrics = ara_metrics acc, rd_position_sizing = pso_result sz\<rparr>"
  have version: "is_schema_version ''1.0.0''" by code_simp
  have "fields_risk_decision ?d"
    using s p fc version by (simp add: fields_risk_decision_def ok_market_snapshot_def
        fields_market_snapshot_def fields_trade_proposal_def fields_account_risk_context_def)
  moreover have "validate_risk_decision ?d"
    using consistent halted
    by (cases "?rs @ pso_reasons sz = []"; cases "ara_state acc = risk_state.HALTED")
      (auto simp: validate_risk_decision_def ref split: option.split)
  ultimately have "ok_risk_decision ?d" by (simp add: ok_risk_decision_def)
  then have "risk_evaluate sha cfg p s c (Aware t) = Inr ?d"
    by (simp only: risk_evaluate_def is_naive_def Let_def pv acc sz bind_result.simps
        py_datetime.case if_False as_utc.simps append_assoc build_ok)
  then show ?thesis by blast
qed

lemma risk_engine_total_witness:
  "\<exists>d. risk_evaluate sample_sha default_risk_constitution sample_proposal sample_snapshot sample_context
     (Aware 0) = Inr d"
  by (rule risk_engine_total [OF default_risk_constitution_ok sample_snapshot_ok sample_proposal_ok sample_context_ok])
    (simp add: decimals_in_range_def sample_proposal_def sample_snapshot_def sample_symbol_info_def)

text \<open>What holds of an approval, in the terms of its inputs.\<close>

definition approval_sound ::
  "sha \<Rightarrow> risk_constitution_settings \<Rightarrow> trade_proposal \<Rightarrow> market_snapshot \<Rightarrow> account_risk_context \<Rightarrow>
     instant \<Rightarrow> risk_decision \<Rightarrow> bool" where
  "approval_sound sha cfg p s c t d \<longleftrightarrow>
     acceptable_proposal cfg p s \<and>
     arc_account_ref c = account_fingerprint sha (mai_account_id (ms_account s)) (mai_server (ms_account s)) \<and>
     arc_cycle_id c = ms_cycle_id s \<and> arc_snapshot_id c = ms_snapshot_id s \<and>
     ms_snapshot_completed_at s \<le> arc_context_as_of c \<and> arc_context_as_of c \<le> t \<and>
     tp_timestamp p \<le> t \<and>
     int (length (ms_open_positions s)) \<le> arc_account_open_position_count c \<and>
     arc_account_open_position_count c < rcs_maximum_open_positions cfg \<and>
     0 < mai_equity (ms_account s) \<and>
     arm_drawdown_percent (rd_account_metrics d) < rcs_drawdown_stop_percent cfg \<and>
     arm_daily_loss_percent (rd_account_metrics d) < rcs_maximum_daily_loss_percent cfg \<and>
     arm_permitted_risk_percent (rd_account_metrics d) \<le> rcs_maximum_risk_percent cfg"

lemma context_reasons_empty:
  "account_context_reasons sha cfg s c t = [] \<longleftrightarrow>
     arc_cycle_id c = ms_cycle_id s \<and> arc_snapshot_id c = ms_snapshot_id s \<and>
     arc_account_ref c = account_fingerprint sha (mai_account_id (ms_account s)) (mai_server (ms_account s)) \<and>
     arc_context_as_of c \<le> t \<and> ms_snapshot_completed_at s \<le> arc_context_as_of c \<and>
     arc_trading_day_started_at c \<le> arc_context_as_of c \<and>
     int (length (ms_open_positions s)) \<le> arc_account_open_position_count c \<and>
     arc_account_open_position_count c < rcs_maximum_open_positions cfg"
  unfolding account_context_reasons_def collect_empty_iff by auto

lemma limit_reasons_empty:
  "account_limit_reasons cfg e dd daily = [] \<longleftrightarrow>
     0 < e \<and> daily < rcs_maximum_daily_loss_percent cfg \<and> dd < rcs_drawdown_stop_percent cfg"
  unfolding account_limit_reasons_def collect_empty_iff by auto

text \<open>What an approval rests on.\<close>

lemma approved_decision_sound:
  assumes cfg: "ok_risk_constitution_settings cfg" and c: "ok_account_risk_context c"
    and d: "risk_evaluate sha cfg p s c (Aware t) = Inr d"
    and approved: "rd_status d = risk_decision_status.APPROVED"
  shows "approval_sound sha cfg p s c t d \<and>
    (\<exists>z v est. rd_position_sizing d = Some z \<and> psr_selected_volume z = Some v \<and>
       psr_estimated_risk_amount z = Some est \<and>
       msi_volume_min (ms_symbol_info s) \<le> v \<and> v \<le> msi_volume_max (ms_symbol_info s) \<and>
       on_grid (msi_volume_step (ms_symbol_info s)) (rd28 (v - msi_volume_min (ms_symbol_info s))) \<and>
       est = rd28 (psr_monetary_loss_per_lot z * v) \<and>
       est \<le> rd28 (rd28 (mai_equity (ms_account s) *
                arm_permitted_risk_percent (rd_account_metrics d)) / 100))"
proof -
  from c have fc: "fields_account_risk_context c" by (simp add: ok_account_risk_context_def)
  from d obtain pv acc sz where pv: "proposal_validate cfg p s = Inr pv"
    and acc: "account_evaluate sha cfg s c (Aware t) = Inr acc"
    and sz: "(if pvr_reasons pv = [] \<and> ara_reasons acc = [] \<and> ms_snapshot_completed_at s \<le> t \<and>
         tp_timestamp p \<le> t \<and> pvr_stop_distance pv \<noteq> None
      then position_size (arm_current_equity (ara_metrics acc))
             (arm_permitted_risk_percent (ara_metrics acc)) (the (pvr_stop_distance pv)) (ms_symbol_info s)
      else Inr \<lparr>pso_result = None, pso_reasons = []\<rparr>) = Inr sz"
    and rs: "rd_reasons d = pvr_reasons pv @ ara_reasons acc @
       (if t < ms_snapshot_completed_at s \<or> t < tp_timestamp p
        then [risk_reason_of risk_reason_code.EVALUATION_TIMESTAMP_INVALID
                ''evaluation timestamp predates an evaluated input''] else []) @ pso_reasons sz"
    and status: "rd_status d = (if ara_state acc = risk_state.HALTED then risk_decision_status.HALTED
       else if rd_reasons d \<noteq> [] then risk_decision_status.REJECTED else risk_decision_status.APPROVED)"
    and m: "rd_account_metrics d = ara_metrics acc" and z: "rd_position_sizing d = pso_result sz"
    by (rule risk_evaluateE)
  from approved status rs have empty: "pvr_reasons pv = []" "ara_reasons acc = []" "pso_reasons sz = []"
    and time: "ms_snapshot_completed_at s \<le> t" "tp_timestamp p \<le> t"
    by (auto simp: not_less split: if_splits)
  have acc': "ara_metrics acc = assessed_metrics cfg s c"
    and ctx: "account_context_reasons sha cfg s c t = []"
    and lim: "account_limit_reasons cfg (mai_equity (ms_account s))
          (drawdown_of (arc_cash_flow_adjusted_peak_equity c) (mai_equity (ms_account s)))
          (daily_loss_of (arc_adjusted_day_start_equity c) (mai_equity (ms_account s))) = []"
    using acc empty(2) unfolding account_evaluate_eq [OF cfg fc] by auto
  have "acceptable_proposal cfg p s"
    using empty(1) accepted_proposal_iff [OF pv] by (simp add: pvr_valid_def)
  moreover have pr: "arm_permitted_risk_percent (ara_metrics acc) \<le> rcs_maximum_risk_percent cfg"
    "arm_permitted_risk_percent (ara_metrics acc) \<le> 1"
    using permitted_risk_bounds [OF cfg] by (simp_all add: acc' assessed_metrics_def Let_def)
  ultimately have "approval_sound sha cfg p s c t d"
    using ctx lim time
    by (simp add: approval_sound_def context_reasons_empty limit_reasons_empty m acc' assessed_metrics_def Let_def)
  moreover
  obtain x where dist: "pvr_stop_distance pv = Some x"
    using accepted_stop_distance [OF pv empty(1)] by blast
  with sz empty time have "position_size (arm_current_equity (ara_metrics acc))
      (arm_permitted_risk_percent (ara_metrics acc)) x (ms_symbol_info s) = Inr sz"
    by simp
  moreover have "arm_current_equity (ara_metrics acc) = mai_equity (ms_account s)"
    by (simp add: acc' assessed_metrics_def Let_def)
  ultimately show ?thesis
    using approved_sizing_facts [OF pr(2) _ empty(3)] unfolding z m by metis
qed

text \<open>
  C1: an APPROVED decision is given only when the proposal is acceptable, the account
  context is the snapshot's and current, the position count, drawdown and daily loss are strictly
  below their limits, and the sized volume respects the broker's bounds and grid with an estimated
  risk of at most the permitted percentage of the equity, itself at most the constitution's maximum.
\<close>

theorem risk_approval_safe:
  assumes cfg: "ok_risk_constitution_settings cfg" and c: "ok_account_risk_context c"
    and d: "risk_evaluate sha cfg p s c (Aware t) = Inr d"
    and approved: "rd_status d = risk_decision_status.APPROVED"
  shows "approval_sound sha cfg p s c t d \<and>
    (\<exists>z v est. rd_position_sizing d = Some z \<and> psr_selected_volume z = Some v \<and>
       psr_estimated_risk_amount z = Some est \<and>
       msi_volume_min (ms_symbol_info s) \<le> v \<and> v \<le> msi_volume_max (ms_symbol_info s) \<and>
       on_grid (msi_volume_step (ms_symbol_info s)) (rd28 (v - msi_volume_min (ms_symbol_info s))) \<and>
       est = rd28 (psr_monetary_loss_per_lot z * v) \<and>
       est \<le> rd28 (rd28 (mai_equity (ms_account s) *
                arm_permitted_risk_percent (rd_account_metrics d)) / 100))"
  by (rule approved_decision_sound [OF assms])

lemma risk_approval_safe_witness:
  "approval_sound sample_sha default_risk_constitution sample_proposal sample_snapshot sample_context
     (t0 + seconds 3) sample_decision"
  using risk_approval_safe [OF default_risk_constitution_ok sample_context_ok sample_evaluated]
  by (simp add: sample_decision_def)

end
