(* ===== verification/ShadowProperties.thy ===== *)
theory ShadowProperties
  imports ShadowCycleTheorems ShadowSamples RiskTheorems
begin

text \<open>
  The properties of the decision cycle with its Risk Engine and its repository.
\<close>

lemma engine_assessed:
  "so_risk orch = engine_stage sha cfg \<Longrightarrow> assessed orch s ctx p d \<Longrightarrow> \<exists>t. risk_evaluate sha cfg p s ctx (Aware t) = Inr d"
  by (auto simp: assessed_def engine_stage_def lift_op_def)

text \<open>
  C33: when a cycle whose Risk stage is the Risk Engine returns a record with a trade intent, the
  intent is a valid one for the snapshot of the cycle; its risk decision is the engine's approval of
  exactly the proposal the cycle records, made on that snapshot and account context, so that every
  guard of the engine holds and the estimated risk is within the permitted share of the equity; and
  at least two first-stage analyses, the entry analysis, the Skeptic and the Chief answered in the
  cycle, every recorded failure being one the policy lets the cycle continue with.
\<close>

theorem shadow_intent_risk_checked:
  assumes "so_risk orch = engine_stage sha cfg" and "ok_risk_constitution_settings cfg" and "ok_account_risk_context ctx"
    and "run_shadow_cycle orch s ctx view u = (Inr r, v)" and "sdr_shadow_trade_intent r = Some i"
  shows "ok_shadow_trade_intent i \<and> sti_cycle_id i = ms_cycle_id s \<and> sti_snapshot_id i = ms_snapshot_id s \<and>
    dcyc_trade_proposal (sdr_decision_cycle r) = Some (sti_proposal i) \<and>
    (\<exists>t. risk_evaluate sha cfg (sti_proposal i) s ctx (Aware t) = Inr (sti_risk_decision i) \<and>
       approval_sound sha cfg (sti_proposal i) s ctx t (sti_risk_decision i)) \<and>
    (\<exists>z est. rd_position_sizing (sti_risk_decision i) = Some z \<and> psr_selected_volume z = Some (sti_selected_volume i) \<and>
       psr_estimated_risk_amount z = Some est \<and>
       est \<le> rd28 (rd28 (mai_equity (ms_account s) *
                arm_permitted_risk_percent (rd_account_metrics (sti_risk_decision i))) / 100)) \<and>
    analysed (dcyc_agent_outputs (sdr_decision_cycle r)) (dcyc_agent_failures (sdr_decision_cycle r))"
proof -
  note sound = returned_record [OF assms(4), unfolded sound_record_def Let_def]
  from sound assms(5) have i: "ok_shadow_trade_intent i" "rd_status (sti_risk_decision i) = risk_decision_status.APPROVED"
    "dcyc_trade_proposal (sdr_decision_cycle r) = Some (sti_proposal i)"
    "assessed orch s ctx (sti_proposal i) (sti_risk_decision i)"
    "analysed (dcyc_agent_outputs (sdr_decision_cycle r)) (dcyc_agent_failures (sdr_decision_cycle r))"
    "ok_shadow_decision_record r" "dcyc_cycle_id (sdr_decision_cycle r) = ms_cycle_id s"
    "dcyc_initial_snapshot_id (sdr_decision_cycle r) = ms_snapshot_id s" by simp_all
  obtain t where t: "risk_evaluate sha cfg (sti_proposal i) s ctx (Aware t) = Inr (sti_risk_decision i)"
    using engine_assessed [OF assms(1) i(4)] by blast
  note approved = approved_decision_sound [OF assms(2,3) t i(2)]
  have ids: "sti_cycle_id i = ms_cycle_id s" "sti_snapshot_id i = ms_snapshot_id s"
    using i(6-8) assms(5) by (simp_all add: ok_shadow_decision_record_def validate_shadow_decision_record_def Let_def)
  have volume: "rd_position_sizing (sti_risk_decision i) = Some z \<Longrightarrow> psr_selected_volume z = Some (sti_selected_volume i)" for z
    using i(1) by (simp add: ok_shadow_trade_intent_def validate_shadow_trade_intent_def Let_def)
  from approved obtain z est where "rd_position_sizing (sti_risk_decision i) = Some z" "psr_estimated_risk_amount z = Some est"
    "est \<le> rd28 (rd28 (mai_equity (ms_account s) *
       arm_permitted_risk_percent (rd_account_metrics (sti_risk_decision i))) / 100)" by blast
  with volume i ids t approved show ?thesis by blast
qed

lemma shadow_intent_risk_checked_witness:
  "fst (run_shadow_cycle sample_orchestrator sample_snapshot sample_context (Some sample_view) ()) = Inr sample_record \<and>
   sdr_shadow_trade_intent sample_record = Some sample_intent \<and>
   analysed (dcyc_agent_outputs (sdr_decision_cycle sample_record)) (dcyc_agent_failures (sdr_decision_cycle sample_record))"
proof -
  have "sdr_shadow_trade_intent sample_record = Some sample_intent" by (simp add: sample_record_def)
  with shadow_intent_risk_checked [OF _ default_risk_constitution_ok sample_context_ok sample_run this] sample_run
  show ?thesis by simp
qed

text \<open>
  C34: whatever the collaborators do, a run over either repository, SQLite with faults included, either
  returns a record, and then the identity of the snapshot's cycle was unknown before and is finalised
  with exactly this record after, or raises, and then the repository is as before, or has the
  formerly unknown cycle claimed and nothing else changed.
\<close>

theorem cycle_runs_once:
  "(case run_shadow_cycle (memory_backed orch) s ctx view (repo, w) of (result, (repo', w')) \<Rightarrow>
      run_once s (am_entry repo) (am_entry repo') result) \<and>
   (case run_shadow_cycle (sqlite_backed fault orch) s ctx view (tables, w) of (result, (tables', w')) \<Rightarrow>
      run_once s (at_entry tables) (at_entry tables') result)"
  using memory_cycle.runs_once [of orch s ctx view "(repo, w)"] sqlite_cycle.runs_once [of fault orch s ctx view "(tables, w)"]
  by (auto split: prod.split)

end
