(* ===== verification/Spec2Isabelle.thy ===== *)
theory Spec2Isabelle
  imports ExecutionProperties MarketServiceTheorems ObservationSamples QualificationStoreTheorems ReplayStore ReplayTheorems RuntimeProperties ShadowProperties
begin

text \<open>
  A verification library for the trading team of \<open>src/src/ai_trading_team\<close>: a program that watches one
  broker symbol, lets a team of AI roles propose trades on it, has every proposal decided by a
  deterministic Risk Engine, records what would have been done (shadow decisions), qualifies that record,
  and may send a qualified, humanly approved decision to a DEMO account as one protected order.

  \<^bold>\<open>How the parts work together.\<close> The market service reads the terminal and composes a snapshot; the
  feature engine computes indicators over its completed candles. The observation runtime polls for a
  completed decision candle, claims it durably, and calls the shadow cycle; the cycle claims its own
  identity in the audit repository, invokes the roles stage by stage through the runtime invoker and
  router (each provider attempt paid from the budget ledger), asks the Risk Engine, and finalises one
  record. Replay and evaluation rebuild past decisions and follow their outcomes; qualification turns the
  records into sealed evidence and a graduation verdict; the execution service turns a qualified decision
  with a human approval into at most one submission and reconciles it with the broker.

  \<^bold>\<open>Conventions\<close> (theories \<open>Prelude\<close>, \<open>PyDecimal\<close>, \<open>SchemaCommon\<close>, \<open>Enums\<close>, \<open>Effects\<close>, \<open>SqlFile\<close>). A
  pydantic class is a record with a predicate for its field constraints and one for its validators; an
  enum is a datatype with the wire values of its members; a Decimal is a rational with the context's
  rounding written out; a \<open>datetime\<close> is a number of microseconds; a dict is an association list in
  insertion order; code that may raise gives a sum, and code with a state an operation
  (\<open>('s, 'a) op\<close>) that keeps the state also when it raises. The exception \<open>ProcessExit\<close> stands for the
  end of the process in the middle of a call. A SQLite store is its tables, its uncommitted writes and
  the schedule of the failures its driver will have, so a theorem over all schedules is one over all
  failures; opening the file again loads the committed tables.

  \<^bold>\<open>Theories and code.\<close>
  \<^item> Contracts: \<open>MarketSchemas\<close>, \<open>RiskSchemas\<close>, \<open>RuntimeSchemas\<close>, \<open>FeatureSchemas\<close>, \<open>AgentSchemas\<close>,
    \<open>OrchestrationSchemas\<close>, \<open>ShadowSchemas\<close>, \<open>EvaluationSchemas\<close>, \<open>ObservationSchemas\<close>,
    \<open>QualificationSchemas\<close>, \<open>ExecutionSchemas\<close> (the files of \<open>schemas/\<close>), and \<open>Serialization\<close>
    (canonical text, digests, identifiers).
  \<^item> \<open>RiskEngine\<close> (\<open>risk/\<close>) with \<open>RiskTheorems\<close>: safety of an approval, totality, monotonicity of the
    account assessment, exact acceptance of proposals, the bound on sized risk.
  \<^item> \<open>BudgetLedger\<close> (\<open>runtime/budget.py\<close>, \<open>storage/ai_budget.py\<close>) with \<open>BudgetTheorems\<close>: the limits hold
    after any run of calls, each call adds or moves exactly one reservation, and the SQLite ledger gives
    the same answers as the one in memory (locale \<open>budget_ledger\<close>, interpreted on both).
  \<^item> \<open>Router\<close>, \<open>RuntimeInvoker\<close>, \<open>Providers\<close> (\<open>runtime/\<close>, \<open>orchestration/runtime.py\<close>,
    \<open>prompts/registry.py\<close>) with \<open>RouterTheorems\<close>, \<open>RuntimeProperties\<close>: what an invocation does to the
    ledger and the provider, what may be dispatched, which prompts are loaded.
  \<^item> \<open>MarketService\<close> (\<open>market/\<close>), \<open>Indicators\<close>, \<open>FeatureEngine\<close> (\<open>features/\<close>) with their theorems: errors
    and validity of a snapshot, causality and range of indicators, availability, swings.
  \<^item> \<open>Orchestration\<close>, \<open>ShadowCycle\<close>, \<open>ShadowAudit\<close> (\<open>orchestration/\<close>, \<open>agents/access.py\<close>,
    \<open>storage/shadow_audit.py\<close>) with \<open>ShadowCycleTheorems\<close>, \<open>ShadowAuditTheorems\<close>, \<open>ShadowProperties\<close>: a
    cycle runs once, and an intent carries the Risk Engine's approval of exactly its proposal.
  \<^item> \<open>ObservationStore\<close>, \<open>ObservationFile\<close>, \<open>ContinuousRuntime\<close>, \<open>ObservationRuntime\<close>
    (\<open>storage/observation.py\<close>, \<open>observation/\<close>) with \<open>ObservationTheorems\<close>, \<open>ObservationRuntimeTheorems\<close>
    and the run of \<open>ObservationSamples\<close>: what the file keeps, no decision is dispatched twice over any
    restarts, a poll that returns leaves no claim of its own open (locale \<open>claim_repository\<close>).
  \<^item> \<open>Replay\<close>, \<open>ReplayStore\<close>, \<open>Outcomes\<close> (\<open>replay/\<close>, \<open>storage/replay.py\<close>, \<open>evaluation/\<close>) with
    \<open>ReplayTheorems\<close>: no look-ahead, first touch, immutability of records, summaries.
  \<^item> \<open>Qualification\<close>, \<open>Graduation\<close>, \<open>QualificationStore\<close>, \<open>QualificationService\<close> (\<open>qualification/\<close>,
    \<open>storage/qualification.py\<close>) with \<open>GraduationTheorems\<close>, \<open>QualificationTheorems\<close>,
    \<open>QualificationStoreTheorems\<close>: sealed evidence is frozen, graduation and current eligibility are
    exactly their criteria, the revisions of a dataset form one history, a finalization is atomic unless
    it is repeated.
  \<^item> \<open>ExecutionStore\<close>, \<open>ExecutionGuards\<close>, \<open>Reconciliation\<close>, \<open>ExecutionService\<close> (\<open>execution/\<close>,
    \<open>storage/execution.py\<close>) with \<open>ExecutionStoreTheorems\<close>, \<open>ExecutionTheorems\<close>, \<open>ExecutionCalls\<close>,
    \<open>ExecutionRuns\<close>, \<open>ServiceInvariants\<close>, \<open>ExecutionRestart\<close>, \<open>GuardTheorems\<close>, \<open>ExecutionProperties\<close>: at
    most one submission per decision over any calls, failures and restarts, the conditions of a
    submission, settlement, exactness of the final guard and of reconciliation, refinement of the store
    in memory (locales \<open>execution_service\<close>, \<open>service_invariant\<close>).
  \<^item> \<open>Samples\<close>, \<open>ExecutionSamples\<close>, \<open>ShadowSamples\<close>, \<open>ObservationSamples\<close>: the concrete inputs of the
    witnesses.

  \<^bold>\<open>Parameters.\<close> SHA-256 (\<open>sha\<close>), clocks, the terminal and its adapters, provider SDKs, the file
  system, TOML, the JSON schemas pydantic derives, and the SQLite driver's failures are arguments of the
  definitions that use them, arbitrary unless a theorem names what it asks of them. No definition runs on
  fuel: every modelled loop is over a finite collection or a bounded count.

  \<^bold>\<open>Limits.\<close> Strings are lists of ASCII characters where the code looks inside them; the exponent range
  of a Decimal is unbounded; concurrent tasks and threads appear as the order in which their calls reach a
  store (the locks make each call atomic); logging is left out.

  \<^bold>\<open>Not modelled.\<close> The MT5 client and the DEMO adapter (\<open>mt5/\<close>, \<open>execution/mt5_demo/\<close>) and the vendor SDK
  adapters (\<open>runtime/providers/*/adapter.py\<close>), which map objects of packages that are not here; the
  operator's acceptance harness (\<open>execution/real_demo_acceptance.py\<close>, \<open>execution/vendor_boundary.py\<close> and
  their schemas and storage); \<open>observation/eligibility.py\<close>, which the runtime takes as a parameter; the
  reading of settings from the environment and the startup policy; the static role descriptors; logging
  and the entry points.
\<close>

end
